(* ===== verification/Prelude.thy ===== *)
theory Prelude
  imports Complex_Main "HOL-Library.AList"
begin

text \<open>
  The prelude of the development: how the values of the TypeScript sources are read, the
  insertion-ordered \<^verbatim>\<open>Map\<close> of JavaScript, the checked array accesses, and the four
  interfaces (locales) that the components share:

  \<^item> \<open>keyed_store\<close>: what a client of a JavaScript \<^verbatim>\<open>Map\<close> relies on;
  \<^item> \<open>sliding_window\<close>: what a client of a bounded buffer relies on;
  \<^item> \<open>step_invariant\<close>: a deterministic machine that keeps an invariant, lifted to runs;
  \<^item> \<open>ratchet\<close>: such a machine with a level that no step lowers.

  Conventions. A \<^verbatim>\<open>number\<close> that carries a price, a quantity or a ratio is the real number it
  denotes (rounding of binary64 arithmetic is not modelled, and such a number is finite); a
  \<^verbatim>\<open>number\<close> that counts, indexes, or holds milliseconds since the epoch is an \<open>int\<close>, exact
  below \<open>2 ^ 53\<close>. \<^verbatim>\<open>undefined\<close> and \<^verbatim>\<open>null\<close> are \<open>None\<close>. A thrown error is the left
  summand of a sum.
\<close>

type_synonym number = real
type_synonym time_ms = int

named_theorems window_simps and store_simps and guard_simps

section \<open>Arithmetic of the language\<close>

text \<open>The remainder operator takes the sign of the dividend.\<close>

definition js_rem :: "int \<Rightarrow> int \<Rightarrow> int" where
  "js_rem a b = sgn a * (\<bar>a\<bar> mod \<bar>b\<bar>)"

lemma js_rem_nonneg [simp]: "0 \<le> a \<Longrightarrow> 0 < b \<Longrightarrow> js_rem a b = a mod b"
  by (cases "a = 0") (auto simp: js_rem_def)

text \<open>A value of type \<^verbatim>\<open>unknown\<close>; a number of unknown origin need not be finite.\<close>

datatype js_number = Finite number | NaN | PlusInfinity | MinusInfinity

datatype js_value = JNumber js_number | JString string | JBool bool | JNull | JOther

text \<open>Truthiness of an optional number: \<^verbatim>\<open>undefined\<close> and \<open>0\<close> are falsy.\<close>

definition truthy :: "number option \<Rightarrow> bool" where
  "truthy v = (case v of None \<Rightarrow> False | Some x \<Rightarrow> x \<noteq> 0)"

text \<open>The operator \<^verbatim>\<open>??\<close>.\<close>

definition nullish :: "'a option \<Rightarrow> 'a \<Rightarrow> 'a" where
  "nullish v d = (case v of None \<Rightarrow> d | Some x \<Rightarrow> x)"

lemma truthy_simps [simp]:
  "truthy None = False" "truthy (Some x) = (x \<noteq> 0)"
  by (simp_all add: truthy_def)

lemma nullish_simps [simp]:
  "nullish None d = d" "nullish (Some x) d = x"
  by (simp_all add: nullish_def)

section \<open>Arrays\<close>

text \<open>
  An array is a list of slots; reading outside it, or a slot never written, gives
  \<^verbatim>\<open>undefined\<close>. Writing at or past the end extends the array; a negative index makes a
  property that is no element.
\<close>

definition js_get :: "'a option list \<Rightarrow> int \<Rightarrow> 'a option" where
  "js_get xs i = (if 0 \<le> i \<and> i < int (length xs) then xs ! nat i else None)"

definition js_put :: "'a option list \<Rightarrow> int \<Rightarrow> 'a \<Rightarrow> 'a option list" where
  "js_put xs i v =
     (if i < 0 then xs
      else if i < int (length xs) then xs[nat i := Some v]
      else xs @ replicate (nat i - length xs) None @ [Some v])"

lemma length_js_put [simp]: "0 \<le> i \<Longrightarrow> i < int (length xs) \<Longrightarrow> length (js_put xs i v) = length xs"
  by (simp add: js_put_def)

lemma js_get_js_put:
  "0 \<le> i \<Longrightarrow> i < int (length xs) \<Longrightarrow> 0 \<le> j \<Longrightarrow> j < int (length xs) \<Longrightarrow>
   js_get (js_put xs i v) j = (if j = i then Some v else js_get xs j)"
  by (auto simp: js_get_def js_put_def nth_list_update)

text \<open>The last \<open>n\<close> elements of a list.\<close>

definition take_last :: "nat \<Rightarrow> 'a list \<Rightarrow> 'a list" where
  "take_last n xs = drop (length xs - n) xs"

lemma length_take_last [simp]: "length (take_last n xs) = min n (length xs)"
  by (simp add: take_last_def)

lemma take_last_all: "length xs \<le> n \<Longrightarrow> take_last n xs = xs"
  by (simp add: take_last_def)

lemma take_last_Nil [simp]: "take_last n [] = []"
  by (simp add: take_last_def)

lemma take_last_append: "take_last n (take_last n xs @ ys) = take_last n (xs @ ys)"
proof (cases "length xs \<le> n")
  case True
  then show ?thesis by (simp add: take_last_all)
next
  case False
  then show ?thesis
    by (cases "n \<le> length ys") (simp_all add: take_last_def add.commute)
qed

lemma set_take_last: "set (take_last n xs) \<subseteq> set xs"
  by (simp add: take_last_def set_drop_subset)

lemma map_take_last: "map f (take_last n xs) = take_last n (map f xs)"
  by (simp add: take_last_def drop_map)

lemma last_take_last: "xs \<noteq> [] \<Longrightarrow> 0 < n \<Longrightarrow> last (take_last n xs) = last xs"
  by (simp add: take_last_def)

text \<open>A function of every element of a list and each element at or after it.\<close>

definition later_pairs :: "('a \<Rightarrow> 'a \<Rightarrow> 'b) \<Rightarrow> 'a list \<Rightarrow> 'b set" where
  "later_pairs f xs = {f (xs ! i) (xs ! j) | i j. i \<le> j \<and> j < length xs}"

lemma later_pairs_snoc: "later_pairs f (xs @ [y]) = later_pairs f xs \<union> (\<lambda>x. f x y) ` set (xs @ [y])"
proof
  show "later_pairs f (xs @ [y]) \<subseteq> later_pairs f xs \<union> (\<lambda>x. f x y) ` set (xs @ [y])"
  proof
    fix z assume "z \<in> later_pairs f (xs @ [y])"
    then obtain i j where ij: "z = f ((xs @ [y]) ! i) ((xs @ [y]) ! j)" "i \<le> j" "j < length (xs @ [y])"
      by (auto simp: later_pairs_def)
    show "z \<in> later_pairs f xs \<union> (\<lambda>x. f x y) ` set (xs @ [y])"
    proof (cases "j = length xs")
      case True
      define x where "x = (xs @ [y]) ! i"
      have "x \<in> set (xs @ [y])" unfolding x_def using ij by (intro nth_mem) simp
      moreover have "z = f x y" using ij(1) True by (simp add: x_def)
      ultimately show ?thesis by blast
    next
      case False
      with ij have "z = f (xs ! i) (xs ! j)" "j < length xs" by (auto simp: nth_append)
      with ij(2) show ?thesis unfolding later_pairs_def by blast
    qed
  qed
next
  have "z \<in> later_pairs f (xs @ [y])" if z: "z \<in> later_pairs f xs" for z
  proof -
    from z obtain i j where "z = f (xs ! i) (xs ! j)" "i \<le> j" "j < length xs"
      by (auto simp: later_pairs_def)
    then have "z = f ((xs @ [y]) ! i) ((xs @ [y]) ! j) \<and> i \<le> j \<and> j < length (xs @ [y])"
      by (simp add: nth_append)
    then show ?thesis unfolding later_pairs_def by blast
  qed
  moreover have "f x y \<in> later_pairs f (xs @ [y])" if x: "x \<in> set (xs @ [y])" for x
  proof -
    obtain i where "i < length (xs @ [y])" "(xs @ [y]) ! i = x" using x by (metis in_set_conv_nth)
    then have "f x y = f ((xs @ [y]) ! i) ((xs @ [y]) ! length xs) \<and> i \<le> length xs \<and> length xs < length (xs @ [y])"
      by simp
    then show ?thesis unfolding later_pairs_def by blast
  qed
  ultimately show "later_pairs f xs \<union> (\<lambda>x. f x y) ` set (xs @ [y]) \<subseteq> later_pairs f (xs @ [y])"
    by (intro Un_least subsetI) (auto simp del: set_append)
qed

lemma finite_later_pairs: "finite (later_pairs f xs)"
  by (induction xs rule: rev_induct) (simp_all add: later_pairs_snoc, simp add: later_pairs_def)

section \<open>The Map of JavaScript\<close>

text \<open>
  A \<^verbatim>\<open>Map\<close> iterates its entries in the order in which their keys were first set: an
  association list with distinct keys, where setting a present key keeps its place.
\<close>

type_synonym ('k, 'v) jsmap = "('k \<times> 'v) list"

definition map_get :: "('k, 'v) jsmap \<Rightarrow> 'k \<Rightarrow> 'v option" where
  "map_get m k = map_of m k"

definition map_set :: "'k \<Rightarrow> 'v \<Rightarrow> ('k, 'v) jsmap \<Rightarrow> ('k, 'v) jsmap" where
  "map_set k v m = AList.update k v m"

definition map_delete :: "'k \<Rightarrow> ('k, 'v) jsmap \<Rightarrow> ('k, 'v) jsmap" where
  "map_delete k m = AList.delete k m"

definition map_wf :: "('k, 'v) jsmap \<Rightarrow> bool" where
  "map_wf m = distinct (map fst m)"

lemma map_get_set [simp, store_simps]:
  "map_get (map_set k v m) k' = (if k' = k then Some v else map_get m k')"
  by (simp add: map_get_def map_set_def update_conv')

lemma map_get_delete [simp, store_simps]:
  "map_get (map_delete k m) k' = (if k' = k then None else map_get m k')"
  by (simp add: map_get_def map_delete_def delete_conv')

lemma map_get_Nil [simp]: "map_get [] k = None"
  by (simp add: map_get_def)

lemma map_get_Cons [simp]: "map_get ((a, b) # m) k = (if k = a then Some b else map_get m k)"
  by (simp add: map_get_def)

lemma map_wf_Nil [simp]: "map_wf []"
  by (simp add: map_wf_def)

lemma map_wf_set [simp]: "map_wf m \<Longrightarrow> map_wf (map_set k v m)"
  by (simp add: map_wf_def map_set_def distinct_update)

lemma map_wf_delete [simp]: "map_wf m \<Longrightarrow> map_wf (map_delete k m)"
  by (simp add: map_wf_def map_delete_def distinct_delete)

lemma map_get_SomeD: "map_get m k = Some v \<Longrightarrow> (k, v) \<in> set m"
  by (simp add: map_get_def map_of_SomeD)

lemma map_get_in: "map_wf m \<Longrightarrow> (k, v) \<in> set m \<Longrightarrow> map_get m k = Some v"
  by (simp add: map_get_def map_wf_def)

lemma map_set_fresh: "map_get m k = None \<Longrightarrow> map_set k v m = m @ [(k, v)]"
  by (induction m) (auto simp: map_get_def map_set_def split: if_splits)

lemma map_set_not_Nil [simp]: "map_set k v m \<noteq> []"
  by (cases m) (auto simp: map_set_def)

lemma set_map_set: "set (map_set k v m) \<subseteq> insert (k, v) (set m)"
  unfolding map_set_def by (induction m) auto

lemma set_map_delete: "set (map_delete k m) \<subseteq> set m"
  unfolding map_delete_def by (induction m) auto

lemma sum_map_set:
  fixes f :: "'k \<Rightarrow> 'v \<Rightarrow> number"
  shows "map_wf m \<Longrightarrow> (\<Sum>(k, v)\<leftarrow>map_set k v m. f k v) =
    (\<Sum>(k, v)\<leftarrow>m. f k v) + f k v - (case map_get m k of None \<Rightarrow> 0 | Some w \<Rightarrow> f k w)"
proof (induction m)
  case (Cons kw m)
  then show ?case
    by (cases kw) (auto simp: map_set_def map_get_def map_wf_def map_of_eq_None_iff split: option.splits
        dest: map_of_SomeD)
qed (simp add: map_set_def)

lemma sum_map_delete:
  fixes f :: "'k \<Rightarrow> 'v \<Rightarrow> number"
  shows "map_wf m \<Longrightarrow> (\<Sum>(k, v)\<leftarrow>map_delete k m. f k v) =
    (\<Sum>(k, v)\<leftarrow>m. f k v) - (case map_get m k of None \<Rightarrow> 0 | Some w \<Rightarrow> f k w)"
proof (induction m)
  case (Cons kw m)
  have "map_delete k m = m" if "k \<notin> fst ` set m"
    using that by (simp add: map_delete_def delete_id)
  with Cons show ?case
    by (cases kw) (auto simp: map_delete_def map_get_def map_wf_def map_of_eq_None_iff split: option.splits)
qed (simp add: map_delete_def)

locale keyed_store =
  fixes empty :: "'m"
    and get :: "'m \<Rightarrow> 'k \<Rightarrow> 'v option"
    and put :: "'k \<Rightarrow> 'v \<Rightarrow> 'm \<Rightarrow> 'm"
    and del :: "'k \<Rightarrow> 'm \<Rightarrow> 'm"
    and ok :: "'m \<Rightarrow> bool"
  assumes get_empty: "get empty k = None"
    and get_put: "get (put k v m) k' = (if k' = k then Some v else get m k')"
    and get_del: "get (del k m) k' = (if k' = k then None else get m k')"
    and ok_empty: "ok empty"
    and ok_put: "ok m \<Longrightarrow> ok (put k v m)"
    and ok_del: "ok m \<Longrightarrow> ok (del k m)"
begin

text \<open>Loading a list of entries, the last entry of a key winning.\<close>

lemma get_fold_put:
  "get (fold (\<lambda>(k, v). put k v) kvs m) k =
     (case map_of (rev kvs) k of Some v \<Rightarrow> Some v | None \<Rightarrow> get m k)"
  by (induction kvs arbitrary: m) (auto simp: get_put map_add_def split: option.splits)

lemma ok_fold_put: "ok m \<Longrightarrow> ok (fold (\<lambda>(k, v). put k v) kvs m)"
  by (induction kvs arbitrary: m) (auto simp: ok_put)

lemma ok_fold_del: "ok m \<Longrightarrow> ok (fold del ks m)"
  by (induction ks arbitrary: m) (auto simp: ok_del)

lemma get_fold_del: "get (fold del ks m) k = (if k \<in> set ks then None else get m k)"
  by (induction ks arbitrary: m) (auto simp: get_del)

end

interpretation jm: keyed_store "[]" map_get map_set map_delete map_wf
  by unfold_locales auto

text \<open>Reloading the entries of a well-formed map gives the map back, order included.\<close>

lemma map_get_map: "map_get (map (\<lambda>(k, v). (k, f k v)) m) k = map_option (f k) (map_get m k)"
  by (induction m) (auto simp: map_get_def)

lemma map_get_filter: "map_wf m \<Longrightarrow> map_get (filter (\<lambda>(k, v). P k v) m) k =
    (case map_get m k of None \<Rightarrow> None | Some v \<Rightarrow> if P k v then Some v else None)"
proof (induction m)
  case (Cons kv m)
  then have "map_get m (fst kv) = None" "map_wf m"
    by (auto simp: map_wf_def map_get_def map_of_eq_None_iff)
  with Cons.IH show ?case
    by (cases kv) (auto split: option.splits)
qed simp

lemma map_get_filter_Some:
  "map_wf m \<Longrightarrow> map_get (filter keep m) k = Some v \<longleftrightarrow> map_get m k = Some v \<and> keep (k, v)"
  using map_get_filter [of m "\<lambda>k v. keep (k, v)" k] by (auto split: option.splits if_splits)

lemma map_reload_append:
  "map_wf (m @ kvs) \<Longrightarrow> fold (\<lambda>(k, v). map_set k v) kvs m = m @ kvs"
proof (induction kvs arbitrary: m)
  case Nil
  then show ?case by simp
next
  case (Cons kv kvs)
  obtain k v where kv: "kv = (k, v)" by (cases kv)
  from Cons.prems kv have "map_get m k = None"
    by (auto simp: map_get_def map_wf_def map_of_eq_None_iff)
  then have "map_set k v m = m @ [(k, v)]" by (rule map_set_fresh)
  with Cons kv show ?case by simp
qed

lemma map_reload: "map_wf m \<Longrightarrow> fold (\<lambda>(k, v). map_set k v) m [] = m"
  using map_reload_append [of "[]" m] by simp

section \<open>Sliding windows\<close>

locale sliding_window =
  fixes push :: "'w \<Rightarrow> 'a \<Rightarrow> 'w"
    and contents :: "'w \<Rightarrow> 'a list"
    and size :: "'w \<Rightarrow> nat"
    and ok :: "'w \<Rightarrow> bool"
  assumes ok_push: "ok w \<Longrightarrow> ok (push w x)"
    and size_push: "ok w \<Longrightarrow> size (push w x) = size w"
    and contents_push: "ok w \<Longrightarrow> contents (push w x) = take_last (size w) (contents w @ [x])"
begin

lemma ok_pushes: "ok w \<Longrightarrow> ok (foldl push w xs)"
  by (induction xs arbitrary: w) (auto simp: ok_push)

lemma size_pushes: "ok w \<Longrightarrow> size (foldl push w xs) = size w"
  by (induction xs arbitrary: w) (auto simp: ok_push size_push)

lemma contents_pushes:
  "ok w \<Longrightarrow> length (contents w) \<le> size w \<Longrightarrow>
   contents (foldl push w xs) = take_last (size w) (contents w @ xs)"
proof (induction xs arbitrary: w)
  case Nil
  then show ?case by (simp add: take_last_all)
next
  case (Cons x xs)
  then show ?case
    by (simp add: ok_push size_push contents_push take_last_append)
qed

lemma contents_bounded:
  assumes "ok w" "xs \<noteq> []" "length (contents w) \<le> size w"
  shows "length (contents (foldl push w xs)) \<le> size w"
  using assms by (simp add: contents_pushes)

end

section \<open>Machines\<close>

locale step_invariant =
  fixes step :: "'s \<Rightarrow> 'e \<Rightarrow> 's"
    and inv :: "'s \<Rightarrow> bool"
    and admissible :: "'e \<Rightarrow> bool"
  assumes step_inv: "inv s \<Longrightarrow> admissible e \<Longrightarrow> inv (step s e)"
begin

lemma run_inv: "inv s \<Longrightarrow> list_all admissible es \<Longrightarrow> inv (foldl step s es)"
  by (induction es arbitrary: s) (auto simp: step_inv)

end

locale ratchet = step_invariant step inv admissible
  for step :: "'s \<Rightarrow> 'e \<Rightarrow> 's" and inv :: "'s \<Rightarrow> bool" and admissible :: "'e \<Rightarrow> bool" +
  fixes level :: "'s \<Rightarrow> 'l::preorder"
  assumes level_step: "inv s \<Longrightarrow> admissible e \<Longrightarrow> level s \<le> level (step s e)"
begin

lemma run_level:
  "inv s \<Longrightarrow> list_all admissible es \<Longrightarrow> level s \<le> level (foldl step s es)"
proof (induction es arbitrary: s)
  case Nil
  then show ?case by simp
next
  case (Cons e es)
  then have "level s \<le> level (step s e)" and "inv (step s e)"
    by (auto intro: level_step step_inv)
  moreover have "level (step s e) \<le> level (foldl step (step s e) es)"
    using Cons calculation by simp
  ultimately show ?case by (auto intro: order_trans)
qed

lemma run_level_mono:
  assumes "inv s" "list_all admissible (es @ fs)"
  shows "level (foldl step s es) \<le> level (foldl step s (es @ fs))"
  using assms run_inv run_level by auto

end

end
