(* ===== verification/RingBuffer.thy ===== *)
theory RingBuffer
  imports Prelude
begin

text \<open>
  \<^verbatim>\<open>order/backtest/ring-buffer.ts\<close> and \<^verbatim>\<open>order/backtest/incremental-sma.ts\<close>: the two
  circular buffers of the backtest loop. The ring buffer refines a list of which the last
  \<open>capacity\<close> elements are kept; the incremental average is the mean of the last \<open>period\<close>
  values.
\<close>

section \<open>RingBuffer\<close>

record 'a RingBuffer =
  rb_capacity :: int
  rb_buf :: "'a option list"
  rb_head :: int
  rb_count :: int

definition RingBuffer_new :: "int \<Rightarrow> string + 'a RingBuffer" where
  "RingBuffer_new capacity =
     (if capacity \<le> 0 then Inl ''RingBuffer capacity must be a positive integer''
      else Inr \<lparr>rb_capacity = capacity, rb_buf = replicate (nat capacity) None,
                rb_head = 0, rb_count = 0\<rparr>)"

definition RingBuffer_length :: "'a RingBuffer \<Rightarrow> int" where
  "RingBuffer_length rb = rb_count rb"

definition RingBuffer_push :: "'a RingBuffer \<Rightarrow> 'a \<Rightarrow> 'a RingBuffer" where
  "RingBuffer_push rb item =
     (let buf = js_put (rb_buf rb) (rb_head rb) item;
          head = js_rem (rb_head rb + 1) (rb_capacity rb);
          count = (if rb_count rb < rb_capacity rb then rb_count rb + 1 else rb_count rb)
      in rb\<lparr>rb_buf := buf, rb_head := head, rb_count := count\<rparr>)"

definition RingBuffer_get :: "'a RingBuffer \<Rightarrow> int \<Rightarrow> 'a option" where
  "RingBuffer_get rb index =
     (if index < 0 \<or> index \<ge> rb_count rb then None
      else let physicalIndex =
                 js_rem (rb_head rb - rb_count rb + index + rb_capacity rb) (rb_capacity rb)
           in js_get (rb_buf rb) physicalIndex)"

definition RingBuffer_last :: "'a RingBuffer \<Rightarrow> 'a option" where
  "RingBuffer_last rb =
     (if rb_count rb = 0 then None
      else js_get (rb_buf rb) (js_rem (rb_head rb - 1 + rb_capacity rb) (rb_capacity rb)))"

definition RingBuffer_toArray :: "'a RingBuffer \<Rightarrow> 'a option list" where
  "RingBuffer_toArray rb =
     (if rb_count rb = 0 then []
      else let start = js_rem (rb_head rb - rb_count rb + rb_capacity rb) (rb_capacity rb)
           in map (\<lambda>i. js_get (rb_buf rb) (js_rem (start + int i) (rb_capacity rb)))
                [0..<nat (rb_count rb)])"

definition RingBuffer_mapToArray :: "('a option \<Rightarrow> 'b) \<Rightarrow> 'a RingBuffer \<Rightarrow> 'b list" where
  "RingBuffer_mapToArray mapper rb =
     (if rb_count rb = 0 then []
      else let start = js_rem (rb_head rb - rb_count rb + rb_capacity rb) (rb_capacity rb)
           in map (\<lambda>i. mapper (js_get (rb_buf rb) (js_rem (start + int i) (rb_capacity rb))))
                [0..<nat (rb_count rb)])"

definition RingBuffer_clear :: "'a RingBuffer \<Rightarrow> 'a RingBuffer" where
  "RingBuffer_clear rb =
     rb\<lparr>rb_head := 0, rb_count := 0, rb_buf := replicate (length (rb_buf rb)) None\<rparr>"

section \<open>The invariant and the abstraction\<close>

definition slot :: "'a RingBuffer \<Rightarrow> int \<Rightarrow> int" where
  "slot rb i = (rb_head rb - rb_count rb + i + rb_capacity rb) mod rb_capacity rb"

definition rb_ok :: "'a RingBuffer \<Rightarrow> bool" where
  "rb_ok rb \<longleftrightarrow>
     0 < rb_capacity rb \<and> length (rb_buf rb) = nat (rb_capacity rb) \<and>
     0 \<le> rb_head rb \<and> rb_head rb < rb_capacity rb \<and>
     0 \<le> rb_count rb \<and> rb_count rb \<le> rb_capacity rb \<and>
     (\<forall>i\<in>{0..<nat (rb_count rb)}. js_get (rb_buf rb) (slot rb (int i)) \<noteq> None)"

definition rb_contents :: "'a RingBuffer \<Rightarrow> 'a list" where
  "rb_contents rb =
     map (\<lambda>i. the (js_get (rb_buf rb) (slot rb (int i)))) [0..<nat (rb_count rb)]"

definition rb_size :: "'a RingBuffer \<Rightarrow> nat" where
  "rb_size rb = nat (rb_capacity rb)"

lemma slot_range:
  "rb_ok rb \<Longrightarrow> 0 \<le> slot rb i \<and> slot rb i < int (length (rb_buf rb))"
  by (simp add: rb_ok_def slot_def)

lemma rb_ok_new: "RingBuffer_new c = Inr rb \<Longrightarrow> rb_ok rb"
  by (auto simp: RingBuffer_new_def rb_ok_def split: if_splits)

lemma rb_contents_new: "RingBuffer_new c = Inr rb \<Longrightarrow> rb_contents rb = []"
  by (auto simp: RingBuffer_new_def rb_contents_def split: if_splits)

lemma length_rb_contents: "rb_ok rb \<Longrightarrow> length (rb_contents rb) \<le> rb_size rb"
  by (auto simp: rb_ok_def rb_contents_def rb_size_def)

lemma start_slot:
  assumes "rb_ok rb"
  shows "js_rem (js_rem (rb_head rb - rb_count rb + rb_capacity rb) (rb_capacity rb) + int i)
           (rb_capacity rb) = slot rb (int i)"
  using assms by (simp add: rb_ok_def slot_def mod_add_left_eq)

lemma live_slot:
  assumes "rb_ok rb" "i < nat (rb_count rb)"
  shows "js_get (rb_buf rb) (slot rb (int i)) = Some (rb_contents rb ! i)"
  using assms by (auto simp: rb_ok_def rb_contents_def)

lemma live_some:
  "rb_ok rb \<Longrightarrow> i < nat (rb_count rb) \<Longrightarrow>
   Some (the (js_get (rb_buf rb) (slot rb (int i)))) = js_get (rb_buf rb) (slot rb (int i))"
  by (simp add: live_slot)

lemma mapToArray_contents:
  "rb_ok rb \<Longrightarrow> RingBuffer_mapToArray f rb = map (\<lambda>x. f (Some x)) (rb_contents rb)"
  by (simp add: RingBuffer_mapToArray_def rb_contents_def start_slot Let_def live_some)

lemma toArray_contents: "rb_ok rb \<Longrightarrow> RingBuffer_toArray rb = map Some (rb_contents rb)"
  by (simp add: RingBuffer_toArray_def rb_contents_def start_slot Let_def live_some)

lemma length_contents: "rb_ok rb \<Longrightarrow> RingBuffer_length rb = int (length (rb_contents rb))"
  by (simp add: RingBuffer_length_def rb_contents_def rb_ok_def)

lemma get_contents:
  assumes "rb_ok rb"
  shows "RingBuffer_get rb i =
    (if 0 \<le> i \<and> i < int (length (rb_contents rb)) then Some (rb_contents rb ! nat i) else None)"
proof (cases "0 \<le> i \<and> i < rb_count rb")
  case True
  with assms live_slot [OF assms, of "nat i"] show ?thesis
    by (simp add: RingBuffer_get_def rb_contents_def slot_def rb_ok_def)
next
  case False
  with assms show ?thesis
    by (auto simp: RingBuffer_get_def rb_contents_def rb_ok_def)
qed

lemma slot_push_room:
  assumes "rb_ok rb" "rb_count rb < rb_capacity rb"
  shows "slot (RingBuffer_push rb x) i = slot rb i"
proof -
  let ?h = "rb_head rb" and ?c = "rb_count rb" and ?n = "rb_capacity rb"
  have "((?h + 1) mod ?n - (?c + 1) + i + ?n) mod ?n = ((?h + 1) - (?c + 1) + i + ?n) mod ?n"
    by (metis (no_types, opaque_lifting) add.assoc diff_conv_add_uminus mod_add_left_eq)
  with assms show ?thesis
    by (simp add: slot_def RingBuffer_push_def rb_ok_def Let_def)
qed

lemma slot_push_full:
  assumes "rb_ok rb" "\<not> rb_count rb < rb_capacity rb"
  shows "slot (RingBuffer_push rb x) i = slot rb (i + 1)"
proof -
  let ?h = "rb_head rb" and ?c = "rb_count rb" and ?n = "rb_capacity rb"
  have "((?h + 1) mod ?n - ?c + i + ?n) mod ?n = ((?h + 1) - ?c + i + ?n) mod ?n"
    by (metis (no_types, opaque_lifting) add.assoc diff_conv_add_uminus mod_add_left_eq)
  with assms show ?thesis
    by (simp add: slot_def RingBuffer_push_def rb_ok_def Let_def algebra_simps)
qed

text \<open>The live slots are distinct, and the slot after the newest one is the head.\<close>

lemma slot_head: "rb_ok rb \<Longrightarrow> slot rb (rb_count rb) = rb_head rb"
  by (simp add: slot_def rb_ok_def)

lemma slot_neq_head:
  assumes "rb_ok rb" "0 \<le> i" "i < rb_count rb" "rb_count rb < rb_capacity rb \<or> 0 < i"
  shows "slot rb i \<noteq> rb_head rb"
proof
  assume "slot rb i = rb_head rb"
  with assms(1) have "(rb_head rb - rb_count rb + i) mod rb_capacity rb = rb_head rb mod rb_capacity rb"
    by (simp add: slot_def rb_ok_def)
  then have "rb_capacity rb dvd (rb_head rb - (rb_head rb - rb_count rb + i))"
    by (metis mod_eq_dvd_iff)
  then have "rb_capacity rb dvd rb_count rb - i" by simp
  with assms have "rb_capacity rb \<le> rb_count rb - i" by (intro zdvd_imp_le) auto
  with assms show False by (auto simp: rb_ok_def)
qed

lemma get_buf_push:
  assumes "rb_ok rb"
  shows "js_get (rb_buf (RingBuffer_push rb x)) (slot rb i) =
    (if slot rb i = rb_head rb then Some x else js_get (rb_buf rb) (slot rb i))"
  using assms slot_range [OF assms, of i]
  by (auto simp: RingBuffer_push_def Let_def rb_ok_def js_get_js_put)

lemma get_buf_push_head:
  assumes "rb_ok rb"
  shows "js_get (rb_buf (RingBuffer_push rb x)) (rb_head rb) = Some x"
  using assms by (simp add: RingBuffer_push_def Let_def rb_ok_def js_get_js_put)

lemma push_room:
  assumes "rb_ok rb" "rb_count rb < rb_capacity rb"
  shows "rb_ok (RingBuffer_push rb x) \<and>
         rb_contents (RingBuffer_push rb x) = rb_contents rb @ [x]"
proof -
  let ?rb = "RingBuffer_push rb x"
  have fields: "rb_capacity ?rb = rb_capacity rb" "rb_count ?rb = rb_count rb + 1"
    "length (rb_buf ?rb) = length (rb_buf rb)" "0 \<le> rb_head ?rb" "rb_head ?rb < rb_capacity rb"
    using assms by (auto simp: RingBuffer_push_def Let_def rb_ok_def)
  have slots: "js_get (rb_buf ?rb) (slot ?rb (int i)) =
      Some (if i < nat (rb_count rb) then rb_contents rb ! i else x)"
    if "i < nat (rb_count rb + 1)" for i
  proof (cases "i < nat (rb_count rb)")
    case True
    with assms show ?thesis
      using slot_neq_head [OF assms(1), of "int i"] live_slot [OF assms(1) True]
      by (simp add: slot_push_room get_buf_push)
  next
    case False
    with that assms have "int i = rb_count rb" by (auto simp: rb_ok_def)
    with assms False show ?thesis
      by (simp add: slot_push_room slot_head get_buf_push_head)
  qed
  have "rb_ok ?rb"
    using assms fields slots by (auto simp: rb_ok_def)
  moreover have "rb_contents ?rb = rb_contents rb @ [x]"
    using assms fields slots
    by (intro nth_equalityI) (auto simp: rb_contents_def rb_ok_def nth_append)
  ultimately show ?thesis ..
qed

lemma push_full:
  assumes "rb_ok rb" "\<not> rb_count rb < rb_capacity rb"
  shows "rb_ok (RingBuffer_push rb x) \<and>
         rb_contents (RingBuffer_push rb x) = tl (rb_contents rb) @ [x]"
proof -
  let ?rb = "RingBuffer_push rb x"
  have full: "rb_count rb = rb_capacity rb" "0 < rb_count rb"
    using assms by (auto simp: rb_ok_def)
  have fields: "rb_capacity ?rb = rb_capacity rb" "rb_count ?rb = rb_count rb"
    "length (rb_buf ?rb) = length (rb_buf rb)" "0 \<le> rb_head ?rb" "rb_head ?rb < rb_capacity rb"
    using assms by (auto simp: RingBuffer_push_def Let_def rb_ok_def)
  have len: "length (rb_contents rb) = nat (rb_count rb)" by (simp add: rb_contents_def)
  have slots: "js_get (rb_buf ?rb) (slot ?rb (int i)) =
      Some (if Suc i < nat (rb_count rb) then rb_contents rb ! Suc i else x)"
    if "i < nat (rb_count rb)" for i
  proof (cases "Suc i < nat (rb_count rb)")
    case True
    with assms show ?thesis
      using slot_neq_head [OF assms(1), of "int (Suc i)"] live_slot [OF assms(1) True]
      by (simp add: slot_push_full get_buf_push add.commute)
  next
    case False
    with that full have "int i + 1 = rb_count rb" by auto
    with assms False show ?thesis
      by (simp add: slot_push_full slot_head get_buf_push_head)
  qed
  have "rb_ok ?rb"
    using assms fields slots by (auto simp: rb_ok_def)
  moreover have "rb_contents ?rb = tl (rb_contents rb) @ [x]"
    using full fields slots len
    by (intro nth_equalityI) (auto simp: rb_contents_def nth_append nth_tl)
  ultimately show ?thesis ..
qed

interpretation rb: sliding_window RingBuffer_push rb_contents rb_size rb_ok
proof unfold_locales
  fix w :: "'a RingBuffer" and x
  assume ok: "rb_ok w"
  then have len: "length (rb_contents w) = nat (rb_count w)" "rb_count w \<le> rb_capacity w"
    by (auto simp: rb_contents_def rb_ok_def)
  show "rb_ok (RingBuffer_push w x)"
    using ok by (cases "rb_count w < rb_capacity w") (simp_all add: push_room push_full)
  show "rb_size (RingBuffer_push w x) = rb_size w"
    by (simp add: rb_size_def RingBuffer_push_def Let_def)
  show "rb_contents (RingBuffer_push w x) = take_last (rb_size w) (rb_contents w @ [x])"
  proof (cases "rb_count w < rb_capacity w")
    case True
    with ok len show ?thesis
      by (auto simp: push_room rb_size_def take_last_all rb_ok_def)
  next
    case False
    with ok len show ?thesis
      by (auto simp: push_full rb_size_def take_last_def drop_Suc rb_ok_def)
  qed
qed

lemma last_contents:
  assumes "rb_ok rb"
  shows "RingBuffer_last rb = (if rb_contents rb = [] then None else Some (last (rb_contents rb)))"
proof (cases "rb_count rb = 0")
  case True
  then show ?thesis by (simp add: RingBuffer_last_def rb_contents_def)
next
  case False
  with assms have "slot rb (rb_count rb - 1) = (rb_head rb - 1 + rb_capacity rb) mod rb_capacity rb"
    by (simp add: slot_def algebra_simps)
  with False assms live_slot [OF assms, of "nat (rb_count rb - 1)"] show ?thesis
    by (auto simp: RingBuffer_last_def rb_ok_def last_conv_nth rb_contents_def)
qed

lemma clear_contents: "rb_ok rb \<Longrightarrow> rb_ok (RingBuffer_clear rb) \<and> rb_contents (RingBuffer_clear rb) = []"
  by (simp add: RingBuffer_clear_def rb_ok_def rb_contents_def)

section \<open>IncrementalSma\<close>

text \<open>
  A \<^verbatim>\<open>Float64Array\<close> of length \<open>period\<close> is a list of numbers, initially zero. The current
  value is \<open>None\<close> where the code returns \<^verbatim>\<open>NaN\<close>.
\<close>

record IncrementalSma =
  sma_period :: int
  sma_buf :: "number list"
  sma_head :: int
  sma_count :: int
  sma_sum :: number

definition IncrementalSma_new :: "int \<Rightarrow> string + IncrementalSma" where
  "IncrementalSma_new period =
     (if period < 1 then Inl ''IncrementalSma period must be a positive integer''
      else Inr \<lparr>sma_period = period, sma_buf = replicate (nat period) 0,
                sma_head = 0, sma_count = 0, sma_sum = 0\<rparr>)"

definition IncrementalSma_push :: "IncrementalSma \<Rightarrow> number \<Rightarrow> IncrementalSma" where
  "IncrementalSma_push sma value =
     (let sum = (if sma_count sma \<ge> sma_period sma
                 then sma_sum sma - sma_buf sma ! nat (sma_head sma) else sma_sum sma);
          buf = (sma_buf sma)[nat (sma_head sma) := value];
          count = (if sma_count sma < sma_period sma then sma_count sma + 1 else sma_count sma)
      in sma\<lparr>sma_buf := buf, sma_sum := sum + value,
             sma_head := js_rem (sma_head sma + 1) (sma_period sma), sma_count := count\<rparr>)"

definition IncrementalSma_value :: "IncrementalSma \<Rightarrow> number option" where
  "IncrementalSma_value sma =
     (if sma_count sma = 0 then None else Some (sma_sum sma / of_int (sma_count sma)))"

definition IncrementalSma_filled :: "IncrementalSma \<Rightarrow> bool" where
  "IncrementalSma_filled sma = (sma_count sma \<ge> sma_period sma)"

text \<open>
  The state after a sequence of pushes, in closed form: the slots hold the last \<open>period\<close>
  values at their positions modulo \<open>period\<close>, and the running sum is their sum.
\<close>

definition sma_state :: "IncrementalSma \<Rightarrow> number list \<Rightarrow> bool" where
  "sma_state sma xs \<longleftrightarrow>
     (let p = nat (sma_period sma); n = length xs in
      0 < sma_period sma \<and> length (sma_buf sma) = p \<and>
      sma_head sma = int (n mod p) \<and> sma_count sma = int (min n p) \<and>
      sma_sum sma = sum_list (take_last p xs) \<and>
      (\<forall>i\<in>{n - p..<n}. sma_buf sma ! (i mod p) = xs ! i))"

lemma sma_state_new: "IncrementalSma_new p = Inr sma \<Longrightarrow> sma_state sma []"
  by (auto simp: IncrementalSma_new_def sma_state_def Let_def split: if_splits)

lemma sum_take_last_snoc:
  assumes "0 < p"
  shows "sum_list (take_last p (xs @ [x])) =
    (if p \<le> length xs then sum_list (take_last p xs) - xs ! (length xs - p) + x
     else sum_list (take_last p xs) + (x :: real))"
proof (cases "p \<le> length xs")
  case True
  with assms have "drop (length xs - p) xs = xs ! (length xs - p) # drop (Suc (length xs - p)) xs"
    by (intro Cons_nth_drop_Suc [symmetric]) auto
  with True assms show ?thesis by (simp add: take_last_def Suc_diff_le)
next
  case False
  with assms show ?thesis by (simp add: take_last_def)
qed

lemma mod_window_neq:
  assumes "i \<in> {Suc n - p..<n}"
  shows "i mod p \<noteq> n mod (p :: nat)"
proof
  assume "i mod p = n mod p"
  with assms have "p dvd n - i" by (metis atLeastLessThan_iff less_imp_le_nat mod_eq_dvd_iff_nat)
  moreover from assms have "0 < n - i" "n - i < p" by auto
  ultimately show False by (auto dest: dvd_imp_le)
qed

lemma sma_state_push:
  assumes "sma_state sma xs"
  shows "sma_state (IncrementalSma_push sma x) (xs @ [x])"
proof -
  define p where "p = nat (sma_period sma)"
  define n where "n = length xs"
  let ?s = "IncrementalSma_push sma x"
  from assms have p: "0 < p" "sma_period sma = int p" "length (sma_buf sma) = p"
    and h: "sma_head sma = int (n mod p)" and c: "sma_count sma = int (min n p)"
    and s: "sma_sum sma = sum_list (take_last p xs)"
    and b: "\<And>i. i \<in> {n - p..<n} \<Longrightarrow> sma_buf sma ! (i mod p) = xs ! i"
    by (auto simp: sma_state_def Let_def p_def n_def)
  have "js_rem (sma_head sma + 1) (sma_period sma) = (int (n mod p) + 1) mod int p"
    using p h by simp
  also have "\<dots> = int (Suc n mod p)"
    by (simp add: zmod_int add.commute [of _ 1] mod_add_right_eq)
  finally have head: "sma_head ?s = int (Suc n mod p)"
    by (simp add: IncrementalSma_push_def Let_def)
  have count: "sma_count ?s = int (min (Suc n) p)"
    using p c by (auto simp: IncrementalSma_push_def Let_def)
  have oldest: "sma_buf sma ! (n mod p) = xs ! (n - p)" if "p \<le> n"
    using b [of "n - p"] that p le_mod_geq [OF that] by simp
  have sum: "sma_sum ?s = sum_list (take_last p (xs @ [x]))"
    using p h c s oldest
    by (auto simp: IncrementalSma_push_def Let_def sum_take_last_snoc n_def [symmetric])
  have buf: "sma_buf ?s ! (i mod p) = (xs @ [x]) ! i" if "i \<in> {Suc n - p..<Suc n}" for i
  proof (cases "i = n")
    case True
    with p h show ?thesis by (simp add: IncrementalSma_push_def Let_def n_def)
  next
    case False
    with that have i: "i \<in> {Suc n - p..<n}" "i \<in> {n - p..<n}" by auto
    with p h b [OF i(2)] mod_window_neq [OF i(1)] show ?thesis
      by (simp add: IncrementalSma_push_def Let_def n_def nth_append)
  qed
  from p head count sum buf show ?thesis
    by (simp add: sma_state_def Let_def n_def IncrementalSma_push_def)
qed

lemma sma_state_pushes:
  "sma_state sma xs \<Longrightarrow> sma_state (foldl IncrementalSma_push sma ys) (xs @ ys)"
proof (induction ys arbitrary: sma xs)
  case Nil
  then show ?case by simp
next
  case (Cons y ys)
  from Cons.IH [OF sma_state_push [OF Cons.prems, of y]] show ?case by simp
qed

section \<open>Properties\<close>

text \<open>C29. The ring buffer refines a bounded list: whatever is pushed into a buffer of capacity
  \<open>c\<close>, every slot that \<^verbatim>\<open>toArray\<close> reads was written, it returns the last \<open>c\<close> elements oldest
  first, and \<^verbatim>\<open>length\<close>, \<^verbatim>\<open>get\<close> (in range or not) and \<^verbatim>\<open>last\<close> agree with that list.\<close>

theorem RingBuffer_refines_last_elements:
  fixes xs :: "'a list"
  assumes "RingBuffer_new c = Inr rb"
  defines "w \<equiv> foldl RingBuffer_push rb xs" and "ys \<equiv> take_last (nat c) xs"
  shows "RingBuffer_toArray w = map Some ys \<and>
    RingBuffer_length w = int (length ys) \<and>
    RingBuffer_get w i = (if 0 \<le> i \<and> i < int (length ys) then Some (ys ! nat i) else None) \<and>
    RingBuffer_last w = (if xs = [] then None else Some (last xs))"
proof -
  from assms(1) have ok: "rb_ok rb" and nil: "rb_contents rb = []" and c: "0 < c" "rb_size rb = nat c"
    by (auto simp: rb_ok_new rb_contents_new RingBuffer_new_def rb_size_def split: if_splits)
  then have w: "rb_ok w" "rb_contents w = ys"
    by (simp_all add: w_def ys_def rb.ok_pushes rb.contents_pushes)
  have "length ys = min (nat c) (length xs)" by (simp add: ys_def)
  with c have "ys = [] \<longleftrightarrow> xs = []" by (cases ys; cases xs) auto
  moreover have "xs \<noteq> [] \<Longrightarrow> last ys = last xs"
    using c by (simp add: ys_def last_take_last)
  ultimately show ?thesis using w
    by (simp add: toArray_contents length_contents get_contents last_contents)
qed

theorem RingBuffer_refines_last_elements_witness:
  "RingBuffer_toArray (foldl RingBuffer_push
      \<lparr>rb_capacity = 3, rb_buf = [None, None, None], rb_head = 0, rb_count = 0\<rparr> [10, 20, 30, 40 :: int])
    = [Some 20, Some 30, Some 40]"
proof -
  have new: "RingBuffer_new 3 =
      Inr \<lparr>rb_capacity = 3, rb_buf = [None, None, None], rb_head = 0, rb_count = 0\<rparr>"
    by (simp add: RingBuffer_new_def eval_nat_numeral)
  show ?thesis
    using RingBuffer_refines_last_elements [OF new, of "[10, 20, 30, 40 :: int]" 0]
    by (simp add: take_last_def)
qed

text \<open>The incremental average equals the plain one: after any sequence of values fed to a
  fresh average of period \<open>p\<close>, \<^verbatim>\<open>value\<close> is the mean of the last \<open>p\<close> of them (undefined before the
  first), and \<^verbatim>\<open>filled\<close> says whether at least \<open>p\<close> were fed.\<close>

lemma IncrementalSma_is_window_mean:
  fixes xs :: "number list"
  assumes "IncrementalSma_new p = Inr sma"
  defines "s \<equiv> foldl IncrementalSma_push sma xs" and "ys \<equiv> take_last (nat p) xs"
  shows "IncrementalSma_value s =
      (if xs = [] then None else Some (sum_list ys / real (length ys))) \<and>
    IncrementalSma_filled s = (nat p \<le> length xs)"
proof -
  have "sma_state s xs"
    using sma_state_pushes [OF sma_state_new [OF assms(1)], of xs] by (simp add: s_def)
  moreover have "sma_period s = p"
  proof -
    have "sma_period (foldl IncrementalSma_push t xs) = sma_period t" for t
      by (induction xs arbitrary: t) (simp_all add: IncrementalSma_push_def Let_def)
    with assms(1) show ?thesis by (auto simp: s_def IncrementalSma_new_def split: if_splits)
  qed
  ultimately have "0 < p" "sma_count s = int (length ys)" "sma_sum s = sum_list ys"
    "sma_count s = int (min (length xs) (nat p))" "sma_period s = p"
    by (simp_all add: sma_state_def Let_def ys_def min.commute)
  then show ?thesis
    by (auto simp: IncrementalSma_value_def IncrementalSma_filled_def ys_def min_def)
qed

end
