(* ===== verification/JsBits.thy ===== *)
theory JsBits
  imports Prelude "HOL-Library.Word"
begin

text \<open>
  The 32-bit operators of JavaScript on integer numbers: each operand is read modulo
  \<open>2 ^ 32\<close>; \<^verbatim>\<open>^\<close>, \<^verbatim>\<open>|\<close>, \<^verbatim>\<open><<\<close> and \<^verbatim>\<open>Math.imul\<close> give a signed 32-bit number, \<^verbatim>\<open>>>>\<close> an
  unsigned one. The lemmas say that the two mixing steps of a multiply-xorshift hash, an
  xor with the own high bits and a multiplication by an odd constant, lose no information.
\<close>

unbundle bit_operations_syntax

type_synonym u32 = "32 word"

definition js_xor :: "int \<Rightarrow> int \<Rightarrow> int" where
  "js_xor a b = sint ((word_of_int a :: u32) XOR word_of_int b)"

definition js_or :: "int \<Rightarrow> int \<Rightarrow> int" where
  "js_or a b = sint ((word_of_int a :: u32) OR word_of_int b)"

definition js_shl :: "int \<Rightarrow> nat \<Rightarrow> int" where
  "js_shl a n = sint (push_bit n (word_of_int a :: u32))"

definition js_ushr :: "int \<Rightarrow> nat \<Rightarrow> int" where
  "js_ushr a n = uint (drop_bit n (word_of_int a :: u32))"

definition js_imul :: "int \<Rightarrow> int \<Rightarrow> int" where
  "js_imul a b = sint ((word_of_int a :: u32) * word_of_int b)"

lemma word_of_int_js [simp]:
  "(word_of_int (js_xor a b) :: u32) = word_of_int a XOR word_of_int b"
  "(word_of_int (js_or a b) :: u32) = word_of_int a OR word_of_int b"
  "(word_of_int (js_shl a n) :: u32) = push_bit n (word_of_int a)"
  "(word_of_int (js_ushr a n) :: u32) = drop_bit n (word_of_int a)"
  "(word_of_int (js_imul a b) :: u32) = word_of_int a * word_of_int b"
  by (simp_all add: js_xor_def js_or_def js_shl_def js_ushr_def js_imul_def)

lemma uint_of_word: "js_ushr a 0 = uint (word_of_int a :: u32)"
  by (simp add: js_ushr_def)

lemma js_ushr_0_range: "0 \<le> js_ushr a 0 \<and> js_ushr a 0 < 4294967296"
  using uint_bounded [of "word_of_int a :: u32"] by (simp add: uint_of_word)

lemma drop_bit_32: "32 \<le> n \<Longrightarrow> drop_bit n (w :: u32) = 0"
  by (rule bit_word_eqI) (auto simp: bit_drop_bit_eq dest: bit_imp_le_length)

lemma xorshift16_inverse:
  "(w XOR drop_bit 16 w) XOR drop_bit 16 (w XOR drop_bit 16 w) = (w :: u32)"
  by (simp add: drop_bit_xor drop_bit_drop_bit drop_bit_32 xor.assoc)

lemma xorshift13_inverse:
  "(let y = w XOR drop_bit 13 w in y XOR drop_bit 13 y XOR drop_bit 26 y) = (w :: u32)"
  by (simp add: Let_def drop_bit_xor drop_bit_drop_bit drop_bit_32 xor.assoc xor.left_commute)

lemma inj_xorshift16: "inj (\<lambda>w :: u32. w XOR drop_bit 16 w)"
  by (rule inj_on_inverseI [of _ "\<lambda>y. y XOR drop_bit 16 y"]) (rule xorshift16_inverse)

lemma inj_xorshift13: "inj (\<lambda>w :: u32. w XOR drop_bit 13 w)"
  by (rule inj_on_inverseI [of _ "\<lambda>y. y XOR drop_bit 13 y XOR drop_bit 26 y"])
    (use xorshift13_inverse in \<open>simp add: Let_def\<close>)

lemma inj_times_unit:
  assumes "c * d = (1 :: u32)"
  shows "inj (\<lambda>w. w * c)"
  by (rule inj_on_inverseI [of _ "\<lambda>y. y * d"]) (simp add: assms mult.assoc)

end
