(* ===== verification/SeededRandom.thy ===== *)
theory SeededRandom
  imports JsBits
begin

text \<open>
  \<^verbatim>\<open>order/backtest/seeded-random.ts\<close>: the checkpointable generator of the backtest engine.
  The field \<^verbatim>\<open>h\<close> is the integer it holds; a seed is the list of its UTF-16 code units.
\<close>

definition SeededRandom_hashChar :: "int \<Rightarrow> int \<Rightarrow> int" where
  "SeededRandom_hashChar h c =
     (let h1 = js_imul (js_xor h c) 3432918353 in js_or (js_shl h1 13) (js_ushr h1 19))"

definition SeededRandom_new :: "int list \<Rightarrow> int" where
  "SeededRandom_new seed = foldl SeededRandom_hashChar (js_xor 1779033703 (int (length seed))) seed"

definition SeededRandom_step :: "int \<Rightarrow> int" where
  "SeededRandom_step h =
     (let h1 = js_imul (js_xor h (js_ushr h 16)) 2246822507;
          h2 = js_imul (js_xor h1 (js_ushr h1 13)) 3266489909
      in js_xor h2 (js_ushr h2 16))"

definition SeededRandom_next :: "int \<Rightarrow> number \<times> int" where
  "SeededRandom_next h =
     (let h' = SeededRandom_step h in (of_int (js_ushr h' 0) / 4294967296, h'))"

definition SeededRandom_nextRange :: "int \<Rightarrow> number \<Rightarrow> number \<Rightarrow> number \<times> int" where
  "SeededRandom_nextRange h lo hi =
     (let (r, h') = SeededRandom_next h in (lo + r * (hi - lo), h'))"

definition SeededRandom_nextInt :: "int \<Rightarrow> int \<Rightarrow> int \<Rightarrow> int \<times> int" where
  "SeededRandom_nextInt h lo hi =
     (let (r, h') = SeededRandom_nextRange h (of_int lo) (of_int hi) in (\<lfloor>r\<rfloor>, h'))"

definition SeededRandom_getState :: "int \<Rightarrow> int" where
  "SeededRandom_getState h = h"

definition SeededRandom_fromState :: "int \<Rightarrow> int" where
  "SeededRandom_fromState state = state"

definition createSeededRandom :: "int list \<Rightarrow> int" where
  "createSeededRandom seed = SeededRandom_new seed"

text \<open>The next \<open>n\<close> numbers of a generator, and the generator after them.\<close>

fun draws :: "nat \<Rightarrow> int \<Rightarrow> number list \<times> int" where
  "draws 0 h = ([], h)"
| "draws (Suc n) h =
     (let (r, h') = SeededRandom_next h; (rs, h'') = draws n h' in (r # rs, h''))"

section \<open>Lemmas\<close>

definition mix :: "u32 \<Rightarrow> u32" where
  "mix w = (let a = (w XOR drop_bit 16 w) * 2246822507; b = (a XOR drop_bit 13 a) * 3266489909
            in b XOR drop_bit 16 b)"

lemma inj_mix: "inj mix"
proof -
  have "inj ((\<lambda>w. w XOR drop_bit 16 w) \<circ> (\<lambda>w. w * 3266489909) \<circ> (\<lambda>w. w XOR drop_bit 13 w) \<circ>
             (\<lambda>w. w * 2246822507) \<circ> (\<lambda>w :: u32. w XOR drop_bit 16 w))"
    by (intro inj_compose inj_xorshift16 inj_xorshift13
        inj_times_unit [where d = 2127672349] inj_times_unit [where d = 2781581891]) simp_all
  then show ?thesis by (simp add: mix_def [abs_def] Let_def comp_def)
qed

lemma word_step: "(word_of_int (SeededRandom_step h) :: u32) = mix (word_of_int h)"
  by (simp add: SeededRandom_step_def mix_def Let_def)

lemma step_signed: "\<exists>w :: u32. SeededRandom_step h = sint w"
  by (auto simp: SeededRandom_step_def Let_def js_xor_def)

lemma next_range: "0 \<le> fst (SeededRandom_next h) \<and> fst (SeededRandom_next h) < 1"
  using js_ushr_0_range [of "SeededRandom_step h"] by (simp add: SeededRandom_next_def Let_def)

lemma draws_add:
  "draws (n + m) h =
     (let (rs, h') = draws n h; (ss, h'') = draws m h' in (rs @ ss, h''))"
  by (induction n arbitrary: h) (auto simp: split_beta Let_def)

section \<open>Properties\<close>

text \<open>The generator never collapses: on 32-bit states the state transition of \<^verbatim>\<open>next\<close> is
  injective, so two runs that ever differ in state differ forever.\<close>

lemma SeededRandom_step_injective:
  fixes v w :: "32 word"
  assumes "SeededRandom_step (sint v) = SeededRandom_step (sint w)"
  shows "v = w"
proof -
  have "mix v = mix w"
    using arg_cong [OF assms, of "\<lambda>x. word_of_int x :: u32"] by (simp add: word_step)
  then show ?thesis by (rule injD [OF inj_mix])
qed

text \<open>\<^verbatim>\<open>next\<close> returns a number of \<open>[0, 1)\<close>, and \<^verbatim>\<open>nextInt\<close> an integer of \<open>[min, max)\<close>, from
  any state.\<close>

lemma SeededRandom_ranges:
  assumes "lo < hi"
  shows "0 \<le> fst (SeededRandom_next h) \<and> fst (SeededRandom_next h) < 1 \<and>
    lo \<le> fst (SeededRandom_nextInt h lo hi) \<and> fst (SeededRandom_nextInt h lo hi) < hi"
proof -
  let ?r = "fst (SeededRandom_next h)"
  have r: "0 \<le> ?r" "?r < 1" using next_range by auto
  have "real_of_int lo \<le> of_int lo + ?r * (of_int hi - of_int lo)"
    using r(1) assms by simp
  moreover have lt: "?r * (of_int hi - of_int lo) < 1 * (of_int hi - real_of_int lo)"
    using r(2) assms by (intro mult_strict_right_mono) auto
  moreover from lt have "\<lfloor>?r * (of_int hi - of_int lo)\<rfloor> < hi - lo"
    by (simp add: floor_less_iff)
  ultimately show ?thesis
    using r by (simp add: SeededRandom_nextInt_def SeededRandom_nextRange_def split_beta
        le_floor_iff)
qed

text \<open>Checkpoint and resume: a generator restored from the state saved after \<open>n\<close> draws
  continues with exactly the numbers, and ends in the state, of the uninterrupted run.\<close>

lemma SeededRandom_resume:
  "draws (n + m) (createSeededRandom seed) =
     (let (before, h) = draws n (createSeededRandom seed);
          saved = SeededRandom_getState h;
          (after, h') = draws m (SeededRandom_fromState saved)
      in (before @ after, h'))"
  by (simp add: draws_add SeededRandom_getState_def SeededRandom_fromState_def)

end
