(* ===== verification/BinarySearch.thy ===== *)
theory BinarySearch
  imports Prelude
begin

text \<open>
  The candle of \<^verbatim>\<open>ohlc/ohlc-candle.entity.ts\<close> and the two binary searches of
  \<^verbatim>\<open>order/backtest/shared/price-window/binary-search.util.ts\<close>. The two loops of the source
  differ in the comparison only; \<open>bisect\<close> is that loop with the comparison as its argument.
\<close>

record OHLCCandle =
  cd_coinId :: string
  cd_timestamp :: time_ms
  cd_open :: number
  cd_high :: number
  cd_low :: number
  cd_close :: number
  cd_volume :: "number option"
  cd_quoteVolume :: "number option"

function bisect :: "(nat \<Rightarrow> bool) \<Rightarrow> nat \<Rightarrow> nat \<Rightarrow> nat" where
  "bisect goRight lo hi =
     (if lo < hi
      then let mid = (lo + hi) div 2
           in if goRight mid then bisect goRight (mid + 1) hi else bisect goRight lo mid
      else lo)"
  by pat_completeness auto
termination
  by (relation "measure (\<lambda>(p, lo, hi). hi - lo)") auto

declare bisect.simps [simp del]

definition binarySearchLeft :: "OHLCCandle list \<Rightarrow> time_ms \<Rightarrow> nat" where
  "binarySearchLeft candles targetTime =
     bisect (\<lambda>mid. cd_timestamp (candles ! mid) < targetTime) 0 (length candles)"

definition binarySearchRight :: "OHLCCandle list \<Rightarrow> time_ms \<Rightarrow> nat" where
  "binarySearchRight candles targetTime =
     bisect (\<lambda>mid. cd_timestamp (candles ! mid) \<le> targetTime) 0 (length candles)"

section \<open>Lemmas\<close>

text \<open>
  On a predicate that holds up to some index and not after it, the loop finds that index.
\<close>

lemma bisect_finds:
  assumes "lo \<le> k" "k \<le> hi" "\<And>i. i < hi \<Longrightarrow> p i \<longleftrightarrow> i < k"
  shows "bisect p lo hi = k"
  using assms
proof (induction p lo hi rule: bisect.induct)
  case (1 p lo hi)
  let ?mid = "(lo + hi) div 2"
  show ?case
  proof (cases "lo < hi")
    case True
    then have mid: "lo \<le> ?mid" "?mid < hi" by auto
    show ?thesis
    proof (cases "p ?mid")
      case right: True
      with 1 mid have "?mid + 1 \<le> k" by auto
      with 1 True right have "bisect p (?mid + 1) hi = k" by simp
      with True right show ?thesis by (simp add: bisect.simps [of p lo hi] Let_def)
    next
      case left: False
      with 1 mid have "k \<le> ?mid" by auto
      with 1 True left mid have "bisect p lo ?mid = k" by simp
      with True left show ?thesis by (simp add: bisect.simps [of p lo hi] Let_def)
    qed
  next
    case False
    with 1 have "k = lo" by simp
    with False show ?thesis by (simp add: bisect.simps [of p lo hi])
  qed
qed

definition time_sorted :: "OHLCCandle list \<Rightarrow> bool" where
  "time_sorted candles = sorted (map cd_timestamp candles)"

lemma takeWhile_index:
  assumes "sorted (map f xs)" "\<And>a b. a \<le> b \<Longrightarrow> P b \<Longrightarrow> P (a :: 'b :: linorder)" "i < length xs"
  shows "P (f (xs ! i)) \<longleftrightarrow> i < length (takeWhile (\<lambda>x. P (f x)) xs)"
proof
  assume "i < length (takeWhile (\<lambda>x. P (f x)) xs)"
  then show "P (f (xs ! i))" by (metis (mono_tags) nth_mem set_takeWhileD takeWhile_nth)
next
  assume i: "P (f (xs ! i))"
  show "i < length (takeWhile (\<lambda>x. P (f x)) xs)"
  proof (rule ccontr)
    let ?n = "length (takeWhile (\<lambda>x. P (f x)) xs)"
    assume "\<not> i < ?n"
    with assms(3) have n: "?n \<le> i" "?n < length xs" by auto
    then have "\<not> P (f (xs ! ?n))" by (rule_tac nth_length_takeWhile)
    moreover have "f (xs ! ?n) \<le> f (xs ! i)"
      using assms(1,3) n by (auto simp: sorted_iff_nth_mono)
    ultimately show False using assms(2) i by blast
  qed
qed

lemma binarySearchLeft_takeWhile:
  "time_sorted cs \<Longrightarrow> binarySearchLeft cs t = length (takeWhile (\<lambda>c. cd_timestamp c < t) cs)"
  unfolding binarySearchLeft_def time_sorted_def
  by (rule bisect_finds) (auto simp: length_takeWhile_le takeWhile_index [where P = "\<lambda>x. x < t"])

lemma binarySearchRight_takeWhile:
  "time_sorted cs \<Longrightarrow> binarySearchRight cs t = length (takeWhile (\<lambda>c. cd_timestamp c \<le> t) cs)"
  unfolding binarySearchRight_def time_sorted_def
  by (rule bisect_finds) (auto simp: length_takeWhile_le takeWhile_index [where P = "\<lambda>x. x \<le> t"])

lemma sorted_range_slice:
  assumes "sorted (map f xs)" "a \<le> (b :: 'b :: linorder)"
  shows "take (length (takeWhile (\<lambda>x. f x \<le> b) xs) - length (takeWhile (\<lambda>x. f x < a) xs))
           (drop (length (takeWhile (\<lambda>x. f x < a) xs)) xs) =
         filter (\<lambda>x. a \<le> f x \<and> f x \<le> b) xs"
  using assms(1)
proof (induction xs)
  case Nil
  then show ?case by simp
next
  case (Cons x xs)
  then have IH: "take (length (takeWhile (\<lambda>x. f x \<le> b) xs) - length (takeWhile (\<lambda>x. f x < a) xs))
           (drop (length (takeWhile (\<lambda>x. f x < a) xs)) xs) = filter (\<lambda>x. a \<le> f x \<and> f x \<le> b) xs"
    and ge: "\<And>y. y \<in> set xs \<Longrightarrow> f x \<le> f y" by auto
  consider "f x < a" | "a \<le> f x" "f x \<le> b" | "b < f x" by fastforce
  then show ?case
  proof cases
    case 1
    with assms(2) IH show ?thesis by auto
  next
    case 2
    have "takeWhile (\<lambda>x. f x < a) xs = []"
      using ge 2(1) by (cases xs) (auto simp: not_less intro: order_trans)
    with 2 IH show ?thesis by auto
  next
    case 3
    then have "filter (\<lambda>x. a \<le> f x \<and> f x \<le> b) xs = []"
      using ge by (auto simp: filter_empty_conv not_le dest: less_le_trans)
    with 3 assms(2) show ?thesis by auto
  qed
qed

section \<open>Properties\<close>

text \<open>On candles sorted by time, \<^verbatim>\<open>binarySearchLeft\<close> is the index of the first candle at or
  after the target and \<^verbatim>\<open>binarySearchRight\<close> that of the first candle after it: everything
  before the index is earlier, nothing from it on is (the length where there is none).\<close>

lemma binarySearch_correct:
  assumes "time_sorted cs" "i < length cs"
  shows "(i < binarySearchLeft cs t \<longleftrightarrow> cd_timestamp (cs ! i) < t) \<and>
         (i < binarySearchRight cs t \<longleftrightarrow> cd_timestamp (cs ! i) \<le> t) \<and>
         binarySearchLeft cs t \<le> length cs \<and> binarySearchRight cs t \<le> length cs"
  using assms takeWhile_index [where P = "\<lambda>x. x < t" and f = cd_timestamp and xs = cs]
    takeWhile_index [where P = "\<lambda>x. x \<le> t" and f = cd_timestamp and xs = cs]
  by (auto simp: binarySearchLeft_takeWhile binarySearchRight_takeWhile length_takeWhile_le
      time_sorted_def)

definition candle_at :: "time_ms \<Rightarrow> OHLCCandle" where
  "candle_at t = \<lparr>cd_coinId = ''btc'', cd_timestamp = t, cd_open = 1, cd_high = 1, cd_low = 1,
                  cd_close = 1, cd_volume = None, cd_quoteVolume = None\<rparr>"

end
