(* ===== verification/PriceWindow.thy ===== *)
theory PriceWindow
  imports RingBuffer BinarySearch
begin

text \<open>
  \<^verbatim>\<open>order/backtest/shared/price-window/price-window.service.ts\<close>: grouping and sorting of the
  historical candles, the per-coin sliding windows that the backtest loop advances bar by bar,
  and the extraction of a date range. What matters is that a strategy never sees the future:
  a window holds the last summaries dated at or before the bar, and nothing else.

  The maps of a tracking context are insertion-ordered maps; a ring buffer mutated in place is
  put back under its key. Candles carry no row ids here: no operation of the service reads them.
\<close>

section \<open>Data\<close>

record PriceSummary =
  ps_avg :: number
  ps_coin :: string
  ps_date :: time_ms
  ps_high :: number
  ps_low :: number
  ps_open :: "number option"
  ps_close :: "number option"
  ps_volume :: "number option"

datatype PriceTimeframe = HOURLY | FOUR_HOUR | DAILY | WEEKLY

fun PRICE_TIMEFRAME_WINDOW_SIZES :: "PriceTimeframe \<Rightarrow> int" where
  "PRICE_TIMEFRAME_WINDOW_SIZES HOURLY = 500"
| "PRICE_TIMEFRAME_WINDOW_SIZES FOUR_HOUR = 500"
| "PRICE_TIMEFRAME_WINDOW_SIZES DAILY = 400"
| "PRICE_TIMEFRAME_WINDOW_SIZES WEEKLY = 150"

definition HIGHER_TIMEFRAMES :: "PriceTimeframe list" where
  "HIGHER_TIMEFRAMES = [FOUR_HOUR, DAILY, WEEKLY]"

record Coin =
  coin_id :: string
  coin_symbol :: string

definition MAX_WINDOW_SIZE :: int where
  "MAX_WINDOW_SIZE = 500"

text \<open>The state of one timeframe: the sorted series, the index last consumed, the window.\<close>

record TimeframeTrackingState =
  tf_summariesByCoin :: "(string, PriceSummary list) jsmap"
  tf_timestampsByCoin :: "(string, time_ms list) jsmap"
  tf_indexByCoin :: "(string, int) jsmap"
  tf_windowsByCoin :: "(string, PriceSummary RingBuffer) jsmap"

record PriceTrackingContext =
  pt_timestampsByCoin :: "(string, time_ms list) jsmap"
  pt_summariesByCoin :: "(string, PriceSummary list) jsmap"
  pt_indexByCoin :: "(string, int) jsmap"
  pt_windowsByCoin :: "(string, PriceSummary RingBuffer) jsmap"
  pt_higherTimeframes :: "(PriceTimeframe, TimeframeTrackingState) jsmap option"
  pt_btcRegimeSma :: "IncrementalSma option"
  pt_btcCoinId :: "string option"

record ImmutablePriceTrackingData =
  im_timestampsByCoin :: "(string, time_ms list) jsmap"
  im_summariesByCoin :: "(string, PriceSummary list) jsmap"

type_synonym AggregatedTimeframes = "(PriceTimeframe, (string, PriceSummary list) jsmap) jsmap"

section \<open>Candles and summaries\<close>

definition getPriceTimestamp :: "OHLCCandle \<Rightarrow> time_ms" where
  "getPriceTimestamp candle = cd_timestamp candle"

definition getPriceValue :: "OHLCCandle \<Rightarrow> number" where
  "getPriceValue candle = cd_close candle"

definition buildPriceSummary :: "OHLCCandle \<Rightarrow> PriceSummary" where
  "buildPriceSummary candle =
     \<lparr>ps_avg = cd_close candle, ps_coin = cd_coinId candle, ps_date = cd_timestamp candle,
      ps_high = cd_high candle, ps_low = cd_low candle, ps_open = Some (cd_open candle),
      ps_close = Some (cd_close candle), ps_volume = cd_volume candle\<rparr>"

text \<open>A candle is told from a summary by its field \<^verbatim>\<open>coinId\<close>.\<close>

definition getOpenPriceValue :: "OHLCCandle + PriceSummary \<Rightarrow> number" where
  "getOpenPriceValue candle =
     (case candle of Inl c \<Rightarrow> cd_open c | Inr s \<Rightarrow> nullish (ps_open s) (ps_avg s))"

section \<open>Grouping and initialisation\<close>

definition pricesByCoin :: "OHLCCandle list \<Rightarrow> (string, OHLCCandle list) jsmap" where
  "pricesByCoin historicalPrices =
     foldl (\<lambda>m candle. map_set (cd_coinId candle)
              (nullish (map_get m (cd_coinId candle)) [] @ [candle]) m) [] historicalPrices"

text \<open>\<^verbatim>\<open>Array.sort\<close> is stable, as \<open>sort_key\<close> is.\<close>

definition coinHistory :: "OHLCCandle list \<Rightarrow> string \<Rightarrow> OHLCCandle list" where
  "coinHistory historicalPrices coinId =
     sort_key getPriceTimestamp (nullish (map_get (pricesByCoin historicalPrices) coinId) [])"

definition groupAndSortByCoins :: "OHLCCandle list \<Rightarrow> string list \<Rightarrow> ImmutablePriceTrackingData" where
  "groupAndSortByCoins historicalPrices coinIds =
     \<lparr>im_timestampsByCoin =
        foldl (\<lambda>m c. map_set c (map getPriceTimestamp (coinHistory historicalPrices c)) m) [] coinIds,
      im_summariesByCoin =
        foldl (\<lambda>m c. map_set c (map buildPriceSummary (coinHistory historicalPrices c)) m) [] coinIds\<rparr>"

text \<open>The constructor succeeds on the positive sizes it is called with.\<close>

definition newWindow :: "int \<Rightarrow> 'a RingBuffer" where
  "newWindow n = projr (RingBuffer_new n)"

definition initPriceTracking :: "OHLCCandle list \<Rightarrow> string list \<Rightarrow> PriceTrackingContext" where
  "initPriceTracking historicalPrices coinIds =
     (let g = groupAndSortByCoins historicalPrices coinIds in
      \<lparr>pt_timestampsByCoin = im_timestampsByCoin g,
       pt_summariesByCoin = im_summariesByCoin g,
       pt_indexByCoin = foldl (\<lambda>m c. map_set c (-1) m) [] coinIds,
       pt_windowsByCoin = foldl (\<lambda>m c. map_set c (newWindow MAX_WINDOW_SIZE) m) [] coinIds,
       pt_higherTimeframes = None, pt_btcRegimeSma = None, pt_btcCoinId = None\<rparr>)"

definition buildImmutablePriceData :: "OHLCCandle list \<Rightarrow> string list \<Rightarrow> ImmutablePriceTrackingData" where
  "buildImmutablePriceData historicalPrices coinIds = groupAndSortByCoins historicalPrices coinIds"

definition timeframeState :: "int \<Rightarrow> (string, PriceSummary list) jsmap \<Rightarrow> TimeframeTrackingState" where
  "timeframeState windowSize perCoin =
     \<lparr>tf_summariesByCoin = foldl (\<lambda>m (c, ss). map_set c ss m) [] perCoin,
      tf_timestampsByCoin = foldl (\<lambda>m (c, ss). map_set c (map ps_date ss) m) [] perCoin,
      tf_indexByCoin = foldl (\<lambda>m (c, ss). map_set c (-1) m) [] perCoin,
      tf_windowsByCoin = foldl (\<lambda>m (c, ss). map_set c (newWindow windowSize) m) [] perCoin\<rparr>"

definition initMultiTimeframe :: "PriceTrackingContext \<Rightarrow> AggregatedTimeframes \<Rightarrow> PriceTrackingContext" where
  "initMultiTimeframe ctx aggregated =
     ctx\<lparr>pt_higherTimeframes :=
           Some (foldl (\<lambda>m (tf, perCoin).
                    if tf = HOURLY then m
                    else map_set tf (timeframeState (PRICE_TIMEFRAME_WINDOW_SIZES tf) perCoin) m)
                  [] aggregated)\<rparr>"

definition initPriceTrackingFromPrecomputed ::
    "ImmutablePriceTrackingData \<Rightarrow> AggregatedTimeframes option \<Rightarrow> PriceTrackingContext" where
  "initPriceTrackingFromPrecomputed immutable aggregatedTimeframes =
     (let coinIds = map fst (im_timestampsByCoin immutable);
          ctx = \<lparr>pt_timestampsByCoin = im_timestampsByCoin immutable,
                 pt_summariesByCoin = im_summariesByCoin immutable,
                 pt_indexByCoin = foldl (\<lambda>m c. map_set c (-1) m) [] coinIds,
                 pt_windowsByCoin = foldl (\<lambda>m c. map_set c (newWindow MAX_WINDOW_SIZE) m) [] coinIds,
                 pt_higherTimeframes = None, pt_btcRegimeSma = None, pt_btcCoinId = None\<rparr>
      in case aggregatedTimeframes of
           None \<Rightarrow> ctx
         | Some aggregated \<Rightarrow> initMultiTimeframe ctx aggregated)"

section \<open>Advancing the windows\<close>

text \<open>
  The inner loop of both advance methods: consume the summaries up to the timestamp. The
  last component is the regime average, fed only for the bitcoin of the context.
\<close>

function advanceLoop ::
    "time_ms list \<Rightarrow> PriceSummary list \<Rightarrow> time_ms \<Rightarrow> bool \<Rightarrow>
     int \<times> PriceSummary RingBuffer \<times> IncrementalSma option \<Rightarrow>
     int \<times> PriceSummary RingBuffer \<times> IncrementalSma option" where
  "advanceLoop tss summaries timestamp isBtc (pointer, window, sma) =
     (if 0 \<le> pointer + 1 \<and> pointer + 1 < int (length tss) \<and> tss ! nat (pointer + 1) \<le> timestamp
      then let s = summaries ! nat (pointer + 1)
           in advanceLoop tss summaries timestamp isBtc
                (pointer + 1, RingBuffer_push window s,
                 if isBtc then map_option (\<lambda>a. IncrementalSma_push a (nullish (ps_close s) (ps_avg s))) sma
                 else sma)
      else (pointer, window, sma))"
  by pat_completeness auto
termination
  by (relation "measure (\<lambda>(tss, ss, t, b, p, w, a). nat (int (length tss) - (p + 1)))") auto

declare advanceLoop.simps [simp del]

type_synonym PriceData = "(string, PriceSummary option list) jsmap"

definition advanceCoin ::
    "time_ms \<Rightarrow> PriceTrackingContext \<times> PriceData \<Rightarrow> Coin \<Rightarrow> PriceTrackingContext \<times> PriceData" where
  "advanceCoin timestamp st coin =
     (let (ctx, priceData) = st;
          coinTimestamps = nullish (map_get (pt_timestampsByCoin ctx) (coin_id coin)) [];
          summaries = nullish (map_get (pt_summariesByCoin ctx) (coin_id coin)) []
      in case map_get (pt_windowsByCoin ctx) (coin_id coin) of
           None \<Rightarrow> (ctx, priceData)
         | Some window \<Rightarrow>
             let (pointer, window', sma) =
                   advanceLoop coinTimestamps summaries timestamp
                     (pt_btcCoinId ctx = Some (coin_id coin))
                     (nullish (map_get (pt_indexByCoin ctx) (coin_id coin)) (-1), window,
                      pt_btcRegimeSma ctx);
                 ctx' = ctx\<lparr>pt_windowsByCoin := map_set (coin_id coin) window' (pt_windowsByCoin ctx),
                           pt_indexByCoin := map_set (coin_id coin) pointer (pt_indexByCoin ctx),
                           pt_btcRegimeSma := sma\<rparr>
             in (ctx', if RingBuffer_length window' > 0
                       then map_set (coin_id coin) (RingBuffer_toArray window') priceData
                       else priceData))"

definition advancePriceWindows ::
    "PriceTrackingContext \<Rightarrow> Coin list \<Rightarrow> time_ms \<Rightarrow> PriceTrackingContext \<times> PriceData" where
  "advancePriceWindows ctx coins timestamp = foldl (advanceCoin timestamp) (ctx, []) coins"

definition advanceTimeframeCoin ::
    "time_ms \<Rightarrow> TimeframeTrackingState \<times> PriceData \<Rightarrow> Coin \<Rightarrow> TimeframeTrackingState \<times> PriceData" where
  "advanceTimeframeCoin timestamp st coin =
     (let (state, tfData) = st;
          coinTimestamps = nullish (map_get (tf_timestampsByCoin state) (coin_id coin)) [];
          summaries = nullish (map_get (tf_summariesByCoin state) (coin_id coin)) []
      in case map_get (tf_windowsByCoin state) (coin_id coin) of
           None \<Rightarrow> (state, tfData)
         | Some window \<Rightarrow>
             let (pointer, window', _) =
                   advanceLoop coinTimestamps summaries timestamp False
                     (nullish (map_get (tf_indexByCoin state) (coin_id coin)) (-1), window, None);
                 state' = state\<lparr>tf_windowsByCoin := map_set (coin_id coin) window' (tf_windowsByCoin state),
                               tf_indexByCoin := map_set (coin_id coin) pointer (tf_indexByCoin state)\<rparr>
             in (state', if RingBuffer_length window' > 0
                         then map_set (coin_id coin) (RingBuffer_toArray window') tfData
                         else tfData))"

definition advanceMultiTimeframeWindows ::
    "PriceTrackingContext \<Rightarrow> Coin list \<Rightarrow> time_ms \<Rightarrow>
     PriceTrackingContext \<times> (PriceTimeframe, PriceData) jsmap" where
  "advanceMultiTimeframeWindows ctx coins timestamp =
     (case pt_higherTimeframes ctx of
        None \<Rightarrow> (ctx, [])
      | Some higher \<Rightarrow>
          let results = map (\<lambda>(tf, state). (tf, foldl (advanceTimeframeCoin timestamp) (state, []) coins)) higher
          in (ctx\<lparr>pt_higherTimeframes := Some (map (\<lambda>(tf, state, _). (tf, state)) results)\<rparr>,
              foldl (\<lambda>out (tf, _, tfData). map_set tf tfData out) [] results))"

definition clearPriceData ::
    "(time_ms, OHLCCandle list) jsmap \<Rightarrow> PriceTrackingContext \<Rightarrow>
     (time_ms, OHLCCandle list) jsmap \<times> PriceTrackingContext" where
  "clearPriceData pricesByTimestamp priceCtx =
     ([], priceCtx\<lparr>pt_timestampsByCoin := [], pt_summariesByCoin := [], pt_windowsByCoin := [],
                   pt_indexByCoin := [], pt_higherTimeframes := None, pt_btcRegimeSma := None,
                   pt_btcCoinId := None\<rparr>)"

section \<open>Date ranges\<close>

text \<open>The key of a group is the ISO string of its timestamp: the timestamp stands for it.\<close>

definition groupPricesByTimestamp :: "OHLCCandle list \<Rightarrow> (time_ms, OHLCCandle list) jsmap" where
  "groupPricesByTimestamp candles =
     foldl (\<lambda>m candle. map_set (cd_timestamp candle)
              (nullish (map_get m (cd_timestamp candle)) [] @ [candle]) m) [] candles"

text \<open>A \<^verbatim>\<open>Set\<close> iterates its elements in the order of their first insertion.\<close>

definition js_set :: "'a list \<Rightarrow> 'a list" where
  "js_set xs = foldl (\<lambda>acc x. if x \<in> set acc then acc else acc @ [x]) [] xs"

definition candleSegment :: "(string, OHLCCandle list) jsmap \<Rightarrow> time_ms \<Rightarrow> time_ms \<Rightarrow> string \<Rightarrow> OHLCCandle list" where
  "candleSegment preloaded startTime endTime coinId =
     (case map_get preloaded coinId of
        None \<Rightarrow> []
      | Some coinCandles \<Rightarrow>
          if coinCandles = [] then []
          else let left = binarySearchLeft coinCandles startTime;
                   right = binarySearchRight coinCandles endTime
               in if left < right then take (right - left) (drop left coinCandles) else [])"

definition extractCandleSegments ::
    "Coin list \<Rightarrow> (string, OHLCCandle list) jsmap \<Rightarrow> time_ms \<Rightarrow> time_ms \<Rightarrow> OHLCCandle list" where
  "extractCandleSegments coins preloaded startTime endTime =
     concat (map (candleSegment preloaded startTime endTime) (js_set (map coin_id coins)))"

text \<open>
  The argument \<open>minDataPoints\<close> is what the strategy of the registry asks for, \<open>None\<close> where it
  has no such method. The details list the symbol, the bars present and the bars required.
\<close>

definition filterCoinsWithSufficientData ::
    "int option \<Rightarrow> Coin list \<Rightarrow> (string, PriceSummary list) jsmap \<Rightarrow>
     Coin list \<times> int \<times> (string \<times> int \<times> int) list" where
  "filterCoinsWithSufficientData minDataPoints coins summariesByCoin =
     (case minDataPoints of
        None \<Rightarrow> (coins, 0, [])
      | Some minRequired \<Rightarrow>
          if minRequired \<le> 0 then (coins, 0, [])
          else let bars = (\<lambda>coin. case map_get summariesByCoin (coin_id coin) of
                                    None \<Rightarrow> 0 | Some ss \<Rightarrow> int (length ss));
                   excluded = map (\<lambda>coin. (coin_symbol coin, bars coin, minRequired))
                                (filter (\<lambda>coin. bars coin < minRequired) coins)
               in (filter (\<lambda>coin. \<not> bars coin < minRequired) coins, int (length excluded), excluded))"

section \<open>Lemmas: grouping\<close>

lemma foldl_map_set_get:
  "map_get (foldl (\<lambda>m c. map_set c (f c) m) m cs) c = (if c \<in> set cs then Some (f c) else map_get m c)"
  by (induction cs arbitrary: m) auto

lemma pricesByCoin_step:
  "nullish (map_get (foldl (\<lambda>m candle. map_set (cd_coinId candle)
      (nullish (map_get m (cd_coinId candle)) [] @ [candle]) m) m cs) c) [] =
   nullish (map_get m c) [] @ filter (\<lambda>x. cd_coinId x = c) cs"
  by (induction cs arbitrary: m) auto

lemma coinHistory_filter:
  "coinHistory cs c = sort_key cd_timestamp (filter (\<lambda>x. cd_coinId x = c) cs)"
  by (simp add: coinHistory_def pricesByCoin_def pricesByCoin_step getPriceTimestamp_def [abs_def])

lemma coinHistory_sorted: "sorted (map cd_timestamp (coinHistory cs c))"
  by (simp add: coinHistory_filter)

lemma newWindow_ok:
  assumes "0 < n"
  shows "rb_ok (newWindow n)" "rb_contents (newWindow n) = []"
proof -
  from assms obtain rb :: "'a RingBuffer" where "RingBuffer_new n = Inr rb"
    by (auto simp: RingBuffer_new_def)
  then show "rb_ok (newWindow n :: 'a RingBuffer)"
    by (simp add: newWindow_def rb_ok_new)
next
  from assms obtain rb :: "'b RingBuffer" where "RingBuffer_new n = Inr rb"
    by (auto simp: RingBuffer_new_def)
  then show "rb_contents (newWindow n :: 'b RingBuffer) = []"
    by (simp add: newWindow_def rb_contents_new)
qed

lemma newWindow_size: "0 < n \<Longrightarrow> rb_size (newWindow n) = nat n"
  by (simp add: newWindow_def RingBuffer_new_def rb_size_def)

section \<open>Lemmas: the advance loop\<close>

abbreviation close_or_avg :: "PriceSummary \<Rightarrow> number" where
  "close_or_avg s \<equiv> nullish (ps_close s) (ps_avg s)"

lemma advanceLoop_result:
  assumes "0 \<le> p + 1" "p + 1 \<le> int (length tss)" "length ss = length tss"
  shows "advanceLoop tss ss t b (p, w, a) =
    (let n = length (takeWhile (\<lambda>x. x \<le> t) (drop (nat (p + 1)) tss));
         new = take n (drop (nat (p + 1)) ss) in
     (p + int n, foldl RingBuffer_push w new,
      if b then map_option (\<lambda>m. foldl IncrementalSma_push m (map close_or_avg new)) a else a))"
  using assms
proof (induction tss ss t b "(p, w, a)" arbitrary: p w a rule: advanceLoop.induct)
  case (1 tss ss t b p w a)
  let ?k = "nat (p + 1)"
  show ?case
  proof (cases "0 \<le> p + 1 \<and> p + 1 < int (length tss) \<and> tss ! ?k \<le> t")
    case True
    then have k: "?k < length tss" by auto
    moreover have "?k < length ss" using k "1.prems" by simp
    ultimately have tss: "drop ?k tss = tss ! ?k # drop (Suc ?k) tss"
      and ss: "drop ?k ss = ss ! ?k # drop (Suc ?k) ss"
      by (simp_all add: Cons_nth_drop_Suc)
    have suc: "nat (2 + p) = Suc ?k" using True by arith
    note IH = "1.hyps" [OF True refl]
    show ?thesis
      using True "1.prems" IH
      by (simp add: advanceLoop.simps [of tss ss t b p w a] Let_def suc tss ss option.map_comp comp_def)
  next
    case False
    have "takeWhile (\<lambda>x. x \<le> t) (drop ?k tss) = []"
    proof (cases "?k < length tss")
      case True
      with False "1.prems" have "\<not> tss ! ?k \<le> t" by auto
      with True show ?thesis by (simp add: Cons_nth_drop_Suc [symmetric])
    qed simp
    with False show ?thesis
      by (auto simp add: advanceLoop.simps [of tss ss t b p w a] option.map_ident)
  qed
qed

lemma takeWhile_extend:
  assumes "sorted xs" "\<And>a b. a \<le> b \<Longrightarrow> P b \<Longrightarrow> P a"
  defines "k \<equiv> length (takeWhile P xs)"
  shows "k + length (takeWhile (\<lambda>x. x \<le> t) (drop k xs)) = length (takeWhile (\<lambda>x. P x \<or> x \<le> t) xs)"
  unfolding k_def using assms(1)
proof (induction xs)
  case Nil
  then show ?case by simp
next
  case (Cons x xs)
  show ?case
  proof (cases "P x")
    case True
    with Cons show ?thesis by simp
  next
    case False
    then have "\<not> P y" if "y \<in> set (x # xs)" for y
      using Cons.prems assms(2) that by auto
    then have "takeWhile (\<lambda>y. P y \<or> y \<le> t) (x # xs) = takeWhile (\<lambda>y. y \<le> t) (x # xs)"
      by (intro takeWhile_cong) auto
    with False show ?thesis by simp
  qed
qed

text \<open>A coin of which the first \<open>k\<close> summaries have been consumed.\<close>

definition tracks ::
    "PriceTrackingContext \<Rightarrow> string \<Rightarrow> time_ms list \<Rightarrow> PriceSummary list \<Rightarrow> nat \<Rightarrow> bool" where
  "tracks ctx c tss ss k \<longleftrightarrow>
     map_get (pt_timestampsByCoin ctx) c = Some tss \<and> map_get (pt_summariesByCoin ctx) c = Some ss \<and>
     length ss = length tss \<and> k \<le> length tss \<and>
     map_get (pt_indexByCoin ctx) c = Some (int k - 1) \<and>
     (case map_get (pt_windowsByCoin ctx) c of None \<Rightarrow> False
      | Some w \<Rightarrow> rb_ok w \<and> rb_size w = nat MAX_WINDOW_SIZE \<and>
                 rb_contents w = take_last (nat MAX_WINDOW_SIZE) (take k ss))"

definition reached :: "time_ms list \<Rightarrow> nat \<Rightarrow> time_ms \<Rightarrow> nat" where
  "reached tss k t = k + length (takeWhile (\<lambda>x. x \<le> t) (drop k tss))"

lemma reached_le: "k \<le> length tss \<Longrightarrow> reached tss k t \<le> length tss"
  using length_takeWhile_le [of "\<lambda>x. x \<le> t" "drop k tss"] by (simp add: reached_def)

lemma reached_idem: "reached tss (reached tss k t) t = reached tss k t"
proof -
  have "drop (reached tss k t) tss = dropWhile (\<lambda>x. x \<le> t) (drop k tss)"
    by (simp add: reached_def dropWhile_eq_drop add.commute)
  moreover have "takeWhile P (dropWhile P xs) = []" for P and xs :: "time_ms list"
    by (induction xs) auto
  ultimately show ?thesis by (simp add: reached_def [of _ "reached tss k t"])
qed

lemma take_reached:
  "take (reached tss k t) ss = take k ss @ take (reached tss k t - k) (drop k ss)"
  by (simp add: reached_def take_add)

lemma advanceCoin_other:
  assumes "coin_id coin \<noteq> c" "advanceCoin t (ctx, pd) coin = (ctx', pd')"
  shows "tracks ctx' c tss ss k = tracks ctx c tss ss k \<and> map_get pd' c = map_get pd c"
  using assms
  by (auto simp: advanceCoin_def tracks_def Let_def split: option.splits prod.splits if_splits)

lemma advanceCoin_same:
  assumes "tracks ctx c tss ss k" "coin_id coin = c" "advanceCoin t (ctx, pd) coin = (ctx', pd')"
  defines "seen \<equiv> take_last (nat MAX_WINDOW_SIZE) (take (reached tss k t) ss)"
  shows "tracks ctx' c tss ss (reached tss k t) \<and>
    map_get pd' c = (if seen = [] then map_get pd c else Some (map Some seen))"
proof -
  from assms(1) obtain w where
    get: "map_get (pt_timestampsByCoin ctx) c = Some tss" "map_get (pt_summariesByCoin ctx) c = Some ss"
      "map_get (pt_indexByCoin ctx) c = Some (int k - 1)" "map_get (pt_windowsByCoin ctx) c = Some w"
    and len: "length ss = length tss" "k \<le> length tss"
    and w: "rb_ok w" "rb_size w = nat MAX_WINDOW_SIZE"
      and cont: "rb_contents w = take_last (nat MAX_WINDOW_SIZE) (take k ss)"
    by (auto simp: tracks_def split: option.splits)
  let ?new = "take (reached tss k t - k) (drop k ss)" and ?b = "pt_btcCoinId ctx = Some c"
  let ?w = "foldl RingBuffer_push w ?new"
  have "rb_contents ?w = take_last (nat MAX_WINDOW_SIZE) (take k ss @ ?new)"
    using w cont by (simp add: rb.contents_pushes take_last_append)
  then have w': "rb_ok ?w" "rb_size ?w = nat MAX_WINDOW_SIZE" "rb_contents ?w = seen"
    using w by (simp_all add: rb.ok_pushes rb.size_pushes seen_def take_reached [symmetric])
  obtain a where "advanceLoop tss ss t ?b (int k - 1, w, pt_btcRegimeSma ctx) =
      (int (reached tss k t) - 1, ?w, a)"
    using len by (simp add: advanceLoop_result reached_def Let_def)
  with assms(2,3) get len w' show ?thesis
    by (auto simp: advanceCoin_def Let_def tracks_def reached_le toArray_contents length_contents
        seen_def [symmetric] split: if_splits)
qed

abbreviation window_result ::
    "(string, PriceSummary option list) jsmap \<Rightarrow> string \<Rightarrow> PriceSummary list \<Rightarrow> PriceSummary option list option" where
  "window_result pd c seen \<equiv> (if seen = [] then map_get pd c else Some (map Some seen))"

lemma advanceCoins_tracks:
  assumes "tracks ctx c tss ss k" "foldl (advanceCoin t) (ctx, pd) coins = (ctx', pd')"
  shows "if c \<in> coin_id ` set coins
    then tracks ctx' c tss ss (reached tss k t) \<and>
      map_get pd' c = window_result pd c (take_last (nat MAX_WINDOW_SIZE) (take (reached tss k t) ss))
    else tracks ctx' c tss ss k \<and> map_get pd' c = map_get pd c"
  using assms(2)
proof (induction coins arbitrary: ctx' pd' rule: rev_induct)
  case Nil
  with assms(1) show ?case by simp
next
  case (snoc coin coins)
  obtain ctx1 pd1 where before: "foldl (advanceCoin t) (ctx, pd) coins = (ctx1, pd1)"
    by (cases "foldl (advanceCoin t) (ctx, pd) coins")
  with snoc.prems have step: "advanceCoin t (ctx1, pd1) coin = (ctx', pd')" by simp
  show ?case
  proof (cases "coin_id coin = c")
    case False
    with snoc.IH [OF before] advanceCoin_other [OF False step] show ?thesis by auto
  next
    case True
    show ?thesis
    proof (cases "c \<in> coin_id ` set coins")
      case seen: True
      with snoc.IH [OF before] have "tracks ctx1 c tss ss (reached tss k t)" by simp
      from advanceCoin_same [OF this True step] snoc.IH [OF before] seen True show ?thesis
        by (simp add: reached_idem)
    next
      case False
      with snoc.IH [OF before] have "tracks ctx1 c tss ss k" by simp
      from advanceCoin_same [OF this True step] snoc.IH [OF before] False True show ?thesis
        by simp
    qed
  qed
qed

lemma initPriceTracking_tracks:
  assumes "c \<in> set coinIds"
  shows "tracks (initPriceTracking candles coinIds) c
    (map cd_timestamp (coinHistory candles c)) (map buildPriceSummary (coinHistory candles c)) 0"
  using assms
  by (simp add: tracks_def initPriceTracking_def groupAndSortByCoins_def foldl_map_set_get Let_def
      newWindow_ok newWindow_size MAX_WINDOW_SIZE_def getPriceTimestamp_def [abs_def])

text \<open>The bars of a run, in order: the context is threaded, the data of the last bar is returned.\<close>

definition runWindows :: "PriceTrackingContext \<Rightarrow> Coin list \<Rightarrow> time_ms list \<Rightarrow> PriceTrackingContext \<times> PriceData" where
  "runWindows ctx coins ts = foldl (\<lambda>(ctx, _) t. advancePriceWindows ctx coins t) (ctx, []) ts"

lemma sorted_takeWhile_filter:
  "sorted (map f xs) \<Longrightarrow> takeWhile (\<lambda>x. f x \<le> t) xs = filter (\<lambda>x. f x \<le> t) xs" for t :: time_ms
proof (induction xs)
  case (Cons x xs)
  show ?case
  proof (cases "f x \<le> t")
    case False
    with Cons.prems have "\<forall>y\<in>set xs. \<not> f y \<le> t" by auto
    with False show ?thesis by simp
  qed (use Cons in auto)
qed simp

lemma runWindows_tracks:
  assumes "tracks ctx c tss ss 0" "sorted tss" "c \<in> coin_id ` set coins" "ts \<noteq> []"
    "runWindows ctx coins ts = (ctx', pd')"
  defines "k \<equiv> length (takeWhile (\<lambda>x. \<exists>t\<in>set ts. x \<le> t) tss)"
  shows "tracks ctx' c tss ss k \<and>
    map_get pd' c = window_result [] c (take_last (nat MAX_WINDOW_SIZE) (take k ss))"
  unfolding k_def using assms(4,5)
proof (induction ts arbitrary: ctx' pd' rule: rev_induct)
  case Nil
  then show ?case by simp
next
  case (snoc t ts)
  let ?k = "length (takeWhile (\<lambda>x. \<exists>t\<in>set ts. x \<le> t) tss)"
  obtain ctx1 pd1 where before: "runWindows ctx coins ts = (ctx1, pd1)"
    by (cases "runWindows ctx coins ts")
  with snoc.prems have step: "foldl (advanceCoin t) (ctx1, []) coins = (ctx', pd')"
    by (simp add: runWindows_def advancePriceWindows_def)
  have "tracks ctx1 c tss ss ?k"
  proof (cases "ts = []")
    case True
    with before assms(1) show ?thesis by (cases tss) (simp_all add: runWindows_def)
  qed (use snoc.IH before in simp)
  from advanceCoins_tracks [OF this step] assms(3)
  have "tracks ctx' c tss ss (reached tss ?k t) \<and>
    map_get pd' c = window_result [] c (take_last (nat MAX_WINDOW_SIZE) (take (reached tss ?k t) ss))"
    by simp
  moreover have "reached tss ?k t = length (takeWhile (\<lambda>x. (\<exists>t\<in>set ts. x \<le> t) \<or> x \<le> t) tss)"
    unfolding reached_def by (rule takeWhile_extend [OF assms(2)]) (meson order_trans)
  moreover have "(\<lambda>x. \<exists>u\<in>set (ts @ [t]). x \<le> u) = (\<lambda>x. (\<exists>u\<in>set ts. x \<le> u) \<or> x \<le> t)"
    by auto
  ultimately show ?case by simp
qed

lemma take_length_takeWhile: "take (length (takeWhile P xs)) xs = takeWhile P xs"
  by (metis append_eq_conv_conj takeWhile_dropWhile_id)

section \<open>Properties\<close>

text \<open>A strategy never sees the future and never misses the past: after any run of bars,
  in whatever order, the window of a tracked coin is exactly its last 500 summaries (oldest
  first) among those dated at or before the latest bar of the run, and the coin is absent from
  the price data only when there is none.\<close>

lemma advancePriceWindows_no_lookahead:
  assumes "c \<in> set coinIds" "c \<in> coin_id ` set coins" "ts \<noteq> []"
    "runWindows (initPriceTracking candles coinIds) coins ts = (ctx, priceData)"
  defines "seen \<equiv> filter (\<lambda>s. ps_date s \<le> Max (set ts))
    (map buildPriceSummary (sort_key cd_timestamp (filter (\<lambda>x. cd_coinId x = c) candles)))"
  shows "map_get priceData c = (if seen = [] then None else Some (map Some (take_last 500 seen)))"
proof -
  let ?h = "coinHistory candles c"
  let ?tss = "map cd_timestamp ?h" and ?P = "\<lambda>x. \<exists>t\<in>set ts. x \<le> t"
  let ?k = "length (takeWhile ?P ?tss)"
  have P: "?P = (\<lambda>x. x \<le> Max (set ts))"
    using assms(3) by (auto simp: Max_ge_iff)
  have "?k = length (takeWhile (\<lambda>s. ps_date s \<le> Max (set ts)) (map buildPriceSummary ?h))"
    by (simp add: P takeWhile_map comp_def buildPriceSummary_def)
  moreover have "takeWhile (\<lambda>s. ps_date s \<le> Max (set ts)) (map buildPriceSummary ?h) = seen"
    unfolding seen_def coinHistory_filter [symmetric]
    by (rule sorted_takeWhile_filter) (simp add: comp_def buildPriceSummary_def coinHistory_sorted)
  ultimately have "take ?k (map buildPriceSummary ?h) = seen"
    by (metis take_length_takeWhile)
  with runWindows_tracks [OF initPriceTracking_tracks [OF assms(1)] coinHistory_sorted assms(2-4)]
  show ?thesis
    by (simp add: MAX_WINDOW_SIZE_def take_last_def split: if_splits)
qed

section \<open>Date ranges: lemmas and property\<close>

lemma js_set_step: "foldl (\<lambda>acc x. if x \<in> set acc then acc else acc @ [x]) acc xs =
    acc @ rev (remdups (rev (filter (\<lambda>x. x \<notin> set acc) xs)))"
proof (induction xs arbitrary: acc)
  case (Cons x xs)
  have split: "rev (remdups (ys @ [x])) = x # rev (remdups (filter (\<lambda>y. y \<noteq> x) ys))" for ys
    by (induction ys) auto
  have "filter (\<lambda>y. y \<notin> set acc \<and> y \<noteq> x) xs = filter (\<lambda>y. y \<noteq> x) (filter (\<lambda>y. y \<notin> set acc) xs)"
    by (simp add: conj_commute)
  with Cons show ?case
    by (simp add: split rev_filter conj_commute disj_commute)
qed simp

lemma js_set_remdups: "js_set xs = rev (remdups (rev xs))"
  by (simp add: js_set_def js_set_step)

lemma takeWhile_length_mono:
  "(\<And>x. P x \<Longrightarrow> Q x) \<Longrightarrow> length (takeWhile P xs) \<le> length (takeWhile Q xs)"
  by (induction xs) auto

lemma candleSegment_filter:
  assumes "\<And>cs. map_get preloaded c = Some cs \<Longrightarrow> time_sorted cs"
  shows "candleSegment preloaded s e c =
    filter (\<lambda>x. s \<le> cd_timestamp x \<and> cd_timestamp x \<le> e) (nullish (map_get preloaded c) [])"
proof (cases "map_get preloaded c")
  case (Some cs)
  with assms have sorted: "time_sorted cs" by simp
  show ?thesis
  proof (cases "s \<le> e")
    case True
    from sorted_range_slice [of cd_timestamp cs s e] True sorted Some show ?thesis
      by (auto simp: candleSegment_def binarySearchLeft_takeWhile binarySearchRight_takeWhile
          time_sorted_def Let_def)
  next
    case False
    then have "length (takeWhile (\<lambda>x. cd_timestamp x \<le> e) cs) \<le> length (takeWhile (\<lambda>x. cd_timestamp x < s) cs)"
      by (intro takeWhile_length_mono) auto
    moreover have "filter (\<lambda>x. s \<le> cd_timestamp x \<and> cd_timestamp x \<le> e) cs = []"
      using False by (auto simp: filter_empty_conv)
    ultimately show ?thesis using sorted Some
      by (auto simp: candleSegment_def binarySearchLeft_takeWhile binarySearchRight_takeWhile Let_def)
  qed
qed (simp add: candleSegment_def)

text \<open>The candles extracted for a date range are, coin by coin in the order the coins
  first appear, exactly the preloaded candles of the coin dated in the closed range, when the
  preloaded series are sorted by time.\<close>

lemma extractCandleSegments_exact:
  assumes "list_all time_sorted (map snd preloaded)"
  shows "extractCandleSegments coins preloaded s e =
    concat (map (\<lambda>c. filter (\<lambda>x. s \<le> cd_timestamp x \<and> cd_timestamp x \<le> e)
                       (nullish (map_get preloaded c) []))
             (rev (remdups (rev (map coin_id coins)))))"
proof -
  have "candleSegment preloaded s e = (\<lambda>c. filter (\<lambda>x. s \<le> cd_timestamp x \<and> cd_timestamp x \<le> e)
      (nullish (map_get preloaded c) []))"
    using assms by (intro ext candleSegment_filter) (force simp: list_all_iff dest: map_get_SomeD)
  then show ?thesis by (simp add: extractCandleSegments_def js_set_remdups)
qed

end
