(* ===== verification/ExitConfig.thy ===== *)
theory ExitConfig
  imports Prelude
begin

text \<open>
  The exit configuration of a position: \<^verbatim>\<open>order/interfaces/exit-config.interface.ts\<close>, its layered
  merge \<^verbatim>\<open>order/utils/exit-config-merge.util.ts\<close> and the price formulas of
  \<^verbatim>\<open>order/backtest/shared/exits/exit-price.utils.ts\<close>. The average true range of a price series
  is computed by a third-party package, an argument of \<open>computeAtrFromOHLC\<close>.
\<close>

section \<open>The configuration\<close>

datatype StopLossType = SL_FIXED | SL_PERCENTAGE | SL_ATR
datatype TakeProfitType = TP_FIXED | TP_PERCENTAGE | TP_RISK_REWARD
datatype TrailingActivationType = TA_IMMEDIATE | TA_PRICE | TA_PERCENTAGE
datatype TrailingType = TR_AMOUNT | TR_PERCENTAGE | TR_ATR

record ExitConfig =
  ec_enableStopLoss :: bool
  ec_stopLossType :: StopLossType
  ec_stopLossValue :: number
  ec_stopLossLimitOffset :: "number option"
  ec_enableTakeProfit :: bool
  ec_takeProfitType :: TakeProfitType
  ec_takeProfitValue :: number
  ec_atrPeriod :: "number option"
  ec_atrMultiplier :: "number option"
  ec_enableTrailingStop :: bool
  ec_trailingType :: TrailingType
  ec_trailingValue :: number
  ec_trailingActivation :: TrailingActivationType
  ec_trailingActivationValue :: "number option"
  ec_useOco :: bool
  ec_exitCooldownBars :: "number option"

definition DEFAULT_EXIT_CONFIG :: ExitConfig where
  "DEFAULT_EXIT_CONFIG =
     \<lparr>ec_enableStopLoss = False, ec_stopLossType = SL_PERCENTAGE, ec_stopLossValue = 35 / 10,
      ec_stopLossLimitOffset = None,
      ec_enableTakeProfit = False, ec_takeProfitType = TP_RISK_REWARD, ec_takeProfitValue = 2,
      ec_atrPeriod = Some 14, ec_atrMultiplier = Some 2,
      ec_enableTrailingStop = False, ec_trailingType = TR_PERCENTAGE, ec_trailingValue = 1,
      ec_trailingActivation = TA_IMMEDIATE, ec_trailingActivationValue = None,
      ec_useOco = True, ec_exitCooldownBars = Some 10\<rparr>"

definition DEFAULT_BACKTEST_EXIT_CONFIG :: ExitConfig where
  "DEFAULT_BACKTEST_EXIT_CONFIG =
     \<lparr>ec_enableStopLoss = True, ec_stopLossType = SL_PERCENTAGE, ec_stopLossValue = 5,
      ec_stopLossLimitOffset = None,
      ec_enableTakeProfit = False, ec_takeProfitType = TP_RISK_REWARD, ec_takeProfitValue = 2,
      ec_atrPeriod = Some 14, ec_atrMultiplier = Some 2,
      ec_enableTrailingStop = False, ec_trailingType = TR_PERCENTAGE, ec_trailingValue = 1,
      ec_trailingActivation = TA_IMMEDIATE, ec_trailingActivationValue = None,
      ec_useOco = False, ec_exitCooldownBars = None\<rparr>"

text \<open>A layer, \<^verbatim>\<open>Partial<ExitConfig>\<close>: each field may be undefined.\<close>

record PartialExitConfig =
  pec_enableStopLoss :: "bool option"
  pec_stopLossType :: "StopLossType option"
  pec_stopLossValue :: "number option"
  pec_stopLossLimitOffset :: "number option"
  pec_enableTakeProfit :: "bool option"
  pec_takeProfitType :: "TakeProfitType option"
  pec_takeProfitValue :: "number option"
  pec_atrPeriod :: "number option"
  pec_atrMultiplier :: "number option"
  pec_enableTrailingStop :: "bool option"
  pec_trailingType :: "TrailingType option"
  pec_trailingValue :: "number option"
  pec_trailingActivation :: "TrailingActivationType option"
  pec_trailingActivationValue :: "number option"
  pec_useOco :: "bool option"
  pec_exitCooldownBars :: "number option"

definition emptyLayer :: PartialExitConfig where
  "emptyLayer =
     \<lparr>pec_enableStopLoss = None, pec_stopLossType = None, pec_stopLossValue = None,
      pec_stopLossLimitOffset = None, pec_enableTakeProfit = None, pec_takeProfitType = None,
      pec_takeProfitValue = None, pec_atrPeriod = None, pec_atrMultiplier = None,
      pec_enableTrailingStop = None, pec_trailingType = None, pec_trailingValue = None,
      pec_trailingActivation = None, pec_trailingActivationValue = None, pec_useOco = None,
      pec_exitCooldownBars = None\<rparr>"

text \<open>A full configuration passed as a layer.\<close>

definition toLayer :: "ExitConfig \<Rightarrow> PartialExitConfig" where
  "toLayer c =
     \<lparr>pec_enableStopLoss = Some (ec_enableStopLoss c), pec_stopLossType = Some (ec_stopLossType c),
      pec_stopLossValue = Some (ec_stopLossValue c), pec_stopLossLimitOffset = ec_stopLossLimitOffset c,
      pec_enableTakeProfit = Some (ec_enableTakeProfit c),
      pec_takeProfitType = Some (ec_takeProfitType c),
      pec_takeProfitValue = Some (ec_takeProfitValue c), pec_atrPeriod = ec_atrPeriod c,
      pec_atrMultiplier = ec_atrMultiplier c,
      pec_enableTrailingStop = Some (ec_enableTrailingStop c),
      pec_trailingType = Some (ec_trailingType c), pec_trailingValue = Some (ec_trailingValue c),
      pec_trailingActivation = Some (ec_trailingActivation c),
      pec_trailingActivationValue = ec_trailingActivationValue c,
      pec_useOco = Some (ec_useOco c), pec_exitCooldownBars = ec_exitCooldownBars c\<rparr>"

definition orElse :: "'a option \<Rightarrow> 'a option \<Rightarrow> 'a option" where
  "orElse v w = (case v of None \<Rightarrow> w | Some x \<Rightarrow> Some x)"

text \<open>The defined fields of a layer are assigned over the result.\<close>

definition assignDefined :: "ExitConfig \<Rightarrow> PartialExitConfig \<Rightarrow> ExitConfig" where
  "assignDefined r l =
     \<lparr>ec_enableStopLoss = nullish (pec_enableStopLoss l) (ec_enableStopLoss r),
      ec_stopLossType = nullish (pec_stopLossType l) (ec_stopLossType r),
      ec_stopLossValue = nullish (pec_stopLossValue l) (ec_stopLossValue r),
      ec_stopLossLimitOffset = orElse (pec_stopLossLimitOffset l) (ec_stopLossLimitOffset r),
      ec_enableTakeProfit = nullish (pec_enableTakeProfit l) (ec_enableTakeProfit r),
      ec_takeProfitType = nullish (pec_takeProfitType l) (ec_takeProfitType r),
      ec_takeProfitValue = nullish (pec_takeProfitValue l) (ec_takeProfitValue r),
      ec_atrPeriod = orElse (pec_atrPeriod l) (ec_atrPeriod r),
      ec_atrMultiplier = orElse (pec_atrMultiplier l) (ec_atrMultiplier r),
      ec_enableTrailingStop = nullish (pec_enableTrailingStop l) (ec_enableTrailingStop r),
      ec_trailingType = nullish (pec_trailingType l) (ec_trailingType r),
      ec_trailingValue = nullish (pec_trailingValue l) (ec_trailingValue r),
      ec_trailingActivation = nullish (pec_trailingActivation l) (ec_trailingActivation r),
      ec_trailingActivationValue =
        orElse (pec_trailingActivationValue l) (ec_trailingActivationValue r),
      ec_useOco = nullish (pec_useOco l) (ec_useOco r),
      ec_exitCooldownBars = orElse (pec_exitCooldownBars l) (ec_exitCooldownBars r)\<rparr>"

definition resolveExitConfig :: "PartialExitConfig option list \<Rightarrow> ExitConfig" where
  "resolveExitConfig layers =
     foldl (\<lambda>result layer. case layer of None \<Rightarrow> result | Some l \<Rightarrow> assignDefined result l)
       DEFAULT_EXIT_CONFIG layers"

section \<open>Exit prices\<close>

datatype Side = BUY_SIDE | SELL_SIDE

definition calculateStopLossPrice :: "number \<Rightarrow> Side \<Rightarrow> ExitConfig \<Rightarrow> number option \<Rightarrow> number" where
  "calculateStopLossPrice entryPrice side config currentAtr =
     (let away = (\<lambda>stopDistance. if side = BUY_SIDE then entryPrice - stopDistance
                                 else entryPrice + stopDistance)
      in case ec_stopLossType config of
           SL_FIXED \<Rightarrow> ec_stopLossValue config
         | SL_PERCENTAGE \<Rightarrow> away (entryPrice * (ec_stopLossValue config / 100))
         | SL_ATR \<Rightarrow>
             away (if \<not> truthy currentAtr then entryPrice * (2 / 100)
                   else the currentAtr * ec_stopLossValue config))"

definition calculateTakeProfitPrice :: "number \<Rightarrow> Side \<Rightarrow> ExitConfig \<Rightarrow> number option \<Rightarrow> number" where
  "calculateTakeProfitPrice entryPrice side config stopLossPrice =
     (let away = (\<lambda>profitDistance. if side = BUY_SIDE then entryPrice + profitDistance
                                   else entryPrice - profitDistance)
      in case ec_takeProfitType config of
           TP_FIXED \<Rightarrow> ec_takeProfitValue config
         | TP_PERCENTAGE \<Rightarrow> away (entryPrice * (ec_takeProfitValue config / 100))
         | TP_RISK_REWARD \<Rightarrow>
             away (if \<not> truthy stopLossPrice then entryPrice * (4 / 100)
                   else \<bar>entryPrice - the stopLossPrice\<bar> * ec_takeProfitValue config))"

text \<open>The distance of a trailing stop from a reference price, shared by the two formulas.\<close>

definition trailingDistance :: "number \<Rightarrow> ExitConfig \<Rightarrow> number option \<Rightarrow> number" where
  "trailingDistance price config atr =
     (case ec_trailingType config of
        TR_AMOUNT \<Rightarrow> ec_trailingValue config
      | TR_PERCENTAGE \<Rightarrow> price * (ec_trailingValue config / 100)
      | TR_ATR \<Rightarrow> if \<not> truthy atr then price * (1 / 100) else the atr * ec_trailingValue config)"

definition calculateTrailingStopPrice :: "number \<Rightarrow> Side \<Rightarrow> ExitConfig \<Rightarrow> number option \<Rightarrow> number" where
  "calculateTrailingStopPrice entryPrice side config currentAtr =
     (let distance = trailingDistance entryPrice config currentAtr
      in if side = BUY_SIDE then entryPrice - distance else entryPrice + distance)"

definition calculateTrailingActivationPrice :: "number \<Rightarrow> Side \<Rightarrow> ExitConfig \<Rightarrow> number" where
  "calculateTrailingActivationPrice entryPrice side config =
     (let value = (\<lambda>d. if truthy (ec_trailingActivationValue config)
                       then the (ec_trailingActivationValue config) else d)
      in case ec_trailingActivation config of
           TA_PRICE \<Rightarrow> value entryPrice
         | TA_PERCENTAGE \<Rightarrow>
             let activationGain = entryPrice * (value 1 / 100)
             in if side = BUY_SIDE then entryPrice + activationGain else entryPrice - activationGain
         | TA_IMMEDIATE \<Rightarrow> entryPrice)"

text \<open>
  The last value of the series that is a number. The package returns a series in which
  \<open>None\<close> stands for \<^verbatim>\<open>NaN\<close>, or throws (\<open>Inl\<close>).
\<close>

definition computeAtrFromOHLC ::
    "(number list \<Rightarrow> number list \<Rightarrow> number list \<Rightarrow> int \<Rightarrow> 'err + number option list) \<Rightarrow>
     number list \<Rightarrow> number list \<Rightarrow> number list \<Rightarrow> int \<Rightarrow> number option" where
  "computeAtrFromOHLC ATR_calculate highs lows closes period =
     (if int (length highs) < period + 1 \<or> int (length lows) < period + 1 \<or>
         int (length closes) < period + 1
      then None
      else case ATR_calculate highs lows closes period of
             Inl _ \<Rightarrow> None
           | Inr atrValues \<Rightarrow>
               (case filter (\<lambda>v. v \<noteq> None) (rev atrValues) of [] \<Rightarrow> None | v # _ \<Rightarrow> v))"

section \<open>Lemmas\<close>

lemma orElse_simps [simp]: "orElse None w = w" "orElse (Some x) w = Some x" "orElse v None = v"
  by (simp_all add: orElse_def split: option.splits)

lemma nullish_SomeI: "v = Some x \<Longrightarrow> nullish v d = x"
  by simp

text \<open>Assigning a layer twice changes nothing; an empty layer assigns nothing.\<close>

lemma assignDefined_empty [simp]: "assignDefined r emptyLayer = r"
  by (simp add: assignDefined_def emptyLayer_def)

lemma nullish_idem [simp]: "nullish v (nullish v d) = nullish v d"
  by (cases v) simp_all

lemma orElse_idem [simp]: "orElse v (orElse v d) = orElse v d"
  by (cases v) simp_all

lemma assignDefined_idem: "assignDefined (assignDefined r l) l = assignDefined r l"
  by (simp add: assignDefined_def)

lemma resolve_snoc:
  "resolveExitConfig (layers @ [Some l]) = assignDefined (resolveExitConfig layers) l"
  "resolveExitConfig (layers @ [None]) = resolveExitConfig layers"
  by (simp_all add: resolveExitConfig_def)

text \<open>The distances of a sane configuration put the stop below a long entry.\<close>

lemma trailing_mono:
  assumes "p \<le> q" "ec_trailingType c = TR_PERCENTAGE \<longrightarrow> ec_trailingValue c \<le> 100"
  shows "p - trailingDistance p c atr \<le> q - trailingDistance q c atr"
proof -
  have "p * (1 - v) \<le> q * (1 - v)" if "v \<le> 1" for v :: real
    using that assms(1) by (intro mult_right_mono) auto
  from this [of "ec_trailingValue c / 100"] this [of "1 / 100"] assms show ?thesis
    by (auto simp: trailingDistance_def algebra_simps split: TrailingType.splits)
qed

end
