(* ===== verification/ExitTracker.thy ===== *)
theory ExitTracker
  imports ExitConfig
begin

text \<open>
  \<^verbatim>\<open>order/backtest/shared/exits/backtest-exit-tracker.ts\<close>: the tracker of the exit levels of the
  open positions of a backtest. The class is a record of its three fields and each method
  returns the updated record; a tracked position mutated in place is put back in its place in
  the map. The text of a reason repeats the numbers of the metadata and is left out.

  A weighted average divides by the total quantity: the properties that speak about it assume
  positive quantities, as the division by zero of the source is \<^verbatim>\<open>NaN\<close>.
\<close>

section \<open>Data\<close>

datatype ExitType = STOP_LOSS_EXIT | TAKE_PROFIT_EXIT | TRAILING_STOP_EXIT

record TrackedExit =
  te_coinId :: string
  te_entryPrice :: number
  te_quantity :: number
  te_side :: Side
  te_stopLossPrice :: "number option"
  te_takeProfitPrice :: "number option"
  te_trailingStopPrice :: "number option"
  te_trailingActivationPrice :: "number option"
  te_trailingActivated :: bool
  te_highWaterMark :: number
  te_entryAtr :: "number option"
  te_ocoLinked :: bool
  te_positionConfig :: "ExitConfig option"

text \<open>The metadata of a signal: the entry price, the level breached, and the extreme of the bar.\<close>

datatype ExitMetadata =
    StopLossMeta number number number
  | TakeProfitMeta number number number
  | TrailingMeta number number number number

record ExitSignal =
  xs_coinId :: string
  xs_quantity :: number
  xs_exitType :: ExitType
  xs_executionPrice :: number
  xs_metadata :: ExitMetadata

record SerializableExitTrackerState =
  ser_positions :: "TrackedExit list"
  ser_cooldowns :: "(string \<times> number) list option"

record BacktestExitTracker =
  xt_config :: ExitConfig
  xt_positions :: "(string, TrackedExit) jsmap"
  xt_exitCooldowns :: "(string, number) jsmap"

definition DEFAULT_EXIT_COOLDOWN_BARS :: number where
  "DEFAULT_EXIT_COOLDOWN_BARS = 10"

definition ExitTracker_new :: "ExitConfig \<Rightarrow> BacktestExitTracker" where
  "ExitTracker_new config = \<lparr>xt_config = config, xt_positions = [], xt_exitCooldowns = []\<rparr>"

definition ExitTracker_size :: "BacktestExitTracker \<Rightarrow> nat" where
  "ExitTracker_size tracker = length (xt_positions tracker)"

definition ExitTracker_has :: "BacktestExitTracker \<Rightarrow> string \<Rightarrow> bool" where
  "ExitTracker_has tracker coinId \<longleftrightarrow> map_get (xt_positions tracker) coinId \<noteq> None"

definition getExitLevels :: "BacktestExitTracker \<Rightarrow> string \<Rightarrow> TrackedExit option" where
  "getExitLevels tracker coinId = map_get (xt_positions tracker) coinId"

section \<open>Operations\<close>

text \<open>\<^verbatim>\<open>recalcTrailingStop\<close>, the private method: the stop trails the high water mark.\<close>

definition positionConfigOf :: "ExitConfig \<Rightarrow> TrackedExit \<Rightarrow> ExitConfig" where
  "positionConfigOf config tracked = nullish (te_positionConfig tracked) config"

definition recalcTrailingStop :: "ExitConfig \<Rightarrow> TrackedExit \<Rightarrow> number" where
  "recalcTrailingStop config tracked =
     (let cfg = positionConfigOf config tracked;
          distance = trailingDistance (te_highWaterMark tracked) cfg (te_entryAtr tracked)
      in if te_side tracked = BUY_SIDE then te_highWaterMark tracked - distance
         else te_highWaterMark tracked + distance)"

text \<open>Scaling into an existing position: the weighted average, then the levels from it.\<close>

definition scaleIn ::
    "ExitConfig \<Rightarrow> TrackedExit \<Rightarrow> number \<Rightarrow> number \<Rightarrow> number option \<Rightarrow> ExitConfig option \<Rightarrow> TrackedExit" where
  "scaleIn config existing entryPrice quantity currentAtr overridden =
     (let e0 = (case overridden of None \<Rightarrow> existing
                | Some effectiveConfig \<Rightarrow> existing\<lparr>te_positionConfig := Some effectiveConfig\<rparr>);
          cfg = positionConfigOf config e0;
          totalQty = te_quantity e0 + quantity;
          avgEntry = (te_entryPrice e0 * te_quantity e0 + entryPrice * quantity) / totalQty;
          e1 = e0\<lparr>te_entryPrice := avgEntry, te_quantity := totalQty,
                  te_highWaterMark := max (te_highWaterMark e0) entryPrice,
                  te_entryAtr := orElse currentAtr (te_entryAtr e0)\<rparr>;
          e2 = (if ec_enableStopLoss cfg
                then e1\<lparr>te_stopLossPrice :=
                          Some (calculateStopLossPrice avgEntry (te_side e1) cfg (te_entryAtr e1))\<rparr>
                else e1);
          e3 = (if ec_enableTakeProfit cfg
                then e2\<lparr>te_takeProfitPrice :=
                          Some (calculateTakeProfitPrice avgEntry (te_side e2) cfg (te_stopLossPrice e2))\<rparr>
                else e2)
      in if ec_enableTrailingStop cfg
         then e3\<lparr>te_trailingStopPrice :=
                   Some (if te_trailingActivated e3 then recalcTrailingStop config e3
                         else calculateTrailingStopPrice avgEntry (te_side e3) cfg (te_entryAtr e3)),
                 te_trailingActivationPrice :=
                   Some (calculateTrailingActivationPrice avgEntry (te_side e3) cfg)\<rparr>
         else e3)"

definition openTracked ::
    "ExitConfig \<Rightarrow> string \<Rightarrow> number \<Rightarrow> number \<Rightarrow> number option \<Rightarrow> ExitConfig option \<Rightarrow> TrackedExit" where
  "openTracked effectiveConfig coinId entryPrice quantity currentAtr positionConfig =
     (let side = BUY_SIDE;
          sl = (if ec_enableStopLoss effectiveConfig
                then Some (calculateStopLossPrice entryPrice side effectiveConfig currentAtr) else None)
      in \<lparr>te_coinId = coinId, te_entryPrice = entryPrice, te_quantity = quantity, te_side = side,
          te_stopLossPrice = sl,
          te_takeProfitPrice =
            (if ec_enableTakeProfit effectiveConfig
             then Some (calculateTakeProfitPrice entryPrice side effectiveConfig sl) else None),
          te_trailingStopPrice =
            (if ec_enableTrailingStop effectiveConfig
             then Some (calculateTrailingStopPrice entryPrice side effectiveConfig currentAtr) else None),
          te_trailingActivationPrice =
            (if ec_enableTrailingStop effectiveConfig
             then Some (calculateTrailingActivationPrice entryPrice side effectiveConfig) else None),
          te_trailingActivated =
            (ec_enableTrailingStop effectiveConfig \<and> ec_trailingActivation effectiveConfig = TA_IMMEDIATE),
          te_highWaterMark = entryPrice, te_entryAtr = currentAtr,
          te_ocoLinked = ec_useOco effectiveConfig, te_positionConfig = positionConfig\<rparr>)"

definition onBuy ::
    "BacktestExitTracker \<Rightarrow> string \<Rightarrow> number \<Rightarrow> number \<Rightarrow> number option \<Rightarrow> PartialExitConfig option \<Rightarrow>
     BacktestExitTracker" where
  "onBuy tracker coinId entryPrice quantity currentAtr overrideExitConfig =
     (let config = xt_config tracker;
          overridden = map_option (\<lambda>o'. resolveExitConfig [Some (toLayer config), Some o']) overrideExitConfig;
          tracked = (case map_get (xt_positions tracker) coinId of
                       Some existing \<Rightarrow> scaleIn config existing entryPrice quantity currentAtr overridden
                     | None \<Rightarrow> openTracked (nullish overridden config) coinId entryPrice quantity
                                 currentAtr overridden)
      in tracker\<lparr>xt_positions := map_set coinId tracked (xt_positions tracker)\<rparr>)"

definition removePosition :: "BacktestExitTracker \<Rightarrow> string \<Rightarrow> BacktestExitTracker" where
  "removePosition tracker coinId =
     tracker\<lparr>xt_positions := map_delete coinId (xt_positions tracker)\<rparr>"

definition onSell :: "BacktestExitTracker \<Rightarrow> string \<Rightarrow> number \<Rightarrow> BacktestExitTracker" where
  "onSell tracker coinId quantitySold =
     (case map_get (xt_positions tracker) coinId of
        None \<Rightarrow> tracker
      | Some tracked \<Rightarrow>
          let t = tracked\<lparr>te_quantity := te_quantity tracked - quantitySold\<rparr>
          in if te_quantity t \<le> 0 then removePosition tracker coinId
             else tracker\<lparr>xt_positions := map_set coinId t (xt_positions tracker)\<rparr>)"

text \<open>The trailing stop of one position on one bar: activation, high water mark, breach.\<close>

definition checkTrailing ::
    "ExitConfig \<Rightarrow> string \<Rightarrow> number \<Rightarrow> number \<Rightarrow> TrackedExit \<Rightarrow> TrackedExit \<times> ExitSignal option" where
  "checkTrailing config coinId lowPrice highPrice tracked =
     (let t1 = (if \<not> te_trailingActivated tracked \<and>
                   (case te_trailingActivationPrice tracked of None \<Rightarrow> False
                    | Some a \<Rightarrow> te_side tracked = BUY_SIDE \<and> highPrice \<ge> a)
                then tracked\<lparr>te_trailingActivated := True\<rparr> else tracked)
      in if te_trailingActivated t1
         then let t2 = (if highPrice > te_highWaterMark t1
                        then let t = t1\<lparr>te_highWaterMark := highPrice\<rparr>
                             in t\<lparr>te_trailingStopPrice := Some (recalcTrailingStop config t)\<rparr>
                        else t1);
                  level = the (te_trailingStopPrice t2)
              in if te_side t2 = BUY_SIDE \<and> lowPrice \<le> level
                 then (t2, Some \<lparr>xs_coinId = coinId, xs_quantity = te_quantity t2,
                                 xs_exitType = TRAILING_STOP_EXIT, xs_executionPrice = level,
                                 xs_metadata = TrailingMeta (te_entryPrice t2) (te_highWaterMark t2)
                                                 level lowPrice\<rparr>)
                 else (t2, None)
         else (t1, None))"

definition checkPosition ::
    "ExitConfig \<Rightarrow> string \<Rightarrow> number \<Rightarrow> number \<Rightarrow> TrackedExit \<Rightarrow> TrackedExit \<times> ExitSignal option" where
  "checkPosition config coinId lowPrice highPrice tracked =
     (if (case te_stopLossPrice tracked of None \<Rightarrow> False
          | Some sl \<Rightarrow> te_side tracked = BUY_SIDE \<and> lowPrice \<le> sl)
      then (tracked, Some \<lparr>xs_coinId = coinId, xs_quantity = te_quantity tracked,
                           xs_exitType = STOP_LOSS_EXIT,
                           xs_executionPrice = the (te_stopLossPrice tracked),
                           xs_metadata = StopLossMeta (te_entryPrice tracked)
                                           (the (te_stopLossPrice tracked)) lowPrice\<rparr>)
      else if (case te_takeProfitPrice tracked of None \<Rightarrow> False
               | Some tp \<Rightarrow> te_side tracked = BUY_SIDE \<and> highPrice \<ge> tp)
      then (tracked, Some \<lparr>xs_coinId = coinId, xs_quantity = te_quantity tracked,
                           xs_exitType = TAKE_PROFIT_EXIT,
                           xs_executionPrice = the (te_takeProfitPrice tracked),
                           xs_metadata = TakeProfitMeta (te_entryPrice tracked)
                                           (the (te_takeProfitPrice tracked)) highPrice\<rparr>)
      else if ec_enableTrailingStop (positionConfigOf config tracked) \<and>
              te_trailingStopPrice tracked \<noteq> None
      then checkTrailing config coinId lowPrice highPrice tracked
      else (tracked, None))"

definition cooldownBarsOf :: "ExitConfig \<Rightarrow> TrackedExit \<Rightarrow> number" where
  "cooldownBarsOf config tracked =
     nullish (orElse (ec_exitCooldownBars (positionConfigOf config tracked)) (ec_exitCooldownBars config))
       DEFAULT_EXIT_COOLDOWN_BARS"

definition registerExitCooldown ::
    "ExitConfig \<Rightarrow> string \<Rightarrow> TrackedExit \<Rightarrow> number option \<Rightarrow> (string, number) jsmap \<Rightarrow> (string, number) jsmap" where
  "registerExitCooldown config coinId tracked currentBar cooldowns =
     (case currentBar of
        None \<Rightarrow> cooldowns
      | Some bar \<Rightarrow>
          let cooldownBars = cooldownBarsOf config tracked
          in if cooldownBars \<le> 0 then cooldowns else map_set coinId (bar + cooldownBars) cooldowns)"

text \<open>
  One entry of the loop of \<^verbatim>\<open>checkExits\<close>, on the positions written back so far, the cooldowns
  and the signals so far. A take-profit registers no cooldown.
\<close>

definition checkEntry ::
    "ExitConfig \<Rightarrow> (string, number) jsmap \<Rightarrow> (string, number) jsmap \<Rightarrow> (string, number) jsmap \<Rightarrow>
     number option \<Rightarrow> (string, TrackedExit) jsmap \<times> (string, number) jsmap \<times> ExitSignal list \<Rightarrow>
     string \<times> TrackedExit \<Rightarrow> (string, TrackedExit) jsmap \<times> (string, number) jsmap \<times> ExitSignal list" where
  "checkEntry config closePrices lowPrices highPrices currentBar st entry =
     (let (done, cooldowns, signals) = st; (coinId, tracked) = entry
      in case map_get closePrices coinId of
           None \<Rightarrow> (done @ [entry], cooldowns, signals)
         | Some closePrice \<Rightarrow>
             if closePrice \<le> 0 then (done @ [entry], cooldowns, signals)
             else let lowPrice = nullish (map_get lowPrices coinId) closePrice;
                      highPrice = nullish (map_get highPrices coinId) closePrice;
                      (t, sig) = checkPosition config coinId lowPrice highPrice tracked
                  in (done @ [(coinId, t)],
                      (case sig of None \<Rightarrow> cooldowns
                       | Some s \<Rightarrow> if xs_exitType s = TAKE_PROFIT_EXIT then cooldowns
                                  else registerExitCooldown config coinId t currentBar cooldowns),
                      (case sig of None \<Rightarrow> signals | Some s \<Rightarrow> signals @ [s])))"

definition checkExits ::
    "BacktestExitTracker \<Rightarrow> (string, number) jsmap \<Rightarrow> (string, number) jsmap \<Rightarrow> (string, number) jsmap \<Rightarrow>
     number option \<Rightarrow> BacktestExitTracker \<times> ExitSignal list" where
  "checkExits tracker closePrices lowPrices highPrices currentBar =
     (let (positions, cooldowns, signals) =
            foldl (checkEntry (xt_config tracker) closePrices lowPrices highPrices currentBar)
              ([], xt_exitCooldowns tracker, []) (xt_positions tracker)
      in (tracker\<lparr>xt_positions := positions, xt_exitCooldowns := cooldowns\<rparr>, signals))"

definition canEnter :: "BacktestExitTracker \<Rightarrow> string \<Rightarrow> number \<Rightarrow> BacktestExitTracker \<times> bool" where
  "canEnter tracker coinId currentBar =
     (case map_get (xt_exitCooldowns tracker) coinId of
        None \<Rightarrow> (tracker, True)
      | Some cooldownExpiry \<Rightarrow>
          if currentBar \<ge> cooldownExpiry
          then (tracker\<lparr>xt_exitCooldowns := map_delete coinId (xt_exitCooldowns tracker)\<rparr>, True)
          else (tracker, False))"

definition ExitTracker_serialize :: "BacktestExitTracker \<Rightarrow> SerializableExitTrackerState" where
  "ExitTracker_serialize tracker =
     \<lparr>ser_positions = map snd (xt_positions tracker), ser_cooldowns = Some (xt_exitCooldowns tracker)\<rparr>"

definition ExitTracker_deserialize :: "SerializableExitTrackerState \<Rightarrow> ExitConfig \<Rightarrow> BacktestExitTracker" where
  "ExitTracker_deserialize state config =
     (ExitTracker_new config)
       \<lparr>xt_positions := fold (\<lambda>pos. map_set (te_coinId pos) pos) (ser_positions state) [],
        xt_exitCooldowns :=
          (case ser_cooldowns state of None \<Rightarrow> []
           | Some cs \<Rightarrow> fold (\<lambda>(coinId, expiry). map_set coinId expiry) cs [])\<rparr>"

section \<open>The loop over the positions\<close>

text \<open>What a bar does to one entry; the loop applies it entry by entry.\<close>

definition entryOutcome ::
    "ExitConfig \<Rightarrow> (string, number) jsmap \<Rightarrow> (string, number) jsmap \<Rightarrow> (string, number) jsmap \<Rightarrow>
     string \<Rightarrow> TrackedExit \<Rightarrow> TrackedExit \<times> ExitSignal option" where
  "entryOutcome config cl lo hi c t =
     (case map_get cl c of
        None \<Rightarrow> (t, None)
      | Some p \<Rightarrow> if p \<le> 0 then (t, None)
                  else checkPosition config c (nullish (map_get lo c) p) (nullish (map_get hi c) p) t)"

abbreviation is_stop :: "ExitSignal option \<Rightarrow> bool" where
  "is_stop sig \<equiv> (case sig of None \<Rightarrow> False | Some s \<Rightarrow> xs_exitType s \<noteq> TAKE_PROFIT_EXIT)"

definition entryCooldown ::
    "ExitConfig \<Rightarrow> (string, number) jsmap \<Rightarrow> (string, number) jsmap \<Rightarrow> (string, number) jsmap \<Rightarrow>
     number option \<Rightarrow> (string, number) jsmap \<Rightarrow> string \<times> TrackedExit \<Rightarrow> (string, number) jsmap" where
  "entryCooldown config cl lo hi bar cds entry =
     (let (t, sig) = entryOutcome config cl lo hi (fst entry) (snd entry)
      in if is_stop sig then registerExitCooldown config (fst entry) t bar cds else cds)"

lemma checkEntry_outcome:
  "checkEntry config cl lo hi bar (done, cds, sigs) entry =
     (done @ [(fst entry, fst (entryOutcome config cl lo hi (fst entry) (snd entry)))],
      entryCooldown config cl lo hi bar cds entry,
      sigs @ (case snd (entryOutcome config cl lo hi (fst entry) (snd entry)) of None \<Rightarrow> [] | Some s \<Rightarrow> [s]))"
  by (cases entry)
    (auto simp: checkEntry_def entryOutcome_def entryCooldown_def Let_def
      split: option.splits prod.splits if_splits)

lemma checkEntries:
  "foldl (checkEntry config cl lo hi bar) (done, cds, sigs) ps =
     (done @ map (\<lambda>(c, t). (c, fst (entryOutcome config cl lo hi c t))) ps,
      foldl (entryCooldown config cl lo hi bar) cds ps,
      sigs @ List.map_filter (\<lambda>(c, t). snd (entryOutcome config cl lo hi c t)) ps)"
  by (induction ps arbitrary: "done" cds sigs)
    (auto simp: checkEntry_outcome List.map_filter_simps split: option.splits)

lemma checkExits_parts:
  assumes "checkExits tr cl lo hi bar = (tr', sigs)"
  shows "xt_config tr' = xt_config tr"
    "xt_positions tr' = map (\<lambda>(c, t). (c, fst (entryOutcome (xt_config tr) cl lo hi c t))) (xt_positions tr)"
    "xt_exitCooldowns tr' = foldl (entryCooldown (xt_config tr) cl lo hi bar) (xt_exitCooldowns tr) (xt_positions tr)"
    "sigs = List.map_filter (\<lambda>(c, t). snd (entryOutcome (xt_config tr) cl lo hi c t)) (xt_positions tr)"
  using assms by (auto simp: checkExits_def checkEntries)

lemma checkExits_get:
  assumes "checkExits tr cl lo hi bar = (tr', sigs)"
  shows "map_get (xt_positions tr') c =
    map_option (\<lambda>t. fst (entryOutcome (xt_config tr) cl lo hi c t)) (map_get (xt_positions tr) c)"
  by (simp add: checkExits_parts [OF assms] map_get_map)

text \<open>The identity, the side and the configuration of a position are constant over a bar.\<close>

lemma checkTrailing_frame:
  "checkTrailing config c low high t = (t', sig) \<Longrightarrow>
     te_coinId t' = te_coinId t \<and> te_side t' = te_side t \<and> te_positionConfig t' = te_positionConfig t \<and>
     te_quantity t' = te_quantity t \<and> te_entryPrice t' = te_entryPrice t \<and> te_entryAtr t' = te_entryAtr t"
  by (auto simp: checkTrailing_def Let_def split: if_splits)

lemma checkPosition_frame:
  "checkPosition config c low high t = (t', sig) \<Longrightarrow>
     te_coinId t' = te_coinId t \<and> te_side t' = te_side t \<and> te_positionConfig t' = te_positionConfig t \<and>
     te_quantity t' = te_quantity t \<and> te_entryPrice t' = te_entryPrice t \<and> te_entryAtr t' = te_entryAtr t"
  using checkTrailing_frame [of config c low high t t' sig]
  by (auto simp: checkPosition_def split: if_splits)

lemma entryOutcome_frame:
  "entryOutcome config cl lo hi c t = (t', sig) \<Longrightarrow>
     te_coinId t' = te_coinId t \<and> te_side t' = te_side t \<and> te_positionConfig t' = te_positionConfig t \<and>
     te_quantity t' = te_quantity t \<and> te_entryPrice t' = te_entryPrice t \<and> te_entryAtr t' = te_entryAtr t"
  by (auto simp: entryOutcome_def dest: checkPosition_frame split: option.splits if_splits)

lemma entryOutcome_coinId [simp]: "te_coinId (fst (entryOutcome config cl lo hi c t)) = te_coinId t"
  using entryOutcome_frame by (metis surjective_pairing)

section \<open>The invariant\<close>

definition keyed :: "(string, TrackedExit) jsmap \<Rightarrow> bool" where
  "keyed m \<longleftrightarrow> map_wf m \<and> list_all (\<lambda>(c, t). te_coinId t = c) m"

definition tracker_ok :: "BacktestExitTracker \<Rightarrow> bool" where
  "tracker_ok tr \<longleftrightarrow> keyed (xt_positions tr) \<and> map_wf (xt_exitCooldowns tr)"

text \<open>The calls of the engine, as events.\<close>

datatype TrackerEvent =
    Buy string number number "number option" "PartialExitConfig option"
  | Sell string number
  | Remove string
  | Bar "(string, number) jsmap" "(string, number) jsmap" "(string, number) jsmap" "number option"
  | Query string number

fun trackerStep :: "BacktestExitTracker \<Rightarrow> TrackerEvent \<Rightarrow> BacktestExitTracker" where
  "trackerStep tr (Buy c p q atr ov) = onBuy tr c p q atr ov"
| "trackerStep tr (Sell c q) = onSell tr c q"
| "trackerStep tr (Remove c) = removePosition tr c"
| "trackerStep tr (Bar cl lo hi bar) = fst (checkExits tr cl lo hi bar)"
| "trackerStep tr (Query c bar) = fst (canEnter tr c bar)"

lemma keyed_set: "keyed m \<Longrightarrow> te_coinId t = c \<Longrightarrow> keyed (map_set c t m)"
  using set_map_set [of c t m] by (fastforce simp: keyed_def list_all_iff)

lemma keyed_delete: "keyed m \<Longrightarrow> keyed (map_delete c m)"
  using set_map_delete [of c m] by (fastforce simp: keyed_def list_all_iff)

lemma keyed_get: "keyed m \<Longrightarrow> map_get m c = Some t \<Longrightarrow> te_coinId t = c"
  by (auto simp: keyed_def list_all_iff dest: map_get_SomeD)

lemma scaleIn_coinId [simp]: "te_coinId (scaleIn config t p q atr ov) = te_coinId t"
  by (auto simp: scaleIn_def Let_def split: option.splits)

lemma openTracked_coinId [simp]: "te_coinId (openTracked config c p q atr ov) = c"
  by (simp add: openTracked_def Let_def)

lemma onBuy_ok: "tracker_ok tr \<Longrightarrow> tracker_ok (onBuy tr c p q atr ov)"
  by (auto simp: tracker_ok_def onBuy_def Let_def split: option.splits intro!: keyed_set dest: keyed_get)

lemma removePosition_ok: "tracker_ok tr \<Longrightarrow> tracker_ok (removePosition tr c)"
  by (simp add: tracker_ok_def removePosition_def keyed_delete)

lemma onSell_ok: "tracker_ok tr \<Longrightarrow> tracker_ok (onSell tr c q)"
  by (auto simp: onSell_def Let_def removePosition_ok split: option.splits)
    (auto simp: tracker_ok_def intro!: keyed_set dest: keyed_get)

lemma registerExitCooldown_wf: "map_wf cds \<Longrightarrow> map_wf (registerExitCooldown config c t bar cds)"
  by (auto simp: registerExitCooldown_def Let_def split: option.splits)

lemma entryCooldowns_wf: "map_wf cds \<Longrightarrow> map_wf (foldl (entryCooldown config cl lo hi bar) cds ps)"
  by (induction ps arbitrary: cds)
    (auto simp: entryCooldown_def Let_def registerExitCooldown_wf split: prod.splits)

lemma keyed_outcomes:
  "keyed m \<Longrightarrow> keyed (map (\<lambda>(c, t). (c, fst (entryOutcome config cl lo hi c t))) m)"
  by (auto simp: keyed_def map_wf_def list_all_iff comp_def case_prod_beta)

lemma checkExits_ok: "tracker_ok tr \<Longrightarrow> tracker_ok (fst (checkExits tr cl lo hi bar))"
  by (cases "checkExits tr cl lo hi bar")
    (simp add: tracker_ok_def checkExits_parts entryCooldowns_wf keyed_outcomes)

lemma canEnter_ok: "tracker_ok tr \<Longrightarrow> tracker_ok (fst (canEnter tr c bar))"
  by (auto simp: tracker_ok_def canEnter_def split: option.splits)

interpretation xt: step_invariant trackerStep tracker_ok "\<lambda>_. True"
proof
  fix tr e assume "tracker_ok tr"
  then show "tracker_ok (trackerStep tr e)"
    by (cases e) (auto simp: onBuy_ok onSell_ok removePosition_ok checkExits_ok canEnter_ok)
qed

lemma trackerStep_config [simp]: "xt_config (trackerStep tr e) = xt_config tr"
  by (cases e)
    (auto simp: onBuy_def onSell_def removePosition_def canEnter_def Let_def checkExits_def
      split: option.splits prod.splits)

lemma trackerRun_config: "xt_config (foldl trackerStep tr es) = xt_config tr"
  by (induction es arbitrary: tr) auto

lemma tracker_ok_new: "tracker_ok (ExitTracker_new config)"
  by (simp add: tracker_ok_def ExitTracker_new_def keyed_def)

lemma trackerRun_ok: "tracker_ok (foldl trackerStep (ExitTracker_new config) es)"
  by (rule xt.run_inv) (auto simp: tracker_ok_new list_all_iff)

section \<open>Trailing stops\<close>

text \<open>
  The stop of a long position never lies above what its high water mark gives; a percentage
  beyond 100 would make a higher mark give a lower stop.
\<close>

definition sane_trailing :: "ExitConfig \<Rightarrow> bool" where
  "sane_trailing c \<longleftrightarrow> (ec_trailingType c = TR_PERCENTAGE \<longrightarrow> ec_trailingValue c \<le> 100)"

definition trails :: "ExitConfig \<Rightarrow> TrackedExit \<Rightarrow> bool" where
  "trails config t \<longleftrightarrow> te_side t = BUY_SIDE \<and> sane_trailing (positionConfigOf config t) \<and>
     (\<exists>s. te_trailingStopPrice t = Some s \<and> s \<le> recalcTrailingStop config t)"

abbreviation trail_level :: "TrackedExit \<Rightarrow> number" where
  "trail_level t \<equiv> the (te_trailingStopPrice t)"

lemma recalc_mono:
  assumes "te_side t = BUY_SIDE" "sane_trailing (positionConfigOf config t)" "te_highWaterMark t \<le> h"
  shows "recalcTrailingStop config t \<le> recalcTrailingStop config (t\<lparr>te_highWaterMark := h\<rparr>)"
  using assms trailing_mono [of "te_highWaterMark t" h "positionConfigOf config t" "te_entryAtr t"]
  by (simp add: recalcTrailingStop_def positionConfigOf_def sane_trailing_def)

lemma recalc_activated [simp]:
  "recalcTrailingStop config (t\<lparr>te_trailingActivated := b\<rparr>) = recalcTrailingStop config t"
  "recalcTrailingStop config (t\<lparr>te_trailingStopPrice := s\<rparr>) = recalcTrailingStop config t"
  "positionConfigOf config (t\<lparr>te_trailingActivated := b\<rparr>) = positionConfigOf config t"
  "positionConfigOf config (t\<lparr>te_trailingStopPrice := s\<rparr>) = positionConfigOf config t"
  "positionConfigOf config (t\<lparr>te_highWaterMark := h\<rparr>) = positionConfigOf config t"
  by (simp_all add: recalcTrailingStop_def positionConfigOf_def Let_def)

lemma trails_activated: "trails config t \<Longrightarrow> trails config (t\<lparr>te_trailingActivated := b\<rparr>)"
  by (simp add: trails_def)

lemma trails_raise:
  assumes "trails config t" "te_highWaterMark t \<le> h"
  defines "t' \<equiv> t\<lparr>te_highWaterMark := h\<rparr>"
  shows "trails config (t'\<lparr>te_trailingStopPrice := Some (recalcTrailingStop config t')\<rparr>) \<and>
    trail_level t \<le> recalcTrailingStop config t'"
  using assms recalc_mono [of t config h] by (auto simp: trails_def)

lemma checkTrailing_trails:
  assumes "trails config t" "checkTrailing config c low high t = (t', sig)"
  shows "trails config t' \<and> trail_level t \<le> trail_level t'"
  using assms trails_raise [of config "t\<lparr>te_trailingActivated := True\<rparr>" high] trails_raise [of config t high]
    trails_activated [of config t True]
  by (auto simp: checkTrailing_def Let_def split: if_splits option.splits)

lemma entryOutcome_trails:
  assumes "trails config t"
  shows "trails config (fst (entryOutcome config cl lo hi c t)) \<and>
    trail_level t \<le> trail_level (fst (entryOutcome config cl lo hi c t))"
proof -
  obtain t' sig where out: "entryOutcome config cl lo hi c t = (t', sig)"
    by (cases "entryOutcome config cl lo hi c t")
  with assms checkTrailing_trails [OF assms] show ?thesis
    by (auto simp: entryOutcome_def checkPosition_def split: option.splits if_splits)
qed

type_synonym PriceBar =
  "(string, number) jsmap \<times> (string, number) jsmap \<times> (string, number) jsmap \<times> number option"

definition barStep :: "BacktestExitTracker \<Rightarrow> PriceBar \<Rightarrow> BacktestExitTracker" where
  "barStep tr b = (let (cl, lo, hi, bar) = b in fst (checkExits tr cl lo hi bar))"

definition coin_trails :: "string \<Rightarrow> BacktestExitTracker \<Rightarrow> bool" where
  "coin_trails c tr \<longleftrightarrow> (\<exists>t. map_get (xt_positions tr) c = Some t \<and> trails (xt_config tr) t)"

definition coin_stop :: "string \<Rightarrow> BacktestExitTracker \<Rightarrow> number" where
  "coin_stop c tr = trail_level (the (map_get (xt_positions tr) c))"

lemma barStep_trails:
  assumes "coin_trails c tr"
  shows "coin_trails c (barStep tr b) \<and> coin_stop c tr \<le> coin_stop c (barStep tr b)"
proof -
  obtain cl lo hi bar where b: "b = (cl, lo, hi, bar)" by (cases b)
  obtain tr' sigs where out: "checkExits tr cl lo hi bar = (tr', sigs)"
    by (cases "checkExits tr cl lo hi bar")
  from assms obtain t where "map_get (xt_positions tr) c = Some t" "trails (xt_config tr) t"
    by (auto simp: coin_trails_def)
  with entryOutcome_trails [of "xt_config tr" t cl lo hi c] show ?thesis
    by (simp add: b out barStep_def coin_trails_def coin_stop_def checkExits_get [OF out]
        checkExits_parts(1) [OF out])
qed

interpretation xtrail: ratchet barStep "coin_trails c" "\<lambda>_. True" "coin_stop c" for c
  by unfold_locales (auto simp: barStep_trails)

lemma openTracked_trails:
  assumes "ec_enableTrailingStop cfg" "sane_trailing cfg" "cfg = nullish ov config"
  shows "trails config (openTracked cfg c p q atr ov)"
    "trail_level (openTracked cfg c p q atr ov) = calculateTrailingStopPrice p BUY_SIDE cfg atr"
  using assms by (simp_all add: trails_def openTracked_def Let_def recalcTrailingStop_def
      positionConfigOf_def calculateTrailingStopPrice_def)

section \<open>Cost averaging\<close>

type_synonym Purchase = "number \<times> number \<times> number option \<times> PartialExitConfig option"

definition buyAll :: "string \<Rightarrow> BacktestExitTracker \<Rightarrow> Purchase list \<Rightarrow> BacktestExitTracker" where
  "buyAll c tr bs = foldl (\<lambda>tr (p, q, atr, ov). onBuy tr c p q atr ov) tr bs"

lemma scaleIn_average:
  "te_quantity (scaleIn config t p q atr ov) = te_quantity t + q"
  "te_entryPrice (scaleIn config t p q atr ov) =
     (te_entryPrice t * te_quantity t + p * q) / (te_quantity t + q)"
  "te_highWaterMark (scaleIn config t p q atr ov) = max (te_highWaterMark t) p"
  by (auto simp: scaleIn_def Let_def split: option.splits)

lemma openTracked_entry:
  "te_quantity (openTracked cfg c p q atr ov) = q"
  "te_entryPrice (openTracked cfg c p q atr ov) = p"
  "te_highWaterMark (openTracked cfg c p q atr ov) = p"
  by (simp_all add: openTracked_def Let_def)

section \<open>Signals\<close>

lemma checkTrailing_signal:
  assumes "checkTrailing config c low high t = (t', Some s)" "te_trailingStopPrice t \<noteq> None"
  shows "xs_coinId s = c \<and> xs_quantity s = te_quantity t \<and> xs_exitType s = TRAILING_STOP_EXIT \<and>
    te_trailingStopPrice t' = Some (xs_executionPrice s) \<and> low \<le> xs_executionPrice s"
  using assms by (auto simp: checkTrailing_def Let_def split: if_splits)

lemma checkPosition_signal:
  assumes "checkPosition config c low high t = (t', Some s)"
  shows "xs_coinId s = c \<and> xs_quantity s = te_quantity t"
    and "xs_exitType s = STOP_LOSS_EXIT \<Longrightarrow>
      te_stopLossPrice t = Some (xs_executionPrice s) \<and> low \<le> xs_executionPrice s"
    and "xs_exitType s \<noteq> STOP_LOSS_EXIT \<Longrightarrow> te_side t = BUY_SIDE \<Longrightarrow>
      te_stopLossPrice t = Some sl \<Longrightarrow> sl < low"
    and "xs_exitType s = TAKE_PROFIT_EXIT \<Longrightarrow>
      te_takeProfitPrice t = Some (xs_executionPrice s) \<and> xs_executionPrice s \<le> high"
    and "xs_exitType s = TRAILING_STOP_EXIT \<Longrightarrow>
      te_trailingStopPrice t' = Some (xs_executionPrice s) \<and> low \<le> xs_executionPrice s"
  using assms checkTrailing_signal [of config c low high t t' s]
  by (auto simp: checkPosition_def split: if_splits option.splits)

lemma checkPosition_stop_loss:
  "te_side t = BUY_SIDE \<Longrightarrow> te_stopLossPrice t = Some sl \<Longrightarrow> low \<le> sl \<Longrightarrow>
   \<exists>s. checkPosition config c low high t = (t, Some s) \<and> xs_exitType s = STOP_LOSS_EXIT \<and>
       xs_coinId s = c \<and> xs_executionPrice s = sl"
  by (simp add: checkPosition_def)

lemma entryOutcome_signal:
  assumes "entryOutcome config cl lo hi c t = (t', Some s)"
  obtains p where "map_get cl c = Some p" "0 < p"
    "checkPosition config c (nullish (map_get lo c) p) (nullish (map_get hi c) p) t = (t', Some s)"
  using assms by (auto simp: entryOutcome_def split: option.splits if_splits)

lemma entryOutcome_signal_coin: "snd (entryOutcome config cl lo hi c t) = Some s \<Longrightarrow> xs_coinId s = c"
  by (cases "entryOutcome config cl lo hi c t")
    (auto elim!: entryOutcome_signal dest: checkPosition_signal(1))

lemma set_map_filter_iff: "y \<in> set (List.map_filter f xs) \<longleftrightarrow> (\<exists>x\<in>set xs. f x = Some y)"
  by (induction xs) (auto simp: List.map_filter_simps split: option.splits)

lemma distinct_signals:
  assumes "distinct (map fst m)" "\<And>c t s. f (c, t) = Some s \<Longrightarrow> xs_coinId s = c"
  shows "distinct (map xs_coinId (List.map_filter f m))"
  using assms(1)
proof (induction m)
  case Nil
  then show ?case by (simp add: List.map_filter_simps)
next
  case (Cons ct m)
  obtain c t where ct: "ct = (c, t)" by (cases ct)
  have "xs_coinId s \<in> fst ` set m" if "s \<in> set (List.map_filter f m)" for s
    using that assms(2) by (force simp: set_map_filter_iff)
  with Cons ct assms(2) [of c t] show ?case
    by (auto simp: List.map_filter_simps split: option.splits)
qed

section \<open>Cooldowns\<close>

lemma entryCooldown_other:
  "fst entry \<noteq> c \<Longrightarrow> map_get (entryCooldown config cl lo hi bar cds entry) c = map_get cds c"
  by (auto simp: entryCooldown_def registerExitCooldown_def Let_def split: prod.splits option.splits)

lemma entryCooldowns_other:
  "c \<notin> fst ` set ps \<Longrightarrow> map_get (foldl (entryCooldown config cl lo hi bar) cds ps) c = map_get cds c"
  by (induction ps arbitrary: cds) (auto simp: entryCooldown_other)

lemma entryCooldowns_get:
  assumes "distinct (map fst ps)" "(c, t) \<in> set ps"
  shows "map_get (foldl (entryCooldown config cl lo hi bar) cds ps) c =
    map_get (entryCooldown config cl lo hi bar cds (c, t)) c"
  using assms
proof (induction ps arbitrary: cds)
  case (Cons p ps)
  show ?case
  proof (cases "p = (c, t)")
    case True
    with Cons.prems show ?thesis by (simp add: entryCooldowns_other)
  next
    case False
    with Cons.prems have mem: "(c, t) \<in> set ps" by auto
    then have "c \<in> fst ` set ps" by force
    with Cons.prems have "fst p \<noteq> c" by auto
    with mem Cons show ?thesis
      by (auto simp: entryCooldown_other entryCooldown_def registerExitCooldown_def Let_def
          split: prod.splits option.splits)
  qed
qed simp

section \<open>Properties\<close>

text \<open>C13. On every bar and after any history of calls, each signal is for a tracked position, for its whole
  quantity, and justified by the bar: a stop-loss at the stop price the low reached, a
  take-profit at the target the high reached with the stop-loss not reached, a trailing stop at
  the updated level the low reached. No position gives two signals, and a long position whose
  stop-loss the low reaches always gives one.\<close>

theorem checkExits_sound:
  assumes "tr = foldl trackerStep (ExitTracker_new config) es"
    "checkExits tr cl lo hi bar = (tr', sigs)"
  shows "distinct (map xs_coinId sigs) \<and>
    (\<forall>s \<in> set sigs. \<exists>t t' p. map_get (xt_positions tr) (xs_coinId s) = Some t \<and>
       map_get (xt_positions tr') (xs_coinId s) = Some t' \<and> xs_quantity s = te_quantity t \<and>
       map_get cl (xs_coinId s) = Some p \<and> 0 < p \<and>
       (let low = nullish (map_get lo (xs_coinId s)) p; high = nullish (map_get hi (xs_coinId s)) p in
        case xs_exitType s of
          STOP_LOSS_EXIT \<Rightarrow> te_stopLossPrice t = Some (xs_executionPrice s) \<and> low \<le> xs_executionPrice s
        | TAKE_PROFIT_EXIT \<Rightarrow> te_takeProfitPrice t = Some (xs_executionPrice s) \<and> xs_executionPrice s \<le> high \<and>
            (te_side t = BUY_SIDE \<longrightarrow> (\<forall>sl. te_stopLossPrice t = Some sl \<longrightarrow> sl < low))
        | TRAILING_STOP_EXIT \<Rightarrow> te_trailingStopPrice t' = Some (xs_executionPrice s) \<and>
            low \<le> xs_executionPrice s)) \<and>
    (\<forall>c t p sl. map_get (xt_positions tr) c = Some t \<and> te_side t = BUY_SIDE \<and> map_get cl c = Some p \<and>
       0 < p \<and> te_stopLossPrice t = Some sl \<and> nullish (map_get lo c) p \<le> sl \<longrightarrow>
       (\<exists>s \<in> set sigs. xs_coinId s = c \<and> xs_exitType s = STOP_LOSS_EXIT \<and> xs_executionPrice s = sl))"
    (is "?distinct \<and> ?sound \<and> ?complete")
proof (intro conjI)
  let ?out = "\<lambda>c t. entryOutcome (xt_config tr) cl lo hi c t"
  have wf: "map_wf (xt_positions tr)"
    using trackerRun_ok [of config es] assms(1) by (simp add: tracker_ok_def keyed_def)
  note sigs = checkExits_parts(4) [OF assms(2)]
  show ?distinct
    unfolding sigs using wf
    by (intro distinct_signals) (auto simp: map_wf_def entryOutcome_signal_coin)
  show ?sound
  proof
    fix s assume "s \<in> set sigs"
    then obtain c t where ct: "(c, t) \<in> set (xt_positions tr)" "snd (?out c t) = Some s"
      by (auto simp: sigs set_map_filter_iff)
    obtain t' where out: "?out c t = (t', Some s)" using ct(2) by (cases "?out c t") auto
    have get: "map_get (xt_positions tr) c = Some t" by (rule map_get_in [OF wf ct(1)])
    from out obtain p where p: "map_get cl c = Some p" "0 < p"
      and chk: "checkPosition (xt_config tr) c (nullish (map_get lo c) p) (nullish (map_get hi c) p) t = (t', Some s)"
      by (rule entryOutcome_signal)
    have c: "xs_coinId s = c" by (rule entryOutcome_signal_coin [OF ct(2)])
    have "map_get (xt_positions tr') c = Some t'"
      by (simp add: checkExits_get [OF assms(2)] get out)
    with get p c checkPosition_signal [OF chk]
    show "\<exists>t t' p. map_get (xt_positions tr) (xs_coinId s) = Some t \<and>
       map_get (xt_positions tr') (xs_coinId s) = Some t' \<and> xs_quantity s = te_quantity t \<and>
       map_get cl (xs_coinId s) = Some p \<and> 0 < p \<and>
       (let low = nullish (map_get lo (xs_coinId s)) p; high = nullish (map_get hi (xs_coinId s)) p in
        case xs_exitType s of
          STOP_LOSS_EXIT \<Rightarrow> te_stopLossPrice t = Some (xs_executionPrice s) \<and> low \<le> xs_executionPrice s
        | TAKE_PROFIT_EXIT \<Rightarrow> te_takeProfitPrice t = Some (xs_executionPrice s) \<and> xs_executionPrice s \<le> high \<and>
            (te_side t = BUY_SIDE \<longrightarrow> (\<forall>sl. te_stopLossPrice t = Some sl \<longrightarrow> sl < low))
        | TRAILING_STOP_EXIT \<Rightarrow> te_trailingStopPrice t' = Some (xs_executionPrice s) \<and>
            low \<le> xs_executionPrice s)"
      by (intro exI [of _ t] exI [of _ t'] exI [of _ p]) (auto simp: Let_def split: ExitType.splits)
  qed
  show ?complete
  proof (intro allI impI, elim conjE)
    fix c t p sl
    assume get: "map_get (xt_positions tr) c = Some t" and "te_side t = BUY_SIDE"
      and p: "map_get cl c = Some p" "0 < p"
      and "te_stopLossPrice t = Some sl" "nullish (map_get lo c) p \<le> sl"
    then obtain s where "?out c t = (t, Some s)" "xs_exitType s = STOP_LOSS_EXIT" "xs_coinId s = c"
      "xs_executionPrice s = sl"
      using checkPosition_stop_loss by (fastforce simp: entryOutcome_def)
    then show "\<exists>s \<in> set sigs. xs_coinId s = c \<and> xs_exitType s = STOP_LOSS_EXIT \<and> xs_executionPrice s = sl"
      using map_get_SomeD [OF get] by (force simp: sigs set_map_filter_iff)
  qed
qed

theorem checkExits_sound_witness:
  "\<exists>s \<in> set (snd (checkExits (onBuy (ExitTracker_new DEFAULT_BACKTEST_EXIT_CONFIG) ''btc'' 100 1 None None)
      [(''btc'', 96)] [(''btc'', 90)] [] None)).
    xs_coinId s = ''btc'' \<and> xs_exitType s = STOP_LOSS_EXIT \<and> xs_executionPrice s = 95"
proof -
  let ?tr = "foldl trackerStep (ExitTracker_new DEFAULT_BACKTEST_EXIT_CONFIG) [Buy ''btc'' 100 1 None None]"
  obtain tr' sigs where out: "checkExits ?tr [(''btc'', 96)] [(''btc'', 90)] [] None = (tr', sigs)"
    by (cases "checkExits ?tr [(''btc'', 96)] [(''btc'', 90)] [] None")
  have pos: "map_get (xt_positions ?tr) ''btc'' =
      Some (openTracked DEFAULT_BACKTEST_EXIT_CONFIG ''btc'' 100 1 None None)"
    by (simp add: onBuy_def ExitTracker_new_def Let_def)
  have "te_stopLossPrice (openTracked DEFAULT_BACKTEST_EXIT_CONFIG ''btc'' 100 1 None None) = Some 95"
    "te_side (openTracked DEFAULT_BACKTEST_EXIT_CONFIG ''btc'' 100 1 None None) = BUY_SIDE"
    by (simp_all add: openTracked_def DEFAULT_BACKTEST_EXIT_CONFIG_def calculateStopLossPrice_def Let_def)
  then show ?thesis
    using conjunct2 [OF conjunct2 [OF checkExits_sound [OF refl out]], rule_format, of "''btc''" _ 96 95]
      pos out by auto
qed

text \<open>C16. A trailing stop only ratchets up: once a coin is bought with trailing enabled (a
  percentage of at most 100), over any sequence of bars its stop never falls below the stop set
  at the entry, nor below the stop at any earlier bar.\<close>

theorem trailing_stop_ratchets:
  fixes p q :: number and atr :: "number option"
  assumes "map_get (xt_positions tr) c = None"
    "cfg = (case ov of None \<Rightarrow> xt_config tr
            | Some l \<Rightarrow> resolveExitConfig [Some (toLayer (xt_config tr)), Some l])"
    "ec_enableTrailingStop cfg" "ec_trailingType cfg = TR_PERCENTAGE \<longrightarrow> ec_trailingValue cfg \<le> 100"
  defines "bought \<equiv> onBuy tr c p q atr ov"
  shows "calculateTrailingStopPrice p BUY_SIDE cfg atr \<le> coin_stop c (foldl barStep bought bars) \<and>
    coin_stop c (foldl barStep bought bars) \<le> coin_stop c (foldl barStep bought (bars @ later))"
proof -
  let ?ov = "map_option (\<lambda>l. resolveExitConfig [Some (toLayer (xt_config tr)), Some l]) ov"
  have cfg: "cfg = nullish ?ov (xt_config tr)" using assms(2) by (cases ov) auto
  have pos: "map_get (xt_positions bought) c = Some (openTracked cfg c p q atr ?ov)"
    "xt_config bought = xt_config tr"
    using assms(1) by (simp_all add: bought_def onBuy_def Let_def cfg)
  note open_trails = openTracked_trails [OF assms(3) _ cfg]
  have "coin_trails c bought" "coin_stop c bought = calculateTrailingStopPrice p BUY_SIDE cfg atr"
    using open_trails assms(4) by (simp_all add: coin_trails_def coin_stop_def pos sane_trailing_def)
  then show ?thesis
    using xtrail.run_level [of c bought bars] xtrail.run_level_mono [of c bought bars later]
    by (simp add: list_all_iff)
qed

definition trailing_config :: ExitConfig where
  "trailing_config = DEFAULT_EXIT_CONFIG\<lparr>ec_enableTrailingStop := True, ec_trailingValue := 10\<rparr>"

theorem trailing_stop_ratchets_witness:
  "90 \<le> coin_stop ''btc'' (foldl barStep (onBuy (ExitTracker_new trailing_config) ''btc'' 100 1 None None)
     [([(''btc'', 150)], [], [], Some 1), ([(''btc'', 120)], [], [], Some 2)])"
  using trailing_stop_ratchets [of "ExitTracker_new trailing_config" "''btc''" trailing_config None 100 None 1
      "[([(''btc'', 150)], [], [], Some 1), ([(''btc'', 120)], [], [], Some 2)]" "[]"]
  by (simp add: ExitTracker_new_def trailing_config_def DEFAULT_EXIT_CONFIG_def
      calculateTrailingStopPrice_def trailingDistance_def)

text \<open>Scaling in averages the cost: after any purchases of positive quantities of a coin
  not yet tracked, the tracked quantity is their sum, the entry price their weighted average
  (cost over quantity) and the high water mark the highest price paid.\<close>

lemma onBuy_cost_average:
  assumes "map_get (xt_positions tr) c = None" "bs \<noteq> []" "\<forall>(p, q, _) \<in> set bs. 0 < q"
  shows "\<exists>t. map_get (xt_positions (buyAll c tr bs)) c = Some t \<and>
    te_quantity t = (\<Sum>(p, q, _) \<leftarrow> bs. q) \<and> 0 < te_quantity t \<and>
    te_entryPrice t * te_quantity t = (\<Sum>(p, q, _) \<leftarrow> bs. p * q) \<and>
    te_highWaterMark t = Max (fst ` set bs)"
  using assms(2,3)
proof (induction bs rule: rev_induct)
  case Nil
  then show ?case by simp
next
  case (snoc b bs)
  obtain p q atr ov where b: "b = (p, q, atr, ov)" by (cases b)
  show ?case
  proof (cases "bs = []")
    case True
    with snoc.prems b assms(1) show ?thesis
      by (auto simp: buyAll_def onBuy_def Let_def openTracked_entry)
  next
    case False
    with snoc obtain t where t: "map_get (xt_positions (buyAll c tr bs)) c = Some t"
      "te_quantity t = (\<Sum>(p, q, _) \<leftarrow> bs. q)" "0 < te_quantity t"
      "te_entryPrice t * te_quantity t = (\<Sum>(p, q, _) \<leftarrow> bs. p * q)"
      "te_highWaterMark t = Max (fst ` set bs)" by auto
    have "Max (fst ` set (bs @ [b])) = max (Max (fst ` set bs)) p"
      using False by (simp add: b max.commute)
    moreover have "buyAll c tr (bs @ [b]) = onBuy (buyAll c tr bs) c p q atr ov"
      by (simp add: buyAll_def b)
    moreover have "0 < q" using snoc.prems b by auto
    ultimately show ?thesis
      using t by (auto simp: onBuy_def Let_def scaleIn_average b)
  qed
qed

text \<open>After a bar, re-entry into a coin that just left by a stop-loss or a trailing stop is
  refused until the cooldown of its position has passed, and exactly until then; a take-profit
  leaves the coin as it was.\<close>

lemma exit_cooldown_blocks_reentry:
  assumes "tr = foldl trackerStep (ExitTracker_new config) es"
    "checkExits tr cl lo hi (Some bar) = (tr', sigs)" "s \<in> set sigs"
    "map_get (xt_positions tr) (xs_coinId s) = Some t"
    "0 < cooldownBarsOf (xt_config tr) t"
  shows "snd (canEnter tr' (xs_coinId s) b) =
    (if xs_exitType s = TAKE_PROFIT_EXIT then snd (canEnter tr (xs_coinId s) b)
     else bar + cooldownBarsOf (xt_config tr) t \<le> b)"
proof -
  let ?out = "\<lambda>c t. entryOutcome (xt_config tr) cl lo hi c t" and ?c = "xs_coinId s"
  have wf: "map_wf (xt_positions tr)"
    using trackerRun_ok [of config es] assms(1) by (simp add: tracker_ok_def keyed_def)
  from assms(3) obtain t1 where t1: "(?c, t1) \<in> set (xt_positions tr)" "snd (?out ?c t1) = Some s"
    by (auto simp: checkExits_parts(4) [OF assms(2)] set_map_filter_iff dest: entryOutcome_signal_coin)
  with map_get_in [OF wf t1(1)] assms(4) obtain t' where out: "?out ?c t = (t', Some s)"
    by (cases "?out ?c t") auto
  have "(?c, t) \<in> set (xt_positions tr)" by (rule map_get_SomeD [OF assms(4)])
  then have "map_get (xt_exitCooldowns tr') ?c =
      map_get (entryCooldown (xt_config tr) cl lo hi (Some bar) (xt_exitCooldowns tr) (?c, t)) ?c"
    using wf by (simp add: checkExits_parts(3) [OF assms(2)] entryCooldowns_get map_wf_def)
  moreover have "cooldownBarsOf (xt_config tr) t' = cooldownBarsOf (xt_config tr) t"
    using entryOutcome_frame [OF out] by (simp add: cooldownBarsOf_def positionConfigOf_def)
  ultimately show ?thesis
    using assms(5) by (auto simp: canEnter_def entryCooldown_def registerExitCooldown_def out Let_def
        split: option.splits)
qed

text \<open>A checkpoint loses nothing: after any history of calls, the tracker restored from its
  serialised state under the same configuration is the tracker itself.\<close>

lemma ExitTracker_roundtrip:
  "ExitTracker_deserialize (ExitTracker_serialize (foldl trackerStep (ExitTracker_new config) es)) config =
   foldl trackerStep (ExitTracker_new config) es"
proof -
  let ?tr = "foldl trackerStep (ExitTracker_new config) es"
  have ok: "keyed (xt_positions ?tr)" "map_wf (xt_exitCooldowns ?tr)"
    using trackerRun_ok [of config es] by (simp_all add: tracker_ok_def)
  have reload: "fold (\<lambda>pos. map_set (te_coinId pos) pos) (map snd m) m0 = fold (\<lambda>(k, v). map_set k v) m m0"
    if "list_all (\<lambda>(c, t). te_coinId t = c) m" for m m0
    using that by (induction m arbitrary: m0) auto
  have "fold (\<lambda>pos. map_set (te_coinId pos) pos) (map snd (xt_positions ?tr)) [] = xt_positions ?tr"
    using ok(1) by (subst reload) (auto simp: keyed_def map_reload)
  with ok trackerRun_config [of "ExitTracker_new config" es] show ?thesis
    by (simp add: ExitTracker_deserialize_def ExitTracker_serialize_def map_reload ExitTracker_new_def)
qed

end
