(* ===== verification/SignalThrottle.thy ===== *)
theory SignalThrottle
  imports ExitConfig "HOL-Library.Multiset"
begin

text \<open>
  \<^verbatim>\<open>order/backtest/shared/throttle/signal-throttle.service.ts\<close> and its interface: the throttle
  between the signals of a strategy and their execution. The state that the source mutates is
  returned; the configuration carries numbers that need not be integers, so the durations and
  the cap are reals compared with the integer timestamps and counts.
\<close>

section \<open>Data\<close>

datatype SignalType = BUY | SELL | HOLD | STOP_LOSS | TAKE_PROFIT | SHORT_ENTRY | SHORT_EXIT

datatype TradeAction = BUY_ACTION | SELL_ACTION | HOLD_ACTION | OPEN_SHORT | CLOSE_SHORT

record TradingSignal =
  sg_action :: TradeAction
  sg_coinId :: string
  sg_quantity :: "number option"
  sg_percentage :: "number option"
  sg_reason :: string
  sg_confidence :: "number option"
  sg_metadata :: "(string, js_value) jsmap option"
  sg_originalType :: "SignalType option"
  sg_exitConfig :: "PartialExitConfig option"

text \<open>The signal of an algorithm, the fields that the conversion reads.\<close>

record AlgorithmTradingSignal =
  as_type :: SignalType
  as_coinId :: string
  as_quantity :: "number option"
  as_reason :: string
  as_confidence :: number
  as_exitConfig :: "PartialExitConfig option"

record SignalThrottleConfig =
  tc_cooldownMs :: number
  tc_maxTradesPerDay :: number
  tc_minSellPercent :: number

definition DEFAULT_THROTTLE_CONFIG :: SignalThrottleConfig where
  "DEFAULT_THROTTLE_CONFIG =
     \<lparr>tc_cooldownMs = 86400000, tc_maxTradesPerDay = 6, tc_minSellPercent = 5 / 10\<rparr>"

definition PAPER_TRADING_DEFAULT_THROTTLE_CONFIG :: SignalThrottleConfig where
  "PAPER_TRADING_DEFAULT_THROTTLE_CONFIG =
     DEFAULT_THROTTLE_CONFIG\<lparr>tc_cooldownMs := 60 * 60 * 1000\<rparr>"

text \<open>The key of a cooldown is the text of the coin and the direction.\<close>

fun actionText :: "TradeAction \<Rightarrow> string" where
  "actionText BUY_ACTION = ''BUY''"
| "actionText SELL_ACTION = ''SELL''"
| "actionText HOLD_ACTION = ''HOLD''"
| "actionText OPEN_SHORT = ''OPEN_SHORT''"
| "actionText CLOSE_SHORT = ''CLOSE_SHORT''"

definition CooldownKey :: "string \<Rightarrow> TradeAction \<Rightarrow> string" where
  "CooldownKey coinId direction = coinId @ '':'' @ actionText direction"

record ThrottleState =
  th_lastSignalTime :: "(string, time_ms) jsmap"
  th_tradeTimestamps :: "time_ms list"

record ThrottleResult =
  tr_accepted :: "TradingSignal list"
  tr_rejected :: "TradingSignal list"

definition THROTTLE_BYPASS_TYPES :: "SignalType list" where
  "THROTTLE_BYPASS_TYPES = [STOP_LOSS, TAKE_PROFIT, SHORT_EXIT]"

fun SIGNAL_TYPE_TO_ACTION :: "SignalType \<Rightarrow> TradeAction" where
  "SIGNAL_TYPE_TO_ACTION BUY = BUY_ACTION"
| "SIGNAL_TYPE_TO_ACTION SELL = SELL_ACTION"
| "SIGNAL_TYPE_TO_ACTION STOP_LOSS = SELL_ACTION"
| "SIGNAL_TYPE_TO_ACTION TAKE_PROFIT = SELL_ACTION"
| "SIGNAL_TYPE_TO_ACTION SHORT_ENTRY = OPEN_SHORT"
| "SIGNAL_TYPE_TO_ACTION SHORT_EXIT = CLOSE_SHORT"
| "SIGNAL_TYPE_TO_ACTION HOLD = HOLD_ACTION"

definition TWENTY_FOUR_HOURS_MS :: time_ms where
  "TWENTY_FOUR_HOURS_MS = 24 * 60 * 60 * 1000"

section \<open>Operations\<close>

definition createThrottleState :: ThrottleState where
  "createThrottleState = \<lparr>th_lastSignalTime = [], th_tradeTimestamps = []\<rparr>"

definition clampParam :: "js_value option \<Rightarrow> number \<Rightarrow> number \<Rightarrow> number \<Rightarrow> number" where
  "clampParam val fallback lo hi =
     (let n = (case val of Some (JNumber (Finite x)) \<Rightarrow> x | _ \<Rightarrow> fallback) in max lo (min hi n))"

definition resolveConfig ::
    "(string, js_value) jsmap option \<Rightarrow> SignalThrottleConfig \<Rightarrow> SignalThrottleConfig" where
  "resolveConfig params defaults =
     (let param = (\<lambda>key. case params of None \<Rightarrow> None | Some p \<Rightarrow> map_get p key)
      in \<lparr>tc_cooldownMs = clampParam (param ''cooldownMs'') (tc_cooldownMs defaults) 0 604800000,
          tc_maxTradesPerDay = clampParam (param ''maxTradesPerDay'') (tc_maxTradesPerDay defaults) 0 50,
          tc_minSellPercent = clampParam (param ''minSellPercent'') (tc_minSellPercent defaults) 0 1\<rparr>)"

text \<open>The pruning at the start of \<^verbatim>\<open>filterSignals\<close>, the only write to the state.\<close>

definition pruneState :: "ThrottleState \<Rightarrow> SignalThrottleConfig \<Rightarrow> time_ms \<Rightarrow> ThrottleState" where
  "pruneState state config now =
     \<lparr>th_lastSignalTime =
        (if tc_cooldownMs config > 0
         then filter (\<lambda>(key, t). \<not> real_of_int t \<le> real_of_int now - tc_cooldownMs config)
                (th_lastSignalTime state)
         else th_lastSignalTime state),
      th_tradeTimestamps =
        filter (\<lambda>ts. ts > now - TWENTY_FOUR_HOURS_MS) (th_tradeTimestamps state)\<rparr>"

text \<open>The cooldown test, shared by both branches: the ledger, then the keys of this batch.\<close>

definition inCooldown ::
    "ThrottleState \<Rightarrow> SignalThrottleConfig \<Rightarrow> time_ms \<Rightarrow> string set \<Rightarrow> string \<Rightarrow> bool" where
  "inCooldown state config now batchAccepted key =
     ((case map_get (th_lastSignalTime state) key of
         None \<Rightarrow> False
       | Some lastTime \<Rightarrow> real_of_int (now - lastTime) < tc_cooldownMs config) \<or>
      key \<in> batchAccepted)"

definition enforceMinSell :: "SignalThrottleConfig \<Rightarrow> TradingSignal \<Rightarrow> TradingSignal" where
  "enforceMinSell config signal =
     (if sg_action signal = SELL_ACTION \<and> sg_quantity signal = None \<and> tc_minSellPercent config > 0 \<and>
         nullish (sg_percentage signal) 0 < tc_minSellPercent config
      then signal\<lparr>sg_percentage := Some (tc_minSellPercent config)\<rparr> else signal)"

definition bypassSignal :: "TradingSignal \<Rightarrow> bool" where
  "bypassSignal signal =
     (case sg_originalType signal of None \<Rightarrow> False | Some ty \<Rightarrow> ty \<in> set THROTTLE_BYPASS_TYPES)"

text \<open>
  One signal of the loop: what is accepted (the signal or its raised form) or \<open>None\<close> when it
  is rejected, and the keys accepted so far in the batch.
\<close>

definition throttleSignal ::
    "ThrottleState \<Rightarrow> SignalThrottleConfig \<Rightarrow> time_ms \<Rightarrow> string set \<Rightarrow> TradingSignal \<Rightarrow>
     TradingSignal option \<times> string set" where
  "throttleSignal state config now batchAccepted signal =
     (let key = CooldownKey (sg_coinId signal) (sg_action signal);
          batch' = (if tc_cooldownMs config > 0 then insert key batchAccepted else batchAccepted)
      in if sg_action signal = HOLD_ACTION then (None, batchAccepted)
         else if tc_cooldownMs config > 0 \<and> inCooldown state config now batchAccepted key
         then (None, batchAccepted)
         else if bypassSignal signal then (Some signal, batch')
         else if tc_maxTradesPerDay config > 0 \<and>
                 real (length (th_tradeTimestamps state)) \<ge> tc_maxTradesPerDay config
         then (None, batchAccepted)
         else (Some (enforceMinSell config signal), batch'))"

fun throttleLoop ::
    "ThrottleState \<Rightarrow> SignalThrottleConfig \<Rightarrow> time_ms \<Rightarrow> string set \<Rightarrow> TradingSignal list \<Rightarrow>
     ThrottleResult \<Rightarrow> ThrottleResult" where
  "throttleLoop state config now batchAccepted [] result = result"
| "throttleLoop state config now batchAccepted (signal # signals) result =
     (case throttleSignal state config now batchAccepted signal of
        (None, batch) \<Rightarrow>
          throttleLoop state config now batch signals (result\<lparr>tr_rejected := tr_rejected result @ [signal]\<rparr>)
      | (Some effective, batch) \<Rightarrow>
          throttleLoop state config now batch signals (result\<lparr>tr_accepted := tr_accepted result @ [effective]\<rparr>))"

definition filterSignals ::
    "TradingSignal list \<Rightarrow> ThrottleState \<Rightarrow> SignalThrottleConfig \<Rightarrow> time_ms \<Rightarrow>
     ThrottleResult \<times> ThrottleState" where
  "filterSignals signals state config now =
     (let pruned = pruneState state config now
      in (throttleLoop pruned config now {} signals \<lparr>tr_accepted = [], tr_rejected = []\<rparr>, pruned))"

definition markExecuted :: "ThrottleState \<Rightarrow> TradingSignal \<Rightarrow> time_ms \<Rightarrow> ThrottleState" where
  "markExecuted state signal now =
     (if sg_action signal = HOLD_ACTION then state
      else state\<lparr>th_lastSignalTime :=
                   map_set (CooldownKey (sg_coinId signal) (sg_action signal)) now (th_lastSignalTime state),
                 th_tradeTimestamps := th_tradeTimestamps state @ [now]\<rparr>)"

text \<open>An empty coin id is falsy.\<close>

definition markExecutedFromAlgo ::
    "ThrottleState option \<Rightarrow> SignalType option \<Rightarrow> string option \<Rightarrow> time_ms \<Rightarrow> ThrottleState option \<times> bool" where
  "markExecutedFromAlgo state signalType coinId now =
     (case (state, signalType, coinId) of
        (Some st, Some ty, Some coin) \<Rightarrow>
          if coin = [] \<or> ty \<in> set THROTTLE_BYPASS_TYPES \<or> SIGNAL_TYPE_TO_ACTION ty = HOLD_ACTION
          then (state, False)
          else (Some (markExecuted st
                        \<lparr>sg_action = SIGNAL_TYPE_TO_ACTION ty, sg_coinId = coin, sg_quantity = None,
                         sg_percentage = None, sg_reason = [], sg_confidence = None, sg_metadata = None,
                         sg_originalType = None, sg_exitConfig = None\<rparr> now), True)
      | _ \<Rightarrow> (state, False))"

text \<open>The serialised state has the fields of the state; both directions copy them.\<close>

definition Throttle_serialize :: "ThrottleState \<Rightarrow> ThrottleState" where
  "Throttle_serialize state =
     \<lparr>th_lastSignalTime = th_lastSignalTime state, th_tradeTimestamps = th_tradeTimestamps state\<rparr>"

definition Throttle_deserialize :: "ThrottleState \<Rightarrow> ThrottleState" where
  "Throttle_deserialize serialized =
     \<lparr>th_lastSignalTime = th_lastSignalTime serialized,
      th_tradeTimestamps = th_tradeTimestamps serialized\<rparr>"

definition toThrottleSignal :: "AlgorithmTradingSignal \<Rightarrow> TradingSignal" where
  "toThrottleSignal signal =
     \<lparr>sg_action = SIGNAL_TYPE_TO_ACTION (as_type signal), sg_coinId = as_coinId signal,
      sg_quantity = as_quantity signal, sg_percentage = None, sg_reason = as_reason signal,
      sg_confidence = Some (as_confidence signal), sg_metadata = None,
      sg_originalType = Some (as_type signal), sg_exitConfig = as_exitConfig signal\<rparr>"

section \<open>The keys\<close>

lemma CooldownKey_inject:
  assumes "CooldownKey c a = CooldownKey d b"
  shows "c = d \<and> a = b"
proof -
  from assms have "rev (CooldownKey c a) = rev (CooldownKey d b)" by simp
  then show ?thesis
    by (cases a; cases b) (simp_all add: CooldownKey_def)
qed

lemma CooldownKey_eq [simp]: "CooldownKey c a = CooldownKey d b \<longleftrightarrow> c = d \<and> a = b"
  using CooldownKey_inject by auto

abbreviation signalKey :: "TradingSignal \<Rightarrow> string" where
  "signalKey s \<equiv> CooldownKey (sg_coinId s) (sg_action s)"

section \<open>The loop\<close>

text \<open>The outcome of each signal of a batch.\<close>

fun outcomes ::
    "ThrottleState \<Rightarrow> SignalThrottleConfig \<Rightarrow> time_ms \<Rightarrow> string set \<Rightarrow> TradingSignal list \<Rightarrow>
     (TradingSignal \<times> TradingSignal option) list" where
  "outcomes st c now b [] = []"
| "outcomes st c now b (s # ss) =
     (s, fst (throttleSignal st c now b s)) # outcomes st c now (snd (throttleSignal st c now b s)) ss"

lemma throttleLoop_outcomes:
  "throttleLoop st c now b ss r =
     r\<lparr>tr_accepted := tr_accepted r @ List.map_filter snd (outcomes st c now b ss),
       tr_rejected := tr_rejected r @ map fst (filter (\<lambda>(s, a). a = None) (outcomes st c now b ss))\<rparr>"
  by (induction ss arbitrary: b r) (auto simp: List.map_filter_simps split: prod.splits option.splits)

lemma filterSignals_parts:
  assumes "filterSignals ss st c now = (r, st')"
  shows "st' = pruneState st c now"
    "tr_accepted r = List.map_filter snd (outcomes st' c now {} ss)"
    "tr_rejected r = map fst (filter (\<lambda>(s, a). a = None) (outcomes st' c now {} ss))"
  using assms by (auto simp: filterSignals_def Let_def throttleLoop_outcomes)

lemma enforceMinSell_frame [simp]:
  "sg_action (enforceMinSell c s) = sg_action s" "sg_coinId (enforceMinSell c s) = sg_coinId s"
  "sg_originalType (enforceMinSell c s) = sg_originalType s"
  "(enforceMinSell c s)\<lparr>sg_percentage := p\<rparr> = s\<lparr>sg_percentage := p\<rparr>"
  by (simp_all add: enforceMinSell_def)

lemma bypass_enforceMinSell [simp]: "bypassSignal (enforceMinSell c s) = bypassSignal s"
  by (simp add: bypassSignal_def)

lemma throttleSignal_accepts:
  assumes "throttleSignal st c now b s = (Some e, b')"
  shows "e = (if bypassSignal s then s else enforceMinSell c s)" "sg_action s \<noteq> HOLD_ACTION"
    "b' = (if tc_cooldownMs c > 0 then insert (signalKey s) b else b)"
    "tc_cooldownMs c > 0 \<Longrightarrow> \<not> inCooldown st c now b (signalKey s)"
    "\<not> bypassSignal s \<Longrightarrow> tc_maxTradesPerDay c > 0 \<Longrightarrow>
       real (length (th_tradeTimestamps st)) < tc_maxTradesPerDay c"
  using assms by (auto simp: throttleSignal_def Let_def split: if_splits)

lemma throttleSignal_rejects: "throttleSignal st c now b s = (None, b') \<Longrightarrow> b' = b"
  by (auto simp: throttleSignal_def Let_def split: if_splits)

text \<open>Every accepted signal passed the tests for some batch of keys that contains the initial one.\<close>

lemma outcomes_accepts:
  assumes "(s, Some e) \<in> set (outcomes st c now b ss)"
  shows "s \<in> set ss \<and> (\<exists>b0 b1. b \<subseteq> b0 \<and> throttleSignal st c now b0 s = (Some e, b1))"
  using assms
proof (induction ss arbitrary: b)
  case (Cons x xs)
  let ?b' = "snd (throttleSignal st c now b x)"
  have sub: "b \<subseteq> ?b'"
    by (cases "throttleSignal st c now b x"; cases "fst (throttleSignal st c now b x)")
      (auto dest: throttleSignal_accepts(3) throttleSignal_rejects split: if_splits)
  show ?case
  proof (cases "s = x \<and> fst (throttleSignal st c now b x) = Some e")
    case True
    then show ?thesis by (cases "throttleSignal st c now b x") auto
  next
    case False
    with Cons.prems have "(s, Some e) \<in> set (outcomes st c now ?b' xs)" by auto
    from Cons.IH [OF this] sub show ?thesis by auto
  qed
qed simp

lemma accepted_signal:
  assumes "filterSignals ss st c now = (r, st')" "e \<in> set (tr_accepted r)"
  obtains s b b' where "s \<in> set ss" "throttleSignal st' c now b s = (Some e, b')"
proof -
  from assms obtain s where "(s, Some e) \<in> set (outcomes st' c now {} ss)"
    by (auto simp: filterSignals_parts(2) List.map_filter_def)
  with that outcomes_accepts show ?thesis by blast
qed

text \<open>With a cooldown, the keys accepted in a batch are new and distinct.\<close>

lemma outcomes_distinct:
  assumes "tc_cooldownMs c > 0"
  shows "distinct (map signalKey (List.map_filter snd (outcomes st c now b ss))) \<and>
    signalKey ` set (List.map_filter snd (outcomes st c now b ss)) \<inter> b = {}"
proof (induction ss arbitrary: b)
  case (Cons s ss)
  obtain e b' where step: "throttleSignal st c now b s = (e, b')"
    by (cases "throttleSignal st c now b s")
  show ?case
  proof (cases e)
    case None
    with step throttleSignal_rejects [of st c now b s b'] Cons [of b] show ?thesis
      by (simp add: List.map_filter_simps)
  next
    case (Some a)
    note acc = throttleSignal_accepts [of st c now b s a b']
    have "signalKey a = signalKey s" using acc(1) step Some by simp
    moreover have "signalKey s \<notin> b" "b' = insert (signalKey s) b"
      using acc(3,4) step Some assms by (simp_all add: inCooldown_def)
    ultimately show ?thesis
      using Cons [of b'] step Some by (auto simp: List.map_filter_simps)
  qed
qed (simp add: List.map_filter_simps)

lemma outcomes_partition:
  "mset (map (sg_percentage_update (\<lambda>_. None)) (List.map_filter snd (outcomes st c now b ss))) +
   mset (map (sg_percentage_update (\<lambda>_. None)) (map fst (filter (\<lambda>(s, a). a = None) (outcomes st c now b ss)))) =
   mset (map (sg_percentage_update (\<lambda>_. None)) ss)"
proof (induction ss arbitrary: b)
  case (Cons s ss)
  obtain e b' where step: "throttleSignal st c now b s = (e, b')"
    by (cases "throttleSignal st c now b s")
  with Cons [of b'] throttleSignal_accepts(1) [of st c now b s _ b'] show ?case
    by (cases e) (auto simp: List.map_filter_simps split: if_splits)
qed (simp add: List.map_filter_simps)

lemma map_wf_filter: "map_wf m \<Longrightarrow> map_wf (filter P m)"
  by (simp add: map_wf_def distinct_map_filter)

section \<open>Runs\<close>

text \<open>
  A run of an engine: after a delay a batch is filtered; of the accepted signals that it executes
  (a choice of its own) it marks those whose type is not one that bypasses the throttle, as the
  engines do. The state keeps all executions, oldest first, with their keys and times, and whether
  they were marked.
\<close>

record ThrottleRun =
  run_state :: ThrottleState
  run_executions :: "(bool \<times> string \<times> time_ms) list"
  run_clock :: time_ms

type_synonym ThrottleRound = "time_ms \<times> TradingSignal list \<times> (TradingSignal \<Rightarrow> bool)"

definition throttleRound :: "SignalThrottleConfig \<Rightarrow> ThrottleRun \<Rightarrow> ThrottleRound \<Rightarrow> ThrottleRun" where
  "throttleRound config run rnd =
     (let (delay, signals, executes) = rnd;
          now = run_clock run + delay;
          (result, st) = filterSignals signals (run_state run) config now;
          done = filter executes (tr_accepted result)
      in \<lparr>run_state = foldl (\<lambda>st s. markExecuted st s now) st (filter (\<lambda>s. \<not> bypassSignal s) done),
          run_executions = run_executions run @ map (\<lambda>s. (\<not> bypassSignal s, signalKey s, now)) done,
          run_clock = now\<rparr>)"

definition spaced :: "number \<Rightarrow> (bool \<times> string \<times> time_ms) list \<Rightarrow> bool" where
  "spaced cooldown xs =
     sorted_wrt (\<lambda>(marked, k, t) (_, k', t'). marked \<and> k = k' \<longrightarrow> cooldown \<le> real_of_int (t' - t)) xs"

definition run_ok :: "SignalThrottleConfig \<Rightarrow> ThrottleRun \<Rightarrow> bool" where
  "run_ok config run \<longleftrightarrow>
     map_wf (th_lastSignalTime (run_state run)) \<and> spaced (tc_cooldownMs config) (run_executions run) \<and>
     (\<forall>(marked, k, t) \<in> set (run_executions run). t \<le> run_clock run \<and>
        (marked \<and> real_of_int (run_clock run - t) < tc_cooldownMs config \<longrightarrow>
           (\<exists>t'. map_get (th_lastSignalTime (run_state run)) k = Some t' \<and> t \<le> t')))"

lemma pruneState_wf: "map_wf (th_lastSignalTime st) \<Longrightarrow> map_wf (th_lastSignalTime (pruneState st c now))"
  by (simp add: pruneState_def map_wf_filter)

lemma pruneState_get:
  assumes "map_wf (th_lastSignalTime st)" "map_get (th_lastSignalTime st) k = Some t"
    "real_of_int (now - t) < tc_cooldownMs c"
  shows "map_get (th_lastSignalTime (pruneState st c now)) k = Some t"
  using assms map_get_filter [of "th_lastSignalTime st" "\<lambda>_ t. \<not> real_of_int t \<le> real_of_int now - tc_cooldownMs c" k]
  by (simp add: pruneState_def)

lemma markAll_get:
  "\<forall>s \<in> set ss. sg_action s \<noteq> HOLD_ACTION \<Longrightarrow>
   map_get (th_lastSignalTime (foldl (\<lambda>st s. markExecuted st s now) st ss)) k =
     (if k \<in> signalKey ` set ss then Some now else map_get (th_lastSignalTime st) k)"
  by (induction ss arbitrary: st) (auto simp: markExecuted_def)

lemma markAll_wf:
  "map_wf (th_lastSignalTime st) \<Longrightarrow>
   map_wf (th_lastSignalTime (foldl (\<lambda>st s. markExecuted st s now) st ss))"
  by (induction ss arbitrary: st) (auto simp: markExecuted_def)

lemma spaced_append:
  assumes "spaced d xs" "distinct (map (fst \<circ> snd) ys)"
    and "\<And>k t n t'. (True, k, t) \<in> set xs \<Longrightarrow> (n, k, t') \<in> set ys \<Longrightarrow> d \<le> real_of_int (t' - t)"
  shows "spaced d (xs @ ys)"
proof -
  have "sorted_wrt (\<lambda>(marked, k, t) (_, k', t'). marked \<and> k = k' \<longrightarrow> d \<le> real_of_int (t' - t)) ys"
    using assms(2) by (induction ys) force+
  then show ?thesis
    using assms(1,3) by (auto simp: spaced_def sorted_wrt_append)
qed

lemma throttleRound_ok:
  assumes "tc_cooldownMs config > 0" "run_ok config run" "0 \<le> fst rnd"
  shows "run_ok config (throttleRound config run rnd)"
proof -
  obtain delay signals executes where rnd: "rnd = (delay, signals, executes)" by (cases rnd)
  define now where "now = run_clock run + delay"
  obtain r st where filt: "filterSignals signals (run_state run) config now = (r, st)"
    by (cases "filterSignals signals (run_state run) config now")
  let ?done = "filter executes (tr_accepted r)"
  let ?marked = "filter (\<lambda>s. \<not> bypassSignal s) ?done"
  let ?new = "map (\<lambda>s. (\<not> bypassSignal s, signalKey s, now)) ?done"
  let ?st' = "foldl (\<lambda>st s. markExecuted st s now) st ?marked"
  have run': "throttleRound config run rnd =
      \<lparr>run_state = ?st', run_executions = run_executions run @ ?new, run_clock = now\<rparr>"
    by (simp add: throttleRound_def rnd filt now_def [symmetric] Let_def)
  have st: "st = pruneState (run_state run) config now" and
    acc: "tr_accepted r = List.map_filter snd (outcomes st config now {} signals)"
    using filterSignals_parts [OF filt] by simp_all
  have later: "run_clock run \<le> now" using assms(3) by (simp add: now_def rnd)
  have wf: "map_wf (th_lastSignalTime (run_state run))" using assms(2) by (simp add: run_ok_def)
  have ledger: "t \<le> now \<and> (marked \<and> real_of_int (now - t) < tc_cooldownMs config \<longrightarrow>
      (\<exists>t'. map_get (th_lastSignalTime st) k = Some t' \<and> t \<le> t'))"
    if "(marked, k, t) \<in> set (run_executions run)" for marked k t
    using that assms(2) later pruneState_get [OF wf] by (fastforce simp: run_ok_def st)
  have test: "sg_action s \<noteq> HOLD_ACTION \<and>
      (\<forall>t'. map_get (th_lastSignalTime st) (signalKey s) = Some t' \<longrightarrow> tc_cooldownMs config \<le> real_of_int (now - t'))"
    if acc: "s \<in> set (tr_accepted r)" for s
  proof -
    from accepted_signal [OF filt acc] obtain s0 b b' where
      "throttleSignal st config now b s0 = (Some s, b')" by blast
    from throttleSignal_accepts [OF this] assms(1) show ?thesis
      by (auto simp: inCooldown_def split: if_splits)
  qed
  have "distinct (map signalKey ?done)"
    using outcomes_distinct [OF assms(1), of st now "{}" signals] by (simp add: acc distinct_map_filter)
  then have "spaced (tc_cooldownMs config) (run_executions run @ ?new)"
  proof (intro spaced_append)
    show "spaced (tc_cooldownMs config) (run_executions run)" using assms(2) by (simp add: run_ok_def)
    fix k t n t' assume old: "(True, k, t) \<in> set (run_executions run)" and "(n, k, t') \<in> set ?new"
    then obtain s where "s \<in> set (tr_accepted r)" "k = signalKey s" "t' = now" by auto
    with test ledger [OF old] show "tc_cooldownMs config \<le> real_of_int (t' - t)" by fastforce
  qed (simp add: comp_def)
  moreover have "map_wf (th_lastSignalTime ?st')" using wf by (simp add: markAll_wf st pruneState_wf)
  moreover have "map_get (th_lastSignalTime ?st') k =
      (if k \<in> signalKey ` set ?marked then Some now else map_get (th_lastSignalTime st) k)" for k
    using test by (intro markAll_get) auto
  ultimately show ?thesis
    using ledger by (fastforce simp: run' run_ok_def)
qed

interpretation throttle: step_invariant "throttleRound config"
    "\<lambda>run. tc_cooldownMs config > 0 \<and> run_ok config run" "\<lambda>rnd. 0 \<le> fst rnd" for config
  by unfold_locales (simp add: throttleRound_ok)

definition startRun :: "time_ms \<Rightarrow> ThrottleRun" where
  "startRun now = \<lparr>run_state = createThrottleState, run_executions = [], run_clock = now\<rparr>"

lemma run_ok_start: "run_ok config (startRun now)"
  by (simp add: run_ok_def startRun_def createThrottleState_def spaced_def)

section \<open>Properties\<close>


definition btc_buy :: TradingSignal where
  "btc_buy = \<lparr>sg_action = BUY_ACTION, sg_coinId = ''btc'', sg_quantity = None, sg_percentage = None,
              sg_reason = [], sg_confidence = None, sg_metadata = None, sg_originalType = None,
              sg_exitConfig = None\<rparr>"

lemma btc_buy_fields [simp]:
  "sg_action btc_buy = BUY_ACTION" "sg_coinId btc_buy = ''btc''" "\<not> bypassSignal btc_buy"
  "enforceMinSell c btc_buy = btc_buy"
  by (simp_all add: btc_buy_def bypassSignal_def enforceMinSell_def)

definition short_cooldown :: SignalThrottleConfig where
  "short_cooldown = \<lparr>tc_cooldownMs = 10, tc_maxTradesPerDay = 6, tc_minSellPercent = 5 / 10\<rparr>"


text \<open>Filtering loses and invents no signal: up to the sell percentage, the accepted and
  the rejected signals together are the signals given; no \<^verbatim>\<open>HOLD\<close> is accepted; an accepted
  signal is the one given, or, for an ordinary sell without a quantity, the one given raised to
  the configured floor.\<close>

lemma filterSignals_partition:
  assumes "filterSignals ss st c now = (r, st')"
  shows "mset (map (sg_percentage_update (\<lambda>_. None)) (tr_accepted r)) +
      mset (map (sg_percentage_update (\<lambda>_. None)) (tr_rejected r)) =
      mset (map (sg_percentage_update (\<lambda>_. None)) ss) \<and>
    (\<forall>e \<in> set (tr_accepted r). sg_action e \<noteq> HOLD_ACTION \<and> (\<exists>s \<in> set ss. e = s \<or>
       sg_action s = SELL_ACTION \<and> sg_quantity s = None \<and> \<not> bypassSignal s \<and>
       nullish (sg_percentage s) 0 < tc_minSellPercent c \<and>
       e = s\<lparr>sg_percentage := Some (tc_minSellPercent c)\<rparr>)) \<and>
    (\<forall>e \<in> set (tr_accepted r). sg_action e = SELL_ACTION \<and> sg_quantity e = None \<and> \<not> bypassSignal e \<and>
       0 < tc_minSellPercent c \<longrightarrow> tc_minSellPercent c \<le> nullish (sg_percentage e) 0)"
proof (intro conjI ballI)
  show "mset (map (sg_percentage_update (\<lambda>_. None)) (tr_accepted r)) +
      mset (map (sg_percentage_update (\<lambda>_. None)) (tr_rejected r)) =
      mset (map (sg_percentage_update (\<lambda>_. None)) ss)"
    using outcomes_partition filterSignals_parts [OF assms] by simp
next
  fix e assume e: "e \<in> set (tr_accepted r)"
  from accepted_signal [OF assms e] obtain s b b' where s: "s \<in> set ss"
    and step: "throttleSignal st' c now b s = (Some e, b')" by blast
  note acc = throttleSignal_accepts(1,2) [OF step]
  show "sg_action e \<noteq> HOLD_ACTION" using acc by (auto split: if_splits)
  show "\<exists>s \<in> set ss. e = s \<or> sg_action s = SELL_ACTION \<and> sg_quantity s = None \<and> \<not> bypassSignal s \<and>
      nullish (sg_percentage s) 0 < tc_minSellPercent c \<and> e = s\<lparr>sg_percentage := Some (tc_minSellPercent c)\<rparr>"
    using acc(1) s by (intro bexI [of _ s]) (auto simp: enforceMinSell_def split: if_splits)
  show "sg_action e = SELL_ACTION \<and> sg_quantity e = None \<and> \<not> bypassSignal e \<and> 0 < tc_minSellPercent c \<longrightarrow>
      tc_minSellPercent c \<le> nullish (sg_percentage e) 0"
    using acc(1) by (auto simp: enforceMinSell_def split: if_splits)
qed

text \<open>The daily cap holds between calls: once the executions of the last 24 hours reach a
  positive cap, a call accepts risk-control signals only. The prune keeps exactly those
  executions.\<close>

lemma daily_cap_blocks:
  assumes "filterSignals ss st c now = (r, st')" "0 < tc_maxTradesPerDay c"
    "tc_maxTradesPerDay c \<le> real (length (filter (\<lambda>t. now - TWENTY_FOUR_HOURS_MS < t) (th_tradeTimestamps st)))"
    "e \<in> set (tr_accepted r)"
  shows "\<exists>ty. sg_originalType e = Some ty \<and> ty \<in> {STOP_LOSS, TAKE_PROFIT, SHORT_EXIT}"
proof -
  from accepted_signal [OF assms(1,4)] obtain s b b' where
    step: "throttleSignal st' c now b s = (Some e, b')" by blast
  have "th_tradeTimestamps st' = filter (\<lambda>t. now - TWENTY_FOUR_HOURS_MS < t) (th_tradeTimestamps st)"
    using filterSignals_parts(1) [OF assms(1)] by (simp add: pruneState_def)
  with throttleSignal_accepts(1,5) [OF step] assms(2,3) have "bypassSignal e" by (auto split: if_splits)
  then show ?thesis by (auto simp: bypassSignal_def THROTTLE_BYPASS_TYPES_def split: option.splits)
qed

text \<open>The daily cap does not hold within a call: on a fresh state with a positive cap, a
  batch of ordinary signals with distinct keys is accepted whole, however long it is.\<close>

lemma daily_cap_not_within_batch:
  assumes "0 < tc_maxTradesPerDay c" "\<forall>s \<in> set ss. sg_action s \<noteq> HOLD_ACTION \<and> \<not> bypassSignal s"
    "distinct (map (\<lambda>s. CooldownKey (sg_coinId s) (sg_action s)) ss)"
  shows "tr_accepted (fst (filterSignals ss createThrottleState c now)) = map (enforceMinSell c) ss"
proof -
  let ?st = "pruneState createThrottleState c now"
  have "outcomes ?st c now b ss = map (\<lambda>s. (s, Some (enforceMinSell c s))) ss"
    if "b \<inter> signalKey ` set ss = {}" for b
    using assms(2,3) that
  proof (induction ss arbitrary: b)
    case (Cons s ss)
    then have "throttleSignal ?st c now b s =
        (Some (enforceMinSell c s), if tc_cooldownMs c > 0 then insert (signalKey s) b else b)"
      using assms(1)
      by (auto simp: throttleSignal_def Let_def inCooldown_def pruneState_def createThrottleState_def)
    with Cons show ?case by (simp add: image_iff)
  qed simp
  from this [of "{}"] show ?thesis
    by (simp add: filterSignals_def Let_def throttleLoop_outcomes List.map_filter_def comp_def)
qed

end
