(* ===== verification/OrderStateMachine.thy ===== *)
theory OrderStateMachine
  imports Prelude
begin

text \<open>
  \<^verbatim>\<open>order/services/order-state-machine.service.ts\<close>, the statuses of
  \<^verbatim>\<open>libs/api-interfaces/src/lib/order/order.interface.ts\<close> and the rows of
  \<^verbatim>\<open>order/entities/order-status-history.entity.ts\<close>. The repository that saves a row is third
  party: an argument \<open>save\<close> that takes the entry and the state of the database and returns the
  saved row or an error, with the new state. The queries are read over the list of the rows.
\<close>

section \<open>Statuses and transitions\<close>

datatype OrderStatus =
  NEW | PARTIALLY_FILLED | FILLED | CANCELED | PENDING_CANCEL | REJECTED | EXPIRED

datatype OrderTransitionReason =
    EXCHANGE_SYNC | USER_CANCEL | TRADE_EXECUTION | PARTIAL_FILL | ORDER_EXPIRED | MARKET_CLOSE
  | SYSTEM_CANCEL | EXCHANGE_REJECT

fun VALID_TRANSITIONS :: "OrderStatus \<Rightarrow> OrderStatus list" where
  "VALID_TRANSITIONS NEW =
     [PARTIALLY_FILLED, FILLED, CANCELED, REJECTED, EXPIRED, PENDING_CANCEL]"
| "VALID_TRANSITIONS PARTIALLY_FILLED = [FILLED, CANCELED, PENDING_CANCEL]"
| "VALID_TRANSITIONS PENDING_CANCEL = [CANCELED, FILLED]"
| "VALID_TRANSITIONS FILLED = []"
| "VALID_TRANSITIONS CANCELED = []"
| "VALID_TRANSITIONS REJECTED = []"
| "VALID_TRANSITIONS EXPIRED = []"

definition TERMINAL_STATES :: "OrderStatus list" where
  "TERMINAL_STATES = [FILLED, CANCELED, REJECTED, EXPIRED]"

definition isValidTransition :: "OrderStatus option \<Rightarrow> OrderStatus \<Rightarrow> bool" where
  "isValidTransition fromStatus toStatus =
     (case fromStatus of
        None \<Rightarrow> toStatus = NEW
      | Some s \<Rightarrow> if s = toStatus then True else toStatus \<in> set (VALID_TRANSITIONS s))"

definition isTerminalState :: "OrderStatus \<Rightarrow> bool" where
  "isTerminalState status \<longleftrightarrow> status \<in> set TERMINAL_STATES"

definition getValidNextStates :: "OrderStatus \<Rightarrow> OrderStatus list" where
  "getValidNextStates currentStatus = VALID_TRANSITIONS currentStatus"

section \<open>History\<close>

type_synonym metadata = "(string, js_value) jsmap"

record OrderStatusHistory =
  hs_orderId :: string
  hs_fromStatus :: "OrderStatus option"
  hs_toStatus :: OrderStatus
  hs_reason :: OrderTransitionReason
  hs_metadata :: "metadata option"

record OrderStatusHistoryRow = OrderStatusHistory +
  hs_transitionedAt :: time_ms

record TransitionResult =
  tn_valid :: bool
  tn_fromStatus :: "OrderStatus option"
  tn_toStatus :: OrderStatus
  tn_reason :: OrderTransitionReason
  tn_historyRecord :: "OrderStatusHistoryRow option"

type_synonym ('db, 'err) history_save = "OrderStatusHistory \<Rightarrow> 'db \<Rightarrow> ('err + OrderStatusHistoryRow) \<times> 'db"

definition historyEntry ::
    "string \<Rightarrow> OrderStatus option \<Rightarrow> OrderStatus \<Rightarrow> OrderTransitionReason \<Rightarrow> metadata option \<Rightarrow> bool \<Rightarrow>
     OrderStatusHistory" where
  "historyEntry orderId fromStatus toStatus reason metadata wasInvalid =
     (let enriched = (if wasInvalid then map_set ''invalidTransition'' (JBool True) (nullish metadata [])
                      else nullish metadata [])
      in \<lparr>hs_orderId = orderId, hs_fromStatus = fromStatus, hs_toStatus = toStatus, hs_reason = reason,
          hs_metadata = (if length enriched > 0 then Some enriched else None)\<rparr>)"

text \<open>A failure to save is logged and thrown again.\<close>

definition recordTransition ::
    "('db, 'err) history_save \<Rightarrow> string \<Rightarrow> OrderStatus option \<Rightarrow> OrderStatus \<Rightarrow> OrderTransitionReason \<Rightarrow>
     metadata option \<Rightarrow> bool \<Rightarrow> 'db \<Rightarrow> ('err + OrderStatusHistoryRow) \<times> 'db" where
  "recordTransition save orderId fromStatus toStatus reason metadata wasInvalid db =
     (case save (historyEntry orderId fromStatus toStatus reason metadata wasInvalid) db of
        (Inl err, db') \<Rightarrow> (Inl err, db')
      | (Inr row, db') \<Rightarrow> (Inr row, db'))"

definition transitionStatus ::
    "('db, 'err) history_save \<Rightarrow> string \<Rightarrow> OrderStatus option \<Rightarrow> OrderStatus \<Rightarrow> OrderTransitionReason \<Rightarrow>
     metadata option \<Rightarrow> 'db \<Rightarrow> ('err + TransitionResult) \<times> 'db" where
  "transitionStatus save orderId fromStatus toStatus reason metadata db =
     (let isValid = isValidTransition fromStatus toStatus
      in case recordTransition save orderId fromStatus toStatus reason metadata (\<not> isValid) db of
           (Inl err, db') \<Rightarrow> (Inl err, db')
         | (Inr row, db') \<Rightarrow>
             (Inr \<lparr>tn_valid = isValid, tn_fromStatus = fromStatus, tn_toStatus = toStatus,
                   tn_reason = reason, tn_historyRecord = Some row\<rparr>, db'))"

section \<open>Queries\<close>

definition getOrderHistory :: "OrderStatusHistoryRow list \<Rightarrow> string \<Rightarrow> OrderStatusHistoryRow list" where
  "getOrderHistory rows orderId =
     sort_key hs_transitionedAt (filter (\<lambda>r. hs_orderId r = orderId) rows)"

definition getLatestTransition :: "OrderStatusHistoryRow list \<Rightarrow> string \<Rightarrow> OrderStatusHistoryRow option" where
  "getLatestTransition rows orderId =
     (case sort_key (\<lambda>r. - hs_transitionedAt r) (filter (\<lambda>r. hs_orderId r = orderId) rows) of
        [] \<Rightarrow> None | r # _ \<Rightarrow> Some r)"

text \<open>The order of the groups is the database's choice: only the counts matter.\<close>

definition countTransitionsByReason ::
    "OrderStatusHistoryRow list \<Rightarrow> time_ms option \<Rightarrow> time_ms option \<Rightarrow> (OrderTransitionReason, int) jsmap" where
  "countTransitionsByReason rows startDate endDate =
     (let selected = filter (\<lambda>r. (case startDate of None \<Rightarrow> True | Some d \<Rightarrow> hs_transitionedAt r \<ge> d) \<and>
                                 (case endDate of None \<Rightarrow> True | Some d \<Rightarrow> hs_transitionedAt r \<le> d)) rows
      in map (\<lambda>reason. (reason, int (length (filter (\<lambda>r. hs_reason r = reason) selected))))
           (remdups (map hs_reason selected)))"

definition flaggedInvalid :: "OrderStatusHistoryRow \<Rightarrow> bool" where
  "flaggedInvalid r =
     (case hs_metadata r of None \<Rightarrow> False
      | Some m \<Rightarrow> map_get m ''invalidTransition'' \<in> {Some (JBool True), Some (JString ''true'')})"

definition findInvalidTransitions :: "OrderStatusHistoryRow list \<Rightarrow> nat \<Rightarrow> OrderStatusHistoryRow list" where
  "findInvalidTransitions rows limit =
     take limit (sort_key (\<lambda>r. - hs_transitionedAt r) (filter flaggedInvalid rows))"

section \<open>The lifecycle\<close>

inductive order_step :: "OrderStatus \<Rightarrow> OrderStatus \<Rightarrow> bool" where
  step: "isValidTransition (Some s) t \<Longrightarrow> order_step s t"

inductive_cases order_stepE: "order_step s t"

code_pred order_step .

text \<open>How far an order has come; a valid transition to another status goes strictly further.\<close>

fun progress :: "OrderStatus \<Rightarrow> nat" where
  "progress NEW = 0"
| "progress PARTIALLY_FILLED = 1"
| "progress PENDING_CANCEL = 2"
| "progress _ = 3"

lemma order_step_progress: "order_step s t \<Longrightarrow> s = t \<or> progress s < progress t"
  by (cases s) (auto simp: isValidTransition_def elim!: order_stepE split: if_splits)

lemma terminal_progress: "isTerminalState s \<longleftrightarrow> progress s = 3"
  by (cases s) (auto simp: isTerminalState_def TERMINAL_STATES_def)

lemma progress_le: "progress s \<le> 3"
  by (cases s) auto

lemma order_steps_progress: "order_step\<^sup>*\<^sup>* s t \<Longrightarrow> s = t \<or> progress s < progress t"
  by (induction rule: rtranclp_induct) (auto dest: order_step_progress)

text \<open>The statuses an order takes, from its creation.\<close>

fun valid_path :: "OrderStatus option \<Rightarrow> OrderStatus list \<Rightarrow> bool" where
  "valid_path prev [] = True"
| "valid_path prev (s # ss) \<longleftrightarrow> isValidTransition prev s \<and> valid_path (Some s) ss"

lemma valid_path_steps:
  "valid_path (Some s) ss \<Longrightarrow> j < length (s # ss) \<Longrightarrow> i \<le> j \<Longrightarrow> order_step\<^sup>*\<^sup>* ((s # ss) ! i) ((s # ss) ! j)"
proof (induction ss arbitrary: s i j)
  case Nil
  then show ?case by simp
next
  case (Cons x xs)
  have sx: "order_step s x" using Cons.prems(1) by (auto intro: order_step.step)
  show ?case
  proof (cases j)
    case 0
    with Cons.prems show ?thesis by simp
  next
    case (Suc j')
    show ?thesis
    proof (cases i)
      case 0
      have "order_step\<^sup>*\<^sup>* x ((x # xs) ! j')"
        using Cons.IH [of x j' 0] Cons.prems Suc by simp
      with sx show ?thesis by (simp add: 0 Suc converse_rtranclp_into_rtranclp)
    next
      case (Suc i')
      with Cons.IH [of x j' i'] Cons.prems \<open>j = Suc j'\<close> show ?thesis by simp
    qed
  qed
qed

section \<open>Properties\<close>

text \<open>The lifecycle of an order has no way back: on any sequence of valid transitions from
  creation, the first status is \<^verbatim>\<open>NEW\<close>, an order never returns to a status it has left, a
  terminal status is kept for ever, and at most four distinct statuses occur.\<close>

lemma order_lifecycle:
  assumes "valid_path None ss" "i < j" "j < length ss"
  shows "hd ss = NEW \<and> (ss ! i = ss ! j \<or> progress (ss ! i) < progress (ss ! j)) \<and>
    (isTerminalState (ss ! i) \<longrightarrow> ss ! j = ss ! i) \<and> card (set ss) \<le> 4"
proof -
  obtain s rest where ss: "ss = s # rest" using assms(3) by (cases ss) auto
  with assms(1) have new: "s = NEW" and path: "valid_path (Some s) rest"
    by (auto simp: isValidTransition_def)
  have mono: "ss ! i = ss ! j \<or> progress (ss ! i) < progress (ss ! j)" if "i < j" "j < length ss" for i j
    unfolding ss using that by (intro order_steps_progress valid_path_steps [OF path]) (simp_all add: ss)
  have "inj_on progress (set ss)"
  proof (rule inj_onI)
    fix x y assume "x \<in> set ss" "y \<in> set ss" and eq: "progress x = progress y"
    from this(1,2) obtain a b where ab: "a < length ss" "ss ! a = x" "b < length ss" "ss ! b = y"
      by (metis in_set_conv_nth)
    show "x = y"
    proof (cases a b rule: linorder_cases)
      case less
      with mono [of a b] ab eq show ?thesis by auto
    next
      case equal
      with ab show ?thesis by simp
    next
      case greater
      with mono [of b a] ab eq show ?thesis by auto
    qed
  qed
  moreover have "progress ` set ss \<subseteq> {..3}" using progress_le by auto
  ultimately have "card (set ss) \<le> 4"
    using card_inj_on_le [of progress "set ss" "{..3}"] by simp
  moreover have "isTerminalState (ss ! i) \<longrightarrow> ss ! j = ss ! i"
    using mono [OF assms(2,3)] progress_le [of "ss ! j"] by (auto simp: terminal_progress)
  moreover have "hd ss = NEW" using ss new by simp
  ultimately show ?thesis using mono [OF assms(2,3)] by simp
qed

text \<open>The two tables agree: a status is terminal exactly when no next status is listed for
  it, which is exactly when no transition to another status is valid; and every status is
  reached from \<^verbatim>\<open>NEW\<close> and reaches a terminal one by valid transitions.\<close>

lemma terminal_iff_no_next:
  "(isTerminalState s \<longleftrightarrow> getValidNextStates s = []) \<and>
   (isTerminalState s \<longleftrightarrow> (\<forall>t. isValidTransition (Some s) t \<longleftrightarrow> t = s)) \<and>
   order_step\<^sup>*\<^sup>* NEW s \<and> (\<exists>t. isTerminalState t \<and> order_step\<^sup>*\<^sup>* s t)"
proof -
  have valid: "isValidTransition (Some NEW) s" by (cases s) (auto simp: isValidTransition_def)
  have live: "isValidTransition (Some s) CANCELED" if "\<not> isTerminalState s"
    using that by (cases s) (auto simp: isValidTransition_def isTerminalState_def TERMINAL_STATES_def)
  have dead: "isValidTransition (Some s) t \<longleftrightarrow> t = s" if "isTerminalState s" for t
    using that by (cases s) (auto simp: isValidTransition_def isTerminalState_def TERMINAL_STATES_def)
  have canceled: "isTerminalState CANCELED" by (simp add: isTerminalState_def TERMINAL_STATES_def)
  have "order_step\<^sup>*\<^sup>* NEW s" using valid by (intro r_into_rtranclp order_step.step)
  moreover have "\<exists>t. isTerminalState t \<and> order_step\<^sup>*\<^sup>* s t"
    using live canceled by (cases "isTerminalState s") (auto intro: order_step.step)
  moreover have "isTerminalState s \<longleftrightarrow> getValidNextStates s = []"
    by (cases s) (simp_all add: isTerminalState_def TERMINAL_STATES_def getValidNextStates_def)
  moreover have "isTerminalState s \<longleftrightarrow> (\<forall>t. isValidTransition (Some s) t \<longleftrightarrow> t = s)"
    using live dead canceled by metis
  ultimately show ?thesis by simp
qed

text \<open>The row of an entry: the database adds the time.\<close>

definition historyRow :: "OrderStatusHistory \<Rightarrow> time_ms \<Rightarrow> OrderStatusHistoryRow" where
  "historyRow e tm =
     \<lparr>hs_orderId = hs_orderId e, hs_fromStatus = hs_fromStatus e, hs_toStatus = hs_toStatus e,
      hs_reason = hs_reason e, hs_metadata = hs_metadata e, hs_transitionedAt = tm\<rparr>"

text \<open>
  The syncs of one order: each reports a status and is recorded against the current one; the
  reported status is adopted whether the transition was valid or not.
\<close>

definition syncStep ::
    "('db, 'err) history_save \<Rightarrow> string \<Rightarrow> OrderStatus option \<times> 'db \<Rightarrow>
     OrderStatus \<times> OrderTransitionReason \<times> metadata option \<Rightarrow> OrderStatus option \<times> 'db" where
  "syncStep save orderId st report =
     (let (current, db) = st; (status, reason, metadata) = report
      in (Some status, snd (transitionStatus save orderId current status reason metadata db)))"

fun chained :: "OrderStatus option \<Rightarrow> OrderStatusHistoryRow list \<Rightarrow> bool" where
  "chained prev [] = True"
| "chained prev (r # rs) \<longleftrightarrow> hs_fromStatus r = prev \<and> chained (Some (hs_toStatus r)) rs"

lemma chained_snoc:
  "chained prev (rs @ [r]) \<longleftrightarrow>
     chained prev rs \<and> hs_fromStatus r = (if rs = [] then prev else Some (hs_toStatus (last rs)))"
  by (induction rs arbitrary: prev) auto

text \<open>The history is a complete audit trail: when every save appends its row, after any
  reports of the exchange the rows of the order form a chain from creation (each starts at the
  status where the one before ended), one per report, the last one at the current status, and a
  row is flagged exactly when its transition was not valid.\<close>

lemma history_audit_trail:
  assumes save_appends: "\<And>e db. \<exists>tm. save e db =
      (Inr (historyRow e tm),
       db @ [historyRow e tm])"
    and "\<forall>(_, _, m) \<in> set reports. \<forall>d. m = Some d \<longrightarrow> map_get d ''invalidTransition'' = None"
    and "foldl (syncStep save orderId) (None, []) reports = (current, rows)"
  shows "chained None rows \<and> map hs_toStatus rows = map fst reports \<and>
    (reports \<noteq> [] \<longrightarrow> current = Some (hs_toStatus (last rows))) \<and>
    (\<forall>r \<in> set rows. hs_orderId r = orderId \<and>
       (flaggedInvalid r \<longleftrightarrow> \<not> isValidTransition (hs_fromStatus r) (hs_toStatus r)))"
  using assms(2,3)
proof (induction reports arbitrary: current rows rule: rev_induct)
  case Nil
  then show ?case by simp
next
  case (snoc report reports)
  obtain status reason m where report: "report = (status, reason, m)" by (cases report)
  obtain cur db where before: "foldl (syncStep save orderId) (None, []) reports = (cur, db)"
    by (cases "foldl (syncStep save orderId) (None, []) reports")
  from snoc.IH [OF _ before] snoc.prems(1) have IH: "chained None db" "map hs_toStatus db = map fst reports"
    "reports \<noteq> [] \<longrightarrow> cur = Some (hs_toStatus (last db))"
    "\<forall>r \<in> set db. hs_orderId r = orderId \<and>
       (flaggedInvalid r \<longleftrightarrow> \<not> isValidTransition (hs_fromStatus r) (hs_toStatus r))" by auto
  have len: "db = [] \<longleftrightarrow> reports = []" using IH(2) by (metis map_is_Nil_conv)
  have cur: "cur = None" if "reports = []" using before that by simp
  let ?e = "historyEntry orderId cur status reason m (\<not> isValidTransition cur status)"
  obtain tm where saved: "save ?e db =
      (Inr (historyRow ?e tm),
       db @ [historyRow ?e tm])"
    using save_appends by blast
  let ?r = "historyRow ?e tm"
  have row: "hs_orderId ?r = orderId" "hs_fromStatus ?r = cur" "hs_toStatus ?r = status"
    "hs_metadata ?r = hs_metadata ?e"
    by (simp_all add: historyEntry_def historyRow_def Let_def)
  have "flaggedInvalid ?r \<longleftrightarrow> \<not> isValidTransition cur status"
    using snoc.prems(1) report
    by (cases m) (auto simp: flaggedInvalid_def historyRow_def historyEntry_def Let_def)
  moreover have "syncStep save orderId (cur, db) (status, reason, m) = (current, rows)"
    using snoc.prems(2) before by (simp add: report)
  then have "current = Some status" "rows = db @ [?r]"
    using saved by (auto simp: syncStep_def transitionStatus_def recordTransition_def Let_def)
  ultimately show ?case
    using IH len cur by (auto simp: chained_snoc row report)
qed

definition appendRow :: "OrderStatusHistory \<Rightarrow> OrderStatusHistoryRow list \<Rightarrow>
    (string + OrderStatusHistoryRow) \<times> OrderStatusHistoryRow list" where
  "appendRow e db =
     (let r = historyRow e (int (length db))
      in (Inr r, db @ [r]))"

end
