(* ===== verification/CircuitBreaker.thy ===== *)
theory CircuitBreaker
  imports Prelude
begin

text \<open>
  \<^verbatim>\<open>shared/circuit-breaker.service.ts\<close>: one circuit per key, in a map that the service mutates.
  Each operation takes the time of its call where the source reads \<^verbatim>\<open>Date.now()\<close> and returns
  the updated service; the thrown error is the left summand. Thresholds and durations are
  integers. A partial option record has \<open>None\<close> for an absent field.
\<close>

section \<open>Data\<close>

datatype CircuitState = CLOSED | OPEN | HALF_OPEN

record CircuitBreakerOptions =
  cbo_failureThreshold :: "int option"
  cbo_successThreshold :: "int option"
  cbo_resetTimeoutMs :: "int option"
  cbo_failureWindowMs :: "int option"

record CircuitOptions =
  co_failureThreshold :: int
  co_successThreshold :: int
  co_resetTimeoutMs :: int
  co_failureWindowMs :: int

definition DEFAULT_CIRCUIT_BREAKER_OPTIONS :: CircuitOptions where
  "DEFAULT_CIRCUIT_BREAKER_OPTIONS =
     \<lparr>co_failureThreshold = 5, co_successThreshold = 2, co_resetTimeoutMs = 30000,
      co_failureWindowMs = 60000\<rparr>"

record CircuitData =
  cb_state :: CircuitState
  cb_failures :: "time_ms list"
  cb_consecutiveSuccesses :: int
  cb_lastFailureTime :: "time_ms option"
  cb_openedAt :: "time_ms option"
  cb_options :: CircuitOptions

record CircuitStats =
  cs_circuitKey :: string
  cs_state :: CircuitState
  cs_failureCount :: int
  cs_consecutiveSuccesses :: int
  cs_lastFailureTime :: "time_ms option"
  cs_openedAt :: "time_ms option"
  cs_timeUntilHalfOpen :: "int option"

datatype CircuitOpenError = CircuitOpenError string int

text \<open>The message rounds the remaining time up to seconds.\<close>

definition retrySeconds :: "CircuitOpenError \<Rightarrow> int" where
  "retrySeconds e = (case e of CircuitOpenError _ timeUntilHalfOpen \<Rightarrow> \<lceil>real_of_int timeUntilHalfOpen / 1000\<rceil>)"

type_synonym CircuitBreakerService = "(string, CircuitData) jsmap"

section \<open>Operations\<close>

definition mergeOptions :: "CircuitOptions \<Rightarrow> CircuitBreakerOptions \<Rightarrow> CircuitOptions" where
  "mergeOptions base options =
     \<lparr>co_failureThreshold = nullish (cbo_failureThreshold options) (co_failureThreshold base),
      co_successThreshold = nullish (cbo_successThreshold options) (co_successThreshold base),
      co_resetTimeoutMs = nullish (cbo_resetTimeoutMs options) (co_resetTimeoutMs base),
      co_failureWindowMs = nullish (cbo_failureWindowMs options) (co_failureWindowMs base)\<rparr>"

definition newCircuit :: CircuitData where
  "newCircuit = \<lparr>cb_state = CLOSED, cb_failures = [], cb_consecutiveSuccesses = 0,
                 cb_lastFailureTime = None, cb_openedAt = None,
                 cb_options = DEFAULT_CIRCUIT_BREAKER_OPTIONS\<rparr>"

text \<open>Every caller in the service omits the options of a new circuit.\<close>

definition getCircuit :: "CircuitBreakerService \<Rightarrow> string \<Rightarrow> CircuitBreakerService \<times> CircuitData" where
  "getCircuit svc key =
     (case map_get svc key of
        Some circuit \<Rightarrow> (svc, circuit)
      | None \<Rightarrow> (map_set key newCircuit svc, newCircuit))"

definition configure :: "string \<Rightarrow> CircuitBreakerOptions \<Rightarrow> CircuitBreakerService \<Rightarrow> CircuitBreakerService" where
  "configure key options svc =
     (let (svc', circuit) = getCircuit svc key
      in map_set key (circuit\<lparr>cb_options := mergeOptions (cb_options circuit) options\<rparr>) svc')"

definition checkCircuit ::
    "string \<Rightarrow> time_ms \<Rightarrow> CircuitBreakerService \<Rightarrow> CircuitBreakerService \<times> (CircuitOpenError + unit)" where
  "checkCircuit key now svc =
     (let (svc', circuit) = getCircuit svc key
      in case cb_state circuit of
           CLOSED \<Rightarrow> (svc', Inr ())
         | OPEN \<Rightarrow>
             let timeSinceOpen = now - nullish (cb_openedAt circuit) 0
             in if timeSinceOpen \<ge> co_resetTimeoutMs (cb_options circuit)
                then (map_set key (circuit\<lparr>cb_state := HALF_OPEN, cb_consecutiveSuccesses := 0\<rparr>) svc', Inr ())
                else (svc', Inl (CircuitOpenError key (co_resetTimeoutMs (cb_options circuit) - timeSinceOpen)))
         | HALF_OPEN \<Rightarrow> (svc', Inr ()))"

definition CircuitBreaker_isOpen :: "string \<Rightarrow> time_ms \<Rightarrow> CircuitBreakerService \<Rightarrow> CircuitBreakerService \<times> bool" where
  "CircuitBreaker_isOpen key now svc =
     (case checkCircuit key now svc of (svc', Inl _) \<Rightarrow> (svc', True) | (svc', Inr _) \<Rightarrow> (svc', False))"

definition recordSuccess :: "string \<Rightarrow> CircuitBreakerService \<Rightarrow> CircuitBreakerService" where
  "recordSuccess key svc =
     (let (svc', circuit) = getCircuit svc key
      in case cb_state circuit of
           CLOSED \<Rightarrow> svc'
         | HALF_OPEN \<Rightarrow>
             let successes = cb_consecutiveSuccesses circuit + 1
             in if successes \<ge> co_successThreshold (cb_options circuit)
                then map_set key (circuit\<lparr>cb_state := CLOSED, cb_failures := [],
                                         cb_consecutiveSuccesses := 0, cb_openedAt := None\<rparr>) svc'
                else map_set key (circuit\<lparr>cb_consecutiveSuccesses := successes\<rparr>) svc'
         | OPEN \<Rightarrow> svc')"

definition recordFailure :: "string \<Rightarrow> time_ms \<Rightarrow> CircuitBreakerService \<Rightarrow> CircuitBreakerService" where
  "recordFailure key now svc =
     (let (svc', circuit0) = getCircuit svc key;
          circuit = circuit0\<lparr>cb_failures :=
              filter (\<lambda>t. now - t < co_failureWindowMs (cb_options circuit0)) (cb_failures circuit0) @ [now],
            cb_lastFailureTime := Some now\<rparr>
      in case cb_state circuit of
           CLOSED \<Rightarrow>
             map_set key
               (if int (length (cb_failures circuit)) \<ge> co_failureThreshold (cb_options circuit)
                then circuit\<lparr>cb_state := OPEN, cb_openedAt := Some now\<rparr> else circuit) svc'
         | HALF_OPEN \<Rightarrow>
             map_set key (circuit\<lparr>cb_state := OPEN, cb_openedAt := Some now,
                                 cb_consecutiveSuccesses := 0\<rparr>) svc'
         | OPEN \<Rightarrow> map_set key (circuit\<lparr>cb_openedAt := Some now\<rparr>) svc')"

definition getState :: "string \<Rightarrow> time_ms \<Rightarrow> CircuitBreakerService \<Rightarrow> CircuitBreakerService \<times> CircuitState" where
  "getState key now svc =
     (let svc' = fst (checkCircuit key now svc); (svc'', circuit) = getCircuit svc' key
      in (svc'', cb_state circuit))"

text \<open>A time of \<open>0\<close> is falsy.\<close>

definition truthyTime :: "time_ms option \<Rightarrow> time_ms option" where
  "truthyTime t = (case t of None \<Rightarrow> None | Some v \<Rightarrow> if v = 0 then None else Some v)"

definition getStats :: "string \<Rightarrow> time_ms \<Rightarrow> CircuitBreakerService \<Rightarrow> CircuitBreakerService \<times> CircuitStats" where
  "getStats key now svc =
     (let (svc', circuit) = getCircuit svc key;
          recentFailures = filter (\<lambda>t. now - t < co_failureWindowMs (cb_options circuit)) (cb_failures circuit);
          timeUntilHalfOpen =
            (case truthyTime (cb_openedAt circuit) of
               None \<Rightarrow> None
             | Some openedAt \<Rightarrow>
                 if cb_state circuit = OPEN \<and> now - openedAt < co_resetTimeoutMs (cb_options circuit)
                 then Some (co_resetTimeoutMs (cb_options circuit) - (now - openedAt)) else None)
      in (svc', \<lparr>cs_circuitKey = key, cs_state = cb_state circuit,
                 cs_failureCount = int (length recentFailures),
                 cs_consecutiveSuccesses = cb_consecutiveSuccesses circuit,
                 cs_lastFailureTime = truthyTime (cb_lastFailureTime circuit),
                 cs_openedAt = truthyTime (cb_openedAt circuit),
                 cs_timeUntilHalfOpen = timeUntilHalfOpen\<rparr>))"

definition getAllStats :: "time_ms \<Rightarrow> CircuitBreakerService \<Rightarrow> CircuitStats list" where
  "getAllStats now svc = map (\<lambda>key. snd (getStats key now svc)) (map fst svc)"

definition CircuitBreaker_reset :: "string \<Rightarrow> CircuitBreakerService \<Rightarrow> CircuitBreakerService" where
  "CircuitBreaker_reset key svc =
     (let (svc', circuit) = getCircuit svc key
      in map_set key (circuit\<lparr>cb_state := CLOSED, cb_failures := [], cb_consecutiveSuccesses := 0,
                             cb_lastFailureTime := None, cb_openedAt := None\<rparr>) svc')"

definition CircuitBreaker_trip :: "string \<Rightarrow> time_ms \<Rightarrow> CircuitBreakerService \<Rightarrow> CircuitBreakerService" where
  "CircuitBreaker_trip key now svc =
     (let (svc', circuit) = getCircuit svc key
      in map_set key (circuit\<lparr>cb_state := OPEN, cb_openedAt := Some now\<rparr>) svc')"

section \<open>The service as a machine\<close>

datatype CircuitEvent =
    Check string time_ms
  | AskOpen string time_ms
  | Success string
  | Failure string time_ms
  | AskState string time_ms
  | AskStats string time_ms
  | Configure string CircuitBreakerOptions
  | Reset string
  | Trip string time_ms

fun circuitStep :: "CircuitBreakerService \<Rightarrow> CircuitEvent \<Rightarrow> CircuitBreakerService" where
  "circuitStep svc (Check k now) = fst (checkCircuit k now svc)"
| "circuitStep svc (AskOpen k now) = fst (CircuitBreaker_isOpen k now svc)"
| "circuitStep svc (Success k) = recordSuccess k svc"
| "circuitStep svc (Failure k now) = recordFailure k now svc"
| "circuitStep svc (AskState k now) = fst (getState k now svc)"
| "circuitStep svc (AskStats k now) = fst (getStats k now svc)"
| "circuitStep svc (Configure k options) = configure k options svc"
| "circuitStep svc (Reset k) = CircuitBreaker_reset k svc"
| "circuitStep svc (Trip k now) = CircuitBreaker_trip k now svc"

text \<open>The circuit of a key, as the next call sees it.\<close>

definition circuit_of :: "CircuitBreakerService \<Rightarrow> string \<Rightarrow> CircuitData" where
  "circuit_of svc key = nullish (map_get svc key) newCircuit"

lemma getCircuit_of: "getCircuit svc key = (svc', c) \<Longrightarrow>
    c = circuit_of svc key \<and> map_get svc' key = Some c \<and>
    (\<forall>k. k \<noteq> key \<longrightarrow> map_get svc' k = map_get svc k)"
  by (auto simp: getCircuit_def circuit_of_def split: option.splits)

lemma circuit_of_set [simp]: "circuit_of (map_set k c svc) key = (if key = k then c else circuit_of svc key)"
  by (simp add: circuit_of_def)

lemma circuit_of_empty [simp]: "circuit_of [] key = newCircuit"
  by (simp add: circuit_of_def)

lemma getCircuit_same: "getCircuit svc k = (svc', c) \<Longrightarrow> c = circuit_of svc k \<and> circuit_of svc' key = circuit_of svc key"
  using getCircuit_of [of svc k svc' c] by (cases "key = k") (auto simp: circuit_of_def)

text \<open>What each operation makes of the circuit of its key; the other circuits are untouched.\<close>

definition checkedCircuit :: "time_ms \<Rightarrow> CircuitData \<Rightarrow> CircuitData" where
  "checkedCircuit now c =
     (if cb_state c = OPEN \<and> now - nullish (cb_openedAt c) 0 \<ge> co_resetTimeoutMs (cb_options c)
      then c\<lparr>cb_state := HALF_OPEN, cb_consecutiveSuccesses := 0\<rparr> else c)"

definition succeededCircuit :: "CircuitData \<Rightarrow> CircuitData" where
  "succeededCircuit c =
     (if cb_state c = HALF_OPEN
      then if cb_consecutiveSuccesses c + 1 \<ge> co_successThreshold (cb_options c)
           then c\<lparr>cb_state := CLOSED, cb_failures := [], cb_consecutiveSuccesses := 0, cb_openedAt := None\<rparr>
           else c\<lparr>cb_consecutiveSuccesses := cb_consecutiveSuccesses c + 1\<rparr>
      else c)"

definition failedCircuit :: "time_ms \<Rightarrow> CircuitData \<Rightarrow> CircuitData" where
  "failedCircuit now c0 =
     (let c = c0\<lparr>cb_failures := filter (\<lambda>t. now - t < co_failureWindowMs (cb_options c0)) (cb_failures c0) @ [now],
                cb_lastFailureTime := Some now\<rparr>
      in case cb_state c of
           CLOSED \<Rightarrow> if int (length (cb_failures c)) \<ge> co_failureThreshold (cb_options c)
                     then c\<lparr>cb_state := OPEN, cb_openedAt := Some now\<rparr> else c
         | HALF_OPEN \<Rightarrow> c\<lparr>cb_state := OPEN, cb_openedAt := Some now, cb_consecutiveSuccesses := 0\<rparr>
         | OPEN \<Rightarrow> c\<lparr>cb_openedAt := Some now\<rparr>)"

lemma checkCircuit_of:
  "circuit_of (fst (checkCircuit k now svc)) key =
     (if key = k then checkedCircuit now (circuit_of svc k) else circuit_of svc key)"
  by (cases "getCircuit svc k")
    (auto simp: checkCircuit_def checkedCircuit_def Let_def dest: getCircuit_same
      split: CircuitState.splits prod.splits)

lemma checkCircuit_rejects:
  "isl (snd (checkCircuit k now svc)) \<longleftrightarrow>
     cb_state (circuit_of svc k) = OPEN \<and>
     now - nullish (cb_openedAt (circuit_of svc k)) 0 < co_resetTimeoutMs (cb_options (circuit_of svc k))"
  by (cases "getCircuit svc k")
    (auto simp: checkCircuit_def Let_def dest: getCircuit_same split: CircuitState.splits)

lemma recordSuccess_of:
  "circuit_of (recordSuccess k svc) key =
     (if key = k then succeededCircuit (circuit_of svc k) else circuit_of svc key)"
  by (cases "getCircuit svc k")
    (auto simp: recordSuccess_def succeededCircuit_def Let_def dest: getCircuit_same split: CircuitState.splits)

lemma recordFailure_of:
  "circuit_of (recordFailure k now svc) key =
     (if key = k then failedCircuit now (circuit_of svc k) else circuit_of svc key)"
  by (cases "getCircuit svc k")
    (auto simp: recordFailure_def failedCircuit_def Let_def dest: getCircuit_same split: CircuitState.splits)

lemma getState_of:
  "circuit_of (fst (getState k now svc)) key = circuit_of (fst (checkCircuit k now svc)) key"
  "snd (getState k now svc) = cb_state (checkedCircuit now (circuit_of svc k))"
  using checkCircuit_of [of k now svc k]
  by (cases "getCircuit (fst (checkCircuit k now svc)) k";
      auto simp: getState_def Let_def dest: getCircuit_same)+

lemma isOpen_of:
  "circuit_of (fst (CircuitBreaker_isOpen k now svc)) key = circuit_of (fst (checkCircuit k now svc)) key"
  "snd (CircuitBreaker_isOpen k now svc) \<longleftrightarrow> isl (snd (checkCircuit k now svc))"
  by (auto simp: CircuitBreaker_isOpen_def split: prod.splits sum.splits)

lemma getStats_of: "circuit_of (fst (getStats k now svc)) key = circuit_of svc key"
  by (cases "getCircuit svc k") (auto simp: getStats_def Let_def dest: getCircuit_same)

lemma configure_of:
  "circuit_of (configure k options svc) key =
     (if key = k then (circuit_of svc k)\<lparr>cb_options := mergeOptions (cb_options (circuit_of svc k)) options\<rparr>
      else circuit_of svc key)"
  by (cases "getCircuit svc k") (auto simp: configure_def dest: getCircuit_same)

lemma reset_of:
  "circuit_of (CircuitBreaker_reset k svc) key =
     (if key = k then (circuit_of svc k)\<lparr>cb_state := CLOSED, cb_failures := [], cb_consecutiveSuccesses := 0,
                                       cb_lastFailureTime := None, cb_openedAt := None\<rparr>
      else circuit_of svc key)"
  by (cases "getCircuit svc k") (auto simp: CircuitBreaker_reset_def dest: getCircuit_same)

lemma trip_of:
  "circuit_of (CircuitBreaker_trip k now svc) key =
     (if key = k then (circuit_of svc k)\<lparr>cb_state := OPEN, cb_openedAt := Some now\<rparr> else circuit_of svc key)"
  by (cases "getCircuit svc k") (auto simp: CircuitBreaker_trip_def dest: getCircuit_same)

lemmas circuit_ops = checkCircuit_of recordSuccess_of recordFailure_of getState_of isOpen_of
  getStats_of configure_of reset_of trip_of

section \<open>Invariants\<close>

definition circuit_ok :: "CircuitData \<Rightarrow> bool" where
  "circuit_ok c \<longleftrightarrow>
     (cb_state c = CLOSED \<longleftrightarrow> cb_openedAt c = None) \<and> 0 \<le> cb_consecutiveSuccesses c \<and>
     (cb_state c = CLOSED \<longrightarrow> cb_consecutiveSuccesses c = 0) \<and>
     (cb_failures c \<noteq> [] \<longrightarrow> cb_lastFailureTime c = Some (last (cb_failures c)))"

definition service_ok :: "CircuitBreakerService \<Rightarrow> bool" where
  "service_ok svc \<longleftrightarrow> (\<forall>key. circuit_ok (circuit_of svc key))"

lemma circuit_ok_cases:
  "circuit_ok newCircuit"
  "circuit_ok c \<Longrightarrow> circuit_ok (checkedCircuit now c)"
  "circuit_ok c \<Longrightarrow> circuit_ok (succeededCircuit c)"
  "circuit_ok c \<Longrightarrow> circuit_ok (failedCircuit now c)"
  "circuit_ok c \<Longrightarrow> circuit_ok (c\<lparr>cb_options := o1\<rparr>)"
  "circuit_ok c \<Longrightarrow> circuit_ok (c\<lparr>cb_state := OPEN, cb_openedAt := Some now\<rparr>)"
  "circuit_ok (c\<lparr>cb_state := CLOSED, cb_failures := [], cb_consecutiveSuccesses := 0,
                cb_lastFailureTime := None, cb_openedAt := None\<rparr>)"
  by (auto simp: circuit_ok_def newCircuit_def checkedCircuit_def succeededCircuit_def failedCircuit_def
      Let_def split: CircuitState.splits)

lemma circuitStep_ok: "service_ok svc \<Longrightarrow> service_ok (circuitStep svc e)"
  by (cases e) (auto simp: service_ok_def circuit_ops circuit_ok_cases)

interpretation cb: step_invariant circuitStep service_ok "\<lambda>_. True"
  by unfold_locales (simp add: circuitStep_ok)

lemma service_ok_empty: "service_ok []"
  by (simp add: service_ok_def circuit_of_def circuit_ok_cases)

text \<open>An open circuit whose timeout has not run out, and the events that leave it so.\<close>

definition holds_open :: "string \<Rightarrow> time_ms \<Rightarrow> int \<Rightarrow> CircuitBreakerService \<Rightarrow> bool" where
  "holds_open key t timeout svc \<longleftrightarrow>
     cb_state (circuit_of svc key) = OPEN \<and> co_resetTimeoutMs (cb_options (circuit_of svc key)) = timeout \<and>
     (case cb_openedAt (circuit_of svc key) of None \<Rightarrow> False | Some opened \<Rightarrow> t \<le> opened)"

fun within_timeout :: "string \<Rightarrow> time_ms \<Rightarrow> int \<Rightarrow> CircuitEvent \<Rightarrow> bool" where
  "within_timeout key t timeout (Check k now) \<longleftrightarrow> (k = key \<longrightarrow> now < t + timeout)"
| "within_timeout key t timeout (AskOpen k now) \<longleftrightarrow> (k = key \<longrightarrow> now < t + timeout)"
| "within_timeout key t timeout (AskState k now) \<longleftrightarrow> (k = key \<longrightarrow> now < t + timeout)"
| "within_timeout key t timeout (Failure k now) \<longleftrightarrow> (k = key \<longrightarrow> t \<le> now)"
| "within_timeout key t timeout (Trip k now) \<longleftrightarrow> (k = key \<longrightarrow> t \<le> now)"
| "within_timeout key t timeout (Success k) \<longleftrightarrow> True"
| "within_timeout key t timeout (AskStats k now) \<longleftrightarrow> True"
| "within_timeout key t timeout (Configure k options) \<longleftrightarrow> k \<noteq> key"
| "within_timeout key t timeout (Reset k) \<longleftrightarrow> k \<noteq> key"

lemma circuitStep_holds_open:
  assumes "holds_open key t timeout svc" "within_timeout key t timeout e"
  shows "holds_open key t timeout (circuitStep svc e)"
  using assms
  by (cases e)
    (auto simp: holds_open_def circuit_ops checkedCircuit_def succeededCircuit_def failedCircuit_def
      Let_def split: option.splits)

interpretation cb_open: step_invariant circuitStep "holds_open key t timeout" "within_timeout key t timeout"
  for key t timeout
  by unfold_locales (rule circuitStep_holds_open)

section \<open>Properties\<close>

text \<open>C25. Fail fast: from the moment \<open>t\<close> a circuit is open, every check of its key before
  \<open>t + resetTimeoutMs\<close> is rejected, after any calls in between on any key (more failures,
  successes, trips, queries), as long as the key is not reset or reconfigured.\<close>

theorem open_circuit_rejects:
  assumes "cb_state (circuit_of svc key) = OPEN" "cb_openedAt (circuit_of svc key) = Some t"
    "timeout = co_resetTimeoutMs (cb_options (circuit_of svc key))"
    "list_all (within_timeout key t timeout) es" "now < t + timeout"
  shows "\<exists>remaining. snd (checkCircuit key now (foldl circuitStep svc es)) = Inl (CircuitOpenError key remaining) \<and>
    0 < remaining"
proof -
  let ?svc = "foldl circuitStep svc es"
  have "holds_open key t timeout ?svc"
    using assms by (intro cb_open.run_inv) (auto simp: holds_open_def)
  then show ?thesis
    using assms(5) getCircuit_same [of ?svc key]
    by (cases "getCircuit ?svc key")
      (auto simp: holds_open_def checkCircuit_def Let_def split: option.splits)
qed

theorem open_circuit_rejects_witness:
  "\<exists>remaining. snd (checkCircuit ''binance'' 20000 (foldl circuitStep (CircuitBreaker_trip ''binance'' 1000 [])
     [Success ''binance'', Failure ''binance'' 5000, AskOpen ''binance'' 6000])) =
     Inl (CircuitOpenError ''binance'' remaining) \<and> 0 < remaining"
  by (rule open_circuit_rejects [where t = 1000 and timeout = 30000])
    (simp_all add: trip_of newCircuit_def DEFAULT_CIRCUIT_BREAKER_OPTIONS_def)

lemma failures_in_window:
  assumes "cb_state (circuit_of svc key) = CLOSED" "cb_failures (circuit_of svc key) = fs"
    "\<forall>t \<in> set fs \<union> set ts. \<forall>u \<in> set ts. u - t < co_failureWindowMs (cb_options (circuit_of svc key))"
    "int (length fs) < co_failureThreshold (cb_options (circuit_of svc key))"
  shows "cb_state (circuit_of (foldl circuitStep svc (map (Failure key) ts)) key) =
    (if co_failureThreshold (cb_options (circuit_of svc key)) \<le> int (length fs + length ts) then OPEN else CLOSED)"
  using assms
proof (induction ts arbitrary: svc fs)
  case Nil
  then show ?case by simp
next
  case (Cons t ts)
  let ?svc = "circuitStep svc (Failure key t)" and ?c = "circuit_of svc key"
  have all: "filter (\<lambda>x. t - x < co_failureWindowMs (cb_options ?c)) fs = fs"
    using Cons.prems(3) by (intro filter_True) auto
  have c: "circuit_of ?svc key = failedCircuit t ?c" by (simp add: recordFailure_of)
  show ?case
  proof (cases "co_failureThreshold (cb_options ?c) \<le> int (length fs + 1)")
    case True
    have opens: "cb_state (failedCircuit t ?c) = OPEN"
      using Cons.prems True all by (simp add: failedCircuit_def Let_def)
    have "cb_state (circuit_of (foldl circuitStep s (map (Failure key) us)) key) = OPEN"
      if "cb_state (circuit_of s key) = OPEN" for s us
      using that
      by (induction us arbitrary: s) (simp_all add: recordFailure_of failedCircuit_def Let_def)
    from this [of ?svc ts] opens True c show ?thesis by simp
  next
    case False
    have c': "cb_state (circuit_of ?svc key) = CLOSED" "cb_failures (circuit_of ?svc key) = fs @ [t]"
      "cb_options (circuit_of ?svc key) = cb_options ?c"
      unfolding c using Cons.prems(1,2) False all by (simp_all add: failedCircuit_def Let_def)
    have "cb_state (circuit_of (foldl circuitStep ?svc (map (Failure key) ts)) key) =
        (if co_failureThreshold (cb_options (circuit_of ?svc key)) \<le> int (length (fs @ [t]) + length ts)
         then OPEN else CLOSED)"
    proof (rule Cons.IH [OF c'(1,2)], unfold c'(3))
      show "\<forall>x \<in> set (fs @ [t]) \<union> set ts. \<forall>u \<in> set ts. u - x < co_failureWindowMs (cb_options ?c)"
        using Cons.prems(3) by auto
      show "int (length (fs @ [t])) < co_failureThreshold (cb_options ?c)" using False by simp
    qed
    then show ?thesis unfolding c'(3) by (simp add: algebra_simps)
  qed
qed

text \<open>Failures trip a closed circuit exactly at the threshold: from a closed circuit without
  failures, after failures at times that all lie within one failure window, the circuit is open
  if and only if there are at least the (positive) threshold of them.\<close>

lemma failures_trip_at_threshold:
  assumes "cb_state (circuit_of svc key) = CLOSED" "cb_failures (circuit_of svc key) = []"
    "\<forall>t \<in> set ts. \<forall>u \<in> set ts. u - t < co_failureWindowMs (cb_options (circuit_of svc key))"
    "0 < co_failureThreshold (cb_options (circuit_of svc key))"
  shows "cb_state (circuit_of (foldl circuitStep svc (map (Failure key) ts)) key) =
    (if co_failureThreshold (cb_options (circuit_of svc key)) \<le> int (length ts) then OPEN else CLOSED)"
  using failures_in_window [of svc key "[]" ts] assms by simp

text \<open>Recovery needs an unbroken run of successes: from a half-open circuit, \<open>n\<close> further
  successes close it exactly when the count reaches the threshold, with the failures forgotten;
  a failure before that opens it again at once, with the count back to zero.\<close>

lemma half_open_recovery:
  assumes "cb_state (circuit_of svc key) = HALF_OPEN"
    "cb_consecutiveSuccesses (circuit_of svc key) < co_successThreshold (cb_options (circuit_of svc key))"
  defines "after \<equiv> \<lambda>n. circuit_of (foldl circuitStep svc (replicate n (Success key))) key"
  defines "left \<equiv> nat (co_successThreshold (cb_options (circuit_of svc key)) -
      cb_consecutiveSuccesses (circuit_of svc key))"
  shows "cb_state (after n) = (if n < left then HALF_OPEN else CLOSED) \<and>
    (left \<le> n \<longrightarrow> cb_failures (after n) = [] \<and> cb_openedAt (after n) = None) \<and>
    (n < left \<longrightarrow> (let c = circuit_of (circuitStep (foldl circuitStep svc (replicate n (Success key)))
                                       (Failure key now)) key
                  in cb_state c = OPEN \<and> cb_openedAt c = Some now \<and> cb_consecutiveSuccesses c = 0))"
proof -
  let ?c = "circuit_of svc key"
  have step: "after (Suc n) = succeededCircuit (after n)" for n
  proof -
    have "replicate (Suc n) (Success key) = replicate n (Success key) @ [Success key]"
      by (simp add: replicate_append_same)
    then show ?thesis by (simp add: after_def recordSuccess_of del: replicate_Suc)
  qed
  have run: "if n < left then after n = ?c\<lparr>cb_consecutiveSuccesses := cb_consecutiveSuccesses ?c + int n\<rparr>
    else cb_state (after n) = CLOSED \<and> cb_failures (after n) = [] \<and> cb_openedAt (after n) = None" for n
  proof (induction n)
    case 0
    with assms(2) show ?case by (simp add: after_def left_def)
  next
    case (Suc n)
    show ?case
    proof (cases "n < left")
      case True
      with Suc have n: "after n = ?c\<lparr>cb_consecutiveSuccesses := cb_consecutiveSuccesses ?c + int n\<rparr>" by simp
      have "Suc n < left \<longleftrightarrow> cb_consecutiveSuccesses ?c + int n + 1 < co_successThreshold (cb_options ?c)"
        using assms(2) by (auto simp: left_def)
      then show ?thesis using assms(1) by (auto simp: step n succeededCircuit_def)
    next
      case False
      with Suc show ?thesis by (simp add: step succeededCircuit_def)
    qed
  qed
  have "cb_state c = OPEN \<and> cb_openedAt c = Some now \<and> cb_consecutiveSuccesses c = 0"
    if "n < left" "c = failedCircuit now (after n)" for c
    using run [of n] that assms(1) by (simp add: failedCircuit_def Let_def)
  then have "n < left \<longrightarrow> (let c = circuit_of (circuitStep (foldl circuitStep svc (replicate n (Success key)))
      (Failure key now)) key in cb_state c = OPEN \<and> cb_openedAt c = Some now \<and> cb_consecutiveSuccesses c = 0)"
    by (simp add: recordFailure_of after_def)
  with run [of n] assms(1) show ?thesis by (auto split: if_splits)
qed

text \<open>A half-open circuit lets every request through: any number of checks of it, at any
  times, all pass and leave it as it is, so the number of requests that test the recovery is
  not limited.\<close>

lemma half_open_admits_all:
  assumes "cb_state (circuit_of svc key) = HALF_OPEN"
  shows "snd (checkCircuit key now (foldl circuitStep svc (map (Check key) ts))) = Inr () \<and>
    circuit_of (foldl circuitStep svc (map (Check key) ts)) key = circuit_of svc key"
proof -
  have "circuit_of (foldl circuitStep svc (map (Check key) ts)) key = circuit_of svc key"
    using assms
    by (induction ts arbitrary: svc) (simp_all add: checkCircuit_of checkedCircuit_def)
  moreover have "isl (snd (checkCircuit key now s)) \<or> snd (checkCircuit key now s) = Inr ()" for s
    by (cases "snd (checkCircuit key now s)") auto
  ultimately show ?thesis using assms by (metis checkCircuit_rejects CircuitState.distinct(5))
qed

end
