(* ===== verification/PositionManager.thy ===== *)
theory PositionManager
  imports Prelude
begin

text \<open>
  \<^verbatim>\<open>order/backtest/shared/positions/position-manager.service.ts\<close> and its interface, with the
  maintenance margin rate of \<^verbatim>\<open>libs/api-interfaces/src/lib/pipeline/leverage-limits.ts\<close>:
  opening, closing, valuing and liquidating the position of one coin. The service keeps no
  state; a position is passed in and the new one comes back in the result. An error carries the
  constructor of its message.
\<close>

section \<open>Data\<close>

datatype PositionSide = LONG | SHORT

record Position =
  pos_coinId :: string
  pos_quantity :: number
  pos_averagePrice :: number
  pos_totalValue :: number
  pos_entryDate :: "time_ms option"
  pos_side :: "PositionSide option"
  pos_leverage :: "number option"
  pos_marginAmount :: "number option"
  pos_liquidationPrice :: "number option"

datatype PositionError =
    INVALID_PRICE | ZERO_QUANTITY | NEGATIVE_QUANTITY | MAX_POSITIONS number | NO_POSITION
  | INSUFFICIENT_CAPITAL | INSUFFICIENT_SHORT_MARGIN

record PositionActionResult =
  ar_success :: bool
  ar_position :: "Position option"
  ar_realizedPnL :: "number option"
  ar_realizedPnLPercent :: "number option"
  ar_costBasis :: "number option"
  ar_quantity :: number
  ar_price :: number
  ar_totalValue :: number
  ar_error :: "PositionError option"
  ar_marginAmount :: "number option"
  ar_liquidationPrice :: "number option"

record PositionSizingConfig =
  sz_maxAllocation :: "number option"
  sz_minAllocation :: "number option"
  sz_maxPositions :: "number option"
  sz_maxVolumeParticipation :: "number option"

record ClosePositionInput =
  in_coinId :: string
  in_price :: number
  in_quantity :: "number option"
  in_percentage :: "number option"
  in_confidence :: "number option"

record OpenPositionInput = ClosePositionInput +
  in_availableCapital :: number
  in_portfolioValue :: number

definition DEFAULT_POSITION_CONFIG :: PositionSizingConfig where
  "DEFAULT_POSITION_CONFIG =
     \<lparr>sz_maxAllocation = Some (12 / 100), sz_minAllocation = Some (3 / 100),
      sz_maxPositions = Some 20, sz_maxVolumeParticipation = Some (1 / 100)\<rparr>"

definition CONFIDENCE_EXIT_MIN_PERCENT :: number where
  "CONFIDENCE_EXIT_MIN_PERCENT = 25 / 100"

definition CONFIDENCE_EXIT_MAX_PERCENT :: number where
  "CONFIDENCE_EXIT_MAX_PERCENT = 1"

definition MAINTENANCE_MARGIN_RATE :: number where
  "MAINTENANCE_MARGIN_RATE = 5 / 1000"

section \<open>Validation and sizing\<close>

definition validateQuantity :: "number option \<Rightarrow> PositionError option" where
  "validateQuantity quantity =
     (case quantity of
        None \<Rightarrow> None
      | Some q \<Rightarrow> if q = 0 then Some ZERO_QUANTITY else if q < 0 then Some NEGATIVE_QUANTITY else None)"

definition configMinAllocation :: "PositionSizingConfig \<Rightarrow> number" where
  "configMinAllocation config =
     nullish (sz_minAllocation config) (nullish (sz_minAllocation DEFAULT_POSITION_CONFIG) (5 / 100))"

definition configMaxAllocation :: "PositionSizingConfig \<Rightarrow> number" where
  "configMaxAllocation config =
     nullish (sz_maxAllocation config) (nullish (sz_maxAllocation DEFAULT_POSITION_CONFIG) (20 / 100))"

text \<open>The two actions of \<^verbatim>\<open>validatePosition\<close>; both read the common fields of the input.\<close>

definition validateOpen ::
    "Position option \<Rightarrow> 'a ClosePositionInput_scheme \<Rightarrow> number \<Rightarrow> PositionSizingConfig \<Rightarrow> PositionError option" where
  "validateOpen existingPosition input openPositionsCount config =
     (if in_price input \<le> 0 then Some INVALID_PRICE
      else case validateQuantity (in_quantity input) of
             Some e \<Rightarrow> Some e
           | None \<Rightarrow>
               let maxPositions = nullish (sz_maxPositions config)
                                    (nullish (sz_maxPositions DEFAULT_POSITION_CONFIG) 20)
               in if existingPosition = None \<and> openPositionsCount \<ge> maxPositions
                  then Some (MAX_POSITIONS maxPositions) else None)"

definition validateClose ::
    "Position option \<Rightarrow> 'a ClosePositionInput_scheme \<Rightarrow> PositionError option" where
  "validateClose existingPosition input =
     (if in_price input \<le> 0 then Some INVALID_PRICE
      else if (case existingPosition of None \<Rightarrow> True | Some p \<Rightarrow> pos_quantity p = 0) then Some NO_POSITION
      else validateQuantity (in_quantity input))"

definition calculatePositionSize :: "number \<Rightarrow> number \<Rightarrow> number \<Rightarrow> PositionSizingConfig \<Rightarrow> number" where
  "calculatePositionSize portfolioValue confidence price config =
     (let minAllocation = configMinAllocation config;
          maxAllocation = configMaxAllocation config;
          clampedConfidence = max 0 (min 1 confidence);
          allocation = minAllocation + clampedConfidence * (maxAllocation - minAllocation);
          investmentAmount = portfolioValue * allocation
      in investmentAmount / price)"

definition positive :: "number option \<Rightarrow> bool" where
  "positive v = (case v of None \<Rightarrow> False | Some x \<Rightarrow> x > 0)"

definition resolveOpenQuantity :: "OpenPositionInput \<Rightarrow> PositionSizingConfig \<Rightarrow> number" where
  "resolveOpenQuantity input config =
     (if positive (in_quantity input) then the (in_quantity input)
      else if positive (in_percentage input)
      then in_portfolioValue input * the (in_percentage input) / in_price input
      else case in_confidence input of
             Some confidence \<Rightarrow>
               calculatePositionSize (in_portfolioValue input) confidence (in_price input) config
           | None \<Rightarrow> in_portfolioValue input * configMinAllocation config / in_price input)"

definition resolveCloseQuantity :: "'a ClosePositionInput_scheme \<Rightarrow> number \<Rightarrow> number" where
  "resolveCloseQuantity input positionQuantity =
     (if positive (in_quantity input) then min (the (in_quantity input)) positionQuantity
      else if positive (in_percentage input) then positionQuantity * min 1 (the (in_percentage input))
      else case in_confidence input of
             Some confidence \<Rightarrow>
               let exitRange = CONFIDENCE_EXIT_MAX_PERCENT - CONFIDENCE_EXIT_MIN_PERCENT
               in positionQuantity * (CONFIDENCE_EXIT_MIN_PERCENT + confidence * exitRange)
           | None \<Rightarrow> positionQuantity)"

definition failureResult :: "number \<Rightarrow> PositionError \<Rightarrow> PositionActionResult" where
  "failureResult price err =
     \<lparr>ar_success = False, ar_position = None, ar_realizedPnL = None, ar_realizedPnLPercent = None,
      ar_costBasis = None, ar_quantity = 0, ar_price = price, ar_totalValue = 0, ar_error = Some err,
      ar_marginAmount = None, ar_liquidationPrice = None\<rparr>"

section \<open>Long positions\<close>

definition longPosition :: "string \<Rightarrow> number \<Rightarrow> number \<Rightarrow> number \<Rightarrow> Position" where
  "longPosition coinId quantity averagePrice totalValue =
     \<lparr>pos_coinId = coinId, pos_quantity = quantity, pos_averagePrice = averagePrice,
      pos_totalValue = totalValue, pos_entryDate = None, pos_side = None, pos_leverage = None,
      pos_marginAmount = None, pos_liquidationPrice = None\<rparr>"

definition openPosition ::
    "Position option \<Rightarrow> OpenPositionInput \<Rightarrow> PositionSizingConfig \<Rightarrow> PositionActionResult" where
  "openPosition existingPosition input config =
     (case validateOpen existingPosition input 0 config of
        Some e \<Rightarrow> failureResult (in_price input) e
      | None \<Rightarrow>
          let quantity = resolveOpenQuantity input config;
              totalValue = quantity * in_price input
          in if totalValue > in_availableCapital input
             then failureResult (in_price input) INSUFFICIENT_CAPITAL
             else let fresh = longPosition (in_coinId input) quantity (in_price input) totalValue;
                      newPosition =
                        (case existingPosition of
                           None \<Rightarrow> fresh
                         | Some existing \<Rightarrow>
                             if pos_quantity existing > 0
                             then let newQuantity = pos_quantity existing + quantity;
                                      newAveragePrice =
                                        (pos_averagePrice existing * pos_quantity existing +
                                         in_price input * quantity) / newQuantity
                                  in longPosition (in_coinId input) newQuantity newAveragePrice
                                       (newQuantity * in_price input)
                             else fresh)
                  in \<lparr>ar_success = True, ar_position = Some newPosition, ar_realizedPnL = None,
                      ar_realizedPnLPercent = None, ar_costBasis = None, ar_quantity = quantity,
                      ar_price = in_price input, ar_totalValue = totalValue, ar_error = None,
                      ar_marginAmount = None, ar_liquidationPrice = None\<rparr>)"

definition closePosition :: "Position \<Rightarrow> ClosePositionInput \<Rightarrow> PositionActionResult" where
  "closePosition position input =
     (case validateClose (Some position) input of
        Some e \<Rightarrow> failureResult (in_price input) e
      | None \<Rightarrow>
          let quantity = min (resolveCloseQuantity input (pos_quantity position)) (pos_quantity position);
              costBasis = pos_averagePrice position;
              remainingQuantity = pos_quantity position - quantity
          in \<lparr>ar_success = True,
              ar_position =
                (if remainingQuantity > 0
                 then Some (longPosition (in_coinId input) remainingQuantity (pos_averagePrice position)
                              (remainingQuantity * in_price input))
                 else None),
              ar_realizedPnL = Some ((in_price input - costBasis) * quantity),
              ar_realizedPnLPercent =
                Some (if costBasis > 0 then (in_price input - costBasis) / costBasis else 0),
              ar_costBasis = Some costBasis, ar_quantity = quantity, ar_price = in_price input,
              ar_totalValue = quantity * in_price input, ar_error = None,
              ar_marginAmount = None, ar_liquidationPrice = None\<rparr>)"

definition updatePositionValue :: "Position \<Rightarrow> number \<Rightarrow> Position" where
  "updatePositionValue position currentPrice =
     (case pos_marginAmount position of
        Some margin \<Rightarrow>
          if pos_side position = Some SHORT
          then position\<lparr>pos_totalValue :=
                 max 0 (margin + (pos_averagePrice position - currentPrice) * pos_quantity position)\<rparr>
          else position\<lparr>pos_totalValue := pos_quantity position * currentPrice\<rparr>
      | None \<Rightarrow> position\<lparr>pos_totalValue := pos_quantity position * currentPrice\<rparr>)"

section \<open>Short positions and liquidation\<close>

definition calculateLiquidationPrice :: "number \<Rightarrow> number \<Rightarrow> PositionSide \<Rightarrow> number \<Rightarrow> number" where
  "calculateLiquidationPrice entryPrice leverage side maintenanceMarginRate =
     (if side = LONG then entryPrice * (1 - 1 / leverage + maintenanceMarginRate)
      else entryPrice * (1 + 1 / leverage - maintenanceMarginRate))"

definition openShort ::
    "Position option \<Rightarrow> OpenPositionInput \<Rightarrow> PositionSizingConfig \<Rightarrow> number \<Rightarrow> PositionActionResult" where
  "openShort existingPosition input config leverage =
     (case validateOpen existingPosition input 0 config of
        Some e \<Rightarrow> failureResult (in_price input) e
      | None \<Rightarrow>
          let quantity = resolveOpenQuantity input config;
              marginAmount = quantity * in_price input / leverage
          in if marginAmount > in_availableCapital input
             then failureResult (in_price input) INSUFFICIENT_SHORT_MARGIN
             else let liquidationPrice =
                        calculateLiquidationPrice (in_price input) leverage SHORT MAINTENANCE_MARGIN_RATE
                  in \<lparr>ar_success = True,
                      ar_position = Some
                        \<lparr>pos_coinId = in_coinId input, pos_quantity = quantity,
                         pos_averagePrice = in_price input, pos_totalValue = marginAmount,
                         pos_entryDate = None, pos_side = Some SHORT, pos_leverage = Some leverage,
                         pos_marginAmount = Some marginAmount,
                         pos_liquidationPrice = Some liquidationPrice\<rparr>,
                      ar_realizedPnL = None, ar_realizedPnLPercent = None, ar_costBasis = None,
                      ar_quantity = quantity, ar_price = in_price input, ar_totalValue = marginAmount,
                      ar_error = None, ar_marginAmount = Some marginAmount,
                      ar_liquidationPrice = Some liquidationPrice\<rparr>)"

definition closeShort :: "Position \<Rightarrow> ClosePositionInput \<Rightarrow> PositionActionResult" where
  "closeShort position input =
     (case validateClose (Some position) input of
        Some e \<Rightarrow> failureResult (in_price input) e
      | None \<Rightarrow>
          let quantity = min (resolveCloseQuantity input (pos_quantity position)) (pos_quantity position);
              costBasis = pos_averagePrice position;
              realizedPnL = (costBasis - in_price input) * quantity;
              returnedMargin = nullish (pos_marginAmount position) 0 * (quantity / pos_quantity position);
              cappedPnL = max (- returnedMargin) realizedPnL;
              remainingQuantity = pos_quantity position - quantity;
              remainingMargin = nullish (pos_marginAmount position) 0 - returnedMargin
          in \<lparr>ar_success = True,
              ar_position =
                (if remainingQuantity > 0
                 then Some \<lparr>pos_coinId = in_coinId input, pos_quantity = remainingQuantity,
                            pos_averagePrice = pos_averagePrice position,
                            pos_totalValue = remainingMargin +
                              (pos_averagePrice position - in_price input) * remainingQuantity,
                            pos_entryDate = None, pos_side = Some SHORT,
                            pos_leverage = pos_leverage position,
                            pos_marginAmount = Some remainingMargin,
                            pos_liquidationPrice = pos_liquidationPrice position\<rparr>
                 else None),
              ar_realizedPnL = Some cappedPnL,
              ar_realizedPnLPercent =
                Some (if costBasis > 0 then (costBasis - in_price input) / costBasis else 0),
              ar_costBasis = Some costBasis, ar_quantity = quantity, ar_price = in_price input,
              ar_totalValue = returnedMargin, ar_error = None, ar_marginAmount = Some returnedMargin,
              ar_liquidationPrice = pos_liquidationPrice position\<rparr>)"

definition isLiquidated :: "Position \<Rightarrow> number \<Rightarrow> bool" where
  "isLiquidated position currentPrice =
     (if \<not> truthy (pos_leverage position) \<or> the (pos_leverage position) \<le> 1 then False
      else case pos_liquidationPrice position of
             None \<Rightarrow> False
           | Some liquidationPrice \<Rightarrow>
               if pos_side position = Some SHORT then currentPrice \<ge> liquidationPrice
               else currentPrice \<le> liquidationPrice)"

section \<open>Lemmas: sizes\<close>

definition sane_sizing :: "PositionSizingConfig \<Rightarrow> bool" where
  "sane_sizing config \<longleftrightarrow>
     0 < configMinAllocation config \<and> configMinAllocation config \<le> configMaxAllocation config"

lemma sane_sizing_default: "sane_sizing DEFAULT_POSITION_CONFIG"
  by (simp add: sane_sizing_def configMinAllocation_def configMaxAllocation_def DEFAULT_POSITION_CONFIG_def)

lemma allocation_bounds:
  fixes lo hi c :: number
  assumes "lo \<le> hi"
  shows "lo \<le> lo + max 0 (min 1 c) * (hi - lo)" "lo + max 0 (min 1 c) * (hi - lo) \<le> hi"
proof -
  have "0 \<le> max 0 (min 1 c) * (hi - lo)" using assms by (intro mult_nonneg_nonneg) auto
  then show "lo \<le> lo + max 0 (min 1 c) * (hi - lo)" by simp
  have "max 0 (min 1 c) * (hi - lo) \<le> 1 * (hi - lo)" using assms by (intro mult_right_mono) auto
  then show "lo + max 0 (min 1 c) * (hi - lo) \<le> hi" by simp
qed

lemma resolveOpenQuantity_pos:
  assumes "0 < in_price input" "0 < in_portfolioValue input" "sane_sizing config"
  shows "0 < resolveOpenQuantity input config"
proof -
  have "0 < configMinAllocation config + max 0 (min 1 c) * (configMaxAllocation config - configMinAllocation config)" for c
    using assms(3) unfolding sane_sizing_def
    by (intro less_le_trans [OF _ allocation_bounds(1)]) simp_all
  with assms show ?thesis
    by (auto simp: resolveOpenQuantity_def positive_def calculatePositionSize_def sane_sizing_def Let_def
        intro!: divide_pos_pos mult_pos_pos split: option.splits)
qed

lemma resolveCloseQuantity_pos:
  assumes "0 < q" "\<forall>c. in_confidence input = Some c \<longrightarrow> 0 \<le> c"
  shows "0 < resolveCloseQuantity input q"
proof -
  have "0 < 1 / 4 + c * (3 / 4)" if "0 \<le> c" for c :: real using that by simp
  with assms show ?thesis
    by (auto simp: resolveCloseQuantity_def positive_def CONFIDENCE_EXIT_MIN_PERCENT_def
        CONFIDENCE_EXIT_MAX_PERCENT_def Let_def intro!: mult_pos_pos split: option.splits)
qed

lemma closedQuantity:
  assumes "0 < q" "\<forall>c. in_confidence input = Some c \<longrightarrow> 0 \<le> c"
  shows "0 < min (resolveCloseQuantity input q) q" "min (resolveCloseQuantity input q) q \<le> q"
  using resolveCloseQuantity_pos [OF assms] assms(1) by simp_all

section \<open>The account of a coin\<close>

text \<open>
  The account of one coin over opens and closes: its position, the cash received less the cash
  spent, and the profits realised. A rejected action changes nothing.
\<close>

record CoinAccount =
  acc_position :: "Position option"
  acc_cashFlow :: number
  acc_realizedPnL :: number

datatype PositionAction = OpenAction OpenPositionInput PositionSizingConfig | CloseAction ClosePositionInput

fun accountStep :: "CoinAccount \<Rightarrow> PositionAction \<Rightarrow> CoinAccount" where
  "accountStep acc (OpenAction input config) =
     (let r = openPosition (acc_position acc) input config
      in if ar_success r
         then acc\<lparr>acc_position := ar_position r, acc_cashFlow := acc_cashFlow acc - ar_totalValue r\<rparr> else acc)"
| "accountStep acc (CloseAction input) =
     (case acc_position acc of
        None \<Rightarrow> acc
      | Some position \<Rightarrow>
          let r = closePosition position input
          in if ar_success r
             then acc\<lparr>acc_position := ar_position r, acc_cashFlow := acc_cashFlow acc + ar_totalValue r,
                      acc_realizedPnL := acc_realizedPnL acc + nullish (ar_realizedPnL r) 0\<rparr> else acc)"

fun action_ok :: "PositionAction \<Rightarrow> bool" where
  "action_ok (OpenAction input config) \<longleftrightarrow> 0 < in_portfolioValue input \<and> sane_sizing config"
| "action_ok (CloseAction input) \<longleftrightarrow> (\<forall>c. in_confidence input = Some c \<longrightarrow> 0 \<le> c)"

definition heldCost :: "Position option \<Rightarrow> number" where
  "heldCost p = (case p of None \<Rightarrow> 0 | Some pos \<Rightarrow> pos_averagePrice pos * pos_quantity pos)"

definition account_ok :: "CoinAccount \<Rightarrow> bool" where
  "account_ok acc \<longleftrightarrow> acc_realizedPnL acc = acc_cashFlow acc + heldCost (acc_position acc) \<and>
     (\<forall>p. acc_position acc = Some p \<longrightarrow> 0 < pos_quantity p)"

lemma longPosition_fields [simp]:
  "pos_quantity (longPosition c q a v) = q" "pos_averagePrice (longPosition c q a v) = a"
  "pos_totalValue (longPosition c q a v) = v" "pos_coinId (longPosition c q a v) = c"
  by (simp_all add: longPosition_def)

lemma openPosition_success:
  assumes "ar_success (openPosition existing input config)" "0 < in_portfolioValue input" "sane_sizing config"
    "\<forall>p. existing = Some p \<longrightarrow> 0 < pos_quantity p"
  obtains p where "ar_position (openPosition existing input config) = Some p" "0 < pos_quantity p"
    "heldCost (Some p) = heldCost existing + ar_totalValue (openPosition existing input config)"
    "ar_totalValue (openPosition existing input config) \<le> in_availableCapital input"
proof -
  have valid: "validateOpen existing input 0 config = None"
    using assms(1) by (auto simp: openPosition_def failureResult_def split: option.splits)
  then have "0 < in_price input" by (auto simp: validateOpen_def split: if_splits)
  from resolveOpenQuantity_pos [OF this assms(2,3)]
  obtain q where q: "0 < q" "resolveOpenQuantity input config = q" by blast
  let ?r = "openPosition existing input config"
  have val: "ar_totalValue ?r = q * in_price input" "q * in_price input \<le> in_availableCapital input"
    using assms(1) valid q(2) by (auto simp: openPosition_def failureResult_def Let_def split: if_splits)
  show ?thesis
  proof (cases existing)
    case None
    have "ar_position ?r = Some (longPosition (in_coinId input) q (in_price input) (q * in_price input))"
      using valid val(2) q(2) None by (simp add: openPosition_def Let_def)
    then show ?thesis
      by (rule that) (use val q None in \<open>simp_all add: heldCost_def\<close>)
  next
    case (Some p)
    with assms(4) have held: "0 < pos_quantity p" by simp
    let ?avg = "(pos_averagePrice p * pos_quantity p + in_price input * q) / (pos_quantity p + q)"
    have pos: "ar_position ?r = Some (longPosition (in_coinId input) (pos_quantity p + q) ?avg
        ((pos_quantity p + q) * in_price input))"
      using valid val(2) q(2) Some held by (simp add: openPosition_def Let_def)
    have "?avg * (pos_quantity p + q) = pos_averagePrice p * pos_quantity p + q * in_price input"
      using held q(1) by simp
    then show ?thesis
      by (intro that [OF pos]) (use val q Some held in \<open>simp_all add: heldCost_def\<close>)
  qed
qed

lemma closePosition_success:
  assumes "ar_success (closePosition p input)" "0 < pos_quantity p"
    "\<forall>c. in_confidence input = Some c \<longrightarrow> 0 \<le> c"
  defines "r \<equiv> closePosition p input"
  shows "0 < ar_quantity r" "ar_quantity r \<le> pos_quantity p"
    "ar_totalValue r = ar_quantity r * in_price input"
    "ar_realizedPnL r = Some (ar_totalValue r - pos_averagePrice p * ar_quantity r)"
    "ar_position r = (if ar_quantity r = pos_quantity p then None
       else Some (longPosition (in_coinId input) (pos_quantity p - ar_quantity r) (pos_averagePrice p)
                   ((pos_quantity p - ar_quantity r) * in_price input)))"
proof -
  have "validateClose (Some p) input = None"
    using assms(1) by (auto simp: closePosition_def failureResult_def split: option.splits)
  with closedQuantity [OF assms(2,3)]
  show "0 < ar_quantity r" "ar_quantity r \<le> pos_quantity p"
    "ar_totalValue r = ar_quantity r * in_price input"
    "ar_realizedPnL r = Some (ar_totalValue r - pos_averagePrice p * ar_quantity r)"
    "ar_position r = (if ar_quantity r = pos_quantity p then None
       else Some (longPosition (in_coinId input) (pos_quantity p - ar_quantity r) (pos_averagePrice p)
                   ((pos_quantity p - ar_quantity r) * in_price input)))"
    by (simp_all add: r_def closePosition_def Let_def algebra_simps)
qed

lemma accountStep_ok:
  assumes "account_ok acc" "action_ok a"
  shows "account_ok (accountStep acc a)"
proof (cases a)
  case (OpenAction input config)
  show ?thesis
  proof (cases "ar_success (openPosition (acc_position acc) input config)")
    case True
    obtain p where "ar_position (openPosition (acc_position acc) input config) = Some p" "0 < pos_quantity p"
      "heldCost (Some p) = heldCost (acc_position acc) +
         ar_totalValue (openPosition (acc_position acc) input config)"
      using assms OpenAction by (auto simp: account_ok_def elim: openPosition_success [OF True])
    with True assms(1) OpenAction show ?thesis by (simp add: account_ok_def Let_def)
  qed (use assms(1) OpenAction in \<open>simp add: Let_def\<close>)
next
  case (CloseAction input)
  show ?thesis
  proof (cases "acc_position acc")
    case None
    with assms(1) CloseAction show ?thesis by simp
  next
    case (Some p)
    with assms have held: "0 < pos_quantity p" "\<forall>c. in_confidence input = Some c \<longrightarrow> 0 \<le> c"
      by (auto simp: account_ok_def CloseAction)
    show ?thesis
    proof (cases "ar_success (closePosition p input)")
      case True
      note r = closePosition_success [OF True held]
      then show ?thesis
        using True assms(1) Some CloseAction
        by (auto simp: account_ok_def Let_def heldCost_def algebra_simps)
    qed (use assms(1) CloseAction Some in \<open>simp add: Let_def\<close>)
  qed
qed

interpretation acct: step_invariant accountStep account_ok action_ok
  by unfold_locales (rule accountStep_ok)

section \<open>Properties\<close>

text \<open>C23. No money is made or lost by the bookkeeping: after any opens and closes of a coin,
  accepted or rejected, the profit realised is the cash received less the cash spent plus the
  cost (average price times quantity) of what is still held, and a held quantity is positive.\<close>

theorem position_cash_flow:
  assumes "list_all action_ok actions"
    "acc = foldl accountStep \<lparr>acc_position = None, acc_cashFlow = 0, acc_realizedPnL = 0\<rparr> actions"
  shows "acc_realizedPnL acc = acc_cashFlow acc +
      (case acc_position acc of None \<Rightarrow> 0 | Some p \<Rightarrow> pos_averagePrice p * pos_quantity p) \<and>
    (\<forall>p. acc_position acc = Some p \<longrightarrow> 0 < pos_quantity p)"
  using acct.run_inv [of "\<lparr>acc_position = None, acc_cashFlow = 0, acc_realizedPnL = 0\<rparr>" actions] assms
  by (simp add: account_ok_def heldCost_def)

definition open_input :: "number \<Rightarrow> number \<Rightarrow> OpenPositionInput" where
  "open_input price quantity =
     \<lparr>in_coinId = ''btc'', in_price = price, in_quantity = Some quantity, in_percentage = None,
      in_confidence = None, in_availableCapital = 10000, in_portfolioValue = 10000\<rparr>"

definition close_input :: "number \<Rightarrow> number \<Rightarrow> ClosePositionInput" where
  "close_input price quantity =
     \<lparr>in_coinId = ''btc'', in_price = price, in_quantity = Some quantity, in_percentage = None,
      in_confidence = None\<rparr>"

theorem position_cash_flow_witness:
  "acc_realizedPnL (foldl accountStep \<lparr>acc_position = None, acc_cashFlow = 0, acc_realizedPnL = 0\<rparr>
     [OpenAction (open_input 100 2) DEFAULT_POSITION_CONFIG, CloseAction (close_input 150 5)]) =
   acc_cashFlow (foldl accountStep \<lparr>acc_position = None, acc_cashFlow = 0, acc_realizedPnL = 0\<rparr>
     [OpenAction (open_input 100 2) DEFAULT_POSITION_CONFIG, CloseAction (close_input 150 5)])"
proof -
  let ?acc = "foldl accountStep \<lparr>acc_position = None, acc_cashFlow = 0, acc_realizedPnL = 0\<rparr>
     [OpenAction (open_input 100 2) DEFAULT_POSITION_CONFIG, CloseAction (close_input 150 5)]"
  have "acc_position ?acc = None"
    by (simp add: open_input_def close_input_def openPosition_def closePosition_def validateOpen_def
        validateClose_def validateQuantity_def DEFAULT_POSITION_CONFIG_def resolveOpenQuantity_def
        resolveCloseQuantity_def positive_def Let_def)
  then show ?thesis
    using position_cash_flow [OF _ refl, of "[OpenAction (open_input 100 2) DEFAULT_POSITION_CONFIG,
        CloseAction (close_input 150 5)]"]
    by (simp add: sane_sizing_default open_input_def close_input_def del: accountStep.simps)
qed

text \<open>A sale never exceeds the position: a successful close of a held position sells a
  positive quantity that is at most the quantity held, leaves exactly the rest at the same
  average price, and removes the position exactly when everything is sold.\<close>

lemma closePosition_conserves:
  assumes "0 < pos_quantity p" "\<forall>c. in_confidence input = Some c \<longrightarrow> 0 \<le> c"
    "r = closePosition p input" "ar_success r"
  shows "0 < ar_quantity r \<and> ar_quantity r \<le> pos_quantity p \<and>
    (ar_position r = None \<longleftrightarrow> ar_quantity r = pos_quantity p) \<and>
    (\<forall>p'. ar_position r = Some p' \<longrightarrow> pos_quantity p' + ar_quantity r = pos_quantity p \<and>
       pos_averagePrice p' = pos_averagePrice p)"
  using closePosition_success [OF _ assms(1,2)] assms(3,4) by (auto split: if_splits)

text \<open>Opening a position spends exactly its value and never more than the available capital:
  a successful open adds price times quantity to the cost of the position, at a positive
  quantity, within the capital; and the size that a confidence gives lies between the minimum
  and the maximum allocation of the portfolio.\<close>

lemma openPosition_within_capital:
  assumes "ar_success (openPosition existing input config)" "0 < in_portfolioValue input"
    "sane_sizing config" "\<forall>p. existing = Some p \<longrightarrow> 0 < pos_quantity p" "0 < price"
  shows "(\<exists>p. ar_position (openPosition existing input config) = Some p \<and> 0 < pos_quantity p \<and>
      pos_averagePrice p * pos_quantity p =
        heldCost existing + ar_totalValue (openPosition existing input config) \<and>
      ar_totalValue (openPosition existing input config) \<le> in_availableCapital input) \<and>
    configMinAllocation config * in_portfolioValue input
      \<le> calculatePositionSize (in_portfolioValue input) confidence price config * price \<and>
    calculatePositionSize (in_portfolioValue input) confidence price config * price
      \<le> configMaxAllocation config * in_portfolioValue input"
proof -
  obtain p where "ar_position (openPosition existing input config) = Some p" "0 < pos_quantity p"
    "heldCost (Some p) = heldCost existing + ar_totalValue (openPosition existing input config)"
    "ar_totalValue (openPosition existing input config) \<le> in_availableCapital input"
    by (rule openPosition_success [OF assms(1-4)])
  moreover have "configMinAllocation config \<le> configMaxAllocation config"
    using assms(3) by (simp add: sane_sizing_def)
  note bounds = allocation_bounds [OF this, of confidence]
  have "calculatePositionSize (in_portfolioValue input) confidence price config * price =
      (configMinAllocation config + max 0 (min 1 confidence) *
        (configMaxAllocation config - configMinAllocation config)) * in_portfolioValue input"
    using assms(5) by (simp add: calculatePositionSize_def Let_def)
  then have "configMinAllocation config * in_portfolioValue input
      \<le> calculatePositionSize (in_portfolioValue input) confidence price config * price \<and>
    calculatePositionSize (in_portfolioValue input) confidence price config * price
      \<le> configMaxAllocation config * in_portfolioValue input"
    using bounds assms(2) by (simp add: mult_right_mono)
  ultimately show ?thesis by (auto simp: heldCost_def)
qed

text \<open>A short loses at most its margin: a successful close of a held short pays back the
  closed share of the margin, the rest of the margin stays with the rest of the position (at
  the same margin per unit), and the realised loss never exceeds the margin paid back, so
  margin plus profit is never negative.\<close>

lemma closeShort_loss_capped:
  assumes "0 < pos_quantity p" "pos_marginAmount p = Some margin" "0 \<le> margin"
    "\<forall>c. in_confidence input = Some c \<longrightarrow> 0 \<le> c" "r = closeShort p input" "ar_success r"
  shows "\<exists>returned pnl. ar_marginAmount r = Some returned \<and> ar_realizedPnL r = Some pnl \<and>
    0 \<le> returned \<and> returned \<le> margin \<and> 0 \<le> returned + pnl \<and>
    returned * pos_quantity p = margin * ar_quantity r \<and>
    (case ar_position r of
       None \<Rightarrow> ar_quantity r = pos_quantity p \<and> returned = margin
     | Some p' \<Rightarrow> pos_quantity p' + ar_quantity r = pos_quantity p \<and>
         nullish (pos_marginAmount p') 0 + returned = margin \<and>
         nullish (pos_marginAmount p') 0 * pos_quantity p = margin * pos_quantity p')"
proof -
  define q where "q = min (resolveCloseQuantity input (pos_quantity p)) (pos_quantity p)"
  have q: "0 < q" "q \<le> pos_quantity p" using closedQuantity [OF assms(1,4)] by (simp_all add: q_def)
  have valid: "validateClose (Some p) input = None"
    using assms(5,6) by (auto simp: closeShort_def failureResult_def split: option.splits)
  let ?returned = "margin * (q / pos_quantity p)"
  have ratio: "0 \<le> q / pos_quantity p" "q / pos_quantity p \<le> 1" using q assms(1) by simp_all
  have returned: "0 \<le> ?returned" "?returned \<le> margin"
    using mult_nonneg_nonneg [OF assms(3) ratio(1)] mult_left_mono [OF ratio(2) assms(3)] by simp_all
  have r: "ar_marginAmount r = Some ?returned" "ar_quantity r = q"
    "ar_realizedPnL r = Some (max (- ?returned) ((pos_averagePrice p - in_price input) * q))"
    using assms(2,5) valid by (simp_all add: closeShort_def Let_def q_def)
  have rest: "ar_position r = None \<longleftrightarrow> q = pos_quantity p"
    "ar_position r = Some p' \<Longrightarrow> pos_quantity p' = pos_quantity p - q \<and>
       pos_marginAmount p' = Some (margin - ?returned)" for p'
    using assms(2,5) valid q by (auto simp: closeShort_def Let_def q_def [symmetric] split: if_splits)
  have "(margin - ?returned) * pos_quantity p = margin * (pos_quantity p - q)"
    "?returned * pos_quantity p = margin * q" using assms(1) by (simp_all add: field_simps)
  with r rest returned assms(1) show ?thesis
    by (cases "ar_position r") auto
qed

definition btc_short :: Position where
  "btc_short = \<lparr>pos_coinId = ''btc'', pos_quantity = 4, pos_averagePrice = 100, pos_totalValue = 100,
                pos_entryDate = None, pos_side = Some SHORT, pos_leverage = Some 4,
                pos_marginAmount = Some 100, pos_liquidationPrice = Some 124\<rparr>"

text \<open>A leveraged short is liquidated exactly when its equity falls to the maintenance
  margin: for a short opened with leverage above one, the liquidation test holds at a price if
  and only if the margin plus the unrealised profit is at most the maintenance rate times the
  value at entry.\<close>

lemma liquidation_at_maintenance_margin:
  assumes "ar_success (openShort existing input config leverage)" "1 < leverage"
    "0 < in_portfolioValue input" "sane_sizing config"
  shows "\<exists>p margin. ar_position (openShort existing input config leverage) = Some p \<and>
    pos_marginAmount p = Some margin \<and>
    (isLiquidated p price \<longleftrightarrow> margin + (pos_averagePrice p - price) * pos_quantity p
       \<le> MAINTENANCE_MARGIN_RATE * (pos_averagePrice p * pos_quantity p))"
proof -
  let ?q = "resolveOpenQuantity input config" and ?e = "in_price input"
  have valid: "validateOpen existing input 0 config = None"
    using assms(1) by (auto simp: openShort_def failureResult_def split: option.splits)
  then have e: "0 < ?e" by (auto simp: validateOpen_def split: if_splits)
  have q: "0 < ?q" by (rule resolveOpenQuantity_pos [OF e assms(3,4)])
  have "?e * (1 + 1 / leverage - m) \<le> price \<longleftrightarrow> (?e * (1 + 1 / leverage - m)) * ?q \<le> price * ?q" for m
    using q by simp
  also have "\<dots> m \<longleftrightarrow> ?q * ?e / leverage + (?e - price) * ?q \<le> m * (?e * ?q)" for m
    by (simp add: algebra_simps)
  finally have eq: "?e * (1 + 1 / leverage - m) \<le> price \<longleftrightarrow>
      ?q * ?e / leverage + (?e - price) * ?q \<le> m * (?e * ?q)" for m .
  obtain p where "ar_position (openShort existing input config leverage) = Some p"
    "pos_marginAmount p = Some (?q * ?e / leverage)" "pos_averagePrice p = ?e" "pos_quantity p = ?q"
    "pos_leverage p = Some leverage" "pos_side p = Some SHORT"
    "pos_liquidationPrice p = Some (?e * (1 + 1 / leverage - MAINTENANCE_MARGIN_RATE))"
    using assms(1) valid
    by (auto simp: openShort_def failureResult_def Let_def calculateLiquidationPrice_def split: if_splits)
  then show ?thesis
    using assms(2) eq [of MAINTENANCE_MARGIN_RATE] by (auto simp: isLiquidated_def)
qed

text \<open>The cap on the number of positions is never applied by an open: with any positive
  \<^verbatim>\<open>maxPositions\<close>, neither \<^verbatim>\<open>openPosition\<close> nor \<^verbatim>\<open>openShort\<close> fails with \<^verbatim>\<open>MAX_POSITIONS\<close>, as
  both validate against a count of zero open positions; the validation alone does refuse.\<close>

lemma max_positions_never_enforced:
  assumes "0 < nullish (sz_maxPositions config) 20"
  shows "ar_error (openPosition existing input config) \<noteq> Some (MAX_POSITIONS n) \<and>
    ar_error (openShort existing input config leverage) \<noteq> Some (MAX_POSITIONS n) \<and>
    (0 < in_price input \<and> in_quantity input = None \<longrightarrow>
       validateOpen None input (nullish (sz_maxPositions config) 20) config =
         Some (MAX_POSITIONS (nullish (sz_maxPositions config) 20)))"
proof -
  have "nullish (sz_maxPositions config) (nullish (sz_maxPositions DEFAULT_POSITION_CONFIG) 20) =
      nullish (sz_maxPositions config) 20"
    by (simp add: DEFAULT_POSITION_CONFIG_def)
  then have "validateOpen existing input 0 config \<noteq> Some (MAX_POSITIONS n)"
    "0 < in_price input \<and> in_quantity input = None \<longrightarrow>
       validateOpen None input (nullish (sz_maxPositions config) 20) config =
         Some (MAX_POSITIONS (nullish (sz_maxPositions config) 20))"
    using assms by (auto simp: validateOpen_def validateQuantity_def Let_def split: option.splits if_splits)
  then show ?thesis
    by (auto simp: openPosition_def openShort_def failureResult_def Let_def split: option.splits if_splits)
qed

end
