(* ===== verification/SignalFilters.thy ===== *)
theory SignalFilters
  imports PositionManager SignalThrottle "HOL-Library.Sublist"
begin

text \<open>
  The filters of \<^verbatim>\<open>order/backtest/shared/filters\<close> that run between the throttle and the trade:
  the regime filter, the concentration filter and their chain; the regime tables of
  \<^verbatim>\<open>libs/api-interfaces/src/lib/market/market-regime.interface.ts\<close>; and the sizing helpers of
  \<^verbatim>\<open>order/backtest/shared/execution/trade-executor.helpers.ts\<close> that read the allocation limits
  the chain returns.
\<close>

section \<open>Regimes\<close>

datatype MarketRegimeType = LOW_VOLATILITY | NORMAL | HIGH_VOLATILITY | EXTREME_VOLATILITY

datatype CompositeRegimeType = BULL | NEUTRAL | BEAR | EXTREME

fun REGIME_THRESHOLDS_min :: "MarketRegimeType \<Rightarrow> number" where
  "REGIME_THRESHOLDS_min LOW_VOLATILITY = 0"
| "REGIME_THRESHOLDS_min NORMAL = 25"
| "REGIME_THRESHOLDS_min HIGH_VOLATILITY = 75"
| "REGIME_THRESHOLDS_min EXTREME_VOLATILITY = 90"

definition classifyCompositeRegime :: "MarketRegimeType \<Rightarrow> bool \<Rightarrow> CompositeRegimeType" where
  "classifyCompositeRegime volatilityRegime trendAboveSma =
     (if \<not> trendAboveSma
      then if volatilityRegime = EXTREME_VOLATILITY then EXTREME else BEAR
      else if volatilityRegime = HIGH_VOLATILITY \<or> volatilityRegime = EXTREME_VOLATILITY then NEUTRAL
      else BULL)"

definition determineVolatilityRegime :: "number \<Rightarrow> MarketRegimeType" where
  "determineVolatilityRegime percentile =
     (if percentile \<ge> REGIME_THRESHOLDS_min EXTREME_VOLATILITY then EXTREME_VOLATILITY
      else if percentile \<ge> REGIME_THRESHOLDS_min HIGH_VOLATILITY then HIGH_VOLATILITY
      else if percentile \<ge> REGIME_THRESHOLDS_min NORMAL then NORMAL
      else LOW_VOLATILITY)"

fun DEFAULT_REGIME_MULTIPLIERS :: "CompositeRegimeType \<Rightarrow> number" where
  "DEFAULT_REGIME_MULTIPLIERS BULL = 1"
| "DEFAULT_REGIME_MULTIPLIERS NEUTRAL = 5 / 10"
| "DEFAULT_REGIME_MULTIPLIERS BEAR = 1 / 10"
| "DEFAULT_REGIME_MULTIPLIERS EXTREME = 5 / 100"

text \<open>The matrix has the rows 1 to 5; any other risk level reads \<^verbatim>\<open>undefined\<close>.\<close>

definition regimeRow :: "number \<Rightarrow> number \<Rightarrow> number \<Rightarrow> number \<Rightarrow> CompositeRegimeType \<Rightarrow> number" where
  "regimeRow bull neutral bear extreme regime =
     (case regime of BULL \<Rightarrow> bull | NEUTRAL \<Rightarrow> neutral | BEAR \<Rightarrow> bear | EXTREME \<Rightarrow> extreme)"

definition RISK_REGIME_MULTIPLIER_MATRIX :: "number \<Rightarrow> (CompositeRegimeType \<Rightarrow> number) option" where
  "RISK_REGIME_MULTIPLIER_MATRIX riskLevel =
     (if riskLevel = 1 then Some (regimeRow 1 (40 / 100) (5 / 100) (2 / 100))
      else if riskLevel = 2 then Some (regimeRow 1 (45 / 100) (8 / 100) (3 / 100))
      else if riskLevel = 3 then Some (regimeRow 1 (50 / 100) (10 / 100) (5 / 100))
      else if riskLevel = 4 then Some (regimeRow 1 (60 / 100) (15 / 100) (8 / 100))
      else if riskLevel = 5 then Some (regimeRow 1 (70 / 100) (20 / 100) (10 / 100))
      else None)"

definition getRegimeMultiplier :: "number \<Rightarrow> CompositeRegimeType \<Rightarrow> number" where
  "getRegimeMultiplier riskLevel compositeRegime =
     (nullish (RISK_REGIME_MULTIPLIER_MATRIX riskLevel) DEFAULT_REGIME_MULTIPLIERS) compositeRegime"

section \<open>Signals and contexts\<close>

datatype TradingContext = PAPER | BACKTEST | LIVE

text \<open>The signals of the engines extend this record.\<close>

record FilterableSignal =
  fs_action :: string
  fs_originalType :: "string option"
  fs_coinId :: "string option"

record HeldPosition =
  hp_quantity :: number
  hp_averagePrice :: number

record ConcentrationContext =
  cc_portfolioPositions :: "(string, HeldPosition) jsmap"
  cc_portfolioTotalValue :: number
  cc_currentPrices :: "(string, number) jsmap option"

record SignalFilterContext =
  fc_compositeRegime :: CompositeRegimeType
  fc_riskLevel :: number
  fc_regimeGateEnabled :: bool
  fc_regimeScaledSizingEnabled :: bool
  fc_tradingContext :: "TradingContext option"
  fc_overrideActive :: "bool option"
  fc_concentrationContext :: "ConcentrationContext option"

record Allocation =
  al_maxAllocation :: number
  al_minAllocation :: number

record 's SignalFilterResult =
  fr_signals :: "'s list"
  fr_maxAllocation :: number
  fr_minAllocation :: number
  fr_regimeGateBlockedCount :: int
  fr_regimeMultiplier :: number

text \<open>Upper case, on the characters below 256: only the letters \<open>a\<close> to \<open>z\<close> matter here.\<close>

definition upperChar :: "char \<Rightarrow> char" where
  "upperChar c = (let n = of_char c :: nat in if 97 \<le> n \<and> n \<le> 122 then char_of (n - 32) else c)"

definition toUpperCase :: "string \<Rightarrow> string" where
  "toUpperCase s = map upperChar s"

section \<open>The regime filter\<close>

definition shouldApplyGate :: "SignalFilterContext \<Rightarrow> bool" where
  "shouldApplyGate context =
     (if fc_overrideActive context = Some True then False
      else case fc_tradingContext context of
             None \<Rightarrow> fc_regimeGateEnabled context
           | Some PAPER \<Rightarrow> False
           | Some BACKTEST \<Rightarrow> fc_regimeGateEnabled context
           | Some LIVE \<Rightarrow>
               if fc_riskLevel context \<le> 2
               then fc_compositeRegime context = BEAR \<or> fc_compositeRegime context = EXTREME
               else fc_compositeRegime context = EXTREME)"

definition isBuyBlocked :: "CompositeRegimeType \<Rightarrow> string \<Rightarrow> string option \<Rightarrow> bool" where
  "isBuyBlocked compositeRegime action originalType =
     (if originalType = Some ''STOP_LOSS'' \<or> originalType = Some ''TAKE_PROFIT'' then False
      else if toUpperCase action \<noteq> ''BUY'' then False
      else compositeRegime = BEAR \<or> compositeRegime = EXTREME)"

definition RegimeFilter_apply ::
    "'a FilterableSignal_scheme list \<Rightarrow> SignalFilterContext \<Rightarrow> Allocation \<Rightarrow>
     'a FilterableSignal_scheme SignalFilterResult" where
  "RegimeFilter_apply signals context allocation =
     (let filtered = (if shouldApplyGate context
                      then filter (\<lambda>s. \<not> isBuyBlocked (fc_compositeRegime context) (fs_action s) (fs_originalType s)) signals
                      else signals);
          blockedCount = (if shouldApplyGate context then int (length signals) - int (length filtered) else 0);
          regimeMultiplier = (if fc_regimeScaledSizingEnabled context
                              then getRegimeMultiplier (fc_riskLevel context) (fc_compositeRegime context)
                              else 1)
      in \<lparr>fr_signals = filtered,
          fr_maxAllocation = (if fc_regimeScaledSizingEnabled context
                              then al_maxAllocation allocation * regimeMultiplier
                              else al_maxAllocation allocation),
          fr_minAllocation = (if fc_regimeScaledSizingEnabled context
                              then al_minAllocation allocation * regimeMultiplier
                              else al_minAllocation allocation),
          fr_regimeGateBlockedCount = blockedCount, fr_regimeMultiplier = regimeMultiplier\<rparr>)"

section \<open>The concentration filter\<close>

record ConcentrationLimits =
  cl_hard :: number
  cl_soft :: number

definition CONCENTRATION_LIMITS :: "number \<Rightarrow> ConcentrationLimits option" where
  "CONCENTRATION_LIMITS riskLevel =
     (if riskLevel = 1 then Some \<lparr>cl_hard = 25 / 100, cl_soft = 20 / 100\<rparr>
      else if riskLevel = 2 then Some \<lparr>cl_hard = 30 / 100, cl_soft = 25 / 100\<rparr>
      else if riskLevel = 3 then Some \<lparr>cl_hard = 35 / 100, cl_soft = 30 / 100\<rparr>
      else if riskLevel = 4 then Some \<lparr>cl_hard = 45 / 100, cl_soft = 40 / 100\<rparr>
      else if riskLevel = 5 then Some \<lparr>cl_hard = 55 / 100, cl_soft = 50 / 100\<rparr>
      else None)"

definition limitsFor :: "number \<Rightarrow> ConcentrationLimits" where
  "limitsFor riskLevel = nullish (CONCENTRATION_LIMITS riskLevel) (the (CONCENTRATION_LIMITS 3))"

definition concentrationOf :: "ConcentrationContext \<Rightarrow> string \<Rightarrow> HeldPosition \<Rightarrow> number" where
  "concentrationOf cc coinId position =
     (let price = nullish (case cc_currentPrices cc of None \<Rightarrow> None | Some prices \<Rightarrow> map_get prices coinId)
                    (hp_averagePrice position);
          positionValue = hp_quantity position * price
      in positionValue / cc_portfolioTotalValue cc)"

definition adjustMaxAllocation :: "ConcentrationContext \<Rightarrow> ConcentrationLimits \<Rightarrow> number \<Rightarrow> number" where
  "adjustMaxAllocation cc limits maxAllocation =
     foldl (\<lambda>adjustedMax (coinId, position).
              let concentration = concentrationOf cc coinId position
              in if concentration > cl_soft limits
                 then min adjustedMax (max 0 (cl_hard limits - concentration))
                 else adjustedMax)
       maxAllocation (cc_portfolioPositions cc)"

definition belowHardLimit ::
    "ConcentrationContext \<Rightarrow> ConcentrationLimits \<Rightarrow> 'a FilterableSignal_scheme \<Rightarrow> bool" where
  "belowHardLimit cc limits signal =
     (let action = toUpperCase (fs_action signal)
      in if action \<noteq> ''BUY'' \<and> action \<noteq> ''OPEN_SHORT'' then True
         else case fs_coinId signal of
                None \<Rightarrow> True
              | Some coinId \<Rightarrow>
                  if coinId = [] then True
                  else case map_get (cc_portfolioPositions cc) coinId of
                         None \<Rightarrow> True
                       | Some position \<Rightarrow> concentrationOf cc coinId position < cl_hard limits)"

definition ConcentrationFilter_apply ::
    "'a FilterableSignal_scheme list \<Rightarrow> SignalFilterContext \<Rightarrow> Allocation \<Rightarrow>
     'a FilterableSignal_scheme SignalFilterResult" where
  "ConcentrationFilter_apply signals context allocation =
     (let pass = \<lparr>fr_signals = signals, fr_maxAllocation = al_maxAllocation allocation,
                  fr_minAllocation = al_minAllocation allocation,
                  fr_regimeGateBlockedCount = 0, fr_regimeMultiplier = 1\<rparr>
      in case fc_concentrationContext context of
           None \<Rightarrow> pass
         | Some cc \<Rightarrow>
             if signals = [] then pass
             else let limits = limitsFor (fc_riskLevel context)
                  in if cc_portfolioTotalValue cc \<le> 0 then pass
                     else pass\<lparr>fr_signals := filter (belowHardLimit cc limits) signals,
                               fr_maxAllocation :=
                                 adjustMaxAllocation cc limits (al_maxAllocation allocation)\<rparr>)"

section \<open>The chain\<close>

text \<open>One filter applied to the result so far.\<close>

definition chainStep ::
    "('s list \<Rightarrow> SignalFilterContext \<Rightarrow> Allocation \<Rightarrow> 's SignalFilterResult) \<Rightarrow> SignalFilterContext \<Rightarrow>
     's SignalFilterResult \<Rightarrow> 's SignalFilterResult" where
  "chainStep apply_filter context current =
     (let result = apply_filter (fr_signals current) context
            \<lparr>al_maxAllocation = fr_maxAllocation current, al_minAllocation = fr_minAllocation current\<rparr>
      in \<lparr>fr_signals = fr_signals result, fr_maxAllocation = fr_maxAllocation result,
          fr_minAllocation = fr_minAllocation result,
          fr_regimeGateBlockedCount = fr_regimeGateBlockedCount current + fr_regimeGateBlockedCount result,
          fr_regimeMultiplier = (if fr_regimeMultiplier result \<noteq> 1 then fr_regimeMultiplier result
                                 else fr_regimeMultiplier current)\<rparr>)"

definition SignalFilterChain_apply ::
    "'a FilterableSignal_scheme list \<Rightarrow> SignalFilterContext \<Rightarrow> Allocation \<Rightarrow>
     'a FilterableSignal_scheme SignalFilterResult" where
  "SignalFilterChain_apply signals context allocation =
     foldl (\<lambda>current apply_filter. chainStep apply_filter context current)
       \<lparr>fr_signals = signals, fr_maxAllocation = al_maxAllocation allocation,
        fr_minAllocation = al_minAllocation allocation, fr_regimeGateBlockedCount = 0,
        fr_regimeMultiplier = 1\<rparr>
       [RegimeFilter_apply, ConcentrationFilter_apply]"

section \<open>Sizing a trade\<close>

definition MAX_LEVERAGE_CAP :: number where
  "MAX_LEVERAGE_CAP = 10"

definition RISK_LEVERAGE_MAP :: "int \<Rightarrow> number option" where
  "RISK_LEVERAGE_MAP level =
     (if level = 1 then Some 1 else if level = 2 then Some 2 else if level = 3 then Some 3
      else if level = 4 then Some 5 else if level = 5 then Some 10 else None)"

text \<open>\<^verbatim>\<open>Math.round\<close> rounds a half up.\<close>

definition getMaxLeverage :: "number \<Rightarrow> number" where
  "getMaxLeverage riskLevel =
     (let clamped = max 1 (min 5 \<lfloor>riskLevel + 1 / 2\<rfloor>);
          mapped = nullish (RISK_LEVERAGE_MAP clamped) 1
      in min mapped MAX_LEVERAGE_CAP)"

text \<open>The leverage of the metadata, when it is a number that the clamp makes finite.\<close>

text \<open>
  The number that \<^verbatim>\<open>Math.max\<close> makes of a value. A string is read as a numeric literal between blanks;
  an object (\<open>JOther\<close>) is taken to be no number.
\<close>

definition digitIn :: "nat \<Rightarrow> char \<Rightarrow> bool" where
  "digitIn base c \<longleftrightarrow> c \<in> set (take base ''0123456789'') \<or>
     10 < base \<and> (c \<in> set ''abcdef'' \<or> c \<in> set ''ABCDEF'')"

definition digitValue :: "char \<Rightarrow> nat" where
  "digitValue c =
     (let n = of_char c :: nat in if n < 58 then n - 48 else if n < 71 then n - 55 else n - 87)"

definition digitsValue :: "nat \<Rightarrow> string \<Rightarrow> nat" where
  "digitsValue base ds = foldl (\<lambda>n c. base * n + digitValue c) 0 ds"

definition signedText :: "string \<Rightarrow> number \<times> string" where
  "signedText s =
     (case s of c # rest \<Rightarrow> if c = CHR ''-'' then (- 1, rest) else if c = CHR ''+'' then (1, rest) else (1, s)
      | [] \<Rightarrow> (1, s))"

definition isBlank :: "char \<Rightarrow> bool" where
  "isBlank c \<longleftrightarrow> (of_char c :: nat) \<in> {9, 10, 11, 12, 13, 32}"

definition unsignedDecimal :: "string \<Rightarrow> number option" where
  "unsignedDecimal s =
     (let whole = takeWhile (digitIn 10) s; rest = dropWhile (digitIn 10) s;
          (frac, expo) = (if rest \<noteq> [] \<and> hd rest = CHR ''.''
            then (takeWhile (digitIn 10) (tl rest), dropWhile (digitIn 10) (tl rest)) else ([], rest));
          mantissa = of_nat (digitsValue 10 (whole @ frac)) / 10 ^ length frac
      in if whole = [] \<and> frac = [] then None
         else if expo = [] then Some mantissa
         else let (sign, ds) = signedText (tl expo)
              in if hd expo \<in> set ''eE'' \<and> ds \<noteq> [] \<and> list_all (digitIn 10) ds
                 then Some (if sign < 0 then mantissa / 10 ^ digitsValue 10 ds else mantissa * 10 ^ digitsValue 10 ds)
                 else None)"

definition radixOf :: "string \<Rightarrow> nat option" where
  "radixOf s =
     (if length s < 3 \<or> hd s \<noteq> CHR ''0'' then None
      else if s ! 1 \<in> set ''xX'' then Some 16 else if s ! 1 \<in> set ''oO'' then Some 8
      else if s ! 1 \<in> set ''bB'' then Some 2 else None)"

definition stringToNumber :: "string \<Rightarrow> js_number" where
  "stringToNumber text =
     (let s = rev (dropWhile isBlank (rev (dropWhile isBlank text))); (sign, body) = signedText s
      in if s = [] then Finite 0
         else if body = ''Infinity'' then if sign < 0 then MinusInfinity else PlusInfinity
         else case radixOf s of
                Some base \<Rightarrow> if list_all (digitIn base) (drop 2 s)
                  then Finite (of_nat (digitsValue base (drop 2 s))) else NaN
              | None \<Rightarrow> (case unsignedDecimal body of None \<Rightarrow> NaN | Some x \<Rightarrow> Finite (sign * x)))"

fun toNumber :: "js_value \<Rightarrow> js_number" where
  "toNumber (JNumber x) = x"
| "toNumber (JString s) = stringToNumber s"
| "toNumber (JBool b) = Finite (if b then 1 else 0)"
| "toNumber JNull = Finite 0"
| "toNumber JOther = NaN"

fun clampLeverage :: "js_number \<Rightarrow> js_number" where
  "clampLeverage (Finite x) = Finite (min (max 1 x) MAX_LEVERAGE_CAP)"
| "clampLeverage PlusInfinity = Finite MAX_LEVERAGE_CAP"
| "clampLeverage MinusInfinity = Finite (min 1 MAX_LEVERAGE_CAP)"
| "clampLeverage NaN = NaN"

definition resolveShortLeverage :: "TradingSignal \<Rightarrow> number \<Rightarrow> js_number" where
  "resolveShortLeverage signal defaultLeverage =
     (case (case sg_metadata signal of None \<Rightarrow> None | Some m \<Rightarrow> map_get m ''leverage'') of
        None \<Rightarrow> clampLeverage (Finite defaultLeverage)
      | Some leverage \<Rightarrow> clampLeverage (if leverage = JNull then Finite defaultLeverage else toNumber leverage))"

definition HOUR_MS :: number where
  "HOUR_MS = 60 * 60 * 1000"

definition MIN_HOLD_BY_RISK :: "int \<Rightarrow> number" where
  "MIN_HOLD_BY_RISK level =
     (if level = 1 then 4 * HOUR_MS else if level = 2 then 3 * HOUR_MS else if level = 3 then 2 * HOUR_MS
      else if level = 4 then 3 / 2 * HOUR_MS else 1 * HOUR_MS)"

definition getMinHoldMs :: "number \<Rightarrow> number" where
  "getMinHoldMs riskLevel =
     (let clamped = max 1 (min 5 \<lfloor>riskLevel + 1 / 2\<rfloor>) in MIN_HOLD_BY_RISK clamped)"

definition calculateBuyQuantity ::
    "TradingSignal \<Rightarrow> number \<Rightarrow> number \<Rightarrow> number \<Rightarrow> number \<Rightarrow> number \<times> bool" where
  "calculateBuyQuantity signal portfolioTotalValue basePrice maxAllocation minAllocation =
     (if truthy (sg_quantity signal) then (the (sg_quantity signal), False)
      else if truthy (sg_percentage signal)
      then (portfolioTotalValue * the (sg_percentage signal) / basePrice, False)
      else case sg_confidence signal of
             Some confidence \<Rightarrow>
               let confidenceBasedAllocation = minAllocation + confidence * (maxAllocation - minAllocation)
               in (portfolioTotalValue * confidenceBasedAllocation / basePrice, False)
           | None \<Rightarrow> (portfolioTotalValue * minAllocation / basePrice, True))"

definition calculateSellQuantity :: "TradingSignal \<Rightarrow> number \<Rightarrow> number \<times> bool" where
  "calculateSellQuantity signal existingQuantity =
     (let (quantity, usedFallback) =
            (if truthy (sg_quantity signal) then (the (sg_quantity signal), False)
             else if truthy (sg_percentage signal)
             then (existingQuantity * min 1 (the (sg_percentage signal)), False)
             else case sg_confidence signal of
                    Some confidence \<Rightarrow> (existingQuantity * (25 / 100 + confidence * (75 / 100)), False)
                  | None \<Rightarrow> (existingQuantity * (25 / 100), True))
      in (min quantity existingQuantity, usedFallback))"

definition calculateShortLiquidationPrice :: "number \<Rightarrow> number \<Rightarrow> number" where
  "calculateShortLiquidationPrice entryPrice leverage =
     entryPrice * (1 + 1 / leverage - MAINTENANCE_MARGIN_RATE)"

definition calculateLongPnL :: "number \<Rightarrow> number \<Rightarrow> number \<Rightarrow> number \<times> number" where
  "calculateLongPnL exitPrice costBasis quantity =
     ((exitPrice - costBasis) * quantity,
      if costBasis > 0 then (exitPrice - costBasis) / costBasis else 0)"

definition calculateShortPnL :: "number \<Rightarrow> number \<Rightarrow> number \<Rightarrow> number \<Rightarrow> number \<times> number" where
  "calculateShortPnL exitPrice costBasis quantity returnedMargin =
     (let rawPnL = (costBasis - exitPrice) * quantity
      in (max (- returnedMargin) rawPnL,
          if costBasis > 0 then (costBasis - exitPrice) / costBasis else 0))"

definition isRiskControlSignal :: "TradingSignal \<Rightarrow> bool" where
  "isRiskControlSignal signal \<longleftrightarrow>
     sg_originalType signal = Some STOP_LOSS \<or> sg_originalType signal = Some TAKE_PROFIT"

section \<open>Lemmas\<close>

text \<open>A signal that opens a position; every other signal leaves one or waits.\<close>

definition entrySignal :: "'a FilterableSignal_scheme \<Rightarrow> bool" where
  "entrySignal s \<longleftrightarrow> toUpperCase (fs_action s) = ''BUY'' \<or> toUpperCase (fs_action s) = ''OPEN_SHORT''"

lemma getRegimeMultiplier_range: "0 \<le> getRegimeMultiplier r c" "getRegimeMultiplier r c \<le> 1"
  by (cases c; auto simp: getRegimeMultiplier_def RISK_REGIME_MULTIPLIER_MATRIX_def regimeRow_def)+

lemma isBuyBlocked_entry: "isBuyBlocked regime (fs_action s) t \<Longrightarrow> entrySignal s"
  by (auto simp: isBuyBlocked_def entrySignal_def split: if_splits)

lemma belowHardLimit_exit: "\<not> entrySignal s \<Longrightarrow> belowHardLimit cc limits s"
  by (auto simp: belowHardLimit_def entrySignal_def Let_def)

lemma filter_keeps_others: "(\<And>x. \<not> P x \<Longrightarrow> Q x) \<Longrightarrow> filter (\<lambda>x. \<not> P x) (filter Q xs) = filter (\<lambda>x. \<not> P x) xs"
  by (induction xs) auto

text \<open>What each filter keeps to; the chain keeps to it as well.\<close>

definition restricts ::
    "('a FilterableSignal_scheme list \<Rightarrow> SignalFilterContext \<Rightarrow> Allocation \<Rightarrow>
      'a FilterableSignal_scheme SignalFilterResult) \<Rightarrow> bool" where
  "restricts f \<longleftrightarrow> (\<forall>signals context allocation. let r = f signals context allocation in
     subseq (fr_signals r) signals \<and>
     filter (\<lambda>s. \<not> entrySignal s) (fr_signals r) = filter (\<lambda>s. \<not> entrySignal s) signals \<and>
     0 \<le> fr_regimeGateBlockedCount r \<and>
     fr_regimeGateBlockedCount r \<le> int (length signals) - int (length (fr_signals r)) \<and>
     (0 \<le> al_maxAllocation allocation \<longrightarrow> 0 \<le> fr_maxAllocation r \<and> fr_maxAllocation r \<le> al_maxAllocation allocation) \<and>
     (0 \<le> al_minAllocation allocation \<longrightarrow> 0 \<le> fr_minAllocation r \<and> fr_minAllocation r \<le> al_minAllocation allocation))"

lemma RegimeFilter_restricts: "restricts RegimeFilter_apply"
proof -
  have "filter (\<lambda>s. \<not> entrySignal s) (filter (\<lambda>s. \<not> isBuyBlocked regime (fs_action s) (fs_originalType s)) xs) =
      filter (\<lambda>s. \<not> entrySignal s) xs" for regime and xs :: "'a FilterableSignal_scheme list"
    by (rule filter_keeps_others) (auto dest: isBuyBlocked_entry)
  moreover have "int (length (filter P xs)) \<le> int (length xs)" for P and xs :: "'a FilterableSignal_scheme list"
    by simp
  moreover have "0 \<le> x \<Longrightarrow> 0 \<le> x * getRegimeMultiplier r c \<and> x * getRegimeMultiplier r c \<le> x" for x r c
    using getRegimeMultiplier_range [of r c] mult_left_mono [of "getRegimeMultiplier r c" 1 x] by simp
  ultimately show ?thesis
    by (simp add: restricts_def RegimeFilter_apply_def Let_def)
qed

lemma foldl_cap_range:
  fixes m :: number
  assumes "\<And>b x. 0 \<le> b \<Longrightarrow> 0 \<le> f b x \<and> f b x \<le> b" "0 \<le> m"
  shows "0 \<le> foldl f m xs \<and> foldl f m xs \<le> m"
  using assms(2)
proof (induction xs arbitrary: m)
  case (Cons x xs)
  have step: "0 \<le> f m x" "f m x \<le> m" using assms(1) Cons.prems by blast+
  from Cons.IH [OF step(1)] step(2) show ?case by auto
qed simp

lemma adjustMaxAllocation_range:
  "0 \<le> m \<Longrightarrow> 0 \<le> adjustMaxAllocation cc limits m \<and> adjustMaxAllocation cc limits m \<le> m"
  unfolding adjustMaxAllocation_def by (rule foldl_cap_range) (auto simp: Let_def split: prod.splits)

lemma ConcentrationFilter_restricts: "restricts ConcentrationFilter_apply"
proof -
  have "filter (\<lambda>s. \<not> entrySignal s) (filter (belowHardLimit cc limits) xs) = filter (\<lambda>s. \<not> entrySignal s) xs"
    for cc limits and xs :: "'a FilterableSignal_scheme list"
    by (rule filter_keeps_others) (rule belowHardLimit_exit)
  then show ?thesis
    using adjustMaxAllocation_range
    by (auto simp: restricts_def ConcentrationFilter_apply_def Let_def split: option.splits)
qed

lemma restrictsD:
  assumes "restricts f"
  shows "subseq (fr_signals (f ss ctx al)) ss"
    "filter (\<lambda>s. \<not> entrySignal s) (fr_signals (f ss ctx al)) = filter (\<lambda>s. \<not> entrySignal s) ss"
    "0 \<le> fr_regimeGateBlockedCount (f ss ctx al)"
    "fr_regimeGateBlockedCount (f ss ctx al) \<le> int (length ss) - int (length (fr_signals (f ss ctx al)))"
    "0 \<le> al_maxAllocation al \<Longrightarrow> 0 \<le> fr_maxAllocation (f ss ctx al) \<and> fr_maxAllocation (f ss ctx al) \<le> al_maxAllocation al"
    "0 \<le> al_minAllocation al \<Longrightarrow> 0 \<le> fr_minAllocation (f ss ctx al) \<and> fr_minAllocation (f ss ctx al) \<le> al_minAllocation al"
  using assms by (auto simp: restricts_def Let_def)

lemma chain_restricts: "restricts SignalFilterChain_apply"
proof -
  have "restricts (\<lambda>ss ctx al. chainStep g ctx (chainStep f ctx
      \<lparr>fr_signals = ss, fr_maxAllocation = al_maxAllocation al, fr_minAllocation = al_minAllocation al,
       fr_regimeGateBlockedCount = 0, fr_regimeMultiplier = 1\<rparr>))"
    if f: "restricts f" and g: "restricts g"
    for f g :: "'a FilterableSignal_scheme list \<Rightarrow> SignalFilterContext \<Rightarrow> Allocation \<Rightarrow> 'a FilterableSignal_scheme SignalFilterResult"
    unfolding restricts_def Let_def chainStep_def
  proof (intro allI conjI impI; simp)
    fix ss ctx al
    let ?r = "f ss ctx \<lparr>al_maxAllocation = al_maxAllocation al, al_minAllocation = al_minAllocation al\<rparr>"
    let ?s = "g (fr_signals ?r) ctx \<lparr>al_maxAllocation = fr_maxAllocation ?r, al_minAllocation = fr_minAllocation ?r\<rparr>"
    note F = restrictsD [OF f, where ss = ss and ctx = ctx and al = "\<lparr>al_maxAllocation = al_maxAllocation al, al_minAllocation = al_minAllocation al\<rparr>"]
    note G = restrictsD [OF g, where ss = "fr_signals ?r" and ctx = ctx and al = "\<lparr>al_maxAllocation = fr_maxAllocation ?r, al_minAllocation = fr_minAllocation ?r\<rparr>"]
    show "subseq (fr_signals ?s) ss" using F(1) G(1) by (rule subseq_order.order_trans [rotated])
    show "filter (\<lambda>s. \<not> entrySignal s) (fr_signals ?s) = filter (\<lambda>s. \<not> entrySignal s) ss" using F(2) G(2) by simp
    show "0 \<le> fr_regimeGateBlockedCount ?r + fr_regimeGateBlockedCount ?s" using F(3) G(3) by simp
    show "fr_regimeGateBlockedCount ?r + fr_regimeGateBlockedCount ?s \<le> int (length ss) - int (length (fr_signals ?s))"
      using F(4) G(4) by simp
    show "0 \<le> fr_maxAllocation ?s" if "0 \<le> al_maxAllocation al" using F(5) G(5) that by simp
    show "fr_maxAllocation ?s \<le> al_maxAllocation al" if "0 \<le> al_maxAllocation al" using F(5) G(5) that by simp
    show "0 \<le> fr_minAllocation ?s" if "0 \<le> al_minAllocation al" using F(6) G(6) that by simp
    show "fr_minAllocation ?s \<le> al_minAllocation al" if "0 \<le> al_minAllocation al" using F(6) G(6) that by simp
  qed
  from this [OF RegimeFilter_restricts ConcentrationFilter_restricts] show ?thesis
    unfolding SignalFilterChain_apply_def restricts_def by simp
qed

section \<open>Properties\<close>

text \<open>The filters only restrict: the chain returns a subsequence of the signals, keeps every
  signal that is not an entry (in order), counts as blocked at most the signals it dropped, and
  never raises or makes negative a nonnegative allocation limit.\<close>

lemma filterChain_only_restricts:
  assumes "0 \<le> al_maxAllocation allocation" "0 \<le> al_minAllocation allocation"
    "r = SignalFilterChain_apply signals context allocation"
  shows "subseq (fr_signals r) signals \<and>
    filter (\<lambda>s. \<not> entrySignal s) (fr_signals r) = filter (\<lambda>s. \<not> entrySignal s) signals \<and>
    0 \<le> fr_regimeGateBlockedCount r \<and>
    fr_regimeGateBlockedCount r \<le> int (length signals) - int (length (fr_signals r)) \<and>
    0 \<le> fr_maxAllocation r \<and> fr_maxAllocation r \<le> al_maxAllocation allocation \<and>
    0 \<le> fr_minAllocation r \<and> fr_minAllocation r \<le> al_minAllocation allocation"
  unfolding assms(3) using restrictsD [OF chain_restricts] assms(1,2) by blast

definition calm_context :: SignalFilterContext where
  "calm_context = \<lparr>fc_compositeRegime = EXTREME, fc_riskLevel = 3, fc_regimeGateEnabled = True,
                   fc_regimeScaledSizingEnabled = True, fc_tradingContext = Some LIVE,
                   fc_overrideActive = None, fc_concentrationContext = None\<rparr>"

definition sell_btc :: FilterableSignal where
  "sell_btc = \<lparr>fs_action = ''SELL'', fs_originalType = None, fs_coinId = Some ''btc''\<rparr>"

lemma upper_literals:
  "toUpperCase ''buy'' = ''BUY''" "toUpperCase ''Buy'' = ''BUY''" "toUpperCase ''SELL'' = ''SELL''"
  by code_simp+

text \<open>The gate policy of live trading: without an admin override, an ordinary buy passes the
  regime filter exactly when the market is not extreme and, at the risk levels up to 2, not
  bearish either; a risk-control signal always passes.\<close>

lemma live_gate_policy:
  assumes "fc_tradingContext context = Some LIVE" "fc_overrideActive context \<noteq> Some True"
    "s \<in> set signals"
  shows "(toUpperCase (fs_action s) = ''BUY'' \<and> fs_originalType s \<notin> {Some ''STOP_LOSS'', Some ''TAKE_PROFIT''} \<longrightarrow>
      (s \<in> set (fr_signals (RegimeFilter_apply signals context allocation)) \<longleftrightarrow>
       fc_compositeRegime context \<noteq> EXTREME \<and>
       \<not> (fc_compositeRegime context = BEAR \<and> fc_riskLevel context \<le> 2))) \<and>
    (fs_originalType s \<in> {Some ''STOP_LOSS'', Some ''TAKE_PROFIT''} \<longrightarrow>
      s \<in> set (fr_signals (RegimeFilter_apply signals context allocation)))"
  using assms
  by (cases "fc_compositeRegime context")
    (simp_all add: RegimeFilter_apply_def shouldApplyGate_def isBuyBlocked_def Let_def)

text \<open>The concentration cap can turn the sizing upside down: when a held coin is at or above
  the hard limit the filter lowers the maximum allocation to zero and leaves the minimum, so a
  buy of another coin with full confidence gets nothing while one with no confidence, or
  without a confidence at all, still gets the minimum allocation of the portfolio.\<close>

lemma concentration_cap_inverts_sizing:
  fixes total price :: number
  assumes "fc_concentrationContext context = Some cc" "signals \<noteq> []" "0 < cc_portfolioTotalValue cc"
    "0 \<le> al_maxAllocation allocation" "(coin, position) \<in> set (cc_portfolioPositions cc)"
    "cl_hard (limitsFor (fc_riskLevel context)) \<le> concentrationOf cc coin position"
    "sg_quantity s = None" "sg_percentage s = None"
  defines "r \<equiv> ConcentrationFilter_apply signals context allocation"
  defines "bought \<equiv> \<lambda>confidence. fst (calculateBuyQuantity (s\<lparr>sg_confidence := confidence\<rparr>) total price
      (fr_maxAllocation r) (fr_minAllocation r))"
  shows "fr_maxAllocation r = 0 \<and> fr_minAllocation r = al_minAllocation allocation \<and>
    bought (Some 1) = 0 \<and> bought (Some 0) = total * al_minAllocation allocation / price \<and>
    bought None = total * al_minAllocation allocation / price"
proof -
  let ?l = "limitsFor (fc_riskLevel context)"
  have soft: "cl_soft ?l < cl_hard ?l" by (auto simp: limitsFor_def CONCENTRATION_LIMITS_def)
  have zero: "foldl (\<lambda>m (c, p). let x = concentrationOf cc c p in
        if x > cl_soft ?l then min m (max 0 (cl_hard ?l - x)) else m) m ps = 0"
    if "0 \<le> m" "(coin, position) \<in> set ps \<or> m = 0" for m ps
    using that
  proof (induction ps arbitrary: m)
    case (Cons x ps)
    obtain c p where x: "x = (c, p)" by (cases x)
    show ?case
    proof (cases "x = (coin, position)")
      case True
      with assms(6) soft Cons show ?thesis by (simp add: Let_def)
    next
      case False
      with Cons show ?thesis by (auto simp: x Let_def)
    qed
  qed simp
  have "adjustMaxAllocation cc ?l (al_maxAllocation allocation) = 0"
    unfolding adjustMaxAllocation_def using assms(4,5) by (intro zero) auto
  then have "fr_maxAllocation r = 0" "fr_minAllocation r = al_minAllocation allocation"
    using assms(1-3) by (simp_all add: r_def ConcentrationFilter_apply_def Let_def)
  then show ?thesis
    using assms(7,8) by (simp add: bought_def calculateBuyQuantity_def Let_def)
qed

end
