(* ===== verification/Retry.thy ===== *)
theory Retry
  imports Prelude "HOL-Library.Sublist" "HOL-Library.Char_ord"
begin

text \<open>
  \<^verbatim>\<open>shared/retry.util.ts\<close>: the classification of errors, the delays and the retry loop that the
  exchange, database and cache clients share. An operation that is retried is the function from
  the number of the attempt to its outcome; the random number of the jitter is such a function
  too. Strings are lists of characters below 256. A regular expression of the source is a
  function of its own, named after what it matches.
\<close>

section \<open>Strings\<close>

definition lowerChar :: "char \<Rightarrow> char" where
  "lowerChar c = (let n = of_char c :: nat in if 65 \<le> n \<and> n \<le> 90 then char_of (n + 32) else c)"

definition toLowerCase :: "string \<Rightarrow> string" where
  "toLowerCase s = map lowerChar s"

definition js_includes :: "string \<Rightarrow> string \<Rightarrow> bool" where
  "js_includes s w = list_ex (prefix w) (suffixes s)"

definition isDigit :: "char \<Rightarrow> bool" where
  "isDigit c = (let n = of_char c :: nat in 48 \<le> n \<and> n \<le> 57)"

definition isWordChar :: "char \<Rightarrow> bool" where
  "isWordChar c =
     (let n = of_char c :: nat in isDigit c \<or> 65 \<le> n \<and> n \<le> 90 \<or> 97 \<le> n \<and> n \<le> 122 \<or> n = 95)"

definition isSpaceChar :: "char \<Rightarrow> bool" where
  "isSpaceChar c = (let n = of_char c :: nat in n = 32 \<or> 9 \<le> n \<and> n \<le> 13 \<or> n = 160)"

text \<open>The word between boundaries: \<^verbatim>\<open>\b429\b\<close>. The first argument is the character before.\<close>

fun wordAt :: "char option \<Rightarrow> string \<Rightarrow> string \<Rightarrow> bool" where
  "wordAt prev w [] = False"
| "wordAt prev w (c # cs) =
     ((prefix w (c # cs) \<and> (case prev of None \<Rightarrow> True | Some p \<Rightarrow> \<not> isWordChar p) \<and>
       (case drop (length w) (c # cs) of [] \<Rightarrow> True | d # _ \<Rightarrow> \<not> isWordChar d)) \<or>
      wordAt (Some c) w cs)"

definition hasWord :: "string \<Rightarrow> string \<Rightarrow> bool" where
  "hasWord s w = wordAt None w s"

text \<open>A code not inside a longer number: \<^verbatim>\<open>(^|[^0-9-])-1003([^0-9]|$)\<close>.\<close>

fun codeAt :: "char option \<Rightarrow> string \<Rightarrow> string \<Rightarrow> bool" where
  "codeAt prev w [] = False"
| "codeAt prev w (c # cs) =
     ((prefix w (c # cs) \<and> (case prev of None \<Rightarrow> True | Some p \<Rightarrow> \<not> isDigit p \<and> p \<noteq> CHR ''-'') \<and>
       (case drop (length w) (c # cs) of [] \<Rightarrow> True | d # _ \<Rightarrow> \<not> isDigit d)) \<or>
      codeAt (Some c) w cs)"

definition hasPlainCode :: "string \<Rightarrow> string \<Rightarrow> bool" where
  "hasPlainCode s w = codeAt None w s"

text \<open>A code in a JSON text: \<^verbatim>\<open>"code"\s*:\s*-1003\b\<close>.\<close>

definition jsonCodeHere :: "string \<Rightarrow> string \<Rightarrow> bool" where
  "jsonCodeHere w s =
     (prefix (CHR 0x22 # ''code'' @ [CHR 0x22]) s \<and>
      (case dropWhile isSpaceChar (drop 6 s) of
         [] \<Rightarrow> False
       | c # rest \<Rightarrow>
           c = CHR '':'' \<and>
           (let v = dropWhile isSpaceChar rest
            in prefix w v \<and> (case drop (length w) v of [] \<Rightarrow> True | d # _ \<Rightarrow> \<not> isWordChar d))))"

definition hasJsonCode :: "string \<Rightarrow> string \<Rightarrow> bool" where
  "hasJsonCode s w = list_ex (jsonCodeHere w) (suffixes s)"

section \<open>Errors\<close>

text \<open>An error: the name of its class, its own name, its message.\<close>

record JsError =
  er_constructor :: "string option"
  er_name :: "string option"
  er_message :: "string option"

definition errorMessage :: "JsError \<Rightarrow> string" where
  "errorMessage e = nullish (er_message e) []"

definition errorNames :: "JsError \<Rightarrow> string" where
  "errorNames e = nullish (er_constructor e) [] @ nullish (er_name e) []"

definition isClockSkewError :: "JsError \<Rightarrow> bool" where
  "isClockSkewError error =
     (let message = errorMessage error
      in js_includes message ''-1021'' \<or> js_includes (toLowerCase message) ''recvwindow'')"

definition isTransientError :: "JsError \<Rightarrow> bool" where
  "isTransientError error =
     (let message = toLowerCase (errorMessage error);
          name = toLowerCase (nullish (er_name error) [])
      in list_ex (js_includes message)
           [''econnreset'', ''econnrefused'', ''etimedout'', ''enotfound'', ''network'',
            ''socket hang up'', ''fetch failed''] \<or>
         list_ex (js_includes message) [''rate limit'', ''too many requests''] \<or>
         hasWord message ''429'' \<or> js_includes name ''ratelimit'' \<or>
         list_ex (hasWord message) [''503'', ''502'', ''504''] \<or>
         list_ex (js_includes message)
           [''service unavailable'', ''bad gateway'', ''gateway timeout'', ''temporarily unavailable''] \<or>
         list_ex (js_includes message)
           [''connection terminated'', ''server closed the connection unexpectedly'',
            ''connection is not open'', ''too many connections'',
            ''remaining connection slots are reserved'',
            ''terminating connection due to administrator command'', ''could not connect to server'',
            ''the database system is starting up'', ''the database system is shutting down'',
            ''timeout exceeded when trying to connect'', ''connection timeout''] \<or>
         js_includes message ''canceling statement due to'' \<and> js_includes message ''timeout'' \<or>
         list_ex (js_includes message) [''redis is loading'', ''loading the dataset in memory''] \<or>
         list_ex (js_includes name)
           [''networkerror'', ''exchangenotavailable'', ''requesttimeout'', ''ddosprotection''] \<or>
         isClockSkewError error)"

definition isRateLimitError :: "JsError \<Rightarrow> bool" where
  "isRateLimitError error =
     (let constructorName = nullish (er_constructor error) [];
          errorName = nullish (er_name error) [];
          message = toLowerCase (errorMessage error);
          nameLower = toLowerCase (constructorName @ errorName)
      in constructorName = ''RateLimitExceeded'' \<or> constructorName = ''DDoSProtection'' \<or>
         errorName = ''RateLimitExceeded'' \<or> errorName = ''DDoSProtection'' \<or>
         js_includes nameLower ''ratelimitexceeded'' \<or> js_includes nameLower ''ddosprotection'' \<or>
         js_includes message ''rate limit'' \<or> js_includes message ''too many requests'' \<or>
         hasWord message ''429'')"

definition isAuthenticationError :: "JsError \<Rightarrow> bool" where
  "isAuthenticationError error =
     list_ex (js_includes (toLowerCase (errorNames error)))
       [''authenticationerror'', ''permissiondenied'', ''accountsuspended'']"

definition isWeightLimitError :: "JsError \<Rightarrow> bool" where
  "isWeightLimitError error =
     (let message = toLowerCase (errorMessage error);
          hasExactWeightLimitCode = hasJsonCode message ''-1003'' \<or> hasPlainCode message ''-1003''
      in hasExactWeightLimitCode \<or> js_includes message ''request weight'')"

definition clientErrorCodes :: "string list" where
  "clientErrorCodes = [''-1100'', ''-1102'', ''-1104'', ''-1111'', ''-1112'', ''-1121'', ''-1125'',
                       ''-2010'', ''-2011'', ''-2013'']"

definition isClientError :: "JsError \<Rightarrow> bool" where
  "isClientError error =
     (let message = errorMessage error
      in list_ex (hasJsonCode message) clientErrorCodes \<or> list_ex (hasPlainCode message) clientErrorCodes)"

section \<open>Delays\<close>

definition msUntilNextMinute :: "time_ms \<Rightarrow> int \<Rightarrow> int" where
  "msUntilNextMinute nowMs cushionMs = (60000 - js_rem nowMs 60000) + cushionMs"

text \<open>\<^verbatim>\<open>retry[- ]?after[:\s]*(\d+)\<close>, on the text in lower case: the digits of the first match.\<close>

definition retryAfterHere :: "string \<Rightarrow> string option" where
  "retryAfterHere s =
     (if \<not> prefix ''retry'' s then None
      else let s1 = drop 5 s;
               s2 = (case s1 of [] \<Rightarrow> [] | c # cs \<Rightarrow> if c = CHR ''-'' \<or> c = CHR '' '' then cs else c # cs)
           in if \<not> prefix ''after'' s2 then None
              else let digits = takeWhile isDigit (dropWhile (\<lambda>c. c = CHR '':'' \<or> isSpaceChar c) (drop 5 s2))
                   in if digits = [] then None else Some digits)"

fun firstMatch :: "(string \<Rightarrow> 'a option) \<Rightarrow> string \<Rightarrow> 'a option" where
  "firstMatch f [] = None"
| "firstMatch f (c # cs) = (case f (c # cs) of None \<Rightarrow> firstMatch f cs | Some v \<Rightarrow> Some v)"

definition parseDigits :: "string \<Rightarrow> int" where
  "parseDigits ds = foldl (\<lambda>n d. n * 10 + (int (of_char d) - 48)) 0 ds"

definition extractRetryAfterMs :: "JsError \<Rightarrow> int option" where
  "extractRetryAfterMs error =
     (case firstMatch retryAfterHere (toLowerCase (errorMessage error)) of
        None \<Rightarrow> None
      | Some digits \<Rightarrow>
          let seconds = parseDigits digits
          in if seconds \<le> 0 then None
             else let ms = seconds * 1000 in Some (max 1000 (min ms 120000)))"

record RetryOptions =
  ro_maxRetries :: int
  ro_initialDelayMs :: number
  ro_maxDelayMs :: number
  ro_backoffMultiplier :: number
  ro_isRetryable :: "JsError \<Rightarrow> bool"
  ro_onRetry :: "(JsError \<Rightarrow> int \<Rightarrow> number \<Rightarrow> number option) option"

definition DEFAULT_RETRY_OPTIONS :: RetryOptions where
  "DEFAULT_RETRY_OPTIONS =
     \<lparr>ro_maxRetries = 3, ro_initialDelayMs = 1000, ro_maxDelayMs = 30000, ro_backoffMultiplier = 2,
      ro_isRetryable = isTransientError, ro_onRetry = None\<rparr>"

text \<open>The random number is between 0 (included) and 1 (excluded); \<^verbatim>\<open>Math.round\<close> rounds a half up.\<close>

definition calculateDelay :: "nat \<Rightarrow> RetryOptions \<Rightarrow> number \<Rightarrow> number" where
  "calculateDelay attempt options random =
     (let exponentialDelay = ro_initialDelayMs options * ro_backoffMultiplier options ^ attempt;
          cappedDelay = min exponentialDelay (ro_maxDelayMs options);
          jitter = cappedDelay * (25 / 100) * (random * 2 - 1)
      in of_int \<lfloor>cappedDelay + jitter + 1 / 2\<rfloor>)"

section \<open>The retry loop\<close>

record 'a RetryResult =
  rr_success :: bool
  rr_result :: "'a option"
  rr_error :: "JsError option"
  rr_attempts :: int
  rr_totalDelayMs :: number

function retryLoop ::
    "RetryOptions \<Rightarrow> (nat \<Rightarrow> JsError + 'a) \<Rightarrow> (nat \<Rightarrow> number) \<Rightarrow> nat \<Rightarrow> JsError option \<Rightarrow> number \<Rightarrow>
     'a RetryResult" where
  "retryLoop opts operation random attempt lastError totalDelayMs =
     (if int attempt \<le> ro_maxRetries opts
      then case operation attempt of
             Inr result \<Rightarrow> \<lparr>rr_success = True, rr_result = Some result, rr_error = None,
                           rr_attempts = int attempt + 1, rr_totalDelayMs = totalDelayMs\<rparr>
           | Inl err \<Rightarrow>
               if int attempt < ro_maxRetries opts \<and> ro_isRetryable opts err
               then let delay = calculateDelay attempt opts (random attempt);
                        delay' = (case ro_onRetry opts of
                                    None \<Rightarrow> delay
                                  | Some f \<Rightarrow> nullish (f err (int attempt + 1) delay) delay)
                    in retryLoop opts operation random (attempt + 1) (Some err) (totalDelayMs + delay')
               else \<lparr>rr_success = False, rr_result = None, rr_error = Some err,
                     rr_attempts = int attempt + 1, rr_totalDelayMs = totalDelayMs\<rparr>
      else \<lparr>rr_success = False, rr_result = None, rr_error = lastError,
            rr_attempts = int attempt, rr_totalDelayMs = totalDelayMs\<rparr>)"
  by pat_completeness auto
termination
  by (relation "measure (\<lambda>(opts, f, r, attempt, e, d). nat (ro_maxRetries opts + 1 - int attempt))") auto

declare retryLoop.simps [simp del]

definition withRetry ::
    "RetryOptions \<Rightarrow> (nat \<Rightarrow> JsError + 'a) \<Rightarrow> (nat \<Rightarrow> number) \<Rightarrow> 'a RetryResult" where
  "withRetry opts operation random = retryLoop opts operation random 0 None 0"

text \<open>Throws the last error; without any attempt it throws \<^verbatim>\<open>undefined\<close>.\<close>

definition withRetryThrow ::
    "RetryOptions \<Rightarrow> (nat \<Rightarrow> JsError + 'a) \<Rightarrow> (nat \<Rightarrow> number) \<Rightarrow> JsError option + 'a" where
  "withRetryThrow opts operation random =
     (let result = withRetry opts operation random
      in if rr_success result then Inr (the (rr_result result)) else Inl (rr_error result))"

text \<open>The presets: the callbacks adapt the delay to the error.\<close>

definition rateLimitAwareDelay :: "JsError \<Rightarrow> int \<Rightarrow> number \<Rightarrow> number option" where
  "rateLimitAwareDelay error attempt defaultDelayMs =
     (if isRateLimitError error
      then Some (max (case extractRetryAfterMs error of None \<Rightarrow> 5000 | Some ms \<Rightarrow> of_int ms) defaultDelayMs)
      else None)"

definition exchangeAwareDelay :: "time_ms \<Rightarrow> JsError \<Rightarrow> int \<Rightarrow> number \<Rightarrow> number option" where
  "exchangeAwareDelay now error attempt defaultDelayMs =
     (if isWeightLimitError error then Some (of_int (msUntilNextMinute now 500))
      else if isRateLimitError error
      then Some (max (case extractRetryAfterMs error of None \<Rightarrow> 5000 | Some ms \<Rightarrow> of_int ms) defaultDelayMs)
      else if isClockSkewError error then Some 500
      else None)"

definition RATE_LIMIT_RETRY_OPTIONS :: RetryOptions where
  "RATE_LIMIT_RETRY_OPTIONS =
     \<lparr>ro_maxRetries = 3, ro_initialDelayMs = 5000, ro_maxDelayMs = 60000, ro_backoffMultiplier = 3,
      ro_isRetryable = isTransientError, ro_onRetry = Some rateLimitAwareDelay\<rparr>"

definition EXCHANGE_RETRY_OPTIONS :: "time_ms \<Rightarrow> RetryOptions" where
  "EXCHANGE_RETRY_OPTIONS now =
     \<lparr>ro_maxRetries = 3, ro_initialDelayMs = 1000, ro_maxDelayMs = 8000, ro_backoffMultiplier = 2,
      ro_isRetryable = isTransientError, ro_onRetry = Some (exchangeAwareDelay now)\<rparr>"

definition withRateLimitRetry ::
    "(RetryOptions \<Rightarrow> RetryOptions) \<Rightarrow> (nat \<Rightarrow> JsError + 'a) \<Rightarrow> (nat \<Rightarrow> number) \<Rightarrow> 'a RetryResult" where
  "withRateLimitRetry override operation random =
     withRetry (override RATE_LIMIT_RETRY_OPTIONS) operation random"

definition withExchangeRetry ::
    "time_ms \<Rightarrow> (RetryOptions \<Rightarrow> RetryOptions) \<Rightarrow> (nat \<Rightarrow> JsError + 'a) \<Rightarrow> (nat \<Rightarrow> number) \<Rightarrow> 'a RetryResult" where
  "withExchangeRetry now override operation random =
     withRetry (override (EXCHANGE_RETRY_OPTIONS now)) operation random"

section \<open>Lemmas\<close>

lemma extractRetryAfterMs_bounds: "extractRetryAfterMs e = Some ms \<Longrightarrow> 1000 \<le> ms \<and> ms \<le> 120000"
  by (auto simp: extractRetryAfterMs_def Let_def split: option.splits if_splits)

lemma msUntilNextMinute_lands:
  assumes "0 \<le> now"
  shows "(now + msUntilNextMinute now 0) mod 60000 = 0" "0 < msUntilNextMinute now 0" "msUntilNextMinute now 0 \<le> 60000"
proof -
  have "(now + (60000 - now mod 60000)) mod 60000 = 0"
    by (metis add_diff_eq diff_add_eq minus_mod_eq_mult_div mod_add_self2 mod_mult_self1_is_0)
  then show "(now + msUntilNextMinute now 0) mod 60000 = 0"
    using assms by (simp add: msUntilNextMinute_def)
  show "0 < msUntilNextMinute now 0" "msUntilNextMinute now 0 \<le> 60000"
    using assms pos_mod_bound [of 60000 now] by (simp_all add: msUntilNextMinute_def)
qed

lemma calculateDelay_bounds:
  assumes "0 \<le> ro_initialDelayMs opts" "0 \<le> ro_backoffMultiplier opts" "0 \<le> ro_maxDelayMs opts"
    "0 \<le> r" "r \<le> 1"
  shows "0 \<le> calculateDelay attempt opts r"
    "calculateDelay attempt opts r \<le> ro_maxDelayMs opts * (5 / 4) + 1 / 2"
proof -
  define d where "d = min (ro_initialDelayMs opts * ro_backoffMultiplier opts ^ attempt) (ro_maxDelayMs opts)"
  have d: "0 \<le> d" "d \<le> ro_maxDelayMs opts" using assms(1-3) by (simp_all add: d_def)
  have "d * (1 - 2 * r) \<le> d * 1" "d * (2 * r - 1) \<le> d * 1"
    using assms(4,5) d(1) by (intro mult_left_mono; simp)+
  then have jit: "0 \<le> d + d * (25 / 100) * (r * 2 - 1)" "d + d * (25 / 100) * (r * 2 - 1) \<le> d * (5 / 4)"
    using d(1) by (simp_all add: algebra_simps)
  have delay: "calculateDelay attempt opts r = of_int \<lfloor>d + d * (25 / 100) * (r * 2 - 1) + 1 / 2\<rfloor>"
    by (simp add: calculateDelay_def d_def Let_def)
  show "0 \<le> calculateDelay attempt opts r" using jit(1) by (simp add: delay)
  have "calculateDelay attempt opts r \<le> d + d * (25 / 100) * (r * 2 - 1) + 1 / 2"
    unfolding delay by (rule of_int_floor_le)
  also have "\<dots> \<le> ro_maxDelayMs opts * (5 / 4) + 1 / 2" using jit(2) d(2) by simp
  finally show "calculateDelay attempt opts r \<le> ro_maxDelayMs opts * (5 / 4) + 1 / 2" .
qed

text \<open>The attempts fail in a retryable way up to \<open>k\<close>, so that attempt \<open>k\<close> is made.\<close>

definition reaches :: "RetryOptions \<Rightarrow> (nat \<Rightarrow> JsError + 'a) \<Rightarrow> nat \<Rightarrow> bool" where
  "reaches opts operation k \<longleftrightarrow> int k \<le> ro_maxRetries opts \<and>
     (\<forall>i < k. \<exists>e. operation i = Inl e \<and> ro_isRetryable opts e)"

definition stops_at :: "RetryOptions \<Rightarrow> (nat \<Rightarrow> JsError + 'a) \<Rightarrow> nat \<Rightarrow> bool" where
  "stops_at opts operation k \<longleftrightarrow> reaches opts operation k \<and>
     (\<forall>e. operation k = Inl e \<longrightarrow> int k = ro_maxRetries opts \<or> \<not> ro_isRetryable opts e)"

lemma retryLoop_stops:
  assumes "stops_at opts operation k" "a \<le> k"
  shows "\<exists>d. retryLoop opts operation random a le td =
    \<lparr>rr_success = (\<exists>v. operation k = Inr v),
     rr_result = (case operation k of Inl _ \<Rightarrow> None | Inr v \<Rightarrow> Some v),
     rr_error = (case operation k of Inl e \<Rightarrow> Some e | Inr _ \<Rightarrow> None),
     rr_attempts = int k + 1, rr_totalDelayMs = d\<rparr>"
  using assms(2)
proof (induction "k - a" arbitrary: a le td)
  case 0
  then have "a = k" by simp
  then show ?case
    using assms(1)
    by (auto simp: retryLoop.simps [of opts operation random k] stops_at_def reaches_def split: sum.splits)
next
  case (Suc n)
  then have a: "a < k" by simp
  with assms(1) obtain e where "operation a = Inl e" "ro_isRetryable opts e" "int a < ro_maxRetries opts"
    by (fastforce simp: stops_at_def reaches_def)
  then have "retryLoop opts operation random a le td = retryLoop opts operation random (a + 1) (Some e)
      (td + (case ro_onRetry opts of None \<Rightarrow> calculateDelay a opts (random a)
             | Some f \<Rightarrow> nullish (f e (int a + 1) (calculateDelay a opts (random a))) (calculateDelay a opts (random a))))"
    by (simp add: retryLoop.simps [of opts operation random a] Let_def)
  with Suc.hyps a show ?case by simp
qed

lemma stops_exists:
  assumes "0 \<le> ro_maxRetries opts"
  shows "\<exists>k. stops_at opts operation k"
proof -
  let ?stop = "\<lambda>k. int k = ro_maxRetries opts \<or> (\<forall>e. operation k = Inl e \<longrightarrow> \<not> ro_isRetryable opts e)"
  have ex: "?stop (nat (ro_maxRetries opts))" using assms by simp
  let ?k = "LEAST k. ?stop k"
  have "?stop ?k" by (rule LeastI [of ?stop, OF ex])
  moreover have "int ?k \<le> ro_maxRetries opts" using Least_le [of ?stop, OF ex] assms by simp
  moreover have "\<exists>e. operation i = Inl e \<and> ro_isRetryable opts e" if "i < ?k" for i
    using not_less_Least [OF that] by blast
  ultimately show ?thesis by (intro exI [of _ ?k]) (auto simp: stops_at_def reaches_def)
qed

lemma retryLoop_delay:
  assumes "0 \<le> ro_initialDelayMs opts" "0 \<le> ro_backoffMultiplier opts" "0 \<le> ro_maxDelayMs opts"
    "\<forall>i. 0 \<le> random i \<and> random i \<le> 1" "ro_onRetry opts = None" "int a \<le> ro_maxRetries opts"
  shows "td \<le> rr_totalDelayMs (retryLoop opts operation random a le td) \<and>
    rr_totalDelayMs (retryLoop opts operation random a le td) \<le>
      td + of_int (ro_maxRetries opts - int a) * (ro_maxDelayMs opts * (5 / 4) + 1 / 2)"
  using assms(6)
proof (induction "nat (ro_maxRetries opts - int a)" arbitrary: a le td)
  case 0
  then show ?case by (auto simp: retryLoop.simps [of opts operation random a] split: sum.splits)
next
  case (Suc n)
  let ?d = "calculateDelay a opts (random a)" and ?c = "ro_maxDelayMs opts * (5 / 4) + 1 / 2"
  have d: "0 \<le> ?d" "?d \<le> ?c" using calculateDelay_bounds [OF assms(1-3), of "random a" a] assms(4) by simp_all
  have c: "0 \<le> of_int (ro_maxRetries opts - int a) * ?c" using assms(3) Suc.prems by simp
  show ?case
  proof (cases "\<exists>e. operation a = Inl e \<and> ro_isRetryable opts e \<and> int a < ro_maxRetries opts")
    case True
    then obtain e where e: "operation a = Inl e" "ro_isRetryable opts e" "int a < ro_maxRetries opts" by blast
    have IH: "td + ?d \<le> rr_totalDelayMs (retryLoop opts operation random (a + 1) (Some e) (td + ?d)) \<and>
      rr_totalDelayMs (retryLoop opts operation random (a + 1) (Some e) (td + ?d)) \<le>
        td + ?d + of_int (ro_maxRetries opts - int (a + 1)) * ?c"
      using Suc.hyps(2) e(3) by (intro Suc.hyps(1)) auto
    have "retryLoop opts operation random a le td = retryLoop opts operation random (a + 1) (Some e) (td + ?d)"
      using e assms(5) by (simp add: retryLoop.simps [of opts operation random a])
    moreover define m m' c where "m = real_of_int (ro_maxRetries opts - int a) * ?c"
      and "m' = real_of_int (ro_maxRetries opts - int (a + 1)) * ?c" and "c = ?c"
    moreover have "m = m' + c"
      unfolding m_def m'_def c_def by (simp add: left_diff_distrib distrib_right)
    ultimately show ?thesis using IH d unfolding m_def [symmetric] m'_def [symmetric] c_def [symmetric] by simp
  next
    case False
    then have "rr_totalDelayMs (retryLoop opts operation random a le td) = td"
      using Suc.prems by (auto simp: retryLoop.simps [of opts operation random a] split: sum.splits)
    with c show ?thesis by simp
  qed
qed

section \<open>Properties\<close>

text \<open>Retrying always ends, after at most \<open>maxRetries + 1\<close> attempts: the last attempt is the
  first that succeeds, or fails with an error that is not retryable, or is the last one allowed;
  every earlier one failed with a retryable error. The result is that of the last attempt, the
  count is exact, and without a callback the total delay is at most \<open>maxRetries\<close> times the
  maximal delay with its jitter.\<close>

lemma withRetry_outcome:
  assumes "0 \<le> ro_maxRetries opts" "0 \<le> ro_initialDelayMs opts" "0 \<le> ro_backoffMultiplier opts"
    "0 \<le> ro_maxDelayMs opts" "\<forall>i. 0 \<le> random i \<and> random i \<le> 1"
    "r = withRetry opts operation random"
  shows "\<exists>k. int k \<le> ro_maxRetries opts \<and> rr_attempts r = int k + 1 \<and>
    (\<forall>i < k. \<exists>e. operation i = Inl e \<and> ro_isRetryable opts e) \<and>
    (case operation k of
       Inr v \<Rightarrow> rr_success r \<and> rr_result r = Some v \<and> rr_error r = None
     | Inl e \<Rightarrow> \<not> rr_success r \<and> rr_error r = Some e \<and>
                (int k = ro_maxRetries opts \<or> \<not> ro_isRetryable opts e)) \<and>
    (ro_onRetry opts = None \<longrightarrow> 0 \<le> rr_totalDelayMs r \<and>
       rr_totalDelayMs r \<le> of_int (ro_maxRetries opts) * (ro_maxDelayMs opts * (5 / 4) + 1 / 2))"
proof -
  from stops_exists [OF assms(1)] obtain k where k: "stops_at opts operation k" by blast
  from retryLoop_stops [OF k, of 0 random None 0] obtain d where
    r: "withRetry opts operation random =
      \<lparr>rr_success = (\<exists>v. operation k = Inr v),
       rr_result = (case operation k of Inl _ \<Rightarrow> None | Inr v \<Rightarrow> Some v),
       rr_error = (case operation k of Inl e \<Rightarrow> Some e | Inr _ \<Rightarrow> None),
       rr_attempts = int k + 1, rr_totalDelayMs = d\<rparr>"
    by (auto simp: withRetry_def)
  have "ro_onRetry opts = None \<longrightarrow> 0 \<le> rr_totalDelayMs r \<and>
      rr_totalDelayMs r \<le> of_int (ro_maxRetries opts) * (ro_maxDelayMs opts * (5 / 4) + 1 / 2)"
    using retryLoop_delay [OF assms(2-5), of 0 0 operation None] assms(1,6) by (simp add: withRetry_def)
  with r k assms(6) show ?thesis
    by (intro exI [of _ k]) (auto simp: stops_at_def reaches_def split: sum.splits)
qed

definition flaky :: "nat \<Rightarrow> JsError + nat" where
  "flaky k = (if k < 2 then Inl \<lparr>er_constructor = Some ''NetworkError'', er_name = Some ''NetworkError'',
                                er_message = Some ''socket hang up''\<rparr> else Inr k)"

end
