(* ===== verification/Locks.thy ===== *)
theory Locks
  imports Prelude
begin

text \<open>
  \<^verbatim>\<open>shared/distributed-lock.service.ts\<close> and \<^verbatim>\<open>shared/trade-cooldown.service.ts\<close>: the lock and the
  trade cooldown that the processes share through Redis. The commands of Redis are third party:
  the record \<open>RedisOps\<close> is an argument of every operation, and \<open>redis_contract\<close> states what the
  documentation of the commands promises (a key set with a lifetime reads back until it runs
  out, \<^verbatim>\<open>NX\<close> sets only an absent key, \<^verbatim>\<open>DEL\<close> and \<^verbatim>\<open>PEXPIRE\<close> act on their key only). A script is
  run atomically. Every call takes its time; a call while \<open>rd_down\<close> holds throws and has no
  effect.

  A token is the JSON text of its metadata; the metadata stands for the text. A stored value that
  is no token and no claim is another JSON text or plain text.
\<close>

section \<open>Redis\<close>

record LockValueMetadata =
  lv_lockId :: string
  lv_hostname :: string
  lv_pid :: int
  lv_acquiredAt :: time_ms

record CooldownClaim =
  ck_pipeline :: string
  ck_claimedAt :: time_ms

datatype RedisValue =
  LockToken LockValueMetadata | ClaimJson CooldownClaim | OtherJson | PlainText string

record 'db RedisOps =
  rd_down :: "time_ms \<Rightarrow> bool"
  rd_get :: "string \<Rightarrow> time_ms \<Rightarrow> 'db \<Rightarrow> RedisValue option"
  rd_setPx :: "string \<Rightarrow> RedisValue \<Rightarrow> int \<Rightarrow> time_ms \<Rightarrow> 'db \<Rightarrow> 'db"
  rd_setNxPx :: "string \<Rightarrow> RedisValue \<Rightarrow> int \<Rightarrow> time_ms \<Rightarrow> 'db \<Rightarrow> bool \<times> 'db"
  rd_del :: "string \<Rightarrow> time_ms \<Rightarrow> 'db \<Rightarrow> bool \<times> 'db"
  rd_pexpire :: "string \<Rightarrow> int \<Rightarrow> time_ms \<Rightarrow> 'db \<Rightarrow> bool \<times> 'db"
  rd_pttl :: "string \<Rightarrow> time_ms \<Rightarrow> 'db \<Rightarrow> int"

text \<open>A key set with a lifetime reads back until it runs out; other keys are untouched.\<close>

definition law_set :: "'db RedisOps \<Rightarrow> bool" where
  "law_set R \<longleftrightarrow> (\<forall>k v ttl t db k' t'. 0 < ttl \<longrightarrow> t \<le> t' \<longrightarrow>
     rd_get R k' t' (rd_setPx R k v ttl t db) =
       (if k' = k then if t' < t + ttl then Some v else None else rd_get R k' t' db))"

definition law_setNx :: "'db RedisOps \<Rightarrow> bool" where
  "law_setNx R \<longleftrightarrow> (\<forall>k v ttl t db. rd_setNxPx R k v ttl t db =
     (if rd_get R k t db = None then (True, rd_setPx R k v ttl t db) else (False, db)))"

definition law_del :: "'db RedisOps \<Rightarrow> bool" where
  "law_del R \<longleftrightarrow> (\<forall>k t db. fst (rd_del R k t db) = (rd_get R k t db \<noteq> None)) \<and>
     (\<forall>k t db k' t'. t \<le> t' \<longrightarrow>
        rd_get R k' t' (snd (rd_del R k t db)) = (if k' = k then None else rd_get R k' t' db))"

definition law_pexpire :: "'db RedisOps \<Rightarrow> bool" where
  "law_pexpire R \<longleftrightarrow> (\<forall>k ttl t db. fst (rd_pexpire R k ttl t db) = (rd_get R k t db \<noteq> None)) \<and>
     (\<forall>k ttl t db k' t'. t \<le> t' \<longrightarrow> k' \<noteq> k \<longrightarrow>
        rd_get R k' t' (snd (rd_pexpire R k ttl t db)) = rd_get R k' t' db) \<and>
     (\<forall>k ttl t db t' v. t \<le> t' \<longrightarrow> 0 < ttl \<longrightarrow> rd_get R k t db = Some v \<longrightarrow>
        rd_get R k t' (snd (rd_pexpire R k ttl t db)) = (if t' < t + ttl then Some v else None))"

definition redis_contract :: "'db RedisOps \<Rightarrow> bool" where
  "redis_contract R \<longleftrightarrow> law_set R \<and> law_setNx R \<and> law_del R \<and> law_pexpire R"

section \<open>The distributed lock\<close>

record LockOptions =
  lo_key :: string
  lo_ttlMs :: int
  lo_retryDelayMs :: "int option"
  lo_maxRetries :: "int option"

record LockResult =
  lr_acquired :: bool
  lr_lockId :: "string option"
  lr_token :: "LockValueMetadata option"

record LockInfo =
  li_exists :: bool
  li_lockId :: "string option"
  li_ttlMs :: "int option"

text \<open>The state of the service: the tokens it holds.\<close>

type_synonym HeldTokens = "(string, LockValueMetadata) jsmap"

definition DEFAULT_RETRY_DELAY_MS :: int where "DEFAULT_RETRY_DELAY_MS = 100"
definition DEFAULT_MAX_RETRIES :: int where "DEFAULT_MAX_RETRIES = 0"

definition notAcquired :: LockResult where
  "notAcquired = \<lparr>lr_acquired = False, lr_lockId = None, lr_token = None\<rparr>"

text \<open>
  The loop of \<^verbatim>\<open>acquire\<close> with the number of retries left. While it sleeps the other clients act
  on the store: \<open>others t db\<close> is the store after the sleep that begins at \<open>t\<close>.
\<close>

fun acquireLoop ::
    "'db RedisOps \<Rightarrow> string \<Rightarrow> LockValueMetadata \<Rightarrow> int \<Rightarrow> int \<Rightarrow> (time_ms \<Rightarrow> 'db \<Rightarrow> 'db) \<Rightarrow> nat \<Rightarrow> time_ms \<Rightarrow>
     HeldTokens \<Rightarrow> 'db \<Rightarrow> LockResult \<times> HeldTokens \<times> 'db" where
  "acquireLoop R key token ttlMs retryDelayMs others retries now held db =
     (if rd_down R now then (notAcquired, held, db)
      else case rd_setNxPx R key (LockToken token) ttlMs now db of
             (True, db') \<Rightarrow>
               (\<lparr>lr_acquired = True, lr_lockId = Some (lv_lockId token), lr_token = Some token\<rparr>,
                map_set key token held, db')
           | (False, db') \<Rightarrow>
               (case retries of
                  0 \<Rightarrow> (notAcquired, held, db')
                | Suc n \<Rightarrow> acquireLoop R key token ttlMs retryDelayMs others n (now + retryDelayMs) held
                             (others now db')))"

declare acquireLoop.simps [simp del]

text \<open>The id, the host and the process of the token come from the environment.\<close>

definition Lock_acquire ::
    "'db RedisOps \<Rightarrow> (time_ms \<Rightarrow> 'db \<Rightarrow> 'db) \<Rightarrow> string \<Rightarrow> string \<Rightarrow> int \<Rightarrow> LockOptions \<Rightarrow> time_ms \<Rightarrow>
     HeldTokens \<Rightarrow> 'db \<Rightarrow> LockResult \<times> HeldTokens \<times> 'db" where
  "Lock_acquire R others uuid hostname pid options now held db =
     (let token = \<lparr>lv_lockId = uuid, lv_hostname = hostname, lv_pid = pid, lv_acquiredAt = now\<rparr>;
          attemptsAllowed = max 0 (nullish (lo_maxRetries options) DEFAULT_MAX_RETRIES)
      in acquireLoop R (lo_key options) token (lo_ttlMs options)
           (nullish (lo_retryDelayMs options) DEFAULT_RETRY_DELAY_MS) others (nat attemptsAllowed) now held db)"

text \<open>The two scripts.\<close>

definition RELEASE_SCRIPT :: "'db RedisOps \<Rightarrow> string \<Rightarrow> LockValueMetadata \<Rightarrow> time_ms \<Rightarrow> 'db \<Rightarrow> bool \<times> 'db" where
  "RELEASE_SCRIPT R key token now db =
     (if rd_get R key now db = Some (LockToken token) then rd_del R key now db else (False, db))"

definition EXTEND_SCRIPT ::
    "'db RedisOps \<Rightarrow> string \<Rightarrow> LockValueMetadata \<Rightarrow> int \<Rightarrow> time_ms \<Rightarrow> 'db \<Rightarrow> bool \<times> 'db" where
  "EXTEND_SCRIPT R key token ttlMs now db =
     (if rd_get R key now db = Some (LockToken token) then rd_pexpire R key ttlMs now db else (False, db))"

definition Lock_release ::
    "'db RedisOps \<Rightarrow> string \<Rightarrow> LockValueMetadata option \<Rightarrow> time_ms \<Rightarrow> HeldTokens \<Rightarrow> 'db \<Rightarrow>
     bool \<times> HeldTokens \<times> 'db" where
  "Lock_release R key token now held db =
     (case token of
        None \<Rightarrow> (False, held, db)
      | Some tok \<Rightarrow>
          if rd_down R now then (False, held, db)
          else let (released, db') = RELEASE_SCRIPT R key tok now db
               in (released, if map_get held key = Some tok then map_delete key held else held, db'))"

definition Lock_extend ::
    "'db RedisOps \<Rightarrow> string \<Rightarrow> LockValueMetadata \<Rightarrow> int \<Rightarrow> time_ms \<Rightarrow> 'db \<Rightarrow> bool \<times> 'db" where
  "Lock_extend R key token ttlMs now db =
     (if rd_down R now then (False, db) else EXTEND_SCRIPT R key token ttlMs now db)"

text \<open>Plain text that \<^verbatim>\<open>JSON.parse\<close> rejects is returned whole.\<close>

definition getLockInfo :: "'db RedisOps \<Rightarrow> string \<Rightarrow> time_ms \<Rightarrow> 'db \<Rightarrow> LockInfo" where
  "getLockInfo R key now db =
     (if rd_down R now then \<lparr>li_exists = False, li_lockId = None, li_ttlMs = None\<rparr>
      else case rd_get R key now db of
             None \<Rightarrow> \<lparr>li_exists = False, li_lockId = None, li_ttlMs = None\<rparr>
           | Some v \<Rightarrow>
               \<lparr>li_exists = True,
                li_lockId = (case v of LockToken m \<Rightarrow> Some (lv_lockId m) | PlainText s \<Rightarrow> Some s | _ \<Rightarrow> None),
                li_ttlMs = (let ttl = rd_pttl R key now db in if ttl > 0 then Some ttl else None)\<rparr>)"

text \<open>The releases of the shutdown, in the order of the map as it was.\<close>

definition Lock_onModuleDestroy :: "'db RedisOps \<Rightarrow> time_ms \<Rightarrow> HeldTokens \<Rightarrow> 'db \<Rightarrow> HeldTokens \<times> 'db" where
  "Lock_onModuleDestroy R now held db =
     foldl (\<lambda>(h, db) (key, token). snd (Lock_release R key (Some token) now h db)) (held, db) held"

section \<open>The trade cooldown\<close>

record CooldownCheckResult =
  cr_allowed :: bool
  cr_existingClaim :: "CooldownClaim option"

definition COOLDOWN_TTL_MS :: int where
  "COOLDOWN_TTL_MS = 11 * 60 * 1000"

definition buildKey :: "string \<Rightarrow> string \<Rightarrow> string \<Rightarrow> string" where
  "buildKey userId symbol direction =
     ''trade-cd:'' @ userId @ '':'' @ symbol @ '':'' @ direction"

definition CHECK_AND_CLAIM_SCRIPT ::
    "'db RedisOps \<Rightarrow> string \<Rightarrow> CooldownClaim \<Rightarrow> int \<Rightarrow> time_ms \<Rightarrow> 'db \<Rightarrow> RedisValue option \<times> 'db" where
  "CHECK_AND_CLAIM_SCRIPT R key claim ttl now db =
     (case rd_get R key now db of
        Some existing \<Rightarrow> (Some existing, db)
      | None \<Rightarrow> (None, rd_setPx R key (ClaimJson claim) ttl now db))"

text \<open>
  An error of the call or of \<^verbatim>\<open>JSON.parse\<close> lets the trade through. An empty text is falsy and
  gives the unknown claim; a JSON text that is no claim gives a claim without these fields.
\<close>

definition checkAndClaim ::
    "'db RedisOps \<Rightarrow> string \<Rightarrow> string \<Rightarrow> string \<Rightarrow> string \<Rightarrow> time_ms \<Rightarrow> 'db \<Rightarrow> CooldownCheckResult \<times> 'db" where
  "checkAndClaim R userId symbol direction pipeline now db =
     (let allow = \<lparr>cr_allowed = True, cr_existingClaim = None\<rparr>;
          refuse = (\<lambda>claim. \<lparr>cr_allowed = False, cr_existingClaim = claim\<rparr>)
      in if rd_down R now then (allow, db)
         else case CHECK_AND_CLAIM_SCRIPT R (buildKey userId symbol direction)
                     \<lparr>ck_pipeline = pipeline, ck_claimedAt = now\<rparr> COOLDOWN_TTL_MS now db of
                (None, db') \<Rightarrow> (allow, db')
              | (Some existing, db') \<Rightarrow>
                  ((case existing of
                      ClaimJson claim \<Rightarrow> refuse (Some claim)
                    | LockToken _ \<Rightarrow> refuse None
                    | OtherJson \<Rightarrow> refuse None
                    | PlainText s \<Rightarrow>
                        if s = [] then refuse (Some \<lparr>ck_pipeline = ''unknown'', ck_claimedAt = 0\<rparr>) else allow),
                   db'))"

definition clearCooldown :: "'db RedisOps \<Rightarrow> string \<Rightarrow> string \<Rightarrow> string \<Rightarrow> time_ms \<Rightarrow> 'db \<Rightarrow> 'db" where
  "clearCooldown R userId symbol direction now db =
     (if rd_down R now then db else snd (rd_del R (buildKey userId symbol direction) now db))"

section \<open>Lemmas: a value held until a time\<close>

definition holds_until :: "'db RedisOps \<Rightarrow> string \<Rightarrow> RedisValue \<Rightarrow> time_ms \<Rightarrow> time_ms \<Rightarrow> 'db \<Rightarrow> bool" where
  "holds_until R key v T now db \<longleftrightarrow> (\<forall>t. now \<le> t \<and> t < T \<longrightarrow> rd_get R key t db = Some v)"

lemma contract_set:
  assumes "redis_contract R" "0 < ttl" "t \<le> t'"
  shows "rd_get R k' t' (rd_setPx R k v ttl t db) =
     (if k' = k then if t' < t + ttl then Some v else None else rd_get R k' t' db)"
proof -
  from assms(1) have "law_set R" by (simp add: redis_contract_def)
  then show ?thesis unfolding law_set_def using assms(2,3) by blast
qed

lemma contract_setNx:
  assumes "redis_contract R"
  shows "rd_setNxPx R k v ttl t db =
     (if rd_get R k t db = None then (True, rd_setPx R k v ttl t db) else (False, db))"
proof -
  from assms have "law_setNx R" by (simp add: redis_contract_def)
  then show ?thesis unfolding law_setNx_def by blast
qed

lemma contract_del:
  assumes "redis_contract R" "t \<le> t'"
  shows "rd_get R k' t' (snd (rd_del R k t db)) = (if k' = k then None else rd_get R k' t' db)"
proof -
  from assms(1) have "law_del R" by (simp add: redis_contract_def)
  then show ?thesis unfolding law_del_def using assms(2) by blast
qed

lemma contract_pexpire_other:
  assumes "redis_contract R" "t \<le> t'" "k' \<noteq> k"
  shows "rd_get R k' t' (snd (rd_pexpire R k ttl t db)) = rd_get R k' t' db"
proof -
  from assms(1) have "law_pexpire R" by (simp add: redis_contract_def)
  then show ?thesis unfolding law_pexpire_def using assms(2,3) by blast
qed

lemma holds_later: "holds_until R key v T now db \<Longrightarrow> now \<le> t \<Longrightarrow> holds_until R key v T t db"
  by (simp add: holds_until_def)

lemma holds_set_other:
  "redis_contract R \<Longrightarrow> holds_until R key v T now db \<Longrightarrow> 0 < ttl \<Longrightarrow> k \<noteq> key \<Longrightarrow>
   holds_until R key v T now (rd_setPx R k w ttl now db)"
  by (simp add: holds_until_def contract_set)

lemma holds_setNx:
  "redis_contract R \<Longrightarrow> holds_until R key v T now db \<Longrightarrow> 0 < ttl \<Longrightarrow> now < T \<Longrightarrow>
   holds_until R key v T now (snd (rd_setNxPx R k w ttl now db))"
  by (cases "k = key") (auto simp: contract_setNx holds_set_other holds_until_def contract_set)

lemma holds_del_other:
  "redis_contract R \<Longrightarrow> holds_until R key v T now db \<Longrightarrow> k \<noteq> key \<Longrightarrow>
   holds_until R key v T now (snd (rd_del R k now db))"
  by (simp add: holds_until_def contract_del)

lemma holds_pexpire_other:
  "redis_contract R \<Longrightarrow> holds_until R key v T now db \<Longrightarrow> k \<noteq> key \<Longrightarrow>
   holds_until R key v T now (snd (rd_pexpire R k ttl now db))"
  by (simp add: holds_until_def contract_pexpire_other)

section \<open>The sweep at the start of a process\<close>

definition LOCK_KEYS :: "string list" where
  "LOCK_KEYS =
     [''live-trading:execution-lock'', ''ohlc-sync:schedule-lock'', ''ohlc:gap-detection-lock'',
      ''ohlc:gap-detection-schedule-lock'', ''ohlc-sync:symbol-map-refresh-lock'', ''coin-sync:lock'',
      ''coin-detail:lock'', ''coin-market-sync:lock'', ''coin-metadata-sync:lock'', ''ticker-pairs-sync:lock'',
      ''category-sync:lock'', ''exchange-sync:lock'', ''listing-cross-listing-seed:lock'']"

text \<open>\<^verbatim>\<open>shared/stale-lock-sweep.service.ts\<close>: whatever holds a key is deleted, without its token.\<close>

definition sweepKey :: "'db RedisOps \<Rightarrow> time_ms \<Rightarrow> string \<Rightarrow> 'db \<Rightarrow> 'db" where
  "sweepKey R now key db =
     (if rd_down R now \<or> rd_get R key now db = None then db else snd (rd_del R key now db))"

definition sweepLocks :: "'db RedisOps \<Rightarrow> time_ms \<Rightarrow> 'db \<Rightarrow> 'db" where
  "sweepLocks R now db = fold (sweepKey R now) LOCK_KEYS db"

section \<open>The clients of the store\<close>

text \<open>
  The calls of all processes on one store, in the order the store executes them: each after a
  delay. An acquisition with retries is several attempts among the calls of the others; a process
  that starts sweeps the keys of the locks; the listing tracker keeps values under keys of its own.
\<close>

datatype StoreCall =
    AcquireCall string LockValueMetadata int
  | ReleaseCall string LockValueMetadata
  | ExtendCall string LockValueMetadata int
  | ClaimCall string string string string
  | ClearCall string string string
  | BootCall
  | CacheCall string RedisValue int

fun storeEffect :: "'db RedisOps \<Rightarrow> time_ms \<Rightarrow> StoreCall \<Rightarrow> 'db \<Rightarrow> 'db" where
  "storeEffect R now (AcquireCall k tok ttl) db =
     snd (snd (acquireLoop R k tok ttl 0 (\<lambda>_ db. db) 0 now [] db))"
| "storeEffect R now (ReleaseCall k tok) db = snd (snd (Lock_release R k (Some tok) now [] db))"
| "storeEffect R now (ExtendCall k tok ttl) db = snd (Lock_extend R k tok ttl now db)"
| "storeEffect R now (ClaimCall u s d p) db = snd (checkAndClaim R u s d p now db)"
| "storeEffect R now (ClearCall u s d) db = clearCooldown R u s d now db"
| "storeEffect R now BootCall db = sweepLocks R now db"
| "storeEffect R now (CacheCall k w ttl) db = (if rd_down R now then db else rd_setPx R k w ttl now db)"

definition storeStep :: "'db RedisOps \<Rightarrow> time_ms \<times> 'db \<Rightarrow> time_ms \<times> StoreCall \<Rightarrow> time_ms \<times> 'db" where
  "storeStep R st call =
     (let (now, db) = st; (delay, c) = call in (now + delay, storeEffect R (now + delay) c db))"

text \<open>Calls in time order that do not give up the value of the key themselves.\<close>

fun spares :: "string \<Rightarrow> RedisValue \<Rightarrow> StoreCall \<Rightarrow> bool" where
  "spares key v (AcquireCall k tok ttl) \<longleftrightarrow> 0 < ttl"
| "spares key v (ReleaseCall k tok) \<longleftrightarrow> k \<noteq> key \<or> LockToken tok \<noteq> v"
| "spares key v (ExtendCall k tok ttl) \<longleftrightarrow> k \<noteq> key \<or> LockToken tok \<noteq> v"
| "spares key v (ClaimCall u s d p) \<longleftrightarrow> True"
| "spares key v (ClearCall u s d) \<longleftrightarrow> buildKey u s d \<noteq> key"
| "spares key v BootCall \<longleftrightarrow> key \<notin> set LOCK_KEYS"
| "spares key v (CacheCall k w ttl) \<longleftrightarrow> k \<noteq> key \<and> 0 < ttl"

lemma acquire_once:
  "acquireLoop R k tok ttl d others 0 now held db =
     (if rd_down R now then (notAcquired, held, db)
      else if fst (rd_setNxPx R k (LockToken tok) ttl now db)
      then (\<lparr>lr_acquired = True, lr_lockId = Some (lv_lockId tok), lr_token = Some tok\<rparr>,
            map_set k tok held, snd (rd_setNxPx R k (LockToken tok) ttl now db))
      else (notAcquired, held, snd (rd_setNxPx R k (LockToken tok) ttl now db)))"
  by (simp add: acquireLoop.simps split: prod.splits bool.splits)

lemma holds_expired: "T \<le> now \<Longrightarrow> holds_until R key v T now db"
  by (auto simp: holds_until_def)

lemma fold_sweep_holds:
  assumes "redis_contract R" "key \<notin> set keys"
  shows "holds_until R key v T now db \<Longrightarrow> holds_until R key v T now (fold (sweepKey R now) keys db)"
  using assms(2) by (induction keys arbitrary: db) (auto simp: sweepKey_def holds_del_other [OF assms(1)])

lemma storeEffect_holds:
  assumes R: "redis_contract R" and held: "holds_until R key v T now db" and "spares key v c"
  shows "holds_until R key v T now (storeEffect R now c db)"
proof (cases "T \<le> now")
  case True
  then show ?thesis by (rule holds_expired)
next
  case False
  then have live: "now < T" "rd_get R key now db = Some v" using held by (simp_all add: holds_until_def)
  show ?thesis
  proof (cases c)
    case (AcquireCall k tok ttl)
    with assms(3) have "0 < ttl" by simp
    with holds_setNx [OF R held _ live(1)] held AcquireCall show ?thesis
      by (simp add: acquire_once)
  next
    case (ReleaseCall k tok)
    with assms(3) held live(2) show ?thesis
      by (cases "k = key")
        (auto simp: Lock_release_def RELEASE_SCRIPT_def Let_def case_prod_beta holds_del_other [OF R held])
  next
    case (ExtendCall k tok ttl)
    with assms(3) held live(2) show ?thesis
      by (cases "k = key") (auto simp: Lock_extend_def EXTEND_SCRIPT_def holds_pexpire_other [OF R held])
  next
    case (ClaimCall u s d p)
    have "holds_until R key v T now (rd_setPx R (buildKey u s d) w COOLDOWN_TTL_MS now db)"
      if "rd_get R (buildKey u s d) now db = None" for w
      using that live(2) by (intro holds_set_other [OF R held]) (auto simp: COOLDOWN_TTL_MS_def)
    with held ClaimCall show ?thesis
      by (auto simp: checkAndClaim_def CHECK_AND_CLAIM_SCRIPT_def Let_def split: option.splits)
  next
    case (ClearCall u s d)
    with assms(3) held show ?thesis
      by (auto simp: clearCooldown_def holds_del_other [OF R held])
  next
    case BootCall
    with assms(3) held fold_sweep_holds [OF R] show ?thesis by (simp add: sweepLocks_def)
  next
    case (CacheCall k w ttl)
    with assms(3) held show ?thesis by (auto intro: holds_set_other [OF R held])
  qed
qed

interpretation store: step_invariant "storeStep R"
    "\<lambda>(now, db). redis_contract R \<and> holds_until R key v T now db"
    "\<lambda>(delay, c). 0 \<le> delay \<and> spares key v c" for R key v T
proof
  fix st :: "int \<times> 'a" and call :: "int \<times> StoreCall"
  assume "case st of (now, db) \<Rightarrow> redis_contract R \<and> holds_until R key v T now db"
    and "case call of (delay, c) \<Rightarrow> 0 \<le> delay \<and> spares key v c"
  then show "case storeStep R st call of (now, db) \<Rightarrow> redis_contract R \<and> holds_until R key v T now db"
    by (cases st; cases call) (auto simp: storeStep_def intro!: storeEffect_holds elim: holds_later)
qed

lemma holds_run:
  assumes "redis_contract R" "holds_until R key v T now db"
    "list_all (\<lambda>(delay, c). 0 \<le> delay \<and> spares key v c) calls"
    "foldl (storeStep R) (now, db) calls = (clock, db')" "clock < T"
  shows "rd_get R key clock db' = Some v"
  using store.run_inv [of R key v T "(now, db)" calls] assms by (simp add: holds_until_def)

lemma acquireLoop_acquired:
  assumes "redis_contract R" "0 < ttl" "0 \<le> d"
    "acquireLoop R key tok ttl d others n now held db = (res, held', db')" "lr_acquired res"
  shows "lr_token res = Some tok \<and> map_get held' key = Some tok \<and>
    (\<exists>t \<ge> now. holds_until R key (LockToken tok) (t + ttl) t db')"
  using assms(4)
proof (induction n arbitrary: now db)
  case 0
  then show ?case
    using assms(1,2,5) by (auto simp: acquire_once notAcquired_def holds_until_def contract_setNx
        contract_set split: if_splits)
next
  case (Suc n)
  show ?case
  proof (cases "fst (rd_setNxPx R key (LockToken tok) ttl now db) \<or> rd_down R now")
    case True
    with Suc.prems assms(1,2,5) show ?thesis
      by (auto simp: acquireLoop.simps [of R key tok ttl d others "Suc n"] notAcquired_def holds_until_def
          contract_setNx contract_set split: if_splits)
  next
    case False
    with Suc.prems have "acquireLoop R key tok ttl d others n (now + d)
        held (others now (snd (rd_setNxPx R key (LockToken tok) ttl now db))) = (res, held', db')"
      by (auto simp: acquireLoop.simps [of R key tok ttl d others "Suc n"] split: prod.splits bool.splits)
    from Suc.IH [OF this] obtain t where t: "now + d \<le> t" "holds_until R key (LockToken tok) (t + ttl) t db'"
      "lr_token res = Some tok \<and> map_get held' key = Some tok" by blast
    moreover have "now \<le> t" using t(1) assms(3) by linarith
    ultimately show ?thesis by blast
  qed
qed

section \<open>Properties\<close>

text \<open>C30. The lock excludes: once an acquisition (with any retries) succeeds, there is a time \<open>t\<close>
  from which, whatever calls with positive lifetimes the processes make on the store in time order, as long as they do
  not release or extend this lock with its own token, no process starts while it is held (which
  deletes every lock of the list of lock keys), and the keys of the trade cooldowns and of the
  cached values are others, the store holds that token and every attempt to acquire the key fails
  until \<open>t + ttlMs\<close>.\<close>

theorem lock_excludes:
  assumes "redis_contract R" "0 < lo_ttlMs options" "0 \<le> nullish (lo_retryDelayMs options) 100"
    "Lock_acquire R others uuid hostname pid options now held db = (res, held', db')" "lr_acquired res"
  shows "\<exists>t token. now \<le> t \<and> lr_token res = Some token \<and>
    (\<forall>calls clock db2 token2 ttl2 held2.
       list_all (\<lambda>(delay, c). 0 \<le> delay \<and> spares (lo_key options) (LockToken token) c) calls \<and>
       foldl (storeStep R) (t, db') calls = (clock, db2) \<and> clock < t + lo_ttlMs options \<longrightarrow>
       rd_get R (lo_key options) clock db2 = Some (LockToken token) \<and>
       \<not> lr_acquired (fst (acquireLoop R (lo_key options) token2 ttl2 0 (\<lambda>_ db. db) 0 clock held2 db2)))"
proof -
  let ?tok = "\<lparr>lv_lockId = uuid, lv_hostname = hostname, lv_pid = pid, lv_acquiredAt = now\<rparr>"
  from acquireLoop_acquired [OF assms(1,2) assms(3) assms(4) [unfolded Lock_acquire_def Let_def DEFAULT_RETRY_DELAY_MS_def] assms(5)]
  obtain t where t: "lr_token res = Some ?tok" "now \<le> t"
    "holds_until R (lo_key options) (LockToken ?tok) (t + lo_ttlMs options) t db'" by auto
  show ?thesis
  proof (intro exI [of _ t] exI [of _ ?tok] conjI t(1,2) allI impI; elim conjE)
    fix calls clock db2 token2 ttl2 held2
    assume "list_all (\<lambda>(delay, c). 0 \<le> delay \<and> spares (lo_key options) (LockToken ?tok) c) calls"
      "foldl (storeStep R) (t, db') calls = (clock, db2)" "clock < t + lo_ttlMs options"
    from holds_run [OF assms(1) t(3) this]
    show live: "rd_get R (lo_key options) clock db2 = Some (LockToken ?tok)" .
    then show "\<not> lr_acquired (fst (acquireLoop R (lo_key options) token2 ttl2 0 (\<lambda>_ db. db) 0 clock held2 db2))"
      by (simp add: acquire_once contract_setNx [OF assms(1)] notAcquired_def)
  qed
qed

text \<open>A store that keeps the contract: each key with its value and the time it runs out.\<close>

definition memoryRedis :: "(string \<Rightarrow> (RedisValue \<times> time_ms) option) RedisOps" where
  "memoryRedis =
     (let get = (\<lambda>k t db. case db k of None \<Rightarrow> None | Some (v, expiry) \<Rightarrow> if t < expiry then Some v else None);
          setPx = (\<lambda>k v ttl t db. db(k := Some (v, t + ttl)))
      in \<lparr>rd_down = (\<lambda>t. False), rd_get = get, rd_setPx = setPx,
          rd_setNxPx = (\<lambda>k v ttl t db. if get k t db = None then (True, setPx k v ttl t db) else (False, db)),
          rd_del = (\<lambda>k t db. (get k t db \<noteq> None, db(k := None))),
          rd_pexpire = (\<lambda>k ttl t db. case get k t db of None \<Rightarrow> (False, db) | Some v \<Rightarrow> (True, setPx k v ttl t db)),
          rd_pttl = (\<lambda>k t db. case db k of None \<Rightarrow> - 2 | Some (v, expiry) \<Rightarrow> if t < expiry then expiry - t else - 2)\<rparr>)"

lemma memoryRedis_contract: "redis_contract memoryRedis"
  by (auto simp: redis_contract_def law_set_def law_setNx_def law_del_def law_pexpire_def memoryRedis_def
      Let_def split: option.splits prod.splits if_splits)

definition sync_lock :: LockOptions where
  "sync_lock = \<lparr>lo_key = ''coin-sync:lock'', lo_ttlMs = 1000, lo_retryDelayMs = None, lo_maxRetries = None\<rparr>"

definition other_token :: LockValueMetadata where
  "other_token = \<lparr>lv_lockId = ''other'', lv_hostname = ''host2'', lv_pid = 2, lv_acquiredAt = 0\<rparr>"

theorem lock_excludes_witness:
  "\<exists>t. \<not> lr_acquired (fst (acquireLoop memoryRedis ''coin-sync:lock'' other_token 1000 0 (\<lambda>_ db. db) 0 t []
     (snd (snd (Lock_acquire memoryRedis (\<lambda>_ db. db) ''id'' ''host'' 1 sync_lock 0 [] (\<lambda>_. None))))))"
proof -
  let ?a = "Lock_acquire memoryRedis (\<lambda>_ db. db) ''id'' ''host'' 1 sync_lock 0 [] (\<lambda>_. None)"
  obtain res held' db' where out: "?a = (res, held', db')" by (cases ?a)
  have "lr_acquired (fst ?a)"
    by (simp add: Lock_acquire_def Let_def acquire_once memoryRedis_def DEFAULT_MAX_RETRIES_def sync_lock_def)
  with out have "lr_acquired res" by simp
  from lock_excludes [OF memoryRedis_contract _ _ out this] obtain t token where
    "\<forall>calls clock db2 token2 ttl2 held2.
       list_all (\<lambda>(delay, c). 0 \<le> delay \<and> spares (lo_key sync_lock) (LockToken token) c) calls \<and>
       foldl (storeStep memoryRedis) (t, db') calls = (clock, db2) \<and> clock < t + lo_ttlMs sync_lock \<longrightarrow>
       rd_get memoryRedis (lo_key sync_lock) clock db2 = Some (LockToken token) \<and>
       \<not> lr_acquired (fst (acquireLoop memoryRedis (lo_key sync_lock) token2 ttl2 0 (\<lambda>_ db. db) 0 clock held2 db2))"
    by (auto simp: sync_lock_def)
  from this [rule_format, of "[]" t db' other_token 1000 "[]"] show ?thesis
    unfolding out by (auto simp: sync_lock_def)
qed

text \<open>The sweep takes a lock from the process that holds it: when another process starts, a key of
  the list is free at once, and the next attempt gets it while the first holder still works.\<close>

lemma fold_sweep_gone:
  assumes "redis_contract R" "\<not> rd_down R now"
  shows "rd_get R key now (fold (sweepKey R now) keys db) = (if key \<in> set keys then None else rd_get R key now db)"
proof -
  have "rd_get R key now (sweepKey R now k db) = (if key = k then None else rd_get R key now db)" for k db
    using assms(2) by (auto simp: sweepKey_def contract_del [OF assms(1)])
  then show ?thesis by (induction keys arbitrary: db) auto
qed

lemma boot_frees_live_lock:
  assumes "redis_contract R" "\<not> rd_down R now" "key \<in> set LOCK_KEYS"
  shows "lr_acquired (fst (acquireLoop R key token ttl d others 0 now held (sweepLocks R now db)))"
  using assms by (simp add: acquire_once sweepLocks_def contract_setNx fold_sweep_gone)

text \<open>A trade is claimed once: after a claim of a free key the store refuses, and names the
  first claim to, every further claim of the same user, pair and direction for eleven minutes,
  whatever other calls are made, unless the cooldown is cleared; while the store cannot be
  reached every trade is let through.\<close>

lemma cooldown_claimed_once:
  assumes "redis_contract R" "\<not> rd_down R now" "rd_get R (buildKey u s d) now db = None"
    "checkAndClaim R u s d pipeline now db = (first, db')"
    "list_all (\<lambda>(delay, c). 0 \<le> delay \<and>
       spares (buildKey u s d) (ClaimJson \<lparr>ck_pipeline = pipeline, ck_claimedAt = now\<rparr>) c) calls"
    "foldl (storeStep R) (now, db') calls = (clock, db2)" "clock < now + 11 * 60 * 1000"
  shows "cr_allowed first \<and>
    fst (checkAndClaim R u s d pipeline2 clock db2) =
      (if rd_down R clock then \<lparr>cr_allowed = True, cr_existingClaim = None\<rparr>
       else \<lparr>cr_allowed = False, cr_existingClaim = Some \<lparr>ck_pipeline = pipeline, ck_claimedAt = now\<rparr>\<rparr>)"
proof -
  let ?v = "ClaimJson \<lparr>ck_pipeline = pipeline, ck_claimedAt = now\<rparr>"
  have claimed: "cr_allowed first" "db' = rd_setPx R (buildKey u s d) ?v COOLDOWN_TTL_MS now db"
    using assms(2-4) by (auto simp: checkAndClaim_def CHECK_AND_CLAIM_SCRIPT_def)
  have "holds_until R (buildKey u s d) ?v (now + COOLDOWN_TTL_MS) now db'"
    unfolding claimed(2) holds_until_def by (simp add: contract_set [OF assms(1)] COOLDOWN_TTL_MS_def)
  from holds_run [OF assms(1) this assms(5,6)] assms(7)
  have "rd_get R (buildKey u s d) clock db2 = Some ?v" by (simp add: COOLDOWN_TTL_MS_def)
  with claimed(1) show ?thesis by (simp add: checkAndClaim_def CHECK_AND_CLAIM_SCRIPT_def)
qed

end
