(* ===== verification/Degradation.thy ===== *)
theory Degradation
  imports Prelude
begin

text \<open>
  The degradation of a strategy from training to test data, after
  \<^verbatim>\<open>scoring/walk-forward/degradation.calculator.ts\<close> and its constants. Records keyed by a metric
  name are lists of pairs, in the order of \<^verbatim>\<open>Object.entries\<close>; the texts of the recommendation
  become constructors.
\<close>

section \<open>Constants\<close>

definition DEGRAD_CLAMP_min :: number where "DEGRAD_CLAMP_min = - 200"
definition DEGRAD_CLAMP_max :: number where "DEGRAD_CLAMP_max = 300"

definition DEGRAD_MIN_DENOMINATOR :: "(string, number) jsmap" where
  "DEGRAD_MIN_DENOMINATOR =
     [(''sharpeRatio'', 1 / 10), (''totalReturn'', 1 / 100), (''maxDrawdown'', 1 / 100),
      (''winRate'', 5 / 100), (''profitFactor'', 1 / 10), (''volatility'', 5 / 1000)]"

definition DEGRADATION_WEIGHTS :: "(string, number) jsmap" where
  "DEGRADATION_WEIGHTS =
     [(''sharpeRatio'', 30 / 100), (''totalReturn'', 25 / 100), (''winRate'', 15 / 100),
      (''profitFactor'', 15 / 100), (''maxDrawdown'', 10 / 100), (''volatility'', 5 / 100)]"

definition INVERTED_METRICS :: "string list" where
  "INVERTED_METRICS = [''maxDrawdown'', ''volatility'']"

section \<open>The calculator\<close>

definition clampDegrad :: "number \<Rightarrow> number" where
  "clampDegrad change = max DEGRAD_CLAMP_min (min DEGRAD_CLAMP_max change)"

text \<open>How much worse the test value is than the training value.\<close>

definition metricDiff :: "string \<Rightarrow> number \<Rightarrow> number \<Rightarrow> number" where
  "metricDiff metric trainValue testValue =
     (if metric \<in> set INVERTED_METRICS then testValue - trainValue else trainValue - testValue)"

definition minDenominatorOf :: "string \<Rightarrow> number" where
  "minDenominatorOf metric = nullish (map_get DEGRAD_MIN_DENOMINATOR metric) (1 / 10)"

definition calculateMetricDegrad :: "string \<Rightarrow> number \<Rightarrow> number \<Rightarrow> number" where
  "calculateMetricDegrad metric trainValue testValue =
     (if trainValue = 0
      then let diff = metricDiff metric trainValue testValue
           in if diff > 0 then clampDegrad (diff / minDenominatorOf metric * 100) else 0
      else let denominator = max \<bar>trainValue\<bar> (minDenominatorOf metric);
               diff = metricDiff metric trainValue testValue
           in clampDegrad (diff / denominator * 100))"

definition weightOf :: "string \<Rightarrow> number" where
  "weightOf key = nullish (map_get DEGRADATION_WEIGHTS key) 0"

definition calculateFromValues :: "(string, number \<times> number) jsmap \<Rightarrow> number" where
  "calculateFromValues values =
     (let entries = filter (\<lambda>(key, _). map_get DEGRADATION_WEIGHTS key \<noteq> None) values
      in if entries = [] then 0
         else let totalWeight = sum_list (map (\<lambda>(key, _). weightOf key) entries)
              in if totalWeight = 0 then 0
                 else sum_list (map (\<lambda>(key, train, test).
                        calculateMetricDegrad key train test * (weightOf key / totalWeight)) entries))"

definition calculateWeightedDegradation :: "(string, number) jsmap \<Rightarrow> number" where
  "calculateWeightedDegradation metricDegradations =
     sum_list (map (\<lambda>(key, weight). nullish (map_get metricDegradations key) 0 * weight) DEGRADATION_WEIGHTS)"

datatype Severity = Excellent | Good | Acceptable | Warning | Critical

definition determineSeverity :: "number \<Rightarrow> Severity" where
  "determineSeverity degradation =
     (if degradation < 10 then Excellent
      else if degradation < 20 then Good
      else if degradation < 30 then Acceptable
      else if degradation < 50 then Warning
      else Critical)"

datatype Problem = SharpeDrop | ReturnDegradation | WinRateDecline | DrawdownRisk | OverallDecline

datatype DegradationAdvice =
    ProceedWithConfidence | AcceptableForDeployment | MonitorClosely
  | ConcerningDegradation "Problem list" | CriticalOverfitting "Problem list"

definition degradationProblems :: "(string, number) jsmap \<Rightarrow> Problem list" where
  "degradationProblems metricDegradations =
     (let above = (\<lambda>key limit. nullish (map_get metricDegradations key) 0 > limit);
          problems = (if above ''sharpeRatio'' 30 then [SharpeDrop] else []) @
                     (if above ''totalReturn'' 40 then [ReturnDegradation] else []) @
                     (if above ''winRate'' 25 then [WinRateDecline] else []) @
                     (if above ''maxDrawdown'' 50 then [DrawdownRisk] else [])
      in if problems = [] then [OverallDecline] else problems)"

definition Degradation_generateRecommendation :: "Severity \<Rightarrow> (string, number) jsmap \<Rightarrow> DegradationAdvice" where
  "Degradation_generateRecommendation severity metricDegradations =
     (case severity of
        Excellent \<Rightarrow> ProceedWithConfidence
      | Good \<Rightarrow> AcceptableForDeployment
      | Acceptable \<Rightarrow> MonitorClosely
      | Warning \<Rightarrow> ConcerningDegradation (degradationProblems metricDegradations)
      | Critical \<Rightarrow> CriticalOverfitting (degradationProblems metricDegradations))"

record WindowMetrics =
  wm_totalReturn :: number
  wm_sharpeRatio :: number
  wm_maxDrawdown :: number
  wm_winRate :: number
  wm_tradeCount :: int
  wm_profitFactor :: number
  wm_volatility :: number
  wm_downsideDeviation :: "number option"

record DegradationAnalysis =
  da_overallDegradation :: number
  da_metricDegradations :: "(string, number) jsmap"
  da_severity :: Severity
  da_recommendation :: DegradationAdvice

text \<open>\<^verbatim>\<open>x || y\<close> on numbers: zero is replaced.\<close>

definition orIfZero :: "number \<Rightarrow> number \<Rightarrow> number" where
  "orIfZero x y = (if x = 0 then y else x)"

definition metricDegradationsOf :: "WindowMetrics \<Rightarrow> WindowMetrics \<Rightarrow> (string, number) jsmap" where
  "metricDegradationsOf train test =
     map (\<lambda>(key, a, b). (key, calculateMetricDegrad key a b))
       [(''sharpeRatio'', wm_sharpeRatio train, wm_sharpeRatio test),
        (''totalReturn'', wm_totalReturn train, wm_totalReturn test),
        (''maxDrawdown'', wm_maxDrawdown train, wm_maxDrawdown test),
        (''winRate'', wm_winRate train, wm_winRate test),
        (''profitFactor'', orIfZero (wm_profitFactor train) 1, orIfZero (wm_profitFactor test) 1),
        (''volatility'', wm_volatility train, wm_volatility test)]"

definition Degradation_calculate :: "WindowMetrics \<Rightarrow> WindowMetrics \<Rightarrow> DegradationAnalysis" where
  "Degradation_calculate trainMetrics testMetrics =
     (let metricDegradations = metricDegradationsOf trainMetrics testMetrics;
          overallDegradation = calculateWeightedDegradation metricDegradations;
          severity = determineSeverity overallDegradation
      in \<lparr>da_overallDegradation = overallDegradation, da_metricDegradations = metricDegradations,
          da_severity = severity,
          da_recommendation = Degradation_generateRecommendation severity metricDegradations\<rparr>)"

definition Degradation_isAcceptable :: "number \<Rightarrow> number \<Rightarrow> bool" where
  "Degradation_isAcceptable degradation threshold \<longleftrightarrow> degradation \<le> threshold"

definition Degradation_isCritical :: "number \<Rightarrow> number \<Rightarrow> bool" where
  "Degradation_isCritical degradation threshold \<longleftrightarrow> degradation > threshold"

section \<open>Bounds and monotonicity\<close>

lemma clampDegrad_bounds: "- 200 \<le> clampDegrad x \<and> clampDegrad x \<le> 300"
  by (simp add: clampDegrad_def DEGRAD_CLAMP_min_def DEGRAD_CLAMP_max_def)

lemma clampDegrad_mono: "x \<le> y \<Longrightarrow> clampDegrad x \<le> clampDegrad y"
  by (auto simp: clampDegrad_def)

lemma clampDegrad_zero [simp]: "clampDegrad 0 = 0"
  by (simp add: clampDegrad_def DEGRAD_CLAMP_min_def DEGRAD_CLAMP_max_def)

lemma minDenominatorOf_pos: "0 < minDenominatorOf metric"
  by (auto simp: minDenominatorOf_def DEGRAD_MIN_DENOMINATOR_def map_get_def nullish_def split: option.splits)

lemma calculateMetricDegrad_bounds:
  "- 200 \<le> calculateMetricDegrad m train test" "calculateMetricDegrad m train test \<le> 300"
  using clampDegrad_bounds by (auto simp: calculateMetricDegrad_def Let_def)

lemma calculateMetricDegrad_same [simp]: "calculateMetricDegrad m x x = 0"
  by (simp add: calculateMetricDegrad_def metricDiff_def)

text \<open>One test value is at least as bad as another for a metric.\<close>

definition worse :: "string \<Rightarrow> number \<Rightarrow> number \<Rightarrow> bool" where
  "worse metric good bad \<longleftrightarrow> (if metric \<in> set INVERTED_METRICS then good \<le> bad else bad \<le> good)"

lemma worse_diff: "worse m x y \<Longrightarrow> metricDiff m train x \<le> metricDiff m train y"
  by (simp add: worse_def metricDiff_def split: if_splits)

lemma scaled_mono:
  fixes x y d :: number
  assumes "x \<le> y" "0 < d" shows "x / d * 100 \<le> y / d * 100"
  using assms by (simp add: divide_right_mono)

lemma clampDegrad_nonneg: "0 \<le> x \<Longrightarrow> 0 \<le> clampDegrad x"
  using clampDegrad_mono [of 0 x] by simp

lemma calculateMetricDegrad_mono:
  assumes "worse m x y"
  shows "calculateMetricDegrad m train x \<le> calculateMetricDegrad m train y"
proof (cases "train = 0")
  case True
  let ?d = "minDenominatorOf m"
  have d: "0 < ?d" by (rule minDenominatorOf_pos)
  have le: "metricDiff m train x \<le> metricDiff m train y" by (rule worse_diff [OF assms])
  have mono: "clampDegrad (metricDiff m train x / ?d * 100) \<le> clampDegrad (metricDiff m train y / ?d * 100)"
    by (rule clampDegrad_mono [OF scaled_mono [OF le d]])
  have "0 \<le> clampDegrad (metricDiff m train y / ?d * 100)" if "0 < metricDiff m train y"
    using that d by (intro clampDegrad_nonneg) simp
  then show ?thesis
    using True le mono by (auto simp: calculateMetricDegrad_def Let_def)
next
  case False
  have "0 < max \<bar>train\<bar> (minDenominatorOf m)" using minDenominatorOf_pos [of m] by simp
  from scaled_mono [OF worse_diff [OF assms] this] show ?thesis
    using False by (simp add: calculateMetricDegrad_def Let_def clampDegrad_mono)
qed

lemma weightOf_pos: "map_get DEGRADATION_WEIGHTS key \<noteq> None \<Longrightarrow> 0 < weightOf key"
  by (auto simp: weightOf_def DEGRADATION_WEIGHTS_def map_get_def nullish_def split: if_splits)

text \<open>The weighted mean over the entries with a weight.\<close>

lemma weighted_bounds:
  fixes f :: "'a \<Rightarrow> real" and w :: "'a \<Rightarrow> real"
  assumes "\<And>x. x \<in> set xs \<Longrightarrow> a \<le> f x \<and> f x \<le> b \<and> 0 \<le> w x"
  shows "a * sum_list (map w xs) \<le> sum_list (map (\<lambda>x. f x * w x) xs) \<and>
    sum_list (map (\<lambda>x. f x * w x) xs) \<le> b * sum_list (map w xs)"
  using assms
proof (induction xs)
  case (Cons x xs)
  have "a * w x \<le> f x * w x" "f x * w x \<le> b * w x"
    using Cons.prems [of x] by (auto intro: mult_right_mono)
  with Cons show ?case by (fastforce simp: algebra_simps)
qed simp

definition weighted :: "(string, number \<times> number) jsmap \<Rightarrow> (string, number \<times> number) jsmap" where
  "weighted values = filter (\<lambda>(key, _). map_get DEGRADATION_WEIGHTS key \<noteq> None) values"

definition totalWeightOf :: "(string, number \<times> number) jsmap \<Rightarrow> number" where
  "totalWeightOf values = sum_list (map (\<lambda>(key, _). weightOf key) (weighted values))"

lemma totalWeightOf_nonneg: "0 \<le> totalWeightOf values"
  unfolding totalWeightOf_def weighted_def
  by (rule sum_list_nonneg) (auto intro!: less_imp_le [OF weightOf_pos])

lemma calculateFromValues_eq:
  "calculateFromValues values =
     (if totalWeightOf values = 0 then 0
      else sum_list (map (\<lambda>(key, train, test). calculateMetricDegrad key train test * weightOf key)
             (weighted values)) / totalWeightOf values)"
proof -
  have "(\<Sum>(key, train, test)\<leftarrow>xs. calculateMetricDegrad key train test * (weightOf key / t)) =
        (\<Sum>(key, train, test)\<leftarrow>xs. calculateMetricDegrad key train test * weightOf key) / t" for t xs
    by (induction xs) (auto simp: add_divide_distrib)
  then show ?thesis
    by (simp add: calculateFromValues_def Let_def totalWeightOf_def weighted_def)
qed

lemma weighted_worse:
  assumes "list_all2 (\<lambda>(k, train, x) (k', train', y). k' = k \<and> train' = train \<and> worse k x y) vs vs'"
  shows "totalWeightOf vs' = totalWeightOf vs \<and>
    (\<Sum>(k, train, x)\<leftarrow>weighted vs. calculateMetricDegrad k train x * weightOf k) \<le>
    (\<Sum>(k, train, x)\<leftarrow>weighted vs'. calculateMetricDegrad k train x * weightOf k)"
  using assms
proof (induction rule: list_all2_induct)
  case Nil then show ?case by simp
next
  case (Cons e vs e' vs')
  obtain k train x where e: "e = (k, train, x)" by (cases e)
  obtain y where e': "e' = (k, train, y)" and w: "worse k x y"
    using Cons.hyps(1) by (cases e') (auto simp: e)
  have "calculateMetricDegrad k train x * weightOf k \<le> calculateMetricDegrad k train y * weightOf k"
    if "map_get DEGRADATION_WEIGHTS k \<noteq> None"
    using calculateMetricDegrad_mono [OF w] weightOf_pos [OF that] by (intro mult_right_mono) auto
  with Cons.IH show ?case
    by (auto simp: e e' totalWeightOf_def weighted_def intro: add_mono)
qed

section \<open>Properties\<close>

text \<open>The degradation is a bounded, monotone measure of how much worse the test data is: it lies
  between \<open>-200\<close> and \<open>300\<close>, is zero when every test value equals its training value, and never
  falls when test values get worse (lower, or higher for drawdown and volatility) against the
  same training values.\<close>

lemma degradation_bounded_monotone:
  assumes "list_all2 (\<lambda>(k, train, x) (k', train', y). k' = k \<and> train' = train \<and> worse k x y) vs vs'"
  shows "- 200 \<le> calculateFromValues vs \<and> calculateFromValues vs \<le> calculateFromValues vs' \<and>
    calculateFromValues vs' \<le> 300 \<and>
    calculateFromValues (map (\<lambda>(k, train, x). (k, train, train)) vs) = 0"
proof -
  have nonneg: "0 \<le> totalWeightOf us" for us by (rule totalWeightOf_nonneg)
  have "- 200 * totalWeightOf us \<le> (\<Sum>(k, train, x)\<leftarrow>weighted us. calculateMetricDegrad k train x * weightOf k) \<and>
    (\<Sum>(k, train, x)\<leftarrow>weighted us. calculateMetricDegrad k train x * weightOf k) \<le> 300 * totalWeightOf us" for us
  proof -
    have "- 200 \<le> calculateMetricDegrad (fst e) (fst (snd e)) (snd (snd e)) \<and>
        calculateMetricDegrad (fst e) (fst (snd e)) (snd (snd e)) \<le> 300 \<and> 0 \<le> weightOf (fst e)"
      if "e \<in> set (weighted us)" for e
      using that by (auto simp: weighted_def calculateMetricDegrad_bounds intro!: less_imp_le [OF weightOf_pos])
    from weighted_bounds [of "weighted us" "- 200"
        "\<lambda>e. calculateMetricDegrad (fst e) (fst (snd e)) (snd (snd e))" 300
        "\<lambda>e. weightOf (fst e)", OF this]
    show ?thesis
      by (simp add: totalWeightOf_def case_prod_unfold)
  qed
  then have bounds: "- 200 \<le> calculateFromValues us \<and> calculateFromValues us \<le> 300" for us
    using nonneg [of us] by (auto simp: calculateFromValues_eq field_simps)
  have mono: "calculateFromValues vs \<le> calculateFromValues vs'"
    using weighted_worse [OF assms] nonneg [of vs]
    by (auto simp: calculateFromValues_eq divide_right_mono)
  have "(\<Sum>(k, train, x)\<leftarrow>weighted (map (\<lambda>(k, train, x). (k, train, train)) us).
          calculateMetricDegrad k train x * weightOf k) = 0" for us :: "(string, number \<times> number) jsmap"
    by (induction us) (auto simp: weighted_def)
  then show ?thesis using bounds mono by (simp add: calculateFromValues_eq)
qed

end
