(* ===== verification/Scoring.thy ===== *)
theory Scoring
  imports Degradation SignalFilters
begin

text \<open>
  The composite score of a strategy: \<^verbatim>\<open>scoring/scoring.service.ts\<close>, its weights
  (\<^verbatim>\<open>scoring.weights.ts\<close>), the grades of \<^verbatim>\<open>libs/api-interfaces\<close> and the correlation with the
  running deployments (\<^verbatim>\<open>correlation-scoring.service.ts\<close>, \<^verbatim>\<open>common/metrics\<close>). What the services
  read from the database (the returns, the scores of other strategies) is an argument; the texts
  of the warnings become constructors.
\<close>

section \<open>Grades and components\<close>

datatype StrategyGrade = GradeA | GradeB | GradeC | GradeD | GradeF

fun GRADE_RANGES_min :: "StrategyGrade \<Rightarrow> number" where
  "GRADE_RANGES_min GradeA = 85"
| "GRADE_RANGES_min GradeB = 70"
| "GRADE_RANGES_min GradeC = 55"
| "GRADE_RANGES_min GradeD = 40"
| "GRADE_RANGES_min GradeF = 0"

text \<open>Grades are ordered by their ranges: a better grade is greater.\<close>

instantiation StrategyGrade :: linorder
begin

definition less_eq_StrategyGrade :: "StrategyGrade \<Rightarrow> StrategyGrade \<Rightarrow> bool" where
  "less_eq_StrategyGrade g h \<longleftrightarrow> GRADE_RANGES_min g \<le> GRADE_RANGES_min h"

definition less_StrategyGrade :: "StrategyGrade \<Rightarrow> StrategyGrade \<Rightarrow> bool" where
  "less_StrategyGrade g h \<longleftrightarrow> GRADE_RANGES_min g < GRADE_RANGES_min h"

instance
proof
  fix g h k :: StrategyGrade
  show "(g < h) = (g \<le> h \<and> \<not> h \<le> g)" by (auto simp: less_eq_StrategyGrade_def less_StrategyGrade_def)
  show "g \<le> g" "g \<le> h \<or> h \<le> g" by (auto simp: less_eq_StrategyGrade_def)
  show "g \<le> k" if "g \<le> h" "h \<le> k" using that by (simp add: less_eq_StrategyGrade_def)
  show "g = h" if "g \<le> h" "h \<le> g"
    using that by (cases g; cases h) (simp_all add: less_eq_StrategyGrade_def)
qed

end

record ScoringComponent =
  comp_value :: number
  comp_score :: number
  comp_weight :: number
  comp_percentile :: number

record ComponentScores =
  cs_sharpeRatio :: ScoringComponent
  cs_calmarRatio :: ScoringComponent
  cs_winRate :: ScoringComponent
  cs_profitFactor :: ScoringComponent
  cs_wfaDegradation :: ScoringComponent
  cs_stability :: ScoringComponent
  cs_correlation :: ScoringComponent

record ScoringWeights =
  sw_sharpeRatio :: number
  sw_calmarRatio :: number
  sw_winRate :: number
  sw_profitFactor :: number
  sw_wfaDegradation :: number
  sw_stability :: number
  sw_correlation :: number

definition SCORING_WEIGHTS :: ScoringWeights where
  "SCORING_WEIGHTS =
     \<lparr>sw_sharpeRatio = 25 / 100, sw_calmarRatio = 15 / 100, sw_winRate = 10 / 100,
      sw_profitFactor = 10 / 100, sw_wfaDegradation = 20 / 100, sw_stability = 10 / 100,
      sw_correlation = 10 / 100\<rparr>"

definition CONSERVATIVE_WEIGHTS :: ScoringWeights where
  "CONSERVATIVE_WEIGHTS =
     \<lparr>sw_sharpeRatio = 20 / 100, sw_calmarRatio = 25 / 100, sw_winRate = 15 / 100,
      sw_profitFactor = 10 / 100, sw_wfaDegradation = 20 / 100, sw_stability = 5 / 100,
      sw_correlation = 5 / 100\<rparr>"

definition AGGRESSIVE_WEIGHTS :: ScoringWeights where
  "AGGRESSIVE_WEIGHTS =
     \<lparr>sw_sharpeRatio = 35 / 100, sw_calmarRatio = 10 / 100, sw_winRate = 5 / 100,
      sw_profitFactor = 15 / 100, sw_wfaDegradation = 20 / 100, sw_stability = 10 / 100,
      sw_correlation = 5 / 100\<rparr>"

definition validateWeights :: "ScoringWeights \<Rightarrow> bool" where
  "validateWeights w \<longleftrightarrow>
     \<bar>sw_sharpeRatio w + sw_calmarRatio w + sw_winRate w + sw_profitFactor w + sw_wfaDegradation w +
      sw_stability w + sw_correlation w - 1\<bar> < 1 / 10000"

section \<open>The scoring service\<close>

record ScoringMetrics =
  sm_sharpeRatio :: number
  sm_calmarRatio :: number
  sm_maxDrawdown :: number
  sm_winRate :: number
  sm_profitFactor :: number
  sm_totalTrades :: number
  sm_totalReturn :: number
  sm_volatility :: number

record ScoreThresholds =
  th_excellent :: number
  th_good :: number
  th_acceptable :: number
  th_poor :: number

definition scoreMetric :: "number \<Rightarrow> ScoreThresholds \<Rightarrow> number" where
  "scoreMetric v thresholds =
     (if v \<ge> th_excellent thresholds then 100
      else if v \<ge> th_good thresholds then 75
      else if v \<ge> th_acceptable thresholds then 50
      else if v \<ge> th_poor thresholds then 25
      else 0)"

definition scoreMetricInverse :: "number \<Rightarrow> ScoreThresholds \<Rightarrow> number" where
  "scoreMetricInverse v thresholds =
     (if v \<le> th_excellent thresholds then 100
      else if v \<le> th_good thresholds then 75
      else if v \<le> th_acceptable thresholds then 50
      else if v \<le> th_poor thresholds then 25
      else 0)"

definition ratioThresholds :: ScoreThresholds where
  "ratioThresholds = \<lparr>th_excellent = 2, th_good = 1, th_acceptable = 1 / 2, th_poor = 0\<rparr>"

definition winRateThresholds :: ScoreThresholds where
  "winRateThresholds = \<lparr>th_excellent = 6 / 10, th_good = 5 / 10, th_acceptable = 45 / 100, th_poor = 0\<rparr>"

definition profitFactorThresholds :: ScoreThresholds where
  "profitFactorThresholds = \<lparr>th_excellent = 2, th_good = 15 / 10, th_acceptable = 12 / 10, th_poor = 1\<rparr>"

definition wfaThresholds :: ScoreThresholds where
  "wfaThresholds = \<lparr>th_excellent = 10, th_good = 20, th_acceptable = 30, th_poor = 50\<rparr>"

definition stabilityThresholds :: ScoreThresholds where
  "stabilityThresholds = \<lparr>th_excellent = 100, th_good = 50, th_acceptable = 30, th_poor = 10\<rparr>"

definition correlationThresholds :: ScoreThresholds where
  "correlationThresholds = \<lparr>th_excellent = 2 / 10, th_good = 4 / 10, th_acceptable = 7 / 10, th_poor = 9 / 10\<rparr>"

definition scored :: "number \<Rightarrow> number \<Rightarrow> number \<Rightarrow> ScoringComponent" where
  "scored v score weight = \<lparr>comp_value = v, comp_score = score, comp_weight = weight, comp_percentile = 0\<rparr>"

definition calculateComponentScores :: "ScoringMetrics \<Rightarrow> number \<Rightarrow> number \<Rightarrow> ComponentScores" where
  "calculateComponentScores results wfaDegradation correlationValue =
     \<lparr>cs_sharpeRatio = scored (sm_sharpeRatio results)
        (scoreMetric (sm_sharpeRatio results) ratioThresholds) (sw_sharpeRatio SCORING_WEIGHTS),
      cs_calmarRatio = scored (orIfZero (sm_calmarRatio results) 0)
        (scoreMetric (orIfZero (sm_calmarRatio results) 0) ratioThresholds) (sw_calmarRatio SCORING_WEIGHTS),
      cs_winRate = scored (sm_winRate results)
        (scoreMetric (sm_winRate results) winRateThresholds) (sw_winRate SCORING_WEIGHTS),
      cs_profitFactor = scored (orIfZero (sm_profitFactor results) 1)
        (scoreMetric (orIfZero (sm_profitFactor results) 1) profitFactorThresholds)
        (sw_profitFactor SCORING_WEIGHTS),
      cs_wfaDegradation = scored wfaDegradation
        (scoreMetricInverse wfaDegradation wfaThresholds) (sw_wfaDegradation SCORING_WEIGHTS),
      cs_stability = scored (sm_totalTrades results)
        (scoreMetric (sm_totalTrades results) stabilityThresholds) (sw_stability SCORING_WEIGHTS),
      cs_correlation = scored correlationValue
        (scoreMetricInverse \<bar>correlationValue\<bar> correlationThresholds) (sw_correlation SCORING_WEIGHTS)\<rparr>"

text \<open>\<^verbatim>\<open>Math.round\<close>: halves are rounded up.\<close>

definition js_round :: "number \<Rightarrow> number" where
  "js_round x = of_int \<lfloor>x + 1 / 2\<rfloor>"

definition weightedSum :: "ComponentScores \<Rightarrow> number" where
  "weightedSum cs =
     comp_score (cs_sharpeRatio cs) * comp_weight (cs_sharpeRatio cs) +
     comp_score (cs_calmarRatio cs) * comp_weight (cs_calmarRatio cs) +
     comp_score (cs_winRate cs) * comp_weight (cs_winRate cs) +
     comp_score (cs_profitFactor cs) * comp_weight (cs_profitFactor cs) +
     comp_score (cs_wfaDegradation cs) * comp_weight (cs_wfaDegradation cs) +
     comp_score (cs_stability cs) * comp_weight (cs_stability cs) +
     comp_score (cs_correlation cs) * comp_weight (cs_correlation cs)"

definition calculateOverallScore :: "ComponentScores \<Rightarrow> number" where
  "calculateOverallScore componentScores = js_round (weightedSum componentScores * 100) / 100"

definition getRegimeModifier :: "MarketRegimeType option \<Rightarrow> number" where
  "getRegimeModifier regime =
     (case regime of
        None \<Rightarrow> 0
      | Some EXTREME_VOLATILITY \<Rightarrow> - 10
      | Some HIGH_VOLATILITY \<Rightarrow> - 5
      | Some NORMAL \<Rightarrow> 0
      | Some LOW_VOLATILITY \<Rightarrow> 5)"

definition determineGrade :: "number \<Rightarrow> StrategyGrade" where
  "determineGrade score =
     (if score \<ge> GRADE_RANGES_min GradeA then GradeA
      else if score \<ge> GRADE_RANGES_min GradeB then GradeB
      else if score \<ge> GRADE_RANGES_min GradeC then GradeC
      else if score \<ge> GRADE_RANGES_min GradeD then GradeD
      else GradeF)"

datatype ScoreWarning =
    LowSharpe | InsufficientTrades | HighMaxDrawdown | HighWfaDegradation | LowWinRate | HighVolatility
  | HighCorrelation

definition generateWarnings ::
    "ComponentScores \<Rightarrow> ScoringMetrics \<Rightarrow> number \<Rightarrow> number \<Rightarrow> ScoreWarning list" where
  "generateWarnings componentScores results wfaDegradation correlationValue =
     (if comp_value (cs_sharpeRatio componentScores) < 1 / 2 then [LowSharpe] else []) @
     (if sm_totalTrades results < 30 then [InsufficientTrades] else []) @
     (if \<bar>sm_maxDrawdown results\<bar> > 40 then [HighMaxDrawdown] else []) @
     (if wfaDegradation > 30 then [HighWfaDegradation] else []) @
     (if sm_winRate results < 45 / 100 then [LowWinRate] else []) @
     (if sm_volatility results > 15 / 10 then [HighVolatility] else []) @
     (if \<bar>correlationValue\<bar> > 7 / 10 then [HighCorrelation] else [])"

record MetricsScore =
  ms_overallScore :: number
  ms_grade :: StrategyGrade
  ms_componentScores :: ComponentScores
  ms_warnings :: "ScoreWarning list"
  ms_regimeModifier :: number

definition calculateScoreFromMetrics ::
    "ScoringMetrics \<Rightarrow> number \<Rightarrow> MarketRegimeType option \<Rightarrow> number option \<Rightarrow> MetricsScore" where
  "calculateScoreFromMetrics metrics wfaDegradation marketRegime correlation =
     (let correlationValue = nullish correlation 0;
          componentScores = calculateComponentScores metrics wfaDegradation correlationValue;
          baseScore = calculateOverallScore componentScores;
          regimeModifier = getRegimeModifier marketRegime;
          overallScore = max 0 (min 100 (baseScore + regimeModifier))
      in \<lparr>ms_overallScore = overallScore, ms_grade = determineGrade overallScore,
          ms_componentScores = componentScores,
          ms_warnings = generateWarnings componentScores metrics wfaDegradation correlationValue,
          ms_regimeModifier = regimeModifier\<rparr>)"

definition checkPromotionEligibility :: "number \<Rightarrow> ComponentScores \<Rightarrow> ScoringMetrics \<Rightarrow> bool" where
  "checkPromotionEligibility score componentScores results \<longleftrightarrow>
     \<not> score < 70 \<and> \<not> sm_totalTrades results < 30 \<and> \<not> \<bar>sm_maxDrawdown results\<bar> > 40 \<and>
     \<not> comp_value (cs_wfaDegradation componentScores) > 30 \<and> \<not> sm_totalReturn results \<le> 0"

text \<open>The scores of the other strategies are read from the database.\<close>

definition calculatePercentile :: "number list \<Rightarrow> number \<Rightarrow> number" where
  "calculatePercentile scores overallScore =
     (if scores = [] then 100
      else real (length (filter (\<lambda>s. s < overallScore) scores)) / real (length scores) * 100)"

record StrategyScore =
  ss_strategyConfigId :: string
  ss_overallScore :: number
  ss_componentScores :: ComponentScores
  ss_percentile :: number
  ss_grade :: StrategyGrade
  ss_promotionEligible :: bool
  ss_warnings :: "ScoreWarning list"
  ss_effectiveDate :: string
  ss_backtestRunIds :: "string list"

text \<open>
  The score to be saved. \<open>correlation\<close> is the answer of the correlation service, \<open>None\<close> where it
  failed (the failure is logged and counts as zero); a run without results is an error.
\<close>

definition calculateScore ::
    "string \<Rightarrow> string \<Rightarrow> ScoringMetrics option \<Rightarrow> number \<Rightarrow> number option \<Rightarrow> number list \<Rightarrow> string \<Rightarrow>
     string + StrategyScore" where
  "calculateScore strategyConfigId runId results wfaDegradation correlation otherScores today =
     (case results of
        None \<Rightarrow> Inl ''Backtest results not available''
      | Some r \<Rightarrow>
          let correlationValue = nullish correlation 0;
              componentScores = calculateComponentScores r wfaDegradation correlationValue;
              overallScore = calculateOverallScore componentScores
          in Inr \<lparr>ss_strategyConfigId = strategyConfigId, ss_overallScore = overallScore,
                  ss_componentScores = componentScores,
                  ss_percentile = calculatePercentile otherScores overallScore,
                  ss_grade = determineGrade overallScore,
                  ss_promotionEligible = checkPromotionEligibility overallScore componentScores r,
                  ss_warnings = generateWarnings componentScores r wfaDegradation correlationValue,
                  ss_effectiveDate = today, ss_backtestRunIds = [runId]\<rparr>)"

section \<open>Correlation with the running deployments\<close>

definition calculateMean :: "number list \<Rightarrow> number" where
  "calculateMean xs = (if xs = [] then 0 else sum_list xs / real (length xs))"

definition calculatePearsonCorrelation :: "number list \<Rightarrow> number list \<Rightarrow> string + number" where
  "calculatePearsonCorrelation returns1 returns2 =
     (if returns1 = [] \<or> returns2 = [] then Inr 0
      else if length returns1 \<noteq> length returns2 then Inl ''Return series must have the same length''
      else let diffs1 = map (\<lambda>r. r - calculateMean returns1) returns1;
               diffs2 = map (\<lambda>r. r - calculateMean returns2) returns2;
               numerator = (\<Sum>(d, e)\<leftarrow>zip diffs1 diffs2. d * e);
               denominator = sqrt ((\<Sum>d\<leftarrow>diffs1. d * d) * (\<Sum>e\<leftarrow>diffs2. e * e))
           in Inr (if denominator = 0 then 0 else numerator / denominator))"

definition MIN_OVERLAP :: nat where "MIN_OVERLAP = 10"

text \<open>The returns between consecutive portfolio values; a value of zero has no return after it.\<close>

fun portfolioReturns :: "number list \<Rightarrow> number list" where
  "portfolioReturns (prev # cur # rest) =
     (if prev = 0 then [] else [(cur - prev) / prev]) @ portfolioReturns (cur # rest)"
| "portfolioReturns _ = []"

text \<open>One deployment of the loop of \<^verbatim>\<open>calculateMaxCorrelation\<close>; the aligned series have equal lengths.\<close>

definition correlationStep :: "number list \<Rightarrow> number \<Rightarrow> number list \<Rightarrow> number" where
  "correlationStep candidateReturns maxCorrelation deploymentReturns =
     (if length deploymentReturns < MIN_OVERLAP then maxCorrelation
      else let minLength = min (length candidateReturns) (length deploymentReturns)
           in if minLength < MIN_OVERLAP then maxCorrelation
              else case calculatePearsonCorrelation
                          (drop (length candidateReturns - minLength) candidateReturns)
                          (drop (length deploymentReturns - minLength) deploymentReturns) of
                     Inl e \<Rightarrow> maxCorrelation
                   | Inr c \<Rightarrow> if \<bar>c\<bar> > maxCorrelation then \<bar>c\<bar> else maxCorrelation)"

definition calculateMaxCorrelation :: "number list \<Rightarrow> number list list \<Rightarrow> number" where
  "calculateMaxCorrelation candidateReturns activeDeployments =
     (if activeDeployments = [] then 0
      else if length candidateReturns < MIN_OVERLAP then 0
      else foldl (correlationStep candidateReturns) 0 activeDeployments)"

lemma Cauchy_Schwarz_zip:
  fixes xs ys :: "real list"
  assumes "length xs = length ys"
  shows "(\<Sum>(x, y)\<leftarrow>zip xs ys. x * y)\<^sup>2 \<le> (\<Sum>x\<leftarrow>xs. x * x) * (\<Sum>y\<leftarrow>ys. y * y)"
  using assms
proof (induction rule: list_induct2)
  case (Cons x xs y ys)
  define S A B where "S = (\<Sum>(x, y)\<leftarrow>zip xs ys. x * y)" and "A = (\<Sum>x\<leftarrow>xs. x * x)" and "B = (\<Sum>y\<leftarrow>ys. y * y)"
  have nn: "0 \<le> A" "0 \<le> B" unfolding A_def B_def by (auto intro!: sum_list_nonneg)
  have "\<bar>S\<bar> \<le> sqrt A * sqrt B"
    using Cons.IH by (simp add: S_def A_def B_def real_sqrt_mult [symmetric] real_le_rsqrt)
  then have "\<bar>S\<bar> * (\<bar>x\<bar> * \<bar>y\<bar>) \<le> (sqrt A * sqrt B) * (\<bar>x\<bar> * \<bar>y\<bar>)"
    by (intro mult_right_mono) auto
  moreover have "2 * ((sqrt A * \<bar>y\<bar>) * (sqrt B * \<bar>x\<bar>)) \<le> (sqrt A * \<bar>y\<bar>)\<^sup>2 + (sqrt B * \<bar>x\<bar>)\<^sup>2"
    using sum_squares_bound [of "sqrt A * \<bar>y\<bar>" "sqrt B * \<bar>x\<bar>"] by (simp add: mult.assoc)
  moreover have "S * (x * y) \<le> \<bar>S\<bar> * (\<bar>x\<bar> * \<bar>y\<bar>)"
    by (simp add: abs_mult [symmetric])
  ultimately have "2 * (S * (x * y)) \<le> A * y\<^sup>2 + B * x\<^sup>2"
    using nn by (simp add: power_mult_distrib mult_ac)
  with Cons.IH have "(x * y + S)\<^sup>2 \<le> (x * x + A) * (y * y + B)"
    by (simp add: S_def A_def B_def power2_eq_square algebra_simps)
  then show ?case by (simp add: S_def A_def B_def)
qed simp

lemma pearson_bounds:
  assumes "calculatePearsonCorrelation r1 r2 = Inr c" shows "\<bar>c\<bar> \<le> 1"
proof -
  have div: "\<bar>n / sqrt d\<bar> \<le> 1" if "n\<^sup>2 \<le> d" "sqrt d \<noteq> 0" for n d :: real
  proof -
    have "\<bar>n\<bar> \<le> sqrt d" using that(1) by (simp add: real_le_rsqrt)
    moreover have "0 \<le> d" using that(1) zero_le_power2 [of n] by linarith
    then have "0 < sqrt d" using that(2) by (simp add: less_le)
    ultimately show ?thesis by (simp add: abs_divide)
  qed
  let ?d = "\<lambda>r. map (\<lambda>x. x - calculateMean r) r"
  show ?thesis
    using assms div [OF Cauchy_Schwarz_zip [of "?d r1" "?d r2"]]
    by (auto simp: calculatePearsonCorrelation_def Let_def split: if_splits)
qed

lemma calculateMaxCorrelation_bounds:
  "0 \<le> calculateMaxCorrelation rs ds \<and> calculateMaxCorrelation rs ds \<le> 1"
proof -
  have step: "0 \<le> correlationStep rs m d \<and> correlationStep rs m d \<le> 1" if "0 \<le> m" "m \<le> 1" for m d
    using that by (auto simp: correlationStep_def Let_def dest: pearson_bounds split: sum.splits)
  have "0 \<le> foldl (correlationStep rs) m ds \<and> foldl (correlationStep rs) m ds \<le> 1"
    if "0 \<le> m" "m \<le> 1" for m
    using that by (induction ds arbitrary: m) (simp_all add: step)
  then show ?thesis by (simp add: calculateMaxCorrelation_def)
qed

section \<open>Monotonicity\<close>

lemma scoreMetric_mono: "x \<le> y \<Longrightarrow> scoreMetric x t \<le> scoreMetric y t"
  by (simp add: scoreMetric_def)

lemma scoreMetricInverse_mono: "x \<le> y \<Longrightarrow> scoreMetricInverse y t \<le> scoreMetricInverse x t"
  by (simp add: scoreMetricInverse_def)

lemma scoreMetric_bounds: "0 \<le> scoreMetric x t \<and> scoreMetric x t \<le> 100"
  by (simp add: scoreMetric_def)

lemma scoreMetricInverse_bounds: "0 \<le> scoreMetricInverse x t \<and> scoreMetricInverse x t \<le> 100"
  by (simp add: scoreMetricInverse_def)

lemma js_round_mono: "x \<le> y \<Longrightarrow> js_round x \<le> js_round y"
  by (simp add: js_round_def floor_mono)

lemma js_round_add_int: "js_round (x + of_int n) = js_round x + of_int n"
proof -
  have "\<lfloor>x + of_int n + 1 / 2\<rfloor> = \<lfloor>x + 1 / 2\<rfloor> + n" by linarith
  then show ?thesis by (simp add: js_round_def)
qed

lemma orIfZero_zero [simp]: "orIfZero x 0 = x"
  by (simp add: orIfZero_def)

text \<open>The sum as the weights and the seven scores.\<close>

lemma weightedSum_eq:
  "weightedSum (calculateComponentScores r w c) =
     scoreMetric (sm_sharpeRatio r) ratioThresholds * (25 / 100) +
     scoreMetric (sm_calmarRatio r) ratioThresholds * (15 / 100) +
     scoreMetric (sm_winRate r) winRateThresholds * (10 / 100) +
     scoreMetric (orIfZero (sm_profitFactor r) 1) profitFactorThresholds * (10 / 100) +
     scoreMetricInverse w wfaThresholds * (20 / 100) +
     scoreMetric (sm_totalTrades r) stabilityThresholds * (10 / 100) +
     scoreMetricInverse \<bar>c\<bar> correlationThresholds * (10 / 100)"
  by (simp add: weightedSum_def calculateComponentScores_def scored_def SCORING_WEIGHTS_def)

text \<open>\<open>m'\<close> is at least as good as \<open>m\<close> in everything the score reads.\<close>

definition dominates :: "ScoringMetrics \<Rightarrow> ScoringMetrics \<Rightarrow> bool" where
  "dominates m' m \<longleftrightarrow>
     sm_sharpeRatio m \<le> sm_sharpeRatio m' \<and> sm_calmarRatio m \<le> sm_calmarRatio m' \<and>
     sm_winRate m \<le> sm_winRate m' \<and> sm_profitFactor m \<le> sm_profitFactor m' \<and>
     sm_totalTrades m \<le> sm_totalTrades m'"

lemma weightedSum_mono:
  assumes "dominates m' m" "sm_profitFactor m \<noteq> 0" "w' \<le> w" "\<bar>c'\<bar> \<le> \<bar>c\<bar>"
  shows "weightedSum (calculateComponentScores m w c) \<le> weightedSum (calculateComponentScores m' w' c')"
proof -
  have pf: "orIfZero (sm_profitFactor m) 1 \<le> orIfZero (sm_profitFactor m') 1 \<or>
      sm_profitFactor m < 0"
    using assms(1,2) by (auto simp: dominates_def orIfZero_def)
  have "scoreMetric (orIfZero (sm_profitFactor m) 1) profitFactorThresholds \<le>
        scoreMetric (orIfZero (sm_profitFactor m') 1) profitFactorThresholds"
  proof (cases "sm_profitFactor m < 0")
    case True
    then show ?thesis
      using scoreMetric_bounds [of "orIfZero (sm_profitFactor m') 1" profitFactorThresholds]
      by (simp add: orIfZero_def scoreMetric_def [of "sm_profitFactor m"] profitFactorThresholds_def)
  next
    case False
    with pf show ?thesis by (intro scoreMetric_mono) simp
  qed
  then show ?thesis
    using assms unfolding weightedSum_eq dominates_def
    by (intro add_mono mult_right_mono) (auto intro: scoreMetric_mono scoreMetricInverse_mono)
qed

lemma weightedSum_bounds:
  "0 \<le> weightedSum (calculateComponentScores r w c) \<and> weightedSum (calculateComponentScores r w c) \<le> 100"
proof -
  note b = scoreMetric_bounds [of "sm_sharpeRatio r" ratioThresholds]
    scoreMetric_bounds [of "sm_calmarRatio r" ratioThresholds]
    scoreMetric_bounds [of "sm_winRate r" winRateThresholds]
    scoreMetric_bounds [of "orIfZero (sm_profitFactor r) 1" profitFactorThresholds]
    scoreMetricInverse_bounds [of w wfaThresholds]
    scoreMetric_bounds [of "sm_totalTrades r" stabilityThresholds]
    scoreMetricInverse_bounds [of "\<bar>c\<bar>" correlationThresholds]
  show ?thesis unfolding weightedSum_eq using b by linarith
qed

lemma calculateOverallScore_mono: "weightedSum x \<le> weightedSum y \<Longrightarrow> calculateOverallScore x \<le> calculateOverallScore y"
  by (simp add: calculateOverallScore_def js_round_mono divide_right_mono)

lemma calculateOverallScore_bounds:
  "0 \<le> calculateOverallScore (calculateComponentScores r w c) \<and>
   calculateOverallScore (calculateComponentScores r w c) \<le> 100"
proof -
  let ?s = "weightedSum (calculateComponentScores r w c) * 100"
  have "js_round 0 \<le> js_round ?s" "js_round ?s \<le> js_round (of_int 10000)"
    using weightedSum_bounds [of r w c] by (auto intro!: js_round_mono)
  then show ?thesis
    using js_round_add_int [of 0 10000] by (simp add: calculateOverallScore_def js_round_def)
qed

lemma determineGrade_mono: "x \<le> y \<Longrightarrow> determineGrade x \<le> determineGrade y"
  by (simp add: determineGrade_def less_eq_StrategyGrade_def)

section \<open>Properties\<close>

text \<open>Scores are fair: a strategy that is at least as good in every metric, degrades no more and is
  no more correlated, in the same regime, scores at least as high and gets no worse a grade, as
  long as the profit factor of the weaker one is not zero; and every score lies between 0 and
  100.\<close>

lemma score_monotone:
  assumes "dominates m' m" "sm_profitFactor m \<noteq> 0" "w' \<le> w" "\<bar>nullish c' 0\<bar> \<le> \<bar>nullish c 0\<bar>"
  shows "0 \<le> ms_overallScore (calculateScoreFromMetrics m w regime c) \<and>
    ms_overallScore (calculateScoreFromMetrics m w regime c) \<le>
      ms_overallScore (calculateScoreFromMetrics m' w' regime c') \<and>
    ms_overallScore (calculateScoreFromMetrics m' w' regime c') \<le> 100 \<and>
    ms_grade (calculateScoreFromMetrics m w regime c) \<le> ms_grade (calculateScoreFromMetrics m' w' regime c')"
  using calculateOverallScore_mono [OF weightedSum_mono [OF assms(1-3), of "nullish c' 0" "nullish c 0"]] assms(4)
  by (simp add: calculateScoreFromMetrics_def Let_def determineGrade_mono)

definition weak_metrics :: ScoringMetrics where
  "weak_metrics =
     \<lparr>sm_sharpeRatio = 1 / 4, sm_calmarRatio = 0, sm_maxDrawdown = 1 / 2, sm_winRate = 1 / 2,
      sm_profitFactor = 1 / 2, sm_totalTrades = 20, sm_totalReturn = - 1 / 10, sm_volatility = 1\<rparr>"

text \<open>A profit factor of zero is scored as if it were one: a strategy without a single profit
  scores 2.5 points more than the same strategy with any profit factor strictly between zero
  and one.\<close>

lemma zero_profit_factor_scores_higher:
  assumes "0 < pf" "pf < 1"
  shows "calculateOverallScore (calculateComponentScores (m\<lparr>sm_profitFactor := 0\<rparr>) w c) =
    calculateOverallScore (calculateComponentScores (m\<lparr>sm_profitFactor := pf\<rparr>) w c) + 25 / 10"
proof -
  let ?s = "\<lambda>f. weightedSum (calculateComponentScores (m\<lparr>sm_profitFactor := f\<rparr>) w c)"
  have "?s 0 * 100 = ?s pf * 100 + of_int 250"
    using assms by (simp add: weightedSum_eq orIfZero_def scoreMetric_def [of 1]
        scoreMetric_def [of pf] profitFactorThresholds_def)
  then have "js_round (?s 0 * 100) = js_round (?s pf * 100) + of_int 250"
    by (simp only: js_round_add_int)
  then show ?thesis by (simp add: calculateOverallScore_def)
qed

text \<open>
  Drawdowns are fractions (\<^verbatim>\<open>metrics-calculator.service.ts\<close>, line 160), but the warning and the
  promotion gate compare them with 40: neither ever fires.
\<close>

lemma drawdown_guard_vacuous:
  assumes "\<bar>sm_maxDrawdown r\<bar> \<le> 1"
  shows "HighMaxDrawdown \<notin> set (generateWarnings cs r w c)"
    "checkPromotionEligibility score cs r \<longleftrightarrow>
       checkPromotionEligibility score cs (r\<lparr>sm_maxDrawdown := 0\<rparr>)"
  using assms by (auto simp: generateWarnings_def checkPromotionEligibility_def)

end
