(* ===== verification/WalkForward.thy ===== *)
theory WalkForward
  imports Degradation
begin

text \<open>
  The walk-forward windows (\<^verbatim>\<open>scoring/walk-forward/walk-forward.service.ts\<close>) and their evaluation
  (\<^verbatim>\<open>window-processor.ts\<close>). A date is its time in milliseconds and a server in UTC is assumed, so
  that \<^verbatim>\<open>setDate(getDate() + n)\<close> adds \<open>n\<close> days of 24 hours.
\<close>

section \<open>Windows\<close>

record WalkForwardWindowConfig =
  wf_windowIndex :: nat
  wf_trainStartDate :: time_ms
  wf_trainEndDate :: time_ms
  wf_testStartDate :: time_ms
  wf_testEndDate :: time_ms

datatype WalkForwardMethod = Rolling | Anchored

record WalkForwardConfig =
  wc_trainDays :: int
  wc_testDays :: int
  wc_stepDays :: int
  wc_method :: WalkForwardMethod

datatype WindowError = DaysNotPositive | StartNotBeforeEnd | AnchoredNotImplemented

definition MIN_TEST_WINDOW_DAYS :: int where "MIN_TEST_WINDOW_DAYS = 14"

definition DAY_MS :: int where "DAY_MS = 24 * 60 * 60 * 1000"

definition addDays :: "time_ms \<Rightarrow> int \<Rightarrow> time_ms" where
  "addDays date days = date + days * DAY_MS"

text \<open>The number of days between two dates, rounded half up.\<close>

definition daysBetween :: "time_ms \<Rightarrow> time_ms \<Rightarrow> int" where
  "daysBetween date1 date2 = (2 * \<bar>date2 - date1\<bar> + DAY_MS) div (2 * DAY_MS)"

text \<open>The loop of \<^verbatim>\<open>generateWindows\<close>: it stops at the end of the data or after index 1000.\<close>

function windowLoop ::
    "time_ms \<Rightarrow> int \<Rightarrow> int \<Rightarrow> int \<Rightarrow> nat \<Rightarrow> time_ms \<Rightarrow> WalkForwardWindowConfig list" where
  "windowLoop endDate trainDays testDays stepDays windowIndex currentDate =
     (if windowIndex \<le> 1000
      then let trainStartDate = currentDate;
               trainEndDate = addDays trainStartDate trainDays
           in if trainEndDate > endDate then []
              else let testStartDate = addDays trainEndDate 1;
                       testEndDate = addDays testStartDate testDays
                   in if testEndDate > endDate
                      then (if daysBetween testStartDate endDate \<ge> MIN_TEST_WINDOW_DAYS
                            then [\<lparr>wf_windowIndex = windowIndex, wf_trainStartDate = trainStartDate,
                                   wf_trainEndDate = trainEndDate, wf_testStartDate = testStartDate,
                                   wf_testEndDate = endDate\<rparr>]
                            else [])
                      else \<lparr>wf_windowIndex = windowIndex, wf_trainStartDate = trainStartDate,
                            wf_trainEndDate = trainEndDate, wf_testStartDate = testStartDate,
                            wf_testEndDate = testEndDate\<rparr> #
                           windowLoop endDate trainDays testDays stepDays (windowIndex + 1)
                             (addDays currentDate stepDays)
      else [])"
  by pat_completeness auto
termination
  by (relation "measure (\<lambda>(e, tr, te, st, i, d). 1001 - i)") auto

declare windowLoop.simps [simp del]

definition generateWindows ::
    "time_ms \<Rightarrow> time_ms \<Rightarrow> WalkForwardConfig \<Rightarrow> WindowError + WalkForwardWindowConfig list" where
  "generateWindows startDate endDate config =
     (if wc_trainDays config \<le> 0 \<or> wc_testDays config \<le> 0 \<or> wc_stepDays config \<le> 0
      then Inl DaysNotPositive
      else if startDate \<ge> endDate then Inl StartNotBeforeEnd
      else if wc_method config = Anchored then Inl AnchoredNotImplemented
      else Inr (windowLoop endDate (wc_trainDays config) (wc_testDays config) (wc_stepDays config)
                  0 startDate))"

definition generateStandardWindows ::
    "time_ms \<Rightarrow> time_ms \<Rightarrow> WindowError + WalkForwardWindowConfig list" where
  "generateStandardWindows startDate endDate =
     generateWindows startDate endDate
       \<lparr>wc_trainDays = 180, wc_testDays = 90, wc_stepDays = 30, wc_method = Rolling\<rparr>"

datatype ConfigError =
    TrainNotPositive | TestNotPositive | StepNotPositive | TrainTooShort | TestTooShort | StepBeyondTrain

definition validateConfig :: "WalkForwardConfig \<Rightarrow> bool \<times> ConfigError list" where
  "validateConfig config =
     (let errors = (if wc_trainDays config \<le> 0 then [TrainNotPositive] else []) @
                   (if wc_testDays config \<le> 0 then [TestNotPositive] else []) @
                   (if wc_stepDays config \<le> 0 then [StepNotPositive] else []) @
                   (if wc_trainDays config < 30 then [TrainTooShort] else []) @
                   (if wc_testDays config < MIN_TEST_WINDOW_DAYS then [TestTooShort] else []) @
                   (if wc_stepDays config > wc_trainDays config then [StepBeyondTrain] else [])
      in (errors = [], errors))"

definition calculateRequiredDays :: "WalkForwardConfig \<Rightarrow> int \<Rightarrow> int" where
  "calculateRequiredDays config numWindows =
     (if wc_method config = Anchored
      then wc_trainDays config + 1 + numWindows * wc_testDays config
      else wc_trainDays config + 1 + wc_testDays config + (numWindows - 1) * wc_stepDays config)"

definition estimateWindowCount :: "time_ms \<Rightarrow> time_ms \<Rightarrow> WalkForwardConfig \<Rightarrow> int" where
  "estimateWindowCount startDate endDate config =
     (let totalDays = daysBetween startDate endDate;
          windowSize = wc_trainDays config + 1 + wc_testDays config
      in if totalDays < windowSize then 0 else (totalDays - windowSize) div wc_stepDays config + 1)"

definition calculateOverlapPercentage :: "WalkForwardConfig \<Rightarrow> number" where
  "calculateOverlapPercentage config =
     (if wc_method config = Anchored then 0
      else of_int (wc_trainDays config - wc_stepDays config) / of_int (wc_trainDays config) * 100)"

section \<open>Evaluating a window\<close>

record WindowProcessingResult =
  wr_windowIndex :: nat
  wr_trainMetrics :: WindowMetrics
  wr_testMetrics :: WindowMetrics
  wr_degradation :: number
  wr_overfittingDetected :: bool

definition calculateDegradation :: "WindowMetrics \<Rightarrow> WindowMetrics \<Rightarrow> number" where
  "calculateDegradation trainMetrics testMetrics =
     da_overallDegradation (Degradation_calculate trainMetrics testMetrics)"

definition detectOverfitting :: "number \<Rightarrow> WindowMetrics \<Rightarrow> WindowMetrics \<Rightarrow> bool" where
  "detectOverfitting degradation trainMetrics testMetrics \<longleftrightarrow>
     degradation > 30 \<or>
     (wm_sharpeRatio trainMetrics > 1 \<and> wm_sharpeRatio testMetrics < 1 / 2) \<or>
     (wm_totalReturn trainMetrics > 0 \<and> wm_totalReturn testMetrics < - 5 / 100) \<or>
     wm_winRate trainMetrics - wm_winRate testMetrics > 2 / 10"

definition processWindow ::
    "WalkForwardWindowConfig \<Rightarrow> WindowMetrics \<Rightarrow> WindowMetrics \<Rightarrow> WindowProcessingResult" where
  "processWindow window trainResults testResults =
     (let degradation = calculateDegradation trainResults testResults
      in \<lparr>wr_windowIndex = wf_windowIndex window, wr_trainMetrics = trainResults,
          wr_testMetrics = testResults, wr_degradation = degradation,
          wr_overfittingDetected = detectOverfitting degradation trainResults testResults\<rparr>)"

record WindowAggregate =
  wa_avgDegradation :: number
  wa_maxDegradation :: number
  wa_minDegradation :: number
  wa_overfittingCount :: nat
  wa_consistencyScore :: number

definition calculateStdDev :: "number list \<Rightarrow> number" where
  "calculateStdDev xs =
     (if xs = [] then 0
      else let mean = sum_list xs / real (length xs)
           in sqrt (sum_list (map (\<lambda>v. (v - mean)\<^sup>2) xs) / real (length xs)))"

definition aggregateWindowResults :: "WindowProcessingResult list \<Rightarrow> WindowAggregate" where
  "aggregateWindowResults windows =
     (if windows = []
      then \<lparr>wa_avgDegradation = 0, wa_maxDegradation = 0, wa_minDegradation = 0,
            wa_overfittingCount = 0, wa_consistencyScore = 0\<rparr>
      else let degradations = map wr_degradation windows
           in \<lparr>wa_avgDegradation = sum_list degradations / real (length degradations),
               wa_maxDegradation = Max (set degradations), wa_minDegradation = Min (set degradations),
               wa_overfittingCount = length (filter wr_overfittingDetected windows),
               wa_consistencyScore = max 0 (100 - calculateStdDev degradations * 2)\<rparr>)"

section \<open>What the loop generates\<close>

text \<open>The window of an index, its end cut to the end of the data.\<close>

definition windowAt :: "time_ms \<Rightarrow> time_ms \<Rightarrow> WalkForwardConfig \<Rightarrow> nat \<Rightarrow> WalkForwardWindowConfig" where
  "windowAt startDate endDate config i =
     (let trainStart = addDays startDate (int i * wc_stepDays config);
          trainEnd = addDays trainStart (wc_trainDays config);
          testStart = addDays trainEnd 1
      in \<lparr>wf_windowIndex = i, wf_trainStartDate = trainStart, wf_trainEndDate = trainEnd,
          wf_testStartDate = testStart,
          wf_testEndDate = min (addDays testStart (wc_testDays config)) endDate\<rparr>)"

definition window_fits :: "time_ms \<Rightarrow> time_ms \<Rightarrow> WalkForwardConfig \<Rightarrow> nat \<Rightarrow> bool" where
  "window_fits startDate endDate config i \<longleftrightarrow>
     addDays startDate (int i * wc_stepDays config + wc_trainDays config + 1 + wc_testDays config) \<le> endDate"

definition has_tail :: "time_ms \<Rightarrow> time_ms \<Rightarrow> WalkForwardConfig \<Rightarrow> nat \<Rightarrow> bool" where
  "has_tail startDate endDate config i \<longleftrightarrow>
     i \<le> 1000 \<and> wf_trainEndDate (windowAt startDate endDate config i) \<le> endDate \<and>
     MIN_TEST_WINDOW_DAYS \<le> daysBetween (wf_testStartDate (windowAt startDate endDate config i)) endDate"

lemma addDays_add [simp]: "addDays (addDays d m) n = addDays d (m + n)"
  by (simp add: addDays_def algebra_simps)

lemma addDays_less [simp]: "addDays d m < addDays d n \<longleftrightarrow> m < n"
  by (simp add: addDays_def DAY_MS_def)

lemma addDays_le [simp]: "addDays d m \<le> addDays d n \<longleftrightarrow> m \<le> n"
  by (simp add: addDays_def DAY_MS_def)

lemma window_fits_train:
  "window_fits s e c i \<Longrightarrow> 0 < wc_testDays c \<Longrightarrow> wf_trainEndDate (windowAt s e c i) \<le> e"
  by (simp add: window_fits_def windowAt_def addDays_def DAY_MS_def Let_def)

lemma window_fits_antimono:
  assumes "window_fits s e c j" "i \<le> j" "0 < wc_stepDays c"
  shows "window_fits s e c i"
proof -
  have "int i * wc_stepDays c \<le> int j * wc_stepDays c"
    using assms(2,3) by (intro mult_right_mono) auto
  then show ?thesis using assms(1) by (simp add: window_fits_def addDays_def DAY_MS_def)
qed

text \<open>One round of the loop, in terms of the window of its index.\<close>

lemma windowLoop_step:
  assumes "0 < wc_testDays c" "k \<le> 1000"
  shows "windowLoop e (wc_trainDays c) (wc_testDays c) (wc_stepDays c) k (addDays s (int k * wc_stepDays c)) =
    (if window_fits s e c k
     then windowAt s e c k # windowLoop e (wc_trainDays c) (wc_testDays c) (wc_stepDays c) (k + 1)
            (addDays s (int (k + 1) * wc_stepDays c))
     else if has_tail s e c k then [windowAt s e c k] else [])"
proof (cases "window_fits s e c k")
  case True
  then show ?thesis
    using assms window_fits_train [OF True assms(1)]
    by (subst windowLoop.simps)
      (simp add: Let_def windowAt_def window_fits_def min_def algebra_simps)
next
  case False
  then show ?thesis
    using assms
    by (subst windowLoop.simps)
      (auto simp: Let_def windowAt_def window_fits_def has_tail_def min_def algebra_simps)
qed

lemma windowLoop_windows:
  assumes "0 < wc_testDays c" "k \<le> 1001"
  shows "\<exists>n\<ge>k. n \<le> 1001 \<and> (\<forall>i. k \<le> i \<and> i < n \<longrightarrow> window_fits s e c i) \<and>
    (n \<le> 1000 \<longrightarrow> \<not> window_fits s e c n) \<and>
    windowLoop e (wc_trainDays c) (wc_testDays c) (wc_stepDays c) k (addDays s (int k * wc_stepDays c)) =
      map (windowAt s e c) [k..<(if has_tail s e c n then n + 1 else n)]"
  using assms(2)
proof (induction "1001 - k" arbitrary: k)
  case 0
  then have k: "k = 1001" by simp
  show ?case
    by (rule exI [of _ 1001]) (subst windowLoop.simps, auto simp: k has_tail_def)
next
  case (Suc d)
  then have k: "k \<le> 1000" by simp
  show ?case
  proof (cases "window_fits s e c k")
    case True
    from Suc.hyps(2) k have "d = 1001 - (k + 1)" "k + 1 \<le> 1001" by auto
    from Suc.hyps(1) [OF this] obtain n where n: "k + 1 \<le> n" "n \<le> 1001"
      "\<forall>i. k + 1 \<le> i \<and> i < n \<longrightarrow> window_fits s e c i" "n \<le> 1000 \<longrightarrow> \<not> window_fits s e c n"
      "windowLoop e (wc_trainDays c) (wc_testDays c) (wc_stepDays c) (k + 1) (addDays s (int (k + 1) * wc_stepDays c)) =
        map (windowAt s e c) [k + 1..<(if has_tail s e c n then n + 1 else n)]"
      by blast
    have "k < (if has_tail s e c n then n + 1 else n)" using n(1) by simp
    then have "[k..<(if has_tail s e c n then n + 1 else n)] = k # [k + 1..<(if has_tail s e c n then n + 1 else n)]"
      by (simp add: upt_conv_Cons)
    moreover have "\<forall>i. k \<le> i \<and> i < n \<longrightarrow> window_fits s e c i"
      using n(3) True by (metis Suc_eq_plus1 Suc_leI le_neq_implies_less)
    ultimately show ?thesis
      using n windowLoop_step [OF assms(1) k, of e s] True by (intro exI [of _ n]) simp
  next
    case False
    then show ?thesis
      using windowLoop_step [OF assms(1) k, of e s] k by (intro exI [of _ k]) auto
  qed
qed

lemma le_div_iff:
  fixes k m n :: int
  assumes "0 < k" shows "n \<le> m div k \<longleftrightarrow> n * k \<le> m"
proof
  assume "n \<le> m div k"
  then have "n * k \<le> m div k * k" using assms by (intro mult_right_mono) auto
  moreover have "m div k * k \<le> m" using assms by (simp add: div_mult_mod_eq minus_mod_eq_div_mult [symmetric])
  ultimately show "n * k \<le> m" by simp
next
  assume "n * k \<le> m"
  from zdiv_mono1 [OF this assms] show "n \<le> m div k" using assms by simp
qed

text \<open>A clamped test window keeps at least 13.5 days, since the days left are rounded.\<close>

lemma has_tail_days:
  assumes "has_tail s e c i"
  shows "2 * (e - wf_testStartDate (windowAt s e c i)) \<ge> 27 * DAY_MS"
proof -
  let ?t = "wf_testStartDate (windowAt s e c i)"
  have "14 * (2 * DAY_MS) \<le> 2 * \<bar>e - ?t\<bar> + DAY_MS"
    using assms by (simp add: has_tail_def daysBetween_def MIN_TEST_WINDOW_DAYS_def DAY_MS_def le_div_iff)
  moreover have "?t - DAY_MS \<le> e"
    using assms by (simp add: has_tail_def windowAt_def Let_def addDays_def)
  ultimately show ?thesis by (simp add: DAY_MS_def)
qed

lemma windowAt_order:
  assumes "0 < wc_trainDays c" "0 < wc_testDays c" "0 < wc_stepDays c"
    "window_fits s e c i \<or> has_tail s e c i"
  shows "s \<le> wf_trainStartDate (windowAt s e c i) \<and>
    wf_trainStartDate (windowAt s e c i) < wf_trainEndDate (windowAt s e c i) \<and>
    wf_trainEndDate (windowAt s e c i) < wf_testStartDate (windowAt s e c i) \<and>
    wf_testStartDate (windowAt s e c i) < wf_testEndDate (windowAt s e c i) \<and>
    wf_testEndDate (windowAt s e c i) \<le> e"
proof -
  let ?w = "windowAt s e c i"
  have "wf_testStartDate ?w < e"
    using assms(4)
  proof
    assume "window_fits s e c i"
    then show ?thesis
      using assms(2) by (simp add: window_fits_def windowAt_def addDays_def DAY_MS_def Let_def)
  next
    assume "has_tail s e c i"
    from has_tail_days [OF this] show ?thesis by (simp add: DAY_MS_def)
  qed
  then show ?thesis
    using assms(1-3) by (simp add: windowAt_def addDays_def DAY_MS_def Let_def)
qed

lemma daysBetween_whole [simp]: "0 \<le> n \<Longrightarrow> daysBetween s (addDays s n) = n"
  by (simp add: daysBetween_def addDays_def DAY_MS_def)

lemma fitting_windows:
  assumes "0 < wc_stepDays c" "0 \<le> totalDays"
  shows "window_fits s (addDays s totalDays) c i \<longleftrightarrow>
    int i < estimateWindowCount s (addDays s totalDays) c"
proof -
  let ?size = "wc_trainDays c + 1 + wc_testDays c"
  have fits: "window_fits s (addDays s totalDays) c i \<longleftrightarrow> int i * wc_stepDays c + ?size \<le> totalDays"
    by (simp add: window_fits_def algebra_simps)
  show ?thesis
  proof (cases "totalDays < ?size")
    case True
    have "0 \<le> int i * wc_stepDays c" using assms(1) by simp
    with True show ?thesis
      using assms(2) fits by (simp add: estimateWindowCount_def)
  next
    case False
    have "int i * wc_stepDays c \<le> totalDays - ?size \<longleftrightarrow> int i \<le> (totalDays - ?size) div wc_stepDays c"
      using assms(1) by (simp add: le_div_iff)
    then show ?thesis
      using False assms(2) fits
      by (simp add: estimateWindowCount_def Let_def algebra_simps) linarith
  qed
qed

lemma generateWindows_InrD:
  "generateWindows s e c = Inr ws \<Longrightarrow> 0 < wc_trainDays c \<and> 0 < wc_testDays c \<and> 0 < wc_stepDays c \<and> s < e \<and>
    ws = windowLoop e (wc_trainDays c) (wc_testDays c) (wc_stepDays c) 0 s"
  by (auto simp: generateWindows_def split: if_splits)

lemma generateWindows_windows:
  assumes "generateWindows s e c = Inr ws"
  shows "\<exists>n\<le>1001. (\<forall>i<n. window_fits s e c i) \<and> (n \<le> 1000 \<longrightarrow> \<not> window_fits s e c n) \<and>
    ws = map (windowAt s e c) [0..<(if has_tail s e c n then n + 1 else n)]"
proof -
  note D = generateWindows_InrD [OF assms]
  have start: "addDays s (int 0 * wc_stepDays c) = s" by (simp add: addDays_def)
  from windowLoop_windows [of c 0 s e, unfolded start] D obtain n where
    "n \<le> 1001" "\<forall>i. 0 \<le> i \<and> i < n \<longrightarrow> window_fits s e c i" "n \<le> 1000 \<longrightarrow> \<not> window_fits s e c n"
    "ws = map (windowAt s e c) [0..<(if has_tail s e c n then n + 1 else n)]"
    by fastforce
  then show ?thesis by (intro exI [of _ n]) simp
qed

lemma window_count:
  assumes D: "0 < wc_trainDays c \<and> 0 < wc_testDays c \<and> 0 < wc_stepDays c \<and> s < e \<and> rest"
    and whole: "e = addDays s totalDays"
    and n: "n \<le> 1001" "\<forall>i<n. window_fits s e c i" "n \<le> 1000 \<longrightarrow> \<not> window_fits s e c n"
  shows "n = nat (min 1001 (estimateWindowCount s e c))"
proof -
  have "0 \<le> totalDays" using D whole by (simp add: addDays_def DAY_MS_def)
  note fit = fitting_windows [of c totalDays s, OF _ this, folded whole]
  have "int n = min 1001 (estimateWindowCount s e c)"
  proof (cases "n = 1001")
    case True
    then show ?thesis using n(2) fit [of 1000] D by auto
  next
    case False
    then have "\<not> int n < estimateWindowCount s e c" using n(1,3) fit [of n] D by auto
    moreover have "n = 0 \<or> int n \<le> estimateWindowCount s e c"
      using n(2) fit [of "n - 1"] D by (cases n) auto
    moreover have "0 \<le> estimateWindowCount s e c"
      using D by (auto simp: estimateWindowCount_def Let_def pos_imp_zdiv_nonneg_iff)
    ultimately show ?thesis using False n(1) by auto
  qed
  then show ?thesis by simp
qed

section \<open>Properties\<close>

text \<open>C26. The walk-forward windows never leak: the \<open>i\<close>-th window starts \<open>i\<close> steps after the start of
  the data, is tested strictly after the data it is trained on, and ends within the data. When
  the dates are whole days apart, the windows that fit completely are the first ones, as many as the
  estimate says, up to the cap of 1001, and at most one window with a shorter test follows them.\<close>

theorem walk_forward_windows:
  assumes "generateWindows s e c = Inr ws"
  defines "full \<equiv> nat (min 1001 (estimateWindowCount s e c))"
    and "wholeTest \<equiv> \<lambda>w. addDays (wf_testStartDate w) (wc_testDays c)"
  shows "map wf_windowIndex ws = [0..<length ws] \<and>
    (\<forall>w \<in> set ws. wf_trainStartDate w = addDays s (int (wf_windowIndex w) * wc_stepDays c) \<and>
       wf_trainStartDate w < wf_trainEndDate w \<and> wf_trainEndDate w < wf_testStartDate w \<and>
       wf_testStartDate w < wf_testEndDate w \<and> wf_testEndDate w \<le> e) \<and>
    ((\<exists>totalDays. e = addDays s totalDays) \<longrightarrow>
       (length ws = full \<or> length ws = full + 1) \<and>
       (\<forall>w \<in> set ws. if wf_windowIndex w < full then wf_testEndDate w = wholeTest w
                    else wf_testEndDate w < wholeTest w))"
proof -
  note D = generateWindows_InrD [OF assms(1)]
  obtain n where n: "n \<le> 1001" "\<forall>i<n. window_fits s e c i" "n \<le> 1000 \<longrightarrow> \<not> window_fits s e c n"
    "ws = map (windowAt s e c) [0..<(if has_tail s e c n then n + 1 else n)]"
    using generateWindows_windows [OF assms(1)] by blast
  have idx: "wf_windowIndex (windowAt s e c j) = j" for j by (simp add: windowAt_def Let_def)
  have indices: "map wf_windowIndex ws = [0..<length ws]"
    unfolding n(4) by (simp add: comp_def idx)
  have members: "\<exists>i. w = windowAt s e c i \<and> (i < n \<or> i = n \<and> has_tail s e c n)" if "w \<in> set ws" for w
    using that unfolding n(4) by (auto split: if_splits simp: less_Suc_eq)
  have ordered: "wf_trainStartDate w = addDays s (int (wf_windowIndex w) * wc_stepDays c) \<and>
      wf_trainStartDate w < wf_trainEndDate w \<and> wf_trainEndDate w < wf_testStartDate w \<and>
      wf_testStartDate w < wf_testEndDate w \<and> wf_testEndDate w \<le> e" if w: "w \<in> set ws" for w
  proof -
    obtain i where i: "w = windowAt s e c i" "window_fits s e c i \<or> has_tail s e c i"
      using members [OF w] n(2) by auto
    have "wf_trainStartDate w = addDays s (int (wf_windowIndex w) * wc_stepDays c)"
      by (simp add: i(1) windowAt_def Let_def)
    then show ?thesis using windowAt_order [OF _ _ _ i(2)] D unfolding i(1) by simp
  qed
  have tests: "if wf_windowIndex w < n then wf_testEndDate w = wholeTest w else wf_testEndDate w < wholeTest w"
    if w: "w \<in> set ws" for w
  proof -
    obtain i where i: "w = windowAt s e c i" "i < n \<or> i = n \<and> has_tail s e c n" using members [OF w] by blast
    then have "window_fits s e c i \<longleftrightarrow> i < n" using n(2,3) by (auto simp: has_tail_def)
    then show ?thesis
      unfolding i(1) idx by (auto simp: wholeTest_def windowAt_def window_fits_def min_def algebra_simps Let_def)
  qed
  have "length ws = n \<or> length ws = n + 1" unfolding n(4) by simp
  moreover have "n = full" if "e = addDays s totalDays" for totalDays
    unfolding full_def by (rule window_count [OF D that n(1-3)])
  ultimately show ?thesis using indices ordered tests by blast
qed

definition quarter_config :: WalkForwardConfig where
  "quarter_config = \<lparr>wc_trainDays = 90, wc_testDays = 30, wc_stepDays = 30, wc_method = Rolling\<rparr>"

theorem walk_forward_windows_witness:
  "wf_testEndDate (windowAt 0 (addDays 0 121) quarter_config 0) \<le> addDays 0 121 \<and>
   generateWindows 0 (addDays 0 121) quarter_config = Inr [windowAt 0 (addDays 0 121) quarter_config 0]"
proof -
  have run: "generateWindows 0 (addDays 0 121) quarter_config =
      Inr [windowAt 0 (addDays 0 121) quarter_config 0]"
    by (simp add: generateWindows_def quarter_config_def windowLoop.simps windowAt_def Let_def
        addDays_def daysBetween_def DAY_MS_def MIN_TEST_WINDOW_DAYS_def)
  show ?thesis
    using walk_forward_windows [OF run] run by simp
qed

end
