(* ===== verification/Pipeline.thy ===== *)
theory Pipeline
  imports Scoring
begin

text \<open>
  The strategy pipeline (\<^verbatim>\<open>apps/api/src/pipeline\<close>): a strategy is optimised, backtested on
  historical data, replayed on recent data and traded on paper before it is recommended for
  deployment. This theory holds its data and its operations.

  The table of pipelines is a list of rows; \<^verbatim>\<open>findOne\<close> returns the first row that matches and
  \<^verbatim>\<open>save\<close> writes the row of the same id. The queue and the services of the other components
  (optimisation, backtests, paper trading, exchange keys) answer through a record of functions,
  and every call made to them is recorded in order, as is every event emitted. An operation is
  a function on the state that returns a value or an error, and keeps what was saved before an
  error; operations run one at a time.
\<close>

section \<open>Statuses, stages and configuration\<close>

datatype PipelineStatus = PENDING | RUNNING | PAUSED | COMPLETED | FAILED | REJECTED | CANCELLED

datatype PipelineStage = OPTIMIZE | HISTORICAL | LIVE_REPLAY | PAPER_TRADE | STAGE_COMPLETED

datatype DeploymentRecommendation = DEPLOY | NEEDS_REVIEW | DO_NOT_DEPLOY | INCONCLUSIVE_RETRY

definition stageOrder :: "PipelineStage list" where
  "stageOrder = [OPTIMIZE, HISTORICAL, LIVE_REPLAY, PAPER_TRADE, STAGE_COMPLETED]"

text \<open>Stages are ordered by their index in \<^verbatim>\<open>stageOrder\<close>.\<close>

fun stageIndex :: "PipelineStage \<Rightarrow> nat" where
  "stageIndex OPTIMIZE = 0"
| "stageIndex HISTORICAL = 1"
| "stageIndex LIVE_REPLAY = 2"
| "stageIndex PAPER_TRADE = 3"
| "stageIndex STAGE_COMPLETED = 4"

instantiation PipelineStage :: linorder
begin

definition less_eq_PipelineStage :: "PipelineStage \<Rightarrow> PipelineStage \<Rightarrow> bool" where
  "less_eq_PipelineStage g h \<longleftrightarrow> stageIndex g \<le> stageIndex h"

definition less_PipelineStage :: "PipelineStage \<Rightarrow> PipelineStage \<Rightarrow> bool" where
  "less_PipelineStage g h \<longleftrightarrow> stageIndex g < stageIndex h"

instance
proof
  fix g h k :: PipelineStage
  show "(g < h) = (g \<le> h \<and> \<not> h \<le> g)" by (auto simp: less_eq_PipelineStage_def less_PipelineStage_def)
  show "g \<le> g" "g \<le> h \<or> h \<le> g" by (auto simp: less_eq_PipelineStage_def)
  show "g \<le> k" if "g \<le> h" "h \<le> k" using that by (simp add: less_eq_PipelineStage_def)
  show "g = h" if "g \<le> h" "h \<le> g"
    using that by (cases g; cases h) (simp_all add: less_eq_PipelineStage_def)
qed

end

text \<open>The indices are the positions in \<^verbatim>\<open>stageOrder\<close>.\<close>

lemma stageOrder_nth [simp]: "stageOrder ! stageIndex s = s" "stageIndex s < length stageOrder"
  by (cases s; simp add: stageOrder_def)+

datatype ObjectiveMetric = SharpeObjective | TotalReturnObjective | SortinoObjective | CompositeObjective

record OptimizationStageConfig =
  oc_trainDays :: int
  oc_testDays :: int
  oc_stepDays :: int
  oc_objectiveMetric :: ObjectiveMetric
  oc_maxCombinations :: "int option"
  oc_earlyStop :: "bool option"
  oc_patience :: "int option"
  oc_maxCoins :: "int option"

record BacktestStageConfig =
  bc_startDate :: string
  bc_endDate :: string
  bc_initialCapital :: number
  bc_tradingFee :: "number option"
  bc_marketDataSetId :: "string option"

record LiveReplayStageConfig = BacktestStageConfig +
  bc_enablePacing :: "bool option"
  bc_pacingSpeed :: "number option"

record PaperTradingStageConfig =
  pc_initialCapital :: number
  pc_duration :: string
  pc_tradingFee :: "number option"
  pc_stopMaxDrawdown :: "number option"
  pc_stopTargetReturn :: "number option"
  pc_tickIntervalMs :: "int option"
  pc_minTrades :: "int option"

record PipelineStageConfig =
  psc_optimization :: "OptimizationStageConfig option"
  psc_historical :: BacktestStageConfig
  psc_liveReplay :: LiveReplayStageConfig
  psc_paperTrading :: PaperTradingStageConfig

record StageProgressionThresholds =
  pt_minSharpeRatio :: "number option"
  pt_maxDrawdown :: "number option"
  pt_minWinRate :: "number option"
  pt_minTotalReturn :: "number option"
  pt_minImprovement :: "number option"
  pt_maxDegradation :: "number option"
  pt_minTotalTrades :: "number option"

record PipelineProgressionRules =
  pr_minImprovement :: number
  pr_minAbsoluteScore :: "number option"
  pr_paperTrading :: StageProgressionThresholds
  pr_minimumPipelineScore :: "number option"

definition DEFAULT_PROGRESSION_RULES :: PipelineProgressionRules where
  "DEFAULT_PROGRESSION_RULES =
     \<lparr>pr_minImprovement = 3, pr_minAbsoluteScore = Some 0,
      pr_paperTrading =
        \<lparr>pt_minSharpeRatio = Some (3 / 10), pt_maxDrawdown = Some (45 / 100), pt_minWinRate = None,
         pt_minTotalReturn = Some 0, pt_minImprovement = None, pt_maxDegradation = None,
         pt_minTotalTrades = None\<rparr>,
      pr_minimumPipelineScore = Some 30\<rparr>"

section \<open>Results of the stages\<close>

datatype BacktestType = BT_HISTORICAL | BT_LIVE_REPLAY

datatype StageStatus = Stage_Completed | Stage_Failed | Stage_Stopped

type_synonym Parameters = "(string, js_value) jsmap"

record OptimizationStageResult =
  or_runId :: string
  or_status :: StageStatus
  or_bestParameters :: Parameters
  or_bestScore :: number
  or_baselineScore :: number
  or_improvement :: number
  or_combinationsTested :: int
  or_totalCombinations :: int
  or_duration :: int
  or_completedAt :: time_ms

record BaseStageMetrics =
  sr_sharpeRatio :: number
  sr_totalReturn :: number
  sr_maxDrawdown :: number
  sr_winRate :: number
  sr_totalTrades :: number

record HistoricalStageResult = BaseStageMetrics +
  hr_backtestId :: string
  hr_status :: StageStatus
  hr_initialCapital :: number
  hr_finalValue :: number
  hr_annualizedReturn :: number
  hr_volatility :: "number option"
  hr_profitFactor :: "number option"
  hr_winningTrades :: number
  hr_losingTrades :: number
  hr_duration :: int
  hr_completedAt :: time_ms

record LiveReplayStageResult = HistoricalStageResult +
  lr_degradationFromHistorical :: "number option"

record PaperTradingStageResult = BaseStageMetrics +
  pp_sessionId :: string
  pp_status :: StageStatus
  pp_initialCapital :: number
  pp_finalValue :: number
  pp_totalFees :: number
  pp_degradationFromLiveReplay :: "number option"
  pp_stoppedReason :: "string option"
  pp_durationHours :: number
  pp_completedAt :: time_ms

datatype ScoringRegime = KnownRegime MarketRegimeType | UnknownRegime

record PipelineScoreResult =
  ps_overallScore :: number
  ps_grade :: StrategyGrade
  ps_componentScores :: ComponentScores
  ps_regimeModifier :: number
  ps_regime :: ScoringRegime
  ps_degradation :: number
  ps_warnings :: "ScoreWarning list"
  ps_calculatedAt :: time_ms

record PipelineStageResults =
  rs_optimization :: "OptimizationStageResult option"
  rs_historical :: "HistoricalStageResult option"
  rs_liveReplay :: "LiveReplayStageResult option"
  rs_paperTrading :: "PaperTradingStageResult option"
  rs_scoring :: "PipelineScoreResult option"

definition noStageResults :: PipelineStageResults where
  "noStageResults = \<lparr>rs_optimization = None, rs_historical = None, rs_liveReplay = None,
     rs_paperTrading = None, rs_scoring = None\<rparr>"

section \<open>Pipelines\<close>

text \<open>Why a stage was not passed, with the value and the threshold.\<close>

datatype ProgressionFailure =
    ScoreBelow number number | ImprovementBelow number number
  | SharpeBelow number number | DrawdownAbove number number | WinRateBelow number number
  | ReturnBelow number number | TradesBelow number number

datatype PipelineError =
    BadRequest string | NotFound string | UnknownStage string | AtFinalStage string
  | MissingUser string | MissingConfig string | NoStrategySchema string | NoParameters string
  | NoDataset | NotExecutable string | StillPending string | ServiceError string

datatype FailureReason =
    OptimizationBelowThreshold "ProgressionFailure list" | OptimizationFailed string
  | BacktestFailedReason BacktestType string string | NoTrades BacktestType
  | LiveReplayScoreBelow number number | PaperTradingFailed string
  | PaperTradingBelowThreshold "ProgressionFailure list"
  | EnqueueFailed PipelineError | WorkerFailed PipelineError | CancelledByUser | CancelledByAdmin
  | WatchdogReason string

record StrategyConfigRef =
  sc_id :: string
  sc_algorithmId :: string
  sc_version :: string
  sc_marketType :: "string option"
  sc_defaultLeverage :: "number option"

text \<open>The summary of a pipeline that went through its stages. Texts and the copies of fields of the row are left out.\<close>

datatype PipelineWarning =
    HIGH_DEGRADATION | INCONSISTENT_METRICS | LOW_TRADE_COUNT | HIGH_DRAWDOWN | POOR_WIN_RATE | NEGATIVE_RETURN
  | OVERFITTING_SUSPECTED

record StageComparison =
  cmp_stage :: PipelineStage
  cmp_sharpeRatio :: number
  cmp_totalReturn :: number
  cmp_maxDrawdown :: number
  cmp_winRate :: number
  cmp_degradationFromPrevious :: "number option"

record AverageMetrics =
  av_sharpeRatio :: number
  av_totalReturn :: number
  av_maxDrawdown :: number
  av_winRate :: number

record PipelineSummaryReport =
  sy_recommendation :: DeploymentRecommendation
  sy_confidenceScore :: number
  sy_stageComparison :: "StageComparison list"
  sy_averageMetrics :: AverageMetrics
  sy_consistencyScore :: number
  sy_warnings :: "PipelineWarning list"
  sy_totalDurationHours :: number

record Pipeline =
  pl_id :: string
  pl_name :: string
  pl_description :: "string option"
  pl_status :: PipelineStatus
  pl_currentStage :: PipelineStage
  pl_strategyConfig :: StrategyConfigRef
  pl_optimizationRunId :: "string option"
  pl_historicalBacktestId :: "string option"
  pl_liveReplayBacktestId :: "string option"
  pl_paperTradingSessionId :: "string option"
  pl_stageConfig :: PipelineStageConfig
  pl_progressionRules :: PipelineProgressionRules
  pl_optimizedParameters :: "Parameters option"
  pl_stageResults :: "PipelineStageResults option"
  pl_recommendation :: "DeploymentRecommendation option"
  pl_pipelineScore :: "number option"
  pl_scoreGrade :: "StrategyGrade option"
  pl_scoringRegime :: "ScoringRegime option"
  pl_scoreDetails :: "ComponentScores option"
  pl_summaryReport :: "PipelineSummaryReport option"
  pl_failureReason :: "FailureReason option"
  pl_startedAt :: "time_ms option"
  pl_stageTransitionedAt :: "time_ms option"
  pl_completedAt :: "time_ms option"
  pl_userId :: string

definition stageResults :: "Pipeline \<Rightarrow> PipelineStageResults" where
  "stageResults pipeline = nullish (pl_stageResults pipeline) noStageResults"

section \<open>State, services and operations\<close>

record PipelineJobData =
  jd_pipelineId :: string
  jd_userId :: string
  jd_stage :: PipelineStage

datatype PipelineEvent =
    StageTransition string PipelineStage PipelineStage
  | StatusChange string PipelineStatus PipelineStatus
  | PipelineCompleted string DeploymentRecommendation bool
  | PipelineFailedEvent string FailureReason
  | PipelineRejected string FailureReason

record OptimizationRequest =
  oq_strategyConfigId :: string
  oq_config :: OptimizationStageConfig
  oq_earlyStop :: "(int \<times> number) option"
  oq_riskLevel :: number

record BacktestRequest =
  bq_userId :: string
  bq_pipelineName :: string
  bq_type :: BacktestType
  bq_algorithmId :: string
  bq_marketDataSetId :: string
  bq_startDate :: string
  bq_endDate :: string
  bq_initialCapital :: number
  bq_tradingFee :: number
  bq_strategyParams :: "Parameters option"
  bq_riskLevel :: number
  bq_coinSymbolFilter :: "string list option"

record PaperTradingRequest =
  pq_pipelineId :: string
  pq_algorithmId :: string
  pq_exchangeKeyId :: string
  pq_initialCapital :: number
  pq_optimizedParameters :: "Parameters option"
  pq_duration :: string
  pq_stopConditions :: "number option \<times> number option"
  pq_userId :: string
  pq_riskLevel :: number
  pq_minTrades :: "int option"

datatype ServiceCall =
    QueueRemove string | QueueAdd string PipelineJobData
  | StartOptimization OptimizationRequest | CancelOptimization string
  | CreateBacktest BacktestRequest | SetFutures string number
  | PauseBacktest string | ResumeBacktest string | CancelBacktest string
  | StartPaperTrading PaperTradingRequest | PausePaperTrading string | ResumePaperTrading string
  | StopPaperTrading string

datatype BacktestStatus = BS_PENDING | BS_RUNNING | BS_PAUSED | BS_COMPLETED | BS_FAILED | BS_CANCELLED

text \<open>
  The other services, as they answer while an operation runs. \<open>sv_call\<close> is the error a call
  throws, if any; the calls that return something answer with an error or the value.
\<close>

record Services =
  sv_call :: "ServiceCall \<Rightarrow> string option"
  sv_startOptimization :: "OptimizationRequest \<Rightarrow> string + string"
  sv_createBacktest :: "BacktestRequest \<Rightarrow> string + string"
  sv_startPaperTrading :: "PaperTradingRequest \<Rightarrow> string + string"
  sv_getBacktest :: "string \<Rightarrow> string + BacktestStatus"
  sv_selectExchangeKey :: "string \<Rightarrow> string + string"
  sv_optimizableParameters :: "string \<Rightarrow> nat option"
  sv_defaultDatasetId :: "string option"
  sv_coinSymbolFilter :: "string \<Rightarrow> string list option"
  sv_riskLevel :: "string \<Rightarrow> number"
  sv_marketRegime :: "MarketRegimeType option"
  sv_correlation :: "string \<Rightarrow> number option"

record PipelineState =
  st_pipelines :: "Pipeline list"
  st_events :: "PipelineEvent list"
  st_calls :: "ServiceCall list"

type_synonym 'a op = "PipelineState \<Rightarrow> (PipelineError + 'a) \<times> PipelineState"

definition return :: "'a \<Rightarrow> 'a op" where
  "return x s = (Inr x, s)"

definition throw :: "PipelineError \<Rightarrow> 'a op" where
  "throw e s = (Inl e, s)"

definition andThen :: "'a op \<Rightarrow> ('a \<Rightarrow> 'b op) \<Rightarrow> 'b op" where
  "andThen m f s = (case m s of (Inl e, s') \<Rightarrow> (Inl e, s') | (Inr x, s') \<Rightarrow> f x s')"

definition andCatch :: "'a op \<Rightarrow> (PipelineError \<Rightarrow> 'a op) \<Rightarrow> 'a op" where
  "andCatch m h s = (case m s of (Inl e, s') \<Rightarrow> h e s' | (Inr x, s') \<Rightarrow> (Inr x, s'))"

definition emit :: "PipelineEvent \<Rightarrow> unit op" where
  "emit e s = (Inr (), s\<lparr>st_events := st_events s @ [e]\<rparr>)"

definition record_call :: "ServiceCall \<Rightarrow> unit op" where
  "record_call c s = (Inr (), s\<lparr>st_calls := st_calls s @ [c]\<rparr>)"

definition callService :: "Services \<Rightarrow> ServiceCall \<Rightarrow> unit op" where
  "callService svc c =
     andThen (record_call c) (\<lambda>_.
       case sv_call svc c of None \<Rightarrow> return () | Some e \<Rightarrow> throw (ServiceError e))"

definition answer :: "string + 'a \<Rightarrow> 'a op" where
  "answer r = (case r of Inl e \<Rightarrow> throw (ServiceError e) | Inr x \<Rightarrow> return x)"

definition save :: "Pipeline \<Rightarrow> unit op" where
  "save p s = (Inr (), s\<lparr>st_pipelines := map (\<lambda>q. if pl_id q = pl_id p then p else q) (st_pipelines s)\<rparr>)"

definition findPipeline :: "(Pipeline \<Rightarrow> bool) \<Rightarrow> Pipeline option op" where
  "findPipeline P s = (Inr (find P (st_pipelines s)), s)"

text \<open>\<^verbatim>\<open>repository.update\<close> of one row.\<close>

definition updatePipeline :: "string \<Rightarrow> (Pipeline \<Rightarrow> Pipeline) \<Rightarrow> unit op" where
  "updatePipeline pid f s =
     (Inr (), s\<lparr>st_pipelines := map (\<lambda>q. if pl_id q = pid then f q else q) (st_pipelines s)\<rparr>)"

definition active :: "Pipeline \<Rightarrow> bool" where
  "active p \<longleftrightarrow> pl_status p = RUNNING \<or> pl_status p = PAUSED"

section \<open>The queue\<close>

fun stageName :: "PipelineStage \<Rightarrow> string" where
  "stageName OPTIMIZE = ''OPTIMIZE''"
| "stageName HISTORICAL = ''HISTORICAL''"
| "stageName LIVE_REPLAY = ''LIVE_REPLAY''"
| "stageName PAPER_TRADE = ''PAPER_TRADE''"
| "stageName STAGE_COMPLETED = ''COMPLETED''"

definition stageJobId :: "string \<Rightarrow> PipelineStage \<Rightarrow> string" where
  "stageJobId pipelineId stage = ''pipeline-'' @ pipelineId @ ''-'' @ stageName stage"

definition enqueueStageJob :: "Services \<Rightarrow> Pipeline \<Rightarrow> PipelineStage \<Rightarrow> string \<Rightarrow> unit op" where
  "enqueueStageJob svc pipeline stage userId =
     (let jobId = stageJobId (pl_id pipeline) stage
      in andThen (callService svc (QueueRemove jobId)) (\<lambda>_.
           callService svc (QueueAdd jobId
             \<lparr>jd_pipelineId = pl_id pipeline, jd_userId = userId, jd_stage = stage\<rparr>)))"

definition removeStageJob :: "Services \<Rightarrow> string \<Rightarrow> PipelineStage \<Rightarrow> unit op" where
  "removeStageJob svc pipelineId stage = callService svc (QueueRemove (stageJobId pipelineId stage))"

section \<open>Progression (\<^verbatim>\<open>pipeline-progression.service.ts\<close>)\<close>

definition evaluateOptimizationProgression ::
    "Pipeline \<Rightarrow> number \<Rightarrow> number \<Rightarrow> bool \<times> ProgressionFailure list" where
  "evaluateOptimizationProgression pipeline improvement bestScore =
     (let minImprovement = pr_minImprovement (pl_progressionRules pipeline);
          minAbsoluteScore = nullish (pr_minAbsoluteScore (pl_progressionRules pipeline)) 0;
          failures = (if bestScore < minAbsoluteScore then [ScoreBelow bestScore minAbsoluteScore] else []) @
                     (if improvement < minImprovement then [ImprovementBelow improvement minImprovement] else [])
      in (failures = [], failures))"

definition below :: "(number \<Rightarrow> number \<Rightarrow> ProgressionFailure) \<Rightarrow> number \<Rightarrow> number option \<Rightarrow> ProgressionFailure list" where
  "below failure v threshold =
     (case threshold of None \<Rightarrow> [] | Some t \<Rightarrow> if v < t then [failure v t] else [])"

definition evaluateStageProgression ::
    "BaseStageMetrics \<Rightarrow> StageProgressionThresholds \<Rightarrow> bool \<times> ProgressionFailure list" where
  "evaluateStageProgression metrics thresholds =
     (let failures =
            below SharpeBelow (sr_sharpeRatio metrics) (pt_minSharpeRatio thresholds) @
            (case pt_maxDrawdown thresholds of
               None \<Rightarrow> []
             | Some t \<Rightarrow> if sr_maxDrawdown metrics > t then [DrawdownAbove (sr_maxDrawdown metrics) t] else []) @
            below WinRateBelow (sr_winRate metrics) (pt_minWinRate thresholds) @
            below ReturnBelow (sr_totalReturn metrics) (pt_minTotalReturn thresholds) @
            below TradesBelow (sr_totalTrades metrics) (pt_minTotalTrades thresholds)
      in (failures = [], failures))"

record BacktestMetrics = BaseStageMetrics +
  bm_winningTrades :: number
  bm_losingTrades :: number
  bm_profitFactor :: number
  bm_volatility :: number

definition toEffectiveDegradation :: "number \<Rightarrow> number" where
  "toEffectiveDegradation raw = (if raw \<ge> 0 then raw else \<bar>raw\<bar> * (1 / 2))"

definition optionalEntry :: "string \<Rightarrow> number option \<Rightarrow> number \<Rightarrow> (string, number \<times> number) jsmap" where
  "optionalEntry key train test = (case train of None \<Rightarrow> [] | Some t \<Rightarrow> [(key, t, test)])"

definition pipelineDegradation :: "HistoricalStageResult option \<Rightarrow> BacktestMetrics \<Rightarrow> number" where
  "pipelineDegradation historical metrics =
     (case historical of
        None \<Rightarrow> 0
      | Some h \<Rightarrow> calculateFromValues
          ([(''sharpeRatio'', sr_sharpeRatio h, sr_sharpeRatio metrics),
            (''totalReturn'', sr_totalReturn h, sr_totalReturn metrics),
            (''maxDrawdown'', sr_maxDrawdown h, sr_maxDrawdown metrics),
            (''winRate'', sr_winRate h, sr_winRate metrics)] @
           optionalEntry ''profitFactor'' (hr_profitFactor h) (bm_profitFactor metrics) @
           optionalEntry ''volatility'' (hr_volatility h) (bm_volatility metrics)))"

definition scoringMetricsOf :: "BacktestMetrics \<Rightarrow> ScoringMetrics" where
  "scoringMetricsOf metrics =
     \<lparr>sm_sharpeRatio = sr_sharpeRatio metrics,
      sm_calmarRatio = (if sr_maxDrawdown metrics \<noteq> 0 then sr_totalReturn metrics / \<bar>sr_maxDrawdown metrics\<bar> else 0),
      sm_maxDrawdown = sr_maxDrawdown metrics, sm_winRate = sr_winRate metrics,
      sm_profitFactor = bm_profitFactor metrics, sm_totalTrades = sr_totalTrades metrics,
      sm_totalReturn = sr_totalReturn metrics, sm_volatility = bm_volatility metrics\<rparr>"

text \<open>Where the regime or the correlation service fails, the score is computed without them.\<close>

definition calculatePipelineScore :: "Services \<Rightarrow> Pipeline \<Rightarrow> BacktestMetrics \<Rightarrow> time_ms \<Rightarrow> PipelineScoreResult" where
  "calculatePipelineScore svc pipeline metrics now =
     (let degradation = pipelineDegradation (rs_historical (stageResults pipeline)) metrics;
          regimeType = sv_marketRegime svc;
          correlationValue = nullish (sv_correlation svc (sc_id (pl_strategyConfig pipeline))) 0;
          result = calculateScoreFromMetrics (scoringMetricsOf metrics)
                     (toEffectiveDegradation degradation) regimeType (Some correlationValue)
      in \<lparr>ps_overallScore = ms_overallScore result, ps_grade = ms_grade result,
          ps_componentScores = ms_componentScores result, ps_regimeModifier = ms_regimeModifier result,
          ps_regime = (case regimeType of None \<Rightarrow> UnknownRegime | Some r \<Rightarrow> KnownRegime r),
          ps_degradation = degradation, ps_warnings = ms_warnings result, ps_calculatedAt = now\<rparr>)"

definition stageCompleted :: "('r \<Rightarrow> StageStatus) \<Rightarrow> 'r option \<Rightarrow> bool" where
  "stageCompleted status r \<longleftrightarrow> (case r of None \<Rightarrow> False | Some x \<Rightarrow> status x = Stage_Completed)"

definition allStagesPassed :: "PipelineStageResults \<Rightarrow> bool" where
  "allStagesPassed rs \<longleftrightarrow>
     (rs_optimization rs = None \<or> stageCompleted or_status (rs_optimization rs)) \<and>
     stageCompleted hr_status (rs_historical rs) \<and> stageCompleted hr_status (rs_liveReplay rs) \<and>
     (stageCompleted pp_status (rs_paperTrading rs) \<or>
      (case rs_paperTrading rs of None \<Rightarrow> False | Some p \<Rightarrow> pp_status p = Stage_Stopped))"

definition paperDegradation :: "HistoricalStageResult option \<Rightarrow> PaperTradingStageResult option \<Rightarrow> number" where
  "paperDegradation historical paper =
     (case (historical, paper) of
        (Some hist, Some p) \<Rightarrow> toEffectiveDegradation (calculateFromValues
          [(''sharpeRatio'', sr_sharpeRatio hist, sr_sharpeRatio p),
           (''totalReturn'', sr_totalReturn hist, sr_totalReturn p),
           (''maxDrawdown'', sr_maxDrawdown hist, sr_maxDrawdown p),
           (''winRate'', sr_winRate hist, sr_winRate p)])
      | _ \<Rightarrow> 0)"

definition generateRecommendation :: "PipelineStageResults option \<Rightarrow> DeploymentRecommendation" where
  "generateRecommendation results =
     (case results of
        None \<Rightarrow> DO_NOT_DEPLOY
      | Some rs \<Rightarrow>
         (case rs_scoring rs of
            Some scoring \<Rightarrow>
              (if ps_overallScore scoring \<ge> 70 then DEPLOY
               else if ps_overallScore scoring \<ge> 30 then NEEDS_REVIEW
               else DO_NOT_DEPLOY)
          | None \<Rightarrow>
              if \<not> allStagesPassed rs then DO_NOT_DEPLOY
              else let avgDegradation = paperDegradation (rs_historical rs) (rs_paperTrading rs);
                       paper = rs_paperTrading rs;
                       finalSharpe = (case paper of None \<Rightarrow> 0 | Some p \<Rightarrow> sr_sharpeRatio p);
                       finalDrawdown = (case paper of None \<Rightarrow> 1 | Some p \<Rightarrow> sr_maxDrawdown p);
                       finalWinRate = (case paper of None \<Rightarrow> 0 | Some p \<Rightarrow> sr_winRate p);
                       finalReturn = (case paper of None \<Rightarrow> 0 | Some p \<Rightarrow> sr_totalReturn p)
                   in if finalSharpe \<ge> 1 \<and> finalDrawdown \<le> 25 / 100 \<and> finalWinRate \<ge> 5 / 10 \<and>
                         avgDegradation \<le> 20 \<and> finalReturn > 0
                      then DEPLOY
                      else if finalSharpe \<ge> 5 / 10 \<and> finalDrawdown \<le> 4 / 10 \<and> finalWinRate \<ge> 4 / 10 \<and>
                              avgDegradation \<le> 40
                      then NEEDS_REVIEW
                      else DO_NOT_DEPLOY))"

definition completePipeline :: "time_ms \<Rightarrow> Pipeline \<Rightarrow> unit op" where
  "completePipeline now pipeline =
     (let p1 = pipeline\<lparr>pl_status := COMPLETED, pl_currentStage := STAGE_COMPLETED,
                 pl_completedAt := Some now, pl_stageTransitionedAt := Some now,
                 pl_recommendation := Some (generateRecommendation (pl_stageResults pipeline))\<rparr>;
          p2 = (case rs_scoring (stageResults pipeline) of
                  None \<Rightarrow> p1
                | Some scoring \<Rightarrow>
                    p1\<lparr>pl_pipelineScore := Some (ps_overallScore scoring),
                       pl_scoreGrade := Some (ps_grade scoring), pl_scoringRegime := Some (ps_regime scoring),
                       pl_scoreDetails := Some (ps_componentScores scoring)\<rparr>)
      in andThen (save p2) (\<lambda>_.
           emit (PipelineCompleted (pl_id p2) (generateRecommendation (pl_stageResults pipeline)) False)))"

definition failPipeline :: "time_ms \<Rightarrow> Pipeline \<Rightarrow> FailureReason \<Rightarrow> unit op" where
  "failPipeline now pipeline reason =
     andThen (save (pipeline\<lparr>pl_status := FAILED, pl_completedAt := Some now,
                     pl_failureReason := Some reason, pl_recommendation := Some DO_NOT_DEPLOY\<rparr>)) (\<lambda>_.
       emit (PipelineFailedEvent (pl_id pipeline) reason))"

definition rejectPipeline :: "time_ms \<Rightarrow> Pipeline \<Rightarrow> FailureReason \<Rightarrow> unit op" where
  "rejectPipeline now pipeline reason =
     andThen (save (pipeline\<lparr>pl_status := REJECTED, pl_completedAt := Some now,
                     pl_failureReason := Some reason, pl_recommendation := Some DO_NOT_DEPLOY\<rparr>)) (\<lambda>_.
       emit (PipelineRejected (pl_id pipeline) reason))"

definition markInconclusiveAndComplete :: "time_ms \<Rightarrow> Pipeline \<Rightarrow> unit op" where
  "markInconclusiveAndComplete now pipeline =
     andThen (save (pipeline\<lparr>pl_status := COMPLETED, pl_currentStage := STAGE_COMPLETED,
                     pl_completedAt := Some now, pl_stageTransitionedAt := Some now,
                     pl_recommendation := Some INCONCLUSIVE_RETRY, pl_pipelineScore := None,
                     pl_scoreGrade := None, pl_scoringRegime := None, pl_scoreDetails := None,
                     pl_failureReason := None\<rparr>)) (\<lambda>_.
       emit (PipelineCompleted (pl_id pipeline) INCONCLUSIVE_RETRY True))"

definition advanceToNextStage :: "Services \<Rightarrow> time_ms \<Rightarrow> Pipeline \<Rightarrow> unit op" where
  "advanceToNextStage svc now pipeline =
     (let currentIndex = stageIndex (pl_currentStage pipeline)
      in if currentIndex \<ge> length stageOrder - 1 then throw (AtFinalStage (pl_id pipeline))
         else let nextStage = stageOrder ! (currentIndex + 1);
                  p = pipeline\<lparr>pl_currentStage := nextStage, pl_stageTransitionedAt := Some now\<rparr>
              in andThen (save p) (\<lambda>_.
                 andThen (emit (StageTransition (pl_id p) (pl_currentStage pipeline) nextStage)) (\<lambda>_.
                   if nextStage = STAGE_COMPLETED then completePipeline now p
                   else if pl_status p = RUNNING
                   then if pl_userId p = [] then throw (MissingUser (pl_id p))
                        else enqueueStageJob svc p nextStage (pl_userId p)
                   else return ())))"

section \<open>Stage execution (\<^verbatim>\<open>pipeline-stage-execution.service.ts\<close>)\<close>

definition optimizationRequest :: "Services \<Rightarrow> Pipeline \<Rightarrow> OptimizationStageConfig \<Rightarrow> OptimizationRequest" where
  "optimizationRequest svc pipeline config =
     \<lparr>oq_strategyConfigId = sc_id (pl_strategyConfig pipeline), oq_config = config,
      oq_earlyStop =
        (if oc_earlyStop config = Some True
         then Some (nullish (oc_patience config) 20, pr_minImprovement (pl_progressionRules pipeline))
         else None),
      oq_riskLevel = sv_riskLevel svc (pl_userId pipeline)\<rparr>"

definition executeOptimizationStage :: "Services \<Rightarrow> Pipeline \<Rightarrow> unit op" where
  "executeOptimizationStage svc pipeline =
     (case psc_optimization (pl_stageConfig pipeline) of
        None \<Rightarrow> throw (MissingConfig (pl_id pipeline))
      | Some config \<Rightarrow>
          (case sv_optimizableParameters svc (sc_algorithmId (pl_strategyConfig pipeline)) of
             None \<Rightarrow> throw (NoStrategySchema (pl_id pipeline))
           | Some parameters \<Rightarrow>
               if parameters = 0 then throw (NoParameters (pl_id pipeline))
               else let request = optimizationRequest svc pipeline config
                    in andThen (record_call (StartOptimization request)) (\<lambda>_.
                       andThen (answer (sv_startOptimization svc request)) (\<lambda>runId.
                         save (pipeline\<lparr>pl_optimizationRunId := Some runId\<rparr>)))))"

definition backtestRequest ::
    "Services \<Rightarrow> Pipeline \<Rightarrow> 'a BacktestStageConfig_scheme \<Rightarrow> BacktestType \<Rightarrow> string \<Rightarrow> BacktestRequest" where
  "backtestRequest svc pipeline config backtestType marketDataSetId =
     \<lparr>bq_userId = pl_userId pipeline, bq_pipelineName = pl_name pipeline, bq_type = backtestType,
      bq_algorithmId = sc_algorithmId (pl_strategyConfig pipeline), bq_marketDataSetId = marketDataSetId,
      bq_startDate = bc_startDate config, bq_endDate = bc_endDate config,
      bq_initialCapital = bc_initialCapital config,
      bq_tradingFee = nullish (bc_tradingFee config) (1 / 1000),
      bq_strategyParams = pl_optimizedParameters pipeline,
      bq_riskLevel = sv_riskLevel svc (pl_userId pipeline),
      bq_coinSymbolFilter =
        (case sv_coinSymbolFilter svc (pl_userId pipeline) of
           None \<Rightarrow> None | Some symbols \<Rightarrow> if symbols = [] then None else Some symbols)\<rparr>"

definition executeBacktestStage ::
    "Services \<Rightarrow> Pipeline \<Rightarrow> 'a BacktestStageConfig_scheme \<Rightarrow> BacktestType \<Rightarrow> unit op" where
  "executeBacktestStage svc pipeline config backtestType =
     (case (case bc_marketDataSetId config of Some d \<Rightarrow> Some d | None \<Rightarrow> sv_defaultDatasetId svc) of
        None \<Rightarrow> throw NoDataset
      | Some marketDataSetId \<Rightarrow>
          if marketDataSetId = [] then throw NoDataset
          else let request = backtestRequest svc pipeline config backtestType marketDataSetId;
                   leverage = nullish (sc_defaultLeverage (pl_strategyConfig pipeline)) 1
               in andThen (record_call (CreateBacktest request)) (\<lambda>_.
                  andThen (answer (sv_createBacktest svc request)) (\<lambda>backtestId.
                  andThen (if nullish (sc_marketType (pl_strategyConfig pipeline)) ''spot'' = ''futures''
                           then callService svc (SetFutures backtestId leverage) else return ()) (\<lambda>_.
                    save (if backtestType = BT_HISTORICAL
                          then pipeline\<lparr>pl_historicalBacktestId := Some backtestId\<rparr>
                          else pipeline\<lparr>pl_liveReplayBacktestId := Some backtestId\<rparr>)))))"

definition executePaperTradingStage :: "Services \<Rightarrow> Pipeline \<Rightarrow> unit op" where
  "executePaperTradingStage svc pipeline =
     (let config = psc_paperTrading (pl_stageConfig pipeline)
      in if pl_userId pipeline = [] then throw (MissingUser (pl_id pipeline))
         else andThen (answer (sv_selectExchangeKey svc (pl_userId pipeline))) (\<lambda>exchangeKeyId.
              let request =
                \<lparr>pq_pipelineId = pl_id pipeline,
                 pq_algorithmId = sc_algorithmId (pl_strategyConfig pipeline),
                 pq_exchangeKeyId = exchangeKeyId, pq_initialCapital = pc_initialCapital config,
                 pq_optimizedParameters = pl_optimizedParameters pipeline, pq_duration = pc_duration config,
                 pq_stopConditions = (pc_stopMaxDrawdown config, pc_stopTargetReturn config),
                 pq_userId = pl_userId pipeline, pq_riskLevel = sv_riskLevel svc (pl_userId pipeline),
                 pq_minTrades = pc_minTrades config\<rparr>
              in andThen (record_call (StartPaperTrading request)) (\<lambda>_.
                 andThen (answer (sv_startPaperTrading svc request)) (\<lambda>sessionId.
                   save (pipeline\<lparr>pl_paperTradingSessionId := Some sessionId\<rparr>)))))"

definition executeStage :: "Services \<Rightarrow> string \<Rightarrow> PipelineStage \<Rightarrow> unit op" where
  "executeStage svc pipelineId stage =
     andThen (findPipeline (\<lambda>p. pl_id p = pipelineId)) (\<lambda>found.
       case found of
         None \<Rightarrow> throw (NotFound pipelineId)
       | Some pipeline \<Rightarrow>
           if pl_status pipeline \<noteq> RUNNING then return ()
           else (case stage of
                   OPTIMIZE \<Rightarrow> executeOptimizationStage svc pipeline
                 | HISTORICAL \<Rightarrow>
                     executeBacktestStage svc pipeline (psc_historical (pl_stageConfig pipeline)) BT_HISTORICAL
                 | LIVE_REPLAY \<Rightarrow>
                     executeBacktestStage svc pipeline (psc_liveReplay (pl_stageConfig pipeline)) BT_LIVE_REPLAY
                 | PAPER_TRADE \<Rightarrow> executePaperTradingStage svc pipeline
                 | STAGE_COMPLETED \<Rightarrow> throw (NotExecutable pipelineId)))"

text \<open>An id that is absent or empty is falsy.\<close>

definition whenId :: "string option \<Rightarrow> (string \<Rightarrow> unit op) \<Rightarrow> unit op \<Rightarrow> unit op" where
  "whenId x f otherwise = (case x of None \<Rightarrow> otherwise | Some i \<Rightarrow> if i = [] then otherwise else f i)"

definition getStageBacktestId :: "Pipeline \<Rightarrow> string option" where
  "getStageBacktestId pipeline =
     (if pl_currentStage pipeline = HISTORICAL then pl_historicalBacktestId pipeline
      else pl_liveReplayBacktestId pipeline)"

definition pauseCurrentStage :: "Services \<Rightarrow> Pipeline \<Rightarrow> unit op" where
  "pauseCurrentStage svc pipeline =
     (case pl_currentStage pipeline of
        LIVE_REPLAY \<Rightarrow>
          whenId (getStageBacktestId pipeline) (\<lambda>i. callService svc (PauseBacktest i)) (return ())
      | PAPER_TRADE \<Rightarrow>
          whenId (pl_paperTradingSessionId pipeline) (\<lambda>i. callService svc (PausePaperTrading i)) (return ())
      | _ \<Rightarrow> return ())"

definition resumeBacktestStage :: "Services \<Rightarrow> time_ms \<Rightarrow> Pipeline \<Rightarrow> string \<Rightarrow> unit op" where
  "resumeBacktestStage svc now pipeline backtestId =
     andThen (answer (sv_getBacktest svc backtestId)) (\<lambda>status.
       if status \<in> {BS_COMPLETED, BS_FAILED, BS_CANCELLED}
       then advanceToNextStage svc now pipeline
       else callService svc (ResumeBacktest backtestId))"

definition resumeCurrentStage :: "Services \<Rightarrow> time_ms \<Rightarrow> string \<Rightarrow> Pipeline \<Rightarrow> unit op" where
  "resumeCurrentStage svc now userId pipeline =
     (let enqueue = enqueueStageJob svc pipeline (pl_currentStage pipeline) userId
      in case pl_currentStage pipeline of
           OPTIMIZE \<Rightarrow>
             whenId (pl_optimizationRunId pipeline)
               (\<lambda>_. if stageCompleted or_status (rs_optimization (stageResults pipeline))
                    then advanceToNextStage svc now pipeline else return ())
               enqueue
         | PAPER_TRADE \<Rightarrow>
             whenId (pl_paperTradingSessionId pipeline) (\<lambda>i. callService svc (ResumePaperTrading i)) enqueue
         | STAGE_COMPLETED \<Rightarrow> enqueue
         | _ \<Rightarrow> whenId (getStageBacktestId pipeline) (resumeBacktestStage svc now pipeline) enqueue)"

definition cancelCurrentStage :: "Services \<Rightarrow> Pipeline \<Rightarrow> unit op" where
  "cancelCurrentStage svc pipeline =
     (case pl_currentStage pipeline of
        OPTIMIZE \<Rightarrow>
          whenId (pl_optimizationRunId pipeline) (\<lambda>i. callService svc (CancelOptimization i)) (return ())
      | PAPER_TRADE \<Rightarrow>
          whenId (pl_paperTradingSessionId pipeline) (\<lambda>i. callService svc (StopPaperTrading i)) (return ())
      | STAGE_COMPLETED \<Rightarrow> return ()
      | _ \<Rightarrow> whenId (getStageBacktestId pipeline) (\<lambda>i. callService svc (CancelBacktest i)) (return ()))"

section \<open>Events of the stages (\<^verbatim>\<open>pipeline-event-handler.service.ts\<close>)\<close>

text \<open>The row an event is for, if there is one; otherwise the event is dropped.\<close>

definition withPipeline :: "(Pipeline \<Rightarrow> bool) \<Rightarrow> (Pipeline \<Rightarrow> unit op) \<Rightarrow> unit op" where
  "withPipeline P f =
     andThen (findPipeline P) (\<lambda>found. case found of None \<Rightarrow> return () | Some pipeline \<Rightarrow> f pipeline)"

definition optimizationResult ::
    "string \<Rightarrow> Parameters \<Rightarrow> number \<Rightarrow> number \<Rightarrow> time_ms \<Rightarrow> OptimizationStageResult" where
  "optimizationResult runId bestParameters bestScore improvement now =
     \<lparr>or_runId = runId, or_status = Stage_Completed, or_bestParameters = bestParameters,
      or_bestScore = bestScore,
      or_baselineScore = (if improvement \<le> - 100 then 0 else bestScore / (1 + improvement / 100)),
      or_improvement = improvement, or_combinationsTested = 0, or_totalCombinations = 0,
      or_duration = 0, or_completedAt = now\<rparr>"

definition handleOptimizationComplete ::
    "Services \<Rightarrow> time_ms \<Rightarrow> string \<Rightarrow> Parameters \<Rightarrow> number \<Rightarrow> number \<Rightarrow> unit op" where
  "handleOptimizationComplete svc now runId bestParameters bestScore improvement =
     withPipeline (\<lambda>p. pl_optimizationRunId p = Some runId \<and> pl_currentStage p = OPTIMIZE \<and> active p) (\<lambda>found.
       let result = optimizationResult runId bestParameters bestScore improvement now;
           pipeline = found\<lparr>pl_optimizationRunId := Some runId, pl_optimizedParameters := Some bestParameters,
             pl_stageResults := Some ((stageResults found)\<lparr>rs_optimization := Some result\<rparr>)\<rparr>
       in andThen (save pipeline) (\<lambda>_.
          let (passed, failures) = evaluateOptimizationProgression pipeline improvement bestScore
          in if \<not> passed then rejectPipeline now pipeline (OptimizationBelowThreshold failures)
             else if pl_status pipeline \<noteq> RUNNING then return ()
             else advanceToNextStage svc now pipeline))"

definition handleOptimizationFailed :: "time_ms \<Rightarrow> string \<Rightarrow> string \<Rightarrow> unit op" where
  "handleOptimizationFailed now runId reason =
     withPipeline (\<lambda>p. pl_optimizationRunId p = Some runId \<and> pl_currentStage p = OPTIMIZE \<and> active p) (\<lambda>pipeline.
       failPipeline now pipeline (OptimizationFailed reason))"

definition ownsBacktest :: "string \<Rightarrow> BacktestType \<Rightarrow> Pipeline \<Rightarrow> bool" where
  "ownsBacktest backtestId type p \<longleftrightarrow>
     (case type of BT_HISTORICAL \<Rightarrow> pl_historicalBacktestId p = Some backtestId
      | BT_LIVE_REPLAY \<Rightarrow> pl_liveReplayBacktestId p = Some backtestId)"

definition stageOf :: "BacktestType \<Rightarrow> PipelineStage" where
  "stageOf type = (case type of BT_HISTORICAL \<Rightarrow> HISTORICAL | BT_LIVE_REPLAY \<Rightarrow> LIVE_REPLAY)"

definition handleBacktestFailed :: "time_ms \<Rightarrow> string \<Rightarrow> BacktestType \<Rightarrow> string \<Rightarrow> unit op" where
  "handleBacktestFailed now backtestId type reason =
     withPipeline (\<lambda>p. ownsBacktest backtestId type p \<and> pl_currentStage p = stageOf type \<and> active p) (\<lambda>pipeline.
       failPipeline now pipeline (BacktestFailedReason type backtestId reason))"

definition historicalResult ::
    "Pipeline \<Rightarrow> string \<Rightarrow> BacktestMetrics \<Rightarrow> time_ms \<Rightarrow> HistoricalStageResult" where
  "historicalResult pipeline backtestId metrics now =
     (let capital = bc_initialCapital (psc_historical (pl_stageConfig pipeline))
      in \<lparr>sr_sharpeRatio = sr_sharpeRatio metrics, sr_totalReturn = sr_totalReturn metrics,
          sr_maxDrawdown = sr_maxDrawdown metrics, sr_winRate = sr_winRate metrics,
          sr_totalTrades = sr_totalTrades metrics, hr_backtestId = backtestId, hr_status = Stage_Completed,
          hr_initialCapital = capital, hr_finalValue = capital * (1 + sr_totalReturn metrics),
          hr_annualizedReturn = sr_totalReturn metrics, hr_volatility = Some (bm_volatility metrics),
          hr_profitFactor = Some (bm_profitFactor metrics), hr_winningTrades = bm_winningTrades metrics,
          hr_losingTrades = bm_losingTrades metrics, hr_duration = 0, hr_completedAt = now\<rparr>)"

definition returnDegradation :: "number \<Rightarrow> number \<Rightarrow> number" where
  "returnDegradation previousReturn totalReturn =
     (if previousReturn \<noteq> 0 then (previousReturn - totalReturn) / \<bar>previousReturn\<bar> * 100 else 0)"

definition liveReplayResult ::
    "Pipeline \<Rightarrow> string \<Rightarrow> BacktestMetrics \<Rightarrow> time_ms \<Rightarrow> LiveReplayStageResult" where
  "liveReplayResult pipeline backtestId metrics now =
     (let capital = bc_initialCapital (psc_liveReplay (pl_stageConfig pipeline));
          historicalReturn = (case rs_historical (stageResults pipeline) of None \<Rightarrow> 0 | Some h \<Rightarrow> sr_totalReturn h)
      in \<lparr>sr_sharpeRatio = sr_sharpeRatio metrics, sr_totalReturn = sr_totalReturn metrics,
          sr_maxDrawdown = sr_maxDrawdown metrics, sr_winRate = sr_winRate metrics,
          sr_totalTrades = sr_totalTrades metrics, hr_backtestId = backtestId, hr_status = Stage_Completed,
          hr_initialCapital = capital, hr_finalValue = capital * (1 + sr_totalReturn metrics),
          hr_annualizedReturn = sr_totalReturn metrics, hr_volatility = Some (bm_volatility metrics),
          hr_profitFactor = Some (bm_profitFactor metrics), hr_winningTrades = bm_winningTrades metrics,
          hr_losingTrades = bm_losingTrades metrics, hr_duration = 0, hr_completedAt = now,
          lr_degradationFromHistorical = Some (returnDegradation historicalReturn (sr_totalReturn metrics))\<rparr>)"

definition historicalComplete ::
    "Services \<Rightarrow> time_ms \<Rightarrow> string \<Rightarrow> BacktestMetrics \<Rightarrow> Pipeline \<Rightarrow> unit op" where
  "historicalComplete svc now backtestId metrics found =
     (let pipeline = found\<lparr>pl_stageResults := Some ((stageResults found)
            \<lparr>rs_historical := Some (historicalResult found backtestId metrics now)\<rparr>)\<rparr>
      in andThen (save pipeline) (\<lambda>_.
           if pl_status pipeline \<noteq> RUNNING then return ()
           else advanceToNextStage svc now pipeline))"

definition scoredPipeline ::
    "Services \<Rightarrow> time_ms \<Rightarrow> string \<Rightarrow> BacktestMetrics \<Rightarrow> Pipeline \<Rightarrow> Pipeline" where
  "scoredPipeline svc now backtestId metrics found =
     (let p1 = found\<lparr>pl_stageResults := Some ((stageResults found)
            \<lparr>rs_liveReplay := Some (liveReplayResult found backtestId metrics now)\<rparr>)\<rparr>;
          scoreResult = calculatePipelineScore svc p1 metrics now
      in p1\<lparr>pl_pipelineScore := Some (ps_overallScore scoreResult),
            pl_scoreGrade := Some (ps_grade scoreResult),
            pl_scoringRegime := Some (ps_regime scoreResult),
            pl_scoreDetails := Some (ps_componentScores scoreResult),
            pl_stageResults := Some ((stageResults p1)\<lparr>rs_scoring := Some scoreResult\<rparr>)\<rparr>)"

definition liveReplayComplete ::
    "Services \<Rightarrow> time_ms \<Rightarrow> string \<Rightarrow> BacktestMetrics \<Rightarrow> Pipeline \<Rightarrow> unit op" where
  "liveReplayComplete svc now backtestId metrics found =
     (let pipeline = scoredPipeline svc now backtestId metrics found;
          overallScore = nullish (pl_pipelineScore pipeline) 0;
          minimumScore = nullish (pr_minimumPipelineScore (pl_progressionRules pipeline)) 30
      in andThen (save pipeline) (\<lambda>_.
           if overallScore < minimumScore
           then rejectPipeline now pipeline (LiveReplayScoreBelow overallScore minimumScore)
           else if pl_status pipeline \<noteq> RUNNING then return ()
           else advanceToNextStage svc now pipeline))"

definition handleBacktestComplete ::
    "Services \<Rightarrow> time_ms \<Rightarrow> string \<Rightarrow> BacktestType \<Rightarrow> BacktestMetrics \<Rightarrow> unit op" where
  "handleBacktestComplete svc now backtestId type metrics =
     withPipeline (\<lambda>p. ownsBacktest backtestId type p \<and> active p) (\<lambda>pipeline.
       if sr_totalTrades metrics = 0 then rejectPipeline now pipeline (NoTrades type)
       else case type of
              BT_HISTORICAL \<Rightarrow> historicalComplete svc now backtestId metrics pipeline
            | BT_LIVE_REPLAY \<Rightarrow> liveReplayComplete svc now backtestId metrics pipeline)"

definition handlePaperTradingFailed :: "time_ms \<Rightarrow> string \<Rightarrow> string \<Rightarrow> unit op" where
  "handlePaperTradingFailed now pipelineId reason =
     withPipeline (\<lambda>p. pl_id p = pipelineId \<and> pl_currentStage p = PAPER_TRADE \<and> active p) (\<lambda>pipeline.
       failPipeline now pipeline (PaperTradingFailed reason))"

record PaperTradingMetrics =
  pm_initialCapital :: number
  pm_currentPortfolioValue :: number
  pm_totalReturn :: number
  pm_totalReturnPercent :: number
  pm_maxDrawdown :: number
  pm_sharpeRatio :: "number option"
  pm_winRate :: number
  pm_totalTrades :: number
  pm_winningTrades :: number
  pm_losingTrades :: number
  pm_totalFees :: number
  pm_durationHours :: number

definition paperStageMetrics :: "PaperTradingMetrics \<Rightarrow> BaseStageMetrics" where
  "paperStageMetrics metrics =
     \<lparr>sr_sharpeRatio = nullish (pm_sharpeRatio metrics) 0, sr_totalReturn = pm_totalReturn metrics,
      sr_maxDrawdown = pm_maxDrawdown metrics, sr_winRate = pm_winRate metrics,
      sr_totalTrades = pm_totalTrades metrics\<rparr>"

definition paperResult ::
    "Pipeline \<Rightarrow> string \<Rightarrow> PaperTradingMetrics \<Rightarrow> string option \<Rightarrow> time_ms \<Rightarrow> PaperTradingStageResult" where
  "paperResult pipeline sessionId metrics stoppedReason now =
     (let liveReplayReturn = (case rs_liveReplay (stageResults pipeline) of None \<Rightarrow> 0 | Some r \<Rightarrow> sr_totalReturn r)
      in \<lparr>sr_sharpeRatio = nullish (pm_sharpeRatio metrics) 0, sr_totalReturn = pm_totalReturn metrics,
          sr_maxDrawdown = pm_maxDrawdown metrics, sr_winRate = pm_winRate metrics,
          sr_totalTrades = pm_totalTrades metrics, pp_sessionId = sessionId,
          pp_status =
            (if stoppedReason \<in> {Some ''duration_reached'', Some ''target_reached'',
                 Some ''min_trades_reached'', Some ''insufficient_signals''}
             then Stage_Completed else Stage_Stopped),
          pp_initialCapital = pm_initialCapital metrics, pp_finalValue = pm_currentPortfolioValue metrics,
          pp_totalFees = pm_totalFees metrics,
          pp_degradationFromLiveReplay = Some (returnDegradation liveReplayReturn (pm_totalReturn metrics)),
          pp_stoppedReason = stoppedReason, pp_durationHours = pm_durationHours metrics,
          pp_completedAt = now\<rparr>)"

definition handlePaperTradingComplete ::
    "time_ms \<Rightarrow> string \<Rightarrow> string \<Rightarrow> PaperTradingMetrics \<Rightarrow> string option \<Rightarrow> unit op" where
  "handlePaperTradingComplete now sessionId pipelineId metrics stoppedReason =
     withPipeline (\<lambda>p. pl_id p = pipelineId) (\<lambda>found.
       let pipeline = found\<lparr>pl_stageResults := Some ((stageResults found)
             \<lparr>rs_paperTrading := Some (paperResult found sessionId metrics stoppedReason now)\<rparr>)\<rparr>
       in andThen (save pipeline) (\<lambda>_.
          if stoppedReason = Some ''insufficient_signals'' then markInconclusiveAndComplete now pipeline
          else let (passed, failures) = evaluateStageProgression (paperStageMetrics metrics)
                                          (pr_paperTrading (pl_progressionRules pipeline))
               in if \<not> passed then rejectPipeline now pipeline (PaperTradingBelowThreshold failures)
                  else if pl_status pipeline \<noteq> RUNNING then return ()
                  else completePipeline now pipeline))"

section \<open>The orchestrator (\<^verbatim>\<open>pipeline-orchestrator.service.ts\<close>)\<close>

record CreatePipelineInput =
  ci_name :: string
  ci_description :: "string option"
  ci_strategyConfigId :: string
  ci_stageConfig :: PipelineStageConfig
  ci_progressionRules :: "PipelineProgressionRules option"
  ci_initialStage :: "PipelineStage option"

definition newPipeline :: "CreatePipelineInput \<Rightarrow> string \<Rightarrow> StrategyConfigRef \<Rightarrow> string \<Rightarrow> Pipeline" where
  "newPipeline dto newId strategyConfig userId =
     \<lparr>pl_id = newId, pl_name = ci_name dto, pl_description = ci_description dto, pl_status = PENDING,
      pl_currentStage = nullish (ci_initialStage dto) OPTIMIZE, pl_strategyConfig = strategyConfig,
      pl_optimizationRunId = None, pl_historicalBacktestId = None, pl_liveReplayBacktestId = None,
      pl_paperTradingSessionId = None, pl_stageConfig = ci_stageConfig dto,
      pl_progressionRules = nullish (ci_progressionRules dto) DEFAULT_PROGRESSION_RULES,
      pl_optimizedParameters = None, pl_stageResults = None, pl_recommendation = None,
      pl_pipelineScore = None, pl_scoreGrade = None, pl_scoringRegime = None, pl_scoreDetails = None, pl_summaryReport = None,
      pl_failureReason = None, pl_startedAt = None, pl_stageTransitionedAt = None,
      pl_completedAt = None, pl_userId = userId\<rparr>"

definition requirePipeline :: "string \<Rightarrow> (Pipeline \<Rightarrow> bool) \<Rightarrow> Pipeline op" where
  "requirePipeline pid P =
     andThen (findPipeline P) (\<lambda>found. case found of None \<Rightarrow> throw (NotFound pid) | Some p \<Rightarrow> return p)"

definition Pipeline_findOne :: "string \<Rightarrow> string \<Rightarrow> Pipeline op" where
  "Pipeline_findOne pid userId = requirePipeline pid (\<lambda>p. pl_id p = pid \<and> pl_userId p = userId)"

definition findOneAdmin :: "string \<Rightarrow> Pipeline op" where
  "findOneAdmin pid = requirePipeline pid (\<lambda>p. pl_id p = pid)"

text \<open>
  \<open>newId\<close> is the id the database assigns; \<open>strategyConfigs\<close> are the rows of the table of strategy
  configurations.
\<close>

definition createPipeline ::
    "StrategyConfigRef list \<Rightarrow> string \<Rightarrow> CreatePipelineInput \<Rightarrow> string \<Rightarrow> Pipeline op" where
  "createPipeline strategyConfigs newId dto userId =
     (case find (\<lambda>c. sc_id c = ci_strategyConfigId dto) strategyConfigs of
        None \<Rightarrow> throw (NotFound (ci_strategyConfigId dto))
      | Some strategyConfig \<Rightarrow>
          andThen (\<lambda>s. (Inr (), s\<lparr>st_pipelines := st_pipelines s @ [newPipeline dto newId strategyConfig userId]\<rparr>))
            (\<lambda>_. Pipeline_findOne newId userId))"

definition getActivePipelineStatus :: "string \<Rightarrow> PipelineState \<Rightarrow> bool \<times> nat" where
  "getActivePipelineStatus userId s =
     (let activeCount = length (filter (\<lambda>p. pl_userId p = userId \<and> (pl_status p = PENDING \<or> active p)) (st_pipelines s))
      in (activeCount > 0, activeCount))"

record PipelineFilters =
  pf_status :: "PipelineStatus option"
  pf_currentStage :: "PipelineStage option"
  pf_strategyConfigId :: "string option"
  pf_limit :: "nat option"
  pf_offset :: "nat option"

definition buildFilterWhere :: "PipelineFilters \<Rightarrow> string option \<Rightarrow> Pipeline \<Rightarrow> bool" where
  "buildFilterWhere filters userId p \<longleftrightarrow>
     (case userId of None \<Rightarrow> True | Some u \<Rightarrow> u = [] \<or> pl_userId p = u) \<and>
     (case pf_status filters of None \<Rightarrow> True | Some x \<Rightarrow> pl_status p = x) \<and>
     (case pf_currentStage filters of None \<Rightarrow> True | Some x \<Rightarrow> pl_currentStage p = x) \<and>
     (case pf_strategyConfigId filters of None \<Rightarrow> True
      | Some x \<Rightarrow> x = [] \<or> sc_id (pl_strategyConfig p) = x)"

text \<open>A page of the rows and their number; rows are listed newest first.\<close>

definition findPage :: "PipelineFilters \<Rightarrow> string option \<Rightarrow> PipelineState \<Rightarrow> Pipeline list \<times> nat" where
  "findPage filters userId s =
     (let rows = filter (buildFilterWhere filters userId) (rev (st_pipelines s))
      in (take (nullish (pf_limit filters) 20) (drop (nullish (pf_offset filters) 0) rows), length rows))"

definition Pipeline_findAll :: "string \<Rightarrow> PipelineFilters \<Rightarrow> PipelineState \<Rightarrow> Pipeline list \<times> nat" where
  "Pipeline_findAll userId filters = findPage filters (Some userId)"

definition findAllAdmin :: "PipelineFilters \<Rightarrow> PipelineState \<Rightarrow> Pipeline list \<times> nat" where
  "findAllAdmin filters = findPage filters None"

definition cancelPipelineInternal :: "Services \<Rightarrow> time_ms \<Rightarrow> Pipeline \<Rightarrow> FailureReason \<Rightarrow> unit op" where
  "cancelPipelineInternal svc now pipeline reason =
     (if pl_status pipeline \<in> {COMPLETED, CANCELLED, REJECTED, FAILED}
      then throw (BadRequest ''Pipeline is already in a terminal state'')
      else andThen (andCatch (cancelCurrentStage svc pipeline) (\<lambda>_. return ())) (\<lambda>_.
           andThen (save (pipeline\<lparr>pl_status := CANCELLED, pl_completedAt := Some now,
                           pl_failureReason := Some reason\<rparr>)) (\<lambda>_.
             removeStageJob svc (pl_id pipeline) (pl_currentStage pipeline))))"

definition cancelPipelineAdmin :: "Services \<Rightarrow> time_ms \<Rightarrow> string \<Rightarrow> Pipeline op" where
  "cancelPipelineAdmin svc now pid =
     andThen (findOneAdmin pid) (\<lambda>pipeline.
     andThen (cancelPipelineInternal svc now pipeline CancelledByAdmin) (\<lambda>_. findOneAdmin pid))"

definition cancelPipeline :: "Services \<Rightarrow> time_ms \<Rightarrow> string \<Rightarrow> string \<Rightarrow> Pipeline op" where
  "cancelPipeline svc now pid userId =
     andThen (Pipeline_findOne pid userId) (\<lambda>pipeline.
     andThen (cancelPipelineInternal svc now pipeline CancelledByUser) (\<lambda>_. Pipeline_findOne pid userId))"

definition startPipeline :: "Services \<Rightarrow> time_ms \<Rightarrow> string \<Rightarrow> string \<Rightarrow> Pipeline op" where
  "startPipeline svc now pid userId =
     andThen (Pipeline_findOne pid userId) (\<lambda>pipeline.
       case pl_status pipeline of
         RUNNING \<Rightarrow> throw (BadRequest ''Pipeline is already running'')
       | COMPLETED \<Rightarrow> throw (BadRequest ''Pipeline has already completed'')
       | CANCELLED \<Rightarrow> throw (BadRequest ''Pipeline has been cancelled'')
       | REJECTED \<Rightarrow> throw (BadRequest ''Pipeline has been rejected'')
       | previousStatus \<Rightarrow>
           let p = pipeline\<lparr>pl_status := RUNNING,
                     pl_startedAt := Some (nullish (pl_startedAt pipeline) now),
                     pl_stageTransitionedAt := Some (nullish (pl_stageTransitionedAt pipeline) now)\<rparr>
           in andThen (save p) (\<lambda>_.
              andThen (emit (StatusChange (pl_id p) previousStatus RUNNING)) (\<lambda>_.
              andThen (andCatch (enqueueStageJob svc p (pl_currentStage p) userId) (\<lambda>err.
                         andThen (updatePipeline pid (\<lambda>q. q\<lparr>pl_status := FAILED,
                                    pl_failureReason := Some (EnqueueFailed err), pl_completedAt := Some now\<rparr>))
                           (\<lambda>_. throw err))) (\<lambda>_.
                Pipeline_findOne pid userId))))"

definition pausePipeline :: "Services \<Rightarrow> string \<Rightarrow> string \<Rightarrow> Pipeline op" where
  "pausePipeline svc pid userId =
     andThen (Pipeline_findOne pid userId) (\<lambda>pipeline.
       if pl_status pipeline \<noteq> RUNNING then throw (BadRequest ''Can only pause a running pipeline'')
       else let p = pipeline\<lparr>pl_status := PAUSED\<rparr>
            in andThen (save p) (\<lambda>_.
               andThen (pauseCurrentStage svc p) (\<lambda>_. Pipeline_findOne pid userId)))"

definition resumePipeline :: "Services \<Rightarrow> time_ms \<Rightarrow> string \<Rightarrow> string \<Rightarrow> Pipeline op" where
  "resumePipeline svc now pid userId =
     andThen (Pipeline_findOne pid userId) (\<lambda>pipeline.
       if pl_status pipeline \<noteq> PAUSED then throw (BadRequest ''Can only resume a paused pipeline'')
       else let p = pipeline\<lparr>pl_status := RUNNING\<rparr>
            in andThen (save p) (\<lambda>_.
               andThen (resumeCurrentStage svc now userId p) (\<lambda>_. Pipeline_findOne pid userId)))"

definition skipStage :: "Services \<Rightarrow> time_ms \<Rightarrow> string \<Rightarrow> string \<Rightarrow> Pipeline op" where
  "skipStage svc now pid userId =
     andThen (Pipeline_findOne pid userId) (\<lambda>pipeline.
       if \<not> active pipeline then throw (BadRequest ''Can only skip stages for running or paused pipelines'')
       else if pl_currentStage pipeline = STAGE_COMPLETED
       then throw (BadRequest ''Pipeline has already completed all stages'')
       else andThen (cancelCurrentStage svc pipeline) (\<lambda>_.
            andThen (advanceToNextStage svc now pipeline) (\<lambda>_. Pipeline_findOne pid userId)))"

definition deletePipeline :: "string \<Rightarrow> string \<Rightarrow> unit op" where
  "deletePipeline pid userId =
     andThen (Pipeline_findOne pid userId) (\<lambda>pipeline.
       if pl_status pipeline = RUNNING
       then throw (BadRequest ''Cannot delete a running pipeline. Cancel it first.'')
       else (\<lambda>s. (Inr (), s\<lparr>st_pipelines := filter (\<lambda>q. pl_id q \<noteq> pl_id pipeline) (st_pipelines s)\<rparr>)))"

definition recordOptimizationSkipped :: "time_ms \<Rightarrow> string \<Rightarrow> unit op" where
  "recordOptimizationSkipped now pipelineId =
     withPipeline (\<lambda>p. pl_id p = pipelineId) (\<lambda>pipeline.
       save (pipeline\<lparr>pl_stageResults := Some ((stageResults pipeline)
         \<lparr>rs_optimization := Some \<lparr>or_runId = ''skipped'', or_status = Stage_Completed,
             or_bestParameters = [], or_bestScore = 0, or_baselineScore = 0, or_improvement = 0,
             or_combinationsTested = 0, or_totalCombinations = 0, or_duration = 0,
             or_completedAt = now\<rparr>\<rparr>)\<rparr>))"

section \<open>The queue worker and the listener\<close>

text \<open>
  \<^verbatim>\<open>pipeline.processor.ts\<close>. A worker that reads a pending row waits and reads again, in a second
  step: other operations may run between the two. An error of either step marks the pipeline
  failed and is thrown on.
\<close>

definition failJob :: "time_ms \<Rightarrow> string \<Rightarrow> PipelineError \<Rightarrow> unit op" where
  "failJob now pipelineId err =
     andThen (updatePipeline pipelineId (\<lambda>q. q\<lparr>pl_status := FAILED,
                pl_failureReason := Some (WorkerFailed err), pl_completedAt := Some now\<rparr>))
       (\<lambda>_. throw err)"

text \<open>The first step; its value says that the worker waits.\<close>

definition processJob :: "Services \<Rightarrow> time_ms \<Rightarrow> PipelineJobData \<Rightarrow> bool op" where
  "processJob svc now job =
     andThen (findPipeline (\<lambda>p. pl_id p = jd_pipelineId job)) (\<lambda>found.
       case found of
         None \<Rightarrow> return False
       | Some pipeline \<Rightarrow>
           if pl_status pipeline = PENDING then return True
           else if pl_status pipeline \<noteq> RUNNING then return False
           else andThen (andCatch (executeStage svc (jd_pipelineId job) (jd_stage job))
                           (failJob now (jd_pipelineId job))) (\<lambda>_. return False))"

definition processRetry :: "Services \<Rightarrow> time_ms \<Rightarrow> PipelineJobData \<Rightarrow> unit op" where
  "processRetry svc now job =
     andCatch
       (andThen (findPipeline (\<lambda>p. pl_id p = jd_pipelineId job)) (\<lambda>retried.
          case retried of
            None \<Rightarrow> throw (StillPending (jd_pipelineId job))
          | Some pipeline \<Rightarrow>
              if pl_status pipeline \<noteq> RUNNING then throw (StillPending (jd_pipelineId job))
              else executeStage svc (jd_pipelineId job) (jd_stage job)))
       (failJob now (jd_pipelineId job))"

text \<open>
  \<^verbatim>\<open>pipeline-event.listener.ts\<close>: every event of the other components is handled, and an error of
  its handler is logged. Paper-trading events without a pipeline id are dropped.
\<close>

datatype StageEvent =
    OptimizationCompletedEvent string Parameters number number
  | OptimizationFailedEvent string string
  | BacktestCompletedEvent string BacktestType BacktestMetrics
  | BacktestFailedEvent string BacktestType string
  | PaperTradingCompletedEvent string string PaperTradingMetrics "string option"
  | PaperTradingFailedEvent string string string

fun stageEventHandler :: "Services \<Rightarrow> time_ms \<Rightarrow> StageEvent \<Rightarrow> unit op" where
  "stageEventHandler svc now (OptimizationCompletedEvent runId bestParameters bestScore improvement) =
     handleOptimizationComplete svc now runId bestParameters bestScore improvement"
| "stageEventHandler svc now (OptimizationFailedEvent runId reason) = handleOptimizationFailed now runId reason"
| "stageEventHandler svc now (BacktestCompletedEvent backtestId type metrics) =
     handleBacktestComplete svc now backtestId type metrics"
| "stageEventHandler svc now (BacktestFailedEvent backtestId type reason) =
     handleBacktestFailed now backtestId type reason"
| "stageEventHandler svc now (PaperTradingCompletedEvent sessionId pipelineId metrics stoppedReason) =
     (if pipelineId = [] then return ()
      else handlePaperTradingComplete now sessionId pipelineId metrics stoppedReason)"
| "stageEventHandler svc now (PaperTradingFailedEvent sessionId pipelineId reason) =
     (if pipelineId = [] then return () else handlePaperTradingFailed now pipelineId reason)"

definition listen :: "Services \<Rightarrow> time_ms \<Rightarrow> StageEvent \<Rightarrow> unit op" where
  "listen svc now event = andCatch (stageEventHandler svc now event) (\<lambda>_. return ())"

end
