(* ===== verification/PipelineReport.thy ===== *)
theory PipelineReport
  imports Pipeline
begin

text \<open>
  The summary report of a pipeline (\<^verbatim>\<open>pipeline/services/pipeline-report.service.ts\<close>, asked for by
  \<^verbatim>\<open>GET /pipelines/:id/report\<close>), and the two tasks that write to the table of pipelines from
  outside: the watchdog, which fails pipelines that hang (\<^verbatim>\<open>tasks/backtest-watchdog.service.ts\<close>), and the
  retention, which deletes old ones (\<^verbatim>\<open>tasks/data-retention.task.ts\<close>).
\<close>

section \<open>The report\<close>

text \<open>The fall of the return from one stage to the next, in percent; there is none without an earlier return.\<close>

definition degradationFrom :: "number option \<Rightarrow> number \<Rightarrow> number option" where
  "degradationFrom previousReturn totalReturn =
     (case previousReturn of
        Some previous \<Rightarrow> if previous \<noteq> 0 then Some ((previous - totalReturn) / \<bar>previous\<bar> * 100) else None
      | None \<Rightarrow> None)"

definition comparisonOf :: "PipelineStage \<Rightarrow> number option \<Rightarrow> 'a BaseStageMetrics_scheme \<Rightarrow> StageComparison" where
  "comparisonOf stage degradation m =
     \<lparr>cmp_stage = stage, cmp_sharpeRatio = sr_sharpeRatio m, cmp_totalReturn = sr_totalReturn m,
      cmp_maxDrawdown = sr_maxDrawdown m, cmp_winRate = sr_winRate m, cmp_degradationFromPrevious = degradation\<rparr>"

definition buildStageComparison :: "PipelineStageResults \<Rightarrow> StageComparison list" where
  "buildStageComparison results =
     (let historicalReturn = map_option sr_totalReturn (rs_historical results);
          replayReturn = (case rs_liveReplay results of Some m \<Rightarrow> Some (sr_totalReturn m) | None \<Rightarrow> historicalReturn)
      in (case rs_historical results of None \<Rightarrow> [] | Some m \<Rightarrow> [comparisonOf HISTORICAL None m]) @
         (case rs_liveReplay results of None \<Rightarrow> []
          | Some m \<Rightarrow> [comparisonOf LIVE_REPLAY (degradationFrom historicalReturn (sr_totalReturn m)) m]) @
         (case rs_paperTrading results of None \<Rightarrow> []
          | Some m \<Rightarrow> [comparisonOf PAPER_TRADE (degradationFrom replayReturn (sr_totalReturn m)) m]))"

text \<open>The metrics of the stages that were run, in their order.\<close>

definition executedMetrics :: "PipelineStageResults \<Rightarrow> BaseStageMetrics list" where
  "executedMetrics results =
     (case rs_historical results of None \<Rightarrow> [] | Some m \<Rightarrow> [BaseStageMetrics.truncate m]) @
     (case rs_liveReplay results of None \<Rightarrow> [] | Some m \<Rightarrow> [BaseStageMetrics.truncate m]) @
     (case rs_paperTrading results of None \<Rightarrow> [] | Some m \<Rightarrow> [BaseStageMetrics.truncate m])"

definition calculateAverageMetrics :: "PipelineStageResults \<Rightarrow> AverageMetrics" where
  "calculateAverageMetrics results =
     (let metrics = executedMetrics results; n = of_nat (length metrics)
      in if length metrics = 0
         then \<lparr>av_sharpeRatio = 0, av_totalReturn = 0, av_maxDrawdown = 0, av_winRate = 0\<rparr>
         else \<lparr>av_sharpeRatio = foldl (\<lambda>sum m. sum + sr_sharpeRatio m) 0 metrics / n,
               av_totalReturn = foldl (\<lambda>sum m. sum + sr_totalReturn m) 0 metrics / n,
               av_maxDrawdown = foldl (\<lambda>sum m. sum + sr_maxDrawdown m) 0 metrics / n,
               av_winRate = foldl (\<lambda>sum m. sum + sr_winRate m) 0 metrics / n\<rparr>)"

definition calculateVariance :: "number list \<Rightarrow> number" where
  "calculateVariance values =
     (if length values = 0 then 0
      else let mean = foldl (+) 0 values / of_nat (length values)
           in foldl (\<lambda>sum v. sum + (v - mean)\<^sup>2) 0 values / of_nat (length values))"

definition calculateConsistencyScore :: "StageComparison list \<Rightarrow> number" where
  "calculateConsistencyScore stageComparison =
     (if length stageComparison < 2 then 100
      else let sharpeScore = max 0 (50 - calculateVariance (map cmp_sharpeRatio stageComparison) * 25);
               returnScore = max 0 (50 - calculateVariance (map cmp_totalReturn stageComparison) * 100)
           in js_round (sharpeScore + returnScore))"

definition detectWarnings :: "PipelineStageResults \<Rightarrow> StageComparison list \<Rightarrow> PipelineWarning list" where
  "detectWarnings results stageComparison =
     (let totalTrades = map sr_totalTrades (executedMetrics results);
          drawdowns = map cmp_maxDrawdown stageComparison;
          winRates = map cmp_winRate stageComparison;
          finalReturn = (case rs_paperTrading results of None \<Rightarrow> 0 | Some m \<Rightarrow> sr_totalReturn m);
          sharpeValues = map cmp_sharpeRatio stageComparison
      in concat (map (\<lambda>stage. case cmp_degradationFromPrevious stage of
             Some degradation \<Rightarrow> if degradation > 30 then [HIGH_DEGRADATION] else [] | None \<Rightarrow> []) stageComparison) @
         (if length totalTrades > 0 \<and> Min (set totalTrades) < 10 then [LOW_TRADE_COUNT] else []) @
         (if length drawdowns > 0 \<and> Max (set drawdowns) > 3 / 10 then [HIGH_DRAWDOWN] else []) @
         (if length winRates > 0 \<and> Min (set winRates) < 4 / 10 then [POOR_WIN_RATE] else []) @
         (if finalReturn < 0 then [NEGATIVE_RETURN] else []) @
         (if length sharpeValues \<ge> 2 \<and> calculateVariance sharpeValues > 5 / 10 \<and>
             hd sharpeValues > last sharpeValues + 5 / 10 then [OVERFITTING_SUSPECTED] else []) @
         (if calculateConsistencyScore stageComparison < 50 then [INCONSISTENT_METRICS] else []))"

definition Report_generateRecommendation :: "PipelineStageResults \<Rightarrow> number \<Rightarrow> PipelineWarning list \<Rightarrow> DeploymentRecommendation" where
  "Report_generateRecommendation results consistencyScore warnings =
     (if list_ex (\<lambda>w. w \<in> {NEGATIVE_RETURN, OVERFITTING_SUSPECTED}) warnings then DO_NOT_DEPLOY
      else case rs_paperTrading results of
        None \<Rightarrow> DO_NOT_DEPLOY
      | Some pt \<Rightarrow>
          if sr_sharpeRatio pt \<ge> 1 \<and> sr_maxDrawdown pt \<le> 25 / 100 \<and> sr_winRate pt \<ge> 5 / 10 \<and> sr_totalReturn pt > 5 / 100 \<and>
             consistencyScore \<ge> 70 \<and> length warnings = 0
          then DEPLOY
          else if sr_sharpeRatio pt \<ge> 5 / 10 \<and> sr_maxDrawdown pt \<le> 4 / 10 \<and> sr_winRate pt \<ge> 4 / 10 \<and> sr_totalReturn pt \<ge> 0 \<and>
             consistencyScore \<ge> 40
          then NEEDS_REVIEW
          else DO_NOT_DEPLOY)"

definition calculateConfidenceScore :: "PipelineStageResults \<Rightarrow> number \<Rightarrow> PipelineWarning list \<Rightarrow> number" where
  "calculateConfidenceScore results consistencyScore warnings =
     (let metrics = (case rs_paperTrading results of
            None \<Rightarrow> 0
          | Some pt \<Rightarrow>
              (if sr_sharpeRatio pt \<ge> 15 / 10 then 15 else if sr_sharpeRatio pt \<ge> 1 then 10
               else if sr_sharpeRatio pt \<ge> 5 / 10 then 5 else 0) +
              (if sr_totalReturn pt \<ge> 2 / 10 then 10 else if sr_totalReturn pt \<ge> 1 / 10 then 5 else 0) +
              (if sr_maxDrawdown pt \<le> 15 / 100 then 10 else if sr_maxDrawdown pt \<le> 25 / 100 then 5 else 0) +
              (if sr_totalTrades pt \<ge> 50 then 5 else 0))
      in max 0 (min 100 (50 + metrics + js_round (consistencyScore / 5) - of_nat (length warnings) * 10)))"

definition summaryOf :: "Pipeline \<Rightarrow> PipelineStageResults \<Rightarrow> PipelineSummaryReport" where
  "summaryOf pipeline results =
     (let stageComparison = buildStageComparison results;
          consistencyScore = calculateConsistencyScore stageComparison;
          warnings = detectWarnings results stageComparison
      in \<lparr>sy_recommendation = Report_generateRecommendation results consistencyScore warnings,
          sy_confidenceScore = calculateConfidenceScore results consistencyScore warnings,
          sy_stageComparison = stageComparison, sy_averageMetrics = calculateAverageMetrics results,
          sy_consistencyScore = consistencyScore, sy_warnings = warnings,
          sy_totalDurationHours = (case (pl_completedAt pipeline, pl_startedAt pipeline) of
            (Some completed, Some started) \<Rightarrow> of_int (completed - started) / (1000 * 60 * 60) | _ \<Rightarrow> 0)\<rparr>)"

text \<open>The report is saved to the row, and its recommendation replaces that of the row unless this is inconclusive.\<close>

definition generateSummaryReport :: "string \<Rightarrow> PipelineSummaryReport op" where
  "generateSummaryReport pipelineId =
     andThen (findPipeline (\<lambda>p. pl_id p = pipelineId)) (\<lambda>found. case found of
        None \<Rightarrow> throw (NotFound pipelineId)
      | Some pipeline \<Rightarrow>
          (case pl_stageResults pipeline of
             None \<Rightarrow> throw (ServiceError ''Pipeline has no stage results'')
           | Some results \<Rightarrow>
               let report = summaryOf pipeline results
               in andThen (save (pipeline\<lparr>pl_summaryReport := Some report,
                    pl_recommendation := (if pl_recommendation pipeline \<noteq> Some INCONCLUSIVE_RETRY
                      then Some (sy_recommendation report) else pl_recommendation pipeline)\<rparr>)) (\<lambda>_. return report)))"

definition getReport :: "string \<Rightarrow> PipelineSummaryReport option op" where
  "getReport pipelineId =
     andThen (findPipeline (\<lambda>p. pl_id p = pipelineId)) (\<lambda>found. case found of
        None \<Rightarrow> throw (NotFound pipelineId)
      | Some pipeline \<Rightarrow>
          if pl_summaryReport pipeline \<noteq> None then return (pl_summaryReport pipeline)
          else if pl_currentStage pipeline = STAGE_COMPLETED \<and> pl_stageResults pipeline \<noteq> None
          then andThen (generateSummaryReport pipelineId) (\<lambda>report. return (Some report))
          else return None)"

section \<open>Tasks that write to the table\<close>

text \<open>
  What the watchdog writes once it takes a pipeline for broken: the update holds only for a row that is still
  running, at the stage it was found at where the update names one. When the watchdog takes a pipeline for broken is
  not modelled.
\<close>

definition watchdogFails :: "time_ms \<Rightarrow> string \<Rightarrow> PipelineStage option \<Rightarrow> string \<Rightarrow> unit op" where
  "watchdogFails now pipelineId stage reason =
     updatePipeline pipelineId (\<lambda>p. if pl_status p = RUNNING \<and> (stage = None \<or> stage = Some (pl_currentStage p))
       then p\<lparr>pl_status := FAILED, pl_failureReason := Some (WatchdogReason reason), pl_completedAt := Some now\<rparr> else p)"

definition prunePipelines :: "(string \<Rightarrow> time_ms) \<Rightarrow> time_ms \<Rightarrow> PipelineState \<Rightarrow> PipelineState" where
  "prunePipelines updatedAt cutoff s = s\<lparr>st_pipelines := filter (\<lambda>p. \<not> (pl_status p \<in> {COMPLETED, FAILED, CANCELLED} \<and>
     nullish (pl_completedAt p) (updatedAt (pl_id p)) < cutoff)) (st_pipelines s)\<rparr>"

end
