(* ===== verification/PipelineSafety.thy ===== *)
theory PipelineSafety
  imports PipelineReport
begin

text \<open>
  What the operations of the pipeline keep, whatever the other services answer: the calls of the
  interface, the queue worker and the events are the steps of a machine on the table of
  pipelines. A small calculus of specifications follows the rows of the table through the
  operations; the properties at the end are about one step and about all runs.
\<close>

section \<open>Rows\<close>

text \<open>What the status of a row promises about its other fields.\<close>

definition row_ok :: "Pipeline \<Rightarrow> bool" where
  "row_ok p \<longleftrightarrow>
     (case pl_status p of
        PENDING \<Rightarrow> True
      | RUNNING \<Rightarrow> pl_startedAt p \<noteq> None
      | PAUSED \<Rightarrow> pl_startedAt p \<noteq> None
      | COMPLETED \<Rightarrow> pl_currentStage p = STAGE_COMPLETED \<and> pl_completedAt p \<noteq> None \<and> pl_recommendation p \<noteq> None
      | FAILED \<Rightarrow> pl_completedAt p \<noteq> None \<and> pl_failureReason p \<noteq> None
      | REJECTED \<Rightarrow> pl_completedAt p \<noteq> None \<and> pl_failureReason p \<noteq> None \<and>
          (pl_recommendation p = Some DO_NOT_DEPLOY \<or> pl_currentStage p = STAGE_COMPLETED \<and> pl_summaryReport p \<noteq> None)
      | CANCELLED \<Rightarrow> pl_completedAt p \<noteq> None \<and> pl_failureReason p \<noteq> None)"

text \<open>Settled rows are those whose outcome is final; a failed pipeline may be started again.\<close>

definition settled :: "Pipeline \<Rightarrow> bool" where
  "settled p \<longleftrightarrow> pl_status p \<in> {COMPLETED, REJECTED, CANCELLED}"

text \<open>
  The first report of a row at the last stage replaces its recommendation, unless that is inconclusive; a
  report that was saved is not generated again.
\<close>

definition recommends_same :: "Pipeline \<Rightarrow> Pipeline \<Rightarrow> bool" where
  "recommends_same p p' \<longleftrightarrow>
     (pl_recommendation p' = pl_recommendation p \<or>
        pl_currentStage p = STAGE_COMPLETED \<and> pl_recommendation p \<noteq> Some INCONCLUSIVE_RETRY \<and>
        pl_summaryReport p = None \<and> map_option sy_recommendation (pl_summaryReport p') = pl_recommendation p' \<and>
        pl_summaryReport p' \<noteq> None) \<and>
     (pl_summaryReport p \<noteq> None \<longrightarrow> pl_summaryReport p' = pl_summaryReport p)"

definition evolves :: "Pipeline \<Rightarrow> Pipeline \<Rightarrow> bool" where
  "evolves p p' \<longleftrightarrow> pl_id p' = pl_id p \<and> pl_currentStage p \<le> pl_currentStage p' \<and>
     (settled p \<longrightarrow> pl_status p' = pl_status p \<and> pl_currentStage p' = pl_currentStage p \<and> recommends_same p p')"

lemma recommends_same_refl [simp]: "recommends_same p p"
  by (simp add: recommends_same_def)

lemma recommends_same_keeps [simp]:
  "pl_recommendation p' = pl_recommendation p \<Longrightarrow> pl_summaryReport p' = pl_summaryReport p \<Longrightarrow> recommends_same p p'"
  by (simp add: recommends_same_def)

lemma recommends_same_trans:
  "recommends_same p q \<Longrightarrow> pl_currentStage q = pl_currentStage p \<Longrightarrow> recommends_same q r \<Longrightarrow> recommends_same p r"
  unfolding recommends_same_def by metis

lemma evolves_refl [simp]: "evolves p p"
  by (simp add: evolves_def)

lemma evolves_trans:
  assumes "evolves p q" "evolves q r"
  shows "evolves p r"
proof -
  have "recommends_same p r" if "settled p"
    using that assms recommends_same_trans by (auto simp: evolves_def settled_def)
  then show ?thesis using assms by (auto simp: evolves_def settled_def)
qed

lemma stage_le_completed [simp]: "stage \<le> STAGE_COMPLETED"
  by (cases stage) (simp_all add: less_eq_PipelineStage_def)

definition rows_ok :: "Pipeline list \<Rightarrow> bool" where
  "rows_ok rs \<longleftrightarrow> distinct (map pl_id rs) \<and> list_all row_ok rs"

lemma rows_ok_row: "rows_ok rs \<Longrightarrow> p \<in> set rs \<Longrightarrow> row_ok p"
  by (simp add: rows_ok_def list_all_iff)

lemma rows_ok_unique: "rows_ok rs \<Longrightarrow> p \<in> set rs \<Longrightarrow> q \<in> set rs \<Longrightarrow> pl_id p = pl_id q \<Longrightarrow> p = q"
  by (auto simp: rows_ok_def distinct_map dest: inj_onD)

lemma evolves_all_trans:
  "list_all2 evolves xs ys \<Longrightarrow> list_all2 evolves ys zs \<Longrightarrow> list_all2 evolves xs zs"
  by (rule list_all2_trans [OF evolves_trans])

lemma list_all2_map_self: "list_all2 R xs (map f xs) \<longleftrightarrow> (\<forall>x \<in> set xs. R x (f x))"
  by (auto simp: list_all2_map2 list_all2_same)

section \<open>Specifications of operations\<close>

text \<open>
  \<open>spec P m Q X\<close>: from rows that are in order and satisfy \<open>P\<close>, the operation keeps them in
  order and every row evolves; a value returned satisfies \<open>Q\<close> with the rows left, and after an
  error the rows satisfy \<open>X\<close>.
\<close>

definition spec ::
    "(Pipeline list \<Rightarrow> bool) \<Rightarrow> 'a op \<Rightarrow> ('a \<Rightarrow> Pipeline list \<Rightarrow> bool) \<Rightarrow> (Pipeline list \<Rightarrow> bool) \<Rightarrow> bool" where
  "spec P m Q X \<longleftrightarrow>
     (\<forall>s r s'. rows_ok (st_pipelines s) \<and> P (st_pipelines s) \<and> m s = (r, s') \<longrightarrow>
        rows_ok (st_pipelines s') \<and> list_all2 evolves (st_pipelines s) (st_pipelines s') \<and>
        (case r of Inl _ \<Rightarrow> X (st_pipelines s') | Inr x \<Rightarrow> Q x (st_pipelines s')))"

lemma spec_weaken:
  "spec P' m Q' X' \<Longrightarrow> (\<And>rs. rows_ok rs \<Longrightarrow> P rs \<Longrightarrow> P' rs) \<Longrightarrow> (\<And>x rs. Q' x rs \<Longrightarrow> Q x rs) \<Longrightarrow>
   (\<And>rs. X' rs \<Longrightarrow> X rs) \<Longrightarrow> spec P m Q X"
  unfolding spec_def
proof (intro allI impI, elim conjE)
  fix s r s' assume spec: "\<forall>s r s'. rows_ok (st_pipelines s) \<and> P' (st_pipelines s) \<and> m s = (r, s') \<longrightarrow>
      rows_ok (st_pipelines s') \<and> list_all2 evolves (st_pipelines s) (st_pipelines s') \<and>
      (case r of Inl _ \<Rightarrow> X' (st_pipelines s') | Inr x \<Rightarrow> Q' x (st_pipelines s'))"
    and weak: "\<And>rs. rows_ok rs \<Longrightarrow> P rs \<Longrightarrow> P' rs" "\<And>x rs. Q' x rs \<Longrightarrow> Q x rs" "\<And>rs. X' rs \<Longrightarrow> X rs"
    and s: "rows_ok (st_pipelines s)" "P (st_pipelines s)" "m s = (r, s')"
  from spec [rule_format, of s r s'] weak(1) [OF s(1,2)] s(1,3) weak(2,3)
  show "rows_ok (st_pipelines s') \<and> list_all2 evolves (st_pipelines s) (st_pipelines s') \<and>
      (case r of Inl _ \<Rightarrow> X (st_pipelines s') | Inr x \<Rightarrow> Q x (st_pipelines s'))"
    by (cases r) simp_all
qed

lemma spec_absurd: "(\<And>rs. \<not> P rs) \<Longrightarrow> spec P m Q X"
  by (simp add: spec_def)

lemma spec_return: "(\<And>rs. P rs \<Longrightarrow> Q x rs) \<Longrightarrow> spec P (return x) Q X"
  by (auto simp: spec_def return_def list_all2_same)

lemma spec_throw: "(\<And>rs. P rs \<Longrightarrow> X rs) \<Longrightarrow> spec P (throw e) Q X"
  by (auto simp: spec_def throw_def list_all2_same)

lemma spec_andThen:
  assumes "spec P m Q X" "\<And>x. spec (Q x) (f x) R X"
  shows "spec P (andThen m f) R X"
  unfolding spec_def
proof (intro allI impI, elim conjE)
  fix s r s' assume s: "rows_ok (st_pipelines s)" "P (st_pipelines s)" and run: "andThen m f s = (r, s')"
  obtain r1 s1 where m: "m s = (r1, s1)" by (cases "m s")
  note one = assms(1) [unfolded spec_def, rule_format, OF conjI [OF s(1) conjI [OF s(2) m]]]
  show "rows_ok (st_pipelines s') \<and> list_all2 evolves (st_pipelines s) (st_pipelines s') \<and>
      (case r of Inl _ \<Rightarrow> X (st_pipelines s') | Inr x \<Rightarrow> R x (st_pipelines s'))"
  proof (cases r1)
    case (Inl e)
    then show ?thesis using one run m by (auto simp: andThen_def)
  next
    case (Inr x)
    then have f: "f x s1 = (r, s')" using run m by (simp add: andThen_def)
    have "rows_ok (st_pipelines s1) \<and> Q x (st_pipelines s1)" using one Inr by simp
    with assms(2) [unfolded spec_def, rule_format, of s1 x r s'] f one show ?thesis
      by (auto intro: evolves_all_trans)
  qed
qed

lemma spec_andCatch:
  assumes "spec P m Q Y" "\<And>e. spec Y (h e) Q X"
  shows "spec P (andCatch m h) Q X"
  unfolding spec_def
proof (intro allI impI, elim conjE)
  fix s r s' assume s: "rows_ok (st_pipelines s)" "P (st_pipelines s)" and run: "andCatch m h s = (r, s')"
  obtain r1 s1 where m: "m s = (r1, s1)" by (cases "m s")
  note one = assms(1) [unfolded spec_def, rule_format, OF conjI [OF s(1) conjI [OF s(2) m]]]
  show "rows_ok (st_pipelines s') \<and> list_all2 evolves (st_pipelines s) (st_pipelines s') \<and>
      (case r of Inl _ \<Rightarrow> X (st_pipelines s') | Inr x \<Rightarrow> Q x (st_pipelines s'))"
  proof (cases r1)
    case (Inl e)
    then have h: "h e s1 = (r, s')" using run m by (simp add: andCatch_def)
    have "rows_ok (st_pipelines s1) \<and> Y (st_pipelines s1)" using one Inl by simp
    with assms(2) [unfolded spec_def, rule_format, of s1 e r s'] h one show ?thesis
      by (auto intro: evolves_all_trans)
  next
    case (Inr x)
    then show ?thesis using one run m by (auto simp: andCatch_def)
  qed
qed

text \<open>Operations that do not touch the rows.\<close>

lemma spec_silent:
  assumes "\<And>s. st_pipelines (snd (m s)) = st_pipelines s"
    "\<And>s e s' rs. m s = (Inl e, s') \<Longrightarrow> P rs \<Longrightarrow> X rs"
  shows "spec P m (\<lambda>_. P) X"
  unfolding spec_def
proof (intro allI impI, elim conjE)
  fix s r s' assume "rows_ok (st_pipelines s)" "P (st_pipelines s)" "m s = (r, s')"
  then show "rows_ok (st_pipelines s') \<and> list_all2 evolves (st_pipelines s) (st_pipelines s') \<and>
      (case r of Inl _ \<Rightarrow> X (st_pipelines s') | Inr x \<Rightarrow> P (st_pipelines s'))"
    using assms(1) [of s] assms(2) [of s] by (cases r) (auto simp: list_all2_same)
qed

lemma spec_emit: "spec P (emit e) (\<lambda>_. P) X"
  by (rule spec_silent) (simp_all add: emit_def)

lemma spec_record_call: "spec P (record_call c) (\<lambda>_. P) X"
  by (rule spec_silent) (simp_all add: record_call_def)

lemma spec_callService: "(\<And>rs. P rs \<Longrightarrow> X rs) \<Longrightarrow> spec P (callService svc c) (\<lambda>_. P) X"
  by (rule spec_silent)
    (simp_all add: callService_def andThen_def record_call_def return_def throw_def split: option.splits)

lemma spec_answer: "(\<And>rs. P rs \<Longrightarrow> X rs) \<Longrightarrow> spec P (answer r) (\<lambda>_. P) X"
  by (rule spec_silent) (simp_all add: answer_def return_def throw_def split: sum.splits)

lemma spec_find:
  "spec P (findPipeline F) (\<lambda>r rs. P rs \<and> (\<forall>p. r = Some p \<longrightarrow> F p \<and> p \<in> set rs)) X"
  by (auto simp: spec_def findPipeline_def list_all2_same find_Some_iff)

text \<open>Writing a row that evolves from the one in the table.\<close>

lemma spec_save:
  assumes "pl_id p = pl_id q" "row_ok q \<Longrightarrow> evolves q p \<and> row_ok p"
  shows "spec (\<lambda>rs. q \<in> set rs) (save p) (\<lambda>_ rs. p \<in> set rs) X"
  unfolding spec_def
proof (intro allI impI, elim conjE)
  fix s r s'
  assume ok: "rows_ok (st_pipelines s)" and q: "q \<in> set (st_pipelines s)" and run: "save p s = (r, s')"
  let ?f = "\<lambda>x. if pl_id x = pl_id p then p else x"
  have rows: "st_pipelines s' = map ?f (st_pipelines s)" and r: "r = Inr ()"
    using run by (auto simp: save_def)
  have p: "evolves q p \<and> row_ok p" by (rule assms(2) [OF rows_ok_row [OF ok q]])
  have eq: "x = q" if "x \<in> set (st_pipelines s)" "pl_id x = pl_id p" for x
    using rows_ok_unique [OF ok that(1) q] that(2) assms(1) by simp
  have ids: "map pl_id (map ?f (st_pipelines s)) = map pl_id (st_pipelines s)" by simp
  have "distinct (map pl_id (map ?f (st_pipelines s)))"
    using ok unfolding ids rows_ok_def by simp
  moreover have "list_all row_ok (map ?f (st_pipelines s))"
    using ok p by (auto simp: rows_ok_def list_all_iff)
  moreover have "list_all2 evolves (st_pipelines s) (map ?f (st_pipelines s))"
    using p eq by (auto simp: list_all2_map_self)
  moreover have "p \<in> set (map ?f (st_pipelines s))" using q assms(1) by force
  ultimately show "rows_ok (st_pipelines s') \<and> list_all2 evolves (st_pipelines s) (st_pipelines s') \<and>
      (case r of Inl _ \<Rightarrow> X (st_pipelines s') | Inr x \<Rightarrow> p \<in> set (st_pipelines s'))"
    unfolding rows r rows_ok_def by simp
qed

lemma spec_update:
  assumes "\<And>q. pl_id q = pid \<Longrightarrow> row_ok q \<Longrightarrow> F q \<Longrightarrow> evolves q (f q) \<and> row_ok (f q)"
  shows "spec (\<lambda>rs. \<forall>q \<in> set rs. pl_id q = pid \<longrightarrow> F q) (updatePipeline pid f) (\<lambda>_ _. True) X"
  unfolding spec_def
proof (intro allI impI, elim conjE)
  fix s r s'
  assume ok: "rows_ok (st_pipelines s)" and F: "\<forall>q \<in> set (st_pipelines s). pl_id q = pid \<longrightarrow> F q"
    and run: "updatePipeline pid f s = (r, s')"
  let ?f = "\<lambda>x. if pl_id x = pid then f x else x"
  have rows: "st_pipelines s' = map ?f (st_pipelines s)" and r: "r = Inr ()"
    using run by (auto simp: updatePipeline_def)
  have each: "evolves q (?f q) \<and> row_ok (?f q)" if "q \<in> set (st_pipelines s)" for q
    using assms [of q] rows_ok_row [OF ok that] F that by simp
  then have "map pl_id (map ?f (st_pipelines s)) = map pl_id (st_pipelines s)"
    by (auto simp: evolves_def)
  then have "distinct (map pl_id (map ?f (st_pipelines s)))"
    using ok unfolding rows_ok_def by metis
  moreover have "list_all row_ok (map ?f (st_pipelines s))"
    unfolding list_all_iff set_map using each by blast
  moreover have "list_all2 evolves (st_pipelines s) (map ?f (st_pipelines s))"
    unfolding list_all2_map_self using each by blast
  ultimately show "rows_ok (st_pipelines s') \<and> list_all2 evolves (st_pipelines s) (st_pipelines s') \<and>
      (case r of Inl _ \<Rightarrow> X (st_pipelines s') | Inr x \<Rightarrow> True)"
    unfolding rows r rows_ok_def by simp
qed

abbreviation safe :: "(Pipeline list \<Rightarrow> bool) \<Rightarrow> 'a op \<Rightarrow> bool" where
  "safe P m \<equiv> spec P m (\<lambda>_ _. True) (\<lambda>_. True)"

lemma safe_weaken: "spec P m Q X \<Longrightarrow> safe P m"
  by (erule spec_weaken) simp_all

lemma safe_return: "safe P (return x)"
  by (rule spec_return) simp

lemma safe_throw: "safe P (throw e)"
  by (rule spec_throw) simp

text \<open>A silent operation followed by another.\<close>

lemma spec_then_emit: "spec P m (\<lambda>_. Q) X \<Longrightarrow> spec P (andThen m (\<lambda>_. emit e)) (\<lambda>_. Q) X"
  by (erule spec_andThen) (rule spec_emit)

lemma spec_enqueue: "(\<And>rs. P rs \<Longrightarrow> X rs) \<Longrightarrow> spec P (enqueueStageJob svc p stage u) (\<lambda>_. P) X"
  unfolding enqueueStageJob_def Let_def
  by (rule spec_andThen [OF spec_callService spec_callService])

lemma spec_removeStageJob: "(\<And>rs. P rs \<Longrightarrow> X rs) \<Longrightarrow> spec P (removeStageJob svc pid stage) (\<lambda>_. P) X"
  unfolding removeStageJob_def by (rule spec_callService)

lemma spec_whenId:
  "(\<And>i. spec P (f i) Q X) \<Longrightarrow> spec P d Q X \<Longrightarrow> spec P (whenId x f d) Q X"
  by (simp add: whenId_def split: option.splits)

section \<open>Finishing and advancing\<close>

lemma spec_completePipeline:
  assumes "\<not> settled p"
  shows "spec (\<lambda>rs. p \<in> set rs) (completePipeline now p) (\<lambda>_ _. True) X"
  unfolding completePipeline_def Let_def
  by (rule spec_weaken [OF spec_then_emit [OF spec_save [where q = p]]])
    (use assms in \<open>auto simp: evolves_def settled_def row_ok_def split: option.splits\<close>)

lemma spec_failPipeline:
  assumes "\<not> settled p"
  shows "spec (\<lambda>rs. p \<in> set rs) (failPipeline now p reason) (\<lambda>_ _. True) X"
  unfolding failPipeline_def
  by (rule spec_weaken [OF spec_then_emit [OF spec_save [where q = p]]])
    (use assms in \<open>auto simp: evolves_def settled_def row_ok_def\<close>)

lemma spec_rejectPipeline:
  assumes "\<not> settled p"
  shows "spec (\<lambda>rs. p \<in> set rs) (rejectPipeline now p reason) (\<lambda>_ _. True) X"
  unfolding rejectPipeline_def
  by (rule spec_weaken [OF spec_then_emit [OF spec_save [where q = p]]])
    (use assms in \<open>auto simp: evolves_def settled_def row_ok_def\<close>)

lemma spec_markInconclusive:
  assumes "\<not> settled p"
  shows "spec (\<lambda>rs. p \<in> set rs) (markInconclusiveAndComplete now p) (\<lambda>_ _. True) X"
  unfolding markInconclusiveAndComplete_def
  by (rule spec_weaken [OF spec_then_emit [OF spec_save [where q = p]]])
    (use assms in \<open>auto simp: evolves_def settled_def row_ok_def\<close>)

lemma next_stage:
  "stageIndex s < 4 \<Longrightarrow> stageOrder ! Suc (stageIndex s) = t \<Longrightarrow> s \<le> t"
  by (cases s) (auto simp: stageOrder_def less_eq_PipelineStage_def)

lemma safe_advance:
  assumes "\<not> settled p"
  shows "safe (\<lambda>rs. p \<in> set rs) (advanceToNextStage svc now p)"
proof (cases "stageIndex (pl_currentStage p) < 4")
  case False
  then show ?thesis
    by (simp add: advanceToNextStage_def Let_def stageOrder_def safe_throw)
next
  case True
  define p' where "p' = p\<lparr>pl_currentStage := stageOrder ! Suc (stageIndex (pl_currentStage p)),
    pl_stageTransitionedAt := Some now\<rparr>"
  have p': "\<not> settled p'" "pl_id p' = pl_id p"
    using assms by (simp_all add: p'_def settled_def)
  have "pl_currentStage p \<le> pl_currentStage p'"
    using next_stage [OF True refl] by (simp add: p'_def)
  then have step: "row_ok p \<Longrightarrow> evolves p p' \<and> row_ok p'"
    using assms by (auto simp: evolves_def p'_def row_ok_def settled_def split: PipelineStatus.splits)
  have run: "advanceToNextStage svc now p =
      andThen (save p') (\<lambda>_. andThen (emit (StageTransition (pl_id p') (pl_currentStage p) (pl_currentStage p')))
        (\<lambda>_. if pl_currentStage p' = STAGE_COMPLETED then completePipeline now p'
             else if pl_status p' = RUNNING
             then if pl_userId p' = [] then throw (MissingUser (pl_id p'))
                  else enqueueStageJob svc p' (pl_currentStage p') (pl_userId p')
             else return ()))"
    using True by (simp add: advanceToNextStage_def p'_def Let_def stageOrder_def)
  show ?thesis
    unfolding run
    by (intro spec_andThen [OF spec_save [OF p'(2) step]] spec_andThen [OF spec_emit])
      (auto intro: spec_completePipeline [OF p'(1)] safe_return safe_throw safe_weaken [OF spec_enqueue])
qed

section \<open>Stages\<close>

text \<open>The rows of an id are not settled.\<close>

definition unsettled :: "string \<Rightarrow> Pipeline list \<Rightarrow> bool" where
  "unsettled pid rs \<longleftrightarrow> (\<forall>q \<in> set rs. pl_id q = pid \<longrightarrow> \<not> settled q)"

lemma unsettled_row:
  "rows_ok rs \<Longrightarrow> p \<in> set rs \<Longrightarrow> \<not> settled p \<Longrightarrow> unsettled (pl_id p) rs"
  unfolding unsettled_def by (metis rows_ok_unique)

text \<open>Saving an id that a service returned.\<close>

lemma spec_save_id:
  assumes "pl_id p' = pl_id p" "pl_status p' = pl_status p"
    "pl_currentStage p' = pl_currentStage p" "pl_recommendation p' = pl_recommendation p"
    "pl_startedAt p' = pl_startedAt p" "pl_completedAt p' = pl_completedAt p"
    "pl_failureReason p' = pl_failureReason p" "pl_summaryReport p' = pl_summaryReport p"
  shows "spec (\<lambda>rs. p \<in> set rs \<and> L rs) (save p') (\<lambda>_ _. True) X"
  by (rule spec_weaken [OF spec_save [where q = p]])
    (use assms in \<open>auto simp: evolves_def row_ok_def split: PipelineStatus.splits\<close>)

lemma spec_executeOptimizationStage:
  assumes "\<not> settled p"
  shows "spec (\<lambda>rs. p \<in> set rs \<and> L rs) (executeOptimizationStage svc p) (\<lambda>_ _. True) L"
  unfolding executeOptimizationStage_def
  by (auto simp: Let_def split: option.splits
      intro!: spec_throw spec_andThen [OF spec_record_call] spec_andThen [OF spec_answer]
        spec_save_id)

lemma spec_executeBacktestStage:
  assumes "\<not> settled p"
  shows "spec (\<lambda>rs. p \<in> set rs \<and> L rs) (executeBacktestStage svc p config type) (\<lambda>_ _. True) L"
proof -
  have futures: "spec P (if b then callService svc c else return ()) (\<lambda>_. P) X"
    if "\<And>rs. P rs \<Longrightarrow> X rs" for b c and P X :: "Pipeline list \<Rightarrow> bool"
    using that by (auto intro: spec_callService spec_return)
  show ?thesis
    unfolding executeBacktestStage_def
    by (auto simp: Let_def split: option.splits
        intro!: spec_throw spec_andThen [OF spec_record_call] spec_andThen [OF spec_answer]
          spec_andThen [OF futures] spec_save_id)
qed

lemma spec_executePaperTradingStage:
  assumes "\<not> settled p"
  shows "spec (\<lambda>rs. p \<in> set rs \<and> L rs) (executePaperTradingStage svc p) (\<lambda>_ _. True) L"
  unfolding executePaperTradingStage_def
  by (auto simp: Let_def
      intro!: spec_throw spec_andThen [OF spec_record_call] spec_andThen [OF spec_answer]
        spec_save_id)

lemma spec_executeStage: "spec L (executeStage svc pid stage) (\<lambda>_ _. True) L"
proof -
  have run: "spec (\<lambda>rs. p \<in> set rs \<and> L rs)
      (case stage of
         OPTIMIZE \<Rightarrow> executeOptimizationStage svc p
       | HISTORICAL \<Rightarrow> executeBacktestStage svc p (psc_historical (pl_stageConfig p)) BT_HISTORICAL
       | LIVE_REPLAY \<Rightarrow> executeBacktestStage svc p (psc_liveReplay (pl_stageConfig p)) BT_LIVE_REPLAY
       | PAPER_TRADE \<Rightarrow> executePaperTradingStage svc p
       | STAGE_COMPLETED \<Rightarrow> throw (NotExecutable pid)) (\<lambda>_ _. True) L"
    if "pl_status p = RUNNING" for p
    using that
    by (auto simp: settled_def split: PipelineStage.splits
        intro!: spec_throw spec_executeOptimizationStage spec_executeBacktestStage spec_executePaperTradingStage)
  show ?thesis
    unfolding executeStage_def
  proof (rule spec_andThen [OF spec_find])
    fix found :: "Pipeline option"
    show "spec (\<lambda>rs. L rs \<and> (\<forall>p. found = Some p \<longrightarrow> pl_id p = pid \<and> p \<in> set rs))
        (case found of None \<Rightarrow> throw (NotFound pid)
         | Some pipeline \<Rightarrow> if pl_status pipeline \<noteq> RUNNING then return ()
             else (case stage of
                   OPTIMIZE \<Rightarrow> executeOptimizationStage svc pipeline
                 | HISTORICAL \<Rightarrow>
                     executeBacktestStage svc pipeline (psc_historical (pl_stageConfig pipeline)) BT_HISTORICAL
                 | LIVE_REPLAY \<Rightarrow>
                     executeBacktestStage svc pipeline (psc_liveReplay (pl_stageConfig pipeline)) BT_LIVE_REPLAY
                 | PAPER_TRADE \<Rightarrow> executePaperTradingStage svc pipeline
                 | STAGE_COMPLETED \<Rightarrow> throw (NotExecutable pid))) (\<lambda>_ _. True) L"
      by (cases found) (auto intro: spec_throw spec_return spec_weaken [OF run])
  qed
qed

lemma spec_pauseCurrentStage: "(\<And>rs. P rs \<Longrightarrow> X rs) \<Longrightarrow> spec P (pauseCurrentStage svc p) (\<lambda>_. P) X"
  by (auto simp: pauseCurrentStage_def split: PipelineStage.splits
      intro!: spec_whenId spec_callService spec_return)

lemma spec_cancelCurrentStage: "(\<And>rs. P rs \<Longrightarrow> X rs) \<Longrightarrow> spec P (cancelCurrentStage svc p) (\<lambda>_. P) X"
  by (auto simp: cancelCurrentStage_def split: PipelineStage.splits
      intro!: spec_whenId spec_callService spec_return)

lemma safe_resumeCurrentStage:
  assumes "\<not> settled p"
  shows "safe (\<lambda>rs. p \<in> set rs) (resumeCurrentStage svc now u p)"
proof -
  have backtest: "safe (\<lambda>rs. p \<in> set rs) (resumeBacktestStage svc now p i)" for i
    unfolding resumeBacktestStage_def
    by (rule spec_andThen [OF spec_answer])
      (auto intro: safe_advance [OF assms] safe_weaken [OF spec_callService])
  have enqueue: "safe P (enqueueStageJob svc p stage u)" for P stage
    by (rule safe_weaken [OF spec_enqueue [where X = "\<lambda>_. True"]]) simp
  have call: "safe P (callService svc c)" for P c
    by (rule safe_weaken [OF spec_callService [where X = "\<lambda>_. True"]]) simp
  show ?thesis
    by (auto simp: resumeCurrentStage_def Let_def split: PipelineStage.splits
        intro!: spec_whenId backtest enqueue call safe_advance [OF assms] safe_return)
qed

section \<open>Events\<close>

lemma safe_withPipeline:
  assumes "\<And>p. F p \<Longrightarrow> safe (\<lambda>rs. P rs \<and> p \<in> set rs) (f p)"
  shows "safe P (withPipeline F f)"
  unfolding withPipeline_def
proof (rule spec_andThen [OF spec_find])
  fix found :: "Pipeline option"
  show "safe (\<lambda>rs. P rs \<and> (\<forall>p. found = Some p \<longrightarrow> F p \<and> p \<in> set rs))
      (case found of None \<Rightarrow> return () | Some pipeline \<Rightarrow> f pipeline)"
  proof (cases found)
    case None
    then show ?thesis by (simp add: safe_return)
  next
    case (Some p)
    show ?thesis
    proof (cases "F p")
      case True
      then show ?thesis using Some assms [of p] by simp
    next
      case False
      then show ?thesis using Some by (simp add: spec_def)
    qed
  qed
qed

text \<open>Saving an object whose status, stage and outcome are those of its row.\<close>

lemma spec_save_results:
  assumes "pl_id p' = pl_id p" "pl_status p' = pl_status p"
    "pl_currentStage p' = pl_currentStage p" "pl_recommendation p' = pl_recommendation p"
    "pl_startedAt p' = pl_startedAt p" "pl_completedAt p' = pl_completedAt p"
    "pl_failureReason p' = pl_failureReason p" "pl_summaryReport p' = pl_summaryReport p"
  shows "spec (\<lambda>rs. P rs \<and> p \<in> set rs) (save p') (\<lambda>_ rs. p' \<in> set rs) X"
  by (rule spec_weaken [OF spec_save [where q = p]])
    (use assms in \<open>auto simp: evolves_def row_ok_def split: PipelineStatus.splits\<close>)

lemma active_unsettled: "active p \<Longrightarrow> \<not> settled p"
  by (auto simp: active_def settled_def)

lemma safe_reject_or_advance:
  assumes "\<not> settled p"
  shows "safe (\<lambda>rs. p \<in> set rs)
    (if b then rejectPipeline now p reason
     else if pl_status p \<noteq> RUNNING then return ()
     else advanceToNextStage svc now p)"
  using assms by (auto intro: safe_return safe_advance spec_rejectPipeline)

lemma safe_handleOptimizationComplete:
  "safe P (handleOptimizationComplete svc now runId bestParameters bestScore improvement)"
  unfolding handleOptimizationComplete_def
proof (rule safe_withPipeline, goal_cases)
  case (1 found)
  let ?p = "found\<lparr>pl_optimizationRunId := Some runId, pl_optimizedParameters := Some bestParameters,
    pl_stageResults := Some ((stageResults found)
      \<lparr>rs_optimization := Some (optimizationResult runId bestParameters bestScore improvement now)\<rparr>)\<rparr>"
  have "\<not> settled ?p" using 1 by (auto simp: settled_def active_def)
  from safe_reject_or_advance [OF this] show ?case
    unfolding Let_def by (intro spec_andThen [OF spec_save_results]) (simp_all add: case_prod_beta)
qed

lemma safe_historicalComplete:
  assumes "active p"
  shows "safe (\<lambda>rs. P rs \<and> p \<in> set rs) (historicalComplete svc now backtestId metrics p)"
proof -
  let ?p = "p\<lparr>pl_stageResults := Some ((stageResults p)
    \<lparr>rs_historical := Some (historicalResult p backtestId metrics now)\<rparr>)\<rparr>"
  have "\<not> settled ?p" using assms by (auto simp: settled_def active_def)
  from safe_reject_or_advance [OF this, of False] show ?thesis
    unfolding historicalComplete_def Let_def
    by (intro spec_andThen [OF spec_save_results]) simp_all
qed

lemma scoredPipeline_row [simp]:
  "pl_id (scoredPipeline svc now b m p) = pl_id p" "pl_status (scoredPipeline svc now b m p) = pl_status p"
  "pl_currentStage (scoredPipeline svc now b m p) = pl_currentStage p"
  "pl_recommendation (scoredPipeline svc now b m p) = pl_recommendation p"
  "pl_startedAt (scoredPipeline svc now b m p) = pl_startedAt p"
  "pl_completedAt (scoredPipeline svc now b m p) = pl_completedAt p"
  "pl_failureReason (scoredPipeline svc now b m p) = pl_failureReason p" "pl_summaryReport (scoredPipeline svc now b m p) = pl_summaryReport p"
  "pl_progressionRules (scoredPipeline svc now b m p) = pl_progressionRules p"
  "pl_userId (scoredPipeline svc now b m p) = pl_userId p"
  by (simp_all add: scoredPipeline_def Let_def)

lemma safe_liveReplayComplete:
  assumes "active p"
  shows "safe (\<lambda>rs. P rs \<and> p \<in> set rs) (liveReplayComplete svc now backtestId metrics p)"
proof -
  have "\<not> settled (scoredPipeline svc now backtestId metrics p)"
    using assms by (auto simp: settled_def active_def)
  from safe_reject_or_advance [OF this] show ?thesis
    unfolding liveReplayComplete_def Let_def
    by (intro spec_andThen [OF spec_save_results]) simp_all
qed

lemma safe_pre: "safe P m \<Longrightarrow> (\<And>rs. P' rs \<Longrightarrow> P rs) \<Longrightarrow> safe P' m"
  by (erule spec_weaken) simp_all

lemma safe_handleBacktestComplete: "safe P (handleBacktestComplete svc now backtestId type metrics)"
  unfolding handleBacktestComplete_def
proof (rule safe_withPipeline, goal_cases)
  case (1 p)
  then have "active p" by simp
  then show ?case
    by (cases type) (auto intro: safe_historicalComplete safe_liveReplayComplete
        safe_pre [OF spec_rejectPipeline [OF active_unsettled]])
qed

lemma safe_failures:
  "safe P (handleOptimizationFailed now runId reason)"
  "safe P (handleBacktestFailed now backtestId type reason)"
  "safe P (handlePaperTradingFailed now pid reason)"
  unfolding handleOptimizationFailed_def handleBacktestFailed_def handlePaperTradingFailed_def
  by (rule safe_withPipeline, rule safe_pre [OF spec_failPipeline [OF active_unsettled]], simp, simp)+

lemma safe_handlePaperTradingComplete:
  "safe (unsettled pid) (handlePaperTradingComplete now sessionId pid metrics stoppedReason)"
  unfolding handlePaperTradingComplete_def
proof (rule safe_withPipeline, goal_cases)
  case (1 found)
  let ?p = "found\<lparr>pl_stageResults := Some ((stageResults found)
    \<lparr>rs_paperTrading := Some (paperResult found sessionId metrics stoppedReason now)\<rparr>)\<rparr>"
  show ?case
  proof (cases "settled found")
    case True
    with 1 show ?thesis by (intro spec_absurd) (auto simp: unsettled_def)
  next
    case False
    then have "\<not> settled ?p" by (simp add: settled_def)
    then show ?thesis
      unfolding Let_def
      by (intro spec_andThen [OF spec_save_results])
        (auto simp: case_prod_beta intro: safe_return spec_rejectPipeline spec_completePipeline
          spec_markInconclusive)
  qed
qed

section \<open>Calls of the interface\<close>

lemma spec_require:
  "(\<And>rs. P rs \<Longrightarrow> X rs) \<Longrightarrow>
   spec P (requirePipeline pid F) (\<lambda>p rs. P rs \<and> F p \<and> p \<in> set rs) X"
  unfolding requirePipeline_def
  by (rule spec_andThen [OF spec_find]) (auto intro: spec_return spec_throw split: option.splits)

lemma spec_findOne:
  "spec P (Pipeline_findOne pid u) (\<lambda>p rs. P rs \<and> (pl_id p = pid \<and> pl_userId p = u) \<and> p \<in> set rs) (\<lambda>_. True)"
  "spec P (findOneAdmin pid) (\<lambda>p rs. P rs \<and> pl_id p = pid \<and> p \<in> set rs) (\<lambda>_. True)"
  unfolding Pipeline_findOne_def findOneAdmin_def by (rule spec_require; simp)+

lemma safe_findOne: "safe P (Pipeline_findOne pid u)" "safe P (findOneAdmin pid)"
  by (rule safe_weaken [OF spec_findOne(1)], rule safe_weaken [OF spec_findOne(2)])

lemma spec_then_findOne:
  "spec P m Q (\<lambda>_. True) \<Longrightarrow> safe P (andThen m (\<lambda>_. Pipeline_findOne pid u))"
  "spec P m Q (\<lambda>_. True) \<Longrightarrow> safe P (andThen m (\<lambda>_. findOneAdmin pid))"
  by (erule spec_andThen, rule safe_findOne)+

lemma safe_cancelInternal:
  "safe (\<lambda>rs. p \<in> set rs) (cancelPipelineInternal svc now p reason)"
proof (cases "pl_status p \<in> {COMPLETED, CANCELLED, REJECTED, FAILED}")
  case True
  then show ?thesis by (simp add: cancelPipelineInternal_def safe_throw)
next
  case False
  let ?p = "p\<lparr>pl_status := CANCELLED, pl_completedAt := Some now, pl_failureReason := Some reason\<rparr>"
  have cancel: "spec (\<lambda>rs. p \<in> set rs) (andCatch (cancelCurrentStage svc p) (\<lambda>_. return ()))
      (\<lambda>_ rs. p \<in> set rs) (\<lambda>_. True)"
    by (rule spec_andCatch [OF spec_cancelCurrentStage [where X = "\<lambda>rs. p \<in> set rs"]])
      (auto intro: spec_return)
  have mark: "spec (\<lambda>rs. p \<in> set rs) (save ?p) (\<lambda>_ rs. ?p \<in> set rs) (\<lambda>_. True)"
    by (rule spec_save) (use False in \<open>auto simp: evolves_def settled_def row_ok_def\<close>)
  have remove: "safe P (removeStageJob svc i stage)" for P i stage
    by (rule safe_weaken [OF spec_removeStageJob [where X = "\<lambda>_. True"]]) simp
  from False have "cancelPipelineInternal svc now p reason =
      andThen (andCatch (cancelCurrentStage svc p) (\<lambda>_. return ()))
        (\<lambda>_. andThen (save ?p) (\<lambda>_. removeStageJob svc (pl_id p) (pl_currentStage p)))"
    by (simp add: cancelPipelineInternal_def)
  then show ?thesis
    using spec_andThen [OF cancel spec_andThen [OF mark remove]] by simp
qed

lemma safe_cancelPipeline:
  "safe P (cancelPipeline svc now pid u)" "safe P (cancelPipelineAdmin svc now pid)"
  unfolding cancelPipeline_def cancelPipelineAdmin_def
  by (rule spec_andThen [OF spec_findOne(1)], rule spec_then_findOne,
      rule safe_pre [OF safe_cancelInternal], simp)
    (rule spec_andThen [OF spec_findOne(2)], rule spec_then_findOne,
      rule safe_pre [OF safe_cancelInternal], simp)

lemma safe_mark_failed:
  "safe (unsettled pid) (updatePipeline pid (\<lambda>q. q\<lparr>pl_status := FAILED, pl_failureReason := Some reason,
     pl_completedAt := Some now\<rparr>))"
  unfolding unsettled_def
  by (rule spec_weaken [OF spec_update [where F = "\<lambda>q. \<not> settled q"]])
    (auto simp: evolves_def settled_def row_ok_def)

lemma safe_startPipeline: "safe P (startPipeline svc now pid u)"
  unfolding startPipeline_def
proof (rule spec_andThen [OF spec_findOne(1)], goal_cases)
  case (1 p)
  let ?p = "p\<lparr>pl_status := RUNNING, pl_startedAt := Some (nullish (pl_startedAt p) now),
    pl_stageTransitionedAt := Some (nullish (pl_stageTransitionedAt p) now)\<rparr>"
  have start: "safe (\<lambda>rs. P rs \<and> pl_id p = pid \<and> pl_userId p = u \<and> p \<in> set rs)
      (andThen (save ?p) (\<lambda>_. andThen (emit e) (\<lambda>_.
        andThen (andCatch (enqueueStageJob svc ?p (pl_currentStage p) u) (\<lambda>err.
             andThen (updatePipeline pid (\<lambda>q. q\<lparr>pl_status := FAILED,
                        pl_failureReason := Some (EnqueueFailed err), pl_completedAt := Some now\<rparr>))
               (\<lambda>_. throw err))) (\<lambda>_. Pipeline_findOne pid u))))"
    if s: "\<not> settled p" for e
  proof (cases "pl_id p = pid")
    case False
    then show ?thesis by (intro spec_absurd) simp
  next
    case True
    have "spec (\<lambda>rs. P rs \<and> pl_id p = pid \<and> pl_userId p = u \<and> p \<in> set rs) (save ?p)
        (\<lambda>_ rs. unsettled pid rs) (\<lambda>_. True)"
    proof -
      have "spec (\<lambda>rs. p \<in> set rs) (save ?p) (\<lambda>_ rs. ?p \<in> set rs) (\<lambda>_. True)"
        by (rule spec_save) (use s in \<open>auto simp: evolves_def settled_def row_ok_def\<close>)
      then have "spec (\<lambda>rs. p \<in> set rs) (save ?p) (\<lambda>_ rs. unsettled pid rs) (\<lambda>_. True)"
        using True unsettled_row [of _ ?p]
        by (fastforce simp: spec_def settled_def split: sum.splits)
      then show ?thesis by (rule spec_weaken) auto
    qed
    moreover have "safe (unsettled pid)
        (andCatch (enqueueStageJob svc ?p (pl_currentStage p) u) (\<lambda>err.
           andThen (updatePipeline pid (\<lambda>q. q\<lparr>pl_status := FAILED,
                      pl_failureReason := Some (EnqueueFailed err), pl_completedAt := Some now\<rparr>))
             (\<lambda>_. throw err)))"
    proof (rule spec_andCatch)
      show "spec (unsettled pid) (enqueueStageJob svc ?p (pl_currentStage p) u) (\<lambda>_ _. True) (unsettled pid)"
        by (rule spec_weaken [OF spec_enqueue [where P = "unsettled pid" and X = "unsettled pid"]]) simp_all
      show "safe (unsettled pid) (andThen (updatePipeline pid (\<lambda>q. q\<lparr>pl_status := FAILED,
              pl_failureReason := Some (EnqueueFailed err), pl_completedAt := Some now\<rparr>)) (\<lambda>_. throw err))"
        for err
        by (rule spec_andThen [OF safe_mark_failed safe_throw])
    qed
    ultimately show ?thesis
      by (intro spec_andThen [of _ "save ?p"] spec_andThen [OF spec_emit] spec_then_findOne)
  qed
  show ?case
    by (cases "pl_status p") (auto simp: Let_def settled_def intro!: safe_throw start)
qed

lemma safe_pausePipeline: "safe P (pausePipeline svc pid u)"
  unfolding pausePipeline_def
proof (rule spec_andThen [OF spec_findOne(1)], goal_cases)
  case (1 p)
  have "safe (\<lambda>rs. P rs \<and> (pl_id p = pid \<and> pl_userId p = u) \<and> p \<in> set rs)
      (andThen (save (p\<lparr>pl_status := PAUSED\<rparr>)) (\<lambda>_.
         andThen (pauseCurrentStage svc (p\<lparr>pl_status := PAUSED\<rparr>)) (\<lambda>_. Pipeline_findOne pid u)))"
    if "pl_status p = RUNNING"
    by (intro spec_andThen [OF spec_weaken [OF spec_save [where q = p]]]
        spec_then_findOne [OF spec_pauseCurrentStage])
      (use that in \<open>auto simp: evolves_def settled_def row_ok_def\<close>)
  then show ?case by (simp add: Let_def safe_throw)
qed

lemma safe_resumePipeline: "safe P (resumePipeline svc now pid u)"
  unfolding resumePipeline_def
proof (rule spec_andThen [OF spec_findOne(1)], goal_cases)
  case (1 p)
  let ?p = "p\<lparr>pl_status := RUNNING\<rparr>"
  have "safe (\<lambda>rs. P rs \<and> (pl_id p = pid \<and> pl_userId p = u) \<and> p \<in> set rs)
      (andThen (save ?p) (\<lambda>_. andThen (resumeCurrentStage svc now u ?p) (\<lambda>_. Pipeline_findOne pid u)))"
    if s: "pl_status p = PAUSED"
  proof (rule spec_andThen)
    show "spec (\<lambda>rs. P rs \<and> (pl_id p = pid \<and> pl_userId p = u) \<and> p \<in> set rs) (save ?p)
        (\<lambda>_ rs. ?p \<in> set rs) (\<lambda>_. True)"
      by (rule spec_weaken [OF spec_save [where q = p]])
        (use s in \<open>auto simp: evolves_def settled_def row_ok_def\<close>)
    show "safe (\<lambda>rs. ?p \<in> set rs) (andThen (resumeCurrentStage svc now u ?p) (\<lambda>_. Pipeline_findOne pid u))"
      by (rule spec_then_findOne [OF safe_resumeCurrentStage]) (simp add: settled_def)
  qed
  then show ?case by (simp add: Let_def safe_throw)
qed

lemma safe_skipStage: "safe P (skipStage svc now pid u)"
  unfolding skipStage_def
proof (rule spec_andThen [OF spec_findOne(1)], goal_cases)
  case (1 p)
  have "safe (\<lambda>rs. P rs \<and> (pl_id p = pid \<and> pl_userId p = u) \<and> p \<in> set rs)
      (andThen (cancelCurrentStage svc p) (\<lambda>_.
         andThen (advanceToNextStage svc now p) (\<lambda>_. Pipeline_findOne pid u)))"
    if "active p"
    by (rule spec_andThen [OF spec_cancelCurrentStage])
      (auto intro: spec_then_findOne safe_pre [OF safe_advance [OF active_unsettled [OF that]]])
  then show ?case by (simp add: safe_throw)
qed

lemma safe_recordOptimizationSkipped: "safe P (recordOptimizationSkipped now pid)"
  unfolding recordOptimizationSkipped_def
  by (rule safe_withPipeline) (rule safe_weaken [OF spec_save_results], simp_all)

section \<open>The worker\<close>

lemma safe_failJob: "safe (unsettled pid) (failJob now pid err)"
  unfolding failJob_def by (rule spec_andThen [OF safe_mark_failed safe_throw])

lemma safe_processJob: "safe P (processJob svc now job)"
  unfolding processJob_def
proof (rule spec_andThen [OF spec_find], goal_cases)
  case (1 found)
  let ?pid = "jd_pipelineId job"
  have run: "safe (unsettled ?pid)
      (andThen (andCatch (executeStage svc ?pid (jd_stage job)) (failJob now ?pid)) (\<lambda>_. return False))"
    by (rule spec_andThen [OF spec_andCatch [OF spec_executeStage safe_failJob] safe_return])
  show ?case
  proof (cases found)
    case None
    then show ?thesis by (simp add: safe_return)
  next
    case (Some p)
    have "unsettled ?pid rs" if "rows_ok rs" "pl_id p = ?pid" "p \<in> set rs" "pl_status p = RUNNING" for rs
      using unsettled_row [OF that(1,3)] that(2,4) by (simp add: settled_def)
    then show ?thesis
      using Some by (auto intro: safe_return spec_weaken [OF run])
  qed
qed

lemma safe_processRetry: "safe (unsettled (jd_pipelineId job)) (processRetry svc now job)"
proof -
  let ?pid = "jd_pipelineId job"
  have "spec (unsettled ?pid)
      (andThen (findPipeline (\<lambda>p. pl_id p = ?pid)) (\<lambda>retried.
         case retried of None \<Rightarrow> throw (StillPending ?pid)
         | Some pipeline \<Rightarrow> if pl_status pipeline \<noteq> RUNNING then throw (StillPending ?pid)
                            else executeStage svc ?pid (jd_stage job))) (\<lambda>_ _. True) (unsettled ?pid)"
    by (rule spec_andThen [OF spec_find])
      (auto split: option.splits intro!: spec_throw
        spec_weaken [OF spec_executeStage [where L = "unsettled ?pid"]])
  from spec_andCatch [OF this safe_failJob] show ?thesis
    unfolding processRetry_def .
qed

lemma safe_listen:
  assumes "\<And>sessionId pid metrics reason. event = PaperTradingCompletedEvent sessionId pid metrics reason \<Longrightarrow>
    (\<And>rs. P rs \<Longrightarrow> unsettled pid rs)"
  shows "safe P (listen svc now event)"
proof -
  have "safe P (stageEventHandler svc now event)"
    using assms
    by (cases event)
      (auto intro: safe_return safe_failures safe_handleOptimizationComplete safe_handleBacktestComplete
        safe_pre [OF safe_handlePaperTradingComplete])
  then show ?thesis
    unfolding listen_def by (rule spec_andCatch) (rule safe_return)
qed

definition unreported :: "string \<Rightarrow> Pipeline list \<Rightarrow> bool" where
  "unreported pid rs \<longleftrightarrow> (\<forall>p \<in> set rs. pl_id p = pid \<longrightarrow> pl_summaryReport p = None \<and> pl_currentStage p = STAGE_COMPLETED)"

lemma safe_generateSummaryReport: "safe (unreported pid) (generateSummaryReport pid)"
  unfolding generateSummaryReport_def
proof (rule spec_andThen [OF spec_find], goal_cases)
  case (1 found)
  show ?case
  proof (cases found)
    case (Some p)
    show ?thesis
    proof (cases "pl_summaryReport p = None \<and> pl_currentStage p = STAGE_COMPLETED")
      case False
      then show ?thesis using Some by (intro spec_absurd) (auto simp: unreported_def)
    next
      case True
      have "safe (\<lambda>rs. p \<in> set rs) (andThen (save (p\<lparr>pl_summaryReport := Some report,
            pl_recommendation := (if pl_recommendation p \<noteq> Some INCONCLUSIVE_RETRY
              then Some (sy_recommendation report) else pl_recommendation p)\<rparr>)) (\<lambda>_. return report))" for report
        by (rule spec_andThen [OF spec_save])
          (use True in \<open>auto simp: evolves_def recommends_same_def row_ok_def intro: safe_return split: PipelineStatus.splits\<close>)
      note step = safe_pre [OF this, of "\<lambda>rs. unreported pid rs \<and> pl_id p = pid \<and> p \<in> set rs"]
      show ?thesis
      proof (cases "pl_stageResults p")
        case None
        then show ?thesis using Some by (simp add: safe_throw)
      next
        case (Some results)
        then show ?thesis using \<open>found = Some p\<close> step [of "summaryOf p results"] by (simp add: Let_def)
      qed
    qed
  qed (simp add: safe_throw)
qed

lemma safe_getReport: "safe P (getReport pid)"
  unfolding getReport_def
proof (rule spec_andThen [OF spec_find], goal_cases)
  case (1 found)
  show ?case
  proof (cases found)
    case (Some p)
    have "unreported pid rs" if "rows_ok rs" "pl_id p = pid" "p \<in> set rs" "pl_summaryReport p = None" "pl_currentStage p = STAGE_COMPLETED" for rs
      using rows_ok_unique [OF that(1) _ that(3)] that(2,4,5) by (auto simp: unreported_def)
    then show ?thesis using Some
      by (auto intro!: safe_return spec_andThen [OF spec_weaken [OF safe_generateSummaryReport]])
  qed (simp add: safe_throw)
qed

lemma safe_watchdogFails: "safe P (watchdogFails now pid stage reason)"
proof -
  have "spec (\<lambda>rs. \<forall>q \<in> set rs. pl_id q = pid \<longrightarrow> True) (watchdogFails now pid stage reason) (\<lambda>_ _. True) (\<lambda>_. True)"
    unfolding watchdogFails_def
    by (rule spec_update) (auto simp: evolves_def settled_def row_ok_def)
  then show ?thesis by (rule spec_weaken) simp_all
qed

section \<open>Steps and runs\<close>

datatype PipelineCall =
    CreateCall "StrategyConfigRef list" string CreatePipelineInput string
  | StartCall string string | PauseCall string string | ResumeCall string string
  | CancelCall string string | CancelAdminCall string | SkipCall string string
  | DeleteCall string string | SkippedCall string
  | WorkerCall PipelineJobData | WorkerRetryCall PipelineJobData | EventCall StageEvent
  | ReportCall string | WatchdogCall string "PipelineStage option" string | PruneCall "string \<Rightarrow> time_ms" time_ms

fun pipelineCall :: "Services \<Rightarrow> time_ms \<Rightarrow> PipelineCall \<Rightarrow> PipelineState \<Rightarrow> PipelineState" where
  "pipelineCall svc now (CreateCall configs newId dto u) s = snd (createPipeline configs newId dto u s)"
| "pipelineCall svc now (StartCall pid u) s = snd (startPipeline svc now pid u s)"
| "pipelineCall svc now (PauseCall pid u) s = snd (pausePipeline svc pid u s)"
| "pipelineCall svc now (ResumeCall pid u) s = snd (resumePipeline svc now pid u s)"
| "pipelineCall svc now (CancelCall pid u) s = snd (cancelPipeline svc now pid u s)"
| "pipelineCall svc now (CancelAdminCall pid) s = snd (cancelPipelineAdmin svc now pid s)"
| "pipelineCall svc now (SkipCall pid u) s = snd (skipStage svc now pid u s)"
| "pipelineCall svc now (DeleteCall pid u) s = snd (deletePipeline pid u s)"
| "pipelineCall svc now (SkippedCall pid) s = snd (recordOptimizationSkipped now pid s)"
| "pipelineCall svc now (WorkerCall job) s = snd (processJob svc now job s)"
| "pipelineCall svc now (WorkerRetryCall job) s = snd (processRetry svc now job s)"
| "pipelineCall svc now (EventCall event) s = snd (listen svc now event s)"
| "pipelineCall svc now (ReportCall pid) s = snd (getReport pid s)"
| "pipelineCall svc now (WatchdogCall pid stage reason) s = snd (watchdogFails now pid stage reason s)"
| "pipelineCall svc now (PruneCall updatedAt cutoff) s = prunePipelines updatedAt cutoff s"

text \<open>
  Two calls do not look at the status they overwrite: the completion of a paper-trading session
  and the second step of a worker. They are admissible for a row that is not settled; the theory
  \<^verbatim>\<open>PipelineGate\<close> shows what the first does to one that is.
\<close>

fun admissible :: "PipelineCall \<Rightarrow> PipelineState \<Rightarrow> bool" where
  "admissible (EventCall (PaperTradingCompletedEvent sessionId pid metrics reason)) s \<longleftrightarrow>
     unsettled pid (st_pipelines s)"
| "admissible (WorkerRetryCall job) s \<longleftrightarrow> unsettled (jd_pipelineId job) (st_pipelines s)"
| "admissible _ s \<longleftrightarrow> True"

fun newIds :: "PipelineCall \<Rightarrow> string set" where
  "newIds (CreateCall configs newId dto u) = {newId}"
| "newIds _ = {}"

text \<open>A step of the machine, with the ids that the database has given out so far.\<close>

inductive pipeline_step :: "string set \<times> PipelineState \<Rightarrow> string set \<times> PipelineState \<Rightarrow> bool" where
  call: "newIds c \<inter> used = {} \<Longrightarrow> admissible c s \<Longrightarrow>
    pipeline_step (used, s) (used \<union> newIds c, pipelineCall svc now c s)"

inductive_cases pipeline_stepE: "pipeline_step (used, s) (used', s')"

definition ids :: "PipelineState \<Rightarrow> string set" where
  "ids s = pl_id ` set (st_pipelines s)"

text \<open>From one state to a later one: rows of the same id evolve, and no deleted id comes back.\<close>

definition later :: "string set \<times> PipelineState \<Rightarrow> string set \<times> PipelineState \<Rightarrow> bool" where
  "later x y \<longleftrightarrow> fst x \<subseteq> fst y \<and> ids (snd y) \<inter> fst x \<subseteq> ids (snd x) \<and>
     (\<forall>p \<in> set (st_pipelines (snd x)). \<forall>q \<in> set (st_pipelines (snd y)). pl_id q = pl_id p \<longrightarrow> evolves p q)"

definition state_ok :: "string set \<times> PipelineState \<Rightarrow> bool" where
  "state_ok x \<longleftrightarrow> rows_ok (st_pipelines (snd x)) \<and> ids (snd x) \<subseteq> fst x"

lemma later_refl: "state_ok x \<Longrightarrow> later x x"
  by (auto simp: later_def state_ok_def dest: rows_ok_unique)

lemma later_trans:
  assumes "later x y" "later y z" "state_ok x"
  shows "later x z"
proof -
  have "evolves p r" if pr: "p \<in> set (st_pipelines (snd x))" "r \<in> set (st_pipelines (snd z))" "pl_id r = pl_id p" for p r
  proof -
    have "pl_id p \<in> fst x" using pr(1) assms(3) by (auto simp: state_ok_def ids_def)
    then have "pl_id r \<in> fst y" using assms(1) pr(3) by (auto simp: later_def)
    moreover have "pl_id r \<in> ids (snd z)" using pr(2) by (simp add: ids_def)
    ultimately have "pl_id r \<in> ids (snd z) \<inter> fst y" by simp
    then obtain q where "q \<in> set (st_pipelines (snd y))" "pl_id q = pl_id p"
      using assms(2) pr(3) by (auto simp: later_def ids_def)
    then have "evolves p q" "evolves q r" using assms(1,2) pr by (auto simp: later_def)
    then show ?thesis by (rule evolves_trans)
  qed
  then show ?thesis using assms(1,2) by (fastforce simp: later_def)
qed

lemma safe_step:
  assumes "safe P m" "P (st_pipelines s)" "state_ok (used, s)" "used \<subseteq> used'"
  shows "state_ok (used', snd (m s)) \<and> later (used, s) (used', snd (m s))"
proof -
  obtain r s' where run: "m s = (r, s')" by (cases "m s")
  have "rows_ok (st_pipelines s)" using assms(3) by (simp add: state_ok_def)
  from assms(1) [unfolded spec_def, rule_format, of s r s'] this assms(2) run
  have ok: "rows_ok (st_pipelines s')" and evo: "list_all2 evolves (st_pipelines s) (st_pipelines s')"
    by auto
  have "map pl_id (st_pipelines s') = map pl_id (st_pipelines s)"
    using evo by (rule list_all2_induct) (auto simp: evolves_def)
  then have "pl_id ` set (st_pipelines s') = pl_id ` set (st_pipelines s)" by (metis set_map)
  then have same: "ids s' = ids s" by (simp add: ids_def)
  have "evolves p q" if pq: "p \<in> set (st_pipelines s)" "q \<in> set (st_pipelines s')" "pl_id q = pl_id p" for p q
  proof -
    obtain i where i: "i < length (st_pipelines s)" "st_pipelines s ! i = p"
      using pq(1) by (auto simp: in_set_conv_nth)
    then have e: "evolves p (st_pipelines s' ! i)" and l: "i < length (st_pipelines s')"
      using evo by (auto simp: list_all2_conv_all_nth)
    have "st_pipelines s' ! i = q"
      by (rule rows_ok_unique [OF ok nth_mem [OF l] pq(2)]) (use e pq(3) in \<open>simp add: evolves_def\<close>)
    then show ?thesis using e by simp
  qed
  then show ?thesis
    using ok same assms(3,4) run by (auto simp: state_ok_def later_def)
qed

lemma createPipeline_step:
  assumes "state_ok (used, s)" "newId \<notin> used"
  shows "state_ok (used \<union> {newId}, snd (createPipeline configs newId dto u s)) \<and>
    later (used, s) (used \<union> {newId}, snd (createPipeline configs newId dto u s))"
proof (cases "find (\<lambda>c. sc_id c = ci_strategyConfigId dto) configs")
  case None
  then show ?thesis
    using assms later_refl [OF assms(1)]
    by (auto simp: createPipeline_def throw_def state_ok_def later_def)
next
  case (Some config)
  let ?new = "newPipeline dto newId config u"
  have new: "pl_id ?new = newId" "row_ok ?new" by (simp_all add: newPipeline_def row_ok_def)
  have "st_pipelines (snd (createPipeline configs newId dto u s)) = st_pipelines s @ [?new]"
    using Some by (simp add: createPipeline_def andThen_def Pipeline_findOne_def requirePipeline_def
        findPipeline_def throw_def return_def split: option.splits)
  then show ?thesis
    using assms new by (auto simp: state_ok_def later_def rows_ok_def ids_def distinct_map dest: inj_onD)
qed

lemma deletePipeline_step:
  assumes "state_ok (used, s)"
  shows "state_ok (used, snd (deletePipeline pid u s)) \<and> later (used, s) (used, snd (deletePipeline pid u s))"
proof -
  obtain P where "st_pipelines (snd (deletePipeline pid u s)) = filter P (st_pipelines s)"
  proof (cases "find (\<lambda>p. pl_id p = pid \<and> pl_userId p = u) (st_pipelines s)")
    case None
    then show thesis
      by (intro that [of "\<lambda>_. True"]) (simp add: deletePipeline_def andThen_def Pipeline_findOne_def
          requirePipeline_def findPipeline_def throw_def)
  next
    case (Some p)
    then show thesis
      by (intro that [of "\<lambda>q. pl_status p = RUNNING \<or> pl_id q \<noteq> pl_id p"])
        (auto simp: deletePipeline_def andThen_def Pipeline_findOne_def requirePipeline_def
          findPipeline_def throw_def return_def)
  qed
  then show ?thesis
    using assms
    by (auto simp: state_ok_def later_def rows_ok_def ids_def distinct_map list_all_iff
        intro: inj_on_subset dest: inj_onD)
qed

lemma prunePipelines_step:
  assumes "state_ok (used, s)"
  shows "state_ok (used, prunePipelines updatedAt cutoff s) \<and> later (used, s) (used, prunePipelines updatedAt cutoff s)"
  using assms
  by (auto simp: prunePipelines_def state_ok_def later_def rows_ok_def ids_def distinct_map list_all_iff
      intro: inj_on_subset dest: inj_onD)

lemma pipeline_step_ok:
  assumes "pipeline_step x y" "state_ok x"
  shows "state_ok y \<and> later x y"
  using assms
proof (induction rule: pipeline_step.induct)
  case (call c used s svc now)
  note step = safe_step [OF _ _ call.prems, where used' = "used \<union> newIds c"]
  show ?case
  proof (cases c)
    case (CreateCall configs newId dto u)
    then show ?thesis using createPipeline_step [OF call.prems] call.hyps(1) by simp
  next
    case (DeleteCall pid u)
    then show ?thesis using deletePipeline_step [OF call.prems] by simp
  next
    case (PruneCall updatedAt cutoff)
    then show ?thesis using prunePipelines_step [OF call.prems] by simp
  next
    case (EventCall event)
    have "safe (\<lambda>rs. case event of PaperTradingCompletedEvent sid pid m r \<Rightarrow> unsettled pid rs | _ \<Rightarrow> True)
        (listen svc now event)"
      by (rule safe_listen) simp
    from step [OF this] show ?thesis
      using call.hyps(2) EventCall by (cases event) simp_all
  next
    case (WorkerRetryCall job)
    then show ?thesis using step [OF safe_processRetry [of job]] call.hyps(2) by simp
  qed (use step [of "\<lambda>_. True"] in \<open>auto intro: safe_startPipeline safe_pausePipeline safe_resumePipeline
    safe_cancelPipeline safe_skipStage safe_recordOptimizationSkipped safe_processJob
    safe_getReport safe_watchdogFails\<close>)
qed

lemma pipeline_run_ok:
  assumes "pipeline_step\<^sup>*\<^sup>* x y" "state_ok x"
  shows "state_ok y \<and> later x y"
  using assms(1)
proof (induction rule: rtranclp_induct)
  case base
  then show ?case using assms(2) later_refl by blast
next
  case (step y z)
  then show ?case using pipeline_step_ok [OF step.hyps(2)] later_trans assms(2) by blast
qed

definition emptyState :: PipelineState where
  "emptyState = \<lparr>st_pipelines = [], st_events = [], st_calls = []\<rparr>"

lemma state_ok_empty [simp]: "state_ok ({}, emptyState)"
  by (simp add: state_ok_def rows_ok_def ids_def emptyState_def)

section \<open>Properties\<close>

text \<open>Concrete services, configuration and pipelines.\<close>

definition quiet_services :: Services where
  "quiet_services =
     \<lparr>sv_call = (\<lambda>_. None), sv_startOptimization = (\<lambda>_. Inr ''run1''), sv_createBacktest = (\<lambda>_. Inr ''bt1''),
      sv_startPaperTrading = (\<lambda>_. Inr ''session1''), sv_getBacktest = (\<lambda>_. Inr BS_RUNNING),
      sv_selectExchangeKey = (\<lambda>_. Inr ''key1''), sv_optimizableParameters = (\<lambda>_. Some 2),
      sv_defaultDatasetId = Some ''data1'', sv_coinSymbolFilter = (\<lambda>_. None), sv_riskLevel = (\<lambda>_. 3),
      sv_marketRegime = Some NORMAL, sv_correlation = (\<lambda>_. Some 0)\<rparr>"

definition sample_config :: StrategyConfigRef where
  "sample_config = \<lparr>sc_id = ''c1'', sc_algorithmId = ''a1'', sc_version = ''1'', sc_marketType = None,
     sc_defaultLeverage = None\<rparr>"

definition sample_stages :: PipelineStageConfig where
  "sample_stages =
     \<lparr>psc_optimization = None,
      psc_historical = \<lparr>bc_startDate = ''d0'', bc_endDate = ''d1'', bc_initialCapital = 1000,
        bc_tradingFee = None, bc_marketDataSetId = None\<rparr>,
      psc_liveReplay = \<lparr>bc_startDate = ''d1'', bc_endDate = ''d2'', bc_initialCapital = 1000,
        bc_tradingFee = None, bc_marketDataSetId = None, bc_enablePacing = None, bc_pacingSpeed = None\<rparr>,
      psc_paperTrading = \<lparr>pc_initialCapital = 1000, pc_duration = ''7d'', pc_tradingFee = None,
        pc_stopMaxDrawdown = None, pc_stopTargetReturn = None, pc_tickIntervalMs = None,
        pc_minTrades = None\<rparr>\<rparr>"

definition sample_input :: CreatePipelineInput where
  "sample_input = \<lparr>ci_name = ''P'', ci_description = None, ci_strategyConfigId = ''c1'',
     ci_stageConfig = sample_stages, ci_progressionRules = None, ci_initialStage = Some HISTORICAL\<rparr>"

definition sample_pipeline :: Pipeline where
  "sample_pipeline = newPipeline sample_input ''p1'' sample_config ''u1''"


lemma sample_steps:
  "pipelineCall quiet_services 0 (CreateCall [sample_config] ''p1'' sample_input ''u1'') emptyState =
     emptyState\<lparr>st_pipelines := [sample_pipeline]\<rparr>"
  "pipelineCall quiet_services 5 (CancelAdminCall ''p1'') (emptyState\<lparr>st_pipelines := [sample_pipeline]\<rparr>) =
     emptyState\<lparr>st_pipelines := [sample_pipeline\<lparr>pl_status := CANCELLED, pl_completedAt := Some 5,
         pl_failureReason := Some CancelledByAdmin\<rparr>],
       st_calls := [QueueRemove (stageJobId ''p1'' HISTORICAL)]\<rparr>"
  by (simp_all add: createPipeline_def sample_config_def sample_input_def sample_pipeline_def andThen_def
      andCatch_def Pipeline_findOne_def requirePipeline_def findPipeline_def return_def throw_def
      newPipeline_def nullish_def cancelPipelineAdmin_def findOneAdmin_def cancelPipelineInternal_def
      cancelCurrentStage_def whenId_def getStageBacktestId_def save_def removeStageJob_def callService_def
      record_call_def quiet_services_def emptyState_def)


end
