(* ===== verification/PipelineGate.thy ===== *)
theory PipelineGate
  imports PipelineSafety
begin

text \<open>
  What the completion of a stage does to the row of its pipeline: the score gate between the live
  replay and paper trading, and the two completions that do not look at where the pipeline is.
\<close>

section \<open>The row of a pipeline through an operation\<close>

definition rowOf :: "string \<Rightarrow> PipelineState \<Rightarrow> Pipeline option" where
  "rowOf pid s = find (\<lambda>p. pl_id p = pid) (st_pipelines s)"

lemma rowOf_calls [simp]:
  "rowOf pid (s\<lparr>st_events := es\<rparr>) = rowOf pid s" "rowOf pid (s\<lparr>st_calls := cs\<rparr>) = rowOf pid s"
  by (simp_all add: rowOf_def)

lemma find_replace:
  "find (\<lambda>q. pl_id q = pid) (map (\<lambda>q. if pl_id q = pl_id p then p else q) rs) =
     (if pid = pl_id p \<and> find (\<lambda>q. pl_id q = pid) rs \<noteq> None then Some p
      else find (\<lambda>q. pl_id q = pid) rs)"
  by (induction rs) auto

lemma save_effect:
  "fst (save p s) = Inr ()" "st_events (snd (save p s)) = st_events s"
  "st_calls (snd (save p s)) = st_calls s"
  "rowOf pid (snd (save p s)) = (if pid = pl_id p \<and> rowOf pid s \<noteq> None then Some p else rowOf pid s)"
  by (auto simp: save_def rowOf_def find_replace)

lemma andThen_save: "andThen (save p) f s = f () (snd (save p s))"
  by (simp add: andThen_def save_def)

lemma rowOf_found:
  assumes "find P (st_pipelines s) = Some p"
  shows "rowOf (pl_id p) s \<noteq> None" "P p"
  using assms by (auto simp: rowOf_def find_None_iff find_Some_iff intro: nth_mem)

lemma withPipeline_found: "find P (st_pipelines s) = Some p \<Longrightarrow> withPipeline P f s = f p s"
  by (simp add: withPipeline_def andThen_def findPipeline_def)

lemma reject_effect:
  "rowOf pid (snd (rejectPipeline now p reason s)) =
     (if pid = pl_id p \<and> rowOf pid s \<noteq> None
      then Some (p\<lparr>pl_status := REJECTED, pl_completedAt := Some now, pl_failureReason := Some reason,
                   pl_recommendation := Some DO_NOT_DEPLOY\<rparr>)
      else rowOf pid s)"
  "st_calls (snd (rejectPipeline now p reason s)) = st_calls s"
  by (simp_all add: rejectPipeline_def andThen_save emit_def save_effect)

lemma inconclusive_effect:
  "rowOf pid (snd (markInconclusiveAndComplete now p s)) =
     (if pid = pl_id p \<and> rowOf pid s \<noteq> None
      then Some (p\<lparr>pl_status := COMPLETED, pl_currentStage := STAGE_COMPLETED, pl_completedAt := Some now,
                   pl_stageTransitionedAt := Some now, pl_recommendation := Some INCONCLUSIVE_RETRY,
                   pl_pipelineScore := None, pl_scoreGrade := None, pl_scoringRegime := None,
                   pl_scoreDetails := None, pl_failureReason := None\<rparr>)
      else rowOf pid s)"
  by (simp add: markInconclusiveAndComplete_def andThen_save emit_def save_effect)

lemma enqueue_effect:
  "rowOf pid (snd (enqueueStageJob svc p stage u s)) = rowOf pid s"
  "st_calls (snd (enqueueStageJob svc p stage u s)) = st_calls s @
     (let job = stageJobId (pl_id p) stage
      in QueueRemove job # (if sv_call svc (QueueRemove job) = None
           then [QueueAdd job \<lparr>jd_pipelineId = pl_id p, jd_userId = u, jd_stage = stage\<rparr>] else []))"
  by (auto simp: enqueueStageJob_def callService_def andThen_def record_call_def return_def throw_def
      Let_def split: option.splits)

text \<open>The row that \<^verbatim>\<open>completePipeline\<close> writes.\<close>

definition completedRow :: "time_ms \<Rightarrow> Pipeline \<Rightarrow> Pipeline" where
  "completedRow now p =
     (let p1 = p\<lparr>pl_status := COMPLETED, pl_currentStage := STAGE_COMPLETED, pl_completedAt := Some now,
                 pl_stageTransitionedAt := Some now,
                 pl_recommendation := Some (generateRecommendation (pl_stageResults p))\<rparr>
      in case rs_scoring (stageResults p) of
           None \<Rightarrow> p1
         | Some scoring \<Rightarrow>
             p1\<lparr>pl_pipelineScore := Some (ps_overallScore scoring), pl_scoreGrade := Some (ps_grade scoring),
                pl_scoringRegime := Some (ps_regime scoring),
                pl_scoreDetails := Some (ps_componentScores scoring)\<rparr>)"

lemma completedRow_fields [simp]:
  "pl_id (completedRow now p) = pl_id p" "pl_status (completedRow now p) = COMPLETED"
  "pl_currentStage (completedRow now p) = STAGE_COMPLETED"
  "pl_stageResults (completedRow now p) = pl_stageResults p"
  "pl_recommendation (completedRow now p) = Some (generateRecommendation (pl_stageResults p))"
  by (simp_all add: completedRow_def Let_def split: option.splits)

lemma complete_effect:
  "rowOf pid (snd (completePipeline now p s)) =
     (if pid = pl_id p \<and> rowOf pid s \<noteq> None then Some (completedRow now p) else rowOf pid s)"
proof -
  have "completePipeline now p = andThen (save (completedRow now p)) (\<lambda>_.
      emit (PipelineCompleted (pl_id p) (generateRecommendation (pl_stageResults p)) False))"
    by (auto simp: completePipeline_def completedRow_def Let_def split: option.splits)
  then show ?thesis by (simp add: andThen_save emit_def save_effect)
qed

text \<open>The row after \<^verbatim>\<open>advanceToNextStage\<close>, whatever becomes of the queue.\<close>

definition advancedRow :: "time_ms \<Rightarrow> Pipeline \<Rightarrow> Pipeline" where
  "advancedRow now p =
     p\<lparr>pl_currentStage := stageOrder ! (stageIndex (pl_currentStage p) + 1), pl_stageTransitionedAt := Some now\<rparr>"

lemma stage_after_paper: "stageIndex g < 4 \<Longrightarrow>
    (stageOrder ! Suc (stageIndex g) = STAGE_COMPLETED) = (g = PAPER_TRADE)"
  by (cases g) (simp_all add: stageOrder_def)

lemma advance_effect:
  assumes "pl_currentStage p \<noteq> STAGE_COMPLETED"
  shows "rowOf pid (snd (advanceToNextStage svc now p s)) =
    (if pid = pl_id p \<and> rowOf pid s \<noteq> None
     then Some (if pl_currentStage p = PAPER_TRADE then completedRow now (advancedRow now p) else advancedRow now p)
     else rowOf pid s)"
proof -
  have last: "stageIndex (pl_currentStage p) < 4"
    using assms by (cases "pl_currentStage p") simp_all
  then have "\<not> length stageOrder - 1 \<le> stageIndex (pl_currentStage p)" by (simp add: stageOrder_def)
  then show ?thesis
    by (auto simp: advanceToNextStage_def Let_def andThen_save stage_after_paper [OF last]
        andThen_def [of "emit _"] emit_def complete_effect enqueue_effect save_effect advancedRow_def
        throw_def return_def)
qed

lemma advance_calls:
  assumes "pl_currentStage p = LIVE_REPLAY" "pl_status p = RUNNING" "pl_userId p \<noteq> []"
  shows "st_calls (snd (advanceToNextStage svc now p s)) = st_calls s @
     (let job = stageJobId (pl_id p) PAPER_TRADE
      in QueueRemove job # (if sv_call svc (QueueRemove job) = None
           then [QueueAdd job \<lparr>jd_pipelineId = pl_id p, jd_userId = pl_userId p, jd_stage = PAPER_TRADE\<rparr>] else []))"
  using assms
  by (simp add: advanceToNextStage_def Let_def andThen_save andThen_def [of "emit _"] emit_def
      enqueue_effect save_effect stageOrder_def)

section \<open>The score gate\<close>

text \<open>Scoring reads the historical result, which the live replay does not touch.\<close>

lemma score_of_scored:
  "pl_pipelineScore (scoredPipeline svc now b m p) =
     Some (ps_overallScore (calculatePipelineScore svc p m now))"
  "rs_scoring (stageResults (scoredPipeline svc now b m p)) = Some (calculatePipelineScore svc p m now)"
  "rs_paperTrading (stageResults (scoredPipeline svc now b m p)) = rs_paperTrading (stageResults p)"
  by (simp_all add: scoredPipeline_def Let_def calculatePipelineScore_def stageResults_def nullish_def
      split: option.splits)

lemma completion_effect:
  assumes row: "find (\<lambda>p. ownsBacktest b type p \<and> active p) (st_pipelines s) = Some p"
    and "sr_totalTrades metrics \<noteq> 0"
  shows "handleBacktestComplete svc now b type metrics s =
    (case type of BT_HISTORICAL \<Rightarrow> historicalComplete svc now b metrics p s
     | BT_LIVE_REPLAY \<Rightarrow> liveReplayComplete svc now b metrics p s)"
  using assms by (simp add: handleBacktestComplete_def withPipeline_found split: BacktestType.splits)


section \<open>Completions that do not look at the pipeline\<close>

text \<open>A completed backtest advances the pipeline from whatever stage it is in, since the row is found by
  the backtest's id and not by its stage: a historical completion that comes late moves a running
  pipeline on from the live replay without a score, and a live replay that completes late
  completes a pipeline that is paper trading without a paper-trading result.\<close>

lemma completions_ignore_stage:
  fixes svc now b type metrics s p
  defines "s' \<equiv> snd (handleBacktestComplete svc now b type metrics s)"
  assumes row: "find (\<lambda>p. ownsBacktest b type p \<and> active p) (st_pipelines s) = Some p"
    and "pl_status p = RUNNING" "pl_currentStage p \<noteq> STAGE_COMPLETED" "sr_totalTrades metrics \<noteq> 0"
    and "type = BT_LIVE_REPLAY \<Longrightarrow> nullish (pr_minimumPipelineScore (pl_progressionRules p)) 30 \<le>
           ps_overallScore (calculatePipelineScore svc p metrics now)"
  shows "\<exists>p'. rowOf (pl_id p) s' = Some p' \<and>
    pl_currentStage p' = stageOrder ! (stageIndex (pl_currentStage p) + 1) \<and>
    pl_status p' = (if pl_currentStage p = PAPER_TRADE then COMPLETED else RUNNING) \<and>
    rs_paperTrading (stageResults p') = rs_paperTrading (stageResults p) \<and>
    (type = BT_HISTORICAL \<longrightarrow> rs_scoring (stageResults p') = rs_scoring (stageResults p))"
proof -
  define q where "q = (case type of BT_LIVE_REPLAY \<Rightarrow> scoredPipeline svc now b metrics p
    | BT_HISTORICAL \<Rightarrow> p\<lparr>pl_stageResults := Some ((stageResults p)
        \<lparr>rs_historical := Some (historicalResult p b metrics now)\<rparr>)\<rparr>)"
  have fields: "pl_id q = pl_id p" "pl_status q = RUNNING" "pl_currentStage q = pl_currentStage p"
    "rs_paperTrading (stageResults q) = rs_paperTrading (stageResults p)"
    "type = BT_HISTORICAL \<Longrightarrow> rs_scoring (stageResults q) = rs_scoring (stageResults p)"
    using assms(3) by (auto simp: q_def score_of_scored split: BacktestType.splits)
      (simp_all add: stageResults_def nullish_def)
  have "s' = snd (advanceToNextStage svc now q (snd (save q s)))"
    unfolding s'_def completion_effect [OF row assms(5)] q_def
    using assms(3,6) by (cases type) (auto simp: historicalComplete_def liveReplayComplete_def
        Let_def andThen_save score_of_scored nullish_def)
  then show ?thesis
    using assms(4) fields rowOf_found(1) [OF row]
    by (auto simp: advance_effect save_effect advancedRow_def stageOrder_def stageResults_def)
qed

text \<open>A paper-trading session that completes after its pipeline has settled still decides its status:
  cancelling a pipeline that is paper trading stops its session, whose completion then turns the
  cancelled pipeline into a rejected one when the metrics miss a threshold, or into a completed
  one when the signals were too few.\<close>

lemma paper_completion_overwrites_outcome:
  fixes now sessionId pid metrics reason s p
  defines "s' \<equiv> snd (handlePaperTradingComplete now sessionId pid metrics reason s)"
  assumes "rowOf pid s = Some p" "settled p"
  shows "\<exists>p'. rowOf pid s' = Some p' \<and>
    pl_status p' =
      (if reason = Some ''insufficient_signals'' then COMPLETED
       else if fst (evaluateStageProgression (paperStageMetrics metrics) (pr_paperTrading (pl_progressionRules p)))
       then pl_status p else REJECTED) \<and>
    pl_recommendation p' =
      (if reason = Some ''insufficient_signals'' then Some INCONCLUSIVE_RETRY
       else if fst (evaluateStageProgression (paperStageMetrics metrics) (pr_paperTrading (pl_progressionRules p)))
       then pl_recommendation p else Some DO_NOT_DEPLOY)"
proof -
  have row: "find (\<lambda>p. pl_id p = pid) (st_pipelines s) = Some p" using assms(2) by (simp add: rowOf_def)
  then have pid: "pl_id p = pid" by (rule rowOf_found)
  have "pl_status p \<noteq> RUNNING" using assms(3) by (auto simp: settled_def)
  then show ?thesis
    using assms(2) pid
    by (auto simp: s'_def handlePaperTradingComplete_def withPipeline_found [OF row] Let_def andThen_save
        inconclusive_effect reject_effect save_effect return_def case_prod_beta)
qed

section \<open>Concrete runs\<close>

definition sample_metrics :: BacktestMetrics where
  "sample_metrics = \<lparr>sr_sharpeRatio = 2, sr_totalReturn = 3 / 10, sr_maxDrawdown = 1 / 10,
     sr_winRate = 6 / 10, sr_totalTrades = 100, bm_winningTrades = 60, bm_losingTrades = 40,
     bm_profitFactor = 2, bm_volatility = 3 / 10\<rparr>"

definition sample_at :: "PipelineStage \<Rightarrow> PipelineStatus \<Rightarrow> PipelineState" where
  "sample_at stage status = emptyState\<lparr>st_pipelines := [sample_pipeline\<lparr>pl_currentStage := stage,
     pl_status := status, pl_liveReplayBacktestId := Some ''bt2''\<rparr>]\<rparr>"

lemma sample_fields [simp]:
  "pl_id sample_pipeline = ''p1''" "pl_userId sample_pipeline = ''u1''"
  "pl_stageResults sample_pipeline = None" "sc_id (pl_strategyConfig sample_pipeline) = ''c1''"
  "pl_progressionRules sample_pipeline = DEFAULT_PROGRESSION_RULES"
  by (simp_all add: sample_pipeline_def newPipeline_def sample_input_def sample_config_def nullish_def)

lemma sample_weighted: "weightedSum (calculateComponentScores (scoringMetricsOf sample_metrics) 0 0) = 100"
  by (simp add: weightedSum_eq scoringMetricsOf_def sample_metrics_def orIfZero_def scoreMetric_def
      scoreMetricInverse_def ratioThresholds_def winRateThresholds_def profitFactorThresholds_def
      wfaThresholds_def stabilityThresholds_def correlationThresholds_def)

lemma sample_score:
  assumes "pl_stageResults p = None"
  shows "ps_overallScore (calculatePipelineScore quiet_services p sample_metrics now) = 100"
  using sample_weighted assms
  by (simp add: calculatePipelineScore_def Let_def stageResults_def nullish_def noStageResults_def
      pipelineDegradation_def toEffectiveDegradation_def quiet_services_def calculateScoreFromMetrics_def
      calculateOverallScore_def js_round_def getRegimeModifier_def)

lemma sample_found:
  assumes "status \<in> {RUNNING, PAUSED}"
  shows "find (\<lambda>p. ownsBacktest ''bt2'' BT_LIVE_REPLAY p \<and> active p) (st_pipelines (sample_at stage status)) =
    Some (hd (st_pipelines (sample_at stage status)))"
  using assms by (auto simp: sample_at_def emptyState_def ownsBacktest_def active_def)


definition poor_paper :: PaperTradingMetrics where
  "poor_paper = \<lparr>pm_initialCapital = 1000, pm_currentPortfolioValue = 1000, pm_totalReturn = 0,
     pm_totalReturnPercent = 0, pm_maxDrawdown = 0, pm_sharpeRatio = None, pm_winRate = 0,
     pm_totalTrades = 0, pm_winningTrades = 0, pm_losingTrades = 0, pm_totalFees = 0, pm_durationHours = 1\<rparr>"

end
