(* ===== verification/Slippage.thy ===== *)
theory Slippage
  imports Prelude
begin

text \<open>
  What a simulated trade pays: the slippage models of
  \<^verbatim>\<open>order/backtest/shared/slippage/slippage.service.ts\<close> with its interface, the spread estimators
  of \<^verbatim>\<open>spread-estimator.ts\<close> and the fees of \<^verbatim>\<open>order/backtest/shared/fees/fee-calculator.service.ts\<close>.
\<close>

section \<open>Data\<close>

datatype SlippageModelType = NO_SLIPPAGE | FIXED | VOLUME_BASED | HISTORICAL_SLIPPAGE | SPREAD_ADJUSTED

record SlippageConfig =
  sl_type :: SlippageModelType
  sl_fixedBps :: "number option"
  sl_baseSlippageBps :: "number option"
  sl_maxSlippageBps :: "number option"
  sl_participationRateLimit :: "number option"
  sl_rejectParticipationRate :: "number option"
  sl_volatilityFactor :: "number option"
  sl_spreadCalibrationFactor :: "number option"
  sl_minSpreadBps :: "number option"

record SpreadEstimationContext =
  se_high :: number
  se_low :: number
  se_close :: number
  se_volume :: "number option"
  se_prevHigh :: "number option"
  se_prevLow :: "number option"

record SlippageResult =
  lr_slippageBps :: number
  lr_executionPrice :: number
  lr_priceImpact :: number
  lr_originalPrice :: number

text \<open>The price of an input may come from the metadata of a signal, where it need not be finite.\<close>

record SlippageInput =
  li_price :: js_number
  li_quantity :: number
  li_isBuy :: bool
  li_dailyVolume :: "number option"
  li_spreadContext :: "SpreadEstimationContext option"

datatype FillStatus = FILLED | PARTIAL | CANCELLED_FILL

datatype FillReason = ExceedsRejection number number | CappedToRate number

record FillAssessment =
  fa_fillable :: bool
  fa_fillableQuantity :: number
  fa_fillStatus :: FillStatus
  fa_participationRate :: number
  fa_reason :: "FillReason option"

definition DEFAULT_SLIPPAGE_CONFIG :: SlippageConfig where
  "DEFAULT_SLIPPAGE_CONFIG =
     \<lparr>sl_type = FIXED, sl_fixedBps = Some 5, sl_baseSlippageBps = None, sl_maxSlippageBps = Some 500,
      sl_participationRateLimit = None, sl_rejectParticipationRate = None,
      sl_volatilityFactor = Some (1 / 10), sl_spreadCalibrationFactor = None, sl_minSpreadBps = None\<rparr>"

text \<open>
  The errors that a trade throws. The last one is none of them: the source goes on with amounts
  that are \<^verbatim>\<open>NaN\<close>, which no \<open>number\<close> is, so the model follows it no further and says so.
\<close>

datatype TradeError = PriceNotPositive | NegativeTradeValue | BadFeeRate | AmountsNotNumbers

section \<open>Spread estimators\<close>

text \<open>
  The estimator of Corwin and Schultz over two candles. Where the logarithms are not of positive
  numbers the source computes with \<^verbatim>\<open>NaN\<close>, which its last test turns into 0: that is the case
  unless all four prices have the same sign.
\<close>

definition estimateSpreadCorwinSchultz :: "number \<Rightarrow> number \<Rightarrow> number \<Rightarrow> number \<Rightarrow> number" where
  "estimateSpreadCorwinSchultz high low prevHigh prevLow =
     (if high \<le> low \<or> prevHigh \<le> prevLow then 0
      else if \<not> (0 < low \<and> 0 < prevLow \<or> high < 0 \<and> prevHigh < 0) then 0
      else let logCurrHL = ln (high / low);
               logPrevHL = ln (prevHigh / prevLow);
               beta = logCurrHL * logCurrHL + logPrevHL * logPrevHL;
               gamma = (ln (max high prevHigh / min low prevLow))\<^sup>2;
               denom = 3 - 2 * sqrt 2;
               alpha = (sqrt 2 * sqrt beta - sqrt beta) / denom - sqrt (gamma / denom)
           in if alpha \<le> 0 then 0
              else let eAlpha = exp alpha;
                       spread = 2 * (eAlpha - 1) / (1 + eAlpha)
                   in if spread < 0 then 0 else spread)"

definition referenceVolumeDefault :: number where
  "referenceVolumeDefault = 1000000"

definition estimateSpreadHighLow ::
    "number \<Rightarrow> number \<Rightarrow> number \<Rightarrow> number option \<Rightarrow> number \<Rightarrow> number" where
  "estimateSpreadHighLow high low close volume referenceVolume =
     (if high \<le> low \<or> close \<le> 0 then 0
      else let spread = (high - low) / close * (3 / 10)
           in case volume of
                None \<Rightarrow> spread
              | Some v \<Rightarrow>
                  if v > 0
                  then spread / min 3 (max (33 / 100) (sqrt (v / referenceVolume)))
                  else spread)"

definition estimateSpreadBps :: "SpreadEstimationContext \<Rightarrow> number \<Rightarrow> number \<Rightarrow> number" where
  "estimateSpreadBps ctx calibrationFactor minSpreadBps =
     (let highLow = estimateSpreadHighLow (se_high ctx) (se_low ctx) (se_close ctx) (se_volume ctx)
                      referenceVolumeDefault;
          spreadFraction =
            (case (se_prevHigh ctx, se_prevLow ctx) of
               (Some prevHigh, Some prevLow) \<Rightarrow>
                 let csSpread = estimateSpreadCorwinSchultz (se_high ctx) (se_low ctx) prevHigh prevLow
                 in if csSpread > 0 then csSpread else highLow
             | _ \<Rightarrow> highLow);
          spreadBps = spreadFraction * 10000 * calibrationFactor
      in if spreadBps < 0 then minSpreadBps else max spreadBps minSpreadBps)"

section \<open>Slippage\<close>

definition Slippage_buildConfig :: "SlippageConfig \<Rightarrow> SlippageConfig" where
  "Slippage_buildConfig config =
     \<lparr>sl_type = sl_type config,
      sl_fixedBps = Some (nullish (sl_fixedBps config) 5),
      sl_baseSlippageBps = Some (nullish (sl_baseSlippageBps config) 5),
      sl_maxSlippageBps = Some (nullish (sl_maxSlippageBps config) 500),
      sl_participationRateLimit = sl_participationRateLimit config,
      sl_rejectParticipationRate = sl_rejectParticipationRate config,
      sl_volatilityFactor = Some (nullish (sl_volatilityFactor config) (1 / 10)),
      sl_spreadCalibrationFactor = Some (nullish (sl_spreadCalibrationFactor config) 1),
      sl_minSpreadBps = Some (nullish (sl_minSpreadBps config) 2)\<rparr>"

text \<open>A daily volume that is absent, zero or negative is not used.\<close>

definition usableVolume :: "number option \<Rightarrow> number option" where
  "usableVolume dailyVolume =
     (case dailyVolume of None \<Rightarrow> None | Some v \<Rightarrow> if v = 0 \<or> v \<le> 0 then None else Some v)"

definition calculateSlippageBps ::
    "number \<Rightarrow> number \<Rightarrow> SlippageConfig \<Rightarrow> number option \<Rightarrow> SpreadEstimationContext option \<Rightarrow> number" where
  "calculateSlippageBps quantity price config dailyVolume spreadContext =
     (let effectiveConfig = Slippage_buildConfig config;
          maxSlippage = nullish (sl_maxSlippageBps effectiveConfig) 500;
          slippageBps =
            (case sl_type effectiveConfig of
               NO_SLIPPAGE \<Rightarrow> 0
             | FIXED \<Rightarrow> nullish (sl_fixedBps effectiveConfig) 5
             | VOLUME_BASED \<Rightarrow>
                 (let orderValue = quantity * price;
                      baseSlippage = nullish (sl_baseSlippageBps effectiveConfig) 5
                  in case usableVolume dailyVolume of
                       None \<Rightarrow> baseSlippage
                     | Some volume \<Rightarrow>
                         let participationRate = orderValue / volume;
                             sigma = nullish (sl_volatilityFactor effectiveConfig) (1 / 10)
                         in baseSlippage + sigma * sqrt participationRate * 10000)
             | HISTORICAL_SLIPPAGE \<Rightarrow> nullish (sl_fixedBps config) 10
             | SPREAD_ADJUSTED \<Rightarrow>
                 (case spreadContext of
                    None \<Rightarrow> nullish (sl_fixedBps effectiveConfig) 5
                  | Some ctx \<Rightarrow>
                      let fullSpreadBps = estimateSpreadBps ctx
                            (nullish (sl_spreadCalibrationFactor effectiveConfig) 1)
                            (nullish (sl_minSpreadBps effectiveConfig) 2);
                          halfSpreadBps = fullSpreadBps / 2
                      in case usableVolume dailyVolume of
                           None \<Rightarrow> halfSpreadBps
                         | Some volume \<Rightarrow> halfSpreadBps + quantity * price / volume * 100))
      in min slippageBps maxSlippage)"

definition applySlippage :: "number \<Rightarrow> number \<Rightarrow> bool \<Rightarrow> number" where
  "applySlippage price slippageBps isBuy =
     (let slippageFactor = slippageBps / 10000
      in if isBuy then price * (1 + slippageFactor) else price * (1 - slippageFactor))"

definition calculateSlippage :: "SlippageInput \<Rightarrow> SlippageConfig \<Rightarrow> TradeError + SlippageResult" where
  "calculateSlippage input config =
     (case li_price input of
        Finite price \<Rightarrow>
          if price \<le> 0 then Inl PriceNotPositive
          else let effectiveConfig = Slippage_buildConfig config;
                   slippageBps = calculateSlippageBps (li_quantity input) price effectiveConfig
                                   (li_dailyVolume input) (li_spreadContext input);
                   executionPrice = applySlippage price slippageBps (li_isBuy input)
               in Inr \<lparr>lr_slippageBps = slippageBps, lr_executionPrice = executionPrice,
                       lr_priceImpact = \<bar>executionPrice - price\<bar> / price, lr_originalPrice = price\<rparr>
      | _ \<Rightarrow> Inl PriceNotPositive)"

definition assessFillability ::
    "number \<Rightarrow> number \<Rightarrow> number option \<Rightarrow> SlippageConfig \<Rightarrow> FillAssessment" where
  "assessFillability orderValue price dailyVolume config =
     (let effectiveConfig = Slippage_buildConfig config;
          orderQuantity = (if price > 0 then orderValue / price else 0);
          filled = (\<lambda>rate. \<lparr>fa_fillable = True, fa_fillableQuantity = orderQuantity,
                            fa_fillStatus = FILLED, fa_participationRate = rate, fa_reason = None\<rparr>)
      in case (if sl_type effectiveConfig \<noteq> VOLUME_BASED then None else usableVolume dailyVolume) of
           None \<Rightarrow> filled 0
         | Some volume \<Rightarrow>
             let rawParticipationRate = orderValue / volume;
                 rejection = sl_rejectParticipationRate effectiveConfig;
                 limit = sl_participationRateLimit effectiveConfig
             in if (case rejection of None \<Rightarrow> False | Some r \<Rightarrow> rawParticipationRate \<ge> r)
                then \<lparr>fa_fillable = False, fa_fillableQuantity = 0, fa_fillStatus = CANCELLED_FILL,
                      fa_participationRate = rawParticipationRate,
                      fa_reason = Some (ExceedsRejection rawParticipationRate (the rejection))\<rparr>
                else if (case limit of None \<Rightarrow> False | Some l \<Rightarrow> rawParticipationRate > l)
                then \<lparr>fa_fillable = True, fa_fillableQuantity = the limit * volume / price,
                      fa_fillStatus = PARTIAL, fa_participationRate = rawParticipationRate,
                      fa_reason = Some (CappedToRate (the limit))\<rparr>
                else filled rawParticipationRate)"

text \<open>\<^verbatim>\<open>slippage-model-type.util.ts\<close>: the names of the models in older records.\<close>

definition mapSlippageModelType :: "string option \<Rightarrow> SlippageModelType" where
  "mapSlippageModelType model =
     (if model = Some ''none'' then NO_SLIPPAGE
      else if model = Some ''volume-based'' then VOLUME_BASED
      else if model = Some ''historical'' then HISTORICAL_SLIPPAGE
      else if model = Some ''spread-adjusted'' then SPREAD_ADJUSTED
      else FIXED)"

section \<open>Fees\<close>

datatype FeeType = FLAT | MAKER_TAKER

record FeeConfig =
  fe_type :: FeeType
  fe_flatRate :: "number option"
  fe_makerRate :: "number option"
  fe_takerRate :: "number option"

datatype FeeOrderType = Maker | Taker

record FeeResult =
  fr_fee :: number
  fr_rate :: number
  fr_orderType :: "FeeOrderType option"

definition DEFAULT_FEE_CONFIG :: FeeConfig where
  "DEFAULT_FEE_CONFIG =
     \<lparr>fe_type = FLAT, fe_flatRate = Some (1 / 1000), fe_makerRate = None, fe_takerRate = None\<rparr>"

definition Fee_buildConfig :: "FeeConfig \<Rightarrow> FeeConfig" where
  "Fee_buildConfig config =
     \<lparr>fe_type = fe_type config, fe_flatRate = Some (nullish (fe_flatRate config) (1 / 1000)),
      fe_makerRate = Some (nullish (fe_makerRate config) (5 / 10000)),
      fe_takerRate = Some (nullish (fe_takerRate config) (1 / 1000))\<rparr>"

definition getRate :: "FeeConfig \<Rightarrow> bool \<Rightarrow> number" where
  "getRate config isMaker =
     (let effectiveConfig = Fee_buildConfig config
      in case fe_type effectiveConfig of
           FLAT \<Rightarrow> nullish (fe_flatRate effectiveConfig) (1 / 1000)
         | MAKER_TAKER \<Rightarrow>
             if isMaker then nullish (fe_makerRate effectiveConfig) (5 / 10000)
             else nullish (fe_takerRate effectiveConfig) (1 / 1000))"

definition calculateFee :: "number \<Rightarrow> bool \<Rightarrow> FeeConfig \<Rightarrow> TradeError + FeeResult" where
  "calculateFee tradeValue isMaker config =
     (if tradeValue < 0 then Inl NegativeTradeValue
      else let effectiveConfig = Fee_buildConfig config;
               rate = getRate effectiveConfig isMaker
           in Inr \<lparr>fr_fee = tradeValue * rate, fr_rate = rate,
                   fr_orderType = (if fe_type effectiveConfig = MAKER_TAKER
                                   then Some (if isMaker then Maker else Taker) else None)\<rparr>)"

definition fromFlatRate :: "number \<Rightarrow> TradeError + FeeConfig" where
  "fromFlatRate rate =
     (if rate < 0 then Inl BadFeeRate
      else Inr \<lparr>fe_type = FLAT, fe_flatRate = Some rate, fe_makerRate = None, fe_takerRate = None\<rparr>)"

text \<open>The fee of a trade at a flat rate, as the executor computes it.\<close>

definition flatFee :: "number \<Rightarrow> number \<Rightarrow> TradeError + number" where
  "flatFee rate tradeValue =
     (case fromFlatRate rate of
        Inl e \<Rightarrow> Inl e
      | Inr config \<Rightarrow>
          (case calculateFee tradeValue False config of Inl e \<Rightarrow> Inl e | Inr r \<Rightarrow> Inr (fr_fee r)))"

section \<open>Lemmas\<close>

lemma buildConfig_idem [simp]: "Slippage_buildConfig (Slippage_buildConfig c) = Slippage_buildConfig c"
  by (simp add: Slippage_buildConfig_def)

lemma flatFee_simp [simp]:
  "flatFee rate v = (if rate < 0 then Inl BadFeeRate else if v < 0 then Inl NegativeTradeValue else Inr (v * rate))"
  by (simp add: flatFee_def fromFlatRate_def calculateFee_def getRate_def Fee_buildConfig_def)

text \<open>
  The configuration says \<open>historical\<close> slippage defaults to 10 basis points, and
  \<^verbatim>\<open>calculateSlippageBps\<close> alone does; called by \<^verbatim>\<open>calculateSlippage\<close> it finds the default of 5
  that \<^verbatim>\<open>buildConfig\<close> has put there.
\<close>

lemma historical_default_lost:
  assumes "sl_type config = HISTORICAL_SLIPPAGE" "sl_fixedBps config = None" "sl_maxSlippageBps config = None"
  shows "calculateSlippageBps q p config v ctx = 10"
    and "0 < p \<Longrightarrow> map_sum id lr_slippageBps (calculateSlippage
      \<lparr>li_price = Finite p, li_quantity = q, li_isBuy = b, li_dailyVolume = v, li_spreadContext = ctx\<rparr> config) = Inr 5"
  using assms by (simp_all add: calculateSlippageBps_def calculateSlippage_def Slippage_buildConfig_def Let_def)

lemma spreadHighLow_nonneg: "0 \<le> estimateSpreadHighLow h l c v r"
proof -
  have "0 < min 3 (max (33 / 100) y)" for y :: real by (simp add: min_def max_def)
  then show ?thesis
    by (auto simp: estimateSpreadHighLow_def Let_def intro!: divide_nonneg_pos split: option.splits)
qed

lemma spreadCS_nonneg: "0 \<le> estimateSpreadCorwinSchultz h l ph pl"
  by (simp add: estimateSpreadCorwinSchultz_def Let_def)

lemma spreadBps_floor: "minBps \<le> estimateSpreadBps ctx factor minBps"
  by (simp add: estimateSpreadBps_def Let_def)

text \<open>Settings that the constructor of a backtest can give: none is negative.\<close>

definition sane_slippage :: "SlippageConfig \<Rightarrow> bool" where
  "sane_slippage config \<longleftrightarrow>
     (\<forall>v \<in> {sl_fixedBps config, sl_baseSlippageBps config, sl_maxSlippageBps config,
              sl_volatilityFactor config, sl_minSpreadBps config,
              sl_participationRateLimit config}. \<forall>x. v = Some x \<longrightarrow> 0 \<le> x)"

lemma usableVolume_pos: "usableVolume v = Some x \<Longrightarrow> 0 < x"
  by (auto simp: usableVolume_def split: option.splits if_splits)

lemma sane_nullish: "(\<And>x. v = Some x \<Longrightarrow> 0 \<le> x) \<Longrightarrow> 0 \<le> d \<Longrightarrow> (0::number) \<le> nullish v d"
  by (cases v) auto

lemma sane_fields:
  assumes "sane_slippage c"
  shows "0 \<le> nullish (sl_fixedBps c) 5" "0 \<le> nullish (sl_fixedBps c) 10"
    "0 \<le> nullish (sl_baseSlippageBps c) 5" "0 \<le> nullish (sl_maxSlippageBps c) 500"
    "0 \<le> nullish (sl_volatilityFactor c) (1 / 10)" "0 \<le> nullish (sl_minSpreadBps c) 2"
  using assms unfolding sane_slippage_def by (auto intro!: sane_nullish)

lemma sane_buildConfig [simp]: "sane_slippage c \<Longrightarrow> sane_slippage (Slippage_buildConfig c)"
  using sane_fields [of c] by (auto simp: sane_slippage_def Slippage_buildConfig_def)

lemma calculateSlippageBps_bounds:
  assumes "sane_slippage c" "0 \<le> q" "0 \<le> p"
  shows "0 \<le> calculateSlippageBps q p c v ctx"
    and "calculateSlippageBps q p c v ctx \<le> nullish (sl_maxSlippageBps c) 500"
proof -
  note f = sane_fields [OF assms(1)]
  have spread: "0 \<le> estimateSpreadBps x k (nullish (sl_minSpreadBps c) 2)" for x k
    using spreadBps_floor [of "nullish (sl_minSpreadBps c) 2" x k] f(6) by linarith
  have "0 \<le> q * p / x" "0 \<le> q * p * 100 / x" if "usableVolume v = Some x" for x
    using usableVolume_pos [OF that] assms(2,3) by simp_all
  then show "0 \<le> calculateSlippageBps q p c v ctx"
    using f spread by (auto simp: calculateSlippageBps_def Slippage_buildConfig_def Let_def
        intro!: add_nonneg_nonneg split: SlippageModelType.splits option.splits)
  show "calculateSlippageBps q p c v ctx \<le> nullish (sl_maxSlippageBps c) 500"
    by (simp add: calculateSlippageBps_def Slippage_buildConfig_def Let_def)
qed

lemma calculateSlippageBps_mono:
  assumes "sane_slippage c" "0 \<le> q" "q \<le> q'" "0 \<le> p"
  shows "calculateSlippageBps q p c v ctx \<le> calculateSlippageBps q' p c v ctx"
proof -
  have rate: "q * p / x \<le> q' * p / x" if "usableVolume v = Some x" for x
    using usableVolume_pos [OF that] assms(3,4) by (simp add: divide_right_mono mult_right_mono)
  define k where "k = nullish (sl_volatilityFactor c) (1 / 10)"
  have "0 \<le> k" using sane_fields [OF assms(1)] by (simp add: k_def)
  then have "min (b + k * sqrt (q * p / x) * 10000) m \<le> min (b + k * sqrt (q' * p / x) * 10000) m"
    if "usableVolume v = Some x" for x b m
    using rate [OF that] by (intro min.mono) (simp_all add: mult_left_mono)
  moreover have "min (b + q * p / x * 100) m \<le> min (b + q' * p / x * 100) m"
    if "usableVolume v = Some x" for x b m
    using rate [OF that] by (intro min.mono add_left_mono mult_right_mono) simp_all
  ultimately show ?thesis
    by (cases "sl_type c"; cases "usableVolume v"; cases ctx)
      (simp_all only: calculateSlippageBps_def Slippage_buildConfig_def Let_def k_def
        SlippageConfig.simps SlippageModelType.case option.case nullish_simps order_refl)
qed

text \<open>A simulated trade never fills better than the market: on non-negative settings, a
  buy pays at least the price and a sell gets at most it, by no more than the cap on the
  slippage, and a larger order never gets a better price; a price that is not positive and
  finite is refused.\<close>

lemma execution_price_adverse:
  fixes config p q q' v ctx
  assumes "sane_slippage config" "0 < p" "0 \<le> q" "q \<le> q'"
  defines "cap \<equiv> nullish (sl_maxSlippageBps config) 500 / 10000"
    and "exec \<equiv> \<lambda>isBuy n. calculateSlippage \<lparr>li_price = Finite p, li_quantity = n, li_isBuy = isBuy,
           li_dailyVolume = v, li_spreadContext = ctx\<rparr> config"
  shows "\<exists>buy buy' sell sell'.
    exec True q = Inr buy \<and> exec True q' = Inr buy' \<and> exec False q = Inr sell \<and> exec False q' = Inr sell' \<and>
    p \<le> lr_executionPrice buy \<and> lr_executionPrice buy \<le> lr_executionPrice buy' \<and>
    lr_executionPrice buy' \<le> p * (1 + cap) \<and>
    lr_executionPrice sell \<le> p \<and> lr_executionPrice sell' \<le> lr_executionPrice sell \<and>
    p * (1 - cap) \<le> lr_executionPrice sell'"
proof -
  let ?bps = "\<lambda>n. calculateSlippageBps n p (Slippage_buildConfig config) v ctx"
  have cap: "cap = nullish (sl_maxSlippageBps (Slippage_buildConfig config)) 500 / 10000"
    by (simp add: cap_def Slippage_buildConfig_def)
  have bps: "0 \<le> ?bps q" "?bps q \<le> ?bps q'" "?bps q' / 10000 \<le> cap"
    using calculateSlippageBps_bounds [of "Slippage_buildConfig config" q p v ctx]
      calculateSlippageBps_bounds [of "Slippage_buildConfig config" q' p v ctx]
      calculateSlippageBps_mono [of "Slippage_buildConfig config" q q' p v ctx] assms(1-4)
    by (simp_all add: cap)
  have buy: "p * (1 + ?bps q / 10000) \<le> p * (1 + ?bps q' / 10000)"
    "p * (1 + ?bps q' / 10000) \<le> p * (1 + cap)" "p \<le> p * (1 + ?bps q / 10000)"
    using bps assms(2) by simp_all
  have sell: "p * (1 - ?bps q' / 10000) \<le> p * (1 - ?bps q / 10000)"
    "p * (1 - cap) \<le> p * (1 - ?bps q' / 10000)" "p * (1 - ?bps q / 10000) \<le> p"
    using bps assms(2) by simp_all
  show ?thesis
    using buy sell assms(2) by (simp add: exec_def calculateSlippage_def applySlippage_def Let_def)
qed

end
