(* ===== verification/PortfolioState.thy ===== *)
theory PortfolioState
  imports PositionManager
begin

text \<open>
  The portfolio of a backtest: \<^verbatim>\<open>order/backtest/shared/portfolio/portfolio-state.service.ts\<close>, its
  interface and \<^verbatim>\<open>portfolio-serialization.util.ts\<close>. The source computes with the decimal numbers
  of the package \<^verbatim>\<open>decimal.js\<close>: its operations are the argument \<open>D\<close>, and \<open>exact_decimal D\<close> says
  that they are the operations on numbers, which leaves out their rounding to 20 digits as the
  rounding of binary64 is left out elsewhere.
\<close>

section \<open>Data\<close>

record DecimalOps =
  dec_plus :: "number \<Rightarrow> number \<Rightarrow> number"
  dec_minus :: "number \<Rightarrow> number \<Rightarrow> number"
  dec_mul :: "number \<Rightarrow> number \<Rightarrow> number"
  dec_div :: "number \<Rightarrow> number \<Rightarrow> number"
  dec_neg :: "number \<Rightarrow> number"
  dec_max :: "number \<Rightarrow> number \<Rightarrow> number"

definition exact_decimal :: "DecimalOps \<Rightarrow> bool" where
  "exact_decimal D \<longleftrightarrow>
     (\<forall>x y. dec_plus D x y = x + y \<and> dec_minus D x y = x - y \<and> dec_mul D x y = x * y \<and>
            (y \<noteq> 0 \<longrightarrow> dec_div D x y = x / y) \<and> dec_neg D x = - x \<and> dec_max D x y = max x y)"

definition exactDecimal :: DecimalOps where
  "exactDecimal = \<lparr>dec_plus = (+), dec_minus = (-), dec_mul = (*), dec_div = (/), dec_neg = uminus, dec_max = max\<rparr>"

lemma exact_exactDecimal [simp]: "exact_decimal exactDecimal"
  by (simp add: exact_decimal_def exactDecimal_def)

type_synonym Prices = "(string, number) jsmap"

record Portfolio =
  po_cashBalance :: number
  po_positions :: "(string, Position) jsmap"
  po_totalValue :: number
  po_totalMarginUsed :: "number option"
  po_availableMargin :: "number option"

record Holding =
  ho_quantity :: number
  ho_value :: number
  ho_price :: number

record PortfolioSnapshot =
  sn_timestamp :: time_ms
  sn_portfolioValue :: number
  sn_cashBalance :: number
  sn_holdings :: "(string, Holding) jsmap"
  sn_cumulativeReturn :: number
  sn_drawdown :: number

record SerializablePosition =
  sp_coinId :: string
  sp_quantity :: number
  sp_averagePrice :: number
  sp_entryDate :: "time_ms option"
  sp_side :: "PositionSide option"
  sp_leverage :: "number option"
  sp_marginAmount :: "number option"
  sp_liquidationPrice :: "number option"

record SerializablePortfolio =
  sp_cashBalance :: number
  sp_positions :: "SerializablePosition list"

record DrawdownState =
  dd_peakValue :: number
  dd_maxDrawdown :: number
  dd_currentDrawdown :: number

datatype PortfolioError =
    InsufficientCash | ShortExists | NoPositionToSell | LongExists | InsufficientMarginCash | NoShortToClose

text \<open>A failed trade returns the portfolio it was given.\<close>

type_synonym ApplyTradeResult = "PortfolioError + Portfolio"

section \<open>Values\<close>

definition getPositionValue :: "DecimalOps \<Rightarrow> Position \<Rightarrow> number option \<Rightarrow> bool \<Rightarrow> number" where
  "getPositionValue D position currentPrice floored =
     (case currentPrice of
        None \<Rightarrow> pos_totalValue position
      | Some price \<Rightarrow>
          (case (pos_side position, pos_marginAmount position) of
             (Some SHORT, Some margin) \<Rightarrow>
               let raw = dec_plus D margin
                           (dec_mul D (dec_minus D (pos_averagePrice position) price) (pos_quantity position))
               in if floored then max 0 raw else raw
           | _ \<Rightarrow> dec_mul D (pos_quantity position) price))"

definition calculatePositionsValue :: "DecimalOps \<Rightarrow> (string, Position) jsmap \<Rightarrow> Prices \<Rightarrow> number" where
  "calculatePositionsValue D positions prices =
     foldl (\<lambda>total (coinId, position).
              dec_plus D total (getPositionValue D position (map_get prices coinId) True)) 0 positions"

definition Portfolio_initialize :: "number \<Rightarrow> Portfolio" where
  "Portfolio_initialize initialCapital =
     \<lparr>po_cashBalance = initialCapital, po_positions = [], po_totalValue = initialCapital,
      po_totalMarginUsed = Some 0, po_availableMargin = Some initialCapital\<rparr>"

definition updateValues :: "DecimalOps \<Rightarrow> Portfolio \<Rightarrow> Prices \<Rightarrow> Portfolio" where
  "updateValues D portfolio prices =
     (let valueOf = (\<lambda>(coinId, position). getPositionValue D position (map_get prices coinId) True);
          newPositions = map (\<lambda>(coinId, position).
             (coinId, position\<lparr>pos_totalValue := valueOf (coinId, position)\<rparr>)) (po_positions portfolio)
      in portfolio\<lparr>po_positions := newPositions,
           po_totalValue := foldl (\<lambda>total entry. dec_plus D total (valueOf entry))
                              (po_cashBalance portfolio) (po_positions portfolio)\<rparr>)"

text \<open>The margin fields are undefined after a trade that does not pass them.\<close>

definition buildSuccessResult ::
    "DecimalOps \<Rightarrow> number \<Rightarrow> (string, Position) jsmap \<Rightarrow> string \<Rightarrow> number \<Rightarrow> Prices option \<Rightarrow>
     (number \<times> number) option \<Rightarrow> ApplyTradeResult" where
  "buildSuccessResult D cashBalance positions coinId price currentPrices marginFields =
     (let pricesForCalculation = nullish currentPrices [(coinId, price)]
      in Inr \<lparr>po_cashBalance = cashBalance, po_positions = positions,
              po_totalValue = dec_plus D cashBalance (calculatePositionsValue D positions pricesForCalculation),
              po_totalMarginUsed = map_option fst marginFields,
              po_availableMargin = map_option snd marginFields\<rparr>)"

section \<open>Trades\<close>

definition holds :: "PositionSide \<Rightarrow> Position option \<Rightarrow> bool" where
  "holds side existing =
     (case existing of
        None \<Rightarrow> False
      | Some p \<Rightarrow> pos_quantity p > 0 \<and> (pos_side p = Some SHORT) = (side = SHORT))"

definition plainPosition :: "string \<Rightarrow> number \<Rightarrow> number \<Rightarrow> number \<Rightarrow> Position" where
  "plainPosition coinId quantity averagePrice totalValue =
     \<lparr>pos_coinId = coinId, pos_quantity = quantity, pos_averagePrice = averagePrice,
      pos_totalValue = totalValue, pos_entryDate = None, pos_side = None, pos_leverage = None,
      pos_marginAmount = None, pos_liquidationPrice = None\<rparr>"

definition applyBuy ::
    "DecimalOps \<Rightarrow> Portfolio \<Rightarrow> string \<Rightarrow> number \<Rightarrow> number \<Rightarrow> number \<Rightarrow> Prices option \<Rightarrow> ApplyTradeResult" where
  "applyBuy D portfolio coinId quantity price fee currentPrices =
     (let cost = dec_mul D quantity price;
          totalCost = dec_plus D cost fee
      in if po_cashBalance portfolio < totalCost then Inl InsufficientCash
         else let newCashBalance = dec_minus D (dec_minus D (po_cashBalance portfolio) cost) fee;
                  existingPosition = map_get (po_positions portfolio) coinId
              in if holds SHORT existingPosition then Inl ShortExists
                 else let newPosition =
                        (case existingPosition of
                           Some p \<Rightarrow>
                             if pos_quantity p > 0
                             then let newQuantity = dec_plus D (pos_quantity p) quantity;
                                      newAveragePrice = dec_div D
                                        (dec_plus D (dec_mul D (pos_averagePrice p) (pos_quantity p))
                                           (dec_mul D price quantity)) newQuantity
                                  in plainPosition coinId newQuantity newAveragePrice (dec_mul D newQuantity price)
                             else plainPosition coinId quantity price cost
                         | None \<Rightarrow> plainPosition coinId quantity price cost)
                      in buildSuccessResult D newCashBalance (map_set coinId newPosition (po_positions portfolio))
                           coinId price currentPrices None)"

definition applySell ::
    "DecimalOps \<Rightarrow> Portfolio \<Rightarrow> string \<Rightarrow> number \<Rightarrow> number \<Rightarrow> number \<Rightarrow> Prices option \<Rightarrow> ApplyTradeResult" where
  "applySell D portfolio coinId quantity price fee currentPrices =
     (case map_get (po_positions portfolio) coinId of
        None \<Rightarrow> Inl NoPositionToSell
      | Some existingPosition \<Rightarrow>
          if pos_quantity existingPosition = 0 then Inl NoPositionToSell
          else let actualQuantity = min quantity (pos_quantity existingPosition);
                   proceeds = dec_mul D actualQuantity price;
                   newCashBalance = dec_minus D (dec_plus D (po_cashBalance portfolio) proceeds) fee;
                   remainingQuantity = dec_minus D (pos_quantity existingPosition) actualQuantity;
                   newPositions =
                     (if remainingQuantity \<le> 0 then map_delete coinId (po_positions portfolio)
                      else map_set coinId
                             (plainPosition coinId remainingQuantity (pos_averagePrice existingPosition)
                                (dec_mul D remainingQuantity price)) (po_positions portfolio))
               in buildSuccessResult D newCashBalance newPositions coinId price currentPrices None)"

definition applyOpenShort ::
    "DecimalOps \<Rightarrow> Portfolio \<Rightarrow> string \<Rightarrow> number \<Rightarrow> number \<Rightarrow> number \<Rightarrow> number \<Rightarrow> Prices option \<Rightarrow>
     ApplyTradeResult" where
  "applyOpenShort D portfolio coinId quantity price fee leverage currentPrices =
     (if holds LONG (map_get (po_positions portfolio) coinId) then Inl LongExists
      else let marginAmount = dec_div D (dec_mul D quantity price) leverage
           in if po_cashBalance portfolio < dec_plus D marginAmount fee then Inl InsufficientMarginCash
              else let newCashBalance = dec_minus D (dec_minus D (po_cashBalance portfolio) marginAmount) fee;
                       liquidationPrice = dec_mul D price
                         (dec_minus D (dec_plus D 1 (dec_div D 1 leverage)) MAINTENANCE_MARGIN_RATE);
                       newPosition = \<lparr>pos_coinId = coinId, pos_quantity = quantity, pos_averagePrice = price,
                         pos_totalValue = marginAmount, pos_entryDate = None, pos_side = Some SHORT,
                         pos_leverage = Some leverage, pos_marginAmount = Some marginAmount,
                         pos_liquidationPrice = Some liquidationPrice\<rparr>;
                       newTotalMarginUsed = dec_plus D (nullish (po_totalMarginUsed portfolio) 0) marginAmount
                   in buildSuccessResult D newCashBalance (map_set coinId newPosition (po_positions portfolio))
                        coinId price currentPrices (Some (newTotalMarginUsed, newCashBalance)))"

definition applyCloseShort ::
    "DecimalOps \<Rightarrow> Portfolio \<Rightarrow> string \<Rightarrow> number \<Rightarrow> number \<Rightarrow> number \<Rightarrow> Prices option \<Rightarrow> ApplyTradeResult" where
  "applyCloseShort D portfolio coinId quantity price fee currentPrices =
     (case map_get (po_positions portfolio) coinId of
        None \<Rightarrow> Inl NoShortToClose
      | Some p \<Rightarrow>
          if pos_side p \<noteq> Some SHORT \<or> pos_quantity p = 0 then Inl NoShortToClose
          else let actualQuantity = min quantity (pos_quantity p);
                   margin = nullish (pos_marginAmount p) 0;
                   realizedPnL = dec_mul D (dec_minus D (pos_averagePrice p) price) actualQuantity;
                   returnedMargin = dec_div D (dec_mul D margin actualQuantity) (pos_quantity p);
                   cappedPnL = dec_max D (dec_neg D returnedMargin) realizedPnL;
                   newCashBalance = dec_minus D
                     (dec_plus D (dec_plus D (po_cashBalance portfolio) returnedMargin) cappedPnL) fee;
                   remainingQuantity = dec_minus D (pos_quantity p) actualQuantity;
                   newPositions =
                     (if remainingQuantity \<le> 0 then map_delete coinId (po_positions portfolio)
                      else let remainingMargin = dec_minus D margin returnedMargin
                           in map_set coinId (p\<lparr>pos_quantity := remainingQuantity,
                                pos_totalValue := dec_plus D remainingMargin
                                  (dec_mul D (dec_minus D (pos_averagePrice p) price) remainingQuantity),
                                pos_marginAmount := Some remainingMargin\<rparr>) (po_positions portfolio));
                   newTotalMarginUsed =
                     dec_max D 0 (dec_minus D (nullish (po_totalMarginUsed portfolio) 0) returnedMargin)
               in buildSuccessResult D newCashBalance newPositions coinId price currentPrices
                    (Some (newTotalMarginUsed, newCashBalance)))"

section \<open>Snapshots, drawdown and checkpoints\<close>

definition createSnapshot ::
    "DecimalOps \<Rightarrow> Portfolio \<Rightarrow> time_ms \<Rightarrow> Prices \<Rightarrow> number \<Rightarrow> DrawdownState \<Rightarrow> PortfolioSnapshot" where
  "createSnapshot D portfolio timestamp prices initialCapital drawdownState =
     \<lparr>sn_timestamp = timestamp, sn_portfolioValue = po_totalValue portfolio,
      sn_cashBalance = po_cashBalance portfolio,
      sn_holdings = map (\<lambda>(coinId, position).
        let price = nullish (map_get prices coinId) 0
        in (coinId, \<lparr>ho_quantity = pos_quantity position,
                     ho_value = dec_mul D (pos_quantity position) price, ho_price = price\<rparr>))
        (po_positions portfolio),
      sn_cumulativeReturn =
        (if initialCapital > 0
         then dec_div D (dec_minus D (po_totalValue portfolio) initialCapital) initialCapital else 0),
      sn_drawdown = dd_currentDrawdown drawdownState\<rparr>"

definition updateDrawdown :: "number \<Rightarrow> DrawdownState \<Rightarrow> DrawdownState" where
  "updateDrawdown currentValue currentState =
     (let peakValue = (if currentValue > dd_peakValue currentState then currentValue
                       else dd_peakValue currentState);
          currentDrawdown = (if peakValue = 0 then 0 else (peakValue - currentValue) / peakValue);
          maxDrawdown = (if currentDrawdown > dd_maxDrawdown currentState then currentDrawdown
                         else dd_maxDrawdown currentState)
      in \<lparr>dd_peakValue = peakValue, dd_maxDrawdown = maxDrawdown, dd_currentDrawdown = currentDrawdown\<rparr>)"

definition serializePosition :: "string \<times> Position \<Rightarrow> SerializablePosition" where
  "serializePosition = (\<lambda>(coinId, pos).
     \<lparr>sp_coinId = coinId, sp_quantity = pos_quantity pos, sp_averagePrice = pos_averagePrice pos,
      sp_entryDate = pos_entryDate pos, sp_side = pos_side pos, sp_leverage = pos_leverage pos,
      sp_marginAmount = pos_marginAmount pos, sp_liquidationPrice = pos_liquidationPrice pos\<rparr>)"

definition serializePortfolio :: "Portfolio \<Rightarrow> SerializablePortfolio" where
  "serializePortfolio portfolio =
     \<lparr>sp_cashBalance = po_cashBalance portfolio,
      sp_positions = map serializePosition (po_positions portfolio)\<rparr>"

definition restorePosition :: "DecimalOps \<Rightarrow> Prices option \<Rightarrow> SerializablePosition \<Rightarrow> Position" where
  "restorePosition D currentPrices pos =
     (let price = nullish (case currentPrices of None \<Rightarrow> None | Some m \<Rightarrow> map_get m (sp_coinId pos))
                    (sp_averagePrice pos);
          tempPosition = (plainPosition (sp_coinId pos) (sp_quantity pos) (sp_averagePrice pos) 0)
            \<lparr>pos_side := sp_side pos, pos_marginAmount := sp_marginAmount pos\<rparr>
      in tempPosition\<lparr>pos_totalValue := getPositionValue D tempPosition (Some price) False,
           pos_entryDate := sp_entryDate pos, pos_leverage := sp_leverage pos,
           pos_liquidationPrice := sp_liquidationPrice pos\<rparr>)"

definition deserializePortfolio :: "DecimalOps \<Rightarrow> SerializablePortfolio \<Rightarrow> Prices option \<Rightarrow> Portfolio" where
  "deserializePortfolio D serialized currentPrices =
     (let restored = map (restorePosition D currentPrices) (sp_positions serialized);
          positions = foldl (\<lambda>m p. map_set (pos_coinId p) p m) [] restored;
          positionsValue = foldl (\<lambda>total p. dec_plus D total (pos_totalValue p)) 0 restored;
          totalMarginUsed = foldl (\<lambda>total pos.
            case (sp_side pos, sp_marginAmount pos) of
              (Some SHORT, Some margin) \<Rightarrow> dec_plus D total margin | _ \<Rightarrow> total) 0 (sp_positions serialized)
      in \<lparr>po_cashBalance = sp_cashBalance serialized, po_positions = positions,
          po_totalValue = dec_plus D (sp_cashBalance serialized) positionsValue,
          po_totalMarginUsed = Some totalMarginUsed,
          po_availableMargin = Some (sp_cashBalance serialized)\<rparr>)"

section \<open>Lemmas\<close>

lemma foldl_plus: "foldl (\<lambda>total x. total + f x) a xs = a + (\<Sum>x\<leftarrow>xs. f x)" for a :: number
  by (induction xs arbitrary: a) simp_all

lemma positionsValue_sum:
  assumes "exact_decimal D"
  shows "calculatePositionsValue D positions prices =
    (\<Sum>(coinId, p)\<leftarrow>positions. getPositionValue D p (map_get prices coinId) True)"
  using assms unfolding calculatePositionsValue_def exact_decimal_def
  by (simp add: case_prod_unfold foldl_plus)

lemma updateValues_total:
  assumes "exact_decimal D"
  shows "po_totalValue (updateValues D P prices) =
    po_cashBalance P + calculatePositionsValue D (po_positions P) prices"
  using assms by (simp add: updateValues_def positionsValue_sum Let_def case_prod_unfold foldl_plus exact_decimal_def)

text \<open>Every position is stored under its own coin.\<close>

definition keyed_positions :: "(string, Position) jsmap \<Rightarrow> bool" where
  "keyed_positions m \<longleftrightarrow> map_wf m \<and> list_all (\<lambda>(coinId, p). pos_coinId p = coinId) m"

lemma keyed_reload: "keyed_positions m \<Longrightarrow> foldl (\<lambda>m p. map_set (pos_coinId p) p m) [] (map snd m) = m"
proof -
  have "foldl (\<lambda>m p. map_set (pos_coinId p) p m) acc (map snd m) = fold (\<lambda>(k, v). map_set k v) m acc"
    if "list_all (\<lambda>(coinId, p). pos_coinId p = coinId) m" for acc
    using that by (induction m arbitrary: acc) auto
  then show "keyed_positions m \<Longrightarrow> ?thesis" by (simp add: keyed_positions_def map_reload)
qed

text \<open>The margin that the short positions hold.\<close>

definition shortMargin :: "(string, Position) jsmap \<Rightarrow> number" where
  "shortMargin m = (\<Sum>(coinId, p)\<leftarrow>m. case (pos_side p, pos_marginAmount p) of
     (Some SHORT, Some margin) \<Rightarrow> margin | _ \<Rightarrow> 0)"

text \<open>Every coin has a price, and no short has lost more than its margin.\<close>

definition solvent_at :: "DecimalOps \<Rightarrow> Prices \<Rightarrow> (string, Position) jsmap \<Rightarrow> bool" where
  "solvent_at D prices m \<longleftrightarrow> list_all (\<lambda>(coinId, p).
     map_get prices coinId \<noteq> None \<and> 0 \<le> getPositionValue D p (map_get prices coinId) False) m"

lemma getPositionValue_unfloored:
  "0 \<le> getPositionValue D p price False \<Longrightarrow> getPositionValue D p price True = getPositionValue D p price False"
  by (simp add: getPositionValue_def Let_def split: option.splits PositionSide.splits)

lemma restore_valued:
  assumes "pos_coinId p = coinId" "map_get prices coinId \<noteq> None"
    "0 \<le> getPositionValue D p (map_get prices coinId) False"
  shows "restorePosition D (Some prices) (serializePosition
      (coinId, p\<lparr>pos_totalValue := getPositionValue D p (map_get prices coinId) True\<rparr>)) =
    p\<lparr>pos_totalValue := getPositionValue D p (map_get prices coinId) True\<rparr>"
proof -
  obtain price where price: "map_get prices coinId = Some price" using assms(2) by auto
  define v where "v = getPositionValue D p (Some price) False"
  have floored: "getPositionValue D p (Some price) True = v"
    using getPositionValue_unfloored assms(3) by (simp add: v_def price)
  have same: "getPositionValue D q (Some price) False = v"
    if "pos_side q = pos_side p" "pos_marginAmount q = pos_marginAmount p"
      "pos_averagePrice q = pos_averagePrice p" "pos_quantity q = pos_quantity p" for q
    using that by (simp add: v_def getPositionValue_def Let_def split: option.splits PositionSide.splits)
  show ?thesis
    using assms(1) by (simp add: restorePosition_def serializePosition_def plainPosition_def Let_def
        price floored same)
qed

text \<open>Checkpoints restore the portfolio: a portfolio valued at prices that cover its coins and
  leave no short under water comes back from its serialized form with the same cash, positions
  and total value, and with the margin that its shorts hold.\<close>

lemma portfolio_checkpoint_roundtrip:
  assumes "exact_decimal D" "keyed_positions (po_positions P)" "solvent_at D prices (po_positions P)"
  defines "Q \<equiv> updateValues D P prices"
  shows "deserializePortfolio D (serializePortfolio Q) (Some prices) =
    Q\<lparr>po_totalMarginUsed := Some (shortMargin (po_positions P)),
      po_availableMargin := Some (po_cashBalance P)\<rparr>"
proof -
  let ?m = "po_positions Q"
  have m: "?m = map (\<lambda>(c, p). (c, p\<lparr>pos_totalValue := getPositionValue D p (map_get prices c) True\<rparr>)) (po_positions P)"
    by (simp add: Q_def updateValues_def Let_def)
  have keyed: "keyed_positions ?m"
    using assms(2) by (auto simp: m keyed_positions_def map_wf_def list_all_iff o_def case_prod_unfold)
  have "restorePosition D (Some prices) (serializePosition
        (c, p\<lparr>pos_totalValue := getPositionValue D p (map_get prices c) True\<rparr>)) =
      p\<lparr>pos_totalValue := getPositionValue D p (map_get prices c) True\<rparr>"
    if "(c, p) \<in> set (po_positions P)" for c p
    using that assms(2,3) by (intro restore_valued) (auto simp: keyed_positions_def solvent_at_def list_all_iff)
  then have "map (restorePosition D (Some prices)) (map serializePosition ?m) = map snd ?m"
    by (auto simp: m)
  then have restored: "map (restorePosition D (Some prices)) (sp_positions (serializePortfolio Q)) = map snd ?m"
    by (simp add: serializePortfolio_def)
  have positions: "foldl (\<lambda>m p. map_set (pos_coinId p) p m) [] (map snd ?m) = ?m"
    by (rule keyed_reload [OF keyed])
  have total: "dec_plus D (po_cashBalance P) (foldl (\<lambda>total p. dec_plus D total (pos_totalValue p)) 0 (map snd ?m)) =
      po_totalValue Q"
    using assms(1) by (simp add: Q_def updateValues_total positionsValue_sum exact_decimal_def foldl_plus)
      (simp add: updateValues_def Let_def o_def case_prod_unfold)
  have margin: "foldl (\<lambda>total pos. case (sp_side pos, sp_marginAmount pos) of
        (Some SHORT, Some margin) \<Rightarrow> dec_plus D total margin | _ \<Rightarrow> total) a
      (map serializePosition (map (\<lambda>(c, p). (c, p\<lparr>pos_totalValue := f c p\<rparr>)) ps)) = a + shortMargin ps" for a f ps
    using assms(1) by (induction ps arbitrary: a)
      (auto simp: shortMargin_def serializePosition_def exact_decimal_def split: option.splits PositionSide.splits)
  have used: "foldl (\<lambda>total pos. case (sp_side pos, sp_marginAmount pos) of
        (Some SHORT, Some margin) \<Rightarrow> dec_plus D total margin | _ \<Rightarrow> total) 0
      (sp_positions (serializePortfolio Q)) = shortMargin (po_positions P)"
    using margin [of 0] by (simp only: serializePortfolio_def SerializablePortfolio.simps m add_0)
  have cash: "po_cashBalance Q = po_cashBalance P" "sp_cashBalance (serializePortfolio Q) = po_cashBalance P"
    by (simp_all add: Q_def updateValues_def serializePortfolio_def Let_def)
  show ?thesis
    unfolding deserializePortfolio_def Let_def restored positions total used cash
    by (rule Portfolio.equality) (simp_all add: cash)
qed

definition sample_portfolio :: Portfolio where
  "sample_portfolio = \<lparr>po_cashBalance = 700,
     po_positions = [(''btc'', plainPosition ''btc'' 2 100 200),
       (''eth'', (plainPosition ''eth'' 5 20 100)\<lparr>pos_side := Some SHORT, pos_marginAmount := Some 100\<rparr>)],
     po_totalValue = 1000, po_totalMarginUsed = Some 100, po_availableMargin = Some 700\<rparr>"

section \<open>Drawdown\<close>

text \<open>The declines of a series: from every value to every later one, relative to the former.\<close>

definition declines :: "number list \<Rightarrow> number set" where
  "declines = later_pairs (\<lambda>x y. (x - y) / x)"

lemma declines_snoc:
  "declines (xs @ [y]) = declines xs \<union> (\<lambda>x. (x - y) / x) ` set (xs @ [y])"
  unfolding declines_def by (rule later_pairs_snoc)

lemma finite_declines: "finite (declines xs)"
  unfolding declines_def by (rule finite_later_pairs)

text \<open>The deepest decline to the last value is the one from the peak.\<close>

lemma Max_decline_to:
  assumes "finite S" "S \<noteq> {}" "\<forall>x \<in> S. 0 < x" "0 < (y::number)"
  shows "Max ((\<lambda>x. (x - y) / x) ` S) = (Max S - y) / Max S"
proof -
  have "(x - y) / x \<le> (Max S - y) / Max S" if "x \<in> S" for x
  proof -
    have x: "0 < x" "x \<le> Max S" using that assms by auto
    then have "y / Max S \<le> y / x" using assms(4) by (simp add: frac_le)
    with x show ?thesis by (simp add: diff_divide_distrib)
  qed
  moreover have "(Max S - y) / Max S \<in> (\<lambda>x. (x - y) / x) ` S" using assms(1,2) by (intro imageI Max_in)
  ultimately show ?thesis using assms(1) by (intro Max_eqI) auto
qed

lemma updateDrawdown_fields:
  "dd_peakValue (updateDrawdown y st) = max (dd_peakValue st) y"
  "dd_maxDrawdown (updateDrawdown y st) = max (dd_maxDrawdown st) (dd_currentDrawdown (updateDrawdown y st))"
  "0 < max (dd_peakValue st) y \<Longrightarrow>
    dd_currentDrawdown (updateDrawdown y st) = (max (dd_peakValue st) y - y) / max (dd_peakValue st) y"
  by (auto simp: updateDrawdown_def Let_def max_def)

definition startDrawdown :: "number \<Rightarrow> DrawdownState" where
  "startDrawdown v = \<lparr>dd_peakValue = v, dd_maxDrawdown = 0, dd_currentDrawdown = 0\<rparr>"

lemma drawdown_state:
  assumes "list_all (\<lambda>v. 0 < v) (v # vs)"
  shows "dd_peakValue (foldl (\<lambda>s x. updateDrawdown x s) (startDrawdown v) vs) = Max (set (v # vs)) \<and>
    dd_maxDrawdown (foldl (\<lambda>s x. updateDrawdown x s) (startDrawdown v) vs) = Max (declines (v # vs)) \<and>
    dd_currentDrawdown (foldl (\<lambda>s x. updateDrawdown x s) (startDrawdown v) vs) =
      (Max (set (v # vs)) - last (v # vs)) / Max (set (v # vs))"
  using assms
proof (induction vs rule: rev_induct)
  case Nil
  have "declines [v] = {0}" by (auto simp: declines_def later_pairs_def)
  then show ?case by (simp add: startDrawdown_def)
next
  case (snoc y vs)
  define s where "s = foldl (\<lambda>s x. updateDrawdown x s) (startDrawdown v) vs"
  define S where "S = set ((v # vs) @ [y])"
  have S: "finite S" "S \<noteq> {}" "\<forall>x \<in> S. 0 < x" "0 < y"
    using snoc.prems by (auto simp: S_def list_all_iff)
  have "list_all (\<lambda>v. 0 < v) (v # vs)" using snoc.prems by simp
  note IH = snoc.IH [OF this, folded s_def]
  have "S = insert y (set (v # vs))" by (auto simp: S_def)
  then have peak: "max (dd_peakValue s) y = Max S" using IH by (simp add: max.commute)
  have pos: "0 < Max S" using S by (meson Max_in)
  note now = updateDrawdown_fields(3) [of s y, unfolded peak, OF pos]
  have step: "declines (v # vs @ [y]) = declines (v # vs) \<union> (\<lambda>x. (x - y) / x) ` S"
    using declines_snoc [of "v # vs" y] by (simp add: S_def)
  have "dd_maxDrawdown (updateDrawdown y s) = max (Max (declines (v # vs))) (Max ((\<lambda>x. (x - y) / x) ` S))"
    unfolding updateDrawdown_fields(2) now Max_decline_to [OF S] using IH by simp
  also have "\<dots> = Max (declines (v # vs @ [y]))"
    unfolding step using S by (intro Max_Un [symmetric] finite_declines) (auto simp: declines_def later_pairs_def)
  finally have worst: "dd_maxDrawdown (updateDrawdown y s) = Max (declines (v # vs @ [y]))" .
  have set: "set (v # vs @ [y]) = S" by (simp add: S_def)
  show ?case
    using worst now peak unfolding set by (simp add: s_def updateDrawdown_fields(1))
qed

text \<open>The drawdown kept bar by bar is the deepest decline of the whole series: after any
  positive values, the maximum is the largest relative drop from a value to a later one, and the
  current drawdown is the drop from the peak to the last value, at least zero and at most the
  maximum, which is less than one.\<close>

lemma drawdown_is_deepest_decline:
  assumes "list_all (\<lambda>v. 0 < v) (v # vs)"
  defines "s \<equiv> foldl (\<lambda>s x. updateDrawdown x s) (startDrawdown v) vs"
  shows "dd_maxDrawdown s = Max (declines (v # vs)) \<and>
    dd_currentDrawdown s = (Max (set (v # vs)) - last (v # vs)) / Max (set (v # vs)) \<and>
    0 \<le> dd_currentDrawdown s \<and> dd_currentDrawdown s \<le> dd_maxDrawdown s \<and> dd_maxDrawdown s < 1"
proof -
  note st = drawdown_state [OF assms(1), folded s_def]
  let ?xs = "v # vs"
  have elem: "\<And>x. x \<in> set ?xs \<Longrightarrow> 0 < x" using assms(1) by (auto simp: list_all_iff)
  have peak: "0 < Max (set ?xs)" "last ?xs \<le> Max (set ?xs)" "Max (set ?xs) \<in> set ?xs"
    using elem Max_in [of "set ?xs"] Max_ge [of "set ?xs" "last ?xs"] last_in_set [of ?xs] by auto
  have "?xs ! 0 = v" by simp
  then have "declines ?xs \<noteq> {}" by (auto simp: declines_def later_pairs_def)
  moreover have "d < 1" if "d \<in> declines ?xs" for d
  proof -
    from that obtain i j where d: "d = (?xs ! i - ?xs ! j) / ?xs ! i" "i \<le> j" "j < length ?xs"
      by (auto simp: declines_def later_pairs_def)
    then have "0 < ?xs ! i" "0 < ?xs ! j" using elem nth_mem by (metis order_le_less_trans)+
    then show "d < 1" by (simp add: d(1))
  qed
  ultimately have "Max (declines ?xs) < 1" by (simp add: finite_declines)
  moreover obtain i where i: "i < length ?xs" "?xs ! i = Max (set ?xs)" using peak(3) by (metis in_set_conv_nth)
  have "last ?xs = ?xs ! (length ?xs - 1)" by (simp only: last_conv_nth list.distinct not_False_eq_True)
  then have "(Max (set ?xs) - last ?xs) / Max (set ?xs) \<in> declines ?xs"
    unfolding declines_def later_pairs_def using i by (intro CollectI exI [of _ i] exI [of _ "length ?xs - 1"]) auto
  then have "(Max (set ?xs) - last ?xs) / Max (set ?xs) \<le> Max (declines ?xs)"
    by (intro Max_ge finite_declines)
  ultimately show ?thesis using st peak by simp
qed

end
