(* ===== verification/TradeExecutor.thy ===== *)
theory TradeExecutor
  imports Slippage PortfolioState SignalFilters
begin

text \<open>
  One trade of a backtest: \<^verbatim>\<open>order/backtest/shared/execution/trade-executor.service.ts\<close> over the
  portfolio, the slippage and the fees, with the sizing helpers of \<^verbatim>\<open>trade-executor.helpers.ts\<close>
  (in \<^verbatim>\<open>SignalFilters\<close>) and the allocation limits of
  \<^verbatim>\<open>libs/api-interfaces/src/lib/pipeline/allocation-limits.ts\<close>. The source changes the portfolio
  in place; the model returns it, also after an error, as far as it had been changed.
\<close>

section \<open>Allocation limits\<close>

record AllocationLimits =
  lim_maxAllocation :: number
  lim_minAllocation :: number

definition ABSOLUTE_MAX_ALLOCATION_CAP :: number where
  "ABSOLUTE_MAX_ALLOCATION_CAP = 25 / 100"

definition MAX_PORTFOLIO_DEPLOYMENT :: number where
  "MAX_PORTFOLIO_DEPLOYMENT = 7 / 10"

definition DEFAULT_RISK_LEVEL :: number where
  "DEFAULT_RISK_LEVEL = 3"

definition percentLimits :: "(number \<times> number) list \<Rightarrow> AllocationLimits list" where
  "percentLimits = map (\<lambda>(most, least). \<lparr>lim_maxAllocation = most / 100, lim_minAllocation = least / 100\<rparr>)"

definition STAGE_RISK_ALLOCATION_MATRIX :: "string \<Rightarrow> AllocationLimits list option" where
  "STAGE_RISK_ALLOCATION_MATRIX stage =
     (if stage = ''OPTIMIZE'' then Some (percentLimits [(4, 2), (5, 2), (5, 2), (6, 2), (7, 2)])
      else if stage = ''HISTORICAL'' then Some (percentLimits [(5, 2), (6, 2), (8, 3), (9, 3), (10, 3)])
      else if stage = ''LIVE_REPLAY'' then Some (percentLimits [(5, 2), (6, 2), (7, 2), (8, 3), (8, 3)])
      else if stage = ''PAPER_TRADE'' then Some (percentLimits [(4, 2), (5, 2), (5, 2), (6, 2), (7, 3)])
      else None)"

definition MIN_CAPITAL_PER_STRATEGY :: "int \<Rightarrow> number" where
  "MIN_CAPITAL_PER_STRATEGY level =
     (if level = 1 then 15 else if level = 2 then 15 else if level = 3 then 25
      else if level = 4 then 35 else 50)"

definition getMinCapitalPerStrategy :: "number \<Rightarrow> number" where
  "getMinCapitalPerStrategy riskLevel =
     (let clamped = max 1 (min 5 \<lfloor>riskLevel + 1 / 2\<rfloor>) in MIN_CAPITAL_PER_STRATEGY clamped)"

definition getAllocationLimits ::
    "string option \<Rightarrow> number option \<Rightarrow> number option \<Rightarrow> number option \<Rightarrow> AllocationLimits" where
  "getAllocationLimits stage riskLevel overrideMax overrideMin =
     (let effectiveStage = nullish stage ''HISTORICAL'';
          effectiveRisk = \<lfloor>max 1 (min 5 (nullish riskLevel DEFAULT_RISK_LEVEL)) + 1 / 2\<rfloor>;
          base = (case STAGE_RISK_ALLOCATION_MATRIX effectiveStage of
                    Some stageRow \<Rightarrow> stageRow ! nat (effectiveRisk - 1)
                  | None \<Rightarrow> the (STAGE_RISK_ALLOCATION_MATRIX ''HISTORICAL'') ! 2);
          maxAllocation = min (nullish overrideMax (lim_maxAllocation base)) ABSOLUTE_MAX_ALLOCATION_CAP;
          minAllocation = min (nullish overrideMin (lim_minAllocation base)) maxAllocation
      in \<lparr>lim_maxAllocation = maxAllocation, lim_minAllocation = minAllocation\<rparr>)"

section \<open>Data\<close>

record MarketData =
  md_timestamp :: time_ms
  md_prices :: Prices

record ExecuteTradeParams =
  xp_signal :: TradingSignal
  xp_marketData :: MarketData
  xp_tradingFee :: number
  xp_slippageConfig :: "SlippageConfig option"
  xp_dailyVolume :: "number option"
  xp_minHoldMs :: "number option"
  xp_maxAllocation :: "number option"
  xp_minAllocation :: "number option"
  xp_defaultLeverage :: "number option"
  xp_spreadContext :: "SpreadEstimationContext option"

record TradeContext =
  ct_signal :: TradingSignal
  ct_basePrice :: js_number
  ct_marketData :: MarketData
  ct_tradingFee :: number
  ct_slippageConfig :: SlippageConfig
  ct_dailyVolume :: "number option"
  ct_maxAllocation :: number
  ct_minAllocation :: number
  ct_minHoldMs :: number
  ct_defaultLeverage :: number
  ct_spreadContext :: "SpreadEstimationContext option"

datatype TradeType = TRADE_BUY | TRADE_SELL

text \<open>The metadata of a trade: the entries of the signal and what the executor or a forced exit adds.\<close>

datatype TradeMetadata =
    VolumeRejection "FillReason option"
  | Executed "(string, js_value) jsmap option" string number js_number number "time_ms option" "number option"
  | Liquidated
  | DelistingExit time_ms number number

record BacktestTrade =
  bt_type :: "TradeType option"
  bt_quantity :: number
  bt_price :: number
  bt_totalValue :: "number option"
  bt_fee :: "number option"
  bt_realizedPnL :: "number option"
  bt_realizedPnLPercent :: "number option"
  bt_costBasis :: "number option"
  bt_positionSide :: "PositionSide option"
  bt_leverage :: "number option"
  bt_liquidationPrice :: "number option"
  bt_marginUsed :: "number option"
  bt_metadata :: TradeMetadata

record ExecuteTradeResult =
  et_trade :: BacktestTrade
  et_slippageBps :: number
  et_fillStatus :: FillStatus
  et_requestedQuantity :: "number option"

record SlippageFillResult =
  sf_slippageBps :: number
  sf_price :: number
  sf_quantity :: number
  sf_fillStatus :: FillStatus
  sf_requestedQuantity :: "number option"

text \<open>The results of the four handlers in one record, the fields of the others undefined.\<close>

record ActionResult = SlippageFillResult +
  ac_totalValue :: number
  ac_realizedPnL :: "number option"
  ac_realizedPnLPercent :: "number option"
  ac_costBasis :: "number option"
  ac_holdTimeMs :: "time_ms option"
  ac_positionSide :: "PositionSide option"
  ac_leverage :: "number option"
  ac_liquidationPrice :: "number option"
  ac_marginUsed :: "number option"

text \<open>A handler does nothing, reports a cancelled fill, or acts on the portfolio.\<close>

datatype ActionOutcome = NoTrade | CancelledTrade ExecuteTradeResult | Acted ActionResult Portfolio

section \<open>Helpers\<close>

fun js_truthy :: "js_value \<Rightarrow> bool" where
  "js_truthy (JNumber (Finite x)) = (x \<noteq> 0)"
| "js_truthy (JNumber NaN) = False"
| "js_truthy (JNumber _) = True"
| "js_truthy (JString s) = (s \<noteq> [])"
| "js_truthy (JBool b) = b"
| "js_truthy JNull = False"
| "js_truthy JOther = True"

definition resolveBasePrice :: "TradingSignal \<Rightarrow> number \<Rightarrow> js_number" where
  "resolveBasePrice signal marketPrice =
     (let entry = (\<lambda>key. case sg_metadata signal of None \<Rightarrow> None | Some m \<Rightarrow> map_get m key)
      in case (entry ''hardStopLoss'', entry ''stopExecutionPrice'') of
           (Some hard, Some (JNumber price)) \<Rightarrow> if js_truthy hard then price else Finite marketPrice
         | _ \<Rightarrow> Finite marketPrice)"

fun inferTradeType :: "TradeAction \<Rightarrow> TradeType" where
  "inferTradeType BUY_ACTION = TRADE_BUY"
| "inferTradeType OPEN_SHORT = TRADE_BUY"
| "inferTradeType _ = TRADE_SELL"

definition buildCancelledResult ::
    "number \<Rightarrow> number \<Rightarrow> number \<Rightarrow> FillReason option \<Rightarrow> ExecuteTradeResult" where
  "buildCancelledResult price slippageBps requestedQuantity reason =
     \<lparr>et_trade = \<lparr>bt_type = None, bt_quantity = 0, bt_price = price, bt_totalValue = None, bt_fee = None,
        bt_realizedPnL = None, bt_realizedPnLPercent = None, bt_costBasis = None, bt_positionSide = None,
        bt_leverage = None, bt_liquidationPrice = None, bt_marginUsed = None,
        bt_metadata = VolumeRejection reason\<rparr>,
      et_slippageBps = slippageBps, et_fillStatus = CANCELLED_FILL,
      et_requestedQuantity = Some requestedQuantity\<rparr>"

text \<open>The base price as a number; when it is not finite the slippage service throws.\<close>

fun finiteValue :: "js_number \<Rightarrow> number" where
  "finiteValue (Finite x) = x"
| "finiteValue _ = 0"

definition validatePositionConflicts :: "TradingSignal \<Rightarrow> Portfolio \<Rightarrow> bool" where
  "validatePositionConflicts signal portfolio =
     (let existing = map_get (po_positions portfolio) (sg_coinId signal)
      in if sg_action signal = BUY_ACTION
         then (case existing of None \<Rightarrow> True | Some p \<Rightarrow> \<not> pos_quantity p > 0)
         else if sg_action signal = OPEN_SHORT
         then (case existing of
                 None \<Rightarrow> True | Some p \<Rightarrow> \<not> (pos_side p \<noteq> Some SHORT \<and> pos_quantity p > 0))
         else True)"

definition applySlippageAndFill ::
    "TradeContext \<Rightarrow> number \<Rightarrow> bool \<Rightarrow> number option \<Rightarrow> TradeError + (ExecuteTradeResult + SlippageFillResult)" where
  "applySlippageAndFill ctx quantity isBuy quantityCap =
     (case calculateSlippage \<lparr>li_price = ct_basePrice ctx, li_quantity = quantity, li_isBuy = isBuy,
             li_dailyVolume = ct_dailyVolume ctx, li_spreadContext = ct_spreadContext ctx\<rparr>
             (ct_slippageConfig ctx) of
        Inl e \<Rightarrow> Inl e
      | Inr slippageResult \<Rightarrow>
          let slippageBps = lr_slippageBps slippageResult;
              price = lr_executionPrice slippageResult;
              fill = assessFillability (quantity * price) price (ct_dailyVolume ctx) (ct_slippageConfig ctx)
          in if fa_fillStatus fill = CANCELLED_FILL
             then Inr (Inl (buildCancelledResult price slippageBps quantity (fa_reason fill)))
             else if fa_fillStatus fill = PARTIAL
             then Inr (Inr \<lparr>sf_slippageBps = slippageBps, sf_price = price,
                    sf_quantity = (if truthy quantityCap then min (fa_fillableQuantity fill) (the quantityCap)
                                   else fa_fillableQuantity fill),
                    sf_fillStatus = PARTIAL, sf_requestedQuantity = Some quantity\<rparr>)
             else Inr (Inr \<lparr>sf_slippageBps = slippageBps, sf_price = price, sf_quantity = quantity,
                    sf_fillStatus = FILLED, sf_requestedQuantity = None\<rparr>))"

text \<open>The result of a handler from its fill, the fields of its action filled in afterwards.\<close>

definition actionResult :: "SlippageFillResult \<Rightarrow> number \<Rightarrow> ActionResult" where
  "actionResult fill totalValue =
     SlippageFillResult.extend fill
       \<lparr>ac_totalValue = totalValue, ac_realizedPnL = None, ac_realizedPnLPercent = None, ac_costBasis = None,
        ac_holdTimeMs = None, ac_positionSide = None, ac_leverage = None, ac_liquidationPrice = None,
        ac_marginUsed = None\<rparr>"

section \<open>The four actions\<close>

definition withFill ::
    "TradeContext \<Rightarrow> number \<Rightarrow> bool \<Rightarrow> number option \<Rightarrow>
     (SlippageFillResult \<Rightarrow> TradeError + ActionOutcome) \<Rightarrow> TradeError + ActionOutcome" where
  "withFill ctx quantity isBuy quantityCap act =
     (case applySlippageAndFill ctx quantity isBuy quantityCap of
        Inl e \<Rightarrow> Inl e
      | Inr (Inl cancelled) \<Rightarrow> Inr (CancelledTrade cancelled)
      | Inr (Inr fill) \<Rightarrow> act fill)"

definition executeBuy :: "TradeContext \<Rightarrow> Portfolio \<Rightarrow> TradeError + ActionOutcome" where
  "executeBuy ctx portfolio =
     (let signal = ct_signal ctx;
          deployedValue = po_totalValue portfolio - po_cashBalance portfolio;
          deploymentRatio = (if po_totalValue portfolio > 0 then deployedValue / po_totalValue portfolio else 0)
      in if deploymentRatio \<ge> MAX_PORTFOLIO_DEPLOYMENT then Inr NoTrade
         else let (rawQuantity, usedFallback) = calculateBuyQuantity signal (po_totalValue portfolio)
                    (finiteValue (ct_basePrice ctx)) (ct_maxAllocation ctx) (ct_minAllocation ctx)
              in withFill ctx rawQuantity True None (\<lambda>fill.
                   let quantity = sf_quantity fill; price = sf_price fill; totalValue = quantity * price
                   in case flatFee (ct_tradingFee ctx) totalValue of
                        Inl e \<Rightarrow> Inl e
                      | Inr estimatedFee \<Rightarrow>
                          if po_cashBalance portfolio < totalValue + estimatedFee then Inr NoTrade
                          else let existing = nullish (map_get (po_positions portfolio) (sg_coinId signal))
                                     (plainPosition (sg_coinId signal) 0 0 0);
                                   newQuantity = pos_quantity existing + quantity;
                                   newPosition = existing
                                     \<lparr>pos_averagePrice :=
                                        (if pos_quantity existing \<noteq> 0
                                         then (pos_averagePrice existing * pos_quantity existing + price * quantity) / newQuantity
                                         else price),
                                      pos_quantity := newQuantity, pos_totalValue := newQuantity * price,
                                      pos_entryDate := (case pos_entryDate existing of
                                        None \<Rightarrow> Some (md_timestamp (ct_marketData ctx)) | Some d \<Rightarrow> Some d)\<rparr>
                               in Inr (Acted (actionResult fill totalValue)
                                    (portfolio\<lparr>po_cashBalance := po_cashBalance portfolio - totalValue,
                                       po_positions := map_set (sg_coinId signal) newPosition (po_positions portfolio)\<rparr>))))"

definition executeSell :: "TradeContext \<Rightarrow> Portfolio \<Rightarrow> TradeError + ActionOutcome" where
  "executeSell ctx portfolio =
     (let signal = ct_signal ctx
      in case map_get (po_positions portfolio) (sg_coinId signal) of
           None \<Rightarrow> Inr NoTrade
         | Some existing \<Rightarrow>
             if pos_quantity existing = 0 then Inr NoTrade
             else let holdTimeMs = map_option (\<lambda>d. md_timestamp (ct_marketData ctx) - d) (pos_entryDate existing)
                  in if \<not> isRiskControlSignal signal \<and> ct_minHoldMs ctx > 0 \<and>
                        (case holdTimeMs of None \<Rightarrow> False | Some t \<Rightarrow> of_int t < ct_minHoldMs ctx)
                     then Inr NoTrade
                     else let costBasis = pos_averagePrice existing;
                              (rawQuantity, usedFallback) = calculateSellQuantity signal (pos_quantity existing)
                          in withFill ctx rawQuantity False (Some (pos_quantity existing)) (\<lambda>fill.
                               let quantity = sf_quantity fill; price = sf_price fill;
                                   totalValue = quantity * price;
                                   (realizedPnL, realizedPnLPercent) = calculateLongPnL price costBasis quantity;
                                   remaining = pos_quantity existing - quantity
                               in Inr (Acted ((actionResult fill totalValue)
                                    \<lparr>ac_realizedPnL := Some realizedPnL, ac_realizedPnLPercent := Some realizedPnLPercent,
                                     ac_costBasis := Some costBasis, ac_holdTimeMs := holdTimeMs\<rparr>)
                                    (portfolio\<lparr>po_cashBalance := po_cashBalance portfolio + totalValue,
                                       po_positions :=
                                         (if remaining = 0 then map_delete (sg_coinId signal) (po_positions portfolio)
                                          else map_set (sg_coinId signal)
                                            (existing\<lparr>pos_quantity := remaining, pos_totalValue := remaining * price\<rparr>)
                                            (po_positions portfolio))\<rparr>))))"

text \<open>On a leverage that is \<^verbatim>\<open>NaN\<close> the source opens a short whose margin, and the cash, are \<^verbatim>\<open>NaN\<close>.\<close>

definition executeOpenShort :: "TradeContext \<Rightarrow> Portfolio \<Rightarrow> TradeError + ActionOutcome" where
  "executeOpenShort ctx portfolio =
     (let signal = ct_signal ctx;
          (rawQuantity, usedFallback) = calculateBuyQuantity signal (po_totalValue portfolio)
             (finiteValue (ct_basePrice ctx)) (ct_maxAllocation ctx) (ct_minAllocation ctx)
      in withFill ctx rawQuantity False None (\<lambda>fill.
           let quantity = sf_quantity fill; price = sf_price fill
           in case flatFee (ct_tradingFee ctx) (quantity * price) of
                Inl e \<Rightarrow> Inl e
              | Inr estimatedFee \<Rightarrow>
                  (case resolveShortLeverage signal (ct_defaultLeverage ctx) of
                    Finite shortLeverage \<Rightarrow>
                      let marginAmount = quantity * price / shortLeverage
                      in if po_cashBalance portfolio < marginAmount + estimatedFee then Inr NoTrade
                      else let newCash = po_cashBalance portfolio - marginAmount;
                               liquidationPrice = calculateShortLiquidationPrice price shortLeverage;
                               shortPosition = \<lparr>pos_coinId = sg_coinId signal, pos_quantity = quantity,
                                 pos_averagePrice = price, pos_totalValue = marginAmount,
                                 pos_entryDate = Some (md_timestamp (ct_marketData ctx)), pos_side = Some SHORT,
                                 pos_leverage = Some shortLeverage, pos_marginAmount = Some marginAmount,
                                 pos_liquidationPrice = Some liquidationPrice\<rparr>
                           in Inr (Acted ((actionResult fill marginAmount)
                                \<lparr>ac_positionSide := Some SHORT, ac_leverage := Some shortLeverage,
                                 ac_liquidationPrice := Some liquidationPrice, ac_marginUsed := Some marginAmount\<rparr>)
                                (portfolio\<lparr>po_cashBalance := newCash,
                                   po_positions := map_set (sg_coinId signal) shortPosition (po_positions portfolio),
                                   po_totalMarginUsed := Some (nullish (po_totalMarginUsed portfolio) 0 + marginAmount),
                                   po_availableMargin := Some newCash\<rparr>))
                  | _ \<Rightarrow> Inl AmountsNotNumbers)))"

definition executeCloseShort :: "TradeContext \<Rightarrow> Portfolio \<Rightarrow> TradeError + ActionOutcome" where
  "executeCloseShort ctx portfolio =
     (let signal = ct_signal ctx
      in case map_get (po_positions portfolio) (sg_coinId signal) of
           None \<Rightarrow> Inr NoTrade
         | Some existing \<Rightarrow>
             if pos_side existing \<noteq> Some SHORT \<or> pos_quantity existing = 0 then Inr NoTrade
             else let costBasis = pos_averagePrice existing;
                      (rawQuantity, usedFallback) = calculateSellQuantity signal (pos_quantity existing)
                  in withFill ctx rawQuantity True (Some (pos_quantity existing)) (\<lambda>fill.
                       let quantity = sf_quantity fill; price = sf_price fill;
                           margin = nullish (pos_marginAmount existing) 0;
                           returnedMargin = margin * (quantity / pos_quantity existing);
                           (realizedPnL, realizedPnLPercent) =
                             calculateShortPnL price costBasis quantity returnedMargin;
                           newCash = po_cashBalance portfolio + (returnedMargin + realizedPnL);
                           remaining = pos_quantity existing - quantity;
                           remainingMargin = margin - returnedMargin
                       in Inr (Acted ((actionResult fill returnedMargin)
                            \<lparr>ac_realizedPnL := Some realizedPnL, ac_realizedPnLPercent := Some realizedPnLPercent,
                             ac_costBasis := Some costBasis, ac_positionSide := Some SHORT,
                             ac_leverage := pos_leverage existing,
                             ac_liquidationPrice := pos_liquidationPrice existing,
                             ac_marginUsed := Some returnedMargin\<rparr>)
                            (portfolio\<lparr>po_cashBalance := newCash,
                               po_positions :=
                                 (if remaining \<le> 0 then map_delete (sg_coinId signal) (po_positions portfolio)
                                  else map_set (sg_coinId signal)
                                    (existing\<lparr>pos_quantity := remaining, pos_marginAmount := Some remainingMargin,
                                       pos_totalValue := remainingMargin + (pos_averagePrice existing - price) * remaining\<rparr>)
                                    (po_positions portfolio)),
                               po_totalMarginUsed := Some (max 0 (nullish (po_totalMarginUsed portfolio) 0 - returnedMargin)),
                               po_availableMargin := Some newCash\<rparr>))))"

section \<open>A trade\<close>

definition tradeContext :: "ExecuteTradeParams \<Rightarrow> number \<Rightarrow> TradeContext" where
  "tradeContext params marketPrice =
     (let limits = getAllocationLimits None None None None
      in \<lparr>ct_signal = xp_signal params, ct_basePrice = resolveBasePrice (xp_signal params) marketPrice,
          ct_marketData = xp_marketData params, ct_tradingFee = xp_tradingFee params,
          ct_slippageConfig = nullish (xp_slippageConfig params) DEFAULT_SLIPPAGE_CONFIG,
          ct_dailyVolume = xp_dailyVolume params,
          ct_maxAllocation = nullish (xp_maxAllocation params) (lim_maxAllocation limits),
          ct_minAllocation = nullish (xp_minAllocation params) (lim_minAllocation limits),
          ct_minHoldMs = nullish (xp_minHoldMs params) (getMinHoldMs DEFAULT_RISK_LEVEL),
          ct_defaultLeverage = nullish (xp_defaultLeverage params) 1,
          ct_spreadContext = xp_spreadContext params\<rparr>)"

fun executeAction :: "TradeAction \<Rightarrow> TradeContext \<Rightarrow> Portfolio \<Rightarrow> TradeError + ActionOutcome" where
  "executeAction BUY_ACTION ctx portfolio = executeBuy ctx portfolio"
| "executeAction SELL_ACTION ctx portfolio = executeSell ctx portfolio"
| "executeAction OPEN_SHORT ctx portfolio = executeOpenShort ctx portfolio"
| "executeAction CLOSE_SHORT ctx portfolio = executeCloseShort ctx portfolio"
| "executeAction HOLD_ACTION ctx portfolio = Inr NoTrade"

definition feeBaseValue :: "TradeAction \<Rightarrow> ActionResult \<Rightarrow> number" where
  "feeBaseValue action r =
     (if action = OPEN_SHORT \<or> action = CLOSE_SHORT then sf_quantity r * sf_price r else ac_totalValue r)"

definition tradeRecord :: "TradeContext \<Rightarrow> ActionResult \<Rightarrow> number \<Rightarrow> ExecuteTradeResult" where
  "tradeRecord ctx r fee =
     (let signal = ct_signal ctx
      in \<lparr>et_trade = \<lparr>bt_type = Some (inferTradeType (sg_action signal)), bt_quantity = sf_quantity r,
            bt_price = sf_price r, bt_totalValue = Some (ac_totalValue r), bt_fee = Some fee,
            bt_realizedPnL = ac_realizedPnL r, bt_realizedPnLPercent = ac_realizedPnLPercent r,
            bt_costBasis = ac_costBasis r, bt_positionSide = ac_positionSide r, bt_leverage = ac_leverage r,
            bt_liquidationPrice = ac_liquidationPrice r, bt_marginUsed = ac_marginUsed r,
            bt_metadata = Executed (sg_metadata signal) (sg_reason signal) (nullish (sg_confidence signal) 0)
              (ct_basePrice ctx) (sf_slippageBps r) (ac_holdTimeMs r)
              (if sf_fillStatus r = PARTIAL then sf_requestedQuantity r else None)\<rparr>,
          et_slippageBps = sf_slippageBps r, et_fillStatus = sf_fillStatus r,
          et_requestedQuantity = sf_requestedQuantity r\<rparr>)"

definition executeTrade ::
    "DecimalOps \<Rightarrow> ExecuteTradeParams \<Rightarrow> Portfolio \<Rightarrow> (TradeError + ExecuteTradeResult option) \<times> Portfolio" where
  "executeTrade D params portfolio =
     (let signal = xp_signal params; prices = md_prices (xp_marketData params)
      in case map_get prices (sg_coinId signal) of
           None \<Rightarrow> (Inr None, portfolio)
         | Some marketPrice \<Rightarrow>
             if marketPrice = 0 then (Inr None, portfolio)
             else if sg_action signal = HOLD_ACTION then (Inr None, portfolio)
             else if \<not> validatePositionConflicts signal portfolio then (Inr None, portfolio)
             else let ctx = tradeContext params marketPrice
                  in case executeAction (sg_action signal) ctx portfolio of
                       Inl e \<Rightarrow> (Inl e, portfolio)
                     | Inr NoTrade \<Rightarrow> (Inr None, portfolio)
                     | Inr (CancelledTrade r) \<Rightarrow> (Inr (Some r), portfolio)
                     | Inr (Acted r changed) \<Rightarrow>
                         (case flatFee (xp_tradingFee params) (feeBaseValue (sg_action signal) r) of
                            Inl e \<Rightarrow> (Inl e, changed)
                          | Inr fee \<Rightarrow>
                              let cash = po_cashBalance changed - fee
                              in (Inr (Some (tradeRecord ctx r fee)),
                                  changed\<lparr>po_cashBalance := cash,
                                    po_totalValue := cash + calculatePositionsValue D (po_positions changed) prices\<rparr>)))"

end
