(* ===== verification/TradeSafety.thy ===== *)
theory TradeSafety
  imports TradeExecutor
begin

text \<open>
  What a backtest trade does to the value of a portfolio: no trade creates value, and an executed
  one costs at least its fee, as long as a coin held short is not sold as if it were held long.
\<close>

section \<open>Fills\<close>

lemma slippage_price:
  assumes "calculateSlippage \<lparr>li_price = Finite m, li_quantity = q, li_isBuy = isBuy, li_dailyVolume = v,
      li_spreadContext = sc\<rparr> config = Inr r"
    and "sane_slippage config" "nullish (sl_maxSlippageBps config) 500 \<le> 10000" "0 < m" "0 \<le> q"
  shows "0 \<le> lr_executionPrice r" "isBuy \<Longrightarrow> m \<le> lr_executionPrice r"
    and "\<not> isBuy \<Longrightarrow> lr_executionPrice r \<le> m"
proof -
  let ?bps = "calculateSlippageBps q m (Slippage_buildConfig config) v sc"
  have "sl_maxSlippageBps (Slippage_buildConfig config) = Some (nullish (sl_maxSlippageBps config) 500)"
    by (simp add: Slippage_buildConfig_def)
  then have bps: "0 \<le> ?bps" "?bps \<le> 10000"
    using calculateSlippageBps_bounds [of "Slippage_buildConfig config" q m v sc] assms by simp_all
  have price: "lr_executionPrice r = applySlippage m ?bps isBuy"
    using assms(1,4) by (auto simp: calculateSlippage_def Let_def)
  show "0 \<le> lr_executionPrice r" "isBuy \<Longrightarrow> m \<le> lr_executionPrice r"
    and "\<not> isBuy \<Longrightarrow> lr_executionPrice r \<le> m"
    using bps assms(4) by (simp_all add: price applySlippage_def Let_def)
qed

lemma partial_quantity:
  assumes "fa_fillStatus (assessFillability v p d c) = PARTIAL" "sane_slippage c" "0 \<le> p"
  shows "0 \<le> fa_fillableQuantity (assessFillability v p d c)"
proof -
  have "0 \<le> l * x / p" if "sl_participationRateLimit c = Some l" "usableVolume d = Some x" for l x
    using that assms usableVolume_pos [OF that(2)] by (auto simp: sane_slippage_def intro!: divide_nonneg_nonneg)
  then show ?thesis
    using assms(1) by (auto simp: assessFillability_def Slippage_buildConfig_def Let_def
        split: option.splits if_splits)
qed

lemma partial_quantity_le:
  assumes "fa_fillStatus (assessFillability (q * p) p d c) = PARTIAL" "0 \<le> q" "0 \<le> p"
  shows "fa_fillableQuantity (assessFillability (q * p) p d c) \<le> q"
proof -
  have "l * x / p \<le> q" if "\<not> q * p / x \<le> l" "usableVolume d = Some x" for l x
    using that assms(2,3) usableVolume_pos [OF that(2)] by (cases "p = 0") (simp_all add: field_simps)
  then show ?thesis
    using assms(1) by (auto simp: assessFillability_def Slippage_buildConfig_def Let_def not_le
        split: option.splits if_splits)
qed

lemma fill_bounds:
  assumes "applySlippageAndFill ctx q isBuy quantityCap = Inr (Inr f)" "ct_basePrice ctx = Finite m"
    and "0 < m" "0 \<le> q" "sane_slippage (ct_slippageConfig ctx)"
    and "nullish (sl_maxSlippageBps (ct_slippageConfig ctx)) 500 \<le> 10000"
    and "\<And>Q. quantityCap = Some Q \<Longrightarrow> q \<le> Q \<and> 0 \<le> Q"
  shows "0 \<le> sf_quantity f" "0 \<le> sf_price f"
    and "isBuy \<Longrightarrow> m \<le> sf_price f" "\<not> isBuy \<Longrightarrow> sf_price f \<le> m"
    and "quantityCap = Some Q \<Longrightarrow> Q \<noteq> 0 \<Longrightarrow> sf_quantity f \<le> Q"
proof -
  obtain r where r: "calculateSlippage \<lparr>li_price = Finite m, li_quantity = q, li_isBuy = isBuy,
      li_dailyVolume = ct_dailyVolume ctx, li_spreadContext = ct_spreadContext ctx\<rparr> (ct_slippageConfig ctx) = Inr r"
    using assms(1,2) by (auto simp: applySlippageAndFill_def split: sum.splits)
  note price = slippage_price [OF r assms(5,6,3,4)]
  define a where "a = assessFillability (q * lr_executionPrice r) (lr_executionPrice r) (ct_dailyVolume ctx)
    (ct_slippageConfig ctx)"
  have part: "0 \<le> fa_fillableQuantity a" if "fa_fillStatus a = PARTIAL"
    using partial_quantity that assms(5) price(1) by (simp add: a_def)
  have f: "sf_price f = lr_executionPrice r"
    "sf_quantity f = q \<or> fa_fillStatus a = PARTIAL \<and> sf_quantity f =
       (if truthy quantityCap then min (fa_fillableQuantity a) (the quantityCap) else fa_fillableQuantity a)"
    using assms(1,2) r by (auto simp: applySlippageAndFill_def a_def Let_def split: if_splits)
  show "0 \<le> sf_quantity f" "0 \<le> sf_price f"
    and "isBuy \<Longrightarrow> m \<le> sf_price f" "\<not> isBuy \<Longrightarrow> sf_price f \<le> m"
    using f part price assms(4,7) by (auto simp: truthy_def split: option.splits)
  show "sf_quantity f \<le> Q" if "quantityCap = Some Q" "Q \<noteq> 0"
    using f(2) that assms(7) by auto
qed

lemma fill_at_most:
  assumes "applySlippageAndFill ctx q isBuy quantityCap = Inr (Inr f)" "ct_basePrice ctx = Finite m"
    and "0 < m" "0 \<le> q" "sane_slippage (ct_slippageConfig ctx)"
    and "nullish (sl_maxSlippageBps (ct_slippageConfig ctx)) 500 \<le> 10000"
  shows "sf_quantity f \<le> q"
proof -
  obtain r where r: "calculateSlippage \<lparr>li_price = Finite m, li_quantity = q, li_isBuy = isBuy,
      li_dailyVolume = ct_dailyVolume ctx, li_spreadContext = ct_spreadContext ctx\<rparr> (ct_slippageConfig ctx) = Inr r"
    using assms(1,2) by (auto simp: applySlippageAndFill_def split: sum.splits)
  note price = slippage_price [OF r assms(5,6,3,4)]
  note part = partial_quantity_le [of q "lr_executionPrice r" "ct_dailyVolume ctx" "ct_slippageConfig ctx"]
  show ?thesis
    using assms(1,2,4) r part price(1) by (auto simp: applySlippageAndFill_def Let_def split: if_splits)
qed

section \<open>The value of a portfolio\<close>

text \<open>A position value at a market price, and the value of a portfolio at the prices of a moment.\<close>

definition equity :: "DecimalOps \<Rightarrow> Prices \<Rightarrow> Portfolio \<Rightarrow> number" where
  "equity D prices P = po_cashBalance P + calculatePositionsValue D (po_positions P) prices"

definition valueAt :: "Position \<Rightarrow> number \<Rightarrow> number" where
  "valueAt p m =
     (case (pos_side p, pos_marginAmount p) of
        (Some SHORT, Some margin) \<Rightarrow> max 0 (margin + (pos_averagePrice p - m) * pos_quantity p)
      | _ \<Rightarrow> pos_quantity p * m)"

text \<open>Quantities and margins are not negative, and a short has its margin.\<close>

definition tradable :: "Position \<Rightarrow> bool" where
  "tradable p \<longleftrightarrow> 0 \<le> pos_quantity p \<and>
     (pos_side p = Some SHORT \<longrightarrow> (\<exists>margin \<ge> 0. pos_marginAmount p = Some margin))"

definition tradable_positions :: "(string, Position) jsmap \<Rightarrow> bool" where
  "tradable_positions m \<longleftrightarrow> map_wf m \<and> (\<forall>(coinId, p) \<in> set m. tradable p)"

lemma getPositionValue_valueAt:
  "exact_decimal D \<Longrightarrow> getPositionValue D p (Some m) True = valueAt p m"
  by (simp add: getPositionValue_def valueAt_def exact_decimal_def Let_def split: option.splits PositionSide.splits)

lemma valueAt_nonneg: "tradable p \<Longrightarrow> 0 \<le> m \<Longrightarrow> 0 \<le> valueAt p m"
  by (auto simp: valueAt_def tradable_def split: option.splits PositionSide.splits)

lemma tradable_get: "tradable_positions m \<Longrightarrow> map_get m c = Some p \<Longrightarrow> tradable p"
  using map_get_SomeD by (fastforce simp: tradable_positions_def)

lemma tradable_set: "tradable_positions m \<Longrightarrow> tradable p \<Longrightarrow> tradable_positions (map_set c p m)"
  using set_map_set [of c p m] by (fastforce simp: tradable_positions_def)

lemma tradable_delete: "tradable_positions m \<Longrightarrow> tradable_positions (map_delete c m)"
  using set_map_delete [of c m] by (fastforce simp: tradable_positions_def)

lemma equity_set:
  assumes "exact_decimal D" "map_wf (po_positions P)" "map_get prices c = Some m"
    and "po_positions Q = map_set c p (po_positions P)"
  shows "equity D prices Q = equity D prices P + (po_cashBalance Q - po_cashBalance P) + valueAt p m -
    (case map_get (po_positions P) c of None \<Rightarrow> 0 | Some old \<Rightarrow> valueAt old m)"
  using assms sum_map_set [OF assms(2), of "\<lambda>c p. getPositionValue D p (map_get prices c) True" c p]
  by (simp add: equity_def positionsValue_sum getPositionValue_valueAt split: option.splits)

lemma equity_delete:
  assumes "exact_decimal D" "map_wf (po_positions P)" "map_get prices c = Some m"
    and "po_positions Q = map_delete c (po_positions P)"
  shows "equity D prices Q = equity D prices P + (po_cashBalance Q - po_cashBalance P) -
    (case map_get (po_positions P) c of None \<Rightarrow> 0 | Some old \<Rightarrow> valueAt old m)"
  using assms sum_map_delete [OF assms(2), of "\<lambda>c p. getPositionValue D p (map_get prices c) True" c]
  by (simp add: equity_def positionsValue_sum getPositionValue_valueAt split: option.splits)

section \<open>The four actions\<close>

definition sane_signal :: "TradingSignal \<Rightarrow> bool" where
  "sane_signal s \<longleftrightarrow> 0 \<le> nullish (sg_quantity s) 0 \<and> 0 \<le> nullish (sg_percentage s) 0 \<and>
     0 \<le> nullish (sg_confidence s) 0 \<and> nullish (sg_confidence s) 0 \<le> 1"

definition sane_context :: "TradeContext \<Rightarrow> number \<Rightarrow> bool" where
  "sane_context ctx m \<longleftrightarrow>
     ct_basePrice ctx = Finite m \<and> 0 < m \<and> 0 \<le> ct_tradingFee ctx \<and> sane_signal (ct_signal ctx) \<and>
     sane_slippage (ct_slippageConfig ctx) \<and>
     nullish (sl_maxSlippageBps (ct_slippageConfig ctx)) 500 \<le> 10000 \<and>
     0 \<le> ct_minAllocation ctx \<and> ct_minAllocation ctx \<le> ct_maxAllocation ctx"

text \<open>What an action may do to a portfolio before its fee is taken.\<close>

definition adverse :: "DecimalOps \<Rightarrow> Prices \<Rightarrow> TradeContext \<Rightarrow> Portfolio \<Rightarrow> ActionResult \<Rightarrow> Portfolio \<Rightarrow> bool" where
  "adverse D prices ctx P r Q \<longleftrightarrow>
     equity D prices Q \<le> equity D prices P \<and> tradable_positions (po_positions Q) \<and>
     0 \<le> feeBaseValue (sg_action (ct_signal ctx)) r \<and>
     (sg_action (ct_signal ctx) \<in> {BUY_ACTION, OPEN_SHORT} \<longrightarrow>
        feeBaseValue (sg_action (ct_signal ctx)) r * ct_tradingFee ctx \<le> po_cashBalance Q)"

lemma buy_quantity_nonneg:
  assumes "sane_signal s" "0 \<le> t" "0 < m" "0 \<le> least" "least \<le> most"
  shows "0 \<le> fst (calculateBuyQuantity s t m most least)"
  using assms by (auto simp: calculateBuyQuantity_def sane_signal_def truthy_def Let_def split: option.splits)

lemma sell_quantity_bounds:
  assumes "sane_signal s" "0 \<le> held"
  shows "0 \<le> fst (calculateSellQuantity s held)" "fst (calculateSellQuantity s held) \<le> held"
  using assms by (auto simp: calculateSellQuantity_def sane_signal_def truthy_def Let_def split: option.splits)

lemma clampLeverage_pos: "clampLeverage x = Finite l \<Longrightarrow> 0 < l"
  by (cases x) (auto simp: MAX_LEVERAGE_CAP_def)

lemma leverage_pos: "resolveShortLeverage s d = Finite l \<Longrightarrow> 0 < l"
  unfolding resolveShortLeverage_def by (auto dest: clampLeverage_pos simp del: clampLeverage.simps split: option.splits)

lemma actionResult_fields [simp]:
  "sf_quantity (actionResult f v) = sf_quantity f" "sf_price (actionResult f v) = sf_price f"
  "ac_totalValue (actionResult f v) = v"
  by (simp_all add: actionResult_def SlippageFillResult.defs)

lemma withFill_Acted:
  assumes "withFill ctx q isBuy quantityCap act = Inr (Acted r Q)"
  obtains f where "applySlippageAndFill ctx q isBuy quantityCap = Inr (Inr f)" "act f = Inr (Acted r Q)"
  using assms by (auto simp: withFill_def split: sum.splits)

lemma executeBuy_adverse:
  assumes "exact_decimal D" "tradable_positions (po_positions P)" "0 \<le> po_totalValue P"
    and "sane_context ctx m" "map_get prices (sg_coinId (ct_signal ctx)) = Some m"
    and "sg_action (ct_signal ctx) = BUY_ACTION" "validatePositionConflicts (ct_signal ctx) P"
    and "executeBuy ctx P = Inr (Acted r Q)"
  shows "adverse D prices ctx P r Q"
proof -
  let ?c = "sg_coinId (ct_signal ctx)"
  define q where "q = fst (calculateBuyQuantity (ct_signal ctx) (po_totalValue P) m (ct_maxAllocation ctx) (ct_minAllocation ctx))"
  define old where "old = nullish (map_get (po_positions P) ?c) (plainPosition ?c 0 0 0)"
  note ctx = assms(4) [unfolded sane_context_def]
  have q: "0 \<le> q" using buy_quantity_nonneg ctx assms(3) by (simp add: q_def)
  define newPosition where "newPosition f = old
    \<lparr>pos_averagePrice := (if pos_quantity old \<noteq> 0
       then (pos_averagePrice old * pos_quantity old + sf_price f * sf_quantity f) / (pos_quantity old + sf_quantity f)
       else sf_price f),
     pos_quantity := pos_quantity old + sf_quantity f,
     pos_totalValue := (pos_quantity old + sf_quantity f) * sf_price f,
     pos_entryDate := (case pos_entryDate old of None \<Rightarrow> Some (md_timestamp (ct_marketData ctx)) | Some d \<Rightarrow> Some d)\<rparr>" for f :: SlippageFillResult
  obtain f where f: "applySlippageAndFill ctx q True None = Inr (Inr f)"
    and cash: "sf_quantity f * sf_price f + sf_quantity f * sf_price f * ct_tradingFee ctx \<le> po_cashBalance P"
    and r: "r = actionResult f (sf_quantity f * sf_price f)"
    and Q: "po_cashBalance Q = po_cashBalance P - sf_quantity f * sf_price f"
      "po_positions Q = map_set ?c (newPosition f) (po_positions P)"
    using assms(8) ctx unfolding executeBuy_def
    by (auto simp: Let_def case_prod_unfold q_def [symmetric] old_def [symmetric] newPosition_def
        elim!: withFill_Acted split: if_splits)
  define p where "p = newPosition f"
  have p: "pos_quantity p = pos_quantity old + sf_quantity f" "pos_side p = pos_side old"
      "pos_marginAmount p = pos_marginAmount old" "pos_quantity old = 0 \<longrightarrow> pos_averagePrice p = sf_price f"
    by (simp_all add: p_def newPosition_def)
  note b = fill_bounds [OF f, of m]
  have b: "0 \<le> sf_quantity f" "0 \<le> sf_price f" "m \<le> sf_price f"
    using b ctx q by auto
  have old: "tradable old" "pos_quantity old = 0"
    using tradable_get [OF assms(2)] assms(6,7)
    by (auto simp: old_def tradable_def validatePositionConflicts_def plainPosition_def nullish_def
        split: option.splits intro!: antisym)
  have old_value: "valueAt old m = (case map_get (po_positions P) ?c of None \<Rightarrow> 0 | Some p \<Rightarrow> valueAt p m)"
    by (cases "map_get (po_positions P) ?c") (simp_all add: old_def plainPosition_def valueAt_def)
  have "sf_quantity f * m \<le> sf_quantity f * sf_price f" "0 \<le> sf_quantity f * m"
    using b ctx by (simp_all add: mult_left_mono)
  then have paid: "valueAt p m \<le> valueAt old m + sf_quantity f * sf_price f"
    using p old by (auto simp: valueAt_def tradable_def algebra_simps split: option.splits PositionSide.splits)
  have "equity D prices Q \<le> equity D prices P"
    using equity_set [OF assms(1) _ assms(5) Q(2)] assms(2) Q(1) paid old_value p_def
    by (auto simp: tradable_positions_def)
  moreover have "tradable_positions (po_positions Q)"
    using tradable_set [OF assms(2), of p] old p b by (simp add: Q p_def [symmetric] tradable_def)
  ultimately show ?thesis
    using b cash assms(6) by (simp add: adverse_def feeBaseValue_def r Q)
qed

definition soldPart :: "Position \<Rightarrow> SlippageFillResult \<Rightarrow> Position" where
  "soldPart held f = held\<lparr>pos_quantity := pos_quantity held - sf_quantity f,
    pos_totalValue := (pos_quantity held - sf_quantity f) * sf_price f\<rparr>"

lemma executeSell_result:
  assumes "executeSell ctx P = Inr (Acted r Q)"
    and "map_get (po_positions P) (sg_coinId (ct_signal ctx)) = Some held"
  obtains f where "pos_quantity held \<noteq> 0"
    "applySlippageAndFill ctx (fst (calculateSellQuantity (ct_signal ctx) (pos_quantity held))) False
       (Some (pos_quantity held)) = Inr (Inr f)"
    "sf_quantity r = sf_quantity f" "sf_price r = sf_price f" "ac_totalValue r = sf_quantity f * sf_price f"
    "po_cashBalance Q = po_cashBalance P + sf_quantity f * sf_price f"
    "po_positions Q = (if pos_quantity held = sf_quantity f then map_delete (sg_coinId (ct_signal ctx)) (po_positions P)
       else map_set (sg_coinId (ct_signal ctx)) (soldPart held f) (po_positions P))"
  using assms unfolding executeSell_def
  by (auto simp: Let_def case_prod_unfold soldPart_def calculateLongPnL_def elim!: withFill_Acted split: if_splits)

lemma executeSell_adverse:
  assumes "exact_decimal D" "tradable_positions (po_positions P)"
    and "sane_context ctx m" "map_get prices (sg_coinId (ct_signal ctx)) = Some m"
    and "sg_action (ct_signal ctx) = SELL_ACTION"
    and "map_get (po_positions P) (sg_coinId (ct_signal ctx)) = Some held" "pos_side held \<noteq> Some SHORT"
    and "executeSell ctx P = Inr (Acted r Q)"
  shows "adverse D prices ctx P r Q"
proof -
  let ?c = "sg_coinId (ct_signal ctx)"
  define q where "q = fst (calculateSellQuantity (ct_signal ctx) (pos_quantity held))"
  note ctx = assms(3) [unfolded sane_context_def]
  have held: "0 \<le> pos_quantity held" using tradable_get [OF assms(2,6)] by (simp add: tradable_def)
  have q: "0 \<le> q" "q \<le> pos_quantity held"
    using sell_quantity_bounds ctx held by (simp_all add: q_def)
  obtain f where some: "pos_quantity held \<noteq> 0"
    and f: "applySlippageAndFill ctx q False (Some (pos_quantity held)) = Inr (Inr f)"
    and r: "sf_quantity r = sf_quantity f" "sf_price r = sf_price f" "ac_totalValue r = sf_quantity f * sf_price f"
    and Q: "po_cashBalance Q = po_cashBalance P + sf_quantity f * sf_price f"
      "po_positions Q = (if pos_quantity held = sf_quantity f then map_delete ?c (po_positions P)
         else map_set ?c (soldPart held f) (po_positions P))"
    using executeSell_result [OF assms(8,6)] unfolding q_def by metis
  have b: "0 \<le> sf_quantity f" "0 \<le> sf_price f" "sf_price f \<le> m" "sf_quantity f \<le> pos_quantity held"
    using fill_bounds [OF f, of m] ctx q held some by auto
  have "sf_quantity f * sf_price f \<le> sf_quantity f * m"
    using b by (simp add: mult_left_mono)
  moreover have "valueAt held m = pos_quantity held * m" "valueAt (soldPart held f) m = (pos_quantity held - sf_quantity f) * m"
    using assms(7) by (auto simp: valueAt_def soldPart_def split: option.splits PositionSide.splits)
  ultimately have "equity D prices Q \<le> equity D prices P"
    using equity_delete [OF assms(1) _ assms(4), of P Q] equity_set [OF assms(1) _ assms(4), of P Q "soldPart held f"]
      assms(2,6) Q by (auto simp: tradable_positions_def algebra_simps split: if_splits)
  moreover have "tradable_positions (po_positions Q)"
    using tradable_set [OF assms(2), of "soldPart held f"] tradable_delete [OF assms(2)] b assms(7)
    by (auto simp: Q tradable_def soldPart_def)
  ultimately show ?thesis
    using b assms(5) by (simp add: adverse_def feeBaseValue_def r)
qed

text \<open>What a new short is, and what is left of one that is partly closed.\<close>

definition openedShort :: "TradeContext \<Rightarrow> SlippageFillResult \<Rightarrow> number \<Rightarrow> Position" where
  "openedShort ctx f l = \<lparr>pos_coinId = sg_coinId (ct_signal ctx), pos_quantity = sf_quantity f,
    pos_averagePrice = sf_price f, pos_totalValue = sf_quantity f * sf_price f / l,
    pos_entryDate = Some (md_timestamp (ct_marketData ctx)), pos_side = Some SHORT, pos_leverage = Some l,
    pos_marginAmount = Some (sf_quantity f * sf_price f / l),
    pos_liquidationPrice = Some (calculateShortLiquidationPrice (sf_price f) l)\<rparr>"

definition reducedShort :: "Position \<Rightarrow> number \<Rightarrow> SlippageFillResult \<Rightarrow> Position" where
  "reducedShort held margin f = held\<lparr>pos_quantity := pos_quantity held - sf_quantity f,
    pos_marginAmount := Some (margin - margin * (sf_quantity f / pos_quantity held)),
    pos_totalValue := margin - margin * (sf_quantity f / pos_quantity held) +
      (pos_averagePrice held - sf_price f) * (pos_quantity held - sf_quantity f)\<rparr>"

lemma executeOpenShort_result:
  assumes "executeOpenShort ctx P = Inr (Acted r Q)" "ct_basePrice ctx = Finite m"
  obtains f l where
    "applySlippageAndFill ctx (fst (calculateBuyQuantity (ct_signal ctx) (po_totalValue P) m
       (ct_maxAllocation ctx) (ct_minAllocation ctx))) False None = Inr (Inr f)"
    "resolveShortLeverage (ct_signal ctx) (ct_defaultLeverage ctx) = Finite l"
    "sf_quantity f * sf_price f / l + sf_quantity f * sf_price f * ct_tradingFee ctx \<le> po_cashBalance P"
    "sf_quantity r = sf_quantity f" "sf_price r = sf_price f"
    "po_cashBalance Q = po_cashBalance P - sf_quantity f * sf_price f / l"
    "po_positions Q = map_set (sg_coinId (ct_signal ctx)) (openedShort ctx f l) (po_positions P)"
  using assms unfolding executeOpenShort_def
  by (auto simp: Let_def case_prod_unfold openedShort_def elim!: withFill_Acted split: if_splits js_number.splits)

lemma executeCloseShort_result:
  assumes "executeCloseShort ctx P = Inr (Acted r Q)"
    and "map_get (po_positions P) (sg_coinId (ct_signal ctx)) = Some held" "pos_marginAmount held = Some margin"
  obtains f where
    "applySlippageAndFill ctx (fst (calculateSellQuantity (ct_signal ctx) (pos_quantity held))) True
       (Some (pos_quantity held)) = Inr (Inr f)"
    "sf_quantity r = sf_quantity f" "sf_price r = sf_price f"
    "po_cashBalance Q = po_cashBalance P + (margin * (sf_quantity f / pos_quantity held) +
       max (- (margin * (sf_quantity f / pos_quantity held)))
         ((pos_averagePrice held - sf_price f) * sf_quantity f))"
    "po_positions Q = (if pos_quantity held - sf_quantity f \<le> 0
       then map_delete (sg_coinId (ct_signal ctx)) (po_positions P)
       else map_set (sg_coinId (ct_signal ctx)) (reducedShort held margin f) (po_positions P))"
  using assms unfolding executeCloseShort_def
  by (auto simp: Let_def case_prod_unfold reducedShort_def calculateShortPnL_def
      elim!: withFill_Acted split: if_splits)

lemma executeOpenShort_adverse:
  assumes "exact_decimal D" "tradable_positions (po_positions P)" "0 \<le> po_totalValue P"
    and "sane_context ctx m" "map_get prices (sg_coinId (ct_signal ctx)) = Some m"
    and "sg_action (ct_signal ctx) = OPEN_SHORT"
    and "executeOpenShort ctx P = Inr (Acted r Q)"
  shows "adverse D prices ctx P r Q"
    and "equity D prices Q \<le> equity D prices P -
      (case map_get (po_positions P) (sg_coinId (ct_signal ctx)) of None \<Rightarrow> 0 | Some old \<Rightarrow> valueAt old m)"
proof -
  let ?c = "sg_coinId (ct_signal ctx)"
  define q where "q = fst (calculateBuyQuantity (ct_signal ctx) (po_totalValue P) m (ct_maxAllocation ctx) (ct_minAllocation ctx))"
  note ctx = assms(4) [unfolded sane_context_def]
  have q: "0 \<le> q" using buy_quantity_nonneg ctx assms(3) by (simp add: q_def)
  obtain f l where f: "applySlippageAndFill ctx q False None = Inr (Inr f)"
    and l: "resolveShortLeverage (ct_signal ctx) (ct_defaultLeverage ctx) = Finite l"
    and cash: "sf_quantity f * sf_price f / l + sf_quantity f * sf_price f * ct_tradingFee ctx \<le> po_cashBalance P"
    and r: "sf_quantity r = sf_quantity f" "sf_price r = sf_price f"
    and Q: "po_cashBalance Q = po_cashBalance P - sf_quantity f * sf_price f / l"
      "po_positions Q = map_set ?c (openedShort ctx f l) (po_positions P)"
    using executeOpenShort_result [OF assms(7), of m] ctx unfolding q_def by metis
  define p where "p = openedShort ctx f l"
  have p: "pos_quantity p = sf_quantity f" "pos_side p = Some SHORT"
      "pos_marginAmount p = Some (sf_quantity f * sf_price f / l)" "pos_averagePrice p = sf_price f"
    by (simp_all add: p_def openedShort_def)
  note Q = Q [folded p_def]
  have b: "0 \<le> sf_quantity f" "0 \<le> sf_price f" "sf_price f \<le> m"
    using fill_bounds [OF f, of m] ctx q by auto
  have margin: "0 \<le> sf_quantity f * sf_price f / l"
    using b leverage_pos [OF l] by simp
  have "(sf_price f - m) * sf_quantity f \<le> 0"
    using b by (simp add: mult_nonpos_nonneg)
  then have "valueAt p m \<le> sf_quantity f * sf_price f / l"
    using margin by (simp add: valueAt_def p)
  then show spent: "equity D prices Q \<le> equity D prices P -
      (case map_get (po_positions P) ?c of None \<Rightarrow> 0 | Some old \<Rightarrow> valueAt old m)"
    using equity_set [OF assms(1) _ assms(5) Q(2)] assms(2) Q(1) by (simp add: tradable_positions_def)
  have "0 \<le> (case map_get (po_positions P) ?c of None \<Rightarrow> 0 | Some old \<Rightarrow> valueAt old m)"
    using tradable_get [OF assms(2)] ctx by (auto intro: valueAt_nonneg split: option.splits)
  moreover have "tradable_positions (po_positions Q)"
    using tradable_set [OF assms(2), of p] b margin by (simp add: Q tradable_def p)
  ultimately show "adverse D prices ctx P r Q"
    using b cash assms(6) spent by (simp add: adverse_def feeBaseValue_def r Q)
qed

lemma executeCloseShort_adverse:
  assumes "exact_decimal D" "tradable_positions (po_positions P)"
    and "sane_context ctx m" "map_get prices (sg_coinId (ct_signal ctx)) = Some m"
    and "sg_action (ct_signal ctx) = CLOSE_SHORT"
    and "executeCloseShort ctx P = Inr (Acted r Q)"
  shows "adverse D prices ctx P r Q"
proof -
  let ?c = "sg_coinId (ct_signal ctx)"
  note ctx = assms(3) [unfolded sane_context_def]
  obtain held where held: "map_get (po_positions P) ?c = Some held" "pos_side held = Some SHORT" "pos_quantity held \<noteq> 0"
    using assms(6) by (auto simp: executeCloseShort_def Let_def split: option.splits if_splits)
  obtain margin where margin: "pos_marginAmount held = Some margin" "0 \<le> margin" and positive: "0 < pos_quantity held"
    using tradable_get [OF assms(2) held(1)] held(2,3) by (auto simp: tradable_def)
  define q where "q = fst (calculateSellQuantity (ct_signal ctx) (pos_quantity held))"
  have q: "0 \<le> q" "q \<le> pos_quantity held"
    using sell_quantity_bounds ctx positive by (simp_all add: q_def)
  obtain f where f: "applySlippageAndFill ctx q True (Some (pos_quantity held)) = Inr (Inr f)"
    and r: "sf_quantity r = sf_quantity f" "sf_price r = sf_price f"
    and Q: "po_cashBalance Q = po_cashBalance P + (margin * (sf_quantity f / pos_quantity held) +
        max (- (margin * (sf_quantity f / pos_quantity held))) ((pos_averagePrice held - sf_price f) * sf_quantity f))"
      "po_positions Q = (if pos_quantity held - sf_quantity f \<le> 0 then map_delete ?c (po_positions P)
         else map_set ?c (reducedShort held margin f) (po_positions P))"
    using executeCloseShort_result [OF assms(6) held(1) margin(1)] unfolding q_def by metis
  have b: "0 \<le> sf_quantity f" "0 \<le> sf_price f" "m \<le> sf_price f" "sf_quantity f \<le> pos_quantity held"
    using fill_bounds [OF f, of m] ctx q positive by auto
  define k where "k = sf_quantity f / pos_quantity held"
  have k: "0 \<le> k" "k \<le> 1" "sf_quantity f = k * pos_quantity held"
    using b positive by (simp_all add: k_def)
  define whole where "whole = margin + (pos_averagePrice held - m) * pos_quantity held"
  have gain: "margin * k + max (- (margin * k)) ((pos_averagePrice held - sf_price f) * sf_quantity f) \<le> k * max 0 whole"
  proof -
    have "k * pos_quantity held * m \<le> k * pos_quantity held * sf_price f"
      using k(1) positive b(3) by (intro mult_left_mono) auto
    then have "margin * k + (pos_averagePrice held - sf_price f) * sf_quantity f \<le> k * whole"
      by (simp add: whole_def k(3) algebra_simps)
    moreover have "k * max 0 whole = max 0 (k * whole)"
      using k(1) by (simp add: max_mult_distrib_left)
    ultimately show ?thesis by simp
  qed
  have rest: "valueAt (reducedShort held margin f) m = (1 - k) * max 0 whole"
  proof -
    have "valueAt (reducedShort held margin f) m = max 0 ((1 - k) * whole)"
      by (simp add: valueAt_def reducedShort_def held k_def [symmetric] whole_def k(3) algebra_simps)
    then show ?thesis using k(2) by (simp add: max_mult_distrib_left)
  qed
  have old: "valueAt held m = max 0 whole"
    by (simp add: valueAt_def whole_def held margin)
  have "equity D prices Q \<le> equity D prices P"
  proof (cases "pos_quantity held - sf_quantity f \<le> 0")
    case True
    then have "pos_quantity held * 1 \<le> pos_quantity held * k" by (simp add: k(3) mult.commute)
    then have "k = 1" using positive k(2) by simp
    then show ?thesis
      using equity_delete [OF assms(1) _ assms(4), of P Q] assms(2) True Q gain old
      by (simp add: tradable_positions_def held(1) k_def [symmetric])
  next
    case False
    then show ?thesis
      using equity_set [OF assms(1) _ assms(4), of P Q "reducedShort held margin f"] assms(2) Q gain old rest
      by (simp add: tradable_positions_def held(1) k_def [symmetric] left_diff_distrib)
  qed
  moreover have "0 \<le> margin - margin * (sf_quantity f / pos_quantity held)"
    using mult_left_mono [OF k(2) margin(2)] by (simp add: k_def)
  then have "tradable_positions (po_positions Q)"
    using tradable_set [OF assms(2), of "reducedShort held margin f"] tradable_delete [OF assms(2)] b
    by (auto simp: Q tradable_def reducedShort_def)
  ultimately show ?thesis
    using b assms(5) by (simp add: adverse_def feeBaseValue_def r)
qed

section \<open>A trade\<close>

lemma default_limits:
  "0 \<le> lim_minAllocation (getAllocationLimits None None None None)"
  "lim_minAllocation (getAllocationLimits None None None None) \<le> lim_maxAllocation (getAllocationLimits None None None None)"
  by (simp_all add: getAllocationLimits_def STAGE_RISK_ALLOCATION_MATRIX_def percentLimits_def
      DEFAULT_RISK_LEVEL_def ABSOLUTE_MAX_ALLOCATION_CAP_def Let_def)

lemma executeAction_adverse:
  assumes "exact_decimal D" "tradable_positions (po_positions P)" "0 \<le> po_totalValue P"
    and "sane_context ctx m" "map_get prices (sg_coinId (ct_signal ctx)) = Some m"
    and "\<And>held. sg_action (ct_signal ctx) = SELL_ACTION \<Longrightarrow>
      map_get (po_positions P) (sg_coinId (ct_signal ctx)) = Some held \<Longrightarrow> pos_side held \<noteq> Some SHORT"
    and "validatePositionConflicts (ct_signal ctx) P"
    and "executeAction (sg_action (ct_signal ctx)) ctx P = Inr (Acted r Q)"
  shows "adverse D prices ctx P r Q"
proof (cases "sg_action (ct_signal ctx)")
  case BUY_ACTION
  then show ?thesis using executeBuy_adverse [OF assms(1-5)] assms(7,8) by simp
next
  case SELL_ACTION
  then obtain held where "map_get (po_positions P) (sg_coinId (ct_signal ctx)) = Some held"
    using assms(8) by (cases "map_get (po_positions P) (sg_coinId (ct_signal ctx))") (auto simp: executeSell_def)
  then show ?thesis using executeSell_adverse [OF assms(1,2,4,5)] assms(6,8) SELL_ACTION by simp
next
  case OPEN_SHORT
  then show ?thesis using executeOpenShort_adverse [OF assms(1-5)] assms(8) by simp
next
  case CLOSE_SHORT
  then show ?thesis using executeCloseShort_adverse [OF assms(1,2,4,5)] assms(8) by simp
qed (use assms(8) in simp)

lemma withFill_cancelled:
  assumes "withFill ctx q isBuy quantityCap act = Inr (CancelledTrade c)"
    and "\<And>f. act f \<noteq> Inr (CancelledTrade c)"
  shows "et_fillStatus c = CANCELLED_FILL"
  using assms by (auto simp: withFill_def applySlippageAndFill_def buildCancelledResult_def Let_def
      split: sum.splits if_splits)

lemma executeAction_cancelled:
  assumes "executeAction a ctx P = Inr (CancelledTrade c)"
  shows "et_fillStatus c = CANCELLED_FILL"
  using assms by (cases a)
    (auto simp: executeBuy_def executeSell_def executeOpenShort_def executeCloseShort_def Let_def
      case_prod_unfold calculateLongPnL_def calculateShortPnL_def
      elim!: withFill_cancelled split: if_splits option.splits js_number.splits)

lemma withFill_amounts:
  assumes "withFill ctx q isBuy quantityCap act = Inl AmountsNotNumbers"
  obtains f where "act f = Inl AmountsNotNumbers"
  using assms by (auto simp: withFill_def applySlippageAndFill_def calculateSlippage_def Let_def
      split: sum.splits if_splits js_number.splits)

lemma clampLeverage_NaN: "clampLeverage x \<noteq> NaN \<Longrightarrow> \<exists>l. clampLeverage x = Finite l"
  by (cases x) auto

lemma leverage_NaN: "resolveShortLeverage s d \<noteq> NaN \<Longrightarrow> \<exists>l. resolveShortLeverage s d = Finite l"
  unfolding resolveShortLeverage_def by (auto intro: clampLeverage_NaN simp del: clampLeverage.simps split: option.splits)

lemma amounts_not_numbers:
  assumes "executeAction a ctx P = Inl AmountsNotNumbers"
  shows "a = OPEN_SHORT \<and> resolveShortLeverage (ct_signal ctx) (ct_defaultLeverage ctx) = NaN"
proof (cases "a = OPEN_SHORT")
  case True
  with assms leverage_NaN [of "ct_signal ctx" "ct_defaultLeverage ctx"] show ?thesis
    by (auto simp: executeOpenShort_def case_prod_unfold Let_def elim!: withFill_amounts split: if_splits js_number.splits)
next
  case False
  with assms show ?thesis
    by (cases a) (auto simp: executeBuy_def executeSell_def executeCloseShort_def Let_def
        case_prod_unfold calculateLongPnL_def calculateShortPnL_def elim!: withFill_amounts split: if_splits option.splits)
qed

text \<open>C2. No backtest trade creates value. On sane settings, and unless it sells a coin that is held
  short or opens one on a leverage that is not a number, a trade that is refused, cancelled or fails
  leaves the portfolio as it was, and an
  executed one lowers the value of the portfolio at the market prices by at least the fee it
  records; the recorded total value is that value, quantities and margins stay non-negative, and a
  buy or a new short never overdraws the cash.\<close>

theorem trade_never_creates_value:
  fixes D params P m total after
  assumes "exact_decimal D" "tradable_positions (po_positions P)" "0 \<le> po_totalValue P"
    and "map_get (md_prices (xp_marketData params)) (sg_coinId (xp_signal params)) = Some m"
    and "sane_context (tradeContext params m) m"
    and "\<And>held. sg_action (xp_signal params) = SELL_ACTION \<Longrightarrow>
      map_get (po_positions P) (sg_coinId (xp_signal params)) = Some held \<Longrightarrow> pos_side held \<noteq> Some SHORT"
    and "sg_action (xp_signal params) = OPEN_SHORT \<Longrightarrow>
      resolveShortLeverage (xp_signal params) (ct_defaultLeverage (tradeContext params m)) \<noteq> NaN"
  defines "total \<equiv> equity D (md_prices (xp_marketData params))"
    and "after \<equiv> snd (executeTrade D params P)"
  shows "case fst (executeTrade D params P) of
      Inr (Some r) \<Rightarrow> et_fillStatus r = CANCELLED_FILL \<and> after = P \<or>
        (\<exists>fee \<ge> 0. bt_fee (et_trade r) = Some fee \<and> total after \<le> total P - fee \<and>
           po_totalValue after = total after \<and> tradable_positions (po_positions after) \<and>
           (sg_action (xp_signal params) \<in> {BUY_ACTION, OPEN_SHORT} \<longrightarrow> 0 \<le> po_cashBalance after))
    | Inr None \<Rightarrow> after = P
    | Inl e \<Rightarrow> e \<noteq> AmountsNotNumbers \<and> after = P"
proof -
  let ?s = "xp_signal params" and ?prices = "md_prices (xp_marketData params)"
  define ctx where "ctx = tradeContext params m"
  have ctx: "ct_signal ctx = ?s" "ct_tradingFee ctx = xp_tradingFee params" "0 \<le> xp_tradingFee params" "m \<noteq> 0"
    using assms(5) by (simp_all add: ctx_def tradeContext_def Let_def sane_context_def)
  note unfold = executeTrade_def Let_def assms(4) option.case ctx_def [symmetric]
  show ?thesis
  proof (cases "sg_action ?s = HOLD_ACTION \<or> \<not> validatePositionConflicts ?s P")
    case True
    then show ?thesis by (auto simp: after_def unfold)
  next
    case False
    note trade = False ctx(4)
    show ?thesis
    proof (cases "executeAction (sg_action ?s) ctx P")
      case (Inl e)
      then have "e \<noteq> AmountsNotNumbers"
        using amounts_not_numbers [of "sg_action ?s" ctx P] assms(7) [folded ctx_def] by (auto simp: ctx)
      then show ?thesis using trade Inl by (simp add: after_def unfold)
    next
      case (Inr outcome)
      show ?thesis
      proof (cases outcome)
        case NoTrade
        then show ?thesis using trade Inr by (simp add: after_def unfold)
      next
        case (CancelledTrade c)
        then show ?thesis
          using trade Inr executeAction_cancelled [OF Inr [unfolded CancelledTrade]] by (simp add: after_def unfold)
      next
        case (Acted r Q)
        define fee where "fee = feeBaseValue (sg_action ?s) r * xp_tradingFee params"
        have adverse: "adverse D ?prices ctx P r Q"
          using executeAction_adverse [OF assms(1-3) assms(5) [folded ctx_def]] assms(4,6) trade(1) Inr Acted
          by (simp add: ctx)
        have "0 \<le> fee" using adverse ctx by (simp add: adverse_def fee_def)
        have "executeTrade D params P = (Inr (Some (tradeRecord ctx r fee)),
            Q\<lparr>po_cashBalance := po_cashBalance Q - fee,
              po_totalValue := po_cashBalance Q - fee + calculatePositionsValue D (po_positions Q) ?prices\<rparr>)"
          using trade Inr Acted adverse ctx by (simp add: unfold adverse_def fee_def)
        then show ?thesis
          using adverse \<open>0 \<le> fee\<close> by (simp add: after_def total_def tradeRecord_def adverse_def equity_def fee_def ctx Let_def)
      qed
    qed
  qed
qed

text \<open>Two trades of one coin at a price of 100: a buy, and a sale while the coin is held short.\<close>

definition sample_signal :: "TradeAction \<Rightarrow> TradingSignal" where
  "sample_signal action = btc_buy\<lparr>sg_action := action, sg_quantity := Some 1\<rparr>"

definition sample_params :: "TradeAction \<Rightarrow> ExecuteTradeParams" where
  "sample_params action =
     \<lparr>xp_signal = sample_signal action,
      xp_marketData = \<lparr>md_timestamp = 0, md_prices = [(sg_coinId btc_buy, 100)]\<rparr>,
      xp_tradingFee = 1 / 1000, xp_slippageConfig = Some (DEFAULT_SLIPPAGE_CONFIG\<lparr>sl_type := NO_SLIPPAGE\<rparr>),
      xp_dailyVolume = None, xp_minHoldMs = Some 0, xp_maxAllocation = None, xp_minAllocation = None,
      xp_defaultLeverage = None, xp_spreadContext = None\<rparr>"

lemma sample_sane: "sane_context (tradeContext (sample_params action) 100) 100"
  by (simp add: sane_context_def tradeContext_def sample_params_def sample_signal_def btc_buy_def sane_signal_def
      resolveBasePrice_def getAllocationLimits_def STAGE_RISK_ALLOCATION_MATRIX_def percentLimits_def
      DEFAULT_RISK_LEVEL_def ABSOLUTE_MAX_ALLOCATION_CAP_def sane_slippage_def DEFAULT_SLIPPAGE_CONFIG_def Let_def)

lemma sample_price: "map_get (md_prices (xp_marketData (sample_params action))) (sg_coinId (xp_signal (sample_params action))) = Some 100"
  by (simp add: sample_params_def sample_signal_def)

lemmas sample_eval = sample_params_def sample_signal_def btc_buy_def executeTrade_def tradeContext_def
  resolveBasePrice_def executeBuy_def executeSell_def executeOpenShort_def calculateBuyQuantity_def
  calculateSellQuantity_def withFill_def applySlippageAndFill_def calculateSlippage_def calculateSlippageBps_def
  Slippage_buildConfig_def DEFAULT_SLIPPAGE_CONFIG_def applySlippage_def assessFillability_def
  resolveShortLeverage_def MAX_LEVERAGE_CAP_def validatePositionConflicts_def feeBaseValue_def
  calculatePositionsValue_def getPositionValue_def calculateLongPnL_def MAX_PORTFOLIO_DEPLOYMENT_def
  actionResult_def SlippageFillResult.defs plainPosition_def exactDecimal_def Let_def

text \<open>A portfolio that holds the coin short: two units sold at 100 on a margin of 200.\<close>

definition sample_short :: Portfolio where
  "sample_short = (Portfolio_initialize 1000)\<lparr>po_cashBalance := 800, po_positions := [(sg_coinId btc_buy,
     (plainPosition (sg_coinId btc_buy) 2 100 200)\<lparr>pos_side := Some SHORT, pos_leverage := Some 1,
       pos_marginAmount := Some 200\<rparr>)]\<rparr>"

theorem trade_never_creates_value_witness:
  "equity exactDecimal [(sg_coinId btc_buy, 100)]
     (snd (executeTrade exactDecimal (sample_params BUY_ACTION) (Portfolio_initialize 1000))) \<le> 1000 - 1 / 10"
proof -
  have "\<exists>r. fst (executeTrade exactDecimal (sample_params BUY_ACTION) (Portfolio_initialize 1000)) = Inr (Some r) \<and>
      et_fillStatus r = FILLED \<and> bt_fee (et_trade r) = Some (1 / 10)"
    by (simp add: sample_eval Portfolio_initialize_def map_set_def tradeRecord_def)
  moreover have "equity exactDecimal (md_prices (xp_marketData (sample_params BUY_ACTION))) (Portfolio_initialize 1000) = 1000"
    by (simp add: equity_def Portfolio_initialize_def calculatePositionsValue_def)
  moreover have "sg_action (xp_signal (sample_params BUY_ACTION)) = BUY_ACTION"
    "md_prices (xp_marketData (sample_params BUY_ACTION)) = [(sg_coinId btc_buy, 100)]"
    by (simp_all add: sample_params_def sample_signal_def)
  ultimately show ?thesis
    using trade_never_creates_value [OF exact_exactDecimal _ _ sample_price sample_sane, of "Portfolio_initialize 1000" BUY_ACTION]
    by (auto simp: Portfolio_initialize_def tradable_positions_def)
qed

section \<open>Shorts that are not protected\<close>

text \<open>C31. A sale of a coin that is held short runs as the sale of a long position: at an unchanged
  price and without slippage, selling part of the short adds the proceeds to the cash and keeps the
  margin, so the value of the portfolio grows by the proceeds less the fee.\<close>

theorem sell_on_short_creates_value:
  fixes D params P m n held total
  assumes "exact_decimal D" "map_wf (po_positions P)"
    and "map_get (md_prices (xp_marketData params)) (sg_coinId (xp_signal params)) = Some m" "0 < m"
    and "resolveBasePrice (xp_signal params) m = Finite m"
    and "sg_action (xp_signal params) = SELL_ACTION" "sg_quantity (xp_signal params) = Some n"
    and "map_get (po_positions P) (sg_coinId (xp_signal params)) = Some held"
    and "pos_side held = Some SHORT" "pos_marginAmount held = Some margin" "0 \<le> margin"
    and "pos_averagePrice held = m" "0 < n" "n < pos_quantity held"
    and "map_option sl_type (xp_slippageConfig params) = Some NO_SLIPPAGE"
    and "xp_minHoldMs params = Some 0" "0 \<le> xp_tradingFee params"
    and "0 \<le> nullish (sl_maxSlippageBps (the (xp_slippageConfig params))) 500"
  defines "total \<equiv> equity D (md_prices (xp_marketData params))"
  shows "total (snd (executeTrade D params P)) = total P + n * m * (1 - xp_tradingFee params)"
proof -
  let ?c = "sg_coinId (xp_signal params)"
  obtain config where config: "xp_slippageConfig params = Some config" "sl_type config = NO_SLIPPAGE"
    using assms(15) by auto
  define ctx where "ctx = tradeContext params m"
  have ctx: "ct_signal ctx = xp_signal params" "ct_basePrice ctx = Finite m" "ct_slippageConfig ctx = config"
    "ct_minHoldMs ctx = 0"
    using config assms(5,16) by (simp_all add: ctx_def tradeContext_def Let_def)
  define f where "f = \<lparr>sf_slippageBps = 0, sf_price = m, sf_quantity = n, sf_fillStatus = FILLED, sf_requestedQuantity = None\<rparr>"
  have fill: "applySlippageAndFill ctx n False (Some (pos_quantity held)) = Inr (Inr f)"
    using assms(4,18) config
    by (simp add: applySlippageAndFill_def ctx calculateSlippage_def calculateSlippageBps_def Slippage_buildConfig_def
        applySlippage_def assessFillability_def f_def Let_def)
  have quantity: "fst (calculateSellQuantity (xp_signal params) (pos_quantity held)) = n"
    using assms(7,13,14) by (simp add: calculateSellQuantity_def)
  define rest where "rest = held\<lparr>pos_quantity := pos_quantity held - n, pos_totalValue := (pos_quantity held - n) * m\<rparr>"
  obtain r Q where sold: "executeSell ctx P = Inr (Acted r Q)"
    and Q: "po_cashBalance Q = po_cashBalance P + n * m" "po_positions Q = map_set ?c rest (po_positions P)"
    and r: "ac_totalValue r = n * m"
    using fill assms(8,13,14)
    by (auto simp: executeSell_def ctx withFill_def case_prod_unfold quantity f_def rest_def calculateLongPnL_def Let_def)
  have "valueAt rest m = valueAt held m"
    using assms(9-12) by (simp add: valueAt_def rest_def)
  then have "equity D (md_prices (xp_marketData params)) Q = total P + n * m"
    using equity_set [OF assms(1-3) Q(2)] Q(1) assms(8) by (simp add: total_def)
  moreover have "0 \<le> n * m" using assms(4,13) by simp
  ultimately show ?thesis
    using sold assms(3,4,6,17)
    by (simp add: total_def executeTrade_def Let_def ctx_def [symmetric] validatePositionConflicts_def feeBaseValue_def r
        equity_def algebra_simps)
qed

theorem sell_on_short_creates_value_witness:
  "equity exactDecimal (md_prices (xp_marketData (sample_params SELL_ACTION)))
     (snd (executeTrade exactDecimal (sample_params SELL_ACTION) sample_short)) = 1000 + 100 * (999 / 1000)"
proof -
  have "equity exactDecimal (md_prices (xp_marketData (sample_params SELL_ACTION))) sample_short = 1000"
    by (simp add: equity_def sample_short_def calculatePositionsValue_def getPositionValue_def plainPosition_def
        sample_params_def exactDecimal_def Let_def)
  then show ?thesis
    using sell_on_short_creates_value [OF exact_exactDecimal, of sample_short "sample_params SELL_ACTION" 100 1
        "(plainPosition (sg_coinId btc_buy) 2 100 200)\<lparr>pos_side := Some SHORT, pos_leverage := Some 1,
           pos_marginAmount := Some 200\<rparr>" 200]
    by (simp add: sample_short_def sample_params_def sample_signal_def plainPosition_def resolveBasePrice_def
        btc_buy_def DEFAULT_SLIPPAGE_CONFIG_def map_wf_def)
qed

text \<open>A second short of a coin replaces the first: on sane settings, when it executes, the value of
  the portfolio falls by the whole value of the short held before, besides the fee.\<close>

lemma second_short_forfeits_first:
  fixes D params P m held total after
  assumes "exact_decimal D" "tradable_positions (po_positions P)" "0 \<le> po_totalValue P"
    and "map_get (md_prices (xp_marketData params)) (sg_coinId (xp_signal params)) = Some m"
    and "sane_context (tradeContext params m) m" "sg_action (xp_signal params) = OPEN_SHORT"
    and "map_get (po_positions P) (sg_coinId (xp_signal params)) = Some held"
    and "fst (executeTrade D params P) = Inr (Some r)" "et_fillStatus r \<noteq> CANCELLED_FILL"
  defines "total \<equiv> equity D (md_prices (xp_marketData params))"
    and "after \<equiv> snd (executeTrade D params P)"
  shows "\<exists>fee. bt_fee (et_trade r) = Some fee \<and> total after \<le> total P - valueAt held m - fee"
proof -
  let ?prices = "md_prices (xp_marketData params)"
  define ctx where "ctx = tradeContext params m"
  have ctx: "ct_signal ctx = xp_signal params" "m \<noteq> 0" "0 \<le> xp_tradingFee params" "sane_context ctx m"
    using assms(5) by (simp_all add: ctx_def tradeContext_def Let_def sane_context_def)
  obtain a Q where act: "executeOpenShort ctx P = Inr (Acted a Q)"
    using assms(4,6,8,9) ctx(2) executeAction_cancelled [of OPEN_SHORT ctx P]
    by (auto simp: executeTrade_def Let_def ctx_def [symmetric] split: sum.splits ActionOutcome.splits if_splits)
  have worth: "equity D ?prices Q \<le> equity D ?prices P - valueAt held m" and adverse: "adverse D ?prices ctx P a Q"
    using executeOpenShort_adverse [OF assms(1-3) ctx(4) _ _ act] assms(4,6,7) by (simp_all add: ctx)
  define fee where "fee = feeBaseValue OPEN_SHORT a * xp_tradingFee params"
  have "r = tradeRecord ctx a fee \<and> equity D ?prices after = equity D ?prices Q - fee"
    using assms(4,6,8) act ctx adverse
    by (auto simp: after_def executeTrade_def Let_def ctx_def [symmetric] fee_def adverse_def equity_def split: if_splits)
  then show ?thesis
    using worth by (simp add: total_def tradeRecord_def Let_def)
qed

end
