(* ===== verification/ForcedExit.thy ===== *)
theory ForcedExit
  imports TradeSafety ExitTracker
begin

text \<open>
  Positions that a backtest closes by force: \<^verbatim>\<open>order/backtest/shared/execution/forced-exit.service.ts\<close>.
  Liquidations take the margin of leveraged positions whose price is breached, delistings close the
  positions of a coin at a penalty price. A trade is paired with its coin, from which the source
  looks up the coin objects of the record.
\<close>

section \<open>Liquidations\<close>

definition liquidatedAt :: "MarketData \<Rightarrow> string \<times> Position \<Rightarrow> number option" where
  "liquidatedAt marketData = (\<lambda>(coinId, position).
     if \<not> truthy (pos_leverage position) \<or> the (pos_leverage position) \<le> 1 then None
     else case map_get (md_prices marketData) coinId of
            None \<Rightarrow> None
          | Some currentPrice \<Rightarrow> if isLiquidated position currentPrice then Some currentPrice else None)"

definition forcedSide :: "Position \<Rightarrow> TradeType" where
  "forcedSide position = (if pos_side position = Some SHORT then TRADE_BUY else TRADE_SELL)"

definition liquidationTrade :: "Position \<Rightarrow> number \<Rightarrow> BacktestTrade" where
  "liquidationTrade position currentPrice =
     (let marginLost = nullish (pos_marginAmount position) 0
      in \<lparr>bt_type = Some (forcedSide position), bt_quantity = pos_quantity position, bt_price = currentPrice,
          bt_totalValue = Some 0, bt_fee = Some 0, bt_realizedPnL = Some (- marginLost),
          bt_realizedPnLPercent = Some (- 1), bt_costBasis = Some (pos_averagePrice position),
          bt_positionSide = pos_side position, bt_leverage = pos_leverage position,
          bt_liquidationPrice = pos_liquidationPrice position, bt_marginUsed = Some marginLost,
          bt_metadata = Liquidated\<rparr>)"

definition liquidateOne ::
    "MarketData \<Rightarrow> (string \<times> BacktestTrade) list \<times> number option \<Rightarrow> string \<times> Position \<Rightarrow>
     (string \<times> BacktestTrade) list \<times> number option" where
  "liquidateOne marketData = (\<lambda>(trades, marginUsed) entry.
     case liquidatedAt marketData entry of
       None \<Rightarrow> (trades, marginUsed)
     | Some currentPrice \<Rightarrow>
         (trades @ [(fst entry, liquidationTrade (snd entry) currentPrice)],
          Some (max 0 (nullish marginUsed 0 - nullish (pos_marginAmount (snd entry)) 0))))"

definition checkAndApplyLiquidations ::
    "DecimalOps \<Rightarrow> Portfolio \<Rightarrow> MarketData \<Rightarrow> (string \<times> BacktestTrade) list \<times> Portfolio" where
  "checkAndApplyLiquidations D portfolio marketData =
     (let (liquidationTrades, marginUsed) =
            foldl (liquidateOne marketData) ([], po_totalMarginUsed portfolio) (po_positions portfolio);
          positionsToDelete = map fst liquidationTrades;
          positions = fold map_delete positionsToDelete (po_positions portfolio);
          changed = portfolio\<lparr>po_positions := positions, po_totalMarginUsed := marginUsed\<rparr>
      in (liquidationTrades,
          if positionsToDelete = [] then changed
          else changed\<lparr>po_availableMargin := Some (po_cashBalance portfolio),
                 po_totalValue := po_cashBalance portfolio +
                   calculatePositionsValue D positions (md_prices marketData)\<rparr>))"

section \<open>Delistings\<close>

fun safePenalty :: "js_number \<Rightarrow> number" where
  "safePenalty (Finite x) = min 1 (max 0 x)"
| "safePenalty _ = 9 / 10"

definition delistedOn :: "(string, time_ms) jsmap \<Rightarrow> time_ms \<Rightarrow> string \<Rightarrow> time_ms option" where
  "delistedOn delistingDates timestamp coinId =
     (case map_get delistingDates coinId of
        None \<Rightarrow> None | Some date \<Rightarrow> if timestamp < date then None else Some date)"

definition delistingTrade :: "Position \<Rightarrow> time_ms \<Rightarrow> number \<Rightarrow> number \<Rightarrow> BacktestTrade" where
  "delistingTrade position delistingDate lastPrice penalty =
     (let penaltyPrice = lastPrice * (1 - penalty);
          totalValue = pos_quantity position * penaltyPrice;
          costBasis = pos_averagePrice position * pos_quantity position;
          realizedPnL = (if pos_side position = Some SHORT then costBasis - totalValue else totalValue - costBasis)
      in \<lparr>bt_type = Some (forcedSide position), bt_quantity = pos_quantity position, bt_price = penaltyPrice,
          bt_totalValue = Some totalValue, bt_fee = Some 0, bt_realizedPnL = Some realizedPnL,
          bt_realizedPnLPercent = Some (if costBasis > 0 then realizedPnL / costBasis else 0),
          bt_costBasis = Some (pos_averagePrice position), bt_positionSide = pos_side position,
          bt_leverage = pos_leverage position, bt_liquidationPrice = None, bt_marginUsed = None,
          bt_metadata = DelistingExit delistingDate lastPrice penalty\<rparr>)"

definition delistOne ::
    "(string, time_ms) jsmap \<Rightarrow> Prices \<Rightarrow> time_ms \<Rightarrow> number \<Rightarrow>
     (string \<times> BacktestTrade) list \<times> number \<Rightarrow> string \<times> Position \<Rightarrow> (string \<times> BacktestTrade) list \<times> number" where
  "delistOne delistingDates lastKnownPrices timestamp penalty = (\<lambda>(trades, cash) (coinId, position).
     case delistedOn delistingDates timestamp coinId of
       None \<Rightarrow> (trades, cash)
     | Some delistingDate \<Rightarrow>
         let lastPrice = nullish (map_get lastKnownPrices coinId) (pos_averagePrice position);
             trade = delistingTrade position delistingDate lastPrice penalty
         in (trades @ [(coinId, trade)], cash + nullish (bt_totalValue trade) 0))"

definition checkAndApplyDelistingExits ::
    "DecimalOps \<Rightarrow> Portfolio \<Rightarrow> (string, time_ms) jsmap \<Rightarrow> Prices \<Rightarrow> time_ms \<Rightarrow> js_number \<Rightarrow>
     BacktestExitTracker option \<Rightarrow> (string \<times> BacktestTrade) list \<times> Portfolio \<times> BacktestExitTracker option" where
  "checkAndApplyDelistingExits D portfolio delistingDates lastKnownPrices timestamp delistingPenalty exitTracker =
     (let (delistingTrades, cash) =
            foldl (delistOne delistingDates lastKnownPrices timestamp (safePenalty delistingPenalty))
              ([], po_cashBalance portfolio) (po_positions portfolio);
          positionsToDelete = map fst delistingTrades;
          positions = fold map_delete positionsToDelete (po_positions portfolio);
          changed = portfolio\<lparr>po_cashBalance := cash, po_positions := positions\<rparr>
      in (delistingTrades,
          if positionsToDelete = [] then changed
          else changed\<lparr>po_totalValue := cash + calculatePositionsValue D positions lastKnownPrices\<rparr>,
          map_option (fold (\<lambda>coinId tracker. removePosition tracker coinId) positionsToDelete) exitTracker))"

section \<open>Lemmas\<close>

lemma fold_map_delete: "fold map_delete ks m = filter (\<lambda>(k, v). k \<notin> set ks) m"
proof (induction ks arbitrary: m)
  case (Cons k ks)
  have "map_delete k m = filter (\<lambda>(k', v). k' \<noteq> k) m"
    by (auto simp: map_delete_def AList.delete_eq intro!: filter_cong)
  then show ?case
    unfolding fold_simps comp_apply Cons.IH by (auto intro!: filter_cong)
qed (simp add: case_prod_unfold)

lemma delete_marked:
  assumes "map_wf m" "ks = map fst (filter marked m)"
  shows "fold map_delete ks m = filter (\<lambda>e. \<not> marked e) m"
proof -
  have "(k \<in> set ks) = marked (k, v)" if kv: "(k, v) \<in> set m" for k v
  proof -
    have "v' = v" if "(k, v') \<in> set m" for v'
      using map_get_in [OF assms(1) that] map_get_in [OF assms(1) kv] by simp
    moreover have "k \<in> set ks \<longleftrightarrow> (\<exists>v'. (k, v') \<in> set m \<and> marked (k, v'))"
      unfolding assms(2) by (auto simp: image_iff)
    ultimately show ?thesis using kv by blast
  qed
  then show ?thesis by (auto simp: fold_map_delete intro!: filter_cong)
qed

definition liquidations :: "MarketData \<Rightarrow> (string, Position) jsmap \<Rightarrow> (string \<times> BacktestTrade) list" where
  "liquidations md m = map (\<lambda>(c, p). (c, liquidationTrade p (the (liquidatedAt md (c, p)))))
     (filter (\<lambda>e. liquidatedAt md e \<noteq> None) m)"

lemma liquidate_trades:
  "fst (foldl (liquidateOne md) (ts, used) ps) = ts @ liquidations md ps"
  by (induction ps arbitrary: ts used) (auto simp: liquidations_def liquidateOne_def split: option.splits)

lemma checkAndApplyLiquidations_result:
  assumes "map_wf (po_positions P)"
  shows "fst (checkAndApplyLiquidations D P md) = liquidations md (po_positions P)"
    and "po_positions (snd (checkAndApplyLiquidations D P md)) =
      filter (\<lambda>e. liquidatedAt md e = None) (po_positions P)"
    and "po_cashBalance (snd (checkAndApplyLiquidations D P md)) = po_cashBalance P"
proof -
  obtain ts used where f: "foldl (liquidateOne md) ([], po_totalMarginUsed P) (po_positions P) = (ts, used)"
    by force
  then have ts: "ts = liquidations md (po_positions P)"
    using liquidate_trades [of md "[]" "po_totalMarginUsed P" "po_positions P"] by simp
  have "map fst ts = map fst (filter (\<lambda>e. liquidatedAt md e \<noteq> None) (po_positions P))"
    by (auto simp: ts liquidations_def)
  then have "fold map_delete (map fst ts) (po_positions P) = filter (\<lambda>e. liquidatedAt md e = None) (po_positions P)"
    using delete_marked [OF assms] by force
  then show "fst (checkAndApplyLiquidations D P md) = liquidations md (po_positions P)"
    and "po_positions (snd (checkAndApplyLiquidations D P md)) =
      filter (\<lambda>e. liquidatedAt md e = None) (po_positions P)"
    and "po_cashBalance (snd (checkAndApplyLiquidations D P md)) = po_cashBalance P"
    by (auto simp: checkAndApplyLiquidations_def f ts [symmetric] Let_def)
qed

text \<open>A short as the executor opens it: margin and liquidation price follow from the leverage.\<close>

definition margined_short :: "Position \<Rightarrow> bool" where
  "margined_short p \<longleftrightarrow> pos_side p = Some SHORT \<and> 0 < pos_quantity p \<and> 0 < pos_averagePrice p \<and>
     (case pos_leverage p of
        None \<Rightarrow> False
      | Some l \<Rightarrow> 0 < l \<and> pos_marginAmount p = Some (pos_quantity p * pos_averagePrice p / l) \<and>
          pos_liquidationPrice p = Some (calculateShortLiquidationPrice (pos_averagePrice p) l))"

lemma openedShort_margined:
  "0 < l \<Longrightarrow> 0 < sf_quantity f \<Longrightarrow> 0 < sf_price f \<Longrightarrow> margined_short (openedShort ctx f l)"
  by (simp add: margined_short_def openedShort_def)

lemma reducedShort_margined:
  "margined_short held \<Longrightarrow> sf_quantity f < pos_quantity held \<Longrightarrow>
   margined_short (reducedShort held (the (pos_marginAmount held)) f)"
  by (auto simp: margined_short_def reducedShort_def field_simps split: option.splits)

lemma executeOpenShort_margined:
  assumes "executeOpenShort ctx P = Inr (Acted r Q)" "0 < sf_quantity r" "0 < sf_price r"
    and "ct_basePrice ctx = Finite m"
  shows "\<exists>p. map_get (po_positions Q) (sg_coinId (ct_signal ctx)) = Some p \<and> margined_short p"
  using assms by (elim executeOpenShort_result) (auto intro: openedShort_margined leverage_pos)

lemma executeCloseShort_margined:
  assumes "executeCloseShort ctx P = Inr (Acted r Q)"
    and "map_get (po_positions P) (sg_coinId (ct_signal ctx)) = Some held" "margined_short held"
    and "map_get (po_positions Q) (sg_coinId (ct_signal ctx)) = Some p"
  shows "margined_short p"
proof -
  obtain margin where margin: "pos_marginAmount held = Some margin"
    using assms(3) by (auto simp: margined_short_def split: option.splits)
  show ?thesis
    using assms(3,4) reducedShort_margined [OF assms(3)]
    by (rule_tac executeCloseShort_result [OF assms(1,2) margin]) (auto simp: margin split: if_splits)
qed

text \<open>The margin recorded with the positions, long or short.\<close>

definition heldMargin :: "(string, Position) jsmap \<Rightarrow> number" where
  "heldMargin m = (\<Sum>(c, p)\<leftarrow>m. nullish (pos_marginAmount p) 0)"

lemma liquidations_pnl:
  "(\<Sum>(c, t)\<leftarrow>liquidations md m. nullish (bt_realizedPnL t) 0) =
    heldMargin (filter (\<lambda>e. liquidatedAt md e = None) m) - heldMargin m"
  by (induction m) (auto simp: liquidations_def heldMargin_def liquidationTrade_def Let_def)

section \<open>Properties\<close>

text \<open>C32. Liquidation takes exactly the breached positions: the cash is untouched, the losses recorded
  are the margins of the positions taken, every other position stays as it is, and a leveraged
  short that the executor opened and that survives the check at the current prices is still worth
  more than the maintenance margin of its notional.\<close>

theorem liquidation_keeps_shorts_solvent:
  fixes D P md Q trades
  assumes "map_wf (po_positions P)"
  defines "Q \<equiv> snd (checkAndApplyLiquidations D P md)"
    and "trades \<equiv> fst (checkAndApplyLiquidations D P md)"
  shows "po_cashBalance Q = po_cashBalance P \<and>
    (\<Sum>(c, t)\<leftarrow>trades. nullish (bt_realizedPnL t) 0) = heldMargin (po_positions Q) - heldMargin (po_positions P) \<and>
    (\<forall>c p. map_get (po_positions Q) c = Some p \<longleftrightarrow>
       map_get (po_positions P) c = Some p \<and> liquidatedAt md (c, p) = None) \<and>
    (\<forall>c p m. map_get (po_positions Q) c = Some p \<longrightarrow> map_get (md_prices md) c = Some m \<longrightarrow>
       margined_short p \<longrightarrow> 1 < the (pos_leverage p) \<longrightarrow>
       MAINTENANCE_MARGIN_RATE * (pos_quantity p * pos_averagePrice p) < valueAt p m)"
proof -
  note result = checkAndApplyLiquidations_result [OF assms(1), of D md, folded Q_def trades_def]
  have get: "map_get (po_positions Q) c = Some p \<longleftrightarrow>
      map_get (po_positions P) c = Some p \<and> liquidatedAt md (c, p) = None" for c p
    by (simp add: result map_get_filter_Some [OF assms(1)])
  have solvent: "MAINTENANCE_MARGIN_RATE * (pos_quantity p * pos_averagePrice p) < valueAt p m"
    if "map_get (po_positions Q) c = Some p" "map_get (md_prices md) c = Some m" "margined_short p"
      "1 < the (pos_leverage p)" for c p m
  proof -
    note p = that
    obtain l where l: "pos_leverage p = Some l" "1 < l" "pos_side p = Some SHORT" "0 < pos_quantity p"
        "pos_marginAmount p = Some (pos_quantity p * pos_averagePrice p / l)"
        "pos_liquidationPrice p = Some (calculateShortLiquidationPrice (pos_averagePrice p) l)"
      using p(3,4) by (auto simp: margined_short_def split: option.splits)
    have "m < pos_averagePrice p * (1 + 1 / l - MAINTENANCE_MARGIN_RATE)"
      using p(1,2) l
      by (auto simp: get liquidatedAt_def isLiquidated_def calculateShortLiquidationPrice_def split: if_splits)
    then have "pos_quantity p * m < pos_quantity p * (pos_averagePrice p * (1 + 1 / l - MAINTENANCE_MARGIN_RATE))"
      using l(4) by simp
    then show ?thesis using l by (simp add: valueAt_def algebra_simps)
  qed
  have pnl: "(\<Sum>(c, t)\<leftarrow>trades. nullish (bt_realizedPnL t) 0) =
      heldMargin (po_positions Q) - heldMargin (po_positions P)"
    by (simp add: result liquidations_pnl)
  show ?thesis
    by (intro conjI allI impI result(3) pnl get solvent)
qed

text \<open>Two shorts at 100 on a leverage of 5: one is breached at a price of 130, the other has no price.\<close>

definition sample_leveraged :: Position where
  "sample_leveraged = (plainPosition ''btc'' 1 100 20)\<lparr>pos_side := Some SHORT, pos_leverage := Some 5,
     pos_marginAmount := Some 20, pos_liquidationPrice := Some (calculateShortLiquidationPrice 100 5)\<rparr>"

definition sample_two_shorts :: Portfolio where
  "sample_two_shorts = (Portfolio_initialize 1000)\<lparr>po_positions :=
     [(''btc'', sample_leveraged), (''eth'', sample_leveraged\<lparr>pos_coinId := ''eth''\<rparr>)]\<rparr>"

theorem liquidation_keeps_shorts_solvent_witness:
  "heldMargin (po_positions sample_two_shorts) = 40 \<and>
   MAINTENANCE_MARGIN_RATE * 100 < valueAt sample_leveraged 110 \<and>
   map_get (po_positions (snd (checkAndApplyLiquidations exactDecimal sample_two_shorts
     \<lparr>md_timestamp = 0, md_prices = [(''btc'', 130), (''eth'', 110)]\<rparr>))) ''btc'' = None"
proof -
  let ?md = "\<lparr>md_timestamp = 0, md_prices = [(''btc'', 130), (''eth'', 110)]\<rparr>"
  let ?eth = "sample_leveraged\<lparr>pos_coinId := ''eth''\<rparr>"
  have P: "po_positions sample_two_shorts = [(''btc'', sample_leveraged), (''eth'', ?eth)]"
    by (simp add: sample_two_shorts_def)
  have wf: "map_wf (po_positions sample_two_shorts)" by (simp add: P map_wf_def)
  have btc: "liquidatedAt ?md (''btc'', sample_leveraged) = Some 130" and eth: "liquidatedAt ?md (''eth'', ?eth) = None"
    by (simp_all add: liquidatedAt_def sample_leveraged_def isLiquidated_def
        calculateShortLiquidationPrice_def MAINTENANCE_MARGIN_RATE_def)
  have margined: "margined_short ?eth" "the (pos_leverage ?eth) = 5"
    "pos_quantity ?eth = 1" "pos_averagePrice ?eth = 100"
    by (simp_all add: margined_short_def sample_leveraged_def plainPosition_def)
  note all = liquidation_keeps_shorts_solvent [OF wf, of exactDecimal ?md]
  note get = all [THEN conjunct2, THEN conjunct2, THEN conjunct1, rule_format]
  note solvent = all [THEN conjunct2, THEN conjunct2, THEN conjunct2, rule_format]
  have "map_get (po_positions (snd (checkAndApplyLiquidations exactDecimal sample_two_shorts ?md))) ''eth'' = Some ?eth"
    by (simp only: get) (simp add: P eth)
  then have "MAINTENANCE_MARGIN_RATE * (pos_quantity ?eth * pos_averagePrice ?eth) < valueAt ?eth 110"
    using margined by (intro solvent [of "''eth''" ?eth 110]) simp_all
  moreover have "map_get (po_positions (snd (checkAndApplyLiquidations exactDecimal sample_two_shorts ?md))) ''btc'' \<noteq> Some p" for p
    by (simp only: get) (simp add: P btc)
  then have "map_get (po_positions (snd (checkAndApplyLiquidations exactDecimal sample_two_shorts ?md))) ''btc'' = None"
    by (metis option.exhaust)
  ultimately show ?thesis
    using margined by (simp add: P heldMargin_def valueAt_def sample_leveraged_def)
qed

section \<open>Delistings\<close>

definition delistings ::
    "(string, time_ms) jsmap \<Rightarrow> Prices \<Rightarrow> time_ms \<Rightarrow> number \<Rightarrow> (string, Position) jsmap \<Rightarrow> (string \<times> BacktestTrade) list" where
  "delistings dates known now penalty m = map (\<lambda>(c, p). (c, delistingTrade p (the (delistedOn dates now c))
       (nullish (map_get known c) (pos_averagePrice p)) penalty))
     (filter (\<lambda>(c, p). delistedOn dates now c \<noteq> None) m)"

lemma delist_fold:
  "foldl (delistOne dates known now penalty) (ts, cash) ps =
    (ts @ delistings dates known now penalty ps,
     cash + (\<Sum>(c, t)\<leftarrow>delistings dates known now penalty ps. nullish (bt_totalValue t) 0))"
  by (induction ps arbitrary: ts cash) (auto simp: delistings_def delistOne_def Let_def split: option.splits)

lemma removePositions: "xt_positions (fold (\<lambda>c tracker. removePosition tracker c) ks tracker) =
    fold map_delete ks (xt_positions tracker)"
  by (induction ks arbitrary: tracker) (simp_all add: removePosition_def)

lemma safePenalty_bounds: "0 \<le> safePenalty x" "safePenalty x \<le> 1"
  by (cases x; simp)+

lemma checkAndApplyDelistingExits_result:
  fixes D P dates known now penalty exitTracker trades result
  assumes "map_wf (po_positions P)"
  defines "trades \<equiv> delistings dates known now (safePenalty penalty) (po_positions P)"
    and "result \<equiv> checkAndApplyDelistingExits D P dates known now penalty exitTracker"
  shows "fst result = trades"
    and "po_positions (fst (snd result)) = filter (\<lambda>(c, p). delistedOn dates now c = None) (po_positions P)"
    and "po_cashBalance (fst (snd result)) = po_cashBalance P + (\<Sum>(c, t)\<leftarrow>trades. nullish (bt_totalValue t) 0)"
    and "snd (snd result) = map_option (fold (\<lambda>c tracker. removePosition tracker c) (map fst trades)) exitTracker"
proof -
  have "map fst trades = map fst (filter (\<lambda>(c, p). delistedOn dates now c \<noteq> None) (po_positions P))"
    by (auto simp: trades_def delistings_def)
  from delete_marked [OF assms(1) this]
  have "fold map_delete (map fst trades) (po_positions P) = filter (\<lambda>(c, p). delistedOn dates now c = None) (po_positions P)"
    by (simp add: case_prod_unfold)
  then show "fst result = trades"
    and "po_positions (fst (snd result)) = filter (\<lambda>(c, p). delistedOn dates now c = None) (po_positions P)"
    and "po_cashBalance (fst (snd result)) = po_cashBalance P + (\<Sum>(c, t)\<leftarrow>trades. nullish (bt_totalValue t) 0)"
    and "snd (snd result) = map_option (fold (\<lambda>c tracker. removePosition tracker c) (map fst trades)) exitTracker"
    by (auto simp: result_def checkAndApplyDelistingExits_def delist_fold trades_def [symmetric] Let_def)
qed

text \<open>A delisted coin is out of the backtest: it leaves the portfolio and the exit tracker, every
  other position stays as it is, each exit is priced between zero and the last known price, and
  the cash grows by the proceeds of the exits.\<close>

lemma delisting_removes_coin:
  fixes D P dates known now penalty tracker trades Q tracker'
  assumes "map_wf (po_positions P)" "list_all (\<lambda>(c, p). 0 \<le> pos_averagePrice p \<and> 0 \<le> nullish (map_get known c) 0) (po_positions P)"
    and "checkAndApplyDelistingExits D P dates known now penalty (Some tracker) = (trades, Q, tracker')"
  shows "(\<forall>c p. map_get (po_positions Q) c = Some p \<longleftrightarrow>
       map_get (po_positions P) c = Some p \<and> delistedOn dates now c = None) \<and>
    (\<forall>c \<in> set (map fst trades). map_get (po_positions Q) c = None \<and>
       map_get (xt_positions (the tracker')) c = None) \<and>
    (\<forall>(c, t) \<in> set trades. \<exists>p. map_get (po_positions P) c = Some p \<and> 0 \<le> bt_price t \<and>
       bt_price t \<le> nullish (map_get known c) (pos_averagePrice p)) \<and>
    po_cashBalance Q = po_cashBalance P + (\<Sum>(c, t)\<leftarrow>trades. bt_quantity t * bt_price t)"
proof -
  note result = checkAndApplyDelistingExits_result [OF assms(1), of D dates known now penalty "Some tracker",
      unfolded assms(3) fst_conv snd_conv]
  have get: "map_get (po_positions Q) c = Some p \<longleftrightarrow>
      map_get (po_positions P) c = Some p \<and> delistedOn dates now c = None" for c p
    by (simp add: result(2) map_get_filter_Some [OF assms(1)])
  have gone: "map_get (po_positions Q) c = None \<and> map_get (xt_positions (the tracker')) c = None"
    if "c \<in> set (map fst trades)" for c
  proof -
    have "delistedOn dates now c \<noteq> None"
      using that by (auto simp: result(1) delistings_def)
    then have "map_get (po_positions Q) c = None"
      using get by (cases "map_get (po_positions Q) c") auto
    moreover have "xt_positions (the tracker') = fold map_delete (map fst trades) (xt_positions tracker)"
      by (simp add: result(1,4) removePositions)
    ultimately show ?thesis using that by (simp only: jm.get_fold_del if_True)
  qed
  have price: "\<exists>p. map_get (po_positions P) c = Some p \<and> 0 \<le> bt_price t \<and>
      bt_price t \<le> nullish (map_get known c) (pos_averagePrice p)" if "(c, t) \<in> set trades" for c t
  proof -
    note ct = that
    obtain p where p: "(c, p) \<in> set (po_positions P)"
      "bt_price t = nullish (map_get known c) (pos_averagePrice p) * (1 - safePenalty penalty)"
      using ct by (auto simp: result(1) delistings_def delistingTrade_def Let_def)
    have "0 \<le> nullish (map_get known c) (pos_averagePrice p)"
      using assms(2) p(1) by (cases "map_get known c") (auto simp: list_all_iff)
    then have "0 \<le> bt_price t \<and> bt_price t \<le> nullish (map_get known c) (pos_averagePrice p)"
      using safePenalty_bounds [of penalty] by (simp add: p(2) mult_left_le)
    then show ?thesis using map_get_in [OF assms(1) p(1)] by auto
  qed
  have "nullish (bt_totalValue t) 0 = bt_quantity t * bt_price t" if "(c, t) \<in> set trades" for c t
    using that by (auto simp: result(1) delistings_def delistingTrade_def Let_def)
  then have "(\<Sum>(c, t)\<leftarrow>trades. nullish (bt_totalValue t) 0) = (\<Sum>(c, t)\<leftarrow>trades. bt_quantity t * bt_price t)"
    by (intro arg_cong [where f = sum_list] map_cong) auto
  then have cash: "po_cashBalance Q = po_cashBalance P + (\<Sum>(c, t)\<leftarrow>trades. bt_quantity t * bt_price t)"
    using result(1,3) by simp
  show ?thesis using get gone price cash by auto
qed

text \<open>The exit of a delisted short is paid like the sale of a long position: the margin is lost and
  the cash grows by the penalty value, although the trade records the profit of the short, so when
  the coin becomes worthless the short that should have gained its whole notional gains nothing.\<close>

lemma delisted_short_paid_as_long:
  fixes D P dates known now penalty c held m trades Q
  assumes "exact_decimal D" "po_positions P = [(c, held)]" "margined_short held"
    and "map_get known c = Some m" "delistedOn dates now c \<noteq> None"
  defines "trades \<equiv> fst (checkAndApplyDelistingExits D P dates known now (Finite penalty) None)"
    and "Q \<equiv> fst (snd (checkAndApplyDelistingExits D P dates known now (Finite penalty) None))"
  shows "po_positions Q = [] \<and>
    map (\<lambda>(c, t). bt_realizedPnL t) trades =
      [Some (pos_quantity held * (pos_averagePrice held - m * (1 - safePenalty (Finite penalty))))] \<and>
    po_cashBalance Q = po_cashBalance P + pos_quantity held * (m * (1 - safePenalty (Finite penalty))) \<and>
    (penalty = 1 \<longrightarrow> po_cashBalance Q = po_cashBalance P)"
proof -
  have wf: "map_wf (po_positions P)" by (simp add: assms(2) map_wf_def)
  note result = checkAndApplyDelistingExits_result [OF wf, of D dates known now "Finite penalty" None,
      folded trades_def Q_def]
  have short: "pos_side held = Some SHORT" using assms(3) by (simp add: margined_short_def)
  have trades: "trades = [(c, delistingTrade held (the (delistedOn dates now c)) m (safePenalty (Finite penalty)))]"
    using assms(5) by (simp add: result(1) delistings_def assms(2,4))
  have cash: "po_cashBalance Q = po_cashBalance P + pos_quantity held * (m * (1 - safePenalty (Finite penalty)))"
    using result(3) [folded result(1)] by (simp add: trades delistingTrade_def Let_def)
  then show ?thesis
    using trades short assms(5) by (auto simp: result(2) assms(2) delistingTrade_def Let_def algebra_simps)
qed

text \<open>A coin held long is delisted at half its price, a coin held short becomes worthless.\<close>

end
