(* ===== verification/OpportunitySell.thy ===== *)
theory OpportunitySell
  imports TradeSafety
begin

text \<open>
  Selling weak positions to pay for a strong buy signal in a backtest:
  \<^verbatim>\<open>order/backtest/shared/opportunity-selling/opportunity-sell.service.ts\<close>, with the scores of
  \<^verbatim>\<open>order/services/position-analysis.service.ts\<close> and the settings of
  \<^verbatim>\<open>order/interfaces/opportunity-selling.interface.ts\<close>. The function that executes a trade, the
  spread context and the daily volume of a coin are arguments, as in the source; the properties
  take the executor for the first. A trade is paired with its coin.
\<close>

section \<open>Scores\<close>

record OpportunitySellingUserConfig =
  oc_minOpportunityConfidence :: number
  oc_minHoldingPeriodHours :: number
  oc_protectGainsAbovePercent :: number
  oc_protectedCoins :: "string list"
  oc_minOpportunityAdvantagePercent :: number
  oc_maxLiquidationPercent :: number
  oc_useAlgorithmRanking :: bool

definition DEFAULT_OPPORTUNITY_SELLING_CONFIG :: OpportunitySellingUserConfig where
  "DEFAULT_OPPORTUNITY_SELLING_CONFIG =
     \<lparr>oc_minOpportunityConfidence = 7 / 10, oc_minHoldingPeriodHours = 48, oc_protectGainsAbovePercent = 15,
      oc_protectedCoins = [], oc_minOpportunityAdvantagePercent = 10, oc_maxLiquidationPercent = 30,
      oc_useAlgorithmRanking = True\<rparr>"

datatype IneligibleReason = GainsProtected number number | HeldTooShort number number

record PositionSellScore =
  ps_coinId :: string
  ps_eligible :: bool
  ps_unrealizedPnLScore :: number
  ps_protectedGainsScore :: number
  ps_holdingPeriodScore :: number
  ps_opportunityAdvantageScore :: number
  ps_algorithmRankingScore :: number
  ps_totalScore :: number
  ps_ineligibleReason :: "IneligibleReason option"
  ps_unrealizedPnLPercent :: number
  ps_holdingPeriodHours :: number

definition calculateUnrealizedPnL :: "number \<Rightarrow> number \<Rightarrow> number \<Rightarrow> number \<times> number" where
  "calculateUnrealizedPnL avgPrice currentPrice quantity =
     ((currentPrice - avgPrice) * quantity,
      if avgPrice > 0 then (currentPrice - avgPrice) / avgPrice * 100 else 0)"

definition calculateHoldingPeriodHours :: "time_ms \<Rightarrow> time_ms \<Rightarrow> number" where
  "calculateHoldingPeriodHours entryDate now = of_int (now - entryDate) / (1000 * 60 * 60)"

definition calculatePositionSellScore ::
    "Position \<Rightarrow> number \<Rightarrow> number \<Rightarrow> OpportunitySellingUserConfig \<Rightarrow> time_ms \<Rightarrow> number option \<Rightarrow> PositionSellScore" where
  "calculatePositionSellScore position currentPrice buyConfidence config now algoRank =
     (let (pnl, pnlPercent) = calculateUnrealizedPnL (pos_averagePrice position) currentPrice (pos_quantity position);
          holdingHours = (case pos_entryDate position of
            None \<Rightarrow> 0 | Some entryDate \<Rightarrow> calculateHoldingPeriodHours entryDate now);
          unrealizedPnLScore = max 0 (min 30 ((pnlPercent + 50) / 100 * 30));
          protectedGainsScore = (if pnlPercent > oc_protectGainsAbovePercent config then 100 else 0);
          holdingPeriodScore =
            (if holdingHours < oc_minHoldingPeriodHours config then 100 else min 20 (holdingHours / 720 * 20));
          opportunityAdvantageScore = max 0 (min 30 ((1 - buyConfidence) * 30));
          algorithmRankingScore =
            (case algoRank of
               None \<Rightarrow> 0
             | Some rank \<Rightarrow> if oc_useAlgorithmRanking config \<and> rank \<ge> 1 then max 0 (20 - (rank - 1) * 5) else 0);
          eligible = (protectedGainsScore < 100 \<and> holdingPeriodScore < 100)
      in \<lparr>ps_coinId = pos_coinId position, ps_eligible = eligible, ps_unrealizedPnLScore = unrealizedPnLScore,
          ps_protectedGainsScore = protectedGainsScore, ps_holdingPeriodScore = holdingPeriodScore,
          ps_opportunityAdvantageScore = opportunityAdvantageScore,
          ps_algorithmRankingScore = algorithmRankingScore,
          ps_totalScore =
            (if eligible
             then unrealizedPnLScore + opportunityAdvantageScore + holdingPeriodScore + algorithmRankingScore
             else 2 ^ 53 - 1),
          ps_ineligibleReason =
            (if eligible then None
             else if protectedGainsScore \<ge> 100
             then Some (GainsProtected pnlPercent (oc_protectGainsAbovePercent config))
             else Some (HeldTooShort holdingHours (oc_minHoldingPeriodHours config))),
          ps_unrealizedPnLPercent = pnlPercent, ps_holdingPeriodHours = holdingHours\<rparr>)"

record SellCandidate =
  sc_coinId :: string
  sc_score :: number
  sc_quantity :: number
  sc_price :: number

definition candidateOf ::
    "string \<Rightarrow> number \<Rightarrow> OpportunitySellingUserConfig \<Rightarrow> MarketData \<Rightarrow> time_ms \<Rightarrow> string \<times> Position \<Rightarrow>
     SellCandidate option" where
  "candidateOf buyCoinId buyConfidence config marketData timestamp = (\<lambda>(coinId, position).
     if coinId = buyCoinId then None
     else if coinId \<in> set (oc_protectedCoins config) then None
     else case map_get (md_prices marketData) coinId of
            None \<Rightarrow> None
          | Some currentPrice \<Rightarrow>
              if currentPrice \<le> 0 then None
              else let score = calculatePositionSellScore position currentPrice buyConfidence config timestamp None
                   in if ps_eligible score
                      then Some \<lparr>sc_coinId = coinId, sc_score = ps_totalScore score,
                        sc_quantity = pos_quantity position, sc_price = currentPrice\<rparr>
                      else None)"

definition scoreEligiblePositions ::
    "Portfolio \<Rightarrow> string \<Rightarrow> number \<Rightarrow> OpportunitySellingUserConfig \<Rightarrow> MarketData \<Rightarrow> time_ms \<Rightarrow> SellCandidate list" where
  "scoreEligiblePositions portfolio buyCoinId buyConfidence config marketData timestamp =
     sort_key sc_score (List.map_filter (candidateOf buyCoinId buyConfidence config marketData timestamp)
       (po_positions portfolio))"

section \<open>The sell plan\<close>

text \<open>\<^verbatim>\<open>toFixed(0)\<close>: the nearest integer, the larger of two, in decimal digits.\<close>

fun decimalDigits :: "nat \<Rightarrow> string" where
  "decimalDigits n =
     (if n < 10 then [char_of (48 + n)] else decimalDigits (n div 10) @ [char_of (48 + n mod 10)])"

definition toFixed0 :: "number \<Rightarrow> string" where
  "toFixed0 x =
     (if x < 0 then ''-'' @ decimalDigits (nat \<lfloor>- x + 1 / 2\<rfloor>) else decimalDigits (nat \<lfloor>x + 1 / 2\<rfloor>))"

record SimulatedFill =
  fl_status :: FillStatus
  fl_filledQuantity :: number
  fl_averagePrice :: number
  fl_fees :: "number option"
  fl_slippageBps :: number
  fl_executionTimestamp :: time_ms
  fl_instrument :: string
  fl_metadata :: TradeMetadata
  fl_extra :: "(string, js_value) jsmap"
  fl_requestedQuantity :: "number option"

record SellMarket =
  sm_marketData :: MarketData
  sm_tradingFee :: number
  sm_slippageConfig :: SlippageConfig
  sm_timestamp :: time_ms
  sm_spreadContext :: "string \<Rightarrow> SpreadEstimationContext option"
  sm_dailyVolume :: "string \<Rightarrow> number option"

type_synonym ExecuteTradeFn = "ExecuteTradeParams \<Rightarrow> Portfolio \<Rightarrow> (TradeError + ExecuteTradeResult option) \<times> Portfolio"

record SellRun =
  sr_portfolio :: Portfolio
  sr_trades :: "(string \<times> BacktestTrade) list"
  sr_fills :: "SimulatedFill list"
  sr_remainingShortfall :: number
  sr_totalSellValue :: number
  sr_sellExecuted :: bool

definition opportunitySignal ::
    "TradingSignal \<Rightarrow> number \<Rightarrow> number \<Rightarrow> number \<Rightarrow> nat \<Rightarrow> number \<Rightarrow> SellCandidate \<Rightarrow> number \<Rightarrow> TradingSignal" where
  "opportunitySignal buySignal buyConfidence shortfall totalRequired eligibleCount remainingShortfall candidate quantity =
     \<lparr>sg_action = SELL_ACTION, sg_coinId = sc_coinId candidate, sg_quantity = Some quantity, sg_percentage = None,
      sg_reason = ''Opportunity sell: freeing cash for '' @ sg_coinId buySignal @ '' buy (confidence='' @
        toFixed0 (buyConfidence * 100) @ ''%)'',
      sg_confidence = Some buyConfidence,
      sg_metadata = Some [(''opportunitySell'', JBool True), (''buyTargetCoin'', JString (sg_coinId buySignal)),
        (''buyConfidence'', JNumber (Finite buyConfidence)), (''shortfall'', JNumber (Finite shortfall)),
        (''totalRequired'', JNumber (Finite totalRequired)),
        (''eligibleCount'', JNumber (Finite (of_nat eligibleCount))),
        (''candidateScore'', JNumber (Finite (sc_score candidate))),
        (''remainingShortfall'', JNumber (Finite remainingShortfall))],
      sg_originalType = None, sg_exitConfig = None\<rparr>"

definition sellParams :: "SellMarket \<Rightarrow> TradingSignal \<Rightarrow> ExecuteTradeParams" where
  "sellParams market signal =
     \<lparr>xp_signal = signal, xp_marketData = sm_marketData market, xp_tradingFee = sm_tradingFee market,
      xp_slippageConfig = Some (sm_slippageConfig market),
      xp_dailyVolume = sm_dailyVolume market (sg_coinId signal), xp_minHoldMs = Some 0,
      xp_maxAllocation = None, xp_minAllocation = None, xp_defaultLeverage = Some 1,
      xp_spreadContext = sm_spreadContext market (sg_coinId signal)\<rparr>"

definition opportunityFill :: "SellMarket \<Rightarrow> string \<Rightarrow> ExecuteTradeResult \<Rightarrow> SimulatedFill" where
  "opportunityFill market coinId r =
     (let cancelled = (et_fillStatus r = CANCELLED_FILL)
      in \<lparr>fl_status = et_fillStatus r,
          fl_filledQuantity = (if cancelled then 0 else bt_quantity (et_trade r)),
          fl_averagePrice = bt_price (et_trade r),
          fl_fees = (if cancelled then Some 0 else bt_fee (et_trade r)),
          fl_slippageBps = et_slippageBps r, fl_executionTimestamp = sm_timestamp market,
          fl_instrument = coinId, fl_metadata = bt_metadata (et_trade r), fl_extra = [(''opportunitySell'', JBool True)],
          fl_requestedQuantity = (if cancelled then et_requestedQuantity r else None)\<rparr>)"

definition recordSell :: "SellMarket \<Rightarrow> string \<Rightarrow> ExecuteTradeResult option \<Rightarrow> SellRun \<Rightarrow> SellRun" where
  "recordSell market coinId sellResult run =
     (case sellResult of
        None \<Rightarrow> run
      | Some r \<Rightarrow>
          let filled = run\<lparr>sr_fills := sr_fills run @ [opportunityFill market coinId r]\<rparr>;
              sold = bt_quantity (et_trade r) * bt_price (et_trade r)
          in if et_fillStatus r = CANCELLED_FILL then filled
             else filled\<lparr>sr_trades := sr_trades run @ [(coinId, et_trade r)],
                    sr_totalSellValue := sr_totalSellValue run + sold,
                    sr_remainingShortfall := sr_remainingShortfall run - sold, sr_sellExecuted := True\<rparr>)"

fun sellLoop ::
    "ExecuteTradeFn \<Rightarrow> SellMarket \<Rightarrow> (number \<Rightarrow> SellCandidate \<Rightarrow> number \<Rightarrow> TradingSignal) \<Rightarrow> number \<Rightarrow>
     SellCandidate list \<Rightarrow> SellRun \<Rightarrow> TradeError option \<times> SellRun" where
  "sellLoop executeTradeFn market signalFor maxSellValue [] run = (None, run)"
| "sellLoop executeTradeFn market signalFor maxSellValue (candidate # candidates) run =
     (if sr_remainingShortfall run \<le> 0 \<or> sr_totalSellValue run \<ge> maxSellValue then (None, run)
      else let maxByShortfall = sr_remainingShortfall run / sc_price candidate;
               maxByLiquidation = (maxSellValue - sr_totalSellValue run) / sc_price candidate;
               quantity = min (sc_quantity candidate) (min maxByShortfall maxByLiquidation)
           in if quantity \<le> 0 then sellLoop executeTradeFn market signalFor maxSellValue candidates run
              else case executeTradeFn
                     (sellParams market (signalFor (sr_remainingShortfall run) candidate quantity)) (sr_portfolio run) of
                     (Inl e, portfolio) \<Rightarrow> (Some e, run\<lparr>sr_portfolio := portfolio\<rparr>)
                   | (Inr sellResult, portfolio) \<Rightarrow>
                       sellLoop executeTradeFn market signalFor maxSellValue candidates
                         (recordSell market (sc_coinId candidate) sellResult (run\<lparr>sr_portfolio := portfolio\<rparr>)))"

definition executeSellPlan ::
    "ExecuteTradeFn \<Rightarrow> SellMarket \<Rightarrow> SellCandidate list \<Rightarrow> number \<Rightarrow> number \<Rightarrow> TradingSignal \<Rightarrow> number \<Rightarrow> number \<Rightarrow>
     Portfolio \<Rightarrow> TradeError option \<times> SellRun" where
  "executeSellPlan executeTradeFn market candidates shortfall maxSellValue buySignal buyConfidence totalRequired portfolio =
     sellLoop executeTradeFn market
       (opportunitySignal buySignal buyConfidence shortfall totalRequired (length candidates)) maxSellValue candidates
       \<lparr>sr_portfolio = portfolio, sr_trades = [], sr_fills = [], sr_remainingShortfall = shortfall,
        sr_totalSellValue = 0, sr_sellExecuted = False\<rparr>"

definition requiredBuyAmount :: "TradingSignal \<Rightarrow> number \<Rightarrow> number \<Rightarrow> number \<Rightarrow> number \<Rightarrow> number" where
  "requiredBuyAmount buySignal buyPrice totalValue maxAllocation minAllocation =
     (if truthy (sg_quantity buySignal) then the (sg_quantity buySignal) * buyPrice
      else if truthy (sg_percentage buySignal) then totalValue * the (sg_percentage buySignal)
      else case sg_confidence buySignal of
             Some confidence \<Rightarrow> totalValue * (minAllocation + confidence * (maxAllocation - minAllocation))
           | None \<Rightarrow> totalValue * minAllocation)"

text \<open>The run that \<^verbatim>\<open>attemptOpportunitySelling\<close> appends to the records of its caller.\<close>

definition attemptOpportunitySelling ::
    "ExecuteTradeFn \<Rightarrow> SellMarket \<Rightarrow> TradingSignal \<Rightarrow> OpportunitySellingUserConfig \<Rightarrow> number \<Rightarrow> number \<Rightarrow> Portfolio \<Rightarrow>
     TradeError option \<times> SellRun" where
  "attemptOpportunitySelling executeTradeFn market buySignal config maxAllocation minAllocation portfolio =
     (let nothing = \<lparr>sr_portfolio = portfolio, sr_trades = [], sr_fills = [], sr_remainingShortfall = 0,
            sr_totalSellValue = 0, sr_sellExecuted = False\<rparr>;
          buyConfidence = nullish (sg_confidence buySignal) 0
      in if buyConfidence < oc_minOpportunityConfidence config then (None, nothing)
         else case map_get (md_prices (sm_marketData market)) (sg_coinId buySignal) of
                None \<Rightarrow> (None, nothing)
              | Some buyPrice \<Rightarrow>
                  if buyPrice = 0 then (None, nothing)
                  else let requiredAmount = requiredBuyAmount buySignal buyPrice (po_totalValue portfolio) maxAllocation minAllocation
                       in case flatFee (sm_tradingFee market) requiredAmount of
                            Inl e \<Rightarrow> (Some e, nothing)
                          | Inr estFee \<Rightarrow>
                              let totalRequired = requiredAmount + estFee
                              in if po_cashBalance portfolio \<ge> totalRequired then (None, nothing)
                                 else let shortfall = totalRequired - po_cashBalance portfolio;
                                          eligible = scoreEligiblePositions portfolio (sg_coinId buySignal)
                                            buyConfidence config (sm_marketData market) (sm_timestamp market)
                                      in if eligible = [] then (None, nothing)
                                         else executeSellPlan executeTradeFn market eligible shortfall
                                           (po_totalValue portfolio * oc_maxLiquidationPercent config / 100)
                                           buySignal buyConfidence totalRequired portfolio)"

section \<open>Lemmas\<close>

text \<open>A market in which sales are adverse, and a portfolio that is held long.\<close>

definition sane_market :: "SellMarket \<Rightarrow> bool" where
  "sane_market market \<longleftrightarrow> 0 \<le> sm_tradingFee market \<and> sane_slippage (sm_slippageConfig market) \<and>
     nullish (sl_maxSlippageBps (sm_slippageConfig market)) 500 \<le> 10000"

definition all_long :: "(string, Position) jsmap \<Rightarrow> bool" where
  "all_long m \<longleftrightarrow> tradable_positions m \<and> (\<forall>(c, p) \<in> set m. pos_side p \<noteq> Some SHORT)"

lemma all_long_set: "all_long m \<Longrightarrow> tradable p \<Longrightarrow> pos_side p \<noteq> Some SHORT \<Longrightarrow> all_long (map_set c p m)"
  using set_map_set [of c p m] tradable_set [of m p c] by (fastforce simp: all_long_def)

lemma all_long_delete: "all_long m \<Longrightarrow> all_long (map_delete c m)"
  using set_map_delete [of c m] tradable_delete [of m c] by (fastforce simp: all_long_def)

lemma all_long_get: "all_long m \<Longrightarrow> map_get m c = Some p \<Longrightarrow> pos_side p \<noteq> Some SHORT"
  using map_get_SomeD by (fastforce simp: all_long_def)

lemma opportunity_context:
  fixes market buy conf short req k left cand n params
  assumes "sane_market market" "0 < m" "0 < n" "0 \<le> conf" "conf \<le> 1"
  defines "params \<equiv> sellParams market (opportunitySignal buy conf short req k left cand n)"
  shows "sane_context (tradeContext params m) m" "ct_signal (tradeContext params m) = xp_signal params"
    and "ct_tradingFee (tradeContext params m) = sm_tradingFee market"
  using assms default_limits
  by (simp_all add: sane_context_def tradeContext_def params_def sellParams_def opportunitySignal_def
      sane_signal_def sane_market_def resolveBasePrice_def Let_def)

text \<open>One sale of the plan by the executor: what it leaves of the portfolio and what it brings.\<close>

lemma opportunity_sale:
  fixes buy conf short req k left cand n
  assumes "exact_decimal D" "sane_market market" "all_long (po_positions P)"
    and "map_get (md_prices (sm_marketData market)) (sc_coinId cand) = Some m" "0 < m"
    and "0 < n" "0 \<le> conf" "conf \<le> 1"
    and "executeTrade D (sellParams market (opportunitySignal buy conf short req k left cand n)) P = (out, Q)"
  shows "all_long (po_positions Q)"
    and "equity D (md_prices (sm_marketData market)) Q \<le> equity D (md_prices (sm_marketData market)) P"
    and "out = Inr (Some r) \<Longrightarrow> et_fillStatus r \<noteq> CANCELLED_FILL \<Longrightarrow>
      bt_quantity (et_trade r) * bt_price (et_trade r) \<le> n * m \<and> 0 \<le> bt_quantity (et_trade r) * bt_price (et_trade r) \<and>
      (\<exists>held. map_get (po_positions P) (sc_coinId cand) = Some held \<and> bt_quantity (et_trade r) \<le> pos_quantity held)"
proof -
  let ?params = "sellParams market (opportunitySignal buy conf short req k left cand n)"
  let ?prices = "md_prices (sm_marketData market)"
  define ctx where "ctx = tradeContext ?params m"
  have ctx: "sane_context ctx m" "ct_signal ctx = xp_signal ?params" "ct_tradingFee ctx = sm_tradingFee market"
    unfolding ctx_def by (rule opportunity_context [OF assms(2,5-8)])+
  have s: "sg_action (xp_signal ?params) = SELL_ACTION" "sg_coinId (xp_signal ?params) = sc_coinId cand"
    "sg_quantity (xp_signal ?params) = Some n" "xp_marketData ?params = sm_marketData market"
    "xp_tradingFee ?params = sm_tradingFee market" "0 \<le> sm_tradingFee market"
    using assms(2) by (simp_all add: sellParams_def opportunitySignal_def sane_market_def)
  have trade: "executeTrade D ?params P = (case executeSell ctx P of
       Inl e \<Rightarrow> (Inl e, P) | Inr NoTrade \<Rightarrow> (Inr None, P) | Inr (CancelledTrade r) \<Rightarrow> (Inr (Some r), P)
     | Inr (Acted r changed) \<Rightarrow>
         (case flatFee (sm_tradingFee market) (ac_totalValue r) of
            Inl e \<Rightarrow> (Inl e, changed)
          | Inr fee \<Rightarrow>
              let cash = po_cashBalance changed - fee
              in (Inr (Some (tradeRecord ctx r fee)),
                  changed\<lparr>po_cashBalance := cash,
                    po_totalValue := cash + calculatePositionsValue D (po_positions changed) ?prices\<rparr>)))"
    using assms(4,5) by (simp add: executeTrade_def s validatePositionConflicts_def ctx_def [symmetric] feeBaseValue_def Let_def
        split: sum.splits ActionOutcome.splits)
  have "all_long (po_positions Q) \<and> equity D ?prices Q \<le> equity D ?prices P \<and>
    (out = Inr (Some r) \<longrightarrow> et_fillStatus r \<noteq> CANCELLED_FILL \<longrightarrow>
      bt_quantity (et_trade r) * bt_price (et_trade r) \<le> n * m \<and> 0 \<le> bt_quantity (et_trade r) * bt_price (et_trade r) \<and>
      (\<exists>held. map_get (po_positions P) (sc_coinId cand) = Some held \<and> bt_quantity (et_trade r) \<le> pos_quantity held))"
  proof (cases "\<exists>a changed. executeSell ctx P = Inr (Acted a changed)")
    case False
    moreover have "et_fillStatus c = CANCELLED_FILL" if "executeSell ctx P = Inr (CancelledTrade c)" for c
      using executeAction_cancelled [of SELL_ACTION ctx P c] that by simp
    ultimately show ?thesis
      using trade assms(3,9) by (auto split: sum.splits ActionOutcome.splits)
  next
    case True
    then obtain a changed where act: "executeSell ctx P = Inr (Acted a changed)" by auto
    then obtain held where held: "map_get (po_positions P) (sc_coinId cand) = Some held"
      by (cases "map_get (po_positions P) (sc_coinId cand)") (auto simp: executeSell_def ctx(2) s)
    have long: "tradable_positions (po_positions P)" "pos_side held \<noteq> Some SHORT" "tradable held"
      using assms(3) all_long_get [OF _ held] tradable_get [OF _ held] by (auto simp: all_long_def)
    have adverse: "adverse D ?prices ctx P a changed"
      using executeSell_adverse [OF assms(1) long(1) ctx(1) _ _ _ long(2) act] assms(4) held by (simp add: ctx s)
    define q where "q = fst (calculateSellQuantity (ct_signal ctx) (pos_quantity held))"
    obtain f where f: "pos_quantity held \<noteq> 0" "applySlippageAndFill ctx q False (Some (pos_quantity held)) = Inr (Inr f)"
      "sf_quantity a = sf_quantity f" "sf_price a = sf_price f" "ac_totalValue a = sf_quantity f * sf_price f"
      "po_positions changed = (if pos_quantity held = sf_quantity f then map_delete (sc_coinId cand) (po_positions P)
         else map_set (sc_coinId cand) (soldPart held f) (po_positions P))"
      using executeSell_result [OF act, of held, unfolded ctx(2) s(2)] held unfolding q_def ctx(2) by metis
    have q: "q = min n (pos_quantity held)" "0 \<le> q"
      using assms(6) long(3) by (simp_all add: q_def ctx s calculateSellQuantity_def tradable_def)
    note sane = ctx(1) [unfolded sane_context_def]
    have b: "0 \<le> sf_quantity f" "0 \<le> sf_price f" "sf_price f \<le> m" "sf_quantity f \<le> pos_quantity held"
      using fill_bounds [OF f(2), of m] sane q f(1) long(3) by (auto simp: tradable_def)
    have "sf_quantity f \<le> q" using fill_at_most [OF f(2), of m] sane q by simp
    then have sold: "sf_quantity f * sf_price f \<le> n * m" "0 \<le> sf_quantity f * sf_price f"
      using b q assms(5,6) by (auto intro!: mult_mono)
    have positions: "all_long (po_positions changed)"
      using all_long_delete [OF assms(3)] all_long_set [OF assms(3), of "soldPart held f"] b long(2)
      by (simp add: f(6) soldPart_def tradable_def)
    have "executeTrade D ?params P = (Inr (Some (tradeRecord ctx a (ac_totalValue a * sm_tradingFee market))),
        changed\<lparr>po_cashBalance := po_cashBalance changed - ac_totalValue a * sm_tradingFee market,
          po_totalValue := po_cashBalance changed - ac_totalValue a * sm_tradingFee market +
            calculatePositionsValue D (po_positions changed) ?prices\<rparr>)"
      using sold s(6) by (simp add: trade act f(5) Let_def)
    moreover have "0 \<le> ac_totalValue a * sm_tradingFee market" using sold s(6) f(5) by simp
    ultimately show ?thesis
      using assms(9) adverse positions sold b held
      by (auto simp: adverse_def equity_def tradeRecord_def f(3,4) Let_def)
  qed
  then show "all_long (po_positions Q)"
    and "equity D ?prices Q \<le> equity D ?prices P"
    and "out = Inr (Some r) \<Longrightarrow> et_fillStatus r \<noteq> CANCELLED_FILL \<Longrightarrow>
      bt_quantity (et_trade r) * bt_price (et_trade r) \<le> n * m \<and> 0 \<le> bt_quantity (et_trade r) * bt_price (et_trade r) \<and>
      (\<exists>held. map_get (po_positions P) (sc_coinId cand) = Some held \<and> bt_quantity (et_trade r) \<le> pos_quantity held)"
    by auto
qed

definition soldValue :: "(string \<times> BacktestTrade) list \<Rightarrow> number" where
  "soldValue trades = (\<Sum>(c, t)\<leftarrow>trades. bt_quantity t * bt_price t)"

text \<open>What a run of the plan may have done since a state: trades of these coins, within the limit.\<close>

definition plan_step :: "DecimalOps \<Rightarrow> Prices \<Rightarrow> number \<Rightarrow> string set \<Rightarrow> SellRun \<Rightarrow> SellRun \<Rightarrow> bool" where
  "plan_step D prices limit coins run run' \<longleftrightarrow>
     all_long (po_positions (sr_portfolio run')) \<and>
     equity D prices (sr_portfolio run') \<le> equity D prices (sr_portfolio run) \<and>
     (\<exists>new. sr_trades run' = sr_trades run @ new \<and> fst ` set new \<subseteq> coins \<and>
        sr_totalSellValue run' = sr_totalSellValue run + soldValue new \<and>
        sr_sellExecuted run' = (sr_sellExecuted run \<or> new \<noteq> [])) \<and>
     (sr_totalSellValue run \<le> limit \<longrightarrow> sr_totalSellValue run' \<le> limit)"

lemma plan_step_refl: "all_long (po_positions (sr_portfolio run)) \<Longrightarrow> plan_step D prices limit coins run run"
  by (simp add: plan_step_def soldValue_def)

lemma plan_step_trans:
  assumes "plan_step D prices limit coins run run'" "plan_step D prices limit coins' run' run''"
  shows "plan_step D prices limit (coins \<union> coins') run run''"
proof -
  obtain new where new: "sr_trades run' = sr_trades run @ new" "fst ` set new \<subseteq> coins"
    "sr_totalSellValue run' = sr_totalSellValue run + soldValue new"
    "sr_sellExecuted run' = (sr_sellExecuted run \<or> new \<noteq> [])"
    using assms(1) by (auto simp: plan_step_def)
  obtain new' where new': "sr_trades run'' = sr_trades run' @ new'" "fst ` set new' \<subseteq> coins'"
    "sr_totalSellValue run'' = sr_totalSellValue run' + soldValue new'"
    "sr_sellExecuted run'' = (sr_sellExecuted run' \<or> new' \<noteq> [])"
    using assms(2) by (auto simp: plan_step_def)
  have "sr_trades run'' = sr_trades run @ (new @ new') \<and> fst ` set (new @ new') \<subseteq> coins \<union> coins' \<and>
      sr_totalSellValue run'' = sr_totalSellValue run + soldValue (new @ new') \<and>
      sr_sellExecuted run'' = (sr_sellExecuted run \<or> new @ new' \<noteq> [])"
    using new new' by (auto simp: soldValue_def)
  then show ?thesis using assms unfolding plan_step_def by (meson order_trans)
qed

lemma recordSell_step:
  assumes "\<And>r. sellResult = Some r \<Longrightarrow> et_fillStatus r \<noteq> CANCELLED_FILL \<Longrightarrow>
      sr_totalSellValue run + bt_quantity (et_trade r) * bt_price (et_trade r) \<le> limit"
    and "all_long (po_positions Q)" "equity D prices Q \<le> equity D prices (sr_portfolio run)"
  shows "plan_step D prices limit {c} run (recordSell market c sellResult (run\<lparr>sr_portfolio := Q\<rparr>))"
  using assms by (cases sellResult) (auto simp: plan_step_def recordSell_def soldValue_def Let_def)

lemma sellLoop_step:
  assumes "exact_decimal D" "sane_market market" "0 \<le> conf" "conf \<le> 1"
    and "all_long (po_positions (sr_portfolio run))"
    and "\<forall>cand \<in> set cands. map_get (md_prices (sm_marketData market)) (sc_coinId cand) = Some (sc_price cand) \<and>
      0 < sc_price cand"
  shows "plan_step D (md_prices (sm_marketData market)) limit (sc_coinId ` set cands) run
    (snd (sellLoop (executeTrade D) market (opportunitySignal buy conf short req k) limit cands run))"
  using assms(5,6)
proof (induction cands arbitrary: run)
  case Nil
  then show ?case by (simp add: plan_step_refl)
next
  case (Cons cand cands)
  let ?prices = "md_prices (sm_marketData market)" and ?signal = "opportunitySignal buy conf short req k"
  define n where "n = min (sc_quantity cand) (min (sr_remainingShortfall run / sc_price cand)
    ((limit - sr_totalSellValue run) / sc_price cand))"
  have price: "map_get ?prices (sc_coinId cand) = Some (sc_price cand)" "0 < sc_price cand"
    using Cons.prems by auto
  have stay: "plan_step D ?prices limit (sc_coinId ` set (cand # cands)) run run"
    using Cons.prems by (simp add: plan_step_refl)
  consider (stop) "sr_remainingShortfall run \<le> 0 \<or> sr_totalSellValue run \<ge> limit"
    | (skip) "\<not> (sr_remainingShortfall run \<le> 0 \<or> sr_totalSellValue run \<ge> limit)" "n \<le> 0"
    | (sell) "\<not> (sr_remainingShortfall run \<le> 0 \<or> sr_totalSellValue run \<ge> limit)" "0 < n" by linarith
  then show ?case
  proof cases
    case stop
    then show ?thesis using stay by auto
  next
    case skip
    have "plan_step D ?prices limit (sc_coinId ` set cands) run
      (snd (sellLoop (executeTrade D) market ?signal limit cands run))"
      using Cons by simp
    from plan_step_trans [OF stay this] skip show ?thesis
      by (simp add: n_def Let_def insert_absorb Un_absorb)
  next
    case sell
    obtain out Q where trade: "executeTrade D (sellParams market (?signal (sr_remainingShortfall run) cand n))
        (sr_portfolio run) = (out, Q)" by force
    note sale = opportunity_sale [OF assms(1,2) Cons.prems(1) price sell(2) assms(3,4) trade]
    have limit: "n * sc_price cand \<le> limit - sr_totalSellValue run"
      using price(2) by (simp add: n_def min_def field_simps)
    have loop: "sellLoop (executeTrade D) market ?signal limit (cand # cands) run = (case out of
        Inl e \<Rightarrow> (Some e, run\<lparr>sr_portfolio := Q\<rparr>)
      | Inr sellResult \<Rightarrow> sellLoop (executeTrade D) market ?signal limit cands
          (recordSell market (sc_coinId cand) sellResult (run\<lparr>sr_portfolio := Q\<rparr>)))"
      using sell trade by (simp add: Let_def flip: n_def split: sum.splits)
    show ?thesis
    proof (cases out)
      case (Inl e)
      have "plan_step D ?prices limit (sc_coinId ` set (cand # cands)) run (run\<lparr>sr_portfolio := Q\<rparr>)"
        using sale(1,2) by (simp add: plan_step_def soldValue_def)
      then show ?thesis by (simp add: loop Inl del: sellLoop.simps)
    next
      case (Inr sellResult)
      define run' where "run' = recordSell market (sc_coinId cand) sellResult (run\<lparr>sr_portfolio := Q\<rparr>)"
      have "plan_step D ?prices limit {sc_coinId cand} run run'"
        unfolding run'_def
      proof (rule recordSell_step)
        fix r
        assume "sellResult = Some r" "et_fillStatus r \<noteq> CANCELLED_FILL"
        then show "sr_totalSellValue run + bt_quantity (et_trade r) * bt_price (et_trade r) \<le> limit"
          using sale(3) [of r] Inr limit by simp
      qed (use sale in auto)
      moreover have "plan_step D ?prices limit (sc_coinId ` set cands) run'
          (snd (sellLoop (executeTrade D) market ?signal limit cands run'))"
        using Cons.IH [of run'] Cons.prems calculation by (simp add: plan_step_def)
      ultimately have "plan_step D ?prices limit ({sc_coinId cand} \<union> sc_coinId ` set cands) run
          (snd (sellLoop (executeTrade D) market ?signal limit cands run'))"
        by (rule plan_step_trans)
      then show ?thesis by (simp add: loop Inr run'_def del: sellLoop.simps)
    qed
  qed
qed

lemma scoreEligible_sound:
  assumes "x \<in> set (scoreEligiblePositions P buyCoin conf config market now)" "all_long (po_positions P)"
  shows "map_get (md_prices market) (sc_coinId x) = Some (sc_price x) \<and> 0 < sc_price x \<and> sc_coinId x \<noteq> buyCoin \<and>
    sc_coinId x \<notin> set (oc_protectedCoins config) \<and>
    (\<exists>p. map_get (po_positions P) (sc_coinId x) = Some p \<and>
       ps_eligible (calculatePositionSellScore p (sc_price x) conf config now None))"
proof -
  have wf: "map_wf (po_positions P)" using assms(2) by (simp add: all_long_def tradable_positions_def)
  show ?thesis
    using assms(1) map_get_in [OF wf] by (auto simp: scoreEligiblePositions_def List.map_filter_def candidateOf_def Let_def
        split: if_splits option.splits)
qed

section \<open>Properties\<close>

text \<open>C33. Opportunity selling keeps to its limits: on sane settings and a portfolio without shorts, the
  sales of one attempt bring no more than the configured share of the portfolio value, each is of a
  coin that is held, is neither the coin to buy nor protected and has an eligible score, the value of
  the portfolio at the market prices does not grow, and the attempt reports a sale exactly when it
  made one, which it does only for a signal of enough confidence.\<close>

theorem opportunity_sells_within_limits:
  fixes D market buySignal config maxAllocation minAllocation P attempt run conf limit
  assumes "exact_decimal D" "sane_market market" "all_long (po_positions P)"
    and "0 \<le> nullish (sg_confidence buySignal) 0" "nullish (sg_confidence buySignal) 0 \<le> 1"
    and "0 \<le> po_totalValue P" "0 \<le> oc_maxLiquidationPercent config"
  defines "run \<equiv> snd (attemptOpportunitySelling (executeTrade D) market buySignal config maxAllocation minAllocation P)"
    and "conf \<equiv> nullish (sg_confidence buySignal) 0"
    and "limit \<equiv> po_totalValue P * oc_maxLiquidationPercent config / 100"
  shows "soldValue (sr_trades run) \<le> limit \<and>
    (\<forall>(c, t) \<in> set (sr_trades run). c \<noteq> sg_coinId buySignal \<and> c \<notin> set (oc_protectedCoins config) \<and>
       (\<exists>p m. map_get (po_positions P) c = Some p \<and> map_get (md_prices (sm_marketData market)) c = Some m \<and>
          ps_eligible (calculatePositionSellScore p m conf config (sm_timestamp market) None))) \<and>
    equity D (md_prices (sm_marketData market)) (sr_portfolio run) \<le> equity D (md_prices (sm_marketData market)) P \<and>
    (sr_sellExecuted run \<longleftrightarrow> sr_trades run \<noteq> []) \<and>
    (sr_sellExecuted run \<longrightarrow> oc_minOpportunityConfidence config \<le> conf)"
proof -
  let ?prices = "md_prices (sm_marketData market)"
  define cands where "cands = scoreEligiblePositions P (sg_coinId buySignal) conf config (sm_marketData market) (sm_timestamp market)"
  have cand: "map_get ?prices (sc_coinId x) = Some (sc_price x) \<and> 0 < sc_price x \<and> sc_coinId x \<noteq> sg_coinId buySignal \<and>
      sc_coinId x \<notin> set (oc_protectedCoins config) \<and>
      (\<exists>p. map_get (po_positions P) (sc_coinId x) = Some p \<and>
         ps_eligible (calculatePositionSellScore p (sc_price x) conf config (sm_timestamp market) None))"
    if "x \<in> set cands" for x
    using scoreEligible_sound that assms(3) unfolding cands_def by blast
  show ?thesis
  proof (cases "sr_trades run = [] \<and> \<not> sr_sellExecuted run \<and> sr_portfolio run = P")
    case True
    then show ?thesis using assms(6,7) by (simp add: soldValue_def limit_def)
  next
    case False
    then obtain short req where enough: "oc_minOpportunityConfidence config \<le> conf" and
      run: "run = snd (executeSellPlan (executeTrade D) market cands short limit buySignal conf req P)"
      by (auto simp: run_def attemptOpportunitySelling_def Let_def cands_def conf_def [symmetric] limit_def
          split: if_splits option.splits sum.splits)
    have "plan_step D ?prices limit (sc_coinId ` set cands)
        \<lparr>sr_portfolio = P, sr_trades = [], sr_fills = [], sr_remainingShortfall = short,
         sr_totalSellValue = 0, sr_sellExecuted = False\<rparr> run"
      unfolding run executeSellPlan_def
      by (rule sellLoop_step) (use assms cand in \<open>auto simp: conf_def\<close>)
    then obtain new where new: "sr_trades run = new" "fst ` set new \<subseteq> sc_coinId ` set cands"
        "sr_totalSellValue run = soldValue new" "sr_sellExecuted run \<longleftrightarrow> new \<noteq> []"
      and total: "equity D ?prices (sr_portfolio run) \<le> equity D ?prices P" "0 \<le> limit \<longrightarrow> sr_totalSellValue run \<le> limit"
      unfolding plan_step_def by (elim conjE exE) simp
    have "0 \<le> limit" using assms(6,7) by (simp add: limit_def)
    then have step: "equity D ?prices (sr_portfolio run) \<le> equity D ?prices P" "fst ` set (sr_trades run) \<subseteq> sc_coinId ` set cands"
      "sr_sellExecuted run \<longleftrightarrow> sr_trades run \<noteq> []" "soldValue (sr_trades run) \<le> limit"
      using new total by simp_all
    have eligible: "c \<noteq> sg_coinId buySignal \<and> c \<notin> set (oc_protectedCoins config) \<and>
       (\<exists>p m. map_get (po_positions P) c = Some p \<and> map_get ?prices c = Some m \<and>
          ps_eligible (calculatePositionSellScore p m conf config (sm_timestamp market) None))"
      if ct: "(c, t) \<in> set (sr_trades run)" for c t
    proof -
      have "c \<in> sc_coinId ` set cands" using step(2) ct by force
      then obtain x where "x \<in> set cands" "c = sc_coinId x" by auto
      then show ?thesis using cand [of x] by auto
    qed
    show ?thesis
      by (intro conjI impI ballI case_prodI2 step enough) (metis eligible)+
  qed
qed

text \<open>Half of the sample portfolio is held in a coin that has lost a tenth of its price.\<close>

definition sample_market :: SellMarket where
  "sample_market = \<lparr>sm_marketData = \<lparr>md_timestamp = 10 ^ 9, md_prices = [(''btc'', 100), (''eth'', 90)]\<rparr>,
     sm_tradingFee = 0, sm_slippageConfig = DEFAULT_SLIPPAGE_CONFIG\<lparr>sl_type := NO_SLIPPAGE\<rparr>,
     sm_timestamp = 10 ^ 9, sm_spreadContext = \<lambda>_. None, sm_dailyVolume = \<lambda>_. None\<rparr>"

definition sample_holder :: Portfolio where
  "sample_holder = (Portfolio_initialize 100)\<lparr>po_positions :=
     [(''eth'', (plainPosition ''eth'' 1 100 90)\<lparr>pos_entryDate := Some 0\<rparr>)], po_totalValue := 190\<rparr>"

theorem opportunity_sells_within_limits_witness:
  "sr_sellExecuted (snd (attemptOpportunitySelling (executeTrade exactDecimal) sample_market
     (btc_buy\<lparr>sg_coinId := ''btc'', sg_quantity := Some 2, sg_confidence := Some 1\<rparr>)
     DEFAULT_OPPORTUNITY_SELLING_CONFIG 1 1 sample_holder)) \<and>
   soldValue (sr_trades (snd (attemptOpportunitySelling (executeTrade exactDecimal) sample_market
     (btc_buy\<lparr>sg_coinId := ''btc'', sg_quantity := Some 2, sg_confidence := Some 1\<rparr>)
     DEFAULT_OPPORTUNITY_SELLING_CONFIG 1 1 sample_holder))) \<le> 57"
proof -
  let ?buy = "btc_buy\<lparr>sg_coinId := ''btc'', sg_quantity := Some 2, sg_confidence := Some 1\<rparr>"
  have "sane_market sample_market"
    by (simp add: sane_market_def sample_market_def sane_slippage_def DEFAULT_SLIPPAGE_CONFIG_def)
  moreover have "all_long (po_positions sample_holder)"
    by (simp add: all_long_def tradable_positions_def tradable_def map_wf_def sample_holder_def plainPosition_def)
  moreover have "sr_sellExecuted (snd (attemptOpportunitySelling (executeTrade exactDecimal) sample_market ?buy
      DEFAULT_OPPORTUNITY_SELLING_CONFIG 1 1 sample_holder))"
    by (simp add: attemptOpportunitySelling_def sample_market_def sample_holder_def DEFAULT_OPPORTUNITY_SELLING_CONFIG_def
        requiredBuyAmount_def scoreEligiblePositions_def candidateOf_def calculatePositionSellScore_def
        calculateUnrealizedPnL_def calculateHoldingPeriodHours_def executeSellPlan_def sellParams_def
        opportunitySignal_def recordSell_def opportunityFill_def tradeRecord_def Portfolio_initialize_def
        List.map_filter_def sample_eval)
  ultimately show ?thesis
    using opportunity_sells_within_limits [OF exact_exactDecimal, of sample_market sample_holder ?buy
        DEFAULT_OPPORTUNITY_SELLING_CONFIG 1 1]
    by (simp add: sample_holder_def DEFAULT_OPPORTUNITY_SELLING_CONFIG_def)
qed

end
