(* ===== verification/BacktestMetrics.thy ===== *)
theory BacktestMetrics
  imports Prelude "HOL-Library.Multiset"
begin

text \<open>
  The measures of performance: \<^verbatim>\<open>common/metrics/metric-calculator.ts\<close>,
  \<^verbatim>\<open>sharpe-ratio.calculator.ts\<close>, \<^verbatim>\<open>drawdown.calculator.ts\<close>, \<^verbatim>\<open>correlation.calculator.ts\<close> and
  the service \<^verbatim>\<open>order/backtest/shared/metrics/metrics-calculator.service.ts\<close> over them. A series
  is the list of its values; sums are exact. An initial capital, by which the source divides
  without a test, is taken to be positive.
\<close>

section \<open>Statistics\<close>

datatype MetricError = PercentileRange | SeriesLength

definition reduceSum :: "number list \<Rightarrow> number" where
  "reduceSum values = foldl (+) 0 values"

definition calculateMean :: "number list \<Rightarrow> number" where
  "calculateMean values = (if values = [] then 0 else reduceSum values / of_nat (length values))"

definition calculateVariance :: "number list \<Rightarrow> number" where
  "calculateVariance values =
     (if values = [] then 0
      else let mean = calculateMean values in calculateMean (map (\<lambda>v. (v - mean) ^ 2) values))"

definition calculateStandardDeviation :: "number list \<Rightarrow> number" where
  "calculateStandardDeviation values =
     (if values = [] then 0
      else let mean = calculateMean values in sqrt (calculateMean (map (\<lambda>v. (v - mean) ^ 2) values)))"

definition calculateMedian :: "number list \<Rightarrow> number" where
  "calculateMedian values =
     (if values = [] then 0
      else let sorted = sort values; mid = length sorted div 2
           in if length sorted mod 2 = 0 then (sorted ! (mid - 1) + sorted ! mid) / 2 else sorted ! mid)"

definition calculatePercentile :: "number list \<Rightarrow> number \<Rightarrow> MetricError + number" where
  "calculatePercentile values percentile =
     (if values = [] then Inr 0
      else if percentile < 0 \<or> percentile > 100 then Inl PercentileRange
      else let sorted = sort values;
               index = percentile / 100 * of_nat (length sorted - 1);
               lower = nat \<lfloor>index\<rfloor>; upper = nat \<lceil>index\<rceil>;
               weight = index - of_nat lower
           in Inr (if lower = upper then sorted ! lower
                   else sorted ! lower * (1 - weight) + sorted ! upper * weight))"

definition calculateCumulativeReturn :: "number list \<Rightarrow> number" where
  "calculateCumulativeReturn returns =
     (if returns = [] then 0 else foldl (\<lambda>cumulative ret. (1 + cumulative) * (1 + ret) - 1) 0 returns)"

text \<open>\<^verbatim>\<open>Math.pow\<close> on finite numbers.\<close>

definition js_pow :: "number \<Rightarrow> number \<Rightarrow> js_number" where
  "js_pow x y =
     (if y = 0 then Finite 1
      else if x > 0 then Finite (x powr y)
      else if x = 0 then (if y > 0 then Finite 0 else PlusInfinity)
      else if y = of_int \<lfloor>y\<rfloor> then Finite (x powi \<lfloor>y\<rfloor>)
      else NaN)"

fun js_decrement :: "js_number \<Rightarrow> js_number" where
  "js_decrement (Finite x) = Finite (x - 1)"
| "js_decrement v = v"

definition annualizeReturn :: "number \<Rightarrow> number \<Rightarrow> number \<Rightarrow> js_number" where
  "annualizeReturn totalReturn periods periodsPerYear =
     (if periods = 0 then Finite 0 else js_decrement (js_pow (1 + totalReturn) (periodsPerYear / periods)))"

definition annualizeVolatility :: "number list \<Rightarrow> number \<Rightarrow> number" where
  "annualizeVolatility returns periodsPerYear = calculateStandardDeviation returns * sqrt periodsPerYear"

definition calculateDownsideDeviation :: "number list \<Rightarrow> number \<Rightarrow> number" where
  "calculateDownsideDeviation returns mar =
     (if returns = [] then 0
      else let downsideReturns = filter (\<lambda>ret. ret < mar) returns
           in if downsideReturns = [] then 0
              else sqrt (reduceSum (map (\<lambda>ret. (ret - mar) ^ 2) downsideReturns) / of_nat (length returns)))"

definition calculateRollingWindow :: "'a list \<Rightarrow> nat \<Rightarrow> ('a list \<Rightarrow> number) \<Rightarrow> number list" where
  "calculateRollingWindow data windowSize calculator =
     (if length data < windowSize then []
      else map (\<lambda>i. calculator (take windowSize (drop i data))) [0..<length data - windowSize + 1])"

definition calculateEMA :: "number list \<Rightarrow> int \<Rightarrow> number list" where
  "calculateEMA values period =
     (if values = [] \<or> period \<le> 0 then []
      else let multiplier = 2 / (of_int period + 1);
               first = reduceSum (take (nat period) values) / of_nat (min (nat period) (length values))
           in foldl (\<lambda>ema value. ema @ [value * multiplier + last ema * (1 - multiplier)]) [first]
                (drop (nat period) values))"

definition calculateZScore :: "number \<Rightarrow> number list \<Rightarrow> number" where
  "calculateZScore value values =
     (let mean = calculateMean values; stdDev = calculateStandardDeviation values
      in if stdDev = 0 then 0 else (value - mean) / stdDev)"

definition calculateRankPercentile :: "number \<Rightarrow> number list \<Rightarrow> number" where
  "calculateRankPercentile value values =
     (if values = [] then 0
      else of_nat (length (filter (\<lambda>v. v < value) (sort values))) / of_nat (length values) * 100)"

section \<open>Sharpe and Sortino ratios\<close>

definition MIN_STDDEV :: number where
  "MIN_STDDEV = 1 / 10 ^ 10"

definition MAX_SHARPE :: number where
  "MAX_SHARPE = 100"

definition clampRatio :: "number \<Rightarrow> number" where
  "clampRatio ratio = max (- MAX_SHARPE) (min MAX_SHARPE ratio)"

definition Sharpe_calculate :: "number list \<Rightarrow> number \<Rightarrow> number \<Rightarrow> number" where
  "Sharpe_calculate returns riskFreeRate periodsPerYear =
     (if returns = [] then 0
      else let periodRiskFreeRate = riskFreeRate / periodsPerYear;
               excessReturns = map (\<lambda>ret. ret - periodRiskFreeRate) returns;
               meanExcessReturn = calculateMean excessReturns;
               stdDev = calculateStandardDeviation excessReturns
           in if stdDev < MIN_STDDEV then 0
              else clampRatio (meanExcessReturn / stdDev * sqrt periodsPerYear))"

definition Sharpe_calculateFromMetrics :: "number \<Rightarrow> number \<Rightarrow> number \<Rightarrow> number" where
  "Sharpe_calculateFromMetrics annualizedReturn annualizedVolatility riskFreeRate =
     (if annualizedVolatility < MIN_STDDEV then 0
      else clampRatio ((annualizedReturn - riskFreeRate) / annualizedVolatility))"

definition Sharpe_calculateRolling :: "number list \<Rightarrow> nat \<Rightarrow> number \<Rightarrow> number \<Rightarrow> number list" where
  "Sharpe_calculateRolling returns windowSize riskFreeRate periodsPerYear =
     (if length returns < windowSize then []
      else map (\<lambda>i. Sharpe_calculate (take windowSize (drop (i + 1 - windowSize) returns)) riskFreeRate periodsPerYear)
             [windowSize - 1..<length returns])"

definition Sharpe_calculateSortino :: "number list \<Rightarrow> number \<Rightarrow> number \<Rightarrow> number" where
  "Sharpe_calculateSortino returns riskFreeRate periodsPerYear =
     (if returns = [] then 0
      else let periodRiskFreeRate = riskFreeRate / periodsPerYear;
               excessReturns = map (\<lambda>ret. ret - periodRiskFreeRate) returns;
               meanExcessReturn = calculateMean excessReturns;
               downsideReturns = filter (\<lambda>ret. ret < periodRiskFreeRate) returns
           in if downsideReturns = [] then MAX_SHARPE
              else let squaredDiffs = map (\<lambda>ret. (ret - periodRiskFreeRate) ^ 2) downsideReturns;
                       downsideDeviation = sqrt (reduceSum squaredDiffs / of_nat (length returns))
                   in if downsideDeviation < MIN_STDDEV then MAX_SHARPE
                      else clampRatio (meanExcessReturn / downsideDeviation * sqrt periodsPerYear))"

datatype SharpeGrade = ExcellentSharpe | GoodSharpe | AcceptableSharpe | PoorSharpe

definition interpretSharpe :: "number \<Rightarrow> SharpeGrade" where
  "interpretSharpe sharpe =
     (if sharpe > 2 then ExcellentSharpe else if sharpe > 1 then GoodSharpe
      else if sharpe > 1 / 2 then AcceptableSharpe else PoorSharpe)"

section \<open>Drawdowns\<close>

record DrawdownResult =
  dr_maxDrawdown :: number
  dr_maxDrawdownPercentage :: number
  dr_currentDrawdown :: number
  dr_currentDrawdownPercentage :: number
  dr_drawdownDuration :: int
  dr_peakDate :: "nat option"
  dr_troughDate :: "nat option"
  dr_recoveryDate :: "nat option"

record DrawdownScan =
  ds_maxDrawdown :: number
  ds_maxDrawdownPercentage :: number
  ds_peak :: number
  ds_peakIndex :: nat
  ds_troughIndex :: nat
  ds_currentDrawdown :: number

definition scanDrawdown :: "DrawdownScan \<Rightarrow> nat \<times> number \<Rightarrow> DrawdownScan" where
  "scanDrawdown s = (\<lambda>(i, value).
     let s1 = (if value > ds_peak s then s\<lparr>ds_peak := value, ds_peakIndex := i\<rparr> else s);
         drawdown = ds_peak s1 - value;
         drawdownPercentage = (if ds_peak s1 \<noteq> 0 then drawdown / ds_peak s1 * 100 else 0);
         s2 = (if drawdown > ds_maxDrawdown s1
               then s1\<lparr>ds_maxDrawdown := drawdown, ds_maxDrawdownPercentage := drawdownPercentage, ds_troughIndex := i\<rparr>
               else s1)
     in s2\<lparr>ds_currentDrawdown := drawdown\<rparr>)"

definition scanDrawdowns :: "number list \<Rightarrow> DrawdownScan" where
  "scanDrawdowns values =
     foldl scanDrawdown
       \<lparr>ds_maxDrawdown = 0, ds_maxDrawdownPercentage = 0, ds_peak = hd values, ds_peakIndex = 0,
        ds_troughIndex = 0, ds_currentDrawdown = 0\<rparr> (enumerate 1 (tl values))"

definition Drawdown_calculateMaxDrawdown :: "number list \<Rightarrow> DrawdownResult" where
  "Drawdown_calculateMaxDrawdown cumulativeReturns =
     (if cumulativeReturns = []
      then \<lparr>dr_maxDrawdown = 0, dr_maxDrawdownPercentage = 0, dr_currentDrawdown = 0,
            dr_currentDrawdownPercentage = 0, dr_drawdownDuration = 0, dr_peakDate = None,
            dr_troughDate = None, dr_recoveryDate = None\<rparr>
      else let s = scanDrawdowns cumulativeReturns;
               currentValue = last cumulativeReturns;
               currentDrawdownPercentage =
                 (if ds_peak s \<noteq> 0 then (ds_peak s - currentValue) / ds_peak s * 100 else 0)
           in \<lparr>dr_maxDrawdown = ds_maxDrawdown s, dr_maxDrawdownPercentage = ds_maxDrawdownPercentage s,
               dr_currentDrawdown = ds_currentDrawdown s,
               dr_currentDrawdownPercentage = max 0 currentDrawdownPercentage,
               dr_drawdownDuration = int (ds_troughIndex s) - int (ds_peakIndex s),
               dr_peakDate = Some (ds_peakIndex s), dr_troughDate = Some (ds_troughIndex s),
               dr_recoveryDate =
                 (if currentValue \<ge> ds_peak s then Some (length cumulativeReturns - 1) else None)\<rparr>)"

definition convertToCumulativeReturns :: "number list \<Rightarrow> number list" where
  "convertToCumulativeReturns returns = foldl (\<lambda>cumulative ret. cumulative @ [last cumulative * (1 + ret)]) [1] returns"

definition calculateFromReturns :: "number list \<Rightarrow> DrawdownResult" where
  "calculateFromReturns returns = Drawdown_calculateMaxDrawdown (convertToCumulativeReturns returns)"

record DrawdownPeriod =
  dp_startIndex :: nat
  dp_endIndex :: nat
  dp_recoveryIndex :: "nat option"
  dp_drawdown :: number
  dp_duration :: nat

record PeriodScan =
  dq_drawdowns :: "DrawdownPeriod list"
  dq_peak :: number
  dq_peakIndex :: nat
  dq_inDrawdown :: bool

definition updateLast :: "('a \<Rightarrow> 'a) \<Rightarrow> 'a list \<Rightarrow> 'a list" where
  "updateLast f xs = (if xs = [] then [] else butlast xs @ [f (last xs)])"

definition scanPeriod :: "PeriodScan \<Rightarrow> nat \<times> number \<Rightarrow> PeriodScan" where
  "scanPeriod s = (\<lambda>(i, value).
     if value > dq_peak s
     then (if dq_inDrawdown s
           then s\<lparr>dq_drawdowns := updateLast (\<lambda>d. d\<lparr>dp_recoveryIndex := Some i\<rparr>) (dq_drawdowns s), dq_inDrawdown := False\<rparr>
           else s)\<lparr>dq_peak := value, dq_peakIndex := i\<rparr>
     else if value < dq_peak s
     then (if \<not> dq_inDrawdown s
           then s\<lparr>dq_drawdowns := dq_drawdowns s @ [\<lparr>dp_startIndex = dq_peakIndex s, dp_endIndex = i,
                    dp_recoveryIndex = None, dp_drawdown = dq_peak s - value, dp_duration = i - dq_peakIndex s\<rparr>],
                  dq_inDrawdown := True\<rparr>
           else s\<lparr>dq_drawdowns := updateLast (\<lambda>d. d\<lparr>dp_endIndex := i,
                    dp_drawdown := max (dp_drawdown d) (dq_peak s - value), dp_duration := i - dq_peakIndex s\<rparr>)
                    (dq_drawdowns s)\<rparr>)
     else s)"

definition calculateAllDrawdowns :: "number list \<Rightarrow> DrawdownPeriod list" where
  "calculateAllDrawdowns values =
     (if values = [] then []
      else dq_drawdowns (foldl scanPeriod
        \<lparr>dq_drawdowns = [], dq_peak = hd values, dq_peakIndex = 0, dq_inDrawdown = False\<rparr> (enumerate 1 (tl values))))"

definition calculateCalmarRatio :: "number \<Rightarrow> number \<Rightarrow> number" where
  "calculateCalmarRatio annualizedReturn maxDrawdownPercentage =
     (if maxDrawdownPercentage = 0 then 0 else annualizedReturn / (maxDrawdownPercentage / 100))"

definition calculateAverageDrawdown :: "number list \<Rightarrow> number" where
  "calculateAverageDrawdown values =
     (let drawdowns = calculateAllDrawdowns values
      in if drawdowns = [] then 0 else reduceSum (map dp_drawdown drawdowns) / of_nat (length drawdowns))"

record DurationStats =
  du_average :: number
  du_max :: nat
  du_total :: nat

definition calculateDrawdownDurations :: "number list \<Rightarrow> DurationStats" where
  "calculateDrawdownDurations values =
     (let durations = map dp_duration (calculateAllDrawdowns values)
      in if durations = [] then \<lparr>du_average = 0, du_max = 0, du_total = 0\<rparr>
         else \<lparr>du_average = of_nat (foldl (+) 0 durations) / of_nat (length durations),
               du_max = foldl max (hd durations) (tl durations), du_total = foldl (+) 0 durations\<rparr>)"

definition calculateUnderwaterPlot :: "number list \<Rightarrow> number list" where
  "calculateUnderwaterPlot values =
     snd (foldl (\<lambda>(peak, underwater) value.
       let peak = (if value > peak then value else peak);
           drawdown = (if peak \<noteq> 0 then (peak - value) / peak * 100 else 0)
       in (peak, underwater @ [- drawdown])) (hd values, []) values)"

datatype DrawdownSeverity = LowDrawdown | ModerateDrawdown | HighDrawdown | ExtremeDrawdown

definition interpretDrawdown :: "number \<Rightarrow> DrawdownSeverity" where
  "interpretDrawdown drawdownPercentage =
     (if drawdownPercentage < 10 then LowDrawdown else if drawdownPercentage < 20 then ModerateDrawdown
      else if drawdownPercentage < 40 then HighDrawdown else ExtremeDrawdown)"

section \<open>Correlation\<close>

definition calculatePearsonCorrelation :: "number list \<Rightarrow> number list \<Rightarrow> MetricError + number" where
  "calculatePearsonCorrelation returns1 returns2 =
     (if returns1 = [] \<or> returns2 = [] then Inr 0
      else if length returns1 \<noteq> length returns2 then Inl SeriesLength
      else let mean1 = calculateMean returns1; mean2 = calculateMean returns2;
               (numerator, sumSquares1, sumSquares2) =
                 foldl (\<lambda>(n, s1, s2) (r1, r2).
                   let diff1 = r1 - mean1; diff2 = r2 - mean2
                   in (n + diff1 * diff2, s1 + diff1 * diff1, s2 + diff2 * diff2)) (0, 0, 0) (zip returns1 returns2);
               denominator = sqrt (sumSquares1 * sumSquares2)
           in Inr (if denominator = 0 then 0 else numerator / denominator))"

definition convertToRanks :: "number list \<Rightarrow> number list" where
  "convertToRanks values =
     (let indexed = sort_key fst (zip values [0..<length values])
      in foldl (\<lambda>ranks (i, (val, idx)). ranks[idx := of_nat (i + 1)]) (replicate (length values) 0)
           (enumerate 0 indexed))"

definition calculateSpearmanCorrelation :: "number list \<Rightarrow> number list \<Rightarrow> MetricError + number" where
  "calculateSpearmanCorrelation returns1 returns2 =
     (if returns1 = [] \<or> returns2 = [] then Inr 0
      else if length returns1 \<noteq> length returns2 then Inl SeriesLength
      else calculatePearsonCorrelation (convertToRanks returns1) (convertToRanks returns2))"

definition correlationEntry :: "number list list \<Rightarrow> nat \<Rightarrow> nat \<Rightarrow> MetricError + number" where
  "correlationEntry returnSeries i j =
     (if i = j then Inr 1
      else calculatePearsonCorrelation (returnSeries ! min i j) (returnSeries ! max i j))"

definition calculateCorrelationMatrix :: "number list list \<Rightarrow> MetricError + number list list" where
  "calculateCorrelationMatrix returnSeries =
     (let n = length returnSeries;
          entries = map (\<lambda>i. map (correlationEntry returnSeries i) [0..<n]) [0..<n]
      in if list_all (list_all (\<lambda>e. case e of Inl _ \<Rightarrow> False | Inr _ \<Rightarrow> True)) entries
         then Inr (map (map projr) entries) else Inl SeriesLength)"

definition calculateRollingCorrelation :: "number list \<Rightarrow> number list \<Rightarrow> nat \<Rightarrow> MetricError + number list" where
  "calculateRollingCorrelation returns1 returns2 windowSize =
     (if length returns1 < windowSize \<or> length returns2 < windowSize then Inr []
      else if length returns1 \<noteq> length returns2 then Inl SeriesLength
      else Inr (map (\<lambda>i. projr (calculatePearsonCorrelation (take windowSize (drop (i + 1 - windowSize) returns1))
               (take windowSize (drop (i + 1 - windowSize) returns2)))) [windowSize - 1..<length returns1]))"

definition calculateCovariance :: "number list \<Rightarrow> number list \<Rightarrow> number" where
  "calculateCovariance returns1 returns2 =
     (if returns1 = [] \<or> returns2 = [] then 0
      else let mean1 = calculateMean returns1; mean2 = calculateMean returns2
           in foldl (\<lambda>sum (r1, r2). sum + (r1 - mean1) * (r2 - mean2)) 0 (zip returns1 returns2) /
              of_nat (length returns1))"

definition calculateBeta :: "number list \<Rightarrow> number list \<Rightarrow> MetricError + number" where
  "calculateBeta strategyReturns benchmarkReturns =
     (if strategyReturns = [] \<or> benchmarkReturns = [] then Inr 0
      else if length strategyReturns \<noteq> length benchmarkReturns then Inl SeriesLength
      else let covariance = calculateCovariance strategyReturns benchmarkReturns;
               benchmarkVariance = calculateVariance benchmarkReturns
           in Inr (if benchmarkVariance = 0 then 0 else covariance / benchmarkVariance))"

definition calculateAlpha :: "number \<Rightarrow> number \<Rightarrow> number \<Rightarrow> number \<Rightarrow> number" where
  "calculateAlpha strategyReturn benchmarkReturn beta riskFreeRate =
     strategyReturn - (riskFreeRate + beta * (benchmarkReturn - riskFreeRate))"

datatype CorrelationStrength = NoCorrelation | WeakCorrelation | ModerateCorrelation | StrongCorrelation | VeryStrongCorrelation

datatype CorrelationDirection = PositiveCorrelation | NegativeCorrelation | NeutralCorrelation

definition interpretCorrelation :: "number \<Rightarrow> CorrelationStrength \<times> CorrelationDirection" where
  "interpretCorrelation correlation =
     (let absCorr = \<bar>correlation\<bar>
      in (if absCorr < 2 / 10 then NoCorrelation else if absCorr < 4 / 10 then WeakCorrelation
          else if absCorr < 7 / 10 then ModerateCorrelation else if absCorr < 9 / 10 then StrongCorrelation
          else VeryStrongCorrelation,
          if correlation > 5 / 100 then PositiveCorrelation
          else if correlation < - (5 / 100) then NegativeCorrelation else NeutralCorrelation))"

definition findHighlyCorrelatedPairs ::
    "number list list \<Rightarrow> string list \<Rightarrow> number \<Rightarrow> (string \<times> string \<times> number) list" where
  "findHighlyCorrelatedPairs matrix labels threshold =
     sort_key (\<lambda>(_, _, corr). - \<bar>corr\<bar>)
       [(labels ! i, labels ! j, matrix ! i ! j).
          i \<leftarrow> [0..<length matrix], j \<leftarrow> [i + 1..<length matrix], \<bar>matrix ! i ! j\<bar> \<ge> threshold]"

section \<open>The metrics of a backtest\<close>

datatype TimeframeType = HOURLY | DAILY | WEEKLY | MONTHLY

record MetricsConfig =
  mc_timeframe :: TimeframeType
  mc_riskFreeRate :: "number option"
  mc_useCryptoCalendar :: "bool option"

datatype TradeKind = BUY_KIND | SELL_KIND

record TradeMetrics =
  tm_realizedPnL :: number
  tm_type :: TradeKind
  tm_short :: bool
  tm_leverage :: "number option"
  tm_liquidated :: bool

record MetricsResult =
  mr_sharpeRatio :: number
  mr_sortinoRatio :: number
  mr_maxDrawdown :: number
  mr_winRate :: number
  mr_profitFactor :: js_number
  mr_volatility :: number
  mr_downsideDeviation :: number
  mr_totalReturn :: number
  mr_annualizedReturn :: js_number
  mr_totalTrades :: nat
  mr_winningTrades :: nat
  mr_losingTrades :: nat
  mr_finalValue :: number
  mr_shortTradeCount :: "nat option"
  mr_shortWinRate :: "number option"
  mr_longTradeCount :: "nat option"
  mr_longWinRate :: "number option"
  mr_avgLeverage :: "number option"
  mr_totalLiquidations :: "nat option"

definition DEFAULT_METRICS_CONFIG :: MetricsConfig where
  "DEFAULT_METRICS_CONFIG =
     \<lparr>mc_timeframe = DAILY, mc_riskFreeRate = Some (2 / 100), mc_useCryptoCalendar = Some True\<rparr>"

fun getPeriodsPerYear :: "TimeframeType \<Rightarrow> bool option \<Rightarrow> number" where
  "getPeriodsPerYear HOURLY crypto = (if nullish crypto True then 8760 else 6552)"
| "getPeriodsPerYear DAILY crypto = (if nullish crypto True then 365 else 252)"
| "getPeriodsPerYear WEEKLY crypto = 52"
| "getPeriodsPerYear MONTHLY crypto = 12"

definition configPeriods :: "MetricsConfig \<Rightarrow> number" where
  "configPeriods config = getPeriodsPerYear (mc_timeframe config) (mc_useCryptoCalendar config)"

definition configRiskFreeRate :: "MetricsConfig \<Rightarrow> number" where
  "configRiskFreeRate config = nullish (mc_riskFreeRate config) (nullish (mc_riskFreeRate DEFAULT_METRICS_CONFIG) (2 / 100))"

definition calculateSharpeRatio :: "number list \<Rightarrow> MetricsConfig \<Rightarrow> number" where
  "calculateSharpeRatio returns config =
     (if returns = [] then 0 else Sharpe_calculate returns (configRiskFreeRate config) (configPeriods config))"

definition calculateSortinoRatio :: "number list \<Rightarrow> MetricsConfig \<Rightarrow> number" where
  "calculateSortinoRatio returns config =
     (if returns = [] then 0 else Sharpe_calculateSortino returns (configRiskFreeRate config) (configPeriods config))"

definition Metrics_calculateMaxDrawdown :: "number list \<Rightarrow> number" where
  "Metrics_calculateMaxDrawdown portfolioValues =
     (if portfolioValues = [] then 0
      else dr_maxDrawdownPercentage (Drawdown_calculateMaxDrawdown portfolioValues) / 100)"

definition sells :: "TradeMetrics list \<Rightarrow> TradeMetrics list" where
  "sells trades = filter (\<lambda>t. tm_type t = SELL_KIND) trades"

definition winRateOf :: "TradeMetrics list \<Rightarrow> number" where
  "winRateOf trades =
     (if trades = [] then 0
      else of_nat (length (filter (\<lambda>t. tm_realizedPnL t > 0) trades)) / of_nat (length trades))"

definition calculateWinRate :: "TradeMetrics list \<Rightarrow> number" where
  "calculateWinRate trades = winRateOf (sells trades)"

definition Metrics_calculateProfitFactor :: "TradeMetrics list \<Rightarrow> js_number" where
  "Metrics_calculateProfitFactor trades =
     (let sellTrades = sells trades;
          grossProfit = reduceSum (map tm_realizedPnL (filter (\<lambda>t. tm_realizedPnL t > 0) sellTrades));
          grossLoss = \<bar>reduceSum (map tm_realizedPnL (filter (\<lambda>t. tm_realizedPnL t < 0) sellTrades))\<bar>
      in if grossLoss = 0 then (if grossProfit > 0 then PlusInfinity else Finite 1)
         else Finite (grossProfit / grossLoss))"

definition Metrics_calculateVolatility :: "number list \<Rightarrow> MetricsConfig \<Rightarrow> number" where
  "Metrics_calculateVolatility returns config =
     (if returns = [] then 0
      else let meanReturn = reduceSum returns / of_nat (length returns);
               variance = reduceSum (map (\<lambda>r. (r - meanReturn) ^ 2) returns) / of_nat (length returns)
           in sqrt variance * sqrt (configPeriods config))"

definition Metrics_calculateDownsideDeviation :: "number list \<Rightarrow> MetricsConfig \<Rightarrow> number" where
  "Metrics_calculateDownsideDeviation returns config =
     (if returns = [] then 0
      else let periodRiskFreeRate = configRiskFreeRate config / configPeriods config;
               downsideReturns = filter (\<lambda>r. r < periodRiskFreeRate) returns
           in if downsideReturns = [] then 0
              else sqrt (reduceSum (map (\<lambda>r. (r - periodRiskFreeRate) ^ 2) downsideReturns) / of_nat (length returns)) *
                sqrt (configPeriods config))"

definition calculateReturns :: "number list \<Rightarrow> number list" where
  "calculateReturns portfolioValues =
     (if length portfolioValues < 2 then []
      else map (\<lambda>(previous, current). if previous = 0 then 0 else (current - previous) / previous)
             (zip portfolioValues (tl portfolioValues)))"

definition getEmptyMetrics :: "number \<Rightarrow> MetricsResult" where
  "getEmptyMetrics initialCapital =
     \<lparr>mr_sharpeRatio = 0, mr_sortinoRatio = 0, mr_maxDrawdown = 0, mr_winRate = 0, mr_profitFactor = Finite 1,
      mr_volatility = 0, mr_downsideDeviation = 0, mr_totalReturn = 0, mr_annualizedReturn = Finite 0,
      mr_totalTrades = 0, mr_winningTrades = 0, mr_losingTrades = 0, mr_finalValue = initialCapital,
      mr_shortTradeCount = None, mr_shortWinRate = None, mr_longTradeCount = None, mr_longWinRate = None,
      mr_avgLeverage = None, mr_totalLiquidations = None\<rparr>"

definition leveraged :: "TradeMetrics \<Rightarrow> bool" where
  "leveraged t \<longleftrightarrow> truthy (tm_leverage t) \<and> the (tm_leverage t) > 1"

definition sideMetrics :: "TradeMetrics list \<Rightarrow> MetricsResult \<Rightarrow> MetricsResult" where
  "sideMetrics trades result =
     (let shortSells = filter tm_short (sells trades); longSells = filter (\<lambda>t. \<not> tm_short t) (sells trades);
          leveragedTrades = filter leveraged trades
      in result\<lparr>mr_shortTradeCount := Some (length shortSells), mr_shortWinRate := Some (winRateOf shortSells),
           mr_longTradeCount := Some (length longSells), mr_longWinRate := Some (winRateOf longSells),
           mr_avgLeverage :=
             (if leveragedTrades \<noteq> []
              then Some (reduceSum (map (\<lambda>t. nullish (tm_leverage t) 1) leveragedTrades) / of_nat (length leveragedTrades))
              else None),
           mr_totalLiquidations := Some (length (filter tm_liquidated trades))\<rparr>)"

definition calculateMetrics :: "number list \<Rightarrow> number \<Rightarrow> TradeMetrics list \<Rightarrow> MetricsConfig \<Rightarrow> MetricsResult" where
  "calculateMetrics portfolioValues initialCapital trades config =
     (if portfolioValues = [] then getEmptyMetrics initialCapital
      else let returns = calculateReturns portfolioValues;
               finalValue = last portfolioValues;
               totalReturn = (finalValue - initialCapital) / initialCapital;
               durationPeriods = length portfolioValues - 1;
               result = (getEmptyMetrics initialCapital)
                 \<lparr>mr_sharpeRatio := calculateSharpeRatio returns config,
                  mr_sortinoRatio := calculateSortinoRatio returns config,
                  mr_maxDrawdown := Metrics_calculateMaxDrawdown portfolioValues,
                  mr_winRate := calculateWinRate trades,
                  mr_profitFactor := Metrics_calculateProfitFactor trades,
                  mr_volatility := Metrics_calculateVolatility returns config,
                  mr_downsideDeviation := Metrics_calculateDownsideDeviation returns config,
                  mr_totalReturn := totalReturn,
                  mr_annualizedReturn :=
                    (if durationPeriods > 0
                     then js_decrement (js_pow (1 + totalReturn) (configPeriods config / of_nat durationPeriods))
                     else Finite totalReturn),
                  mr_totalTrades := length trades,
                  mr_winningTrades := length (filter (\<lambda>t. tm_realizedPnL t > 0) (sells trades)),
                  mr_losingTrades := length (filter (\<lambda>t. tm_realizedPnL t \<le> 0) (sells trades)),
                  mr_finalValue := finalValue\<rparr>
           in if list_ex (\<lambda>t. tm_short t \<or> leveraged t) trades then sideMetrics trades result else result)"

section \<open>Lemmas\<close>

lemma foldl_add: "foldl (+) a xs = a + sum_list xs" for a :: number
  by (induction xs arbitrary: a) simp_all

lemma reduceSum_sum [simp]: "reduceSum xs = sum_list xs"
  by (simp add: reduceSum_def foldl_add)

lemma pearson_fold:
  "foldl (\<lambda>(n, s1, s2) (r1, r2). (n + (r1 - a) * (r2 - b), s1 + (r1 - a) * (r1 - a), s2 + (r2 - b) * (r2 - b))) (n, s, t) rs =
    (n + (\<Sum>(x, y)\<leftarrow>rs. (x - a) * (y - b)), s + (\<Sum>(x, y)\<leftarrow>rs. (x - a) ^ 2), t + (\<Sum>(x, y)\<leftarrow>rs. (y - b) ^ 2))"
  for a b n s t :: number
  by (induction rs arbitrary: n s t) (auto simp: Let_def power2_eq_square)

text \<open>The Cauchy-Schwarz inequality for lists of pairs.\<close>

lemma sum_pairs_square:
  fixes rs :: "(number \<times> number) list"
  shows "(\<Sum>(x, y)\<leftarrow>rs. (b * x - c * y) ^ 2) =
    b ^ 2 * (\<Sum>(x, y)\<leftarrow>rs. x ^ 2) - 2 * b * c * (\<Sum>(x, y)\<leftarrow>rs. x * y) + c ^ 2 * (\<Sum>(x, y)\<leftarrow>rs. y ^ 2)"
  by (induction rs) (auto simp: power2_eq_square algebra_simps)

lemma sum_squares_nonneg: "0 \<le> (\<Sum>(x, y)\<leftarrow>rs. (f x y :: number) ^ 2)"
  by (induction rs) auto

lemma sum_squares_zero:
  "(\<Sum>(x, y)\<leftarrow>rs. y ^ 2) = 0 \<Longrightarrow> (\<Sum>(x, y)\<leftarrow>rs. x * y) = (0 :: number)" for rs :: "(number \<times> number) list"
proof (induction rs)
  case (Cons r rs)
  obtain x y where "r = (x, y)" by force
  then show ?case
    using Cons sum_squares_nonneg [of "\<lambda>x y. y" rs] by (simp add: add_nonneg_eq_0_iff)
qed simp

lemma cauchy_schwarz:
  fixes rs :: "(number \<times> number) list"
  shows "(\<Sum>(x, y)\<leftarrow>rs. x * y) ^ 2 \<le> (\<Sum>(x, y)\<leftarrow>rs. x ^ 2) * (\<Sum>(x, y)\<leftarrow>rs. y ^ 2)"
proof -
  define A B C where "A = (\<Sum>(x, y)\<leftarrow>rs. x ^ 2)" and "B = (\<Sum>(x, y)\<leftarrow>rs. y ^ 2)" and "C = (\<Sum>(x, y)\<leftarrow>rs. x * y)"
  have "0 \<le> (\<Sum>(x, y)\<leftarrow>rs. (B * x - C * y) ^ 2)" by (rule sum_squares_nonneg)
  then have "0 \<le> B * (A * B - C ^ 2)"
    unfolding sum_pairs_square A_def [symmetric] B_def [symmetric] C_def [symmetric]
    by (simp add: power2_eq_square algebra_simps)
  moreover have "0 \<le> B" unfolding B_def by (rule sum_squares_nonneg)
  moreover have "B = 0 \<Longrightarrow> C = 0" unfolding B_def C_def by (rule sum_squares_zero)
  ultimately have "C ^ 2 \<le> A * B"
    by (cases "B = 0") (auto simp: zero_le_mult_iff)
  then show ?thesis by (simp add: A_def B_def C_def)
qed

lemma cauchy_schwarz_ratio:
  fixes rs :: "(number \<times> number) list"
  defines "d \<equiv> sqrt ((\<Sum>(x, y)\<leftarrow>rs. x ^ 2) * (\<Sum>(x, y)\<leftarrow>rs. y ^ 2))"
  shows "\<bar>if d = 0 then 0 else (\<Sum>(x, y)\<leftarrow>rs. x * y) / d\<bar> \<le> 1"
proof -
  have "\<bar>\<Sum>(x, y)\<leftarrow>rs. x * y\<bar> \<le> d"
    unfolding d_def by (rule real_le_rsqrt) (simp add: cauchy_schwarz)
  then show ?thesis by (auto simp: abs_divide divide_le_eq_1)
qed

text \<open>The pairs of deviations from the means.\<close>

definition deviations :: "number list \<Rightarrow> number list \<Rightarrow> (number \<times> number) list" where
  "deviations xs ys = map (\<lambda>(x, y). (x - calculateMean xs, y - calculateMean ys)) (zip xs ys)"

lemma pearson_deviations:
  assumes "xs \<noteq> []" "length xs = length ys"
  defines "d \<equiv> sqrt ((\<Sum>(x, y)\<leftarrow>deviations xs ys. x ^ 2) * (\<Sum>(x, y)\<leftarrow>deviations xs ys. y ^ 2))"
  shows "calculatePearsonCorrelation xs ys =
    Inr (if d = 0 then 0 else (\<Sum>(x, y)\<leftarrow>deviations xs ys. x * y) / d)"
proof -
  have "ys \<noteq> []" using assms(1,2) by auto
  have "(\<Sum>(x, y)\<leftarrow>deviations xs ys. x ^ 2) = (\<Sum>(x, y)\<leftarrow>zip xs ys. (x - calculateMean xs) ^ 2)"
    "(\<Sum>(x, y)\<leftarrow>deviations xs ys. y ^ 2) = (\<Sum>(x, y)\<leftarrow>zip xs ys. (y - calculateMean ys) ^ 2)"
    "(\<Sum>(x, y)\<leftarrow>deviations xs ys. x * y) = (\<Sum>(x, y)\<leftarrow>zip xs ys. (x - calculateMean xs) * (y - calculateMean ys))"
    by (simp_all add: deviations_def o_def case_prod_unfold)
  then show ?thesis
    using assms(1,2) \<open>ys \<noteq> []\<close> by (simp add: calculatePearsonCorrelation_def pearson_fold d_def Let_def)
qed

lemma deviations_swap: "deviations ys xs = map prod.swap (deviations xs ys)"
  unfolding deviations_def zip_commute [of ys xs] by (simp add: case_prod_unfold)

lemma pearson_self:
  assumes "xs \<noteq> []"
  shows "calculatePearsonCorrelation xs xs = Inr (if \<forall>x \<in> set xs. x = calculateMean xs then 0 else 1)"
proof -
  have dev: "deviations xs xs = map (\<lambda>x. (x - calculateMean xs, x - calculateMean xs)) xs"
    by (simp add: deviations_def zip_same_conv_map)
  define s where "s = (\<Sum>x\<leftarrow>xs. (x - calculateMean xs) ^ 2)"
  have "0 \<le> s" unfolding s_def by (intro sum_list_nonneg) auto
  have "calculatePearsonCorrelation xs xs = Inr (if s = 0 then 0 else 1)"
    using \<open>0 \<le> s\<close> unfolding pearson_deviations [OF assms refl] dev
    by (simp add: o_def s_def [symmetric] power2_eq_square [symmetric] real_sqrt_mult)
  moreover have "s = 0 \<longleftrightarrow> (\<forall>x \<in> set xs. x = calculateMean xs)"
    unfolding s_def by (subst sum_list_nonneg_eq_0_iff) auto
  ultimately show ?thesis by simp
qed

text \<open>The Pearson correlation is a correlation: for series of one length it is between -1 and 1
  and symmetric, and a series that is not constant correlates with itself by 1.\<close>

lemma correlation_bounded_symmetric:
  assumes "length xs = length ys"
  shows "\<exists>r. calculatePearsonCorrelation xs ys = Inr r \<and> - 1 \<le> r \<and> r \<le> 1 \<and>
    calculatePearsonCorrelation ys xs = Inr r \<and>
    (xs = ys \<longrightarrow> r = (if \<forall>x \<in> set xs. x = calculateMean xs then 0 else 1))"
proof (cases "xs = []")
  case True
  then show ?thesis using assms by (simp add: calculatePearsonCorrelation_def)
next
  case False
  then have "ys \<noteq> []" using assms by auto
  define d where "d = sqrt ((\<Sum>(x, y)\<leftarrow>deviations xs ys. x ^ 2) * (\<Sum>(x, y)\<leftarrow>deviations xs ys. y ^ 2))"
  define r where "r = (if d = 0 then 0 else (\<Sum>(x, y)\<leftarrow>deviations xs ys. x * y) / d)"
  have bounds: "- 1 \<le> r" "r \<le> 1"
    using cauchy_schwarz_ratio [of "deviations xs ys"] unfolding r_def d_def by (simp_all only: abs_le_iff) linarith+
  have swapped: "(\<Sum>(x, y)\<leftarrow>deviations ys xs. x ^ 2) = (\<Sum>(x, y)\<leftarrow>deviations xs ys. y ^ 2)"
    "(\<Sum>(x, y)\<leftarrow>deviations ys xs. y ^ 2) = (\<Sum>(x, y)\<leftarrow>deviations xs ys. x ^ 2)"
    "(\<Sum>(x, y)\<leftarrow>deviations ys xs. x * y) = (\<Sum>(x, y)\<leftarrow>deviations xs ys. x * y)"
    unfolding deviations_swap [of ys xs] by (simp_all add: o_def case_prod_unfold mult.commute)
  have sym: "calculatePearsonCorrelation xs ys = Inr r" "calculatePearsonCorrelation ys xs = Inr r"
    using pearson_deviations [OF False assms] pearson_deviations [OF \<open>ys \<noteq> []\<close> assms [symmetric]]
    by (simp_all only: r_def d_def swapped mult.commute [of "\<Sum>(x, y)\<leftarrow>deviations xs ys. y ^ 2"])
  have self: "r = (if \<forall>x \<in> set xs. x = calculateMean xs then 0 else 1)" if "xs = ys"
    using sym(1) pearson_self [OF False] that by simp
  show ?thesis using bounds sym self by blast
qed

section \<open>Drawdown scans\<close>

text \<open>All declines of a curve, from a point to the same or a later one.\<close>

definition curve_declines :: "number list \<Rightarrow> number set" where
  "curve_declines = later_pairs (\<lambda>x y. x - y)"

lemma finite_curve_declines: "finite (curve_declines xs)"
  unfolding curve_declines_def by (rule finite_later_pairs)

lemma curve_declines_snoc: "curve_declines (xs @ [x]) = curve_declines xs \<union> (\<lambda>y. y - x) ` set (xs @ [x])"
  unfolding curve_declines_def by (rule later_pairs_snoc)

lemma scanDrawdowns_snoc:
  "xs \<noteq> [] \<Longrightarrow> scanDrawdowns (xs @ [x]) = scanDrawdown (scanDrawdowns xs) (length xs, x)"
  by (cases xs) (simp_all add: scanDrawdowns_def enumerate_append_eq)

lemma scanDrawdown_fields:
  "ds_peak (scanDrawdown s (i, x)) = max (ds_peak s) x"
  "ds_maxDrawdown (scanDrawdown s (i, x)) = max (ds_maxDrawdown s) (max (ds_peak s) x - x)"
  "ds_currentDrawdown (scanDrawdown s (i, x)) = max (ds_peak s) x - x"
  by (simp_all add: scanDrawdown_def Let_def max_def)

lemma scan_maximal:
  assumes "xs \<noteq> []"
  shows "ds_peak (scanDrawdowns xs) = Max (set xs) \<and>
    ds_maxDrawdown (scanDrawdowns xs) = Max (curve_declines xs) \<and>
    ds_currentDrawdown (scanDrawdowns xs) = Max (set xs) - last xs"
  using assms
proof (induction xs rule: rev_nonempty_induct)
  case (single x)
  have "curve_declines [x] = {0}" by (auto simp: curve_declines_def later_pairs_def)
  then show ?case by (simp add: scanDrawdowns_def)
next
  case (snoc x xs)
  have nonempty: "curve_declines xs \<noteq> {}"
    using snoc(1) by (auto simp: curve_declines_def later_pairs_def intro!: exI [of _ 0])
  have shift: "Max ((\<lambda>y. y - x) ` set (xs @ [x])) = Max (set (xs @ [x])) - x"
    using Max_add_commute [of "set (xs @ [x])" "\<lambda>y. y" "- x"] by simp
  have "Max (curve_declines (xs @ [x])) = max (Max (curve_declines xs)) (max (Max (set xs)) x - x)"
    unfolding curve_declines_snoc
    using snoc(1) nonempty finite_curve_declines shift by (subst Max_Un) (simp_all add: max.commute)
  then show ?case
    using snoc by (simp add: scanDrawdowns_snoc scanDrawdown_fields max.commute)
qed

text \<open>C34. The maximal drawdown of a curve is its largest decline from a point to a later one, and the
  current drawdown the decline from its maximum to its end, which is zero exactly when the curve
  is reported as recovered.\<close>

theorem max_drawdown_is_largest_decline:
  assumes "values \<noteq> []"
  defines "result \<equiv> Drawdown_calculateMaxDrawdown values"
  shows "dr_maxDrawdown result = Max (curve_declines values) \<and>
    dr_currentDrawdown result = Max (set values) - last values \<and> 0 \<le> dr_currentDrawdown result \<and>
    dr_currentDrawdown result \<le> dr_maxDrawdown result \<and>
    (dr_recoveryDate result \<noteq> None \<longleftrightarrow> dr_currentDrawdown result = 0)"
proof -
  define top where "top = Max (set values)"
  note scan = scan_maximal [OF assms(1), folded top_def]
  have top: "last values \<le> top" using assms(1) by (simp add: top_def)
  obtain i where i: "i < length values" "values ! i = top"
    using Max_in [of "set values"] assms(1) by (auto simp: in_set_conv_nth top_def)
  have "values ! i - values ! (length values - 1) \<in> curve_declines values"
    using i(1) unfolding curve_declines_def later_pairs_def
    by (intro CollectI exI [of _ i] exI [of _ "length values - 1"]) auto
  then have "top - last values \<le> Max (curve_declines values)"
    using finite_curve_declines i(2) assms(1) by (simp add: last_conv_nth)
  then show ?thesis
    using assms(1) scan top unfolding result_def top_def [symmetric]
    by (simp add: Drawdown_calculateMaxDrawdown_def Let_def)
qed

theorem max_drawdown_is_largest_decline_witness:
  "dr_maxDrawdown (Drawdown_calculateMaxDrawdown [100, 120, 90, 110]) = Max (curve_declines [100, 120, 90, 110])"
  using max_drawdown_is_largest_decline [of "[100, 120, 90, 110]"] by simp

text \<open>The reported percentage is that of the largest decline in money, not the largest
  percentage: on a curve that loses a larger part early and a larger amount later, the maximal
  drawdown of the backtest metrics is the smaller part. The reported duration can be negative.\<close>

lemma max_drawdown_percentage_understated:
  fixes p d q e :: number
  assumes "0 < d" "d < p" "p < q" "d < e" "e < q" "e / q < d / p"
  shows "Metrics_calculateMaxDrawdown [p, p - d, q, q - e] = e / q \<and>
    Metrics_calculateMaxDrawdown [p, p - d, q, q - e] < d / p \<and>
    dr_drawdownDuration (Drawdown_calculateMaxDrawdown [p, p - d, q]) = - 1"
  using assms by (simp add: Metrics_calculateMaxDrawdown_def Drawdown_calculateMaxDrawdown_def scanDrawdowns_def
      scanDrawdown_def Let_def)

section \<open>Ranks\<close>

lemma rank_loop:
  "k \<le> length xs \<Longrightarrow>
    foldl (\<lambda>ranks (i, (val, idx)). ranks[idx := of_nat (i + 1)]) (replicate (length xs) 0)
      (take k (enumerate 0 (zip xs [0..<length xs]))) =
    map (\<lambda>i. of_nat (i + 1)) [0..<k] @ replicate (length xs - k) (0 :: number)"
proof (induction k)
  case (Suc k)
  then have "take (Suc k) (enumerate 0 (zip xs [0..<length xs])) =
      take k (enumerate 0 (zip xs [0..<length xs])) @ [(k, (xs ! k, k))]"
    by (simp add: take_Suc_conv_app_nth nth_enumerate_eq)
  moreover have "replicate (length xs - k) (0 :: number) = 0 # replicate (length xs - Suc k) 0"
    using Suc.prems by (simp add: Suc_diff_Suc flip: replicate_Suc)
  ultimately show ?case
    using Suc by (simp add: list_update_append)
qed simp

lemma convertToRanks_sorted:
  assumes "sorted xs"
  shows "convertToRanks xs = map (\<lambda>i. of_nat (i + 1)) [0..<length xs]"
proof -
  have "map fst (zip xs [0..<length xs]) = xs" by simp
  then have "sort_key fst (zip xs [0..<length xs]) = zip xs [0..<length xs]"
    using assms by (intro sort_key_id_if_sorted) simp
  then show ?thesis
    using rank_loop [of "length xs" xs] by (simp add: convertToRanks_def)
qed

text \<open>Equal values get distinct ranks in the order of the series, so the rank correlation sees a
  trend where there is none: a constant series correlates by 1 with every series that does not
  fall, although their Pearson correlation is 0.\<close>

lemma spearman_of_constant_series:
  assumes "sorted ys" "length ys = n" "2 \<le> n"
  shows "calculateSpearmanCorrelation (replicate n c) ys = Inr 1 \<and>
    calculatePearsonCorrelation (replicate n c) ys = Inr 0"
proof -
  let ?ranks = "map (\<lambda>i. of_nat (i + 1)) [0..<n] :: number list"
  have ranks: "convertToRanks (replicate n c) = ?ranks" "convertToRanks ys = ?ranks"
    using convertToRanks_sorted [of "replicate n c"] convertToRanks_sorted [OF assms(1)] assms(2) by simp_all
  have "\<not> (\<forall>x \<in> set ?ranks. x = calculateMean ?ranks)"
  proof
    assume eq: "\<forall>x \<in> set ?ranks. x = calculateMean ?ranks"
    have "of_nat (0 + 1) \<in> set ?ranks" "of_nat (1 + 1) \<in> set ?ranks" using assms(3) by force+
    then have "(1 :: number) = 2" using eq by (metis add_0 of_nat_1 of_nat_numeral one_add_one)
    then show False by simp
  qed
  then have "calculatePearsonCorrelation ?ranks ?ranks = Inr 1"
    using pearson_self [of ?ranks] assms(3) by (simp split: if_splits)
  moreover have "replicate n c \<noteq> []" "ys \<noteq> []" using assms(2,3) by auto
  moreover have "calculateMean (replicate n c) = c"
    using assms(3) by (simp add: calculateMean_def sum_list_replicate)
  then have "(\<Sum>(x, y)\<leftarrow>deviations (replicate n c) ys. x ^ 2) = 0"
    by (simp add: deviations_def zip_replicate1 o_def case_prod_unfold)
  ultimately show ?thesis
    using assms(2) pearson_deviations [of "replicate n c" ys] by (simp add: calculateSpearmanCorrelation_def ranks)
qed

section \<open>Percentiles and ratios\<close>

lemma sorted_ends:
  fixes xs :: "number list"
  assumes "xs \<noteq> []"
  shows "sort xs ! 0 = Min (set xs)" "sort xs ! (length xs - 1) = Max (set xs)"
proof -
  have "sort xs ! 0 \<in> set xs" "sort xs ! (length xs - 1) \<in> set xs"
    using assms by (metis length_greater_0_conv length_sort nth_mem set_sort diff_less zero_less_one)+
  moreover have "sort xs ! 0 \<le> x \<and> x \<le> sort xs ! (length xs - 1)" if x: "x \<in> set xs" for x
  proof -
    obtain i where "i < length xs" "x = sort xs ! i" using x by (metis in_set_conv_nth length_sort set_sort)
    then show ?thesis by (auto intro!: sorted_nth_mono)
  qed
  ultimately show "sort xs ! 0 = Min (set xs)" "sort xs ! (length xs - 1) = Max (set xs)"
    by (auto intro!: Min_eqI [symmetric] Max_eqI [symmetric])
qed

text \<open>The value between two ranks of a sorted list.\<close>

definition betweenRanks :: "number list \<Rightarrow> number \<Rightarrow> number" where
  "betweenRanks s t = (if nat \<lfloor>t\<rfloor> = nat \<lceil>t\<rceil> then s ! nat \<lfloor>t\<rfloor>
     else s ! nat \<lfloor>t\<rfloor> * (1 - (t - of_nat (nat \<lfloor>t\<rfloor>))) + s ! nat \<lceil>t\<rceil> * (t - of_nat (nat \<lfloor>t\<rfloor>)))"

lemma betweenRanks_bounds:
  assumes "sorted s" "0 \<le> t" "t \<le> of_nat (length s - 1)" "s \<noteq> []"
  shows "s ! nat \<lfloor>t\<rfloor> \<le> betweenRanks s t" "betweenRanks s t \<le> s ! nat \<lceil>t\<rceil>" "nat \<lceil>t\<rceil> < length s"
proof -
  have upper: "nat \<lceil>t\<rceil> < length s" using assms(2-4) by (cases s) (auto simp: nat_less_iff ceiling_le_iff less_Suc_eq_le nat_le_iff)
  show "nat \<lceil>t\<rceil> < length s" by (rule upper)
  define w where "w = t - of_nat (nat \<lfloor>t\<rfloor>)"
  have w: "0 \<le> w" "w \<le> 1" using assms(2) unfolding w_def by (simp_all add: floor_correct) linarith
  have le: "s ! nat \<lfloor>t\<rfloor> \<le> s ! nat \<lceil>t\<rceil>"
    using assms(1) upper by (intro sorted_nth_mono) (auto simp: nat_mono floor_le_ceiling)
  define a b where "a = s ! nat \<lfloor>t\<rfloor>" and "b = s ! nat \<lceil>t\<rceil>"
  have "a * (1 - w) + b * w = a + (b - a) * w" "a * (1 - w) + b * w = b - (b - a) * (1 - w)"
    by (simp_all add: algebra_simps)
  moreover have "0 \<le> (b - a) * w" "0 \<le> (b - a) * (1 - w)" using w le by (simp_all add: a_def b_def)
  ultimately show "s ! nat \<lfloor>t\<rfloor> \<le> betweenRanks s t" "betweenRanks s t \<le> s ! nat \<lceil>t\<rceil>"
    using le by (auto simp: betweenRanks_def w_def [symmetric] a_def [symmetric] b_def [symmetric])
qed

lemma betweenRanks_mono:
  assumes "sorted s" "0 \<le> t" "t \<le> u" "u \<le> of_nat (length s - 1)" "s \<noteq> []"
  shows "betweenRanks s t \<le> betweenRanks s u"
proof -
  have limits: "0 \<le> u" "t \<le> of_nat (length s - 1)" using assms by linarith+
  note t = betweenRanks_bounds [OF assms(1,2) limits(2) assms(5)]
  note u = betweenRanks_bounds [OF assms(1) limits(1) assms(4,5)]
  show ?thesis
proof (cases "\<lfloor>t\<rfloor> = \<lfloor>u\<rfloor>")
  case False
  then have "\<lceil>t\<rceil> \<le> \<lfloor>u\<rfloor>" using floor_mono [OF assms(3)] by linarith
  moreover have "nat \<lfloor>u\<rfloor> < length s"
    using u(3) floor_le_ceiling [of u] nat_mono [of "\<lfloor>u\<rfloor>" "\<lceil>u\<rceil>"] by linarith
  ultimately have "s ! nat \<lceil>t\<rceil> \<le> s ! nat \<lfloor>u\<rfloor>"
    using assms(1) nat_mono [of "\<lceil>t\<rceil>" "\<lfloor>u\<rfloor>"] by (intro sorted_nth_mono)
  then show ?thesis using t(2) u(1) by linarith
next
  case True
  show ?thesis
  proof (cases "t = of_int \<lfloor>t\<rfloor>")
    case integer: True
    have "betweenRanks s t = s ! nat \<lfloor>u\<rfloor>"
      using integer True by (simp add: betweenRanks_def ceiling_altdef)
    then show ?thesis using u(1) by linarith
  next
    case fraction: False
    have "of_int \<lfloor>t\<rfloor> < t" using fraction of_int_floor_le [of t] by linarith
    then have "\<lceil>t\<rceil> = \<lfloor>t\<rfloor> + 1" "\<lceil>u\<rceil> = \<lfloor>t\<rfloor> + 1"
      using assms(3) True by (simp_all add: ceiling_altdef) linarith?
    define k where "k = nat \<lfloor>t\<rfloor>"
    have k: "nat \<lceil>t\<rceil> = Suc k" "nat \<lceil>u\<rceil> = Suc k" "nat \<lfloor>u\<rfloor> = k" "nat \<lfloor>t\<rfloor> = k"
      using \<open>\<lceil>t\<rceil> = \<lfloor>t\<rfloor> + 1\<close> \<open>\<lceil>u\<rceil> = \<lfloor>t\<rfloor> + 1\<close> limits(1) True by (simp_all add: k_def Suc_nat_eq_nat_zadd1 add.commute)
    have "s ! k \<le> s ! Suc k"
      using assms(1) u(3) k by (intro sorted_nth_mono) simp_all
    then have "(s ! Suc k - s ! k) * (t - of_nat k) \<le> (s ! Suc k - s ! k) * (u - of_nat k)"
      using assms(3) by (intro mult_left_mono) simp_all
    then show ?thesis by (simp add: betweenRanks_def k algebra_simps)
  qed
qed
qed

lemma calculatePercentile_between:
  "values \<noteq> [] \<Longrightarrow> 0 \<le> p \<Longrightarrow> p \<le> 100 \<Longrightarrow>
    calculatePercentile values p = Inr (betweenRanks (sort values) (p / 100 * of_nat (length values - 1)))"
  by (simp add: calculatePercentile_def betweenRanks_def Let_def)

text \<open>Percentiles stay within the values and do not fall with the percentage; the ends are the
  least and the greatest value, and a percentage outside [0, 100] is refused.\<close>

lemma percentile_within_values:
  assumes "values \<noteq> []" "0 \<le> p" "p \<le> q" "q \<le> 100" "r < 0 \<or> 100 < r"
  shows "\<exists>a b. calculatePercentile values p = Inr a \<and> calculatePercentile values q = Inr b \<and>
    Min (set values) \<le> a \<and> a \<le> b \<and> b \<le> Max (set values) \<and>
    calculatePercentile values 0 = Inr (Min (set values)) \<and>
    calculatePercentile values 100 = Inr (Max (set values)) \<and>
    calculatePercentile values r = Inl PercentileRange"
proof -
  let ?s = "sort values" and ?at = "\<lambda>p. p / 100 * of_nat (length values - 1)"
  have range: "0 \<le> ?at x" "?at x \<le> of_nat (length ?s - 1)" if "0 \<le> x" "x \<le> 100" for x :: number
    using that mult_right_mono [of x 100 "of_nat (length values - 1)"] by simp_all
  have ends: "?s ! 0 = Min (set values)" "?s ! (length values - 1) = Max (set values)"
    using sorted_ends assms(1) by auto
  have sorted: "sorted ?s" "?s \<noteq> []" using assms(1) by (simp_all add: flip: length_greater_0_conv)
  have least: "betweenRanks ?s 0 = Min (set values)" and greatest: "betweenRanks ?s (of_nat (length ?s - 1)) = Max (set values)"
    using ends by (simp_all add: betweenRanks_def)
  have p: "0 \<le> p" "p \<le> 100" and q: "0 \<le> q" "q \<le> 100" using assms(2-4) by linarith+
  have "Min (set values) \<le> betweenRanks ?s (?at p)"
    unfolding least [symmetric] using range [OF p] sorted by (intro betweenRanks_mono) simp_all
  moreover have "betweenRanks ?s (?at q) \<le> Max (set values)"
    unfolding greatest [symmetric] using range [OF q] sorted by (intro betweenRanks_mono) simp_all
  moreover have "betweenRanks ?s (?at p) \<le> betweenRanks ?s (?at q)"
    using range [OF p] range [OF q] sorted assms(3) by (intro betweenRanks_mono mult_right_mono) simp_all
  moreover have "betweenRanks ?s (?at 0) = Min (set values)" "betweenRanks ?s (?at 100) = Max (set values)"
    using least greatest by simp_all
  moreover have "calculatePercentile values r = Inl PercentileRange"
    using assms(1,5) by (auto simp: calculatePercentile_def)
  ultimately show ?thesis
    using assms(1-4) by (simp add: calculatePercentile_between)
qed

end
