(* ===== verification/ExitProcessing.thy ===== *)
theory ExitProcessing
  imports OpportunitySell ExitTracker PriceWindow
begin

text \<open>
  The per-bar use of the exit tracker (\<^verbatim>\<open>order/backtest/shared/exit-signals\<close>), the volume and spread
  context of a candle (\<^verbatim>\<open>shared/slippage-context\<close>) and the translation of the signals of a strategy
  (\<^verbatim>\<open>shared/execution/backtest-loop-runner.types.ts\<close>). A trade carries its time and its coin. The
  trade executor and the builders of the slippage context are callbacks, as in the source.
\<close>

section \<open>Candles as slippage context\<close>

type_synonym CandleMap = "(string, OHLCCandle) jsmap"

definition candleMap :: "CandleMap \<Rightarrow> OHLCCandle list \<Rightarrow> CandleMap" where
  "candleMap m candles = foldl (\<lambda>m c. map_set (cd_coinId c) c m) m candles"

definition extractDailyVolume :: "CandleMap \<Rightarrow> string \<Rightarrow> number option" where
  "extractDailyVolume priceMap coinId =
     (case map_get priceMap coinId of
        None \<Rightarrow> None
      | Some candle \<Rightarrow>
          (case cd_quoteVolume candle of
             Some v \<Rightarrow> Some v
           | None \<Rightarrow> if truthy (cd_volume candle) then Some (the (cd_volume candle) * cd_close candle) else None))"

definition buildSpreadContext :: "CandleMap \<Rightarrow> string \<Rightarrow> CandleMap \<Rightarrow> SpreadEstimationContext option" where
  "buildSpreadContext priceMap coinId prevCandleMap =
     (case map_get priceMap coinId of
        None \<Rightarrow> None
      | Some candle \<Rightarrow>
          if cd_high candle \<le> 0 \<or> cd_low candle \<le> 0 \<or> cd_close candle \<le> 0 \<or> cd_high candle \<le> cd_low candle then None
          else let prev = map_get prevCandleMap coinId
               in Some \<lparr>se_high = cd_high candle, se_low = cd_low candle, se_close = cd_close candle,
                    se_volume = cd_volume candle, se_prevHigh = map_option cd_high prev,
                    se_prevLow = map_option cd_low prev\<rparr>)"

definition updatePrevCandleMap :: "CandleMap \<Rightarrow> OHLCCandle list \<Rightarrow> CandleMap" where
  "updatePrevCandleMap prevCandleMap currentPrices = candleMap prevCandleMap currentPrices"

text \<open>The limits of participation per risk level; a level between the rows has none.\<close>

definition getParticipationDefaults :: "number option \<Rightarrow> (number \<times> number) option" where
  "getParticipationDefaults riskLevel =
     (let defaults = [(2 / 100, 25 / 100), (3 / 100, 30 / 100), (5 / 100, 50 / 100), (8 / 100, 60 / 100), (10 / 100, 75 / 100)];
          index = max 0 (min 4 (nullish riskLevel DEFAULT_RISK_LEVEL - 1))
      in if of_int \<lfloor>index\<rfloor> = index then Some (defaults ! nat \<lfloor>index\<rfloor>) else None)"

section \<open>Signals of a strategy\<close>

record StrategySignal = AlgorithmTradingSignal +
  as_strength :: number
  as_metadata :: "(string, js_value) jsmap option"

fun strategyAction :: "SignalType \<Rightarrow> TradeAction" where
  "strategyAction BUY = BUY_ACTION"
| "strategyAction SELL = SELL_ACTION"
| "strategyAction STOP_LOSS = SELL_ACTION"
| "strategyAction TAKE_PROFIT = SELL_ACTION"
| "strategyAction SHORT_ENTRY = OPEN_SHORT"
| "strategyAction SHORT_EXIT = CLOSE_SHORT"
| "strategyAction HOLD = HOLD_ACTION"

definition mapStrategySignal :: "StrategySignal \<Rightarrow> PartialExitConfig option \<Rightarrow> TradingSignal" where
  "mapStrategySignal signal resultExitConfig =
     \<lparr>sg_action = strategyAction (as_type signal), sg_coinId = as_coinId signal, sg_quantity = as_quantity signal,
      sg_percentage = Some (as_strength signal), sg_reason = as_reason signal, sg_confidence = Some (as_confidence signal),
      sg_metadata = as_metadata signal, sg_originalType = Some (as_type signal),
      sg_exitConfig = orElse (as_exitConfig signal) resultExitConfig\<rparr>"

datatype SignalClass = ENTRY | EXIT | ADJUSTMENT | RISK_CONTROL

datatype SignalDirection = LONG_DIRECTION | SHORT_DIRECTION | FLAT_DIRECTION

definition classifySignalType :: "TradingSignal \<Rightarrow> SignalClass" where
  "classifySignalType signal =
     (if sg_originalType signal = Some STOP_LOSS \<or> sg_originalType signal = Some TAKE_PROFIT then RISK_CONTROL
      else case sg_action signal of
             BUY_ACTION \<Rightarrow> ENTRY | OPEN_SHORT \<Rightarrow> ENTRY | SELL_ACTION \<Rightarrow> EXIT | CLOSE_SHORT \<Rightarrow> EXIT
           | HOLD_ACTION \<Rightarrow> ADJUSTMENT)"

record BacktestSignal =
  bs_timestamp :: time_ms
  bs_signalType :: SignalClass
  bs_instrument :: string
  bs_direction :: SignalDirection
  bs_quantity :: number
  bs_price :: "number option"
  bs_reason :: string
  bs_confidence :: "number option"
  bs_payload :: "(string, js_value) jsmap"
  bs_strategyExitConfig :: "PartialExitConfig option"

section \<open>Exits\<close>

record ResolveExitTrackerOptions =
  rx_exitConfig :: "PartialExitConfig option"
  rx_enableHardStopLoss :: "bool option"
  rx_hardStopLossPercent :: "number option"
  rx_resumeExitTrackerState :: "SerializableExitTrackerState option"

definition resolveExitTracker :: "ResolveExitTrackerOptions \<Rightarrow> BacktestExitTracker option" where
  "resolveExitTracker opts =
     (let effectiveExitConfig =
            (case rx_exitConfig opts of
               Some layer \<Rightarrow> Some (resolveExitConfig [Some (toLayer DEFAULT_BACKTEST_EXIT_CONFIG), Some layer])
             | None \<Rightarrow>
                 if rx_enableHardStopLoss opts \<noteq> Some False
                 then Some (DEFAULT_BACKTEST_EXIT_CONFIG\<lparr>ec_stopLossValue := nullish (rx_hardStopLossPercent opts) (5 / 100) * 100\<rparr>)
                 else None)
      in case effectiveExitConfig of
           None \<Rightarrow> None
         | Some config \<Rightarrow>
             if \<not> ec_enableStopLoss config \<and> \<not> ec_enableTakeProfit config \<and> \<not> ec_enableTrailingStop config then None
             else case rx_resumeExitTrackerState opts of
                    Some state \<Rightarrow> Some (ExitTracker_deserialize state config)
                  | None \<Rightarrow> Some (ExitTracker_new config))"

record ProcessExitSignalsOptions =
  xo_currentPrices :: "OHLCCandle list"
  xo_marketData :: MarketData
  xo_tradingFee :: number
  xo_timestamp :: time_ms
  xo_slippageConfig :: "SlippageConfig option"
  xo_maxAllocation :: "number option"
  xo_minAllocation :: "number option"
  xo_fullFidelity :: bool
  xo_prevCandleMap :: "CandleMap option"
  xo_currentBar :: number

record ProcessExitSignalsCallbacks =
  cb_executeTradeFn :: ExecuteTradeFn
  cb_extractDailyVolumeFn :: "CandleMap \<Rightarrow> string \<Rightarrow> number option"
  cb_buildSpreadContextFn :: "CandleMap \<Rightarrow> string \<Rightarrow> CandleMap \<Rightarrow> SpreadEstimationContext option"

type_synonym DatedTrade = "time_ms \<times> string \<times> BacktestTrade"

record ExitRun =
  xr_exitTracker :: BacktestExitTracker
  xr_portfolio :: Portfolio
  xr_trades :: "DatedTrade list"
  xr_signals :: "BacktestSignal list"
  xr_fills :: "SimulatedFill list"

text \<open>The two decimals of \<^verbatim>\<open>toFixed(2)\<close>, the larger of two nearest.\<close>

definition toFixed2 :: "number \<Rightarrow> string" where
  "toFixed2 x =
     (let n = nat \<lfloor>\<bar>x\<bar> * 100 + 1 / 2\<rfloor>;
          digits = decimalDigits (n div 100) @ ''.'' @ decimalDigits (n div 10 mod 10) @ decimalDigits (n mod 10)
      in if x < 0 then ''-'' @ digits else digits)"

fun exitReason :: "ExitMetadata \<Rightarrow> string" where
  "exitReason (StopLossMeta entryPrice stopLossPrice lowPrice) =
     ''Stop-loss triggered: low '' @ toFixed2 lowPrice @ '' breached SL at '' @ toFixed2 stopLossPrice"
| "exitReason (TakeProfitMeta entryPrice takeProfitPrice highPrice) =
     ''Take-profit triggered: high '' @ toFixed2 highPrice @ '' breached TP at '' @ toFixed2 takeProfitPrice"
| "exitReason (TrailingMeta entryPrice highWaterMark trailingStopPrice lowPrice) =
     ''Trailing stop triggered: low '' @ toFixed2 lowPrice @ '' breached trailing at '' @ toFixed2 trailingStopPrice"

fun exitPayload :: "ExitMetadata \<Rightarrow> (string, js_value) jsmap" where
  "exitPayload (StopLossMeta entryPrice stopLossPrice lowPrice) =
     [(''entryPrice'', JNumber (Finite entryPrice)), (''stopLossPrice'', JNumber (Finite stopLossPrice)),
      (''lowPrice'', JNumber (Finite lowPrice))]"
| "exitPayload (TakeProfitMeta entryPrice takeProfitPrice highPrice) =
     [(''entryPrice'', JNumber (Finite entryPrice)), (''takeProfitPrice'', JNumber (Finite takeProfitPrice)),
      (''highPrice'', JNumber (Finite highPrice))]"
| "exitPayload (TrailingMeta entryPrice highWaterMark trailingStopPrice lowPrice) =
     [(''entryPrice'', JNumber (Finite entryPrice)), (''highWaterMark'', JNumber (Finite highWaterMark)),
      (''trailingStopPrice'', JNumber (Finite trailingStopPrice)), (''lowPrice'', JNumber (Finite lowPrice))]"

fun exitTypeText :: "ExitType \<Rightarrow> string" where
  "exitTypeText STOP_LOSS_EXIT = ''STOP_LOSS''"
| "exitTypeText TAKE_PROFIT_EXIT = ''TAKE_PROFIT''"
| "exitTypeText TRAILING_STOP_EXIT = ''TRAILING_STOP''"

definition exitTradingSignal :: "bool \<Rightarrow> ExitSignal \<Rightarrow> TradingSignal" where
  "exitTradingSignal fullFidelity exitSig =
     (let exitType = [(''exitType'', JString (exitTypeText (xs_exitType exitSig)))]
      in \<lparr>sg_action = SELL_ACTION, sg_coinId = xs_coinId exitSig, sg_quantity = Some (xs_quantity exitSig),
          sg_percentage = None, sg_reason = exitReason (xs_metadata exitSig), sg_confidence = Some 1,
          sg_metadata = Some (if fullFidelity then exitPayload (xs_metadata exitSig) @ exitType else exitType),
          sg_originalType = Some (if xs_exitType exitSig = TAKE_PROFIT_EXIT then TAKE_PROFIT else STOP_LOSS),
          sg_exitConfig = None\<rparr>)"

definition exitSignalRecord :: "time_ms \<Rightarrow> ExitSignal \<Rightarrow> BacktestSignal" where
  "exitSignalRecord timestamp exitSig =
     \<lparr>bs_timestamp = timestamp, bs_signalType = RISK_CONTROL, bs_instrument = xs_coinId exitSig,
      bs_direction = SHORT_DIRECTION, bs_quantity = xs_quantity exitSig, bs_price = Some (xs_executionPrice exitSig),
      bs_reason = exitReason (xs_metadata exitSig), bs_confidence = Some 1, bs_payload = exitPayload (xs_metadata exitSig),
      bs_strategyExitConfig = None\<rparr>"

definition exitParams ::
    "ProcessExitSignalsOptions \<Rightarrow> ProcessExitSignalsCallbacks \<Rightarrow> ExitSignal \<Rightarrow> ExecuteTradeParams" where
  "exitParams opts callbacks exitSig =
     (let priceMap = candleMap [] (xo_currentPrices opts)
      in \<lparr>xp_signal = exitTradingSignal (xo_fullFidelity opts) exitSig, xp_marketData = xo_marketData opts,
          xp_tradingFee = xo_tradingFee opts,
          xp_slippageConfig = Some (nullish (xo_slippageConfig opts) DEFAULT_SLIPPAGE_CONFIG),
          xp_dailyVolume = (if xo_fullFidelity opts then cb_extractDailyVolumeFn callbacks priceMap (xs_coinId exitSig) else None),
          xp_minHoldMs = Some 0, xp_maxAllocation = xo_maxAllocation opts, xp_minAllocation = xo_minAllocation opts,
          xp_defaultLeverage = Some 1,
          xp_spreadContext = (case xo_prevCandleMap opts of
            None \<Rightarrow> None | Some prev \<Rightarrow> cb_buildSpreadContextFn callbacks priceMap (xs_coinId exitSig) prev)\<rparr>)"

definition exitFill :: "time_ms \<Rightarrow> ExitSignal \<Rightarrow> ExecuteTradeResult \<Rightarrow> SimulatedFill" where
  "exitFill timestamp exitSig r =
     (let cancelled = (et_fillStatus r = CANCELLED_FILL)
      in \<lparr>fl_status = et_fillStatus r, fl_filledQuantity = (if cancelled then 0 else bt_quantity (et_trade r)),
          fl_averagePrice = bt_price (et_trade r), fl_fees = (if cancelled then Some 0 else bt_fee (et_trade r)),
          fl_slippageBps = et_slippageBps r, fl_executionTimestamp = timestamp, fl_instrument = xs_coinId exitSig,
          fl_metadata = bt_metadata (et_trade r),
          fl_extra = [(''exitType'', JString (exitTypeText (xs_exitType exitSig)))],
          fl_requestedQuantity = (if cancelled then et_requestedQuantity r else None)\<rparr>)"

definition recordExit ::
    "ProcessExitSignalsOptions \<Rightarrow> ExitSignal \<Rightarrow> ExecuteTradeResult option \<Rightarrow> ExitRun \<Rightarrow> ExitRun" where
  "recordExit opts exitSig tradeResult run =
     (case tradeResult of
        None \<Rightarrow> run
      | Some r \<Rightarrow>
          let fills = (if xo_fullFidelity opts then [exitFill (xo_timestamp opts) exitSig r] else [])
          in if et_fillStatus r = CANCELLED_FILL then run\<lparr>xr_fills := xr_fills run @ fills\<rparr>
             else run\<lparr>xr_trades := xr_trades run @ [(xo_timestamp opts, xs_coinId exitSig, et_trade r)],
                    xr_fills := xr_fills run @ fills,
                    xr_exitTracker := removePosition (xr_exitTracker run) (xs_coinId exitSig)\<rparr>)"

definition exitOne ::
    "ProcessExitSignalsOptions \<Rightarrow> ProcessExitSignalsCallbacks \<Rightarrow> ExitSignal \<Rightarrow> ExitRun \<Rightarrow> TradeError + ExitRun" where
  "exitOne opts callbacks exitSig run =
     (let announced = run\<lparr>xr_signals := xr_signals run @
            (if xo_fullFidelity opts then [exitSignalRecord (xo_timestamp opts) exitSig] else [])\<rparr>
      in case cb_executeTradeFn callbacks (exitParams opts callbacks exitSig) (xr_portfolio run) of
           (Inl e, portfolio) \<Rightarrow> Inl e
         | (Inr tradeResult, portfolio) \<Rightarrow>
             Inr (recordExit opts exitSig tradeResult (announced\<lparr>xr_portfolio := portfolio\<rparr>)))"

fun exitLoop ::
    "ProcessExitSignalsOptions \<Rightarrow> ProcessExitSignalsCallbacks \<Rightarrow> ExitSignal list \<Rightarrow> ExitRun \<Rightarrow> TradeError + ExitRun" where
  "exitLoop opts callbacks [] run = Inr run"
| "exitLoop opts callbacks (exitSig # exitSignals) run =
     (case exitOne opts callbacks exitSig run of
        Inl e \<Rightarrow> Inl e
      | Inr run' \<Rightarrow> exitLoop opts callbacks exitSignals run')"

definition processExitSignals ::
    "ProcessExitSignalsOptions \<Rightarrow> ProcessExitSignalsCallbacks \<Rightarrow> ExitRun \<Rightarrow> TradeError + ExitRun" where
  "processExitSignals opts callbacks run =
     (if ExitTracker_size (xr_exitTracker run) = 0 then Inr run
      else let candles = xo_currentPrices opts;
               lowPrices = foldl (\<lambda>m c. map_set (cd_coinId c) (cd_low c) m) [] candles;
               highPrices = foldl (\<lambda>m c. map_set (cd_coinId c) (cd_high c) m) [] candles;
               (tracker, exitSignals) = checkExits (xr_exitTracker run) (md_prices (xo_marketData opts))
                 lowPrices highPrices (Some (xo_currentBar opts))
           in exitLoop opts callbacks exitSignals (run\<lparr>xr_exitTracker := tracker\<rparr>))"

definition portfolioToHoldings :: "DecimalOps \<Rightarrow> Portfolio \<Rightarrow> Prices \<Rightarrow> (string, Holding) jsmap" where
  "portfolioToHoldings D portfolio prices =
     foldl (\<lambda>holdings (coinId, position).
         let price = nullish (map_get prices coinId) 0
         in map_set coinId \<lparr>ho_quantity = pos_quantity position, ho_value = dec_mul D (pos_quantity position) price,
              ho_price = price\<rparr> holdings) [] (po_positions portfolio)"

end
