(* ===== verification/Checkpoint.thy ===== *)
theory Checkpoint
  imports BacktestMetrics ExitProcessing SeededRandom
begin

text \<open>
  Checkpoints of a backtest (\<^verbatim>\<open>order/backtest/shared/checkpoint\<close>) and the counters that outlive them
  (\<^verbatim>\<open>shared/metrics-accumulator\<close>). The hash of the checksum data is a parameter; the JSON text of the
  throttle state, which goes into it, is written out, for coin ids that need no escapes. Powers of
  \<^verbatim>\<open>decimal.js\<close> and the day count of \<^verbatim>\<open>dayjs\<close> are parameters.
\<close>

section \<open>Checkpoint state\<close>

record PersistedResultsCounts =
  pc_trades :: nat
  pc_signals :: nat
  pc_fills :: nat
  pc_snapshots :: nat
  pc_sells :: "nat option"
  pc_winningSells :: "nat option"
  pc_grossProfit :: "number option"
  pc_grossLoss :: "number option"

record BacktestCheckpointState =
  cs_lastProcessedIndex :: int
  cs_lastProcessedTimestamp :: time_ms
  cs_portfolio :: SerializablePortfolio
  cs_peakValue :: number
  cs_maxDrawdown :: number
  cs_rngState :: int
  cs_persistedCounts :: PersistedResultsCounts
  cs_checksum :: string
  cs_throttleState :: "ThrottleState option"
  cs_exitTrackerState :: "SerializableExitTrackerState option"
  cs_pendingSignals :: "TradingSignal list option"

record BuildCheckpointStateOptions =
  bo_lastProcessedIndex :: int
  bo_lastProcessedTimestamp :: time_ms
  bo_portfolio :: Portfolio
  bo_peakValue :: number
  bo_maxDrawdown :: number
  bo_rngState :: int
  bo_tradesCount :: nat
  bo_signalsCount :: nat
  bo_fillsCount :: nat
  bo_snapshotsCount :: nat
  bo_sellsCount :: nat
  bo_winningSellsCount :: nat
  bo_serializedThrottleState :: "ThrottleState option"
  bo_grossProfit :: "number option"
  bo_grossLoss :: "number option"
  bo_exitTrackerState :: "SerializableExitTrackerState option"
  bo_pendingSignals :: "TradingSignal list option"

text \<open>\<^verbatim>\<open>buildChecksumData\<close>: the object whose text is hashed.\<close>

record ChecksumData =
  ck_lastProcessedIndex :: int
  ck_lastProcessedTimestamp :: time_ms
  ck_cashBalance :: number
  ck_positionCount :: nat
  ck_peakValue :: number
  ck_maxDrawdown :: number
  ck_rngState :: int
  ck_throttleState :: "string option"

definition jsonInt :: "int \<Rightarrow> string" where
  "jsonInt n = (if n < 0 then ''-'' @ decimalDigits (nat (- n)) else decimalDigits (nat n))"

definition jsonQuoted :: "string \<Rightarrow> string" where
  "jsonQuoted s = ''\"'' @ s @ ''\"''"

fun jsonList :: "string list \<Rightarrow> string" where
  "jsonList [] = ''''"
| "jsonList [x] = x"
| "jsonList (x # xs) = x @ '','' @ jsonList xs"

definition throttleJson :: "ThrottleState \<Rightarrow> string" where
  "throttleJson state =
     ''{\"lastSignalTime\":{'' @ jsonList (map (\<lambda>(k, t). jsonQuoted k @ '':'' @ jsonInt t) (th_lastSignalTime state)) @
     ''},\"tradeTimestamps\":['' @ jsonList (map jsonInt (th_tradeTimestamps state)) @ '']}''"

definition buildChecksumData ::
    "int \<Rightarrow> time_ms \<Rightarrow> number \<Rightarrow> nat \<Rightarrow> number \<Rightarrow> number \<Rightarrow> int \<Rightarrow> string option \<Rightarrow> ChecksumData" where
  "buildChecksumData lastProcessedIndex lastProcessedTimestamp cashBalance positionCount peakValue maxDrawdown rngState
     throttleStateJson =
     \<lparr>ck_lastProcessedIndex = lastProcessedIndex, ck_lastProcessedTimestamp = lastProcessedTimestamp,
      ck_cashBalance = cashBalance, ck_positionCount = positionCount, ck_peakValue = peakValue,
      ck_maxDrawdown = maxDrawdown, ck_rngState = rngState, ck_throttleState = throttleStateJson\<rparr>"

text \<open>A position of a checkpoint has no side, no leverage, no margin and no liquidation price.\<close>

definition checkpointPosition :: "string \<times> Position \<Rightarrow> SerializablePosition" where
  "checkpointPosition = (\<lambda>(coinId, pos).
     \<lparr>sp_coinId = coinId, sp_quantity = pos_quantity pos, sp_averagePrice = pos_averagePrice pos,
      sp_entryDate = pos_entryDate pos, sp_side = None, sp_leverage = None, sp_marginAmount = None,
      sp_liquidationPrice = None\<rparr>)"

definition buildCheckpointState :: "(ChecksumData \<Rightarrow> string) \<Rightarrow> BuildCheckpointStateOptions \<Rightarrow> BacktestCheckpointState" where
  "buildCheckpointState computeChecksum opts =
     (let portfolio = bo_portfolio opts;
          checksumData = buildChecksumData (bo_lastProcessedIndex opts) (bo_lastProcessedTimestamp opts)
            (po_cashBalance portfolio) (length (po_positions portfolio)) (bo_peakValue opts) (bo_maxDrawdown opts)
            (bo_rngState opts) (map_option throttleJson (bo_serializedThrottleState opts))
      in \<lparr>cs_lastProcessedIndex = bo_lastProcessedIndex opts,
          cs_lastProcessedTimestamp = bo_lastProcessedTimestamp opts,
          cs_portfolio = \<lparr>sp_cashBalance = po_cashBalance portfolio,
            sp_positions = map checkpointPosition (po_positions portfolio)\<rparr>,
          cs_peakValue = bo_peakValue opts, cs_maxDrawdown = bo_maxDrawdown opts, cs_rngState = bo_rngState opts,
          cs_persistedCounts = \<lparr>pc_trades = bo_tradesCount opts, pc_signals = bo_signalsCount opts,
            pc_fills = bo_fillsCount opts, pc_snapshots = bo_snapshotsCount opts,
            pc_sells = Some (bo_sellsCount opts), pc_winningSells = Some (bo_winningSellsCount opts),
            pc_grossProfit = Some (nullish (bo_grossProfit opts) 0),
            pc_grossLoss = Some (nullish (bo_grossLoss opts) 0)\<rparr>,
          cs_checksum = computeChecksum checksumData, cs_throttleState = bo_serializedThrottleState opts,
          cs_exitTrackerState = bo_exitTrackerState opts,
          cs_pendingSignals =
            (case bo_pendingSignals opts of None \<Rightarrow> None | Some s \<Rightarrow> if length s > 0 then Some s else None)\<rparr>)"

datatype CheckpointValidity =
    ValidCheckpoint
  | IndexOutOfBounds int nat
  | TimestampMismatch int time_ms time_ms
  | ChecksumFailed

definition validateCheckpoint ::
    "(ChecksumData \<Rightarrow> string) \<Rightarrow> BacktestCheckpointState \<Rightarrow> time_ms list \<Rightarrow> CheckpointValidity" where
  "validateCheckpoint computeChecksum checkpoint timestamps =
     (let index = cs_lastProcessedIndex checkpoint
      in if index < 0 \<or> index \<ge> int (length timestamps) then IndexOutOfBounds index (length timestamps)
         else if cs_lastProcessedTimestamp checkpoint \<noteq> timestamps ! nat index
         then TimestampMismatch index (timestamps ! nat index) (cs_lastProcessedTimestamp checkpoint)
         else if cs_checksum checkpoint \<noteq> computeChecksum (buildChecksumData index (cs_lastProcessedTimestamp checkpoint)
             (sp_cashBalance (cs_portfolio checkpoint)) (length (sp_positions (cs_portfolio checkpoint)))
             (cs_peakValue checkpoint) (cs_maxDrawdown checkpoint) (cs_rngState checkpoint)
             (map_option throttleJson (cs_throttleState checkpoint)))
         then ChecksumFailed
         else ValidCheckpoint)"

section \<open>Counters across checkpoints\<close>

record SellCounts =
  sl_sells :: nat
  sl_winningSells :: nat
  sl_grossProfit :: number
  sl_grossLoss :: number

definition countSell :: "DecimalOps \<Rightarrow> SellCounts \<Rightarrow> BacktestTrade \<Rightarrow> SellCounts" where
  "countSell D counts t =
     (if bt_type t = Some TRADE_SELL
      then let pnl = nullish (bt_realizedPnL t) 0;
               counted = counts\<lparr>sl_sells := sl_sells counts + 1\<rparr>
           in if pnl > 0
              then counted\<lparr>sl_winningSells := sl_winningSells counts + 1,
                     sl_grossProfit := dec_plus D (sl_grossProfit counts) pnl\<rparr>
              else if pnl < 0 then counted\<lparr>sl_grossLoss := dec_plus D (sl_grossLoss counts) \<bar>pnl\<bar>\<rparr>
              else counted
      else counts)"

definition countSells :: "DecimalOps \<Rightarrow> BacktestTrade list \<Rightarrow> SellCounts" where
  "countSells D trades =
     foldl (countSell D) \<lparr>sl_sells = 0, sl_winningSells = 0, sl_grossProfit = 0, sl_grossLoss = 0\<rparr> trades"

record MetricsAccumulator =
  ma_totalTradeCount :: nat
  ma_totalSellCount :: nat
  ma_totalWinningSellCount :: nat
  ma_grossProfit :: number
  ma_grossLoss :: number
  ma_skippedBuyCount :: nat
  ma_snapshotValues :: "number list"

definition createMetricsAccumulator :: "nat \<Rightarrow> nat \<Rightarrow> nat \<Rightarrow> number \<Rightarrow> number \<Rightarrow> MetricsAccumulator" where
  "createMetricsAccumulator initialTradeCount initialSellCount initialWinningSellCount initialGrossProfit initialGrossLoss =
     \<lparr>ma_totalTradeCount = initialTradeCount, ma_totalSellCount = initialSellCount,
      ma_totalWinningSellCount = initialWinningSellCount, ma_grossProfit = initialGrossProfit,
      ma_grossLoss = initialGrossLoss, ma_skippedBuyCount = 0, ma_snapshotValues = []\<rparr>"

definition harvestMetrics ::
    "DecimalOps \<Rightarrow> BacktestTrade list \<Rightarrow> PortfolioSnapshot list \<Rightarrow> MetricsAccumulator \<Rightarrow> MetricsAccumulator" where
  "harvestMetrics D trades snapshots acc =
     (let counts = countSells D trades
      in acc\<lparr>ma_totalTradeCount := ma_totalTradeCount acc + length trades,
           ma_totalSellCount := ma_totalSellCount acc + sl_sells counts,
           ma_totalWinningSellCount := ma_totalWinningSellCount acc + sl_winningSells counts,
           ma_grossProfit := ma_grossProfit acc + sl_grossProfit counts,
           ma_grossLoss := ma_grossLoss acc + sl_grossLoss counts,
           ma_snapshotValues := ma_snapshotValues acc @ map sn_portfolioValue snapshots\<rparr>)"

record BacktestFinalMetrics =
  fm_finalValue :: number
  fm_totalReturn :: number
  fm_annualizedReturn :: js_number
  fm_sharpeRatio :: number
  fm_maxDrawdown :: number
  fm_totalTrades :: nat
  fm_winningTrades :: nat
  fm_losingTrades :: int
  fm_winRate :: number
  fm_profitFactor :: number
  fm_volatility :: number

text \<open>The powers of \<^verbatim>\<open>decimal.js\<close> and the whole days of \<^verbatim>\<open>dayjs\<close> between two dates.\<close>

record FinalMetricsLibrary =
  lib_pow :: "number \<Rightarrow> number \<Rightarrow> js_number"
  lib_diffDays :: "time_ms \<Rightarrow> time_ms \<Rightarrow> int"

definition snapshotReturns :: "number list \<Rightarrow> number list" where
  "snapshotReturns values =
     map (\<lambda>i. let previous = values ! (i - 1); current = values ! i
              in if previous = 0 then 0 else (current - previous) / previous) [1..<length values]"

definition accumulatedVolatility :: "number list \<Rightarrow> number" where
  "accumulatedVolatility returns =
     (if returns = [] then 0
      else let avgReturn = reduceSum returns / real (length returns);
               variance = reduceSum (map (\<lambda>r. (r - avgReturn)\<^sup>2) returns) / real (length returns)
           in sqrt variance * sqrt 365)"

definition calculateFinalMetricsFromAccumulators ::
    "DecimalOps \<Rightarrow> FinalMetricsLibrary \<Rightarrow> number \<Rightarrow> time_ms \<Rightarrow> time_ms \<Rightarrow> Portfolio \<Rightarrow> MetricsAccumulator \<Rightarrow> number \<Rightarrow>
     BacktestFinalMetrics" where
  "calculateFinalMetricsFromAccumulators D lib initialCapital startDate endDate portfolio acc maxDrawdown =
     (let finalValue = po_totalValue portfolio;
          totalReturn = dec_div D (dec_minus D finalValue initialCapital) initialCapital;
          durationDays = lib_diffDays lib endDate startDate;
          annualizedReturn =
            (if durationDays > 0
             then js_decrement (lib_pow lib (dec_plus D 1 totalReturn) (dec_div D 365 (of_int durationDays)))
             else Finite totalReturn);
          returns = snapshotReturns (ma_snapshotValues acc);
          sharpeRatio = (if length returns > 0 then calculateSharpeRatio returns DEFAULT_METRICS_CONFIG else 0);
          rawProfitFactor =
            (if ma_grossLoss acc > 0 then ma_grossProfit acc / ma_grossLoss acc
             else if ma_grossProfit acc > 0 then 10 else 1)
      in \<lparr>fm_finalValue = finalValue, fm_totalReturn = totalReturn, fm_annualizedReturn = annualizedReturn,
          fm_sharpeRatio = sharpeRatio, fm_maxDrawdown = maxDrawdown, fm_totalTrades = ma_totalTradeCount acc,
          fm_winningTrades = ma_totalWinningSellCount acc,
          fm_losingTrades = int (ma_totalSellCount acc) - int (ma_totalWinningSellCount acc),
          fm_winRate = (if ma_totalSellCount acc > 0
            then real (ma_totalWinningSellCount acc) / real (ma_totalSellCount acc) else 0),
          fm_profitFactor = min rawProfitFactor 10, fm_volatility = accumulatedVolatility returns\<rparr>)"

section \<open>Resuming\<close>

text \<open>\<^verbatim>\<open>restoreState\<close> and the accumulator of \<^verbatim>\<open>BacktestContextFactory.create\<close>.\<close>

record RestoredState =
  rs_rng :: int
  rs_portfolio :: Portfolio
  rs_peakValue :: number
  rs_maxDrawdown :: number

definition restoreState :: "DecimalOps \<Rightarrow> number \<Rightarrow> int list \<Rightarrow> BacktestCheckpointState option \<Rightarrow> RestoredState" where
  "restoreState D initialCapital deterministicSeed resumeFrom =
     (case resumeFrom of
        Some checkpoint \<Rightarrow>
          \<lparr>rs_rng = SeededRandom_fromState (cs_rngState checkpoint),
           rs_portfolio = deserializePortfolio D (cs_portfolio checkpoint) None,
           rs_peakValue = cs_peakValue checkpoint, rs_maxDrawdown = cs_maxDrawdown checkpoint\<rparr>
      | None \<Rightarrow>
          \<lparr>rs_rng = SeededRandom_new deterministicSeed,
           rs_portfolio = \<lparr>po_cashBalance = initialCapital, po_positions = [], po_totalValue = initialCapital,
             po_totalMarginUsed = None, po_availableMargin = None\<rparr>,
           rs_peakValue = initialCapital, rs_maxDrawdown = 0\<rparr>)"

definition NO_PERSISTED_COUNTS :: PersistedResultsCounts where
  "NO_PERSISTED_COUNTS =
     \<lparr>pc_trades = 0, pc_signals = 0, pc_fills = 0, pc_snapshots = 0, pc_sells = Some 0, pc_winningSells = Some 0,
      pc_grossProfit = Some 0, pc_grossLoss = Some 0\<rparr>"

definition persistedCounts :: "BacktestCheckpointState option \<Rightarrow> PersistedResultsCounts" where
  "persistedCounts resumeFrom =
     (case resumeFrom of Some checkpoint \<Rightarrow> cs_persistedCounts checkpoint | None \<Rightarrow> NO_PERSISTED_COUNTS)"

definition resumedAccumulator :: "BacktestCheckpointState option \<Rightarrow> MetricsAccumulator" where
  "resumedAccumulator resumeFrom =
     (let counts = persistedCounts resumeFrom
      in createMetricsAccumulator (pc_trades counts) (nullish (pc_sells counts) 0) (nullish (pc_winningSells counts) 0)
           (nullish (pc_grossProfit counts) 0) (nullish (pc_grossLoss counts) 0))"

definition resumedThrottle :: "BacktestCheckpointState option \<Rightarrow> ThrottleState" where
  "resumedThrottle resumeFrom =
     (case resumeFrom of
        None \<Rightarrow> createThrottleState
      | Some checkpoint \<Rightarrow>
          (case cs_throttleState checkpoint of None \<Rightarrow> createThrottleState | Some state \<Rightarrow> Throttle_deserialize state))"

definition resumedPendingSignals :: "BacktestCheckpointState option \<Rightarrow> TradingSignal list" where
  "resumedPendingSignals resumeFrom =
     (case resumeFrom of None \<Rightarrow> [] | Some checkpoint \<Rightarrow> nullish (cs_pendingSignals checkpoint) [])"

section \<open>The column of a checkpoint\<close>

text \<open>
  A checkpoint is kept in a column of type \<^verbatim>\<open>jsonb\<close>, which keeps the entries of an object but not
  their order. The objects of a checkpoint whose keys are data are the times of the throttle and the
  metadata of the queued signals; positions and cooldowns are arrays.
\<close>

definition same_signal :: "TradingSignal \<Rightarrow> TradingSignal \<Rightarrow> bool" where
  "same_signal a b \<longleftrightarrow>
     b = a\<lparr>sg_metadata := sg_metadata b\<rparr> \<and> rel_option (\<lambda>x y. mset x = mset y) (sg_metadata a) (sg_metadata b)"

definition same_throttle :: "ThrottleState \<Rightarrow> ThrottleState \<Rightarrow> bool" where
  "same_throttle a b \<longleftrightarrow>
     (\<exists>ledger. mset ledger = mset (th_lastSignalTime a) \<and> b = a\<lparr>th_lastSignalTime := ledger\<rparr>)"

definition stored_as :: "BacktestCheckpointState \<Rightarrow> BacktestCheckpointState \<Rightarrow> bool" where
  "stored_as built stored \<longleftrightarrow> (\<exists>throttle signals.
     rel_option same_throttle (cs_throttleState built) throttle \<and>
     rel_option (list_all2 same_signal) (cs_pendingSignals built) signals \<and>
     stored = built\<lparr>cs_throttleState := throttle, cs_pendingSignals := signals\<rparr>)"

section \<open>Lemmas\<close>

lemma same_signal_refl: "same_signal a a"
  by (simp add: same_signal_def option.rel_refl)

lemma stored_reordered:
  assumes "cs_throttleState built = Some throttle" "mset ledger = mset (th_lastSignalTime throttle)"
  shows "stored_as built (built\<lparr>cs_throttleState := Some (throttle\<lparr>th_lastSignalTime := ledger\<rparr>)\<rparr>)"
proof -
  have "rel_option (list_all2 same_signal) (cs_pendingSignals built) (cs_pendingSignals built)"
    by (simp add: option.rel_refl list_all2_refl same_signal_refl)
  then show ?thesis
    using assms unfolding stored_as_def same_throttle_def
    by (intro exI [of _ "Some (throttle\<lparr>th_lastSignalTime := ledger\<rparr>)"] exI [of _ "cs_pendingSignals built"]) auto
qed

lemma countSells_from:
  assumes "exact_decimal D"
  shows "foldl (countSell D) counts trades =
    \<lparr>sl_sells = sl_sells counts + sl_sells (countSells D trades),
     sl_winningSells = sl_winningSells counts + sl_winningSells (countSells D trades),
     sl_grossProfit = sl_grossProfit counts + sl_grossProfit (countSells D trades),
     sl_grossLoss = sl_grossLoss counts + sl_grossLoss (countSells D trades)\<rparr>"
proof -
  have step: "countSell D c t =
      \<lparr>sl_sells = sl_sells c + sl_sells (countSells D [t]),
       sl_winningSells = sl_winningSells c + sl_winningSells (countSells D [t]),
       sl_grossProfit = sl_grossProfit c + sl_grossProfit (countSells D [t]),
       sl_grossLoss = sl_grossLoss c + sl_grossLoss (countSells D [t])\<rparr>" for c t
    using assms by (cases c) (simp add: countSells_def countSell_def Let_def exact_decimal_def)
  have "foldl (countSell D) c trades =
    \<lparr>sl_sells = sl_sells c + (\<Sum>t\<leftarrow>trades. sl_sells (countSells D [t])),
     sl_winningSells = sl_winningSells c + (\<Sum>t\<leftarrow>trades. sl_winningSells (countSells D [t])),
     sl_grossProfit = sl_grossProfit c + (\<Sum>t\<leftarrow>trades. sl_grossProfit (countSells D [t])),
     sl_grossLoss = sl_grossLoss c + (\<Sum>t\<leftarrow>trades. sl_grossLoss (countSells D [t]))\<rparr>" for c
  proof (induction trades arbitrary: c)
    case (Cons t ts)
    show ?case unfolding foldl_Cons Cons.IH step [of c t] by (simp add: algebra_simps)
  qed (cases c, simp)
  from this [of counts] this [of "\<lparr>sl_sells = 0, sl_winningSells = 0, sl_grossProfit = 0, sl_grossLoss = 0\<rparr>"]
  show ?thesis by (simp add: countSells_def [of D trades])
qed

lemma countSells_append:
  assumes "exact_decimal D"
  shows "sl_sells (countSells D (a @ b)) = sl_sells (countSells D a) + sl_sells (countSells D b)"
    "sl_winningSells (countSells D (a @ b)) = sl_winningSells (countSells D a) + sl_winningSells (countSells D b)"
    "sl_grossProfit (countSells D (a @ b)) = sl_grossProfit (countSells D a) + sl_grossProfit (countSells D b)"
    "sl_grossLoss (countSells D (a @ b)) = sl_grossLoss (countSells D a) + sl_grossLoss (countSells D b)"
  using countSells_from [OF assms, of "countSells D a" b] by (simp_all add: countSells_def)

lemma harvestMetrics_append:
  assumes "exact_decimal D"
  shows "harvestMetrics D b s' (harvestMetrics D a s acc) = harvestMetrics D (a @ b) (s @ s') acc"
  by (simp add: harvestMetrics_def Let_def countSells_append [OF assms] add.assoc)

text \<open>What a resumed position keeps, and the value it is given.\<close>

lemma resumed_positions:
  assumes "map_wf (po_positions (bo_portfolio opts))"
  shows "po_positions (rs_portfolio (restoreState D capital seed (Some (buildCheckpointState H opts)))) =
    map (\<lambda>(c, p). (c, restorePosition D None (checkpointPosition (c, p)))) (po_positions (bo_portfolio opts))"
proof -
  let ?m = "map (\<lambda>(c, p). (c, restorePosition D None (checkpointPosition (c, p)))) (po_positions (bo_portfolio opts))"
  have keys: "map fst ?m = map fst (po_positions (bo_portfolio opts))" by (simp add: case_prod_unfold o_def)
  have "keyed_positions ?m"
    using assms unfolding keyed_positions_def map_wf_def keys
    by (auto simp: list_all_iff restorePosition_def checkpointPosition_def plainPosition_def Let_def)
  from keyed_reload [OF this] show ?thesis
    by (simp add: restoreState_def deserializePortfolio_def buildCheckpointState_def Let_def o_def case_prod_unfold)
qed

lemma resumed_position:
  assumes "map_wf (po_positions (bo_portfolio opts))"
  shows "map_get (po_positions (rs_portfolio (restoreState D capital seed (Some (buildCheckpointState H opts))))) c =
    map_option (\<lambda>p. restorePosition D None (checkpointPosition (c, p))) (map_get (po_positions (bo_portfolio opts)) c)"
  by (simp only: resumed_positions [OF assms] map_get_map)

text \<open>Texts that list the same keys in another order differ.\<close>

lemma jsonList_append: "xs \<noteq> [] \<Longrightarrow> jsonList (p @ xs) = concat (map (\<lambda>x. x @ '','') p) @ jsonList xs"
proof (induction p)
  case (Cons a p)
  then show ?case by (cases "p @ xs") auto
qed simp

lemma jsonList_starts: "\<exists>rest. jsonList (x # xs) = x @ rest"
  by (cases xs) auto

lemma quoted_key: "CHR ''\"'' \<notin> set k \<Longrightarrow> takeWhile (\<lambda>c. c \<noteq> CHR ''\"'') (k @ CHR ''\"'' # rest) = k"
  by (subst takeWhile_append2) auto

definition jsonEntry :: "string \<times> time_ms \<Rightarrow> string" where
  "jsonEntry = (\<lambda>(k, t). jsonQuoted k @ '':'' @ jsonInt t)"

lemma jsonList_keys_differ:
  assumes "CHR ''\"'' \<notin> set k" "CHR ''\"'' \<notin> set k'" "k \<noteq> k'"
  shows "jsonList (map jsonEntry (p @ (k, t) # r)) @ s \<noteq> jsonList (map jsonEntry (p @ (k', t') # r')) @ s"
proof
  assume eq: "jsonList (map jsonEntry (p @ (k, t) # r)) @ s = jsonList (map jsonEntry (p @ (k', t') # r')) @ s"
  obtain a where a: "jsonList (map jsonEntry ((k, t) # r)) = jsonEntry (k, t) @ a"
    using jsonList_starts by (metis list.simps(9))
  obtain b where b: "jsonList (map jsonEntry ((k', t') # r')) = jsonEntry (k', t') @ b"
    using jsonList_starts by (metis list.simps(9))
  have "jsonEntry (k, t) @ a = jsonEntry (k', t') @ b"
    using eq jsonList_append [of "map jsonEntry ((k, t) # r)" "map jsonEntry p"]
      jsonList_append [of "map jsonEntry ((k', t') # r')" "map jsonEntry p"] a b by simp
  then have "k @ CHR ''\"'' # '':'' @ jsonInt t @ a = k' @ CHR ''\"'' # '':'' @ jsonInt t' @ b"
    by (simp add: jsonEntry_def jsonQuoted_def)
  then show False
    using quoted_key [OF assms(1)] quoted_key [OF assms(2)] assms(3) by metis
qed

lemma first_difference:
  assumes "mset xs = mset ys" "xs \<noteq> ys"
  obtains p x xs' y ys' where "xs = p @ x # xs'" "ys = p @ y # ys'" "x \<noteq> y"
  using assms
proof (induction xs arbitrary: ys thesis)
  case (Cons x xs)
  obtain y ys' where ys: "ys = y # ys'" using Cons.prems(2) by (cases ys) auto
  show ?case
  proof (cases "x = y")
    case False
    then show ?thesis using Cons.prems(1) [of "[]" x xs y ys'] ys by simp
  next
    case True
    then have "mset xs = mset ys'" "xs \<noteq> ys'" using Cons.prems(2,3) ys by auto
    then obtain p a as b bs where "xs = p @ a # as" "ys' = p @ b # bs" "a \<noteq> b" using Cons.IH by blast
    then show ?thesis using Cons.prems(1) [of "x # p"] ys True by simp
  qed
qed simp

lemma reordered_text_differs:
  assumes "map_wf (th_lastSignalTime throttle)" "\<forall>(k, t) \<in> set (th_lastSignalTime throttle). CHR ''\"'' \<notin> set k"
    and "mset stored = mset (th_lastSignalTime throttle)" "stored \<noteq> th_lastSignalTime throttle"
  shows "throttleJson (throttle\<lparr>th_lastSignalTime := stored\<rparr>) \<noteq> throttleJson throttle"
proof -
  obtain p x xs y ys where diff: "stored = p @ x # xs" "th_lastSignalTime throttle = p @ y # ys" "x \<noteq> y"
    using first_difference [OF assms(3,4)] by blast
  have entries: "x \<in> set (th_lastSignalTime throttle)" "y \<in> set (th_lastSignalTime throttle)"
    using diff mset_eq_setD [OF assms(3)] by auto
  then have keys: "fst x \<noteq> fst y"
    using assms(1) diff(3) unfolding map_wf_def by (metis distinct_map inj_onD)
  have free: "CHR ''\"'' \<notin> set (fst x)" "CHR ''\"'' \<notin> set (fst y)"
    using assms(2) entries by auto
  show ?thesis
    using jsonList_keys_differ [OF free keys, of p "snd x" xs _ "snd y" ys] diff(1,2)
    by (simp add: throttleJson_def jsonEntry_def [abs_def])
qed

section \<open>Properties\<close>


text \<open>A resumed short is long. The checkpoint of a position keeps neither its side nor its margin,
  so a coin that was held short is held long after a resume: its value at a price, which was the
  margin and the gain of the short, becomes the quantity at that price, and grows where the
  short would lose.\<close>

lemma checkpoint_forgets_shorts:
  fixes H opts D capital seed c p m
  assumes "exact_decimal D" "map_wf (po_positions (bo_portfolio opts))"
    and "map_get (po_positions (bo_portfolio opts)) c = Some p" "pos_side p = Some SHORT" "pos_marginAmount p = Some margin"
  shows "\<exists>q. map_get (po_positions (rs_portfolio (restoreState D capital seed (Some (buildCheckpointState H opts))))) c = Some q \<and>
    pos_side q = None \<and> getPositionValue D p (Some m) True = max 0 (margin + (pos_averagePrice p - m) * pos_quantity p) \<and>
    getPositionValue D q (Some m) True = pos_quantity p * m"
  using assms by (simp add: resumed_position getPositionValue_def restorePosition_def checkpointPosition_def plainPosition_def
      exact_decimal_def Let_def)

text \<open>The counters of a run do not depend on where its checkpoints fall: harvested chunk by chunk, or
  resumed from a checkpoint that holds the counts so far, they are those of one harvest of all
  trades. The portfolio values behind the Sharpe ratio and the volatility are not: a resumed run
  knows only those recorded after the checkpoint.\<close>

lemma metrics_survive_checkpoints:
  fixes D before after H opts run start mid whole
  assumes "exact_decimal D"
  defines "run \<equiv> foldl (\<lambda>acc (trades, snapshots). harvestMetrics D trades snapshots acc)"
    and "start \<equiv> createMetricsAccumulator 0 0 0 0 0"
    and "mid \<equiv> run start before"
    and "whole \<equiv> harvestMetrics D (concat (map fst (before @ after))) (concat (map snd (before @ after))) start"
  assumes "bo_tradesCount opts = ma_totalTradeCount mid" "bo_sellsCount opts = ma_totalSellCount mid"
    and "bo_winningSellsCount opts = ma_totalWinningSellCount mid"
    and "bo_grossProfit opts = Some (ma_grossProfit mid)" "bo_grossLoss opts = Some (ma_grossLoss mid)"
  shows "run start (before @ after) = whole \<and>
    run (resumedAccumulator (Some (buildCheckpointState H opts))) after =
      whole\<lparr>ma_snapshotValues := map sn_portfolioValue (concat (map snd after))\<rparr>"
proof -
  have once: "run acc chunks = (if chunks = [] then acc
      else harvestMetrics D (concat (map fst chunks)) (concat (map snd chunks)) acc)" for acc chunks
    by (induction chunks rule: rev_induct)
      (auto simp: run_def case_prod_unfold harvestMetrics_append [OF assms(1)])
  have empty: "harvestMetrics D [] [] acc = acc" for acc
    by (cases acc) (simp add: harvestMetrics_def countSells_def Let_def)
  have fold: "run acc chunks = harvestMetrics D (concat (map fst chunks)) (concat (map snd chunks)) acc" for acc chunks
    by (simp add: once empty)
  have "resumedAccumulator (Some (buildCheckpointState H opts)) = mid\<lparr>ma_snapshotValues := []\<rparr>"
    using assms(6-10) unfolding mid_def fold
    by (simp add: resumedAccumulator_def persistedCounts_def buildCheckpointState_def createMetricsAccumulator_def Let_def
        start_def harvestMetrics_def)
  moreover have "harvestMetrics D t s (acc\<lparr>ma_snapshotValues := []\<rparr>) =
      (harvestMetrics D t s acc)\<lparr>ma_snapshotValues := map sn_portfolioValue s\<rparr>" for t s acc
    by (simp add: harvestMetrics_def Let_def)
  ultimately show ?thesis
    by (simp add: fold whole_def mid_def harvestMetrics_append [OF assms(1)])
qed

text \<open>The checksum of a checkpoint depends on the order of the throttle entries. A store that keeps
  every entry but lists the keys in another order, as a JSON column may, makes the checkpoint fail
  its validation, unless the hash collides.\<close>

lemma reordered_checkpoint_refused:
  fixes H opts timestamps throttle stored checkpoint data
  assumes "0 \<le> bo_lastProcessedIndex opts" "bo_lastProcessedIndex opts < int (length timestamps)"
    and "timestamps ! nat (bo_lastProcessedIndex opts) = bo_lastProcessedTimestamp opts"
    and "bo_serializedThrottleState opts = Some throttle" "map_wf (th_lastSignalTime throttle)"
    and "\<forall>(k, t) \<in> set (th_lastSignalTime throttle). CHR ''\"'' \<notin> set k"
    and "mset stored = mset (th_lastSignalTime throttle)" "stored \<noteq> th_lastSignalTime throttle"
  defines "checkpoint \<equiv> buildCheckpointState H opts"
    and "data \<equiv> \<lambda>text. buildChecksumData (bo_lastProcessedIndex opts) (bo_lastProcessedTimestamp opts)
      (po_cashBalance (bo_portfolio opts)) (length (po_positions (bo_portfolio opts))) (bo_peakValue opts)
      (bo_maxDrawdown opts) (bo_rngState opts) (Some text)"
  assumes "H (data (throttleJson (throttle\<lparr>th_lastSignalTime := stored\<rparr>))) = H (data (throttleJson throttle)) \<Longrightarrow>
      throttleJson (throttle\<lparr>th_lastSignalTime := stored\<rparr>) = throttleJson throttle"
  shows "validateCheckpoint H checkpoint timestamps = ValidCheckpoint \<and>
    validateCheckpoint H (checkpoint\<lparr>cs_throttleState := Some (throttle\<lparr>th_lastSignalTime := stored\<rparr>)\<rparr>) timestamps = ChecksumFailed"
proof -
  have "throttleJson (throttle\<lparr>th_lastSignalTime := stored\<rparr>) \<noteq> throttleJson throttle"
    using reordered_text_differs assms(5-8) by blast
  then show ?thesis
    using assms(1-4,11)
    by (auto simp add: validateCheckpoint_def checkpoint_def buildCheckpointState_def data_def Let_def)
qed
text \<open>A checkpoint taken at the first bar, of a portfolio that holds two units, long or short.\<close>

definition checkpoint_opts :: "Portfolio \<Rightarrow> BuildCheckpointStateOptions" where
  "checkpoint_opts portfolio =
     \<lparr>bo_lastProcessedIndex = 0, bo_lastProcessedTimestamp = 7, bo_portfolio = portfolio, bo_peakValue = 1000,
      bo_maxDrawdown = 0, bo_rngState = SeededRandom_getState 1, bo_tradesCount = 0, bo_signalsCount = 0, bo_fillsCount = 0,
      bo_snapshotsCount = 1, bo_sellsCount = 0, bo_winningSellsCount = 0,
      bo_serializedThrottleState = Some (Throttle_serialize
        \<lparr>th_lastSignalTime = [(''eth:BUY'', 7), (''btc:BUY'', 7)], th_tradeTimestamps = [7, 7]\<rparr>),
      bo_grossProfit = Some 0, bo_grossLoss = Some 0, bo_exitTrackerState = None, bo_pendingSignals = Some [btc_buy]\<rparr>"

definition flat_snapshot :: "number \<Rightarrow> PortfolioSnapshot" where
  "flat_snapshot v = \<lparr>sn_timestamp = 7, sn_portfolioValue = v, sn_cashBalance = v, sn_holdings = [],
     sn_cumulativeReturn = 0, sn_drawdown = 0\<rparr>"


end
