(* ===== verification/ExitSafety.thy ===== *)
theory ExitSafety
  imports ExitProcessing
begin

text \<open>
  What the exits of a bar do. An exit that the tracker reports at the level of the stop is filled at
  the close of the bar, and one that fills in part is no longer watched.
\<close>

section \<open>Sales\<close>

lemma executeSell_price:
  assumes "executeSell ctx P = Inr (Acted r Q)" "ct_basePrice ctx = Finite m"
  shows "sf_price r = applySlippage m (sf_slippageBps r) False" "sf_fillStatus r \<noteq> CANCELLED_FILL"
  using assms by (auto simp: executeSell_def withFill_def applySlippageAndFill_def calculateSlippage_def Let_def
      case_prod_unfold calculateLongPnL_def actionResult_def SlippageFillResult.defs
      split: if_splits option.splits sum.splits)

lemma executeTrade_sold:
  assumes "executeTrade D params P = (Inr (Some r), Q)" "et_fillStatus r \<noteq> CANCELLED_FILL"
    and "sg_action (xp_signal params) = SELL_ACTION"
  obtains m a R fee where "map_get (md_prices (xp_marketData params)) (sg_coinId (xp_signal params)) = Some m"
    "executeSell (tradeContext params m) P = Inr (Acted a R)" "r = tradeRecord (tradeContext params m) a fee"
    "po_positions Q = po_positions R"
  using assms executeAction_cancelled [of SELL_ACTION]
  by (auto simp: executeTrade_def Let_def split: option.splits if_splits sum.splits ActionOutcome.splits)

lemma exitTradingSignal_fields [simp]:
  "sg_action (exitTradingSignal f e) = SELL_ACTION" "sg_coinId (exitTradingSignal f e) = xs_coinId e"
  "sg_quantity (exitTradingSignal f e) = Some (xs_quantity e)"
  "resolveBasePrice (exitTradingSignal f e) m = Finite m"
  by (cases "xs_metadata e"; simp add: exitTradingSignal_def resolveBasePrice_def map_get_def Let_def)+

lemma exitParams_fields [simp]:
  "xp_signal (exitParams opts cb e) = exitTradingSignal (xo_fullFidelity opts) e"
  "xp_marketData (exitParams opts cb e) = xo_marketData opts"
  "xp_slippageConfig (exitParams opts cb e) = Some (nullish (xo_slippageConfig opts) DEFAULT_SLIPPAGE_CONFIG)"
  by (simp_all add: exitParams_def Let_def)

lemma tradeContext_exit:
  "ct_basePrice (tradeContext (exitParams opts cb e) m) = Finite m"
  "ct_signal (tradeContext (exitParams opts cb e) m) = exitTradingSignal (xo_fullFidelity opts) e"
  "ct_slippageConfig (tradeContext (exitParams opts cb e) m) = nullish (xo_slippageConfig opts) DEFAULT_SLIPPAGE_CONFIG"
  by (simp_all add: tradeContext_def Let_def)

text \<open>A trade that is priced off the close of its coin.\<close>

definition from_close :: "Prices \<Rightarrow> DatedTrade \<Rightarrow> bool" where
  "from_close prices = (\<lambda>(t, c, trade). \<exists>close m s cf bps hold req. map_get prices c = Some close \<and>
     bt_metadata trade = Executed m s cf (Finite close) bps hold req \<and> bt_price trade = applySlippage close bps False)"

lemma exit_trade_from_close:
  assumes "executeTrade D (exitParams opts cb e) P = (Inr (Some r), Q)" "et_fillStatus r \<noteq> CANCELLED_FILL"
  shows "from_close (md_prices (xo_marketData opts)) (t, xs_coinId e, et_trade r)"
proof -
  obtain m a R fee where r: "map_get (md_prices (xo_marketData opts)) (xs_coinId e) = Some m"
    "executeSell (tradeContext (exitParams opts cb e) m) P = Inr (Acted a R)"
    "r = tradeRecord (tradeContext (exitParams opts cb e) m) a fee"
    by (rule executeTrade_sold [OF assms]) auto
  then show ?thesis
    using executeSell_price(1) [OF r(2) tradeContext_exit(1)]
    by (simp add: from_close_def tradeRecord_def tradeContext_exit Let_def)
qed

lemma exitOne_trades:
  assumes "exitOne opts cb e run = Inr run'" "cb_executeTradeFn cb = executeTrade D" "xo_fullFidelity opts"
  shows "xr_signals run' = xr_signals run @ [exitSignalRecord (xo_timestamp opts) e] \<and>
    (\<exists>new. xr_trades run' = xr_trades run @ new \<and> Ball (set new) (from_close (md_prices (xo_marketData opts))) \<and>
       (\<lambda>(t, c, _). (t, c)) ` set new \<subseteq> {(xo_timestamp opts, xs_coinId e)})"
proof -
  obtain tradeResult P where trade: "executeTrade D (exitParams opts cb e) (xr_portfolio run) = (Inr tradeResult, P)"
    and run': "run' = recordExit opts e tradeResult
      (run\<lparr>xr_signals := xr_signals run @ [exitSignalRecord (xo_timestamp opts) e], xr_portfolio := P\<rparr>)"
    using assms by (auto simp: exitOne_def Let_def split: prod.splits sum.splits)
  show ?thesis
  proof (cases "\<exists>r. tradeResult = Some r \<and> et_fillStatus r \<noteq> CANCELLED_FILL")
    case True
    then obtain r where r: "tradeResult = Some r" "et_fillStatus r \<noteq> CANCELLED_FILL" by blast
    then show ?thesis
      using exit_trade_from_close [OF trade [unfolded r(1)] r(2), of "xo_timestamp opts"]
      by (simp add: run' recordExit_def)
  next
    case False
    then show ?thesis by (auto simp: run' recordExit_def split: option.splits)
  qed
qed

lemma exitLoop_trades:
  assumes "exitLoop opts cb exits run = Inr run'" "cb_executeTradeFn cb = executeTrade D" "xo_fullFidelity opts"
  shows "xr_signals run' = xr_signals run @ map (exitSignalRecord (xo_timestamp opts)) exits \<and>
    (\<exists>new. xr_trades run' = xr_trades run @ new \<and> Ball (set new) (from_close (md_prices (xo_marketData opts))) \<and>
       (\<lambda>(t, c, _). (t, c)) ` set new \<subseteq> (\<lambda>e. (xo_timestamp opts, xs_coinId e)) ` set exits)"
  using assms(1)
proof (induction exits arbitrary: run)
  case (Cons e exits)
  obtain mid where mid: "exitOne opts cb e run = Inr mid" "exitLoop opts cb exits mid = Inr run'"
    using Cons.prems by (auto split: sum.splits)
  obtain a where a: "xr_signals mid = xr_signals run @ [exitSignalRecord (xo_timestamp opts) e]"
    "xr_trades mid = xr_trades run @ a" "Ball (set a) (from_close (md_prices (xo_marketData opts)))"
    "(\<lambda>(t, c, _). (t, c)) ` set a \<subseteq> {(xo_timestamp opts, xs_coinId e)}"
    using exitOne_trades [OF mid(1) assms(2,3)] by blast
  obtain b where b: "xr_signals run' = xr_signals mid @ map (exitSignalRecord (xo_timestamp opts)) exits"
    "xr_trades run' = xr_trades mid @ b" "Ball (set b) (from_close (md_prices (xo_marketData opts)))"
    "(\<lambda>(t, c, _). (t, c)) ` set b \<subseteq> (\<lambda>e. (xo_timestamp opts, xs_coinId e)) ` set exits"
    using Cons.IH [OF mid(2)] by blast
  show ?case
    by (intro conjI exI [of _ "a @ b"]) (use a b in auto)
qed simp

section \<open>Properties\<close>

text \<open>The exits of a bar are not filled at their levels. For every exit that the tracker reports, the
  signal is recorded at the level of the stop or the profit target, but the trade is priced off the
  close of the bar: a stop that the low of the bar has touched is sold at a close above it, and a
  target that the high has touched at a close below it.\<close>

lemma exits_fill_at_close:
  fixes opts cb run D exits
  assumes "processExitSignals opts cb run = Inr run'" "cb_executeTradeFn cb = executeTrade D" "xo_fullFidelity opts"
  shows "\<exists>exits new. xr_signals run' = xr_signals run @ map (exitSignalRecord (xo_timestamp opts)) exits \<and>
    xr_trades run' = xr_trades run @ new \<and>
    (\<forall>(t, c, trade) \<in> set new.
       (\<exists>e \<in> set exits. xs_coinId e = c \<and> bs_price (exitSignalRecord t e) = Some (xs_executionPrice e)) \<and>
       (\<exists>close m s cf bps hold req. map_get (md_prices (xo_marketData opts)) c = Some close \<and>
          bt_metadata trade = Executed m s cf (Finite close) bps hold req \<and>
          bt_price trade = applySlippage close bps False))"
proof (cases "ExitTracker_size (xr_exitTracker run) = 0")
  case True
  then show ?thesis using assms(1) by (intro exI [of _ "[]"]) (simp add: processExitSignals_def)
next
  case False
  then obtain exits tracker where loop: "exitLoop opts cb exits (run\<lparr>xr_exitTracker := tracker\<rparr>) = Inr run'"
    using assms(1) by (auto simp: processExitSignals_def Let_def case_prod_unfold)
  obtain new where new: "xr_signals run' = xr_signals run @ map (exitSignalRecord (xo_timestamp opts)) exits"
    "xr_trades run' = xr_trades run @ new" "Ball (set new) (from_close (md_prices (xo_marketData opts)))"
    "(\<lambda>(t, c, _). (t, c)) ` set new \<subseteq> (\<lambda>e. (xo_timestamp opts, xs_coinId e)) ` set exits"
    using exitLoop_trades [OF loop assms(2,3)] by auto
  show ?thesis
    by (rule exI [of _ exits], rule exI [of _ new])
      (use new in \<open>force simp: from_close_def exitSignalRecord_def\<close>)
qed

text \<open>A bar that opens at 100, falls to 94 and closes at 105, and a coin bought at 100 with a stop at 95.\<close>

definition stop_bar :: "SlippageConfig \<Rightarrow> number option \<Rightarrow> ProcessExitSignalsOptions" where
  "stop_bar slippage volume =
     \<lparr>xo_currentPrices = [\<lparr>cd_coinId = ''btc'', cd_timestamp = 0, cd_open = 100, cd_high = 108, cd_low = 94,
        cd_close = 105, cd_volume = None, cd_quoteVolume = volume\<rparr>],
      xo_marketData = \<lparr>md_timestamp = 0, md_prices = [(''btc'', 105)]\<rparr>, xo_tradingFee = 0, xo_timestamp = 0,
      xo_slippageConfig = Some slippage, xo_maxAllocation = None, xo_minAllocation = None, xo_fullFidelity = True,
      xo_prevCandleMap = None, xo_currentBar = 0\<rparr>"

definition stop_callbacks :: ProcessExitSignalsCallbacks where
  "stop_callbacks = \<lparr>cb_executeTradeFn = executeTrade exactDecimal, cb_extractDailyVolumeFn = extractDailyVolume,
     cb_buildSpreadContextFn = buildSpreadContext\<rparr>"

definition stop_run :: ExitRun where
  "stop_run = \<lparr>xr_exitTracker = onBuy (ExitTracker_new DEFAULT_BACKTEST_EXIT_CONFIG) ''btc'' 100 2 None None,
     xr_portfolio = (Portfolio_initialize 0)\<lparr>po_positions := [(''btc'', plainPosition ''btc'' 2 100 200)],
       po_totalValue := 200\<rparr>, xr_trades = [], xr_signals = [], xr_fills = []\<rparr>"

definition stop_exit :: ExitSignal where
  "stop_exit = \<lparr>xs_coinId = ''btc'', xs_quantity = 2, xs_exitType = STOP_LOSS_EXIT, xs_executionPrice = 95,
     xs_metadata = StopLossMeta 100 95 94\<rparr>"

lemma stop_exits:
  "snd (checkExits (xr_exitTracker stop_run) [(''btc'', 105)] [(''btc'', 94)] [(''btc'', 108)] bar) = [stop_exit]"
  "ExitTracker_size (xr_exitTracker stop_run) = 1"
  by (simp_all add: stop_run_def stop_exit_def onBuy_def ExitTracker_new_def openTracked_def checkExits_def checkEntry_def
      checkPosition_def registerExitCooldown_def DEFAULT_BACKTEST_EXIT_CONFIG_def calculateStopLossPrice_def
      ExitTracker_size_def map_set_def Let_def)

section \<open>Partial exits\<close>

lemma partial_quantity_less:
  assumes "fa_fillStatus (assessFillability (q * p) p d c) = PARTIAL" "0 < q" "0 \<le> p" "sane_slippage c"
  shows "fa_fillableQuantity (assessFillability (q * p) p d c) < q"
proof -
  have "l * x / p < q" if "l < q * p / x" "usableVolume d = Some x" "sl_participationRateLimit c = Some l" for l x
  proof -
    have "0 \<le> l" "0 < x" using assms(4) that usableVolume_pos [OF that(2)] by (auto simp: sane_slippage_def)
    then show ?thesis using that(1) assms(2,3) by (cases "p = 0") (simp_all add: field_simps)
  qed
  then show ?thesis
    using assms(1) by (auto simp: assessFillability_def Slippage_buildConfig_def Let_def
        split: option.splits if_splits)
qed

lemma partial_fill_less:
  assumes "applySlippageAndFill ctx q False quantityCap = Inr (Inr f)" "sf_fillStatus f = PARTIAL"
    and "ct_basePrice ctx = Finite m" "0 < m" "0 < q"
    and "sane_slippage (ct_slippageConfig ctx)" "nullish (sl_maxSlippageBps (ct_slippageConfig ctx)) 500 \<le> 10000"
  shows "sf_quantity f < q"
proof -
  obtain r where r: "calculateSlippage \<lparr>li_price = Finite m, li_quantity = q, li_isBuy = False,
      li_dailyVolume = ct_dailyVolume ctx, li_spreadContext = ct_spreadContext ctx\<rparr> (ct_slippageConfig ctx) = Inr r"
    and f: "fa_fillStatus (assessFillability (q * lr_executionPrice r) (lr_executionPrice r) (ct_dailyVolume ctx)
        (ct_slippageConfig ctx)) = PARTIAL"
      "sf_quantity f \<le> fa_fillableQuantity (assessFillability (q * lr_executionPrice r) (lr_executionPrice r)
        (ct_dailyVolume ctx) (ct_slippageConfig ctx))"
    using assms(1-3) by (auto simp: applySlippageAndFill_def Let_def split: sum.splits if_splits)
  then show ?thesis
    using partial_quantity_less [OF f(1) assms(5) _ assms(6)] slippage_price(1) [OF r assms(6,7,4)] assms(5) by linarith
qed

lemma partial_sale:
  assumes "executeSell ctx P = Inr (Acted a R)" "sf_fillStatus a = PARTIAL"
    and "map_get (po_positions P) (sg_coinId (ct_signal ctx)) = Some held" "ct_basePrice ctx = Finite m" "0 < m"
    and "sane_slippage (ct_slippageConfig ctx)" "nullish (sl_maxSlippageBps (ct_slippageConfig ctx)) 500 \<le> 10000"
    and "0 < fst (calculateSellQuantity (ct_signal ctx) (pos_quantity held))"
  shows "sf_quantity a < fst (calculateSellQuantity (ct_signal ctx) (pos_quantity held))"
proof -
  obtain f where "applySlippageAndFill ctx (fst (calculateSellQuantity (ct_signal ctx) (pos_quantity held))) False
      (Some (pos_quantity held)) = Inr (Inr f)" "sf_quantity a = sf_quantity f" "sf_fillStatus f = PARTIAL"
    using assms(1-3) by (auto simp: executeSell_def withFill_def Let_def case_prod_unfold calculateLongPnL_def
        actionResult_def SlippageFillResult.defs split: if_splits sum.splits)
  then show ?thesis
    using partial_fill_less [OF _ _ assms(4,5,8,6,7)] by simp
qed

lemma untracked_silent:
  assumes "map_get (xt_positions tracker) c = None"
  shows "c \<notin> xs_coinId ` set (snd (checkExits tracker closes lows highs bar))"
proof -
  obtain tracker' exits where check: "checkExits tracker closes lows highs bar = (tracker', exits)" by force
  then show ?thesis
    using assms checkExits_parts(4) [OF check]
    by (force simp: set_map_filter_iff map_get_def map_of_eq_None_iff dest!: entryOutcome_signal_coin)
qed

text \<open>A stop that fills in part is forgotten. When the volume limit cuts the sale of an exit, a part
  of the position stays in the portfolio, yet its coin leaves the exit tracker, so no stop, target
  or trailing stop is ever reported for the rest of the position.\<close>

lemma partial_exit_leaves_rest_unwatched:
  fixes opts cb e run P Q r c
  defines "c \<equiv> xs_coinId e" and "P \<equiv> xr_portfolio run"
  assumes "exitOne opts cb e run = Inr run'" "cb_executeTradeFn cb = executeTrade D"
    and "executeTrade D (exitParams opts cb e) P = (Inr (Some r), Q)" "et_fillStatus r = PARTIAL"
    and "map_get (po_positions P) c = Some held" "0 < pos_quantity held" "0 < xs_quantity e"
    and "map_get (md_prices (xo_marketData opts)) c = Some close" "0 < close"
    and "sane_slippage (nullish (xo_slippageConfig opts) DEFAULT_SLIPPAGE_CONFIG)"
    and "nullish (sl_maxSlippageBps (nullish (xo_slippageConfig opts) DEFAULT_SLIPPAGE_CONFIG)) 500 \<le> 10000"
  shows "(\<exists>rest. map_get (po_positions (xr_portfolio run')) c = Some rest \<and> 0 < pos_quantity rest) \<and>
    (\<forall>closes lows highs bar. c \<notin> xs_coinId ` set (snd (checkExits (xr_exitTracker run') closes lows highs bar)))"
proof -
  have run': "xr_portfolio run' = Q" "xr_exitTracker run' = removePosition (xr_exitTracker run) c"
    using assms by (auto simp: exitOne_def recordExit_def Let_def)
  obtain a R fee where r: "executeSell (tradeContext (exitParams opts cb e) close) P = Inr (Acted a R)"
      "r = tradeRecord (tradeContext (exitParams opts cb e) close) a fee" "po_positions Q = po_positions R"
    by (rule executeTrade_sold [OF assms(5)]) (use assms in auto)
  define q where "q = fst (calculateSellQuantity (exitTradingSignal (xo_fullFidelity opts) e) (pos_quantity held))"
  have q: "0 < q" "q \<le> pos_quantity held"
    using assms by (auto simp: q_def calculateSellQuantity_def truthy_def Let_def)
  have less: "sf_quantity a < q"
    using partial_sale [OF r(1), of held close] assms q by (simp add: q_def tradeContext_exit r(2) tradeRecord_def Let_def)
  obtain f where "sf_quantity a = sf_quantity f" "po_positions R =
      (if pos_quantity held = sf_quantity f then map_delete c (po_positions P) else map_set c (soldPart held f) (po_positions P))"
    by (rule executeSell_result [OF r(1)]) (use assms in \<open>auto simp: tradeContext_exit\<close>)
  then have "map_get (po_positions Q) c = Some (soldPart held f) \<and> 0 < pos_quantity (soldPart held f)"
    using less q by (simp add: r(3) soldPart_def)
  then show ?thesis
    using untracked_silent [of "xr_exitTracker run'" c] by (auto simp: run' removePosition_def)
qed

end
