(* ===== verification/Regime.thy ===== *)
theory Regime
  imports SignalFilters PriceWindow PortfolioState BacktestMetrics TradeExecutor
begin

text \<open>
  The market regime of a bar (\<^verbatim>\<open>order/backtest/shared/regime/composite-regime.service.ts\<close>) from the
  volatility of Bitcoin (\<^verbatim>\<open>market-regime/volatility.calculator.ts\<close>) and its average, and the regime
  gate with its sizing applied to the signals of a bar.
\<close>

section \<open>Volatility\<close>

datatype VolatilityMethod = STANDARD_METHOD | EXPONENTIAL_METHOD | PARKINSON_METHOD

record VolatilityConfig =
  vc_rollingDays :: nat
  vc_lookbackDays :: nat
  vc_annualizationFactor :: number
  vc_method :: VolatilityMethod

definition DEFAULT_VOLATILITY_CONFIG :: VolatilityConfig where
  "DEFAULT_VOLATILITY_CONFIG =
     \<lparr>vc_rollingDays = 30, vc_lookbackDays = 365, vc_annualizationFactor = 365, vc_method = STANDARD_METHOD\<rparr>"

datatype VolatilityError = InsufficientData nat nat

text \<open>\<^verbatim>\<open>calculateReturns\<close>: a step from a price of zero has no return.\<close>

definition priceReturns :: "number list \<Rightarrow> number list" where
  "priceReturns prices =
     List.map_filter (\<lambda>i. if prices ! (i - 1) \<noteq> 0 then Some ((prices ! i - prices ! (i - 1)) / prices ! (i - 1)) else None)
       [1..<length prices]"

definition calculateStandardVolatility :: "number list \<Rightarrow> number" where
  "calculateStandardVolatility returns =
     (if length returns = 0 then 0
      else let mean = reduceSum returns / real (length returns);
               squaredDiffs = map (\<lambda>ret. (ret - mean)\<^sup>2) returns
           in sqrt (reduceSum squaredDiffs / real (length returns)))"

definition calculateExponentialVolatility :: "number list \<Rightarrow> number \<Rightarrow> number" where
  "calculateExponentialVolatility returns decay =
     (if length returns = 0 then 0
      else let mean = reduceSum returns / real (length returns);
               weight = (\<lambda>i. decay ^ (length returns - 1 - i));
               (weightedVariance, totalWeight) =
                 foldl (\<lambda>(v, w) i. (v + weight i * (returns ! i - mean)\<^sup>2, w + weight i)) (0, 0) [0..<length returns]
           in sqrt (weightedVariance / totalWeight))"

definition calculateParkinsonVolatility :: "number list \<Rightarrow> number" where
  "calculateParkinsonVolatility prices =
     (if length prices < 2 then 0
      else let sumSquaredLogs = foldl (\<lambda>total i.
                 let high = max (prices ! (i - 1)) (prices ! i); low = min (prices ! (i - 1)) (prices ! i)
                 in if low > 0 then total + (ln (high / low))\<^sup>2 else total) 0 [1..<length prices]
           in sqrt (sumSquaredLogs / (4 * ln 2 * real (length prices - 1))))"

definition calculateRealizedVolatility :: "number list \<Rightarrow> VolatilityConfig \<Rightarrow> VolatilityError + number" where
  "calculateRealizedVolatility prices config =
     (if length prices < vc_rollingDays config + 1 then Inl (InsufficientData (vc_rollingDays config + 1) (length prices))
      else let recentReturns = take_last (vc_rollingDays config) (priceReturns prices);
               volatility =
                 (case vc_method config of
                    STANDARD_METHOD \<Rightarrow> calculateStandardVolatility recentReturns
                  | EXPONENTIAL_METHOD \<Rightarrow> calculateExponentialVolatility recentReturns (94 / 100)
                  | PARKINSON_METHOD \<Rightarrow> calculateParkinsonVolatility (take_last (vc_rollingDays config + 1) prices))
           in Inr (volatility * sqrt (vc_annualizationFactor config)))"

definition Volatility_calculatePercentile :: "number \<Rightarrow> number list \<Rightarrow> VolatilityConfig \<Rightarrow> VolatilityError + number" where
  "Volatility_calculatePercentile currentVolatility prices config =
     (if length prices < vc_lookbackDays config then Inl (InsufficientData (vc_lookbackDays config) (length prices))
      else let n = vc_rollingDays config;
               historicalVolatilities = map (\<lambda>i. calculateStandardVolatility
                 (priceReturns (take (n + 1) (drop (i - n) prices))) * sqrt (vc_annualizationFactor config)) [n..<length prices];
               lowerCount = length (filter (\<lambda>vol. vol < currentVolatility) historicalVolatilities)
           in Inr (real lowerCount / real (length historicalVolatilities) * 100))"

section \<open>The regime of a bar\<close>

definition REGIME_SMA_PERIOD :: int where
  "REGIME_SMA_PERIOD = 200"

record CompositeRegimeResult =
  cr_compositeRegime :: CompositeRegimeType
  cr_volatilityRegime :: MarketRegimeType

definition summaryPrice :: "PriceSummary \<Rightarrow> number" where
  "summaryPrice p = nullish (ps_close p) (ps_avg p)"

definition barVolatilityRegime :: "number list \<Rightarrow> MarketRegimeType" where
  "barVolatilityRegime btcCloses =
     (let config = DEFAULT_VOLATILITY_CONFIG
      in if length btcCloses < vc_rollingDays config + 1 then NORMAL
         else case calculateRealizedVolatility btcCloses config of
                Inl e \<Rightarrow> NORMAL
              | Inr realizedVol \<Rightarrow>
                  if length btcCloses < vc_lookbackDays config then NORMAL
                  else case Volatility_calculatePercentile realizedVol btcCloses config of
                         Inl e \<Rightarrow> NORMAL | Inr percentile \<Rightarrow> determineVolatilityRegime percentile)"

definition computeCompositeRegime :: "string \<Rightarrow> PriceTrackingContext \<Rightarrow> CompositeRegimeResult option" where
  "computeCompositeRegime btcCoinId priceCtx =
     (case map_get (pt_windowsByCoin priceCtx) btcCoinId of
        None \<Rightarrow> None
      | Some btcWindow \<Rightarrow>
          if RingBuffer_length btcWindow < REGIME_SMA_PERIOD then None
          else case (case pt_btcRegimeSma priceCtx of
                       None \<Rightarrow> None
                     | Some sma \<Rightarrow> if IncrementalSma_filled sma then IncrementalSma_value sma else None) of
                 None \<Rightarrow> None
               | Some sma200 \<Rightarrow>
                   (case RingBuffer_last btcWindow of
                      None \<Rightarrow> None
                    | Some lastEntry \<Rightarrow>
                        let trendAboveSma = (summaryPrice lastEntry > sma200);
                            volatilityRegime = barVolatilityRegime
                              (RingBuffer_mapToArray (\<lambda>p. summaryPrice (the p)) btcWindow)
                        in Some \<lparr>cr_compositeRegime = classifyCompositeRegime volatilityRegime trendAboveSma,
                                 cr_volatilityRegime = volatilityRegime\<rparr>))"

record RegimeConfig =
  rg_enableRegimeScaledSizing :: bool
  rg_riskLevel :: number
  rg_regimeGateEnabled :: bool
  rg_btcCoin :: "Coin option"

definition resolveRegimeConfig :: "bool option \<Rightarrow> bool option \<Rightarrow> number option \<Rightarrow> Coin list \<Rightarrow> RegimeConfig" where
  "resolveRegimeConfig enableRegimeGate enableRegimeScaledSizing riskLevel coins =
     (let scaled = (enableRegimeScaledSizing \<noteq> Some False);
          risk = nullish riskLevel DEFAULT_RISK_LEVEL;
          gated = nullish enableRegimeGate (risk \<le> 2)
      in \<lparr>rg_enableRegimeScaledSizing = scaled, rg_riskLevel = risk, rg_regimeGateEnabled = gated,
          rg_btcCoin = (if gated \<or> scaled then find (\<lambda>c. toUpperCase (coin_symbol c) = ''BTC'') coins else None)\<rparr>)"

definition resolveRegimeConfigForOptimization ::
    "bool option \<Rightarrow> bool option \<Rightarrow> number option \<Rightarrow> Coin list \<Rightarrow> PriceTrackingContext \<Rightarrow>
     string + RegimeConfig \<times> PriceTrackingContext" where
  "resolveRegimeConfigForOptimization enableRegimeGate enableRegimeScaledSizing riskLevel coins priceCtx =
     (let result = resolveRegimeConfig enableRegimeGate enableRegimeScaledSizing riskLevel coins
      in case rg_btcCoin result of
           None \<Rightarrow> Inr (result, priceCtx)
         | Some btcCoin \<Rightarrow>
             (case IncrementalSma_new REGIME_SMA_PERIOD of
                Inl e \<Rightarrow> Inl e
              | Inr sma \<Rightarrow> Inr (result, priceCtx\<lparr>pt_btcRegimeSma := Some sma, pt_btcCoinId := Some (coin_id btcCoin)\<rparr>)))"

section \<open>The gate of a bar\<close>

definition buildConcentrationContext :: "Portfolio \<Rightarrow> MarketData \<Rightarrow> ConcentrationContext option" where
  "buildConcentrationContext portfolio marketData =
     (if length (po_positions portfolio) > 0
      then Some \<lparr>cc_portfolioPositions = map (\<lambda>(c, p). (c, \<lparr>hp_quantity = pos_quantity p,
               hp_averagePrice = pos_averagePrice p\<rparr>)) (po_positions portfolio),
             cc_portfolioTotalValue = po_totalValue portfolio, cc_currentPrices = Some (md_prices marketData)\<rparr>
      else None)"

fun signalTypeText :: "SignalType \<Rightarrow> string" where
  "signalTypeText BUY = ''BUY''"
| "signalTypeText SELL = ''SELL''"
| "signalTypeText HOLD = ''HOLD''"
| "signalTypeText STOP_LOSS = ''STOP_LOSS''"
| "signalTypeText TAKE_PROFIT = ''TAKE_PROFIT''"
| "signalTypeText SHORT_ENTRY = ''SHORT_ENTRY''"
| "signalTypeText SHORT_EXIT = ''SHORT_EXIT''"

text \<open>A trading signal as the filters see it.\<close>

record FilteredSignal = FilterableSignal +
  fs_signal :: TradingSignal

definition filterable :: "TradingSignal \<Rightarrow> FilteredSignal" where
  "filterable s =
     \<lparr>fs_action = actionText (sg_action s), fs_originalType = map_option signalTypeText (sg_originalType s),
      fs_coinId = Some (sg_coinId s), fs_signal = s\<rparr>"

record BarRegimeResult =
  bg_filteredSignals :: "TradingSignal list"
  bg_barMaxAllocation :: number
  bg_barMinAllocation :: number

definition applyBarRegime ::
    "TradingSignal list \<Rightarrow> PriceTrackingContext \<Rightarrow> RegimeConfig \<Rightarrow> ConcentrationContext option \<Rightarrow> Allocation \<Rightarrow>
     CompositeRegimeResult option option \<Rightarrow> BarRegimeResult" where
  "applyBarRegime strategySignals priceCtx regimeConfig concentrationContext allocationLimits precomputedRegime =
     (let unchanged = \<lparr>bg_filteredSignals = strategySignals, bg_barMaxAllocation = al_maxAllocation allocationLimits,
            bg_barMinAllocation = al_minAllocation allocationLimits\<rparr>
      in case rg_btcCoin regimeConfig of
           None \<Rightarrow> unchanged
         | Some btcCoin \<Rightarrow>
             if strategySignals = [] then unchanged
             else case nullish precomputedRegime (computeCompositeRegime (coin_id btcCoin) priceCtx) of
                    None \<Rightarrow> unchanged
                  | Some regimeResult \<Rightarrow>
                      let result = SignalFilterChain_apply (map filterable strategySignals)
                            \<lparr>fc_compositeRegime = cr_compositeRegime regimeResult, fc_riskLevel = rg_riskLevel regimeConfig,
                             fc_regimeGateEnabled = rg_regimeGateEnabled regimeConfig,
                             fc_regimeScaledSizingEnabled = rg_enableRegimeScaledSizing regimeConfig,
                             fc_tradingContext = Some BACKTEST, fc_overrideActive = None,
                             fc_concentrationContext = concentrationContext\<rparr> allocationLimits
                      in \<lparr>bg_filteredSignals = map fs_signal (fr_signals result),
                          bg_barMaxAllocation = fr_maxAllocation result, bg_barMinAllocation = fr_minAllocation result\<rparr>)"

end
