(* ===== verification/MultiTimeframe.thy ===== *)
theory MultiTimeframe
  imports PriceWindow
begin

text \<open>
  The aggregation of hourly candles into bars of four hours, days and weeks
  (\<^verbatim>\<open>order/backtest/shared/price-window/multi-timeframe-aggregator.service.ts\<close>), and what the windows
  of \<open>PriceWindow\<close> show of them while a backtest runs.
\<close>

section \<open>Buckets\<close>

definition HOUR_MS :: time_ms where "HOUR_MS = 60 * 60 * 1000"
definition FOUR_HOUR_MS :: time_ms where "FOUR_HOUR_MS = 4 * HOUR_MS"
definition BUCKET_DAY_MS :: time_ms where "BUCKET_DAY_MS = 24 * HOUR_MS"
definition WEEK_MS :: time_ms where "WEEK_MS = 7 * BUCKET_DAY_MS"

text \<open>The hourly bars of a bucket; the table has no entry for the hourly feed itself.\<close>

fun EXPECTED_BUCKET_SIZE :: "PriceTimeframe \<Rightarrow> nat option" where
  "EXPECTED_BUCKET_SIZE HOURLY = None"
| "EXPECTED_BUCKET_SIZE FOUR_HOUR = Some 4"
| "EXPECTED_BUCKET_SIZE DAILY = Some 24"
| "EXPECTED_BUCKET_SIZE WEEKLY = Some 168"

text \<open>Weeks start on Monday: the first of January 1970 was a Thursday.\<close>

fun bucketKey :: "time_ms \<Rightarrow> PriceTimeframe \<Rightarrow> int" where
  "bucketKey timestampMs FOUR_HOUR = timestampMs div FOUR_HOUR_MS"
| "bucketKey timestampMs DAILY = timestampMs div BUCKET_DAY_MS"
| "bucketKey timestampMs WEEKLY = (timestampMs - 4 * BUCKET_DAY_MS) div WEEK_MS"
| "bucketKey timestampMs HOURLY = timestampMs div HOUR_MS"

fun bucketStart :: "int \<Rightarrow> PriceTimeframe \<Rightarrow> time_ms" where
  "bucketStart key FOUR_HOUR = key * FOUR_HOUR_MS"
| "bucketStart key DAILY = key * BUCKET_DAY_MS"
| "bucketStart key WEEKLY = key * WEEK_MS + 4 * BUCKET_DAY_MS"
| "bucketStart key HOURLY = key * HOUR_MS"

record Bucket =
  bk_currentKey :: int
  bk_currentStart :: time_ms
  bk_currentOpen :: number
  bk_currentHigh :: number
  bk_currentLow :: number
  bk_currentClose :: number
  bk_currentVolume :: number
  bk_currentHasVolume :: bool
  bk_currentCount :: nat
  bk_currentCoin :: string

text \<open>\<^verbatim>\<open>emitCurrent\<close>; an empty coin id is falsy. An open bucket has its open, close and bounds.\<close>

definition emitCurrent :: "Bucket \<Rightarrow> PriceSummary list" where
  "emitCurrent b =
     (if bk_currentCount b = 0 \<or> bk_currentCoin b = '''' then []
      else [\<lparr>ps_avg = bk_currentClose b, ps_coin = bk_currentCoin b, ps_date = bk_currentStart b,
             ps_high = bk_currentHigh b, ps_low = bk_currentLow b, ps_open = Some (bk_currentOpen b),
             ps_close = Some (bk_currentClose b),
             ps_volume = (if bk_currentHasVolume b then Some (bk_currentVolume b) else None)\<rparr>])"

definition openBucket :: "PriceTimeframe \<Rightarrow> PriceSummary \<Rightarrow> Bucket" where
  "openBucket timeframe summary =
     (let key = bucketKey (ps_date summary) timeframe
      in \<lparr>bk_currentKey = key, bk_currentStart = bucketStart key timeframe,
          bk_currentOpen = nullish (ps_open summary) (ps_avg summary), bk_currentHigh = ps_high summary,
          bk_currentLow = ps_low summary, bk_currentClose = nullish (ps_close summary) (ps_avg summary),
          bk_currentVolume = 0, bk_currentHasVolume = False, bk_currentCount = 0,
          bk_currentCoin = ps_coin summary\<rparr>)"

definition extendBucket :: "PriceSummary \<Rightarrow> Bucket \<Rightarrow> Bucket" where
  "extendBucket summary b =
     b\<lparr>bk_currentHigh := (if ps_high summary > bk_currentHigh b then ps_high summary else bk_currentHigh b),
       bk_currentLow := (if ps_low summary < bk_currentLow b then ps_low summary else bk_currentLow b),
       bk_currentClose := nullish (ps_close summary) (ps_avg summary)\<rparr>"

definition countSummary :: "PriceSummary \<Rightarrow> Bucket \<Rightarrow> Bucket" where
  "countSummary summary b =
     (let counted = b\<lparr>bk_currentCount := bk_currentCount b + 1\<rparr>
      in case ps_volume summary of
           None \<Rightarrow> counted
         | Some volume \<Rightarrow> counted\<lparr>bk_currentVolume := bk_currentVolume b + volume, bk_currentHasVolume := True\<rparr>)"

definition flushBucket :: "nat \<Rightarrow> Bucket option \<Rightarrow> PriceSummary list" where
  "flushBucket expectedSize current =
     (case current of None \<Rightarrow> [] | Some b \<Rightarrow> if bk_currentCount b \<ge> expectedSize then emitCurrent b else [])"

definition aggregateStep ::
    "PriceTimeframe \<Rightarrow> nat \<Rightarrow> PriceSummary list \<times> Bucket option \<Rightarrow> PriceSummary \<Rightarrow> PriceSummary list \<times> Bucket option" where
  "aggregateStep timeframe expectedSize = (\<lambda>(buckets, current) summary.
     if map_option bk_currentKey current \<noteq> Some (bucketKey (ps_date summary) timeframe)
     then (buckets @ flushBucket expectedSize current, Some (countSummary summary (openBucket timeframe summary)))
     else (buckets, map_option (\<lambda>b. countSummary summary (extendBucket summary b)) current))"

definition aggregateCoin :: "PriceSummary list \<Rightarrow> PriceTimeframe \<Rightarrow> PriceSummary list" where
  "aggregateCoin summaries timeframe =
     (if length summaries = 0 then []
      else case EXPECTED_BUCKET_SIZE timeframe of
             None \<Rightarrow> summaries
           | Some expectedSize \<Rightarrow>
               let (buckets, current) = foldl (aggregateStep timeframe expectedSize) ([], None) summaries
               in buckets @ flushBucket expectedSize current)"

definition aggregate :: "(string, PriceSummary list) jsmap \<Rightarrow> PriceTimeframe list \<Rightarrow> AggregatedTimeframes" where
  "aggregate summariesByCoin timeframes =
     foldl (\<lambda>result tf.
              if tf = HOURLY then result
              else map_set tf (foldl (\<lambda>perCoin (coinId, summaries). map_set coinId (aggregateCoin summaries tf) perCoin)
                                 [] summariesByCoin) result)
       [] timeframes"

section \<open>Runs of one bucket\<close>

text \<open>The specification: a series is cut into its longest runs of one bucket, and a run is complete
  when it has the expected number of bars.\<close>

function keyRuns :: "('a \<Rightarrow> 'k) \<Rightarrow> 'a list \<Rightarrow> 'a list list" where
  "keyRuns k [] = []"
| "keyRuns k (x # xs) = (x # takeWhile (\<lambda>y. k y = k x) xs) # keyRuns k (dropWhile (\<lambda>y. k y = k x) xs)"
  by pat_completeness auto
termination
  by (relation "measure (length \<circ> snd)") (auto simp: le_imp_less_Suc length_dropWhile_le)

definition runCandle :: "PriceTimeframe \<Rightarrow> PriceSummary list \<Rightarrow> PriceSummary" where
  "runCandle timeframe r =
     (let volumes = List.map_filter ps_volume r
      in \<lparr>ps_avg = close_or_avg (last r), ps_coin = ps_coin (hd r),
          ps_date = bucketStart (bucketKey (ps_date (hd r)) timeframe) timeframe,
          ps_high = Max (set (map ps_high r)), ps_low = Min (set (map ps_low r)),
          ps_open = Some (nullish (ps_open (hd r)) (ps_avg (hd r))), ps_close = Some (close_or_avg (last r)),
          ps_volume = (if volumes = [] then None else Some (sum_list volumes))\<rparr>)"

definition completeRun :: "nat \<Rightarrow> PriceSummary list \<Rightarrow> bool" where
  "completeRun n r \<longleftrightarrow> n \<le> length r \<and> ps_coin (hd r) \<noteq> ''''"

definition bucketOf :: "PriceTimeframe \<Rightarrow> PriceSummary list \<Rightarrow> Bucket" where
  "bucketOf timeframe r =
     (let c = runCandle timeframe r
      in \<lparr>bk_currentKey = bucketKey (ps_date (hd r)) timeframe, bk_currentStart = ps_date c,
          bk_currentOpen = the (ps_open c), bk_currentHigh = ps_high c, bk_currentLow = ps_low c,
          bk_currentClose = ps_avg c, bk_currentVolume = nullish (ps_volume c) 0,
          bk_currentHasVolume = (ps_volume c \<noteq> None), bk_currentCount = length r,
          bk_currentCoin = ps_coin c\<rparr>)"

lemma openBucket_single: "countSummary x (openBucket tf x) = bucketOf tf [x]"
  by (simp add: countSummary_def openBucket_def bucketOf_def runCandle_def Let_def List.map_filter_def split: option.splits)

lemma extendBucket_snoc:
  assumes "r \<noteq> []"
  shows "countSummary x (extendBucket x (bucketOf tf r)) = bucketOf tf (r @ [x])"
proof -
  let ?v = "List.map_filter ps_volume"
  have bounds: "Max (insert (ps_high x) (ps_high ` set r)) = (if ps_high x > Max (ps_high ` set r) then ps_high x else Max (ps_high ` set r))"
    "Min (insert (ps_low x) (ps_low ` set r)) = (if ps_low x < Min (ps_low ` set r) then ps_low x else Min (ps_low ` set r))"
    using assms Max_insert [of "ps_high ` set r" "ps_high x"] Min_insert [of "ps_low ` set r" "ps_low x"]
    by (auto simp add: max_def min_def simp del: Max_insert Min_insert Max_less_iff Min_gr_iff Min_less_iff Min_ge_iff Max_ge_iff Max_le_iff)
  have volumes: "?v (r @ [x]) = ?v r @ (case ps_volume x of None \<Rightarrow> [] | Some v \<Rightarrow> [v])"
    by (simp add: List.map_filter_def split: option.split)
  show ?thesis
    by (cases "ps_volume x"; cases "?v r = []")
      (simp_all add: countSummary_def extendBucket_def bucketOf_def runCandle_def Let_def volumes bounds assms del: Max_insert Min_insert Max_less_iff Min_gr_iff Min_less_iff)
qed

lemma emit_bucketOf: "r \<noteq> [] \<Longrightarrow> flushBucket n (Some (bucketOf tf r)) = (if completeRun n r then [runCandle tf r] else [])"
  by (simp add: flushBucket_def emitCurrent_def bucketOf_def completeRun_def runCandle_def Let_def)

lemma aggregate_runs:
  fixes tf
  assumes "r \<noteq> []"
  defines "k \<equiv> \<lambda>s. bucketKey (ps_date s) tf"
  shows "(let (buckets, current) = foldl (aggregateStep tf n) (bs, Some (bucketOf tf r)) xs
      in buckets @ flushBucket n current) =
    bs @ map (runCandle tf) (filter (completeRun n)
      ((r @ takeWhile (\<lambda>y. k y = k (hd r)) xs) # keyRuns k (dropWhile (\<lambda>y. k y = k (hd r)) xs)))"
  using assms(1)
proof (induction xs arbitrary: bs r)
  case (Cons x xs)
  show ?case
  proof (cases "k x = k (hd r)")
    case True
    then have "aggregateStep tf n (bs, Some (bucketOf tf r)) x = (bs, Some (bucketOf tf (r @ [x])))"
      using extendBucket_snoc [OF Cons.prems] by (simp add: aggregateStep_def k_def bucketOf_def Let_def)
    then show ?thesis using Cons.IH [of "r @ [x]" bs] Cons.prems True by simp
  next
    case False
    then have "aggregateStep tf n (bs, Some (bucketOf tf r)) x =
        (bs @ flushBucket n (Some (bucketOf tf r)), Some (bucketOf tf [x]))"
      by (simp add: aggregateStep_def k_def openBucket_single) (simp add: bucketOf_def Let_def)
    then show ?thesis using Cons.IH [of "[x]" "bs @ flushBucket n (Some (bucketOf tf r))"] Cons.prems False
      by (simp add: emit_bucketOf)
  qed
qed (simp add: emit_bucketOf)

lemma aggregateCoin_runs:
  assumes "EXPECTED_BUCKET_SIZE tf = Some n"
  shows "aggregateCoin summaries tf =
    map (runCandle tf) (filter (completeRun n) (keyRuns (\<lambda>s. bucketKey (ps_date s) tf) summaries))"
proof (cases summaries)
  case (Cons x xs)
  have "aggregateStep tf n ([], None) x = ([], Some (bucketOf tf [x]))"
    by (simp add: aggregateStep_def openBucket_single flushBucket_def)
  then show ?thesis
    using aggregate_runs [of "[x]" tf n "[]" xs] assms Cons by (simp add: aggregateCoin_def)
qed (simp add: aggregateCoin_def)

section \<open>The windows of the higher timeframes\<close>

text \<open>The data of a bar, as the bar processor advances it.\<close>

definition advanceBar ::
    "PriceTrackingContext \<Rightarrow> Coin list \<Rightarrow> time_ms \<Rightarrow>
     PriceTrackingContext \<times> PriceData \<times> (PriceTimeframe, PriceData) jsmap" where
  "advanceBar ctx coins timestamp =
     (let (ctx1, priceData) = advancePriceWindows ctx coins timestamp;
          (ctx2, priceDataByTimeframe) = advanceMultiTimeframeWindows ctx1 coins timestamp
      in (ctx2, priceData, priceDataByTimeframe))"

definition tfTracks :: "TimeframeTrackingState \<Rightarrow> string \<Rightarrow> PriceSummary list \<Rightarrow> nat \<Rightarrow> nat \<Rightarrow> bool" where
  "tfTracks st c ss n k \<longleftrightarrow>
     map_get (tf_timestampsByCoin st) c = Some (map ps_date ss) \<and> map_get (tf_summariesByCoin st) c = Some ss \<and>
     k \<le> length ss \<and> map_get (tf_indexByCoin st) c = Some (int k - 1) \<and>
     (case map_get (tf_windowsByCoin st) c of None \<Rightarrow> False
      | Some w \<Rightarrow> rb_ok w \<and> rb_size w = n \<and> rb_contents w = take_last n (take k ss))"

lemma advanceTimeframeCoin_other:
  assumes "coin_id coin \<noteq> c" "advanceTimeframeCoin t (st, pd) coin = (st', pd')"
  shows "tfTracks st' c ss n k = tfTracks st c ss n k \<and> map_get pd' c = map_get pd c"
  using assms
  by (auto simp: advanceTimeframeCoin_def tfTracks_def Let_def split: option.splits prod.splits if_splits)

lemma advanceTimeframeCoin_same:
  assumes "tfTracks st c ss n k" "coin_id coin = c" "advanceTimeframeCoin t (st, pd) coin = (st', pd')"
  defines "m \<equiv> reached (map ps_date ss) k t"
  defines "seen \<equiv> take_last n (take m ss)"
  shows "tfTracks st' c ss n m \<and> map_get pd' c = window_result pd c seen"
proof -
  let ?tss = "map ps_date ss"
  from assms(1) obtain w where
    get: "map_get (tf_timestampsByCoin st) c = Some ?tss" "map_get (tf_summariesByCoin st) c = Some ss"
      "map_get (tf_indexByCoin st) c = Some (int k - 1)" "map_get (tf_windowsByCoin st) c = Some w"
    and len: "k \<le> length ss" and w: "rb_ok w" "rb_size w = n" and cont: "rb_contents w = take_last n (take k ss)"
    by (auto simp: tfTracks_def split: option.splits)
  let ?new = "take (m - k) (drop k ss)"
  let ?w = "foldl RingBuffer_push w ?new"
  have "rb_contents ?w = take_last n (take k ss @ ?new)"
    using w cont by (simp add: rb.contents_pushes take_last_append)
  then have w': "rb_ok ?w" "rb_size ?w = n" "rb_contents ?w = seen"
    using w by (simp_all add: rb.ok_pushes rb.size_pushes m_def seen_def take_reached [symmetric])
  have "advanceLoop ?tss ss t False (int k - 1, w, None) = (int m - 1, ?w, None)"
    using len by (simp add: advanceLoop_result m_def reached_def Let_def drop_map takeWhile_map)
  then have "st' = st\<lparr>tf_windowsByCoin := map_set c ?w (tf_windowsByCoin st),
      tf_indexByCoin := map_set c (int m - 1) (tf_indexByCoin st)\<rparr>"
    "pd' = (if RingBuffer_length ?w > 0 then map_set c (RingBuffer_toArray ?w) pd else pd)"
    using assms(2,3) get by (auto simp: advanceTimeframeCoin_def Let_def)
  moreover have "m \<le> length ss" using reached_le [of k ?tss t] len by (simp add: m_def)
  moreover have "RingBuffer_length ?w > 0 \<longleftrightarrow> seen \<noteq> []" "RingBuffer_toArray ?w = map Some seen"
    using w' by (simp_all add: length_contents toArray_contents)
  ultimately show ?thesis
    using get w' w'(3) [unfolded seen_def] by (simp add: tfTracks_def)
qed

lemma advanceTimeframeCoins_tracks:
  assumes "tfTracks st c ss n k" "foldl (advanceTimeframeCoin t) (st, pd) coins = (st', pd')"
  shows "if c \<in> coin_id ` set coins
    then tfTracks st' c ss n (reached (map ps_date ss) k t) \<and>
      map_get pd' c = window_result pd c (take_last n (take (reached (map ps_date ss) k t) ss))
    else tfTracks st' c ss n k \<and> map_get pd' c = map_get pd c"
  using assms(2)
proof (induction coins arbitrary: st' pd' rule: rev_induct)
  case (snoc coin coins)
  obtain st1 pd1 where before: "foldl (advanceTimeframeCoin t) (st, pd) coins = (st1, pd1)"
    by (cases "foldl (advanceTimeframeCoin t) (st, pd) coins")
  with snoc.prems have step: "advanceTimeframeCoin t (st1, pd1) coin = (st', pd')" by simp
  show ?case
  proof (cases "coin_id coin = c")
    case False
    with snoc.IH [OF before] advanceTimeframeCoin_other [OF False step] show ?thesis by auto
  next
    case True
    show ?thesis
    proof (cases "c \<in> coin_id ` set coins")
      case seen: True
      with snoc.IH [OF before] have "tfTracks st1 c ss n (reached (map ps_date ss) k t)" by simp
      from advanceTimeframeCoin_same [OF this True step] snoc.IH [OF before] seen True show ?thesis
        by (simp add: reached_idem)
    next
      case False
      with snoc.IH [OF before] have "tfTracks st1 c ss n k" by simp
      from advanceTimeframeCoin_same [OF this True step] snoc.IH [OF before] False True show ?thesis
        by simp
    qed
  qed
qed (use assms(1) in simp)

definition runTimeframe :: "TimeframeTrackingState \<Rightarrow> Coin list \<Rightarrow> time_ms list \<Rightarrow> TimeframeTrackingState \<times> PriceData" where
  "runTimeframe st coins ts = foldl (\<lambda>(st, _) t. foldl (advanceTimeframeCoin t) (st, []) coins) (st, []) ts"

lemma runTimeframe_tracks:
  assumes "tfTracks st c ss n 0" "sorted (map ps_date ss)" "c \<in> coin_id ` set coins" "ts \<noteq> []"
    "runTimeframe st coins ts = (st', pd')"
  defines "k \<equiv> length (takeWhile (\<lambda>s. \<exists>t\<in>set ts. ps_date s \<le> t) ss)"
  shows "tfTracks st' c ss n k \<and> map_get pd' c = window_result [] c (take_last n (take k ss))"
  unfolding k_def using assms(4,5)
proof (induction ts arbitrary: st' pd' rule: rev_induct)
  case (snoc t ts)
  let ?k = "length (takeWhile (\<lambda>s. \<exists>t\<in>set ts. ps_date s \<le> t) ss)"
  have k: "?k = length (takeWhile (\<lambda>x. \<exists>t\<in>set ts. x \<le> t) (map ps_date ss))"
    by (simp add: takeWhile_map comp_def)
  obtain st1 pd1 where before: "runTimeframe st coins ts = (st1, pd1)" by (cases "runTimeframe st coins ts")
  with snoc.prems have step: "foldl (advanceTimeframeCoin t) (st1, []) coins = (st', pd')"
    by (simp add: runTimeframe_def)
  have "tfTracks st1 c ss n ?k"
  proof (cases "ts = []")
    case True
    with before assms(1) show ?thesis by (cases ss) (simp_all add: runTimeframe_def)
  qed (use snoc.IH before in simp)
  from advanceTimeframeCoins_tracks [OF this step] assms(3)
  have "tfTracks st' c ss n (reached (map ps_date ss) ?k t) \<and>
    map_get pd' c = window_result [] c (take_last n (take (reached (map ps_date ss) ?k t) ss))" by simp
  moreover have "reached (map ps_date ss) ?k t = length (takeWhile (\<lambda>x. (\<exists>u\<in>set ts. x \<le> u) \<or> x \<le> t) (map ps_date ss))"
    unfolding reached_def k by (rule takeWhile_extend [OF assms(2)]) (meson order_trans)
  moreover have "length (takeWhile (\<lambda>x. (\<exists>u\<in>set ts. x \<le> u) \<or> x \<le> t) (map ps_date ss)) =
      length (takeWhile (\<lambda>s. \<exists>u\<in>set (ts @ [t]). ps_date s \<le> u) ss)"
    by (simp add: takeWhile_map comp_def disj_commute)
  ultimately show ?case by (simp only:)
qed simp

text \<open>The bars of a run in order: the context is threaded, the data of the last bar is returned.\<close>

definition runBars ::
    "PriceTrackingContext \<Rightarrow> Coin list \<Rightarrow> time_ms list \<Rightarrow>
     PriceTrackingContext \<times> PriceData \<times> (PriceTimeframe, PriceData) jsmap" where
  "runBars ctx coins ts = foldl (\<lambda>(ctx, _) t. advanceBar ctx coins t) (ctx, [], []) ts"

lemma foldl_set_pairs:
  "map_wf kvs \<Longrightarrow> map_get (foldl (\<lambda>m (k, v). map_set k (f k v) m) m kvs) k =
    (case map_get kvs k of None \<Rightarrow> map_get m k | Some v \<Rightarrow> Some (f k v))"
proof (induction kvs arbitrary: m)
  case (Cons kv kvs)
  then have "map_get kvs (fst kv) = None" "map_wf kvs" by (simp_all add: map_wf_def map_get_def map_of_eq_None_iff)
  with Cons.IH show ?case by (cases kv) (auto split: option.splits)
qed simp

lemma foldl_set_pairs_wf: "map_wf m \<Longrightarrow> map_wf (foldl (\<lambda>m (k, v). map_set k (f k v) m) m kvs)"
  by (induction kvs arbitrary: m) auto

lemma foldl_set_wf: "map_wf m \<Longrightarrow> map_wf (foldl (\<lambda>m k. map_set k (f k) m) m ks)"
  by (induction ks arbitrary: m) auto

lemma advanceCoin_higher: "pt_higherTimeframes (fst (advanceCoin t st coin)) = pt_higherTimeframes (fst st)"
  by (cases st) (auto simp: advanceCoin_def Let_def split: option.splits prod.splits)

lemma advancePriceWindows_higher: "pt_higherTimeframes (fst (advancePriceWindows ctx coins t)) = pt_higherTimeframes ctx"
proof -
  have "pt_higherTimeframes (fst (foldl (advanceCoin t) st coins)) = pt_higherTimeframes (fst st)" for st
    by (induction coins arbitrary: st) (simp_all add: advanceCoin_higher)
  then show ?thesis by (simp add: advancePriceWindows_def)
qed

lemma runBars_timeframes:
  assumes "pt_higherTimeframes ctx = Some higher" "map_wf higher"
  shows "pt_higherTimeframes (fst (runBars ctx coins ts)) =
      Some (map (\<lambda>(tf, st). (tf, fst (runTimeframe st coins ts))) higher) \<and>
    (ts \<noteq> [] \<longrightarrow> map_get (snd (snd (runBars ctx coins ts))) tf =
      map_option (\<lambda>st. snd (runTimeframe st coins ts)) (map_get higher tf))"
proof (induction ts rule: rev_induct)
  case Nil
  then show ?case using assms by (simp add: runBars_def runTimeframe_def case_prod_unfold)
next
  case (snoc t ts)
  define next_of where "next_of = (\<lambda>st. foldl (advanceTimeframeCoin t) (fst (runTimeframe st coins ts), []) coins)"
  define results where "results = map (\<lambda>(tf, st). (tf, next_of st)) higher"
  have step: "runTimeframe st coins (ts @ [t]) = next_of st" for st
    by (simp add: runTimeframe_def next_of_def case_prod_unfold)
  have before: "pt_higherTimeframes (fst (advancePriceWindows (fst (runBars ctx coins ts)) coins t)) =
      Some (map (\<lambda>(tf, st). (tf, fst (runTimeframe st coins ts))) higher)"
    using snoc.IH by (simp add: advancePriceWindows_higher)
  have results_wf: "map_wf results"
    using assms(2) by (simp add: results_def map_wf_def comp_def case_prod_unfold)
  have bar: "runBars ctx coins (ts @ [t]) = advanceBar (fst (runBars ctx coins ts)) coins t"
    by (simp add: runBars_def case_prod_unfold)
  have state: "pt_higherTimeframes (fst (runBars ctx coins (ts @ [t]))) = Some (map (\<lambda>(tf, r). (tf, fst r)) results)"
    and data: "snd (snd (runBars ctx coins (ts @ [t]))) = foldl (\<lambda>out (tf, r). map_set tf (snd r) out) [] results"
    unfolding bar using before
    by (simp_all add: advanceBar_def advanceMultiTimeframeWindows_def results_def next_of_def case_prod_unfold comp_def Let_def)
  show ?case
    using foldl_set_pairs [OF results_wf, of "\<lambda>tf. snd" "[]" tf] map_get_map [of "\<lambda>tf. next_of" higher tf]
    by (simp add: state data step results_def comp_def case_prod_unfold split: option.splits)
qed

lemma timeframeState_tracks:
  assumes "map_wf perCoin" "map_get perCoin c = Some ss" "0 < n"
  shows "tfTracks (timeframeState n perCoin) c ss (nat n) 0"
  using assms foldl_set_pairs [of perCoin "\<lambda>c ss. map ps_date ss" "[]" c] foldl_set_pairs [of perCoin "\<lambda>c ss. ss" "[]" c]
    foldl_set_pairs [of perCoin "\<lambda>c ss. - 1 :: int" "[]" c] foldl_set_pairs [of perCoin "\<lambda>c ss. newWindow n :: PriceSummary RingBuffer" "[]" c]
  by (simp add: tfTracks_def timeframeState_def newWindow_ok newWindow_size)

lemma start_timeframes:
  fixes candles coinIds
  defines "start \<equiv> initPriceTracking candles coinIds"
  assumes "EXPECTED_BUCKET_SIZE tf = Some n" "c \<in> set coinIds"
  shows "\<exists>higher st. pt_higherTimeframes (initMultiTimeframe start (aggregate (pt_summariesByCoin start) HIGHER_TIMEFRAMES)) =
      Some higher \<and> map_wf higher \<and> map_get higher tf = Some st \<and>
    tfTracks st c (aggregateCoin (map buildPriceSummary (coinHistory candles c)) tf) (nat (PRICE_TIMEFRAME_WINDOW_SIZES tf)) 0"
proof -
  define perCoin where "perCoin = (\<lambda>tf. foldl (\<lambda>perCoin (coinId, summaries). map_set coinId (aggregateCoin summaries tf) perCoin)
     [] (pt_summariesByCoin start))"
  have summaries: "map_wf (pt_summariesByCoin start)"
    "map_get (pt_summariesByCoin start) c = Some (map buildPriceSummary (coinHistory candles c))"
    using assms(3) initPriceTracking_tracks [of c coinIds candles]
    by (simp_all add: start_def tracks_def initPriceTracking_def groupAndSortByCoins_def Let_def foldl_set_wf)
  have "tfTracks (timeframeState (PRICE_TIMEFRAME_WINDOW_SIZES tf) (perCoin tf)) c
      (aggregateCoin (map buildPriceSummary (coinHistory candles c)) tf) (nat (PRICE_TIMEFRAME_WINDOW_SIZES tf)) 0"
    using foldl_set_pairs [OF summaries(1), of "\<lambda>c ss. aggregateCoin ss tf" "[]" c] summaries(2)
    by (intro timeframeState_tracks) (cases tf; simp add: perCoin_def foldl_set_pairs_wf)+
  then show ?thesis
    using assms(2) by (cases tf) (auto simp: initMultiTimeframe_def aggregate_def HIGHER_TIMEFRAMES_def perCoin_def
        map_set_def map_wf_def map_get_def)
qed

section \<open>The order of the buckets\<close>

lemma keyRuns_ordered:
  fixes k :: "'a \<Rightarrow> int"
  assumes "sorted (map k xs)"
  shows "sorted_wrt (<) (map (k \<circ> hd) (keyRuns k xs)) \<and>
    (\<forall>r \<in> set (keyRuns k xs). r \<noteq> [] \<and> set r \<subseteq> set xs \<and> (\<forall>x \<in> set r. k x = k (hd r)))"
  using assms
proof (induction k xs rule: keyRuns.induct)
  case (2 k x xs)
  let ?rest = "dropWhile (\<lambda>y. k y = k x) xs"
  have rest: "sorted (map k ?rest)" "set ?rest \<subseteq> set xs"
    using "2.prems" by (auto simp: dropWhile_map [symmetric, of k "\<lambda>y. y = k x", unfolded comp_def] sorted_dropWhile
        dest: set_dropWhileD)
  have later: "k x < k y" if "y \<in> set ?rest" for y
  proof (cases ?rest)
    case (Cons z zs)
    then have "k z \<noteq> k x" using hd_dropWhile [of "\<lambda>y. k y = k x" xs] by simp
    moreover have "z \<in> set xs" using Cons rest(2) by auto
    then have "k x \<le> k z" using "2.prems" by simp
    moreover have "k z \<le> k y" using that rest(1) Cons by auto
    ultimately show ?thesis by simp
  next
    case Nil
    then show ?thesis using that by (metis empty_iff list.set(1))
  qed
  have runs: "r \<noteq> [] \<and> set r \<subseteq> set ?rest \<and> (\<forall>x \<in> set r. k x = k (hd r))" if "r \<in> set (keyRuns k ?rest)" for r
    using "2.IH" rest(1) that by blast
  have order: "sorted_wrt (<) (map (k \<circ> hd) (keyRuns k ?rest))" using "2.IH" rest(1) by blast
  have "k x < k (hd r)" if "r \<in> set (keyRuns k ?rest)" for r
  proof -
    have "r \<noteq> []" "set r \<subseteq> set ?rest" using runs [OF that] by blast+
    then have "hd r \<in> set ?rest" using hd_in_set by blast
    then show ?thesis by (rule later)
  qed
  then have "sorted_wrt (<) (map (k \<circ> hd) (keyRuns k (x # xs)))" using order by simp
  moreover have "r \<noteq> [] \<and> set r \<subseteq> set (x # xs) \<and> (\<forall>y \<in> set r. k y = k (hd r))"
    if "r \<in> set (keyRuns k (x # xs))" for r
  proof (cases "r \<in> set (keyRuns k ?rest)")
    case True
    then show ?thesis using runs [OF True] rest(2) set_subset_Cons [of xs x] by blast
  next
    case False
    then have "r = x # takeWhile (\<lambda>y. k y = k x) xs" using that by simp
    then show ?thesis by (auto dest: set_takeWhileD)
  qed
  ultimately show ?case by blast
qed simp

lemma bucketStart_mono: "a < b \<Longrightarrow> bucketStart a tf < bucketStart b tf"
  by (cases tf) (simp_all add: HOUR_MS_def FOUR_HOUR_MS_def BUCKET_DAY_MS_def WEEK_MS_def)

lemma bucket_bounds: "bucketStart (bucketKey t tf) tf \<le> t \<and> t < bucketStart (bucketKey t tf + 1) tf"
proof -
  have "t div w * w \<le> t \<and> t < (t div w + 1) * w" if "0 < w" for t w :: int
  proof -
    have "t = t div w * w + t mod w" "0 \<le> t mod w" "t mod w < w" using that by simp_all
    then show ?thesis by (simp only: distrib_right mult_1) linarith
  qed
  from this [of FOUR_HOUR_MS t] this [of BUCKET_DAY_MS t] this [of WEEK_MS "t - 4 * BUCKET_DAY_MS"] this [of HOUR_MS t]
  show ?thesis
    by (cases tf) (simp_all add: HOUR_MS_def FOUR_HOUR_MS_def BUCKET_DAY_MS_def WEEK_MS_def)
qed

lemma bucketKey_mono: "s \<le> t \<Longrightarrow> bucketKey s tf \<le> bucketKey t tf"
  by (cases tf) (simp_all add: HOUR_MS_def FOUR_HOUR_MS_def BUCKET_DAY_MS_def WEEK_MS_def zdiv_mono1)

lemma sorted_keys: "sorted (map ps_date xs) \<Longrightarrow> sorted (map (\<lambda>s. bucketKey (ps_date s) tf) xs)"
  by (induction xs) (auto intro: bucketKey_mono)

lemma bars_sorted:
  assumes "sorted (map ps_date hourly)" "EXPECTED_BUCKET_SIZE tf = Some n"
  shows "sorted (map ps_date (aggregateCoin hourly tf))"
proof -
  let ?k = "\<lambda>s. bucketKey (ps_date s) tf"
  let ?runs = "filter (completeRun n) (keyRuns ?k hourly)"
  have "sorted_wrt (\<lambda>r q. ?k (hd r) < ?k (hd q)) ?runs"
    using conjunct1 [OF keyRuns_ordered [OF sorted_keys [OF assms(1)], of tf]]
    by (simp add: sorted_wrt_map sorted_wrt_filter)
  then have "sorted_wrt (\<lambda>r q. ps_date (runCandle tf r) \<le> ps_date (runCandle tf q)) ?runs"
    by (rule sorted_wrt_mono_rel [rotated]) (auto simp: runCandle_def Let_def dest: bucketStart_mono [of _ _ tf])
  then show ?thesis by (simp add: aggregateCoin_runs [OF assms(2)] sorted_map comp_def sorted_wrt_map)
qed

lemma seen_bars:
  fixes now
  assumes "sorted (map ps_date hourly)" "EXPECTED_BUCKET_SIZE tf = Some n"
    and "day \<in> set (keyRuns (\<lambda>s. bucketKey (ps_date s) tf) hourly)" "completeRun n day"
    and "ps_date (hd day) \<le> now" "now \<le> ps_date (last day)"
  shows "\<exists>bars. filter (\<lambda>s. ps_date s \<le> now) (aggregateCoin hourly tf) = bars @ [runCandle tf day]"
proof -
  let ?k = "\<lambda>s. bucketKey (ps_date s) tf"
  obtain p q where runs: "keyRuns ?k hourly = p @ day # q" using assms(3) by (meson split_list)
  note order = keyRuns_ordered [OF sorted_keys [OF assms(1)], of tf]
  then have "day \<noteq> [] \<and> set day \<subseteq> set hourly \<and> (\<forall>x \<in> set day. ?k x = ?k (hd day))" using assms(3) by blast
  then have day: "?k (last day) = ?k (hd day)" using last_in_set by blast
  have "now < ps_date (runCandle tf r)" if "r \<in> set q" for r
  proof -
    have "sorted_wrt (<) (map (?k \<circ> hd) (p @ day # q))" using conjunct1 [OF order] unfolding runs .
    then have "?k (hd day) < ?k (hd r)" using that unfolding map_append list.map sorted_wrt_append sorted_wrt.simps by auto
    then have "?k (last day) + 1 \<le> ?k (hd r)" using day by simp
    then have "bucketStart (?k (last day) + 1) tf \<le> bucketStart (?k (hd r)) tf"
      using bucketStart_mono [of "?k (last day) + 1" "?k (hd r)" tf] by fastforce
    then show ?thesis
      using bucket_bounds [of "ps_date (last day)" tf] assms(6) by (simp add: runCandle_def Let_def)
  qed
  moreover have "ps_date (runCandle tf day) \<le> now"
    using bucket_bounds [of "ps_date (hd day)" tf] assms(5) by (simp add: runCandle_def Let_def)
  ultimately have "filter (\<lambda>s. ps_date s \<le> now) (aggregateCoin hourly tf) =
      filter (\<lambda>s. ps_date s \<le> now) (map (runCandle tf) (filter (completeRun n) p)) @ [runCandle tf day]"
    using assms(4) by (fastforce simp: aggregateCoin_runs [OF assms(2)] runs filter_empty_conv)
  then show ?thesis by blast
qed

lemma higher_timeframe_window:
  fixes candles coinIds tf now c ts
  defines "start \<equiv> initPriceTracking candles coinIds"
    and "hourly \<equiv> map buildPriceSummary (coinHistory candles c)" and "now \<equiv> Max (set ts)"
  assumes "c \<in> set coinIds" "c \<in> coin_id ` set coins" "ts \<noteq> []" "EXPECTED_BUCKET_SIZE tf = Some n"
    and "runBars (initMultiTimeframe start (aggregate (pt_summariesByCoin start) HIGHER_TIMEFRAMES)) coins ts = (ctx, pd, tfd)"
  shows "\<exists>data. map_get tfd tf = Some data \<and> map_get data c = window_result [] c
    (take_last (nat (PRICE_TIMEFRAME_WINDOW_SIZES tf)) (filter (\<lambda>s. ps_date s \<le> now) (aggregateCoin hourly tf)))"
proof -
  let ?bars = "aggregateCoin hourly tf" and ?n = "nat (PRICE_TIMEFRAME_WINDOW_SIZES tf)"
  obtain higher st where init: "pt_higherTimeframes (initMultiTimeframe start (aggregate (pt_summariesByCoin start) HIGHER_TIMEFRAMES)) =
      Some higher" "map_wf higher" "map_get higher tf = Some st" "tfTracks st c ?bars ?n 0"
    using start_timeframes [OF assms(7,4), of candles] unfolding start_def hourly_def by blast
  have "sorted (map ps_date hourly)"
    using coinHistory_sorted [of candles c] by (simp add: hourly_def comp_def buildPriceSummary_def)
  then have sorted: "sorted (map ps_date ?bars)" by (rule bars_sorted [OF _ assms(7)])
  obtain st' data where run: "runTimeframe st coins ts = (st', data)" by (cases "runTimeframe st coins ts")
  have P: "(\<lambda>s. \<exists>t\<in>set ts. ps_date s \<le> t) = (\<lambda>s. ps_date s \<le> now)"
    using assms(6) by (auto simp: now_def Max_ge_iff)
  have "take (length (takeWhile (\<lambda>s. ps_date s \<le> now) ?bars)) ?bars = filter (\<lambda>s. ps_date s \<le> now) ?bars"
    by (metis take_length_takeWhile sorted_takeWhile_filter [OF sorted])
  then have "map_get data c = window_result [] c (take_last ?n (filter (\<lambda>s. ps_date s \<le> now) ?bars))"
    using runTimeframe_tracks [OF init(4) sorted assms(5,6) run] unfolding P by presburger
  moreover have "map_get tfd tf = Some data"
    using runBars_timeframes [OF init(1,2), of coins ts tf] assms(6,8) init(3) run by simp
  ultimately show ?thesis by blast
qed

section \<open>Properties\<close>

text \<open>The bars of the higher timeframes are those of the hourly series cut at the boundaries of the
  bucket: every longest run of hourly candles of one bucket that has all its hours gives one bar,
  dated at the start of the bucket, that opens with the first, closes with the last, spans the
  highest high and the lowest low and sums the volumes; runs with missing hours give none.\<close>

lemma aggregate_is_complete_runs:
  assumes "EXPECTED_BUCKET_SIZE tf = Some n" "map_wf summariesByCoin" "map_get summariesByCoin c = Some hourly"
    and "tf \<in> set timeframes"
  shows "map_get (nullish (map_get (aggregate summariesByCoin timeframes) tf) []) c =
    Some (map (runCandle tf) (filter (completeRun n) (keyRuns (\<lambda>s. bucketKey (ps_date s) tf) hourly)))"
proof -
  define perCoin where "perCoin = (\<lambda>tf. foldl (\<lambda>perCoin (coinId, summaries). map_set coinId (aggregateCoin summaries tf) perCoin)
     [] summariesByCoin)"
  have get: "map_get (foldl (\<lambda>result tf. if tf = HOURLY then result else map_set tf (perCoin tf) result) m tfs) tf =
      (if tf \<in> set tfs then Some (perCoin tf) else map_get m tf)" if "tf \<noteq> HOURLY" for m tfs
    using that by (induction tfs arbitrary: m) auto
  have "aggregate summariesByCoin timeframes =
      foldl (\<lambda>result tf. if tf = HOURLY then result else map_set tf (perCoin tf) result) [] timeframes"
    unfolding aggregate_def perCoin_def by (rule refl)
  then have "map_get (aggregate summariesByCoin timeframes) tf = Some (perCoin tf)"
    using assms(1,4) get by (cases "tf = HOURLY") simp_all
  then show ?thesis
    using foldl_set_pairs [OF assms(2), of "\<lambda>c ss. aggregateCoin ss tf" "[]" c] assms(3)
    by (simp add: perCoin_def aggregateCoin_runs [OF assms(1)])
qed

definition hour_candle :: "nat \<Rightarrow> OHLCCandle" where
  "hour_candle k = \<lparr>cd_coinId = ''btc'', cd_timestamp = int k * HOUR_MS, cd_open = 1, cd_high = real (k + 1), cd_low = 1,
     cd_close = real (k + 1), cd_volume = None, cd_quoteVolume = None\<rparr>"

definition hour_candles :: "OHLCCandle list" where
  "hour_candles = map hour_candle [0, 1, 2, 3]"

text \<open>C40. A strategy is shown the future. The windows of the higher timeframes hold every bar that has
  started, not those that have ended: at any hour of a complete day, week or four-hour bucket, the
  latest bar of its window has the closing price of the last hour of that bucket and the highest
  high of all its hours, those that lie ahead included.\<close>

theorem higher_timeframes_show_the_future:
  fixes candles coinIds c ts
  defines "start \<equiv> initPriceTracking candles coinIds"
    and "hourly \<equiv> map buildPriceSummary (coinHistory candles c)" and "now \<equiv> Max (set ts)"
  assumes "c \<in> set coinIds" "c \<in> coin_id ` set coins" "ts \<noteq> []" "EXPECTED_BUCKET_SIZE tf = Some n"
    and "runBars (initMultiTimeframe start (aggregate (pt_summariesByCoin start) HIGHER_TIMEFRAMES)) coins ts = (ctx, pd, tfd)"
    and "day \<in> set (keyRuns (\<lambda>s. bucketKey (ps_date s) tf) hourly)" "completeRun n day"
    and "ps_date (hd day) \<le> now" "now \<le> ps_date (last day)"
  shows "\<exists>data bars s. map_get tfd tf = Some data \<and> map_get data c = Some (bars @ [Some s]) \<and>
    ps_date s \<le> now \<and> ps_close s = Some (close_or_avg (last day)) \<and> ps_high s = Max (ps_high ` set day)"
proof -
  let ?n = "nat (PRICE_TIMEFRAME_WINDOW_SIZES tf)"
  have sorted: "sorted (map ps_date hourly)"
    using coinHistory_sorted [of candles c] by (simp add: hourly_def comp_def buildPriceSummary_def)
  obtain bars where bars: "filter (\<lambda>s. ps_date s \<le> now) (aggregateCoin hourly tf) = bars @ [runCandle tf day]"
    using seen_bars [OF sorted assms(7,9-12)] by blast
  have "0 < ?n" using assms(7) by (cases tf) simp_all
  then obtain kept where kept: "take_last ?n (bars @ [runCandle tf day]) = kept @ [runCandle tf day]"
    by (simp add: take_last_def)
  obtain data where "map_get tfd tf = Some data"
    "map_get data c = window_result [] c (take_last ?n (filter (\<lambda>s. ps_date s \<le> now) (aggregateCoin hourly tf)))"
    using higher_timeframe_window [OF assms(4-7) assms(8) [unfolded start_def]] unfolding hourly_def now_def by blast
  moreover have "runCandle tf day \<in> set (filter (\<lambda>s. ps_date s \<le> now) (aggregateCoin hourly tf))"
    unfolding bars by simp
  then have "ps_date (runCandle tf day) \<le> now" by simp
  moreover have "ps_close (runCandle tf day) = Some (close_or_avg (last day))" "ps_high (runCandle tf day) = Max (ps_high ` set day)"
    by (simp_all add: runCandle_def Let_def)
  ultimately show ?thesis
    using kept by (intro exI [of _ data] exI [of _ "map Some kept"] exI [of _ "runCandle tf day"]) (simp add: bars)
qed

theorem higher_timeframes_show_the_future_witness:
  "\<exists>data bars s. map_get (snd (snd (runBars (initMultiTimeframe (initPriceTracking hour_candles [''btc''])
      (aggregate (pt_summariesByCoin (initPriceTracking hour_candles [''btc''])) HIGHER_TIMEFRAMES))
      [\<lparr>coin_id = ''btc'', coin_symbol = ''BTC''\<rparr>] [0]))) FOUR_HOUR = Some data \<and>
    map_get data ''btc'' = Some (bars @ [Some s]) \<and> ps_date s \<le> 0 \<and> ps_close s = Some 4 \<and> ps_high s = 4"
proof -
  let ?start = "initPriceTracking hour_candles [''btc'']" and ?coins = "[\<lparr>coin_id = ''btc'', coin_symbol = ''BTC''\<rparr>]"
  let ?day = "map buildPriceSummary hour_candles"
  have history: "coinHistory hour_candles ''btc'' = hour_candles"
    by (simp add: coinHistory_filter hour_candles_def hour_candle_def HOUR_MS_def)
  have runs: "keyRuns (\<lambda>s. bucketKey (ps_date s) FOUR_HOUR) ?day = [?day]"
    by (simp add: hour_candles_def hour_candle_def buildPriceSummary_def FOUR_HOUR_MS_def HOUR_MS_def)
  obtain ctx pd tfd where run: "runBars (initMultiTimeframe ?start (aggregate (pt_summariesByCoin ?start) HIGHER_TIMEFRAMES))
      ?coins [0] = (ctx, pd, tfd)" by (metis prod_cases3)
  show ?thesis
    unfolding run using higher_timeframes_show_the_future [of "''btc''" "[''btc'']" ?coins "[0]" FOUR_HOUR 4 hour_candles ctx pd tfd ?day,
        unfolded history] run runs
    by (simp add: completeRun_def) (simp add: hour_candles_def hour_candle_def buildPriceSummary_def HOUR_MS_def)
qed

end
