(* ===== verification/BacktestLoop.thy ===== *)
theory BacktestLoop
  imports MultiTimeframe ForcedExit Checkpoint Regime
begin

text \<open>
  The loop of a backtest (\<^verbatim>\<open>order/backtest/shared/execution\<close>): the context of a run, the settlement of a
  signal, the bar processor, the checkpoint coordinator and the runner. What happens on a bar besides
  heartbeats, telemetry and pacing is modelled. The algorithm, which may keep state between its calls,
  is a function of all contexts it has been shown; a call that runs into its timeout is one that
  throws. The clock, the abort signal and the answers to pause checks are functions of the bar.
\<close>

section \<open>Results and errors\<close>

record CheckpointResults =
  kr_trades :: "DatedTrade list"
  kr_signals :: "BacktestSignal list"
  kr_simulatedFills :: "SimulatedFill list"
  kr_snapshots :: "PortfolioSnapshot list"

text \<open>\<^verbatim>\<open>LiveReplayExecuteResult\<close>; a historical run has no pause.\<close>

record ExecuteResult = CheckpointResults +
  kr_finalMetrics :: BacktestFinalMetrics
  kr_paused :: bool
  kr_pausedCheckpoint :: "BacktestCheckpointState option"

datatype LoopError =
    TradeFailed TradeError
  | BaseCoinNotFound string
  | AlgorithmNotRegisteredError
  | AlgorithmStalled int
  | AlgorithmFailed string
  | CallbackFailed string
  | BacktestAborted "(BacktestCheckpointState \<times> CheckpointResults) option"

text \<open>A call that throws ends the calls that follow it.\<close>

fun andThen :: "'e + 'a \<Rightarrow> ('a \<Rightarrow> 'e + 'b) \<Rightarrow> 'e + 'b" where
  "andThen (Inl e) f = Inl e"
| "andThen (Inr x) f = f x"

lemma andThen_Inr: "andThen x f = Inr y \<longleftrightarrow> (\<exists>z. x = Inr z \<and> f z = Inr y)"
  by (cases x) auto

section \<open>The algorithm\<close>

type_synonym PrecomputedIndicators = "(string, (string, js_number list) jsmap) jsmap"

record AlgorithmContext =
  ag_coins :: "Coin list"
  ag_priceData :: PriceData
  ag_timestamp :: time_ms
  ag_config :: "(string, js_value) jsmap"
  ag_positions :: "(string, number) jsmap"
  ag_availableBalance :: number
  ag_metadata :: "(string, js_value) jsmap"
  ag_precomputedIndicators :: "PrecomputedIndicators option"
  ag_currentTimestampIndex :: nat
  ag_priceDataByTimeframe :: "(PriceTimeframe, PriceData) jsmap option"
  ag_compositeRegime :: "CompositeRegimeType option"
  ag_volatilityRegime :: "MarketRegimeType option"

record AlgorithmResult =
  aq_success :: bool
  aq_signals :: "StrategySignal list option"
  aq_exitConfig :: "PartialExitConfig option"

datatype AlgorithmOutcome =
    AlgorithmReturned AlgorithmResult
  | AlgorithmNotRegistered
  | AlgorithmThrew string

record AlgorithmWatchdog =
  wd_stallTimeoutMs :: int
  wd_lastSuccessTime :: time_ms

definition AlgorithmWatchdog_new :: "int \<Rightarrow> time_ms \<Rightarrow> AlgorithmWatchdog" where
  "AlgorithmWatchdog_new stallTimeoutMs now = \<lparr>wd_stallTimeoutMs = stallTimeoutMs, wd_lastSuccessTime = now\<rparr>"

definition recordSuccess :: "time_ms \<Rightarrow> AlgorithmWatchdog \<Rightarrow> AlgorithmWatchdog" where
  "recordSuccess now watchdog = watchdog\<lparr>wd_lastSuccessTime := now\<rparr>"

definition checkStall :: "time_ms \<Rightarrow> AlgorithmWatchdog \<Rightarrow> LoopError option" where
  "checkStall now watchdog =
     (let elapsed = now - wd_lastSuccessTime watchdog
      in if elapsed > wd_stallTimeoutMs watchdog then Some (AlgorithmStalled (wd_stallTimeoutMs watchdog)) else None)"

section \<open>The context of a run\<close>

text \<open>The fields of \<^verbatim>\<open>LoopContext\<close> that a run does not change, and the callbacks of its options.\<close>

record LoopConfig =
  lc_isLiveReplay :: bool
  lc_shouldPause :: "(nat \<Rightarrow> string + bool) option"
  lc_onPaused :: "(BacktestCheckpointState \<Rightarrow> string option) option"
  lc_checkpointInterval :: int
  lc_onCheckpoint :: "(BacktestCheckpointState \<Rightarrow> CheckpointResults \<Rightarrow> int \<Rightarrow> string option) option"
  lc_aborted :: "nat \<Rightarrow> bool"
  lc_slippageConfig :: SlippageConfig
  lc_minHoldMs :: number
  lc_maxAllocation :: number
  lc_minAllocation :: number
  lc_oppSellingEnabled :: bool
  lc_oppSellingConfig :: OpportunitySellingUserConfig
  lc_algoMetadata :: "(string, js_value) jsmap"
  lc_regimeConfig :: RegimeConfig
  lc_throttleConfig :: SignalThrottleConfig
  lc_initialCapital :: number
  lc_tradingFee :: number
  lc_startDate :: time_ms
  lc_endDate :: time_ms
  lc_parameters :: "(string, js_value) jsmap"
  lc_coins :: "Coin list"
  lc_coinMap :: "(string, Coin) jsmap"
  lc_pricesByTimestamp :: "(time_ms, OHLCCandle list) jsmap"
  lc_timestamps :: "time_ms list"
  lc_delistingDates :: "(string, time_ms) jsmap"
  lc_delistingPenalty :: "js_number option"
  lc_effectiveTradingStartIndex :: nat
  lc_effectiveTimestampCount :: nat
  lc_tradingTimestampCount :: int
  lc_precomputedIndicators :: "PrecomputedIndicators option"

text \<open>The services the loop calls that are not modelled, and the clock when a call of a bar returns.\<close>

record LoopServices =
  lv_decimal :: DecimalOps
  lv_library :: FinalMetricsLibrary
  lv_computeChecksum :: "ChecksumData \<Rightarrow> string"
  lv_executeAlgorithm :: "AlgorithmContext list \<Rightarrow> AlgorithmOutcome"
  lv_now :: "nat \<Rightarrow> time_ms"

text \<open>The fields that change. The last two are not in the code: the contexts that the algorithm has
  been shown, and what the checkpoint callback has been given.\<close>

record LoopState =
  ls_rng :: int
  ls_portfolio :: Portfolio
  ls_peakValue :: number
  ls_maxDrawdown :: number
  ls_exitTracker :: "BacktestExitTracker option"
  ls_throttleState :: ThrottleState
  ls_trades :: "DatedTrade list"
  ls_signals :: "BacktestSignal list"
  ls_simulatedFills :: "SimulatedFill list"
  ls_snapshots :: "PortfolioSnapshot list"
  ls_totalPersistedCounts :: PersistedResultsCounts
  ls_metricsAcc :: MetricsAccumulator
  ls_lastCheckpointCounts :: PersistedResultsCounts
  ls_lastCheckpointIndex :: int
  ls_consecutiveErrors :: nat
  ls_watchdog :: AlgorithmWatchdog
  ls_consecutivePauseFailures :: nat
  ls_prevCandleMap :: CandleMap
  ls_pendingSignals :: "TradingSignal list"
  ls_lastKnownPrices :: Prices
  ls_priceCtx :: PriceTrackingContext
  ls_contexts :: "AlgorithmContext list"
  ls_saved :: "(BacktestCheckpointState \<times> CheckpointResults) list"

section \<open>Settling a signal\<close>

definition resolveDirection :: "TradingSignal \<Rightarrow> SignalDirection" where
  "resolveDirection signal =
     (if sg_action signal = BUY_ACTION then LONG_DIRECTION
      else if sg_action signal = SELL_ACTION \<or> sg_action signal = OPEN_SHORT \<or> sg_action signal = CLOSE_SHORT
      then SHORT_DIRECTION
      else FLAT_DIRECTION)"

definition signalRecord :: "TradingSignal \<Rightarrow> time_ms \<Rightarrow> MarketData \<Rightarrow> BacktestSignal" where
  "signalRecord strategySignal timestamp marketData =
     \<lparr>bs_timestamp = timestamp, bs_signalType = classifySignalType strategySignal, bs_instrument = sg_coinId strategySignal,
      bs_direction = resolveDirection strategySignal,
      bs_quantity = nullish (sg_quantity strategySignal) (nullish (sg_percentage strategySignal) 0),
      bs_price = map_get (md_prices marketData) (sg_coinId strategySignal), bs_reason = sg_reason strategySignal,
      bs_confidence = sg_confidence strategySignal, bs_payload = nullish (sg_metadata strategySignal) [],
      bs_strategyExitConfig = sg_exitConfig strategySignal\<rparr>"

definition signalParams ::
    "LoopConfig \<Rightarrow> TradingSignal \<Rightarrow> MarketData \<Rightarrow> OHLCCandle list \<Rightarrow> number \<Rightarrow> number \<Rightarrow> CandleMap \<Rightarrow> ExecuteTradeParams" where
  "signalParams cfg strategySignal marketData currentPrices barMaxAllocation barMinAllocation prevCandleMap =
     (let priceMap = candleMap [] currentPrices
      in \<lparr>xp_signal = strategySignal, xp_marketData = marketData, xp_tradingFee = lc_tradingFee cfg,
          xp_slippageConfig = Some (lc_slippageConfig cfg),
          xp_dailyVolume = extractDailyVolume priceMap (sg_coinId strategySignal),
          xp_minHoldMs = Some (lc_minHoldMs cfg), xp_maxAllocation = Some barMaxAllocation,
          xp_minAllocation = Some barMinAllocation, xp_defaultLeverage = Some 1,
          xp_spreadContext = buildSpreadContext priceMap (sg_coinId strategySignal) prevCandleMap\<rparr>)"

definition sellMarket :: "LoopConfig \<Rightarrow> MarketData \<Rightarrow> time_ms \<Rightarrow> OHLCCandle list \<Rightarrow> CandleMap \<Rightarrow> SellMarket" where
  "sellMarket cfg marketData timestamp currentPrices prevCandleMap =
     (let priceMap = candleMap [] currentPrices
      in \<lparr>sm_marketData = marketData, sm_tradingFee = lc_tradingFee cfg, sm_slippageConfig = lc_slippageConfig cfg,
          sm_timestamp = timestamp, sm_spreadContext = (\<lambda>coinId. buildSpreadContext priceMap coinId prevCandleMap),
          sm_dailyVolume = extractDailyVolume priceMap\<rparr>)"

definition signalFill :: "time_ms \<Rightarrow> string \<Rightarrow> ExecuteTradeResult \<Rightarrow> SimulatedFill" where
  "signalFill timestamp coinId r =
     (let cancelled = (et_fillStatus r = CANCELLED_FILL)
      in \<lparr>fl_status = et_fillStatus r, fl_filledQuantity = (if cancelled then 0 else bt_quantity (et_trade r)),
          fl_averagePrice = bt_price (et_trade r), fl_fees = (if cancelled then Some 0 else bt_fee (et_trade r)),
          fl_slippageBps = et_slippageBps r, fl_executionTimestamp = timestamp, fl_instrument = coinId,
          fl_metadata = bt_metadata (et_trade r), fl_extra = [],
          fl_requestedQuantity = (if cancelled then et_requestedQuantity r else None)\<rparr>)"

definition skipBuy :: "TradingSignal \<Rightarrow> LoopState \<Rightarrow> LoopState" where
  "skipBuy strategySignal st =
     (if sg_action strategySignal = BUY_ACTION
      then st\<lparr>ls_metricsAcc := (ls_metricsAcc st)\<lparr>ma_skippedBuyCount := ma_skippedBuyCount (ls_metricsAcc st) + 1\<rparr>\<rparr>
      else st)"

definition currentAtrOf :: "TradingSignal \<Rightarrow> number option" where
  "currentAtrOf strategySignal =
     (case map_get (nullish (sg_metadata strategySignal) []) ''currentAtr'' of
        Some (JNumber (Finite rawAtr)) \<Rightarrow> if rawAtr > 0 then Some rawAtr else None
      | _ \<Rightarrow> None)"

definition trackTrade :: "TradingSignal \<Rightarrow> BacktestTrade \<Rightarrow> BacktestExitTracker \<Rightarrow> BacktestExitTracker" where
  "trackTrade strategySignal trade exitTracker =
     (if sg_action strategySignal = BUY_ACTION
      then onBuy exitTracker (sg_coinId strategySignal) (bt_price trade) (bt_quantity trade)
             (currentAtrOf strategySignal) (sg_exitConfig strategySignal)
      else if sg_action strategySignal = SELL_ACTION
      then onSell exitTracker (sg_coinId strategySignal) (bt_quantity trade)
      else exitTracker)"

definition recordTradeResult ::
    "LoopConfig \<Rightarrow> ExecuteTradeResult \<Rightarrow> TradingSignal \<Rightarrow> time_ms \<Rightarrow> LoopState \<Rightarrow> LoopError + LoopState" where
  "recordTradeResult cfg r strategySignal timestamp st =
     (let coinId = sg_coinId strategySignal; trade = et_trade r;
          filled = st\<lparr>ls_simulatedFills := ls_simulatedFills st @ [signalFill timestamp coinId r]\<rparr>
      in if et_fillStatus r = CANCELLED_FILL then Inr (skipBuy strategySignal filled)
         else if map_get (lc_coinMap cfg) coinId = None then Inl (BaseCoinNotFound coinId)
         else Inr (filled\<lparr>ls_trades := ls_trades st @ [(timestamp, coinId, trade)],
                ls_exitTracker := map_option (trackTrade strategySignal trade) (ls_exitTracker st)\<rparr>))"

text \<open>The trade, if any, that a signal has come to.\<close>

definition settleSignal ::
    "LoopConfig \<Rightarrow> ExecuteTradeResult option \<Rightarrow> TradingSignal \<Rightarrow> time_ms \<Rightarrow> LoopState \<Rightarrow> LoopError + LoopState" where
  "settleSignal cfg tradeResult strategySignal timestamp st =
     (case tradeResult of
        Some r \<Rightarrow> recordTradeResult cfg r strategySignal timestamp st
      | None \<Rightarrow> Inr (skipBuy strategySignal st))"

definition tryTrade ::
    "LoopServices \<Rightarrow> ExecuteTradeParams \<Rightarrow> LoopState \<Rightarrow> LoopError + ExecuteTradeResult option \<times> LoopState" where
  "tryTrade svc params st =
     (case executeTrade (lv_decimal svc) params (ls_portfolio st) of
        (Inl e, portfolio) \<Rightarrow> Inl (TradeFailed e)
      | (Inr tradeResult, portfolio) \<Rightarrow> Inr (tradeResult, st\<lparr>ls_portfolio := portfolio\<rparr>))"

definition sellForBuy ::
    "LoopServices \<Rightarrow> LoopConfig \<Rightarrow> SellMarket \<Rightarrow> TradingSignal \<Rightarrow> number \<Rightarrow> number \<Rightarrow> LoopState \<Rightarrow>
     LoopError + bool \<times> LoopState" where
  "sellForBuy svc cfg market strategySignal barMaxAllocation barMinAllocation st =
     (case attemptOpportunitySelling (executeTrade (lv_decimal svc)) market strategySignal (lc_oppSellingConfig cfg)
         barMaxAllocation barMinAllocation (ls_portfolio st) of
        (Some e, run) \<Rightarrow> Inl (TradeFailed e)
      | (None, run) \<Rightarrow> Inr (sr_sellExecuted run,
          st\<lparr>ls_portfolio := sr_portfolio run,
            ls_trades := ls_trades st @ map (\<lambda>(coinId, trade). (sm_timestamp market, coinId, trade)) (sr_trades run),
            ls_simulatedFills := ls_simulatedFills st @ sr_fills run\<rparr>))"

definition processSignalTrade ::
    "LoopServices \<Rightarrow> LoopConfig \<Rightarrow> TradingSignal \<Rightarrow> time_ms \<Rightarrow> MarketData \<Rightarrow> OHLCCandle list \<Rightarrow> number \<Rightarrow> number \<Rightarrow>
     LoopState \<Rightarrow> LoopError + LoopState" where
  "processSignalTrade svc cfg strategySignal timestamp marketData currentPrices barMaxAllocation barMinAllocation st =
     (let recorded = st\<lparr>ls_signals := ls_signals st @ [signalRecord strategySignal timestamp marketData]\<rparr>;
          params = signalParams cfg strategySignal marketData currentPrices barMaxAllocation barMinAllocation
            (ls_prevCandleMap st)
      in andThen (tryTrade svc params recorded) (\<lambda>(tradeResult, st1).
           if tradeResult = None \<and> sg_action strategySignal = BUY_ACTION \<and> lc_oppSellingEnabled cfg
           then andThen (sellForBuy svc cfg (sellMarket cfg marketData timestamp currentPrices (ls_prevCandleMap st))
                  strategySignal barMaxAllocation barMinAllocation st1) (\<lambda>(oppResult, st2).
                  if oppResult
                  then andThen (tryTrade svc params st2) (\<lambda>(retried, st3).
                         settleSignal cfg retried strategySignal timestamp st3)
                  else settleSignal cfg None strategySignal timestamp st2)
           else settleSignal cfg tradeResult strategySignal timestamp st1))"

section \<open>Checkpoints of a bar\<close>

definition MAX_CONSECUTIVE_PAUSE_FAILURES :: nat where "MAX_CONSECUTIVE_PAUSE_FAILURES = 3"

definition tradesOf :: "DatedTrade list \<Rightarrow> BacktestTrade list" where
  "tradesOf trades = map (snd \<circ> snd) trades"

definition buildSnapshot :: "LoopServices \<Rightarrow> LoopState \<Rightarrow> int \<Rightarrow> time_ms \<Rightarrow> BacktestCheckpointState" where
  "buildSnapshot svc st index timestamp =
     (let currentSells = countSells (lv_decimal svc) (tradesOf (ls_trades st));
          persisted = ls_totalPersistedCounts st; acc = ls_metricsAcc st
      in buildCheckpointState (lv_computeChecksum svc)
           \<lparr>bo_lastProcessedIndex = index, bo_lastProcessedTimestamp = timestamp, bo_portfolio = ls_portfolio st,
            bo_peakValue = ls_peakValue st, bo_maxDrawdown = ls_maxDrawdown st,
            bo_rngState = SeededRandom_getState (ls_rng st),
            bo_tradesCount = pc_trades persisted + length (ls_trades st),
            bo_signalsCount = pc_signals persisted + length (ls_signals st),
            bo_fillsCount = pc_fills persisted + length (ls_simulatedFills st),
            bo_snapshotsCount = pc_snapshots persisted + length (ls_snapshots st),
            bo_sellsCount = ma_totalSellCount acc + sl_sells currentSells,
            bo_winningSellsCount = ma_totalWinningSellCount acc + sl_winningSells currentSells,
            bo_serializedThrottleState = Some (Throttle_serialize (ls_throttleState st)),
            bo_grossProfit = Some (ma_grossProfit acc + sl_grossProfit currentSells),
            bo_grossLoss = Some (ma_grossLoss acc + sl_grossLoss currentSells),
            bo_exitTrackerState = map_option ExitTracker_serialize (ls_exitTracker st),
            bo_pendingSignals = (if length (ls_pendingSignals st) > 0 then Some (ls_pendingSignals st) else None)\<rparr>)"

definition resultsSince :: "LoopState \<Rightarrow> CheckpointResults" where
  "resultsSince st =
     (let counts = ls_lastCheckpointCounts st
      in \<lparr>kr_trades = drop (pc_trades counts) (ls_trades st), kr_signals = drop (pc_signals counts) (ls_signals st),
          kr_simulatedFills = drop (pc_fills counts) (ls_simulatedFills st),
          kr_snapshots = drop (pc_snapshots counts) (ls_snapshots st)\<rparr>)"

definition saveCheckpoint ::
    "LoopConfig \<Rightarrow> BacktestCheckpointState \<Rightarrow> CheckpointResults \<Rightarrow> LoopState \<Rightarrow> LoopError + LoopState" where
  "saveCheckpoint cfg checkpoint results st =
     (case lc_onCheckpoint cfg of
        None \<Rightarrow> Inr st
      | Some onCheckpoint \<Rightarrow>
          (case onCheckpoint checkpoint results (lc_tradingTimestampCount cfg) of
             Some e \<Rightarrow> Inl (CallbackFailed e)
           | None \<Rightarrow> Inr (st\<lparr>ls_saved := ls_saved st @ [(checkpoint, results)]\<rparr>)))"

definition harvest :: "LoopServices \<Rightarrow> LoopState \<Rightarrow> LoopState" where
  "harvest svc st =
     st\<lparr>ls_metricsAcc := harvestMetrics (lv_decimal svc) (tradesOf (ls_trades st)) (ls_snapshots st) (ls_metricsAcc st)\<rparr>"

text \<open>The arrays are cleared once their records are counted.\<close>

definition clearRecords :: "nat \<Rightarrow> LoopState \<Rightarrow> LoopState" where
  "clearRecords i st =
     (let persisted = ls_totalPersistedCounts st
      in st\<lparr>ls_totalPersistedCounts := persisted\<lparr>
              pc_trades := pc_trades persisted + length (ls_trades st),
              pc_signals := pc_signals persisted + length (ls_signals st),
              pc_fills := pc_fills persisted + length (ls_simulatedFills st),
              pc_snapshots := pc_snapshots persisted + length (ls_snapshots st)\<rparr>,
            ls_trades := [], ls_signals := [], ls_simulatedFills := [], ls_snapshots := [],
            ls_lastCheckpointCounts := NO_PERSISTED_COUNTS, ls_lastCheckpointIndex := int i\<rparr>)"

definition persist :: "LoopServices \<Rightarrow> LoopConfig \<Rightarrow> nat \<Rightarrow> time_ms \<Rightarrow> LoopState \<Rightarrow> LoopError + LoopState" where
  "persist svc cfg i timestamp st =
     andThen (saveCheckpoint cfg (buildSnapshot svc st (int i) timestamp) (resultsSince st) st)
       (\<lambda>saved. Inr (clearRecords i (harvest svc saved)))"

text \<open>\<^verbatim>\<open>writeEmergencyAndAbort\<close> always ends the run; the error carries what has been written.\<close>

definition writeEmergencyAndAbort :: "LoopServices \<Rightarrow> LoopConfig \<Rightarrow> nat \<Rightarrow> time_ms \<Rightarrow> LoopState \<Rightarrow> LoopError" where
  "writeEmergencyAndAbort svc cfg i timestamp st =
     (case lc_onCheckpoint cfg of
        None \<Rightarrow> BacktestAborted None
      | Some onCheckpoint \<Rightarrow>
          let emergency = buildSnapshot svc st (int i) timestamp; results = resultsSince st
          in case onCheckpoint emergency results (lc_tradingTimestampCount cfg) of
               Some e \<Rightarrow> CallbackFailed e
             | None \<Rightarrow> BacktestAborted (Some (emergency, results)))"

definition resultOf ::
    "LoopServices \<Rightarrow> LoopConfig \<Rightarrow> LoopState \<Rightarrow> bool \<Rightarrow> BacktestCheckpointState option \<Rightarrow> ExecuteResult" where
  "resultOf svc cfg st paused checkpoint =
     \<lparr>kr_trades = ls_trades st, kr_signals = ls_signals st, kr_simulatedFills = ls_simulatedFills st,
      kr_snapshots = ls_snapshots st,
      kr_finalMetrics = calculateFinalMetricsFromAccumulators (lv_decimal svc) (lv_library svc) (lc_initialCapital cfg)
        (lc_startDate cfg) (lc_endDate cfg) (ls_portfolio st) (ls_metricsAcc st) (ls_maxDrawdown st),
      kr_paused = paused, kr_pausedCheckpoint = checkpoint\<rparr>"

definition buildPauseResult :: "LoopServices \<Rightarrow> LoopConfig \<Rightarrow> nat \<Rightarrow> LoopState \<Rightarrow> LoopError + ExecuteResult" where
  "buildPauseResult svc cfg i st =
     (let checkpoint = buildSnapshot svc st (int i - 1) (lc_timestamps cfg ! (i - 1))
      in case (case lc_onPaused cfg of None \<Rightarrow> None | Some onPaused \<Rightarrow> onPaused checkpoint) of
           Some e \<Rightarrow> Inl (CallbackFailed e)
         | None \<Rightarrow> Inr (resultOf svc cfg (harvest svc st) True (Some checkpoint)))"

text \<open>A pause, or the counter of failed checks; \<^verbatim>\<open>PauseCheckOutcome\<close>.\<close>

definition checkPauseRequest ::
    "LoopServices \<Rightarrow> LoopConfig \<Rightarrow> nat \<Rightarrow> LoopState \<Rightarrow> LoopError + ExecuteResult option \<times> LoopState" where
  "checkPauseRequest svc cfg i st =
     (case lc_shouldPause cfg of
        None \<Rightarrow> Inr (None, st)
      | Some shouldPause \<Rightarrow>
          (case shouldPause i of
             Inr False \<Rightarrow> Inr (None, st\<lparr>ls_consecutivePauseFailures := 0\<rparr>)
           | Inr True \<Rightarrow> andThen (buildPauseResult svc cfg i st) (\<lambda>result. Inr (Some result, st))
           | Inl pauseError \<Rightarrow>
               let newFailures = ls_consecutivePauseFailures st + 1
               in if newFailures \<ge> MAX_CONSECUTIVE_PAUSE_FAILURES
                  then andThen (buildPauseResult svc cfg i st) (\<lambda>result. Inr (Some result, st))
                  else Inr (None, st\<lparr>ls_consecutivePauseFailures := newFailures\<rparr>)))"

section \<open>A bar\<close>

definition MAX_CONSECUTIVE_ERRORS :: nat where "MAX_CONSECUTIVE_ERRORS = 10"

definition closePrices :: "OHLCCandle list \<Rightarrow> Prices" where
  "closePrices currentPrices = foldl (\<lambda>m candle. map_set (cd_coinId candle) (getPriceValue candle) m) [] currentPrices"

definition openPrices :: "OHLCCandle list \<Rightarrow> Prices" where
  "openPrices currentPrices =
     foldl (\<lambda>m candle. map_set (cd_coinId candle) (getOpenPriceValue (Inl candle)) m) [] currentPrices"

definition applyForcedExits ::
    "LoopServices \<Rightarrow> LoopConfig \<Rightarrow> time_ms \<Rightarrow> MarketData \<Rightarrow> LoopState \<Rightarrow> LoopState" where
  "applyForcedExits svc cfg timestamp marketData st =
     (let (liquidationTrades, portfolio) = checkAndApplyLiquidations (lv_decimal svc) (ls_portfolio st) marketData;
          st1 = st\<lparr>ls_portfolio := portfolio,
            ls_trades := ls_trades st @ map (\<lambda>(coinId, trade). (timestamp, coinId, trade)) liquidationTrades,
            ls_lastKnownPrices := foldl (\<lambda>m (coinId, price). map_set coinId price m) (ls_lastKnownPrices st)
              (md_prices marketData)\<rparr>
      in if length (lc_delistingDates cfg) > 0
         then let (delistingTrades, portfolio', tracker) =
                    checkAndApplyDelistingExits (lv_decimal svc) (ls_portfolio st1) (lc_delistingDates cfg)
                      (ls_lastKnownPrices st1) timestamp (nullish (lc_delistingPenalty cfg) (Finite (9 / 10)))
                      (ls_exitTracker st1)
              in st1\<lparr>ls_portfolio := portfolio', ls_exitTracker := tracker,
                   ls_trades := ls_trades st1 @ map (\<lambda>(coinId, trade). (timestamp, coinId, trade)) delistingTrades\<rparr>
         else st1)"

definition buildAlgorithmContext ::
    "LoopConfig \<Rightarrow> LoopState \<Rightarrow> PriceData \<Rightarrow> time_ms \<Rightarrow> (PriceTimeframe, PriceData) jsmap \<Rightarrow>
     CompositeRegimeResult option \<Rightarrow> nat \<Rightarrow> AlgorithmContext" where
  "buildAlgorithmContext cfg st priceData timestamp priceDataByTimeframe regime currentTimestampIndex =
     \<lparr>ag_coins = lc_coins cfg, ag_priceData = priceData, ag_timestamp = timestamp, ag_config = lc_parameters cfg,
      ag_positions = foldl (\<lambda>pos (coinId, p). map_set coinId (pos_quantity p) pos) [] (po_positions (ls_portfolio st)),
      ag_availableBalance = po_cashBalance (ls_portfolio st), ag_metadata = lc_algoMetadata cfg,
      ag_precomputedIndicators = lc_precomputedIndicators cfg, ag_currentTimestampIndex = currentTimestampIndex,
      ag_priceDataByTimeframe =
        (if length priceDataByTimeframe > 0
         then Some (foldl (\<lambda>m (tf, d). map_set tf d m) [(PriceTimeframe.HOURLY, priceData)] priceDataByTimeframe) else None),
      ag_compositeRegime = map_option cr_compositeRegime regime,
      ag_volatilityRegime = map_option cr_volatilityRegime regime\<rparr>"

definition showAlgorithm :: "LoopServices \<Rightarrow> AlgorithmContext \<Rightarrow> LoopState \<Rightarrow> AlgorithmOutcome \<times> LoopState" where
  "showAlgorithm svc context st =
     (let contexts = ls_contexts st @ [context]
      in (lv_executeAlgorithm svc contexts, st\<lparr>ls_contexts := contexts\<rparr>))"

definition strategySignals :: "AlgorithmResult \<Rightarrow> TradingSignal list" where
  "strategySignals result =
     (if \<not> aq_success result \<or> nullish (aq_signals result) [] = [] then []
      else filter (\<lambda>signal. sg_action signal \<noteq> HOLD_ACTION)
             (map (\<lambda>s. mapStrategySignal s (aq_exitConfig result)) (nullish (aq_signals result) [])))"

definition executeAlgorithmWithRetry ::
    "LoopServices \<Rightarrow> nat \<Rightarrow> AlgorithmContext \<Rightarrow> LoopState \<Rightarrow> LoopError + TradingSignal list \<times> LoopState" where
  "executeAlgorithmWithRetry svc i context st =
     (let (outcome, st1) = showAlgorithm svc context st
      in case outcome of
           AlgorithmReturned result \<Rightarrow>
             Inr (strategySignals result,
               st1\<lparr>ls_watchdog := recordSuccess (lv_now svc i) (ls_watchdog st1), ls_consecutiveErrors := 0\<rparr>)
         | AlgorithmNotRegistered \<Rightarrow> Inl AlgorithmNotRegisteredError
         | AlgorithmThrew message \<Rightarrow>
             (case checkStall (lv_now svc i) (ls_watchdog st1) of
                Some e \<Rightarrow> Inl e
              | None \<Rightarrow>
                  let consecutiveErrors = ls_consecutiveErrors st1 + 1
                  in if consecutiveErrors \<ge> MAX_CONSECUTIVE_ERRORS then Inl (AlgorithmFailed message)
                     else Inr ([], st1\<lparr>ls_consecutiveErrors := consecutiveErrors\<rparr>)))"

definition hardStop :: "TradingSignal \<Rightarrow> bool" where
  "hardStop signal \<longleftrightarrow> map_get (nullish (sg_metadata signal) []) ''hardStopLoss'' = Some (JBool True)"

fun dispatchFilteredSignals ::
    "LoopServices \<Rightarrow> LoopConfig \<Rightarrow> TradingSignal list \<Rightarrow> time_ms \<Rightarrow> MarketData \<Rightarrow> OHLCCandle list \<Rightarrow> number \<Rightarrow> number \<Rightarrow>
     LoopState \<Rightarrow> LoopError + LoopState" where
  "dispatchFilteredSignals svc cfg [] timestamp marketData currentPrices barMaxAllocation barMinAllocation st = Inr st"
| "dispatchFilteredSignals svc cfg (signal # signals) timestamp marketData currentPrices barMaxAllocation barMinAllocation st =
     andThen (if hardStop signal
              then processSignalTrade svc cfg signal timestamp marketData currentPrices barMaxAllocation barMinAllocation st
              else Inr (st\<lparr>ls_pendingSignals := ls_pendingSignals st @ [signal]\<rparr>))
       (dispatchFilteredSignals svc cfg signals timestamp marketData currentPrices barMaxAllocation barMinAllocation)"

text \<open>The initial capital is not zero.\<close>

definition recordPeriodicSnapshot ::
    "LoopServices \<Rightarrow> LoopConfig \<Rightarrow> nat \<Rightarrow> time_ms \<Rightarrow> MarketData \<Rightarrow> number \<Rightarrow> LoopState \<Rightarrow> LoopState" where
  "recordPeriodicSnapshot svc cfg i timestamp marketData currentDrawdown st =
     (let tradingRelativeIdx = int i - int (lc_effectiveTradingStartIndex cfg); portfolio = ls_portfolio st
      in if js_rem tradingRelativeIdx 24 \<noteq> 0 \<and> int i \<noteq> int (lc_effectiveTimestampCount cfg) - 1 then st
         else st\<lparr>ls_snapshots := ls_snapshots st @
                [\<lparr>sn_timestamp = timestamp, sn_portfolioValue = po_totalValue portfolio,
                  sn_cashBalance = po_cashBalance portfolio,
                  sn_holdings = portfolioToHoldings (lv_decimal svc) portfolio (md_prices marketData),
                  sn_cumulativeReturn = (po_totalValue portfolio - lc_initialCapital cfg) / lc_initialCapital cfg,
                  sn_drawdown = currentDrawdown\<rparr>]\<rparr>)"

fun flushLoop ::
    "LoopServices \<Rightarrow> LoopConfig \<Rightarrow> TradingSignal list \<Rightarrow> time_ms \<Rightarrow> MarketData \<Rightarrow> OHLCCandle list \<Rightarrow> LoopState \<Rightarrow>
     LoopError + LoopState" where
  "flushLoop svc cfg [] timestamp openMarketData currentPrices st = Inr st"
| "flushLoop svc cfg (signal # queued) timestamp openMarketData currentPrices st =
     andThen (if map_get (md_prices openMarketData) (sg_coinId signal) = None then Inr st
              else processSignalTrade svc cfg signal timestamp openMarketData currentPrices
                     (lc_maxAllocation cfg) (lc_minAllocation cfg) st)
       (flushLoop svc cfg queued timestamp openMarketData currentPrices)"

definition flushPendingSignals ::
    "LoopServices \<Rightarrow> LoopConfig \<Rightarrow> time_ms \<Rightarrow> OHLCCandle list \<Rightarrow> LoopState \<Rightarrow> LoopError + LoopState" where
  "flushPendingSignals svc cfg timestamp currentPrices st =
     (if length (ls_pendingSignals st) = 0 then Inr st
      else flushLoop svc cfg (ls_pendingSignals st) timestamp
             \<lparr>md_timestamp = timestamp, md_prices = openPrices currentPrices\<rparr> currentPrices
             (st\<lparr>ls_pendingSignals := []\<rparr>))"

definition barRegime :: "LoopConfig \<Rightarrow> LoopState \<Rightarrow> CompositeRegimeResult option" where
  "barRegime cfg st =
     (case rg_btcCoin (lc_regimeConfig cfg) of
        None \<Rightarrow> None
      | Some btcCoin \<Rightarrow> computeCompositeRegime (coin_id btcCoin) (ls_priceCtx st))"

text \<open>Warm-up: the algorithm is primed, whatever it answers.\<close>

definition processWarmupBar ::
    "LoopServices \<Rightarrow> LoopConfig \<Rightarrow> nat \<Rightarrow> time_ms \<Rightarrow> PriceData \<Rightarrow> OHLCCandle list \<Rightarrow>
     (PriceTimeframe, PriceData) jsmap \<Rightarrow> LoopState \<Rightarrow> LoopState" where
  "processWarmupBar svc cfg i timestamp priceData currentPrices priceDataByTimeframe st =
     (let regime = (if lc_isLiveReplay cfg then None else barRegime cfg st);
          (outcome, st1) = showAlgorithm svc
            (buildAlgorithmContext cfg st priceData timestamp priceDataByTimeframe regime i) st;
          st2 = (case outcome of
                   AlgorithmReturned result \<Rightarrow> st1\<lparr>ls_watchdog := recordSuccess (lv_now svc i) (ls_watchdog st1)\<rparr>
                 | _ \<Rightarrow> st1)
      in st2\<lparr>ls_prevCandleMap := updatePrevCandleMap (ls_prevCandleMap st2) currentPrices\<rparr>)"

definition exitOptions ::
    "LoopConfig \<Rightarrow> nat \<Rightarrow> time_ms \<Rightarrow> MarketData \<Rightarrow> OHLCCandle list \<Rightarrow> CandleMap \<Rightarrow> ProcessExitSignalsOptions" where
  "exitOptions cfg i timestamp marketData currentPrices prevCandleMap =
     \<lparr>xo_currentPrices = currentPrices, xo_marketData = marketData, xo_tradingFee = lc_tradingFee cfg,
      xo_timestamp = timestamp, xo_slippageConfig = Some (lc_slippageConfig cfg),
      xo_maxAllocation = Some (lc_maxAllocation cfg), xo_minAllocation = Some (lc_minAllocation cfg),
      xo_fullFidelity = True, xo_prevCandleMap = Some prevCandleMap, xo_currentBar = real i\<rparr>"

definition exitCallbacks :: "LoopServices \<Rightarrow> ProcessExitSignalsCallbacks" where
  "exitCallbacks svc =
     \<lparr>cb_executeTradeFn = executeTrade (lv_decimal svc), cb_extractDailyVolumeFn = extractDailyVolume,
      cb_buildSpreadContextFn = buildSpreadContext\<rparr>"

definition processBarExits ::
    "LoopServices \<Rightarrow> LoopConfig \<Rightarrow> nat \<Rightarrow> time_ms \<Rightarrow> MarketData \<Rightarrow> OHLCCandle list \<Rightarrow> LoopState \<Rightarrow> LoopError + LoopState" where
  "processBarExits svc cfg i timestamp marketData currentPrices st =
     (case ls_exitTracker st of
        None \<Rightarrow> Inr st
      | Some tracker \<Rightarrow>
          (case processExitSignals (exitOptions cfg i timestamp marketData currentPrices (ls_prevCandleMap st))
              (exitCallbacks svc)
              \<lparr>xr_exitTracker = tracker, xr_portfolio = ls_portfolio st, xr_trades = ls_trades st,
               xr_signals = ls_signals st, xr_fills = ls_simulatedFills st\<rparr> of
             Inl e \<Rightarrow> Inl (TradeFailed e)
           | Inr run \<Rightarrow> Inr (st\<lparr>ls_exitTracker := Some (xr_exitTracker run), ls_portfolio := xr_portfolio run,
               ls_trades := xr_trades run, ls_signals := xr_signals run, ls_simulatedFills := xr_fills run\<rparr>)))"

definition throttleBar :: "LoopConfig \<Rightarrow> time_ms \<Rightarrow> TradingSignal list \<Rightarrow> ThrottleState \<Rightarrow> TradingSignal list \<times> ThrottleState" where
  "throttleBar cfg timestamp signals throttleState =
     (let (result, state) = filterSignals signals throttleState (lc_throttleConfig cfg) timestamp
      in (tr_accepted result,
          foldl (\<lambda>state accepted.
            if sg_originalType accepted = None \<or> the (sg_originalType accepted) \<notin> set THROTTLE_BYPASS_TYPES
            then markExecuted state accepted timestamp else state) state (tr_accepted result)))"

text \<open>The filter of re-entries; the tracker forgets a cooldown it finds expired.\<close>

fun enterable :: "number \<Rightarrow> BacktestExitTracker \<Rightarrow> TradingSignal list \<Rightarrow> BacktestExitTracker \<times> TradingSignal list" where
  "enterable bar tracker [] = (tracker, [])"
| "enterable bar tracker (sig # signals) =
     (if sg_action sig \<noteq> BUY_ACTION
      then (let (t, kept) = enterable bar tracker signals in (t, sig # kept))
      else let (t1, allowed) = canEnter tracker (sg_coinId sig) bar; (t2, kept) = enterable bar t1 signals
           in (t2, if allowed then sig # kept else kept))"

definition cooldownFilter :: "nat \<Rightarrow> TradingSignal list \<Rightarrow> LoopState \<Rightarrow> TradingSignal list \<times> LoopState" where
  "cooldownFilter i signals st =
     (case ls_exitTracker st of
        None \<Rightarrow> (signals, st)
      | Some tracker \<Rightarrow>
          (let (t, kept) = enterable (real i) tracker signals in (kept, st\<lparr>ls_exitTracker := Some t\<rparr>)))"

text \<open>From the answer of the algorithm to the signals that are settled in the bar or queued.\<close>

definition takeDecisions ::
    "LoopServices \<Rightarrow> LoopConfig \<Rightarrow> nat \<Rightarrow> time_ms \<Rightarrow> MarketData \<Rightarrow> OHLCCandle list \<Rightarrow> AlgorithmContext \<Rightarrow>
     CompositeRegimeResult option \<Rightarrow> LoopState \<Rightarrow> LoopError + LoopState" where
  "takeDecisions svc cfg i timestamp marketData currentPrices context regime st =
     andThen (executeAlgorithmWithRetry svc i context st) (\<lambda>(signals, st1).
       let (throttled, throttle) = throttleBar cfg timestamp signals (ls_throttleState st1);
           st2 = st1\<lparr>ls_throttleState := throttle\<rparr>;
           gate = applyBarRegime throttled (ls_priceCtx st2) (lc_regimeConfig cfg)
             (buildConcentrationContext (ls_portfolio st2) marketData)
             \<lparr>al_maxAllocation = lc_maxAllocation cfg, al_minAllocation = lc_minAllocation cfg\<rparr> (Some regime);
           (kept, st3) = cooldownFilter i (bg_filteredSignals gate) st2
       in dispatchFilteredSignals svc cfg kept timestamp marketData currentPrices
            (bg_barMaxAllocation gate) (bg_barMinAllocation gate) st3)"

definition updatePeak :: "LoopState \<Rightarrow> number \<times> LoopState" where
  "updatePeak st =
     (let totalValue = po_totalValue (ls_portfolio st);
          peakValue = (if totalValue > ls_peakValue st then totalValue else ls_peakValue st);
          currentDrawdown = (if peakValue = 0 then 0 else max 0 ((peakValue - totalValue) / peakValue))
      in (currentDrawdown, st\<lparr>ls_peakValue := peakValue,
            ls_maxDrawdown := (if currentDrawdown > ls_maxDrawdown st then currentDrawdown else ls_maxDrawdown st)\<rparr>))"

definition closeBar ::
    "LoopServices \<Rightarrow> LoopConfig \<Rightarrow> nat \<Rightarrow> time_ms \<Rightarrow> MarketData \<Rightarrow> OHLCCandle list \<Rightarrow> LoopState \<Rightarrow> LoopError + LoopState" where
  "closeBar svc cfg i timestamp marketData currentPrices st =
     (let (currentDrawdown, st1) = updatePeak st;
          st2 = recordPeriodicSnapshot svc cfg i timestamp marketData currentDrawdown st1;
          st3 = st2\<lparr>ls_prevCandleMap := updatePrevCandleMap (ls_prevCandleMap st2) currentPrices\<rparr>
      in if lc_aborted cfg i then Inl (writeEmergencyAndAbort svc cfg i timestamp st3)
         else if lc_onCheckpoint cfg \<noteq> None \<and> int i - ls_lastCheckpointIndex st3 \<ge> lc_checkpointInterval cfg
         then persist svc cfg i timestamp st3
         else Inr st3)"

definition processTradingBar ::
    "LoopServices \<Rightarrow> LoopConfig \<Rightarrow> nat \<Rightarrow> time_ms \<Rightarrow> OHLCCandle list \<Rightarrow> MarketData \<Rightarrow> PriceData \<Rightarrow>
     (PriceTimeframe, PriceData) jsmap \<Rightarrow> LoopState \<Rightarrow> LoopError + LoopState" where
  "processTradingBar svc cfg i timestamp currentPrices marketData priceData priceDataByTimeframe st =
     (let D = lv_decimal svc;
          opened = st\<lparr>ls_portfolio := updateValues D (ls_portfolio st) (openPrices currentPrices)\<rparr>
      in andThen (flushPendingSignals svc cfg timestamp currentPrices opened) (\<lambda>flushed.
           let closed = flushed\<lparr>ls_portfolio := updateValues D (ls_portfolio flushed) (md_prices marketData)\<rparr>
           in andThen (processBarExits svc cfg i timestamp marketData currentPrices
                         (applyForcedExits svc cfg timestamp marketData closed)) (\<lambda>exited.
                let regime = barRegime cfg exited
                in andThen (takeDecisions svc cfg i timestamp marketData currentPrices
                     (buildAlgorithmContext cfg exited priceData timestamp priceDataByTimeframe regime i) regime exited)
                     (closeBar svc cfg i timestamp marketData currentPrices))))"

text \<open>Every timestamp of the run is a key of the candles.\<close>

definition processBar ::
    "LoopServices \<Rightarrow> LoopConfig \<Rightarrow> nat \<Rightarrow> LoopState \<Rightarrow> LoopError + ExecuteResult option \<times> LoopState" where
  "processBar svc cfg i st =
     andThen (if lc_isLiveReplay cfg then checkPauseRequest svc cfg i st else Inr (None, st)) (\<lambda>(paused, st1).
       case paused of
         Some result \<Rightarrow> Inr (Some result, st1)
       | None \<Rightarrow>
           let timestamp = lc_timestamps cfg ! i;
               currentPrices = nullish (map_get (lc_pricesByTimestamp cfg) timestamp) [];
               marketData = \<lparr>md_timestamp = timestamp, md_prices = closePrices currentPrices\<rparr>;
               (priceCtx, priceData, priceDataByTimeframe) = advanceBar (ls_priceCtx st1) (lc_coins cfg) timestamp;
               st2 = st1\<lparr>ls_priceCtx := priceCtx\<rparr>
           in if i < lc_effectiveTradingStartIndex cfg
              then let valued = st2\<lparr>ls_portfolio := updateValues (lv_decimal svc) (ls_portfolio st2) (md_prices marketData)\<rparr>
                   in Inr (None, processWarmupBar svc cfg i timestamp priceData currentPrices priceDataByTimeframe
                        (applyForcedExits svc cfg timestamp marketData valued))
              else andThen (processTradingBar svc cfg i timestamp currentPrices marketData priceData priceDataByTimeframe st2)
                     (\<lambda>st3. Inr (None, st3)))"

section \<open>The run\<close>

fun barLoop ::
    "LoopServices \<Rightarrow> LoopConfig \<Rightarrow> nat list \<Rightarrow> LoopState \<Rightarrow> LoopError + ExecuteResult option \<times> LoopState" where
  "barLoop svc cfg [] st = Inr (None, st)"
| "barLoop svc cfg (i # bars) st =
     andThen (processBar svc cfg i st) (\<lambda>(pauseResult, st1).
       case pauseResult of Some result \<Rightarrow> Inr (Some result, st1) | None \<Rightarrow> barLoop svc cfg bars st1)"

definition finalizeResults :: "LoopServices \<Rightarrow> LoopConfig \<Rightarrow> LoopState \<Rightarrow> ExecuteResult" where
  "finalizeResults svc cfg st =
     (let dropped = st\<lparr>ls_pendingSignals := []\<rparr>;
          released = dropped\<lparr>ls_priceCtx := snd (clearPriceData (lc_pricesByTimestamp cfg) (ls_priceCtx dropped))\<rparr>
      in resultOf svc cfg (harvest svc released) False None)"

definition execute :: "LoopServices \<Rightarrow> LoopConfig \<Rightarrow> nat \<Rightarrow> LoopState \<Rightarrow> LoopError + ExecuteResult" where
  "execute svc cfg startIndex st =
     andThen (barLoop svc cfg [startIndex..<lc_effectiveTimestampCount cfg] st) (\<lambda>(pauseResult, st1).
       Inr (case pauseResult of Some result \<Rightarrow> result | None \<Rightarrow> finalizeResults svc cfg st1))"

section \<open>Setting up a run\<close>

record SlippageSnapshot =
  ss_model :: string
  ss_fixedBps :: "number option"
  ss_baseSlippageBps :: "number option"
  ss_participationRateLimit :: "number option"
  ss_rejectParticipationRate :: "number option"
  ss_volatilityFactor :: "number option"
  ss_spreadCalibrationFactor :: "number option"
  ss_minSpreadBps :: "number option"

text \<open>The fields of a backtest and the options of its execution that the context is made from; the
  first two of the options are those of the mode.\<close>

record Backtest =
  ba_initialCapital :: number
  ba_tradingFee :: number
  ba_startDate :: time_ms
  ba_endDate :: time_ms
  ba_slippage :: "SlippageSnapshot option"
  ba_regimeRiskLevel :: "number option"
  ba_parameters :: "(string, js_value) jsmap option"

record LoopRunnerOptions =
  lo_isLiveReplay :: bool
  lo_shouldPause :: "(nat \<Rightarrow> string + bool) option"
  lo_onPaused :: "(BacktestCheckpointState \<Rightarrow> string option) option"
  lo_deterministicSeed :: "int list"
  lo_minHoldMs :: "number option"
  lo_enableOpportunitySelling :: "bool option"
  lo_opportunitySellingConfig :: "OpportunitySellingUserConfig option"
  lo_maxAllocation :: "number option"
  lo_minAllocation :: "number option"
  lo_pipelineStage :: "string option"
  lo_enableHardStopLoss :: "bool option"
  lo_hardStopLossPercent :: "number option"
  lo_exitConfig :: "PartialExitConfig option"
  lo_enableRegimeGate :: "bool option"
  lo_enableRegimeScaledSizing :: "bool option"
  lo_riskLevel :: "number option"
  lo_checkpointInterval :: "int option"
  lo_onCheckpoint :: "(BacktestCheckpointState \<Rightarrow> CheckpointResults \<Rightarrow> int \<Rightarrow> string option) option"
  lo_resumeFrom :: "BacktestCheckpointState option"
  lo_aborted :: "nat \<Rightarrow> bool"
  lo_delistingPenalty :: "js_number option"

definition DEFAULT_LIVE_REPLAY_CHECKPOINT_INTERVAL :: int where "DEFAULT_LIVE_REPLAY_CHECKPOINT_INTERVAL = 100"
definition DEFAULT_CHECKPOINT_INTERVAL :: int where "DEFAULT_CHECKPOINT_INTERVAL = 500"
definition ALGORITHM_STALL_TIMEOUT_MS :: int where "ALGORITHM_STALL_TIMEOUT_MS = 300000"

record Boundaries =
  bd_effectiveTradingStartIndex :: nat
  bd_effectiveTimestampCount :: nat
  bd_tradingTimestampCount :: int

text \<open>The \<^verbatim>\<open>while\<close> loop that steps back from the last timestamp: the count it leaves.\<close>

fun stepBack :: "time_ms list \<Rightarrow> time_ms \<Rightarrow> nat \<Rightarrow> nat" where
  "stepBack timestamps tradingEndDate 0 = 0"
| "stepBack timestamps tradingEndDate (Suc lastIdx) =
     (if timestamps ! lastIdx > tradingEndDate then stepBack timestamps tradingEndDate lastIdx else Suc lastIdx)"

definition calculateBoundaries :: "time_ms list \<Rightarrow> time_ms \<Rightarrow> time_ms \<Rightarrow> Boundaries" where
  "calculateBoundaries timestamps tradingStartDate tradingEndDate =
     (let start = nullish (find (\<lambda>i. timestamps ! i \<ge> tradingStartDate) [0..<length timestamps]) 0;
          cnt = stepBack timestamps tradingEndDate (length timestamps)
      in \<lparr>bd_effectiveTradingStartIndex = start, bd_effectiveTimestampCount = cnt,
          bd_tradingTimestampCount = int cnt - int start\<rparr>)"

definition buildSlippageConfig :: "Backtest \<Rightarrow> SlippageConfig" where
  "buildSlippageConfig backtest =
     (case ba_slippage backtest of
        None \<Rightarrow> DEFAULT_SLIPPAGE_CONFIG
      | Some snapshot \<Rightarrow>
          let slippageModel = mapSlippageModelType (Some (ss_model snapshot));
              riskDefaults = (if slippageModel = VOLUME_BASED
                then getParticipationDefaults (Some (nullish (ba_regimeRiskLevel backtest) DEFAULT_RISK_LEVEL)) else None)
          in Slippage_buildConfig
               \<lparr>sl_type = slippageModel, sl_fixedBps = Some (nullish (ss_fixedBps snapshot) 5),
                sl_baseSlippageBps = Some (nullish (ss_baseSlippageBps snapshot) 5), sl_maxSlippageBps = None,
                sl_participationRateLimit = orElse (ss_participationRateLimit snapshot) (map_option fst riskDefaults),
                sl_rejectParticipationRate = orElse (ss_rejectParticipationRate snapshot) (map_option snd riskDefaults),
                sl_volatilityFactor = ss_volatilityFactor snapshot,
                sl_spreadCalibrationFactor = Some (nullish (ss_spreadCalibrationFactor snapshot) 1),
                sl_minSpreadBps = Some (nullish (ss_minSpreadBps snapshot) 2)\<rparr>)"

definition fastForwardForResume :: "nat \<Rightarrow> Coin list \<Rightarrow> time_ms list \<Rightarrow> PriceTrackingContext \<Rightarrow> PriceTrackingContext" where
  "fastForwardForResume startIndex coins timestamps priceCtx =
     foldl (\<lambda>ctx j. fst (advanceBar ctx coins (timestamps ! j))) priceCtx [0..<startIndex]"

text \<open>The data of a run: the candles, the delistings and the precomputed indicators come from other services.\<close>

record RunData =
  rd_historicalPrices :: "OHLCCandle list"
  rd_delistingDates :: "(string, time_ms) jsmap"
  rd_precomputedIndicators :: "PrecomputedIndicators option"
  rd_algoMetadata :: "(string, js_value) jsmap"

definition loadTimestamps :: "OHLCCandle list \<Rightarrow> time_ms list" where
  "loadTimestamps historicalPrices = sort (map fst (groupPricesByTimestamp historicalPrices))"

definition createConfig :: "Backtest \<Rightarrow> Coin list \<Rightarrow> LoopRunnerOptions \<Rightarrow> RunData \<Rightarrow> LoopConfig" where
  "createConfig backtest coins options data =
     (let live = lo_isLiveReplay options;
          timestamps = loadTimestamps (rd_historicalPrices data);
          boundaries = calculateBoundaries timestamps (ba_startDate backtest) (ba_endDate backtest);
          limits = getAllocationLimits (Some (nullish (lo_pipelineStage options) (if live then ''LIVE_REPLAY'' else ''HISTORICAL'')))
            (lo_riskLevel options) (lo_maxAllocation options) (lo_minAllocation options)
      in \<lparr>lc_isLiveReplay = live, lc_shouldPause = lo_shouldPause options, lc_onPaused = lo_onPaused options,
          lc_checkpointInterval = nullish (lo_checkpointInterval options)
            (if live then DEFAULT_LIVE_REPLAY_CHECKPOINT_INTERVAL else DEFAULT_CHECKPOINT_INTERVAL),
          lc_onCheckpoint = lo_onCheckpoint options, lc_aborted = lo_aborted options,
          lc_slippageConfig = buildSlippageConfig backtest,
          lc_minHoldMs = nullish (lo_minHoldMs options) (getMinHoldMs (nullish (lo_riskLevel options) DEFAULT_RISK_LEVEL)),
          lc_maxAllocation = lim_maxAllocation limits, lc_minAllocation = lim_minAllocation limits,
          lc_oppSellingEnabled = (\<not> live \<and> nullish (lo_enableOpportunitySelling options) False),
          lc_oppSellingConfig = nullish (lo_opportunitySellingConfig options) DEFAULT_OPPORTUNITY_SELLING_CONFIG,
          lc_algoMetadata = rd_algoMetadata data,
          lc_regimeConfig = resolveRegimeConfig (lo_enableRegimeGate options) (lo_enableRegimeScaledSizing options)
            (lo_riskLevel options) coins,
          lc_throttleConfig = resolveConfig (ba_parameters backtest) DEFAULT_THROTTLE_CONFIG,
          lc_initialCapital = ba_initialCapital backtest, lc_tradingFee = ba_tradingFee backtest,
          lc_startDate = ba_startDate backtest, lc_endDate = ba_endDate backtest,
          lc_parameters = nullish (ba_parameters backtest) [], lc_coins = coins,
          lc_coinMap = foldl (\<lambda>m coin. map_set (coin_id coin) coin m) [] coins,
          lc_pricesByTimestamp = groupPricesByTimestamp (rd_historicalPrices data), lc_timestamps = timestamps,
          lc_delistingDates = rd_delistingDates data, lc_delistingPenalty = lo_delistingPenalty options,
          lc_effectiveTradingStartIndex = bd_effectiveTradingStartIndex boundaries,
          lc_effectiveTimestampCount = bd_effectiveTimestampCount boundaries,
          lc_tradingTimestampCount = bd_tradingTimestampCount boundaries,
          lc_precomputedIndicators = rd_precomputedIndicators data\<rparr>)"

definition resumeIndex :: "LoopRunnerOptions \<Rightarrow> int" where
  "resumeIndex options =
     (case lo_resumeFrom options of None \<Rightarrow> 0 | Some checkpoint \<Rightarrow> cs_lastProcessedIndex checkpoint + 1)"

definition startPriceCtx :: "Coin list \<Rightarrow> OHLCCandle list \<Rightarrow> Coin option \<Rightarrow> PriceTrackingContext" where
  "startPriceCtx coins historicalPrices btcCoin =
     (let ctx = initPriceTracking historicalPrices (map coin_id coins);
          ctx' = (case btcCoin of
            None \<Rightarrow> ctx
          | Some btc \<Rightarrow> ctx\<lparr>pt_btcRegimeSma := Some (projr (IncrementalSma_new REGIME_SMA_PERIOD)),
                          pt_btcCoinId := Some (coin_id btc)\<rparr>)
      in initMultiTimeframe ctx' (aggregate (pt_summariesByCoin ctx') HIGHER_TIMEFRAMES))"

definition createState ::
    "DecimalOps \<Rightarrow> time_ms \<Rightarrow> Backtest \<Rightarrow> Coin list \<Rightarrow> LoopRunnerOptions \<Rightarrow> RunData \<Rightarrow> LoopState" where
  "createState D now backtest coins options data =
     (let resumeFrom = lo_resumeFrom options;
          cfg = createConfig backtest coins options data;
          restored = restoreState D (ba_initialCapital backtest) (lo_deterministicSeed options) resumeFrom;
          startIndex = resumeIndex options;
          priceCtx = startPriceCtx coins (rd_historicalPrices data) (rg_btcCoin (lc_regimeConfig cfg))
      in \<lparr>ls_rng = rs_rng restored, ls_portfolio = rs_portfolio restored, ls_peakValue = rs_peakValue restored,
          ls_maxDrawdown = rs_maxDrawdown restored,
          ls_exitTracker = resolveExitTracker
            \<lparr>rx_exitConfig = lo_exitConfig options, rx_enableHardStopLoss = Some (lo_enableHardStopLoss options \<noteq> Some False),
             rx_hardStopLossPercent = Some (nullish (lo_hardStopLossPercent options) (5 / 100)),
             rx_resumeExitTrackerState = (case resumeFrom of None \<Rightarrow> None | Some checkpoint \<Rightarrow> cs_exitTrackerState checkpoint)\<rparr>,
          ls_throttleState = resumedThrottle resumeFrom, ls_trades = [], ls_signals = [], ls_simulatedFills = [],
          ls_snapshots = [], ls_totalPersistedCounts = persistedCounts resumeFrom,
          ls_metricsAcc = resumedAccumulator resumeFrom, ls_lastCheckpointCounts = NO_PERSISTED_COUNTS,
          ls_lastCheckpointIndex = startIndex - 1, ls_consecutiveErrors = 0,
          ls_watchdog = AlgorithmWatchdog_new ALGORITHM_STALL_TIMEOUT_MS now, ls_consecutivePauseFailures = 0,
          ls_prevCandleMap = [], ls_pendingSignals = resumedPendingSignals resumeFrom, ls_lastKnownPrices = [],
          ls_priceCtx = (case resumeFrom of
            None \<Rightarrow> priceCtx
          | Some checkpoint \<Rightarrow> fastForwardForResume (nat startIndex) coins (lc_timestamps cfg) priceCtx),
          ls_contexts = [], ls_saved = []\<rparr>)"

datatype RunError = NoHistoricalPrices | LoopFailed LoopError

definition runBacktest ::
    "LoopServices \<Rightarrow> time_ms \<Rightarrow> Backtest \<Rightarrow> Coin list \<Rightarrow> LoopRunnerOptions \<Rightarrow> RunData \<Rightarrow> RunError + ExecuteResult" where
  "runBacktest svc now backtest coins options data =
     (if length (rd_historicalPrices data) = 0 then Inl NoHistoricalPrices
      else case execute svc (createConfig backtest coins options data) (nat (resumeIndex options))
             (createState (lv_decimal svc) now backtest coins options data) of
             Inl e \<Rightarrow> Inl (LoopFailed e)
           | Inr result \<Rightarrow> Inr result)"

end
