(* ===== verification/LoopSafety.thy ===== *)
theory LoopSafety
  imports BacktestLoop
begin

text \<open>
  What holds of a run of the backtest loop: how every part of a bar leaves the rest of the state alone,
  the invariants of a run, the settlement of queued signals, warm-up, failing algorithms, and the exits
  of coins that were sold to fund a buy.
\<close>

named_theorems loop_frames \<open>what the parts of a bar leave unchanged\<close>

section \<open>Frames\<close>

text \<open>The settlement of signals, exits and forced exits only trades and records: the rest of the state stays,
  and the records only grow.\<close>

definition trades_only :: "LoopState \<Rightarrow> LoopState \<Rightarrow> bool" where
  "trades_only st st' \<longleftrightarrow>
     st' = st\<lparr>ls_portfolio := ls_portfolio st', ls_exitTracker := ls_exitTracker st', ls_trades := ls_trades st',
       ls_signals := ls_signals st', ls_simulatedFills := ls_simulatedFills st', ls_metricsAcc := ls_metricsAcc st'\<rparr> \<and>
     (\<exists>new. ls_signals st' = ls_signals st @ new) \<and> (\<exists>new. ls_trades st' = ls_trades st @ new) \<and>
     (\<exists>new. ls_simulatedFills st' = ls_simulatedFills st @ new) \<and>
     (ls_exitTracker st' = None) = (ls_exitTracker st = None)"

lemma trades_only_refl [simp, intro]: "trades_only st st"
  by (simp add: trades_only_def)

lemma trades_only_trans [trans]:
  assumes "trades_only a b" "trades_only b c"
  shows "trades_only a c"
proof -
  have "c = a\<lparr>ls_portfolio := ls_portfolio c, ls_exitTracker := ls_exitTracker c, ls_trades := ls_trades c,
      ls_signals := ls_signals c, ls_simulatedFills := ls_simulatedFills c, ls_metricsAcc := ls_metricsAcc c\<rparr>"
    using assms unfolding trades_only_def by (cases a; cases b; cases c) simp
  then show ?thesis using assms unfolding trades_only_def by (metis append_assoc)
qed

lemma tryTrade_frame [loop_frames]:
  "tryTrade svc params st = Inr (r, st') \<Longrightarrow> st' = st\<lparr>ls_portfolio := ls_portfolio st'\<rparr>"
  by (auto simp: tryTrade_def split: prod.splits sum.splits)

lemma tryTrade_trades [loop_frames]: "tryTrade svc params st = Inr (r, st') \<Longrightarrow> trades_only st st' \<and> ls_signals st' = ls_signals st"
  by (auto simp: tryTrade_def trades_only_def split: prod.splits sum.splits)

lemma sellForBuy_trades [loop_frames]:
  "sellForBuy svc cfg market signal mx mn st = Inr (r, st') \<Longrightarrow>
    trades_only st st' \<and> ls_signals st' = ls_signals st \<and> ls_exitTracker st' = ls_exitTracker st"
  by (auto simp: sellForBuy_def trades_only_def split: prod.splits option.splits)

lemma skipBuy_trades [loop_frames]: "trades_only st (skipBuy signal st) \<and> ls_signals (skipBuy signal st) = ls_signals st"
  by (simp add: skipBuy_def trades_only_def)

lemma recordTradeResult_trades [loop_frames]:
  "recordTradeResult cfg r signal t st = Inr st' \<Longrightarrow> trades_only st st' \<and> ls_signals st' = ls_signals st"
  by (auto simp: recordTradeResult_def skipBuy_def trades_only_def Let_def split: if_splits)

lemma settleSignal_trades [loop_frames]:
  "settleSignal cfg r signal t st = Inr st' \<Longrightarrow> trades_only st st' \<and> ls_signals st' = ls_signals st"
  by (auto simp: settleSignal_def loop_frames split: option.splits)

lemma processSignalTrade_trades:
  assumes "processSignalTrade svc cfg signal t md prices mx mn st = Inr st'"
  shows "trades_only st st' \<and> ls_signals st' = ls_signals st @ [signalRecord signal t md]"
proof -
  let ?recorded = "st\<lparr>ls_signals := ls_signals st @ [signalRecord signal t md]\<rparr>"
  have start: "trades_only st ?recorded" by (simp add: trades_only_def)
  obtain r st1 where first: "tryTrade svc (signalParams cfg signal md prices mx mn (ls_prevCandleMap st)) ?recorded = Inr (r, st1)"
    using assms by (auto simp: processSignalTrade_def andThen_Inr Let_def)
  have one: "trades_only ?recorded st1 \<and> ls_signals st1 = ls_signals ?recorded" using tryTrade_trades [OF first] .
  have "trades_only st1 st' \<and> ls_signals st' = ls_signals st1"
  proof (cases "r = None \<and> sg_action signal = BUY_ACTION \<and> lc_oppSellingEnabled cfg")
    case True
    then obtain ok st2 where second: "sellForBuy svc cfg (sellMarket cfg md t prices (ls_prevCandleMap st)) signal mx mn st1 = Inr (ok, st2)"
      and rest: "(if ok then andThen (tryTrade svc (signalParams cfg signal md prices mx mn (ls_prevCandleMap st)) st2)
          (\<lambda>(retried, st3). settleSignal cfg retried signal t st3) else settleSignal cfg None signal t st2) = Inr st'"
      using assms first by (auto simp: processSignalTrade_def andThen_Inr Let_def)
    have two: "trades_only st1 st2 \<and> ls_signals st2 = ls_signals st1" using sellForBuy_trades [OF second] by blast
    have "trades_only st2 st' \<and> ls_signals st' = ls_signals st2"
      using rest trades_only_trans by (auto simp: andThen_Inr split: if_splits dest!: tryTrade_trades settleSignal_trades)
    then show ?thesis using two trades_only_trans by fastforce
  next
    case False
    then have "settleSignal cfg r signal t st1 = Inr st'"
      using assms first by (auto simp: processSignalTrade_def Let_def)
    then show ?thesis by (rule settleSignal_trades)
  qed
  then show ?thesis using one trades_only_trans [OF start] trades_only_trans [of _ st1 st'] by simp
qed

lemma flushLoop_trades:
  "flushLoop svc cfg queued t md prices st = Inr st' \<Longrightarrow> trades_only st st' \<and>
    ls_signals st' = ls_signals st @
      map (\<lambda>s. signalRecord s t md) (filter (\<lambda>s. map_get (md_prices md) (sg_coinId s) \<noteq> None) queued)"
proof (induction queued arbitrary: st)
  case (Cons s queued)
  show ?case
  proof (cases "map_get (md_prices md) (sg_coinId s)")
    case (Some price)
    then obtain mid where step: "processSignalTrade svc cfg s t md prices (lc_maxAllocation cfg) (lc_minAllocation cfg) st = Inr mid"
      and rest: "flushLoop svc cfg queued t md prices mid = Inr st'"
      using Cons.prems by (auto simp: andThen_Inr)
    show ?thesis
      using processSignalTrade_trades [OF step] Cons.IH [OF rest] Some trades_only_trans by fastforce
  qed (use Cons in simp)
qed simp

lemma flushPendingSignals_trades:
  assumes "flushPendingSignals svc cfg t prices st = Inr st'"
  shows "trades_only (st\<lparr>ls_pendingSignals := []\<rparr>) st' \<and>
    ls_signals st' = ls_signals st @ map (\<lambda>s. signalRecord s t \<lparr>md_timestamp = t, md_prices = openPrices prices\<rparr>)
      (filter (\<lambda>s. map_get (openPrices prices) (sg_coinId s) \<noteq> None) (ls_pendingSignals st))"
proof (cases "ls_pendingSignals st = []")
  case True
  then have "st' = st\<lparr>ls_pendingSignals := []\<rparr>" using assms by (simp add: flushPendingSignals_def)
  then show ?thesis using True by simp
next
  case False
  then show ?thesis using assms flushLoop_trades by (fastforce simp: flushPendingSignals_def)
qed

lemma exitLoop_grows:
  "exitLoop opts cb exits run = Inr run' \<Longrightarrow> (\<exists>new. xr_signals run' = xr_signals run @ new) \<and>
    (\<exists>new. xr_trades run' = xr_trades run @ new) \<and> (\<exists>new. xr_fills run' = xr_fills run @ new)"
proof (induction exits arbitrary: run)
  case (Cons e exits)
  then obtain mid where step: "exitOne opts cb e run = Inr mid" and rest: "exitLoop opts cb exits mid = Inr run'"
    by (auto split: sum.splits)
  have "(\<exists>new. xr_signals mid = xr_signals run @ new) \<and> (\<exists>new. xr_trades mid = xr_trades run @ new) \<and>
      (\<exists>new. xr_fills mid = xr_fills run @ new)"
    using step by (auto simp: exitOne_def recordExit_def Let_def split: prod.splits sum.splits option.splits if_splits)
  then show ?case using Cons.IH [OF rest] by (metis append_assoc)
qed simp

lemma processBarExits_trades:
  assumes "processBarExits svc cfg i t md prices st = Inr st'"
  shows "trades_only st st'"
proof (cases "ls_exitTracker st")
  case (Some tracker)
  then obtain run where "processExitSignals (exitOptions cfg i t md prices (ls_prevCandleMap st)) (exitCallbacks svc)
      \<lparr>xr_exitTracker = tracker, xr_portfolio = ls_portfolio st, xr_trades = ls_trades st,
       xr_signals = ls_signals st, xr_fills = ls_simulatedFills st\<rparr> = Inr run"
    and st': "st' = st\<lparr>ls_exitTracker := Some (xr_exitTracker run), ls_portfolio := xr_portfolio run,
       ls_trades := xr_trades run, ls_signals := xr_signals run, ls_simulatedFills := xr_fills run\<rparr>"
    using assms by (auto simp: processBarExits_def split: sum.splits)
  then have "(\<exists>new. xr_signals run = ls_signals st @ new) \<and> (\<exists>new. xr_trades run = ls_trades st @ new) \<and>
      (\<exists>new. xr_fills run = ls_simulatedFills st @ new)"
    by (auto simp: processExitSignals_def Let_def split: if_splits prod.splits dest!: exitLoop_grows)
  then show ?thesis using Some by (simp add: trades_only_def st')
qed (use assms in \<open>simp add: processBarExits_def\<close>)

text \<open>The known prices are the one thing that forced exits change besides.\<close>

lemma applyForcedExits_trades:
  "trades_only (st\<lparr>ls_lastKnownPrices := ls_lastKnownPrices (applyForcedExits svc cfg t md st)\<rparr>) (applyForcedExits svc cfg t md st)
    \<and> ls_signals (applyForcedExits svc cfg t md st) = ls_signals st"
  by (auto simp: applyForcedExits_def trades_only_def checkAndApplyDelistingExits_def Let_def split: prod.splits)

lemma cooldownFilter_frame:
  assumes "cooldownFilter i signals st = (kept, st')"
  shows "st' = st\<lparr>ls_exitTracker := ls_exitTracker st'\<rparr> \<and> (ls_exitTracker st' = None) = (ls_exitTracker st = None) \<and>
    set kept \<subseteq> set signals"
proof -
  have sub: "set (snd (enterable bar tracker signals)) \<subseteq> set signals" for bar tracker
  proof (induction signals arbitrary: tracker)
    case (Cons sig signals)
    show ?case using Cons [of tracker] Cons [of "fst (canEnter tracker (sg_coinId sig) bar)"]
      by (auto simp: case_prod_unfold Let_def)
  qed simp
  then show ?thesis using assms
    by (auto simp: cooldownFilter_def split: option.splits prod.splits) (metis snd_conv subsetD sub)
qed

lemma dispatch_trades:
  assumes "dispatchFilteredSignals svc cfg signals t md prices mx mn st = Inr st'"
  shows "trades_only (st\<lparr>ls_pendingSignals := ls_pendingSignals st'\<rparr>) st' \<and>
    ls_pendingSignals st' = ls_pendingSignals st @ filter (\<lambda>s. \<not> hardStop s) signals"
  using assms
proof (induction signals arbitrary: st)
  case (Cons s signals)
  show ?case
  proof (cases "hardStop s")
    case True
    then obtain mid where step: "processSignalTrade svc cfg s t md prices mx mn st = Inr mid"
      and rest: "dispatchFilteredSignals svc cfg signals t md prices mx mn mid = Inr st'"
      using Cons.prems by (auto simp: andThen_Inr)
    have frame: "trades_only st mid" using processSignalTrade_trades [OF step] by blast
    then have "ls_pendingSignals mid = ls_pendingSignals st" unfolding trades_only_def by (cases st; cases mid) simp
    moreover have "trades_only (st\<lparr>ls_pendingSignals := ls_pendingSignals st'\<rparr>) (mid\<lparr>ls_pendingSignals := ls_pendingSignals st'\<rparr>)"
      using frame unfolding trades_only_def by (cases st; cases mid) simp
    ultimately show ?thesis using Cons.IH [OF rest] True trades_only_trans by fastforce
  next
    case False
    then have "dispatchFilteredSignals svc cfg signals t md prices mx mn (st\<lparr>ls_pendingSignals := ls_pendingSignals st @ [s]\<rparr>) = Inr st'"
      using Cons.prems by simp
    note queued = Cons.IH [OF this, simplified]
    show ?thesis by (rule conjI, rule conjunct1 [OF queued], simp add: False conjunct2 [OF queued])
  qed
qed simp

text \<open>What the decisions of a bar change besides trading: the algorithm's side, the throttle and the queue.\<close>

lemma takeDecisions_frame:
  assumes "takeDecisions svc cfg i t md prices context regime st = Inr st'"
  shows "trades_only (st\<lparr>ls_pendingSignals := ls_pendingSignals st', ls_throttleState := ls_throttleState st',
      ls_contexts := ls_contexts st @ [context], ls_watchdog := ls_watchdog st',
      ls_consecutiveErrors := ls_consecutiveErrors st'\<rparr>) st' \<and>
    (\<exists>decided. ls_pendingSignals st' = ls_pendingSignals st @ filter (\<lambda>s. \<not> hardStop s) decided) \<and>
    (ls_consecutiveErrors st' = 0 \<or> ls_consecutiveErrors st' = ls_consecutiveErrors st + 1 \<and>
      ls_consecutiveErrors st' < MAX_CONSECUTIVE_ERRORS)"
proof -
  obtain signals st1 where answer: "executeAlgorithmWithRetry svc i context st = Inr (signals, st1)"
    using assms by (auto simp: takeDecisions_def andThen_Inr)
  then have st1: "st1 = st\<lparr>ls_contexts := ls_contexts st @ [context], ls_watchdog := ls_watchdog st1,
      ls_consecutiveErrors := ls_consecutiveErrors st1\<rparr>"
    and errors: "ls_consecutiveErrors st1 = 0 \<or> ls_consecutiveErrors st1 = ls_consecutiveErrors st + 1 \<and>
      ls_consecutiveErrors st1 < MAX_CONSECUTIVE_ERRORS"
    by (auto simp: executeAlgorithmWithRetry_def showAlgorithm_def Let_def split: AlgorithmOutcome.splits option.splits if_splits)
  obtain throttled throttle where throttle: "throttleBar cfg t signals (ls_throttleState st1) = (throttled, throttle)" by force
  define st2 where "st2 = st1\<lparr>ls_throttleState := throttle\<rparr>"
  define gate where "gate = applyBarRegime throttled (ls_priceCtx st2) (lc_regimeConfig cfg)
     (buildConcentrationContext (ls_portfolio st2) md)
     \<lparr>al_maxAllocation = lc_maxAllocation cfg, al_minAllocation = lc_minAllocation cfg\<rparr> (Some regime)"
  obtain kept st3 where kept: "cooldownFilter i (bg_filteredSignals gate) st2 = (kept, st3)" by force
  then have dispatch: "dispatchFilteredSignals svc cfg kept t md prices (bg_barMaxAllocation gate) (bg_barMinAllocation gate) st3 = Inr st'"
    using assms answer throttle by (simp add: takeDecisions_def st2_def gate_def Let_def)
  note frames = cooldownFilter_frame [OF kept] dispatch_trades [OF dispatch]
  show ?thesis
  proof (intro conjI)
    show "trades_only (st\<lparr>ls_pendingSignals := ls_pendingSignals st', ls_throttleState := ls_throttleState st',
      ls_contexts := ls_contexts st @ [context], ls_watchdog := ls_watchdog st', ls_consecutiveErrors := ls_consecutiveErrors st'\<rparr>) st'"
      using frames st1 unfolding trades_only_def st2_def by (cases st; cases st1; cases st3; cases st') auto
    show "\<exists>decided. ls_pendingSignals st' = ls_pendingSignals st @ filter (\<lambda>s. \<not> hardStop s) decided"
      using frames st1 unfolding st2_def by (cases st; cases st1; cases st3) auto
    show "ls_consecutiveErrors st' = 0 \<or> ls_consecutiveErrors st' = ls_consecutiveErrors st + 1 \<and>
        ls_consecutiveErrors st' < MAX_CONSECUTIVE_ERRORS"
      using frames st1 errors unfolding trades_only_def st2_def by (cases st; cases st1; cases st3; cases st') auto
  qed
qed

section \<open>A bar in its parts\<close>

text \<open>The fields that only the end of a bar and a pause check write.\<close>

definition ledger ::
    "LoopState \<Rightarrow> (BacktestCheckpointState \<times> CheckpointResults) list \<times> PersistedResultsCounts \<times> PersistedResultsCounts \<times>
      number \<times> number \<times> PortfolioSnapshot list \<times> nat" where
  "ledger st = (ls_saved st, ls_lastCheckpointCounts st, ls_totalPersistedCounts st, ls_peakValue st, ls_maxDrawdown st,
     ls_snapshots st, ls_consecutivePauseFailures st)"

lemma trades_only_ledger: "trades_only a b \<Longrightarrow> ledger b = ledger a"
  unfolding trades_only_def ledger_def by (cases a; cases b) simp

lemma trades_only_queue: "trades_only a b \<Longrightarrow> ls_pendingSignals b = ls_pendingSignals a \<and> ls_contexts b = ls_contexts a \<and>
    ls_consecutiveErrors b = ls_consecutiveErrors a \<and> ls_priceCtx b = ls_priceCtx a \<and> ls_throttleState b = ls_throttleState a"
  unfolding trades_only_def by (cases a; cases b) simp

lemma trades_only_signals: "trades_only a b \<Longrightarrow> \<exists>new. ls_signals b = ls_signals a @ new"
  by (simp add: trades_only_def)

definition openMarket :: "time_ms \<Rightarrow> OHLCCandle list \<Rightarrow> MarketData" where
  "openMarket t prices = \<lparr>md_timestamp = t, md_prices = openPrices prices\<rparr>"

definition settled :: "OHLCCandle list \<Rightarrow> TradingSignal list \<Rightarrow> TradingSignal list" where
  "settled prices queued = filter (\<lambda>s. map_get (openPrices prices) (sg_coinId s) \<noteq> None) queued"

lemma processTradingBar_parts:
  assumes "processTradingBar svc cfg i t prices md pd tfd st = Inr st'"
  obtains exited shown regime decided where
    "ledger exited = ledger st" "ls_pendingSignals exited = []" "ls_consecutiveErrors exited = ls_consecutiveErrors st"
    "\<exists>more. ls_signals exited = ls_signals st @ map (\<lambda>s. signalRecord s t (openMarket t prices)) (settled prices (ls_pendingSignals st)) @ more"
    "takeDecisions svc cfg i t md prices shown regime exited = Inr decided"
    "closeBar svc cfg i t md prices decided = Inr st'"
proof -
  let ?opened = "st\<lparr>ls_portfolio := updateValues (lv_decimal svc) (ls_portfolio st) (openPrices prices)\<rparr>"
  obtain flushed where flush: "flushPendingSignals svc cfg t prices ?opened = Inr flushed"
    using assms by (auto simp: processTradingBar_def andThen_Inr Let_def)
  define closed where "closed = flushed\<lparr>ls_portfolio := updateValues (lv_decimal svc) (ls_portfolio flushed) (md_prices md)\<rparr>"
  define forced where "forced = applyForcedExits svc cfg t md closed"
  obtain exited where exits: "processBarExits svc cfg i t md prices forced = Inr exited"
    using assms flush by (auto simp: processTradingBar_def andThen_Inr Let_def forced_def closed_def)
  obtain decided where decide: "takeDecisions svc cfg i t md prices
      (buildAlgorithmContext cfg exited pd t tfd (barRegime cfg exited) i) (barRegime cfg exited) exited = Inr decided"
    and close: "closeBar svc cfg i t md prices decided = Inr st'"
    using assms flush exits by (auto simp: processTradingBar_def andThen_Inr Let_def forced_def closed_def)
  note f1 = flushPendingSignals_trades [OF flush]
  note f2 = applyForcedExits_trades [where st = closed and svc = svc and cfg = cfg and t = t and md = md, folded forced_def]
  note f3 = processBarExits_trades [OF exits]
  have "ledger exited = ledger st" "ls_pendingSignals exited = []" "ls_consecutiveErrors exited = ls_consecutiveErrors st"
    using trades_only_ledger [OF conjunct1 [OF f1]] trades_only_ledger [OF conjunct1 [OF f2]] trades_only_ledger [OF f3]
      trades_only_queue [OF conjunct1 [OF f1]] trades_only_queue [OF conjunct1 [OF f2]] trades_only_queue [OF f3]
    by (simp_all add: closed_def ledger_def)
  moreover have "\<exists>more. ls_signals exited = ls_signals st @
      map (\<lambda>s. signalRecord s t (openMarket t prices)) (settled prices (ls_pendingSignals st)) @ more"
    using trades_only_signals [OF f3] f1 f2 by (auto simp: closed_def settled_def openMarket_def)
  ultimately show thesis using decide close that by blast
qed

lemma takeDecisions_ledger:
  "takeDecisions svc cfg i t md prices context regime st = Inr st' \<Longrightarrow> ledger st' = ledger st"
  using trades_only_ledger [OF conjunct1 [OF takeDecisions_frame]] by (fastforce simp: ledger_def)

text \<open>The end of a bar: peak and drawdown, a snapshot or none, and the records handed over or kept.\<close>

definition snapped :: "LoopServices \<Rightarrow> LoopConfig \<Rightarrow> nat \<Rightarrow> time_ms \<Rightarrow> MarketData \<Rightarrow> OHLCCandle list \<Rightarrow> LoopState \<Rightarrow> LoopState" where
  "snapped svc cfg i t md prices st =
     (let (currentDrawdown, st1) = updatePeak st; st2 = recordPeriodicSnapshot svc cfg i t md currentDrawdown st1
      in st2\<lparr>ls_prevCandleMap := updatePrevCandleMap (ls_prevCandleMap st2) prices\<rparr>)"

lemma closeBar_cases:
  assumes "closeBar svc cfg i t md prices st = Inr st'"
  defines "s \<equiv> snapped svc cfg i t md prices st"
  shows "st' = s \<or> st' = clearRecords i (harvest svc (s\<lparr>ls_saved := ls_saved s @ [(buildSnapshot svc s (int i) t, resultsSince s)]\<rparr>))"
proof -
  obtain dd st1 where peak: "updatePeak st = (dd, st1)" by force
  have s: "s = (recordPeriodicSnapshot svc cfg i t md dd st1)\<lparr>ls_prevCandleMap :=
      updatePrevCandleMap (ls_prevCandleMap (recordPeriodicSnapshot svc cfg i t md dd st1)) prices\<rparr>"
    by (simp add: s_def snapped_def peak Let_def)
  have "closeBar svc cfg i t md prices st = (if lc_aborted cfg i then Inl (writeEmergencyAndAbort svc cfg i t s)
      else if lc_onCheckpoint cfg \<noteq> None \<and> int i - ls_lastCheckpointIndex s \<ge> lc_checkpointInterval cfg
      then persist svc cfg i t s else Inr s)"
    by (simp add: closeBar_def peak Let_def s [symmetric])
  then have "(if lc_onCheckpoint cfg \<noteq> None \<and> int i - ls_lastCheckpointIndex s \<ge> lc_checkpointInterval cfg
      then persist svc cfg i t s else Inr s) = Inr st'"
    using assms(1) by (simp split: if_splits)
  then show ?thesis
    by (auto simp: persist_def andThen_Inr saveCheckpoint_def split: if_splits option.splits)
qed

lemma snapped_frame:
  "ls_signals (snapped svc cfg i t md prices st) = ls_signals st \<and> ls_saved (snapped svc cfg i t md prices st) = ls_saved st \<and>
   ls_lastCheckpointCounts (snapped svc cfg i t md prices st) = ls_lastCheckpointCounts st \<and>
   ls_totalPersistedCounts (snapped svc cfg i t md prices st) = ls_totalPersistedCounts st \<and>
   ls_pendingSignals (snapped svc cfg i t md prices st) = ls_pendingSignals st \<and>
   ls_consecutiveErrors (snapped svc cfg i t md prices st) = ls_consecutiveErrors st \<and>
   ls_consecutivePauseFailures (snapped svc cfg i t md prices st) = ls_consecutivePauseFailures st"
  by (simp add: snapped_def updatePeak_def recordPeriodicSnapshot_def Let_def)

definition recordedSignals :: "LoopState \<Rightarrow> BacktestSignal list" where
  "recordedSignals st = concat (map (kr_signals \<circ> snd) (ls_saved st)) @ ls_signals st"

definition recordedSnapshots :: "LoopState \<Rightarrow> PortfolioSnapshot list" where
  "recordedSnapshots st = concat (map (kr_snapshots \<circ> snd) (ls_saved st)) @ ls_snapshots st"

definition recordedTrades :: "LoopState \<Rightarrow> DatedTrade list" where
  "recordedTrades st = concat (map (kr_trades \<circ> snd) (ls_saved st)) @ ls_trades st"

definition recordedFills :: "LoopState \<Rightarrow> SimulatedFill list" where
  "recordedFills st = concat (map (kr_simulatedFills \<circ> snd) (ls_saved st)) @ ls_simulatedFills st"

text \<open>What a state has recorded, handed over or held, a later one has recorded too, in the same order.\<close>

definition keeps :: "LoopState \<Rightarrow> LoopState \<Rightarrow> bool" where
  "keeps st st' \<longleftrightarrow> (\<exists>new. recordedSignals st' = recordedSignals st @ new) \<and>
     (\<exists>new. recordedTrades st' = recordedTrades st @ new) \<and> (\<exists>new. recordedFills st' = recordedFills st @ new) \<and>
     (\<exists>new. recordedSnapshots st' = recordedSnapshots st @ new)"

lemmas recorded_defs = recordedSignals_def recordedTrades_def recordedFills_def recordedSnapshots_def

lemma keeps_refl [simp]: "keeps st st"
  by (simp add: keeps_def)

lemma keeps_trans [trans]: "keeps a b \<Longrightarrow> keeps b c \<Longrightarrow> keeps a c"
  unfolding keeps_def by (metis append_assoc)

lemma trades_only_keeps: "trades_only a b \<Longrightarrow> keeps a b"
  using trades_only_ledger [of a b] unfolding trades_only_def keeps_def recorded_defs ledger_def by auto

lemma closeBar_keeps:
  assumes "closeBar svc cfg i t md prices st = Inr st'" "ls_lastCheckpointCounts st = NO_PERSISTED_COUNTS"
  shows "keeps st st'"
proof -
  define s where "s = snapped svc cfg i t md prices st"
  have "keeps st s"
    by (auto simp: s_def snapped_def updatePeak_def recordPeriodicSnapshot_def keeps_def recorded_defs Let_def)
  moreover have "keeps s (clearRecords i (harvest svc (s\<lparr>ls_saved := ls_saved s @ [(buildSnapshot svc s (int i) t, resultsSince s)]\<rparr>)))"
    using snapped_frame [of svc cfg i t md prices st] assms(2)
    by (simp add: s_def [symmetric] keeps_def recorded_defs clearRecords_def harvest_def resultsSince_def NO_PERSISTED_COUNTS_def Let_def)
  ultimately show ?thesis using closeBar_cases [OF assms(1)] keeps_trans unfolding s_def [symmetric] by metis
qed

text \<open>After the queue is flushed at the open, the rest of a bar adds to what is recorded.\<close>

lemma tradingBar_flush:
  assumes "processTradingBar svc cfg i t prices md pd tfd st = Inr st'" "ls_lastCheckpointCounts st = NO_PERSISTED_COUNTS"
  obtains flushed where
    "flushPendingSignals svc cfg t prices
       (st\<lparr>ls_portfolio := updateValues (lv_decimal svc) (ls_portfolio st) (openPrices prices)\<rparr>) = Inr flushed"
    "keeps flushed st'"
proof -
  let ?opened = "st\<lparr>ls_portfolio := updateValues (lv_decimal svc) (ls_portfolio st) (openPrices prices)\<rparr>"
  obtain flushed where flush: "flushPendingSignals svc cfg t prices ?opened = Inr flushed"
    using assms by (auto simp: processTradingBar_def andThen_Inr Let_def)
  define closed where "closed = flushed\<lparr>ls_portfolio := updateValues (lv_decimal svc) (ls_portfolio flushed) (md_prices md)\<rparr>"
  define forced where "forced = applyForcedExits svc cfg t md closed"
  obtain exited where exits: "processBarExits svc cfg i t md prices forced = Inr exited"
    using assms flush by (auto simp: processTradingBar_def andThen_Inr Let_def forced_def closed_def)
  obtain shown regime decided where decide: "takeDecisions svc cfg i t md prices shown regime exited = Inr decided"
    and close: "closeBar svc cfg i t md prices decided = Inr st'"
    using assms flush exits by (auto simp: processTradingBar_def andThen_Inr Let_def forced_def closed_def)
  note f2 = applyForcedExits_trades [where st = closed and svc = svc and cfg = cfg and t = t and md = md, folded forced_def]
  have "keeps flushed forced"
    using trades_only_keeps [OF conjunct1 [OF f2]] by (simp add: closed_def keeps_def recorded_defs)
  moreover have "keeps exited decided"
    using trades_only_keeps [OF conjunct1 [OF takeDecisions_frame [OF decide]]] by (simp add: keeps_def recorded_defs)
  moreover have "ls_lastCheckpointCounts decided = NO_PERSISTED_COUNTS"
    using takeDecisions_ledger [OF decide] trades_only_ledger [OF processBarExits_trades [OF exits]]
      trades_only_ledger [OF conjunct1 [OF f2]] trades_only_ledger [OF conjunct1 [OF flushPendingSignals_trades [OF flush]]] assms(2)
    by (simp add: ledger_def closed_def)
  ultimately have "keeps flushed st'"
    using trades_only_keeps [OF processBarExits_trades [OF exits]] closeBar_keeps [OF close] keeps_trans by blast
  with flush that show thesis by blast
qed

lemma closeBar_signals:
  assumes "closeBar svc cfg i t md prices st = Inr st'" "ls_lastCheckpointCounts st = NO_PERSISTED_COUNTS"
  shows "recordedSignals st' = recordedSignals st \<and> ls_lastCheckpointCounts st' = NO_PERSISTED_COUNTS \<and>
    ls_pendingSignals st' = ls_pendingSignals st \<and> ls_consecutiveErrors st' = ls_consecutiveErrors st"
  using closeBar_cases [OF assms(1)] snapped_frame [of svc cfg i t md prices st] assms(2)
  by (auto simp: recordedSignals_def clearRecords_def harvest_def resultsSince_def NO_PERSISTED_COUNTS_def Let_def)

lemma tradingBar_signals:
  assumes "processTradingBar svc cfg i t prices md pd tfd st = Inr st'" "ls_lastCheckpointCounts st = NO_PERSISTED_COUNTS"
  shows "\<exists>more. recordedSignals st' = recordedSignals st @
      map (\<lambda>s. signalRecord s t (openMarket t prices)) (settled prices (ls_pendingSignals st)) @ more"
proof (rule processTradingBar_parts [OF assms(1)])
  fix exited shown regime decided
  assume exited: "ledger exited = ledger st" "\<exists>more. ls_signals exited = ls_signals st @
      map (\<lambda>s. signalRecord s t (openMarket t prices)) (settled prices (ls_pendingSignals st)) @ more"
    and decide: "takeDecisions svc cfg i t md prices shown regime exited = Inr decided"
    and close: "closeBar svc cfg i t md prices decided = Inr st'"
  have same: "ledger decided = ledger st" using takeDecisions_ledger [OF decide] exited(1) by simp
  have "\<exists>new. ls_signals decided = ls_signals exited @ new"
    using trades_only_signals [OF conjunct1 [OF takeDecisions_frame [OF decide]]] by simp
  moreover have "recordedSignals st' = recordedSignals decided"
    using closeBar_signals [OF close] same assms(2) by (simp add: ledger_def)
  ultimately show ?thesis using exited(2) same by (auto simp: recordedSignals_def ledger_def)
qed

section \<open>Bars in sequence\<close>

abbreviation barPrices :: "LoopConfig \<Rightarrow> nat \<Rightarrow> OHLCCandle list" where
  "barPrices cfg i \<equiv> nullish (map_get (lc_pricesByTimestamp cfg) (lc_timestamps cfg ! i)) []"

lemma checkPauseRequest_frame:
  "checkPauseRequest svc cfg i st = Inr (r, st') \<Longrightarrow>
    st' = st\<lparr>ls_consecutivePauseFailures := ls_consecutivePauseFailures st'\<rparr> \<and>
    (ls_consecutivePauseFailures st < MAX_CONSECUTIVE_PAUSE_FAILURES \<longrightarrow>
     ls_consecutivePauseFailures st' < MAX_CONSECUTIVE_PAUSE_FAILURES)"
  by (auto simp: checkPauseRequest_def andThen_Inr MAX_CONSECUTIVE_PAUSE_FAILURES_def Let_def
      split: option.splits sum.splits bool.splits if_splits)

text \<open>A bar is a pause, a warm-up or a trading bar.\<close>

lemma processBar_cases:
  assumes "processBar svc cfg i st = Inr (r, st')"
  obtains st1 where "st1 = st\<lparr>ls_consecutivePauseFailures := ls_consecutivePauseFailures st1\<rparr>"
      "ls_consecutivePauseFailures st < MAX_CONSECUTIVE_PAUSE_FAILURES \<longrightarrow>
        ls_consecutivePauseFailures st1 < MAX_CONSECUTIVE_PAUSE_FAILURES"
      "r \<noteq> None \<and> lc_isLiveReplay cfg \<and> st' = st1 \<or>
       r = None \<and> i < lc_effectiveTradingStartIndex cfg \<and> (\<exists>ctx pd tfd md. st' = processWarmupBar svc cfg i (lc_timestamps cfg ! i) pd
         (barPrices cfg i) tfd (applyForcedExits svc cfg (lc_timestamps cfg ! i) md (st1\<lparr>ls_priceCtx := ctx,
           ls_portfolio := updateValues (lv_decimal svc) (ls_portfolio st1) (md_prices md)\<rparr>))) \<or>
       r = None \<and> lc_effectiveTradingStartIndex cfg \<le> i \<and> (\<exists>ctx md pd tfd. processTradingBar svc cfg i (lc_timestamps cfg ! i)
         (barPrices cfg i) md pd tfd (st1\<lparr>ls_priceCtx := ctx\<rparr>) = Inr st')"
proof -
  obtain paused st1 where gate: "(if lc_isLiveReplay cfg then checkPauseRequest svc cfg i st else Inr (None, st)) = Inr (paused, st1)"
    using assms by (auto simp: processBar_def andThen_Inr)
  have frame: "st1 = st\<lparr>ls_consecutivePauseFailures := ls_consecutivePauseFailures st1\<rparr> \<and>
    (ls_consecutivePauseFailures st < MAX_CONSECUTIVE_PAUSE_FAILURES \<longrightarrow>
      ls_consecutivePauseFailures st1 < MAX_CONSECUTIVE_PAUSE_FAILURES)"
  proof (cases "lc_isLiveReplay cfg")
    case True
    then have "checkPauseRequest svc cfg i st = Inr (paused, st1)" using gate by simp
    then show ?thesis by (rule checkPauseRequest_frame)
  next
    case False
    then have "st1 = st" using gate by simp
    then show ?thesis by simp
  qed
  define t where "t = lc_timestamps cfg ! i"
  define md where "md = \<lparr>md_timestamp = t, md_prices = closePrices (barPrices cfg i)\<rparr>"
  obtain ctx pd tfd where bar: "advanceBar (ls_priceCtx st1) (lc_coins cfg) t = (ctx, pd, tfd)" by (metis prod_cases3)
  show thesis
  proof (cases paused)
    case (Some result)
    then have "lc_isLiveReplay cfg" using gate by (cases "lc_isLiveReplay cfg") simp_all
    moreover have "r = Some result \<and> st' = st1" using assms gate Some by (simp add: processBar_def)
    ultimately have "r \<noteq> None \<and> lc_isLiveReplay cfg \<and> st' = st1" by simp
    then show thesis by (rule that [OF conjunct1 [OF frame] conjunct2 [OF frame] disjI1])
  next
    case None
    then have "(if i < lc_effectiveTradingStartIndex cfg
        then Inr (None, processWarmupBar svc cfg i t pd (barPrices cfg i) tfd (applyForcedExits svc cfg t md
          (st1\<lparr>ls_priceCtx := ctx, ls_portfolio := updateValues (lv_decimal svc) (ls_portfolio st1) (md_prices md)\<rparr>)))
        else andThen (processTradingBar svc cfg i t (barPrices cfg i) md pd tfd (st1\<lparr>ls_priceCtx := ctx\<rparr>))
          (\<lambda>st3. Inr (None, st3))) = Inr (r, st')"
      using assms gate bar
      by (cases "i < lc_effectiveTradingStartIndex cfg") (simp_all add: processBar_def Let_def t_def md_def)
    then have "r = None \<and> i < lc_effectiveTradingStartIndex cfg \<and> st' = processWarmupBar svc cfg i t pd (barPrices cfg i) tfd
          (applyForcedExits svc cfg t md (st1\<lparr>ls_priceCtx := ctx,
            ls_portfolio := updateValues (lv_decimal svc) (ls_portfolio st1) (md_prices md)\<rparr>)) \<or>
        r = None \<and> lc_effectiveTradingStartIndex cfg \<le> i \<and>
          processTradingBar svc cfg i t (barPrices cfg i) md pd tfd (st1\<lparr>ls_priceCtx := ctx\<rparr>) = Inr st'"
      by (cases "i < lc_effectiveTradingStartIndex cfg") (auto simp: andThen_Inr)
    then show thesis unfolding t_def by (intro that [OF conjunct1 [OF frame] conjunct2 [OF frame] disjI2]) blast
  qed
qed

lemma warmup_frame:
  fixes st svc cfg i t pd prices tfd
  defines "st' \<equiv> processWarmupBar svc cfg i t pd prices tfd st"
  shows "\<exists>shown. st' = st\<lparr>ls_contexts := ls_contexts st @ [shown], ls_watchdog := ls_watchdog st', ls_prevCandleMap := ls_prevCandleMap st'\<rparr>"
  unfolding st'_def processWarmupBar_def showAlgorithm_def Let_def by (auto split: AlgorithmOutcome.split)

text \<open>A warm-up bar in all: prices are followed, positions valued and, where forced, closed.\<close>

lemma warmupBar_frame:
  fixes st base svc cfg i t pd prices tfd ctx p md
  defines "base \<equiv> st\<lparr>ls_priceCtx := ctx, ls_portfolio := p\<rparr>"
  defines "st' \<equiv> processWarmupBar svc cfg i t pd prices tfd (applyForcedExits svc cfg t md base)"
  shows "ledger st' = ledger st \<and> ls_signals st' = ls_signals st \<and> ls_simulatedFills st' = ls_simulatedFills st \<and>
    ls_pendingSignals st' = ls_pendingSignals st \<and> ls_throttleState st' = ls_throttleState st \<and>
    ls_consecutiveErrors st' = ls_consecutiveErrors st \<and>
    ls_trades st' = ls_trades (applyForcedExits svc cfg t md base) \<and>
    ls_portfolio st' = ls_portfolio (applyForcedExits svc cfg t md base)"
proof -
  obtain shown where w: "st' = (applyForcedExits svc cfg t md base)\<lparr>ls_contexts := ls_contexts (applyForcedExits svc cfg t md base) @ [shown],
      ls_watchdog := ls_watchdog st', ls_prevCandleMap := ls_prevCandleMap st'\<rparr>"
    using warmup_frame [where st = "applyForcedExits svc cfg t md base"] unfolding st'_def by blast
  have fills: "ls_simulatedFills (applyForcedExits svc cfg t md base) = ls_simulatedFills base"
    by (simp add: applyForcedExits_def Let_def split: prod.split)
  note f = applyForcedExits_trades [where st = base and svc = svc and cfg = cfg and t = t and md = md]
  have "ledger st' = ledger (applyForcedExits svc cfg t md base)" by (subst w) (simp add: ledger_def)
  moreover have "ls_signals st' = ls_signals (applyForcedExits svc cfg t md base)" by (subst w) simp
  moreover have "ls_simulatedFills st' = ls_simulatedFills (applyForcedExits svc cfg t md base)" by (subst w) simp
  moreover have "ls_pendingSignals st' = ls_pendingSignals (applyForcedExits svc cfg t md base)" by (subst w) simp
  moreover have "ls_throttleState st' = ls_throttleState (applyForcedExits svc cfg t md base)" by (subst w) simp
  moreover have "ls_consecutiveErrors st' = ls_consecutiveErrors (applyForcedExits svc cfg t md base)" by (subst w) simp
  moreover have "ls_trades st' = ls_trades (applyForcedExits svc cfg t md base)" by (subst w) simp
  moreover have "ls_portfolio st' = ls_portfolio (applyForcedExits svc cfg t md base)" by (subst w) simp
  ultimately show ?thesis
    using f fills trades_only_ledger [OF conjunct1 [OF f]] trades_only_queue [OF conjunct1 [OF f]]
    by (simp add: base_def ledger_def)
qed

lemma processBar_signals:
  assumes "processBar svc cfg i st = Inr (r, st')" "ls_lastCheckpointCounts st = NO_PERSISTED_COUNTS"
  shows "(\<exists>more. recordedSignals st' = recordedSignals st @
      (if r = None \<and> lc_effectiveTradingStartIndex cfg \<le> i
       then map (\<lambda>s. signalRecord s (lc_timestamps cfg ! i) (openMarket (lc_timestamps cfg ! i) (barPrices cfg i)))
         (settled (barPrices cfg i) (ls_pendingSignals st)) else []) @ more) \<and>
    ls_lastCheckpointCounts st' = NO_PERSISTED_COUNTS"
proof (rule processBar_cases [OF assms(1)])
  fix st1
  assume st1: "st1 = st\<lparr>ls_consecutivePauseFailures := ls_consecutivePauseFailures st1\<rparr>"
    and bar: "r \<noteq> None \<and> lc_isLiveReplay cfg \<and> st' = st1 \<or>
       r = None \<and> i < lc_effectiveTradingStartIndex cfg \<and> (\<exists>ctx pd tfd md. st' = processWarmupBar svc cfg i (lc_timestamps cfg ! i) pd
         (barPrices cfg i) tfd (applyForcedExits svc cfg (lc_timestamps cfg ! i) md (st1\<lparr>ls_priceCtx := ctx,
           ls_portfolio := updateValues (lv_decimal svc) (ls_portfolio st1) (md_prices md)\<rparr>))) \<or>
       r = None \<and> lc_effectiveTradingStartIndex cfg \<le> i \<and> (\<exists>ctx md pd tfd. processTradingBar svc cfg i (lc_timestamps cfg ! i)
         (barPrices cfg i) md pd tfd (st1\<lparr>ls_priceCtx := ctx\<rparr>) = Inr st')"
  have same: "recordedSignals st1 = recordedSignals st" "ls_lastCheckpointCounts st1 = ls_lastCheckpointCounts st"
    "ls_pendingSignals st1 = ls_pendingSignals st"
    by (subst st1, simp add: recordedSignals_def)+
  from bar show ?thesis
  proof (elim disjE conjE exE)
    assume "r \<noteq> None" and stop: "st' = st1"
    then have "\<not> (r = None \<and> lc_effectiveTradingStartIndex cfg \<le> i)" by simp
    then show ?thesis using same assms(2) unfolding stop by (simp only: if_False append_Nil simp_thms) blast
  next
    fix ctx pd tfd md
    assume "r = None" "i < lc_effectiveTradingStartIndex cfg" and w: "st' = processWarmupBar svc cfg i (lc_timestamps cfg ! i) pd
         (barPrices cfg i) tfd (applyForcedExits svc cfg (lc_timestamps cfg ! i) md (st1\<lparr>ls_priceCtx := ctx,
           ls_portfolio := updateValues (lv_decimal svc) (ls_portfolio st1) (md_prices md)\<rparr>))"
    then show ?thesis
      using warmupBar_frame [where st = st1 and ctx = ctx] same assms(2) unfolding w by (simp add: recordedSignals_def ledger_def)
  next
    fix ctx md pd tfd
    assume trade: "processTradingBar svc cfg i (lc_timestamps cfg ! i) (barPrices cfg i) md pd tfd (st1\<lparr>ls_priceCtx := ctx\<rparr>) = Inr st'"
      and "r = None" "lc_effectiveTradingStartIndex cfg \<le> i"
    moreover have "ls_lastCheckpointCounts st' = NO_PERSISTED_COUNTS"
    proof (rule processTradingBar_parts [OF trade])
      fix exited shown regime decided
      assume "ledger exited = ledger (st1\<lparr>ls_priceCtx := ctx\<rparr>)" "takeDecisions svc cfg i (lc_timestamps cfg ! i) md (barPrices cfg i) shown regime exited = Inr decided"
        "closeBar svc cfg i (lc_timestamps cfg ! i) md (barPrices cfg i) decided = Inr st'"
      then show ?thesis using takeDecisions_ledger closeBar_signals same(2) assms(2) by (simp add: ledger_def)
    qed
    moreover have "recordedSignals (st1\<lparr>ls_priceCtx := ctx\<rparr>) = recordedSignals st" using same by (simp add: recordedSignals_def)
    ultimately show ?thesis
      using tradingBar_signals [OF trade] same(2,3) assms(2) by simp
  qed
qed

lemma barLoop_signals:
  "barLoop svc cfg bars st = Inr (r, st') \<Longrightarrow> ls_lastCheckpointCounts st = NO_PERSISTED_COUNTS \<Longrightarrow>
    (\<exists>more. recordedSignals st' = recordedSignals st @ more)"
proof (induction bars arbitrary: st)
  case (Cons i bars)
  obtain r1 st1 where bar: "processBar svc cfg i st = Inr (r1, st1)" using Cons.prems by (auto simp: andThen_Inr)
  note one = processBar_signals [OF bar Cons.prems(2)]
  show ?case
  proof (cases r1)
    case None
    then have "barLoop svc cfg bars st1 = Inr (r, st')" using Cons.prems bar by simp
    then show ?thesis using Cons.IH one by fastforce
  next
    case (Some result)
    then show ?thesis using Cons.prems bar one by auto
  qed
qed simp


section \<open>The state of a run\<close>

definition run_sound :: "LoopState \<Rightarrow> bool" where
  "run_sound st \<longleftrightarrow>
     ls_lastCheckpointCounts st = NO_PERSISTED_COUNTS \<and>
     ls_consecutiveErrors st < MAX_CONSECUTIVE_ERRORS \<and>
     ls_consecutivePauseFailures st < MAX_CONSECUTIVE_PAUSE_FAILURES \<and>
     (\<forall>s \<in> set (ls_pendingSignals st). \<not> hardStop s) \<and>
     0 \<le> ls_maxDrawdown st \<and>
     (\<forall>n \<in> set (recordedSnapshots st). sn_portfolioValue n \<le> ls_peakValue st \<and>
        0 \<le> sn_drawdown n \<and> sn_drawdown n \<le> ls_maxDrawdown st)"

lemma run_sound_cong:
  "ledger b = ledger a \<Longrightarrow> run_sound a \<Longrightarrow> ls_consecutiveErrors b < MAX_CONSECUTIVE_ERRORS \<Longrightarrow>
    \<forall>s \<in> set (ls_pendingSignals b). \<not> hardStop s \<Longrightarrow> run_sound b"
  by (simp add: run_sound_def recordedSnapshots_def ledger_def)

lemma run_sound_snapped:
  assumes "run_sound st"
  shows "run_sound (snapped svc cfg i t md prices st)"
proof -
  obtain dd st1 where peak: "updatePeak st = (dd, st1)" by force
  have bounds: "ls_peakValue st \<le> ls_peakValue st1" "ls_maxDrawdown st \<le> ls_maxDrawdown st1" "0 \<le> dd" "dd \<le> ls_maxDrawdown st1"
    "po_totalValue (ls_portfolio st1) \<le> ls_peakValue st1"
    using peak by (auto simp: updatePeak_def Let_def)
  have same: "st1 = st\<lparr>ls_peakValue := ls_peakValue st1, ls_maxDrawdown := ls_maxDrawdown st1\<rparr>"
    using peak by (auto simp: updatePeak_def Let_def)
  have known: "\<forall>n \<in> set (recordedSnapshots st1). sn_portfolioValue n \<le> ls_peakValue st1 \<and> 0 \<le> sn_drawdown n \<and>
      sn_drawdown n \<le> ls_maxDrawdown st1"
  proof
    fix n assume "n \<in> set (recordedSnapshots st1)"
    then have "n \<in> set (recordedSnapshots st)" by (subst (asm) same) (simp add: recordedSnapshots_def)
    then have "sn_portfolioValue n \<le> ls_peakValue st" "0 \<le> sn_drawdown n" "sn_drawdown n \<le> ls_maxDrawdown st"
      using assms by (auto simp: run_sound_def)
    then show "sn_portfolioValue n \<le> ls_peakValue st1 \<and> 0 \<le> sn_drawdown n \<and> sn_drawdown n \<le> ls_maxDrawdown st1"
      using bounds by linarith
  qed
  have rest: "ls_lastCheckpointCounts st1 = NO_PERSISTED_COUNTS" "ls_consecutiveErrors st1 < MAX_CONSECUTIVE_ERRORS"
    "ls_consecutivePauseFailures st1 < MAX_CONSECUTIVE_PAUSE_FAILURES" "\<forall>s \<in> set (ls_pendingSignals st1). \<not> hardStop s"
    using assms by (subst same, simp add: run_sound_def)+
  have "0 \<le> ls_maxDrawdown st1" using bounds by linarith
  then show ?thesis
    using bounds known rest
    by (auto simp: snapped_def peak run_sound_def recordPeriodicSnapshot_def recordedSnapshots_def Let_def)
qed

lemma run_sound_closeBar:
  assumes "closeBar svc cfg i t md prices st = Inr st'" "run_sound st"
  shows "run_sound st'"
proof -
  define s where "s = snapped svc cfg i t md prices st"
  have sound: "run_sound s" unfolding s_def by (rule run_sound_snapped [OF assms(2)])
  then have "run_sound (clearRecords i (harvest svc (s\<lparr>ls_saved := ls_saved s @ [(buildSnapshot svc s (int i) t, resultsSince s)]\<rparr>)))"
    by (auto simp: run_sound_def recordedSnapshots_def clearRecords_def harvest_def resultsSince_def NO_PERSISTED_COUNTS_def Let_def)
  then show ?thesis using closeBar_cases [OF assms(1)] sound unfolding s_def by auto
qed

lemma run_sound_tradingBar:
  assumes "processTradingBar svc cfg i t prices md pd tfd st = Inr st'" "run_sound st"
  shows "run_sound st'"
proof (rule processTradingBar_parts [OF assms(1)])
  fix exited shown regime decided
  assume exited: "ledger exited = ledger st" "ls_pendingSignals exited = []" "ls_consecutiveErrors exited = ls_consecutiveErrors st"
    and decide: "takeDecisions svc cfg i t md prices shown regime exited = Inr decided"
    and close: "closeBar svc cfg i t md prices decided = Inr st'"
  note frame = takeDecisions_frame [OF decide]
  have "run_sound decided"
  proof (rule run_sound_cong [where a = st])
    show "ledger decided = ledger st" using takeDecisions_ledger [OF decide] exited(1) by simp
    show "ls_consecutiveErrors decided < MAX_CONSECUTIVE_ERRORS" using frame by (auto simp: MAX_CONSECUTIVE_ERRORS_def)
    show "\<forall>s \<in> set (ls_pendingSignals decided). \<not> hardStop s" using frame exited(2) by auto
  qed (rule assms(2))
  then show ?thesis by (rule run_sound_closeBar [OF close])
qed

lemma run_sound_processBar:
  assumes "processBar svc cfg i st = Inr (r, st')" "run_sound st"
  shows "run_sound st'"
proof (rule processBar_cases [OF assms(1)])
  fix st1
  assume st1: "st1 = st\<lparr>ls_consecutivePauseFailures := ls_consecutivePauseFailures st1\<rparr>"
    and failures: "ls_consecutivePauseFailures st < MAX_CONSECUTIVE_PAUSE_FAILURES \<longrightarrow>
        ls_consecutivePauseFailures st1 < MAX_CONSECUTIVE_PAUSE_FAILURES"
    and bar: "r \<noteq> None \<and> lc_isLiveReplay cfg \<and> st' = st1 \<or>
       r = None \<and> i < lc_effectiveTradingStartIndex cfg \<and> (\<exists>ctx pd tfd md. st' = processWarmupBar svc cfg i (lc_timestamps cfg ! i) pd
         (barPrices cfg i) tfd (applyForcedExits svc cfg (lc_timestamps cfg ! i) md (st1\<lparr>ls_priceCtx := ctx,
           ls_portfolio := updateValues (lv_decimal svc) (ls_portfolio st1) (md_prices md)\<rparr>))) \<or>
       r = None \<and> lc_effectiveTradingStartIndex cfg \<le> i \<and> (\<exists>ctx md pd tfd. processTradingBar svc cfg i (lc_timestamps cfg ! i)
         (barPrices cfg i) md pd tfd (st1\<lparr>ls_priceCtx := ctx\<rparr>) = Inr st')"
  have sound: "run_sound (st1\<lparr>ls_priceCtx := ctx\<rparr>)" for ctx
    using assms(2) failures by (subst st1) (simp add: run_sound_def recordedSnapshots_def)
  from bar show ?thesis
  proof (elim disjE conjE exE)
    assume "st' = st1"
    then show ?thesis using sound [of "ls_priceCtx st1"] by simp
  next
    fix ctx pd tfd md
    assume w: "st' = processWarmupBar svc cfg i (lc_timestamps cfg ! i) pd
         (barPrices cfg i) tfd (applyForcedExits svc cfg (lc_timestamps cfg ! i) md (st1\<lparr>ls_priceCtx := ctx,
           ls_portfolio := updateValues (lv_decimal svc) (ls_portfolio st1) (md_prices md)\<rparr>))"
    show ?thesis
      using warmupBar_frame [where st = st1 and ctx = ctx] sound [of ctx] unfolding w
      by (simp add: run_sound_def recordedSnapshots_def ledger_def)
  next
    fix ctx md pd tfd
    assume trade: "processTradingBar svc cfg i (lc_timestamps cfg ! i) (barPrices cfg i) md pd tfd (st1\<lparr>ls_priceCtx := ctx\<rparr>) = Inr st'"
    show ?thesis by (rule run_sound_tradingBar [OF trade sound])
  qed
qed

lemma barLoop_induct:
  assumes "barLoop svc cfg bars st = Inr (r, st')" "P st"
    and "\<And>i st r st'. i \<in> set bars \<Longrightarrow> processBar svc cfg i st = Inr (r, st') \<Longrightarrow> P st \<Longrightarrow> P st'"
  shows "P st'"
  using assms
proof (induction bars arbitrary: st)
  case (Cons i bars)
  obtain r1 st1 where bar: "processBar svc cfg i st = Inr (r1, st1)" using Cons.prems by (auto simp: andThen_Inr)
  have mid: "P st1" using Cons.prems(3) [OF _ bar Cons.prems(2)] by simp
  show ?case
  proof (cases r1)
    case None
    then have rest: "barLoop svc cfg bars st1 = Inr (r, st')" using Cons.prems(1) bar by simp
    show ?thesis by (rule Cons.IH [OF rest mid]) (rule Cons.prems(3), simp_all)
  qed (use Cons.prems(1) bar mid in simp)
qed simp

lemma run_sound_createState:
  "lo_resumeFrom options = None \<Longrightarrow> run_sound (createState D now backtest coins options data)"
  by (simp add: createState_def run_sound_def recordedSnapshots_def MAX_CONSECUTIVE_ERRORS_def
      MAX_CONSECUTIVE_PAUSE_FAILURES_def resumedPendingSignals_def restoreState_def Let_def)

section \<open>Checkpoints and the records handed over\<close>

definition countsAfter :: "PersistedResultsCounts \<Rightarrow> CheckpointResults list \<Rightarrow> nat \<times> nat \<times> nat \<times> nat" where
  "countsAfter start results =
     (pc_trades start + length (concat (map kr_trades results)), pc_signals start + length (concat (map kr_signals results)),
      pc_fills start + length (concat (map kr_simulatedFills results)), pc_snapshots start + length (concat (map kr_snapshots results)))"

definition countsOf :: "PersistedResultsCounts \<Rightarrow> nat \<times> nat \<times> nat \<times> nat" where
  "countsOf counts = (pc_trades counts, pc_signals counts, pc_fills counts, pc_snapshots counts)"

text \<open>Each checkpoint counts what has been handed over with it and before it, on top of what the run started with.\<close>

definition reconciled :: "PersistedResultsCounts \<Rightarrow> LoopState \<Rightarrow> bool" where
  "reconciled start st \<longleftrightarrow>
     ls_lastCheckpointCounts st = NO_PERSISTED_COUNTS \<and>
     countsOf (ls_totalPersistedCounts st) = countsAfter start (map snd (ls_saved st)) \<and>
     (\<forall>k < length (ls_saved st). countsOf (cs_persistedCounts (fst (ls_saved st ! k))) =
        countsAfter start (map snd (take (Suc k) (ls_saved st))))"

definition books where
  "books st = (ls_saved st, ls_lastCheckpointCounts st, ls_totalPersistedCounts st, ls_peakValue st, ls_maxDrawdown st, ls_snapshots st)"

lemma ledger_books: "ledger b = ledger a \<Longrightarrow> books b = books a"
  by (simp add: books_def ledger_def)

lemma reconciled_cong: "books b = books a \<Longrightarrow> reconciled start a \<Longrightarrow> reconciled start b"
  by (simp add: reconciled_def books_def)

text \<open>Only the end of a trading bar writes the books.\<close>

lemma processBar_close:
  assumes "processBar svc cfg i st = Inr (r, st')"
  shows "books st' = books st \<or>
    (\<exists>md decided. books decided = books st \<and> closeBar svc cfg i (lc_timestamps cfg ! i) md (barPrices cfg i) decided = Inr st')"
proof (rule processBar_cases [OF assms])
  fix st1
  assume st1: "st1 = st\<lparr>ls_consecutivePauseFailures := ls_consecutivePauseFailures st1\<rparr>"
    and bar: "r \<noteq> None \<and> lc_isLiveReplay cfg \<and> st' = st1 \<or>
       r = None \<and> i < lc_effectiveTradingStartIndex cfg \<and> (\<exists>ctx pd tfd md. st' = processWarmupBar svc cfg i (lc_timestamps cfg ! i) pd
         (barPrices cfg i) tfd (applyForcedExits svc cfg (lc_timestamps cfg ! i) md (st1\<lparr>ls_priceCtx := ctx,
           ls_portfolio := updateValues (lv_decimal svc) (ls_portfolio st1) (md_prices md)\<rparr>))) \<or>
       r = None \<and> lc_effectiveTradingStartIndex cfg \<le> i \<and> (\<exists>ctx md pd tfd. processTradingBar svc cfg i (lc_timestamps cfg ! i)
         (barPrices cfg i) md pd tfd (st1\<lparr>ls_priceCtx := ctx\<rparr>) = Inr st')"
  have same: "books (st1\<lparr>ls_priceCtx := ctx\<rparr>) = books st" "books st1 = books st" for ctx
    by (subst st1, simp add: books_def)+
  from bar show ?thesis
  proof (elim disjE conjE exE)
    assume "st' = st1"
    then show ?thesis using same by simp
  next
    fix ctx pd tfd md
    assume w: "st' = processWarmupBar svc cfg i (lc_timestamps cfg ! i) pd
         (barPrices cfg i) tfd (applyForcedExits svc cfg (lc_timestamps cfg ! i) md (st1\<lparr>ls_priceCtx := ctx,
           ls_portfolio := updateValues (lv_decimal svc) (ls_portfolio st1) (md_prices md)\<rparr>))"
    show ?thesis
      using ledger_books [OF conjunct1 [OF warmupBar_frame [where st = st1 and ctx = ctx]]] same unfolding w by simp
  next
    fix ctx md pd tfd
    assume trade: "processTradingBar svc cfg i (lc_timestamps cfg ! i) (barPrices cfg i) md pd tfd (st1\<lparr>ls_priceCtx := ctx\<rparr>) = Inr st'"
    show ?thesis
    proof (rule processTradingBar_parts [OF trade])
      fix exited shown regime decided
      assume "ledger exited = ledger (st1\<lparr>ls_priceCtx := ctx\<rparr>)"
        and decide: "takeDecisions svc cfg i (lc_timestamps cfg ! i) md (barPrices cfg i) shown regime exited = Inr decided"
        and close: "closeBar svc cfg i (lc_timestamps cfg ! i) md (barPrices cfg i) decided = Inr st'"
      then have "books decided = books st"
        using ledger_books [OF takeDecisions_ledger [OF decide]] ledger_books same by metis
      then show ?thesis using close by blast
    qed
  qed
qed

lemma countsAfter_more:
  "countsAfter start (results @ [r]) = (let (a, b, c, d) = countsAfter start results
     in (a + length (kr_trades r), b + length (kr_signals r), c + length (kr_simulatedFills r), d + length (kr_snapshots r)))"
  by (simp add: countsAfter_def)

lemma reconciled_closeBar:
  assumes "closeBar svc cfg i t md prices st = Inr st'" "reconciled start st"
  shows "reconciled start st'"
proof -
  define s where "s = snapped svc cfg i t md prices st"
  define entry where "entry = (buildSnapshot svc s (int i) t, resultsSince s)"
  define s' where "s' = clearRecords i (harvest svc (s\<lparr>ls_saved := ls_saved s @ [entry]\<rparr>))"
  have sound: "reconciled start s"
    using assms(2) snapped_frame [of svc cfg i t md prices st] by (simp add: s_def reconciled_def)
  have new: "countsOf (cs_persistedCounts (fst entry)) = countsAfter start (map snd (ls_saved s) @ [snd entry])"
  proof -
    have "countsAfter start (map snd (ls_saved s)) = countsOf (ls_totalPersistedCounts s)"
      "ls_lastCheckpointCounts s = NO_PERSISTED_COUNTS" using sound by (simp_all add: reconciled_def)
    then show ?thesis
      by (simp add: countsOf_def countsAfter_more entry_def buildSnapshot_def buildCheckpointState_def resultsSince_def
          NO_PERSISTED_COUNTS_def Let_def)
  qed
  have saved: "ls_saved s' = ls_saved s @ [entry]" by (simp add: s'_def clearRecords_def harvest_def Let_def)
  have "countsOf (ls_totalPersistedCounts s') = countsOf (cs_persistedCounts (fst entry))"
    by (simp add: s'_def clearRecords_def harvest_def countsOf_def entry_def buildSnapshot_def buildCheckpointState_def Let_def)
  moreover have "countsOf (cs_persistedCounts (fst (ls_saved s' ! k))) = countsAfter start (map snd (take (Suc k) (ls_saved s')))"
    if "k < length (ls_saved s')" for k
  proof (cases "k < length (ls_saved s)")
    case True
    then show ?thesis using sound by (simp add: saved reconciled_def nth_append)
  next
    case False
    then have "k = length (ls_saved s)" using that by (simp add: saved)
    then show ?thesis using new by (simp add: saved)
  qed
  moreover have "ls_lastCheckpointCounts s' = NO_PERSISTED_COUNTS" by (simp add: s'_def clearRecords_def Let_def)
  ultimately have "reconciled start s'" using new by (simp add: reconciled_def saved)
  then show ?thesis using closeBar_cases [OF assms(1)] sound unfolding s'_def entry_def s_def by auto
qed

lemma reconciled_processBar:
  assumes "processBar svc cfg i st = Inr (r, st')" "reconciled start st"
  shows "reconciled start st'"
  using processBar_close [OF assms(1)] reconciled_cong [OF _ assms(2)] reconciled_closeBar by blast

section \<open>Queued signals, and what a run keeps\<close>

lemma flushLoop_append:
  "flushLoop svc cfg (xs @ ys) t md prices st = andThen (flushLoop svc cfg xs t md prices st) (flushLoop svc cfg ys t md prices)"
proof (induction xs arbitrary: st)
  case (Cons x xs)
  then show ?case
    by (cases "if map_get (md_prices md) (sg_coinId x) = None then Inr st
      else processSignalTrade svc cfg x t md prices (lc_maxAllocation cfg) (lc_minAllocation cfg) st") simp_all
qed simp

text \<open>A trade that executes is recorded with its fill.\<close>

lemma processSignalTrade_fill:
  assumes "processSignalTrade svc cfg s t md prices mx mn st = Inr st'"
    and "executeTrade (lv_decimal svc) (signalParams cfg s md prices mx mn (ls_prevCandleMap st)) (ls_portfolio st) = (Inr (Some r), P)"
  shows "signalFill t (sg_coinId s) r \<in> set (ls_simulatedFills st') \<and>
    (et_fillStatus r \<noteq> CANCELLED_FILL \<longrightarrow> (t, sg_coinId s, et_trade r) \<in> set (ls_trades st') \<and> ls_portfolio st' = P)"
  using assms
  by (auto simp: processSignalTrade_def tryTrade_def settleSignal_def recordTradeResult_def skipBuy_def Let_def split: if_splits)

lemma pendingSignals_buildSnapshot: "nullish (cs_pendingSignals (buildSnapshot svc st j t)) [] = ls_pendingSignals st"
  by (simp add: buildSnapshot_def buildCheckpointState_def nullish_def Let_def)

lemma processBar_keeps:
  assumes "processBar svc cfg i st = Inr (r, st')" "ls_lastCheckpointCounts st = NO_PERSISTED_COUNTS"
  shows "keeps st st'"
proof (rule processBar_cases [OF assms(1)])
  fix st1
  assume st1: "st1 = st\<lparr>ls_consecutivePauseFailures := ls_consecutivePauseFailures st1\<rparr>"
    and bar: "r \<noteq> None \<and> lc_isLiveReplay cfg \<and> st' = st1 \<or>
       r = None \<and> i < lc_effectiveTradingStartIndex cfg \<and> (\<exists>ctx pd tfd md. st' = processWarmupBar svc cfg i (lc_timestamps cfg ! i) pd
         (barPrices cfg i) tfd (applyForcedExits svc cfg (lc_timestamps cfg ! i) md (st1\<lparr>ls_priceCtx := ctx,
           ls_portfolio := updateValues (lv_decimal svc) (ls_portfolio st1) (md_prices md)\<rparr>))) \<or>
       r = None \<and> lc_effectiveTradingStartIndex cfg \<le> i \<and> (\<exists>ctx md pd tfd. processTradingBar svc cfg i (lc_timestamps cfg ! i)
         (barPrices cfg i) md pd tfd (st1\<lparr>ls_priceCtx := ctx\<rparr>) = Inr st')"
  have same: "keeps st (st1\<lparr>ls_priceCtx := ctx, ls_portfolio := p\<rparr>)" "ls_lastCheckpointCounts st1 = NO_PERSISTED_COUNTS"
    "keeps st (st1\<lparr>ls_priceCtx := ctx\<rparr>)" "keeps st st1" for ctx p
    using assms(2) by (subst st1, simp add: keeps_def recorded_defs)+
  from bar show ?thesis
  proof (elim disjE conjE exE)
    fix ctx pd tfd md
    assume w: "st' = processWarmupBar svc cfg i (lc_timestamps cfg ! i) pd
         (barPrices cfg i) tfd (applyForcedExits svc cfg (lc_timestamps cfg ! i) md (st1\<lparr>ls_priceCtx := ctx,
           ls_portfolio := updateValues (lv_decimal svc) (ls_portfolio st1) (md_prices md)\<rparr>))"
    let ?base = "st1\<lparr>ls_priceCtx := ctx, ls_portfolio := updateValues (lv_decimal svc) (ls_portfolio st1) (md_prices md)\<rparr>"
    have "keeps ?base (applyForcedExits svc cfg (lc_timestamps cfg ! i) md ?base)"
      using trades_only_keeps [OF conjunct1 [OF applyForcedExits_trades [where st = ?base]]] by (simp add: keeps_def recorded_defs)
    moreover have "keeps x (processWarmupBar svc cfg i (lc_timestamps cfg ! i) pd (barPrices cfg i) tfd x)" for x
      using warmup_frame [where st = x and svc = svc and cfg = cfg and i = i and t = "lc_timestamps cfg ! i" and pd = pd
        and prices = "barPrices cfg i" and tfd = tfd] by (auto simp: keeps_def recorded_defs elim!: ssubst)
    ultimately show ?thesis unfolding w using same(1) keeps_trans by blast
  next
    fix ctx md pd tfd
    assume trade: "processTradingBar svc cfg i (lc_timestamps cfg ! i) (barPrices cfg i) md pd tfd (st1\<lparr>ls_priceCtx := ctx\<rparr>) = Inr st'"
    obtain flushed where flush: "flushPendingSignals svc cfg (lc_timestamps cfg ! i) (barPrices cfg i)
        (st1\<lparr>ls_priceCtx := ctx, ls_portfolio := updateValues (lv_decimal svc) (ls_portfolio st1) (openPrices (barPrices cfg i))\<rparr>) =
          Inr flushed" and "keeps flushed st'"
      by (rule tradingBar_flush [OF trade]) (use same(2) in simp_all)
    have "keeps st (st1\<lparr>ls_priceCtx := ctx, ls_portfolio := p, ls_pendingSignals := q\<rparr>)" for p q
      using same(4) by (simp add: keeps_def recorded_defs)
    then have "keeps st flushed"
      by (rule keeps_trans) (rule trades_only_keeps [OF conjunct1 [OF flushPendingSignals_trades [OF flush]]])
    then show ?thesis by (rule keeps_trans) fact
  qed (use same in simp)
qed

lemma processBar_pause:
  assumes "processBar svc cfg i st = Inr (Some result, st')"
  shows "st' = st\<lparr>ls_consecutivePauseFailures := ls_consecutivePauseFailures st'\<rparr> \<and>
    buildPauseResult svc cfg i st = Inr result"
proof -
  obtain paused st1 where gate: "(if lc_isLiveReplay cfg then checkPauseRequest svc cfg i st else Inr (None, st)) = Inr (paused, st1)"
    using assms by (auto simp: processBar_def andThen_Inr)
  have "paused = Some result"
  proof (cases paused)
    case None
    then show ?thesis using assms gate
      by (auto simp: processBar_def andThen_Inr Let_def split: prod.splits if_splits)
  qed (use assms gate in \<open>simp add: processBar_def\<close>)
  then have "checkPauseRequest svc cfg i st = Inr (Some result, st')" using gate assms by (simp add: processBar_def split: if_splits)
  then show ?thesis
    by (auto simp: checkPauseRequest_def andThen_Inr Let_def split: option.splits sum.splits bool.splits if_splits)
qed

lemma buildPauseResult_checkpoint:
  assumes "buildPauseResult svc cfg i st = Inr result"
  shows "kr_pausedCheckpoint result = Some (buildSnapshot svc st (int i - 1) (lc_timestamps cfg ! (i - 1))) \<and>
    CheckpointResults.truncate result = CheckpointResults.make (ls_trades st) (ls_signals st) (ls_simulatedFills st) (ls_snapshots st)"
  using assms by (auto simp: buildPauseResult_def resultOf_def harvest_def CheckpointResults.truncate_def CheckpointResults.make_def
      Let_def split: option.splits)

lemma processBar_paused:
  assumes "processBar svc cfg i st = Inr (Some result, st')"
  shows "\<exists>checkpoint. kr_pausedCheckpoint result = Some checkpoint \<and>
    nullish (cs_pendingSignals checkpoint) [] = ls_pendingSignals st"
  using buildPauseResult_checkpoint [OF conjunct2 [OF processBar_pause [OF assms]]] pendingSignals_buildSnapshot by blast

lemma pause_reconciled:
  assumes "processBar svc cfg i st = Inr (Some result, st')" "reconciled start st"
  shows "\<exists>checkpoint. kr_pausedCheckpoint result = Some checkpoint \<and>
    countsOf (cs_persistedCounts checkpoint) =
      countsAfter start (map snd (ls_saved st') @ [CheckpointResults.truncate result])"
proof -
  note pause = processBar_pause [OF assms(1)]
  have saved: "ls_saved st' = ls_saved st" by (subst conjunct1 [OF pause]) simp
  have "countsAfter start (map snd (ls_saved st)) = countsOf (ls_totalPersistedCounts st)"
    using assms(2) by (simp add: reconciled_def)
  then have "countsOf (cs_persistedCounts (buildSnapshot svc st index t)) = countsAfter start (map snd (ls_saved st) @
      [CheckpointResults.make (ls_trades st) (ls_signals st) (ls_simulatedFills st) (ls_snapshots st)])" for index t
    by (simp add: countsOf_def countsAfter_more buildSnapshot_def buildCheckpointState_def CheckpointResults.make_def Let_def)
  then show ?thesis using buildPauseResult_checkpoint [OF conjunct2 [OF pause]] saved by simp
qed

lemma barLoop_pause:
  assumes "barLoop svc cfg bars st = Inr (Some result, st')" "reconciled start st"
  obtains i a where "processBar svc cfg i a = Inr (Some result, st')" "reconciled start a"
  using assms
proof (induction bars arbitrary: st)
  case (Cons i bars)
  from Cons.prems(2) obtain y a where bar: "processBar svc cfg i st = Inr (y, a)"
    and rest: "(case y of None \<Rightarrow> barLoop svc cfg bars a | Some z \<Rightarrow> Inr (Some z, a)) = Inr (Some result, st')"
    by (auto simp: andThen_Inr)
  have sound: "reconciled start a" by (rule reconciled_processBar [OF bar Cons.prems(3)])
  show ?case
  proof (cases y)
    case None
    then show ?thesis using Cons.IH [OF Cons.prems(1) _ sound] rest by simp
  next
    case (Some z)
    then show ?thesis using Cons.prems(1) [OF _ Cons.prems(3)] bar rest by simp
  qed
qed simp

lemma processBar_open:
  assumes "processBar svc cfg i st = Inr (None, st')" "lc_effectiveTradingStartIndex cfg \<le> i"
    "ls_lastCheckpointCounts st = NO_PERSISTED_COUNTS"
  obtains ctx failures flushed where
    "flushPendingSignals svc cfg (lc_timestamps cfg ! i) (barPrices cfg i)
       (st\<lparr>ls_priceCtx := ctx, ls_consecutivePauseFailures := failures,
         ls_portfolio := updateValues (lv_decimal svc) (ls_portfolio st) (openPrices (barPrices cfg i))\<rparr>) = Inr flushed"
    "keeps flushed st'"
proof (rule processBar_cases [OF assms(1)])
  fix st1
  assume st1: "st1 = st\<lparr>ls_consecutivePauseFailures := ls_consecutivePauseFailures st1\<rparr>"
    and "None \<noteq> None \<and> lc_isLiveReplay cfg \<and> st' = st1 \<or>
       None = None \<and> i < lc_effectiveTradingStartIndex cfg \<and> (\<exists>ctx pd tfd md. st' = processWarmupBar svc cfg i (lc_timestamps cfg ! i) pd
         (barPrices cfg i) tfd (applyForcedExits svc cfg (lc_timestamps cfg ! i) md (st1\<lparr>ls_priceCtx := ctx,
           ls_portfolio := updateValues (lv_decimal svc) (ls_portfolio st1) (md_prices md)\<rparr>))) \<or>
       None = None \<and> lc_effectiveTradingStartIndex cfg \<le> i \<and> (\<exists>ctx md pd tfd. processTradingBar svc cfg i (lc_timestamps cfg ! i)
         (barPrices cfg i) md pd tfd (st1\<lparr>ls_priceCtx := ctx\<rparr>) = Inr st')"
  then obtain ctx md pd tfd where trade: "processTradingBar svc cfg i (lc_timestamps cfg ! i) (barPrices cfg i) md pd tfd
      (st1\<lparr>ls_priceCtx := ctx\<rparr>) = Inr st'"
    using assms(2) by auto
  have same: "st1\<lparr>ls_priceCtx := ctx\<rparr> =
      st\<lparr>ls_priceCtx := ctx, ls_consecutivePauseFailures := ls_consecutivePauseFailures st1\<rparr>"
    by (subst st1) simp
  obtain flushed where "flushPendingSignals svc cfg (lc_timestamps cfg ! i) (barPrices cfg i)
      (st\<lparr>ls_priceCtx := ctx, ls_consecutivePauseFailures := ls_consecutivePauseFailures st1,
        ls_portfolio := updateValues (lv_decimal svc) (ls_portfolio st) (openPrices (barPrices cfg i))\<rparr>) = Inr flushed"
    and "keeps flushed st'"
    by (rule tradingBar_flush [OF trade [unfolded same]]) (use assms(3) in simp_all)
  then show thesis by (rule that)
qed

lemma barLoop_keeps:
  assumes "barLoop svc cfg bars st = Inr (r, st')" "ls_lastCheckpointCounts st = NO_PERSISTED_COUNTS"
  shows "keeps st st'"
proof -
  have "keeps st st' \<and> ls_lastCheckpointCounts st' = NO_PERSISTED_COUNTS"
  proof (rule barLoop_induct [OF assms(1), where P = "\<lambda>x. keeps st x \<and> ls_lastCheckpointCounts x = NO_PERSISTED_COUNTS"])
    fix i a r b assume bar: "processBar svc cfg i a = Inr (r, b)"
      and a: "keeps st a \<and> ls_lastCheckpointCounts a = NO_PERSISTED_COUNTS"
    have "keeps a b" by (rule processBar_keeps [OF bar]) (use a in simp)
    then show "keeps st b \<and> ls_lastCheckpointCounts b = NO_PERSISTED_COUNTS"
      using a keeps_trans processBar_signals [OF bar] by blast
  qed (use assms(2) in simp)
  then show ?thesis ..
qed


text \<open>C3. No signal that was queued for the next bar is lost. Unless the run is paused there, when the
  checkpoint carries the signal, a signal whose coin has a candle in the bar is settled at the open of
  the bar: after those queued earlier, before the algorithm is shown the bar, on the portfolio valued at
  the open, at the prices of the open. Its record is kept, and where its trade executes at those prices,
  so are the fill and, unless it is cancelled, the trade: all are among the records handed over or held
  however long the run goes on.\<close>

theorem queued_signal_settles_at_next_open:
  fixes svc cfg i bars st s
  defines "t \<equiv> lc_timestamps cfg ! i" and "prices \<equiv> barPrices cfg i"
  defines "atOpen \<equiv> \<lparr>md_timestamp = t, md_prices = openPrices prices\<rparr>"
    and "opened \<equiv> \<lambda>ctx failures. st\<lparr>ls_priceCtx := ctx, ls_consecutivePauseFailures := failures,
       ls_portfolio := updateValues (lv_decimal svc) (ls_portfolio st) (openPrices prices), ls_pendingSignals := []\<rparr>"
  defines "executed \<equiv> \<lambda>before. fst (executeTrade (lv_decimal svc) (signalParams cfg s atOpen prices (lc_maxAllocation cfg)
       (lc_minAllocation cfg) (ls_prevCandleMap st)) (ls_portfolio before))"
  assumes run: "barLoop svc cfg (i # bars) st = Inr (r, st')"
    and trading: "lc_effectiveTradingStartIndex cfg \<le> i" "ls_lastCheckpointCounts st = NO_PERSISTED_COUNTS"
    and queued: "ls_pendingSignals st = earlier @ s # later" "map_get (openPrices prices) (sg_coinId s) \<noteq> None"
  shows "(\<exists>ctx failures before. flushLoop svc cfg earlier t atOpen prices (opened ctx failures) = Inr before \<and>
      ls_contexts before = ls_contexts st \<and> signalRecord s t atOpen \<in> set (recordedSignals st') \<and>
      (case executed before of
         Inr (Some f) \<Rightarrow> signalFill t (sg_coinId s) f \<in> set (recordedFills st') \<and>
           (et_fillStatus f \<noteq> CANCELLED_FILL \<longrightarrow> (t, sg_coinId s, et_trade f) \<in> set (recordedTrades st'))
       | Inr None \<Rightarrow> True
       | Inl _ \<Rightarrow> False)) \<or>
    (\<exists>result checkpoint. r = Some result \<and> kr_pausedCheckpoint result = Some checkpoint \<and>
       nullish (cs_pendingSignals checkpoint) [] = ls_pendingSignals st)"
proof -
  obtain r1 st1 where bar: "processBar svc cfg i st = Inr (r1, st1)" using run by (auto simp: andThen_Inr)
  show ?thesis
  proof (cases r1)
    case None
    then have rest: "barLoop svc cfg bars st1 = Inr (r, st')" using run bar by simp
    obtain ctx failures flushed where flush: "flushPendingSignals svc cfg t prices
        (st\<lparr>ls_priceCtx := ctx, ls_consecutivePauseFailures := failures,
          ls_portfolio := updateValues (lv_decimal svc) (ls_portfolio st) (openPrices prices)\<rparr>) = Inr flushed"
      and kept: "keeps flushed st1"
      unfolding t_def prices_def by (rule processBar_open [OF bar [unfolded None] trading])
    from flush have "flushLoop svc cfg (earlier @ s # later) t atOpen prices (opened ctx failures) = Inr flushed"
      using queued(1) by (simp add: flushPendingSignals_def opened_def atOpen_def)
    then obtain before after where before: "flushLoop svc cfg earlier t atOpen prices (opened ctx failures) = Inr before"
      and trade: "processSignalTrade svc cfg s t atOpen prices (lc_maxAllocation cfg) (lc_minAllocation cfg) before = Inr after"
      and later: "flushLoop svc cfg later t atOpen prices after = Inr flushed"
      using queued(2) by (auto simp: flushLoop_append andThen_Inr atOpen_def)
    have kept: "keeps after st'"
      using trades_only_keeps [OF conjunct1 [OF flushLoop_trades [OF later]]] kept keeps_trans
        barLoop_keeps [OF rest] processBar_signals [OF bar trading(2)] by blast
    have frame: "ls_contexts before = ls_contexts st" "ls_prevCandleMap before = ls_prevCandleMap st"
      using conjunct1 [OF flushLoop_trades [OF before]] unfolding trades_only_def opened_def by (cases before; cases st; simp)+
    have "signalRecord s t atOpen \<in> set (recordedSignals after)"
      using processSignalTrade_trades [OF trade] by (simp add: recordedSignals_def)
    moreover have "\<exists>f P. executeTrade (lv_decimal svc) (signalParams cfg s atOpen prices (lc_maxAllocation cfg)
        (lc_minAllocation cfg) (ls_prevCandleMap before)) (ls_portfolio before) = (Inr f, P)"
      using trade by (auto simp: processSignalTrade_def tryTrade_def andThen_Inr Let_def split: prod.splits sum.splits)
    then obtain f P where exec: "executeTrade (lv_decimal svc) (signalParams cfg s atOpen prices (lc_maxAllocation cfg)
        (lc_minAllocation cfg) (ls_prevCandleMap before)) (ls_portfolio before) = (Inr f, P)" by blast
    moreover have "f = Some g \<Longrightarrow> signalFill t (sg_coinId s) g \<in> set (recordedFills after) \<and>
        (et_fillStatus g \<noteq> CANCELLED_FILL \<longrightarrow> (t, sg_coinId s, et_trade g) \<in> set (recordedTrades after))" for g
      using processSignalTrade_fill [OF trade] exec by (auto simp: recordedFills_def recordedTrades_def)
    ultimately show ?thesis
      using before frame kept by (intro disjI1 exI [of _ ctx] exI [of _ failures] exI [of _ before])
        (auto simp: executed_def keeps_def split: option.splits)
  next
    case (Some result)
    then have "r = Some result" using run bar by simp
    then show ?thesis using processBar_paused [of svc cfg i st result st1] bar Some by blast
  qed
qed

section \<open>Warm-up\<close>

text \<open>A warm-up bar does not trade on signals: the algorithm is shown the bar, but nothing is recorded,
  filled, queued or handed over, the throttle, the error count, peak, drawdown and snapshots stay, and
  a trade can only be a forced exit.\<close>

lemma warmup_only_primes:
  assumes "processBar svc cfg i st = Inr (None, st')" "i < lc_effectiveTradingStartIndex cfg"
  shows "ls_signals st' = ls_signals st \<and> ls_simulatedFills st' = ls_simulatedFills st \<and>
    ls_pendingSignals st' = ls_pendingSignals st \<and> ls_throttleState st' = ls_throttleState st \<and>
    ls_consecutiveErrors st' = ls_consecutiveErrors st \<and> ls_peakValue st' = ls_peakValue st \<and>
    ls_maxDrawdown st' = ls_maxDrawdown st \<and> ls_snapshots st' = ls_snapshots st \<and> ls_saved st' = ls_saved st \<and>
    (\<exists>mid md. ls_portfolio mid = updateValues (lv_decimal svc) (ls_portfolio st) (md_prices md) \<and>
       ls_trades mid = ls_trades st \<and> ls_exitTracker mid = ls_exitTracker st \<and>
       ls_trades st' = ls_trades (applyForcedExits svc cfg (lc_timestamps cfg ! i) md mid) \<and>
       ls_portfolio st' = ls_portfolio (applyForcedExits svc cfg (lc_timestamps cfg ! i) md mid))"
proof (rule processBar_cases [OF assms(1)])
  fix st1
  assume st1: "st1 = st\<lparr>ls_consecutivePauseFailures := ls_consecutivePauseFailures st1\<rparr>"
    and "None \<noteq> None \<and> lc_isLiveReplay cfg \<and> st' = st1 \<or>
       None = None \<and> i < lc_effectiveTradingStartIndex cfg \<and> (\<exists>ctx pd tfd md. st' = processWarmupBar svc cfg i (lc_timestamps cfg ! i) pd
         (barPrices cfg i) tfd (applyForcedExits svc cfg (lc_timestamps cfg ! i) md (st1\<lparr>ls_priceCtx := ctx,
           ls_portfolio := updateValues (lv_decimal svc) (ls_portfolio st1) (md_prices md)\<rparr>))) \<or>
       None = None \<and> lc_effectiveTradingStartIndex cfg \<le> i \<and> (\<exists>ctx md pd tfd. processTradingBar svc cfg i (lc_timestamps cfg ! i)
         (barPrices cfg i) md pd tfd (st1\<lparr>ls_priceCtx := ctx\<rparr>) = Inr st')"
  then obtain ctx pd tfd md where w: "st' = processWarmupBar svc cfg i (lc_timestamps cfg ! i) pd
         (barPrices cfg i) tfd (applyForcedExits svc cfg (lc_timestamps cfg ! i) md (st1\<lparr>ls_priceCtx := ctx,
           ls_portfolio := updateValues (lv_decimal svc) (ls_portfolio st1) (md_prices md)\<rparr>))"
    using assms(2) by (auto simp: not_less)
  have same: "ledger st1 = (ledger st1)" "ls_portfolio st1 = ls_portfolio st" "ls_trades st1 = ls_trades st"
    "ls_exitTracker st1 = ls_exitTracker st" "ls_signals st1 = ls_signals st" "ls_simulatedFills st1 = ls_simulatedFills st"
    "ls_pendingSignals st1 = ls_pendingSignals st" "ls_throttleState st1 = ls_throttleState st"
    "ls_consecutiveErrors st1 = ls_consecutiveErrors st" "books st1 = books st"
    by (simp, (subst st1, simp add: books_def)+)
  note frame = warmupBar_frame [where st = st1 and ctx = ctx and svc = svc and cfg = cfg and i = i and md = md and pd = pd and tfd = tfd
      and t = "lc_timestamps cfg ! i" and prices = "barPrices cfg i"
      and p = "updateValues (lv_decimal svc) (ls_portfolio st1) (md_prices md)", folded w]
  have "books st' = books st" using ledger_books [OF conjunct1 [OF frame]] same by simp
  moreover have "\<exists>mid md. ls_portfolio mid = updateValues (lv_decimal svc) (ls_portfolio st) (md_prices md) \<and>
       ls_trades mid = ls_trades st \<and> ls_exitTracker mid = ls_exitTracker st \<and>
       ls_trades st' = ls_trades (applyForcedExits svc cfg (lc_timestamps cfg ! i) md mid) \<and>
       ls_portfolio st' = ls_portfolio (applyForcedExits svc cfg (lc_timestamps cfg ! i) md mid)"
    using frame same
    by (intro exI [of _ "st1\<lparr>ls_priceCtx := ctx, ls_portfolio := updateValues (lv_decimal svc) (ls_portfolio st1) (md_prices md)\<rparr>"]
        exI [of _ md]) simp
  ultimately show ?thesis using frame same by (simp add: books_def)
qed

section \<open>Failing algorithms\<close>

lemma takeDecisions_throw:
  assumes "takeDecisions svc cfg i t md prices shown regime st = Inr st'"
    and throws: "\<forall>contexts. \<exists>message. lv_executeAlgorithm svc contexts = AlgorithmThrew message"
  shows "ls_consecutiveErrors st' = ls_consecutiveErrors st + 1 \<and> ls_consecutiveErrors st' < MAX_CONSECUTIVE_ERRORS"
proof -
  obtain signals st1 where answer: "executeAlgorithmWithRetry svc i shown st = Inr (signals, st1)"
    using assms by (auto simp: takeDecisions_def andThen_Inr)
  obtain message where "lv_executeAlgorithm svc (ls_contexts st @ [shown]) = AlgorithmThrew message" using throws by blast
  then have errors: "ls_consecutiveErrors st1 = ls_consecutiveErrors st + 1 \<and> ls_consecutiveErrors st1 < MAX_CONSECUTIVE_ERRORS"
    using answer by (auto simp: executeAlgorithmWithRetry_def showAlgorithm_def Let_def split: option.splits if_splits)
  obtain throttled throttle where throttle: "throttleBar cfg t signals (ls_throttleState st1) = (throttled, throttle)" by force
  define gate where "gate = applyBarRegime throttled (ls_priceCtx st1) (lc_regimeConfig cfg)
     (buildConcentrationContext (ls_portfolio st1) md)
     \<lparr>al_maxAllocation = lc_maxAllocation cfg, al_minAllocation = lc_minAllocation cfg\<rparr> (Some regime)"
  obtain kept st3 where kept: "cooldownFilter i (bg_filteredSignals gate) (st1\<lparr>ls_throttleState := throttle\<rparr>) = (kept, st3)" by force
  then have dispatch: "dispatchFilteredSignals svc cfg kept t md prices (bg_barMaxAllocation gate) (bg_barMinAllocation gate) st3 = Inr st'"
    using assms(1) answer throttle by (simp add: takeDecisions_def gate_def Let_def)
  have "ls_consecutiveErrors st' = ls_consecutiveErrors st3"
    using trades_only_queue [OF conjunct1 [OF dispatch_trades [OF dispatch]]] by simp
  moreover have "ls_consecutiveErrors st3 = ls_consecutiveErrors st1"
    using kept by (auto simp: cooldownFilter_def split: option.splits prod.splits)
  ultimately show ?thesis using errors by simp
qed

lemma processBar_throw:
  assumes bar: "processBar svc cfg i st = Inr (r, st')" and "r = None" "lc_effectiveTradingStartIndex cfg \<le> i"
    and throws: "\<forall>contexts. \<exists>message. lv_executeAlgorithm svc contexts = AlgorithmThrew message"
  shows "ls_consecutiveErrors st' = ls_consecutiveErrors st + 1 \<and> ls_consecutiveErrors st' < MAX_CONSECUTIVE_ERRORS"
proof (rule processBar_cases [OF bar])
  fix st1
  assume st1: "st1 = st\<lparr>ls_consecutivePauseFailures := ls_consecutivePauseFailures st1\<rparr>"
    and "r \<noteq> None \<and> lc_isLiveReplay cfg \<and> st' = st1 \<or>
       r = None \<and> i < lc_effectiveTradingStartIndex cfg \<and> (\<exists>ctx pd tfd md. st' = processWarmupBar svc cfg i (lc_timestamps cfg ! i) pd
         (barPrices cfg i) tfd (applyForcedExits svc cfg (lc_timestamps cfg ! i) md (st1\<lparr>ls_priceCtx := ctx,
           ls_portfolio := updateValues (lv_decimal svc) (ls_portfolio st1) (md_prices md)\<rparr>))) \<or>
       r = None \<and> lc_effectiveTradingStartIndex cfg \<le> i \<and> (\<exists>ctx md pd tfd. processTradingBar svc cfg i (lc_timestamps cfg ! i)
         (barPrices cfg i) md pd tfd (st1\<lparr>ls_priceCtx := ctx\<rparr>) = Inr st')"
  then obtain ctx md pd tfd where trade: "processTradingBar svc cfg i (lc_timestamps cfg ! i)
      (barPrices cfg i) md pd tfd (st1\<lparr>ls_priceCtx := ctx\<rparr>) = Inr st'"
    using assms(2,3) by (auto simp: not_less)
  have same: "ls_consecutiveErrors st1 = ls_consecutiveErrors st" by (subst st1) simp
  show ?thesis
  proof (rule processTradingBar_parts [OF trade])
    fix exited shown regime decided
    assume "ls_consecutiveErrors exited = ls_consecutiveErrors (st1\<lparr>ls_priceCtx := ctx\<rparr>)"
      and decide: "takeDecisions svc cfg i (lc_timestamps cfg ! i) md (barPrices cfg i) shown regime exited = Inr decided"
      and close: "closeBar svc cfg i (lc_timestamps cfg ! i) md (barPrices cfg i) decided = Inr st'"
    moreover have "ls_consecutiveErrors st' = ls_consecutiveErrors decided"
      using closeBar_cases [OF close] snapped_frame [of svc cfg i "lc_timestamps cfg ! i" md "barPrices cfg i" decided]
      by (auto simp: clearRecords_def harvest_def Let_def)
    ultimately show ?thesis using takeDecisions_throw [OF decide throws] same by simp
  qed
qed

text \<open>An algorithm that only throws cannot keep a run going: within ten trading bars in a row the run
  has failed, or, in live replay, has been paused; it never comes to its end with results.\<close>

lemma failing_algorithm_ends_run:
  assumes throws: "\<forall>contexts. \<exists>message. lv_executeAlgorithm svc contexts = AlgorithmThrew message"
    and trading: "\<forall>i \<in> set bars. lc_effectiveTradingStartIndex cfg \<le> i"
    and enough: "MAX_CONSECUTIVE_ERRORS \<le> length bars + ls_consecutiveErrors st"
    and running: "ls_consecutiveErrors st < MAX_CONSECUTIVE_ERRORS"
  shows "(\<exists>e. barLoop svc cfg bars st = Inl e) \<or>
    (\<exists>result st'. lc_isLiveReplay cfg \<and> barLoop svc cfg bars st = Inr (Some result, st'))"
  using trading enough running
proof (induction bars arbitrary: st)
  case (Cons i bars)
  show ?case
  proof (cases "processBar svc cfg i st")
    case (Inr answer)
    obtain r st1 where bar: "processBar svc cfg i st = Inr (r, st1)" using Inr by (cases answer) simp
    show ?thesis
    proof (cases r)
      case None
      have "ls_consecutiveErrors st1 = ls_consecutiveErrors st + 1 \<and> ls_consecutiveErrors st1 < MAX_CONSECUTIVE_ERRORS"
        using Cons.prems(1) by (intro processBar_throw [OF bar None _ throws]) simp
      then show ?thesis using Cons.IH [of st1] Cons.prems bar None by simp
    next
      case (Some result)
      moreover have "lc_isLiveReplay cfg" by (rule processBar_cases [OF bar]) (use Some in auto)
      ultimately show ?thesis using bar by simp
    qed
  qed simp
qed simp

text \<open>C14. The state of a run is well formed at every bar: fewer than ten errors and fewer than three failed
  pause checks in a row, nothing in the queue that should have been settled at once, no count pending of
  records that are gone, and every snapshot recorded valued at most at the peak, with a drawdown between
  zero and the maximum.\<close>

theorem loop_state_well_formed:
  assumes "barLoop svc cfg bars (createState D now backtest coins options data) = Inr (r, st)"
    and "\<forall>checkpoint. lo_resumeFrom options = Some checkpoint \<longrightarrow>
      0 \<le> cs_maxDrawdown checkpoint \<and> (\<forall>s \<in> set (nullish (cs_pendingSignals checkpoint) []). \<not> hardStop s)"
  shows "ls_consecutiveErrors st < 10 \<and> ls_consecutivePauseFailures st < 3 \<and>
    ls_lastCheckpointCounts st = NO_PERSISTED_COUNTS \<and>
    (\<forall>s \<in> set (ls_pendingSignals st). \<not> hardStop s) \<and> 0 \<le> ls_maxDrawdown st \<and>
    (\<forall>n \<in> set (recordedSnapshots st). sn_portfolioValue n \<le> ls_peakValue st \<and>
       0 \<le> sn_drawdown n \<and> sn_drawdown n \<le> ls_maxDrawdown st)"
proof -
  have "run_sound (createState D now backtest coins options data)"
    using assms(2) by (cases "lo_resumeFrom options")
      (auto simp: createState_def run_sound_def recordedSnapshots_def MAX_CONSECUTIVE_ERRORS_def
        MAX_CONSECUTIVE_PAUSE_FAILURES_def resumedPendingSignals_def restoreState_def Let_def)
  then have "run_sound st" by (rule barLoop_induct [OF assms(1)]) (rule run_sound_processBar)
  then show ?thesis by (simp add: run_sound_def MAX_CONSECUTIVE_ERRORS_def MAX_CONSECUTIVE_PAUSE_FAILURES_def)
qed

section \<open>A run of one bar\<close>

text \<open>One candle, an algorithm that has no signals or throws, a checkpoint at every bar.\<close>

definition sample_services :: "AlgorithmOutcome \<Rightarrow> LoopServices" where
  "sample_services outcome =
     \<lparr>lv_decimal = exactDecimal, lv_library = \<lparr>lib_pow = (\<lambda>_ _. Finite 1), lib_diffDays = (\<lambda>_ _. 0)\<rparr>,
      lv_computeChecksum = (\<lambda>_. ''0''), lv_executeAlgorithm = (\<lambda>_. outcome), lv_now = (\<lambda>_. 0)\<rparr>"

definition no_signals :: AlgorithmOutcome where
  "no_signals = AlgorithmReturned \<lparr>aq_success = True, aq_signals = None, aq_exitConfig = None\<rparr>"

definition sample_run_options :: LoopRunnerOptions where
  "sample_run_options =
     \<lparr>lo_isLiveReplay = False, lo_shouldPause = None, lo_onPaused = None, lo_deterministicSeed = [],
      lo_minHoldMs = None, lo_enableOpportunitySelling = None, lo_opportunitySellingConfig = None, lo_maxAllocation = None,
      lo_minAllocation = None, lo_pipelineStage = None, lo_enableHardStopLoss = Some False, lo_hardStopLossPercent = None,
      lo_exitConfig = None, lo_enableRegimeGate = None, lo_enableRegimeScaledSizing = None, lo_riskLevel = None,
      lo_checkpointInterval = Some 1, lo_onCheckpoint = Some (\<lambda>_ _ _. None), lo_resumeFrom = None,
      lo_aborted = (\<lambda>_. False), lo_delistingPenalty = None\<rparr>"

definition sample_backtest :: Backtest where
  "sample_backtest = \<lparr>ba_initialCapital = 1000, ba_tradingFee = 1 / 1000, ba_startDate = 0, ba_endDate = 10,
     ba_slippage = None, ba_regimeRiskLevel = None, ba_parameters = None\<rparr>"

definition sample_run_data :: RunData where
  "sample_run_data = \<lparr>rd_historicalPrices =
       [\<lparr>cd_coinId = ''btc'', cd_timestamp = 5, cd_open = 100, cd_high = 120, cd_low = 90, cd_close = 110,
         cd_volume = None, cd_quoteVolume = None\<rparr>],
     rd_delistingDates = [], rd_precomputedIndicators = None, rd_algoMetadata = []\<rparr>"

definition sample_run_config :: LoopConfig where
  "sample_run_config = createConfig sample_backtest [] sample_run_options sample_run_data"

definition sample_run_state :: LoopState where
  "sample_run_state = createState exactDecimal 0 sample_backtest [] sample_run_options sample_run_data"

lemmas sample_run = sample_services_def no_signals_def sample_run_options_def sample_backtest_def sample_run_data_def

lemma sample_config_fields:
  "lc_isLiveReplay sample_run_config = False" "lc_timestamps sample_run_config = [5]"
  "lc_pricesByTimestamp sample_run_config = [(5, rd_historicalPrices sample_run_data)]"
  "lc_coins sample_run_config = []" "lc_effectiveTradingStartIndex sample_run_config = 0"
  "lc_delistingDates sample_run_config = []" "lc_onCheckpoint sample_run_config = Some (\<lambda>_ _ _. None)"
  "lc_checkpointInterval sample_run_config = 1" "lc_aborted sample_run_config 0 = False"
  "rg_btcCoin (lc_regimeConfig sample_run_config) = None"
  by (simp_all add: sample_run_config_def createConfig_def sample_run loadTimestamps_def groupPricesByTimestamp_def map_set_def
      calculateBoundaries_def resolveRegimeConfig_def Let_def nullish_def)

lemma sample_state_fields:
  "ls_exitTracker sample_run_state = None" "ls_pendingSignals sample_run_state = []" "ls_lastCheckpointIndex sample_run_state = -1"
  "po_positions (ls_portfolio sample_run_state) = []" "ls_lastCheckpointCounts sample_run_state = NO_PERSISTED_COUNTS"
  "ls_consecutiveErrors sample_run_state = 0" "ls_saved sample_run_state = []" "ls_signals sample_run_state = []"
  by (simp_all add: sample_run_state_def createState_def sample_run resolveExitTracker_def resumedPendingSignals_def
      resumeIndex_def restoreState_def Let_def)

definition queued_sale :: TradingSignal where
  "queued_sale = (sample_signal SELL_ACTION)\<lparr>sg_coinId := ''btc''\<rparr>"

lemma sample_flush:
  assumes "q = [] \<or> q = [queued_sale]" "po_positions (ls_portfolio st) = []" "ls_pendingSignals st = q"
  shows "\<exists>st'. flushPendingSignals (sample_services outcome) sample_run_config t prices st = Inr st' \<and>
    po_positions (ls_portfolio st') = [] \<and> trades_only (st\<lparr>ls_pendingSignals := []\<rparr>) st'"
proof -
  have "\<exists>st'. flushPendingSignals (sample_services outcome) sample_run_config t prices st = Inr st' \<and> po_positions (ls_portfolio st') = []"
    using assms by (auto simp: flushPendingSignals_def processSignalTrade_def tryTrade_def signalParams_def queued_sale_def
        settleSignal_def skipBuy_def sample_services_def executeTrade_def sample_signal_def btc_buy_def executeSell_def Let_def
        split: option.splits)
  then show ?thesis using flushPendingSignals_trades by blast
qed

lemma sample_tradingBar:
  assumes q: "q = [] \<or> q = [queued_sale]"
    and st: "ls_pendingSignals st = q" "po_positions (ls_portfolio st) = []" "ls_exitTracker st = None" "ls_lastCheckpointIndex st = -1"
  shows "\<exists>st'. processTradingBar (sample_services no_signals) sample_run_config 0 t prices md pd tfd st = Inr st' \<and> ls_saved st' \<noteq> []"
proof -
  let ?svc = "sample_services no_signals" and ?cfg = sample_run_config
  have flat: "po_positions (updateValues D p m) = []" if "po_positions p = []" for D p m
    using that by (simp add: updateValues_def Let_def)
  define opened where "opened = st\<lparr>ls_portfolio := updateValues (lv_decimal ?svc) (ls_portfolio st) (openPrices prices)\<rparr>"
  obtain flushed where flush: "flushPendingSignals ?svc ?cfg t prices opened = Inr flushed"
    and f: "po_positions (ls_portfolio flushed) = []" "trades_only (opened\<lparr>ls_pendingSignals := []\<rparr>) flushed"
    using sample_flush [of q opened no_signals t prices] q st flat by (auto simp: opened_def)
  have tracker: "ls_exitTracker flushed = None" "ls_lastCheckpointIndex flushed = -1"
    using f(2) st unfolding trades_only_def opened_def by (cases st; cases flushed; simp)+
  define forced where "forced = applyForcedExits ?svc ?cfg t md
    (flushed\<lparr>ls_portfolio := updateValues (lv_decimal ?svc) (ls_portfolio flushed) (md_prices md)\<rparr>)"
  have forced: "ls_exitTracker forced = None" "ls_lastCheckpointIndex forced = -1"
    using tracker by (simp_all add: forced_def applyForcedExits_def sample_config_fields Let_def split: prod.splits)
  have exits: "processBarExits ?svc ?cfg 0 t md prices forced = Inr forced" using forced by (simp add: processBarExits_def)
  have decide: "\<exists>decided. takeDecisions ?svc ?cfg 0 t md prices shown regime forced = Inr decided \<and> ls_lastCheckpointIndex decided = -1"
    for shown regime
    using forced by (auto simp: takeDecisions_def executeAlgorithmWithRetry_def showAlgorithm_def sample_services_def no_signals_def
        strategySignals_def throttleBar_def SignalThrottle.filterSignals_def applyBarRegime_def sample_config_fields
        cooldownFilter_def nullish_def Let_def split: prod.splits)
  have close: "\<exists>st'. closeBar ?svc ?cfg 0 t md prices decided = Inr st' \<and> ls_saved st' \<noteq> []" if "ls_lastCheckpointIndex decided = -1" for decided
    using that by (auto simp: closeBar_def sample_config_fields persist_def saveCheckpoint_def Let_def
        updatePeak_def recordPeriodicSnapshot_def clearRecords_def harvest_def)
  show ?thesis
    using flush exits decide close by (simp add: processTradingBar_def opened_def [symmetric] forced_def [symmetric] Let_def)
      (metis andThen.simps(2))
qed

lemma sample_bar:
  assumes "q = [] \<or> q = [queued_sale]"
  shows "\<exists>st'. barLoop (sample_services no_signals) sample_run_config [0] (sample_run_state\<lparr>ls_pendingSignals := q\<rparr>) = Inr (None, st') \<and>
    ls_saved st' \<noteq> []"
proof -
  obtain ctx pd tfd where bar: "advanceBar (ls_priceCtx sample_run_state) [] 5 = (ctx, pd, tfd)" by (metis prod_cases3)
  define md where "md = \<lparr>md_timestamp = 5, md_prices = closePrices (rd_historicalPrices sample_run_data)\<rparr>"
  obtain st' where "processTradingBar (sample_services no_signals) sample_run_config 0 5 (rd_historicalPrices sample_run_data) md pd tfd
      (sample_run_state\<lparr>ls_pendingSignals := q, ls_priceCtx := ctx\<rparr>) = Inr st'" "ls_saved st' \<noteq> []"
    using sample_tradingBar [OF assms, of "sample_run_state\<lparr>ls_pendingSignals := q, ls_priceCtx := ctx\<rparr>" 5
      "rd_historicalPrices sample_run_data" md pd tfd] by (auto simp: sample_state_fields)
  then show ?thesis
    using bar by (simp add: processBar_def sample_config_fields nullish_def md_def Let_def)
qed

theorem queued_signal_settles_at_next_open_witness:
  "\<exists>st'. barLoop (sample_services no_signals) sample_run_config [0] (sample_run_state\<lparr>ls_pendingSignals := [queued_sale]\<rparr>) =
      Inr (None, st') \<and>
    signalRecord queued_sale 5 \<lparr>md_timestamp = 5, md_prices = [(''btc'', 100)]\<rparr> \<in> set (recordedSignals st')"
proof -
  obtain st' where run: "barLoop (sample_services no_signals) sample_run_config [0]
      (sample_run_state\<lparr>ls_pendingSignals := [queued_sale]\<rparr>) = Inr (None, st')" using sample_bar by blast
  have open_price: "openPrices (barPrices sample_run_config 0) = [(''btc'', 100)]"
    by (simp add: sample_config_fields openPrices_def sample_run_data_def getOpenPriceValue_def map_set_def nullish_def)
  have "signalRecord queued_sale 5 \<lparr>md_timestamp = 5, md_prices = [(''btc'', 100)]\<rparr> \<in> set (recordedSignals st')"
    using queued_signal_settles_at_next_open [OF run, where s = queued_sale and earlier = "[]" and later = "[]"]
    unfolding open_price by (auto simp: sample_config_fields sample_state_fields queued_sale_def)
  then show ?thesis using run by blast
qed

theorem loop_state_well_formed_witness:
  "\<exists>st'. barLoop (sample_services no_signals) sample_run_config [0] sample_run_state = Inr (None, st') \<and>
    ls_consecutiveErrors st' < 10 \<and> 0 \<le> ls_maxDrawdown st'"
proof -
  have same: "sample_run_state\<lparr>ls_pendingSignals := []\<rparr> = sample_run_state" using sample_state_fields(2) by simp
  obtain st' where run: "barLoop (sample_services no_signals) sample_run_config [0] sample_run_state = Inr (None, st')"
    using sample_bar [of "[]"] same by auto
  from loop_state_well_formed [OF run [unfolded sample_run_state_def]] show ?thesis
    using run by (auto simp: sample_run_options_def)
qed


end
