(* ===== verification/LoopLookahead.thy ===== *)
theory LoopLookahead
  imports LoopSafety
begin

text \<open>
  Two runs of the backtest loop over candles that agree up to a time: whatever comes later, the runs
  do the same until then, as long as the algorithm keeps to what the context shows of the past.
\<close>

section \<open>Price windows over a common past\<close>

definition pastOf :: "time_ms \<Rightarrow> PriceSummary list \<Rightarrow> PriceSummary list" where
  "pastOf T = takeWhile (\<lambda>s. ps_date s \<le> T)"

text \<open>Two series of one coin with a common past, and a cursor that has not left it.\<close>

definition same_series :: "time_ms \<Rightarrow> PriceSummary list \<Rightarrow> PriceSummary list \<Rightarrow> int \<Rightarrow> bool" where
  "same_series T ss1 ss2 pointer \<longleftrightarrow>
     pastOf T ss1 = pastOf T ss2 \<and> -1 \<le> pointer \<and> pointer + 1 \<le> int (length (pastOf T ss1))"

lemma pastOf_nth: "k < length (pastOf T ss) \<Longrightarrow> pastOf T ss ! k = ss ! k \<and> k < length ss \<and> ps_date (ss ! k) \<le> T"
  unfolding pastOf_def by (metis length_takeWhile_le less_le_trans nth_mem set_takeWhileD takeWhile_nth)

lemma pastOf_end: "length (pastOf T ss) < length ss \<Longrightarrow> T < ps_date (ss ! length (pastOf T ss))"
  unfolding pastOf_def using nth_length_takeWhile by fastforce

lemma advanceLoop_same:
  assumes "same_series T ss1 ss2 pointer" "t \<le> T"
  shows "advanceLoop (map ps_date ss1) ss1 t isBtc (pointer, window, sma) = advanceLoop (map ps_date ss2) ss2 t isBtc (pointer, window, sma) \<and>
    same_series T ss1 ss2 (fst (advanceLoop (map ps_date ss1) ss1 t isBtc (pointer, window, sma)))"
  using assms
proof (induction "map ps_date ss1" ss1 t isBtc "(pointer, window, sma)" arbitrary: pointer window sma rule: advanceLoop.induct)
  case (1 ss1 t isBtc pointer window sma)
  let ?k = "nat (pointer + 1)"
  have k: "int ?k = pointer + 1" "?k \<le> length (pastOf T ss1)" "pastOf T ss1 = pastOf T ss2"
    using 1(2) by (auto simp: same_series_def)
  show ?case
  proof (cases "?k < length (pastOf T ss1)")
    case True
    note first = pastOf_nth [OF True] and second = pastOf_nth [OF True [unfolded k(3)]]
    have same: "ss1 ! ?k = ss2 ! ?k" "?k < length ss1" "?k < length ss2" using first second k(3) by auto
    show ?thesis
    proof (cases "ps_date (ss1 ! ?k) \<le> t")
      case True
      have guard: "0 \<le> pointer + 1" "pointer + 1 < int (length ss1)" "pointer + 1 < int (length ss2)"
        using k(1) same by linarith+
      have kept: "same_series T ss1 ss2 (pointer + 1)" using \<open>?k < length (pastOf T ss1)\<close> k 1(2) by (auto simp: same_series_def)
      define window' sma' where "window' = RingBuffer_push window (ss1 ! ?k)"
        and "sma' = (if isBtc then map_option (\<lambda>a. IncrementalSma_push a (nullish (ps_close (ss1 ! ?k)) (ps_avg (ss1 ! ?k)))) sma else sma)"
      have rest: "advanceLoop (map ps_date ss1) ss1 t isBtc (pointer + 1, window', sma') =
          advanceLoop (map ps_date ss2) ss2 t isBtc (pointer + 1, window', sma') \<and>
          same_series T ss1 ss2 (fst (advanceLoop (map ps_date ss1) ss1 t isBtc (pointer + 1, window', sma')))"
        unfolding window'_def sma'_def using guard True 1(3) kept by (intro 1(1) [OF _ refl]) simp_all
      have "advanceLoop (map ps_date ss1) ss1 t isBtc (pointer, window, sma) =
          advanceLoop (map ps_date ss1) ss1 t isBtc (pointer + 1, window', sma')"
        "advanceLoop (map ps_date ss2) ss2 t isBtc (pointer, window, sma) =
          advanceLoop (map ps_date ss2) ss2 t isBtc (pointer + 1, window', sma')"
        using guard True same by (subst advanceLoop.simps, simp add: Let_def window'_def sma'_def)+
      then show ?thesis using conjunct1 [OF rest] conjunct2 [OF rest] by (simp only: simp_thms)
    qed (use 1(2) same in \<open>(subst (1 2 3) advanceLoop.simps), simp\<close>)
  next
    case False
    then have k': "?k = length (pastOf T ss1)" "?k = length (pastOf T ss2)" using k by auto
    have "\<not> (?k < length ss1 \<and> ps_date (ss1 ! ?k) \<le> t)" "\<not> (?k < length ss2 \<and> ps_date (ss2 ! ?k) \<le> t)"
      using pastOf_end [of T ss1] pastOf_end [of T ss2] k' 1(3) by fastforce+
    then show ?thesis using 1(2) k(1) by (subst (1 2 3) advanceLoop.simps) auto
  qed
qed

text \<open>Two price contexts that differ, if at all, in what comes after a time and in the higher timeframes.\<close>

definition same_past :: "time_ms \<Rightarrow> PriceTrackingContext \<Rightarrow> PriceTrackingContext \<Rightarrow> bool" where
  "same_past T ctx1 ctx2 \<longleftrightarrow>
     pt_windowsByCoin ctx1 = pt_windowsByCoin ctx2 \<and> pt_indexByCoin ctx1 = pt_indexByCoin ctx2 \<and>
     pt_btcRegimeSma ctx1 = pt_btcRegimeSma ctx2 \<and> pt_btcCoinId ctx1 = pt_btcCoinId ctx2 \<and>
     (\<forall>c. \<exists>ss1 ss2. nullish (map_get (pt_summariesByCoin ctx1) c) [] = ss1 \<and> nullish (map_get (pt_summariesByCoin ctx2) c) [] = ss2 \<and>
        nullish (map_get (pt_timestampsByCoin ctx1) c) [] = map ps_date ss1 \<and>
        nullish (map_get (pt_timestampsByCoin ctx2) c) [] = map ps_date ss2 \<and>
        same_series T ss1 ss2 (nullish (map_get (pt_indexByCoin ctx1) c) (-1)))"

lemma same_pastE:
  assumes "same_past T ctx1 ctx2"
  obtains ss1 ss2 where "nullish (map_get (pt_summariesByCoin ctx1) c) [] = ss1" "nullish (map_get (pt_summariesByCoin ctx2) c) [] = ss2"
    "nullish (map_get (pt_timestampsByCoin ctx1) c) [] = map ps_date ss1"
    "nullish (map_get (pt_timestampsByCoin ctx2) c) [] = map ps_date ss2"
    "same_series T ss1 ss2 (nullish (map_get (pt_indexByCoin ctx1) c) (-1))"
  using assms unfolding same_past_def by blast

lemma advanceCoin_same_past:
  assumes "same_past T ctx1 ctx2" "t \<le> T"
  shows "same_past T (fst (advanceCoin t (ctx1, pd) coin)) (fst (advanceCoin t (ctx2, pd) coin)) \<and>
    snd (advanceCoin t (ctx1, pd) coin) = snd (advanceCoin t (ctx2, pd) coin)"
proof (cases "map_get (pt_windowsByCoin ctx1) (coin_id coin)")
  case None
  then have "map_get (pt_windowsByCoin ctx2) (coin_id coin) = None" using assms(1) by (simp add: same_past_def)
  then show ?thesis using assms(1) None by (simp add: advanceCoin_def Let_def)
next
  case (Some window)
  have same: "pt_windowsByCoin ctx2 = pt_windowsByCoin ctx1" "pt_indexByCoin ctx2 = pt_indexByCoin ctx1"
    "pt_btcRegimeSma ctx2 = pt_btcRegimeSma ctx1" "pt_btcCoinId ctx2 = pt_btcCoinId ctx1"
    using assms(1) by (simp_all add: same_past_def)
  obtain ss1 ss2 where series: "nullish (map_get (pt_summariesByCoin ctx1) (coin_id coin)) [] = ss1"
    "nullish (map_get (pt_summariesByCoin ctx2) (coin_id coin)) [] = ss2"
    "nullish (map_get (pt_timestampsByCoin ctx1) (coin_id coin)) [] = map ps_date ss1"
    "nullish (map_get (pt_timestampsByCoin ctx2) (coin_id coin)) [] = map ps_date ss2"
    "same_series T ss1 ss2 (nullish (map_get (pt_indexByCoin ctx1) (coin_id coin)) (-1))"
    by (rule same_pastE [OF assms(1)])
  obtain pointer window' sma where step: "advanceLoop (map ps_date ss1) ss1 t (pt_btcCoinId ctx1 = Some (coin_id coin))
      (nullish (map_get (pt_indexByCoin ctx1) (coin_id coin)) (-1), window, pt_btcRegimeSma ctx1) = (pointer, window', sma)"
    by (metis prod_cases3)
  note loop = advanceLoop_same [OF series(5) assms(2), of "pt_btcCoinId ctx1 = Some (coin_id coin)" window "pt_btcRegimeSma ctx1"]
  define next_of where "next_of ctx = ctx\<lparr>pt_windowsByCoin := map_set (coin_id coin) window' (pt_windowsByCoin ctx),
     pt_indexByCoin := map_set (coin_id coin) pointer (pt_indexByCoin ctx), pt_btcRegimeSma := sma\<rparr>" for ctx :: PriceTrackingContext
  define data where "data = (if RingBuffer_length window' > 0 then map_set (coin_id coin) (RingBuffer_toArray window') pd else pd)"
  have results: "advanceCoin t (ctx1, pd) coin = (next_of ctx1, data)" "advanceCoin t (ctx2, pd) coin = (next_of ctx2, data)"
    using step loop Some by (simp_all add: advanceCoin_def series same next_of_def data_def Let_def)
  have "same_series T ss1 ss2 pointer" using loop step by simp
  then have "same_past T (next_of ctx1) (next_of ctx2)"
    using assms(1) series unfolding same_past_def next_of_def by (auto simp: nullish_def)
  then show ?thesis by (simp add: results)
qed

lemma advancePriceWindows_same_past:
  assumes "same_past T ctx1 ctx2" "t \<le> T"
  shows "same_past T (fst (advancePriceWindows ctx1 coins t)) (fst (advancePriceWindows ctx2 coins t)) \<and>
    snd (advancePriceWindows ctx1 coins t) = snd (advancePriceWindows ctx2 coins t)"
proof -
  have "same_past T (fst (foldl (advanceCoin t) (ctx1, pd) coins)) (fst (foldl (advanceCoin t) (ctx2, pd) coins)) \<and>
      snd (foldl (advanceCoin t) (ctx1, pd) coins) = snd (foldl (advanceCoin t) (ctx2, pd) coins)" for pd
    using assms(1)
  proof (induction coins arbitrary: ctx1 ctx2 pd)
    case (Cons coin coins)
    note one = advanceCoin_same_past [OF Cons.prems assms(2), of pd coin]
    show ?case
      using Cons.IH [OF conjunct1 [OF one], of "snd (advanceCoin t (ctx1, pd) coin)"] one by (metis foldl_Cons prod.collapse)
  qed simp
  then show ?thesis by (simp add: advancePriceWindows_def)
qed

lemma advanceBar_same_past:
  assumes "same_past T ctx1 ctx2" "t \<le> T"
  shows "same_past T (fst (advanceBar ctx1 coins t)) (fst (advanceBar ctx2 coins t)) \<and>
    fst (snd (advanceBar ctx1 coins t)) = fst (snd (advanceBar ctx2 coins t))"
proof -
  have timeframes: "same_past T (fst (advanceMultiTimeframeWindows c1 coins t)) (fst (advanceMultiTimeframeWindows c2 coins t))"
    if "same_past T c1 c2" for c1 c2
    using that by (auto simp: advanceMultiTimeframeWindows_def same_past_def Let_def split: option.split)
  show ?thesis
    using advancePriceWindows_same_past [OF assms, of coins]
    by (simp add: advanceBar_def case_prod_unfold Let_def timeframes)
qed

lemma computeCompositeRegime_same_past:
  "same_past T ctx1 ctx2 \<Longrightarrow> computeCompositeRegime c ctx1 = computeCompositeRegime c ctx2"
proof -
  assume "same_past T ctx1 ctx2"
  then have "pt_windowsByCoin ctx1 = pt_windowsByCoin ctx2" "pt_btcRegimeSma ctx1 = pt_btcRegimeSma ctx2"
    unfolding same_past_def by blast+
  then show ?thesis by (simp only: computeCompositeRegime_def)
qed

section \<open>What a bar does not read\<close>

text \<open>A state that watches another market, and a configuration that holds other candles.\<close>

definition seeing :: "PriceTrackingContext \<Rightarrow> AlgorithmContext list \<Rightarrow> LoopState \<Rightarrow> LoopState" where
  "seeing ctx shown st = st\<lparr>ls_priceCtx := ctx, ls_contexts := shown\<rparr>"

definition elsewhere ::
    "(time_ms, OHLCCandle list) jsmap \<Rightarrow> PrecomputedIndicators option \<Rightarrow> LoopConfig \<Rightarrow> LoopConfig" where
  "elsewhere prices indicators cfg = cfg\<lparr>lc_pricesByTimestamp := prices, lc_precomputedIndicators := indicators\<rparr>"

lemma seeing_fields [simp]:
  "ls_rng (seeing ctx shown st) = ls_rng st" "ls_portfolio (seeing ctx shown st) = ls_portfolio st"
  "ls_peakValue (seeing ctx shown st) = ls_peakValue st" "ls_maxDrawdown (seeing ctx shown st) = ls_maxDrawdown st"
  "ls_exitTracker (seeing ctx shown st) = ls_exitTracker st"
  "ls_throttleState (seeing ctx shown st) = ls_throttleState st" "ls_trades (seeing ctx shown st) = ls_trades st"
  "ls_signals (seeing ctx shown st) = ls_signals st" "ls_simulatedFills (seeing ctx shown st) = ls_simulatedFills st"
  "ls_snapshots (seeing ctx shown st) = ls_snapshots st"
  "ls_totalPersistedCounts (seeing ctx shown st) = ls_totalPersistedCounts st"
  "ls_metricsAcc (seeing ctx shown st) = ls_metricsAcc st"
  "ls_lastCheckpointCounts (seeing ctx shown st) = ls_lastCheckpointCounts st"
  "ls_lastCheckpointIndex (seeing ctx shown st) = ls_lastCheckpointIndex st"
  "ls_consecutiveErrors (seeing ctx shown st) = ls_consecutiveErrors st"
  "ls_watchdog (seeing ctx shown st) = ls_watchdog st"
  "ls_consecutivePauseFailures (seeing ctx shown st) = ls_consecutivePauseFailures st"
  "ls_prevCandleMap (seeing ctx shown st) = ls_prevCandleMap st"
  "ls_pendingSignals (seeing ctx shown st) = ls_pendingSignals st"
  "ls_lastKnownPrices (seeing ctx shown st) = ls_lastKnownPrices st" "ls_saved (seeing ctx shown st) = ls_saved st"
  "ls_priceCtx (seeing ctx shown st) = ctx" "ls_contexts (seeing ctx shown st) = shown"
  by (simp_all add: seeing_def)

lemma seeing_updates [simp]:
  "ls_rng_update f1 (seeing ctx shown st) = seeing ctx shown (ls_rng_update f1 st)"
  "ls_portfolio_update f2 (seeing ctx shown st) = seeing ctx shown (ls_portfolio_update f2 st)"
  "ls_peakValue_update f3 (seeing ctx shown st) = seeing ctx shown (ls_peakValue_update f3 st)"
  "ls_maxDrawdown_update f4 (seeing ctx shown st) = seeing ctx shown (ls_maxDrawdown_update f4 st)"
  "ls_exitTracker_update f5 (seeing ctx shown st) = seeing ctx shown (ls_exitTracker_update f5 st)"
  "ls_throttleState_update f6 (seeing ctx shown st) = seeing ctx shown (ls_throttleState_update f6 st)"
  "ls_trades_update f7 (seeing ctx shown st) = seeing ctx shown (ls_trades_update f7 st)"
  "ls_signals_update f8 (seeing ctx shown st) = seeing ctx shown (ls_signals_update f8 st)"
  "ls_simulatedFills_update f9 (seeing ctx shown st) = seeing ctx shown (ls_simulatedFills_update f9 st)"
  "ls_snapshots_update f10 (seeing ctx shown st) = seeing ctx shown (ls_snapshots_update f10 st)"
  "ls_totalPersistedCounts_update f11 (seeing ctx shown st) = seeing ctx shown (ls_totalPersistedCounts_update f11 st)"
  "ls_metricsAcc_update f12 (seeing ctx shown st) = seeing ctx shown (ls_metricsAcc_update f12 st)"
  "ls_lastCheckpointCounts_update f13 (seeing ctx shown st) = seeing ctx shown (ls_lastCheckpointCounts_update f13 st)"
  "ls_lastCheckpointIndex_update f14 (seeing ctx shown st) = seeing ctx shown (ls_lastCheckpointIndex_update f14 st)"
  "ls_consecutiveErrors_update f15 (seeing ctx shown st) = seeing ctx shown (ls_consecutiveErrors_update f15 st)"
  "ls_watchdog_update f16 (seeing ctx shown st) = seeing ctx shown (ls_watchdog_update f16 st)"
  "ls_consecutivePauseFailures_update f17 (seeing ctx shown st) = seeing ctx shown (ls_consecutivePauseFailures_update f17 st)"
  "ls_prevCandleMap_update f18 (seeing ctx shown st) = seeing ctx shown (ls_prevCandleMap_update f18 st)"
  "ls_pendingSignals_update f19 (seeing ctx shown st) = seeing ctx shown (ls_pendingSignals_update f19 st)"
  "ls_lastKnownPrices_update f20 (seeing ctx shown st) = seeing ctx shown (ls_lastKnownPrices_update f20 st)"
  "ls_saved_update f21 (seeing ctx shown st) = seeing ctx shown (ls_saved_update f21 st)"
  "ls_priceCtx_update f (seeing ctx shown st) = seeing (f ctx) shown st"
  "ls_contexts_update g (seeing ctx shown st) = seeing ctx (g shown) st"
  by (cases st; simp add: seeing_def)+

lemma elsewhere_fields [simp]:
  "lc_isLiveReplay (elsewhere prices indicators cfg) = lc_isLiveReplay cfg"
  "lc_shouldPause (elsewhere prices indicators cfg) = lc_shouldPause cfg"
  "lc_onPaused (elsewhere prices indicators cfg) = lc_onPaused cfg"
  "lc_checkpointInterval (elsewhere prices indicators cfg) = lc_checkpointInterval cfg"
  "lc_onCheckpoint (elsewhere prices indicators cfg) = lc_onCheckpoint cfg"
  "lc_aborted (elsewhere prices indicators cfg) = lc_aborted cfg"
  "lc_slippageConfig (elsewhere prices indicators cfg) = lc_slippageConfig cfg"
  "lc_minHoldMs (elsewhere prices indicators cfg) = lc_minHoldMs cfg"
  "lc_maxAllocation (elsewhere prices indicators cfg) = lc_maxAllocation cfg"
  "lc_minAllocation (elsewhere prices indicators cfg) = lc_minAllocation cfg"
  "lc_oppSellingEnabled (elsewhere prices indicators cfg) = lc_oppSellingEnabled cfg"
  "lc_oppSellingConfig (elsewhere prices indicators cfg) = lc_oppSellingConfig cfg"
  "lc_algoMetadata (elsewhere prices indicators cfg) = lc_algoMetadata cfg"
  "lc_regimeConfig (elsewhere prices indicators cfg) = lc_regimeConfig cfg"
  "lc_throttleConfig (elsewhere prices indicators cfg) = lc_throttleConfig cfg"
  "lc_initialCapital (elsewhere prices indicators cfg) = lc_initialCapital cfg"
  "lc_tradingFee (elsewhere prices indicators cfg) = lc_tradingFee cfg"
  "lc_startDate (elsewhere prices indicators cfg) = lc_startDate cfg"
  "lc_endDate (elsewhere prices indicators cfg) = lc_endDate cfg"
  "lc_parameters (elsewhere prices indicators cfg) = lc_parameters cfg"
  "lc_coins (elsewhere prices indicators cfg) = lc_coins cfg"
  "lc_coinMap (elsewhere prices indicators cfg) = lc_coinMap cfg"
  "lc_timestamps (elsewhere prices indicators cfg) = lc_timestamps cfg"
  "lc_delistingDates (elsewhere prices indicators cfg) = lc_delistingDates cfg"
  "lc_delistingPenalty (elsewhere prices indicators cfg) = lc_delistingPenalty cfg"
  "lc_effectiveTradingStartIndex (elsewhere prices indicators cfg) = lc_effectiveTradingStartIndex cfg"
  "lc_effectiveTimestampCount (elsewhere prices indicators cfg) = lc_effectiveTimestampCount cfg"
  "lc_tradingTimestampCount (elsewhere prices indicators cfg) = lc_tradingTimestampCount cfg"
  "lc_pricesByTimestamp (elsewhere prices indicators cfg) = prices"
  "lc_precomputedIndicators (elsewhere prices indicators cfg) = indicators"
  by (simp_all add: elsewhere_def)

lemma andThen_map_sum: "andThen (map_sum id g x) f = andThen x (\<lambda>y. f (g y))"
  by (cases x) simp_all

lemma map_sum_andThen: "map_sum id g (andThen x f) = andThen x (\<lambda>y. map_sum id g (f y))"
  by (cases x) simp_all

lemma andThen_cong: "x = x' \<Longrightarrow> (\<And>y. x' = Inr y \<Longrightarrow> f y = g y) \<Longrightarrow> andThen x f = andThen x' g"
  by (cases x') simp_all

named_theorems seeing_elsewhere \<open>parts of a bar, run on another market\<close>

lemmas along = andThen_map_sum map_sum_andThen andThen_map_sum [unfolded id_def] map_sum_andThen [unfolded id_def]

lemma tryTrade_seeing [seeing_elsewhere]:
  "tryTrade svc params (seeing ctx shown st) = map_sum id (map_prod id (seeing ctx shown)) (tryTrade svc params st)"
  by (simp add: tryTrade_def split: prod.split sum.split)

lemma sellForBuy_seeing [seeing_elsewhere]:
  "sellForBuy svc (elsewhere ps is cfg) market signal mx mn (seeing ctx shown st) =
    map_sum id (map_prod id (seeing ctx shown)) (sellForBuy svc cfg market signal mx mn st)"
  by (simp add: sellForBuy_def split: prod.split option.split)

lemma skipBuy_seeing [seeing_elsewhere]: "skipBuy signal (seeing ctx shown st) = seeing ctx shown (skipBuy signal st)"
  by (simp add: skipBuy_def)

lemma settleSignal_seeing [seeing_elsewhere]:
  "settleSignal (elsewhere ps is cfg) r signal t (seeing ctx shown st) = map_sum id (seeing ctx shown) (settleSignal cfg r signal t st)"
  by (auto simp: settleSignal_def recordTradeResult_def skipBuy_seeing Let_def split: option.split)

lemma processSignalTrade_seeing [seeing_elsewhere]:
  "processSignalTrade svc (elsewhere ps is cfg) signal t md prices mx mn (seeing ctx shown st) =
    map_sum id (seeing ctx shown) (processSignalTrade svc cfg signal t md prices mx mn st)"
proof -
  have params: "signalParams (elsewhere ps is cfg) = signalParams cfg" "sellMarket (elsewhere ps is cfg) = sellMarket cfg"
    by (intro ext, simp add: signalParams_def sellMarket_def)+
  show ?thesis
    unfolding processSignalTrade_def Let_def
    by (auto simp: params seeing_elsewhere along intro!: andThen_cong split: prod.split)
qed

lemma flushLoop_seeing [seeing_elsewhere]:
  "flushLoop svc (elsewhere ps is cfg) queued t md prices (seeing ctx shown st) =
    map_sum id (seeing ctx shown) (flushLoop svc cfg queued t md prices st)"
proof (induction queued arbitrary: st)
  case (Cons s queued)
  then show ?case
    by (cases "map_get (md_prices md) (sg_coinId s)") (auto simp: seeing_elsewhere along intro!: andThen_cong)
qed simp

lemma flushPendingSignals_seeing [seeing_elsewhere]:
  "flushPendingSignals svc (elsewhere ps is cfg) t prices (seeing ctx shown st) =
    map_sum id (seeing ctx shown) (flushPendingSignals svc cfg t prices st)"
  by (simp add: flushPendingSignals_def seeing_elsewhere)

lemma dispatch_seeing [seeing_elsewhere]:
  "dispatchFilteredSignals svc (elsewhere ps is cfg) signals t md prices mx mn (seeing ctx shown st) =
    map_sum id (seeing ctx shown) (dispatchFilteredSignals svc cfg signals t md prices mx mn st)"
proof (induction signals arbitrary: st)
  case (Cons s signals)
  then show ?case by (auto simp: seeing_elsewhere along intro!: andThen_cong)
qed simp

lemma applyForcedExits_seeing [seeing_elsewhere]:
  "applyForcedExits svc (elsewhere ps is cfg) t md (seeing ctx shown st) = seeing ctx shown (applyForcedExits svc cfg t md st)"
  by (simp add: applyForcedExits_def Let_def split: prod.split)

lemma processBarExits_seeing [seeing_elsewhere]:
  "processBarExits svc (elsewhere ps is cfg) i t md prices (seeing ctx shown st) =
    map_sum id (seeing ctx shown) (processBarExits svc cfg i t md prices st)"
  by (simp add: processBarExits_def exitOptions_def split: option.split sum.split)

lemma cooldownFilter_seeing [seeing_elsewhere]:
  "cooldownFilter i signals (seeing ctx shown st) = map_prod id (seeing ctx shown) (cooldownFilter i signals st)"
  by (simp add: cooldownFilter_def split: option.split prod.split)

lemma throttleBar_elsewhere [simp]: "throttleBar (elsewhere ps is cfg) = throttleBar cfg"
  by (intro ext) (simp add: throttleBar_def)

lemma buildSnapshot_seeing [simp]: "buildSnapshot svc (seeing ctx shown st) = buildSnapshot svc st"
  by (intro ext) (simp add: buildSnapshot_def Let_def)

lemma resultsSince_seeing [simp]: "resultsSince (seeing ctx shown st) = resultsSince st"
  by (simp add: resultsSince_def Let_def)

lemma harvest_seeing [seeing_elsewhere]: "harvest svc (seeing ctx shown st) = seeing ctx shown (harvest svc st)"
  by (simp add: harvest_def)

lemma persist_seeing [seeing_elsewhere]:
  "persist svc (elsewhere ps is cfg) i t (seeing ctx shown st) = map_sum id (seeing ctx shown) (persist svc cfg i t st)"
  by (auto simp: persist_def saveCheckpoint_def clearRecords_def seeing_elsewhere Let_def split: option.split)

lemma updatePeak_seeing [seeing_elsewhere]: "updatePeak (seeing ctx shown st) = map_prod id (seeing ctx shown) (updatePeak st)"
  by (simp add: updatePeak_def Let_def)

lemma recordPeriodicSnapshot_seeing [seeing_elsewhere]:
  "recordPeriodicSnapshot svc (elsewhere ps is cfg) i t md dd (seeing ctx shown st) =
    seeing ctx shown (recordPeriodicSnapshot svc cfg i t md dd st)"
  by (simp add: recordPeriodicSnapshot_def Let_def)

lemma closeBar_seeing [seeing_elsewhere]:
  "closeBar svc (elsewhere ps is cfg) i t md prices (seeing ctx shown st) =
    map_sum id (seeing ctx shown) (closeBar svc cfg i t md prices st)"
  by (simp add: closeBar_def seeing_elsewhere writeEmergencyAndAbort_def Let_def case_prod_unfold split: option.split)

lemma resultOf_seeing [simp]: "resultOf svc (elsewhere ps is cfg) (seeing ctx shown st) = resultOf svc cfg st"
  by (intro ext) (simp add: resultOf_def)

lemma buildPauseResult_seeing [simp]: "buildPauseResult svc (elsewhere ps is cfg) i (seeing ctx shown st) = buildPauseResult svc cfg i st"
  by (simp add: buildPauseResult_def harvest_seeing Let_def split: option.split)

lemma checkPauseRequest_seeing [seeing_elsewhere]:
  "checkPauseRequest svc (elsewhere ps is cfg) i (seeing ctx shown st) =
    map_sum id (map_prod id (seeing ctx shown)) (checkPauseRequest svc cfg i st)"
  by (auto simp: checkPauseRequest_def seeing_elsewhere along Let_def intro!: andThen_cong
      split: option.split sum.split bool.split)

section \<open>Two runs side by side\<close>

text \<open>What a context shows of the past: the values of the indicators up to the bar; the higher timeframes,
  whose bars are dated at their start, are left out.\<close>

definition pastIndicators :: "nat \<Rightarrow> PrecomputedIndicators \<Rightarrow> PrecomputedIndicators" where
  "pastIndicators n indicators = map (\<lambda>(coinId, m). (coinId, map (\<lambda>(key, values). (key, take n values)) m)) indicators"

definition shownPast :: "AlgorithmContext \<Rightarrow> AlgorithmContext" where
  "shownPast c = c\<lparr>ag_precomputedIndicators := map_option (pastIndicators (Suc (ag_currentTimestampIndex c))) (ag_precomputedIndicators c),
     ag_priceDataByTimeframe := None\<rparr>"

definition keeps_to_past :: "LoopServices \<Rightarrow> bool" where
  "keeps_to_past svc \<longleftrightarrow> (\<forall>shown shown'. map shownPast shown = map shownPast shown' \<longrightarrow>
     lv_executeAlgorithm svc shown = lv_executeAlgorithm svc shown')"

definition twin :: "time_ms \<Rightarrow> LoopState \<Rightarrow> LoopState \<Rightarrow> bool" where
  "twin T st1 st2 \<longleftrightarrow> (\<exists>ctx shown. st2 = seeing ctx shown st1 \<and> same_past T (ls_priceCtx st1) ctx \<and>
     map shownPast (ls_contexts st1) = map shownPast shown)"

lemma seeing_own [simp]: "seeing (ls_priceCtx st) (ls_contexts st) st = st"
  by (simp add: seeing_def)

lemma elsewhere_own [simp]: "elsewhere (lc_pricesByTimestamp cfg) (lc_precomputedIndicators cfg) cfg = cfg"
  by (simp add: elsewhere_def)

lemma seeing_again [simp]: "seeing ctx shown (seeing ctx' shown' st) = seeing ctx shown st"
  by (cases st) (simp add: seeing_def)

lemma rel_andThen:
  "rel_sum (=) R x y \<Longrightarrow> (\<And>a b. R a b \<Longrightarrow> rel_sum (=) S (f a) (g b)) \<Longrightarrow> rel_sum (=) S (andThen x f) (andThen y g)"
  by (cases x; cases y) auto

text \<open>An operation that does not read the market keeps two states alike, and leaves the market alone.\<close>

lemma twin_along:
  assumes "twin T st1 st2" "\<And>ctx shown. g (seeing ctx shown st1) = map_sum id (seeing ctx shown) (f st1)"
    "f st1 = map_sum id (seeing (ls_priceCtx st1) (ls_contexts st1)) (f st1)"
  shows "rel_sum (=) (twin T) (f st1) (g st2)"
proof -
  obtain ctx shown where st2: "st2 = seeing ctx shown st1" and past: "same_past T (ls_priceCtx st1) ctx"
    "map shownPast (ls_contexts st1) = map shownPast shown"
    using assms(1) by (auto simp: twin_def)
  show ?thesis
  proof (cases "f st1")
    case (Inr s)
    then have own: "s = seeing (ls_priceCtx st1) (ls_contexts st1) s" using assms(3) by simp
    then have "ls_priceCtx s = ls_priceCtx st1" "ls_contexts s = ls_contexts st1" by (metis seeing_fields(22,23))+
    then have "twin T s (seeing ctx shown s)" using past unfolding twin_def by auto
    then show ?thesis by (simp add: assms(2) st2 Inr)
  qed (simp add: assms(2) st2)
qed

lemma applyBarRegime_ctx:
  "applyBarRegime signals ctx1 rc cc al (Some regime) = applyBarRegime signals ctx2 rc cc al (Some regime)"
  unfolding applyBarRegime_def nullish_def option.case by (rule refl)

lemma executeAlgorithm_along:
  assumes "keeps_to_past svc" "map shownPast (ls_contexts st) = map shownPast shown" "shownPast c1 = shownPast c2"
  shows "executeAlgorithmWithRetry svc i c2 (seeing ctx shown st) =
    map_sum id (map_prod id (seeing ctx (shown @ [c2]))) (executeAlgorithmWithRetry svc i c1 st)"
proof -
  have "lv_executeAlgorithm svc (shown @ [c2]) = lv_executeAlgorithm svc (ls_contexts st @ [c1])"
    using assms unfolding keeps_to_past_def by auto
  then show ?thesis
    by (auto simp: executeAlgorithmWithRetry_def showAlgorithm_def Let_def seeing_def split: AlgorithmOutcome.split option.split)
qed

lemma takeDecisions_along:
  assumes "keeps_to_past svc" "map shownPast (ls_contexts st) = map shownPast shown" "shownPast c1 = shownPast c2"
  shows "takeDecisions svc (elsewhere ps is cfg) i t md prices c2 regime (seeing ctx shown st) =
    map_sum id (seeing ctx (shown @ [c2])) (takeDecisions svc cfg i t md prices c1 regime st)"
  unfolding takeDecisions_def executeAlgorithm_along [OF assms]
  by (auto simp: along seeing_elsewhere Let_def case_prod_unfold intro!: andThen_cong
      arg_cong [OF applyBarRegime_ctx] split: prod.split)

lemma takeDecisions_twin:
  assumes "keeps_to_past svc" "twin T st1 st2" "shownPast c1 = shownPast c2"
  shows "rel_sum (=) (twin T) (takeDecisions svc cfg i t md prices c1 regime st1)
    (takeDecisions svc (elsewhere ps is cfg) i t md prices c2 regime st2)"
proof -
  obtain ctx shown where st2: "st2 = seeing ctx shown st1" and past: "same_past T (ls_priceCtx st1) ctx"
    and alike: "map shownPast (ls_contexts st1) = map shownPast shown"
    using assms(2) by (auto simp: twin_def)
  note step = takeDecisions_along [OF assms(1) alike assms(3), of ps "is" cfg i t md prices regime ctx]
  note own = takeDecisions_along [OF assms(1) refl refl, of "lc_pricesByTimestamp cfg" "lc_precomputedIndicators cfg" cfg i t md prices c1
      regime "ls_priceCtx st1" st1, simplified]
  show ?thesis
  proof (cases "takeDecisions svc cfg i t md prices c1 regime st1")
    case (Inr s)
    then have own: "s = seeing (ls_priceCtx st1) (ls_contexts st1 @ [c1]) s" using own by simp
    then have "ls_priceCtx s = ls_priceCtx st1" "ls_contexts s = ls_contexts st1 @ [c1]" by (metis seeing_fields(22,23))+
    then have "twin T s (seeing ctx (shown @ [c2]) s)" using past alike assms(3)
      unfolding twin_def by (intro exI [of _ ctx] exI [of _ "shown @ [c2]"]) simp
    then show ?thesis by (simp add: step st2 Inr)
  qed (simp add: step st2)
qed

lemma barRegime_twin: "twin T st1 st2 \<Longrightarrow> barRegime (elsewhere ps is cfg) st2 = barRegime cfg st1"
  by (auto simp: barRegime_def twin_def computeCompositeRegime_same_past split: option.split)

lemma buildAlgorithmContext_twin:
  assumes "twin T st1 st2" "map_option (pastIndicators (Suc i)) (lc_precomputedIndicators cfg) = map_option (pastIndicators (Suc i)) is"
  shows "shownPast (buildAlgorithmContext cfg st1 pd t tfd1 regime i) =
    shownPast (buildAlgorithmContext (elsewhere ps is cfg) st2 pd t tfd2 regime i)"
  using assms by (auto simp: buildAlgorithmContext_def shownPast_def twin_def)

lemma twin_map:
  assumes "twin T st1 st2" "\<And>ctx shown. f (seeing ctx shown st1) = seeing ctx shown (f st1)"
  shows "twin T (f st1) (f st2)"
proof -
  have "f st1 = seeing (ls_priceCtx st1) (ls_contexts st1) (f st1)" using assms(2) [of "ls_priceCtx st1" "ls_contexts st1"] by simp
  then have "ls_priceCtx (f st1) = ls_priceCtx st1" "ls_contexts (f st1) = ls_contexts st1" by (metis seeing_fields(22,23))+
  then show ?thesis using assms unfolding twin_def by auto
qed

lemma twin_fields: "twin T st1 st2 \<Longrightarrow> ls_portfolio st2 = ls_portfolio st1 \<and> ls_watchdog st2 = ls_watchdog st1 \<and>
    ls_prevCandleMap st2 = ls_prevCandleMap st1"
  by (auto simp: twin_def)

lemma applyForcedExits_twin:
  "twin T st1 st2 \<Longrightarrow> twin T (applyForcedExits svc cfg t md st1) (applyForcedExits svc (elsewhere ps is cfg) t md st2)"
proof -
  assume st: "twin T st1 st2"
  have own: "applyForcedExits svc cfg t md (seeing ctx shown st) = seeing ctx shown (applyForcedExits svc cfg t md st)" for ctx shown st
    using applyForcedExits_seeing [of svc "lc_pricesByTimestamp cfg" "lc_precomputedIndicators cfg" cfg t md] by simp
  have "applyForcedExits svc (elsewhere ps is cfg) t md st2 = applyForcedExits svc cfg t md st2"
    using st own by (auto simp: twin_def applyForcedExits_seeing)
  then show ?thesis using twin_map [OF st own] by simp
qed

lemma tradingBar_twin:
  assumes past: "keeps_to_past svc" and st: "twin T st1 st2"
    and indicators: "map_option (pastIndicators (Suc i)) (lc_precomputedIndicators cfg) = map_option (pastIndicators (Suc i)) is"
  shows "rel_sum (=) (twin T) (processTradingBar svc cfg i t prices md pd tfd1 st1)
    (processTradingBar svc (elsewhere ps is cfg) i t prices md pd tfd2 st2)"
proof -
  have open_value: "twin T (st1\<lparr>ls_portfolio := updateValues (lv_decimal svc) (ls_portfolio st1) m\<rparr>)
      (st2\<lparr>ls_portfolio := updateValues (lv_decimal svc) (ls_portfolio st2) m\<rparr>)" if "twin T st1 st2" for st1 st2 m
    using twin_map [OF that, of "\<lambda>st. st\<lparr>ls_portfolio := updateValues (lv_decimal svc) (ls_portfolio st) m\<rparr>"] by simp
  have flush: "rel_sum (=) (twin T) (flushPendingSignals svc cfg t prices a) (flushPendingSignals svc (elsewhere ps is cfg) t prices b)"
    if "twin T a b" for a b
    by (rule twin_along [OF that]) (simp add: seeing_elsewhere,
      use flushPendingSignals_seeing [of svc "lc_pricesByTimestamp cfg" "lc_precomputedIndicators cfg" cfg t prices "ls_priceCtx a" "ls_contexts a" a]
      in simp)
  have exits: "rel_sum (=) (twin T) (processBarExits svc cfg i t md prices a) (processBarExits svc (elsewhere ps is cfg) i t md prices b)"
    if "twin T a b" for a b
    by (rule twin_along [OF that]) (simp add: seeing_elsewhere,
      use processBarExits_seeing [of svc "lc_pricesByTimestamp cfg" "lc_precomputedIndicators cfg" cfg i t md prices "ls_priceCtx a" "ls_contexts a" a]
      in simp)
  have close: "rel_sum (=) (twin T) (closeBar svc cfg i t md prices a) (closeBar svc (elsewhere ps is cfg) i t md prices b)"
    if "twin T a b" for a b
    by (rule twin_along [OF that]) (simp add: seeing_elsewhere,
      use closeBar_seeing [of svc "lc_pricesByTimestamp cfg" "lc_precomputedIndicators cfg" cfg i t md prices "ls_priceCtx a" "ls_contexts a" a]
      in simp)
  show ?thesis
    unfolding processTradingBar_def Let_def
  proof (rule rel_andThen [OF flush [OF open_value [OF st]]], rule rel_andThen [OF exits [OF applyForcedExits_twin [OF open_value]]], assumption)
    fix a b assume ab: "twin T a b"
    show "rel_sum (=) (twin T)
        (andThen (takeDecisions svc cfg i t md prices (buildAlgorithmContext cfg a pd t tfd1 (barRegime cfg a) i) (barRegime cfg a) a)
          (closeBar svc cfg i t md prices))
        (andThen (takeDecisions svc (elsewhere ps is cfg) i t md prices
            (buildAlgorithmContext (elsewhere ps is cfg) b pd t tfd2 (barRegime (elsewhere ps is cfg) b) i) (barRegime (elsewhere ps is cfg) b) b)
          (closeBar svc (elsewhere ps is cfg) i t md prices))"
      unfolding barRegime_twin [OF ab]
      by (rule rel_andThen [OF takeDecisions_twin [OF past ab buildAlgorithmContext_twin [OF ab indicators]] close])
  qed
qed

lemma warmupBar_twin:
  assumes past: "keeps_to_past svc" and st: "twin T st1 st2"
    and indicators: "map_option (pastIndicators (Suc i)) (lc_precomputedIndicators cfg) = map_option (pastIndicators (Suc i)) is"
  shows "twin T (processWarmupBar svc cfg i t pd prices tfd1 st1) (processWarmupBar svc (elsewhere ps is cfg) i t pd prices tfd2 st2)"
proof -
  obtain ctx shown where st2: "st2 = seeing ctx shown st1" and market: "same_past T (ls_priceCtx st1) ctx"
    and alike: "map shownPast (ls_contexts st1) = map shownPast shown"
    using st by (auto simp: twin_def)
  have regime: "barRegime (elsewhere ps is cfg) st2 = barRegime cfg st1" by (rule barRegime_twin [OF st])
  define r where "r = (if lc_isLiveReplay cfg then None else barRegime cfg st1)"
  define c1 where "c1 = buildAlgorithmContext cfg st1 pd t tfd1 r i"
  define c2 where "c2 = buildAlgorithmContext (elsewhere ps is cfg) st2 pd t tfd2 r i"
  have shown2: "ls_contexts st2 = shown" by (simp add: st2)
  have c: "shownPast c1 = shownPast c2" unfolding c1_def c2_def by (rule buildAlgorithmContext_twin [OF st indicators])
  have answer: "lv_executeAlgorithm svc (shown @ [c2]) = lv_executeAlgorithm svc (ls_contexts st1 @ [c1])"
    using past alike c unfolding keeps_to_past_def by auto
  define f where "f st = (case lv_executeAlgorithm svc (ls_contexts st1 @ [c1]) of
      AlgorithmReturned result \<Rightarrow> st\<lparr>ls_watchdog := recordSuccess (lv_now svc i) (ls_watchdog st)\<rparr>
    | _ \<Rightarrow> st)\<lparr>ls_prevCandleMap := updatePrevCandleMap (ls_prevCandleMap st) prices\<rparr>" for st :: LoopState
  have f: "f (seeing ctx shown st) = seeing ctx shown (f st)" for ctx shown st
    by (simp add: f_def split: AlgorithmOutcome.split)
  have "processWarmupBar svc cfg i t pd prices tfd1 st1 = f (st1\<lparr>ls_contexts := ls_contexts st1 @ [c1]\<rparr>)"
    by (simp add: processWarmupBar_def showAlgorithm_def f_def c1_def r_def Let_def split: AlgorithmOutcome.split)
  moreover have "processWarmupBar svc (elsewhere ps is cfg) i t pd prices tfd2 st2 = f (st2\<lparr>ls_contexts := shown @ [c2]\<rparr>)"
    using shown2 unfolding processWarmupBar_def showAlgorithm_def regime Let_def elsewhere_fields r_def [symmetric] c2_def [symmetric]
    by (simp add: f_def answer split: AlgorithmOutcome.split)
  moreover have "twin T (f (st1\<lparr>ls_contexts := ls_contexts st1 @ [c1]\<rparr>)) (f (st2\<lparr>ls_contexts := shown @ [c2]\<rparr>))"
  proof (rule twin_map [OF _ f])
    have "st2\<lparr>ls_contexts := shown @ [c2]\<rparr> = seeing ctx (shown @ [c2]) (st1\<lparr>ls_contexts := ls_contexts st1 @ [c1]\<rparr>)"
      unfolding st2 by (cases st1) (simp add: seeing_def)
    then show "twin T (st1\<lparr>ls_contexts := ls_contexts st1 @ [c1]\<rparr>) (st2\<lparr>ls_contexts := shown @ [c2]\<rparr>)"
      using market alike c unfolding twin_def by (intro exI [of _ ctx] exI [of _ "shown @ [c2]"]) simp
  qed
  ultimately show ?thesis by simp
qed

text \<open>What two configurations must share for a bar: its candles, and the indicators up to it.\<close>

definition same_bar :: "LoopConfig \<Rightarrow> (time_ms, OHLCCandle list) jsmap \<Rightarrow> PrecomputedIndicators option \<Rightarrow> nat \<Rightarrow> bool" where
  "same_bar cfg ps is i \<longleftrightarrow>
     nullish (map_get ps (lc_timestamps cfg ! i)) [] = nullish (map_get (lc_pricesByTimestamp cfg) (lc_timestamps cfg ! i)) [] \<and>
     map_option (pastIndicators (Suc i)) (lc_precomputedIndicators cfg) = map_option (pastIndicators (Suc i)) is"

lemma pause_twin:
  assumes "twin T st1 st2"
  shows "rel_sum (=) (rel_prod (=) (twin T))
    (if lc_isLiveReplay cfg then checkPauseRequest svc cfg i st1 else Inr (None, st1))
    (if lc_isLiveReplay cfg then checkPauseRequest svc (elsewhere ps is cfg) i st2 else Inr (None, st2))"
proof -
  obtain ctx shown where st2: "st2 = seeing ctx shown st1" using assms by (auto simp: twin_def)
  note own = checkPauseRequest_seeing [of svc "lc_pricesByTimestamp cfg" "lc_precomputedIndicators cfg" cfg i]
  show ?thesis
  proof (cases "checkPauseRequest svc cfg i st1")
    case (Inr answer)
    obtain r s where s: "answer = (r, s)" by force
    have "s = seeing (ls_priceCtx st1) (ls_contexts st1) s" using own [of "ls_priceCtx st1" "ls_contexts st1" st1] Inr s by simp
    then have "ls_priceCtx s = ls_priceCtx st1" "ls_contexts s = ls_contexts st1" by (metis seeing_fields(22,23))+
    then have "twin T s (seeing ctx shown s)" using assms unfolding twin_def st2 by (metis seeing_fields(22,23))
    then show ?thesis using assms Inr s by (simp add: st2 checkPauseRequest_seeing)
  qed (use assms in \<open>simp add: st2 checkPauseRequest_seeing\<close>)
qed

text \<open>A bar once it is known whether the run pauses.\<close>

definition barBody ::
    "LoopServices \<Rightarrow> LoopConfig \<Rightarrow> nat \<Rightarrow> ExecuteResult option \<times> LoopState \<Rightarrow> LoopError + ExecuteResult option \<times> LoopState" where
  "barBody svc cfg i answer =
     (let timestamp = lc_timestamps cfg ! i;
          currentPrices = nullish (map_get (lc_pricesByTimestamp cfg) timestamp) [];
          marketData = \<lparr>md_timestamp = timestamp, md_prices = closePrices currentPrices\<rparr>;
          (priceCtx, priceData, priceDataByTimeframe) = advanceBar (ls_priceCtx (snd answer)) (lc_coins cfg) timestamp;
          st = (snd answer)\<lparr>ls_priceCtx := priceCtx\<rparr>
      in if fst answer \<noteq> None then Inr answer
         else if i < lc_effectiveTradingStartIndex cfg
         then Inr (None, processWarmupBar svc cfg i timestamp priceData currentPrices priceDataByTimeframe
                (applyForcedExits svc cfg timestamp marketData
                  (st\<lparr>ls_portfolio := updateValues (lv_decimal svc) (ls_portfolio st) (md_prices marketData)\<rparr>)))
         else andThen (processTradingBar svc cfg i timestamp currentPrices marketData priceData priceDataByTimeframe st)
                (\<lambda>st'. Inr (None, st')))"

lemma processBar_body:
  "processBar svc cfg i st = andThen (if lc_isLiveReplay cfg then checkPauseRequest svc cfg i st else Inr (None, st)) (barBody svc cfg i)"
  unfolding processBar_def
proof (rule andThen_cong [OF refl])
  fix answer :: "ExecuteResult option \<times> LoopState"
  obtain r s where answer: "answer = (r, s)" by force
  obtain ctx pd tfd where bar: "advanceBar (ls_priceCtx s) (lc_coins cfg) (lc_timestamps cfg ! i) = (ctx, pd, tfd)" by (metis prod_cases3)
  show "(case answer of (paused, st1) \<Rightarrow> (case paused of Some result \<Rightarrow> Inr (Some result, st1) | None \<Rightarrow>
      let timestamp = lc_timestamps cfg ! i; currentPrices = nullish (map_get (lc_pricesByTimestamp cfg) timestamp) [];
          marketData = \<lparr>md_timestamp = timestamp, md_prices = closePrices currentPrices\<rparr>;
          (priceCtx, priceData, priceDataByTimeframe) = advanceBar (ls_priceCtx st1) (lc_coins cfg) timestamp;
          st2 = st1\<lparr>ls_priceCtx := priceCtx\<rparr>
      in if i < lc_effectiveTradingStartIndex cfg
         then let valued = st2\<lparr>ls_portfolio := updateValues (lv_decimal svc) (ls_portfolio st2) (md_prices marketData)\<rparr>
              in Inr (None, processWarmupBar svc cfg i timestamp priceData currentPrices priceDataByTimeframe
                   (applyForcedExits svc cfg timestamp marketData valued))
         else andThen (processTradingBar svc cfg i timestamp currentPrices marketData priceData priceDataByTimeframe st2)
                (\<lambda>st3. Inr (None, st3)))) = barBody svc cfg i answer"
    by (cases r; cases "i < lc_effectiveTradingStartIndex cfg") (simp_all add: barBody_def answer bar Let_def)
qed

lemma processBar_twin:
  assumes past: "keeps_to_past svc" and st: "twin T st1 st2" and bar: "lc_timestamps cfg ! i \<le> T" "same_bar cfg ps is i"
  shows "rel_sum (=) (rel_prod (=) (twin T)) (processBar svc cfg i st1) (processBar svc (elsewhere ps is cfg) i st2)"
proof -
  define t where "t = lc_timestamps cfg ! i"
  define prices where "prices = nullish (map_get (lc_pricesByTimestamp cfg) t) []"
  define md where "md = \<lparr>md_timestamp = t, md_prices = closePrices prices\<rparr>"
  have closes: "md_prices md = closePrices prices" by (simp add: md_def)
  have prices: "nullish (map_get ps t) [] = prices" and indicators:
    "map_option (pastIndicators (Suc i)) (lc_precomputedIndicators cfg) = map_option (pastIndicators (Suc i)) is"
    using bar(2) by (simp_all add: same_bar_def prices_def t_def)
  have market: "twin T (a\<lparr>ls_priceCtx := fst (advanceBar (ls_priceCtx a) (lc_coins cfg) t)\<rparr>)
      (b\<lparr>ls_priceCtx := fst (advanceBar (ls_priceCtx b) (lc_coins cfg) t)\<rparr>) \<and>
    fst (snd (advanceBar (ls_priceCtx a) (lc_coins cfg) t)) = fst (snd (advanceBar (ls_priceCtx b) (lc_coins cfg) t))"
    if ab: "twin T a b" for a b
  proof -
    obtain ctx shown where b: "b = seeing ctx shown a" and p: "same_past T (ls_priceCtx a) ctx"
      and c: "map shownPast (ls_contexts a) = map shownPast shown" using ab unfolding twin_def by blast
    note next_past = advanceBar_same_past [OF p, of t "lc_coins cfg"]
    define d1 d2 where "d1 = fst (advanceBar (ls_priceCtx a) (lc_coins cfg) t)" and "d2 = fst (advanceBar (ls_priceCtx b) (lc_coins cfg) t)"
    have seen: "ls_priceCtx b = ctx" by (simp add: b)
    have moved: "b\<lparr>ls_priceCtx := d2\<rparr> = seeing d2 shown (a\<lparr>ls_priceCtx := d1\<rparr>)" unfolding b by (cases a) (simp add: seeing_def)
    have "same_past T d1 d2" using next_past bar(1) by (simp add: d1_def d2_def seen t_def)
    then have "twin T (a\<lparr>ls_priceCtx := d1\<rparr>) (b\<lparr>ls_priceCtx := d2\<rparr>)"
      using c unfolding twin_def moved by (intro exI [of _ d2] exI [of _ shown]) simp
    then show ?thesis using next_past bar(1) by (simp add: d1_def d2_def seen t_def)
  qed
  have valued: "twin T (a\<lparr>ls_portfolio := updateValues (lv_decimal svc) (ls_portfolio a) m\<rparr>)
      (b\<lparr>ls_portfolio := updateValues (lv_decimal svc) (ls_portfolio b) m\<rparr>)" if "twin T a b" for a b m
    using twin_map [OF that, of "\<lambda>st. st\<lparr>ls_portfolio := updateValues (lv_decimal svc) (ls_portfolio st) m\<rparr>"] by simp
  show ?thesis
    unfolding processBar_body elsewhere_fields
  proof (rule rel_andThen [OF pause_twin [OF st]])
    fix x y :: "ExecuteResult option \<times> LoopState" assume "rel_prod (=) (twin T) x y"
    then obtain r a b where xy: "x = (r, a)" "y = (r, b)" and ab: "twin T a b" by (cases x; cases y) auto
    obtain ctx1 pd tfd1 where bar1: "advanceBar (ls_priceCtx a) (lc_coins cfg) t = (ctx1, pd, tfd1)" by (metis prod_cases3)
    obtain ctx2 tfd2 where bar2: "advanceBar (ls_priceCtx b) (lc_coins cfg) t = (ctx2, pd, tfd2)"
      using market [OF ab] bar1 by (metis fst_conv prod_cases3 snd_conv)
    have moved: "twin T (a\<lparr>ls_priceCtx := ctx1\<rparr>) (b\<lparr>ls_priceCtx := ctx2\<rparr>)" using market [OF ab] by (simp add: bar1 bar2)
    have trading: "rel_sum (=) (rel_prod (=) (twin T))
        (andThen (processTradingBar svc cfg i t prices md pd tfd1 (a\<lparr>ls_priceCtx := ctx1\<rparr>)) (\<lambda>st3. Inr (None, st3)))
        (andThen (processTradingBar svc (elsewhere ps is cfg) i t prices md pd tfd2 (b\<lparr>ls_priceCtx := ctx2\<rparr>)) (\<lambda>st3. Inr (None, st3)))"
      by (rule rel_andThen [OF tradingBar_twin [OF past moved indicators]]) simp
    have warm: "twin T
        (processWarmupBar svc cfg i t pd prices tfd1 (applyForcedExits svc cfg t md (a\<lparr>ls_priceCtx := ctx1,
           ls_portfolio := updateValues (lv_decimal svc) (ls_portfolio a) (md_prices md)\<rparr>)))
        (processWarmupBar svc (elsewhere ps is cfg) i t pd prices tfd2 (applyForcedExits svc (elsewhere ps is cfg) t md (b\<lparr>ls_priceCtx := ctx2,
           ls_portfolio := updateValues (lv_decimal svc) (ls_portfolio b) (md_prices md)\<rparr>)))"
      by (rule warmupBar_twin [OF past applyForcedExits_twin indicators]) (use valued [OF moved, of "md_prices md"] in simp)
    show "rel_sum (=) (rel_prod (=) (twin T)) (barBody svc cfg i x) (barBody svc (elsewhere ps is cfg) i y)"
      using trading warm [unfolded closes] ab bar1 bar2 prices
      by (cases r; cases "i < lc_effectiveTradingStartIndex cfg")
        (simp_all add: barBody_def xy t_def [symmetric] prices_def [symmetric] md_def [symmetric] Let_def)
  qed
qed

lemma barLoop_twin:
  assumes past: "keeps_to_past svc"
  shows "twin T st1 st2 \<Longrightarrow> \<forall>i \<in> set bars. lc_timestamps cfg ! i \<le> T \<and> same_bar cfg ps is i \<Longrightarrow>
    rel_sum (=) (rel_prod (=) (twin T)) (barLoop svc cfg bars st1) (barLoop svc (elsewhere ps is cfg) bars st2)"
proof (induction bars arbitrary: st1 st2)
  case (Cons i bars)
  show ?case
    unfolding barLoop.simps
  proof (rule rel_andThen [OF processBar_twin [OF past Cons.prems(1)]])
    fix x y :: "ExecuteResult option \<times> LoopState" assume "rel_prod (=) (twin T) x y"
    then show "rel_sum (=) (rel_prod (=) (twin T))
        (case x of (pauseResult, st) \<Rightarrow> (case pauseResult of Some result \<Rightarrow> Inr (Some result, st) | None \<Rightarrow> barLoop svc cfg bars st))
        (case y of (pauseResult, st) \<Rightarrow> (case pauseResult of Some result \<Rightarrow> Inr (Some result, st)
          | None \<Rightarrow> barLoop svc (elsewhere ps is cfg) bars st))"
      using Cons.IH Cons.prems(2) by (cases x; cases y) (auto split: option.split)
  qed (use Cons.prems(2) in simp_all)
qed simp

section \<open>Two sets of candles\<close>

text \<open>The same candles up to a time; after it, candles of the same coins at the same times, at any prices.\<close>

definition same_candles :: "time_ms \<Rightarrow> OHLCCandle list \<Rightarrow> OHLCCandle list \<Rightarrow> bool" where
  "same_candles T = list_all2 (\<lambda>a b. cd_coinId a = cd_coinId b \<and> cd_timestamp a = cd_timestamp b \<and> (cd_timestamp a \<le> T \<longrightarrow> a = b))"

lemma same_candles_filter:
  assumes "same_candles T cs1 cs2" "\<And>a. P a \<Longrightarrow> cd_timestamp a \<le> T"
    "\<And>a b. cd_coinId a = cd_coinId b \<Longrightarrow> cd_timestamp a = cd_timestamp b \<Longrightarrow> P a = P b"
  shows "filter P cs1 = filter P cs2"
  using assms(1) unfolding same_candles_def
proof (induction rule: list_all2_induct)
  case (Cons a cs1 b cs2)
  have keep: "P a = P b" by (rule assms(3)) (use Cons.hyps(1) in blast)+
  show ?case
  proof (cases "P a")
    case True
    then have "a = b" using Cons.hyps(1) assms(2) by blast
    then show ?thesis using Cons.IH by simp
  next
    case False
    then show ?thesis using Cons.IH keep by simp
  qed
qed simp

lemma group_step:
  "nullish (map_get (foldl (\<lambda>m candle. map_set (cd_timestamp candle) (nullish (map_get m (cd_timestamp candle)) [] @ [candle]) m) m cs) t) [] =
    nullish (map_get m t) [] @ filter (\<lambda>c. cd_timestamp c = t) cs"
  by (induction cs arbitrary: m) auto

lemma group_get: "nullish (map_get (groupPricesByTimestamp cs) t) [] = filter (\<lambda>c. cd_timestamp c = t) cs"
  by (simp add: groupPricesByTimestamp_def group_step)

lemma map_fst_map_set: "map fst (map_set k v m) = (if k \<in> fst ` set m then map fst m else map fst m @ [k])"
  by (induction m) (auto simp: map_set_def)

lemma group_keys:
  "map cd_timestamp cs1 = map cd_timestamp cs2 \<Longrightarrow> map fst m1 = map fst m2 \<Longrightarrow>
    map fst (foldl (\<lambda>m candle. map_set (cd_timestamp candle) (nullish (map_get m (cd_timestamp candle)) [] @ [candle]) m) m1 cs1) =
    map fst (foldl (\<lambda>m candle. map_set (cd_timestamp candle) (nullish (map_get m (cd_timestamp candle)) [] @ [candle]) m) m2 cs2)"
proof (induction cs1 arbitrary: cs2 m1 m2)
  case (Cons a cs1)
  then obtain b rest where cs2: "cs2 = b # rest" "cd_timestamp a = cd_timestamp b" "map cd_timestamp cs1 = map cd_timestamp rest"
    by (cases cs2) auto
  have "fst ` set m1 = fst ` set m2" using Cons.prems(2) by (metis set_map)
  then show ?case using Cons.IH [OF cs2(3)] Cons.prems(2) by (simp add: cs2(1,2) map_fst_map_set)
qed simp

lemma same_candles_timestamps: "same_candles T cs1 cs2 \<Longrightarrow> map cd_timestamp cs1 = map cd_timestamp cs2"
  unfolding same_candles_def by (induction rule: list_all2_induct) simp_all

lemma same_candles_loadTimestamps:
  "same_candles T cs1 cs2 \<Longrightarrow> loadTimestamps cs1 = loadTimestamps cs2"
  unfolding loadTimestamps_def groupPricesByTimestamp_def by (subst group_keys [of cs1 cs2 "[]" "[]"]) (simp_all add: same_candles_timestamps)

lemma same_candles_history:
  assumes "same_candles T cs1 cs2"
  shows "same_series T (map buildPriceSummary (coinHistory cs1 c)) (map buildPriceSummary (coinHistory cs2 c)) (-1)"
proof -
  have "pastOf T (map buildPriceSummary (coinHistory cs c)) =
      map buildPriceSummary (sort_key cd_timestamp (filter (\<lambda>x. cd_coinId x = c \<and> cd_timestamp x \<le> T) cs))" for cs
  proof -
    have "takeWhile (\<lambda>x. cd_timestamp x \<le> T) (coinHistory cs c) = filter (\<lambda>x. cd_timestamp x \<le> T) (coinHistory cs c)"
      using sorted_takeWhile_filter [OF coinHistory_sorted] by simp
    then show ?thesis
      by (simp add: pastOf_def takeWhile_map comp_def buildPriceSummary_def coinHistory_filter filter_sort conj_commute)
  qed
  moreover have "filter (\<lambda>x. cd_coinId x = c \<and> cd_timestamp x \<le> T) cs1 = filter (\<lambda>x. cd_coinId x = c \<and> cd_timestamp x \<le> T) cs2"
    by (rule same_candles_filter [OF assms]) auto
  ultimately show ?thesis by (simp add: same_series_def)
qed

lemma same_candles_start:
  assumes "same_candles T cs1 cs2"
  shows "same_past T (startPriceCtx coins cs1 btc) (startPriceCtx coins cs2 btc)"
proof -
  have start: "same_past T (initPriceTracking cs1 ids) (initPriceTracking cs2 ids)" for ids
    using same_candles_history [OF assms]
    by (auto simp: same_past_def initPriceTracking_def groupAndSortByCoins_def foldl_map_set_get getPriceTimestamp_def [abs_def]
        buildPriceSummary_def nullish_def comp_def same_series_def pastOf_def Let_def)
  have frame: "same_past T (c1\<lparr>pt_higherTimeframes := h1\<rparr>) (c2\<lparr>pt_higherTimeframes := h2\<rparr>)"
    "same_past T (c1\<lparr>pt_btcRegimeSma := sma, pt_btcCoinId := i\<rparr>) (c2\<lparr>pt_btcRegimeSma := sma, pt_btcCoinId := i\<rparr>)"
    if "same_past T c1 c2" for c1 c2 h1 h2 sma i
    using that unfolding same_past_def by auto
  show ?thesis
    by (cases btc) (simp_all add: startPriceCtx_def initMultiTimeframe_def Let_def frame start)
qed

lemma createConfig_elsewhere:
  assumes "same_candles T (rd_historicalPrices data) later"
  shows "createConfig backtest coins options (data\<lparr>rd_historicalPrices := later, rd_precomputedIndicators := indicators\<rparr>) =
    elsewhere (groupPricesByTimestamp later) indicators (createConfig backtest coins options data)"
  by (simp add: createConfig_def elsewhere_def same_candles_loadTimestamps [OF assms] Let_def)

lemma fastForward_same_past:
  "same_past T ctx1 ctx2 \<Longrightarrow> \<forall>j < n. timestamps ! j \<le> T \<Longrightarrow>
    same_past T (fastForwardForResume n coins timestamps ctx1) (fastForwardForResume n coins timestamps ctx2)"
proof (induction n)
  case (Suc n)
  then show ?case using advanceBar_same_past [of T _ _ "timestamps ! n" coins] by (simp add: fastForwardForResume_def)
qed (simp add: fastForwardForResume_def)

lemma createState_twin:
  assumes candles: "same_candles T (rd_historicalPrices data) later"
    and past: "\<forall>j < nat (resumeIndex options). loadTimestamps (rd_historicalPrices data) ! j \<le> T"
  shows "twin T (createState D now backtest coins options data)
    (createState D now backtest coins options (data\<lparr>rd_historicalPrices := later, rd_precomputedIndicators := indicators\<rparr>))"
    (is "twin T ?st1 ?st2")
proof -
  have stamps: "lc_timestamps (createConfig backtest coins options data) = loadTimestamps (rd_historicalPrices data)"
    by (simp add: createConfig_def Let_def)
  have start: "same_past T (startPriceCtx coins (rd_historicalPrices data) btc) (startPriceCtx coins later btc)" for btc
    by (rule same_candles_start [OF candles])
  have "same_past T (ls_priceCtx ?st1) (ls_priceCtx ?st2)"
    using start fastForward_same_past [OF start past]
    by (simp add: createState_def createConfig_elsewhere [OF candles] stamps Let_def split: option.split)
  moreover have "?st2 = seeing (ls_priceCtx ?st2) [] ?st1" "ls_contexts ?st1 = []"
    by (simp_all add: createState_def createConfig_elsewhere [OF candles] seeing_def Let_def)
  ultimately show ?thesis unfolding twin_def by (metis list.map_disc_iff)
qed

section \<open>No lookahead\<close>


text \<open>Two bars; the second closes at 200, or at 50.\<close>

definition two_bars :: "number \<Rightarrow> OHLCCandle list" where
  "two_bars price = rd_historicalPrices sample_run_data @
     [\<lparr>cd_coinId = ''btc'', cd_timestamp = 6, cd_open = 110, cd_high = 200, cd_low = 50, cd_close = price,
       cd_volume = None, cd_quoteVolume = None\<rparr>]"


end
