(* ===== verification/EntryGates.thy ===== *)
theory EntryGates
  imports SignalFilters Locks Retry
begin

text \<open>
  The gates in front of a live entry (\<^verbatim>\<open>strategy/risk/concentration-check.service.ts\<close>,
  \<^verbatim>\<open>strategy/concentration-gate.service.ts\<close>, \<^verbatim>\<open>strategy/daily-loss-limit-gate.service.ts\<close> and
  \<^verbatim>\<open>strategy/services/entry-gate.service.ts\<close>): the concentration of a portfolio in one asset, the
  losses of the last day, and the sequence of gates that a signal passes. A reason that a gate prints is
  a constructor with the values it prints; counters of metrics are left out.
\<close>

section \<open>Concentration\<close>

record AssetAllocation =
  aa_symbol :: string
  aa_usdValue :: number

record ConcentrationLimits =
  cl_hard :: number
  cl_soft :: number

record ConcentrationBreach =
  cb_symbol :: string
  cb_concentration :: number
  cb_limit :: number

record ConcentrationResult =
  cx_breached :: bool
  cx_breaches :: "ConcentrationBreach list"
  cx_warnings :: "ConcentrationBreach list"
  cx_totalValue :: number

datatype ConcentrationReason =
    AtHardLimit string number number
  | NoRoom string number
  | ReducedToFit string number number
  | AboveSoftLimit string number number

record ConcentrationGateResult =
  cg_allowed :: bool
  cg_adjustedQuantity :: "number option"
  cg_reason :: "ConcentrationReason option"

definition CONCENTRATION_LIMITS :: "number \<Rightarrow> ConcentrationLimits option" where
  "CONCENTRATION_LIMITS riskLevel =
     (if riskLevel = 1 then Some \<lparr>cl_hard = 25 / 100, cl_soft = 20 / 100\<rparr>
      else if riskLevel = 2 then Some \<lparr>cl_hard = 30 / 100, cl_soft = 25 / 100\<rparr>
      else if riskLevel = 3 then Some \<lparr>cl_hard = 35 / 100, cl_soft = 30 / 100\<rparr>
      else if riskLevel = 4 then Some \<lparr>cl_hard = 45 / 100, cl_soft = 40 / 100\<rparr>
      else if riskLevel = 5 then Some \<lparr>cl_hard = 55 / 100, cl_soft = 50 / 100\<rparr>
      else None)"

definition STABLECOIN_SYMBOLS :: "string list" where
  "STABLECOIN_SYMBOLS =
     [''USDT'', ''USDC'', ''DAI'', ''BUSD'', ''USD'', ''TUSD'', ''USDP'', ''FDUSD'', ''PYUSD'']"

definition resolveLimits :: "number \<Rightarrow> number option \<Rightarrow> ConcentrationLimits" where
  "resolveLimits riskLevel overrideLimit =
     (case overrideLimit of
        Some l \<Rightarrow>
          if l > 0
          then let clamped = min (max l (1 / 10)) (8 / 10)
               in \<lparr>cl_hard = clamped, cl_soft = max 0 (clamped - 5 / 100)\<rparr>
          else nullish (CONCENTRATION_LIMITS riskLevel) (the (CONCENTRATION_LIMITS 3))
      | None \<Rightarrow> nullish (CONCENTRATION_LIMITS riskLevel) (the (CONCENTRATION_LIMITS 3)))"

definition isStablecoin :: "string \<Rightarrow> bool" where
  "isStablecoin symbol \<longleftrightarrow> toUpperCase symbol \<in> set STABLECOIN_SYMBOLS"

text \<open>What stands before the first slash, or the whole symbol.\<close>

definition extractBaseSymbol :: "string \<Rightarrow> string" where
  "extractBaseSymbol symbol = toUpperCase (takeWhile (\<lambda>c. c \<noteq> CHR ''/'') symbol)"

definition aggregateByBaseSymbol :: "AssetAllocation list \<Rightarrow> (string, number) jsmap" where
  "aggregateByBaseSymbol assets =
     foldl (\<lambda>m asset. let base = extractBaseSymbol (aa_symbol asset)
              in map_set base (nullish (map_get m base) 0 + aa_usdValue asset) m) [] assets"

definition totalUsd :: "AssetAllocation list \<Rightarrow> number" where
  "totalUsd assets = foldl (\<lambda>sum a. sum + aa_usdValue a) 0 assets"

definition checkConcentration :: "AssetAllocation list \<Rightarrow> number \<Rightarrow> number option \<Rightarrow> ConcentrationResult" where
  "checkConcentration assets riskLevel overrideLimit =
     (let totalValue = totalUsd assets
      in if totalValue \<le> 0 then \<lparr>cx_breached = False, cx_breaches = [], cx_warnings = [], cx_totalValue = 0\<rparr>
         else let limits = resolveLimits riskLevel overrideLimit;
                  (breaches, warnings) = foldl (\<lambda>(breaches, warnings) (symbol, usdValue).
                     if isStablecoin symbol then (breaches, warnings)
                     else let concentration = usdValue / totalValue
                          in if concentration \<ge> cl_hard limits
                             then (breaches @ [\<lparr>cb_symbol = symbol, cb_concentration = concentration, cb_limit = cl_hard limits\<rparr>], warnings)
                             else if concentration \<ge> cl_soft limits
                             then (breaches, warnings @ [\<lparr>cb_symbol = symbol, cb_concentration = concentration, cb_limit = cl_soft limits\<rparr>])
                             else (breaches, warnings)) ([], []) (aggregateByBaseSymbol assets)
              in \<lparr>cx_breached = length breaches > 0, cx_breaches = breaches, cx_warnings = warnings, cx_totalValue = totalValue\<rparr>)"

definition calculateMaxAdditionalUsd :: "AssetAllocation list \<Rightarrow> string \<Rightarrow> number \<Rightarrow> number option \<Rightarrow> number" where
  "calculateMaxAdditionalUsd assets targetSymbol riskLevel overrideLimit =
     (let totalValue = totalUsd assets
      in if totalValue \<le> 0 then 0
         else let hard = cl_hard (resolveLimits riskLevel overrideLimit);
                  currentValue = nullish (map_get (aggregateByBaseSymbol assets) (extractBaseSymbol targetSymbol)) 0;
                  numerator = hard * totalValue - currentValue;
                  denominator = 1 - hard
              in if denominator \<le> 0 then 0 else max 0 (numerator / denominator))"

text \<open>The value of the trade is not negative.\<close>

definition checkTradeAllowed ::
    "AssetAllocation list \<Rightarrow> string \<Rightarrow> number \<Rightarrow> number \<Rightarrow> string \<Rightarrow> number option \<Rightarrow> ConcentrationGateResult" where
  "checkTradeAllowed assets tradeSymbol tradeUsdValue riskLevel action overrideLimit =
     (let pass = \<lparr>cg_allowed = True, cg_adjustedQuantity = None, cg_reason = None\<rparr>;
          normalizedAction = toLowerCase action;
          baseSymbol = extractBaseSymbol tradeSymbol;
          totalValue = totalUsd assets;
          limits = resolveLimits riskLevel overrideLimit; hard = cl_hard limits; soft = cl_soft limits;
          currentValue = nullish (map_get (aggregateByBaseSymbol assets) baseSymbol) 0;
          currentConcentration = currentValue / totalValue;
          postTradeConcentration = (currentValue + tradeUsdValue) / (totalValue + tradeUsdValue)
      in if normalizedAction = ''sell'' \<or> normalizedAction = ''short_exit'' then pass
         else if isStablecoin baseSymbol then pass
         else if totalValue \<le> 0 then pass
         else if currentConcentration \<ge> hard
         then \<lparr>cg_allowed = False, cg_adjustedQuantity = None, cg_reason = Some (AtHardLimit baseSymbol currentConcentration hard)\<rparr>
         else if postTradeConcentration > hard
         then let maxAdditionalUsd = calculateMaxAdditionalUsd assets baseSymbol riskLevel overrideLimit
              in if maxAdditionalUsd \<le> 0
                 then \<lparr>cg_allowed = False, cg_adjustedQuantity = None, cg_reason = Some (NoRoom baseSymbol hard)\<rparr>
                 else let adjustedQuantity = maxAdditionalUsd / tradeUsdValue
                      in \<lparr>cg_allowed = True, cg_adjustedQuantity = Some (min adjustedQuantity 1),
                          cg_reason = Some (ReducedToFit baseSymbol adjustedQuantity hard)\<rparr>
         else if postTradeConcentration > soft
         then \<lparr>cg_allowed = True, cg_adjustedQuantity = None, cg_reason = Some (AboveSoftLimit baseSymbol postTradeConcentration soft)\<rparr>
         else pass)"

record AssetBalance =
  ab_asset :: string
  ab_usdValue :: "number option"

text \<open>The balances of an exchange are missing or a list.\<close>

definition buildAssetAllocations :: "AssetBalance list option list \<Rightarrow> AssetAllocation list" where
  "buildAssetAllocations exchangeBalances =
     concat (map (\<lambda>exchange. concat (map (\<lambda>balance. case ab_usdValue balance of
        Some v \<Rightarrow> if v > 0 then [\<lparr>aa_symbol = ab_asset balance, aa_usdValue = v\<rparr>] else []
      | None \<Rightarrow> []) (nullish exchange []))) exchangeBalances)"

section \<open>The losses of a day\<close>

definition RISK_LEVEL_THRESHOLDS :: "number \<Rightarrow> number option" where
  "RISK_LEVEL_THRESHOLDS riskLevel =
     (if riskLevel = 1 then Some (5 / 100) else if riskLevel = 2 then Some (75 / 1000)
      else if riskLevel = 3 then Some (1 / 10) else if riskLevel = 4 then Some (125 / 1000)
      else if riskLevel = 5 then Some (15 / 100) else None)"

record LossOrder =
  lo_userId :: string
  lo_isAlgorithmicTrade :: bool
  lo_filled :: bool
  lo_side :: string
  lo_createdAt :: time_ms
  lo_gainLoss :: "number option"

text \<open>The query on the table of orders, at the time of the database.\<close>

definition dailyLossQuery :: "string \<Rightarrow> time_ms \<Rightarrow> LossOrder list \<Rightarrow> number" where
  "dailyLossQuery userId now orders =
     sum_list (map (\<lambda>x. nullish (lo_gainLoss x) 0) (filter (\<lambda>x. lo_userId x = userId \<and> lo_isAlgorithmicTrade x \<and> lo_filled x \<and>
       lo_side x = ''SELL'' \<and> lo_createdAt x > now - 24 * 60 * 60 * 1000 \<and> nullish (lo_gainLoss x) 0 < 0) orders))"

datatype DailyLossReason = NoCapital | LossLimitExceeded number number | LossCheckFailed

text \<open>The table is missing when the query fails.\<close>

definition checkDailyLossLimit ::
    "LossOrder list option \<Rightarrow> time_ms \<Rightarrow> string \<Rightarrow> number \<Rightarrow> number \<Rightarrow> string \<Rightarrow> bool \<times> DailyLossReason option" where
  "checkDailyLossLimit orders now userId tradingCapital riskLevel action =
     (if action = ''sell'' \<or> action = ''short_exit'' then (True, None)
      else if tradingCapital \<le> 0 then (False, Some NoCapital)
      else let threshold = nullish (RISK_LEVEL_THRESHOLDS riskLevel) (the (RISK_LEVEL_THRESHOLDS 3))
           in case orders of
                None \<Rightarrow> (False, Some LossCheckFailed)
              | Some table \<Rightarrow>
                  let totalLoss = \<bar>dailyLossQuery userId now table\<bar>;
                      lossPercent = totalLoss / tradingCapital * 100;
                      limitPercent = threshold * 100
                  in if lossPercent \<ge> limitPercent then (False, Some (LossLimitExceeded lossPercent limitPercent))
                     else (True, None))"

definition isEntryBlocked :: "LossOrder list option \<Rightarrow> time_ms \<Rightarrow> string \<Rightarrow> number \<Rightarrow> number \<Rightarrow> bool \<times> DailyLossReason option" where
  "isEntryBlocked orders now userId tradingCapital riskLevel =
     (let (allowed, reason) = checkDailyLossLimit orders now userId tradingCapital riskLevel ''buy'' in (\<not> allowed, reason))"

section \<open>The sequence of gates\<close>

datatype EntryAction = ENTRY_BUY | ENTRY_SELL
datatype PositionSide = LONG_SIDE | SHORT_SIDE
datatype SignalReasonCode = DAILY_LOSS_LIMIT | EXISTING_HOLDING | CONCENTRATION_LIMIT | TRADE_COOLDOWN

fun actionText :: "EntryAction \<Rightarrow> string" where
  "actionText ENTRY_BUY = ''BUY''"
| "actionText ENTRY_SELL = ''SELL''"

record EntryGateContext =
  eg_userId :: string
  eg_symbol :: string
  eg_action :: EntryAction
  eg_positionSide :: "PositionSide option"
  eg_portfolioValue :: number
  eg_allocationPercentage :: number
  eg_riskLevel :: number
  eg_assets :: "AssetAllocation list"
  eg_isDailyLossBlocked :: bool
  eg_pipelineId :: string

record EntryGateResult =
  er_allowed :: bool
  er_reasonCode :: "SignalReasonCode option"
  er_adjustedQuantity :: "number option"
  er_cooldownClaim :: "CooldownClaim option"

definition rejectEntry :: "SignalReasonCode \<Rightarrow> EntryGateResult" where
  "rejectEntry code = \<lparr>er_allowed = False, er_reasonCode = Some code, er_adjustedQuantity = None, er_cooldownClaim = None\<rparr>"

definition checkCooldown :: "'db RedisOps \<Rightarrow> time_ms \<Rightarrow> EntryGateContext \<Rightarrow> 'db \<Rightarrow> EntryGateResult \<times> 'db" where
  "checkCooldown R now ctx db =
     (let (cooldown, db') = checkAndClaim R (eg_userId ctx) (eg_symbol ctx) (actionText (eg_action ctx)) (eg_pipelineId ctx) now db
      in if \<not> cr_allowed cooldown
         then ((rejectEntry TRADE_COOLDOWN)\<lparr>er_cooldownClaim := cr_existingClaim cooldown\<rparr>, db')
         else (\<lparr>er_allowed = True, er_reasonCode = None, er_adjustedQuantity = None, er_cooldownClaim = None\<rparr>, db'))"

definition isEntry :: "EntryGateContext \<Rightarrow> bool" where
  "isEntry ctx \<longleftrightarrow>
     (eg_action ctx = ENTRY_BUY \<and> eg_positionSide ctx \<noteq> Some SHORT_SIDE) \<or>
     (eg_action ctx = ENTRY_SELL \<and> eg_positionSide ctx = Some SHORT_SIDE)"

definition holdsAlready :: "EntryGateContext \<Rightarrow> bool" where
  "holdsAlready ctx \<longleftrightarrow>
     (let baseCurrency = takeWhile (\<lambda>c. c \<noteq> CHR ''/'') (eg_symbol ctx)
      in find (\<lambda>a. toUpperCase (aa_symbol a) = toUpperCase baseCurrency \<and> aa_usdValue a > 1) (eg_assets ctx) \<noteq> None)"

definition checkEntryGates :: "'db RedisOps \<Rightarrow> time_ms \<Rightarrow> EntryGateContext \<Rightarrow> 'db \<Rightarrow> EntryGateResult \<times> 'db" where
  "checkEntryGates R now ctx db =
     (if isEntry ctx
      then if eg_isDailyLossBlocked ctx then (rejectEntry DAILY_LOSS_LIMIT, db)
           else if eg_action ctx = ENTRY_BUY \<and> holdsAlready ctx then (rejectEntry EXISTING_HOLDING, db)
           else let estimatedTradeUsd = eg_portfolioValue ctx * (eg_allocationPercentage ctx / 100);
                    concCheck = checkTradeAllowed (eg_assets ctx) (eg_symbol ctx) estimatedTradeUsd (eg_riskLevel ctx)
                      (actionText (eg_action ctx)) None
                in if \<not> cg_allowed concCheck then (rejectEntry CONCENTRATION_LIMIT, db)
                   else case cg_adjustedQuantity concCheck of
                          Some q \<Rightarrow>
                            if q < 1
                            then let (cooldownResult, db') = checkCooldown R now ctx db
                                 in if \<not> er_allowed cooldownResult then (cooldownResult, db')
                                    else (cooldownResult\<lparr>er_allowed := True, er_adjustedQuantity := Some q\<rparr>, db')
                            else checkCooldown R now ctx db
                        | None \<Rightarrow> checkCooldown R now ctx db
      else checkCooldown R now ctx db)"

definition clearCooldownOnFailure :: "'db RedisOps \<Rightarrow> string \<Rightarrow> string \<Rightarrow> string \<Rightarrow> time_ms \<Rightarrow> 'db \<Rightarrow> 'db" where
  "clearCooldownOnFailure R userId symbol action now db = clearCooldown R userId symbol action now db"

section \<open>Lemmas\<close>

lemma upperChar_code: "of_char (upperChar c) = (let n = of_char c :: nat in if 97 \<le> n \<and> n \<le> 122 then n - 32 else n)"
  by (auto simp: upperChar_def Let_def)

lemma upperChar_upperChar [simp]: "upperChar (upperChar c) = upperChar c"
proof -
  have "(of_char (upperChar (upperChar c)) :: nat) = of_char (upperChar c)"
    unfolding upperChar_code [of "upperChar c"] upperChar_code [of c] Let_def by auto
  then show ?thesis by simp
qed

lemma upperChar_slash: "upperChar c = CHR ''/'' \<longleftrightarrow> c = CHR ''/''"
proof -
  have "(of_char (upperChar c) = (of_char (CHR ''/'') :: nat)) \<longleftrightarrow> of_char c = (of_char (CHR ''/'') :: nat)"
    unfolding upperChar_code Let_def by auto
  then show ?thesis by (simp only: of_char_eq_iff)
qed

lemma extractBaseSymbol_idem [simp]: "extractBaseSymbol (extractBaseSymbol s) = extractBaseSymbol s"
proof -
  have "\<forall>c \<in> set (map upperChar (takeWhile (\<lambda>c. c \<noteq> CHR ''/'') s)). c \<noteq> CHR ''/''"
    by (auto simp: upperChar_slash dest: set_takeWhileD)
  then have same: "takeWhile (\<lambda>c. c \<noteq> CHR ''/'') (map upperChar (takeWhile (\<lambda>c. c \<noteq> CHR ''/'') s)) =
      map upperChar (takeWhile (\<lambda>c. c \<noteq> CHR ''/'') s)"
    by (simp only: takeWhile_eq_all_conv)
  show ?thesis unfolding extractBaseSymbol_def toUpperCase_def same by (simp add: comp_def)
qed

lemma resolveLimits_hard: "1 / 10 \<le> cl_hard (resolveLimits riskLevel l) \<and> cl_hard (resolveLimits riskLevel l) \<le> 8 / 10"
  by (auto simp: resolveLimits_def CONCENTRATION_LIMITS_def nullish_def min_def max_def split: option.split)

lemma totalUsd_sum: "totalUsd assets = sum_list (map aa_usdValue assets)"
proof -
  have "foldl (\<lambda>sum a. sum + aa_usdValue a) s assets = s + sum_list (map aa_usdValue assets)" for s
    by (induction assets arbitrary: s) (simp_all add: add.assoc)
  then show ?thesis by (simp add: totalUsd_def)
qed

text \<open>What the portfolio holds of an asset, under any of its spellings.\<close>

definition heldUsd :: "AssetAllocation list \<Rightarrow> string \<Rightarrow> number" where
  "heldUsd assets base = sum_list (map aa_usdValue (filter (\<lambda>a. extractBaseSymbol (aa_symbol a) = base) assets))"

lemma aggregate_held: "nullish (map_get (aggregateByBaseSymbol assets) base) 0 = heldUsd assets base"
proof -
  have "nullish (map_get (foldl (\<lambda>m asset. let b = extractBaseSymbol (aa_symbol asset)
      in map_set b (nullish (map_get m b) 0 + aa_usdValue asset) m) m assets) base) 0 =
    nullish (map_get m base) 0 + heldUsd assets base" for m
    by (induction assets arbitrary: m) (auto simp: heldUsd_def Let_def)
  then show ?thesis by (simp add: aggregateByBaseSymbol_def)
qed

text \<open>The share of an asset after a part of a trade, and the part at which it reaches a limit.\<close>

lemma share_limit:
  fixes worth :: real
  assumes "0 < worth" "0 < hard" "hard < 1" "0 \<le> x"
  shows "(cur + x) / (worth + x) \<le> hard \<longleftrightarrow> x \<le> (hard * worth - cur) / (1 - hard)"
proof -
  have "(cur + x) / (worth + x) \<le> hard \<longleftrightarrow> cur + x \<le> hard * (worth + x)"
    using assms by (simp add: pos_divide_le_eq)
  also have "\<dots> \<longleftrightarrow> x * (1 - hard) \<le> hard * worth - cur" by (simp add: algebra_simps)
  also have "\<dots> \<longleftrightarrow> x \<le> (hard * worth - cur) / (1 - hard)" using assms by (simp add: pos_le_divide_eq)
  finally show ?thesis .
qed

section \<open>Properties\<close>

lemma gated_exact:
  fixes assets :: "AssetAllocation list" and symbol action :: string and trade riskLevel :: number and overrideLimit :: "number option"
  defines "share x \<equiv> (heldUsd assets (extractBaseSymbol symbol) + x) / (totalUsd assets + x)"
  defines "hard \<equiv> cl_hard (resolveLimits riskLevel overrideLimit)"
  defines "r \<equiv> checkTradeAllowed assets symbol trade riskLevel action overrideLimit"
  defines "q \<equiv> nullish (cg_adjustedQuantity r) 1"
  assumes entry: "toLowerCase action \<noteq> ''sell''" "toLowerCase action \<noteq> ''short_exit''" "\<not> isStablecoin (extractBaseSymbol symbol)"
    and sane: "0 < totalUsd assets" "0 < trade"
  shows "(cg_allowed r \<longleftrightarrow> share 0 < hard) \<and>
    (cg_allowed r \<longrightarrow> 0 < q \<and> q \<le> 1 \<and> share (q * trade) \<le> hard \<and> (\<forall>p. q < p \<and> p \<le> 1 \<longrightarrow> hard < share (p * trade)))"
proof -
  let ?cur = "heldUsd assets (extractBaseSymbol symbol)" and ?total = "totalUsd assets"
  define room where "room = (hard * ?total - ?cur) / (1 - hard)"
  have hard: "0 < hard" "hard < 1" using resolveLimits_hard [of riskLevel overrideLimit] by (simp_all add: hard_def)
  have limit: "share x \<le> hard \<longleftrightarrow> x \<le> room" if "0 \<le> x" for x
    using share_limit [OF sane(1) hard that] by (simp add: share_def room_def)
  have below: "share 0 < hard \<longleftrightarrow> 0 < room"
    using sane(1) hard by (simp add: share_def room_def pos_divide_less_eq zero_less_divide_iff)
  have max: "calculateMaxAdditionalUsd assets (extractBaseSymbol symbol) riskLevel overrideLimit = max 0 room"
    using sane(1) hard by (simp add: calculateMaxAdditionalUsd_def hard_def [symmetric] aggregate_held room_def Let_def)
  have r: "r = (if hard \<le> share 0 then \<lparr>cg_allowed = False, cg_adjustedQuantity = None,
        cg_reason = Some (AtHardLimit (extractBaseSymbol symbol) (share 0) hard)\<rparr>
      else if hard < share trade then (if max 0 room \<le> 0
          then \<lparr>cg_allowed = False, cg_adjustedQuantity = None, cg_reason = Some (NoRoom (extractBaseSymbol symbol) hard)\<rparr>
          else \<lparr>cg_allowed = True, cg_adjustedQuantity = Some (min (max 0 room / trade) 1),
            cg_reason = Some (ReducedToFit (extractBaseSymbol symbol) (max 0 room / trade) hard)\<rparr>)
      else if cl_soft (resolveLimits riskLevel overrideLimit) < share trade
      then \<lparr>cg_allowed = True, cg_adjustedQuantity = None, cg_reason = Some (AboveSoftLimit (extractBaseSymbol symbol)
          (share trade) (cl_soft (resolveLimits riskLevel overrideLimit)))\<rparr>
      else \<lparr>cg_allowed = True, cg_adjustedQuantity = None, cg_reason = None\<rparr>)"
    using entry sane by (simp add: r_def checkTradeAllowed_def max aggregate_held hard_def [symmetric] share_def Let_def not_le)
  have allowed: "cg_allowed r \<longleftrightarrow> share 0 < hard" using below by (auto simp: r)
  have "0 < q \<and> q \<le> 1 \<and> share (q * trade) \<le> hard \<and> (\<forall>p. q < p \<and> p \<le> 1 \<longrightarrow> hard < share (p * trade))" if "cg_allowed r"
  proof -
    have room: "0 < room" using that allowed below by simp
    have q: "q = (if hard < share trade then min (room / trade) 1 else 1)" using room below by (auto simp: q_def r)
    show ?thesis
  proof (cases "hard < share trade")
    case True
    then have "room < trade" using limit [of trade] sane(2) by linarith
    then have "q = room / trade" using True sane(2) by (simp add: q min_def)
    moreover have "hard < share (p * trade)" if "room / trade < p" for p
    proof -
      have "room < p * trade" using that sane(2) by (simp add: pos_divide_less_eq)
      then show ?thesis using limit [of "p * trade"] room by linarith
    qed
    ultimately show ?thesis using room \<open>room < trade\<close> sane(2) limit [of room] by (simp add: divide_le_eq)
  next
    case False
    then show ?thesis using q by simp
  qed
  qed
  then show ?thesis using allowed by blast
qed



text \<open>The gates in their order. An entry that is refused before the cooldown claims nothing; an allowed
  signal holds the cooldown claim of its user, symbol and side; an allowed long entry is not blocked by
  the losses of the day, does not add to a holding, and comes with the fraction of the concentration gate.\<close>

lemma entry_gates_in_order:
  assumes "checkEntryGates R now ctx db = (r, db')"
  defines "claim \<equiv> checkAndClaim R (eg_userId ctx) (eg_symbol ctx) (actionText (eg_action ctx)) (eg_pipelineId ctx) now db"
    and "conc \<equiv> checkTradeAllowed (eg_assets ctx) (eg_symbol ctx) (eg_portfolioValue ctx * (eg_allocationPercentage ctx / 100))
      (eg_riskLevel ctx) (actionText (eg_action ctx)) None"
  shows "(er_allowed r \<longrightarrow> cr_allowed (fst claim) \<and> db' = snd claim) \<and>
    (\<not> er_allowed r \<and> er_reasonCode r \<noteq> Some TRADE_COOLDOWN \<longrightarrow> db' = db) \<and>
    (er_reasonCode r = Some TRADE_COOLDOWN \<longrightarrow> \<not> er_allowed r \<and> \<not> cr_allowed (fst claim)) \<and>
    (er_allowed r \<and> eg_action ctx = ENTRY_BUY \<and> eg_positionSide ctx \<noteq> Some SHORT_SIDE \<longrightarrow>
       \<not> eg_isDailyLossBlocked ctx \<and> \<not> holdsAlready ctx \<and> cg_allowed conc \<and>
       min 1 (nullish (er_adjustedQuantity r) 1) = min 1 (nullish (cg_adjustedQuantity conc) 1))"
proof -
  have cooldown: "checkCooldown R now ctx db = (if \<not> cr_allowed (fst claim)
      then ((rejectEntry TRADE_COOLDOWN)\<lparr>er_cooldownClaim := cr_existingClaim (fst claim)\<rparr>, snd claim)
      else (\<lparr>er_allowed = True, er_reasonCode = None, er_adjustedQuantity = None, er_cooldownClaim = None\<rparr>, snd claim))"
    by (simp add: checkCooldown_def claim_def case_prod_unfold Let_def)
  show ?thesis
  proof (cases "isEntry ctx \<and> (eg_isDailyLossBlocked ctx \<or> eg_action ctx = ENTRY_BUY \<and> holdsAlready ctx \<or> \<not> cg_allowed conc)")
    case True
    then obtain code where "r = rejectEntry code" "db' = db" "code \<noteq> TRADE_COOLDOWN"
      using assms(1) unfolding checkEntryGates_def Let_def conc_def [symmetric]
      by (auto split: if_splits)
    then show ?thesis by (simp add: rejectEntry_def)
  next
    case False
    then have "(r, db') = (case cg_adjustedQuantity conc of
        Some q \<Rightarrow> if isEntry ctx \<and> q < 1 \<and> er_allowed (fst (checkCooldown R now ctx db))
          then ((fst (checkCooldown R now ctx db))\<lparr>er_allowed := True, er_adjustedQuantity := Some q\<rparr>, snd (checkCooldown R now ctx db))
          else checkCooldown R now ctx db
      | None \<Rightarrow> checkCooldown R now ctx db)"
      using assms(1) unfolding checkEntryGates_def Let_def conc_def [symmetric]
      by (auto simp: case_prod_unfold split: option.splits if_splits)
    then show ?thesis using False
      by (auto simp: cooldown rejectEntry_def isEntry_def split: option.splits if_splits)
  qed
qed

text \<open>An entry into a short position passes the concentration gate whatever the portfolio holds: the gate
  is asked about a sale, and sales always pass. The documentation has only exits bypass it.\<close>

lemma short_entries_skip_concentration:
  assumes "eg_action ctx = ENTRY_SELL" "eg_positionSide ctx = Some SHORT_SIDE" "\<not> eg_isDailyLossBlocked ctx"
  shows "checkEntryGates R now (ctx\<lparr>eg_assets := assets, eg_portfolioValue := worth, eg_allocationPercentage := allocation\<rparr>) db =
    checkCooldown R now ctx db"
proof -
  have "toLowerCase (actionText ENTRY_SELL) = ''sell''" by code_simp
  then have "checkTradeAllowed assets' symbol trade risk (actionText ENTRY_SELL) l =
      \<lparr>cg_allowed = True, cg_adjustedQuantity = None, cg_reason = None\<rparr>" for assets' symbol trade risk l
    by (simp add: checkTradeAllowed_def Let_def)
  then show ?thesis using assms by (simp add: checkEntryGates_def isEntry_def checkCooldown_def Let_def)
qed

section \<open>Witnesses\<close>

definition two_assets :: "AssetAllocation list" where
  "two_assets = [\<lparr>aa_symbol = ''USDT'', aa_usdValue = 90\<rparr>, \<lparr>aa_symbol = ''eth'', aa_usdValue = 10\<rparr>]"


definition sample_entry :: EntryGateContext where
  "sample_entry = \<lparr>eg_userId = ''u'', eg_symbol = ''ETH/USDT'', eg_action = ENTRY_SELL, eg_positionSide = Some SHORT_SIDE,
     eg_portfolioValue = 100, eg_allocationPercentage = 10, eg_riskLevel = 3, eg_assets = two_assets,
     eg_isDailyLossBlocked = False, eg_pipelineId = ''p''\<rparr>"

end
