(* ===== verification/Deployments.thy ===== *)
theory Deployments
  imports Scoring "HOL-Library.Option_ord"
begin

text \<open>
  The deployments of strategies (\<^verbatim>\<open>strategy/entities/deployment.entity.ts\<close>,
  \<^verbatim>\<open>strategy/deployment.service.ts\<close>, \<^verbatim>\<open>strategy/deployment-metrics.service.ts\<close>,
  \<^verbatim>\<open>strategy/pre-trade-risk-gate.service.ts\<close>): a deployment is created for a strategy with a good
  score, activated, paused and resumed, demoted or terminated; its daily figures are recorded and kept in its row.

  The tables are lists of rows in the state; the database itself does not fail, and an order that it leaves open is
  the order of the rows. The identifier of a new row and the time are arguments. The audit log of these operations
  swallows its errors, so it is left out.
\<close>

section \<open>Rows\<close>

datatype DeploymentStatus =
  DS_TESTING | DS_VALIDATED | DS_PENDING_APPROVAL | DS_ACTIVE | DS_PAUSED | DS_DEACTIVATED | DS_DEMOTED | DS_TERMINATED

datatype StrategyStatus =
  SS_DRAFT | SS_TESTING | SS_VALIDATED | SS_LIVE | SS_DEPRECATED | SS_FAILED | SS_REJECTED | SS_DEACTIVATED

text \<open>Why a deployment ended: a text, or the critical checks of an automatic demotion.\<close>

datatype TerminationReason = ReasonText string | AutomaticDemotion "string list"

record AllocationChange =
  ac_from :: number
  ac_to :: number
  ac_at :: time_ms
  ac_reason :: string

text \<open>The fields of the metadata that the sources write or read.\<close>

record DeploymentMetadata =
  dm_backtestScore :: "number option"
  dm_backtestGrade :: "StrategyGrade option"
  dm_backtestMaxDrawdown :: "number option"
  dm_backtestVolatility :: "number option"
  dm_backtestSharpe :: "number option"
  dm_pausedAt :: "time_ms option"
  dm_pauseReason :: "string option"
  dm_resumedAt :: "time_ms option"
  dm_demotedBy :: "string list option"
  dm_lastAllocationChange :: "AllocationChange option"

record Deployment =
  dp_id :: string
  dp_strategyConfigId :: string
  dp_status :: DeploymentStatus
  dp_allocationPercent :: number
  dp_initialAllocationPercent :: "number option"
  dp_deployedAt :: "time_ms option"
  dp_terminatedAt :: "time_ms option"
  dp_terminationReason :: "TerminationReason option"
  dp_maxDrawdownLimit :: number
  dp_dailyLossLimit :: number
  dp_positionSizeLimit :: number
  dp_maxLeverage :: "number option"
  dp_concentrationLimit :: "number option"
  dp_realizedPnl :: number
  dp_unrealizedPnl :: number
  dp_currentDrawdown :: number
  dp_maxDrawdownObserved :: number
  dp_totalTrades :: int
  dp_winningTrades :: int
  dp_liveSharpeRatio :: "number option"
  dp_driftAlertCount :: int
  dp_lastDriftDetectedAt :: "time_ms option"
  dp_approvedBy :: "string option"
  dp_approvedAt :: "time_ms option"
  dp_promotionReason :: string
  dp_metadata :: DeploymentMetadata
  dp_createdAt :: time_ms

definition winRate :: "Deployment \<Rightarrow> number" where
  "winRate d = (if dp_totalTrades d = 0 then 0 else of_int (dp_winningTrades d) / of_int (dp_totalTrades d))"

definition totalPnl :: "Deployment \<Rightarrow> number" where
  "totalPnl d = dp_realizedPnl d + dp_unrealizedPnl d"

definition isActive :: "Deployment \<Rightarrow> bool" where
  "isActive d \<longleftrightarrow> dp_status d = DS_ACTIVE"

definition isPaused :: "Deployment \<Rightarrow> bool" where
  "isPaused d \<longleftrightarrow> dp_status d = DS_PAUSED"

definition isDemoted :: "Deployment \<Rightarrow> bool" where
  "isDemoted d \<longleftrightarrow> dp_status d = DS_DEMOTED"

definition isTerminated :: "Deployment \<Rightarrow> bool" where
  "isTerminated d \<longleftrightarrow> dp_status d = DS_TERMINATED"

definition daysLive :: "time_ms \<Rightarrow> Deployment \<Rightarrow> int option" where
  "daysLive now d = (case dp_deployedAt d of None \<Rightarrow> None | Some t \<Rightarrow> Some ((now - t) div (1000 * 60 * 60 * 24)))"

text \<open>The daily figures of a deployment. A date is the number of its day; a missing value of an optional column is
  \<open>None\<close>.\<close>

record PerformanceMetric =
  pm_deploymentId :: string
  pm_date :: int
  pm_snapshotAt :: time_ms
  pm_dailyPnl :: number
  pm_dailyReturn :: number
  pm_cumulativePnl :: number
  pm_cumulativeReturn :: number
  pm_drawdown :: number
  pm_maxDrawdown :: number
  pm_volatility :: "number option"
  pm_sharpeRatio :: "number option"
  pm_tradesCount :: int
  pm_cumulativeTradesCount :: int
  pm_winningTrades :: int
  pm_losingTrades :: int
  pm_winRate :: "number option"
  pm_avgWinAmount :: "number option"
  pm_avgLossAmount :: "number option"
  pm_profitFactor :: "number option"
  pm_openPositions :: nat
  pm_exposureAmount :: number
  pm_utilization :: number
  pm_driftDetected :: bool
  pm_totalCapitalDeployed :: "number option"

text \<open>A strategy: its creator, its parameter \<^verbatim>\<open>maxLeverage\<close> and the level of its risk pool may be missing.\<close>

record StrategyConfig =
  sc_id :: string
  sc_name :: string
  sc_status :: StrategyStatus
  sc_createdBy :: "string option"
  sc_maxLeverage :: "number option"
  sc_riskPoolLevel :: "number option"

text \<open>A stored score. The components are JSON, so each of them, and the value of each, may be missing.\<close>

record StoredComponents =
  stc_sharpeRatio :: "number option option"
  stc_wfaDegradation :: "number option option"
  stc_correlation :: "number option option"

record StoredScore =
  st_strategyConfigId :: string
  st_overallScore :: number
  st_grade :: StrategyGrade
  st_promotionEligible :: bool
  st_calculatedAt :: time_ms
  st_componentScores :: "StoredComponents option"

text \<open>What the scoring service stores.\<close>

definition storeScore :: "time_ms \<Rightarrow> StrategyScore \<Rightarrow> StoredScore" where
  "storeScore now s =
     \<lparr>st_strategyConfigId = ss_strategyConfigId s, st_overallScore = ss_overallScore s, st_grade = ss_grade s,
      st_promotionEligible = ss_promotionEligible s, st_calculatedAt = now,
      st_componentScores = Some
        \<lparr>stc_sharpeRatio = Some (Some (comp_value (cs_sharpeRatio (ss_componentScores s)))),
         stc_wfaDegradation = Some (Some (comp_value (cs_wfaDegradation (ss_componentScores s)))),
         stc_correlation = Some (Some (comp_value (cs_correlation (ss_componentScores s))))\<rparr>\<rparr>"

record DeploymentDb =
  db_deployments :: "Deployment list"
  db_strategies :: "StrategyConfig list"
  db_scores :: "StoredScore list"
  db_metrics :: "PerformanceMetric list"

text \<open>The row with the largest key, as an ordered query with one result gives it.\<close>

definition latestBy :: "('a \<Rightarrow> int) \<Rightarrow> 'a list \<Rightarrow> 'a option" where
  "latestBy key rows = (case sort_key (\<lambda>r. - key r) rows of [] \<Rightarrow> None | r # _ \<Rightarrow> Some r)"

section \<open>Styles of trading\<close>

record TradingStyleProfile =
  tp_capitalAllocation :: number
  tp_maxSinglePosition :: number
  tp_dailyLossLimit :: number
  tp_bearMarketCapital :: number

definition TRADING_STYLE_PROFILES :: "number \<Rightarrow> TradingStyleProfile option" where
  "TRADING_STYLE_PROFILES level =
     (if level = 1 then Some \<lparr>tp_capitalAllocation = 15, tp_maxSinglePosition = 25, tp_dailyLossLimit = 5, tp_bearMarketCapital = 5\<rparr>
      else if level = 2 then Some \<lparr>tp_capitalAllocation = 25, tp_maxSinglePosition = 30, tp_dailyLossLimit = 75 / 10, tp_bearMarketCapital = 8\<rparr>
      else if level = 3 then Some \<lparr>tp_capitalAllocation = 35, tp_maxSinglePosition = 35, tp_dailyLossLimit = 10, tp_bearMarketCapital = 10\<rparr>
      else if level = 4 then Some \<lparr>tp_capitalAllocation = 50, tp_maxSinglePosition = 45, tp_dailyLossLimit = 125 / 10, tp_bearMarketCapital = 15\<rparr>
      else if level = 5 then Some \<lparr>tp_capitalAllocation = 70, tp_maxSinglePosition = 55, tp_dailyLossLimit = 15, tp_bearMarketCapital = 20\<rparr>
      else None)"

definition DEFAULT_RISK_LEVEL :: number where
  "DEFAULT_RISK_LEVEL = 3"

definition getEffectiveCalculationRisk :: "number option \<Rightarrow> number option \<Rightarrow> number" where
  "getEffectiveCalculationRisk coinRiskLevel calculationRiskLevel =
     (case calculationRiskLevel of
        Some l \<Rightarrow> l
      | None \<Rightarrow> (case coinRiskLevel of
          None \<Rightarrow> DEFAULT_RISK_LEVEL
        | Some l \<Rightarrow> if l \<ge> 1 \<and> l \<le> 5 then l else DEFAULT_RISK_LEVEL))"

section \<open>The deployment service\<close>

datatype DeploymentFault =
    StrategyNotFound string
  | DeploymentNotFound string
  | NotEligible
  | MissingSharpe
  | AlreadyActive
  | MaximumReached
  | MustBePending
  | OnlyActivePause
  | OnlyPausedResume
  | OnlyActiveAllocation
  | StrategyReferenced

definition findDeployment :: "DeploymentDb \<Rightarrow> string \<Rightarrow> Deployment option" where
  "findDeployment db i = find (\<lambda>d. dp_id d = i) (db_deployments db)"

definition findOne :: "DeploymentDb \<Rightarrow> string \<Rightarrow> DeploymentFault + Deployment" where
  "findOne db i = (case findDeployment db i of None \<Rightarrow> Inl (DeploymentNotFound i) | Some d \<Rightarrow> Inr d)"

definition saveDeployment :: "Deployment \<Rightarrow> DeploymentDb \<Rightarrow> DeploymentDb" where
  "saveDeployment d db = db\<lparr>db_deployments := map (\<lambda>e. if dp_id e = dp_id d then d else e) (db_deployments db)\<rparr>"

definition setStrategyStatus :: "string \<Rightarrow> StrategyStatus \<Rightarrow> DeploymentDb \<Rightarrow> DeploymentDb" where
  "setStrategyStatus i status db =
     db\<lparr>db_strategies := map (\<lambda>s. if sc_id s = i then s\<lparr>sc_status := status\<rparr> else s) (db_strategies db)\<rparr>"

definition countActive :: "DeploymentDb \<Rightarrow> nat" where
  "countActive db = length (filter isActive (db_deployments db))"

definition noMetadata :: DeploymentMetadata where
  "noMetadata =
     \<lparr>dm_backtestScore = None, dm_backtestGrade = None, dm_backtestMaxDrawdown = None, dm_backtestVolatility = None,
      dm_backtestSharpe = None, dm_pausedAt = None, dm_pauseReason = None, dm_resumedAt = None, dm_demotedBy = None,
      dm_lastAllocationChange = None\<rparr>"

text \<open>The columns that a new row does not name take their defaults.\<close>

definition createDeployment ::
    "time_ms \<Rightarrow> string \<Rightarrow> string \<Rightarrow> number \<Rightarrow> string \<Rightarrow> string option \<Rightarrow> number option \<Rightarrow> DeploymentDb \<Rightarrow>
      DeploymentFault + Deployment \<times> DeploymentDb" where
  "createDeployment now newId strategyConfigId allocationPercent promotionReason approvedBy riskLevel db =
     (case find (\<lambda>s. sc_id s = strategyConfigId) (db_strategies db) of
        None \<Rightarrow> Inl (StrategyNotFound strategyConfigId)
      | Some strategyConfig \<Rightarrow>
     (case latestBy st_calculatedAt (filter (\<lambda>s. st_strategyConfigId s = strategyConfigId) (db_scores db)) of
        None \<Rightarrow> Inl NotEligible
      | Some latestScore \<Rightarrow>
     if \<not> st_promotionEligible latestScore then Inl NotEligible
     else (case Option.bind (st_componentScores latestScore) stc_sharpeRatio of
        None \<Rightarrow> Inl MissingSharpe
      | Some sharpe \<Rightarrow>
     if list_ex (\<lambda>d. dp_strategyConfigId d = strategyConfigId \<and> dp_status d = DS_ACTIVE) (db_deployments db)
     then Inl AlreadyActive
     else if countActive db \<ge> 35 then Inl MaximumReached
     else
       let sharpeValue = nullish sharpe (4 / 10);
           maxDrawdownLimit = min (sharpeValue * (15 / 10)) (4 / 10);
           effectiveRiskLevel = (case riskLevel of
               Some l \<Rightarrow> if TRADING_STYLE_PROFILES l \<noteq> None then l else DEFAULT_RISK_LEVEL
             | None \<Rightarrow> DEFAULT_RISK_LEVEL);
           profile = the (TRADING_STYLE_PROFILES effectiveRiskLevel);
           approved = (approvedBy \<noteq> None \<and> approvedBy \<noteq> Some '''');
           d = \<lparr>dp_id = newId, dp_strategyConfigId = strategyConfigId, dp_status = DS_PENDING_APPROVAL,
                dp_allocationPercent = allocationPercent, dp_initialAllocationPercent = Some allocationPercent,
                dp_deployedAt = None, dp_terminatedAt = None, dp_terminationReason = None,
                dp_maxDrawdownLimit = maxDrawdownLimit, dp_dailyLossLimit = tp_dailyLossLimit profile / 100,
                dp_positionSizeLimit = tp_maxSinglePosition profile / 100,
                dp_maxLeverage = (if truthy (sc_maxLeverage strategyConfig) then sc_maxLeverage strategyConfig else None),
                dp_concentrationLimit = None, dp_realizedPnl = 0, dp_unrealizedPnl = 0, dp_currentDrawdown = 0,
                dp_maxDrawdownObserved = 0, dp_totalTrades = 0, dp_winningTrades = 0, dp_liveSharpeRatio = None,
                dp_driftAlertCount = 0, dp_lastDriftDetectedAt = None, dp_approvedBy = approvedBy,
                dp_approvedAt = (if approved then Some now else None), dp_promotionReason = promotionReason,
                dp_metadata = noMetadata\<lparr>dm_backtestScore := Some (st_overallScore latestScore),
                  dm_backtestGrade := Some (st_grade latestScore), dm_backtestMaxDrawdown := sharpe\<rparr>,
                dp_createdAt = now\<rparr>
       in Inr (d, db\<lparr>db_deployments := db_deployments db @ [d]\<rparr>))))"

definition activateDeployment :: "time_ms \<Rightarrow> string \<Rightarrow> DeploymentDb \<Rightarrow> DeploymentFault + Deployment \<times> DeploymentDb" where
  "activateDeployment now deploymentId db =
     (case findOne db deploymentId of Inl e \<Rightarrow> Inl e | Inr deployment \<Rightarrow>
      if dp_status deployment \<noteq> DS_PENDING_APPROVAL then Inl MustBePending
      else let d = deployment\<lparr>dp_status := DS_ACTIVE, dp_deployedAt := Some now\<rparr>
           in Inr (d, setStrategyStatus (dp_strategyConfigId deployment) SS_LIVE (saveDeployment d db)))"

definition pauseDeployment :: "time_ms \<Rightarrow> string \<Rightarrow> string \<Rightarrow> DeploymentDb \<Rightarrow> DeploymentFault + Deployment \<times> DeploymentDb" where
  "pauseDeployment now deploymentId reason db =
     (case findOne db deploymentId of Inl e \<Rightarrow> Inl e | Inr deployment \<Rightarrow>
      if \<not> isActive deployment then Inl OnlyActivePause
      else let d = deployment\<lparr>dp_status := DS_PAUSED,
                 dp_metadata := (dp_metadata deployment)\<lparr>dm_pausedAt := Some now, dm_pauseReason := Some reason\<rparr>\<rparr>
           in Inr (d, saveDeployment d db))"

definition resumeDeployment :: "time_ms \<Rightarrow> string \<Rightarrow> DeploymentDb \<Rightarrow> DeploymentFault + Deployment \<times> DeploymentDb" where
  "resumeDeployment now deploymentId db =
     (case findOne db deploymentId of Inl e \<Rightarrow> Inl e | Inr deployment \<Rightarrow>
      if \<not> isPaused deployment then Inl OnlyPausedResume
      else let d = deployment\<lparr>dp_status := DS_ACTIVE, dp_metadata := (dp_metadata deployment)\<lparr>dm_resumedAt := Some now\<rparr>\<rparr>
           in Inr (d, saveDeployment d db))"

text \<open>Of the metadata of a demotion the names of the critical checks are kept.\<close>

definition demoteDeployment ::
    "time_ms \<Rightarrow> string \<Rightarrow> TerminationReason \<Rightarrow> string list option \<Rightarrow> DeploymentDb \<Rightarrow> DeploymentFault + Deployment \<times> DeploymentDb" where
  "demoteDeployment now deploymentId reason criticalChecks db =
     (case findOne db deploymentId of Inl e \<Rightarrow> Inl e | Inr deployment \<Rightarrow>
      let d = deployment\<lparr>dp_status := DS_DEMOTED, dp_terminatedAt := Some now, dp_terminationReason := Some reason,
                dp_metadata := (dp_metadata deployment)\<lparr>dm_demotedBy := criticalChecks\<rparr>\<rparr>
      in Inr (d, setStrategyStatus (dp_strategyConfigId deployment) SS_DEPRECATED (saveDeployment d db)))"

definition terminateDeployment :: "time_ms \<Rightarrow> string \<Rightarrow> string \<Rightarrow> DeploymentDb \<Rightarrow> DeploymentFault + Deployment \<times> DeploymentDb" where
  "terminateDeployment now deploymentId reason db =
     (case findOne db deploymentId of Inl e \<Rightarrow> Inl e | Inr deployment \<Rightarrow>
      let d = deployment\<lparr>dp_status := DS_TERMINATED, dp_terminatedAt := Some now,
                dp_terminationReason := Some (ReasonText reason)\<rparr>
      in Inr (d, setStrategyStatus (dp_strategyConfigId deployment) SS_DEPRECATED (saveDeployment d db)))"

definition updateAllocation ::
    "time_ms \<Rightarrow> string \<Rightarrow> number \<Rightarrow> string \<Rightarrow> DeploymentDb \<Rightarrow> DeploymentFault + Deployment \<times> DeploymentDb" where
  "updateAllocation now deploymentId newAllocationPercent reason db =
     (case findOne db deploymentId of Inl e \<Rightarrow> Inl e | Inr deployment \<Rightarrow>
      if \<not> isActive deployment then Inl OnlyActiveAllocation
      else let d = deployment\<lparr>dp_allocationPercent := newAllocationPercent,
                 dp_metadata := (dp_metadata deployment)\<lparr>dm_lastAllocationChange :=
                   Some \<lparr>ac_from = dp_allocationPercent deployment, ac_to = newAllocationPercent, ac_at = now, ac_reason = reason\<rparr>\<rparr>\<rparr>
           in Inr (d, saveDeployment d db))"

text \<open>In a descending order a missing date comes first.\<close>

definition getActiveDeployments :: "DeploymentDb \<Rightarrow> Deployment list" where
  "getActiveDeployments db = sort_key (\<lambda>d. map_option uminus (dp_deployedAt d)) (filter isActive (db_deployments db))"

definition findByStrategy :: "DeploymentDb \<Rightarrow> string \<Rightarrow> Deployment list" where
  "findByStrategy db strategyConfigId =
     sort_key (\<lambda>d. - dp_createdAt d) (filter (\<lambda>d. dp_strategyConfigId d = strategyConfigId) (db_deployments db))"

definition hasPortfolioCapacity :: "DeploymentDb \<Rightarrow> bool" where
  "hasPortfolioCapacity db \<longleftrightarrow> countActive db < 35"

definition getTotalAllocation :: "DeploymentDb \<Rightarrow> number" where
  "getTotalAllocation db = (\<Sum>d\<leftarrow>filter isActive (db_deployments db). dp_allocationPercent d)"

section \<open>The figures of a deployment\<close>

text \<open>
  The figures that a caller hands over; the fields are those that \<^verbatim>\<open>PerformanceCalculationService\<close> sets, and the ones
  that may be missing are options. \<open>Some None\<close> is a field that is given as \<^verbatim>\<open>null\<close>.
\<close>

record MetricData =
  md_date :: "int option"
  md_dailyPnl :: "number option"
  md_dailyReturn :: "number option"
  md_cumulativePnl :: "number option"
  md_cumulativeReturn :: "number option"
  md_drawdown :: "number option"
  md_maxDrawdown :: "number option"
  md_volatility :: "number option option"
  md_sharpeRatio :: "number option option"
  md_tradesCount :: "int option"
  md_cumulativeTradesCount :: "int option"
  md_winningTrades :: "int option"
  md_losingTrades :: "int option"
  md_winRate :: "number option option"
  md_avgWinAmount :: "number option option"
  md_avgLossAmount :: "number option option"
  md_profitFactor :: "number option option"
  md_openPositions :: "nat option"
  md_exposureAmount :: "number option"
  md_utilization :: "number option"
  md_driftDetected :: "bool option"
  md_totalCapitalDeployed :: "number option option"

text \<open>\<^verbatim>\<open>Object.assign\<close>: a field that is given replaces that of the row.\<close>

definition assignMetric :: "MetricData \<Rightarrow> PerformanceMetric \<Rightarrow> PerformanceMetric" where
  "assignMetric m row = row\<lparr>
     pm_date := nullish (md_date m) (pm_date row),
     pm_dailyPnl := nullish (md_dailyPnl m) (pm_dailyPnl row),
     pm_dailyReturn := nullish (md_dailyReturn m) (pm_dailyReturn row),
     pm_cumulativePnl := nullish (md_cumulativePnl m) (pm_cumulativePnl row),
     pm_cumulativeReturn := nullish (md_cumulativeReturn m) (pm_cumulativeReturn row),
     pm_drawdown := nullish (md_drawdown m) (pm_drawdown row),
     pm_maxDrawdown := nullish (md_maxDrawdown m) (pm_maxDrawdown row),
     pm_volatility := nullish (md_volatility m) (pm_volatility row),
     pm_sharpeRatio := nullish (md_sharpeRatio m) (pm_sharpeRatio row),
     pm_tradesCount := nullish (md_tradesCount m) (pm_tradesCount row),
     pm_cumulativeTradesCount := nullish (md_cumulativeTradesCount m) (pm_cumulativeTradesCount row),
     pm_winningTrades := nullish (md_winningTrades m) (pm_winningTrades row),
     pm_losingTrades := nullish (md_losingTrades m) (pm_losingTrades row),
     pm_winRate := nullish (md_winRate m) (pm_winRate row),
     pm_avgWinAmount := nullish (md_avgWinAmount m) (pm_avgWinAmount row),
     pm_avgLossAmount := nullish (md_avgLossAmount m) (pm_avgLossAmount row),
     pm_profitFactor := nullish (md_profitFactor m) (pm_profitFactor row),
     pm_openPositions := nullish (md_openPositions m) (pm_openPositions row),
     pm_exposureAmount := nullish (md_exposureAmount m) (pm_exposureAmount row),
     pm_utilization := nullish (md_utilization m) (pm_utilization row),
     pm_driftDetected := nullish (md_driftDetected m) (pm_driftDetected row),
     pm_totalCapitalDeployed := nullish (md_totalCapitalDeployed m) (pm_totalCapitalDeployed row)\<rparr>"

text \<open>The columns of a new row; those without a default are given by every caller, and stand for \<open>0\<close> here.\<close>

definition newMetric :: "string \<Rightarrow> int \<Rightarrow> time_ms \<Rightarrow> PerformanceMetric" where
  "newMetric i date now =
     \<lparr>pm_deploymentId = i, pm_date = date, pm_snapshotAt = now, pm_dailyPnl = 0, pm_dailyReturn = 0, pm_cumulativePnl = 0,
      pm_cumulativeReturn = 0, pm_drawdown = 0, pm_maxDrawdown = 0, pm_volatility = None, pm_sharpeRatio = None,
      pm_tradesCount = 0, pm_cumulativeTradesCount = 0, pm_winningTrades = 0, pm_losingTrades = 0, pm_winRate = None,
      pm_avgWinAmount = None, pm_avgLossAmount = None, pm_profitFactor = None, pm_openPositions = 0,
      pm_exposureAmount = 0, pm_utilization = 0, pm_driftDetected = False, pm_totalCapitalDeployed = None\<rparr>"

text \<open>A row with the updates of the figures; \<^verbatim>\<open>Number(null)\<close> is \<open>0\<close>.\<close>

definition withStats :: "time_ms \<Rightarrow> Deployment \<Rightarrow> MetricData \<Rightarrow> Deployment \<Rightarrow> Deployment" where
  "withStats now deployment m d =
     (let drift = (md_driftDetected m = Some True)
      in d\<lparr>
        dp_realizedPnl := nullish (md_cumulativePnl m) (dp_realizedPnl d),
        dp_currentDrawdown := nullish (md_drawdown m) (dp_currentDrawdown d),
        dp_maxDrawdownObserved := (case md_maxDrawdown m of
            Some x \<Rightarrow> if x > dp_maxDrawdownObserved deployment then x else dp_maxDrawdownObserved d
          | None \<Rightarrow> dp_maxDrawdownObserved d),
        dp_totalTrades := nullish (md_cumulativeTradesCount m) (dp_totalTrades d),
        dp_liveSharpeRatio := (case md_sharpeRatio m of
            Some s \<Rightarrow> Some (nullish s 0) | None \<Rightarrow> dp_liveSharpeRatio d),
        dp_lastDriftDetectedAt := (if drift then Some now else dp_lastDriftDetectedAt d),
        dp_driftAlertCount := (if drift then dp_driftAlertCount d + 1 else dp_driftAlertCount d)\<rparr>)"

text \<open>The row in the database changes, not the deployment that the caller holds.\<close>

definition updateDeploymentStats :: "time_ms \<Rightarrow> Deployment \<Rightarrow> MetricData \<Rightarrow> DeploymentDb \<Rightarrow> DeploymentDb" where
  "updateDeploymentStats now deployment m db = db\<lparr>db_deployments :=
     map (\<lambda>d. if dp_id d = dp_id deployment then withStats now deployment m d else d) (db_deployments db)\<rparr>"

definition Metrics_recordPerformanceMetric ::
    "time_ms \<Rightarrow> int \<Rightarrow> Deployment \<Rightarrow> MetricData \<Rightarrow> DeploymentDb \<Rightarrow> PerformanceMetric \<times> DeploymentDb" where
  "Metrics_recordPerformanceMetric now today deployment m db =
     (let date = nullish (md_date m) today;
          same = (\<lambda>r. pm_deploymentId r = dp_id deployment \<and> pm_date r = date)
      in case find same (db_metrics db) of
           Some existing \<Rightarrow>
             let saved = (assignMetric m existing)\<lparr>pm_snapshotAt := now\<rparr>
             in (saved, updateDeploymentStats now deployment m
                  (db\<lparr>db_metrics := map (\<lambda>r. if same r then saved else r) (db_metrics db)\<rparr>))
         | None \<Rightarrow>
             let saved = assignMetric m (newMetric (dp_id deployment) date now)
             in (saved, updateDeploymentStats now deployment m (db\<lparr>db_metrics := db_metrics db @ [saved]\<rparr>)))"

definition recordPerformanceMetric ::
    "time_ms \<Rightarrow> int \<Rightarrow> string \<Rightarrow> MetricData \<Rightarrow> DeploymentDb \<Rightarrow> DeploymentFault + PerformanceMetric \<times> DeploymentDb" where
  "recordPerformanceMetric now today deploymentId m db =
     (case findOne db deploymentId of Inl e \<Rightarrow> Inl e
      | Inr deployment \<Rightarrow> Inr (Metrics_recordPerformanceMetric now today deployment m db))"

text \<open>The bounds of a single-sided range are exclusive, those of a range are not.\<close>

definition getPerformanceMetrics :: "DeploymentDb \<Rightarrow> string \<Rightarrow> int option \<Rightarrow> int option \<Rightarrow> PerformanceMetric list" where
  "getPerformanceMetrics db deploymentId startDate endDate =
     sort_key pm_date (filter (\<lambda>r. pm_deploymentId r = deploymentId \<and>
       (case (startDate, endDate) of
          (Some s, Some e) \<Rightarrow> s \<le> pm_date r \<and> pm_date r \<le> e
        | (Some s, None) \<Rightarrow> s < pm_date r
        | (None, Some e) \<Rightarrow> pm_date r < e
        | (None, None) \<Rightarrow> True)) (db_metrics db))"

definition getLatestPerformanceMetric :: "DeploymentDb \<Rightarrow> string \<Rightarrow> PerformanceMetric option" where
  "getLatestPerformanceMetric db deploymentId = latestBy pm_date (filter (\<lambda>r. pm_deploymentId r = deploymentId) (db_metrics db))"

definition Metrics_getDeploymentsAtRisk :: "Deployment list \<Rightarrow> Deployment list" where
  "Metrics_getDeploymentsAtRisk activeDeployments =
     filter (\<lambda>d. dp_currentDrawdown d \<ge> dp_maxDrawdownLimit d * (8 / 10)) activeDeployments"

definition getDeploymentsAtRisk :: "DeploymentDb \<Rightarrow> Deployment list" where
  "getDeploymentsAtRisk db = Metrics_getDeploymentsAtRisk (getActiveDeployments db)"

section \<open>The drawdown gate\<close>

datatype TradeAction = ACT_BUY | ACT_SELL | ACT_SHORT_ENTRY | ACT_SHORT_EXIT

record DrawdownGateResult =
  dg_allowed :: bool
  dg_reason :: "(number \<times> number) option"

definition checkDrawdown :: "DeploymentDb \<Rightarrow> string \<Rightarrow> TradeAction \<Rightarrow> DrawdownGateResult" where
  "checkDrawdown db strategyConfigId action =
     (if action = ACT_SELL \<or> action = ACT_SHORT_EXIT then \<lparr>dg_allowed = True, dg_reason = None\<rparr>
      else case find (\<lambda>d. dp_status d = DS_ACTIVE) (findByStrategy db strategyConfigId) of
             None \<Rightarrow> \<lparr>dg_allowed = True, dg_reason = None\<rparr>
           | Some activeDeployment \<Rightarrow>
               let currentDrawdown = dp_currentDrawdown activeDeployment;
                   maxDrawdownLimit = dp_maxDrawdownLimit activeDeployment
               in if currentDrawdown \<ge> maxDrawdownLimit
                  then \<lparr>dg_allowed = False, dg_reason = Some (currentDrawdown, maxDrawdownLimit)\<rparr>
                  else \<lparr>dg_allowed = True, dg_reason = None\<rparr>)"

section \<open>The life of a deployment\<close>

text \<open>\<^verbatim>\<open>StrategyService.delete\<close>: the rows of a deleted strategy's deployments, and with them their figures, are
  deleted by the database. Its scores are not, and while there are any, or rows of tables that are not
  modelled, the database refuses.\<close>

definition deleteStrategy :: "bool \<Rightarrow> string \<Rightarrow> DeploymentDb \<Rightarrow> DeploymentFault + DeploymentDb" where
  "deleteStrategy referenced i db =
     (case find (\<lambda>s. sc_id s = i) (db_strategies db) of
        None \<Rightarrow> Inl (StrategyNotFound i)
      | Some strategy \<Rightarrow>
          if referenced \<or> list_ex (\<lambda>score. st_strategyConfigId score = i) (db_scores db) then Inl StrategyReferenced
          else let deleted = map dp_id (filter (\<lambda>d. dp_strategyConfigId d = i) (db_deployments db))
               in Inr (db\<lparr>db_strategies := filter (\<lambda>s. sc_id s \<noteq> i) (db_strategies db),
                    db_deployments := filter (\<lambda>d. dp_strategyConfigId d \<noteq> i) (db_deployments db),
                    db_metrics := filter (\<lambda>m. pm_deploymentId m \<notin> set deleted) (db_metrics db)\<rparr>))"

text \<open>\<^verbatim>\<open>updateDeploymentDriftStatus\<close> of the drift detector: the alerts of a deployment are counted in its row.\<close>

definition updateDeploymentDriftStatus :: "time_ms \<Rightarrow> Deployment \<Rightarrow> nat \<Rightarrow> DeploymentDb \<Rightarrow> DeploymentDb" where
  "updateDeploymentDriftStatus now deployment alerts db =
     saveDeployment (deployment\<lparr>dp_driftAlertCount := dp_driftAlertCount deployment + int alerts,
       dp_lastDriftDetectedAt := Some now\<rparr>) db"

text \<open>A step: one operation that succeeds, and the strategies it deletes. The operations are taken one at a time. A
  new row has a new identifier. What else is written to strategies, scores and figures (a strategy edited, a
  score stored or pruned) leaves the deployments alone.\<close>

inductive deployment_step :: "string set \<Rightarrow> DeploymentDb \<Rightarrow> DeploymentDb \<Rightarrow> bool" where
  created: "createDeployment now newId s p why by l db = Inr (d, db') \<Longrightarrow> newId \<notin> dp_id ` set (db_deployments db) \<Longrightarrow> deployment_step {} db db'"
| activated: "activateDeployment now i db = Inr (d, db') \<Longrightarrow> deployment_step {} db db'"
| paused: "pauseDeployment now i reason db = Inr (d, db') \<Longrightarrow> deployment_step {} db db'"
| resumed: "resumeDeployment now i db = Inr (d, db') \<Longrightarrow> deployment_step {} db db'"
| demoted: "demoteDeployment now i why checks db = Inr (d, db') \<Longrightarrow> deployment_step {} db db'"
| terminated: "terminateDeployment now i reason db = Inr (d, db') \<Longrightarrow> deployment_step {} db db'"
| reallocated: "updateAllocation now i p reason db = Inr (d, db') \<Longrightarrow> deployment_step {} db db'"
| recorded: "recordPerformanceMetric now today i m db = Inr (r, db') \<Longrightarrow> deployment_step {} db db'"
| drifted: "findOne db i = Inr d \<Longrightarrow> updateDeploymentDriftStatus now d alerts db = db' \<Longrightarrow> deployment_step {} db db'"
| deleted: "deleteStrategy referenced i db = Inr db' \<Longrightarrow> deployment_step {i} db db'"
| elsewhere: "db_deployments db' = db_deployments db \<Longrightarrow> deployment_step {} db db'"

inductive deployment_run :: "string set \<Rightarrow> DeploymentDb \<Rightarrow> DeploymentDb \<Rightarrow> bool" where
  start: "deployment_run {} db db"
| further: "deployment_run gone db db1 \<Longrightarrow> deployment_step deleted db1 db2 \<Longrightarrow> deployment_run (gone \<union> deleted) db db2"

text \<open>How far a deployment has come: waiting, trading or paused, ended.\<close>

fun stage_of :: "DeploymentStatus \<Rightarrow> nat" where
  "stage_of DS_PENDING_APPROVAL = 0"
| "stage_of DS_ACTIVE = 1"
| "stage_of DS_PAUSED = 1"
| "stage_of DS_DEMOTED = 2"
| "stage_of DS_TERMINATED = 2"
| "stage_of _ = 0"

definition row_wf :: "Deployment \<Rightarrow> bool" where
  "row_wf d \<longleftrightarrow> dp_status d \<in> {DS_PENDING_APPROVAL, DS_ACTIVE, DS_PAUSED, DS_DEMOTED, DS_TERMINATED} \<and>
     (isActive d \<or> isPaused d \<longrightarrow> dp_deployedAt d \<noteq> None) \<and>
     (dp_terminatedAt d \<noteq> None \<longleftrightarrow> isDemoted d \<or> isTerminated d)"

definition deployments_wf :: "DeploymentDb \<Rightarrow> bool" where
  "deployments_wf db \<longleftrightarrow> distinct (map dp_id (db_deployments db)) \<and> list_all row_wf (db_deployments db)"

definition same_terms :: "Deployment \<Rightarrow> Deployment \<Rightarrow> bool" where
  "same_terms d e \<longleftrightarrow> dp_id e = dp_id d \<and> dp_strategyConfigId e = dp_strategyConfigId d \<and>
     dp_maxDrawdownLimit e = dp_maxDrawdownLimit d \<and> dp_dailyLossLimit e = dp_dailyLossLimit d \<and>
     dp_positionSizeLimit e = dp_positionSizeLimit d \<and> dp_maxLeverage e = dp_maxLeverage d \<and>
     dp_initialAllocationPercent e = dp_initialAllocationPercent d"

definition evolves :: "Deployment \<Rightarrow> Deployment \<Rightarrow> bool" where
  "evolves d e \<longleftrightarrow> same_terms d e \<and> stage_of (dp_status d) \<le> stage_of (dp_status e) \<and> (row_wf d \<longrightarrow> row_wf e)"

lemma stage_of_le [simp]: "stage_of s \<le> 2"
  by (cases s) simp_all

lemma row_evolves_refl [simp]: "evolves d d"
  by (simp add: evolves_def same_terms_def)

lemma row_evolves_trans: "evolves a b \<Longrightarrow> evolves b c \<Longrightarrow> evolves a c"
  by (auto simp: evolves_def same_terms_def)

lemmas row_defs = evolves_def same_terms_def row_wf_def isActive_def isPaused_def isDemoted_def isTerminated_def

lemma created_row:
  assumes "createDeployment now newId s p why by l db = Inr (d, db')"
  shows "db_deployments db' = db_deployments db @ [d] \<and> dp_id d = newId \<and> row_wf d"
proof -
  have "db' = db\<lparr>db_deployments := db_deployments db @ [d]\<rparr> \<and> dp_id d = newId \<and> dp_status d = DS_PENDING_APPROVAL \<and>
      dp_terminatedAt d = None"
    using assms unfolding createDeployment_def Let_def
    by (simp split: option.splits if_split_asm) auto
  then show ?thesis by (simp add: row_defs)
qed

text \<open>Every row is still there and has evolved, but those of the strategies that were deleted.\<close>

definition db_evolves :: "string set \<Rightarrow> DeploymentDb \<Rightarrow> DeploymentDb \<Rightarrow> bool" where
  "db_evolves gone db db' \<longleftrightarrow> (deployments_wf db \<longrightarrow> deployments_wf db') \<and>
     (\<forall>d \<in> set (db_deployments db). dp_strategyConfigId d \<notin> gone \<longrightarrow> (\<exists>e \<in> set (db_deployments db'). evolves d e))"

lemma map_evolves:
  assumes "db_deployments db' = map f (db_deployments db)" "\<And>d. d \<in> set (db_deployments db) \<Longrightarrow> evolves d (f d)"
  shows "db_evolves {} db db'"
proof -
  have ids: "map dp_id (map f (db_deployments db)) = map dp_id (db_deployments db)"
    using assms(2) by (auto simp: evolves_def same_terms_def)
  have "deployments_wf db'" if "deployments_wf db"
    using that assms(2) unfolding deployments_wf_def assms(1) ids list_all_iff by (auto simp: evolves_def)
  then show ?thesis using assms by (auto simp: db_evolves_def)
qed

lemma saved_evolves:
  assumes "\<exists>c. findOne db i = Inr c \<and> evolves c d \<and> db_deployments db' = db_deployments (saveDeployment d db)"
    "distinct (map dp_id (db_deployments db))"
  shows "db_evolves {} db db'"
proof -
  obtain c where c: "findOne db i = Inr c" "evolves c d" "db_deployments db' = db_deployments (saveDeployment d db)"
    using assms(1) by blast
  have "c \<in> set (db_deployments db)"
    using c(1) by (auto simp: findOne_def findDeployment_def find_Some_iff split: option.splits)
  then have "evolves b (if dp_id b = dp_id d then d else b)" if "b \<in> set (db_deployments db)" for b
    using that c(2) assms(2) by (auto simp: distinct_map evolves_def same_terms_def dest: inj_onD)
  then show ?thesis using c(3)
    by (intro map_evolves [where f = "\<lambda>b. if dp_id b = dp_id d then d else b"]) (simp_all add: saveDeployment_def)
qed

lemma withStats_evolves: "evolves d (withStats now deployment m d)"
  by (simp add: withStats_def Let_def row_defs)

lemma stats_evolve: "db_evolves {} db (updateDeploymentStats now d m (db\<lparr>db_metrics := rows\<rparr>))"
  by (rule map_evolves [where f = "\<lambda>c. if dp_id c = dp_id d then withStats now d m c else c"])
    (simp_all add: updateDeploymentStats_def withStats_evolves)

lemma recorded_evolves:
  assumes "recordPerformanceMetric now today i m db = Inr (r, db')"
  shows "db_evolves {} db db'"
proof -
  obtain d where "Metrics_recordPerformanceMetric now today d m db = (r, db')"
    using assms by (auto simp: recordPerformanceMetric_def split: sum.splits)
  then show ?thesis by (auto simp: Metrics_recordPerformanceMetric_def Let_def stats_evolve split: option.splits)
qed

lemma created_evolves:
  assumes "createDeployment now newId s p why by l db = Inr (d, db')" "newId \<notin> dp_id ` set (db_deployments db)"
  shows "db_evolves {} db db'"
proof -
  have new: "db_deployments db' = db_deployments db @ [d]" "dp_id d = newId" "row_wf d"
    using created_row [OF assms(1)] by simp_all
  then have "deployments_wf db'" if "deployments_wf db"
    using that assms(2) by (auto simp: deployments_wf_def)
  moreover have "\<exists>e \<in> set (db_deployments db'). evolves c e" if "c \<in> set (db_deployments db)" for c
    using that new(1) by (intro bexI [of _ c]) simp_all
  ultimately show ?thesis by (simp add: db_evolves_def)
qed

lemma deleted_evolves:
  assumes "deleteStrategy referenced i db = Inr db'"
  shows "db_evolves {i} db db'"
proof -
  have rows: "db_deployments db' = filter (\<lambda>d. dp_strategyConfigId d \<noteq> i) (db_deployments db)"
    using assms by (auto simp: deleteStrategy_def Let_def split: option.splits if_splits)
  then have "\<exists>e \<in> set (db_deployments db'). evolves d e" if "d \<in> set (db_deployments db)" "dp_strategyConfigId d \<noteq> i" for d
    using that by (intro bexI [of _ d]) simp_all
  moreover have "deployments_wf db'" if "deployments_wf db"
    using that by (auto simp: deployments_wf_def rows list_all_iff distinct_map_filter)
  ultimately show ?thesis by (simp add: db_evolves_def)
qed

lemma step_evolves:
  assumes "deployment_step gone db db'" "deployments_wf db"
  shows "db_evolves gone db db'"
proof -
  have dist: "distinct (map dp_id (db_deployments db))" using assms(2) by (simp add: deployments_wf_def)
  note saved = saved_evolves [OF _ dist]
  from assms(1) show ?thesis
  proof cases
    case created then show ?thesis using created_evolves by simp
  next
    case (activated now i d)
    have "db_evolves {} db db'"
      using activated by (intro saved [of i d]) (auto simp: activateDeployment_def Let_def setStrategyStatus_def row_defs split: sum.splits if_splits)
    then show ?thesis using activated by simp
  next
    case (paused now i reason d)
    have "db_evolves {} db db'"
      using paused by (intro saved [of i d]) (auto simp: pauseDeployment_def Let_def row_defs split: sum.splits if_splits)
    then show ?thesis using paused by simp
  next
    case (resumed now i d)
    have "db_evolves {} db db'"
      using resumed by (intro saved [of i d]) (auto simp: resumeDeployment_def Let_def row_defs split: sum.splits if_splits)
    then show ?thesis using resumed by simp
  next
    case (demoted now i why checks d)
    have "db_evolves {} db db'"
      using demoted by (intro saved [of i d]) (auto simp: demoteDeployment_def Let_def setStrategyStatus_def row_defs split: sum.splits)
    then show ?thesis using demoted by simp
  next
    case (terminated now i reason d)
    have "db_evolves {} db db'"
      using terminated by (intro saved [of i d]) (auto simp: terminateDeployment_def Let_def setStrategyStatus_def row_defs split: sum.splits)
    then show ?thesis using terminated by simp
  next
    case (reallocated now i p reason d)
    have "db_evolves {} db db'"
      using reallocated by (intro saved [of i d]) (auto simp: updateAllocation_def Let_def row_defs split: sum.splits if_splits)
    then show ?thesis using reallocated by simp
  next
    case recorded then show ?thesis using recorded_evolves by simp
  next
    case (drifted i d now alerts)
    have "db_evolves {} db db'"
      using drifted by (intro saved [of i "d\<lparr>dp_driftAlertCount := dp_driftAlertCount d + int alerts, dp_lastDriftDetectedAt := Some now\<rparr>"])
        (auto simp: updateDeploymentDriftStatus_def row_defs)
    then show ?thesis using drifted by simp
  next
    case deleted then show ?thesis using deleted_evolves by simp
  next
    case elsewhere
    then show ?thesis by (auto simp: db_evolves_def deployments_wf_def intro: row_evolves_refl)
  qed
qed

lemma run_evolves:
  assumes "deployment_run gone db db'" "deployments_wf db"
  shows "deployments_wf db' \<and> db_evolves gone db db'"
  using assms
proof (induction rule: deployment_run.induct)
  case (start db)
  then show ?case by (auto simp: db_evolves_def intro: row_evolves_refl)
next
  case (further gone db db1 deleted db2)
  then have wf: "deployments_wf db1" and first: "db_evolves gone db db1" by blast+
  have then_on: "db_evolves deleted db1 db2" using further.hyps(2) wf by (rule step_evolves)
  have "\<exists>e \<in> set (db_deployments db2). evolves d e"
    if "d \<in> set (db_deployments db)" "dp_strategyConfigId d \<notin> gone \<union> deleted" for d
  proof -
    from that first obtain c where c: "c \<in> set (db_deployments db1)" "evolves d c" by (auto simp: db_evolves_def)
    then have "dp_strategyConfigId c \<notin> deleted" using that(2) by (auto simp: evolves_def same_terms_def)
    with then_on c(1) obtain e where "e \<in> set (db_deployments db2)" "evolves c e" by (auto simp: db_evolves_def)
    then show ?thesis using c(2) row_evolves_trans by blast
  qed
  then show ?case using then_on wf by (simp add: db_evolves_def)
qed


section \<open>Witnesses\<close>

definition sample_strategy :: StrategyConfig where
  "sample_strategy = \<lparr>sc_id = ''s'', sc_name = ''n'', sc_status = SS_VALIDATED, sc_createdBy = Some ''u'', sc_maxLeverage = None,
     sc_riskPoolLevel = None\<rparr>"

definition sample_score :: "number \<Rightarrow> StoredScore" where
  "sample_score sharpe = \<lparr>st_strategyConfigId = ''s'', st_overallScore = 80, st_grade = GradeB, st_promotionEligible = True, st_calculatedAt = 0,
     st_componentScores = Some \<lparr>stc_sharpeRatio = Some (Some sharpe), stc_wfaDegradation = Some (Some 0),
       stc_correlation = Some (Some 0)\<rparr>\<rparr>"

definition sample_deployment :: "DeploymentStatus \<Rightarrow> Deployment" where
  "sample_deployment status =
     \<lparr>dp_id = ''d'', dp_strategyConfigId = ''s'', dp_status = status, dp_allocationPercent = 1, dp_initialAllocationPercent = Some 1,
      dp_deployedAt = Some 0, dp_terminatedAt = None, dp_terminationReason = None, dp_maxDrawdownLimit = 4 / 10,
      dp_dailyLossLimit = 1 / 10, dp_positionSizeLimit = 35 / 100, dp_maxLeverage = None, dp_concentrationLimit = None,
      dp_realizedPnl = 0, dp_unrealizedPnl = 0, dp_currentDrawdown = 0, dp_maxDrawdownObserved = 0, dp_totalTrades = 0,
      dp_winningTrades = 0, dp_liveSharpeRatio = None, dp_driftAlertCount = 0, dp_lastDriftDetectedAt = None,
      dp_approvedBy = None, dp_approvedAt = None, dp_promotionReason = ''r'', dp_metadata = noMetadata, dp_createdAt = 0\<rparr>"

definition sample_db :: "DeploymentStatus \<Rightarrow> DeploymentDb" where
  "sample_db status = \<lparr>db_deployments = [sample_deployment status], db_strategies = [sample_strategy], db_scores = [sample_score 1],
     db_metrics = []\<rparr>"


end
