(* ===== verification/PromotionGates.thy ===== *)
theory PromotionGates
  imports Deployments
begin

text \<open>
  From a validated strategy to a deployment (\<^verbatim>\<open>strategy/gates/*.ts\<close>, \<^verbatim>\<open>tasks/promotion.task.ts\<close>): the eight gates of a promotion,
  their evaluation, and the daily task that creates deployments and queues their activation.

  A gate is a constructor with its name, priority and evaluation. The messages and the metadata of a result only
  print the values of the result and are left out; a thrown error is the left summand.
\<close>

section \<open>The gates\<close>

datatype GateSeverity = GATE_WARNING | GATE_CRITICAL

text \<open>The value of a gate that threw is \<open>None\<close>, as is what it requires.\<close>

record PromotionGateResult =
  gr_gateName :: string
  gr_passed :: bool
  gr_actualValue :: "number option"
  gr_requiredValue :: "number option"
  gr_severity :: "GateSeverity option"

text \<open>The results of a backtest run are JSON: a field may be missing.\<close>

record BacktestRunResults =
  rr_totalTrades :: "number option"
  rr_maxDrawdown :: "number option"
  rr_totalReturn :: "number option"
  rr_volatility :: "number option"

record BacktestRun =
  br_strategyConfigId :: string
  br_createdAt :: time_ms
  br_results :: "BacktestRunResults option"

record PromotionGateContext =
  gc_existingDeployments :: "Deployment list"
  gc_totalAllocation :: number

text \<open>\<^verbatim>\<open>run.results?.field || 0\<close>.\<close>

definition resultOr0 :: "(BacktestRunResults \<Rightarrow> number option) \<Rightarrow> BacktestRun \<Rightarrow> number" where
  "resultOr0 field run = nullish (Option.bind (br_results run) field) 0"

text \<open>\<^verbatim>\<open>score.componentScores.field.value || 0\<close>: reading from a missing component throws.\<close>

definition componentOr0 :: "(StoredComponents \<Rightarrow> number option option) \<Rightarrow> StoredScore \<Rightarrow> unit + number" where
  "componentOr0 field score =
     (case Option.bind (st_componentScores score) field of None \<Rightarrow> Inl () | Some v \<Rightarrow> Inr (nullish v 0))"

definition gateResult :: "string \<Rightarrow> bool \<Rightarrow> number \<Rightarrow> number \<Rightarrow> GateSeverity \<Rightarrow> PromotionGateResult" where
  "gateResult name passed actualValue requiredValue severity =
     \<lparr>gr_gateName = name, gr_passed = passed, gr_actualValue = Some actualValue, gr_requiredValue = Some requiredValue,
      gr_severity = (if passed then None else Some severity)\<rparr>"

definition MinimumScore_evaluate :: "StoredScore \<Rightarrow> PromotionGateResult" where
  "MinimumScore_evaluate score =
     (let actualScore = st_overallScore score
      in gateResult ''minimum-score'' (actualScore \<ge> 70) actualScore 70 GATE_CRITICAL)"

definition MinimumTrades_evaluate :: "BacktestRun \<Rightarrow> PromotionGateResult" where
  "MinimumTrades_evaluate run =
     (let actualTrades = resultOr0 rr_totalTrades run
      in gateResult ''minimum-trades'' (actualTrades \<ge> 30) actualTrades 30 GATE_CRITICAL)"

definition MaximumDrawdown_evaluate :: "BacktestRun \<Rightarrow> PromotionGateResult" where
  "MaximumDrawdown_evaluate run =
     (let actualDrawdown = \<bar>resultOr0 rr_maxDrawdown run\<bar>
      in gateResult ''maximum-drawdown'' (actualDrawdown < 4 / 10) actualDrawdown (4 / 10) GATE_CRITICAL)"

definition WFAConsistency_evaluate :: "StoredScore \<Rightarrow> unit + PromotionGateResult" where
  "WFAConsistency_evaluate score =
     map_sum id (\<lambda>wfaDegradation. gateResult ''wfa-consistency'' (wfaDegradation < 3 / 10) wfaDegradation (3 / 10) GATE_CRITICAL)
       (componentOr0 stc_wfaDegradation score)"

definition PositiveReturns_evaluate :: "BacktestRun \<Rightarrow> PromotionGateResult" where
  "PositiveReturns_evaluate run =
     (let totalReturn = resultOr0 rr_totalReturn run
      in gateResult ''positive-returns'' (totalReturn > 0) totalReturn 0 GATE_CRITICAL)"

definition CorrelationLimit_evaluate :: "StoredScore \<Rightarrow> PromotionGateContext \<Rightarrow> unit + PromotionGateResult" where
  "CorrelationLimit_evaluate score context =
     map_sum id (\<lambda>correlationScore.
         let hasExistingDeployments = length (gc_existingDeployments context) > 0
         in gateResult ''correlation-limit'' (\<not> hasExistingDeployments \<or> correlationScore < 7 / 10) correlationScore (7 / 10) GATE_WARNING)
       (componentOr0 stc_correlation score)"

definition VolatilityCap_evaluate :: "BacktestRun \<Rightarrow> PromotionGateResult" where
  "VolatilityCap_evaluate run =
     (let volatility = resultOr0 rr_volatility run
      in gateResult ''volatility-cap'' (volatility < 15 / 10) volatility (15 / 10) GATE_WARNING)"

definition PortfolioCapacity_evaluate :: "PromotionGateContext \<Rightarrow> PromotionGateResult" where
  "PortfolioCapacity_evaluate context =
     (let activeDeployments = length (gc_existingDeployments context)
      in gateResult ''portfolio-capacity'' (activeDeployments < 35) (real activeDeployments) 35 GATE_CRITICAL)"

datatype PromotionGateKind =
    MinimumScoreGate | MinimumTradesGate | MaximumDrawdownGate | WFAConsistencyGate | PositiveReturnsGate
  | CorrelationLimitGate | VolatilityCapGate | PortfolioCapacityGate

fun gateName :: "PromotionGateKind \<Rightarrow> string" where
  "gateName MinimumScoreGate = ''minimum-score''"
| "gateName MinimumTradesGate = ''minimum-trades''"
| "gateName MaximumDrawdownGate = ''maximum-drawdown''"
| "gateName WFAConsistencyGate = ''wfa-consistency''"
| "gateName PositiveReturnsGate = ''positive-returns''"
| "gateName CorrelationLimitGate = ''correlation-limit''"
| "gateName VolatilityCapGate = ''volatility-cap''"
| "gateName PortfolioCapacityGate = ''portfolio-capacity''"

fun gatePriority :: "PromotionGateKind \<Rightarrow> int" where
  "gatePriority MinimumScoreGate = 1"
| "gatePriority MinimumTradesGate = 2"
| "gatePriority MaximumDrawdownGate = 3"
| "gatePriority WFAConsistencyGate = 4"
| "gatePriority PositiveReturnsGate = 5"
| "gatePriority CorrelationLimitGate = 6"
| "gatePriority VolatilityCapGate = 7"
| "gatePriority PortfolioCapacityGate = 8"

fun gateIsCritical :: "PromotionGateKind \<Rightarrow> bool" where
  "gateIsCritical CorrelationLimitGate = False"
| "gateIsCritical VolatilityCapGate = False"
| "gateIsCritical _ = True"

fun evaluateGate :: "PromotionGateKind \<Rightarrow> StoredScore \<Rightarrow> BacktestRun \<Rightarrow> PromotionGateContext \<Rightarrow> unit + PromotionGateResult" where
  "evaluateGate MinimumScoreGate score run context = Inr (MinimumScore_evaluate score)"
| "evaluateGate MinimumTradesGate score run context = Inr (MinimumTrades_evaluate run)"
| "evaluateGate MaximumDrawdownGate score run context = Inr (MaximumDrawdown_evaluate run)"
| "evaluateGate WFAConsistencyGate score run context = WFAConsistency_evaluate score"
| "evaluateGate PositiveReturnsGate score run context = Inr (PositiveReturns_evaluate run)"
| "evaluateGate CorrelationLimitGate score run context = CorrelationLimit_evaluate score context"
| "evaluateGate VolatilityCapGate score run context = Inr (VolatilityCap_evaluate run)"
| "evaluateGate PortfolioCapacityGate score run context = Inr (PortfolioCapacity_evaluate context)"

definition PromotionGateService_gates :: "PromotionGateKind list" where
  "PromotionGateService_gates = sort_key gatePriority
     [MinimumScoreGate, MinimumTradesGate, MaximumDrawdownGate, WFAConsistencyGate, PositiveReturnsGate,
      CorrelationLimitGate, VolatilityCapGate, PortfolioCapacityGate]"

definition getGate :: "string \<Rightarrow> PromotionGateKind option" where
  "getGate name = find (\<lambda>g. gateName g = name) PromotionGateService_gates"

definition getCriticalGates :: "PromotionGateKind list" where
  "getCriticalGates = filter gateIsCritical PromotionGateService_gates"

definition getWarningGates :: "PromotionGateKind list" where
  "getWarningGates = filter (\<lambda>g. \<not> gateIsCritical g) PromotionGateService_gates"

section \<open>The evaluation of the gates\<close>

text \<open>The summary with the numbers it prints; a warning is the gate whose message it repeats.\<close>

datatype PromotionSummary =
    AllGatesPassed nat
  | PassedWithWarnings nat nat nat
  | CriticalGatesFailed nat
  | NoResultsYet

record PromotionGateEvaluation =
  ge_canPromote :: bool
  ge_gateResults :: "PromotionGateResult list"
  ge_totalGates :: nat
  ge_gatesPassed :: nat
  ge_gatesFailed :: nat
  ge_failedGates :: "string list"
  ge_summary :: PromotionSummary
  ge_warnings :: "string list"

definition Gates_calculateEvaluation :: "PromotionGateResult list \<Rightarrow> PromotionGateEvaluation" where
  "Gates_calculateEvaluation gateResults =
     (let totalGates = length gateResults;
          gatesPassed = length (filter gr_passed gateResults);
          gatesFailed = totalGates - gatesPassed;
          failedGates = map gr_gateName (filter (\<lambda>r. \<not> gr_passed r) gateResults);
          criticalFailures = filter (\<lambda>r. \<not> gr_passed r \<and> gr_severity r = Some GATE_CRITICAL) gateResults;
          warnings = map gr_gateName (filter (\<lambda>r. \<not> gr_passed r \<and> gr_severity r = Some GATE_WARNING) gateResults);
          canPromote = (length criticalFailures = 0)
      in \<lparr>ge_canPromote = canPromote, ge_gateResults = gateResults, ge_totalGates = totalGates, ge_gatesPassed = gatesPassed,
          ge_gatesFailed = gatesFailed, ge_failedGates = failedGates,
          ge_summary = (if canPromote \<and> gatesFailed = 0 then AllGatesPassed totalGates
            else if canPromote \<and> length warnings > 0 then PassedWithWarnings gatesPassed totalGates (length warnings)
            else CriticalGatesFailed (length criticalFailures)),
          ge_warnings = warnings\<rparr>)"

definition buildGateContext :: "DeploymentDb \<Rightarrow> PromotionGateContext" where
  "buildGateContext db =
     (let existingDeployments = filter isActive (db_deployments db)
      in \<lparr>gc_existingDeployments = existingDeployments,
          gc_totalAllocation = foldl (\<lambda>sum d. sum + dp_allocationPercent d) 0 existingDeployments\<rparr>)"

definition evaluateOne :: "StoredScore \<Rightarrow> BacktestRun \<Rightarrow> PromotionGateContext \<Rightarrow> PromotionGateKind \<Rightarrow> PromotionGateResult" where
  "evaluateOne score run context gate =
     (case evaluateGate gate score run context of
        Inr result \<Rightarrow> result
      | Inl _ \<Rightarrow> \<lparr>gr_gateName = gateName gate, gr_passed = False, gr_actualValue = None, gr_requiredValue = None,
                 gr_severity = Some GATE_CRITICAL\<rparr>)"

text \<open>The runs of the backtests and whether the audit log takes the entry are arguments; an audit log that fails
  makes the evaluation throw.\<close>

definition evaluateGates :: "bool \<Rightarrow> BacktestRun list \<Rightarrow> DeploymentDb \<Rightarrow> string \<Rightarrow> unit + PromotionGateEvaluation" where
  "evaluateGates auditOk runs db strategyConfigId =
     (case (latestBy st_calculatedAt (filter (\<lambda>s. st_strategyConfigId s = strategyConfigId) (db_scores db)),
            latestBy br_createdAt (filter (\<lambda>r. br_strategyConfigId r = strategyConfigId) runs)) of
        (Some latestScore, Some latestBacktest) \<Rightarrow>
          (let gateResults = map (evaluateOne latestScore latestBacktest (buildGateContext db)) PromotionGateService_gates;
               evaluation = Gates_calculateEvaluation gateResults
           in if auditOk then Inr evaluation else Inl ())
      | _ \<Rightarrow> Inr
          \<lparr>ge_canPromote = False, ge_gateResults = [], ge_totalGates = length PromotionGateService_gates, ge_gatesPassed = 0,
           ge_gatesFailed = 0, ge_failedGates = [''prerequisite-data''], ge_summary = NoResultsYet, ge_warnings = []\<rparr>)"

section \<open>The daily task\<close>

text \<open>A job of activation, with its delay.\<close>

record ActivationJob =
  aj_deploymentId :: string
  aj_strategyName :: string
  aj_delay :: time_ms

record PromotionRun =
  pr_db :: DeploymentDb
  pr_queue :: "ActivationJob list"
  pr_evaluated :: nat
  pr_approved :: nat
  pr_rejected :: nat
  pr_errors :: nat

definition DELAY_24H :: time_ms where
  "DELAY_24H = 24 * 60 * 60 * 1000"

text \<open>
  The services around one pass: the clock, the runs of the backtests, which audit entries and which jobs are taken,
  and the identifier that a new deployment of a strategy gets.
\<close>

record PromotionEnv =
  pe_now :: time_ms
  pe_runs :: "BacktestRun list"
  pe_auditOk :: "string \<Rightarrow> bool"
  pe_queueOk :: "string \<Rightarrow> bool"
  pe_newId :: "string \<Rightarrow> string"

definition promotionReasonText :: string where
  "promotionReasonText = ''Automatic promotion''"

definition promoteStrategy :: "PromotionEnv \<Rightarrow> PromotionRun \<Rightarrow> StrategyConfig \<Rightarrow> PromotionRun" where
  "promoteStrategy env st strategy =
     (let st = st\<lparr>pr_evaluated := pr_evaluated st + 1\<rparr>;
          failed = st\<lparr>pr_errors := pr_errors st + 1\<rparr>
      in case evaluateGates (pe_auditOk env (sc_id strategy)) (pe_runs env) (pr_db st) (sc_id strategy) of
           Inl _ \<Rightarrow> failed
         | Inr evaluation \<Rightarrow>
             if ge_canPromote evaluation
             then if list_ex isActive (findByStrategy (pr_db st) (sc_id strategy)) then st
                  else (case createDeployment (pe_now env) (pe_newId env (sc_id strategy)) (sc_id strategy) 1 promotionReasonText (Some ''system'')
                          (Some (nullish (sc_riskPoolLevel strategy) DEFAULT_RISK_LEVEL)) (pr_db st) of
                          Inl _ \<Rightarrow> failed
                        | Inr (deployment, db') \<Rightarrow>
                            let approved = st\<lparr>pr_db := db', pr_approved := pr_approved st + 1\<rparr>
                            in if pe_queueOk env (sc_id strategy)
                               then approved\<lparr>pr_queue := pr_queue approved @ [\<lparr>aj_deploymentId = dp_id deployment,
                                      aj_strategyName = sc_name strategy, aj_delay = DELAY_24H\<rparr>]\<rparr>
                               else approved\<lparr>pr_errors := pr_errors approved + 1\<rparr>)
             else st\<lparr>pr_rejected := pr_rejected st + 1\<rparr>)"

definition schedulePromotionEvaluation :: "PromotionEnv \<Rightarrow> DeploymentDb \<Rightarrow> PromotionRun" where
  "schedulePromotionEvaluation env db =
     foldl (promoteStrategy env)
       \<lparr>pr_db = db, pr_queue = [], pr_evaluated = 0, pr_approved = 0, pr_rejected = 0, pr_errors = 0\<rparr>
       (filter (\<lambda>s. sc_status s = SS_VALIDATED) (db_strategies db))"

definition processDeploymentActivation :: "time_ms \<Rightarrow> string \<Rightarrow> DeploymentDb \<Rightarrow> DeploymentFault + Deployment \<times> DeploymentDb" where
  "processDeploymentActivation now deploymentId db = activateDeployment now deploymentId db"

datatype PromotionError = StrategyMissing string | EvaluationFailed | CreationFailed DeploymentFault

definition evaluateStrategyForPromotion ::
    "PromotionEnv \<Rightarrow> string \<Rightarrow> string option \<Rightarrow> DeploymentDb \<Rightarrow>
      PromotionError + (PromotionGateEvaluation \<times> Deployment option \<times> DeploymentDb)" where
  "evaluateStrategyForPromotion env strategyConfigId userId db =
     (case find (\<lambda>s. sc_id s = strategyConfigId) (db_strategies db) of
        None \<Rightarrow> Inl (StrategyMissing strategyConfigId)
      | Some strategy \<Rightarrow>
     (case evaluateGates (pe_auditOk env strategyConfigId) (pe_runs env) db strategyConfigId of
        Inl _ \<Rightarrow> Inl EvaluationFailed
      | Inr evaluation \<Rightarrow>
          if ge_canPromote evaluation
          then (case createDeployment (pe_now env) (pe_newId env strategyConfigId) strategyConfigId 1 ''Manual promotion request'' userId
                  (Some (nullish (sc_riskPoolLevel strategy) DEFAULT_RISK_LEVEL)) db of
                  Inl e \<Rightarrow> Inl (CreationFailed e)
                | Inr (deployment, db') \<Rightarrow> Inr (evaluation, Some deployment, db'))
          else Inr (evaluation, None, db)))"

section \<open>What promotes a strategy\<close>

lemma gates_sorted: "PromotionGateService_gates = [MinimumScoreGate, MinimumTradesGate, MaximumDrawdownGate, WFAConsistencyGate,
    PositiveReturnsGate, CorrelationLimitGate, VolatilityCapGate, PortfolioCapacityGate]"
  by (simp add: PromotionGateService_gates_def)

lemma canPromote_iff: "ge_canPromote (Gates_calculateEvaluation rs) \<longleftrightarrow> (\<forall>r \<in> set rs. \<not> gr_passed r \<longrightarrow> gr_severity r \<noteq> Some GATE_CRITICAL)"
  by (auto simp: Gates_calculateEvaluation_def Let_def filter_empty_conv)

lemma evaluation_counts:
  "ge_totalGates (Gates_calculateEvaluation rs) = length rs"
  "ge_gatesPassed (Gates_calculateEvaluation rs) + ge_gatesFailed (Gates_calculateEvaluation rs) = length rs"
  by (simp_all add: Gates_calculateEvaluation_def Let_def)

definition admits :: "StoredScore \<Rightarrow> BacktestRun \<Rightarrow> PromotionGateContext \<Rightarrow> PromotionGateKind \<Rightarrow> bool" where
  "admits score run ctx g \<longleftrightarrow>
     (\<not> gr_passed (evaluateOne score run ctx g) \<longrightarrow> gr_severity (evaluateOne score run ctx g) \<noteq> Some GATE_CRITICAL)"

lemma gateResult_fields [simp]:
  "gr_passed (gateResult n p a q s) = p" "gr_severity (gateResult n p a q s) = (if p then None else Some s)"
  by (simp_all add: gateResult_def)

lemma admits_gate:
  "admits score run ctx MinimumScoreGate \<longleftrightarrow> 70 \<le> st_overallScore score"
  "admits score run ctx MinimumTradesGate \<longleftrightarrow> 30 \<le> resultOr0 rr_totalTrades run"
  "admits score run ctx MaximumDrawdownGate \<longleftrightarrow> \<bar>resultOr0 rr_maxDrawdown run\<bar> < 4 / 10"
  "admits score run ctx PositiveReturnsGate \<longleftrightarrow> 0 < resultOr0 rr_totalReturn run"
  "admits score run ctx VolatilityCapGate \<longleftrightarrow> True"
  "admits score run ctx PortfolioCapacityGate \<longleftrightarrow> length (gc_existingDeployments ctx) < 35"
  "admits score run ctx WFAConsistencyGate \<longleftrightarrow> (\<exists>wfa. componentOr0 stc_wfaDegradation score = Inr wfa \<and> wfa < 3 / 10)"
  "admits score run ctx CorrelationLimitGate \<longleftrightarrow> (\<exists>c. componentOr0 stc_correlation score = Inr c)"
  by (simp_all add: admits_def evaluateOne_def MinimumScore_evaluate_def MinimumTrades_evaluate_def MaximumDrawdown_evaluate_def
      PositiveReturns_evaluate_def VolatilityCap_evaluate_def PortfolioCapacity_evaluate_def WFAConsistency_evaluate_def
      CorrelationLimit_evaluate_def Let_def split: sum.splits)
    (cases "componentOr0 stc_wfaDegradation score"; cases "componentOr0 stc_correlation score"; simp)+

text \<open>C6. What promotes a strategy: a score of at least 70, thirty trades, a drawdown below 40%, a positive return, a degradation below
  30% and fewer than 35 active deployments. Correlation and volatility never block by their values, but a score that lacks the component
  of the correlation does; the return and the trades must be there, while a missing drawdown counts as none.\<close>

theorem promotion_is_exact:
  assumes "latestBy st_calculatedAt (filter (\<lambda>s. st_strategyConfigId s = i) (db_scores db)) = Some score"
    and "latestBy br_createdAt (filter (\<lambda>r. br_strategyConfigId r = i) runs) = Some run"
  shows "\<exists>evaluation. evaluateGates True runs db i = Inr evaluation \<and>
    ge_totalGates evaluation = 8 \<and> ge_gatesPassed evaluation + ge_gatesFailed evaluation = 8 \<and>
    (ge_canPromote evaluation \<longleftrightarrow>
      70 \<le> st_overallScore score \<and> 30 \<le> resultOr0 rr_totalTrades run \<and> \<bar>resultOr0 rr_maxDrawdown run\<bar> < 4 / 10 \<and>
      0 < resultOr0 rr_totalReturn run \<and> countActive db < 35 \<and>
      (\<exists>wfa. componentOr0 stc_wfaDegradation score = Inr wfa \<and> wfa < 3 / 10) \<and>
      (\<exists>c. componentOr0 stc_correlation score = Inr c))"
proof -
  let ?rs = "map (evaluateOne score run (buildGateContext db)) PromotionGateService_gates"
  have "ge_canPromote (Gates_calculateEvaluation ?rs) \<longleftrightarrow> (\<forall>g \<in> set PromotionGateService_gates. admits score run (buildGateContext db) g)"
    by (simp add: canPromote_iff admits_def)
  also have "\<dots> \<longleftrightarrow> 70 \<le> st_overallScore score \<and> 30 \<le> resultOr0 rr_totalTrades run \<and> \<bar>resultOr0 rr_maxDrawdown run\<bar> < 4 / 10 \<and>
      0 < resultOr0 rr_totalReturn run \<and> countActive db < 35 \<and>
      (\<exists>wfa. componentOr0 stc_wfaDegradation score = Inr wfa \<and> wfa < 3 / 10) \<and>
      (\<exists>c. componentOr0 stc_correlation score = Inr c)"
    unfolding gates_sorted list.set ball_simps admits_gate buildGateContext_def countActive_def Let_def PromotionGateContext.select_convs
    by blast
  finally have can: "ge_canPromote (Gates_calculateEvaluation ?rs) \<longleftrightarrow> 70 \<le> st_overallScore score \<and> 30 \<le> resultOr0 rr_totalTrades run \<and>
      \<bar>resultOr0 rr_maxDrawdown run\<bar> < 4 / 10 \<and> 0 < resultOr0 rr_totalReturn run \<and> countActive db < 35 \<and>
      (\<exists>wfa. componentOr0 stc_wfaDegradation score = Inr wfa \<and> wfa < 3 / 10) \<and>
      (\<exists>c. componentOr0 stc_correlation score = Inr c)" .
  have counts: "ge_totalGates (Gates_calculateEvaluation ?rs) = 8"
    "ge_gatesPassed (Gates_calculateEvaluation ?rs) + ge_gatesFailed (Gates_calculateEvaluation ?rs) = 8"
    unfolding evaluation_counts by (simp_all add: gates_sorted)
  have "evaluateGates True runs db i = Inr (Gates_calculateEvaluation ?rs)" using assms by (simp add: evaluateGates_def Let_def)
  then show ?thesis using can counts by (intro exI [of _ "Gates_calculateEvaluation ?rs"]) (simp only: simp_thms)
qed


section \<open>What a promotion creates\<close>

definition deployable :: "string \<Rightarrow> DeploymentDb \<Rightarrow> bool" where
  "deployable s db \<longleftrightarrow> find (\<lambda>c. sc_id c = s) (db_strategies db) \<noteq> None \<and>
     (\<exists>score. latestBy st_calculatedAt (filter (\<lambda>r. st_strategyConfigId r = s) (db_scores db)) = Some score \<and>
        st_promotionEligible score \<and> Option.bind (st_componentScores score) stc_sharpeRatio \<noteq> None) \<and>
     (\<forall>d \<in> set (db_deployments db). dp_strategyConfigId d = s \<longrightarrow> \<not> isActive d) \<and> countActive db < 35"

lemma created_fields:
  assumes "createDeployment now i s p why by l db = Inr (d, db')"
  shows "deployable s db" "db' = db\<lparr>db_deployments := db_deployments db @ [d]\<rparr>" "dp_id d = i" "dp_strategyConfigId d = s"
    "dp_status d = DS_PENDING_APPROVAL" "dp_allocationPercent d = p"
proof -
  have "deployable s db \<and> db' = db\<lparr>db_deployments := db_deployments db @ [d]\<rparr> \<and> dp_id d = i \<and> dp_strategyConfigId d = s \<and>
      dp_status d = DS_PENDING_APPROVAL \<and> dp_allocationPercent d = p"
    using assms unfolding createDeployment_def Let_def
    by (simp split: option.splits if_split_asm) (auto simp: deployable_def list_ex_iff isActive_def)
  then show "deployable s db" "db' = db\<lparr>db_deployments := db_deployments db @ [d]\<rparr>" "dp_id d = i" "dp_strategyConfigId d = s"
    "dp_status d = DS_PENDING_APPROVAL" "dp_allocationPercent d = p" by simp_all
qed

lemma deployable_created:
  assumes "deployable s db"
  shows "\<exists>d db'. createDeployment now i s p why by l db = Inr (d, db')"
proof -
  obtain c score sharpe where "find (\<lambda>c. sc_id c = s) (db_strategies db) = Some c"
    "latestBy st_calculatedAt (filter (\<lambda>r. st_strategyConfigId r = s) (db_scores db)) = Some score"
    "st_promotionEligible score" "Option.bind (st_componentScores score) stc_sharpeRatio = Some sharpe"
    using assms by (auto simp: deployable_def)
  moreover have "\<not> list_ex (\<lambda>d. dp_strategyConfigId d = s \<and> dp_status d = DS_ACTIVE) (db_deployments db)" "\<not> 35 \<le> countActive db"
    using assms by (auto simp: deployable_def list_ex_iff isActive_def)
  ultimately show ?thesis unfolding createDeployment_def Let_def by simp
qed

lemma pending_keeps_context:
  fixes db :: DeploymentDb and d :: Deployment
  assumes "dp_status d = DS_PENDING_APPROVAL"
  defines "db' \<equiv> db\<lparr>db_deployments := db_deployments db @ [d]\<rparr>"
  shows "deployable s db' \<longleftrightarrow> deployable s db" "countActive db' = countActive db" "buildGateContext db' = buildGateContext db"
    "evaluateGates a runs db' i = evaluateGates a runs db i"
proof -
  show ctx: "buildGateContext db' = buildGateContext db" using assms by (simp add: buildGateContext_def isActive_def)
  show "evaluateGates a runs db' i = evaluateGates a runs db i" unfolding evaluateGates_def ctx by (simp add: db'_def)
qed (use assms in \<open>auto simp: deployable_def countActive_def isActive_def\<close>)

lemma map_other: "i \<notin> dp_id ` set xs \<Longrightarrow> map (\<lambda>e. if dp_id e = i then d else e) xs = xs"
  by (induction xs) auto

lemma activates:
  assumes "findDeployment db i = Some d" "dp_status d = DS_PENDING_APPROVAL"
  shows "activateDeployment now i db = Inr (d\<lparr>dp_status := DS_ACTIVE, dp_deployedAt := Some now\<rparr>,
    setStrategyStatus (dp_strategyConfigId d) SS_LIVE (saveDeployment (d\<lparr>dp_status := DS_ACTIVE, dp_deployedAt := Some now\<rparr>) db))"
  using assms by (simp add: activateDeployment_def findOne_def Let_def)

lemma both_activated:
  assumes first: "createDeployment now1 i1 s p1 why1 by1 l1 db = Inr (d1, db1)"
    and second: "createDeployment now2 i2 s p2 why2 by2 l2 db1 = Inr (d2, db2)"
    and fresh: "i1 \<notin> dp_id ` set (db_deployments db)" "i2 \<notin> dp_id ` set (db_deployments db)" "i1 \<noteq> i2"
  shows "\<exists>a1 db3 a2 db4.
    processDeploymentActivation now3 i1 db2 = Inr (a1, db3) \<and> processDeploymentActivation now4 i2 db3 = Inr (a2, db4) \<and>
    {a1, a2} \<subseteq> set (db_deployments db4) \<and> dp_id a1 \<noteq> dp_id a2 \<and>
    isActive a1 \<and> isActive a2 \<and> dp_strategyConfigId a1 = s \<and> dp_strategyConfigId a2 = s"
proof -
  note c1 = created_fields [OF first] and c2 = created_fields [OF second]
  have rows: "db_deployments db2 = db_deployments db @ [d1, d2]" using c1(2) c2(2) by simp
  have none: "find (\<lambda>d. dp_id d = i) (db_deployments db) = None" if "i \<notin> dp_id ` set (db_deployments db)" for i
    using that by (auto simp: find_None_iff)
  have find_append: "find P (xs @ ys) = (case find P xs of None \<Rightarrow> find P ys | Some x \<Rightarrow> Some x)" for P and xs ys :: "Deployment list"
    by (induction xs) simp_all
  define a1 where "a1 = d1\<lparr>dp_status := DS_ACTIVE, dp_deployedAt := Some now3\<rparr>"
  define db3 where "db3 = setStrategyStatus s SS_LIVE (saveDeployment a1 db2)"
  have "findDeployment db2 i1 = Some d1" by (simp add: findDeployment_def rows find_append none fresh c1(3))
  then have act1: "activateDeployment now3 i1 db2 = Inr (a1, db3)"
    using activates c1(4,5) by (simp add: a1_def db3_def)
  have rows3: "db_deployments db3 = db_deployments db @ [a1, d2]"
    using fresh c1(3) c2(3) by (auto simp: db3_def setStrategyStatus_def saveDeployment_def rows a1_def map_other)
  define a2 where "a2 = d2\<lparr>dp_status := DS_ACTIVE, dp_deployedAt := Some now4\<rparr>"
  define db4 where "db4 = setStrategyStatus s SS_LIVE (saveDeployment a2 db3)"
  have "findDeployment db3 i2 = Some d2" using fresh(3)
    by (simp add: findDeployment_def rows3 find_append none fresh c1(3) c2(3) a1_def)
  then have act2: "activateDeployment now4 i2 db3 = Inr (a2, db4)"
    using activates c2(4,5) by (simp add: a2_def db4_def)
  have "db_deployments db4 = db_deployments db @ [a1, a2]"
    using fresh c1(3) c2(3) by (auto simp: db4_def setStrategyStatus_def saveDeployment_def rows3 a1_def a2_def map_other)
  then show ?thesis using act1 act2 fresh(3) c1(3,4) c2(3,4)
    by (intro exI [of _ a1] exI [of _ db3] exI [of _ a2] exI [of _ db4])
      (simp add: processDeploymentActivation_def a1_def a2_def isActive_def)
qed

text \<open>What a strategy that is queued for activation has passed, and what the run did for it.\<close>

lemma promoteStrategy_queued:
  assumes "pr_queue (promoteStrategy env st s) \<noteq> pr_queue st"
  obtains e d db' where "evaluateGates True (pe_runs env) (pr_db st) (sc_id s) = Inr e" "ge_canPromote e"
    "createDeployment (pe_now env) (pe_newId env (sc_id s)) (sc_id s) 1 promotionReasonText (Some ''system'')
      (Some (nullish (sc_riskPoolLevel s) DEFAULT_RISK_LEVEL)) (pr_db st) = Inr (d, db')"
    "pr_db (promoteStrategy env st s) = db'"
    "pr_queue (promoteStrategy env st s) = pr_queue st @ [\<lparr>aj_deploymentId = dp_id d, aj_strategyName = sc_name s, aj_delay = DELAY_24H\<rparr>]"
proof -
  obtain e where e: "evaluateGates (pe_auditOk env (sc_id s)) (pe_runs env) (pr_db st) (sc_id s) = Inr e"
    using assms by (cases "evaluateGates (pe_auditOk env (sc_id s)) (pe_runs env) (pr_db st) (sc_id s)") (auto simp: promoteStrategy_def Let_def)
  have audited: "evaluateGates True (pe_runs env) (pr_db st) (sc_id s) = Inr e"
    using e by (cases "pe_auditOk env (sc_id s)") (auto simp: evaluateGates_def Let_def split: option.splits)
  show thesis
    using assms e that [OF audited] by (auto simp: promoteStrategy_def Let_def split: if_splits sum.splits)
qed

lemma promoteStrategy_promotes:
  assumes "evaluateGates True (pe_runs env) (pr_db st) (sc_id s) = Inr e" "ge_canPromote e" "deployable (sc_id s) (pr_db st)"
    and "pe_auditOk env (sc_id s)" "pe_queueOk env (sc_id s)"
  obtains d db' where
    "createDeployment (pe_now env) (pe_newId env (sc_id s)) (sc_id s) 1 promotionReasonText (Some ''system'')
      (Some (nullish (sc_riskPoolLevel s) DEFAULT_RISK_LEVEL)) (pr_db st) = Inr (d, db')"
    "pr_db (promoteStrategy env st s) = db'"
    "pr_queue (promoteStrategy env st s) = pr_queue st @ [\<lparr>aj_deploymentId = dp_id d, aj_strategyName = sc_name s, aj_delay = DELAY_24H\<rparr>]"
proof -
  have "\<not> list_ex isActive (findByStrategy (pr_db st) (sc_id s))"
    using assms(3) by (auto simp: deployable_def findByStrategy_def list_ex_iff)
  then show thesis
    using assms(1,2,4,5) deployable_created [OF assms(3)] that by (fastforce simp: promoteStrategy_def Let_def)
qed


section \<open>A run of the task\<close>

definition run_ok :: "PromotionEnv \<Rightarrow> DeploymentDb \<Rightarrow> StrategyConfig list \<Rightarrow> PromotionRun \<Rightarrow> bool" where
  "run_ok env db done st \<longleftrightarrow> (\<exists>new. pr_db st = db\<lparr>db_deployments := db_deployments db @ new\<rparr> \<and> length new = pr_approved st \<and>
     (\<forall>d \<in> set new. dp_status d = DS_PENDING_APPROVAL \<and> dp_allocationPercent d = 1 \<and>
        (\<exists>s \<in> set done. dp_strategyConfigId d = sc_id s) \<and>
        (\<exists>e. evaluateGates True (pe_runs env) db (dp_strategyConfigId d) = Inr e \<and> ge_canPromote e)) \<and>
     aj_deploymentId ` set (pr_queue st) \<subseteq> dp_id ` set new \<and> (\<forall>j \<in> set (pr_queue st). aj_delay j = DELAY_24H)) \<and>
   pr_evaluated st = length done"

lemma pending_rows_keep_context:
  assumes "\<forall>d \<in> set new. dp_status d = DS_PENDING_APPROVAL"
  shows "evaluateGates a runs (db\<lparr>db_deployments := db_deployments db @ new\<rparr>) i = evaluateGates a runs db i"
  using assms
proof (induction new rule: rev_induct)
  case (snoc d new)
  then show ?case using pending_keeps_context(4) [of d a runs "db\<lparr>db_deployments := db_deployments db @ new\<rparr>" i] by simp
qed simp

lemma promote_run_ok:
  assumes "run_ok env db done st"
  shows "run_ok env db (done @ [s]) (promoteStrategy env st s)"
proof -
  obtain new where st: "pr_db st = db\<lparr>db_deployments := db_deployments db @ new\<rparr>" "length new = pr_approved st"
    "\<forall>d \<in> set new. dp_status d = DS_PENDING_APPROVAL \<and> dp_allocationPercent d = 1 \<and> (\<exists>s \<in> set done. dp_strategyConfigId d = sc_id s) \<and>
       (\<exists>e. evaluateGates True (pe_runs env) db (dp_strategyConfigId d) = Inr e \<and> ge_canPromote e)"
    "aj_deploymentId ` set (pr_queue st) \<subseteq> dp_id ` set new" "\<forall>j \<in> set (pr_queue st). aj_delay j = DELAY_24H" "pr_evaluated st = length done"
    using assms by (auto simp: run_ok_def)
  have gates: "evaluateGates a (pe_runs env) (pr_db st) i = evaluateGates a (pe_runs env) db i" for a i
    using st(3) unfolding st(1) by (intro pending_rows_keep_context) blast
  show ?thesis
  proof (cases "\<exists>e d db'. evaluateGates (pe_auditOk env (sc_id s)) (pe_runs env) db (sc_id s) = Inr e \<and> ge_canPromote e \<and>
      \<not> list_ex isActive (findByStrategy (pr_db st) (sc_id s)) \<and>
      createDeployment (pe_now env) (pe_newId env (sc_id s)) (sc_id s) 1 promotionReasonText (Some ''system'')
        (Some (nullish (sc_riskPoolLevel s) DEFAULT_RISK_LEVEL)) (pr_db st) = Inr (d, db')")
    case False
    then have "pr_db (promoteStrategy env st s) = pr_db st" "pr_approved (promoteStrategy env st s) = pr_approved st"
      "pr_queue (promoteStrategy env st s) = pr_queue st" "pr_evaluated (promoteStrategy env st s) = pr_evaluated st + 1"
      by (auto simp: promoteStrategy_def gates Let_def split: sum.splits)
    then show ?thesis using st unfolding run_ok_def by (auto intro!: exI [of _ new])
  next
    case True
    then obtain e d db' where e: "evaluateGates (pe_auditOk env (sc_id s)) (pe_runs env) db (sc_id s) = Inr e" "ge_canPromote e"
      and inactive: "\<not> list_ex isActive (findByStrategy (pr_db st) (sc_id s))"
      and d: "createDeployment (pe_now env) (pe_newId env (sc_id s)) (sc_id s) 1 promotionReasonText (Some ''system'')
        (Some (nullish (sc_riskPoolLevel s) DEFAULT_RISK_LEVEL)) (pr_db st) = Inr (d, db')" by blast
    note c = created_fields [OF d]
    have passes: "evaluateGates True (pe_runs env) db (sc_id s) = Inr e"
      using e by (cases "pe_auditOk env (sc_id s)") (auto simp: evaluateGates_def Let_def split: option.splits)
    have "pr_db (promoteStrategy env st s) = db'"
      "pr_approved (promoteStrategy env st s) = pr_approved st + 1" "pr_evaluated (promoteStrategy env st s) = pr_evaluated st + 1"
      "\<exists>q. pr_queue (promoteStrategy env st s) = pr_queue st @ q \<and> (\<forall>j \<in> set q. aj_deploymentId j = dp_id d \<and> aj_delay j = DELAY_24H)"
      using e d inactive by (auto simp: promoteStrategy_def gates Let_def)
    moreover have "db' = db\<lparr>db_deployments := db_deployments db @ new @ [d]\<rparr>" using c(2) st(1) by simp
    moreover have "\<forall>j \<in> set (pr_queue st). aj_deploymentId j \<in> dp_id ` set new" using st(4) by blast
    ultimately show ?thesis using st(2,3,5,6) c(3-6) passes e(2) unfolding run_ok_def by (auto intro!: exI [of _ "new @ [d]"])
  qed
qed

text \<open>C21. A run of the daily task adds, for validated strategies that the gates promote, deployments of one percent that wait for
  approval; it activates none of them, queues the activation of new deployments only, a day later, and it looks
  at every validated strategy once.\<close>

theorem promotion_run_only_proposes:
  fixes env :: PromotionEnv and db :: DeploymentDb
  defines "r \<equiv> schedulePromotionEvaluation env db"
  shows "\<exists>new. pr_db r = db\<lparr>db_deployments := db_deployments db @ new\<rparr> \<and> length new = pr_approved r \<and>
    (\<forall>d \<in> set new. dp_status d = DS_PENDING_APPROVAL \<and> dp_allocationPercent d = 1 \<and>
       (\<exists>s \<in> set (db_strategies db). dp_strategyConfigId d = sc_id s \<and> sc_status s = SS_VALIDATED) \<and>
       (\<exists>e. evaluateGates True (pe_runs env) db (dp_strategyConfigId d) = Inr e \<and> ge_canPromote e)) \<and>
    aj_deploymentId ` set (pr_queue r) \<subseteq> dp_id ` set new \<and> (\<forall>j \<in> set (pr_queue r). aj_delay j = 24 * 60 * 60 * 1000) \<and>
    pr_evaluated r = length (filter (\<lambda>s. sc_status s = SS_VALIDATED) (db_strategies db))"
proof -
  have run: "run_ok env db (ss @ ts) (foldl (promoteStrategy env) st ts)" if "run_ok env db ss st" for ss ts st
    using that
  proof (induction ts arbitrary: ss st)
    case (Cons t ts)
    then show ?case using Cons.IH [of "ss @ [t]"] promote_run_ok by simp
  qed simp
  let ?start = "\<lparr>pr_db = db, pr_queue = [], pr_evaluated = 0, pr_approved = 0, pr_rejected = 0, pr_errors = 0\<rparr>"
  have "run_ok env db [] ?start" by (simp add: run_ok_def)
  then have "run_ok env db (filter (\<lambda>s. sc_status s = SS_VALIDATED) (db_strategies db)) r"
    using run [of "[]" ?start "filter (\<lambda>s. sc_status s = SS_VALIDATED) (db_strategies db)"]
    by (simp add: r_def schedulePromotionEvaluation_def)
  then show ?thesis unfolding run_ok_def DELAY_24H_def by fastforce
qed

section \<open>Witnesses\<close>

definition sample_run :: BacktestRun where
  "sample_run = \<lparr>br_strategyConfigId = ''s'', br_createdAt = 0, br_results = Some \<lparr>rr_totalTrades = Some 30, rr_maxDrawdown = None,
     rr_totalReturn = Some 1, rr_volatility = Some 9\<rparr>\<rparr>"

text \<open>A strategy without a recorded drawdown and with an extreme volatility is promoted.\<close>

theorem promotion_is_exact_witness:
  "\<exists>evaluation. evaluateGates True [sample_run] (sample_db DS_ACTIVE) ''s'' = Inr evaluation \<and> ge_canPromote evaluation"
proof -
  have "latestBy st_calculatedAt (filter (\<lambda>s. st_strategyConfigId s = ''s'') (db_scores (sample_db DS_ACTIVE))) = Some (sample_score 1)"
    "latestBy br_createdAt (filter (\<lambda>r. br_strategyConfigId r = ''s'') [sample_run]) = Some sample_run"
    by (simp_all add: latestBy_def sample_db_def sample_score_def sample_run_def)
  from promotion_is_exact [OF this] show ?thesis
    by (auto simp: sample_score_def sample_run_def resultOr0_def componentOr0_def sample_db_def countActive_def isActive_def sample_deployment_def)
qed

definition sample_promotion_env :: PromotionEnv where
  "sample_promotion_env = \<lparr>pe_now = 5, pe_runs = [sample_run], pe_auditOk = (\<lambda>_. True), pe_queueOk = (\<lambda>_. True), pe_newId = (\<lambda>s. CHR ''n'' # s)\<rparr>"


theorem promotion_run_only_proposes_witness:
  "pr_evaluated (schedulePromotionEvaluation sample_promotion_env (sample_db DS_PAUSED)) = 1 \<and>
   (\<exists>new. db_deployments (pr_db (schedulePromotionEvaluation sample_promotion_env (sample_db DS_PAUSED))) =
     sample_deployment DS_PAUSED # new \<and> list_all (\<lambda>d. dp_status d = DS_PENDING_APPROVAL) new)"
proof -
  obtain new where new: "pr_db (schedulePromotionEvaluation sample_promotion_env (sample_db DS_PAUSED)) =
      (sample_db DS_PAUSED)\<lparr>db_deployments := db_deployments (sample_db DS_PAUSED) @ new\<rparr>"
    "\<forall>d \<in> set new. dp_status d = DS_PENDING_APPROVAL"
    "pr_evaluated (schedulePromotionEvaluation sample_promotion_env (sample_db DS_PAUSED)) =
      length (filter (\<lambda>s. sc_status s = SS_VALIDATED) (db_strategies (sample_db DS_PAUSED)))"
    using promotion_run_only_proposes [of sample_promotion_env "sample_db DS_PAUSED"] by blast
  have "db_deployments (sample_db DS_PAUSED) = [sample_deployment DS_PAUSED]" "db_strategies (sample_db DS_PAUSED) = [sample_strategy]"
    by (simp_all add: sample_db_def)
  then show ?thesis using new by (intro conjI exI [of _ new]) (simp_all add: sample_strategy_def list_all_iff)
qed

end
