(* ===== verification/LiveOrders.thy ===== *)
theory LiveOrders
  imports OrderStateMachine EntryGates "HOL-Library.Multiset"
begin

text \<open>
  The rows of live orders (\<^verbatim>\<open>order/services/order-calculation.service.ts\<close>, \<^verbatim>\<open>order/utils/order-mapping.util.ts\<close>,
  \<^verbatim>\<open>order/services/order-sync.service.ts\<close>, \<^verbatim>\<open>placeAlgorithmicOrder\<close> of \<^verbatim>\<open>order/order.service.ts\<close>): what is read from
  an order of an exchange, the merge of trades into orders, the update and the creation of rows, and the
  orders that strategies place.

  An order of the exchange is the record that the client library returns: every field may be missing. A text that
  the sources read with \<^verbatim>\<open>parseFloat\<close> is the number it reads, \<open>None\<close> when it is no number; an empty text is
  missing. Coins and exchanges of a row are left out, as is the copy of the raw order.
\<close>

section \<open>Orders of an exchange\<close>

type_synonym number_text = "number option"

record CcxtFee =
  fe_cost :: "number option"
  fe_currency :: "string option"

record ExchangeFill =
  fl_commission :: "number_text option"
  fl_commissionAsset :: "string option"

record CcxtInfo =
  ci_price :: "number_text option"
  ci_cummulativeQuoteQty :: "number_text option"
  ci_executedQty :: "number_text option"
  ci_commission :: "number_text option"
  ci_commissionAsset :: "string option"
  ci_fills :: "ExchangeFill list option"
  ci_triggerPrice :: "number_text option"
  ci_takeProfitPrice :: "number_text option"
  ci_stopLossPrice :: "number_text option"
  ci_updateTime :: "time_ms option"
  ci_marginMode :: "string option"
  ci_marginType :: "string option"
  ci_positionSide :: "string option"
  ci_leverage :: "number option"
  ci_liquidationPrice :: "number option"
  ci_initialMargin :: "number option"

record CcxtTrade =
  ct_id :: "string option"
  ct_order :: "string option"
  ct_symbol :: "string option"
  ct_timestamp :: "time_ms option"
  ct_side :: "string option"
  ct_amount :: "number option"
  ct_price :: "number option"
  ct_cost :: "number option"
  ct_fee :: "CcxtFee option"
  ct_info :: "CcxtInfo option"

record CcxtOrder =
  co_id :: string
  co_clientOrderId :: "string option"
  co_timestamp :: time_ms
  co_lastTradeTimestamp :: "time_ms option"
  co_symbol :: string
  co_type :: "string option"
  co_side :: "string option"
  co_status :: "string option"
  co_amount :: "number option"
  co_price :: "number option"
  co_average :: "number option"
  co_filled :: "number option"
  co_remaining :: "number option"
  co_cost :: "number option"
  co_stopPrice :: "number option"
  co_timeInForce :: "string option"
  co_postOnly :: "bool option"
  co_reduceOnly :: "bool option"
  co_fee :: "CcxtFee option"
  co_trades :: "CcxtTrade list"
  co_info :: "CcxtInfo option"

text \<open>\<^verbatim>\<open>x && x > 0\<close>, and \<^verbatim>\<open>x || d\<close> for a number and for a text.\<close>

definition positive :: "number option \<Rightarrow> bool" where
  "positive v = (case v of None \<Rightarrow> False | Some x \<Rightarrow> x > 0)"

definition numOr :: "number option \<Rightarrow> number \<Rightarrow> number" where
  "numOr v d = (if truthy v then the v else d)"

definition textOr :: "string option \<Rightarrow> string \<Rightarrow> string" where
  "textOr v d = (case v of None \<Rightarrow> d | Some s \<Rightarrow> if s = '''' then d else s)"

definition firstText :: "string option \<Rightarrow> string option \<Rightarrow> string option" where
  "firstText v w = (case v of None \<Rightarrow> w | Some s \<Rightarrow> if s = '''' then w else v)"

text \<open>A field of the raw order, read as a number.\<close>

definition infoNumber :: "(CcxtInfo \<Rightarrow> number_text option) \<Rightarrow> CcxtOrder \<Rightarrow> number option" where
  "infoNumber field ord = Option.bind (Option.bind (co_info ord) field) id"

section \<open>Prices, costs and fees\<close>

definition calculateWeightedAveragePrice :: "CcxtTrade list \<Rightarrow> number" where
  "calculateWeightedAveragePrice trades =
     (let (totalValue, totalAmount) = foldl (\<lambda>(totalValue, totalAmount) t.
            if truthy (ct_amount t) \<and> truthy (ct_price t)
            then (totalValue + the (ct_amount t) * the (ct_price t), totalAmount + the (ct_amount t))
            else (totalValue, totalAmount)) (0, 0) trades
      in if totalAmount > 0 then totalValue / totalAmount else 0)"

definition calculateTotalCostFromTrades :: "CcxtTrade list \<Rightarrow> number" where
  "calculateTotalCostFromTrades trades =
     foldl (\<lambda>sum t. if truthy (ct_amount t) \<and> truthy (ct_price t) then sum + the (ct_amount t) * the (ct_price t) else sum) 0 trades"

definition isBinanceMarketOrder :: "CcxtOrder \<Rightarrow> bool" where
  "isBinanceMarketOrder ord \<longleftrightarrow> co_type ord = Some ''market'' \<and>
     Option.bind (co_info ord) ci_cummulativeQuoteQty \<noteq> None \<and> Option.bind (co_info ord) ci_executedQty \<noteq> None"

definition calculateBinanceMarketPrice :: "CcxtOrder \<Rightarrow> number" where
  "calculateBinanceMarketPrice ord =
     (let quoteQty = infoNumber ci_cummulativeQuoteQty ord; execQty = infoNumber ci_executedQty ord
      in if positive quoteQty \<and> positive execQty then the quoteQty / the execQty else 0)"

definition calculateOrderPrice :: "CcxtOrder \<Rightarrow> number" where
  "calculateOrderPrice ord =
     (if positive (co_average ord) then the (co_average ord)
      else if positive (co_price ord) then the (co_price ord)
      else if truthy (co_cost ord) \<and> positive (co_amount ord) then the (co_cost ord) / the (co_amount ord)
      else if positive (infoNumber ci_price ord) then the (infoNumber ci_price ord)
      else if length (co_trades ord) > 0 then calculateWeightedAveragePrice (co_trades ord)
      else if isBinanceMarketOrder ord then calculateBinanceMarketPrice ord
      else 0)"

definition calculateOrderCost :: "CcxtOrder \<Rightarrow> number" where
  "calculateOrderCost ord =
     (if positive (co_cost ord) then the (co_cost ord)
      else if positive (co_filled ord) \<and> positive (co_average ord) then the (co_filled ord) * the (co_average ord)
      else if positive (co_amount ord) \<and> positive (co_price ord) then the (co_amount ord) * the (co_price ord)
      else if positive (infoNumber ci_cummulativeQuoteQty ord) then the (infoNumber ci_cummulativeQuoteQty ord)
      else if length (co_trades ord) > 0 then calculateTotalCostFromTrades (co_trades ord)
      else let price = calculateOrderPrice ord; amount = numOr (co_filled ord) (numOr (co_amount ord) 0)
           in if price > 0 \<and> amount > 0 then price * amount else 0)"

record FeeData =
  fd_fee :: number
  fd_commission :: number
  fd_feeCurrency :: "string option"

definition extractFeesFromTrades :: "CcxtTrade list \<Rightarrow> FeeData" where
  "extractFeesFromTrades trades =
     foldl (\<lambda>acc t. case ct_fee t of
         None \<Rightarrow> acc
       | Some f \<Rightarrow> acc\<lparr>fd_fee := fd_fee acc + numOr (fe_cost f) 0, fd_feeCurrency := firstText (fd_feeCurrency acc) (fe_currency f)\<rparr>)
       \<lparr>fd_fee = 0, fd_commission = 0, fd_feeCurrency = None\<rparr> trades"

text \<open>A commission that is no number makes the sum of the fills no number: the sum and the fee are then \<open>None\<close>.\<close>

record InfoFeeData =
  if_fee :: "number option"
  if_commission :: "number option"
  if_feeCurrency :: "string option"

definition addFill :: "number option \<times> string option \<Rightarrow> ExchangeFill \<Rightarrow> number option \<times> string option" where
  "addFill acc fill =
     (case fl_commission fill of
        None \<Rightarrow> acc
      | Some c \<Rightarrow> (case (fst acc, c) of (Some x, Some y) \<Rightarrow> Some (x + y) | _ \<Rightarrow> None,
                 firstText (snd acc) (fl_commissionAsset fill)))"

definition extractFeeFromOrderInfo :: "CcxtInfo \<Rightarrow> InfoFeeData" where
  "extractFeeFromOrderInfo info =
     (let (commission, feeCurrency) = (case ci_commission info of
            Some (Some c) \<Rightarrow> (c, ci_commissionAsset info)
          | _ \<Rightarrow> (0, None))
      in case ci_fills info of
           None \<Rightarrow> \<lparr>if_fee = Some 0, if_commission = Some commission, if_feeCurrency = feeCurrency\<rparr>
         | Some fills \<Rightarrow>
             let (sum, currency) = foldl addFill (Some commission, feeCurrency) fills
             in \<lparr>if_fee = map_option (max 0) sum, if_commission = sum, if_feeCurrency = currency\<rparr>)"

definition extractFeeData :: "CcxtOrder \<Rightarrow> FeeData" where
  "extractFeeData ord =
     (let fromOrder = (case co_fee ord of
            Some f \<Rightarrow> if truthy (fe_cost f)
              then \<lparr>fd_fee = the (fe_cost f), fd_commission = 0, fd_feeCurrency = fe_currency f\<rparr>
              else \<lparr>fd_fee = 0, fd_commission = 0, fd_feeCurrency = None\<rparr>
          | None \<Rightarrow> \<lparr>fd_fee = 0, fd_commission = 0, fd_feeCurrency = None\<rparr>);
          fromTrades = (if length (co_trades ord) > 0
            then let t = extractFeesFromTrades (co_trades ord)
                 in \<lparr>fd_fee = max (fd_fee fromOrder) (fd_fee t), fd_commission = max (fd_commission fromOrder) (fd_commission t),
                     fd_feeCurrency = firstText (fd_feeCurrency fromOrder) (fd_feeCurrency t)\<rparr>
            else fromOrder)
      in case co_info ord of
           None \<Rightarrow> fromTrades
         | Some info \<Rightarrow>
             let i = extractFeeFromOrderInfo info
             in case (if_fee i, if_commission i) of
                  (Some fee, Some commission) \<Rightarrow>
                    if fee > 0
                    then \<lparr>fd_fee = max (fd_fee fromTrades) fee, fd_commission = max (fd_commission fromTrades) commission,
                          fd_feeCurrency = firstText (fd_feeCurrency fromTrades) (if_feeCurrency i)\<rparr>
                    else fromTrades
                | _ \<Rightarrow> fromTrades)"

definition calculateGainLoss :: "CcxtOrder \<Rightarrow> FeeData \<Rightarrow> number option" where
  "calculateGainLoss ord feeData =
     (if co_side ord = Some ''sell'' \<and> truthy (co_cost ord) \<and> fd_fee feeData \<noteq> 0
      then Some (the (co_cost ord) - fd_fee feeData) else None)"

section \<open>Names\<close>

datatype OrderKind = OK_MARKET | OK_LIMIT | OK_STOP_LOSS | OK_STOP_LIMIT | OK_TRAILING_STOP | OK_TAKE_PROFIT | OK_OCO

definition mapCcxtStatusToOrderStatus :: "string \<Rightarrow> OrderStatus" where
  "mapCcxtStatusToOrderStatus ccxtStatus =
     (if ccxtStatus = ''open'' then NEW else if ccxtStatus = ''closed'' then FILLED else if ccxtStatus = ''canceled'' then CANCELED
      else if ccxtStatus = ''expired'' then EXPIRED else if ccxtStatus = ''rejected'' then REJECTED else NEW)"

definition mapExchangeStatusToOrderStatus :: "string option \<Rightarrow> OrderStatus" where
  "mapExchangeStatusToOrderStatus exchangeStatus =
     (let status = toLowerCase (textOr exchangeStatus '''')
      in if status = ''open'' then NEW else if status = ''closed'' then FILLED
         else if status = ''canceled'' \<or> status = ''cancelled'' then CANCELED
         else if status = ''expired'' then EXPIRED else if status = ''rejected'' then REJECTED
         else if status = ''partial'' \<or> status = ''partially_filled'' then PARTIALLY_FILLED else NEW)"

definition mapCcxtOrderTypeToOrderType :: "string \<Rightarrow> OrderKind" where
  "mapCcxtOrderTypeToOrderType ccxtType =
     (let t = toLowerCase ccxtType
      in if t = ''limit'' then OK_LIMIT else if t = ''market'' then OK_MARKET
         else if t = ''stop'' \<or> t = ''stop_loss'' then OK_STOP_LOSS
         else if t = ''stop_limit'' \<or> t = ''stop_loss_limit'' then OK_STOP_LIMIT
         else if t = ''take_profit'' \<or> t = ''take_profit_limit'' then OK_TAKE_PROFIT
         else if t = ''trailing_stop'' then OK_TRAILING_STOP else OK_MARKET)"

definition isUpperOrDigit :: "char \<Rightarrow> bool" where
  "isUpperOrDigit c = (let n = of_char c :: nat in 65 \<le> n \<and> n \<le> 90 \<or> isDigit c)"

text \<open>
  The two parts of a symbol. The pattern \<^verbatim>\<open>^([A-Z0-9]{3,})([A-Z0-9]{3,})$\<close> is greedy: its first group takes all but
  the last three characters.
\<close>

definition extractCoinSymbol :: "string \<Rightarrow> string \<times> string" where
  "extractCoinSymbol marketSymbol =
     (if CHR ''/'' \<in> set marketSymbol
      then (toUpperCase (takeWhile (\<lambda>c. c \<noteq> CHR ''/'') marketSymbol),
            toUpperCase (takeWhile (\<lambda>c. c \<noteq> CHR ''/'') (tl (dropWhile (\<lambda>c. c \<noteq> CHR ''/'') marketSymbol))))
      else if length marketSymbol \<ge> 6 \<and> list_all isUpperOrDigit marketSymbol
      then (toUpperCase (take (length marketSymbol - 3) marketSymbol), toUpperCase (drop (length marketSymbol - 3) marketSymbol))
      else (toUpperCase marketSymbol, ''''))"

section \<open>Trades and orders\<close>

text \<open>The keys of the groups; a trade without an order is keyed by its symbol, time and side.\<close>

datatype TradeGroupKey = ByOrder string | ByTrade "string option" "time_ms option" "string option"

definition groupKey :: "CcxtTrade \<Rightarrow> TradeGroupKey" where
  "groupKey t = (case ct_order t of
      Some i \<Rightarrow> if i = '''' then ByTrade (ct_symbol t) (ct_timestamp t) (ct_side t) else ByOrder i
    | None \<Rightarrow> ByTrade (ct_symbol t) (ct_timestamp t) (ct_side t))"

definition groupTrade :: "(TradeGroupKey, CcxtTrade list) jsmap \<Rightarrow> CcxtTrade \<Rightarrow> (TradeGroupKey, CcxtTrade list) jsmap" where
  "groupTrade groups t = map_set (groupKey t) (nullish (map_get groups (groupKey t)) [] @ [t]) groups"

definition mergeFee :: "CcxtFee \<Rightarrow> CcxtTrade \<Rightarrow> CcxtFee" where
  "mergeFee acc t = (case ct_fee t of
      Some f \<Rightarrow> \<lparr>fe_cost = Some (numOr (fe_cost acc) 0 + numOr (fe_cost f) 0),
               fe_currency = (case fe_currency f of None \<Rightarrow> fe_currency acc | Some c \<Rightarrow> Some c)\<rparr>
    | None \<Rightarrow> acc)"

definition emptyInfo :: CcxtInfo where
  "emptyInfo = \<lparr>ci_price = None, ci_cummulativeQuoteQty = None, ci_executedQty = None, ci_commission = None, ci_commissionAsset = None,
     ci_fills = None, ci_triggerPrice = None, ci_takeProfitPrice = None, ci_stopLossPrice = None, ci_updateTime = None,
     ci_marginMode = None, ci_marginType = None, ci_positionSide = None, ci_leverage = None, ci_liquidationPrice = None,
     ci_initialMargin = None\<rparr>"

text \<open>The identifier of a group: its order, or \<^verbatim>\<open>trade_\<close> and its key, which the text of the key is an argument for.\<close>

definition syntheticOrder :: "(TradeGroupKey \<Rightarrow> string) \<Rightarrow> TradeGroupKey \<times> CcxtTrade list \<Rightarrow> CcxtOrder" where
  "syntheticOrder keyText grp =
     (let (key, groupTrades) = grp;
          firstTrade = hd groupTrades;
          totalAmount = foldl (\<lambda>sum t. sum + numOr (ct_amount t) 0) 0 groupTrades;
          totalCost = foldl (\<lambda>sum t. sum + numOr (ct_cost t) 0) 0 groupTrades;
          weightedPrice = (if totalCost > 0 \<and> totalAmount > 0 then totalCost / totalAmount else numOr (ct_price firstTrade) 0)
      in \<lparr>co_id = textOr (ct_order firstTrade) (''trade_'' @ keyText key),
          co_clientOrderId = firstText (ct_order firstTrade) None,
          co_timestamp = nullish (ct_timestamp firstTrade) 0,
          co_lastTradeTimestamp = Some (Max (set (map (\<lambda>t. nullish (ct_timestamp t) 0) groupTrades))),
          co_symbol = nullish (ct_symbol firstTrade) '''', co_type = Some ''market'', co_side = ct_side firstTrade,
          co_status = Some ''closed'', co_amount = Some totalAmount, co_price = Some weightedPrice,
          co_average = Some weightedPrice, co_filled = Some totalAmount, co_remaining = Some 0, co_cost = Some totalCost,
          co_stopPrice = None, co_timeInForce = None, co_postOnly = Some False, co_reduceOnly = Some False,
          co_fee = Some (foldl mergeFee \<lparr>fe_cost = Some 0, fe_currency = None\<rparr> groupTrades),
          co_trades = groupTrades, co_info = Some (nullish (ct_info firstTrade) emptyInfo)\<rparr>)"

definition convertTradesToOrders :: "(TradeGroupKey \<Rightarrow> string) \<Rightarrow> CcxtTrade list \<Rightarrow> CcxtOrder list \<times> nat" where
  "convertTradesToOrders keyText trades =
     (map (syntheticOrder keyText) (foldl groupTrade [] trades), length trades)"

section \<open>Fields of a row\<close>

record AlgorithmicFields =
  af_timeInForce :: "string option"
  af_stopPrice :: "number option"
  af_triggerPrice :: "number option"
  af_takeProfitPrice :: "number option"
  af_stopLossPrice :: "number option"
  af_remaining :: "number option"
  af_postOnly :: "bool option"
  af_reduceOnly :: "bool option"
  af_lastTradeTimestamp :: "time_ms option"
  af_lastUpdateTimestamp :: "time_ms option"
  af_trades :: "CcxtTrade list"

definition positiveOnly :: "number option \<Rightarrow> number option" where
  "positiveOnly v = (if positive v then v else None)"

definition extractAlgorithmicTradingFields :: "CcxtOrder \<Rightarrow> AlgorithmicFields" where
  "extractAlgorithmicTradingFields ord =
     \<lparr>af_timeInForce = firstText (co_timeInForce ord) None,
      af_stopPrice = positiveOnly (co_stopPrice ord),
      af_triggerPrice = positiveOnly (infoNumber ci_triggerPrice ord),
      af_takeProfitPrice = positiveOnly (infoNumber ci_takeProfitPrice ord),
      af_stopLossPrice = positiveOnly (infoNumber ci_stopLossPrice ord),
      af_remaining = (case co_remaining ord of
          Some r \<Rightarrow> Some r
        | None \<Rightarrow> if truthy (co_amount ord) \<and> truthy (co_filled ord) then Some (the (co_amount ord) - the (co_filled ord)) else None),
      af_postOnly = co_postOnly ord,
      af_reduceOnly = co_reduceOnly ord,
      af_lastTradeTimestamp = (if length (co_trades ord) > 0
        then (case ct_timestamp (last (co_trades ord)) of Some t \<Rightarrow> if t \<noteq> 0 then Some t else None | None \<Rightarrow> None) else None),
      af_lastUpdateTimestamp = (case Option.bind (co_info ord) ci_updateTime of Some t \<Rightarrow> if t \<noteq> 0 then Some t else None | None \<Rightarrow> None),
      af_trades = co_trades ord\<rparr>"

record FuturesFields =
  ff_futures :: bool
  ff_positionSide :: "string option"
  ff_leverage :: "number option"
  ff_liquidationPrice :: "number option"
  ff_marginAmount :: "number option"
  ff_marginMode :: "string option"

definition spotFields :: FuturesFields where
  "spotFields = \<lparr>ff_futures = False, ff_positionSide = None, ff_leverage = None, ff_liquidationPrice = None, ff_marginAmount = None,
     ff_marginMode = None\<rparr>"

definition extractFuturesFields :: "CcxtOrder \<Rightarrow> FuturesFields" where
  "extractFuturesFields ord =
     (let info = co_info ord; orderType = nullish (co_type ord) '''';
          isFutures = (Option.bind info ci_marginMode \<noteq> None \<or> orderType = ''swap'' \<or> orderType = ''future'' \<or>
            Option.bind info ci_marginType \<noteq> None \<or> CHR '':'' \<in> set (co_symbol ord))
      in if isFutures
         then \<lparr>ff_futures = True, ff_positionSide = map_option toLowerCase (Option.bind info ci_positionSide),
               ff_leverage = Option.bind info ci_leverage, ff_liquidationPrice = Option.bind info ci_liquidationPrice,
               ff_marginAmount = Option.bind info ci_initialMargin,
               ff_marginMode = map_option toLowerCase (Option.bind info ci_marginMode)\<rparr>
         else spotFields)"

datatype OrderSide = OS_BUY | OS_SELL

record LiveOrder =
  lv_id :: string
  lv_orderId :: string
  lv_clientOrderId :: string
  lv_userId :: string
  lv_symbol :: string
  lv_side :: OrderSide
  lv_type :: OrderKind
  lv_status :: OrderStatus
  lv_quantity :: number
  lv_price :: number
  lv_executedQuantity :: number
  lv_cost :: "number option"
  lv_fee :: number
  lv_commission :: number
  lv_feeCurrency :: "string option"
  lv_gainLoss :: "number option"
  lv_averagePrice :: "number option"
  lv_transactTime :: time_ms
  lv_createdAt :: time_ms
  lv_isAlgorithmicTrade :: bool
  lv_isManual :: bool
  lv_strategyConfigId :: "string option"
  lv_exchangeKeyId :: "string option"
  lv_algorithmic :: "AlgorithmicFields option"
  lv_futures :: FuturesFields

text \<open>
  The amounts of a row are columns with eight decimals (\<^verbatim>\<open>order.entity.ts\<close>): the database rounds what it is given, halves
  away from zero. What a row holds is what it reads back. That a column holds at most twenty digits, and the
  rounding of the columns of futures, are left out.
\<close>

definition decimal8 :: "number \<Rightarrow> number" where
  "decimal8 x = sgn x * of_int \<lfloor>\<bar>x\<bar> * 100000000 + 1 / 2\<rfloor> / 100000000"

definition storedRow :: "LiveOrder \<Rightarrow> LiveOrder" where
  "storedRow x = x\<lparr>lv_quantity := decimal8 (lv_quantity x), lv_price := decimal8 (lv_price x),
     lv_executedQuantity := decimal8 (lv_executedQuantity x), lv_cost := map_option decimal8 (lv_cost x),
     lv_fee := decimal8 (lv_fee x), lv_commission := decimal8 (lv_commission x), lv_gainLoss := map_option decimal8 (lv_gainLoss x),
     lv_averagePrice := map_option decimal8 (lv_averagePrice x)\<rparr>"

section \<open>The sync of orders\<close>

text \<open>
  The table of orders, the history of their status, and the orders whose linked orders were told of a fill
  (\<^verbatim>\<open>handleOcoFill\<close>, whose errors are swallowed).
\<close>

record 'h OrderDb =
  ob_orders :: "LiveOrder list"
  ob_history :: 'h
  ob_ocoFills :: "string list"

definition findExistingOrder :: "'h OrderDb \<Rightarrow> CcxtOrder \<Rightarrow> string \<Rightarrow> LiveOrder option" where
  "findExistingOrder db ord userId = find (\<lambda>x. lv_orderId x = co_id ord \<and> lv_userId x = userId) (ob_orders db)"

definition differs :: "number \<Rightarrow> number \<Rightarrow> bool" where
  "differs x y \<longleftrightarrow> \<bar>x - y\<bar> > 1 / 100000000"

definition differsFrom :: "number option \<Rightarrow> number \<Rightarrow> bool" where
  "differsFrom old new \<longleftrightarrow> \<not> truthy old \<or> differs (the old) new"

text \<open>The row as it is stored with the changes of the exchange, and whether there are any; the status apart. Only what
  changed is written.\<close>

definition withExchangeData :: "LiveOrder \<Rightarrow> CcxtOrder \<Rightarrow> LiveOrder \<times> bool" where
  "withExchangeData old ord =
     (let newExecutedQuantity = numOr (co_filled ord) (numOr (co_amount ord) 0);
          feeData = extractFeeData ord;
          newPrice = calculateOrderPrice ord;
          newCost = calculateOrderCost ord;
          newAveragePrice = numOr (co_average ord) 0;
          quantityChanged = (lv_executedQuantity old \<noteq> newExecutedQuantity);
          priceChanged = differs (lv_price old) newPrice;
          feeChanged = (fd_fee feeData > 0 \<and> lv_fee old \<noteq> fd_fee feeData);
          costChanged = (newCost > 0 \<and> differsFrom (lv_cost old) newCost);
          averageChanged = (newAveragePrice \<noteq> 0 \<and> differsFrom (lv_averagePrice old) newAveragePrice)
      in (old\<lparr>lv_executedQuantity := (if quantityChanged then decimal8 newExecutedQuantity else lv_executedQuantity old),
              lv_price := (if priceChanged then decimal8 newPrice else lv_price old),
              lv_fee := (if feeChanged then decimal8 (fd_fee feeData) else lv_fee old),
              lv_commission := (if feeChanged then decimal8 (fd_commission feeData) else lv_commission old),
              lv_feeCurrency := (if feeChanged then firstText (fd_feeCurrency feeData) (lv_feeCurrency old) else lv_feeCurrency old),
              lv_cost := (if costChanged then Some (decimal8 newCost) else lv_cost old),
              lv_averagePrice := (if averageChanged then Some (decimal8 newAveragePrice) else lv_averagePrice old)\<rparr>,
          quantityChanged \<or> priceChanged \<or> feeChanged \<or> costChanged \<or> averageChanged))"

text \<open>The metadata of the transition only describes it and is left out.\<close>

definition updateExistingOrder ::
    "('h, 'err) history_save \<Rightarrow> LiveOrder \<Rightarrow> CcxtOrder \<Rightarrow> 'h OrderDb \<Rightarrow> ('err + bool) \<times> 'h OrderDb" where
  "updateExistingOrder save old ord db =
     (let newStatus = mapCcxtStatusToOrderStatus (nullish (co_status ord) ''open'');
          (transition, history) =
            (if lv_status old \<noteq> newStatus
             then (let (r, h) = transitionStatus save (lv_id old) (Some (lv_status old)) newStatus EXCHANGE_SYNC None (ob_history db)
                   in (map_sum id (\<lambda>_. ()) r, h))
             else (Inr (), ob_history db));
          db = db\<lparr>ob_history := history\<rparr>
      in case transition of
           Inl err \<Rightarrow> (Inl err, db)
         | Inr _ \<Rightarrow>
             (let (row, changed) = withExchangeData old ord;
                  new = row\<lparr>lv_status := newStatus\<rparr>
              in if lv_status old \<noteq> newStatus \<or> changed
                 then (Inr True, db\<lparr>ob_orders := map (\<lambda>x. if lv_id x = lv_id old then new else x) (ob_orders db),
                        ob_ocoFills := (if lv_status old \<noteq> FILLED \<and> newStatus = FILLED then ob_ocoFills db @ [lv_id old]
                                        else ob_ocoFills db)\<rparr>)
                 else (Inr False, db)))"

text \<open>
  A new row, which is not a trade of a strategy. The lookup of its coin may throw, and then no row is made; the
  identifier of the row and the time are arguments.
\<close>

definition newOrderRow :: "string \<Rightarrow> time_ms \<Rightarrow> string \<Rightarrow> CcxtOrder \<Rightarrow> LiveOrder" where
  "newOrderRow newId now userId ord =
     (let price = calculateOrderPrice ord; feeData = extractFeeData ord; cost = calculateOrderCost ord
      in \<lparr>lv_id = newId, lv_orderId = co_id ord, lv_clientOrderId = textOr (co_clientOrderId ord) (co_id ord), lv_userId = userId,
          lv_symbol = co_symbol ord, lv_side = (if co_side ord = Some ''buy'' then OS_BUY else OS_SELL),
          lv_type = mapCcxtOrderTypeToOrderType (nullish (co_type ord) ''market''),
          lv_status = mapCcxtStatusToOrderStatus (nullish (co_status ord) ''open''), lv_quantity = numOr (co_amount ord) 0,
          lv_price = price, lv_executedQuantity = numOr (co_filled ord) 0, lv_cost = (if cost > 0 then Some cost else None),
          lv_fee = fd_fee feeData, lv_commission = fd_commission feeData, lv_feeCurrency = fd_feeCurrency feeData,
          lv_gainLoss = calculateGainLoss ord feeData, lv_averagePrice = co_average ord, lv_transactTime = co_timestamp ord,
          lv_createdAt = now, lv_isAlgorithmicTrade = False, lv_isManual = False, lv_strategyConfigId = None,
          lv_exchangeKeyId = None, lv_algorithmic = Some (extractAlgorithmicTradingFields ord),
          lv_futures = extractFuturesFields ord\<rparr>)"

definition createNewOrder :: "(string \<Rightarrow> bool) \<Rightarrow> string \<Rightarrow> time_ms \<Rightarrow> string \<Rightarrow> CcxtOrder \<Rightarrow> 'h OrderDb \<Rightarrow> bool \<times> 'h OrderDb" where
  "createNewOrder coinLookupOk newId now userId ord db =
     (if coinLookupOk (fst (extractCoinSymbol (co_symbol ord)))
      then (True, db\<lparr>ob_orders := ob_orders db @ [storedRow (newOrderRow newId now userId ord)]\<rparr>)
      else (False, db))"

record SyncEnv =
  se_now :: time_ms
  se_newId :: "string \<Rightarrow> string"
  se_coinLookupOk :: "string \<Rightarrow> bool"

definition saveExchangeOrder ::
    "('h, 'err) history_save \<Rightarrow> SyncEnv \<Rightarrow> string \<Rightarrow> nat \<times> 'h OrderDb \<Rightarrow> CcxtOrder \<Rightarrow> nat \<times> 'h OrderDb" where
  "saveExchangeOrder save env userId st ord =
     (let (savedCount, db) = st
      in case findExistingOrder db ord userId of
           Some existing \<Rightarrow> (savedCount, snd (updateExistingOrder save existing ord db))
         | None \<Rightarrow>
             let (saved, db') = createNewOrder (se_coinLookupOk env) (se_newId env (co_id ord)) (se_now env) userId ord db
             in (if saved then savedCount + 1 else savedCount, db'))"

definition saveExchangeOrders ::
    "('h, 'err) history_save \<Rightarrow> SyncEnv \<Rightarrow> string \<Rightarrow> CcxtOrder list \<Rightarrow> 'h OrderDb \<Rightarrow> nat \<times> 'h OrderDb" where
  "saveExchangeOrders save env userId orders db = foldl (saveExchangeOrder save env userId) (0, db) orders"

text \<open>The items with a new identifier that is not empty.\<close>

definition removeDuplicates :: "('a \<Rightarrow> string) \<Rightarrow> 'a list \<Rightarrow> 'a list" where
  "removeDuplicates getId items =
     snd (foldl (\<lambda>(seen, unique) item. let i = getId item
        in if i \<noteq> '''' \<and> i \<notin> seen then (insert i seen, unique @ [item]) else (seen, unique)) ({}, []) items)"

text \<open>
  One exchange of a user: its orders are saved, then the orders that its trades make. What the client returns for every
  active market is an argument, \<open>None\<close> where the client has not the call or the call fails as a whole.
\<close>

definition syncOrdersForExchange ::
    "('h, 'err) history_save \<Rightarrow> SyncEnv \<Rightarrow> (TradeGroupKey \<Rightarrow> string) \<Rightarrow> string \<Rightarrow> CcxtOrder list list option \<Rightarrow> CcxtTrade list list option \<Rightarrow>
      'h OrderDb \<Rightarrow> nat \<times> 'h OrderDb" where
  "syncOrdersForExchange save env keyText userId fetchedOrders fetchedTrades db =
     (let newOrders = removeDuplicates co_id (concat (nullish fetchedOrders []));
          (n1, db1) = (if length newOrders > 0 then saveExchangeOrders save env userId newOrders db else (0, db));
          newTrades = removeDuplicates (\<lambda>t. nullish (ct_id t) '''') (concat (nullish fetchedTrades []));
          (syntheticOrders, tradeCount) = convertTradesToOrders keyText newTrades;
          (n2, db2) = (if length newTrades > 0 \<and> length syntheticOrders > 0
                       then saveExchangeOrders save env userId syntheticOrders db1 else (0, db1))
      in (n1 + n2, db2))"

section \<open>Orders of strategies\<close>

datatype OrderSizeFault = BelowMinimum number number | AboveMaximum number number | BelowMinimumValue number number

record MarketLimits =
  ml_amountMin :: "number option"
  ml_amountMax :: "number option"
  ml_costMin :: "number option"

definition validateAlgorithmicOrderSize :: "number \<Rightarrow> number \<Rightarrow> MarketLimits \<Rightarrow> OrderSizeFault option" where
  "validateAlgorithmicOrderSize quantity price market =
     (if truthy (ml_amountMin market) \<and> quantity < the (ml_amountMin market)
      then Some (BelowMinimum quantity (the (ml_amountMin market)))
      else if truthy (ml_amountMax market) \<and> quantity > the (ml_amountMax market)
      then Some (AboveMaximum quantity (the (ml_amountMax market)))
      else if truthy (ml_costMin market) \<and> quantity * price < the (ml_costMin market)
      then Some (BelowMinimumValue (quantity * price) (the (ml_costMin market)))
      else None)"

record StrategyOrderSignal =
  so_buy :: bool
  so_symbol :: string
  so_quantity :: number
  so_price :: number

datatype PlaceFault = KeyNotFound | UnknownMarket string | BadSize OrderSizeFault | ClientFault string

text \<open>
  The key of the exchange, the markets of the client and what it answers to an order are arguments. Every error but
  that of the key is mapped by its class; the class is not modelled.
\<close>

definition placeAlgorithmicOrder ::
    "bool \<Rightarrow> (string \<Rightarrow> MarketLimits option) \<Rightarrow> (StrategyOrderSignal \<Rightarrow> string + CcxtOrder) \<Rightarrow> string \<Rightarrow> time_ms \<Rightarrow> string \<Rightarrow> string \<Rightarrow>
      StrategyOrderSignal \<Rightarrow> string \<Rightarrow> 'h OrderDb \<Rightarrow> PlaceFault + LiveOrder \<times> 'h OrderDb" where
  "placeAlgorithmicOrder keyFound markets createOrder newId now userId strategyConfigId signal exchangeKeyId db =
     (if \<not> keyFound then Inl KeyNotFound
      else case markets (so_symbol signal) of
        None \<Rightarrow> Inl (UnknownMarket (so_symbol signal))
      | Some market \<Rightarrow>
     (case validateAlgorithmicOrderSize (so_quantity signal) (so_price signal) market of
        Some fault \<Rightarrow> Inl (BadSize fault)
      | None \<Rightarrow>
     (case createOrder signal of
        Inl e \<Rightarrow> Inl (ClientFault e)
      | Inr ccxtOrder \<Rightarrow>
          let row = \<lparr>lv_id = newId, lv_orderId = co_id ccxtOrder, lv_clientOrderId = textOr (co_clientOrderId ccxtOrder) (co_id ccxtOrder),
                     lv_userId = userId, lv_symbol = so_symbol signal, lv_side = (if so_buy signal then OS_BUY else OS_SELL),
                     lv_type = OK_MARKET, lv_status = mapExchangeStatusToOrderStatus (Some (textOr (co_status ccxtOrder) ''open'')),
                     lv_quantity = so_quantity signal, lv_price = numOr (co_price ccxtOrder) (numOr (Some (so_price signal)) 0),
                     lv_executedQuantity = numOr (co_filled ccxtOrder) 0, lv_cost = Some (numOr (co_cost ccxtOrder) 0),
                     lv_fee = numOr (Option.bind (co_fee ccxtOrder) fe_cost) 0, lv_commission = 0,
                     lv_feeCurrency = Option.bind (co_fee ccxtOrder) fe_currency, lv_gainLoss = None, lv_averagePrice = None,
                     lv_transactTime = (if co_timestamp ccxtOrder \<noteq> 0 then co_timestamp ccxtOrder else now), lv_createdAt = now,
                     lv_isAlgorithmicTrade = True, lv_isManual = False, lv_strategyConfigId = Some strategyConfigId,
                     lv_exchangeKeyId = Some exchangeKeyId, lv_algorithmic = None, lv_futures = spotFields\<rparr>
          in Inr (row, db\<lparr>ob_orders := ob_orders db @ [storedRow row]\<rparr>))))"


section \<open>What the sync keeps\<close>

lemma decimal8_near: "\<bar>decimal8 x - x\<bar> \<le> 1 / 200000000"
proof -
  let ?n = "of_int \<lfloor>\<bar>x\<bar> * 100000000 + 1 / 2\<rfloor> :: real"
  have "\<bar>?n - \<bar>x\<bar> * 100000000\<bar> \<le> 1 / 2" by linarith
  then have near: "\<bar>?n / 100000000 - \<bar>x\<bar>\<bar> \<le> 1 / 200000000" by (simp add: abs_le_iff field_simps)
  have "decimal8 x - x = sgn x * (?n / 100000000 - \<bar>x\<bar>)"
    using sgn_mult_abs [of x] by (simp add: decimal8_def right_diff_distrib)
  then show ?thesis using near by (simp add: abs_mult abs_sgn_eq)
qed

lemma decimal8_0 [simp]: "decimal8 0 = 0"
  by (simp add: decimal8_def)

lemma decimal8_stored [simp]: "decimal8 (decimal8 x) = decimal8 x"
proof (cases "x = 0")
  case False
  define n where "n = \<lfloor>\<bar>x\<bar> * 100000000 + 1 / 2\<rfloor>"
  have n: "0 \<le> n" unfolding n_def by simp
  have y: "decimal8 x = sgn x * of_int n / 100000000" by (simp add: decimal8_def n_def)
  have "\<bar>decimal8 x\<bar> * 100000000 = of_int n" using n False by (simp add: y abs_mult abs_sgn_eq)
  moreover have "\<lfloor>of_int n + 1 / (2::real)\<rfloor> = n" by linarith
  moreover have "sgn (decimal8 x) * of_int n = sgn x * of_int n" using n by (cases "n = 0") (simp_all add: y sgn_mult)
  ultimately have "decimal8 (decimal8 x) = sgn x * of_int n / 100000000"
    unfolding decimal8_def [of "decimal8 x"] by simp
  then show ?thesis by (rule trans) (rule y [symmetric])
qed simp

lemma not_differs_stored: "\<not> differs (decimal8 x) x"
  using decimal8_near [of x] by (simp add: differs_def)

lemma storedRow_fields [simp]:
  "lv_id (storedRow x) = lv_id x" "lv_orderId (storedRow x) = lv_orderId x" "lv_userId (storedRow x) = lv_userId x"
  "lv_status (storedRow x) = lv_status x" "lv_isAlgorithmicTrade (storedRow x) = lv_isAlgorithmicTrade x"
  "lv_executedQuantity (storedRow x) = decimal8 (lv_executedQuantity x)" "lv_gainLoss (storedRow x) = map_option decimal8 (lv_gainLoss x)"
  by (simp_all add: storedRow_def)

text \<open>The amounts of an order of the exchange that its row can hold: the filled quantity and the fee, which the sync compares
  exactly, have eight decimals, and a cost or an average price does not round to zero.\<close>

definition fits_columns :: "CcxtOrder \<Rightarrow> bool" where
  "fits_columns ord \<longleftrightarrow>
     (let filled = numOr (co_filled ord) (numOr (co_amount ord) 0); fee = fd_fee (extractFeeData ord);
          cost = calculateOrderCost ord; average = numOr (co_average ord) 0
      in decimal8 filled = filled \<and> (fee > 0 \<longrightarrow> decimal8 fee = fee) \<and> (cost > 0 \<longrightarrow> decimal8 cost \<noteq> 0) \<and>
        (average \<noteq> 0 \<longrightarrow> decimal8 average \<noteq> 0))"

lemma withExchangeData_settled:
  "fits_columns ord \<Longrightarrow> \<not> snd (withExchangeData ((fst (withExchangeData old ord))\<lparr>lv_status := s\<rparr>) ord)"
  by (auto simp: withExchangeData_def Let_def differsFrom_def fits_columns_def not_differs_stored)

lemma withExchangeData_unsettled:
  assumes "storedRow old = old" "decimal8 (numOr (co_filled ord) (numOr (co_amount ord) 0)) \<noteq> numOr (co_filled ord) (numOr (co_amount ord) 0)"
  shows "snd (withExchangeData ((fst (withExchangeData old ord))\<lparr>lv_status := s\<rparr>) ord)"
proof -
  have "decimal8 (lv_executedQuantity old) = lv_executedQuantity old"
    using arg_cong [OF assms(1), of lv_executedQuantity] by (simp add: storedRow_def)
  then have "lv_executedQuantity (fst (withExchangeData old ord)) \<noteq> numOr (co_filled ord) (numOr (co_amount ord) 0)"
    using assms(2) by (auto simp: withExchangeData_def Let_def)
  then show ?thesis by (simp add: withExchangeData_def [of "_\<lparr>lv_status := s\<rparr>"] Let_def)
qed


text \<open>The status machine does not hold the sync back: whatever the table of transitions says, a transition that the history can
  record is made, and an order that was filled in part is new again when the exchange still lists it as open.\<close>

lemma sync_overrides_status_machine:
  assumes "co_status ord = Some ''open''" "\<And>h. \<exists>row h'. save h (ob_history db) = (Inr row, h')"
    and "old \<in> set (ob_orders db)" "lv_status old \<noteq> NEW"
  shows "\<not> isValidTransition (Some (lv_status old)) NEW \<and>
    (\<exists>db' new. updateExistingOrder save old ord db = (Inr True, db') \<and> new \<in> set (ob_orders db') \<and> lv_id new = lv_id old \<and> lv_status new = NEW)"
proof -
  have open_new: "mapCcxtStatusToOrderStatus (nullish (co_status ord) ''open'') = NEW" using assms(1) by (simp add: mapCcxtStatusToOrderStatus_def)
  have "\<not> isValidTransition (Some (lv_status old)) NEW"
    using assms(4) by (cases "lv_status old") (simp_all add: isValidTransition_def)
  moreover have "\<exists>db' new. updateExistingOrder save old ord db = (Inr True, db') \<and> new \<in> set (ob_orders db') \<and>
      lv_id new = lv_id old \<and> lv_status new = NEW"
  proof -
    obtain row h' where "save (historyEntry (lv_id old) (Some (lv_status old)) NEW EXCHANGE_SYNC None
        (\<not> isValidTransition (Some (lv_status old)) NEW)) (ob_history db) = (Inr row, h')" using assms(2) by blast
    then obtain t where t: "transitionStatus save (lv_id old) (Some (lv_status old)) NEW EXCHANGE_SYNC None (ob_history db) = (Inr t, h')"
      by (simp add: transitionStatus_def recordTransition_def Let_def)
    define new where "new = (fst (withExchangeData old ord))\<lparr>lv_status := NEW\<rparr>"
    let ?rows = "map (\<lambda>x. if lv_id x = lv_id old then new else x) (ob_orders db)"
    have "updateExistingOrder save old ord db = (Inr True, db\<lparr>ob_history := h', ob_orders := ?rows, ob_ocoFills := ob_ocoFills db\<rparr>)"
      using assms(4) by (simp add: updateExistingOrder_def open_new t new_def Let_def case_prod_unfold)
    moreover have "new \<in> set (ob_orders (db\<lparr>ob_history := h', ob_orders := ?rows, ob_ocoFills := ob_ocoFills db\<rparr>))"
      using assms(3) by force
    moreover have "lv_id new = lv_id old" "lv_status new = NEW" by (simp_all add: new_def withExchangeData_def Let_def)
    ultimately show ?thesis by blast
  qed
  ultimately show ?thesis by blast
qed

text \<open>An open order that is not filled at all is recorded as executed in full: a row of the sync starts with nothing executed,
  and the next sync of the same open order sets the whole amount.\<close>

lemma unfilled_order_recorded_as_executed:
  assumes "co_status ord = Some ''open''" "co_filled ord \<in> {None, Some 0}" "co_amount ord = Some amount" "0 < amount"
    and "ob_orders db = []" "coinLookupOk (fst (extractCoinSymbol (co_symbol ord)))"
  shows "\<exists>db1 db2 row. createNewOrder coinLookupOk i now u ord db = (True, db1) \<and>
    map lv_executedQuantity (ob_orders db1) = [0] \<and> findExistingOrder db1 ord u = Some row \<and>
    updateExistingOrder save row ord db1 = (Inr True, db2) \<and>
    map (\<lambda>x. (lv_status x, lv_executedQuantity x)) (ob_orders db2) = [(NEW, decimal8 amount)]"
proof -
  let ?row = "storedRow (newOrderRow i now u ord)"
  have created: "createNewOrder coinLookupOk i now u ord db = (True, db\<lparr>ob_orders := [?row]\<rparr>)"
    using assms(5,6) by (simp add: createNewOrder_def)
  have row: "lv_executedQuantity ?row = 0" "lv_status ?row = NEW" "lv_orderId ?row = co_id ord" "lv_userId ?row = u" "lv_id ?row = i"
    using assms(1,2) by (auto simp: newOrderRow_def Let_def numOr_def mapCcxtStatusToOrderStatus_def)
  have filled: "numOr (co_filled ord) (numOr (co_amount ord) 0) = amount" using assms(2-4) by (auto simp: numOr_def)
  let ?new = "(fst (withExchangeData ?row ord))\<lparr>lv_status := NEW\<rparr>"
  have new: "snd (withExchangeData ?row ord)" "lv_executedQuantity ?new = decimal8 amount" "lv_id ?new = i"
    using row(1,5) filled assms(4) by (simp_all add: withExchangeData_def Let_def del: storedRow_fields(6))
  have "updateExistingOrder save ?row ord (db\<lparr>ob_orders := [?row]\<rparr>) = (Inr True, db\<lparr>ob_orders := [?new]\<rparr>)"
    using row new assms(1) by (simp add: updateExistingOrder_def mapCcxtStatusToOrderStatus_def Let_def case_prod_unfold)
  moreover have "findExistingOrder (db\<lparr>ob_orders := [?row]\<rparr>) ord u = Some ?row" using row by (simp add: findExistingOrder_def)
  ultimately show ?thesis using created row new by auto
qed

section \<open>Merged trades\<close>

definition tradeFee :: "CcxtTrade \<Rightarrow> number" where
  "tradeFee t = (case ct_fee t of None \<Rightarrow> 0 | Some f \<Rightarrow> numOr (fe_cost f) 0)"

lemma group_keeps_trades:
  "map_wf m \<Longrightarrow> mset (concat (map snd (map_set k (nullish (map_get m k) [] @ [t]) m))) = add_mset t (mset (concat (map snd m)))"
proof (induction m)
  case (Cons a m)
  obtain i v where a: "a = (i, v)" by (cases a)
  have wf: "map_wf m" "i = k \<longrightarrow> map_get m k = None" using Cons.prems
    by (auto simp: map_wf_def a map_get_def map_of_eq_None_iff)
  show ?case
  proof (cases "i = k")
    case True then show ?thesis by (simp add: a map_set_def)
  next
    case False
    then have "map_set k x (a # m) = a # map_set k x m" for x by (simp add: a map_set_def)
    then show ?thesis using Cons.IH wf(1) False by (simp add: a)
  qed
qed (simp add: map_set_def)

lemma grouped_trades:
  "map_wf m \<Longrightarrow> \<forall>g \<in> set m. snd g \<noteq> [] \<Longrightarrow> map_wf (foldl groupTrade m ts) \<and> (\<forall>g \<in> set (foldl groupTrade m ts). snd g \<noteq> []) \<and>
    mset (concat (map snd (foldl groupTrade m ts))) = mset (concat (map snd m)) + mset ts"
proof (induction ts arbitrary: m)
  case (Cons t ts)
  have "\<forall>g \<in> set (groupTrade m t). snd g \<noteq> []"
    using Cons.prems(2) set_map_set [of "groupKey t" "nullish (map_get m (groupKey t)) [] @ [t]" m] by (auto simp: groupTrade_def)
  moreover have "map_wf (groupTrade m t)" using Cons.prems(1) by (simp add: groupTrade_def)
  moreover have "mset (concat (map snd (groupTrade m t))) = add_mset t (mset (concat (map snd m)))"
    unfolding groupTrade_def using Cons.prems(1) by (rule group_keeps_trades)
  ultimately show ?case using Cons.IH [of "groupTrade m t"] by simp
qed simp

lemma foldl_sum_list: "foldl (\<lambda>acc t. acc + f t) a ts = a + (\<Sum>t\<leftarrow>ts. f t)" for a :: number
  by (induction ts arbitrary: a) simp_all

lemma merged_fee: "fe_cost acc = Some c \<Longrightarrow> fe_cost (foldl mergeFee acc ts) = Some (c + (\<Sum>t\<leftarrow>ts. tradeFee t))"
proof (induction ts arbitrary: acc c)
  case (Cons t ts)
  have "fe_cost (mergeFee acc t) = Some (c + tradeFee t)"
    using Cons.prems by (simp add: mergeFee_def tradeFee_def numOr_def split: option.splits)
  then show ?case using Cons.IH by fastforce
qed simp

lemma synthetic_fields:
  "co_trades (syntheticOrder keyText g) = snd g"
  "co_amount (syntheticOrder keyText g) = Some (\<Sum>t\<leftarrow>snd g. numOr (ct_amount t) 0)"
  "co_cost (syntheticOrder keyText g) = Some (\<Sum>t\<leftarrow>snd g. numOr (ct_cost t) 0)"
  "co_filled (syntheticOrder keyText g) = co_amount (syntheticOrder keyText g)"
  "Option.bind (co_fee (syntheticOrder keyText g)) fe_cost = Some (\<Sum>t\<leftarrow>snd g. tradeFee t)"
  by (simp_all add: syntheticOrder_def case_prod_unfold Let_def foldl_sum_list merged_fee)

lemma sum_concat_trades: "(\<Sum>g\<leftarrow>gs. \<Sum>t\<leftarrow>snd g. f t) = (\<Sum>t\<leftarrow>concat (map snd gs). f t)" for f :: "'a \<Rightarrow> number"
  by (induction gs) simp_all

lemma sum_mset_list: "mset xs = mset ys \<Longrightarrow> (\<Sum>t\<leftarrow>xs. f t) = (\<Sum>t\<leftarrow>ys. f t)" for f :: "'a \<Rightarrow> number"
  by (metis mset_map sum_mset_sum_list)

text \<open>C22. Trades become orders without loss: every trade is in one order, the amounts, the costs and the fees of the orders add up
  to those of the trades, and every order is filled by trades of its own.\<close>

theorem trades_become_orders:
  fixes keyText :: "TradeGroupKey \<Rightarrow> string" and trades :: "CcxtTrade list"
  defines "orders \<equiv> fst (convertTradesToOrders keyText trades)"
  shows "mset (concat (map co_trades orders)) = mset trades \<and> (\<forall>x \<in> set orders. co_trades x \<noteq> [] \<and> co_filled x = co_amount x) \<and>
    (\<Sum>x\<leftarrow>orders. the (co_amount x)) = (\<Sum>t\<leftarrow>trades. numOr (ct_amount t) 0) \<and>
    (\<Sum>x\<leftarrow>orders. the (co_cost x)) = (\<Sum>t\<leftarrow>trades. numOr (ct_cost t) 0) \<and>
    (\<Sum>x\<leftarrow>orders. the (Option.bind (co_fee x) fe_cost)) = (\<Sum>t\<leftarrow>trades. tradeFee t)"
proof -
  let ?gs = "foldl groupTrade [] trades"
  have gs: "\<forall>g \<in> set ?gs. snd g \<noteq> []" "mset (concat (map snd ?gs)) = mset trades"
    using grouped_trades [of "[]" trades] by simp_all
  have orders: "orders = map (syntheticOrder keyText) ?gs" by (simp add: orders_def convertTradesToOrders_def)
  have sums: "(\<Sum>g\<leftarrow>?gs. \<Sum>t\<leftarrow>snd g. f t) = (\<Sum>t\<leftarrow>trades. f t)" for f :: "CcxtTrade \<Rightarrow> number"
    unfolding sum_concat_trades using gs(2) by (rule sum_mset_list)
  have "map co_trades orders = map snd ?gs" by (simp add: orders synthetic_fields)
  moreover have "\<forall>x \<in> set orders. co_trades x \<noteq> [] \<and> co_filled x = co_amount x" using gs(1) by (auto simp: orders synthetic_fields)
  ultimately show ?thesis using gs(2) by (simp add: orders synthetic_fields sums comp_def)
qed

section \<open>The losses that the gate sees\<close>

text \<open>A step of the table: the sync of an order of the exchange, an order of a strategy, or what else writes to it (manual orders,
  the orders of hedges and of exits, their cancellation, the retention of old rows). Of the sources only the sync
  writes a gain or a loss, so other rows keep what they have, and new ones have none.\<close>

definition writes_no_gain :: "'h OrderDb \<Rightarrow> 'h OrderDb \<Rightarrow> bool" where
  "writes_no_gain db db' \<longleftrightarrow> (\<forall>x \<in> set (ob_orders db'). lv_gainLoss x = None \<or>
     (\<exists>y \<in> set (ob_orders db). lv_id x = lv_id y \<and> lv_gainLoss x = lv_gainLoss y \<and> lv_isAlgorithmicTrade x = lv_isAlgorithmicTrade y))"

inductive order_step :: "('h, 'err) history_save \<Rightarrow> 'h OrderDb \<Rightarrow> 'h OrderDb \<Rightarrow> bool" for save where
  synced: "order_step save db (snd (saveExchangeOrder save env u (n, db) ord))"
| placed: "placeAlgorithmicOrder found markets create i now u s signal key db = Inr (row, db') \<Longrightarrow> order_step save db db'"
| elsewhere: "writes_no_gain db db' \<Longrightarrow> order_step save db db'"

text \<open>What the daily loss gate reads of a row.\<close>

definition lossOrder :: "LiveOrder \<Rightarrow> LossOrder" where
  "lossOrder x = \<lparr>lo_userId = lv_userId x, lo_isAlgorithmicTrade = lv_isAlgorithmicTrade x, lo_filled = (lv_status x = FILLED),
     lo_side = (if lv_side x = OS_SELL then ''SELL'' else ''BUY''), lo_createdAt = lv_createdAt x, lo_gainLoss = lv_gainLoss x\<rparr>"

definition no_gain :: "LiveOrder \<Rightarrow> bool" where
  "no_gain x \<longleftrightarrow> (lv_isAlgorithmicTrade x \<longrightarrow> lv_gainLoss x = None)"

lemma update_rows:
  "ob_orders (snd (updateExistingOrder save old ord db)) = ob_orders db \<or>
   ob_orders (snd (updateExistingOrder save old ord db)) = map (\<lambda>x. if lv_id x = lv_id old
     then (fst (withExchangeData old ord))\<lparr>lv_status := mapCcxtStatusToOrderStatus (nullish (co_status ord) ''open'')\<rparr> else x) (ob_orders db)"
  by (simp add: updateExistingOrder_def Let_def case_prod_unfold split: sum.split)

lemma withExchangeData_no_gain: "no_gain ((fst (withExchangeData old ord))\<lparr>lv_status := s\<rparr>) \<longleftrightarrow> no_gain old"
  by (simp add: withExchangeData_def Let_def no_gain_def)

lemma order_step_no_gain:
  assumes "order_step save db db'" "list_all no_gain (ob_orders db)"
  shows "list_all no_gain (ob_orders db')"
  using assms
proof cases
  case (synced env u n ord)
  have updated: "list_all no_gain (ob_orders (snd (updateExistingOrder save old ord db)))" if "no_gain old" for old
    using update_rows [of save old ord db] that assms(2) by (auto simp: list_all_iff withExchangeData_no_gain)
  show ?thesis
  proof (cases "findExistingOrder db ord u")
    case None
    then show ?thesis using assms(2) synced
      by (auto simp: saveExchangeOrder_def createNewOrder_def newOrderRow_def no_gain_def Let_def)
  next
    case (Some old)
    then have "no_gain old" using assms(2) by (auto simp: findExistingOrder_def find_Some_iff list_all_length)
    then show ?thesis using updated synced Some by (simp add: saveExchangeOrder_def)
  qed
next
  case (placed found markets create i now u s signal key row)
  then show ?thesis using assms(2)
    by (auto simp: placeAlgorithmicOrder_def Let_def no_gain_def split: option.splits sum.splits if_splits)
next
  case elsewhere
  then show ?thesis using assms(2) by (fastforce simp: writes_no_gain_def no_gain_def list_all_iff)
qed


text \<open>The gain of a sale that the sync imports is what the sale brought in: it is positive whenever the fee is below the proceeds,
  whatever the coins were bought for.\<close>

lemma imported_gain_is_proceeds:
  assumes "lv_gainLoss (newOrderRow i now u ord) = Some gain"
  shows "co_side ord = Some ''sell'' \<and> gain = the (co_cost ord) - fd_fee (extractFeeData ord) \<and>
    (fd_fee (extractFeeData ord) < the (co_cost ord) \<longrightarrow> 0 < gain)"
  using assms by (auto simp: newOrderRow_def calculateGainLoss_def Let_def split: if_splits)

section \<open>Witnesses\<close>

definition sample_ccxt :: CcxtOrder where
  "sample_ccxt = \<lparr>co_id = ''o'', co_clientOrderId = None, co_timestamp = 1, co_lastTradeTimestamp = None, co_symbol = ''ETH/USDT'',
     co_type = Some ''limit'', co_side = Some ''sell'', co_status = Some ''open'', co_amount = Some 2, co_price = Some 10,
     co_average = None, co_filled = Some 0, co_remaining = Some 2, co_cost = Some 20, co_stopPrice = None, co_timeInForce = None,
     co_postOnly = None, co_reduceOnly = None, co_fee = Some \<lparr>fe_cost = Some 1, fe_currency = None\<rparr>, co_trades = [], co_info = None\<rparr>"

definition noHistory :: "(unit, unit) history_save" where
  "noHistory h db = (Inr (OrderStatusHistory.extend h \<lparr>hs_transitionedAt = 0\<rparr>), db)"

definition order_db :: "LiveOrder list \<Rightarrow> unit OrderDb" where
  "order_db rows = \<lparr>ob_orders = rows, ob_history = (), ob_ocoFills = []\<rparr>"

definition filled_row :: LiveOrder where
  "filled_row = (newOrderRow ''i'' 0 ''u'' sample_ccxt)\<lparr>lv_status := PARTIALLY_FILLED\<rparr>"

lemma noHistory_updates: "\<exists>changed db'. updateExistingOrder noHistory old ord db = (Inr changed, db')"
proof -
  let ?s = "mapCcxtStatusToOrderStatus (nullish (co_status ord) ''open'')"
  obtain t where "transitionStatus noHistory (lv_id old) (Some (lv_status old)) ?s EXCHANGE_SYNC None (ob_history db) = (Inr t, ob_history db)"
    by (simp add: transitionStatus_def recordTransition_def noHistory_def Let_def)
  then show ?thesis by (cases "lv_status old = ?s") (auto simp: updateExistingOrder_def Let_def case_prod_unfold)
qed

lemma sample_fits: "fits_columns sample_ccxt"
proof -
  have "decimal8 2 = 2" "decimal8 1 = 1" "decimal8 20 = 20" by (simp_all add: decimal8_def)
  then show ?thesis
    by (simp add: fits_columns_def sample_ccxt_def numOr_def truthy_def extractFeeData_def calculateOrderCost_def
        LiveOrders.positive_def infoNumber_def Let_def)
qed


definition sample_trade :: "number \<Rightarrow> CcxtTrade" where
  "sample_trade amount = \<lparr>ct_id = None, ct_order = Some ''o'', ct_symbol = Some ''ETH/USDT'', ct_timestamp = Some 1, ct_side = Some ''buy'',
     ct_amount = Some amount, ct_price = Some 10, ct_cost = Some (amount * 10), ct_fee = None, ct_info = None\<rparr>"

theorem trades_become_orders_witness:
  "mset (concat (map co_trades (fst (convertTradesToOrders (\<lambda>_. ''k'') [sample_trade 1, sample_trade 2])))) =
     {#sample_trade 1, sample_trade 2#} \<and>
   (\<Sum>x\<leftarrow>fst (convertTradesToOrders (\<lambda>_. ''k'') [sample_trade 1, sample_trade 2]). the (co_amount x)) = 3"
  using trades_become_orders [of "\<lambda>_. ''k''" "[sample_trade 1, sample_trade 2]"]
  by (simp add: sample_trade_def numOr_def truthy_def)


end
