(* ===== verification/LivePerformance.thy ===== *)
theory LivePerformance
  imports LiveOrders Deployments BacktestMetrics
begin

text \<open>
  The daily figures of a deployment (\<^verbatim>\<open>strategy/performance-calculation.service.ts\<close>), computed from the orders of its
  strategy with the calculators of \<^verbatim>\<open>common/metrics\<close> and recorded by the metrics service. Arithmetic of decimals is
  exact, a date is the number of its day in universal time, and what the tracking of positions returns is an argument.
\<close>

definition DAY_MS :: time_ms where
  "DAY_MS = 24 * 60 * 60 * 1000"

definition dayOf :: "time_ms \<Rightarrow> int" where
  "dayOf t = t div DAY_MS"

definition MIN_RISK_DATA_POINTS :: nat where
  "MIN_RISK_DATA_POINTS = 2"

section \<open>Figures of a day\<close>

record DailyFigures =
  df_dailyPnl :: number
  df_tradesCount :: int
  df_winningTrades :: int
  df_losingTrades :: int

definition countOrder :: "DailyFigures \<Rightarrow> LiveOrder \<Rightarrow> DailyFigures" where
  "countOrder s ord =
     (if lv_side ord = OS_SELL
      then let gl = nullish (lv_gainLoss ord) 0
           in s\<lparr>df_dailyPnl := df_dailyPnl s + gl,
                df_winningTrades := (if gl > 0 then df_winningTrades s + 1 else df_winningTrades s),
                df_losingTrades := (if gl > 0 then df_losingTrades s else if gl < 0 then df_losingTrades s + 1 else df_losingTrades s)\<rparr>
      else s)"

definition calculateDailyMetrics :: "LiveOrder list \<Rightarrow> DailyFigures" where
  "calculateDailyMetrics orders =
     (foldl countOrder \<lparr>df_dailyPnl = 0, df_tradesCount = 0, df_winningTrades = 0, df_losingTrades = 0\<rparr> orders)
       \<lparr>df_tradesCount := int (length orders)\<rparr>"

text \<open>The filled orders of a strategy, from the start of its deployment on.\<close>

definition strategyOrders :: "LiveOrder list \<Rightarrow> string \<Rightarrow> time_ms option \<Rightarrow> LiveOrder list" where
  "strategyOrders orders strategyConfigId deployedAt =
     filter (\<lambda>x. lv_strategyConfigId x = Some strategyConfigId \<and> lv_isAlgorithmicTrade x \<and> lv_status x = FILLED \<and>
       (case deployedAt of None \<Rightarrow> True | Some t \<Rightarrow> lv_createdAt x \<ge> t)) orders"

definition sumBuyOrderCost :: "LiveOrder list \<Rightarrow> string \<Rightarrow> time_ms option \<Rightarrow> number" where
  "sumBuyOrderCost orders strategyConfigId deployedAt =
     (\<Sum>x\<leftarrow>filter (\<lambda>x. lv_side x = OS_BUY) (strategyOrders orders strategyConfigId deployedAt). lv_price x * lv_executedQuantity x)"

definition calculatePortfolioValue ::
    "LiveOrder list \<Rightarrow> Deployment \<Rightarrow> PerformanceMetric option \<Rightarrow> string \<Rightarrow> number \<times> number" where
  "calculatePortfolioValue orders deployment previousMetric strategyConfigId =
     (let totalCapitalDeployed = (case Option.bind previousMetric pm_totalCapitalDeployed of
            Some cachedCapital \<Rightarrow> cachedCapital
          | None \<Rightarrow> sumBuyOrderCost orders strategyConfigId (dp_deployedAt deployment));
          prevCumulativePnl = (case previousMetric of None \<Rightarrow> 0 | Some m \<Rightarrow> pm_cumulativePnl m)
      in (totalCapitalDeployed + prevCumulativePnl, totalCapitalDeployed))"

record RiskFigures =
  rf_sharpeRatio :: "number option"
  rf_volatility :: "number option"
  rf_maxDrawdown :: number
  rf_drawdown :: number

definition calculateRiskMetrics :: "DeploymentDb \<Rightarrow> string \<Rightarrow> number \<Rightarrow> int \<Rightarrow> RiskFigures" where
  "calculateRiskMetrics db deploymentId todayReturn today =
     (let priorMetrics = sort_key pm_date (filter (\<lambda>m. pm_deploymentId m = deploymentId \<and> pm_date m < today) (db_metrics db));
          dailyReturns = map pm_dailyReturn priorMetrics @ [todayReturn]
      in if length dailyReturns < MIN_RISK_DATA_POINTS
         then \<lparr>rf_sharpeRatio = None, rf_volatility = None, rf_maxDrawdown = 0, rf_drawdown = 0\<rparr>
         else let ddResult = calculateFromReturns dailyReturns
              in \<lparr>rf_sharpeRatio = Some (Sharpe_calculate dailyReturns (2 / 100) 365),
                  rf_volatility = Some (annualizeVolatility dailyReturns 365),
                  rf_maxDrawdown = dr_maxDrawdownPercentage ddResult / 100,
                  rf_drawdown = dr_currentDrawdownPercentage ddResult / 100\<rparr>)"

record TradeStats =
  tst_winRate :: "number option"
  tst_profitFactor :: "number option"
  tst_avgWinAmount :: "number option"
  tst_avgLossAmount :: "number option"

definition calculateCumulativeTradeStats :: "LiveOrder list \<Rightarrow> string \<Rightarrow> time_ms option \<Rightarrow> TradeStats" where
  "calculateCumulativeTradeStats orders strategyConfigId deployedAt =
     (let sold = filter (\<lambda>x. lv_side x = OS_SELL) (strategyOrders orders strategyConfigId deployedAt);
          gains = map (\<lambda>x. nullish (lv_gainLoss x) 0) sold;
          wins = length (filter (\<lambda>g. g > 0) gains); losses = length (filter (\<lambda>g. g < 0) gains);
          grossProfit = sum_list (filter (\<lambda>g. g > 0) gains); grossLoss = sum_list (map abs (filter (\<lambda>g. g < 0) gains))
      in if length sold = 0
         then \<lparr>tst_winRate = None, tst_profitFactor = None, tst_avgWinAmount = None, tst_avgLossAmount = None\<rparr>
         else \<lparr>tst_winRate = Some (real wins / real (length sold)),
               tst_profitFactor = (if grossLoss > 0 then Some (grossProfit / grossLoss) else None),
               tst_avgWinAmount = (if wins > 0 then Some (grossProfit / real wins) else None),
               tst_avgLossAmount = (if losses > 0 then Some (grossLoss / real losses) else None)\<rparr>)"

record TrackedHolding =
  th_quantity :: number
  th_avgEntryPrice :: number

text \<open>\<open>None\<close> where the positions could not be fetched.\<close>

definition calculatePositionMetrics :: "TrackedHolding list option \<Rightarrow> number \<Rightarrow> nat \<times> number \<times> number" where
  "calculatePositionMetrics positions portfolioValue =
     (case positions of
        None \<Rightarrow> (0, 0, 0)
      | Some ps \<Rightarrow>
          let openPositions = filter (\<lambda>p. th_quantity p > 0) ps;
              exposure = foldl (\<lambda>e p. e + th_quantity p * th_avgEntryPrice p) 0 openPositions
          in (length openPositions, exposure, if portfolioValue > 0 then min (exposure / portfolioValue) 1 else 0))"

section \<open>The figures that are recorded\<close>

definition metricDataOf ::
    "LiveOrder list \<Rightarrow> TrackedHolding list option \<Rightarrow> Deployment \<Rightarrow> PerformanceMetric option \<Rightarrow> time_ms \<Rightarrow> DeploymentDb \<Rightarrow> MetricData" where
  "metricDataOf orders positions deployment previousMetric ref db =
     (let strategyConfigId = dp_strategyConfigId deployment; today = dayOf ref;
          dayStart = today * DAY_MS; dayEnd = dayStart + DAY_MS - 1;
          effectiveStart = (case dp_deployedAt deployment of Some t \<Rightarrow> if t > dayStart then t else dayStart | None \<Rightarrow> dayStart);
          todaysOrders = filter (\<lambda>x. lv_createdAt x \<le> dayEnd) (strategyOrders orders strategyConfigId (Some effectiveStart));
          daily = calculateDailyMetrics todaysOrders;
          (portfolioValue, totalCapitalDeployed) = calculatePortfolioValue orders deployment previousMetric strategyConfigId;
          prevCumulativePnl = (case previousMetric of None \<Rightarrow> 0 | Some m \<Rightarrow> pm_cumulativePnl m);
          dailyReturn = (if portfolioValue > 0 then df_dailyPnl daily / portfolioValue else 0);
          prevCumReturn = (case previousMetric of None \<Rightarrow> 0 | Some m \<Rightarrow> pm_cumulativeReturn m);
          prevCumTrades = (case previousMetric of None \<Rightarrow> 0 | Some m \<Rightarrow> pm_cumulativeTradesCount m);
          risk = calculateRiskMetrics db (dp_id deployment) dailyReturn today;
          stats = calculateCumulativeTradeStats orders strategyConfigId (dp_deployedAt deployment);
          (openPositions, exposureAmount, utilization) = calculatePositionMetrics positions portfolioValue
      in \<lparr>md_date = Some today, md_dailyPnl = Some (df_dailyPnl daily), md_dailyReturn = Some dailyReturn,
          md_cumulativePnl = Some (prevCumulativePnl + df_dailyPnl daily),
          md_cumulativeReturn = Some ((1 + prevCumReturn) * (1 + dailyReturn) - 1),
          md_drawdown = Some (rf_drawdown risk), md_maxDrawdown = Some (rf_maxDrawdown risk),
          md_volatility = Some (rf_volatility risk), md_sharpeRatio = Some (rf_sharpeRatio risk),
          md_tradesCount = Some (df_tradesCount daily), md_cumulativeTradesCount = Some (prevCumTrades + df_tradesCount daily),
          md_winningTrades = Some (df_winningTrades daily), md_losingTrades = Some (df_losingTrades daily),
          md_winRate = Some (tst_winRate stats), md_avgWinAmount = Some (tst_avgWinAmount stats),
          md_avgLossAmount = Some (tst_avgLossAmount stats), md_profitFactor = Some (tst_profitFactor stats),
          md_openPositions = Some openPositions, md_exposureAmount = Some exposureAmount, md_utilization = Some utilization,
          md_driftDetected = Some False, md_totalCapitalDeployed = Some (Some totalCapitalDeployed)\<rparr>)"

definition Performance_calculateMetrics ::
    "LiveOrder list \<Rightarrow> TrackedHolding list option \<Rightarrow> Deployment \<Rightarrow> time_ms \<Rightarrow> DeploymentDb \<Rightarrow> string + PerformanceMetric \<times> DeploymentDb" where
  "Performance_calculateMetrics orders positions deployment ref db =
     (case find (\<lambda>s. sc_id s = dp_strategyConfigId deployment) (db_strategies db) of
        Some strategy \<Rightarrow>
          (if textOr (sc_createdBy strategy) '''' = '''' then Inl ''no createdBy user''
           else case find (\<lambda>m. pm_deploymentId m = dp_id deployment \<and> pm_date m = dayOf ref) (db_metrics db) of
             Some existing \<Rightarrow> Inr (existing, db)
           | None \<Rightarrow>
               let previousMetric = getLatestPerformanceMetric db (dp_id deployment)
               in Inr (Metrics_recordPerformanceMetric ref (dayOf ref) deployment
                    (metricDataOf orders positions deployment previousMetric ref db) db))
      | None \<Rightarrow> Inl ''no createdBy user'')"

section \<open>Days without gains\<close>

lemma cumulative_zero: "set rs \<subseteq> {0} \<Longrightarrow> convertToCumulativeReturns rs = replicate (Suc (length rs)) 1"
proof (induction rs rule: rev_induct)
  case (snoc r rs)
  then show ?case by (simp add: convertToCumulativeReturns_def replicate_append_same)
qed (simp add: convertToCumulativeReturns_def)

lemma scan_ones:
  "ds_peak s = 1 \<Longrightarrow> ds_maxDrawdown s = 0 \<Longrightarrow> ds_maxDrawdownPercentage s = 0 \<Longrightarrow> set (map snd xs) \<subseteq> {1} \<Longrightarrow>
   ds_peak (foldl scanDrawdown s xs) = 1 \<and> ds_maxDrawdown (foldl scanDrawdown s xs) = 0 \<and>
   ds_maxDrawdownPercentage (foldl scanDrawdown s xs) = 0"
  by (induction xs arbitrary: s) (simp_all add: scanDrawdown_def case_prod_unfold Let_def)

lemma drawdown_zero:
  assumes "set rs \<subseteq> {0}"
  shows "dr_currentDrawdownPercentage (calculateFromReturns rs) = 0 \<and> dr_maxDrawdownPercentage (calculateFromReturns rs) = 0"
proof -
  let ?ones = "replicate (Suc (length rs)) (1::real)"
  have "set (map snd (enumerate 1 (tl ?ones))) \<subseteq> {1}" by auto
  then have "ds_peak (scanDrawdowns ?ones) = 1" "ds_maxDrawdownPercentage (scanDrawdowns ?ones) = 0"
    unfolding scanDrawdowns_def by (subst scan_ones; simp)+
  then show ?thesis
    by (simp add: calculateFromReturns_def cumulative_zero [OF assms] Drawdown_calculateMaxDrawdown_def Let_def del: replicate_Suc)
qed

lemma volatility_zero: "set rs \<subseteq> {0} \<Longrightarrow> annualizeVolatility rs p = 0"
proof -
  assume "set rs \<subseteq> {0}"
  then have "rs = replicate (length rs) 0" by (intro replicate_eqI) auto
  then obtain n where "rs = replicate n 0" by blast
  then show ?thesis
    by (simp add: annualizeVolatility_def calculateStandardDeviation_def calculateVariance_def BacktestMetrics.calculateMean_def
      reduceSum_def sum_list_replicate)
qed

lemma Sharpe_zero:
  assumes "set rs \<subseteq> {0}"
  shows "Sharpe_calculate rs r p = 0"
proof (cases "rs = []")
  case False
  have "rs = replicate (length rs) 0" using assms by (intro replicate_eqI) auto
  then obtain n where n: "rs = replicate n 0" by blast
  have "calculateStandardDeviation (replicate n x) = 0" for x
    by (simp add: calculateStandardDeviation_def BacktestMetrics.calculateMean_def reduceSum_def sum_list_replicate)
  then show ?thesis using False by (simp add: Sharpe_calculate_def n MIN_STDDEV_def Let_def)
qed (simp add: Sharpe_calculate_def)

lemma daily_without_gain:
  assumes "\<forall>x \<in> set orders. lv_gainLoss x = None"
  shows "df_dailyPnl (calculateDailyMetrics orders) = 0"
proof -
  have "df_dailyPnl (foldl countOrder s orders) = df_dailyPnl s" for s
    using assms by (induction orders arbitrary: s) (simp_all add: countOrder_def Let_def)
  then show ?thesis by (simp add: calculateDailyMetrics_def)
qed

text \<open>A day that shows neither gain nor loss.\<close>

definition flat_day :: "PerformanceMetric \<Rightarrow> bool" where
  "flat_day m \<longleftrightarrow> pm_dailyPnl m = 0 \<and> pm_dailyReturn m = 0 \<and> pm_drawdown m = 0 \<and> pm_maxDrawdown m = 0 \<and>
     pm_volatility m \<in> {None, Some 0} \<and> pm_sharpeRatio m \<in> {None, Some 0}"

definition flat_so_far :: "DeploymentDb \<Rightarrow> string \<Rightarrow> bool" where
  "flat_so_far db i \<longleftrightarrow> (\<forall>m \<in> set (db_metrics db). pm_deploymentId m = i \<longrightarrow> flat_day m)"

lemma flat_risk:
  assumes "flat_so_far db i"
  shows "rf_drawdown (calculateRiskMetrics db i 0 today) = 0 \<and> rf_maxDrawdown (calculateRiskMetrics db i 0 today) = 0 \<and>
    rf_volatility (calculateRiskMetrics db i 0 today) \<in> {None, Some 0} \<and> rf_sharpeRatio (calculateRiskMetrics db i 0 today) \<in> {None, Some 0}"
proof -
  let ?rs = "map pm_dailyReturn (sort_key pm_date (filter (\<lambda>m. pm_deploymentId m = i \<and> pm_date m < today) (db_metrics db))) @ [0]"
  have "set ?rs \<subseteq> {0}" using assms by (auto simp: flat_so_far_def flat_day_def)
  note zero = drawdown_zero [OF this] volatility_zero [OF this] Sharpe_zero [OF this]
  show ?thesis unfolding calculateRiskMetrics_def Let_def using zero by simp
qed

lemma flat_data:
  fixes prev :: "PerformanceMetric option" and positions :: "TrackedHolding list option" and ref :: time_ms
  assumes "\<forall>x \<in> set orders. lv_isAlgorithmicTrade x \<longrightarrow> lv_gainLoss x = None" "flat_so_far db (dp_id d)"
  defines "m \<equiv> metricDataOf orders positions d prev ref db"
  shows "md_dailyPnl m = Some 0 \<and> md_dailyReturn m = Some 0 \<and> md_drawdown m = Some 0 \<and> md_maxDrawdown m = Some 0 \<and>
    md_volatility m \<in> {Some None, Some (Some 0)} \<and> md_sharpeRatio m \<in> {Some None, Some (Some 0)} \<and> md_date m = Some (dayOf ref)"
proof -
  have "\<forall>x \<in> set (filter P (strategyOrders orders s t)). lv_gainLoss x = None" for P s t
    using assms(1) by (auto simp: strategyOrders_def)
  then have pnl: "df_dailyPnl (calculateDailyMetrics (filter P (strategyOrders orders s t))) = 0" for P s t
    by (rule daily_without_gain)
  show ?thesis using flat_risk [OF assms(2), of "dayOf ref"]
    by (auto simp: m_def metricDataOf_def pnl Let_def case_prod_unfold)
qed

lemma recorded_flat:
  assumes "md_dailyPnl m = Some 0 \<and> md_dailyReturn m = Some 0 \<and> md_drawdown m = Some 0 \<and> md_maxDrawdown m = Some 0 \<and>
    md_volatility m \<in> {Some None, Some (Some 0)} \<and> md_sharpeRatio m \<in> {Some None, Some (Some 0)}"
  shows "flat_day (assignMetric m row)"
  using assms by (auto simp: flat_day_def assignMetric_def)

text \<open>The daily figures of a deployment show no loss, nor any gain. Whatever the orders of its strategy brought in, and however
  many days it trades, every day is recorded with a profit of zero, a return of zero, no drawdown and no
  volatility.\<close>

lemma recorded_day_flat:
  assumes "list_all no_gain (ob_orders odb)" "flat_so_far db (dp_id d)"
    and "Performance_calculateMetrics (ob_orders odb) positions d ref db = Inr (m, db')"
  shows "flat_day m \<and> flat_so_far db' (dp_id d)"
proof -
  have none: "\<forall>x \<in> set (ob_orders odb). lv_isAlgorithmicTrade x \<longrightarrow> lv_gainLoss x = None"
    using assms(1) by (simp add: list_all_iff no_gain_def)
  show ?thesis
  proof (cases "find (\<lambda>m. pm_deploymentId m = dp_id d \<and> pm_date m = dayOf ref) (db_metrics db)")
    case (Some existing)
    then have "m = existing" "db' = db" using assms(3) by (auto simp: Performance_calculateMetrics_def split: option.splits if_splits)
    moreover have "flat_day existing" using Some assms(2) by (auto simp: flat_so_far_def find_Some_iff)
    ultimately show ?thesis using assms(2) by simp
  next
    case None
    let ?data = "metricDataOf (ob_orders odb) positions d (getLatestPerformanceMetric db (dp_id d)) ref db"
    have data: "md_dailyPnl ?data = Some 0 \<and> md_dailyReturn ?data = Some 0 \<and> md_drawdown ?data = Some 0 \<and> md_maxDrawdown ?data = Some 0 \<and>
        md_volatility ?data \<in> {Some None, Some (Some 0)} \<and> md_sharpeRatio ?data \<in> {Some None, Some (Some 0)} \<and>
        md_date ?data = Some (dayOf ref)"
      using flat_data [OF none assms(2)] .
    have "(m, db') = Metrics_recordPerformanceMetric ref (dayOf ref) d ?data db"
      using assms(3) None by (auto simp: Performance_calculateMetrics_def Let_def split: option.splits if_splits)
    then have "m = assignMetric ?data (newMetric (dp_id d) (dayOf ref) ref)" "db_metrics db' = db_metrics db @ [m]"
      using data None by (simp_all add: Metrics_recordPerformanceMetric_def Let_def updateDeploymentStats_def)
    moreover have "flat_day (assignMetric ?data (newMetric (dp_id d) (dayOf ref) ref))" using data by (intro recorded_flat) blast
    ultimately show ?thesis using assms(2) by (auto simp: flat_so_far_def)
  qed
qed

text \<open>The days of a deployment, from a time when it has none: orders are placed and synced, the figures of a day are calculated
  from the orders and recorded, and whatever else happens writes no figures of this deployment.\<close>

inductive trading_days :: "('h, 'err) history_save \<Rightarrow> string \<Rightarrow> 'h OrderDb \<Rightarrow> DeploymentDb \<Rightarrow> bool" for save i where
  launched: "ob_orders odb = [] \<Longrightarrow> i \<notin> pm_deploymentId ` set (db_metrics db) \<Longrightarrow> trading_days save i odb db"
| trading: "trading_days save i odb db \<Longrightarrow> order_step save odb odb' \<Longrightarrow> trading_days save i odb' db"
| day: "trading_days save i odb db \<Longrightarrow> dp_id d = i \<Longrightarrow>
    Performance_calculateMetrics (ob_orders odb) positions d ref db = Inr (m, db') \<Longrightarrow> trading_days save i odb db'"
| elsewhere: "trading_days save i odb db \<Longrightarrow>
    filter (\<lambda>m. pm_deploymentId m = i) (db_metrics db') = filter (\<lambda>m. pm_deploymentId m = i) (db_metrics db) \<Longrightarrow> trading_days save i odb db'"

lemma live_figures_show_no_loss:
  assumes "trading_days save i odb db"
  shows "list_all no_gain (ob_orders odb) \<and> flat_so_far db i"
  using assms
proof (induction rule: trading_days.induct)
  case (launched odb db)
  then show ?case by (auto simp: flat_so_far_def)
next
  case (trading odb db odb')
  then show ?case using order_step_no_gain by blast
next
  case (day odb db d positions ref m db')
  then show ?case using recorded_day_flat by blast
next
  case (elsewhere odb db db')
  have filtered: "flat_so_far db'' i \<longleftrightarrow> (\<forall>m \<in> set (filter (\<lambda>m. pm_deploymentId m = i) (db_metrics db'')). flat_day m)" for db''
    by (auto simp: flat_so_far_def)
  have "flat_so_far db' i = flat_so_far db i" unfolding filtered elsewhere.hyps(2) ..
  then show ?case using elsewhere.IH by simp
qed

text \<open>The capital that a return is measured against is fixed by the first day: once a metric is recorded, the buys that follow do not
  change it. A deployment that had bought nothing by the end of its first day keeps a capital of zero.\<close>

lemma capital_fixed_by_first_day:
  assumes "getLatestPerformanceMetric db (dp_id d) = Some previous" "pm_totalCapitalDeployed previous = Some capital"
  shows "md_totalCapitalDeployed (metricDataOf orders positions d (getLatestPerformanceMetric db (dp_id d)) ref db) = Some (Some capital) \<and>
    snd (calculatePortfolioValue (orders @ bought) d (Some previous) s) = capital"
  using assms by (simp add: metricDataOf_def calculatePortfolioValue_def Let_def case_prod_unfold)

section \<open>Witnesses\<close>

end
