(* ===== verification/RiskChecks.thy ===== *)
theory RiskChecks
  imports LivePerformance
begin

text \<open>
  The risk of the active deployments (\<^verbatim>\<open>strategy/risk/*.check.ts\<close>, \<^verbatim>\<open>strategy/risk/risk-management.service.ts\<close>,
  \<^verbatim>\<open>tasks/risk-monitoring.task.ts\<close>): six checks of the recorded figures, their evaluation, the automatic demotion and the
  hourly task.

  A check is a constructor with its priority, whether it demotes, and its evaluation. A value or a threshold that is
  printed as a text without a number is \<open>None\<close>; messages and the other metadata are left out.
\<close>

section \<open>The checks\<close>

datatype RiskSeverity = RISK_LOW | RISK_MEDIUM | RISK_HIGH | RISK_CRITICAL

datatype RiskAction =
    DemoteImmediately | PauseForReview | AutoDemotedLosses | ReviewParameters | AutoDemotedVolatility | ReducePositions
  | ConsiderDemoting | MonitorClosely | Rebalance

record RiskCheckResult =
  rk_checkName :: string
  rk_passed :: bool
  rk_actualValue :: "number option"
  rk_threshold :: "number option"
  rk_severity :: RiskSeverity
  rk_recommendedAction :: "RiskAction option"
  rk_averageLossPerDay :: "number option"

definition noData :: "string \<Rightarrow> RiskCheckResult" where
  "noData name = \<lparr>rk_checkName = name, rk_passed = True, rk_actualValue = None, rk_threshold = None, rk_severity = RISK_LOW,
     rk_recommendedAction = None, rk_averageLossPerDay = None\<rparr>"

definition DrawdownBreach_evaluate :: "Deployment \<Rightarrow> PerformanceMetric option \<Rightarrow> RiskCheckResult" where
  "DrawdownBreach_evaluate deployment latestMetric =
     (case latestMetric of
        None \<Rightarrow> noData ''drawdown-breach''
      | Some m \<Rightarrow>
          let currentDrawdown = \<bar>pm_drawdown m\<bar>; breachThreshold = dp_maxDrawdownLimit deployment * (15 / 10);
              passed = (currentDrawdown < breachThreshold)
          in \<lparr>rk_checkName = ''drawdown-breach'', rk_passed = passed, rk_actualValue = Some currentDrawdown,
              rk_threshold = Some breachThreshold, rk_severity = (if passed then RISK_LOW else RISK_CRITICAL),
              rk_recommendedAction = (if passed then None else Some DemoteImmediately), rk_averageLossPerDay = None\<rparr>)"

definition DailyLossLimit_evaluate :: "Deployment \<Rightarrow> PerformanceMetric option \<Rightarrow> RiskCheckResult" where
  "DailyLossLimit_evaluate deployment latestMetric =
     (case latestMetric of
        None \<Rightarrow> noData ''daily-loss-limit''
      | Some m \<Rightarrow>
          let dailyReturn = pm_dailyReturn m; dailyLossLimit = dp_dailyLossLimit deployment;
              isLoss = (dailyReturn < 0); lossAmount = \<bar>dailyReturn\<bar>; passed = (\<not> isLoss \<or> lossAmount < dailyLossLimit)
          in \<lparr>rk_checkName = ''daily-loss-limit'', rk_passed = passed, rk_actualValue = Some dailyReturn,
              rk_threshold = Some (- dailyLossLimit), rk_severity = (if passed then RISK_LOW else RISK_CRITICAL),
              rk_recommendedAction = (if passed then None else Some PauseForReview), rk_averageLossPerDay = None\<rparr>)"

text \<open>The losing days at the end of the history.\<close>

definition losingStreak :: "PerformanceMetric list \<Rightarrow> nat" where
  "losingStreak metrics = length (takeWhile (\<lambda>m. pm_dailyPnl m < 0) (rev metrics))"

text \<open>\<^verbatim>\<open>slice(-n)\<close>: the last \<open>n\<close> elements, but all of them when \<open>n\<close> is zero.\<close>

definition sliceLast :: "nat \<Rightarrow> 'a list \<Rightarrow> 'a list" where
  "sliceLast n xs = (if n = 0 then xs else take_last n xs)"

definition calculateAverageLoss :: "PerformanceMetric list \<Rightarrow> number" where
  "calculateAverageLoss metrics =
     (if length metrics = 0 then 0 else foldl (\<lambda>sum m. sum + pm_dailyReturn m) 0 metrics / of_nat (length metrics))"

definition ConsecutiveLosses_evaluate :: "PerformanceMetric list \<Rightarrow> RiskCheckResult" where
  "ConsecutiveLosses_evaluate historicalMetrics =
     (if length historicalMetrics < 10 then (noData ''consecutive-losses'')\<lparr>rk_threshold := Some 10\<rparr>
      else let consecutiveLosses = losingStreak historicalMetrics; passed = (consecutiveLosses < 10); isCritical = (consecutiveLosses \<ge> 15)
           in \<lparr>rk_checkName = ''consecutive-losses'', rk_passed = passed, rk_actualValue = Some (real consecutiveLosses),
               rk_threshold = Some 10,
               rk_severity = (if isCritical then RISK_CRITICAL else if consecutiveLosses \<ge> 10 then RISK_HIGH
                 else if consecutiveLosses \<ge> 10 - 3 then RISK_MEDIUM else RISK_LOW),
               rk_recommendedAction = (if isCritical then Some AutoDemotedLosses else if passed then None else Some ReviewParameters),
               rk_averageLossPerDay = Some (calculateAverageLoss (sliceLast consecutiveLosses historicalMetrics))\<rparr>)"

definition expectedVolatility :: "Deployment \<Rightarrow> number" where
  "expectedVolatility deployment = numOr (dm_backtestVolatility (dp_metadata deployment)) (5 / 10)"

definition EPSILON :: number where
  "EPSILON = 1 / 10 ^ 10"

definition VolatilitySpike_evaluate :: "Deployment \<Rightarrow> PerformanceMetric option \<Rightarrow> RiskCheckResult" where
  "VolatilitySpike_evaluate deployment latestMetric =
     (case Option.bind latestMetric pm_volatility of
        None \<Rightarrow> noData ''volatility-spike''
      | Some currentVolatility \<Rightarrow>
          let warningThreshold = expectedVolatility deployment * 2; criticalThreshold = expectedVolatility deployment * 3;
              passed = (currentVolatility < warningThreshold); isCritical = (currentVolatility \<ge> criticalThreshold - EPSILON)
          in \<lparr>rk_checkName = ''volatility-spike'', rk_passed = passed, rk_actualValue = Some currentVolatility,
              rk_threshold = Some warningThreshold,
              rk_severity = (if isCritical then RISK_CRITICAL else if currentVolatility \<ge> warningThreshold then RISK_HIGH
                else if currentVolatility \<ge> warningThreshold * (8 / 10) then RISK_MEDIUM else RISK_LOW),
              rk_recommendedAction = (if isCritical then Some AutoDemotedVolatility else if passed then None else Some ReducePositions),
              rk_averageLossPerDay = None\<rparr>)"

definition expectedSharpe :: "Deployment \<Rightarrow> number" where
  "expectedSharpe deployment = numOr (dm_backtestSharpe (dp_metadata deployment)) (numOr (dp_liveSharpeRatio deployment) 1)"

definition SharpeDegradation_evaluate :: "Deployment \<Rightarrow> PerformanceMetric option \<Rightarrow> RiskCheckResult" where
  "SharpeDegradation_evaluate deployment latestMetric =
     (case Option.bind latestMetric pm_sharpeRatio of
        None \<Rightarrow> noData ''sharpe-degradation''
      | Some currentSharpe \<Rightarrow>
          let expected = expectedSharpe deployment; degradation = (expected - currentSharpe) / \<bar>expected\<bar>; passed = (degradation < 5 / 10)
          in \<lparr>rk_checkName = ''sharpe-degradation'', rk_passed = passed, rk_actualValue = Some currentSharpe,
              rk_threshold = Some (expected * (1 - 5 / 10)),
              rk_severity = (if degradation \<ge> 8 / 10 then RISK_CRITICAL else if degradation \<ge> 65 / 100 then RISK_HIGH
                else if degradation \<ge> 5 / 10 then RISK_MEDIUM else RISK_LOW),
              rk_recommendedAction = (if passed then None else if degradation \<ge> 65 / 100 then Some ConsiderDemoting else Some MonitorClosely),
              rk_averageLossPerDay = None\<rparr>)"

text \<open>The user of the strategy with the balances and the risk level: \<open>Inl\<close> when a service throws, \<open>None\<close> when there is no such user.\<close>

type_synonym user_balances = "string \<Rightarrow> unit + (AssetBalance list option list \<times> number) option"

definition ConcentrationRisk_evaluate :: "user_balances \<Rightarrow> StrategyConfig option \<Rightarrow> Deployment \<Rightarrow> RiskCheckResult" where
  "ConcentrationRisk_evaluate balancesOf strategy deployment =
     (let name = ''concentration-risk''; userId = textOr (Option.bind strategy sc_createdBy) ''''
      in if userId = '''' then noData name
         else case balancesOf userId of
                Inl _ \<Rightarrow> (noData name)\<lparr>rk_passed := False, rk_severity := RISK_HIGH\<rparr>
              | Inr None \<Rightarrow> noData name
              | Inr (Some (balances, riskLevel)) \<Rightarrow>
                  let assets = buildAssetAllocations balances
                  in if length assets = 0 then noData name
                     else let result = checkConcentration assets riskLevel (dp_concentrationLimit deployment)
                          in if cx_breached result
                             then let topBreach = hd (cx_breaches result)
                                  in (noData name)\<lparr>rk_passed := False, rk_actualValue := Some (cb_concentration topBreach),
                                       rk_threshold := Some (cb_limit topBreach), rk_severity := RISK_HIGH,
                                       rk_recommendedAction := Some Rebalance\<rparr>
                             else if length (cx_warnings result) > 0
                             then let topWarning = hd (cx_warnings result)
                                  in (noData name)\<lparr>rk_actualValue := Some (cb_concentration topWarning),
                                       rk_threshold := Some (cb_limit topWarning), rk_severity := RISK_MEDIUM\<rparr>
                             else noData name)"

datatype RiskCheckKind =
  DrawdownBreachCheck | DailyLossLimitCheck | ConsecutiveLossesCheck | VolatilitySpikeCheck | SharpeDegradationCheck | ConcentrationRiskCheck

fun checkName :: "RiskCheckKind \<Rightarrow> string" where
  "checkName DrawdownBreachCheck = ''drawdown-breach''"
| "checkName DailyLossLimitCheck = ''daily-loss-limit''"
| "checkName ConsecutiveLossesCheck = ''consecutive-losses''"
| "checkName VolatilitySpikeCheck = ''volatility-spike''"
| "checkName SharpeDegradationCheck = ''sharpe-degradation''"
| "checkName ConcentrationRiskCheck = ''concentration-risk''"

fun checkPriority :: "RiskCheckKind \<Rightarrow> int" where
  "checkPriority DrawdownBreachCheck = 1"
| "checkPriority DailyLossLimitCheck = 2"
| "checkPriority ConsecutiveLossesCheck = 3"
| "checkPriority VolatilitySpikeCheck = 4"
| "checkPriority SharpeDegradationCheck = 5"
| "checkPriority ConcentrationRiskCheck = 6"

fun autoDemote :: "RiskCheckKind \<Rightarrow> bool" where
  "autoDemote SharpeDegradationCheck = False"
| "autoDemote ConcentrationRiskCheck = False"
| "autoDemote _ = True"

definition RiskManagementService_checks :: "RiskCheckKind list" where
  "RiskManagementService_checks = sort_key checkPriority
     [DrawdownBreachCheck, DailyLossLimitCheck, ConsecutiveLossesCheck, VolatilitySpikeCheck, SharpeDegradationCheck, ConcentrationRiskCheck]"

definition getCriticalChecks :: "RiskCheckKind list" where
  "getCriticalChecks = filter autoDemote RiskManagementService_checks"

section \<open>The evaluation of the checks\<close>

datatype RiskSummary = AllChecksPassed nat | CriticalRisks nat | RiskWarnings nat | NotActive

record RiskEvaluation =
  rv_deploymentId :: string
  rv_evaluatedAt :: time_ms
  rv_hasCriticalRisk :: bool
  rv_shouldDemote :: bool
  rv_checkResults :: "RiskCheckResult list"
  rv_totalChecks :: nat
  rv_checksPassed :: nat
  rv_checksFailed :: nat
  rv_failedChecks :: "string list"
  rv_summary :: RiskSummary
  rv_recommendedActions :: "RiskAction list"

definition createEmptyEvaluation :: "time_ms \<Rightarrow> string \<Rightarrow> RiskEvaluation" where
  "createEmptyEvaluation now deploymentId =
     \<lparr>rv_deploymentId = deploymentId, rv_evaluatedAt = now, rv_hasCriticalRisk = False, rv_shouldDemote = False, rv_checkResults = [],
      rv_totalChecks = 0, rv_checksPassed = 0, rv_checksFailed = 0, rv_failedChecks = [], rv_summary = NotActive,
      rv_recommendedActions = []\<rparr>"

definition criticalFailure :: "RiskCheckResult \<Rightarrow> bool" where
  "criticalFailure r \<longleftrightarrow> \<not> rk_passed r \<and> rk_severity r = RISK_CRITICAL"

definition Risk_calculateEvaluation :: "time_ms \<Rightarrow> string \<Rightarrow> RiskCheckResult list \<Rightarrow> RiskEvaluation" where
  "Risk_calculateEvaluation now deploymentId checkResults =
     (let totalChecks = length checkResults; checksPassed = length (filter rk_passed checkResults);
          checksFailed = totalChecks - checksPassed;
          criticalFailures = filter criticalFailure checkResults;
          hasCriticalRisk = (length criticalFailures > 0);
          autoDemoteFailures = filter (\<lambda>r. criticalFailure r \<and> rk_checkName r \<in> checkName ` set getCriticalChecks) checkResults
      in \<lparr>rv_deploymentId = deploymentId, rv_evaluatedAt = now, rv_hasCriticalRisk = hasCriticalRisk,
          rv_shouldDemote = (length autoDemoteFailures > 0), rv_checkResults = checkResults, rv_totalChecks = totalChecks,
          rv_checksPassed = checksPassed, rv_checksFailed = checksFailed,
          rv_failedChecks = map rk_checkName (filter (\<lambda>r. \<not> rk_passed r) checkResults),
          rv_summary = (if checksFailed = 0 then AllChecksPassed totalChecks
            else if hasCriticalRisk then CriticalRisks (length criticalFailures) else RiskWarnings checksFailed),
          rv_recommendedActions = concat (map (\<lambda>r. if rk_passed r then [] else case rk_recommendedAction r of None \<Rightarrow> [] | Some a \<Rightarrow> [a])
            checkResults)\<rparr>)"

definition loadHistoricalMetrics :: "DeploymentDb \<Rightarrow> string \<Rightarrow> int \<Rightarrow> int \<Rightarrow> PerformanceMetric list" where
  "loadHistoricalMetrics db deploymentId today days =
     sort_key pm_date (filter (\<lambda>m. pm_deploymentId m = deploymentId \<and> today - days \<le> pm_date m \<and> pm_date m \<le> today) (db_metrics db))"

text \<open>The services around an evaluation: the clock, the balances, which audit entries are taken and which jobs.\<close>

record RiskEnv =
  re_now :: time_ms
  re_balancesOf :: user_balances
  re_auditOk :: "string \<Rightarrow> bool"
  re_queueOk :: "string \<Rightarrow> bool"

fun evaluateCheck ::
    "RiskEnv \<Rightarrow> DeploymentDb \<Rightarrow> Deployment \<Rightarrow> PerformanceMetric option \<Rightarrow> PerformanceMetric list \<Rightarrow> RiskCheckKind \<Rightarrow> RiskCheckResult" where
  "evaluateCheck env db deployment latest history DrawdownBreachCheck = DrawdownBreach_evaluate deployment latest"
| "evaluateCheck env db deployment latest history DailyLossLimitCheck = DailyLossLimit_evaluate deployment latest"
| "evaluateCheck env db deployment latest history ConsecutiveLossesCheck = ConsecutiveLosses_evaluate history"
| "evaluateCheck env db deployment latest history VolatilitySpikeCheck = VolatilitySpike_evaluate deployment latest"
| "evaluateCheck env db deployment latest history SharpeDegradationCheck = SharpeDegradation_evaluate deployment latest"
| "evaluateCheck env db deployment latest history ConcentrationRiskCheck =
     ConcentrationRisk_evaluate (re_balancesOf env) (find (\<lambda>s. sc_id s = dp_strategyConfigId deployment) (db_strategies db)) deployment"

datatype RiskFault = RiskDeploymentFault DeploymentFault | AuditUnavailable

definition handleAutoDemotion :: "time_ms \<Rightarrow> Deployment \<Rightarrow> RiskEvaluation \<Rightarrow> DeploymentDb \<Rightarrow> DeploymentFault + Deployment \<times> DeploymentDb" where
  "handleAutoDemotion now deployment evaluation db =
     (let criticalChecks = map rk_checkName (filter criticalFailure (rv_checkResults evaluation))
      in demoteDeployment now (dp_id deployment) (AutomaticDemotion criticalChecks) (Some criticalChecks) db)"

text \<open>The audit entry comes before the demotion, and an audit log that fails ends the evaluation.\<close>

definition evaluateRisks :: "RiskEnv \<Rightarrow> string \<Rightarrow> DeploymentDb \<Rightarrow> (RiskFault + RiskEvaluation) \<times> DeploymentDb" where
  "evaluateRisks env deploymentId db =
     (case findOne db deploymentId of
        Inl e \<Rightarrow> (Inl (RiskDeploymentFault e), db)
      | Inr deployment \<Rightarrow>
          if \<not> isActive deployment then (Inr (createEmptyEvaluation (re_now env) deploymentId), db)
          else let latestMetric = getLatestPerformanceMetric db deploymentId;
                   historicalMetrics = loadHistoricalMetrics db deploymentId (dayOf (re_now env)) 30;
                   checkResults = map (evaluateCheck env db deployment latestMetric historicalMetrics) RiskManagementService_checks;
                   evaluation = Risk_calculateEvaluation (re_now env) deploymentId checkResults
               in if \<not> re_auditOk env deploymentId then (Inl AuditUnavailable, db)
                  else if rv_shouldDemote evaluation
                  then (case handleAutoDemotion (re_now env) deployment evaluation db of
                          Inl e \<Rightarrow> (Inl (RiskDeploymentFault e), db)
                        | Inr (_, db') \<Rightarrow> (Inr evaluation, db'))
                  else (Inr evaluation, db))"

definition evaluateAllDeployments :: "RiskEnv \<Rightarrow> DeploymentDb \<Rightarrow> RiskEvaluation list \<times> DeploymentDb" where
  "evaluateAllDeployments env db =
     foldl (\<lambda>(evaluations, db) deployment. case evaluateRisks env (dp_id deployment) db of
         (Inr evaluation, db') \<Rightarrow> (evaluations @ [evaluation], db')
       | (Inl _, db') \<Rightarrow> (evaluations, db')) ([], db) (getActiveDeployments db)"

text \<open>The hourly task queues a drift detection for every deployment with warnings only, up to the first job that is not taken.\<close>

definition scheduleRiskMonitoring :: "RiskEnv \<Rightarrow> DeploymentDb \<Rightarrow> string list \<times> DeploymentDb" where
  "scheduleRiskMonitoring env db =
     (let (evaluations, db') = evaluateAllDeployments env db;
          warned = filter (\<lambda>e. \<not> rv_shouldDemote e \<and> rv_checksFailed e > 0 \<and> \<not> rv_hasCriticalRisk e) evaluations
      in (takeWhile (re_queueOk env) (map rv_deploymentId warned), db'))"

definition performEmergencyRiskCheck :: "RiskEnv \<Rightarrow> string \<Rightarrow> DeploymentDb \<Rightarrow> (RiskFault + RiskEvaluation) \<times> DeploymentDb" where
  "performEmergencyRiskCheck env deploymentId db = evaluateRisks env deploymentId db"

definition getRiskStatusSummary :: "DeploymentDb \<Rightarrow> nat \<times> nat \<times> number" where
  "getRiskStatusSummary db =
     (let activeDeployments = getActiveDeployments db; deploymentsAtRisk = getDeploymentsAtRisk db
      in (length activeDeployments, length deploymentsAtRisk,
          if length activeDeployments > 0 then real (length deploymentsAtRisk) / real (length activeDeployments) * 100 else 0))"

section \<open>What demotes a deployment\<close>

lemma checks_sorted: "RiskManagementService_checks = [DrawdownBreachCheck, DailyLossLimitCheck, ConsecutiveLossesCheck, VolatilitySpikeCheck,
    SharpeDegradationCheck, ConcentrationRiskCheck]"
  by (simp add: RiskManagementService_checks_def)

lemma demoting_names: "checkName ` set getCriticalChecks =
    {''drawdown-breach'', ''daily-loss-limit'', ''consecutive-losses'', ''volatility-spike''}"
  by (simp add: getCriticalChecks_def checks_sorted)

lemma noData_passes [simp]: "rk_passed (noData n)" "rk_checkName (noData n) = n" "\<not> criticalFailure (noData n)"
  by (simp_all add: noData_def criticalFailure_def)

lemma check_names:
  "rk_checkName (evaluateCheck env db d l h c) = checkName c"
  by (cases c) (auto simp: DrawdownBreach_evaluate_def DailyLossLimit_evaluate_def ConsecutiveLosses_evaluate_def VolatilitySpike_evaluate_def
    SharpeDegradation_evaluate_def ConcentrationRisk_evaluate_def noData_def Let_def split: option.split sum.split)

lemma critical_drawdown: "criticalFailure (DrawdownBreach_evaluate d l) \<longleftrightarrow> (\<exists>m. l = Some m \<and> dp_maxDrawdownLimit d * (15 / 10) \<le> \<bar>pm_drawdown m\<bar>)"
  by (auto simp: criticalFailure_def DrawdownBreach_evaluate_def noData_def Let_def split: option.split)

lemma critical_daily: "criticalFailure (DailyLossLimit_evaluate d l) \<longleftrightarrow>
    (\<exists>m. l = Some m \<and> pm_dailyReturn m < 0 \<and> dp_dailyLossLimit d \<le> - pm_dailyReturn m)"
  by (auto simp: criticalFailure_def DailyLossLimit_evaluate_def noData_def Let_def split: option.split)

lemma critical_losses: "criticalFailure (ConsecutiveLosses_evaluate h) \<longleftrightarrow> 15 \<le> losingStreak h"
proof -
  have "losingStreak h \<le> length h"
    unfolding losingStreak_def using length_takeWhile_le [of _ "rev h"] by simp
  then show ?thesis by (auto simp: criticalFailure_def ConsecutiveLosses_evaluate_def noData_def Let_def)
qed

lemma critical_volatility: "criticalFailure (VolatilitySpike_evaluate d l) \<longleftrightarrow>
    (\<exists>m v. l = Some m \<and> pm_volatility m = Some v \<and> expectedVolatility d * 2 \<le> v \<and> expectedVolatility d * 3 - EPSILON \<le> v)"
  by (cases l) (auto simp: criticalFailure_def VolatilitySpike_evaluate_def noData_def Let_def split: option.split)

lemmas critical_checks = critical_drawdown critical_daily critical_losses critical_volatility

definition demotes :: "Deployment \<Rightarrow> PerformanceMetric option \<Rightarrow> PerformanceMetric list \<Rightarrow> bool" where
  "demotes d latest history \<longleftrightarrow>
     (\<exists>m. latest = Some m \<and>
        (dp_maxDrawdownLimit d * (15 / 10) \<le> \<bar>pm_drawdown m\<bar> \<or>
         pm_dailyReturn m < 0 \<and> dp_dailyLossLimit d \<le> - pm_dailyReturn m \<or>
         (\<exists>v. pm_volatility m = Some v \<and> expectedVolatility d * 2 \<le> v \<and> expectedVolatility d * 3 - EPSILON \<le> v))) \<or>
     15 \<le> losingStreak history"

lemma shouldDemote_iff:
  "rv_shouldDemote (Risk_calculateEvaluation now i (map (evaluateCheck env db d latest history) RiskManagementService_checks)) \<longleftrightarrow>
   demotes d latest history"
proof -
  have "rv_shouldDemote (Risk_calculateEvaluation now i rs) \<longleftrightarrow>
      (\<exists>r \<in> set rs. criticalFailure r \<and> rk_checkName r \<in> checkName ` set getCriticalChecks)" for rs
    by (auto simp: Risk_calculateEvaluation_def Let_def filter_empty_conv)
  then have "rv_shouldDemote (Risk_calculateEvaluation now i (map (evaluateCheck env db d latest history) RiskManagementService_checks)) \<longleftrightarrow>
      (\<exists>c \<in> set RiskManagementService_checks. criticalFailure (evaluateCheck env db d latest history c) \<and>
        checkName c \<in> checkName ` set getCriticalChecks)"
    by (simp add: check_names)
  then show ?thesis unfolding demoting_names checks_sorted by (simp add: critical_checks demotes_def) blast
qed

lemma demoted_row:
  assumes "findDeployment db i = Some d"
  shows "\<exists>d' db'. demoteDeployment now i reason checks db = Inr (d', db') \<and> d' \<in> set (db_deployments db') \<and> dp_id d' = i \<and>
    isDemoted d' \<and> dp_terminatedAt d' = Some now \<and> dp_terminationReason d' = Some reason"
proof -
  have d: "dp_id d = i" "d \<in> set (db_deployments db)" using assms by (auto simp: findDeployment_def find_Some_iff)
  let ?d = "d\<lparr>dp_status := DS_DEMOTED, dp_terminatedAt := Some now, dp_terminationReason := Some reason,
    dp_metadata := (dp_metadata d)\<lparr>dm_demotedBy := checks\<rparr>\<rparr>"
  let ?db = "setStrategyStatus (dp_strategyConfigId d) SS_DEPRECATED (saveDeployment ?d db)"
  have "?d \<in> set (db_deployments ?db)" using d by (force simp: setStrategyStatus_def saveDeployment_def)
  moreover have "demoteDeployment now i reason checks db = Inr (?d, ?db)"
    using assms by (simp add: demoteDeployment_def findOne_def Let_def)
  ultimately show ?thesis using d(1) by (intro exI [of _ ?d] exI [of _ ?db]) (simp add: isDemoted_def)
qed


section \<open>What the checks never see\<close>

lemma flat_streak:
  assumes "\<forall>m \<in> set h. pm_dailyPnl m = 0"
  shows "losingStreak h = 0"
proof (cases "rev h")
  case (Cons a l)
  then have "a \<in> set h" by (metis list.set_intros(1) set_rev)
  then show ?thesis using Cons assms by (simp add: losingStreak_def)
qed (simp add: losingStreak_def)


text \<open>The degradation of the Sharpe ratio is never seen. No deployment records the ratio of its backtest, so the ratio of the day is
  compared with the one of the row, which is the ratio of the day: the check passes with no degradation at all, whatever the ratio.\<close>

lemma sharpe_compared_with_itself:
  assumes "md_sharpeRatio data = Some (Some sharpe)" "sharpe \<noteq> 0" "dm_backtestSharpe (dp_metadata d) = None"
    and "db_deployments db = [d]" "Metrics_recordPerformanceMetric now today d data db = (m, db')"
  shows "\<exists>d'. findDeployment db' (dp_id d) = Some d' \<and> rk_passed (SharpeDegradation_evaluate d' (Some m)) \<and>
    rk_severity (SharpeDegradation_evaluate d' (Some m)) = RISK_LOW"
proof -
  let ?d = "withStats now d data d"
  have "pm_sharpeRatio m = Some sharpe"
    using assms(1,5) by (auto simp: Metrics_recordPerformanceMetric_def assignMetric_def Let_def split: option.splits)
  moreover have "db_deployments db' = [?d]"
    using assms(4,5) by (auto simp: Metrics_recordPerformanceMetric_def updateDeploymentStats_def Let_def split: option.splits)
  moreover have "dp_id ?d = dp_id d" "dp_liveSharpeRatio ?d = Some sharpe" "dp_metadata ?d = dp_metadata d"
    using assms(1) by (simp_all add: withStats_def Let_def)
  ultimately show ?thesis using assms(2,3)
    by (auto simp: findDeployment_def SharpeDegradation_evaluate_def expectedSharpe_def numOr_def Let_def)
qed

section \<open>Witnesses\<close>

definition sample_risk_env :: RiskEnv where
  "sample_risk_env = \<lparr>re_now = 0, re_balancesOf = (\<lambda>_. Inr None), re_auditOk = (\<lambda>_. True), re_queueOk = (\<lambda>_. True)\<rparr>"

definition with_metric :: "PerformanceMetric \<Rightarrow> Deployment \<Rightarrow> DeploymentDb" where
  "with_metric m d = (sample_db DS_ACTIVE)\<lparr>db_deployments := [d], db_metrics := [m]\<rparr>"

lemma with_metric_facts:
  "findDeployment (with_metric m d) (dp_id d) = Some d"
  "pm_deploymentId m = i \<Longrightarrow> getLatestPerformanceMetric (with_metric m d) i = Some m"
  by (simp_all add: with_metric_def findDeployment_def getLatestPerformanceMetric_def latestBy_def)


lemma first_day_recorded:
  assumes "Performance_calculateMetrics [] None d 0 db = Inr (m, db')" "db_deployments db = [d]" "db_metrics db = []"
  shows "\<exists>data. findDeployment db' (dp_id d) = Some (withStats 0 d data d)" "getLatestPerformanceMetric db' (dp_id d) = Some m"
proof -
  have "Metrics_recordPerformanceMetric 0 (dayOf 0) d (metricDataOf [] None d None 0 db) db = (m, db')"
    using assms by (auto simp: Performance_calculateMetrics_def getLatestPerformanceMetric_def latestBy_def Let_def split: option.splits if_splits)
  then have "db_metrics db' = [m] \<and> pm_deploymentId m = dp_id d \<and> db_deployments db' = [withStats 0 d (metricDataOf [] None d None 0 db) d]"
    using assms(2,3) by (auto simp: Metrics_recordPerformanceMetric_def assignMetric_def newMetric_def updateDeploymentStats_def Let_def)
  then show "\<exists>data. findDeployment db' (dp_id d) = Some (withStats 0 d data d)" "getLatestPerformanceMetric db' (dp_id d) = Some m"
    by (auto simp: findDeployment_def getLatestPerformanceMetric_def latestBy_def withStats_def Let_def)
qed


end
