(* ===== verification/CapitalAllocation.thy ===== *)
theory CapitalAllocation
  imports LiveOrders Deployments
begin

text \<open>
  The capital of a user over the strategies (\<^verbatim>\<open>strategy/capital-allocation.service.ts\<close>): a fraction for each strategy from
  its trades by the criterion of Kelly, or from its score where the trades are few, and the distribution of the capital under
  a cap per strategy. The audit entries are left out; their failures are swallowed.
\<close>

section \<open>Limits\<close>

definition MIN_CAPITAL_PER_STRATEGY :: "int \<Rightarrow> number" where
  "MIN_CAPITAL_PER_STRATEGY level =
     (if level = 1 then 15 else if level = 2 then 15 else if level = 3 then 25 else if level = 4 then 35 else 50)"

text \<open>A rounded level between 1 and 5.\<close>

definition getMinCapitalPerStrategy :: "number \<Rightarrow> number" where
  "getMinCapitalPerStrategy riskLevel = MIN_CAPITAL_PER_STRATEGY (max 1 (min 5 \<lfloor>riskLevel + 1 / 2\<rfloor>))"

definition getMaxAllocationPerStrategy :: "number \<Rightarrow> nat \<Rightarrow> number" where
  "getMaxAllocationPerStrategy userCapital eligibleCount = userCapital * max (15 / 100) (1 / real eligibleCount)"

definition calculateMinimumCapitalRequired :: "nat \<Rightarrow> number \<Rightarrow> number" where
  "calculateMinimumCapitalRequired strategyCount riskLevel = real strategyCount * getMinCapitalPerStrategy riskLevel"

datatype AllocationFault = NoCapitalFault | NoStrategies | MinimumCapital number nat number

definition validateCapitalAllocation :: "number \<Rightarrow> StrategyConfig list \<Rightarrow> number \<Rightarrow> AllocationFault option" where
  "validateCapitalAllocation userCapital strategies riskLevel =
     (if userCapital \<le> 0 then Some NoCapitalFault
      else if length strategies = 0 then Some NoStrategies
      else let minRequired = calculateMinimumCapitalRequired (length strategies) riskLevel
           in if userCapital < minRequired
              then Some (MinimumCapital minRequired (length strategies) (getMinCapitalPerStrategy riskLevel))
              else None)"

section \<open>Fractions\<close>

definition MIN_SCORE_THRESHOLD :: number where
  "MIN_SCORE_THRESHOLD = 50"

definition KELLY_MULTIPLIER :: number where
  "KELLY_MULTIPLIER = 25 / 100"

definition MIN_TRADES_FOR_KELLY :: nat where
  "MIN_TRADES_FOR_KELLY = 30"

text \<open>The latest score of every strategy that has one.\<close>

definition buildScoreMap :: "StoredScore list \<Rightarrow> string list \<Rightarrow> (string, number) jsmap" where
  "buildScoreMap scores strategyIds =
     foldl (\<lambda>m s. if map_get m (st_strategyConfigId s) = None then map_set (st_strategyConfigId s) (st_overallScore s) m else m) []
       (sort_key (\<lambda>s. - st_calculatedAt s) (filter (\<lambda>s. st_strategyConfigId s \<in> set strategyIds) scores))"

text \<open>The fraction of the trades of a strategy; \<open>None\<close> when the trades with a result are too few.\<close>

definition kellyFraction :: "LiveOrder list \<Rightarrow> number option" where
  "kellyFraction orders =
     (let gains = filter (\<lambda>g. g \<noteq> 0) (map (\<lambda>x. nullish (lv_gainLoss x) 0) orders)
      in if length gains < MIN_TRADES_FOR_KELLY then None
         else let wins = filter (\<lambda>g. g > 0) gains; losses = filter (\<lambda>g. g < 0) gains;
                  p = real (length wins) / real (length gains);
                  avgWin = (if length wins > 0 then sum_list wins / real (length wins) else 0);
                  avgLoss = (if length losses > 0 then sum_list (map abs losses) / real (length losses) else 0)
              in if length losses = 0 then Some KELLY_MULTIPLIER
                 else let b = avgWin / avgLoss
                      in Some (if b > 0 then max ((b * p - (1 - p)) / b * KELLY_MULTIPLIER) 0 else 0))"

definition strategyTrades :: "LiveOrder list \<Rightarrow> string \<Rightarrow> LiveOrder list" where
  "strategyTrades orders strategyId =
     filter (\<lambda>x. lv_strategyConfigId x = Some strategyId \<and> lv_isAlgorithmicTrade x \<and> lv_status x = FILLED) orders"

definition tradeFractions :: "LiveOrder list \<Rightarrow> StrategyConfig list \<Rightarrow> (string, number) jsmap \<times> string list" where
  "tradeFractions orders strategies =
     foldl (\<lambda>(fractions, fallback) s. case kellyFraction (strategyTrades orders (sc_id s)) of
         None \<Rightarrow> (fractions, fallback @ [sc_id s])
       | Some f \<Rightarrow> (map_set (sc_id s) f fractions, fallback)) ([], []) strategies"

definition scoreFractions :: "(string, number) jsmap \<Rightarrow> string list \<Rightarrow> (string, number) jsmap \<Rightarrow> (string, number) jsmap" where
  "scoreFractions scoreMap fallback fractions =
     foldl (\<lambda>fractions i. let score = nullish (map_get scoreMap i) 0
        in if score \<ge> MIN_SCORE_THRESHOLD
           then let kellyEquivalent = max ((2 * score / 100 - 1) * KELLY_MULTIPLIER) 0
                in if kellyEquivalent > 0 then map_set i kellyEquivalent fractions else fractions
           else fractions) fractions fallback"

definition kellyFractions :: "LiveOrder list \<Rightarrow> StoredScore list \<Rightarrow> StrategyConfig list \<Rightarrow> (string, number) jsmap" where
  "kellyFractions orders scores strategies =
     (let (fractions, fallback) = tradeFractions orders strategies
      in scoreFractions (buildScoreMap scores fallback) fallback fractions)"

definition sumOf :: "(string, number) jsmap \<Rightarrow> number" where
  "sumOf m = foldl (\<lambda>sum kv. sum + snd kv) 0 m"

section \<open>The distribution\<close>

record KellyState =
  ks_locked :: "(string, number) jsmap"
  ks_remaining :: number
  ks_pool :: "(string, number) jsmap"
  ks_capped :: bool

text \<open>One strategy of a round: the sum of the pool is the one at the start of the round, the remaining capital is not.\<close>

definition capOne :: "number \<Rightarrow> number \<Rightarrow> KellyState \<Rightarrow> string \<times> number \<Rightarrow> KellyState" where
  "capOne maxPerStrategy poolTotal st entry =
     (let capitalAmount = snd entry / poolTotal * ks_remaining st
      in if capitalAmount > maxPerStrategy
         then \<lparr>ks_locked = map_set (fst entry) maxPerStrategy (ks_locked st), ks_remaining = ks_remaining st - maxPerStrategy,
               ks_pool = map_delete (fst entry) (ks_pool st), ks_capped = True\<rparr>
         else st)"

text \<open>The rounds, as many as there are strategies.\<close>

fun kellyRounds :: "nat \<Rightarrow> number \<Rightarrow> (string, number) jsmap \<Rightarrow> number \<Rightarrow> (string, number) jsmap \<Rightarrow> (string, number) jsmap" where
  "kellyRounds 0 maxPerStrategy locked remaining pool = locked"
| "kellyRounds (Suc n) maxPerStrategy locked remaining pool =
     (let poolTotal = sumOf pool
      in if poolTotal = 0 then locked
         else let st = foldl (capOne maxPerStrategy poolTotal)
                    \<lparr>ks_locked = locked, ks_remaining = remaining, ks_pool = pool, ks_capped = False\<rparr> pool
              in if ks_capped st then kellyRounds n maxPerStrategy (ks_locked st) (ks_remaining st) (ks_pool st)
                 else fold (\<lambda>(i, fraction). map_set i (fraction / poolTotal * remaining)) pool locked)"

definition distributeCapital :: "number \<Rightarrow> (string, number) jsmap \<Rightarrow> (string, number) jsmap" where
  "distributeCapital effectiveCapital fractions =
     kellyRounds (length fractions) (getMaxAllocationPerStrategy effectiveCapital (length fractions)) [] effectiveCapital fractions"

record RegimeContext =
  rc_compositeRegime :: CompositeRegimeType
  rc_riskLevel :: number

definition allocateCapitalByKelly ::
    "LiveOrder list \<Rightarrow> StoredScore list \<Rightarrow> number \<Rightarrow> StrategyConfig list \<Rightarrow> RegimeContext option \<Rightarrow> (string, number) jsmap" where
  "allocateCapitalByKelly orders scores userCapital strategies regimeContext =
     (if length strategies = 0 \<or> userCapital \<le> 0 then []
      else let regimeMultiplier = (case regimeContext of
                   Some c \<Rightarrow> getRegimeMultiplier (rc_riskLevel c) (rc_compositeRegime c) | None \<Rightarrow> 1);
               effectiveCapital = userCapital * regimeMultiplier
           in if effectiveCapital \<le> 0 then []
              else let fractions = kellyFractions orders scores strategies
                   in if sumOf fractions = 0 then []
                      else let minAllocationPerStrategy = getMinCapitalPerStrategy
                                 (case regimeContext of Some c \<Rightarrow> rc_riskLevel c | None \<Rightarrow> DEFAULT_RISK_LEVEL)
                           in filter (\<lambda>kv. \<not> snd kv < minAllocationPerStrategy) (distributeCapital effectiveCapital fractions))"

record AllocationDetail =
  ad_strategyConfigId :: string
  ad_allocatedCapital :: number
  ad_percentage :: number
  ad_score :: number

definition getAllocationDetails ::
    "LiveOrder list \<Rightarrow> StoredScore list \<Rightarrow> number \<Rightarrow> StrategyConfig list \<Rightarrow> RegimeContext option \<Rightarrow> AllocationDetail list" where
  "getAllocationDetails orders scores userCapital strategies regimeContext =
     (let scoreMap = buildScoreMap scores (map sc_id strategies)
      in sort_key (\<lambda>d. - ad_allocatedCapital d)
           (map (\<lambda>(i, capital). \<lparr>ad_strategyConfigId = i, ad_allocatedCapital = capital, ad_percentage = capital / userCapital * 100,
               ad_score = nullish (map_get scoreMap i) 0\<rparr>)
             (allocateCapitalByKelly orders scores userCapital strategies regimeContext)))"

section \<open>Sums\<close>

lemma sumOf_list: "sumOf m = (\<Sum>kv\<leftarrow>m. snd kv)"
proof -
  have "foldl (\<lambda>sum kv. sum + snd kv) a m = a + (\<Sum>kv\<leftarrow>m. snd kv)" for a :: number and m :: "(string, number) jsmap"
    by (induction m arbitrary: a) simp_all
  then show ?thesis by (simp add: sumOf_def)
qed

lemma sumOf_simps [simp]: "sumOf [] = 0" "sumOf (kv # m) = snd kv + sumOf m" "sumOf (m @ m') = sumOf m + sumOf m'"
  by (simp_all add: sumOf_list)

lemma sumOf_nonneg: "\<forall>kv \<in> set m. 0 \<le> snd kv \<Longrightarrow> 0 \<le> sumOf m"
  by (induction m) simp_all

lemma sumOf_member: "\<forall>kv \<in> set m. 0 \<le> snd kv \<Longrightarrow> kv \<in> set m \<Longrightarrow> snd kv \<le> sumOf m"
proof (induction m)
  case (Cons a m)
  then show ?case using sumOf_nonneg [of m] by auto
qed simp

lemma sumOf_const: "\<forall>kv \<in> set m. snd kv = c \<Longrightarrow> sumOf m = c * real (length m)"
  by (induction m) (simp_all add: algebra_simps)

lemma sumOf_scaled: "sumOf (map (\<lambda>(i, f). (i, f / t * r)) m) = sumOf m / t * r"
  by (induction m) (auto simp: field_simps add_divide_distrib)

lemma sumOf_filter: "\<forall>kv \<in> set m. 0 \<le> snd kv \<Longrightarrow> sumOf (filter P m) \<le> sumOf m"
  by (induction m) (auto simp: add_mono intro: order_trans)

lemma all_at_most_their_mean:
  assumes "\<forall>kv \<in> set m. snd kv \<le> c" "sumOf m = c * real (length m)"
  shows "\<forall>kv \<in> set m. snd kv = c"
  using assms
proof (induction m)
  case (Cons kv m)
  have "sumOf xs \<le> c * real (length xs)" if "\<forall>kv \<in> set xs. snd kv \<le> c" for xs :: "(string, number) jsmap"
    using that by (induction xs) (auto simp: algebra_simps)
  then have "sumOf m \<le> c * real (length m)" using Cons.prems(1) by simp
  then have "snd kv = c" "sumOf m = c * real (length m)" using Cons.prems by (auto simp: algebra_simps)
  then show ?case using Cons by simp
qed simp

section \<open>The rounds\<close>

text \<open>The state of a round: what is locked is locked at the cap, and the rest of the capital remains.\<close>

definition round_ok :: "number \<Rightarrow> number \<Rightarrow> nat \<Rightarrow> KellyState \<Rightarrow> bool" where
  "round_ok capital cap n st \<longleftrightarrow> map_wf (ks_locked st @ ks_pool st) \<and> (\<forall>kv \<in> set (ks_locked st). snd kv = cap) \<and>
     (\<forall>kv \<in> set (ks_pool st). 0 \<le> snd kv) \<and> ks_remaining st = capital - cap * real (length (ks_locked st)) \<and> 0 \<le> ks_remaining st \<and>
     length (ks_locked st) + length (ks_pool st) = n"

lemma map_wf_append: "map_wf (a @ b) \<longleftrightarrow> map_wf a \<and> map_wf b \<and> fst ` set a \<inter> fst ` set b = {}"
  by (simp add: map_wf_def)

lemma map_get_None_keys: "map_get m k = None \<longleftrightarrow> k \<notin> fst ` set m"
  by (simp add: map_get_def map_of_eq_None_iff)

lemma map_delete_filter: "map_delete k m = filter (\<lambda>kv. fst kv \<noteq> k) m"
  unfolding map_delete_def by (induction m) auto

lemma length_map_delete: "map_wf m \<Longrightarrow> (k, v) \<in> set m \<Longrightarrow> Suc (length (map_delete k m)) = length m"
proof (induction m)
  case (Cons a m)
  then show ?case
  proof (cases "fst a = k")
    case True
    then have "k \<notin> fst ` set m" using Cons.prems(1) by (auto simp: map_wf_def)
    then have "filter (\<lambda>kv. fst kv \<noteq> k) m = m" by (intro filter_True) force
    then show ?thesis using True by (simp add: map_delete_filter)
  qed (use Cons in \<open>auto simp: map_delete_filter map_wf_def\<close>)
qed simp

lemma capOne_ok:
  assumes "round_ok capital cap n st" "kv \<in> set (ks_pool st)" "snd kv \<le> pt" "0 < pt" "0 \<le> cap"
  shows "round_ok capital cap n (capOne cap pt st kv)"
proof (cases "snd kv / pt * ks_remaining st > cap")
  case True
  obtain i f where kv: "kv = (i, f)" by (cases kv)
  have wf: "map_wf (ks_locked st)" "map_wf (ks_pool st)" "fst ` set (ks_locked st) \<inter> fst ` set (ks_pool st) = {}"
    using assms(1) by (simp_all add: round_ok_def map_wf_append)
  have "i \<notin> fst ` set (ks_locked st)" using assms(2) kv wf(3) by force
  then have locked: "map_set i cap (ks_locked st) = ks_locked st @ [(i, cap)]"
    by (intro map_set_fresh) (simp add: map_get_None_keys)
  have rem: "0 \<le> ks_remaining st" using assms(1) by (simp add: round_ok_def)
  have "f / pt \<le> 1" using assms(3,4) kv by simp
  then have "f / pt * ks_remaining st \<le> 1 * ks_remaining st" using rem by (rule mult_right_mono)
  then have "cap < ks_remaining st" using True kv by simp
  moreover have "Suc (length (map_delete i (ks_pool st))) = length (ks_pool st)"
    using wf(2) assms(2) unfolding kv by (rule length_map_delete)
  moreover have "map_wf ((ks_locked st @ [(i, cap)]) @ map_delete i (ks_pool st))"
    using wf \<open>i \<notin> fst ` set (ks_locked st)\<close> by (auto simp: map_wf_append map_delete_filter map_wf_def distinct_map_filter)
  ultimately show ?thesis using assms(1) True kv locked
    by (auto simp: capOne_def round_ok_def map_delete_filter algebra_simps)
qed (use assms(1) in \<open>simp add: capOne_def\<close>)

lemma capOne_pool:
  assumes "map_wf (ks_pool st)" "kv \<in> set (ks_pool st)"
  shows "set (ks_pool st) - {kv} \<subseteq> set (ks_pool (capOne cap pt st kv))"
proof
  fix x assume x: "x \<in> set (ks_pool st) - {kv}"
  then have "fst x \<noteq> fst kv" using assms by (auto simp: map_wf_def distinct_map dest: inj_onD)
  then show "x \<in> set (ks_pool (capOne cap pt st kv))" using x by (auto simp: capOne_def map_delete_filter Let_def)
qed

lemma round_ok_fold:
  assumes "round_ok capital cap n st" "set xs \<subseteq> set (ks_pool st)" "distinct xs" "\<forall>kv \<in> set xs. snd kv \<le> pt" "0 < pt" "0 \<le> cap"
  shows "round_ok capital cap n (foldl (capOne cap pt) st xs)"
  using assms
proof (induction xs arbitrary: st)
  case (Cons kv xs)
  have "round_ok capital cap n (capOne cap pt st kv)" using Cons.prems by (intro capOne_ok) auto
  moreover have "map_wf (ks_pool st)" using Cons.prems(1) by (simp add: round_ok_def map_wf_append)
  then have "set xs \<subseteq> set (ks_pool (capOne cap pt st kv))" using capOne_pool [of st kv cap pt] Cons.prems(2,3) by auto
  ultimately show ?case using Cons by simp
qed simp

lemma fold_pool: "set (ks_pool (foldl (capOne cap pt) st xs)) \<subseteq> set (ks_pool st)"
proof (induction xs arbitrary: st)
  case (Cons kv xs)
  have "set (ks_pool (capOne cap pt st kv)) \<subseteq> set (ks_pool st)" by (auto simp: capOne_def map_delete_filter Let_def)
  then show ?case using Cons [of "capOne cap pt st kv"] by simp
qed simp

lemma fold_locks: "length (ks_locked st) \<le> length (ks_locked (foldl (capOne cap pt) st xs))"
proof (induction xs arbitrary: st)
  case (Cons kv xs)
  have "length m \<le> length (map_set k v m)" for k :: string and v :: number and m
    unfolding map_set_def by (induction m) auto
  then have "length (ks_locked st) \<le> length (ks_locked (capOne cap pt st kv))" by (simp add: capOne_def Let_def)
  then show ?case using Cons [of "capOne cap pt st kv"] by simp
qed simp

text \<open>A round that caps nothing leaves everything as it was; a round that caps locks one more.\<close>

lemma fold_capped: "ks_capped st \<Longrightarrow> ks_capped (foldl (capOne cap pt) st xs)"
  by (induction xs arbitrary: st) (simp_all add: capOne_def Let_def)

lemma fold_uncapped:
  "\<not> ks_capped (foldl (capOne cap pt) st xs) \<Longrightarrow>
     foldl (capOne cap pt) st xs = st \<and> (\<forall>kv \<in> set xs. snd kv / pt * ks_remaining st \<le> cap)"
proof (induction xs arbitrary: st)
  case (Cons kv xs)
  have "\<not> snd kv / pt * ks_remaining st > cap"
  proof
    assume "snd kv / pt * ks_remaining st > cap"
    then have "ks_capped (capOne cap pt st kv)" by (simp add: capOne_def)
    then show False using Cons.prems fold_capped by simp
  qed
  then have "capOne cap pt st kv = st" "snd kv / pt * ks_remaining st \<le> cap" by (simp_all add: capOne_def)
  then show ?case using Cons by simp
qed simp

lemma capOne_locks_more:
  assumes "round_ok capital cap n st" "kv \<in> set (ks_pool st)" "cap < snd kv / pt * ks_remaining st"
  shows "length (ks_locked st) < length (ks_locked (capOne cap pt st kv))"
proof -
  have "fst kv \<notin> fst ` set (ks_locked st)" using assms(1,2) by (auto simp: round_ok_def map_wf_append)
  then have "map_set (fst kv) cap (ks_locked st) = ks_locked st @ [(fst kv, cap)]"
    by (intro map_set_fresh) (simp add: map_get_None_keys)
  then show ?thesis using assms(3) by (simp add: capOne_def)
qed

lemma fold_locks_more:
  assumes "round_ok capital cap n st" "set xs \<subseteq> set (ks_pool st)" "\<not> ks_capped st" "ks_capped (foldl (capOne cap pt) st xs)"
  shows "length (ks_locked st) < length (ks_locked (foldl (capOne cap pt) st xs))"
  using assms
proof (induction xs arbitrary: st)
  case (Cons kv xs)
  show ?case
  proof (cases "snd kv / pt * ks_remaining st > cap")
    case True
    then have "length (ks_locked st) < length (ks_locked (capOne cap pt st kv))"
      using Cons.prems by (intro capOne_locks_more) auto
    then show ?thesis using fold_locks [of "capOne cap pt st kv" cap pt xs] by simp
  next
    case False
    then have "capOne cap pt st kv = st" by (simp add: capOne_def)
    then show ?thesis using Cons by simp
  qed
qed simp

section \<open>The amounts\<close>

definition amounts_ok :: "number \<Rightarrow> number \<Rightarrow> (string, number) jsmap \<Rightarrow> bool" where
  "amounts_ok capital cap m \<longleftrightarrow> map_wf m \<and> (\<forall>kv \<in> set m. 0 \<le> snd kv \<and> snd kv \<le> cap) \<and> sumOf m \<le> capital"

lemma locked_ok:
  assumes "round_ok capital cap n st" "0 \<le> cap"
  shows "amounts_ok capital cap (ks_locked st)"
  using assms sumOf_const [of "ks_locked st" cap] by (auto simp: round_ok_def amounts_ok_def map_wf_append)

lemma shared_out:
  assumes "round_ok capital cap n st" "sumOf (ks_pool st) \<noteq> 0"
    "\<forall>kv \<in> set (ks_pool st). snd kv / sumOf (ks_pool st) * ks_remaining st \<le> cap" "0 \<le> cap"
  defines "m \<equiv> fold (\<lambda>(i, fraction). map_set i (fraction / sumOf (ks_pool st) * ks_remaining st)) (ks_pool st) (ks_locked st)"
  shows "amounts_ok capital cap m" "sumOf m = capital" "length m = n"
proof -
  let ?f = "\<lambda>(i, fraction). (i, fraction / sumOf (ks_pool st) * ks_remaining st)"
  have "fold (\<lambda>(k, v). map_set k v) (map ?f (ks_pool st)) (ks_locked st) = ks_locked st @ map ?f (ks_pool st)"
    using assms(1) by (intro map_reload_append) (auto simp: round_ok_def map_wf_def comp_def split_beta)
  moreover have share: "fold (\<lambda>(k, v). map_set k v) (map ?f p) = fold (\<lambda>(i, fraction). map_set i (fraction / sumOf (ks_pool st) * ks_remaining st)) p" for p
    by (simp add: fold_map comp_def case_prod_unfold)
  ultimately have m: "m = ks_locked st @ map ?f (ks_pool st)" unfolding m_def share [of "ks_pool st", symmetric] by simp
  have pool: "\<forall>kv \<in> set (ks_pool st). 0 \<le> snd kv" and rem: "0 \<le> ks_remaining st" using assms(1) by (simp_all add: round_ok_def)
  have "sumOf m = sumOf (ks_locked st) + sumOf (ks_pool st) / sumOf (ks_pool st) * ks_remaining st"
    unfolding m sumOf_simps sumOf_scaled ..
  then have s: "sumOf m = capital" using assms(1,2) sumOf_const [of "ks_locked st" cap] by (simp add: round_ok_def)
  then show "sumOf m = capital" .
  show "length m = n" using assms(1) by (simp add: m round_ok_def)
  have "0 \<le> snd kv \<and> snd kv \<le> cap" if "kv \<in> set m" for kv
    using that assms(1,3,4) pool rem sumOf_nonneg [OF pool] by (auto simp: m round_ok_def)
  moreover have "map_wf m" using assms(1) by (auto simp: m round_ok_def map_wf_def comp_def split_beta)
  ultimately show "amounts_ok capital cap m" using s by (simp add: amounts_ok_def)
qed

text \<open>All rounds: the limits hold, and with positive fractions and enough rounds every strategy is served.\<close>

lemma kellyRounds_ok:
  assumes "round_ok capital cap n \<lparr>ks_locked = locked, ks_remaining = remaining, ks_pool = pool, ks_capped = False\<rparr>" "0 \<le> cap"
  shows "amounts_ok capital cap (kellyRounds fuel cap locked remaining pool) \<and>
    ((\<forall>kv \<in> set pool. 0 < snd kv) \<and> length pool \<le> fuel \<longrightarrow>
       length (kellyRounds fuel cap locked remaining pool) = n \<and>
       (sumOf (kellyRounds fuel cap locked remaining pool) = capital \<or> (\<forall>kv \<in> set (kellyRounds fuel cap locked remaining pool). snd kv = cap)))"
  using assms
proof (induction fuel arbitrary: locked remaining pool)
  case 0
  then show ?case using locked_ok by (fastforce simp: round_ok_def)
next
  case (Suc fuel)
  let ?st = "\<lparr>ks_locked = locked, ks_remaining = remaining, ks_pool = pool, ks_capped = False\<rparr>"
  let ?st' = "foldl (capOne cap (sumOf pool)) ?st pool"
  have pool: "\<forall>kv \<in> set pool. 0 \<le> snd kv" and wf: "map_wf pool" using Suc.prems(1) by (simp_all add: round_ok_def map_wf_append)
  show ?case
  proof (cases "sumOf pool = 0")
    case True
    have "pool = []" if "\<forall>kv \<in> set pool. 0 < snd kv"
    proof (rule ccontr)
      assume "pool \<noteq> []"
      then obtain kv where "kv \<in> set pool" by (cases pool) auto
      then show False using that sumOf_member [OF pool] True by fastforce
    qed
    then show ?thesis using True locked_ok [OF Suc.prems] Suc.prems(1) by (auto simp: round_ok_def)
  next
    case False
    then have "0 < sumOf pool" using sumOf_nonneg [OF pool] by simp
    then have ok': "round_ok capital cap n ?st'"
      using Suc.prems sumOf_member [OF pool] wf by (intro round_ok_fold) (auto simp: map_wf_def distinct_map)
    show ?thesis
    proof (cases "ks_capped ?st'")
      case True
      have "round_ok capital cap n \<lparr>ks_locked = ks_locked ?st', ks_remaining = ks_remaining ?st', ks_pool = ks_pool ?st', ks_capped = False\<rparr>"
        using ok' by (simp add: round_ok_def)
      note IH = Suc.IH [OF this Suc.prems(2)]
      have "length locked < length (ks_locked ?st')" using fold_locks_more [OF Suc.prems(1), of pool] True by simp
      then have "length (ks_pool ?st') < length pool" using Suc.prems(1) ok' by (simp add: round_ok_def)
      moreover have "set (ks_pool ?st') \<subseteq> set pool" using fold_pool [of cap _ ?st] by simp
      moreover have "kellyRounds (Suc fuel) cap locked remaining pool =
          kellyRounds fuel cap (ks_locked ?st') (ks_remaining ?st') (ks_pool ?st')"
        using False True by (simp add: Let_def)
      ultimately show ?thesis using IH by auto
    next
      case capped: False
      have "kellyRounds (Suc fuel) cap locked remaining pool =
          fold (\<lambda>(i, fraction). map_set i (fraction / sumOf pool * remaining)) pool locked"
        using False capped by (simp add: Let_def)
      then show ?thesis using shared_out [OF Suc.prems(1)] False Suc.prems(2) fold_uncapped [OF capped] by simp
    qed
  qed
qed


section \<open>The fractions are not negative\<close>

definition fractions_ok :: "(string, number) jsmap \<Rightarrow> bool" where
  "fractions_ok m \<longleftrightarrow> map_wf m \<and> (\<forall>kv \<in> set m. 0 \<le> snd kv)"

lemma fractions_ok_set: "fractions_ok m \<Longrightarrow> 0 \<le> f \<Longrightarrow> fractions_ok (map_set i f m)"
  using set_map_set [of i f m] by (force simp: fractions_ok_def)

lemma kellyFraction_nonneg: "kellyFraction orders = Some f \<Longrightarrow> 0 \<le> f"
  by (auto simp: kellyFraction_def Let_def KELLY_MULTIPLIER_def split: if_splits)

lemma tradeFractions_ok: "fractions_ok (fst (tradeFractions orders strategies))"
proof -
  have "fractions_ok m \<Longrightarrow> fractions_ok (fst (foldl (\<lambda>(fractions, fallback) s. case kellyFraction (strategyTrades orders (sc_id s)) of
         None \<Rightarrow> (fractions, fallback @ [sc_id s])
       | Some f \<Rightarrow> (map_set (sc_id s) f fractions, fallback)) (m, fb) strategies))" for m fb
  proof (induction strategies arbitrary: m fb)
    case (Cons s strategies)
    then show ?case
      by (cases "kellyFraction (strategyTrades orders (sc_id s))") (simp_all add: fractions_ok_set kellyFraction_nonneg)
  qed simp
  from this [of "[]"] show ?thesis unfolding tradeFractions_def by (simp add: fractions_ok_def [of "[]"])
qed

lemma scoreFractions_ok: "fractions_ok m \<Longrightarrow> fractions_ok (scoreFractions scoreMap ids m)"
  unfolding scoreFractions_def
  by (induction ids arbitrary: m) (auto simp: Let_def fractions_ok_set)

lemma kellyFractions_ok: "fractions_ok (kellyFractions orders scores strategies)"
  using tradeFractions_ok [of orders strategies]
  by (auto simp: kellyFractions_def scoreFractions_ok split: prod.split)

lemma distributeCapital_ok:
  assumes "fractions_ok fractions" "0 < capital"
  defines "cap \<equiv> getMaxAllocationPerStrategy capital (length fractions)"
  shows "amounts_ok capital cap (distributeCapital capital fractions)"
    "\<forall>kv \<in> set fractions. 0 < snd kv \<Longrightarrow> length (distributeCapital capital fractions) = length fractions \<and>
       (sumOf (distributeCapital capital fractions) = capital \<or> (\<forall>kv \<in> set (distributeCapital capital fractions). snd kv = cap))"
proof -
  have "round_ok capital cap (length fractions) \<lparr>ks_locked = [], ks_remaining = capital, ks_pool = fractions, ks_capped = False\<rparr>"
    using assms(1,2) by (simp add: round_ok_def fractions_ok_def)
  moreover have "0 \<le> cap" using assms(2) by (simp add: cap_def getMaxAllocationPerStrategy_def)
  ultimately have "amounts_ok capital cap (distributeCapital capital fractions) \<and>
      ((\<forall>kv \<in> set fractions. 0 < snd kv) \<and> length fractions \<le> length fractions \<longrightarrow>
        length (distributeCapital capital fractions) = length fractions \<and>
       (sumOf (distributeCapital capital fractions) = capital \<or> (\<forall>kv \<in> set (distributeCapital capital fractions). snd kv = cap)))"
    unfolding distributeCapital_def cap_def by (rule kellyRounds_ok)
  then show "amounts_ok capital cap (distributeCapital capital fractions)"
    "\<forall>kv \<in> set fractions. 0 < snd kv \<Longrightarrow> length (distributeCapital capital fractions) = length fractions \<and>
       (sumOf (distributeCapital capital fractions) = capital \<or> (\<forall>kv \<in> set (distributeCapital capital fractions). snd kv = cap))"
    by simp_all
qed

definition regimeCapital :: "number \<Rightarrow> RegimeContext option \<Rightarrow> number" where
  "regimeCapital userCapital ctx =
     userCapital * (case ctx of Some c \<Rightarrow> getRegimeMultiplier (rc_riskLevel c) (rc_compositeRegime c) | None \<Rightarrow> 1)"

definition regimeMinimum :: "RegimeContext option \<Rightarrow> number" where
  "regimeMinimum ctx = getMinCapitalPerStrategy (case ctx of Some c \<Rightarrow> rc_riskLevel c | None \<Rightarrow> DEFAULT_RISK_LEVEL)"

lemma regimeCapital_le: "0 \<le> userCapital \<Longrightarrow> regimeCapital userCapital ctx \<le> userCapital"
  using getRegimeMultiplier_range(2) by (auto simp: regimeCapital_def mult_left_le split: option.split)

lemma allocate_cases:
  "allocateCapitalByKelly orders scores userCapital strategies ctx = [] \<or>
   0 < userCapital \<and> 0 < regimeCapital userCapital ctx \<and>
   allocateCapitalByKelly orders scores userCapital strategies ctx =
     filter (\<lambda>kv. \<not> snd kv < regimeMinimum ctx) (distributeCapital (regimeCapital userCapital ctx) (kellyFractions orders scores strategies))"
  unfolding allocateCapitalByKelly_def regimeCapital_def [symmetric] regimeMinimum_def [symmetric] Let_def by auto

text \<open>C8. The allocation stays within its limits. Whatever the trades and the scores are, no strategy is given capital twice, all
  of it together is at most the capital of the user, and every strategy that is given capital is given at least the minimum of
  the risk level and at most the cap on what the regime leaves: 15% of it or an equal share, whichever is more.\<close>

theorem allocation_within_limits:
  fixes orders scores strategies userCapital ctx
  defines "m \<equiv> allocateCapitalByKelly orders scores userCapital strategies ctx"
  shows "map_wf m \<and> sumOf m \<le> max 0 userCapital \<and>
    (\<forall>kv \<in> set m. regimeMinimum ctx \<le> snd kv \<and>
       snd kv \<le> getMaxAllocationPerStrategy (regimeCapital userCapital ctx) (length (kellyFractions orders scores strategies)))"
proof -
  let ?fs = "kellyFractions orders scores strategies"
  let ?cap = "getMaxAllocationPerStrategy (regimeCapital userCapital ctx) (length ?fs)"
  consider "m = []" | "0 < userCapital" "0 < regimeCapital userCapital ctx"
      "m = filter (\<lambda>kv. \<not> snd kv < regimeMinimum ctx) (distributeCapital (regimeCapital userCapital ctx) ?fs)"
    using allocate_cases [of orders scores userCapital strategies ctx] unfolding m_def by blast
  then show ?thesis
  proof cases
    case 2
    have ok: "amounts_ok (regimeCapital userCapital ctx) ?cap (distributeCapital (regimeCapital userCapital ctx) ?fs)"
      using kellyFractions_ok 2(2) by (rule distributeCapital_ok)
    then have "sumOf m \<le> regimeCapital userCapital ctx"
      unfolding 2(3) using sumOf_filter order_trans by (fastforce simp: amounts_ok_def)
    moreover have "map_wf m" using ok by (simp add: 2(3) amounts_ok_def map_wf_def distinct_map_filter)
    ultimately show ?thesis using ok regimeCapital_le [of userCapital ctx] 2(1) by (auto simp: 2(3) amounts_ok_def)
  qed simp
qed

text \<open>Few strategies are given equal shares. When no more than six strategies have a fraction, and every fraction is positive,
  the cap is the equal share itself, and the distribution gives every strategy exactly that: neither the trades nor the scores
  change an amount.\<close>

lemma few_strategies_get_equal_shares:
  assumes "map_wf fractions" "\<forall>kv \<in> set fractions. 0 < snd kv" "fractions \<noteq> []" "length fractions \<le> 6" "0 < capital"
  shows "length (distributeCapital capital fractions) = length fractions \<and>
    (\<forall>kv \<in> set (distributeCapital capital fractions). snd kv = capital / real (length fractions))"
proof -
  let ?n = "length fractions" and ?m = "distributeCapital capital fractions"
  have "fractions_ok fractions" using assms(1,2) by (auto simp: fractions_ok_def)
  note ok = distributeCapital_ok [OF this assms(5)]
  have "0 < real ?n" "real ?n \<le> 6" using assms(3,4) by auto
  then have "15 / 100 \<le> 1 / real ?n" by (simp add: field_simps)
  then have cap: "getMaxAllocationPerStrategy capital ?n = capital / real ?n" by (simp add: getMaxAllocationPerStrategy_def)
  have len: "length ?m = ?n" using ok(2) assms(2) by simp
  have "\<forall>kv \<in> set ?m. snd kv \<le> capital / real ?n" using ok(1) by (simp add: amounts_ok_def cap)
  then have "\<forall>kv \<in> set ?m. snd kv = capital / real ?n" if "sumOf ?m = capital"
    using that len assms(3) by (intro all_at_most_their_mean) simp_all
  then show ?thesis using ok(2) [OF assms(2)] len cap by auto
qed

definition sample_scored :: StrategyConfig where
  "sample_scored = \<lparr>sc_id = ''s1'', sc_name = ''momentum'', sc_status = SS_VALIDATED, sc_createdBy = None,
     sc_maxLeverage = None, sc_riskPoolLevel = None\<rparr>"

definition sample_latest :: StoredScore where
  "sample_latest = \<lparr>st_strategyConfigId = ''s1'', st_overallScore = 90, st_grade = GradeA, st_promotionEligible = True,
     st_calculatedAt = 1, st_componentScores = None\<rparr>"

lemma sample_fractions: "kellyFractions [] [sample_latest] [sample_scored] = [(''s1'', 1 / 5)]"
  by (simp add: kellyFractions_def tradeFractions_def scoreFractions_def buildScoreMap_def kellyFraction_def strategyTrades_def
      sample_latest_def sample_scored_def MIN_SCORE_THRESHOLD_def KELLY_MULTIPLIER_def MIN_TRADES_FOR_KELLY_def nullish_def map_set_def)

lemma sample_allocation:
  "allocateCapitalByKelly [] [sample_latest] 1000 [sample_scored] None = [(''s1'', 1000)]"
  by (simp add: allocateCapitalByKelly_def sample_fractions distributeCapital_def getMaxAllocationPerStrategy_def capOne_def Let_def
      getMinCapitalPerStrategy_def MIN_CAPITAL_PER_STRATEGY_def DEFAULT_RISK_LEVEL_def map_set_def)

theorem allocation_within_limits_witness:
  "allocateCapitalByKelly [] [sample_latest] 1000 [sample_scored] None = [(''s1'', 1000)] \<and>
   regimeMinimum None \<le> 1000 \<and> (1000::number) \<le> getMaxAllocationPerStrategy (regimeCapital 1000 None) 1"
  using allocation_within_limits [of "[]" "[sample_latest]" 1000 "[sample_scored]" None]
  by (simp add: sample_allocation sample_fractions)

end
