(* ===== verification/ParameterSearch.thy ===== *)
theory ParameterSearch
  imports Scoring "HOL-Library.Multiset" "HOL-Library.Monad_Syntax"
begin

text \<open>
  The search for the parameters of a strategy (\<^verbatim>\<open>optimization/utils/parameter-space-builder.ts\<close>,
  \<^verbatim>\<open>optimization/services/grid-search.service.ts\<close> and \<^verbatim>\<open>optimization/services/search-strategies\<close>). An object of
  parameters is a list of its pairs in the order of its keys, as \<^verbatim>\<open>JSON.stringify\<close> writes it; two objects have the
  same text when the lists are equal. A generator of random numbers is the sequence of its draws, and its state the number
  of draws taken. Numeric parameters have a numeric default, and the lists of categorical parameters are not empty.
\<close>

section \<open>Parameter spaces\<close>

datatype ParamValue = NumV number | TextV string | FlagV bool

type_synonym combo = "(string, ParamValue) jsmap"

datatype ParamType = PT_INTEGER | PT_FLOAT | PT_CATEGORICAL
datatype ParamPriority = PRIO_HIGH | PRIO_MEDIUM | PRIO_LOW

record ParameterDefinition =
  pd_name :: string
  pd_type :: ParamType
  pd_min :: "number option"
  pd_max :: "number option"
  pd_step :: "number option"
  pd_values :: "ParamValue list option"
  pd_default :: ParamValue
  pd_priority :: ParamPriority

datatype ConstraintKind = LESS_THAN | GREATER_THAN | NOT_EQUAL | CUSTOM

record ParameterConstraint =
  pc_type :: ConstraintKind
  pc_param1 :: string
  pc_param2 :: "string option"
  pc_value :: "number option"
  pc_customValidator :: "(combo \<Rightarrow> bool) option"

record ParameterSpace =
  sp_strategyType :: string
  sp_parameters :: "ParameterDefinition list"
  sp_constraints :: "ParameterConstraint list"

record ParameterCombination =
  cm_index :: nat
  cm_values :: combo
  cm_isBaseline :: bool

section \<open>The space of a strategy\<close>

record ConfigSchemaField =
  cf_type :: string
  cf_default :: ParamValue
  cf_min :: "number option"
  cf_max :: "number option"
  cf_step :: "number option"
  cf_enum :: "ParamValue list option"

definition NON_OPTIMIZABLE_PARAMS :: "string list" where
  "NON_OPTIMIZABLE_PARAMS = [''enabled'', ''riskLevel'', ''cooldownMs'', ''maxTradesPerDay'', ''minSellPercent'']"

definition NATURAL_STEPS :: "number list" where
  "NATURAL_STEPS = [5 / 1000, 1 / 100, 25 / 1000, 5 / 100, 1 / 10, 25 / 100, 5 / 10, 1, 2, 25 / 10, 5, 10]"

definition MIN_GRID_POINTS :: number where
  "MIN_GRID_POINTS = 8"

fun largestStep :: "number \<Rightarrow> number \<Rightarrow> number list \<Rightarrow> number" where
  "largestStep width chosen [] = chosen"
| "largestStep width chosen (candidate # steps) =
     (if width / candidate \<ge> MIN_GRID_POINTS then largestStep width candidate steps else chosen)"

definition chooseNaturalStep :: "number \<Rightarrow> number" where
  "chooseNaturalStep width =
     (if width \<le> 0 then hd NATURAL_STEPS else min (largestStep width (hd NATURAL_STEPS) NATURAL_STEPS) width)"

definition manyValues :: "ConfigSchemaField \<Rightarrow> bool" where
  "manyValues field = (case cf_enum field of None \<Rightarrow> False | Some vs \<Rightarrow> length vs \<ge> 2)"

definition isOptimizable :: "ConfigSchemaField \<Rightarrow> bool" where
  "isOptimizable field =
     (if cf_type field = ''boolean'' then True
      else if manyValues field then True
      else cf_type field = ''number'' \<and>
        (case (cf_min field, cf_max field) of (Some lo, Some hi) \<Rightarrow> lo < hi | _ \<Rightarrow> False))"

fun isWhole :: "ParamValue \<Rightarrow> bool" where
  "isWhole (NumV x) = (x = of_int \<lfloor>x\<rfloor>)"
| "isWhole _ = False"

definition isIntegerField :: "ConfigSchemaField \<Rightarrow> bool" where
  "isIntegerField field =
     (let values = cf_default field # map NumV (List.map_filter id [cf_min field, cf_max field])
      in length values > 0 \<and> list_all isWhole values)"

definition toParameterDefinition :: "string \<Rightarrow> ConfigSchemaField \<Rightarrow> ParameterDefinition" where
  "toParameterDefinition name field =
     (if cf_type field = ''boolean''
      then \<lparr>pd_name = name, pd_type = PT_CATEGORICAL, pd_min = None, pd_max = None, pd_step = None,
            pd_values = Some [FlagV True, FlagV False], pd_default = cf_default field, pd_priority = PRIO_LOW\<rparr>
      else if manyValues field
      then \<lparr>pd_name = name, pd_type = PT_CATEGORICAL, pd_min = None, pd_max = None, pd_step = None,
            pd_values = cf_enum field, pd_default = cf_default field, pd_priority = PRIO_MEDIUM\<rparr>
      else let isInteger = isIntegerField field; lo = nullish (cf_min field) 0; hi = nullish (cf_max field) 0;
               step = (case cf_step field of Some s \<Rightarrow> s
                       | None \<Rightarrow> if isInteger then 1 else chooseNaturalStep (hi - lo))
           in \<lparr>pd_name = name, pd_type = (if isInteger then PT_INTEGER else PT_FLOAT), pd_min = Some lo, pd_max = Some hi,
               pd_step = Some step, pd_values = None, pd_default = cf_default field, pd_priority = PRIO_HIGH\<rparr>)"

text \<open>The fields of a schema, a map from names.\<close>

definition buildParameterSpace ::
    "string \<Rightarrow> (string, ConfigSchemaField) jsmap \<Rightarrow> ParameterConstraint list \<Rightarrow> ParameterSpace" where
  "buildParameterSpace strategyId configSchema constraints =
     (let parameters = map (\<lambda>(name, field). toParameterDefinition name field)
            (filter (\<lambda>(name, field). name \<notin> set NON_OPTIMIZABLE_PARAMS \<and> isOptimizable field) configSchema);
          paramNames = set (map pd_name parameters)
      in \<lparr>sp_strategyType = strategyId, sp_parameters = parameters,
          sp_constraints = filter (\<lambda>c. pc_param1 c \<in> paramNames \<and>
            (case pc_param2 c of None \<Rightarrow> True | Some p \<Rightarrow> p \<in> paramNames)) constraints\<rparr>)"

section \<open>Constraints\<close>

text \<open>A comparison with anything but a number is false, as with \<^verbatim>\<open>NaN\<close>; the compared parameters are numeric.\<close>

fun numberOf :: "ParamValue option \<Rightarrow> number option" where
  "numberOf (Some (NumV x)) = Some x"
| "numberOf _ = None"

definition compareNum :: "(number \<Rightarrow> number \<Rightarrow> bool) \<Rightarrow> number option \<Rightarrow> number option \<Rightarrow> bool" where
  "compareNum rel a b = (case (a, b) of (Some x, Some y) \<Rightarrow> rel x y | _ \<Rightarrow> False)"

definition validateSingleConstraint :: "combo \<Rightarrow> ParameterConstraint \<Rightarrow> bool" where
  "validateSingleConstraint params c =
     (let val1 = map_get params (pc_param1 c);
          other = (case pc_param2 c of None \<Rightarrow> None | Some p \<Rightarrow> if p = '''' then None else Some p)
      in case pc_type c of
           LESS_THAN \<Rightarrow> (case other of
               Some p \<Rightarrow> compareNum (<) (numberOf val1) (numberOf (map_get params p))
             | None \<Rightarrow> (case pc_value c of None \<Rightarrow> True | Some v \<Rightarrow> compareNum (<) (numberOf val1) (Some v)))
         | GREATER_THAN \<Rightarrow> (case other of
               Some p \<Rightarrow> compareNum (>) (numberOf val1) (numberOf (map_get params p))
             | None \<Rightarrow> (case pc_value c of None \<Rightarrow> True | Some v \<Rightarrow> compareNum (>) (numberOf val1) (Some v)))
         | NOT_EQUAL \<Rightarrow> (case other of
               Some p \<Rightarrow> val1 \<noteq> map_get params p
             | None \<Rightarrow> (case pc_value c of None \<Rightarrow> True | Some v \<Rightarrow> val1 \<noteq> Some (NumV v)))
         | CUSTOM \<Rightarrow> (case pc_customValidator c of None \<Rightarrow> True | Some valid \<Rightarrow> valid params))"

definition validateConstraints :: "combo \<Rightarrow> ParameterConstraint list \<Rightarrow> bool" where
  "validateConstraints params constraints = list_all (validateSingleConstraint params) constraints"

section \<open>The grid\<close>

fun defaultNumber :: "ParamValue \<Rightarrow> number" where
  "defaultNumber (NumV x) = x"
| "defaultNumber _ = 0"

text \<open>The loop from the minimum to the maximum. With a step that is not positive it does not end: the result is \<open>None\<close>.\<close>

partial_function (option) gridLoop :: "(number \<Rightarrow> number) \<Rightarrow> number \<Rightarrow> number \<Rightarrow> number \<Rightarrow> number list option" where
  "gridLoop conv step hi value =
     (if value \<le> hi then do { vs \<leftarrow> gridLoop conv step hi (value + step); Some (conv value # vs) } else Some [])"

definition round4 :: "number \<Rightarrow> number" where
  "round4 v = js_round (v * 10000) / 10000"

definition floatAnchors :: "number \<Rightarrow> number \<Rightarrow> number \<Rightarrow> number list" where
  "floatAnchors lo def hi = [round4 lo, round4 def, round4 hi] @ map of_int [\<lceil>lo\<rceil>..\<lfloor>hi\<rfloor>]"

definition expandParameter :: "ParameterDefinition \<Rightarrow> ParamValue list option" where
  "expandParameter param =
     (if pd_type param = PT_CATEGORICAL then Some (nullish (pd_values param) [pd_default param])
      else let def = defaultNumber (pd_default param); lo = nullish (pd_min param) def; hi = nullish (pd_max param) def;
               step = nullish (pd_step param) 1;
               conv = (if pd_type param = PT_INTEGER then js_round else round4)
           in if lo = hi then Some [NumV lo]
              else do {
                values \<leftarrow> gridLoop conv step hi lo;
                let withMax = (if values \<noteq> [] \<and> last values < hi then values @ [conv hi] else values);
                Some (map NumV
                  (if pd_type param = PT_FLOAT
                   then sort (remdups (withMax @ filter (\<lambda>a. lo \<le> a \<and> a \<le> hi) (floatAnchors lo def hi)))
                   else withMax))
              })"

definition parameterValues :: "ParameterSpace \<Rightarrow> (string, ParamValue list) jsmap option" where
  "parameterValues space =
     foldl (\<lambda>m p. do { m \<leftarrow> m; vs \<leftarrow> expandParameter p; Some (map_set (pd_name p) vs m) }) (Some []) (sp_parameters space)"

definition calculateTotalCombinations :: "ParameterSpace \<Rightarrow> nat option" where
  "calculateTotalCombinations space =
     foldl (\<lambda>n p. do { n \<leftarrow> n; vs \<leftarrow> expandParameter p; Some (n * length vs) }) (Some 1) (sp_parameters space)"

fun productHelper :: "combo \<Rightarrow> (string \<times> ParamValue list) list \<Rightarrow> combo list" where
  "productHelper current [] = [current]"
| "productHelper current ((name, vs) # rest) = concat (map (\<lambda>v. productHelper (map_set name v current) rest) vs)"

definition cartesianProduct :: "(string, ParamValue list) jsmap \<Rightarrow> combo list" where
  "cartesianProduct pv = productHelper [] pv"

definition getBaselineValues :: "ParameterSpace \<Rightarrow> combo" where
  "getBaselineValues space = foldl (\<lambda>m p. map_set (pd_name p) (pd_default p) m) [] (sp_parameters space)"

definition isBaselineCombination :: "combo \<Rightarrow> combo \<Rightarrow> bool" where
  "isBaselineCombination values baseline = list_all (\<lambda>(k, v). map_get values k = Some v) baseline"

text \<open>The shuffle of Fisher and Yates, with the number of draws taken.\<close>

fun shuffleLoop :: "(nat \<Rightarrow> number) \<Rightarrow> nat \<Rightarrow> nat \<Rightarrow> 'a list \<Rightarrow> 'a list" where
  "shuffleLoop random k 0 xs = xs"
| "shuffleLoop random k (Suc i) xs =
     (let j = nat \<lfloor>random k * real (Suc i + 1)\<rfloor> in shuffleLoop random (Suc k) i (xs[Suc i := xs ! j, j := xs ! Suc i]))"

definition shuffleArray :: "(nat \<Rightarrow> number) \<Rightarrow> 'a list \<Rightarrow> 'a list" where
  "shuffleArray random xs = shuffleLoop random 0 (length xs - 1) xs"

definition reindex :: "ParameterCombination list \<Rightarrow> ParameterCombination list" where
  "reindex cs = map (\<lambda>(i, c). c\<lparr>cm_index := i\<rparr>) (enumerate 0 cs)"

definition sampleCombinations :: "ParameterCombination list \<Rightarrow> nat \<Rightarrow> (nat \<Rightarrow> number) \<Rightarrow> ParameterCombination list" where
  "sampleCombinations cs maxCombinations random =
     (if length cs \<le> maxCombinations then cs
      else reindex (hd cs # take (maxCombinations - 1) (shuffleArray random (tl cs))))"

text \<open>The baseline first: moved to the front, or added when it is not among the combinations.\<close>

definition baselineFirst :: "combo \<Rightarrow> ParameterCombination list \<Rightarrow> ParameterCombination list" where
  "baselineFirst baselineValues cs =
     (case dropWhile (\<lambda>c. \<not> cm_isBaseline c) cs of
        [] \<Rightarrow> \<lparr>cm_index = 0, cm_values = baselineValues, cm_isBaseline = True\<rparr> # cs
      | b # rest \<Rightarrow> b # takeWhile (\<lambda>c. \<not> cm_isBaseline c) cs @ rest)"

definition generateCombinations ::
    "ParameterSpace \<Rightarrow> nat option \<Rightarrow> (combo \<Rightarrow> bool) option \<Rightarrow> (nat \<Rightarrow> number) \<Rightarrow> ParameterCombination list option" where
  "generateCombinations space maxCombinations reachabilityFilter random = do {
     pv \<leftarrow> parameterValues space;
     let validCombinations = filter (\<lambda>c. validateConstraints c (sp_constraints space)) (cartesianProduct pv);
     let reachable = (case reachabilityFilter of None \<Rightarrow> validCombinations | Some f \<Rightarrow> filter f validCombinations);
     let baselineValues = getBaselineValues space;
     let combinations = map (\<lambda>(i, values). \<lparr>cm_index = i, cm_values = values,
            cm_isBaseline = isBaselineCombination values baselineValues\<rparr>) (enumerate 0 reachable);
     let combinations = reindex (baselineFirst baselineValues combinations);
     Some (case maxCombinations of
         None \<Rightarrow> combinations
       | Some m \<Rightarrow> if m \<noteq> 0 \<and> length combinations > m then sampleCombinations combinations m random else combinations)
   }"

section \<open>Random search\<close>

definition stepDecimals :: "number \<Rightarrow> nat" where
  "stepDecimals step = (if step \<ge> 1 then 0 else nat (max 4 \<lceil>- log 10 step\<rceil>))"

text \<open>The draw at a position of a list or a width.\<close>

definition pick :: "(nat \<Rightarrow> number) \<Rightarrow> nat \<Rightarrow> number \<Rightarrow> int" where
  "pick random k width = \<lfloor>random k * width\<rfloor>"

definition generateRandomValue :: "(nat \<Rightarrow> number) \<Rightarrow> nat \<Rightarrow> ParameterDefinition \<Rightarrow> ParamValue" where
  "generateRandomValue random k param =
     (if pd_type param = PT_CATEGORICAL
      then let values = nullish (pd_values param) [pd_default param]
           in values ! nat (pick random k (real (length values)))
      else let def = defaultNumber (pd_default param); lo = nullish (pd_min param) def; hi = nullish (pd_max param) def;
               step = nullish (pd_step param) 1;
               width = of_int \<lfloor>(hi - lo) / step\<rfloor> + 1;
               steps = of_int (pick random k width)
           in if pd_type param = PT_INTEGER then NumV (js_round (lo + steps * step))
              else let factor = 10 ^ stepDecimals step in NumV (js_round ((lo + steps * step) * factor) / factor))"

text \<open>One draw for every parameter.\<close>

definition generateRandomCombination :: "(nat \<Rightarrow> number) \<Rightarrow> nat \<Rightarrow> ParameterSpace \<Rightarrow> combo \<times> nat" where
  "generateRandomCombination random k space =
     foldl (\<lambda>(m, k) p. (map_set (pd_name p) (generateRandomValue random k p) m, Suc k)) ([], k) (sp_parameters space)"

definition acceptable :: "ParameterSpace \<Rightarrow> (combo \<Rightarrow> bool) option \<Rightarrow> combo list \<Rightarrow> combo \<Rightarrow> bool" where
  "acceptable space reachabilityFilter seen candidate \<longleftrightarrow>
     candidate \<notin> set seen \<and> validateConstraints candidate (sp_constraints space) \<and>
     (case reachabilityFilter of None \<Rightarrow> True | Some f \<Rightarrow> f candidate)"

text \<open>The loop with the attempts that are left.\<close>

fun randomLoop ::
    "ParameterSpace \<Rightarrow> nat \<Rightarrow> (combo \<Rightarrow> bool) option \<Rightarrow> (nat \<Rightarrow> number) \<Rightarrow> nat \<Rightarrow> nat \<Rightarrow> ParameterCombination list \<Rightarrow>
      ParameterCombination list" where
  "randomLoop space numCombinations filt random 0 k cs = cs"
| "randomLoop space numCombinations filt random (Suc attemptsLeft) k cs =
     (if length cs < numCombinations
      then let (combo, k') = generateRandomCombination random k space
           in randomLoop space numCombinations filt random attemptsLeft k'
                (if acceptable space filt (map cm_values cs) combo
                 then cs @ [\<lparr>cm_index = length cs, cm_values = combo, cm_isBaseline = False\<rparr>] else cs)
      else cs)"

definition generateRandomCombinations ::
    "ParameterSpace \<Rightarrow> nat \<Rightarrow> (combo \<Rightarrow> bool) option \<Rightarrow> (nat \<Rightarrow> number) \<Rightarrow> ParameterCombination list" where
  "generateRandomCombinations space numCombinations reachabilityFilter random =
     randomLoop space numCombinations reachabilityFilter random (numCombinations * 10) 0
       [\<lparr>cm_index = 0, cm_values = getBaselineValues space, cm_isBaseline = True\<rparr>]"

section \<open>Adaptive search\<close>

record SearchHistoryRecord =
  hr_combinationIndex :: nat
  hr_values :: combo
  hr_avgTestScore :: number
  hr_isBaseline :: bool

definition NEIGHBORHOOD_RATIO :: number where
  "NEIGHBORHOOD_RATIO = 3 / 10"

definition TOP_K :: nat where
  "TOP_K = 3"

definition SIGMA_FRACTION :: number where
  "SIGMA_FRACTION = 1 / 10"

text \<open>A draw that is not zero; zeros are drawn again.\<close>

partial_function (option) nonZero :: "(nat \<Rightarrow> number) \<Rightarrow> nat \<Rightarrow> (number \<times> nat) option" where
  "nonZero random k = (if random k = 0 then nonZero random (Suc k) else Some (random k, Suc k))"

definition gaussian :: "(nat \<Rightarrow> number) \<Rightarrow> nat \<Rightarrow> (number \<times> nat) option" where
  "gaussian random k = do {
     (u, k) \<leftarrow> nonZero random k;
     (v, k) \<leftarrow> nonZero random k;
     Some (sqrt (- 2 * ln u) * cos (2 * pi * v), k)
   }"

definition clampTo :: "number \<Rightarrow> number \<Rightarrow> number \<Rightarrow> number" where
  "clampTo lo hi v = max lo (min hi v)"

definition neighborhoodValue ::
    "(nat \<Rightarrow> number) \<Rightarrow> nat \<Rightarrow> ParameterDefinition \<Rightarrow> ParamValue option \<Rightarrow> (ParamValue \<times> nat) option" where
  "neighborhoodValue random k param centerValue =
     (if centerValue = None then Some (generateRandomValue random k param, Suc k)
      else if pd_type param = PT_CATEGORICAL
      then if random k < 7 / 10 then Some (the centerValue, Suc k)
           else Some (generateRandomValue random (Suc k) param, Suc (Suc k))
      else case numberOf centerValue of
        None \<Rightarrow> Some (generateRandomValue random k param, Suc k)
      | Some center \<Rightarrow>
          let lo = nullish (pd_min param) center; hi = nullish (pd_max param) center; step = nullish (pd_step param) 1;
              width = hi - lo
          in if width \<le> 0 then Some (NumV center, k)
             else do {
               (g, k) \<leftarrow> gaussian random k;
               let clamped = clampTo lo hi (center + g * (width * SIGMA_FRACTION));
               let snapped = clampTo lo hi (js_round ((clamped - lo) / step) * step + lo);
               let factor = 10 ^ stepDecimals step;
               Some (NumV (if pd_type param = PT_INTEGER then js_round snapped else js_round (snapped * factor) / factor), k)
             })"

fun sampleNeighborhood ::
    "(nat \<Rightarrow> number) \<Rightarrow> nat \<Rightarrow> ParameterDefinition list \<Rightarrow> combo \<Rightarrow> combo \<Rightarrow> (combo \<times> nat) option" where
  "sampleNeighborhood random k [] center result = Some (result, k)"
| "sampleNeighborhood random k (param # params) center result = do {
     (v, k) \<leftarrow> neighborhoodValue random k param (map_get center (pd_name param));
     sampleNeighborhood random k params center (map_set (pd_name param) v result)
   }"

definition pickTopK :: "SearchHistoryRecord list \<Rightarrow> nat \<Rightarrow> SearchHistoryRecord list" where
  "pickTopK history k = take k (sort_key (\<lambda>h. - hr_avgTestScore h) history)"

text \<open>The random part of a batch, with the attempts that are left, and the part near the best results.\<close>

fun randomPortion ::
    "ParameterSpace \<Rightarrow> (combo \<Rightarrow> bool) option \<Rightarrow> (nat \<Rightarrow> number) \<Rightarrow> combo list \<Rightarrow> nat \<Rightarrow> nat \<Rightarrow> nat \<Rightarrow> nat \<Rightarrow>
      ParameterCombination list \<Rightarrow> ParameterCombination list \<times> nat \<times> nat" where
  "randomPortion space filt random past startIndex randomCount 0 k out = (out, k, 0)"
| "randomPortion space filt random past startIndex randomCount (Suc attemptsLeft) k out =
     (if length out < randomCount
      then let (candidate, k') = generateRandomCombination random k space
           in randomPortion space filt random past startIndex randomCount attemptsLeft k'
                (if acceptable space filt (past @ map cm_values out) candidate
                 then out @ [\<lparr>cm_index = startIndex + length out, cm_values = candidate, cm_isBaseline = False\<rparr>] else out)
      else (out, k, Suc attemptsLeft))"

fun neighborhoodPortion ::
    "ParameterSpace \<Rightarrow> (combo \<Rightarrow> bool) option \<Rightarrow> (nat \<Rightarrow> number) \<Rightarrow> combo list \<Rightarrow> combo list \<Rightarrow> nat \<Rightarrow> nat \<Rightarrow> nat \<Rightarrow>
      nat \<Rightarrow> nat \<Rightarrow> ParameterCombination list \<Rightarrow> (ParameterCombination list \<times> nat) option" where
  "neighborhoodPortion space filt random past centers startIndex neighborhoodCount 0 k added out = Some (out, k)"
| "neighborhoodPortion space filt random past centers startIndex neighborhoodCount (Suc attemptsLeft) k added out =
     (if added < neighborhoodCount
      then do {
        (candidate, k') \<leftarrow> sampleNeighborhood random k (sp_parameters space) (centers ! (added mod length centers)) [];
        if acceptable space filt (past @ map cm_values out) candidate
        then neighborhoodPortion space filt random past centers startIndex neighborhoodCount attemptsLeft k' (Suc added)
               (out @ [\<lparr>cm_index = startIndex + length out, cm_values = candidate, cm_isBaseline = False\<rparr>])
        else neighborhoodPortion space filt random past centers startIndex neighborhoodCount attemptsLeft k' added out
      }
      else Some (out, k))"

definition adaptiveNextBatch ::
    "ParameterSpace \<Rightarrow> SearchHistoryRecord list \<Rightarrow> nat \<Rightarrow> nat \<Rightarrow> nat \<Rightarrow> (combo \<Rightarrow> bool) option \<Rightarrow> (nat \<Rightarrow> number) \<Rightarrow>
      nat \<Rightarrow> (ParameterCombination list \<times> nat) option" where
  "adaptiveNextBatch space history batchSize remaining startIndex reachabilityFilter random k =
     (let targetCount = min batchSize remaining;
          past = map hr_values history;
          validCenters = map hr_values (pickTopK history TOP_K);
          neighborhoodCount = (if length validCenters > 0 then nat \<lfloor>real targetCount * NEIGHBORHOOD_RATIO + 1 / 2\<rfloor> else 0);
          randomCount = targetCount - neighborhoodCount;
          maxAttempts = targetCount * 20;
          (out, k', attemptsLeft) = randomPortion space reachabilityFilter random past startIndex randomCount maxAttempts k []
      in if targetCount = 0 then Some ([], k)
         else neighborhoodPortion space reachabilityFilter random past validCenters startIndex neighborhoodCount
                (maxAttempts + attemptsLeft) k' 0 out)"

section \<open>The strategies of search\<close>

datatype SearchMethod = GRID_SEARCH | RANDOM_SEARCH | ADAPTIVE_SEARCH

fun isStatic :: "SearchMethod \<Rightarrow> bool" where
  "isStatic ADAPTIVE_SEARCH = False"
| "isStatic _ = True"

fun generateInitialCombinations ::
    "SearchMethod \<Rightarrow> ParameterSpace \<Rightarrow> nat option \<Rightarrow> (combo \<Rightarrow> bool) option \<Rightarrow> (nat \<Rightarrow> number) \<Rightarrow>
      ParameterCombination list option" where
  "generateInitialCombinations GRID_SEARCH space targetCount filt random = generateCombinations space targetCount filt random"
| "generateInitialCombinations RANDOM_SEARCH space targetCount filt random =
     Some (generateRandomCombinations space (case targetCount of None \<Rightarrow> 100 | Some n \<Rightarrow> n) filt random)"
| "generateInitialCombinations ADAPTIVE_SEARCH space targetCount filt random =
     Some [\<lparr>cm_index = 0, cm_values = getBaselineValues space, cm_isBaseline = True\<rparr>]"

fun generateNextBatch ::
    "SearchMethod \<Rightarrow> ParameterSpace \<Rightarrow> SearchHistoryRecord list \<Rightarrow> nat \<Rightarrow> nat \<Rightarrow> nat \<Rightarrow> (combo \<Rightarrow> bool) option \<Rightarrow>
      (nat \<Rightarrow> number) \<Rightarrow> nat \<Rightarrow> (ParameterCombination list \<times> nat) option" where
  "generateNextBatch ADAPTIVE_SEARCH space history batchSize remaining startIndex filt random k =
     adaptiveNextBatch space history batchSize remaining startIndex filt random k"
| "generateNextBatch _ space history batchSize remaining startIndex filt random k = Some ([], k)"

section \<open>The loop of the grid\<close>

lemma gridLoop_step: "at0 \<le> hi \<Longrightarrow> gridLoop conv step hi at0 = map_option (\<lambda>vs. conv at0 # vs) (gridLoop conv step hi (at0 + step))"
  by (subst gridLoop.simps) (auto split: option.split Option.bind_split)

lemma gridLoop_end: "hi < at0 \<Longrightarrow> gridLoop conv step hi at0 = Some []"
  by (subst gridLoop.simps) simp

lemma gridLoop_values:
  assumes "0 < step"
  shows "gridLoop conv step hi at0 = Some (map (\<lambda>i. conv (at0 + real i * step)) [0..<nat (\<lfloor>(hi - at0) / step\<rfloor> + 1)])"
proof (induction "nat (\<lfloor>(hi - at0) / step\<rfloor> + 1)" arbitrary: at0)
  case 0
  then have "(hi - at0) / step < 0" by linarith
  then have "hi < at0" using assms by (simp add: divide_less_0_iff)
  then show ?case using 0 by (simp add: gridLoop_end)
next
  case (Suc n)
  then have "0 \<le> (hi - at0) / step" by linarith
  then have le: "at0 \<le> hi" using assms by (simp add: zero_le_divide_iff)
  have "(hi - (at0 + step)) / step = (hi - at0) / step - 1" using assms by (simp add: field_simps)
  then have n: "n = nat (\<lfloor>(hi - (at0 + step)) / step\<rfloor> + 1)" using Suc.hyps(2) by simp
  have "map (\<lambda>i. conv (at0 + real i * step)) [0..<Suc n] = conv at0 # map (\<lambda>i. conv (at0 + step + real i * step)) [0..<n]"
    by (simp add: upt_conv_Cons map_Suc_upt [symmetric] comp_def algebra_simps del: upt_Suc)
  then show ?case using Suc.hyps(1) [OF n] Suc.hyps(2) by (simp add: gridLoop_step [OF le] n [symmetric] del: upt_Suc)
qed

lemma gridLoop_endless:
  assumes "step \<le> 0" "at0 \<le> hi"
  shows "gridLoop conv step hi at0 = None"
proof -
  have "step \<le> 0 \<longrightarrow> hi < at0" if "gridLoop conv step hi at0 = Some vs" for vs
  proof (rule gridLoop.raw_induct [of "\<lambda>conv step hi at0 vs. step \<le> 0 \<longrightarrow> hi < at0", OF _ that])
    fix loop :: "(number \<Rightarrow> number) \<Rightarrow> number \<Rightarrow> number \<Rightarrow> number \<Rightarrow> number list option" and conv step hi at0 vs
    assume IH: "\<And>conv step hi at0 vs. loop conv step hi at0 = Some vs \<Longrightarrow> step \<le> 0 \<longrightarrow> hi < at0"
      and res: "(if at0 \<le> hi then loop conv step hi (at0 + step) \<bind> (\<lambda>vs. Some (conv at0 # vs)) else Some []) = Some vs"
    show "step \<le> 0 \<longrightarrow> hi < at0"
    proof (cases "at0 \<le> hi")
      case True
      then obtain ws where "loop conv step hi (at0 + step) = Some ws"
        using res by (auto split: Option.bind_split_asm)
      then show ?thesis using IH by fastforce
    qed simp
  qed
  then show ?thesis using assms by fastforce
qed

section \<open>Shuffles and samples\<close>

definition draws_ok :: "(nat \<Rightarrow> number) \<Rightarrow> bool" where
  "draws_ok random \<longleftrightarrow> (\<forall>k. 0 \<le> random k \<and> random k < 1)"

lemma pick_range:
  assumes "draws_ok random" "0 < n"
  shows "0 \<le> pick random k n" "of_int (pick random k n) < n"
proof -
  have r: "0 \<le> random k" "random k < 1" using assms(1) by (simp_all add: draws_ok_def)
  then have "0 \<le> random k * n" "random k * n < n" using assms(2) by simp_all
  then show "0 \<le> pick random k n" "of_int (pick random k n) < n" unfolding pick_def by linarith+
qed

lemma shuffleLoop_mset:
  assumes "draws_ok random" "i < length xs"
  shows "mset (shuffleLoop random k i xs) = mset xs"
  using assms(2)
proof (induction i arbitrary: k xs)
  case (Suc i)
  let ?j = "nat \<lfloor>random k * real (Suc i + 1)\<rfloor>"
  have "?j < Suc i + 1" using pick_range [OF assms(1), of "real (Suc i + 1)" k] unfolding pick_def by linarith
  then have "mset (xs[Suc i := xs ! ?j, ?j := xs ! Suc i]) = mset xs"
    using Suc.prems mset_swap [of "?j" xs "Suc i"] by simp
  then show ?case using Suc by (simp add: Let_def del: of_nat_Suc of_nat_add)
qed simp

lemma shuffleArray_mset: "draws_ok random \<Longrightarrow> mset (shuffleArray random xs) = mset xs"
  unfolding shuffleArray_def by (cases xs) (simp_all add: shuffleLoop_mset)

lemma length_reindex [simp]: "length (reindex cs) = length cs"
  by (simp add: reindex_def)

lemma reindex_simps [simp]:
  "map cm_index (reindex cs) = [0..<length cs]" "map cm_values (reindex cs) = map cm_values cs"
  "map cm_isBaseline (reindex cs) = map cm_isBaseline cs"
proof -
  have "map cm_index (reindex cs) = map fst (enumerate 0 cs)" by (simp add: reindex_def comp_def case_prod_unfold)
  then show "map cm_index (reindex cs) = [0..<length cs]" by simp
  have "map cm_values (reindex cs) = map cm_values (map snd (enumerate 0 cs))"
    by (simp only: reindex_def map_map) (simp add: comp_def case_prod_unfold)
  then show "map cm_values (reindex cs) = map cm_values cs" by simp
  have "map cm_isBaseline (reindex cs) = map cm_isBaseline (map snd (enumerate 0 cs))"
    by (simp only: reindex_def map_map) (simp add: comp_def case_prod_unfold)
  then show "map cm_isBaseline (reindex cs) = map cm_isBaseline cs" by simp
qed

lemma sampleCombinations_part:
  assumes "draws_ok random" "cs \<noteq> []" "0 < m" "map cm_index cs = [0..<length cs]"
  defines "s \<equiv> sampleCombinations cs m random"
  shows "map cm_index s = [0..<length s]" "length s \<le> m" "s \<noteq> []" "cm_values (hd s) = cm_values (hd cs)"
    "cm_isBaseline (hd s) = cm_isBaseline (hd cs)" "mset (map cm_values (tl s)) \<subseteq># mset (map cm_values (tl cs))"
proof -
  have ne: "length cs \<noteq> 0" using assms(2) by simp
  show "map cm_index s = [0..<length s]" using assms(4) by (simp add: s_def sampleCombinations_def)
  show "length s \<le> m" using assms(3) by (auto simp: s_def sampleCombinations_def min_def)
  show "s \<noteq> []" using assms(2) by (auto simp: s_def sampleCombinations_def reindex_def)
  have vals: "map cm_values s = (if length cs \<le> m then map cm_values cs
      else cm_values (hd cs) # map cm_values (take (m - 1) (shuffleArray random (tl cs))))"
    by (simp add: s_def sampleCombinations_def)
  then show "cm_values (hd s) = cm_values (hd cs)" using \<open>s \<noteq> []\<close> assms(2) by (cases s; cases cs) (auto split: if_splits)
  have "map cm_isBaseline s = (if length cs \<le> m then map cm_isBaseline cs
      else cm_isBaseline (hd cs) # map cm_isBaseline (take (m - 1) (shuffleArray random (tl cs))))"
    by (simp add: s_def sampleCombinations_def)
  then show "cm_isBaseline (hd s) = cm_isBaseline (hd cs)" using \<open>s \<noteq> []\<close> assms(2) by (cases s; cases cs) (auto split: if_splits)
  have "mset (take (m - 1) xs) \<subseteq># mset xs" for xs :: "ParameterCombination list"
    by (metis append_take_drop_id mset_append mset_subset_eq_add_left)
  from this [of "shuffleArray random (tl cs)"]
  have "image_mset cm_values (mset (take (m - 1) (shuffleArray random (tl cs)))) \<subseteq># image_mset cm_values (mset (tl cs))"
    unfolding shuffleArray_mset [OF assms(1)] by (rule image_mset_subseteq_mono)
  then show "mset (map cm_values (tl s)) \<subseteq># mset (map cm_values (tl cs))"
    unfolding map_tl vals by (auto simp: map_tl [symmetric])
qed

section \<open>The grid\<close>

text \<open>The combination of a choice of values, one for each parameter.\<close>

definition assign :: "string list \<Rightarrow> ParamValue list \<Rightarrow> combo" where
  "assign names vs = foldl (\<lambda>m (n, v). map_set n v m) [] (zip names vs)"

lemma productHelper_choices:
  "productHelper current ps =
     map (\<lambda>vs. foldl (\<lambda>m (n, v). map_set n v m) current (zip (map fst ps) vs)) (product_lists (map snd ps))"
proof (induction current ps rule: productHelper.induct)
  case (2 current name vs rest)
  have "map (\<lambda>v. productHelper (map_set name v current) rest) vs =
      map (\<lambda>v. map (\<lambda>ws. foldl (\<lambda>m (n, v). map_set n v m) (map_set name v current) (zip (map fst rest) ws))
        (product_lists (map snd rest))) vs"
    by (intro map_cong refl 2)
  from arg_cong [OF this, of concat] show ?case by (simp add: map_concat comp_def)
qed simp

lemma cartesianProduct_choices: "cartesianProduct pv = map (assign (map fst pv)) (product_lists (map snd pv))"
  by (simp add: cartesianProduct_def productHelper_choices assign_def)

lemma in_cartesianProduct:
  "c \<in> set (cartesianProduct pv) \<longleftrightarrow> (\<exists>vs. list_all2 (\<lambda>v xs. v \<in> set xs) vs (map snd pv) \<and> c = assign (map fst pv) vs)"
  by (auto simp: cartesianProduct_choices product_lists_set)

lemma baselineFirst_parts:
  assumes "\<forall>c \<in> set cs. cm_isBaseline c \<longrightarrow> isBaselineCombination (cm_values c) bv" "isBaselineCombination bv bv"
  defines "b \<equiv> baselineFirst bv cs"
  shows "b \<noteq> []" "cm_isBaseline (hd b)" "isBaselineCombination (cm_values (hd b)) bv"
    "set (tl b) \<subseteq> set cs" "set cs \<subseteq> set b"
proof -
  have split: "cs = takeWhile (\<lambda>c. \<not> cm_isBaseline c) cs @ dropWhile (\<lambda>c. \<not> cm_isBaseline c) cs" by simp
  consider "dropWhile (\<lambda>c. \<not> cm_isBaseline c) cs = []" | x rest where "dropWhile (\<lambda>c. \<not> cm_isBaseline c) cs = x # rest"
    by (cases "dropWhile (\<lambda>c. \<not> cm_isBaseline c) cs") auto
  then have "b \<noteq> [] \<and> cm_isBaseline (hd b) \<and> isBaselineCombination (cm_values (hd b)) bv \<and> set (tl b) \<subseteq> set cs \<and> set cs \<subseteq> set b"
  proof cases
    case 1
    show ?thesis unfolding b_def baselineFirst_def 1 using assms(2) by auto
  next
    case 2
    then have base: "cm_isBaseline x" using hd_dropWhile [of "\<lambda>c. \<not> cm_isBaseline c" cs] by simp
    have "cs = takeWhile (\<lambda>c. \<not> cm_isBaseline c) cs @ x # rest" using split unfolding 2 by simp
    then have "set cs = insert x (set (takeWhile (\<lambda>c. \<not> cm_isBaseline c) cs) \<union> set rest)"
      by (metis (no_types, lifting) Un_insert_right list.simps(15) set_append)
    moreover have "b = x # takeWhile (\<lambda>c. \<not> cm_isBaseline c) cs @ rest" by (simp add: b_def baselineFirst_def 2)
    ultimately show ?thesis using assms(1) base by auto
  qed
  then show "b \<noteq> []" "cm_isBaseline (hd b)" "isBaselineCombination (cm_values (hd b)) bv"
    "set (tl b) \<subseteq> set cs" "set cs \<subseteq> set b" by simp_all
qed

lemma isBaseline_self:
  assumes "map_wf bv" shows "isBaselineCombination bv bv"
  using map_get_in [OF assms] by (auto simp: isBaselineCombination_def list_all_iff)

lemma baseline_wf: "map_wf (getBaselineValues space)"
proof -
  have "map_wf m \<Longrightarrow> map_wf (foldl (\<lambda>m p. map_set (pd_name p) (pd_default p) m) m ps)" for m and ps :: "ParameterDefinition list"
    by (induction ps arbitrary: m) simp_all
  then show ?thesis by (simp add: getBaselineValues_def)
qed

text \<open>A combination of the space that a search may try.\<close>

definition admissible :: "ParameterSpace \<Rightarrow> (combo \<Rightarrow> bool) option \<Rightarrow> combo \<Rightarrow> bool" where
  "admissible space filt c \<longleftrightarrow> validateConstraints c (sp_constraints space) \<and> (case filt of None \<Rightarrow> True | Some f \<Rightarrow> f c)"

lemma grid_unlimited:
  assumes "parameterValues space = Some pv" "generateCombinations space None filt random = Some cs"
  shows "map cm_index cs = [0..<length cs]" "cs \<noteq> []" "cm_isBaseline (hd cs)"
    "isBaselineCombination (cm_values (hd cs)) (getBaselineValues space)"
    "\<forall>c \<in> set (tl cs). cm_values c \<in> set (cartesianProduct pv) \<and> admissible space filt (cm_values c)"
    "\<forall>c \<in> set (cartesianProduct pv). admissible space filt c \<longrightarrow> c \<in> cm_values ` set cs"
proof -
  define bv where "bv = getBaselineValues space"
  define reachable where "reachable = filter (admissible space filt) (cartesianProduct pv)"
  define raw where "raw = map (\<lambda>(i, values). \<lparr>cm_index = i, cm_values = values, cm_isBaseline = isBaselineCombination values bv\<rparr>)
      (enumerate 0 reachable)"
  have "(case filt of None \<Rightarrow> xs | Some f \<Rightarrow> filter f xs) = filter (\<lambda>c. case filt of None \<Rightarrow> True | Some f \<Rightarrow> f c) xs" for xs :: "combo list"
    by (cases filt) simp_all
  then have cs: "cs = reindex (baselineFirst bv raw)"
    using assms by (simp add: generateCombinations_def Let_def raw_def reachable_def bv_def admissible_def [abs_def] conj_commute)
  have vals: "map cm_values raw = reachable"
  proof -
    have "map cm_values raw = map snd (enumerate 0 reachable)" by (simp add: raw_def comp_def case_prod_unfold)
    then show ?thesis by simp
  qed
  have raw: "\<forall>c \<in> set raw. cm_isBaseline c \<longrightarrow> isBaselineCombination (cm_values c) bv" by (auto simp: raw_def)
  note parts = baselineFirst_parts [OF raw isBaseline_self [OF baseline_wf [of space, folded bv_def]]]
  show "map cm_index cs = [0..<length cs]" by (simp add: cs)
  show ne: "cs \<noteq> []" using parts(1) by (metis cs length_0_conv length_reindex)
  have hd_map: "f (hd cs) = hd (map f cs)" for f :: "ParameterCombination \<Rightarrow> 'a" using ne by (simp add: list.map_sel(1))
  show "cm_isBaseline (hd cs)"
    using parts(1,2) hd_map [of cm_isBaseline] by (simp add: cs list.map_sel(1))
  show "isBaselineCombination (cm_values (hd cs)) (getBaselineValues space)"
    using parts(1,3) hd_map [of cm_values] by (simp add: cs list.map_sel(1) bv_def)
  have tls: "cm_values ` set (tl cs) = cm_values ` set (tl (baselineFirst bv raw))"
    by (metis (no_types, lifting) cs list.set_map map_tl reindex_simps(2))
  have "cm_values ` set raw = set reachable" using vals by (metis list.set_map)
  then show "\<forall>c \<in> set (tl cs). cm_values c \<in> set (cartesianProduct pv) \<and> admissible space filt (cm_values c)"
    using tls parts(4) by (fastforce simp: reachable_def)
  have all: "cm_values ` set cs = cm_values ` set (baselineFirst bv raw)"
    by (metis (no_types, lifting) cs list.set_map reindex_simps(2))
  show "\<forall>c \<in> set (cartesianProduct pv). admissible space filt c \<longrightarrow> c \<in> cm_values ` set cs"
    using all parts(5) \<open>cm_values ` set raw = set reachable\<close> by (fastforce simp: reachable_def)
qed

lemma grid_limit:
  "generateCombinations space (Some m) filt random =
     map_option (\<lambda>full. if m \<noteq> 0 \<and> length full > m then sampleCombinations full m random else full)
       (generateCombinations space None filt random)"
  by (cases "parameterValues space") (simp_all add: generateCombinations_def Let_def)


section \<open>The end of the grid\<close>

lemma expand_ends:
  "expandParameter p \<noteq> None \<longleftrightarrow> pd_type p = PT_CATEGORICAL \<or> 0 < nullish (pd_step p) 1 \<or>
     nullish (pd_max p) (defaultNumber (pd_default p)) \<le> nullish (pd_min p) (defaultNumber (pd_default p))"
proof (cases "0 < nullish (pd_step p) 1")
  case True
  then show ?thesis by (simp add: expandParameter_def Let_def gridLoop_values)
next
  case False
  then show ?thesis
    by (cases "nullish (pd_max p) (defaultNumber (pd_default p)) \<le> nullish (pd_min p) (defaultNumber (pd_default p))")
      (auto simp: expandParameter_def Let_def gridLoop_endless gridLoop_end not_le)
qed

lemma parameterValues_ends:
  "parameterValues space \<noteq> None \<longleftrightarrow> (\<forall>p \<in> set (sp_parameters space). expandParameter p \<noteq> None)"
proof -
  have "foldl (\<lambda>m p. do { m \<leftarrow> m; vs \<leftarrow> expandParameter p; Some (map_set (pd_name p) vs m) }) m ps \<noteq> None \<longleftrightarrow>
      m \<noteq> None \<and> (\<forall>p \<in> set ps. expandParameter p \<noteq> None)" for m and ps :: "ParameterDefinition list"
  proof (induction ps arbitrary: m)
    case (Cons p ps)
    then show ?case by (cases m; cases "expandParameter p") simp_all
  qed simp
  then show ?thesis by (simp add: parameterValues_def)
qed

lemma largestStep_natural:
  assumes "chosen \<in> set NATURAL_STEPS" "set steps \<subseteq> set NATURAL_STEPS"
  shows "largestStep width chosen steps \<in> set NATURAL_STEPS"
  using assms by (induction steps arbitrary: chosen) auto

lemma chooseNaturalStep_pos: "0 < width \<Longrightarrow> 0 < chooseNaturalStep width \<and> chooseNaturalStep width \<le> width"
  using largestStep_natural [of "hd NATURAL_STEPS" NATURAL_STEPS width]
  by (auto simp: chooseNaturalStep_def NATURAL_STEPS_def min_def)

text \<open>C28. When the grid ends. The enumeration of a space returns exactly if every numeric parameter that has room between its
  minimum and its maximum has a positive step; so it returns for the space of every schema that gives no step, or positive ones.\<close>

theorem grid_ends_for_positive_steps:
  shows "(generateCombinations space mx filt random \<noteq> None \<longleftrightarrow> (\<forall>p \<in> set (sp_parameters space).
      pd_type p = PT_CATEGORICAL \<or> 0 < nullish (pd_step p) 1 \<or>
      nullish (pd_max p) (defaultNumber (pd_default p)) \<le> nullish (pd_min p) (defaultNumber (pd_default p)))) \<and>
    ((\<forall>(name, field) \<in> set schema. \<forall>s. cf_step field = Some s \<longrightarrow> 0 < s) \<longrightarrow>
       generateCombinations (buildParameterSpace i schema constraints) mx filt random \<noteq> None)"
proof -
  have ends: "generateCombinations sp mx filt random \<noteq> None \<longleftrightarrow> (\<forall>p \<in> set (sp_parameters sp).
      pd_type p = PT_CATEGORICAL \<or> 0 < nullish (pd_step p) 1 \<or>
      nullish (pd_max p) (defaultNumber (pd_default p)) \<le> nullish (pd_min p) (defaultNumber (pd_default p)))" for sp
  proof -
    have "generateCombinations sp mx filt random \<noteq> None \<longleftrightarrow> parameterValues sp \<noteq> None"
      by (cases "parameterValues sp") (simp_all add: generateCombinations_def Let_def)
    then show ?thesis by (simp only: parameterValues_ends expand_ends)
  qed
  have "pd_type (toParameterDefinition name field) = PT_CATEGORICAL \<or> 0 < nullish (pd_step (toParameterDefinition name field)) 1"
    if "isOptimizable field" "\<forall>s. cf_step field = Some s \<longrightarrow> 0 < s" for name field
    using that chooseNaturalStep_pos
    by (auto simp: toParameterDefinition_def isOptimizable_def Let_def split: option.splits if_splits)
  then show ?thesis unfolding ends by (fastforce simp: buildParameterSpace_def Let_def)
qed

section \<open>Searches by chance\<close>

text \<open>The combinations that a search adds to those it knows.\<close>

definition new_ones :: "ParameterSpace \<Rightarrow> (combo \<Rightarrow> bool) option \<Rightarrow> combo list \<Rightarrow> nat \<Rightarrow> ParameterCombination list \<Rightarrow> bool" where
  "new_ones space filt past start out \<longleftrightarrow> map cm_index out = [start..<start + length out] \<and> distinct (map cm_values out) \<and>
     (\<forall>c \<in> set out. cm_values c \<notin> set past \<and> admissible space filt (cm_values c) \<and> \<not> cm_isBaseline c)"

lemma new_ones_Nil [simp]: "new_ones space filt past start []"
  by (simp add: new_ones_def)

lemma new_ones_snoc:
  assumes "new_ones space filt past start out" "acceptable space filt (past @ map cm_values out) c"
  shows "new_ones space filt past start (out @ [\<lparr>cm_index = start + length out, cm_values = c, cm_isBaseline = False\<rparr>])"
proof -
  have "admissible space filt c" using assms(2) by (auto simp: acceptable_def admissible_def)
  then show ?thesis using assms by (auto simp: new_ones_def acceptable_def)
qed

lemma randomLoop_new:
  assumes "new_ones space filt (map cm_values first) (length first) out"
  shows "\<exists>out'. randomLoop space n filt random fuel k (first @ out) = first @ out' \<and>
    new_ones space filt (map cm_values first) (length first) out' \<and> (length first + length out \<le> n \<longrightarrow> length first + length out' \<le> n) \<and>
    (n < length first + length out \<longrightarrow> out' = out)"
  using assms
proof (induction fuel arbitrary: k out)
  case (Suc fuel)
  obtain c k' where draw: "generateRandomCombination random k space = (c, k')" by fastforce
  show ?case
  proof (cases "length (first @ out) < n \<and> acceptable space filt (map cm_values (first @ out)) c")
    case True
    let ?c = "\<lparr>cm_index = length first + length out, cm_values = c, cm_isBaseline = False\<rparr>"
    have "new_ones space filt (map cm_values first) (length first) (out @ [?c])"
      using Suc.prems True by (intro new_ones_snoc) simp_all
    from Suc.IH [OF this, of k'] show ?thesis using True draw by auto
  next
    case False
    then show ?thesis using Suc.IH [OF Suc.prems, of k'] Suc.prems draw by auto
  qed
qed auto

lemma randomPortion_new:
  assumes "new_ones space filt past start out" "length out \<le> n"
  shows "\<exists>out' k' left'. randomPortion space filt random past start n fuel k out = (out', k', left') \<and>
    new_ones space filt past start out' \<and> length out' \<le> n"
  using assms
proof (induction fuel arbitrary: k out)
  case (Suc fuel)
  obtain c k' where draw: "generateRandomCombination random k space = (c, k')" by fastforce
  show ?case
  proof (cases "length out < n \<and> acceptable space filt (past @ map cm_values out) c")
    case True
    then have "new_ones space filt past start (out @ [\<lparr>cm_index = start + length out, cm_values = c, cm_isBaseline = False\<rparr>])"
      using Suc.prems(1) by (intro new_ones_snoc) simp_all
    then show ?thesis using Suc.IH True draw by simp
  next
    case False
    then show ?thesis using Suc.IH [OF Suc.prems, of k'] Suc.prems draw by auto
  qed
qed simp

lemma neighborhoodPortion_new:
  assumes "new_ones space filt past start out" "neighborhoodPortion space filt random past centers start n fuel k added out = Some (out', k')"
    "added \<le> n"
  shows "new_ones space filt past start out' \<and> length out' \<le> length out + (n - added)"
  using assms
proof (induction fuel arbitrary: k added out)
  case (Suc fuel)
  show ?case
  proof (cases "added < n")
    case True
    then obtain c k1 where draw: "sampleNeighborhood random k (sp_parameters space) (centers ! (added mod length centers)) [] = Some (c, k1)"
      using Suc.prems(2) by (auto split: Option.bind_split_asm)
    let ?out = "out @ [\<lparr>cm_index = start + length out, cm_values = c, cm_isBaseline = False\<rparr>]"
    show ?thesis
    proof (cases "acceptable space filt (past @ map cm_values out) c")
      case ok: True
      then have "neighborhoodPortion space filt random past centers start n fuel k1 (Suc added) ?out = Some (out', k')"
        using Suc.prems(2) True draw by simp
      from Suc.IH [OF new_ones_snoc [OF Suc.prems(1) ok] this] True show ?thesis by (simp add: Suc_diff_Suc)
    next
      case False
      then have "neighborhoodPortion space filt random past centers start n fuel k1 added out = Some (out', k')"
        using Suc.prems(2) True draw by simp
      from Suc.IH [OF Suc.prems(1) this Suc.prems(3)] show ?thesis .
    qed
  qed (use Suc.prems in simp)
qed simp

lemma third_at_most: "nat \<lfloor>real n * NEIGHBORHOOD_RATIO + 1 / 2\<rfloor> \<le> n"
proof (cases n)
  case (Suc m)
  have "real n * (3 / 10) + 1 / 2 < real n + 1" by (simp add: Suc field_simps)
  then show ?thesis unfolding NEIGHBORHOOD_RATIO_def by linarith
qed (simp add: NEIGHBORHOOD_RATIO_def)


section \<open>The range of a draw\<close>

lemma js_round_int: "x \<in> \<int> \<Longrightarrow> js_round x = x"
  unfolding js_round_def by (elim Ints_cases) (simp add: floor_eq_iff)

lemma grid_index:
  fixes k :: nat and lo hi s :: number
  assumes "draws_ok random" "0 < s" "lo \<le> hi"
  defines "i \<equiv> pick random k (of_int \<lfloor>(hi - lo) / s\<rfloor> + 1)"
  shows "0 \<le> i" "lo + of_int i * s \<le> hi"
proof -
  have "0 \<le> (hi - lo) / s" using assms(2,3) by simp
  then have "0 < of_int \<lfloor>(hi - lo) / s\<rfloor> + (1 :: real)" by linarith
  note range = pick_range [OF assms(1) this, of k]
  show "0 \<le> i" using range(1) by (simp add: i_def)
  have "of_int i < of_int \<lfloor>(hi - lo) / s\<rfloor> + (1 :: real)" using range(2) by (simp add: i_def)
  then have "i \<le> \<lfloor>(hi - lo) / s\<rfloor>" by linarith
  then have "of_int i \<le> (hi - lo) / s" by linarith
  then show "lo + of_int i * s \<le> hi" using assms(2) by (simp add: field_simps)
qed

lemma last_index:
  assumes "draws_ok random" "real q / (real q + 1) \<le> random k"
  shows "pick random k (real q + 1) = int q"
proof -
  have "random k < 1" using assms(1) by (simp add: draws_ok_def)
  then have "random k * (real q + 1) < real q + 1" by simp
  moreover have "real q \<le> random k * (real q + 1)" using assms(2) by (simp add: field_simps)
  ultimately show ?thesis unfolding pick_def by (simp add: floor_eq_iff)
qed

text \<open>A draw can exceed the maximum. The value drawn for an integer parameter with whole bounds lies between them. The same
  rounding takes a float parameter out of its range: with a whole step the values are rounded to whole numbers, so that from a
  minimum that ends in a half the highest draw is a half above the maximum.\<close>

lemma random_value_exceeds_max:
  assumes "draws_ok random" "pd_min param = Some lo" "pd_max param = Some hi" "pd_step param = Some s" "0 < s" "lo \<le> hi"
  shows "(pd_type param = PT_INTEGER \<and> lo \<in> \<int> \<and> hi \<in> \<int> \<longrightarrow>
      (\<exists>v. generateRandomValue random k param = NumV v \<and> lo \<le> v \<and> v \<le> hi)) \<and>
    (pd_type param = PT_FLOAT \<and> lo - 1 / 2 \<in> \<int> \<and> s \<in> \<int> \<and> hi = lo + real q * s \<and> real q / (real q + 1) \<le> random k \<longrightarrow>
      generateRandomValue random k param = NumV (hi + 1 / 2))"
proof (intro conjI impI)
  assume int: "pd_type param = PT_INTEGER \<and> lo \<in> \<int> \<and> hi \<in> \<int>"
  define i where "i = pick random k (of_int \<lfloor>(hi - lo) / s\<rfloor> + 1)"
  have "generateRandomValue random k param = NumV (js_round (lo + of_int i * s))"
    using int assms(2-4) by (simp add: generateRandomValue_def Let_def i_def)
  moreover have "js_round lo \<le> js_round (lo + of_int i * s)" "js_round (lo + of_int i * s) \<le> js_round hi"
    using grid_index [OF assms(1,5,6), of k, folded i_def] assms(5) by (simp_all add: js_round_mono)
  ultimately show "\<exists>v. generateRandomValue random k param = NumV v \<and> lo \<le> v \<and> v \<le> hi"
    using int by (auto simp: js_round_int)
next
  assume float: "pd_type param = PT_FLOAT \<and> lo - 1 / 2 \<in> \<int> \<and> s \<in> \<int> \<and> hi = lo + real q * s \<and> real q / (real q + 1) \<le> random k"
  then have "(hi - lo) / s = real q" using assms(5) by simp
  then have index: "pick random k (of_int \<lfloor>(hi - lo) / s\<rfloor> + 1) = int q" using last_index [OF assms(1)] float by simp
  have "1 \<le> s" using float assms(5) by (auto elim!: Ints_cases)
  then have dec: "stepDecimals s = 0" by (simp add: stepDecimals_def)
  have "hi + 1 / 2 = (lo - 1 / 2) + real q * s + 1" using float by simp
  also have "\<dots> \<in> \<int>" using float by (intro Ints_add Ints_mult) auto
  finally have "js_round hi = hi + 1 / 2" unfolding js_round_def by (elim Ints_cases) simp
  then show "generateRandomValue random k param = NumV (hi + 1 / 2)"
    using float assms(2-4) index dec by (simp add: generateRandomValue_def Let_def)
qed

section \<open>Witnesses\<close>

definition sample_space :: ParameterSpace where
  "sample_space = \<lparr>sp_strategyType = ''ema'', sp_parameters =
     [\<lparr>pd_name = ''fast'', pd_type = PT_INTEGER, pd_min = Some 1, pd_max = Some 2, pd_step = Some 1, pd_values = None,
        pd_default = NumV 1, pd_priority = PRIO_HIGH\<rparr>,
      \<lparr>pd_name = ''slow'', pd_type = PT_INTEGER, pd_min = Some 2, pd_max = Some 3, pd_step = Some 1, pd_values = None,
        pd_default = NumV 3, pd_priority = PRIO_HIGH\<rparr>],
     sp_constraints = [\<lparr>pc_type = LESS_THAN, pc_param1 = ''fast'', pc_param2 = Some ''slow'', pc_value = None,
        pc_customValidator = None\<rparr>]\<rparr>"

lemma sample_expand:
  "parameterValues sample_space = Some [(''fast'', [NumV 1, NumV 2]), (''slow'', [NumV 2, NumV 3])]"
  by (simp add: sample_space_def parameterValues_def expandParameter_def Let_def gridLoop_values js_round_def map_set_def upt_rec)


lemma grid_ends_for_positive_steps_witness: "generateCombinations sample_space None None (\<lambda>_. 0) \<noteq> None"
  using grid_ends_for_positive_steps [of sample_space None None "\<lambda>_. 0" "[]" "[]" "[]"] by (simp add: sample_space_def)


end
