(* ===== verification/OptimizationScoring.thy ===== *)
theory OptimizationScoring
  imports ParameterSearch Retry WalkForward BacktestMetrics
begin

text \<open>
  The scores of an optimisation and its sizes in days (\<^verbatim>\<open>optimization/utils/optimization-scoring.util.ts\<close> and
  \<^verbatim>\<open>optimization-calc.util.ts\<close>). The metrics of a window are finite numbers, so that no score is infinite or \<^verbatim>\<open>NaN\<close>.
\<close>

section \<open>Sizes in days\<close>

text \<open>The alternatives of the two patterns; a name matches when it contains one, in any case.\<close>

definition PERIOD_PARAM_PATTERN :: "string list" where
  "PERIOD_PARAM_PATTERN = [''period'', ''slow'', ''fast'', ''medium'', ''signal'', ''atr'', ''lookback'']"

definition COMPOUND_PARAM_PATTERN :: "string list" where
  "COMPOUND_PARAM_PATTERN = [''slow'', ''signal'']"

definition matchesPattern :: "string list \<Rightarrow> string \<Rightarrow> bool" where
  "matchesPattern pat name = list_ex (js_includes (toLowerCase name)) pat"

text \<open>The greatest period so far and whether an indicator is compound.\<close>

definition warmupStep :: "number \<times> bool \<Rightarrow> ParameterDefinition \<Rightarrow> number \<times> bool" where
  "warmupStep acc param =
     (let (maxPeriod, hasCompoundIndicator) = acc
      in if \<not> matchesPattern PERIOD_PARAM_PATTERN (pd_name param) then acc
         else let periodMax = nullish (pd_max param) (defaultNumber (pd_default param))
              in (if periodMax > maxPeriod then periodMax else maxPeriod,
                  hasCompoundIndicator \<or> matchesPattern COMPOUND_PARAM_PATTERN (pd_name param)))"

definition computeWarmupDays :: "ParameterSpace \<Rightarrow> int" where
  "computeWarmupDays parameterSpace =
     (let (maxPeriod, hasCompoundIndicator) = foldl warmupStep (0, False) (sp_parameters parameterSpace)
      in if maxPeriod = 0 then 5
         else let warmupPeriods = (if hasCompoundIndicator then maxPeriod * (15 / 10) else maxPeriod) * (12 / 10)
              in max 5 \<lceil>warmupPeriods\<rceil>)"

definition computeAdaptiveStepDays :: "int \<Rightarrow> int \<Rightarrow> int \<Rightarrow> int \<Rightarrow> int \<Rightarrow> int \<times> bool" where
  "computeAdaptiveStepDays totalDays trainDays testDays configuredStepDays minWindows =
     (if minWindows \<le> 1 then (configuredStepDays, False)
      else let windowSize = trainDays + 1 + testDays
           in if totalDays < windowSize then (configuredStepDays, False)
              else let maxStepDays = (totalDays - windowSize) div (minWindows - 1);
                       adaptiveStep = max 1 (min configuredStepDays maxStepDays)
                   in (adaptiveStep, adaptiveStep < configuredStepDays))"

section \<open>The objective\<close>

definition ZERO_TRADE_PENALTY :: number where
  "ZERO_TRADE_PENALTY = - 5 / 10"

definition MIN_TRADES_PER_WINDOW :: int where
  "MIN_TRADES_PER_WINDOW = 5"

definition MIN_DOWNSIDE_DEVIATION :: number where
  "MIN_DOWNSIDE_DEVIATION = 5 / 1000"

definition MIN_TOTAL_TRADES :: int where
  "MIN_TOTAL_TRADES = 30"

datatype ObjectiveMetric = SHARPE_RATIO | TOTAL_RETURN | CALMAR_RATIO | PROFIT_FACTOR | SORTINO_RATIO | COMPOSITE

record ObjectiveWeights =
  ow_sharpeRatio :: "number option"
  ow_totalReturn :: "number option"
  ow_calmarRatio :: "number option"
  ow_profitFactor :: "number option"
  ow_maxDrawdown :: "number option"
  ow_winRate :: "number option"

record OptimizationObjective =
  ob_metric :: ObjectiveMetric
  ob_weights :: "ObjectiveWeights option"
  ob_minimize :: bool

definition defaultWeights :: ObjectiveWeights where
  "defaultWeights = \<lparr>ow_sharpeRatio = Some (3 / 10), ow_totalReturn = Some (25 / 100), ow_calmarRatio = Some (15 / 100),
     ow_profitFactor = Some (15 / 100), ow_maxDrawdown = Some (1 / 10), ow_winRate = Some (5 / 100)\<rparr>"

definition calmarOf :: "WindowMetrics \<Rightarrow> number" where
  "calmarOf metrics = (if wm_maxDrawdown metrics \<noteq> 0 then wm_totalReturn metrics / \<bar>wm_maxDrawdown metrics\<bar> else 0)"

definition normalizeMetric :: "number \<Rightarrow> number \<Rightarrow> number \<Rightarrow> number" where
  "normalizeMetric lo hi v = max 0 (min 1 ((v - lo) / (hi - lo)))"

text \<open>The six metrics on the scale from zero to one, by the ranges of \<^verbatim>\<open>METRIC_NORMALIZATION\<close>, with their weights.\<close>

definition METRIC_NORMALIZATION :: "WindowMetrics \<Rightarrow> ObjectiveWeights \<Rightarrow> (number \<times> number option) list" where
  "METRIC_NORMALIZATION metrics w =
     [(normalizeMetric (- 1) 3 (wm_sharpeRatio metrics), ow_sharpeRatio w),
      (normalizeMetric (- 5 / 10) (5 / 10) (wm_totalReturn metrics), ow_totalReturn w),
      (normalizeMetric 0 3 (calmarOf metrics), ow_calmarRatio w),
      (normalizeMetric (5 / 10) 3 (orIfZero (wm_profitFactor metrics) 1), ow_profitFactor w),
      (normalizeMetric (- 1) 0 (wm_maxDrawdown metrics), ow_maxDrawdown w),
      (normalizeMetric 0 1 (wm_winRate metrics), ow_winRate w)]"

definition calculateCompositeScore :: "WindowMetrics \<Rightarrow> ObjectiveWeights option \<Rightarrow> number" where
  "calculateCompositeScore metrics weights =
     (let w = nullish weights defaultWeights
      in sum_list (map (\<lambda>(v, weight). v * nullish weight 0) (METRIC_NORMALIZATION metrics w)))"

definition rawScore :: "WindowMetrics \<Rightarrow> OptimizationObjective \<Rightarrow> number" where
  "rawScore metrics objective =
     (case ob_metric objective of
        SHARPE_RATIO \<Rightarrow> wm_sharpeRatio metrics
      | TOTAL_RETURN \<Rightarrow> wm_totalReturn metrics
      | CALMAR_RATIO \<Rightarrow> calmarOf metrics
      | PROFIT_FACTOR \<Rightarrow> orIfZero (wm_profitFactor metrics) 1
      | SORTINO_RATIO \<Rightarrow>
          (wm_totalReturn metrics - 2 / 100) / max (nullish (wm_downsideDeviation metrics) 0) MIN_DOWNSIDE_DEVIATION
      | COMPOSITE \<Rightarrow> calculateCompositeScore metrics (ob_weights objective))"

text \<open>The score with few trades: a positive one shrinks and a negative one grows.\<close>

definition dragDown :: "int \<Rightarrow> number \<Rightarrow> number" where
  "dragDown tradeCount score =
     (if tradeCount < MIN_TRADES_PER_WINDOW
      then let factor = of_int tradeCount / of_int MIN_TRADES_PER_WINDOW
           in if score \<ge> 0 then score * factor else score / factor
      else score)"

definition calculateObjectiveScore :: "WindowMetrics \<Rightarrow> OptimizationObjective \<Rightarrow> number" where
  "calculateObjectiveScore metrics objective =
     (if wm_tradeCount metrics = 0 then ZERO_TRADE_PENALTY
      else clampRatio (dragDown (wm_tradeCount metrics) (rawScore metrics objective)))"

section \<open>Consistency and improvement\<close>

definition CONSISTENCY_STDDEV_MULTIPLIER :: number where
  "CONSISTENCY_STDDEV_MULTIPLIER = 50"

definition calculateConsistencyScore :: "number list \<Rightarrow> number" where
  "calculateConsistencyScore testScores =
     (if length testScores < 2 then 100
      else let mean = sum_list testScores / real (length testScores);
               variance = sum_list (map (\<lambda>s. (s - mean)\<^sup>2) testScores) / real (length testScores);
               stdDev = sqrt variance;
               consistencyScore = max 0 (100 - stdDev * CONSISTENCY_STDDEV_MULTIPLIER)
           in js_round (consistencyScore * 100) / 100)"

definition calculateImprovement :: "number \<Rightarrow> number \<Rightarrow> number" where
  "calculateImprovement bestScore baselineScore =
     (if baselineScore = 0 then (if bestScore > 0 then min (bestScore * 100) 500 else 0)
      else let denominator = (if baselineScore < 0 then max \<bar>baselineScore\<bar> 1 else \<bar>baselineScore\<bar>);
               improvement = (bestScore - baselineScore) / denominator * 100
           in max (- 500) (min 500 improvement))"

section \<open>Enough windows\<close>

lemma full_windows:
  assumes "generateWindows s (addDays s totalDays) c = Inr ws"
  shows "nat (min 1001 (estimateWindowCount s (addDays s totalDays) c)) \<le> length ws"
proof -
  note D = generateWindows_InrD [OF assms]
  obtain n where n: "n \<le> 1001" "n \<le> 1000 \<longrightarrow> \<not> window_fits s (addDays s totalDays) c n"
      "ws = map (windowAt s (addDays s totalDays) c) [0..<(if has_tail s (addDays s totalDays) c n then n + 1 else n)]"
    using generateWindows_windows [OF assms] by blast
  have "n \<le> length ws" by (simp add: n(3))
  have "0 \<le> totalDays" using D by (simp add: addDays_def DAY_MS_def)
  note fit = fitting_windows [of c totalDays s, OF _ this]
  then show ?thesis using n(1,2) \<open>n \<le> length ws\<close> D fit [of n] by (cases "n = 1001") auto
qed

text \<open>C27. The step is adapted to the data. Where the data has room for the required windows at one day each, the walk-forward
  windows of the adapted step are at least as many as required; the step is never longer than the configured one and
  stays positive. The dates are whole days apart and no more than 1001 windows are asked for.\<close>

theorem adapted_step_gives_enough_windows:
  assumes "computeAdaptiveStepDays totalDays train test configured required = (step, adjusted)"
    and "generateWindows s (addDays s totalDays)
      \<lparr>wc_trainDays = train, wc_testDays = test, wc_stepDays = step, wc_method = method\<rparr> = Inr ws"
    and "train + 1 + test + (required - 1) \<le> totalDays" "train + 1 + test \<le> totalDays" "required \<le> 1001" "1 \<le> configured"
  shows "required \<le> int (length ws) \<and> 1 \<le> step \<and> step \<le> configured \<and> (adjusted \<longleftrightarrow> step < configured)"
proof -
  let ?c = "\<lparr>wc_trainDays = train, wc_testDays = test, wc_stepDays = step, wc_method = method\<rparr>"
  note D = generateWindows_InrD [OF assms(2)]
  have days: "daysBetween s (addDays s totalDays) = totalDays"
    using D by (intro daysBetween_whole) (simp_all add: addDays_def DAY_MS_def)
  have step: "1 \<le> step \<and> step \<le> configured \<and> (adjusted \<longleftrightarrow> step < configured)"
    using assms(1,6) by (auto simp: computeAdaptiveStepDays_def Let_def split: if_splits)
  have "required - 1 \<le> (totalDays - (train + 1 + test)) div step" if "1 < required"
  proof -
    have "step = max 1 (min configured ((totalDays - (train + 1 + test)) div (required - 1)))"
      using assms(1,4) that by (auto simp: computeAdaptiveStepDays_def Let_def split: if_splits)
    moreover have "1 \<le> (totalDays - (train + 1 + test)) div (required - 1)"
      using assms(3) that by (simp add: le_div_iff)
    ultimately have "step \<le> (totalDays - (train + 1 + test)) div (required - 1)" using assms(6) by linarith
    then have "step * (required - 1) \<le> totalDays - (train + 1 + test)" using that by (simp add: le_div_iff)
    then show ?thesis using step by (simp add: le_div_iff mult.commute)
  qed
  then have "required \<le> estimateWindowCount s (addDays s totalDays) ?c"
    using assms(4) step days
    by (cases "1 < required") (simp_all add: estimateWindowCount_def Let_def pos_imp_zdiv_nonneg_iff, smt (verit) div_int_pos_iff)
  then show ?thesis using full_windows [OF assms(2)] assms(5) step by linarith
qed

section \<open>Fair scores\<close>

lemma clampRatio_mono: "x \<le> y \<Longrightarrow> clampRatio x \<le> clampRatio y"
  by (auto simp: clampRatio_def)

lemma dragDown_mono:
  assumes "0 < t" "t \<le> t'"
  shows "dragDown t x \<le> dragDown t' x"
proof (cases "0 \<le> x")
  case True
  have "x * (of_int t / 5) \<le> x * (of_int t' / 5)" if "t' < 5" using True assms by (simp add: mult_left_mono)
  moreover have "x * (of_int t / 5) \<le> x * 1" if "t < 5" using True that by (intro mult_left_mono) simp_all
  ultimately show ?thesis using True assms(2) by (auto simp: dragDown_def Let_def MIN_TRADES_PER_WINDOW_def)
next
  case False
  then have neg: "x * 5 < 0" by simp
  have "x * 5 / of_int t \<le> x * 5 / of_int t'" using neg assms by (intro divide_left_mono_neg) auto
  moreover have "x * 5 / of_int t \<le> x * 5 / 5" if "t < 5" using neg assms(1) that by (intro divide_left_mono_neg) auto
  ultimately show ?thesis using False assms by (auto simp: dragDown_def Let_def MIN_TRADES_PER_WINDOW_def)
qed

lemma rawScore_tradeCount: "rawScore (m\<lparr>wm_tradeCount := t\<rparr>) ob = rawScore m ob"
  by (simp add: rawScore_def calmarOf_def calculateCompositeScore_def METRIC_NORMALIZATION_def split: ObjectiveMetric.split)

definition fair_weights :: "ObjectiveWeights \<Rightarrow> bool" where
  "fair_weights w \<longleftrightarrow> list_all (\<lambda>v. 0 \<le> nullish v 0)
       [ow_sharpeRatio w, ow_totalReturn w, ow_calmarRatio w, ow_profitFactor w, ow_maxDrawdown w, ow_winRate w] \<and>
     nullish (ow_sharpeRatio w) 0 + nullish (ow_totalReturn w) 0 + nullish (ow_calmarRatio w) 0 +
       nullish (ow_profitFactor w) 0 + nullish (ow_maxDrawdown w) 0 + nullish (ow_winRate w) 0 = 1"

lemma fair_default: "fair_weights defaultWeights"
  by (simp add: fair_weights_def defaultWeights_def)

lemma normalizeMetric_bounds: "0 \<le> normalizeMetric lo hi v" "normalizeMetric lo hi v \<le> 1"
  by (simp_all add: normalizeMetric_def)

lemma composite_bounds:
  assumes "fair_weights (nullish weights defaultWeights)"
  shows "0 \<le> calculateCompositeScore m weights" "calculateCompositeScore m weights \<le> 1"
proof -
  define w where "w = nullish weights defaultWeights"
  have one: "0 \<le> normalizeMetric lo hi v * nullish u 0" "normalizeMetric lo hi v * nullish u 0 \<le> nullish u 0"
    if "0 \<le> nullish u 0" for lo hi v u
    using that normalizeMetric_bounds [of lo hi v] by (simp_all add: mult_left_le_one_le)
  have w: "fair_weights w" using assms by (simp add: w_def)
  then show "0 \<le> calculateCompositeScore m weights"
    by (simp add: calculateCompositeScore_def METRIC_NORMALIZATION_def w_def [symmetric] Let_def fair_weights_def one)
  have "calculateCompositeScore m weights \<le> sum_list (map (\<lambda>(v, weight). nullish weight 0) (METRIC_NORMALIZATION m w))"
    unfolding calculateCompositeScore_def Let_def w_def [symmetric]
    using w by (intro sum_list_mono) (auto simp: METRIC_NORMALIZATION_def fair_weights_def one)
  also have "\<dots> = 1" using w by (simp add: METRIC_NORMALIZATION_def fair_weights_def)
  finally show "calculateCompositeScore m weights \<le> 1" .
qed

text \<open>C20. Few trades never help. The score of a window lies between minus and plus one hundred; of two windows that differ only
  in their trades the one with more of them, at least one in each, does not score lower. A window without trades has
  the penalty of one half, which is below every composite score with weights that are not negative and add up to one,
  but above the score of every window with a Sharpe ratio that is lower, so that doing nothing does win against a loss.\<close>

theorem few_trades_never_help:
  "\<bar>calculateObjectiveScore m ob\<bar> \<le> 100 \<and>
   (0 < t \<and> t \<le> t' \<longrightarrow>
      calculateObjectiveScore (m\<lparr>wm_tradeCount := t\<rparr>) ob \<le> calculateObjectiveScore (m\<lparr>wm_tradeCount := t'\<rparr>) ob) \<and>
   (ob_metric ob = COMPOSITE \<and> fair_weights (nullish (ob_weights ob) defaultWeights) \<and> wm_tradeCount m > 0 \<longrightarrow>
      calculateObjectiveScore (m'\<lparr>wm_tradeCount := 0\<rparr>) ob < calculateObjectiveScore m ob) \<and>
   (ob_metric ob = SHARPE_RATIO \<and> wm_tradeCount m > 0 \<and> wm_sharpeRatio m < - 1 / 2 \<longrightarrow>
      calculateObjectiveScore m ob < calculateObjectiveScore (m'\<lparr>wm_tradeCount := 0\<rparr>) ob)"
proof (intro conjI impI)
  show "\<bar>calculateObjectiveScore m ob\<bar> \<le> 100"
    by (auto simp: calculateObjectiveScore_def ZERO_TRADE_PENALTY_def clampRatio_def MAX_SHARPE_def)
next
  assume "0 < t \<and> t \<le> t'"
  then show "calculateObjectiveScore (m\<lparr>wm_tradeCount := t\<rparr>) ob \<le> calculateObjectiveScore (m\<lparr>wm_tradeCount := t'\<rparr>) ob"
    by (auto simp: calculateObjectiveScore_def rawScore_tradeCount dragDown_mono intro!: clampRatio_mono)
next
  assume A: "ob_metric ob = COMPOSITE \<and> fair_weights (nullish (ob_weights ob) defaultWeights) \<and> wm_tradeCount m > 0"
  then have "0 \<le> rawScore m ob" by (simp add: rawScore_def composite_bounds)
  then have "0 \<le> dragDown (wm_tradeCount m) (rawScore m ob)" using A by (simp add: dragDown_def Let_def MIN_TRADES_PER_WINDOW_def)
  then show "calculateObjectiveScore (m'\<lparr>wm_tradeCount := 0\<rparr>) ob < calculateObjectiveScore m ob"
    using A by (simp add: calculateObjectiveScore_def ZERO_TRADE_PENALTY_def clampRatio_def MAX_SHARPE_def)
next
  assume A: "ob_metric ob = SHARPE_RATIO \<and> wm_tradeCount m > 0 \<and> wm_sharpeRatio m < - 1 / 2"
  then have "dragDown (wm_tradeCount m) (wm_sharpeRatio m) \<le> wm_sharpeRatio m"
    using dragDown_mono [of "wm_tradeCount m" "max (wm_tradeCount m) 5" "wm_sharpeRatio m"]
    by (simp add: dragDown_def MIN_TRADES_PER_WINDOW_def)
  then show "calculateObjectiveScore m ob < calculateObjectiveScore (m'\<lparr>wm_tradeCount := 0\<rparr>) ob"
    using A by (simp add: calculateObjectiveScore_def rawScore_def ZERO_TRADE_PENALTY_def clampRatio_def MAX_SHARPE_def)
qed

lemma consistency_bounds: "0 \<le> calculateConsistencyScore xs" "calculateConsistencyScore xs \<le> 100"
proof -
  define c where "c = max 0 (100 - sqrt (sum_list (map (\<lambda>s. (s - sum_list xs / real (length xs))\<^sup>2) xs) / real (length xs)) * 50)"
  have "0 \<le> sum_list (map (\<lambda>s. (s - sum_list xs / real (length xs))\<^sup>2) xs) / real (length xs)"
    by (intro divide_nonneg_nonneg sum_list_nonneg) auto
  then have "0 \<le> c * 100" "c * 100 \<le> 10000" by (simp_all add: c_def)
  then have "0 \<le> js_round (c * 100)" "js_round (c * 100) \<le> 10000"
    using js_round_mono [of 0 "c * 100"] js_round_mono [of "c * 100" 10000] by (simp_all add: js_round_int)
  then show "0 \<le> calculateConsistencyScore xs" "calculateConsistencyScore xs \<le> 100"
    by (simp_all add: calculateConsistencyScore_def Let_def c_def CONSISTENCY_STDDEV_MULTIPLIER_def)
qed

text \<open>The improvement has the sign of the difference; without a baseline score a worse result counts as none.\<close>

lemma improvement_sign:
  shows "\<bar>calculateImprovement best baseline\<bar> \<le> 500"
    and "0 < calculateImprovement best baseline \<longleftrightarrow> baseline < best"
    and "calculateImprovement best baseline < 0 \<longleftrightarrow> best < baseline \<and> baseline \<noteq> 0"
proof -
  define d where "d = (if baseline < 0 then max \<bar>baseline\<bar> 1 else \<bar>baseline\<bar>)"
  define x where "x = (best - baseline) / d * 100"
  have val: "calculateImprovement best baseline =
      (if baseline = 0 then (if best > 0 then min (best * 100) 500 else 0) else max (- 500) (min 500 x))"
    by (simp add: calculateImprovement_def Let_def d_def x_def)
  have "baseline \<noteq> 0 \<Longrightarrow> 0 < d" by (auto simp: d_def)
  then have x: "baseline \<noteq> 0 \<Longrightarrow> 0 < x \<longleftrightarrow> baseline < best" "baseline \<noteq> 0 \<Longrightarrow> x < 0 \<longleftrightarrow> best < baseline"
    by (simp_all add: x_def zero_less_divide_iff divide_less_0_iff)
  show "\<bar>calculateImprovement best baseline\<bar> \<le> 500" by (auto simp: val abs_le_iff min_def max_def)
  show "0 < calculateImprovement best baseline \<longleftrightarrow> baseline < best" using x(1) by (auto simp: val)
  show "calculateImprovement best baseline < 0 \<longleftrightarrow> best < baseline \<and> baseline \<noteq> 0" using x(2) by (auto simp: val)
qed

section \<open>Witnesses\<close>

definition sample_window_metrics :: WindowMetrics where
  "sample_window_metrics = \<lparr>wm_totalReturn = - 1 / 10, wm_sharpeRatio = - 1, wm_maxDrawdown = - 2 / 10, wm_winRate = 4 / 10,
     wm_tradeCount = 8, wm_profitFactor = 8 / 10, wm_volatility = 3 / 10, wm_downsideDeviation = None\<rparr>"

lemma few_trades_never_help_witness:
  "calculateObjectiveScore sample_window_metrics \<lparr>ob_metric = SHARPE_RATIO, ob_weights = None, ob_minimize = False\<rparr> <
     calculateObjectiveScore (sample_window_metrics\<lparr>wm_tradeCount := 0\<rparr>) \<lparr>ob_metric = SHARPE_RATIO, ob_weights = None, ob_minimize = False\<rparr> \<and>
   calculateObjectiveScore (sample_window_metrics\<lparr>wm_tradeCount := 0\<rparr>) \<lparr>ob_metric = COMPOSITE, ob_weights = None, ob_minimize = False\<rparr> <
     calculateObjectiveScore sample_window_metrics \<lparr>ob_metric = COMPOSITE, ob_weights = None, ob_minimize = False\<rparr>"
  using few_trades_never_help [of sample_window_metrics "\<lparr>ob_metric = SHARPE_RATIO, ob_weights = None, ob_minimize = False\<rparr>" 1 1 sample_window_metrics]
    few_trades_never_help [of sample_window_metrics "\<lparr>ob_metric = COMPOSITE, ob_weights = None, ob_minimize = False\<rparr>" 1 1 sample_window_metrics]
    fair_default
  by (simp add: sample_window_metrics_def)

lemma adapted_step_gives_enough_windows_witness:
  "\<exists>ws. generateWindows 0 (addDays 0 181) \<lparr>wc_trainDays = 90, wc_testDays = 30, wc_stepDays = 30, wc_method = Rolling\<rparr> = Inr ws \<and>
     3 \<le> length ws"
proof -
  have step: "computeAdaptiveStepDays 181 90 30 90 3 = (30, True)" by (simp add: computeAdaptiveStepDays_def)
  obtain ws where run: "generateWindows 0 (addDays 0 181) \<lparr>wc_trainDays = 90, wc_testDays = 30, wc_stepDays = 30, wc_method = Rolling\<rparr> = Inr ws"
    by (simp add: generateWindows_def addDays_def DAY_MS_def)
  from adapted_step_gives_enough_windows [OF step run] show ?thesis using run by simp
qed

end
