(* ===== verification/OptimizationRun.thy ===== *)
theory OptimizationRun
  imports OptimizationScoring
begin

text \<open>
  The run of an optimisation (\<^verbatim>\<open>optimization-orchestrator.service.ts\<close>, \<^verbatim>\<open>optimization-evaluation.service.ts\<close>,
  \<^verbatim>\<open>optimization-query.service.ts\<close>, \<^verbatim>\<open>optimization-recovery.service.ts\<close> and \<^verbatim>\<open>optimization-run-summary.service.ts\<close> of
  \<^verbatim>\<open>optimization/services\<close>). The database holds the row of one run and the rows of its results, in the order in
  which they are saved; saving the entity of a run writes all its columns but the combinations, which are not loaded with it, and
  updating writes the given ones. The columns of scores keep four decimals. The backtests, the candles, the clock, the queue and
  what others do to the row of the run while a batch is evaluated are arguments. A run has at least one window.
\<close>

section \<open>Configuration\<close>

record EarlyStopConfig =
  es_enabled :: bool
  es_patience :: int
  es_minImprovement :: "number option"

text \<open>The fields that only select coins and scale the sizes of a backtest are left out.\<close>

record OptimizationConfig =
  oc_method :: SearchMethod
  oc_maxIterations :: "int option"
  oc_maxCombinations :: "int option"
  oc_walkForward :: WalkForwardConfig
  oc_minWindowsRequired :: int
  oc_objective :: OptimizationObjective
  oc_earlyStop :: "EarlyStopConfig option"
  oc_maxConcurrentBacktests :: nat
  oc_dateRange :: "(time_ms \<times> time_ms) option"
  oc_seed :: "number option"

datatype ConfigFault =
    TrainBelowTest | TrainNotPositive | TestNotPositive | StepNotPositive | MaxCombinationsNotPositive
  | MaxIterationsNotPositive | SeedInvalid | PatienceNotPositive | MinImprovementNegative | WeightsNotOne number
  | DatesNotOrdered

definition weightsSum :: "ObjectiveWeights \<Rightarrow> number" where
  "weightsSum w = nullish (ow_sharpeRatio w) 0 + nullish (ow_totalReturn w) 0 + nullish (ow_calmarRatio w) 0 +
     nullish (ow_profitFactor w) 0 + nullish (ow_maxDrawdown w) 0 + nullish (ow_winRate w) 0"

definition earlyStopFaults :: "EarlyStopConfig option \<Rightarrow> ConfigFault list" where
  "earlyStopFaults earlyStop =
     (case earlyStop of None \<Rightarrow> []
      | Some es \<Rightarrow> if es_enabled es
          then (if es_patience es \<le> 0 then [PatienceNotPositive] else []) @
            (case es_minImprovement es of None \<Rightarrow> [] | Some m \<Rightarrow> if m < 0 then [MinImprovementNegative] else [])
          else [])"

definition objectiveFaults :: "OptimizationObjective \<Rightarrow> ConfigFault list" where
  "objectiveFaults objective =
     (if ob_metric objective = COMPOSITE
      then (case ob_weights objective of None \<Rightarrow> []
            | Some w \<Rightarrow> if \<bar>weightsSum w - 1\<bar> > 1 / 1000 then [WeightsNotOne (weightsSum w)] else [])
      else [])"

definition positiveFault :: "ConfigFault \<Rightarrow> int option \<Rightarrow> ConfigFault list" where
  "positiveFault fault limit = (case limit of None \<Rightarrow> [] | Some n \<Rightarrow> if n \<le> 0 then [fault] else [])"

definition validateOptimizationConfig :: "OptimizationConfig \<Rightarrow> ConfigFault list" where
  "validateOptimizationConfig config =
     (let wf = oc_walkForward config
      in (if wc_trainDays wf < wc_testDays wf then [TrainBelowTest] else []) @
         (if wc_trainDays wf \<le> 0 then [TrainNotPositive] else []) @
         (if wc_testDays wf \<le> 0 then [TestNotPositive] else []) @
         (if wc_stepDays wf \<le> 0 then [StepNotPositive] else []) @
         positiveFault MaxCombinationsNotPositive (oc_maxCombinations config) @
         positiveFault MaxIterationsNotPositive (oc_maxIterations config) @
         (case oc_seed config of None \<Rightarrow> [] | Some s \<Rightarrow> if s \<noteq> of_int \<lfloor>s\<rfloor> \<or> s < 0 then [SeedInvalid] else []) @
         earlyStopFaults (oc_earlyStop config) @ objectiveFaults (oc_objective config) @
         (case oc_dateRange config of None \<Rightarrow> [] | Some (a, b) \<Rightarrow> if a \<ge> b then [DatesNotOrdered] else []))"

text \<open>A seed that is not given, or negative, is drawn.\<close>

definition resolveSeed :: "number option \<Rightarrow> int \<Rightarrow> int" where
  "resolveSeed seed fresh = (case seed of Some s \<Rightarrow> if s \<ge> 0 then \<lfloor>s\<rfloor> else fresh | None \<Rightarrow> fresh)"

section \<open>Rows\<close>

datatype OptimizationStatus = OPT_PENDING | OPT_RUNNING | OPT_COMPLETED | OPT_FAILED | OPT_CANCELLED

text \<open>The dates of a window result are printed as days: here the number of the day.\<close>

record WindowResult =
  wn_windowIndex :: nat
  wn_trainScore :: number
  wn_testScore :: number
  wn_degradation :: number
  wn_overfitting :: bool
  wn_trainStartDate :: int
  wn_trainEndDate :: int
  wn_testStartDate :: int
  wn_testEndDate :: int
  wn_tradeCount :: int

record OptimizationResult =
  rs_combinationIndex :: nat
  rs_parameters :: combo
  rs_avgTrainScore :: number
  rs_avgTestScore :: number
  rs_avgDegradation :: number
  rs_consistencyScore :: number
  rs_overfittingWindows :: nat
  rs_windowResults :: "WindowResult list"
  rs_rank :: "nat option"
  rs_isBaseline :: bool
  rs_isBest :: bool

record OptimizationProgressDetails =
  pg_currentCombination :: nat
  pg_totalWindows :: nat
  pg_estimatedTimeRemaining :: number
  pg_lastUpdated :: time_ms
  pg_currentBestScore :: "number option"
  pg_currentBestParams :: "combo option"
  pg_autoResumeCount :: "nat option"

text \<open>The messages of failures that are stored and sent.\<close>

datatype RunError =
    BacktestFailed time_ms time_ms string | InsufficientWindows nat int | WindowsInvalid WindowError | NoCoins
  | RecoveryExceeded | NotResumable SearchMethod | StaleJob

record OptimizationRow =
  or_status :: OptimizationStatus
  or_config :: OptimizationConfig
  or_parameterSpace :: ParameterSpace
  or_baselineParameters :: combo
  or_bestParameters :: "combo option"
  or_baselineScore :: "number option"
  or_bestScore :: "number option"
  or_improvement :: "number option"
  or_combinationsTested :: nat
  or_totalCombinations :: nat
  or_progressDetails :: "OptimizationProgressDetails option"
  or_combinations :: "ParameterCombination list option"
  or_errorMessage :: "RunError option"
  or_startedAt :: "time_ms option"
  or_completedAt :: "time_ms option"
  or_lastHeartbeatAt :: "time_ms option"

text \<open>Numbers on their way into a column: too many digits are refused, and four decimals are kept.\<close>

definition sanitizeNumericValue :: "nat \<Rightarrow> number \<Rightarrow> number option" where
  "sanitizeNumericValue maxIntegerDigits v = (if \<lfloor>\<bar>v\<bar>\<rfloor> \<ge> 10 ^ maxIntegerDigits then None else Some v)"

definition scoreColumn :: "number \<Rightarrow> number" where
  "scoreColumn v = (if v \<ge> 0 then of_int \<lfloor>v * 10000 + 1 / 2\<rfloor> / 10000 else - (of_int \<lfloor>- v * 10000 + 1 / 2\<rfloor> / 10000))"

definition storedScore :: "number \<Rightarrow> number" where
  "storedScore v = scoreColumn (nullish (sanitizeNumericValue 14 v) 0)"

section \<open>Evaluating a combination\<close>

type_synonym backtest = "combo \<Rightarrow> time_ms \<Rightarrow> time_ms \<Rightarrow> string + WindowMetrics"

record CombinationEvaluationResult =
  ce_avgTrainScore :: number
  ce_avgTestScore :: number
  ce_avgDegradation :: number
  ce_consistencyScore :: number
  ce_overfittingWindows :: nat
  ce_windowResults :: "WindowResult list"

definition executeBacktest :: "backtest \<Rightarrow> combo \<Rightarrow> time_ms \<Rightarrow> time_ms \<Rightarrow> RunError + WindowMetrics" where
  "executeBacktest backtest parameters startDate endDate =
     (case backtest parameters startDate endDate of
        Inl message \<Rightarrow> Inl (BacktestFailed startDate endDate message) | Inr metrics \<Rightarrow> Inr metrics)"

definition isoDay :: "time_ms \<Rightarrow> int" where
  "isoDay t = t div DAY_MS"

text \<open>Both backtests of a window run side by side; when both fail, the failure on the training data counts.\<close>

definition evaluateWindow ::
    "backtest \<Rightarrow> OptimizationObjective \<Rightarrow> combo \<Rightarrow> WalkForwardWindowConfig \<Rightarrow> RunError + WindowResult" where
  "evaluateWindow backtest objective parameters window =
     (case (executeBacktest backtest parameters (wf_trainStartDate window) (wf_trainEndDate window),
            executeBacktest backtest parameters (wf_testStartDate window) (wf_testEndDate window)) of
        (Inl e, _) \<Rightarrow> Inl e
      | (_, Inl e) \<Rightarrow> Inl e
      | (Inr trainMetrics, Inr testMetrics) \<Rightarrow>
          (let processed = processWindow window trainMetrics testMetrics
           in Inr \<lparr>wn_windowIndex = wf_windowIndex window,
                wn_trainScore = calculateObjectiveScore trainMetrics objective,
                wn_testScore = calculateObjectiveScore testMetrics objective,
                wn_degradation = wr_degradation processed, wn_overfitting = wr_overfittingDetected processed,
                wn_trainStartDate = isoDay (wf_trainStartDate window), wn_trainEndDate = isoDay (wf_trainEndDate window),
                wn_testStartDate = isoDay (wf_testStartDate window), wn_testEndDate = isoDay (wf_testEndDate window),
                wn_tradeCount = wm_tradeCount testMetrics\<rparr>))"

text \<open>A list of fallible values, up to the first failure.\<close>

fun collect :: "('e + 'a) list \<Rightarrow> 'e + 'a list" where
  "collect [] = Inr []"
| "collect (Inl e # rest) = Inl e"
| "collect (Inr a # rest) = (case collect rest of Inl e \<Rightarrow> Inl e | Inr as \<Rightarrow> Inr (a # as))"

definition summarizeWindows :: "WindowResult list \<Rightarrow> CombinationEvaluationResult" where
  "summarizeWindows results =
     (let n = real (length results)
      in \<lparr>ce_avgTrainScore = sum_list (map wn_trainScore results) / n,
          ce_avgTestScore = sum_list (map wn_testScore results) / n,
          ce_avgDegradation = sum_list (map wn_degradation results) / n,
          ce_consistencyScore = calculateConsistencyScore (map wn_testScore results),
          ce_overfittingWindows = length (filter wn_overfitting results), ce_windowResults = results\<rparr>)"

definition evaluateCombination ::
    "backtest \<Rightarrow> OptimizationObjective \<Rightarrow> WalkForwardWindowConfig list \<Rightarrow> combo \<Rightarrow> RunError + CombinationEvaluationResult" where
  "evaluateCombination backtest objective windows parameters =
     (case collect (map (evaluateWindow backtest objective parameters) windows) of
        Inl e \<Rightarrow> Inl e | Inr results \<Rightarrow> Inr (summarizeWindows results))"

section \<open>The data of a run\<close>

definition getDateRange ::
    "OptimizationConfig \<Rightarrow> (time_ms \<times> time_ms) option \<Rightarrow> time_ms \<times> time_ms \<Rightarrow> time_ms \<times> time_ms" where
  "getDateRange config dataRange lastThreeMonths =
     (case oc_dateRange config of Some r \<Rightarrow> r | None \<Rightarrow> nullish dataRange lastThreeMonths)"

definition prepareWindows ::
    "OptimizationConfig \<Rightarrow> time_ms \<times> time_ms \<Rightarrow> RunError + WalkForwardWindowConfig list" where
  "prepareWindows config dateRange =
     (let (startDate, endDate) = dateRange; wf = oc_walkForward config;
          (adaptiveStepDays, stepAdjusted) = computeAdaptiveStepDays (daysBetween startDate endDate) (wc_trainDays wf)
            (wc_testDays wf) (wc_stepDays wf) (oc_minWindowsRequired config)
      in case generateWindows startDate endDate (wf\<lparr>wc_stepDays := adaptiveStepDays\<rparr>) of
           Inl e \<Rightarrow> Inl (WindowsInvalid e)
         | Inr windows \<Rightarrow>
             if int (length windows) < oc_minWindowsRequired config
             then Inl (InsufficientWindows (length windows) (oc_minWindowsRequired config))
             else Inr windows)"

text \<open>The start of the candles of a range, moved back by the warm-up but not before the data that is loaded.\<close>

definition warmupStart :: "int \<Rightarrow> time_ms \<Rightarrow> time_ms \<Rightarrow> time_ms" where
  "warmupStart warmupDays extendedMinDate startDate = max (startDate - warmupDays * DAY_MS) extendedMinDate"

definition tradingStartIndex :: "time_ms list \<Rightarrow> time_ms \<Rightarrow> nat" where
  "tradingStartIndex timestamps startDate =
     (let t = length (takeWhile (\<lambda>ts. ts < startDate) timestamps) in if t < length timestamps then t else 0)"

section \<open>Ranking\<close>

definition totalTrades :: "OptimizationResult \<Rightarrow> int" where
  "totalTrades r = sum_list (map wn_tradeCount (rs_windowResults r))"

definition rankScore :: "OptimizationResult \<Rightarrow> number" where
  "rankScore r = rs_avgTestScore r * (6 / 10 + 4 / 10 * rs_consistencyScore r / 100) *
     max (5 / 10) (1 - 1 / 10 * real (rs_overfittingWindows r)) * min 1 (of_int (totalTrades r) / of_int MIN_TOTAL_TRADES)"

text \<open>The positions of the rows by descending score, those without trades last; equal scores keep the order of the rows.\<close>

definition rankedOrder :: "OptimizationResult list \<Rightarrow> nat list" where
  "rankedOrder rows =
     (let traded = filter (\<lambda>i. totalTrades (rows ! i) \<noteq> 0) [0..<length rows];
          untraded = filter (\<lambda>i. totalTrades (rows ! i) = 0) [0..<length rows]
      in sort_key (\<lambda>i. - rankScore (rows ! i)) traded @ untraded)"

definition rankOf :: "nat list \<Rightarrow> nat \<Rightarrow> nat" where
  "rankOf order i = Suc (length (takeWhile (\<lambda>j. j \<noteq> i) order))"

text \<open>The rows with their ranks and the position of the first.\<close>

definition rankResults :: "OptimizationResult list \<Rightarrow> OptimizationResult list \<times> nat option" where
  "rankResults rows =
     (let order = rankedOrder rows
      in (map (\<lambda>i. (rows ! i)\<lparr>rs_rank := Some (rankOf order i)\<rparr>) [0..<length rows],
          if order = [] then None else Some (hd order)))"

record OptimizationRunSummary =
  su_combinationsTested :: nat
  su_resultCount :: nat
  su_overfittingCount :: nat
  su_bestScore :: "number option"
  su_improvement :: "number option"
  su_avgTrainScore :: "number option"
  su_avgTestScore :: "number option"
  su_avgDegradation :: "number option"
  su_avgConsistency :: "number option"
  su_overfittingRate :: "number option"

text \<open>The average of a column; none without rows.\<close>

definition columnAverage :: "number list \<Rightarrow> number option" where
  "columnAverage xs = (if xs = [] then None else Some (sum_list xs / real (length xs)))"

definition computeSummary :: "OptimizationRow \<Rightarrow> OptimizationResult list \<Rightarrow> OptimizationRunSummary" where
  "computeSummary run rows =
     (let resultCount = length rows; overfittingCount = length (filter (\<lambda>r. rs_overfittingWindows r > 0) rows)
      in \<lparr>su_combinationsTested = or_combinationsTested run, su_resultCount = resultCount,
          su_overfittingCount = overfittingCount, su_bestScore = or_bestScore run, su_improvement = or_improvement run,
          su_avgTrainScore = columnAverage (map rs_avgTrainScore rows),
          su_avgTestScore = columnAverage (map rs_avgTestScore rows),
          su_avgDegradation = columnAverage (map rs_avgDegradation rows),
          su_avgConsistency = columnAverage (map rs_consistencyScore rows),
          su_overfittingRate = (if resultCount > 0 then Some (real overfittingCount / real resultCount) else None)\<rparr>)"

section \<open>The loop of a run\<close>

datatype OptimizationEvent =
    OptimizationCompleted combo number number
  | OptimizationFailed RunError

record OptimizationDb =
  od_run :: OptimizationRow
  od_results :: "OptimizationResult list"
  od_summary :: "OptimizationRunSummary option"
  od_events :: "OptimizationEvent list"

text \<open>
  The surroundings of a run. \<open>oe_during\<close> is what others do to the database while the batch after so many
  combinations is evaluated, and \<open>oe_now\<close> the clock after so many combinations.
\<close>

record OptimizationEnv =
  oe_coins :: bool
  oe_dataRange :: "(time_ms \<times> time_ms) option"
  oe_lastThreeMonths :: "time_ms \<times> time_ms"
  oe_backtest :: backtest
  oe_random :: "int \<Rightarrow> nat \<Rightarrow> number"
  oe_freshSeed :: int
  oe_now :: "nat \<Rightarrow> time_ms"
  oe_during :: "nat \<Rightarrow> OptimizationDb \<Rightarrow> OptimizationDb"

text \<open>Saving the entity of the run.\<close>

definition saveRun :: "OptimizationRow \<Rightarrow> OptimizationDb \<Rightarrow> OptimizationDb" where
  "saveRun run db = db\<lparr>od_run := run\<lparr>or_combinations := or_combinations (od_run db)\<rparr>\<rparr>"

record ExecState =
  ex_combinations :: "ParameterCombination list"
  ex_bestScore :: "number option"
  ex_bestParameters :: "combo option"
  ex_baselineScore :: number
  ex_noImprovementCount :: nat
  ex_processed :: nat
  ex_history :: "SearchHistoryRecord list"
  ex_draws :: nat

definition beats :: "number \<Rightarrow> number option \<Rightarrow> bool" where
  "beats score bestScore = (case bestScore of None \<Rightarrow> True | Some b \<Rightarrow> score > b)"

text \<open>The state from which a run goes on: the best and the baseline score of the results there are.\<close>

definition resumeResult :: "ExecState \<Rightarrow> OptimizationResult \<Rightarrow> ExecState" where
  "resumeResult ex r =
     (let ex1 = (if rs_isBaseline r then ex\<lparr>ex_baselineScore := rs_avgTestScore r\<rparr> else ex)
      in if beats (rs_avgTestScore r) (ex_bestScore ex1)
         then ex1\<lparr>ex_bestScore := Some (rs_avgTestScore r), ex_bestParameters := Some (rs_parameters r)\<rparr> else ex1)"

definition startState :: "ParameterCombination list \<Rightarrow> ExecState" where
  "startState combinations =
     \<lparr>ex_combinations = combinations, ex_bestScore = None, ex_bestParameters = None, ex_baselineScore = 0,
      ex_noImprovementCount = 0, ex_processed = 0, ex_history = [], ex_draws = 0\<rparr>"

definition resumeState :: "SearchMethod \<Rightarrow> OptimizationResult list \<Rightarrow> ParameterCombination list \<Rightarrow> ExecState" where
  "resumeState searchMethod existingResults combinations =
     (let processedIndices = set (map rs_combinationIndex existingResults);
          remaining = filter (\<lambda>c. cm_index c \<notin> processedIndices) combinations;
          ex = foldl resumeResult (startState remaining) existingResults
      in ex\<lparr>ex_processed := length existingResults,
           ex_history := (if isStatic searchMethod then []
             else map (\<lambda>r. \<lparr>hr_combinationIndex = rs_combinationIndex r, hr_values = rs_parameters r,
                    hr_avgTestScore = rs_avgTestScore r, hr_isBaseline = rs_isBaseline r\<rparr>) existingResults)\<rparr>)"

definition maxConcurrent :: "OptimizationConfig \<Rightarrow> nat" where
  "maxConcurrent config = (if oc_maxConcurrentBacktests config = 0 then 3 else oc_maxConcurrentBacktests config)"

text \<open>The next batch; \<open>Some None\<close> when there is nothing left to try.\<close>

definition nextBatch ::
    "OptimizationEnv \<Rightarrow> OptimizationRow \<Rightarrow> ExecState \<Rightarrow> (ParameterCombination list \<times> ExecState) option option" where
  "nextBatch env run ex =
     (let config = or_config run; size = maxConcurrent config; combinations = ex_combinations ex
      in if isStatic (oc_method config) \<or> combinations \<noteq> []
         then if combinations = [] then Some None
              else Some (Some (take size combinations, ex\<lparr>ex_combinations := drop size combinations\<rparr>))
         else do {
           (batch, k) \<leftarrow> generateNextBatch (oc_method config) (or_parameterSpace run) (ex_history ex) size
             (or_totalCombinations run - ex_processed ex) (ex_processed ex) None
             (oe_random env (resolveSeed (oc_seed config) (oe_freshSeed env))) (ex_draws ex);
           Some (if batch = [] then None else Some (batch, ex\<lparr>ex_draws := k\<rparr>))
         })"

definition resultRow :: "ParameterCombination \<Rightarrow> CombinationEvaluationResult \<Rightarrow> OptimizationResult" where
  "resultRow combination evaluation =
     \<lparr>rs_combinationIndex = cm_index combination, rs_parameters = cm_values combination,
      rs_avgTrainScore = storedScore (ce_avgTrainScore evaluation), rs_avgTestScore = storedScore (ce_avgTestScore evaluation),
      rs_avgDegradation = storedScore (ce_avgDegradation evaluation),
      rs_consistencyScore = storedScore (ce_consistencyScore evaluation),
      rs_overfittingWindows = ce_overfittingWindows evaluation, rs_windowResults = ce_windowResults evaluation,
      rs_rank = None, rs_isBaseline = cm_isBaseline combination, rs_isBest = False\<rparr>"

definition improvesEnough :: "OptimizationConfig \<Rightarrow> number \<Rightarrow> number option \<Rightarrow> bool" where
  "improvesEnough config score bestScore =
     (case bestScore of None \<Rightarrow> True
      | Some b \<Rightarrow>
          let improvementPct = (if b \<noteq> 0 then (score - b) / \<bar>b\<bar> * 100 else 100);
              minImprovement = (case oc_earlyStop config of None \<Rightarrow> 0 | Some es \<Rightarrow> nullish (es_minImprovement es) 0)
          in improvementPct \<ge> minImprovement)"

text \<open>What one evaluated combination changes, besides its row.\<close>

definition recordEvaluation ::
    "OptimizationConfig \<Rightarrow> ExecState \<Rightarrow> ParameterCombination \<times> CombinationEvaluationResult \<Rightarrow> ExecState" where
  "recordEvaluation config ex ce =
     (let (combination, evaluation) = ce; score = ce_avgTestScore evaluation; better = beats score (ex_bestScore ex)
      in ex\<lparr>ex_history := ex_history ex @ [\<lparr>hr_combinationIndex = cm_index combination, hr_values = cm_values combination,
              hr_avgTestScore = nullish (sanitizeNumericValue 14 score) 0, hr_isBaseline = cm_isBaseline combination\<rparr>],
            ex_baselineScore := (if cm_isBaseline combination then score else ex_baselineScore ex),
            ex_noImprovementCount := (if better \<and> improvesEnough config score (ex_bestScore ex) then 0
                                      else Suc (ex_noImprovementCount ex)),
            ex_bestScore := (if better then Some score else ex_bestScore ex),
            ex_bestParameters := (if better then Some (cm_values combination) else ex_bestParameters ex),
            ex_processed := Suc (ex_processed ex)\<rparr>)"

definition evaluateBatch ::
    "OptimizationEnv \<Rightarrow> OptimizationRow \<Rightarrow> WalkForwardWindowConfig list \<Rightarrow> ParameterCombination list \<Rightarrow>
      RunError + (ParameterCombination \<times> CombinationEvaluationResult) list" where
  "evaluateBatch env run windows batch =
     (case collect (map (\<lambda>c. evaluateCombination (oe_backtest env) (oc_objective (or_config run)) windows (cm_values c)) batch) of
        Inl e \<Rightarrow> Inl e | Inr evaluations \<Rightarrow> Inr (zip batch evaluations))"

definition updateProgress ::
    "OptimizationEnv \<Rightarrow> OptimizationRow \<Rightarrow> nat \<Rightarrow> ExecState \<Rightarrow> OptimizationDb \<Rightarrow> OptimizationDb" where
  "updateProgress env run totalWindows ex db =
     (let tested = ex_processed ex; now = oe_now env tested;
          elapsed = now - nullish (or_startedAt run) 0;
          avgTimePerCombination = of_int elapsed / real tested;
          remaining = of_int (int (or_totalCombinations run) - int tested);
          details = \<lparr>pg_currentCombination = tested, pg_totalWindows = totalWindows,
            pg_estimatedTimeRemaining = js_round (avgTimePerCombination * remaining / 1000), pg_lastUpdated = now,
            pg_currentBestScore = ex_bestScore ex, pg_currentBestParams = ex_bestParameters ex,
            pg_autoResumeCount = Option.bind (or_progressDetails run) pg_autoResumeCount\<rparr>
      in db\<lparr>od_run := (od_run db)\<lparr>or_combinationsTested := tested, or_progressDetails := Some details,
             or_lastHeartbeatAt := Some now\<rparr>\<rparr>)"

definition stopsEarly :: "OptimizationConfig \<Rightarrow> ExecState \<Rightarrow> bool" where
  "stopsEarly config ex =
     (case oc_earlyStop config of None \<Rightarrow> False
      | Some es \<Rightarrow> es_enabled es \<and> int (ex_noImprovementCount ex) \<ge> es_patience es)"

datatype LoopExit = Finished | Cancelled | Failed RunError

datatype LoopStep = Exit LoopExit OptimizationDb ExecState | Continue OptimizationDb ExecState

text \<open>One round of the loop.\<close>

definition loopBody ::
    "OptimizationEnv \<Rightarrow> WalkForwardWindowConfig list \<Rightarrow> OptimizationRow \<Rightarrow> OptimizationDb \<Rightarrow> ExecState \<Rightarrow> LoopStep option" where
  "loopBody env windows run db ex =
     (if \<not> ex_processed ex < or_totalCombinations run then Some (Exit Finished db ex)
      else if or_status (od_run db) = OPT_CANCELLED then Some (Exit Cancelled db ex)
      else do {
        next \<leftarrow> nextBatch env run ex;
        Some (case next of
          None \<Rightarrow> Exit Finished db ex
        | Some (batch, ex1) \<Rightarrow>
            (let db1 = oe_during env (ex_processed ex) db
             in case evaluateBatch env run windows batch of
                  Inl e \<Rightarrow> Exit (Failed e) db1 ex1
                | Inr evaluated \<Rightarrow>
                    (let ex2 = foldl (recordEvaluation (or_config run)) ex1 evaluated;
                         db2 = db1\<lparr>od_results := od_results db1 @ map (\<lambda>(c, e). resultRow c e) evaluated\<rparr>;
                         db3 = updateProgress env run (length windows) ex2 db2
                     in if stopsEarly (or_config run) ex2 then Exit Finished db3 ex2 else Continue db3 ex2)))
      })"

partial_function (option) optimizationLoop ::
    "OptimizationEnv \<Rightarrow> WalkForwardWindowConfig list \<Rightarrow> OptimizationRow \<Rightarrow> OptimizationDb \<Rightarrow> ExecState \<Rightarrow>
      (LoopExit \<times> OptimizationDb \<times> ExecState) option" where
  "optimizationLoop env windows run db ex = do {
     step \<leftarrow> loopBody env windows run db ex;
     case step of
       Exit outcome db' ex' \<Rightarrow> Some (outcome, db', ex')
     | Continue db' ex' \<Rightarrow> optimizationLoop env windows run db' ex'
   }"

section \<open>Beginning and end of a run\<close>

definition finalizeOptimization :: "OptimizationEnv \<Rightarrow> OptimizationRow \<Rightarrow> ExecState \<Rightarrow> OptimizationDb \<Rightarrow> OptimizationDb" where
  "finalizeOptimization env run ex db =
     (let (ranked, rank1) = rankResults (od_results db);
          bestScore = (case rank1 of None \<Rightarrow> nullish (ex_bestScore ex) 0 | Some i \<Rightarrow> rs_avgTestScore (ranked ! i));
          bestParameters = (case rank1 of None \<Rightarrow> nullish (ex_bestParameters ex) [] | Some i \<Rightarrow> rs_parameters (ranked ! i));
          improvement = calculateImprovement bestScore (ex_baselineScore ex);
          rounded = js_round (improvement * 100) / 100;
          run1 = run\<lparr>or_status := OPT_COMPLETED, or_bestScore := Some (storedScore bestScore),
            or_bestParameters := Some bestParameters, or_baselineScore := Some (storedScore (ex_baselineScore ex)),
            or_improvement := Some (storedScore rounded), or_completedAt := Some (oe_now env (ex_processed ex))\<rparr>;
          db1 = saveRun run1 (db\<lparr>od_results := ranked\<rparr>);
          db2 = (case rank1 of None \<Rightarrow> db1
                 | Some i \<Rightarrow> db1\<lparr>od_results := ranked[i := (ranked ! i)\<lparr>rs_isBest := True\<rparr>]\<rparr>)
      in db2\<lparr>od_summary := Some (computeSummary (od_run db2) (od_results db2)),
             od_events := od_events db2 @ [OptimizationCompleted bestParameters bestScore rounded]\<rparr>)"

datatype RunOutcome = Returned | Threw RunError

definition failRun :: "OptimizationEnv \<Rightarrow> OptimizationRow \<Rightarrow> RunError \<Rightarrow> OptimizationDb \<Rightarrow> OptimizationDb" where
  "failRun env run e db =
     (let run1 = run\<lparr>or_status := OPT_FAILED, or_errorMessage := Some e, or_completedAt := Some (oe_now env 0)\<rparr>;
          db1 = saveRun run1 db
      in db1\<lparr>od_events := od_events db1 @ [OptimizationFailed e]\<rparr>)"

text \<open>The row of a run that starts, or goes on, and the state of its loop.\<close>

definition startedRun :: "OptimizationEnv \<Rightarrow> OptimizationRow \<Rightarrow> OptimizationRow" where
  "startedRun env row = row\<lparr>or_status := OPT_RUNNING,
     or_startedAt := (if or_combinationsTested row > 0 then or_startedAt row else Some (oe_now env 0)),
     or_lastHeartbeatAt := Some (oe_now env 0)\<rparr>"

definition loopStart :: "OptimizationDb \<Rightarrow> ParameterCombination list \<Rightarrow> ExecState" where
  "loopStart db combinations =
     (if or_combinationsTested (od_run db) > 0
      then resumeState (oc_method (or_config (od_run db))) (od_results db) combinations
      else startState combinations)"

definition executeOptimization ::
    "OptimizationEnv \<Rightarrow> OptimizationDb \<Rightarrow> ParameterCombination list \<Rightarrow> (RunOutcome \<times> OptimizationDb) option" where
  "executeOptimization env db combinations =
     (let run = startedRun env (od_run db); db1 = saveRun run db; config = or_config run
      in if \<not> oe_coins env then Some (Threw NoCoins, db1)
         else case prepareWindows config (getDateRange config (oe_dataRange env) (oe_lastThreeMonths env)) of
           Inl e \<Rightarrow> Some (Threw e, failRun env run e db1)
         | Inr windows \<Rightarrow> do {
             (outcome, db2, ex) \<leftarrow> optimizationLoop env windows run db1 (loopStart db combinations);
             Some (case outcome of
               Cancelled \<Rightarrow> (Returned, db2)
             | Failed e \<Rightarrow> (Threw e, failRun env run e db2)
             | Finished \<Rightarrow>
                 (Returned, finalizeOptimization env (run\<lparr>or_combinationsTested := ex_processed ex\<rparr>) ex db2))
           })"

section \<open>Starting, cancelling and recovering a run\<close>

datatype StartError = InvalidConfig "ConfigFault list" | StrategyConfigNotFound

text \<open>The filter of the strategy: the data points it needs at least must fit into the bars of the test window.\<close>

definition buildReachabilityFilter :: "(combo \<Rightarrow> int) option \<Rightarrow> OptimizationConfig \<Rightarrow> (combo \<Rightarrow> bool) option" where
  "buildReachabilityFilter getMinDataPoints config =
     map_option (\<lambda>points params. points params \<le> wc_testDays (oc_walkForward config) * 24) getMinDataPoints"

text \<open>The row that is created and the combinations of its job.\<close>

definition startOptimization ::
    "bool \<Rightarrow> (combo \<Rightarrow> int) option \<Rightarrow> OptimizationEnv \<Rightarrow> ParameterSpace \<Rightarrow> OptimizationConfig \<Rightarrow>
      (StartError + OptimizationRow \<times> ParameterCombination list) option" where
  "startOptimization strategyConfigExists getMinDataPoints env parameterSpace config =
     (if validateOptimizationConfig config \<noteq> [] then Some (Inl (InvalidConfig (validateOptimizationConfig config)))
      else if \<not> strategyConfigExists then Some (Inl StrategyConfigNotFound)
      else let seed = resolveSeed (oc_seed config) (oe_freshSeed env);
               config1 = config\<lparr>oc_seed := Some (of_int seed)\<rparr>;
               targetCount = (if oc_method config = GRID_SEARCH then map_option nat (oc_maxCombinations config)
                              else Some (nat (nullish (oc_maxIterations config) 100)))
           in do {
             combinations \<leftarrow> generateInitialCombinations (oc_method config) parameterSpace targetCount
               (buildReachabilityFilter getMinDataPoints config1) (oe_random env seed);
             let baselineParameters = (case filter cm_isBaseline combinations of
                 [] \<Rightarrow> getBaselineValues parameterSpace | b # _ \<Rightarrow> cm_values b);
             Some (Inr (\<lparr>or_status = OPT_PENDING, or_config = config1, or_parameterSpace = parameterSpace,
               or_baselineParameters = baselineParameters, or_bestParameters = None, or_baselineScore = None,
               or_bestScore = None, or_improvement = None, or_combinationsTested = 0,
               or_totalCombinations = (if isStatic (oc_method config) then length combinations else nullish targetCount 0),
               or_progressDetails = None, or_combinations = Some combinations, or_errorMessage = None, or_startedAt = None,
               or_completedAt = None, or_lastHeartbeatAt = None\<rparr>, combinations))
           })"

definition cancelOptimization :: "time_ms \<Rightarrow> OptimizationDb \<Rightarrow> OptimizationStatus + OptimizationDb" where
  "cancelOptimization now db =
     (if or_status (od_run db) \<notin> {OPT_RUNNING, OPT_PENDING} then Inl (or_status (od_run db))
      else Inr (db\<lparr>od_run := (od_run db)\<lparr>or_status := OPT_CANCELLED, or_completedAt := Some now\<rparr>\<rparr>))"

definition STALE_HEARTBEAT_THRESHOLD_MS :: int where
  "STALE_HEARTBEAT_THRESHOLD_MS = 360 * 60 * 1000"

definition MAX_AUTO_RESUME_COUNT :: nat where
  "MAX_AUTO_RESUME_COUNT = 3"

datatype Recovery = Skipped | GaveUp | Requeued "ParameterCombination list"

text \<open>
  The recovery of one run: the job that is still queued counts as waiting when it waits or is delayed, and the
  removal of a stale job can fail. The random numbers are those of the process, not of the seed.
\<close>

definition recoverSingleRun ::
    "bool \<Rightarrow> bool \<Rightarrow> time_ms \<Rightarrow> (nat \<Rightarrow> number) \<Rightarrow> OptimizationDb \<Rightarrow> (RunError + Recovery \<times> OptimizationDb) option" where
  "recoverSingleRun jobWaiting jobRemovable now random db =
     (let run = od_run db; autoResumeCount = nullish (Option.bind (or_progressDetails run) pg_autoResumeCount) 0;
          fresh = (case or_lastHeartbeatAt run of None \<Rightarrow> False | Some t \<Rightarrow> now - t < STALE_HEARTBEAT_THRESHOLD_MS)
      in if or_status run = OPT_PENDING \<and> jobWaiting then Some (Inr (Skipped, db))
         else if or_status run = OPT_RUNNING \<and> fresh then Some (Inr (Skipped, db))
         else if autoResumeCount \<ge> MAX_AUTO_RESUME_COUNT
         then Some (Inr (GaveUp, db\<lparr>od_run := run\<lparr>or_status := OPT_FAILED, or_errorMessage := Some RecoveryExceeded,
                or_completedAt := Some now\<rparr>\<rparr>))
         else if or_combinations run = None \<and> oc_method (or_config run) \<noteq> GRID_SEARCH
         then Some (Inl (NotResumable (oc_method (or_config run))))
         else do {
           combinations \<leftarrow> (case or_combinations run of Some cs \<Rightarrow> Some cs
             | None \<Rightarrow> generateCombinations (or_parameterSpace run) (map_option nat (oc_maxCombinations (or_config run))) None random);
           Some (if \<not> jobRemovable then Inl StaleJob
                 else let details = (case or_progressDetails run of
                            Some d \<Rightarrow> d\<lparr>pg_autoResumeCount := Some (autoResumeCount + 1)\<rparr>
                          | None \<Rightarrow> \<lparr>pg_currentCombination = 0, pg_totalWindows = 0, pg_estimatedTimeRemaining = 0,
                              pg_lastUpdated = 0, pg_currentBestScore = None, pg_currentBestParams = None,
                              pg_autoResumeCount = Some (autoResumeCount + 1)\<rparr>)
                      in Inr (Requeued combinations,
                           db\<lparr>od_run := run\<lparr>or_status := OPT_PENDING, or_progressDetails := Some details\<rparr>\<rparr>))
         })"

text \<open>One of the runs that are running or pending at the start of the process.\<close>

definition recoverOrphan ::
    "bool \<Rightarrow> bool \<Rightarrow> time_ms \<Rightarrow> (nat \<Rightarrow> number) \<Rightarrow> OptimizationDb \<Rightarrow> (Recovery \<times> OptimizationDb) option" where
  "recoverOrphan jobWaiting jobRemovable now random db =
     map_option (\<lambda>result. case result of
         Inr r \<Rightarrow> r
       | Inl e \<Rightarrow> (GaveUp, db\<lparr>od_run := (od_run db)\<lparr>or_status := OPT_FAILED, or_errorMessage := Some e,
           or_completedAt := Some now\<rparr>\<rparr>))
       (recoverSingleRun jobWaiting jobRemovable now random db)"

section \<open>A round with a static search\<close>

definition evaluationOf ::
    "OptimizationEnv \<Rightarrow> OptimizationConfig \<Rightarrow> WalkForwardWindowConfig list \<Rightarrow> ParameterCombination \<Rightarrow> CombinationEvaluationResult" where
  "evaluationOf env config windows c = projr (evaluateCombination (oe_backtest env) (oc_objective config) windows (cm_values c))"

definition rowOf ::
    "OptimizationEnv \<Rightarrow> OptimizationConfig \<Rightarrow> WalkForwardWindowConfig list \<Rightarrow> ParameterCombination \<Rightarrow> OptimizationResult" where
  "rowOf env config windows c = resultRow c (evaluationOf env config windows c)"

definition evaluable ::
    "OptimizationEnv \<Rightarrow> OptimizationConfig \<Rightarrow> WalkForwardWindowConfig list \<Rightarrow> ParameterCombination \<Rightarrow> bool" where
  "evaluable env config windows c \<longleftrightarrow>
     \<not> isl (evaluateCombination (oe_backtest env) (oc_objective config) windows (cm_values c))"

text \<open>A run whose combinations are fixed, that does not stop early and in which nobody interferes.\<close>

definition plain_run :: "OptimizationEnv \<Rightarrow> OptimizationConfig \<Rightarrow> bool" where
  "plain_run env config \<longleftrightarrow> isStatic (oc_method config) \<and>
     (case oc_earlyStop config of None \<Rightarrow> True | Some es \<Rightarrow> \<not> es_enabled es) \<and> (\<forall>k db. oe_during env k db = db)"

lemma collect_Inr: "\<forall>x \<in> set xs. \<not> isl (f x) \<Longrightarrow> collect (map f xs) = Inr (map (\<lambda>x. projr (f x)) xs)"
proof (induction xs)
  case (Cons x xs)
  then show ?case by (cases "f x") simp_all
qed simp

lemma evaluateBatch_ok:
  assumes "\<forall>c \<in> set batch. evaluable env (or_config run) windows c"
  shows "evaluateBatch env run windows batch = Inr (map (\<lambda>c. (c, evaluationOf env (or_config run) windows c)) batch)"
proof -
  have "collect (map (\<lambda>c. evaluateCombination (oe_backtest env) (oc_objective (or_config run)) windows (cm_values c)) batch) =
      Inr (map (evaluationOf env (or_config run) windows) batch)"
    using assms by (simp add: collect_Inr evaluable_def evaluationOf_def [abs_def])
  then show ?thesis by (simp add: evaluateBatch_def zip_map2 zip_same_conv_map)
qed

lemma never_early: "plain_run env config \<Longrightarrow> \<not> stopsEarly config ex"
  by (auto simp: plain_run_def stopsEarly_def split: option.splits)

lemma recordEvaluation_fields [simp]:
  "ex_processed (recordEvaluation config ex ce) = Suc (ex_processed ex)"
  "ex_combinations (recordEvaluation config ex ce) = ex_combinations ex"
  by (simp_all add: recordEvaluation_def Let_def case_prod_unfold)

lemma recorded_fields [simp]:
  "ex_processed (foldl (recordEvaluation config) ex ces) = ex_processed ex + length ces"
  "ex_combinations (foldl (recordEvaluation config) ex ces) = ex_combinations ex"
  by (induction ces arbitrary: ex) simp_all

lemma maxConcurrent_pos: "0 < maxConcurrent config"
  by (simp add: maxConcurrent_def)

lemma updateProgress_fields [simp]:
  "od_results (updateProgress env run n ex db) = od_results db" "od_events (updateProgress env run n ex db) = od_events db"
  "or_status (od_run (updateProgress env run n ex db)) = or_status (od_run db)"
  "or_combinations (od_run (updateProgress env run n ex db)) = or_combinations (od_run db)"
  "or_config (od_run (updateProgress env run n ex db)) = or_config (od_run db)"
  "or_totalCombinations (od_run (updateProgress env run n ex db)) = or_totalCombinations (od_run db)"
  "or_combinationsTested (od_run (updateProgress env run n ex db)) = ex_processed ex"
  by (simp_all add: updateProgress_def Let_def)

text \<open>One round, when something is left.\<close>

definition batchOf :: "OptimizationRow \<Rightarrow> ExecState \<Rightarrow> ParameterCombination list" where
  "batchOf run ex = take (maxConcurrent (or_config run)) (ex_combinations ex)"

definition roundState :: "OptimizationEnv \<Rightarrow> WalkForwardWindowConfig list \<Rightarrow> OptimizationRow \<Rightarrow> ExecState \<Rightarrow> ExecState" where
  "roundState env windows run ex =
     foldl (recordEvaluation (or_config run)) (ex\<lparr>ex_combinations := drop (maxConcurrent (or_config run)) (ex_combinations ex)\<rparr>)
       (map (\<lambda>c. (c, evaluationOf env (or_config run) windows c)) (batchOf run ex))"

definition roundDb ::
    "OptimizationEnv \<Rightarrow> WalkForwardWindowConfig list \<Rightarrow> OptimizationRow \<Rightarrow> OptimizationDb \<Rightarrow> ExecState \<Rightarrow> OptimizationDb" where
  "roundDb env windows run db ex = updateProgress env run (length windows) (roundState env windows run ex)
     (db\<lparr>od_results := od_results db @ map (rowOf env (or_config run) windows) (batchOf run ex)\<rparr>)"

lemma round_fields [simp]:
  "ex_combinations (roundState env windows run ex) = drop (maxConcurrent (or_config run)) (ex_combinations ex)"
  "ex_processed (roundState env windows run ex) = ex_processed ex + length (batchOf run ex)"
  "od_results (roundDb env windows run db ex) = od_results db @ map (rowOf env (or_config run) windows) (batchOf run ex)"
  "od_events (roundDb env windows run db ex) = od_events db"
  "or_status (od_run (roundDb env windows run db ex)) = or_status (od_run db)"
  "or_combinations (od_run (roundDb env windows run db ex)) = or_combinations (od_run db)"
  "or_config (od_run (roundDb env windows run db ex)) = or_config (od_run db)"
  "or_totalCombinations (od_run (roundDb env windows run db ex)) = or_totalCombinations (od_run db)"
  "or_combinationsTested (od_run (roundDb env windows run db ex)) = ex_processed ex + length (batchOf run ex)"
  by (simp_all add: roundState_def roundDb_def)

lemma plain_round:
  assumes "plain_run env (or_config run)" "\<forall>c \<in> set (batchOf run ex). evaluable env (or_config run) windows c"
    and "or_status (od_run db) \<noteq> OPT_CANCELLED" "ex_combinations ex \<noteq> []" "ex_processed ex < or_totalCombinations run"
  shows "loopBody env windows run db ex = Some (Continue (roundDb env windows run db ex) (roundState env windows run ex))"
proof -
  have static: "isStatic (oc_method (or_config run))" and during: "oe_during env k d = d" for k d
    using assms(1) by (simp_all add: plain_run_def)
  have "nextBatch env run ex = Some (Some (batchOf run ex, ex\<lparr>ex_combinations := drop (maxConcurrent (or_config run)) (ex_combinations ex)\<rparr>))"
    using static assms(4) by (simp add: nextBatch_def Let_def batchOf_def)
  moreover have "evaluateBatch env run windows (batchOf run ex) = Inr (map (\<lambda>c. (c, evaluationOf env (or_config run) windows c)) (batchOf run ex))"
    using assms(2) by (rule evaluateBatch_ok)
  ultimately show ?thesis
    using assms(3,5) never_early [OF assms(1)] during
    by (simp add: loopBody_def Let_def roundState_def [symmetric] roundDb_def comp_def rowOf_def [abs_def])
qed

lemma plain_end:
  assumes "plain_run env (or_config run)" "or_status (od_run db) \<noteq> OPT_CANCELLED" "ex_combinations ex = []"
  shows "loopBody env windows run db ex = Some (Exit Finished db ex)"
  using assms by (simp add: loopBody_def nextBatch_def Let_def plain_run_def)

lemma loop_continue:
  "loopBody env windows run db ex = Some (Continue db' ex') \<Longrightarrow> optimizationLoop env windows run db ex = optimizationLoop env windows run db' ex'"
  by (subst optimizationLoop.simps) simp

lemma loop_exit:
  "loopBody env windows run db ex = Some (Exit outcome db' ex') \<Longrightarrow> optimizationLoop env windows run db ex = Some (outcome, db', ex')"
  by (subst optimizationLoop.simps) simp

text \<open>The loop evaluates all that is left, whatever rows there are already.\<close>

lemma plain_loop:
  assumes "plain_run env (or_config run)" "\<forall>c \<in> set (ex_combinations ex). evaluable env (or_config run) windows c"
    and "or_status (od_run db) \<noteq> OPT_CANCELLED" "ex_processed ex + length (ex_combinations ex) \<le> or_totalCombinations run"
  shows "\<exists>db' ex'. optimizationLoop env windows run db ex = Some (Finished, db', ex') \<and>
    od_results db' = od_results db @ map (rowOf env (or_config run) windows) (ex_combinations ex) \<and>
    od_events db' = od_events db \<and> or_combinations (od_run db') = or_combinations (od_run db) \<and>
    ex_processed ex' = ex_processed ex + length (ex_combinations ex)"
  using assms(2-4)
proof (induction "length (ex_combinations ex)" arbitrary: db ex rule: less_induct)
  case less
  show ?case
  proof (cases "ex_combinations ex = []")
    case True
    then show ?thesis using loop_exit [OF plain_end [OF assms(1) less.prems(2)]] by simp
  next
    case False
    let ?db = "roundDb env windows run db ex" and ?ex = "roundState env windows run ex"
    let ?m = "maxConcurrent (or_config run)"
    have parts: "batchOf run ex @ drop ?m (ex_combinations ex) = ex_combinations ex" by (simp add: batchOf_def)
    have batch: "\<forall>c \<in> set (batchOf run ex). evaluable env (or_config run) windows c"
      using less.prems(1) by (auto simp: batchOf_def dest: in_set_takeD)
    have "0 < length (ex_combinations ex)" using False by simp
    then have "length (ex_combinations ?ex) < length (ex_combinations ex)" using maxConcurrent_pos [of "or_config run"] by simp
    moreover have "\<forall>c \<in> set (ex_combinations ?ex). evaluable env (or_config run) windows c"
      using less.prems(1) by (auto dest: in_set_dropD)
    moreover have "ex_processed ?ex + length (ex_combinations ?ex) \<le> or_totalCombinations run"
      using less.prems(3) arg_cong [OF parts, of length] by simp
    ultimately obtain db' ex' where "optimizationLoop env windows run ?db ?ex = Some (Finished, db', ex')"
        "od_results db' = od_results ?db @ map (rowOf env (or_config run) windows) (ex_combinations ?ex)"
        "od_events db' = od_events ?db" "or_combinations (od_run db') = or_combinations (od_run ?db)"
        "ex_processed ex' = ex_processed ?ex + length (ex_combinations ?ex)"
      using less.hyps [of ?ex ?db] less.prems(2) by auto
    moreover have "ex_processed ex < or_totalCombinations run" using less.prems(3) \<open>0 < length (ex_combinations ex)\<close> by linarith
    ultimately show ?thesis
      using loop_continue [OF plain_round [OF assms(1) batch less.prems(2) False]]
        arg_cong [OF parts, of length] arg_cong [OF parts, of "map (rowOf env (or_config run) windows)"] by auto
  qed
qed

section \<open>A run from its beginning to its end\<close>

definition windowsOf :: "OptimizationEnv \<Rightarrow> OptimizationConfig \<Rightarrow> WalkForwardWindowConfig list" where
  "windowsOf env config = projr (prepareWindows config (getDateRange config (oe_dataRange env) (oe_lastThreeMonths env)))"

text \<open>The coins and the windows are there.\<close>

definition prepared :: "OptimizationEnv \<Rightarrow> OptimizationConfig \<Rightarrow> bool" where
  "prepared env config \<longleftrightarrow> oe_coins env \<and>
     \<not> isl (prepareWindows config (getDateRange config (oe_dataRange env) (oe_lastThreeMonths env)))"

lemma saveRun_fields [simp]:
  "od_run (saveRun run db) = run\<lparr>or_combinations := or_combinations (od_run db)\<rparr>"
  "od_results (saveRun run db) = od_results db" "od_events (saveRun run db) = od_events db"
  "od_summary (saveRun run db) = od_summary db"
  by (simp_all add: saveRun_def)

lemma startedRun_fields [simp]:
  "or_status (startedRun env row) = OPT_RUNNING" "or_config (startedRun env row) = or_config row"
  "or_totalCombinations (startedRun env row) = or_totalCombinations row"
  "or_combinationsTested (startedRun env row) = or_combinationsTested row"
  "or_combinations (startedRun env row) = or_combinations row"
  "or_progressDetails (startedRun env row) = or_progressDetails row"
  by (simp_all add: startedRun_def)

lemma resumeResult_fields [simp]: "ex_combinations (resumeResult ex r) = ex_combinations ex"
  by (simp add: resumeResult_def Let_def)

lemma resumed_combinations [simp]: "ex_combinations (foldl resumeResult ex rs) = ex_combinations ex"
  by (induction rs arbitrary: ex) simp_all

lemma loopStart_fields:
  "ex_combinations (loopStart db cs) = (if or_combinationsTested (od_run db) > 0
     then filter (\<lambda>c. cm_index c \<notin> set (map rs_combinationIndex (od_results db))) cs else cs)"
  "ex_processed (loopStart db cs) = (if or_combinationsTested (od_run db) > 0 then length (od_results db) else 0)"
  by (simp_all add: loopStart_def resumeState_def startState_def Let_def)

text \<open>The rows of a finished run.\<close>

definition finishedResults :: "OptimizationResult list \<Rightarrow> OptimizationResult list" where
  "finishedResults rows = (case rankResults rows of (ranked, None) \<Rightarrow> ranked
     | (ranked, Some i) \<Rightarrow> ranked[i := (ranked ! i)\<lparr>rs_isBest := True\<rparr>])"

lemma rankResults_fst_snd: "fst (rankResults rows) = map (\<lambda>i. (rows ! i)\<lparr>rs_rank := Some (rankOf (rankedOrder rows) i)\<rparr>) [0..<length rows]"
  "snd (rankResults rows) = (if rankedOrder rows = [] then None else Some (hd (rankedOrder rows)))"
  by (simp_all add: rankResults_def Let_def)

lemma set_rankedOrder: "set (rankedOrder rows) = {..<length rows}"
  by (auto simp: rankedOrder_def Let_def)

lemma rank1_row:
  assumes "rows \<noteq> []"
  shows "\<exists>i < length rows. snd (rankResults rows) = Some i \<and> i = hd (rankedOrder rows) \<and>
    fst (rankResults rows) ! i = (rows ! i)\<lparr>rs_rank := Some 1\<rparr>"
proof -
  have "rankedOrder rows \<noteq> []" using set_rankedOrder [of rows] assms by force
  then obtain i js where order: "rankedOrder rows = i # js" by (cases "rankedOrder rows") auto
  then have "i < length rows" using set_rankedOrder [of rows] by auto
  then show ?thesis by (intro exI [of _ i]) (simp add: rankResults_fst_snd order rankOf_def)
qed

lemma finalize_fields:
  assumes "od_results db \<noteq> []"
  shows "\<exists>i. i < length (od_results db) \<and> i = hd (rankedOrder (od_results db)) \<and>
    (let row = od_results db ! i; imp = js_round (calculateImprovement (rs_avgTestScore row) (ex_baselineScore ex) * 100) / 100;
         db' = finalizeOptimization env run ex db
     in od_results db' = finishedResults (od_results db) \<and> or_status (od_run db') = OPT_COMPLETED \<and>
        or_bestScore (od_run db') = Some (storedScore (rs_avgTestScore row)) \<and>
        or_bestParameters (od_run db') = Some (rs_parameters row) \<and>
        or_combinationsTested (od_run db') = or_combinationsTested run \<and>
        or_combinations (od_run db') = or_combinations (od_run db) \<and>
        od_events db' = od_events db @ [OptimizationCompleted (rs_parameters row) (rs_avgTestScore row) imp])"
proof -
  obtain i where i: "i < length (od_results db)" "snd (rankResults (od_results db)) = Some i" "i = hd (rankedOrder (od_results db))"
      "fst (rankResults (od_results db)) ! i = (od_results db ! i)\<lparr>rs_rank := Some 1\<rparr>"
    using rank1_row [OF assms] by blast
  obtain ranked where ranked: "rankResults (od_results db) = (ranked, Some i)" using i(2) by (cases "rankResults (od_results db)") simp
  show ?thesis
    using i ranked by (intro exI [of _ i]) (simp add: finalizeOptimization_def finishedResults_def Let_def)
qed

text \<open>A run that is not interrupted, over rows that are there already.\<close>

lemma plain_execute:
  assumes plain: "plain_run env (or_config (od_run db))" "prepared env (or_config (od_run db))"
    and ok: "\<forall>c \<in> set cs. evaluable env (or_config (od_run db)) (windowsOf env (or_config (od_run db))) c"
    and todo: "todo = ex_combinations (loopStart db cs)"
    and room: "ex_processed (loopStart db cs) + length todo \<le> or_totalCombinations (od_run db)"
    and some_rows: "od_results db @ map (rowOf env (or_config (od_run db)) (windowsOf env (or_config (od_run db)))) todo \<noteq> []"
  shows "\<exists>db'. executeOptimization env db cs = Some (Returned, db') \<and>
    (let rows = od_results db @ map (rowOf env (or_config (od_run db)) (windowsOf env (or_config (od_run db)))) todo;
         best = rows ! hd (rankedOrder rows)
     in hd (rankedOrder rows) < length rows \<and> od_results db' = finishedResults rows \<and> or_status (od_run db') = OPT_COMPLETED \<and>
        or_bestScore (od_run db') = Some (storedScore (rs_avgTestScore best)) \<and>
        or_bestParameters (od_run db') = Some (rs_parameters best) \<and>
        or_combinationsTested (od_run db') = ex_processed (loopStart db cs) + length todo \<and>
        (\<exists>imp. od_events db' = od_events db @ [OptimizationCompleted (rs_parameters best) (rs_avgTestScore best) imp]))"
proof -
  define config where "config = or_config (od_run db)"
  define windows where "windows = windowsOf env config"
  define run where "run = startedRun env (od_run db)"
  define rows where "rows = od_results db @ map (rowOf env config windows) todo"
  have run: "or_config run = config" "or_totalCombinations run = or_totalCombinations (od_run db)"
    by (simp_all add: run_def config_def)
  have coins: "oe_coins env" and prep: "prepareWindows config (getDateRange config (oe_dataRange env) (oe_lastThreeMonths env)) = Inr windows"
    using plain(2) by (auto simp: prepared_def windowsOf_def windows_def config_def sum.exhaust_sel split: sum.splits)
  have "set todo \<subseteq> set cs" using todo by (auto simp: loopStart_fields)
  then obtain db2 ex where loop:
      "optimizationLoop env windows run (saveRun run db) (loopStart db cs) = Some (Finished, db2, ex)"
      "od_results db2 = rows" "od_events db2 = od_events db" "ex_processed ex = ex_processed (loopStart db cs) + length todo"
    using plain_loop [of env run "loopStart db cs" windows "saveRun run db"] plain(1) ok room
    by (auto simp: run todo rows_def config_def windows_def) (auto simp: run_def subset_iff)
  have ne: "od_results db2 \<noteq> []" using some_rows by (simp add: loop(2) rows_def config_def windows_def)
  have exec: "executeOptimization env db cs =
      Some (Returned, finalizeOptimization env (run\<lparr>or_combinationsTested := ex_processed ex\<rparr>) ex db2)"
    using coins prep loop(1) by (simp add: executeOptimization_def Let_def run_def [symmetric] run(1))
  show ?thesis
    using exec finalize_fields [OF ne, of ex env "run\<lparr>or_combinationsTested := ex_processed ex\<rparr>"]
    by (auto simp: Let_def loop rows_def [symmetric] config_def [symmetric] windows_def [symmetric])
      (metis nonzero_divide_eq_eq zero_neq_numeral)
qed

section \<open>The best result\<close>

lemma hd_sort_key:
  fixes f :: "'a \<Rightarrow> 'b :: linorder"
  assumes "x \<in> set xs"
  shows "hd (sort_key f xs) \<in> set xs \<and> f (hd (sort_key f xs)) \<le> f x"
proof -
  obtain y ys where ys: "sort_key f xs = y # ys" using assms by (cases "sort_key f xs") (auto simp flip: length_0_conv)
  have "sorted (map f (y # ys))" using sorted_sort_key [of f xs] by (simp only: ys)
  moreover have "set (y # ys) = set xs" using set_sort [of f xs] by (simp only: ys)
  ultimately show ?thesis using assms by (auto simp: ys)
qed

text \<open>The first rank has the best score of all rows with trades, and has trades when one of them has.\<close>

lemma best_row:
  assumes "r \<in> set rows" "totalTrades r \<noteq> 0"
  defines "b \<equiv> rows ! hd (rankedOrder rows)"
  shows "totalTrades b \<noteq> 0" "rankScore r \<le> rankScore b"
proof -
  define traded where "traded = filter (\<lambda>i. totalTrades (rows ! i) \<noteq> 0) [0..<length rows]"
  obtain i where i: "i < length rows" "rows ! i = r" using assms(1) by (auto simp: in_set_conv_nth)
  then have "i \<in> set traded" using assms(2) by (simp add: traded_def)
  note best = hd_sort_key [OF this, of "\<lambda>i. - rankScore (rows ! i)"]
  have "sort_key (\<lambda>i. - rankScore (rows ! i)) traded \<noteq> []" using \<open>i \<in> set traded\<close> by (metis empty_iff empty_set set_sort)
  then have "hd (rankedOrder rows) = hd (sort_key (\<lambda>i. - rankScore (rows ! i)) traded)"
    by (simp add: rankedOrder_def traded_def [symmetric] Let_def)
  then show "totalTrades b \<noteq> 0" "rankScore r \<le> rankScore b"
    using best i(2) by (auto simp: b_def traded_def)
qed

lemma untouched_fields:
  "map rs_combinationIndex (finishedResults rows) = map rs_combinationIndex rows"
  "map rs_parameters (finishedResults rows) = map rs_parameters rows"
  "map rs_avgTestScore (finishedResults rows) = map rs_avgTestScore rows"
proof -
  have upd: "map f (xs[i := (xs ! i)\<lparr>rs_isBest := True\<rparr>]) = map f xs"
    if "\<And>r. f (r\<lparr>rs_isBest := True\<rparr>) = f r" for f :: "OptimizationResult \<Rightarrow> 'b" and xs i
    by (cases "i < length xs") (simp_all add: that map_update list_update_beyond, metis list_update_id map_update that nth_map length_map)
  have ranked: "map f (fst (rankResults rows)) = map f rows"
    if "\<And>r k. f (r\<lparr>rs_rank := k\<rparr>) = f r" for f :: "OptimizationResult \<Rightarrow> 'b"
    by (rule nth_equalityI) (simp_all add: rankResults_fst_snd that)
  have both: "map f (finishedResults rows) = map f rows"
    if "\<And>r. f (r\<lparr>rs_isBest := True\<rparr>) = f r" "\<And>r k. f (r\<lparr>rs_rank := k\<rparr>) = f r" for f :: "OptimizationResult \<Rightarrow> 'b"
    using upd [of f] ranked [of f] that by (cases "rankResults rows"; cases "snd (rankResults rows)") (simp_all add: finishedResults_def)
  show "map rs_combinationIndex (finishedResults rows) = map rs_combinationIndex rows"
    "map rs_parameters (finishedResults rows) = map rs_parameters rows"
    "map rs_avgTestScore (finishedResults rows) = map rs_avgTestScore rows"
    by (simp_all add: both)
qed

text \<open>C9. A run covers its combinations. A run of a fixed list of combinations that does not stop early and in which every
  backtest succeeds ends; every combination has exactly one result row, in order, with the stored average of its test
  scores, and the run is completed with the first row of the ranking: no row with trades has a better ranking score, and
  the first row has trades when any row has. One event tells the pipeline.\<close>

theorem run_covers_its_combinations:
  assumes "plain_run env (or_config (od_run db))" "prepared env (or_config (od_run db))"
    and "\<forall>c \<in> set cs. evaluable env (or_config (od_run db)) (windowsOf env (or_config (od_run db))) c"
    and "or_combinationsTested (od_run db) = 0" "od_results db = []" "cs \<noteq> []" "or_totalCombinations (od_run db) = length cs"
  shows "\<exists>db' best imp. executeOptimization env db cs = Some (Returned, db') \<and>
    map rs_combinationIndex (od_results db') = map cm_index cs \<and> map rs_parameters (od_results db') = map cm_values cs \<and>
    map rs_avgTestScore (od_results db') =
      map (\<lambda>c. storedScore (ce_avgTestScore (evaluationOf env (or_config (od_run db)) (windowsOf env (or_config (od_run db))) c))) cs \<and>
    or_status (od_run db') = OPT_COMPLETED \<and> or_combinationsTested (od_run db') = length cs \<and>
    best \<in> rowOf env (or_config (od_run db)) (windowsOf env (or_config (od_run db))) ` set cs \<and>
    or_bestParameters (od_run db') = Some (rs_parameters best) \<and>
    or_bestScore (od_run db') = Some (storedScore (rs_avgTestScore best)) \<and>
    (\<forall>c \<in> set cs. let r = rowOf env (or_config (od_run db)) (windowsOf env (or_config (od_run db))) c
       in totalTrades r \<noteq> 0 \<longrightarrow> totalTrades best \<noteq> 0 \<and> rankScore r \<le> rankScore best) \<and>
    od_events db' = od_events db @ [OptimizationCompleted (rs_parameters best) (rs_avgTestScore best) imp]"
proof -
  define row where "row = rowOf env (or_config (od_run db)) (windowsOf env (or_config (od_run db)))"
  define best where "best = map row cs ! hd (rankedOrder (map row cs))"
  have todo: "cs = ex_combinations (loopStart db cs)" "ex_processed (loopStart db cs) = 0"
    using assms(4) by (simp_all add: loopStart_fields)
  obtain db' imp where run: "executeOptimization env db cs = Some (Returned, db')" "hd (rankedOrder (map row cs)) < length cs"
      "od_results db' = finishedResults (map row cs)" "or_status (od_run db') = OPT_COMPLETED"
      "or_bestScore (od_run db') = Some (storedScore (rs_avgTestScore best))" "or_bestParameters (od_run db') = Some (rs_parameters best)"
      "or_combinationsTested (od_run db') = length cs"
      "od_events db' = od_events db @ [OptimizationCompleted (rs_parameters best) (rs_avgTestScore best) imp]"
    using plain_execute [OF assms(1-3) todo(1)] assms(5-7) todo(2) by (auto simp: Let_def row_def [symmetric] best_def)
  have rows: "map rs_combinationIndex (map row cs) = map cm_index cs" "map rs_parameters (map row cs) = map cm_values cs"
      "map rs_avgTestScore (map row cs) =
        map (\<lambda>c. storedScore (ce_avgTestScore (evaluationOf env (or_config (od_run db)) (windowsOf env (or_config (od_run db))) c))) cs"
    by (simp_all add: row_def rowOf_def resultRow_def)
  have "best \<in> row ` set cs" using run(2) nth_mem [of "hd (rankedOrder (map row cs))" "map row cs"] by (simp add: best_def)
  moreover have "totalTrades (row c) \<noteq> 0 \<longrightarrow> totalTrades best \<noteq> 0 \<and> rankScore (row c) \<le> rankScore best" if "c \<in> set cs" for c
    using best_row [of "row c" "map row cs"] that by (auto simp: best_def)
  ultimately show ?thesis
    unfolding row_def [symmetric] using run
    by (intro exI [of _ db'] exI [of _ best] exI [of _ imp]) (simp only: Let_def untouched_fields rows simp_thms ball_simps, blast)
qed

section \<open>Interrupted and failed runs\<close>

text \<open>The database and the state of the loop after some rounds that did not end it.\<close>

fun loopRounds ::
    "OptimizationEnv \<Rightarrow> WalkForwardWindowConfig list \<Rightarrow> OptimizationRow \<Rightarrow> nat \<Rightarrow> OptimizationDb \<Rightarrow> ExecState \<Rightarrow>
      (OptimizationDb \<times> ExecState) option" where
  "loopRounds env windows run 0 db ex = Some (db, ex)"
| "loopRounds env windows run (Suc n) db ex = do {
     step \<leftarrow> loopBody env windows run db ex;
     case step of Exit outcome db' ex' \<Rightarrow> None | Continue db' ex' \<Rightarrow> loopRounds env windows run n db' ex'
   }"

lemma plain_rounds:
  assumes "plain_run env (or_config run)" "loopRounds env windows run n db ex = Some (db', ex')"
    and "\<forall>c \<in> set (ex_combinations ex). evaluable env (or_config run) windows c"
    and "or_status (od_run db) \<noteq> OPT_CANCELLED" "ex_processed ex + length (ex_combinations ex) \<le> or_totalCombinations run"
  shows "\<exists>k \<le> length (ex_combinations ex).
    od_results db' = od_results db @ map (rowOf env (or_config run) windows) (take k (ex_combinations ex)) \<and>
    ex_combinations ex' = drop k (ex_combinations ex) \<and> ex_processed ex' = ex_processed ex + k \<and>
    (0 < n \<longrightarrow> 0 < k \<and> or_combinationsTested (od_run db') = ex_processed ex + k) \<and>
    or_combinations (od_run db') = or_combinations (od_run db) \<and> or_config (od_run db') = or_config (od_run db) \<and>
    or_totalCombinations (od_run db') = or_totalCombinations (od_run db)"
  using assms(2-5)
proof (induction n arbitrary: db ex)
  case 0
  then show ?case by (intro exI [of _ 0]) simp
next
  case (Suc n)
  let ?cs = "ex_combinations ex" and ?m = "maxConcurrent (or_config run)"
  have ne: "?cs \<noteq> []" using Suc.prems(1) plain_end [OF assms(1) Suc.prems(3)] by auto
  have room: "ex_processed ex < or_totalCombinations run" using Suc.prems(4) ne by (cases ?cs) simp_all
  let ?db = "roundDb env windows run db ex" and ?ex = "roundState env windows run ex"
  have "\<forall>c \<in> set (batchOf run ex). evaluable env (or_config run) windows c"
    using Suc.prems(2) by (auto simp: batchOf_def dest: in_set_takeD)
  note round = plain_round [OF assms(1) this Suc.prems(3) ne room]
  have parts: "batchOf run ex @ drop ?m ?cs = ?cs" by (simp add: batchOf_def)
  define b where "b = length (batchOf run ex)"
  have b: "batchOf run ex = take b ?cs" "drop ?m ?cs = drop b ?cs" "0 < b" "b \<le> length ?cs"
    using maxConcurrent_pos [of "or_config run"] ne by (simp_all add: b_def batchOf_def min_def)
  have rounds: "loopRounds env windows run n ?db ?ex = Some (db', ex')" using Suc.prems(1) round by simp
  moreover have "\<forall>c \<in> set (ex_combinations ?ex). evaluable env (or_config run) windows c"
    using Suc.prems(2) by (auto dest: in_set_dropD)
  moreover have "ex_processed ?ex + length (ex_combinations ?ex) \<le> or_totalCombinations run"
    using Suc.prems(4) arg_cong [OF parts, of length] by simp
  ultimately obtain k where k: "k \<le> length (drop b ?cs)"
      "od_results db' = od_results ?db @ map (rowOf env (or_config run) windows) (take k (drop b ?cs))"
      "ex_combinations ex' = drop k (drop b ?cs)" "ex_processed ex' = ex_processed ex + b + k"
      "0 < n \<longrightarrow> 0 < k \<and> or_combinationsTested (od_run db') = ex_processed ex + b + k"
      "or_combinations (od_run db') = or_combinations (od_run db)" "or_config (od_run db') = or_config (od_run db)"
      "or_totalCombinations (od_run db') = or_totalCombinations (od_run db)"
    using Suc.IH [of ?db ?ex] Suc.prems(3) by (auto simp: b(2) b_def)
  have "n = 0 \<longrightarrow> k = 0 \<and> or_combinationsTested (od_run db') = ex_processed ex + b"
    using rounds k(4) by (auto simp: b_def)
  then have "or_combinationsTested (od_run db') = ex_processed ex + (b + k)" using k(5) by (cases n) auto
  moreover have "od_results db' = od_results db @ map (rowOf env (or_config run) windows) (take (b + k) ?cs)"
    by (simp add: k(2) b(1) take_add)
  moreover have "ex_combinations ex' = drop (b + k) ?cs" "b + k \<le> length ?cs" using k(1,3) b(4) by (simp_all add: add.commute)
  ultimately show ?case using k(4,6-8) b(3) by (intro exI [of _ "b + k"]) simp
qed

lemma clock_irrelevant [simp]:
  "plain_run (env\<lparr>oe_now := clock\<rparr>) config = plain_run env config" "prepared (env\<lparr>oe_now := clock\<rparr>) config = prepared env config"
  "windowsOf (env\<lparr>oe_now := clock\<rparr>) config = windowsOf env config"
  "evaluable (env\<lparr>oe_now := clock\<rparr>) config windows c = evaluable env config windows c"
  "rowOf (env\<lparr>oe_now := clock\<rparr>) config windows = rowOf env config windows"
  by (simp_all add: plain_run_def prepared_def windowsOf_def evaluable_def rowOf_def [abs_def] evaluationOf_def)

lemma recover_requeues:
  assumes "recoverSingleRun jobWaiting jobRemovable now random db = Some (Inr (Requeued cs, db'))" "or_combinations (od_run db) = Some cs0"
  shows "cs = cs0" "od_results db' = od_results db" "or_config (od_run db') = or_config (od_run db)"
    "or_combinationsTested (od_run db') = or_combinationsTested (od_run db)"
    "or_totalCombinations (od_run db') = or_totalCombinations (od_run db)"
  using assms by (auto simp: recoverSingleRun_def Let_def split: if_splits)

lemma filter_rest:
  assumes "distinct (map f cs)"
  shows "filter (\<lambda>c. f c \<notin> f ` set (take k cs)) cs = drop k cs"
proof -
  have "distinct (map f (take k cs @ drop k cs))" using assms by simp
  then have apart: "f ` set (take k cs) \<inter> f ` set (drop k cs) = {}" by (simp only: map_append distinct_append set_map)
  have "filter (\<lambda>c. f c \<notin> f ` set (take k cs)) (take k cs @ drop k cs) = drop k cs"
    unfolding filter_append using apart by (auto simp: filter_empty_conv filter_id_conv)
  then show ?thesis by simp
qed


lemma failRun_fields [simp]:
  "od_results (failRun env run e db) = od_results db" "or_status (od_run (failRun env run e db)) = OPT_FAILED"
  "or_config (od_run (failRun env run e db)) = or_config run"
  "or_combinationsTested (od_run (failRun env run e db)) = or_combinationsTested run"
  "or_totalCombinations (od_run (failRun env run e db)) = or_totalCombinations run"
  by (simp_all add: failRun_def Let_def)

text \<open>A failed execution writes the entity that it loaded, with the number of combinations tested then.\<close>

lemma thrown_row:
  assumes "executeOptimization env db cs = Some (Threw e, db1)"
  shows "or_config (od_run db1) = or_config (od_run db)" "or_totalCombinations (od_run db1) = or_totalCombinations (od_run db)"
    "or_combinationsTested (od_run db1) = or_combinationsTested (od_run db)"
proof -
  have "or_config (od_run db1) = or_config (od_run db) \<and> or_totalCombinations (od_run db1) = or_totalCombinations (od_run db) \<and>
      or_combinationsTested (od_run db1) = or_combinationsTested (od_run db)"
    using assms
    by (auto simp: executeOptimization_def Let_def split: if_splits sum.splits Option.bind_split_asm LoopExit.splits)
  then show "or_config (od_run db1) = or_config (od_run db)" "or_totalCombinations (od_run db1) = or_totalCombinations (od_run db)"
    "or_combinationsTested (od_run db1) = or_combinationsTested (od_run db)" by simp_all
qed


section \<open>Cancelling a run\<close>

definition cancelledDuring :: "time_ms \<Rightarrow> OptimizationDb \<Rightarrow> OptimizationDb" where
  "cancelledDuring now db = (case cancelOptimization now db of Inl status \<Rightarrow> db | Inr db' \<Rightarrow> db')"

text \<open>A late cancellation is lost. When a run is cancelled while its last batch is evaluated, here its only one, the row is set to
  cancelled, but at the end the run is saved as completed and the pipeline is told to go on.\<close>

lemma late_cancellation_is_lost:
  assumes "plain_run (env\<lparr>oe_during := \<lambda>k db. db\<rparr>) (or_config (od_run db))" "prepared env (or_config (od_run db))"
    and "\<forall>c \<in> set cs. evaluable env (or_config (od_run db)) (windowsOf env (or_config (od_run db))) c"
    and "or_combinationsTested (od_run db) = 0" "od_results db = []" "cs \<noteq> []" "or_totalCombinations (od_run db) = length cs"
    and "length cs \<le> maxConcurrent (or_config (od_run db))" "oe_during env = (\<lambda>k. cancelledDuring now)"
  shows "\<exists>db' best score imp. or_status (od_run (oe_during env 0 (saveRun (startedRun env (od_run db)) db))) = OPT_CANCELLED \<and>
    executeOptimization env db cs = Some (Returned, db') \<and> or_status (od_run db') = OPT_COMPLETED \<and>
    od_events db' = od_events db @ [OptimizationCompleted best score imp]"
proof -
  define config where "config = or_config (od_run db)"
  define windows where "windows = windowsOf env config"
  define run where "run = startedRun env (od_run db)"
  define db0 where "db0 = saveRun run db"
  define db1 where "db1 = cancelledDuring now db0"
  have run: "or_config run = config" "or_totalCombinations run = length cs" "or_status (od_run db0) = OPT_RUNNING"
    using assms(7) by (simp_all add: run_def config_def db0_def)
  have cancelled: "or_status (od_run db1) = OPT_CANCELLED" "od_results db1 = od_results db" "od_events db1 = od_events db"
    using run(3) by (simp_all add: db1_def cancelledDuring_def cancelOptimization_def) (simp_all add: db0_def)
  have start: "loopStart db cs = startState cs" using assms(4) by (simp add: loopStart_def)
  have prep: "oe_coins env" "prepareWindows config (getDateRange config (oe_dataRange env) (oe_lastThreeMonths env)) = Inr windows"
    using assms(2) by (auto simp: prepared_def windowsOf_def windows_def config_def split: sum.splits)
  define ex where "ex = startState []"
  have batch: "nextBatch env run (startState cs) = Some (Some (cs, ex))"
    using assms(1,6,8) by (simp add: nextBatch_def Let_def run(1) plain_run_def startState_def ex_def config_def)
  have evals: "evaluateBatch env run windows cs = Inr (map (\<lambda>c. (c, evaluationOf env config windows c)) cs)"
    using assms(3) evaluateBatch_ok [of cs env run windows] by (simp add: run(1) config_def windows_def)
  define ex2 where "ex2 = foldl (recordEvaluation config) ex (map (\<lambda>c. (c, evaluationOf env config windows c)) cs)"
  define db2 where "db2 = updateProgress env run (length windows) ex2
      (db1\<lparr>od_results := od_results db1 @ map (rowOf env config windows) cs\<rparr>)"
  have "\<not> stopsEarly config ex2" using never_early [OF assms(1)] by (simp add: config_def)
  then have "loopBody env windows run db0 (startState cs) = Some (Continue db2 ex2)"
    using assms(6,9) run batch evals
    by (simp add: loopBody_def Let_def startState_def [of cs] ex2_def db2_def db1_def comp_def rowOf_def [abs_def])
  moreover have "ex_processed ex2 = length cs" by (simp add: ex2_def ex_def startState_def)
  then have "loopBody env windows run db2 ex2 = Some (Exit Finished db2 ex2)" by (simp add: loopBody_def run(2))
  ultimately have "optimizationLoop env windows run db0 (startState cs) = Some (Finished, db2, ex2)"
    using loop_continue loop_exit by metis
  then have exec: "executeOptimization env db cs = Some (Returned, finalizeOptimization env (run\<lparr>or_combinationsTested := ex_processed ex2\<rparr>) ex2 db2)"
    using prep by (simp add: executeOptimization_def Let_def run_def [symmetric] run(1) start db0_def)
  have "od_results db2 \<noteq> []" "od_events db2 = od_events db" using assms(6) cancelled(3) by (simp_all add: db2_def)
  then show ?thesis
    using exec cancelled(1) finalize_fields [of db2 ex2 env "run\<lparr>or_combinationsTested := ex_processed ex2\<rparr>"] assms(9)
    by (auto simp: Let_def db1_def db0_def run_def) (metis nonzero_divide_eq_eq zero_neq_numeral)
qed

section \<open>The ranking of losses\<close>

text \<open>The ranking rewards noise among losses. Of two results with the same negative score that differ only in their trades or only in
  the windows that overfit, the one with fewer trades, or with more windows that overfit up to five, is ranked first: the
  factors that are meant as penalties shrink a loss.\<close>

lemma ranking_rewards_noisy_losses:
  assumes "rs_avgTestScore a < 0" "rs_avgTestScore b = rs_avgTestScore a" "rs_consistencyScore b = rs_consistencyScore a"
    and "0 \<le> rs_consistencyScore a" "0 < totalTrades a" "0 < totalTrades b"
    and "rs_overfittingWindows a = rs_overfittingWindows b \<and> totalTrades a < totalTrades b \<and> totalTrades a < MIN_TOTAL_TRADES \<or>
      totalTrades a = totalTrades b \<and> rs_overfittingWindows b < rs_overfittingWindows a \<and> rs_overfittingWindows a \<le> 5"
  shows "rankScore b < rankScore a \<and> snd (rankResults [b, a]) = Some 1"
proof -
  define weight where "weight = 6 / 10 + 4 / 10 * rs_consistencyScore a / 100"
  define over where "over r = max (5 / 10) (1 - 1 / 10 * real (rs_overfittingWindows r))" for r :: OptimizationResult
  define trade where "trade r = min 1 (of_int (totalTrades r) / of_int MIN_TOTAL_TRADES :: number)" for r :: OptimizationResult
  have pos: "0 < weight" "0 < over r" "0 < trade a" "0 < trade b" for r
    using assms(4-6) by (simp_all add: weight_def over_def trade_def MIN_TOTAL_TRADES_def add_pos_nonneg)
  have "over a * trade a < over b * trade b"
  proof (cases "totalTrades a = totalTrades b")
    case True
    then have "over a < over b" "trade a = trade b" using assms(7) by (auto simp: over_def trade_def)
    then show ?thesis using pos(3) by simp
  next
    case False
    then have "over a = over b" "trade a < trade b" using assms(7) by (auto simp: over_def trade_def MIN_TOTAL_TRADES_def)
    then show ?thesis using pos(2) by simp
  qed
  then have "rs_avgTestScore a * weight * (over b * trade b) < rs_avgTestScore a * weight * (over a * trade a)"
    using assms(1) pos(1) by (simp add: mult_neg_pos)
  then have less: "rankScore b < rankScore a"
    using assms(2,3) by (simp add: rankScore_def weight_def over_def trade_def mult.assoc)
  then have "rankedOrder [b, a] = [1, 0]" using assms(5,6) by (simp add: rankedOrder_def upt_rec)
  then show ?thesis using less by (simp add: rankResults_fst_snd)
qed

section \<open>Witnesses\<close>

definition sample_opt_config :: OptimizationConfig where
  "sample_opt_config = \<lparr>oc_method = GRID_SEARCH, oc_maxIterations = None, oc_maxCombinations = None,
     oc_walkForward = \<lparr>wc_trainDays = 90, wc_testDays = 30, wc_stepDays = 30, wc_method = Rolling\<rparr>, oc_minWindowsRequired = 1,
     oc_objective = \<lparr>ob_metric = SHARPE_RATIO, ob_weights = None, ob_minimize = False\<rparr>, oc_earlyStop = None,
     oc_maxConcurrentBacktests = 1, oc_dateRange = Some (0, addDays 0 121), oc_seed = Some 7\<rparr>"

definition sample_combinations :: "ParameterCombination list" where
  "sample_combinations = [\<lparr>cm_index = 0, cm_values = [(''fast'', NumV 1)], cm_isBaseline = True\<rparr>,
     \<lparr>cm_index = 1, cm_values = [(''fast'', NumV 2)], cm_isBaseline = False\<rparr>]"

definition sample_opt_db :: "OptimizationConfig \<Rightarrow> OptimizationDb" where
  "sample_opt_db config = \<lparr>od_run = \<lparr>or_status = OPT_PENDING, or_config = config,
     or_parameterSpace = sample_space, or_baselineParameters = [(''fast'', NumV 1)], or_bestParameters = None, or_baselineScore = None,
     or_bestScore = None, or_improvement = None, or_combinationsTested = 0, or_totalCombinations = 2, or_progressDetails = None,
     or_combinations = Some sample_combinations, or_errorMessage = None, or_startedAt = None, or_completedAt = None,
     or_lastHeartbeatAt = None\<rparr>, od_results = [], od_summary = None, od_events = []\<rparr>"

definition sample_opt_env :: "backtest \<Rightarrow> OptimizationEnv" where
  "sample_opt_env backtest = \<lparr>oe_coins = True, oe_dataRange = None, oe_lastThreeMonths = (0, addDays 0 90), oe_backtest = backtest,
     oe_random = (\<lambda>_ _. 0), oe_freshSeed = 1, oe_now = int, oe_during = (\<lambda>_ db. db)\<rparr>"

definition good_backtest :: backtest where
  "good_backtest params startDate endDate = Inr sample_window_metrics"

text \<open>The backtests of the second combination fail.\<close>

definition bad_backtest :: backtest where
  "bad_backtest params startDate endDate =
     (if params = [(''fast'', NumV 2)] then Inl ''no data'' else Inr sample_window_metrics)"

lemma sample_windows:
  assumes "oc_walkForward config = oc_walkForward sample_opt_config" "oc_minWindowsRequired config = 1"
  shows "prepareWindows config (0, addDays 0 121) = Inr [windowAt 0 (addDays 0 121) (oc_walkForward sample_opt_config) 0]"
  using assms by (simp add: prepareWindows_def sample_opt_config_def computeAdaptiveStepDays_def generateWindows_def
      windowLoop.simps windowAt_def Let_def addDays_def daysBetween_def DAY_MS_def MIN_TEST_WINDOW_DAYS_def)

lemma sample_evaluable:
  assumes "\<And>s e. \<not> isl (backtest (cm_values c) s e)"
  shows "evaluable (env\<lparr>oe_backtest := backtest\<rparr>) config windows c"
proof -
  have "\<not> isl (evaluateWindow backtest ob (cm_values c) w)" for ob w
    using assms [of "wf_trainStartDate w" "wf_trainEndDate w"] assms [of "wf_testStartDate w" "wf_testEndDate w"]
    by (auto simp: evaluateWindow_def executeBacktest_def Let_def split: sum.splits)
  then show ?thesis by (simp add: evaluable_def evaluateCombination_def collect_Inr)
qed

lemma sample_facts:
  "plain_run (sample_opt_env backtest) sample_opt_config" "prepared (sample_opt_env backtest) sample_opt_config"
  "evaluable (sample_opt_env good_backtest) config windows c"
  "sample_combinations \<noteq> []" "distinct (map cm_index sample_combinations)"
proof -
  show "plain_run (sample_opt_env backtest) sample_opt_config" by (simp add: plain_run_def sample_opt_env_def sample_opt_config_def)
  have "getDateRange sample_opt_config None (0, addDays 0 90) = (0, addDays 0 121)" by (simp add: getDateRange_def sample_opt_config_def)
  then show "prepared (sample_opt_env backtest) sample_opt_config"
    using sample_windows [of sample_opt_config] by (simp add: prepared_def sample_opt_env_def) (simp add: sample_opt_config_def)
  show "evaluable (sample_opt_env good_backtest) config windows c"
    using sample_evaluable [of good_backtest c "sample_opt_env good_backtest"] by (simp add: sample_opt_env_def good_backtest_def)
  show "sample_combinations \<noteq> []" "distinct (map cm_index sample_combinations)" by (simp_all add: sample_combinations_def)
qed

lemma sample_db_fields [simp]:
  "or_config (od_run (sample_opt_db config)) = config" "or_combinationsTested (od_run (sample_opt_db config)) = 0"
  "od_results (sample_opt_db config) = []" "or_totalCombinations (od_run (sample_opt_db config)) = length sample_combinations"
  "or_combinations (od_run (sample_opt_db config)) = Some sample_combinations"
  by (simp_all add: sample_opt_db_def sample_combinations_def)

lemma run_covers_its_combinations_witness:
  "\<exists>db'. executeOptimization (sample_opt_env good_backtest) (sample_opt_db sample_opt_config) sample_combinations = Some (Returned, db') \<and>
     map rs_combinationIndex (od_results db') = [0, 1] \<and> or_status (od_run db') = OPT_COMPLETED"
  using run_covers_its_combinations [of "sample_opt_env good_backtest" "sample_opt_db sample_opt_config" sample_combinations] sample_facts
  by (auto simp: sample_combinations_def)


text \<open>The second round of the run with the failing backtests.\<close>

lemma sample_failure:
  "\<exists>e db1. executeOptimization (sample_opt_env bad_backtest) (sample_opt_db sample_opt_config) sample_combinations = Some (Threw e, db1) \<and>
     map rs_combinationIndex (od_results db1) = [0]"
proof -
  let ?env = "sample_opt_env bad_backtest" and ?db = "sample_opt_db sample_opt_config"
  let ?ex = "loopStart ?db sample_combinations" and ?run = "startedRun ?env (od_run ?db)"
  define w where "w = windowsOf ?env sample_opt_config"
  define db1 where "db1 = roundDb ?env w ?run (saveRun ?run ?db) ?ex"
  define ex1 where "ex1 = roundState ?env w ?run ?ex"
  have one: "maxConcurrent sample_opt_config = 1" by (simp add: maxConcurrent_def sample_opt_config_def)
  have start: "ex_combinations ?ex = sample_combinations" "ex_processed ?ex = 0" by (simp_all add: loopStart_fields)
  then have batch: "batchOf ?run ?ex = [hd sample_combinations]" by (simp add: batchOf_def one sample_combinations_def)
  have "evaluable ?env sample_opt_config w (hd sample_combinations)"
    using sample_evaluable [of bad_backtest "hd sample_combinations" ?env]
    by (simp add: sample_opt_env_def) (simp add: bad_backtest_def sample_combinations_def)
  then have first: "loopBody ?env w ?run (saveRun ?run ?db) ?ex = Some (Continue db1 ex1)"
    unfolding db1_def ex1_def using sample_facts start batch by (intro plain_round) simp_all
  have ex1: "ex_combinations ex1 = [sample_combinations ! 1]" "ex_processed ex1 = 1"
    using start batch by (simp_all add: ex1_def one) (simp add: sample_combinations_def)
  have w: "w = [windowAt 0 (addDays 0 121) (oc_walkForward sample_opt_config) 0]"
    using sample_windows [of sample_opt_config]
    by (simp add: w_def windowsOf_def getDateRange_def) (simp add: sample_opt_config_def)
  obtain e where "evaluateBatch ?env ?run w [sample_combinations ! 1] = Inl e"
    by (simp add: evaluateBatch_def evaluateCombination_def w evaluateWindow_def executeBacktest_def sample_opt_env_def
        bad_backtest_def sample_combinations_def)
  then have second: "loopBody ?env w ?run db1 ex1 = Some (Exit (Failed e) db1 (ex1\<lparr>ex_combinations := []\<rparr>))"
    using ex1 sample_facts(1) by (simp add: loopBody_def nextBatch_def Let_def one plain_run_def) (simp add: db1_def sample_combinations_def)
  have loop: "optimizationLoop ?env w ?run (saveRun ?run ?db) ?ex = Some (Failed e, db1, ex1\<lparr>ex_combinations := []\<rparr>)"
    using loop_continue [OF first] loop_exit [OF second] by simp
  have "prepareWindows sample_opt_config (getDateRange sample_opt_config (oe_dataRange ?env) (oe_lastThreeMonths ?env)) = Inr w"
    using sample_facts(2) by (auto simp: prepared_def w_def windowsOf_def split: sum.splits)
  then have "executeOptimization ?env ?db sample_combinations = Some (Threw e, failRun ?env ?run e db1)"
    using loop sample_facts(2) by (simp add: executeOptimization_def Let_def prepared_def)
  moreover have "map rs_combinationIndex (od_results db1) = [0]"
    using batch by (simp add: db1_def rowOf_def resultRow_def sample_combinations_def)
  ultimately show ?thesis by simp
qed


end
