(* ===== verification/Spec2Isabelle.thy ===== *)
theory Spec2Isabelle
  imports RingBuffer SeededRandom BinarySearch PriceWindow ExitConfig ExitTracker SignalThrottle
    OrderStateMachine CircuitBreaker PositionManager SignalFilters Retry Locks Degradation Scoring
    WalkForward Pipeline PipelineSafety PipelineGate Slippage PortfolioState TradeExecutor
    TradeSafety ForcedExit OpportunitySell BacktestMetrics Checkpoint ExitProcessing ExitSafety Regime
    MultiTimeframe BacktestLoop LoopSafety LoopLookahead EntryGates Deployments PromotionGates
    LiveOrders LivePerformance RiskChecks CapitalAllocation ParameterSearch OptimizationScoring
    OptimizationRun
begin

text \<open>
  A verification development for Chansey, a platform that designs, tests and runs cryptocurrency
  trading strategies. The code modelled is the TypeScript of the API server, mostly under
  \<^verbatim>\<open>apps/api/src\<close>; paths below are relative to it.

  \<^bold>\<open>The program.\<close> A strategy goes through a pipeline: its parameters are optimised over
  walk-forward windows, it is backtested on historical data, replayed on recent data, scored, and
  traded on paper; the outcome is a recommendation. A strategy that passes the promotion gates is
  deployed with a small part of the capital, its live orders are synchronised with the exchange, its
  daily figures are checked for risks, and a deployment that breaks a critical limit is demoted. A backtest advances bar by bar: windows of
  prices feed the algorithm, its signals pass a throttle and a chain of filters, the trades they
  become open and close positions, and an exit tracker watches the open positions. Live orders go
  through a status machine; calls to exchanges go through retries and a circuit breaker; jobs and
  trades are kept apart by locks in Redis.

  \<^bold>\<open>Theories.\<close>

  \<^item> \<^verbatim>\<open>Prelude\<close>: numbers, optional values, the insertion-ordered \<^verbatim>\<open>Map\<close> as a list of pairs, and
    the locales \<open>keyed_store\<close>, \<open>sliding_window\<close>, \<open>step_invariant\<close>, \<open>ratchet\<close>, each interpreted on
    the definitions of the components that use it.
  \<^item> \<^verbatim>\<open>JsBits\<close>, \<^verbatim>\<open>SeededRandom\<close>: the 32-bit operators and the checkpointable generator
    (\<^verbatim>\<open>order/backtest/seeded-random.ts\<close>).
  \<^item> \<^verbatim>\<open>RingBuffer\<close>: \<^verbatim>\<open>order/backtest/ring-buffer.ts\<close> and \<^verbatim>\<open>incremental-sma.ts\<close>; the buffer
    refines the list of its last elements, the average that of a window.
  \<^item> \<^verbatim>\<open>BinarySearch\<close>, \<^verbatim>\<open>PriceWindow\<close>: \<^verbatim>\<open>order/backtest/shared/price-window\<close>; the cursors that
    advance the windows never show a later candle.
  \<^item> \<^verbatim>\<open>MultiTimeframe\<close>: the aggregation of hourly candles in the same directory; its bars are right,
    but the windows show them from their first hour.
  \<^item> \<^verbatim>\<open>ExitConfig\<close>, \<^verbatim>\<open>ExitTracker\<close>: \<^verbatim>\<open>order/interfaces/exit-config.interface.ts\<close>,
    \<^verbatim>\<open>order/utils/exit-config-merge.util.ts\<close>, \<^verbatim>\<open>order/backtest/shared/exits\<close>; exits are sound, the
    trailing stop only rises, checkpoints restore the tracker.
  \<^item> \<^verbatim>\<open>SignalThrottle\<close>, \<^verbatim>\<open>SignalFilters\<close>: \<^verbatim>\<open>order/backtest/shared/throttle\<close>, \<^verbatim>\<open>shared/filters\<close>
    and the sizing helpers of \<^verbatim>\<open>shared/execution/trade-executor.helpers.ts\<close>.
  \<^item> \<^verbatim>\<open>PositionManager\<close>: \<^verbatim>\<open>order/backtest/shared/positions\<close>; cash flows, margin, liquidation.
  \<^item> \<^verbatim>\<open>Slippage\<close>, \<^verbatim>\<open>PortfolioState\<close>: \<^verbatim>\<open>order/backtest/shared/slippage\<close>, \<^verbatim>\<open>shared/fees\<close> and
    \<^verbatim>\<open>shared/portfolio\<close>; fills are never better than the market, checkpoints restore the portfolio,
    the drawdown is the deepest decline seen.
  \<^item> \<^verbatim>\<open>TradeExecutor\<close>, \<^verbatim>\<open>TradeSafety\<close>: \<^verbatim>\<open>shared/execution/trade-executor.service.ts\<close>; no trade
    creates value, except the sale of a coin that is held short.
  \<^item> \<^verbatim>\<open>ForcedExit\<close>, \<^verbatim>\<open>OpportunitySell\<close>: \<^verbatim>\<open>shared/execution/forced-exit.service.ts\<close> and
    \<^verbatim>\<open>shared/opportunity-selling\<close>; shorts that survive liquidation stay solvent, sales for a buy keep
    to their limits.
  \<^item> \<^verbatim>\<open>ExitProcessing\<close>, \<^verbatim>\<open>ExitSafety\<close>: \<^verbatim>\<open>shared/exit-signals\<close> and \<^verbatim>\<open>shared/slippage-context\<close>; the
    exits of a bar from the tracker to the records of the run, and where they are filled.
  \<^item> \<^verbatim>\<open>Checkpoint\<close>: \<^verbatim>\<open>shared/checkpoint\<close>, \<^verbatim>\<open>shared/metrics-accumulator\<close> and the resuming part of
    \<^verbatim>\<open>shared/execution/backtest-context-factory.service.ts\<close>; what a resumed run has again.
  \<^item> \<^verbatim>\<open>Regime\<close>: \<^verbatim>\<open>market-regime/volatility.calculator.ts\<close> and \<^verbatim>\<open>shared/regime\<close>; the regime gate of a bar.
  \<^item> \<^verbatim>\<open>BacktestLoop\<close>: the context factory, the bar processor, the settlement of signals, the checkpoint
    coordinator, the watchdog and the runner in \<^verbatim>\<open>shared/execution\<close>, composed as a run over the bars.
    \<^verbatim>\<open>LoopSafety\<close>: what each part of a bar leaves alone, the invariants of a run, queued signals
    settle at the next open, warm-up does not trade, checkpoints count what was handed over, an
    algorithm that fails ends the run. \<^verbatim>\<open>LoopLookahead\<close>: two runs over candles that differ only after
    a time do the same until then.
  \<^item> \<^verbatim>\<open>BacktestMetrics\<close>: \<^verbatim>\<open>common/metrics\<close> and \<^verbatim>\<open>shared/metrics\<close>; drawdowns, correlations, ratios.
  \<^item> \<^verbatim>\<open>OrderStateMachine\<close>: \<^verbatim>\<open>order/services/order-state-machine.service.ts\<close> with its history.
  \<^item> \<^verbatim>\<open>CircuitBreaker\<close>, \<^verbatim>\<open>Retry\<close>, \<^verbatim>\<open>Locks\<close>: \<^verbatim>\<open>shared/circuit-breaker.service.ts\<close>,
    \<^verbatim>\<open>retry.util.ts\<close>, \<^verbatim>\<open>distributed-lock.service.ts\<close>, \<^verbatim>\<open>trade-cooldown.service.ts\<close>.
  \<^item> \<^verbatim>\<open>Degradation\<close>, \<^verbatim>\<open>Scoring\<close>, \<^verbatim>\<open>WalkForward\<close>: \<^verbatim>\<open>scoring\<close>; the score, its grade, the windows.
  \<^item> \<^verbatim>\<open>Pipeline\<close>: every operation of \<^verbatim>\<open>pipeline/services\<close> but the reports and the estimates, the
    queue worker and the event listener, on the table of pipelines. \<^verbatim>\<open>PipelineSafety\<close> follows the
    rows of the table through all of them with a calculus of specifications and proves the
    invariants of runs; \<^verbatim>\<open>PipelineGate\<close> is about the completion of single stages.
  \<^item> \<^verbatim>\<open>EntryGates\<close>: \<^verbatim>\<open>strategy/risk/concentration-check.service.ts\<close>, the concentration and daily loss
    gates of \<^verbatim>\<open>strategy\<close> and \<^verbatim>\<open>strategy/services/entry-gate.service.ts\<close>; the concentration gate lets
    through exactly the part of a trade that keeps to the limit.
  \<^item> \<^verbatim>\<open>Deployments\<close>: \<^verbatim>\<open>strategy/deployment.service.ts\<close>, \<^verbatim>\<open>deployment-metrics.service.ts\<close>,
    \<^verbatim>\<open>pre-trade-risk-gate.service.ts\<close> and the entities they keep; over any operations the rows stay
    well formed, keep their terms and never leave the ended stages. \<^verbatim>\<open>PromotionGates\<close>:
    \<^verbatim>\<open>strategy/gates\<close> and \<^verbatim>\<open>tasks/promotion.task.ts\<close>; what promotes a strategy, what a run of the
    task adds, and how a strategy comes to two active deployments.
  \<^item> \<^verbatim>\<open>LiveOrders\<close>: the calculation, mapping and sync of orders in \<^verbatim>\<open>order/services\<close> and
    \<^verbatim>\<open>order/utils\<close> and the orders of strategies in \<^verbatim>\<open>order/order.service.ts\<close>; the sync is idempotent,
    trades become orders without loss, and no order of a strategy ever carries a loss, so the daily
    loss gate never blocks.
  \<^item> \<^verbatim>\<open>LivePerformance\<close>, \<^verbatim>\<open>RiskChecks\<close>: \<^verbatim>\<open>strategy/performance-calculation.service.ts\<close>,
    \<^verbatim>\<open>strategy/risk\<close> and \<^verbatim>\<open>tasks/risk-monitoring.task.ts\<close>; the figures of a day, exactly when a
    deployment is demoted, and what is left of that on the figures the platform really stores.
  \<^item> \<^verbatim>\<open>CapitalAllocation\<close>: \<^verbatim>\<open>strategy/capital-allocation.service.ts\<close>; allocations keep to their limits,
    and few strategies are given equal shares.
  \<^item> \<^verbatim>\<open>ParameterSearch\<close>: the parameter space of a strategy, the grid, the random and the adaptive search in
    \<^verbatim>\<open>optimization/utils\<close>, \<^verbatim>\<open>optimization/services/grid-search.service.ts\<close> and \<^verbatim>\<open>search-strategies\<close>; the
    grid covers the space and ends for positive steps, and searches by chance repeat nothing.
  \<^item> \<^verbatim>\<open>OptimizationScoring\<close>, \<^verbatim>\<open>OptimizationRun\<close>: the scores, the loop, the ranking and the recovery of an
    optimisation in \<^verbatim>\<open>optimization/utils\<close> and \<^verbatim>\<open>optimization/services\<close>; few trades never help a score, a
    run covers its combinations, goes on where it was interrupted, and starts over when it failed.

  \<^bold>\<open>Conventions.\<close> Definitions keep the names of the sources; a method whose name is taken carries
  its class in front, the fields of a record a short prefix. An amount, price or ratio is an exact
  \<open>real\<close>: the model says nothing about binary64 rounding, and no \<^verbatim>\<open>NaN\<close> or infinity arises except
  where a value of unknown origin is tested for it. A timestamp in milliseconds is an \<open>int\<close>;
  \<^verbatim>\<open>undefined\<close> and \<^verbatim>\<open>null\<close> are \<open>None\<close>, \<open>nullish\<close> is the operator \<^verbatim>\<open>??\<close>. A thrown error is the left
  of a sum and its message a constructor with the values it prints; log output is left out.
  Mutable objects are records passed along and returned. The clock, random draws, the database,
  Redis, the queue and the services of parts that are not modelled are arguments; what is relied
  on of them is a hypothesis (\<open>redis_contract\<close>, \<open>exact_decimal\<close>) with a concrete instance. Asynchronous operations
  run one at a time between the points that the model names: the worker of the pipeline that
  reads twice is two steps. The algorithm of a backtest is a function of all the contexts it has been
  shown, one that runs into its timeout is one that throws; heartbeats, telemetry and pacing are left
  out. The initial capital of a run is not zero.

  \<^bold>\<open>Bounds.\<close> Loops are total functions with a measure: the retries left (\<^verbatim>\<open>Retry\<close>), the indices up
  to 1000 (\<^verbatim>\<open>WalkForward\<close>), the distance of the bounds (\<^verbatim>\<open>BinarySearch\<close>), the candles left
  (\<^verbatim>\<open>PriceWindow\<close>). The rounds of \<^verbatim>\<open>CapitalAllocation\<close> are counted as in the source, one for each
  strategy; a round that caps no strategy ends the loop. The attempts of a search by chance are counted
  as in the source. The loop of a grid and the draws that repeat a zero may not end in the source:
  they are \<open>partial_function (option)\<close>, and the grid is shown to end; so is the loop of an optimisation, which is
  shown to end for a fixed list of combinations. No fuel is used.

  \<^bold>\<open>Not modelled.\<close> The paper trading engine, the indicators and strategies, live
  trading against the exchange clients, the manual orders, the exchange adapters, ingestion, the
  controllers, authentication, monitoring and the web client: loops over third-party libraries and
  framework, network and interface code. Of the deployments the column \<^verbatim>\<open>losingTrades\<close> and the JSON
  details of drift are left out, which nothing modelled reads.
\<close>

end
